(* ===== verification/Prelude.thy ===== *)
theory Prelude
  imports Main
begin

text \<open>
  Vocabulary shared by every component: JavaScript values the code relies on (strings,
  \<open>??\<close>, truthiness, \<open>BigInt\<close>), errors that carry an HTTP status, and SQL tables.

  A table is the list of its rows in insertion order. The five statement forms the
  code uses are the functions below: \<open>find_by\<close> (\<open>SELECT .. WHERE key = ?\<close> on a primary key),
  \<open>insert_unique\<close> (\<open>INSERT\<close>, \<open>None\<close> being the constraint violation), \<open>update_where\<close>
  with \<open>changes\<close> (\<open>UPDATE .. WHERE\<close> and \<open>result.changes\<close>), \<open>delete_where\<close> and
  \<open>upsert\<close> (\<open>INSERT .. ON CONFLICT(key) DO UPDATE\<close>). \<open>order_asc\<close> and \<open>order_desc\<close> are
  stable, ties staying in insertion order.

  Times are milliseconds since the epoch (\<open>Date.now()\<close>). The code stores most of them as
  \<open>toISOString()\<close> text and compares the text; that text has a fixed width, so its order
  is the order of the milliseconds and both readings agree.
\<close>

named_theorems table_simps \<open>what the table operations do to a later lookup\<close>
named_theorems unique_intros \<open>table operations that keep a key unique\<close>

section \<open>Values\<close>

type_synonym timestamp = int
type_synonym address = string

definition nullish :: "'a option \<Rightarrow> 'a \<Rightarrow> 'a" where
  "nullish x d = (case x of None \<Rightarrow> d | Some y \<Rightarrow> y)"

definition coalesce :: "'a option \<Rightarrow> 'a option \<Rightarrow> 'a option" where
  "coalesce x y = (case x of None \<Rightarrow> y | Some z \<Rightarrow> Some z)"

definition truthy :: "string option \<Rightarrow> bool" where
  "truthy x = (case x of None \<Rightarrow> False | Some s \<Rightarrow> s \<noteq> '''')"

definition or_null :: "string option \<Rightarrow> string option" where
  "or_null x = (if truthy x then x else None)"

text \<open>A comparison with a column or a field that may be null: false on null, or true on null.\<close>

definition opt_ex :: "('a \<Rightarrow> bool) \<Rightarrow> 'a option \<Rightarrow> bool" where
  "opt_ex P x = (case x of None \<Rightarrow> False | Some y \<Rightarrow> P y)"

definition opt_all :: "('a \<Rightarrow> bool) \<Rightarrow> 'a option \<Rightarrow> bool" where
  "opt_all P x = (case x of None \<Rightarrow> True | Some y \<Rightarrow> P y)"

lemma opt_ex_iff [simp]: "opt_ex P x \<longleftrightarrow> (\<exists>y. x = Some y \<and> P y)"
  by (simp add: opt_ex_def split: option.split)

lemma opt_all_iff [simp]: "opt_all P x \<longleftrightarrow> (\<forall>y. x = Some y \<longrightarrow> P y)"
  by (simp add: opt_all_def split: option.split)

lemma nullish_simps [simp]: "nullish None d = d" "nullish (Some x) d = x"
  by (simp_all add: nullish_def)

lemma coalesce_simps [simp]: "coalesce None y = y" "coalesce (Some x) y = Some x"
  by (simp_all add: coalesce_def)

lemma coalesce_None_right [simp]: "coalesce x None = x"
  by (cases x) simp_all

lemma coalesce_eq_None [simp]: "coalesce x y = None \<longleftrightarrow> x = None \<and> y = None"
  by (cases x) simp_all

lemma truthy_simps [simp]: "truthy None = False" "truthy (Some s) = (s \<noteq> '''')"
  by (simp_all add: truthy_def)

section \<open>Strings\<close>

text \<open>ASCII case folding, as SQLite's \<open>lower\<close>; on ASCII text also JavaScript's \<open>toLowerCase\<close>.\<close>

definition lower_char :: "char \<Rightarrow> char" where
  "lower_char c = (let n = of_char c :: nat in if 65 \<le> n \<and> n \<le> 90 then char_of (n + 32) else c)"

definition upper_char :: "char \<Rightarrow> char" where
  "upper_char c = (let n = of_char c :: nat in if 97 \<le> n \<and> n \<le> 122 then char_of (n - 32) else c)"

definition lower :: "string \<Rightarrow> string" where
  "lower s = map lower_char s"

definition upper :: "string \<Rightarrow> string" where
  "upper s = map upper_char s"

definition is_space :: "char \<Rightarrow> bool" where
  "is_space c = (let n = of_char c :: nat in n = 32 \<or> (9 \<le> n \<and> n \<le> 13) \<or> n = 160)"

definition trim :: "string \<Rightarrow> string" where
  "trim s = rev (dropWhile is_space (rev (dropWhile is_space s)))"

definition starts_with :: "string \<Rightarrow> string \<Rightarrow> bool" where
  "starts_with s p = (take (length p) s = p)"

text \<open>\<open>includes\<close>\<close>

fun text_includes :: "string \<Rightarrow> string \<Rightarrow> bool" where
  "text_includes [] p = (p = [])"
| "text_includes (c # cs) p = (starts_with (c # cs) p \<or> text_includes cs p)"

lemma lower_char_idem [simp]: "lower_char (lower_char c) = lower_char c"
  by (auto simp: lower_char_def Let_def of_char_of)

lemma lower_idem [simp]: "lower (lower s) = lower s"
  by (simp add: lower_def comp_def)

lemma lower_Nil [simp]: "lower [] = []"
  by (simp add: lower_def)

lemma lower_eq_Nil [simp]: "lower s = [] \<longleftrightarrow> s = []"
  by (simp add: lower_def)

lemma dropWhile_rev_dropWhile_idem:
  "dropWhile P (rev (dropWhile P (rev (dropWhile P xs)))) = rev (dropWhile P (rev (dropWhile P xs)))"
proof -
  define ys where "ys = dropWhile P (rev (dropWhile P xs))"
  have "ys = [] \<or> \<not> P (last ys)"
  proof (cases "ys = []")
    case False
    then have "last ys = last (rev (dropWhile P xs))"
      unfolding ys_def by (metis last_appendR takeWhile_dropWhile_id)
    also have "\<dots> = hd (dropWhile P xs)"
      by (simp add: last_rev)
    finally show ?thesis
      using False hd_dropWhile [of P xs] unfolding ys_def by fastforce
  qed simp
  then have "dropWhile P (rev ys) = rev ys"
    by (auto simp: dropWhile_eq_self_iff hd_rev)
  then show ?thesis by (simp add: ys_def)
qed

lemma trim_idem [simp]: "trim (trim s) = trim s"
  by (simp add: trim_def dropWhile_rev_dropWhile_idem)

lemma trim_Nil [simp]: "trim [] = []"
  by (simp add: trim_def)

lemma is_space_lower_char [simp]: "is_space (lower_char c) = is_space c"
  by (auto simp: is_space_def lower_char_def Let_def of_char_of)

lemma dropWhile_lower: "dropWhile is_space (map lower_char s) = map lower_char (dropWhile is_space s)"
  by (induction s) auto

lemma trim_lower: "trim (lower s) = lower (trim s)"
  by (simp add: trim_def lower_def dropWhile_lower rev_map)

text \<open>\<open>split(c)\<close> and \<open>join("\n")\<close>.\<close>

abbreviation newline :: char where
  "newline \<equiv> CHR 0x0A"

fun split_on :: "char \<Rightarrow> string \<Rightarrow> string list" where
  "split_on c [] = [[]]"
| "split_on c (x # xs) =
     (if x = c then [] # split_on c xs
      else (case split_on c xs of [] \<Rightarrow> [[x]] | l # ls \<Rightarrow> (x # l) # ls))"

fun join_lines :: "string list \<Rightarrow> string" where
  "join_lines [] = []"
| "join_lines [l] = l"
| "join_lines (l # ls) = l @ newline # join_lines ls"

lemma split_on_line: "c \<notin> set s \<Longrightarrow> split_on c (s @ c # t) = s # split_on c t"
  by (induction s) auto

lemma split_on_one: "c \<notin> set s \<Longrightarrow> split_on c s = [s]"
  by (induction s) auto

lemma split_join_lines:
  "ls \<noteq> [] \<Longrightarrow> \<forall>l \<in> set ls. newline \<notin> set l \<Longrightarrow> split_on newline (join_lines ls) = ls"
  by (induction ls rule: join_lines.induct) (simp_all add: split_on_line split_on_one)

section \<open>Errors with a status\<close>

text \<open>
  \<open>Object.assign(new Error(message), {statusCode, ...})\<close>: the routes answer with the
  status, the message and, for a conflict, the current record. An error without a
  \<open>statusCode\<close> is answered 500 (\<open>statusCodeFor\<close>).
\<close>

datatype 'r http_error = Http_Error (status_code: nat) (error_message: string) (error_subject: "'r option")

definition is_ok :: "'e + 'a \<Rightarrow> bool" where
  "is_ok r = (case r of Inl _ \<Rightarrow> False | Inr _ \<Rightarrow> True)"

lemma is_ok_simps [simp]: "is_ok (Inr x)" "\<not> is_ok (Inl e)"
  by (simp_all add: is_ok_def)

lemma is_ok_iff: "is_ok r \<longleftrightarrow> (\<exists>x. r = Inr x)"
  by (cases r) simp_all

section \<open>Tables\<close>

definition find_by :: "('r \<Rightarrow> 'k) \<Rightarrow> 'k \<Rightarrow> 'r list \<Rightarrow> 'r option" where
  "find_by key k t = find (\<lambda>r. key r = k) t"

definition unique_on :: "('r \<Rightarrow> 'k) \<Rightarrow> 'r list \<Rightarrow> bool" where
  "unique_on key t = distinct (map key t)"

definition insert_unique :: "('r \<Rightarrow> 'k) \<Rightarrow> 'r \<Rightarrow> 'r list \<Rightarrow> 'r list option" where
  "insert_unique key r t = (if find_by key (key r) t = None then Some (t @ [r]) else None)"

definition update_where :: "('r \<Rightarrow> bool) \<Rightarrow> ('r \<Rightarrow> 'r) \<Rightarrow> 'r list \<Rightarrow> 'r list" where
  "update_where P f t = map (\<lambda>r. if P r then f r else r) t"

definition changes :: "('r \<Rightarrow> bool) \<Rightarrow> 'r list \<Rightarrow> nat" where
  "changes P t = length (filter P t)"

definition delete_where :: "('r \<Rightarrow> bool) \<Rightarrow> 'r list \<Rightarrow> 'r list" where
  "delete_where P t = filter (\<lambda>r. \<not> P r) t"

definition upsert :: "('r \<Rightarrow> 'k) \<Rightarrow> 'r \<Rightarrow> ('r \<Rightarrow> 'r) \<Rightarrow> 'r list \<Rightarrow> 'r list" where
  "upsert key r merge t =
     (if find_by key (key r) t = None then t @ [r]
      else update_where (\<lambda>x. key x = key r) merge t)"

definition order_asc :: "('r \<Rightarrow> 'o::linorder) \<Rightarrow> 'r list \<Rightarrow> 'r list" where
  "order_asc k t = sort_key k t"

definition order_desc :: "('r \<Rightarrow> int) \<Rightarrow> 'r list \<Rightarrow> 'r list" where
  "order_desc k t = sort_key (\<lambda>r. - k r) t"

definition first_row :: "'r list \<Rightarrow> 'r option" where
  "first_row t = (case t of [] \<Rightarrow> None | r # _ \<Rightarrow> Some r)"

subsection \<open>Lookups\<close>

lemma find_by_Nil [simp]: "find_by key k [] = None"
  by (simp add: find_by_def)

lemma find_by_Cons [simp]:
  "find_by key k (r # t) = (if key r = k then Some r else find_by key k t)"
  by (simp add: find_by_def)

lemma find_by_append [table_simps]:
  "find_by key k (t @ u) = (case find_by key k t of None \<Rightarrow> find_by key k u | Some r \<Rightarrow> Some r)"
  by (induction t) simp_all

lemma find_by_SomeD: "find_by key k t = Some r \<Longrightarrow> r \<in> set t \<and> key r = k"
  by (induction t) (auto split: if_splits)

lemma find_by_None_iff: "find_by key k t = None \<longleftrightarrow> (\<forall>r \<in> set t. key r \<noteq> k)"
  by (induction t) auto

lemma find_by_unique: "unique_on key t \<Longrightarrow> r \<in> set t \<Longrightarrow> find_by key (key r) t = Some r"
  by (induction t) (auto simp: unique_on_def)

lemma find_by_Some_iff:
  "unique_on key t \<Longrightarrow> find_by key k t = Some r \<longleftrightarrow> r \<in> set t \<and> key r = k"
  using find_by_SomeD find_by_unique by fastforce

lemma find_by_update_where [table_simps]:
  "(\<And>r. P r \<Longrightarrow> key (f r) = key r) \<Longrightarrow>
   find_by key k (update_where P f t) = map_option (\<lambda>r. if P r then f r else r) (find_by key k t)"
  by (induction t) (auto simp: update_where_def)

lemma find_by_delete_where [table_simps]:
  "unique_on key t \<Longrightarrow>
   find_by key k (delete_where P t) =
     (case find_by key k t of None \<Rightarrow> None | Some r \<Rightarrow> if P r then None else Some r)"
proof (induction t)
  case (Cons a t)
  then have u: "unique_on key t" and a: "key a \<notin> key ` set t"
    by (simp_all add: unique_on_def)
  have "key r \<noteq> key a" if "r \<in> set t" for r
    using imageI [OF that, of key] a by auto
  then have "find_by key (key a) t = None"
    by (simp add: find_by_None_iff)
  with Cons.IH [OF u] show ?case
    by (auto simp: delete_where_def)
qed (simp add: delete_where_def)

lemma find_by_delete_where_kept:
  "find_by key k t = Some r \<Longrightarrow> \<not> P r \<Longrightarrow> find_by key k (delete_where P t) = Some r"
  by (induction t) (auto simp: delete_where_def split: if_splits)

lemma find_by_upsert [table_simps]:
  assumes "\<And>x. key x = key r \<Longrightarrow> key (merge x) = key r"
  shows "find_by key k (upsert key r merge t) =
    (if k = key r then Some (case find_by key k t of None \<Rightarrow> r | Some x \<Rightarrow> merge x)
     else find_by key k t)"
proof (cases "find_by key (key r) t")
  case None
  then show ?thesis
    by (auto simp: upsert_def find_by_append split: option.split)
next
  case (Some y)
  have "find_by key k (update_where (\<lambda>x. key x = key r) merge t) =
      map_option (\<lambda>x. if key x = key r then merge x else x) (find_by key k t)"
    by (rule find_by_update_where) (simp add: assms)
  with Some find_by_SomeD [of key k t] show ?thesis
    by (cases "find_by key k t") (auto simp: upsert_def)
qed

lemma find_by_insert_unique:
  "insert_unique key r t = Some u \<Longrightarrow>
   find_by key k u = (if k = key r then Some r else find_by key k t)"
  by (auto simp: insert_unique_def find_by_append split: if_splits option.split)

lemma insert_unique_None_iff: "insert_unique key r t = None \<longleftrightarrow> find_by key (key r) t \<noteq> None"
  by (simp add: insert_unique_def)

subsection \<open>Unique keys\<close>

lemma unique_on_Nil [simp]: "unique_on key []"
  by (simp add: unique_on_def)

lemma map_update_where: "(\<And>r. P r \<Longrightarrow> key (f r) = key r) \<Longrightarrow> map key (update_where P f t) = map key t"
  by (induction t) (auto simp: update_where_def)

lemma unique_update_where [unique_intros]:
  "unique_on key t \<Longrightarrow> (\<And>r. P r \<Longrightarrow> key (f r) = key r) \<Longrightarrow> unique_on key (update_where P f t)"
  by (simp add: unique_on_def map_update_where)

lemma unique_delete_where [unique_intros]: "unique_on key t \<Longrightarrow> unique_on key (delete_where P t)"
  by (simp add: unique_on_def delete_where_def distinct_map_filter)

lemma unique_snoc: "unique_on key t \<Longrightarrow> find_by key (key r) t = None \<Longrightarrow> unique_on key (t @ [r])"
  by (auto simp: unique_on_def find_by_None_iff)

lemma unique_insert_unique [unique_intros]:
  "unique_on key t \<Longrightarrow> insert_unique key r t = Some u \<Longrightarrow> unique_on key u"
  by (auto simp: insert_unique_def unique_snoc split: if_splits)

lemma unique_upsert [unique_intros]:
  "unique_on key t \<Longrightarrow> (\<And>x. key x = key r \<Longrightarrow> key (merge x) = key r) \<Longrightarrow>
   unique_on key (upsert key r merge t)"
  by (auto simp: upsert_def unique_snoc intro!: unique_update_where)

subsection \<open>Properties of all rows\<close>

lemma ball_update_where:
  "\<forall>x \<in> set t. P x \<Longrightarrow> (\<And>x. x \<in> set t \<Longrightarrow> Q x \<Longrightarrow> P x \<Longrightarrow> P (f x)) \<Longrightarrow> \<forall>x \<in> set (update_where Q f t). P x"
  by (auto simp: update_where_def)

lemma ball_upsert:
  "\<forall>x \<in> set t. P x \<Longrightarrow> P r \<Longrightarrow> (\<And>x. P x \<Longrightarrow> key x = key r \<Longrightarrow> P (m x)) \<Longrightarrow> \<forall>x \<in> set (upsert key r m t). P x"
  by (cases "find_by key (key r) t") (auto simp: upsert_def update_where_def)

lemma ball_delete_where: "\<forall>x \<in> set t. P x \<Longrightarrow> \<forall>x \<in> set (delete_where Q t). P x"
  by (simp add: delete_where_def)

subsection \<open>Row counts and order\<close>

lemma changes_zero_iff: "changes P t = 0 \<longleftrightarrow> (\<forall>r \<in> set t. \<not> P r)"
  by (auto simp: changes_def filter_empty_conv)

lemma changes_key_zero_iff:
  assumes "unique_on key t"
  shows "changes (\<lambda>r. key r = k \<and> Q r) t = 0 \<longleftrightarrow>
    (case find_by key k t of None \<Rightarrow> True | Some r \<Rightarrow> \<not> Q r)"
  using assms find_by_unique [OF assms] find_by_SomeD [of key k t]
  by (fastforce simp: changes_zero_iff find_by_None_iff split: option.split)

lemma update_where_none: "changes P t = 0 \<Longrightarrow> update_where P f t = t"
  by (auto simp: changes_zero_iff update_where_def intro: map_idI)

lemma set_order_asc [simp]: "set (order_asc k t) = set t"
  by (simp add: order_asc_def)

lemma set_order_desc [simp]: "set (order_desc k t) = set t"
  by (simp add: order_desc_def)

lemma sorted_order_asc: "sorted (map k (order_asc k t))"
  by (simp add: order_asc_def)

lemma take_order_asc_le:
  assumes "x \<in> set (take n (order_asc k t))" "y \<in> set (drop n (order_asc k t))"
  shows "k x \<le> k y"
proof -
  have "sorted (map k (take n (order_asc k t)) @ map k (drop n (order_asc k t)))"
    by (metis append_take_drop_id map_append sorted_order_asc)
  with assms show ?thesis by (auto simp: sorted_append)
qed

lemma first_row_simps [simp]: "first_row [] = None" "first_row (r # t) = Some r"
  by (simp_all add: first_row_def)

lemma first_row_SomeD: "first_row t = Some r \<Longrightarrow> r \<in> set t"
  by (cases t) auto

lemma first_row_None_iff [simp]: "first_row t = None \<longleftrightarrow> t = []"
  by (cases t) auto

subsection \<open>Projections\<close>

text \<open>
  A projection of the rows (a record without some of its fields, a snapshot) commutes with the
  statements when it respects their conditions and their updates.
\<close>

lemma map_rows_update_where:
  "(\<And>x. x \<in> set t \<Longrightarrow> Q (h x) = P x) \<Longrightarrow> (\<And>x. x \<in> set t \<Longrightarrow> P x \<Longrightarrow> h (f x) = g (h x)) \<Longrightarrow>
   map h (update_where P f t) = update_where Q g (map h t)"
  by (simp add: update_where_def)

lemma map_rows_unchanged: "(\<And>x. x \<in> set t \<Longrightarrow> P x \<Longrightarrow> h (f x) = h x) \<Longrightarrow> map h (update_where P f t) = map h t"
  by (simp add: update_where_def)

lemma map_rows_delete_where:
  "(\<And>x. x \<in> set t \<Longrightarrow> Q (h x) = P x) \<Longrightarrow> map h (delete_where P t) = delete_where Q (map h t)"
  by (induction t) (simp_all add: delete_where_def)

lemma map_rows_upsert:
  assumes "\<And>x. x \<in> set t \<Longrightarrow> (key' (h x) = key' (h r)) = (key x = key r)"
    and "\<And>x. x \<in> set t \<Longrightarrow> key x = key r \<Longrightarrow> h (merge x) = merge' (h x)"
  shows "map h (upsert key r merge t) = upsert key' (h r) merge' (map h t)"
proof -
  have "find_by key (key r) t = None \<longleftrightarrow> find_by key' (key' (h r)) (map h t) = None"
    using assms(1) by (auto simp: find_by_None_iff)
  moreover have "map h (update_where (\<lambda>x. key x = key r) merge t) =
      update_where (\<lambda>x. key' x = key' (h r)) merge' (map h t)"
    by (rule map_rows_update_where) (simp_all add: assms)
  ultimately show ?thesis by (auto simp: upsert_def)
qed

lemma upsert_new: "find_by key (key r) t = None \<Longrightarrow> upsert key r merge t = t @ [r]"
  by (simp add: upsert_def)

lemma unique_map_rows: "(\<And>x. key' (h x) = key x) \<Longrightarrow> unique_on key' (map h t) = unique_on key t"
  by (simp add: unique_on_def comp_def)

end
