(* ===== verification/Leases.thy ===== *)
theory Leases
  imports Prelude
begin

text \<open>
  The interface between a work queue of the database and its workers. Three tables are such
  queues: invoices (sweepers), user operations (bundlers) and recovery jobs (the wallet
  deployer). A worker claims a row for \<open>leaseMs\<close> milliseconds and reports progress with
  track; both carry the version the worker read, both bump it.

  The locale \<open>lease_queue\<close> states what the three have in common, and what the workers may
  rely on is proved here once: a live lease excludes every other worker, and a write that
  carries a version succeeds only on the row as it was when that version was read. The
  interpretations stand in the theories of the three tables.
\<close>

datatype ('k, 'w, 'u) lease_op =
    Claim_Op (op_key: 'k) (op_worker: 'w) (op_expected: int) (op_lease: int) (op_now: timestamp)
  | Track_Op (op_key: 'k) (op_update: 'u) (op_now: timestamp)

text \<open>
  The row can be claimed by worker \<open>w\<close> at \<open>now\<close>: nobody holds it, \<open>w\<close> itself does, or
  the lease has run out.
\<close>

definition lease_free :: "'w option \<Rightarrow> timestamp option \<Rightarrow> 'w \<Rightarrow> timestamp \<Rightarrow> bool" where
  "lease_free holder until w now =
     (holder = None \<or> holder = Some w \<or> until = None \<or> (\<exists>t. until = Some t \<and> t < now))"

locale lease_queue =
  fixes lookup :: "'s \<Rightarrow> 'k \<Rightarrow> 'r option"
    and claim :: "'s \<Rightarrow> 'k \<Rightarrow> 'w \<Rightarrow> int \<Rightarrow> int \<Rightarrow> timestamp \<Rightarrow> ('e + 'r) \<times> 's"
    and track :: "'s \<Rightarrow> 'k \<Rightarrow> 'u \<Rightarrow> timestamp \<Rightarrow> ('e + 'r) \<times> 's"
    and expected :: "'u \<Rightarrow> int option"
    and releases :: "'u \<Rightarrow> bool"
    and ver :: "'r \<Rightarrow> int"
    and holder :: "'r \<Rightarrow> 'w option"
    and until :: "'r \<Rightarrow> timestamp option"
    and norm :: "'w \<Rightarrow> 'w"
    and same :: "'k \<Rightarrow> 'k"
    and wf :: "'s \<Rightarrow> bool"
  assumes same_key: "same j = same k \<Longrightarrow> lookup s j = lookup s k"
    and claim_wf: "wf s \<Longrightarrow> wf (snd (claim s k w v l now))"
    and claim_ok: "wf s \<Longrightarrow> claim s k w v l now = (Inr r', s') \<Longrightarrow>
      \<exists>r. lookup s k = Some r \<and> ver r = v \<and> lease_free (holder r) (until r) (norm w) now \<and>
        lookup s' k = Some r' \<and> ver r' = v + 1 \<and> holder r' = Some (norm w) \<and> until r' = Some (now + l)"
    and claim_frame: "wf s \<Longrightarrow> claim s k w v l now = (Inr r', s') \<Longrightarrow> same j \<noteq> same k \<Longrightarrow> lookup s' j = lookup s j"
    and claim_fail: "wf s \<Longrightarrow> claim s k w v l now = (Inl e, s') \<Longrightarrow> s' = s"
    and track_wf: "wf s \<Longrightarrow> wf (snd (track s k u now))"
    and track_ok: "wf s \<Longrightarrow> track s k u now = (Inr r', s') \<Longrightarrow>
      \<exists>r. lookup s k = Some r \<and> (\<forall>v. expected u = Some v \<longrightarrow> ver r = v) \<and>
        lookup s' k = Some r' \<and> ver r' = ver r + 1 \<and>
        (\<not> releases u \<longrightarrow> holder r' = holder r \<and> until r' = until r)"
    and track_frame: "wf s \<Longrightarrow> track s k u now = (Inr r', s') \<Longrightarrow> same j \<noteq> same k \<Longrightarrow> lookup s' j = lookup s j"
    and track_fail: "wf s \<Longrightarrow> track s k u now = (Inl e, s') \<Longrightarrow> s' = s"
begin

primrec apply_op :: "'s \<Rightarrow> ('k, 'w, 'u) lease_op \<Rightarrow> ('e + 'r) \<times> 's" where
  "apply_op s (Claim_Op k w v l now) = claim s k w v l now"
| "apply_op s (Track_Op k u now) = track s k u now"

fun run :: "'s \<Rightarrow> ('k, 'w, 'u) lease_op list \<Rightarrow> 's" where
  "run s [] = s"
| "run s (p # ps) = run (snd (apply_op s p)) ps"

lemma apply_wf: "wf s \<Longrightarrow> wf (snd (apply_op s p))"
  by (cases p) (simp_all add: claim_wf track_wf)

lemma run_wf: "wf s \<Longrightarrow> wf (run s ps)"
  by (induction ps arbitrary: s) (simp_all add: apply_wf)

lemma apply_fail: "wf s \<Longrightarrow> apply_op s p = (Inl e, s') \<Longrightarrow> s' = s"
  by (cases p) (simp_all, (erule (1) claim_fail | erule (1) track_fail)+)

lemma apply_frame: "wf s \<Longrightarrow> apply_op s p = (Inr r', s') \<Longrightarrow> same j \<noteq> same (op_key p) \<Longrightarrow> lookup s' j = lookup s j"
  by (cases p) (simp_all add: claim_frame track_frame)

lemma apply_bumps:
  assumes "wf s" "apply_op s p = (Inr r', s')"
  shows "\<exists>r. lookup s (op_key p) = Some r \<and> lookup s' (op_key p) = Some r' \<and> ver r' = ver r + 1"
proof (cases p)
  case (Claim_Op k w v l now)
  with claim_ok [OF assms(1), of k w v l now] assms(2) show ?thesis by auto
next
  case (Track_Op k u now)
  with track_ok [OF assms(1), of k u now] assms(2) show ?thesis by auto
qed

text \<open>One operation either leaves a row alone or moves it to its next version.\<close>

lemma apply_row_cases:
  assumes "wf s"
  obtains "lookup (snd (apply_op s p)) k = lookup s k"
  | r r' where "lookup s k = Some r" "lookup (snd (apply_op s p)) k = Some r'" "ver r' = ver r + 1"
proof (cases "apply_op s p")
  case (Pair res s')
  show ?thesis
  proof (cases res)
    case (Inl e)
    with Pair apply_fail [OF assms, of p] that(1) show ?thesis by simp
  next
    case (Inr r')
    note bump = apply_bumps [OF assms, of p] and frame = apply_frame [OF assms, of p]
    show ?thesis
    proof (cases "same k = same (op_key p)")
      case True
      with bump [of r' s'] Pair Inr that(2) same_key [OF True] show ?thesis by auto
    qed (use frame Pair Inr that(1) in simp)
  qed
qed

lemma run_version_mono:
  "wf s \<Longrightarrow> lookup s k = Some r \<Longrightarrow>
   \<exists>r'. lookup (run s ps) k = Some r' \<and> ver r \<le> ver r' \<and> (ver r' = ver r \<longrightarrow> r' = r)"
proof (induction ps arbitrary: s r)
  case (Cons p ps)
  note wf' = apply_wf [OF Cons.prems(1), of p]
  from Cons.prems(1) show ?case
  proof (cases rule: apply_row_cases [of _ p k])
    case 1
    with Cons.prems Cons.IH [OF wf'] show ?thesis by simp
  next
    case (2 r0 r1)
    with Cons.prems Cons.IH [OF wf', of r1] show ?thesis by force
  qed
qed simp

text \<open>
  Optimistic concurrency. A version read in state \<open>s\<close> and presented after any operations
  of any workers is accepted only if the row has not been touched in between.
\<close>

lemma accepted_version_untouched:
  assumes "wf s" "lookup s k = Some r"
    and "claim (run s ps) k w (ver r) l now = (Inr r', s') \<or>
         (track (run s ps) k u now = (Inr r', s') \<and> expected u = Some (ver r))"
  shows "lookup (run s ps) k = Some r"
proof -
  obtain r0 where r0: "lookup (run s ps) k = Some r0" "ver r0 = ver r \<longrightarrow> r0 = r"
    using run_version_mono [OF assms(1,2)] by blast
  from assms(3) have "ver r0 = ver r"
    using claim_ok [OF run_wf [OF assms(1)]] track_ok [OF run_wf [OF assms(1)]] r0(1)
    by (metis option.inject)
  with r0 show ?thesis by simp
qed

text \<open>
  Mutual exclusion. While the lease \<open>a\<close> won is live, whatever the others try and whatever is
  tracked without releasing the row, no other worker's claim succeeds. All claims use the
  server's one lease length \<open>l\<close>.
\<close>

definition within :: "'k \<Rightarrow> int \<Rightarrow> timestamp \<Rightarrow> timestamp \<Rightarrow> ('k, 'w, 'u) lease_op \<Rightarrow> bool" where
  "within k l t0 t1 p \<longleftrightarrow> t0 \<le> op_now p \<and> op_now p \<le> t1 \<and>
     (same (op_key p) = same k \<longrightarrow> (case p of Claim_Op _ _ _ l' _ \<Rightarrow> l' = l | Track_Op _ u _ \<Rightarrow> \<not> releases u))"

definition held :: "'s \<Rightarrow> 'k \<Rightarrow> 'w \<Rightarrow> timestamp \<Rightarrow> bool" where
  "held s k a t = (\<exists>r e. lookup s k = Some r \<and> holder r = Some a \<and> until r = Some e \<and> t \<le> e)"

lemma held_excludes:
  assumes "wf s" "held s k a t" "now \<le> t" "norm b \<noteq> a"
  shows "\<exists>e. claim s k b v l now = (Inl e, s)"
proof (cases "claim s k b v l now")
  case (Pair res s')
  show ?thesis
  proof (cases res)
    case (Inl e)
    with Pair claim_fail [OF assms(1)] show ?thesis by blast
  next
    case (Inr r')
    with Pair claim_ok [OF assms(1)] obtain r where
      "lookup s k = Some r" "lease_free (holder r) (until r) (norm b) now" by blast
    with assms show ?thesis by (auto simp: held_def lease_free_def)
  qed
qed

lemma held_claimed:
  assumes "wf s" "held s k a (t0 + l)" "within k l t0 (t0 + l) (Claim_Op k b v l' now)"
    and "claim s k b v l' now = (Inr r', s')"
  shows "held s' k a (t0 + l)"
proof -
  from assms(3) have "l' = l" "t0 \<le> now" "now \<le> t0 + l" by (auto simp: within_def)
  with held_excludes [OF assms(1,2), of now b v l'] assms(4) have "norm b = a" by auto
  with claim_ok [OF assms(1,4)] \<open>l' = l\<close> \<open>t0 \<le> now\<close> show ?thesis
    by (auto simp: held_def)
qed

lemma held_tracked:
  assumes "wf s" "held s k a t" "\<not> releases u" "track s k u now = (Inr r', s')"
  shows "held s' k a t"
  using track_ok [OF assms(1,4)] assms(2,3) by (auto simp: held_def)

lemma held_step:
  assumes wf: "wf s" and held: "held s k a (t0 + l)" and p: "within k l t0 (t0 + l) p"
  shows "held (snd (apply_op s p)) k a (t0 + l)"
proof (cases "apply_op s p")
  case (Pair res s')
  show ?thesis
  proof (cases res)
    case (Inl e)
    with Pair apply_fail [OF wf, of p] held show ?thesis by simp
  next
    case (Inr r')
    show ?thesis
    proof (cases "same (op_key p) = same k")
      case True
      have h: "held s (op_key p) a (t0 + l)" and p': "within (op_key p) l t0 (t0 + l) p"
        using held p same_key [OF True] by (simp_all add: held_def within_def True)
      have "held (snd (apply_op s p)) (op_key p) a (t0 + l)"
        using Pair Inr p' held_claimed [OF wf h] held_tracked [OF wf h] by (cases p) (auto simp: within_def)
      then show ?thesis by (simp add: held_def same_key [OF True])
    next
      case False
      with Pair Inr apply_frame [OF wf, of p _ s' k] held show ?thesis by (simp add: held_def)
    qed
  qed
qed

lemma held_run:
  "wf s \<Longrightarrow> held s k a (t0 + l) \<Longrightarrow> \<forall>p \<in> set ps. within k l t0 (t0 + l) p \<Longrightarrow>
   held (run s ps) k a (t0 + l)"
  by (induction ps arbitrary: s) (simp_all add: held_step apply_wf)

lemma live_lease_excludes:
  assumes "wf s" "claim s k a v l t0 = (Inr r, s')" "0 \<le> l"
    and "\<forall>p \<in> set ps. within k l t0 (t0 + l) p"
    and "now \<le> t0 + l" "norm b \<noteq> norm a"
  shows "\<exists>e. claim (run s' ps) k b v' l' now = (Inl e, run s' ps)"
proof -
  have wf': "wf s'" using claim_wf [OF assms(1), of k a v l t0] assms(2) by simp
  have "held s' k (norm a) (t0 + l)"
    using claim_ok [OF assms(1,2)] by (auto simp: held_def)
  from held_run [OF wf' this assms(4)] show ?thesis
    using held_excludes [OF run_wf [OF wf']] assms(5,6) by blast
qed

text \<open>Two workers that read the same version: at most one of the two claims succeeds.\<close>

lemma same_version_one_winner:
  assumes "wf s" "claim s k a v l now = (Inr r, s')"
  shows "\<exists>e. claim s' k b v l' now' = (Inl e, s')"
proof (cases "claim s' k b v l' now'")
  case (Pair res s'')
  have wf': "wf s'" using claim_wf [OF assms(1), of k a v l now] assms(2) by simp
  show ?thesis
  proof (cases res)
    case (Inl e)
    with Pair claim_fail [OF wf'] show ?thesis by blast
  next
    case (Inr r')
    with Pair claim_ok [OF wf'] claim_ok [OF assms] show ?thesis by fastforce
  qed
qed

end

end
