(* ===== verification/Invoices.thy ===== *)
theory Invoices
  imports Prelude Leases Complex_Main
begin

text \<open>
  The invoice tables of the commerce server (commerce/server/db.ts): \<open>invoices\<close>, \<open>events\<close>,
  \<open>idempotency_keys\<close> and the invoice stream of the persist log, with every operation of
  \<open>CommerceDb\<close> on them.

  Rows are kept decoded, as \<open>mapInvoice\<close> returns them: JSON columns are lists, 0/1 columns are
  booleans. The columns that only create and restore write are grouped in \<open>invoice_terms\<close>.
  An operation takes the clock reading \<open>now\<close>; better-sqlite3 is synchronous, so an operation
  runs to its end before another starts.
\<close>

datatype invoice_status = Created | Awaiting_Payment | Paid | Paid_Partial | Swept

datatype event_kind = Ev_Created | Ev_Paid | Ev_Swept | Ev_Callback | Ev_Error | Ev_Force_Sweep | Ev_Claimed

datatype payment_mode = Crypto | Crypto_Or_Fiat | Fiat

text \<open>\<open>parsePaymentMode\<close>: absent and empty mean crypto, anything else unknown is a 400.\<close>

definition parsePaymentMode :: "string option \<Rightarrow> 'r http_error + payment_mode" where
  "parsePaymentMode v =
     (if v = Some ''crypto'' then Inr Crypto
      else if v = Some ''crypto_or_fiat'' then Inr Crypto_Or_Fiat
      else if v = Some ''fiat'' then Inr Fiat
      else if v = None \<or> v = Some '''' then Inr Crypto
      else Inl (Http_Error 400 ''Invalid paymentMode'' None))"

definition paymentModeAllowsFiat :: "payment_mode \<Rightarrow> bool" where
  "paymentModeAllowsFiat m = (m = Fiat \<or> m = Crypto_Or_Fiat)"

text \<open>\<open>PayLinkFields\<close>. \<open>pl_quote_slippage_bps\<close> is \<open>None\<close> when the field is absent or not finite.\<close>

record pay_link_fields =
  pl_price :: string
  pl_to :: "address list"
  pl_chains :: "string list"
  pl_tokens :: "string list"
  pl_invoice_seed :: "string option"
  pl_client_invoice_id :: "string option"
  pl_callback :: "string option"
  pl_title :: "string option"
  pl_description :: "string option"
  pl_allow_partial :: bool
  pl_payment_mode :: "payment_mode option"
  pl_display_fiat :: "string option"
  pl_display_amount :: "string option"
  pl_quote_country :: "string option"
  pl_quote_payment_method :: "string option"
  pl_quote_provider :: "string option"
  pl_quote_slippage_bps :: "rat option"
  pl_lang :: "string option"

record invoice_terms =
  tm_seed :: string
  tm_client_invoice_id :: string
  tm_price_usd :: string
  tm_to_addresses :: "address list"
  tm_selected_to :: "address option"
  tm_chain_id :: "string option"
  tm_token :: "string option"
  tm_invoice_address :: "address option"
  tm_title :: "string option"
  tm_description :: "string option"
  tm_callback_url :: "string option"
  tm_allow_partial :: bool
  tm_payment_mode :: payment_mode
  tm_display_fiat :: "string option"
  tm_display_amount :: "string option"
  tm_quote_country :: "string option"
  tm_quote_payment_method :: "string option"
  tm_quote_provider :: "string option"
  tm_quote_slippage_bps :: "int option"
  tm_lang :: "string option"

record invoice =
  inv_id :: string
  inv_terms :: invoice_terms
  inv_payer_fiat :: "string option"
  inv_status :: invoice_status
  inv_amount_paid :: string
  inv_amount_swept :: string
  inv_fee_collected :: string
  inv_gas_spent_wei :: string
  inv_sweep_tx :: "string option"
  inv_pay_session_id :: "string option"
  inv_version :: int
  inv_claimed_by :: "address option"
  inv_claimed_until :: "timestamp option"
  inv_created_at :: timestamp
  inv_updated_at :: timestamp
  inv_paid_at :: "timestamp option"
  inv_swept_at :: "timestamp option"

abbreviation inv_address :: "invoice \<Rightarrow> address option" where
  "inv_address r \<equiv> tm_invoice_address (inv_terms r)"

text \<open>The JSON payloads the operations attach to events.\<close>

datatype event_payload =
    Pl_Activated "string option" "string option" "address option" "address option"
  | Pl_Restored "string option" "string option" "address option" "address option"
  | Pl_Claimed address timestamp
  | Pl_Error string
  | Pl_Status invoice_status
  | Pl_Swept "string option"
  | Pl_Value string
  | Pl_Force_Sweep bool address
  | Pl_Callback string int bool
  | Pl_Callback_Error string string
  | Pl_Faucet string string string bool

record invoice_event =
  ev_id :: int
  ev_invoice_id :: string
  ev_kind :: event_kind
  ev_payload :: event_payload
  ev_created_at :: timestamp

record idempotency_row =
  ik_key :: string
  ik_invoice_id :: string
  ik_created_at :: timestamp

text \<open>
  A persist-log entry of the invoice stream. Its payload is a JSON object; a field that is
  absent or null is \<open>None\<close> (see \<open>invoiceCreatedPersistPayload\<close> and
  \<open>invoiceStatusPersistPayload\<close> for the two objects the server writes).
\<close>

record invoice_payload =
  ip_invoice_id :: "string option"
  ip_terms :: "invoice_terms option"
  ip_created_at :: "timestamp option"
  ip_status :: "invoice_status option"
  ip_amount_paid :: "string option"
  ip_amount_swept :: "string option"
  ip_fee_collected :: "string option"
  ip_gas_spent_wei :: "string option"
  ip_sweep_tx :: "string option"
  ip_paid_at :: "timestamp option"
  ip_swept_at :: "timestamp option"

record 'p persist_event =
  pe_ts :: timestamp
  pe_stream :: string
  pe_type :: string
  pe_id :: string
  pe_payload :: 'p

record invoice_db =
  invoices :: "invoice list"
  events :: "invoice_event list"
  next_event_id :: int
  idempotency_keys :: "idempotency_row list"
  persist_log :: "invoice_payload persist_event list option"
  skip_persist_log :: bool

type_synonym 'a invoice_result = "invoice http_error + 'a"

definition empty_invoice_db :: "bool \<Rightarrow> invoice_db" where
  "empty_invoice_db logging =
     \<lparr>invoices = [], events = [], next_event_id = 1, idempotency_keys = [],
      persist_log = (if logging then Some [] else None), skip_persist_log = False\<rparr>"

section \<open>Persist log\<close>

definition invoicePersist :: "invoice_db \<Rightarrow> string \<Rightarrow> invoice_payload \<Rightarrow> string \<Rightarrow> timestamp \<Rightarrow> invoice_db" where
  "invoicePersist db ty p eid now =
     (case persist_log db of
        None \<Rightarrow> db
      | Some l \<Rightarrow> if skip_persist_log db then db
                 else db\<lparr>persist_log := Some (l @ [\<lparr>pe_ts = now, pe_stream = ''invoice'',
                           pe_type = ty, pe_id = eid, pe_payload = p\<rparr>])\<rparr>)"

definition runWithoutPersistLog :: "(invoice_db \<Rightarrow> 'a \<times> invoice_db) \<Rightarrow> invoice_db \<Rightarrow> 'a \<times> invoice_db" where
  "runWithoutPersistLog f db =
     (let prev = skip_persist_log db; (x, db') = f (db\<lparr>skip_persist_log := True\<rparr>) in
      (x, db'\<lparr>skip_persist_log := prev\<rparr>))"

definition invoiceCreatedPersistPayload :: "invoice \<Rightarrow> invoice_payload" where
  "invoiceCreatedPersistPayload r =
     \<lparr>ip_invoice_id = Some (inv_id r), ip_terms = Some (inv_terms r),
      ip_created_at = Some (inv_created_at r), ip_status = None, ip_amount_paid = None,
      ip_amount_swept = None, ip_fee_collected = None, ip_gas_spent_wei = None,
      ip_sweep_tx = None, ip_paid_at = None, ip_swept_at = None\<rparr>"

definition invoiceStatusPersistPayload :: "invoice \<Rightarrow> invoice_payload" where
  "invoiceStatusPersistPayload r =
     \<lparr>ip_invoice_id = Some (inv_id r), ip_terms = None, ip_created_at = None,
      ip_status = Some (inv_status r), ip_amount_paid = Some (inv_amount_paid r),
      ip_amount_swept = Some (inv_amount_swept r), ip_fee_collected = Some (inv_fee_collected r),
      ip_gas_spent_wei = Some (inv_gas_spent_wei r), ip_sweep_tx = inv_sweep_tx r,
      ip_paid_at = inv_paid_at r, ip_swept_at = inv_swept_at r\<rparr>"

section \<open>Reading\<close>

definition has_address :: "string \<Rightarrow> invoice \<Rightarrow> bool" where
  "has_address k r = (map_option lower (inv_address r) = Some (lower k))"

text \<open>By id, else the most recently updated invoice with that settlement address.\<close>

definition getInvoice :: "invoice_db \<Rightarrow> string \<Rightarrow> invoice option" where
  "getInvoice db k =
     (case find_by inv_id k (invoices db) of
        Some r \<Rightarrow> Some r
      | None \<Rightarrow> first_row (order_desc inv_updated_at (filter (has_address k) (invoices db))))"

definition getEvents :: "invoice_db \<Rightarrow> string \<Rightarrow> invoice_event list" where
  "getEvents db k = order_asc ev_id (filter (\<lambda>e. ev_invoice_id e = k) (events db))"

definition listWorkerInvoices :: "invoice_db \<Rightarrow> invoice_status list \<Rightarrow> string list option \<Rightarrow> invoice list" where
  "listWorkerInvoices db statuses only =
     take 250 (order_asc inv_updated_at (filter (\<lambda>r. inv_status r \<in> set statuses \<and>
       (case only of None \<Rightarrow> True
        | Some cs \<Rightarrow> cs = [] \<or> opt_ex (\<lambda>c. c \<in> set cs) (tm_chain_id (inv_terms r)))) (invoices db)))"

definition default_worker_statuses :: "invoice_status list" where
  "default_worker_statuses = [Awaiting_Payment, Paid, Paid_Partial]"

section \<open>Events\<close>

text \<open>\<open>events.invoice_id\<close> references \<open>invoices.id\<close> and foreign keys are on.\<close>

definition addEvent :: "invoice_db \<Rightarrow> string \<Rightarrow> event_kind \<Rightarrow> event_payload \<Rightarrow> timestamp \<Rightarrow> invoice_db invoice_result" where
  "addEvent db k kind payload now =
     (if find_by inv_id k (invoices db) = None
      then Inl (Http_Error 500 ''FOREIGN KEY constraint failed'' None)
      else Inr (db\<lparr>events := events db @ [\<lparr>ev_id = next_event_id db, ev_invoice_id = k, ev_kind = kind,
                                      ev_payload = payload, ev_created_at = now\<rparr>],
                   next_event_id := next_event_id db + 1\<rparr>))"

definition eventKindForStatus :: "invoice_status \<Rightarrow> string option \<Rightarrow> event_kind" where
  "eventKindForStatus st err =
     (if truthy err then Ev_Error
      else if st = Swept then Ev_Swept
      else if st = Paid \<or> st = Paid_Partial then Ev_Paid
      else Ev_Created)"

section \<open>Create\<close>

record create_input =
  ci_invoice_id :: string
  ci_fields :: pay_link_fields
  ci_chain_id :: string
  ci_token :: string
  ci_selected_to :: address
  ci_invoice_address :: "address option"
  ci_pay_session_id :: "string option"
  ci_idempotency_key :: "string option"

definition js_round :: "rat \<Rightarrow> int" where
  "js_round x = \<lfloor>x + 1 / 2\<rfloor>"

definition terms_of_input :: "create_input \<Rightarrow> invoice_terms" where
  "terms_of_input ci =
     (let f = ci_fields ci in
      \<lparr>tm_seed = nullish (pl_invoice_seed f) '''',
       tm_client_invoice_id = nullish (pl_client_invoice_id f) '''',
       tm_price_usd = pl_price f,
       tm_to_addresses = pl_to f,
       tm_selected_to = Some (ci_selected_to ci),
       tm_chain_id = Some (ci_chain_id ci),
       tm_token = Some (ci_token ci),
       tm_invoice_address = ci_invoice_address ci,
       tm_title = pl_title f,
       tm_description = pl_description f,
       tm_callback_url = pl_callback f,
       tm_allow_partial = pl_allow_partial f,
       tm_payment_mode = nullish (pl_payment_mode f) Crypto,
       tm_display_fiat = map_option (upper \<circ> trim) (pl_display_fiat f),
       tm_display_amount = map_option trim (pl_display_amount f),
       tm_quote_country = map_option (lower \<circ> trim) (pl_quote_country f),
       tm_quote_payment_method = map_option (lower \<circ> trim) (pl_quote_payment_method f),
       tm_quote_provider = map_option (lower \<circ> trim) (pl_quote_provider f),
       tm_quote_slippage_bps = map_option js_round (pl_quote_slippage_bps f),
       tm_lang = or_null (map_option trim (pl_lang f))\<rparr>)"

definition new_invoice :: "create_input \<Rightarrow> timestamp \<Rightarrow> invoice" where
  "new_invoice ci now =
     \<lparr>inv_id = ci_invoice_id ci, inv_terms = terms_of_input ci, inv_payer_fiat = None,
      inv_status = Awaiting_Payment, inv_amount_paid = ''0'', inv_amount_swept = ''0'',
      inv_fee_collected = ''0'', inv_gas_spent_wei = ''0'', inv_sweep_tx = None,
      inv_pay_session_id = ci_pay_session_id ci, inv_version = 1, inv_claimed_by = None,
      inv_claimed_until = None, inv_created_at = now, inv_updated_at = now,
      inv_paid_at = None, inv_swept_at = None\<rparr>"

definition insert_idempotency :: "invoice_db \<Rightarrow> string option \<Rightarrow> string \<Rightarrow> timestamp \<Rightarrow> invoice_db" where
  "insert_idempotency db key i now =
     (if truthy key
      then db\<lparr>idempotency_keys := upsert ik_key
                 \<lparr>ik_key = the key, ik_invoice_id = i, ik_created_at = now\<rparr> (\<lambda>r. r) (idempotency_keys db)\<rparr>
      else db)"

text \<open>The invoice an earlier request with this idempotency key created, if it is still there.\<close>

definition prior_invoice :: "invoice_db \<Rightarrow> string option \<Rightarrow> invoice option" where
  "prior_invoice db key =
     (if truthy key
      then Option.bind (find_by ik_key (the key) (idempotency_keys db)) (\<lambda>r. getInvoice db (ik_invoice_id r))
      else None)"

text \<open>The transaction of \<open>createInvoice\<close>: a failing step rolls everything back.\<close>

definition create_tx :: "invoice_db \<Rightarrow> create_input \<Rightarrow> timestamp \<Rightarrow> (invoice \<times> invoice_db) invoice_result" where
  "create_tx db ci now =
     (case insert_unique inv_id (new_invoice ci now) (invoices db) of
        None \<Rightarrow> Inl (Http_Error 409 ''Invoice id already exists'' (getInvoice db (ci_invoice_id ci)))
      | Some rows \<Rightarrow>
          (case addEvent (db\<lparr>invoices := rows\<rparr>) (ci_invoice_id ci) Ev_Created
                  (Pl_Activated (Some (ci_chain_id ci)) (Some (ci_token ci)) (Some (ci_selected_to ci))
                     (ci_invoice_address ci)) now of
             Inl e \<Rightarrow> Inl e
           | Inr db1 \<Rightarrow>
               (let db2 = insert_idempotency db1 (ci_idempotency_key ci) (ci_invoice_id ci) now in
                case getInvoice db2 (ci_invoice_id ci) of
                  None \<Rightarrow> Inl (Http_Error 500 ''Failed to create invoice'' None)
                | Some r \<Rightarrow> Inr (r, db2))))"

definition createInvoice :: "invoice_db \<Rightarrow> create_input \<Rightarrow> timestamp \<Rightarrow> (invoice \<times> bool) invoice_result \<times> invoice_db" where
  "createInvoice db ci now =
     (case prior_invoice db (ci_idempotency_key ci) of
        Some r \<Rightarrow> (Inr (r, False), db)
      | None \<Rightarrow>
          (case getInvoice db (ci_invoice_id ci) of
             Some r \<Rightarrow> (Inl (Http_Error 409 ''Invoice id already exists'' (Some r)), db)
           | None \<Rightarrow>
               if \<not> truthy (pl_invoice_seed (ci_fields ci))
               then (Inl (Http_Error 500 ''invoiceSeed is required'' None), db)
               else (case create_tx db ci now of
                       Inl e \<Rightarrow> (Inl e, db)
                     | Inr (r, db') \<Rightarrow>
                         (Inr (r, True),
                          invoicePersist db' ''invoice.created'' (invoiceCreatedPersistPayload r) (inv_id r) now))))"

section \<open>Claim\<close>

definition claimable_status :: "invoice_status \<Rightarrow> bool" where
  "claimable_status st = (st = Awaiting_Payment \<or> st = Paid \<or> st = Paid_Partial)"

definition claim_where :: "address \<Rightarrow> int \<Rightarrow> timestamp \<Rightarrow> invoice \<Rightarrow> bool" where
  "claim_where sweeper v now r =
     (inv_version r = v \<and> claimable_status (inv_status r) \<and>
      (inv_claimed_by r = None \<or> inv_claimed_by r = Some sweeper \<or> inv_claimed_until r = None \<or>
       opt_ex (\<lambda>t. t < now) (inv_claimed_until r)))"

definition claim_set :: "address \<Rightarrow> timestamp \<Rightarrow> timestamp \<Rightarrow> invoice \<Rightarrow> invoice" where
  "claim_set sweeper until now r =
     r\<lparr>inv_claimed_by := Some sweeper, inv_claimed_until := Some until,
       inv_version := inv_version r + 1, inv_updated_at := now\<rparr>"

definition claimInvoice :: "invoice_db \<Rightarrow> string \<Rightarrow> address \<Rightarrow> int \<Rightarrow> int \<Rightarrow> timestamp \<Rightarrow> invoice invoice_result \<times> invoice_db" where
  "claimInvoice db k sweeper v leaseMs now =
     (let until = now + leaseMs; P = (\<lambda>r. inv_id r = k \<and> claim_where sweeper v now r) in
      if changes P (invoices db) = 0
      then (Inl (Http_Error 409 ''Claim conflict'' (getInvoice db k)), db)
      else (let db1 = db\<lparr>invoices := update_where P (claim_set sweeper until now) (invoices db)\<rparr> in
            case addEvent db1 k Ev_Claimed (Pl_Claimed sweeper until) now of
              Inl e \<Rightarrow> (Inl e, db1)
            | Inr db2 \<Rightarrow>
                (case getInvoice db2 k of
                   None \<Rightarrow> (Inl (Http_Error 500 ''Failed to claim invoice'' None), db2)
                 | Some r \<Rightarrow> (Inr r, db2))))"

section \<open>Track\<close>

record track_input =
  ti_status :: "invoice_status option"
  ti_amount_paid :: "string option"
  ti_amount_swept :: "string option"
  ti_fee_collected :: "string option"
  ti_gas_spent_wei :: "string option"
  ti_sweep_tx :: "string option"
  ti_error :: "string option"
  ti_payload :: "event_payload option"
  ti_expected_version :: "int option"
  ti_sweeper :: "address option"

definition paid_like :: "invoice_status \<Rightarrow> bool" where
  "paid_like st = (st = Paid \<or> st = Paid_Partial \<or> st = Swept)"

text \<open>A sweep report of another sweeper while somebody's lease on the invoice is live.\<close>

definition claimed_by_another :: "invoice \<Rightarrow> address \<Rightarrow> timestamp \<Rightarrow> bool" where
  "claimed_by_another r sweeper now =
     (truthy (inv_claimed_by r) \<and> map_option lower (inv_claimed_by r) \<noteq> Some (lower sweeper) \<and>
      opt_ex (\<lambda>t. t > now) (inv_claimed_until r))"

definition track_set :: "track_input \<Rightarrow> invoice \<Rightarrow> timestamp \<Rightarrow> invoice \<Rightarrow> invoice" where
  "track_set ti current now r =
     (let st = nullish (ti_status ti) (inv_status current) in
      r\<lparr>inv_status := st,
        inv_amount_paid := nullish (ti_amount_paid ti) (inv_amount_paid r),
        inv_amount_swept := nullish (ti_amount_swept ti) (inv_amount_swept r),
        inv_fee_collected := nullish (ti_fee_collected ti) (inv_fee_collected r),
        inv_gas_spent_wei := nullish (ti_gas_spent_wei ti) (inv_gas_spent_wei r),
        inv_sweep_tx := coalesce (ti_sweep_tx ti) (inv_sweep_tx r),
        inv_paid_at := (if paid_like st \<and> inv_paid_at current = None then Some now else inv_paid_at current),
        inv_swept_at := (if st = Swept \<and> inv_swept_at current = None then Some now else inv_swept_at current),
        inv_version := inv_version r + 1,
        inv_updated_at := now,
        inv_claimed_by := (if st = Swept then None else inv_claimed_by r),
        inv_claimed_until := (if st = Swept then None else inv_claimed_until r)\<rparr>)"

definition track_persist :: "invoice_db \<Rightarrow> track_input \<Rightarrow> invoice_status \<Rightarrow> invoice \<Rightarrow> timestamp \<Rightarrow> invoice_db" where
  "track_persist db ti st updated now =
     (if \<not> truthy (ti_error ti) \<and> (st = Paid \<or> st = Paid_Partial)
      then invoicePersist db ''invoice.paid'' (invoiceStatusPersistPayload updated) (inv_id updated @ '':paid'') now
      else if \<not> truthy (ti_error ti) \<and> st = Swept
      then invoicePersist db ''invoice.swept'' (invoiceStatusPersistPayload updated) (inv_id updated @ '':swept'') now
      else db)"

definition trackInvoice :: "invoice_db \<Rightarrow> string \<Rightarrow> track_input \<Rightarrow> timestamp \<Rightarrow> invoice invoice_result \<times> invoice_db" where
  "trackInvoice db k ti now =
     (case getInvoice db k of
        None \<Rightarrow> (Inl (Http_Error 404 ''Invoice not found'' None), db)
      | Some current \<Rightarrow>
          if opt_ex (\<lambda>v. inv_version current \<noteq> v) (ti_expected_version ti)
          then (Inl (Http_Error 409 ''Version conflict'' (Some current)), db)
          else if ti_status ti = Some Swept \<and> truthy (ti_sweeper ti) \<and>
                  claimed_by_another current (the (ti_sweeper ti)) now
          then (Inl (Http_Error 409 ''Invoice claimed by another sweeper'' (Some current)), db)
          else (let st = nullish (ti_status ti) (inv_status current);
                    P = (\<lambda>r. inv_id r = k \<and> opt_all (\<lambda>v. inv_version r = v) (ti_expected_version ti)) in
                if changes P (invoices db) = 0
                then (Inl (Http_Error 409 ''Version conflict'' (getInvoice db k)), db)
                else (let db1 = db\<lparr>invoices := update_where P (track_set ti current now) (invoices db)\<rparr>;
                          payload = (if truthy (ti_error ti) then Pl_Error (the (ti_error ti))
                                     else nullish (ti_payload ti) (Pl_Status st)) in
                      case addEvent db1 k (eventKindForStatus st (ti_error ti)) payload now of
                        Inl e \<Rightarrow> (Inl e, db1)
                      | Inr db2 \<Rightarrow>
                          (case getInvoice db2 k of
                             None \<Rightarrow> (Inl (Http_Error 500 ''Failed to update invoice'' None), db2)
                           | Some updated \<Rightarrow> (Inr updated, track_persist db2 ti st updated now)))))"

section \<open>Payer currency and restore\<close>

definition setPayerFiat :: "invoice_db \<Rightarrow> string \<Rightarrow> string \<Rightarrow> timestamp \<Rightarrow> invoice invoice_result \<times> invoice_db" where
  "setPayerFiat db k fiat now =
     (let db1 = db\<lparr>invoices := update_where (\<lambda>r. inv_id r = k)
                  (\<lambda>r. r\<lparr>inv_payer_fiat := Some (upper (trim fiat)), inv_updated_at := now\<rparr>) (invoices db)\<rparr> in
      case getInvoice db1 k of
        None \<Rightarrow> (Inl (Http_Error 404 ''Invoice not found'' None), db1)
      | Some r \<Rightarrow> (Inr r, db1))"

record restore_input =
  ri_invoice_id :: string
  ri_terms :: invoice_terms
  ri_status :: invoice_status
  ri_amount_paid :: "string option"
  ri_amount_swept :: "string option"
  ri_fee_collected :: "string option"
  ri_gas_spent_wei :: "string option"
  ri_sweep_tx :: "string option"
  ri_created_at :: "timestamp option"
  ri_paid_at :: "timestamp option"
  ri_swept_at :: "timestamp option"

text \<open>
  The row \<open>restorePersistedInvoice\<close> inserts, and what it makes of a row that is already
  there: the payer currency, the pay session and the creation time of the old row stay.
\<close>

definition restored_row :: "restore_input \<Rightarrow> timestamp \<Rightarrow> invoice" where
  "restored_row ri now =
     \<lparr>inv_id = ri_invoice_id ri, inv_terms = ri_terms ri, inv_payer_fiat = None,
      inv_status = ri_status ri, inv_amount_paid = nullish (ri_amount_paid ri) ''0'',
      inv_amount_swept = nullish (ri_amount_swept ri) ''0'',
      inv_fee_collected = nullish (ri_fee_collected ri) ''0'',
      inv_gas_spent_wei = nullish (ri_gas_spent_wei ri) ''0'',
      inv_sweep_tx = ri_sweep_tx ri, inv_pay_session_id = None, inv_version = 1,
      inv_claimed_by = None, inv_claimed_until = None,
      inv_created_at = nullish (ri_created_at ri) now, inv_updated_at = now,
      inv_paid_at = ri_paid_at ri, inv_swept_at = ri_swept_at ri\<rparr>"

definition restore_merge :: "invoice \<Rightarrow> invoice \<Rightarrow> invoice" where
  "restore_merge new old =
     new\<lparr>inv_id := inv_id old, inv_payer_fiat := inv_payer_fiat old,
         inv_pay_session_id := inv_pay_session_id old, inv_version := inv_version old + 1,
         inv_created_at := inv_created_at old\<rparr>"

definition restorePersistedInvoice :: "invoice_db \<Rightarrow> restore_input \<Rightarrow> timestamp \<Rightarrow> invoice invoice_result \<times> invoice_db" where
  "restorePersistedInvoice db ri now =
     (let new = restored_row ri now;
          db1 = db\<lparr>invoices := upsert inv_id new (restore_merge new) (invoices db)\<rparr> in
      case getInvoice db1 (ri_invoice_id ri) of
        None \<Rightarrow> (Inl (Http_Error 500 ''Failed to restore invoice'' None), db1)
      | Some r \<Rightarrow> (Inr r, db1))"

end
