(* ===== verification/InvoiceQueue.thy ===== *)
theory InvoiceQueue
  imports Invoices
begin

text \<open>
  The invoice table as a work queue: closed forms of claim and track on a table whose ids
  are unique, and the interpretation of \<open>lease_queue\<close> for sweepers.
\<close>

definition invoices_unique :: "invoice_db \<Rightarrow> bool" where
  "invoices_unique db = unique_on inv_id (invoices db)"

definition invoice_by_id :: "invoice_db \<Rightarrow> string \<Rightarrow> invoice option" where
  "invoice_by_id db k = find_by inv_id k (invoices db)"

definition log_event :: "invoice_db \<Rightarrow> string \<Rightarrow> event_kind \<Rightarrow> event_payload \<Rightarrow> timestamp \<Rightarrow> invoice_db" where
  "log_event db k kind payload now =
     db\<lparr>events := events db @ [\<lparr>ev_id = next_event_id db, ev_invoice_id = k, ev_kind = kind,
                                ev_payload = payload, ev_created_at = now\<rparr>],
        next_event_id := next_event_id db + 1\<rparr>"

lemma claim_set_simps [simp]:
  "inv_id (claim_set w u now r) = inv_id r"
  "inv_version (claim_set w u now r) = inv_version r + 1"
  "inv_claimed_by (claim_set w u now r) = Some w"
  "inv_claimed_until (claim_set w u now r) = Some u"
  "inv_status (claim_set w u now r) = inv_status r"
  "inv_terms (claim_set w u now r) = inv_terms r"
  "inv_paid_at (claim_set w u now r) = inv_paid_at r"
  "inv_swept_at (claim_set w u now r) = inv_swept_at r"
  "inv_created_at (claim_set w u now r) = inv_created_at r"
  by (simp_all add: claim_set_def)

lemma track_set_simps [simp]:
  "inv_id (track_set ti c now r) = inv_id r"
  "inv_version (track_set ti c now r) = inv_version r + 1"
  "inv_terms (track_set ti c now r) = inv_terms r"
  "inv_created_at (track_set ti c now r) = inv_created_at r"
  "inv_status (track_set ti c now r) = nullish (ti_status ti) (inv_status c)"
  by (simp_all add: track_set_def Let_def)

lemma getInvoice_by_id: "find_by inv_id k (invoices db) = Some r \<Longrightarrow> getInvoice db k = Some r"
  by (simp add: getInvoice_def)

lemma addEvent_by_id:
  "find_by inv_id k (invoices db) = Some r \<Longrightarrow> addEvent db k kind p now = Inr (log_event db k kind p now)"
  by (simp add: addEvent_def log_event_def)

lemma invoices_log_event [simp]: "invoices (log_event db k kind p now) = invoices db"
  by (simp add: log_event_def)

lemma invoicePersist_frame [simp]:
  "invoices (invoicePersist db ty p i now) = invoices db"
  "events (invoicePersist db ty p i now) = events db"
  "next_event_id (invoicePersist db ty p i now) = next_event_id db"
  "idempotency_keys (invoicePersist db ty p i now) = idempotency_keys db"
  by (auto simp: invoicePersist_def split: option.split)

lemma track_persist_frame [simp]:
  "invoices (track_persist db ti st r now) = invoices db"
  "events (track_persist db ti st r now) = events db"
  "next_event_id (track_persist db ti st r now) = next_event_id db"
  "idempotency_keys (track_persist db ti st r now) = idempotency_keys db"
  by (simp_all add: track_persist_def)

section \<open>Closed forms\<close>

definition claim_invoice_rows :: "invoice_db \<Rightarrow> string \<Rightarrow> address \<Rightarrow> int \<Rightarrow> int \<Rightarrow> timestamp \<Rightarrow> invoice list" where
  "claim_invoice_rows db k w v l now =
     update_where (\<lambda>r. inv_id r = k \<and> claim_where w v now r) (claim_set w (now + l) now) (invoices db)"

lemma claimInvoice_eq:
  assumes "invoices_unique db"
  shows "claimInvoice db k w v l now =
    (case invoice_by_id db k of
       None \<Rightarrow> (Inl (Http_Error 409 ''Claim conflict'' (getInvoice db k)), db)
     | Some r \<Rightarrow>
         if claim_where w v now r
         then (Inr (claim_set w (now + l) now r),
               log_event (db\<lparr>invoices := claim_invoice_rows db k w v l now\<rparr>) k Ev_Claimed (Pl_Claimed w (now + l)) now)
         else (Inl (Http_Error 409 ''Claim conflict'' (getInvoice db k)), db))"
proof -
  let ?P = "\<lambda>r. inv_id r = k \<and> claim_where w v now r"
  have ch: "changes ?P (invoices db) = 0 \<longleftrightarrow>
      (case invoice_by_id db k of None \<Rightarrow> True | Some r \<Rightarrow> \<not> claim_where w v now r)"
    using changes_key_zero_iff [OF assms [unfolded invoices_unique_def], of k "claim_where w v now"]
    by (simp add: invoice_by_id_def)
  have up: "find_by inv_id k (claim_invoice_rows db k w v l now) =
      map_option (\<lambda>r. if ?P r then claim_set w (now + l) now r else r) (invoice_by_id db k)"
    unfolding claim_invoice_rows_def invoice_by_id_def by (rule find_by_update_where) simp
  show ?thesis
  proof (cases "invoice_by_id db k")
    case None
    with ch show ?thesis by (simp add: claimInvoice_def Let_def)
  next
    case (Some r)
    then have [simp]: "inv_id r = k"
      using find_by_SomeD [of inv_id k] by (auto simp: invoice_by_id_def)
    show ?thesis
    proof (cases "claim_where w v now r")
      case True
      with Some up have "find_by inv_id k (claim_invoice_rows db k w v l now) = Some (claim_set w (now + l) now r)"
        by simp
      then have
        "addEvent (db\<lparr>invoices := claim_invoice_rows db k w v l now\<rparr>) k Ev_Claimed (Pl_Claimed w (now + l)) now =
           Inr (log_event (db\<lparr>invoices := claim_invoice_rows db k w v l now\<rparr>) k Ev_Claimed (Pl_Claimed w (now + l)) now)"
        "getInvoice (log_event (db\<lparr>invoices := claim_invoice_rows db k w v l now\<rparr>) k Ev_Claimed (Pl_Claimed w (now + l)) now) k =
           Some (claim_set w (now + l) now r)"
        by (auto intro: addEvent_by_id getInvoice_by_id)
      with True Some ch show ?thesis
        by (simp add: claimInvoice_def Let_def claim_invoice_rows_def)
    qed (use Some ch in \<open>simp add: claimInvoice_def Let_def\<close>)
  qed
qed

definition track_invoice_rows :: "invoice_db \<Rightarrow> string \<Rightarrow> track_input \<Rightarrow> invoice \<Rightarrow> timestamp \<Rightarrow> invoice list" where
  "track_invoice_rows db k ti current now =
     update_where (\<lambda>r. inv_id r = k \<and> (\<forall>v. ti_expected_version ti = Some v \<longrightarrow> inv_version r = v))
       (track_set ti current now) (invoices db)"

definition track_refused :: "invoice \<Rightarrow> track_input \<Rightarrow> timestamp \<Rightarrow> bool" where
  "track_refused current ti now =
     ((\<exists>v. ti_expected_version ti = Some v \<and> inv_version current \<noteq> v) \<or>
      (ti_status ti = Some Swept \<and> truthy (ti_sweeper ti) \<and>
       claimed_by_another current (the (ti_sweeper ti)) now))"

definition track_event_db :: "invoice_db \<Rightarrow> string \<Rightarrow> track_input \<Rightarrow> invoice \<Rightarrow> timestamp \<Rightarrow> invoice_db" where
  "track_event_db db k ti current now =
     (let st = nullish (ti_status ti) (inv_status current) in
      log_event (db\<lparr>invoices := track_invoice_rows db k ti current now\<rparr>) k (eventKindForStatus st (ti_error ti))
        (if truthy (ti_error ti) then Pl_Error (the (ti_error ti)) else nullish (ti_payload ti) (Pl_Status st)) now)"

lemma track_rows_lookup:
  assumes "invoice_by_id db k = Some r" "\<not> track_refused r ti now"
  shows "find_by inv_id k (track_invoice_rows db k ti c now) = Some (track_set ti c now r)"
proof -
  have "find_by inv_id k (track_invoice_rows db k ti c now) =
      map_option (\<lambda>r. if inv_id r = k \<and> (\<forall>v. ti_expected_version ti = Some v \<longrightarrow> inv_version r = v)
                      then track_set ti c now r else r) (invoice_by_id db k)"
    unfolding track_invoice_rows_def invoice_by_id_def by (rule find_by_update_where) simp
  with assms show ?thesis
    using find_by_SomeD [of inv_id k "invoices db" r] by (auto simp: track_refused_def invoice_by_id_def)
qed

text \<open>On the row's own id track refuses or writes.\<close>

lemma trackInvoice_eq:
  assumes "invoice_by_id db k = Some r"
  shows "trackInvoice db k ti now =
    (if (\<exists>v. ti_expected_version ti = Some v \<and> inv_version r \<noteq> v)
     then (Inl (Http_Error 409 ''Version conflict'' (Some r)), db)
     else if track_refused r ti now
     then (Inl (Http_Error 409 ''Invoice claimed by another sweeper'' (Some r)), db)
     else (Inr (track_set ti r now r),
           track_persist (track_event_db db k ti r now) ti (nullish (ti_status ti) (inv_status r))
             (track_set ti r now r) now))"
proof -
  have get: "getInvoice db k = Some r"
    using assms by (simp add: invoice_by_id_def getInvoice_by_id)
  have member: "r \<in> set (invoices db)" "inv_id r = k"
    using assms find_by_SomeD [of inv_id] by (auto simp: invoice_by_id_def)
  show ?thesis
  proof (cases "track_refused r ti now")
    case True
    then show ?thesis by (auto simp: trackInvoice_def get track_refused_def)
  next
    case False
    then have ver: "\<forall>v. ti_expected_version ti = Some v \<longrightarrow> inv_version r = v"
      by (auto simp: track_refused_def)
    have ch: "changes (\<lambda>r. inv_id r = k \<and> (\<forall>v. ti_expected_version ti = Some v \<longrightarrow> inv_version r = v)) (invoices db) \<noteq> 0"
      using member ver by (auto simp: changes_zero_iff)
    note lk = track_rows_lookup [OF assms False, of r]
    have "addEvent (db\<lparr>invoices := track_invoice_rows db k ti r now\<rparr>) k kd p now =
        Inr (log_event (db\<lparr>invoices := track_invoice_rows db k ti r now\<rparr>) k kd p now)" for kd p
      using lk by (auto intro: addEvent_by_id)
    moreover have "getInvoice (log_event (db\<lparr>invoices := track_invoice_rows db k ti r now\<rparr>) k kd p now) k =
        Some (track_set ti r now r)" for kd p
      using lk by (auto intro: getInvoice_by_id)
    ultimately show ?thesis
      using False ver ch
      by (auto simp: trackInvoice_def get Let_def track_refused_def track_event_db_def
          track_invoice_rows_def [symmetric])
  qed
qed

lemma trackInvoice_no_row:
  assumes "invoice_by_id db k = None"
  shows "\<exists>e. trackInvoice db k ti now = (Inl e, db)"
proof -
  have "changes (\<lambda>r. inv_id r = k \<and> (\<forall>v. ti_expected_version ti = Some v \<longrightarrow> inv_version r = v)) (invoices db) = 0"
    using assms by (auto simp: changes_zero_iff invoice_by_id_def find_by_None_iff)
  then show ?thesis
    by (auto simp: trackInvoice_def Let_def split: option.split)
qed

lemma claim_rows_unique: "invoices_unique db \<Longrightarrow> unique_on inv_id (claim_invoice_rows db k w v l now)"
  by (simp add: invoices_unique_def claim_invoice_rows_def unique_update_where)

lemma track_rows_unique: "invoices_unique db \<Longrightarrow> unique_on inv_id (track_invoice_rows db k ti c now)"
  by (simp add: invoices_unique_def track_invoice_rows_def unique_update_where)

lemma claim_rows_other: "j \<noteq> k \<Longrightarrow> find_by inv_id j (claim_invoice_rows db k w v l now) = invoice_by_id db j"
  unfolding claim_invoice_rows_def invoice_by_id_def
  by (subst find_by_update_where) (auto intro!: option.map_ident_strong dest: find_by_SomeD)

lemma track_rows_other: "j \<noteq> k \<Longrightarrow> find_by inv_id j (track_invoice_rows db k ti c now) = invoice_by_id db j"
  unfolding track_invoice_rows_def invoice_by_id_def
  by (subst find_by_update_where) (auto intro!: option.map_ident_strong dest: find_by_SomeD)

section \<open>The queue interface\<close>

text \<open>
  A track releases the invoice exactly when it ends in status swept; because a missing status
  keeps the current one, the safe reading is: it carries no status, or carries swept.
\<close>

definition track_may_release :: "track_input \<Rightarrow> bool" where
  "track_may_release ti = (ti_status ti = None \<or> ti_status ti = Some Swept)"

interpretation sweeper_queue: lease_queue
  invoice_by_id claimInvoice trackInvoice ti_expected_version track_may_release
  inv_version inv_claimed_by inv_claimed_until "\<lambda>w. w" "\<lambda>k. k" invoices_unique
proof unfold_locales
  fix db k w v l now
  assume u: "invoices_unique db"
  note eq = claimInvoice_eq [OF u]
  show "invoices_unique (snd (claimInvoice db k w v l now))"
    using u claim_rows_unique [OF u, of k w v l now]
    by (auto simp: eq invoices_unique_def split: option.split)
  {
    fix r' db'
    assume ok: "claimInvoice db k w v l now = (Inr r', db')"
    then obtain r where r: "invoice_by_id db k = Some r" "claim_where w v now r"
        "r' = claim_set w (now + l) now r"
      and rows: "invoices db' = claim_invoice_rows db k w v l now"
      by (auto simp: eq split: option.splits if_splits)
    then have "invoice_by_id db' k = Some r'"
      unfolding invoice_by_id_def rows claim_invoice_rows_def
      by (subst find_by_update_where) (auto dest: find_by_SomeD)
    with r show "\<exists>r. invoice_by_id db k = Some r \<and> inv_version r = v \<and>
        lease_free (inv_claimed_by r) (inv_claimed_until r) w now \<and>
        invoice_by_id db' k = Some r' \<and> inv_version r' = v + 1 \<and>
        inv_claimed_by r' = Some w \<and> inv_claimed_until r' = Some (now + l)"
      by (auto simp: claim_where_def lease_free_def)
    show "j \<noteq> k \<Longrightarrow> invoice_by_id db' j = invoice_by_id db j" for j
      by (simp add: invoice_by_id_def [of db'] rows claim_rows_other)
  }
  show "claimInvoice db k w v l now = (Inl e, db') \<Longrightarrow> db' = db" for e db'
    by (auto simp: eq split: option.splits if_splits)
next
  fix db k ti now
  assume u: "invoices_unique db"
  show "invoices_unique (snd (trackInvoice db k ti now))"
  proof (cases "invoice_by_id db k")
    case None
    then show ?thesis using trackInvoice_no_row u by (metis snd_conv)
  next
    case (Some r)
    then show ?thesis
      using u track_rows_unique [OF u]
      by (simp add: trackInvoice_eq invoices_unique_def track_event_db_def Let_def)
  qed
  {
    fix r' db'
    assume ok: "trackInvoice db k ti now = (Inr r', db')"
    then obtain r where r: "invoice_by_id db k = Some r"
      using trackInvoice_no_row [of db k ti now] by (cases "invoice_by_id db k") auto
    with ok have nr: "\<not> track_refused r ti now" and r': "r' = track_set ti r now r"
      and rows: "invoices db' = track_invoice_rows db k ti r now"
      by (auto simp: trackInvoice_eq track_event_db_def Let_def split: if_splits)
    have "invoice_by_id db' k = Some r'"
      using track_rows_lookup [OF r nr] by (simp add: invoice_by_id_def rows r')
    then show "\<exists>r. invoice_by_id db k = Some r \<and>
        (\<forall>v. ti_expected_version ti = Some v \<longrightarrow> inv_version r = v) \<and>
        invoice_by_id db' k = Some r' \<and> inv_version r' = inv_version r + 1 \<and>
        (\<not> track_may_release ti \<longrightarrow> inv_claimed_by r' = inv_claimed_by r \<and>
           inv_claimed_until r' = inv_claimed_until r)"
      using r r' nr by (auto simp: track_refused_def track_may_release_def track_set_def Let_def)
    show "j \<noteq> k \<Longrightarrow> invoice_by_id db' j = invoice_by_id db j" for j
      by (simp add: invoice_by_id_def [of db'] rows track_rows_other)
  }
  show "trackInvoice db k ti now = (Inl e, db') \<Longrightarrow> db' = db" for e db'
    using trackInvoice_no_row [of db k ti now]
    by (cases "invoice_by_id db k") (auto simp: trackInvoice_eq split: if_splits)
qed simp

end
