(* ===== verification/InvoiceLifecycle.thy ===== *)
theory InvoiceLifecycle
  imports InvoiceQueue
begin

text \<open>
  The life of the invoice tables: the steps the server can take, the invariant of every
  reachable state, and what no step ever changes.
\<close>

section \<open>Creation in closed form\<close>

definition created_db :: "invoice_db \<Rightarrow> create_input \<Rightarrow> timestamp \<Rightarrow> invoice_db" where
  "created_db db ci now =
     insert_idempotency
       (log_event (db\<lparr>invoices := invoices db @ [new_invoice ci now]\<rparr>) (ci_invoice_id ci) Ev_Created
          (Pl_Activated (Some (ci_chain_id ci)) (Some (ci_token ci)) (Some (ci_selected_to ci)) (ci_invoice_address ci)) now)
       (ci_idempotency_key ci) (ci_invoice_id ci) now"

lemma new_invoice_id [simp]: "inv_id (new_invoice ci now) = ci_invoice_id ci"
  by (simp add: new_invoice_def)

lemma insert_idempotency_frame [simp]:
  "invoices (insert_idempotency db key i now) = invoices db"
  "events (insert_idempotency db key i now) = events db"
  "next_event_id (insert_idempotency db key i now) = next_event_id db"
  by (simp_all add: insert_idempotency_def)

lemma create_tx_eq:
  assumes "invoice_by_id db (ci_invoice_id ci) = None"
  shows "create_tx db ci now = Inr (new_invoice ci now, created_db db ci now)"
proof -
  have at_end: "find_by inv_id (ci_invoice_id ci) (invoices db @ [new_invoice ci now]) = Some (new_invoice ci now)"
    using assms by (simp add: invoice_by_id_def find_by_append)
  have "getInvoice (created_db db ci now) (ci_invoice_id ci) = Some (new_invoice ci now)"
    by (rule getInvoice_by_id) (simp add: created_db_def at_end)
  with assms addEvent_by_id [of "ci_invoice_id ci" "db\<lparr>invoices := invoices db @ [new_invoice ci now]\<rparr>"] at_end
  show ?thesis
    by (simp add: create_tx_def insert_unique_def invoice_by_id_def created_db_def)
qed

lemma getInvoice_None_by_id: "getInvoice db k = None \<Longrightarrow> invoice_by_id db k = None"
  by (simp add: getInvoice_def invoice_by_id_def split: option.splits)

lemma createInvoice_cases:
  obtains (refused) x where "createInvoice db ci now = (x, db)"
  | (created) "prior_invoice db (ci_idempotency_key ci) = None" "invoice_by_id db (ci_invoice_id ci) = None"
      "createInvoice db ci now = (Inr (new_invoice ci now, True),
         invoicePersist (created_db db ci now) ''invoice.created''
           (invoiceCreatedPersistPayload (new_invoice ci now)) (ci_invoice_id ci) now)"
proof (cases "prior_invoice db (ci_idempotency_key ci)")
  case None
  show ?thesis
  proof (cases "getInvoice db (ci_invoice_id ci)")
    case n: None
    note absent = getInvoice_None_by_id [OF n]
    show ?thesis
    proof (cases "truthy (pl_invoice_seed (ci_fields ci))")
      case True
      with None n absent created show ?thesis
        by (simp add: createInvoice_def create_tx_eq)
    next
      case False
      with None n refused show ?thesis by (simp add: createInvoice_def)
    qed
  next
    case Some
    with None refused show ?thesis by (simp add: createInvoice_def)
  qed
next
  case Some
  with refused show ?thesis by (simp add: createInvoice_def)
qed

lemma created_freshD:
  assumes "createInvoice db ci now = (Inr (r, True), db')"
  shows "prior_invoice db (ci_idempotency_key ci) = None" "invoice_by_id db (ci_invoice_id ci) = None"
    "db' = invoicePersist (created_db db ci now) ''invoice.created'' (invoiceCreatedPersistPayload (new_invoice ci now)) (ci_invoice_id ci) now"
proof -
  have n: "prior_invoice db (ci_idempotency_key ci) = None" "getInvoice db (ci_invoice_id ci) = None"
      "truthy (pl_invoice_seed (ci_fields ci))"
    using assms by (auto simp: createInvoice_def split: option.splits if_splits)
  note absent = getInvoice_None_by_id [OF n(2)]
  show "prior_invoice db (ci_idempotency_key ci) = None" "invoice_by_id db (ci_invoice_id ci) = None"
    using n absent by simp_all
  show "db' = invoicePersist (created_db db ci now) ''invoice.created'' (invoiceCreatedPersistPayload (new_invoice ci now)) (ci_invoice_id ci) now"
    using assms n by (auto simp: createInvoice_def create_tx_eq [OF absent])
qed

section \<open>Steps and reachable states\<close>

inductive server_step :: "invoice_db \<Rightarrow> invoice_db \<Rightarrow> bool" where
  create: "server_step db (snd (createInvoice db ci now))"
| claim: "server_step db (snd (claimInvoice db k sweeper v lease now))"
| track: "server_step db (snd (trackInvoice db k ti now))"
| payer: "server_step db (snd (setPayerFiat db k fiat now))"
| event: "addEvent db k kind payload now = Inr db' \<Longrightarrow> server_step db db'"

text \<open>
  A restore brings back a row of the persist log. The log's replay only produces rows whose
  times fit their status (shown in the theory of the replay).
\<close>

definition restore_ok :: "restore_input \<Rightarrow> bool" where
  "restore_ok ri = ((paid_like (ri_status ri) \<longrightarrow> ri_paid_at ri \<noteq> None) \<and>
                    (ri_status ri = Swept \<longrightarrow> ri_swept_at ri \<noteq> None))"

inductive reachable_invoices :: "invoice_db \<Rightarrow> bool" where
  start: "reachable_invoices (empty_invoice_db logging)"
| step: "reachable_invoices db \<Longrightarrow> server_step db db' \<Longrightarrow> reachable_invoices db'"
| restore: "reachable_invoices db \<Longrightarrow> restore_ok ri \<Longrightarrow>
    reachable_invoices (snd (restorePersistedInvoice db ri now))"

section \<open>The invariant\<close>

definition invoice_row_ok :: "invoice \<Rightarrow> bool" where
  "invoice_row_ok r =
     (1 \<le> inv_version r \<and>
      (paid_like (inv_status r) \<longrightarrow> inv_paid_at r \<noteq> None) \<and>
      (inv_status r = Swept \<longrightarrow> inv_swept_at r \<noteq> None \<and> inv_claimed_by r = None \<and> inv_claimed_until r = None))"

definition invoice_db_ok :: "invoice_db \<Rightarrow> bool" where
  "invoice_db_ok db =
     (invoices_unique db \<and>
      (\<forall>r \<in> set (invoices db). invoice_row_ok r) \<and>
      (\<forall>e \<in> set (events db). invoice_by_id db (ev_invoice_id e) \<noteq> None \<and> ev_id e < next_event_id db) \<and>
      sorted_wrt (<) (map ev_id (events db)) \<and>
      unique_on ik_key (idempotency_keys db) \<and>
      (\<forall>k \<in> set (idempotency_keys db). invoice_by_id db (ik_invoice_id k) \<noteq> None))"

lemma invoice_db_okD:
  assumes "invoice_db_ok db"
  shows "invoices_unique db" "\<And>r. r \<in> set (invoices db) \<Longrightarrow> invoice_row_ok r"
    "\<And>e. e \<in> set (events db) \<Longrightarrow> invoice_by_id db (ev_invoice_id e) \<noteq> None"
    "\<And>k. k \<in> set (idempotency_keys db) \<Longrightarrow> invoice_by_id db (ik_invoice_id k) \<noteq> None"
    "unique_on ik_key (idempotency_keys db)"
  using assms by (auto simp: invoice_db_ok_def)

lemma invoice_by_id_update [simp]:
  "invoice_by_id (log_event db k kind p now) j = invoice_by_id db j"
  "invoice_by_id (invoicePersist db ty q i now) j = invoice_by_id db j"
  "invoice_by_id (track_persist db ti st r now) j = invoice_by_id db j"
  "invoice_by_id (insert_idempotency db key i now) j = invoice_by_id db j"
  by (simp_all add: invoice_by_id_def)

lemma by_id_ok: "invoice_db_ok db \<Longrightarrow> invoice_by_id db k = Some r \<Longrightarrow> invoice_row_ok r \<and> inv_id r = k"
  using find_by_SomeD [of inv_id k "invoices db" r] by (auto simp: invoice_by_id_def invoice_db_ok_def)

text \<open>
  Two recipes carry the invariant through a step: replacing the rows by rows with the same
  ids, and appending an event for an existing row.
\<close>

lemma ok_rows:
  assumes ok: "invoice_db_ok db" and u: "unique_on inv_id rows"
    and rows: "\<And>r. r \<in> set rows \<Longrightarrow> invoice_row_ok r"
    and keep: "\<And>k. invoice_by_id db k \<noteq> None \<Longrightarrow> find_by inv_id k rows \<noteq> None"
  shows "invoice_db_ok (db\<lparr>invoices := rows\<rparr>)"
  using ok u rows keep by (auto simp: invoice_db_ok_def invoices_unique_def invoice_by_id_def)

lemma ok_log_event:
  assumes "invoice_db_ok db" "invoice_by_id db k \<noteq> None"
  shows "invoice_db_ok (log_event db k kind p now)"
  using assms by (auto simp: invoice_db_ok_def invoices_unique_def log_event_def invoice_by_id_def sorted_wrt_append less_Suc_eq)

lemma ok_invoicePersist [simp]: "invoice_db_ok (invoicePersist db ty p i now) = invoice_db_ok db"
  by (simp add: invoice_db_ok_def invoices_unique_def)

lemma ok_track_persist [simp]: "invoice_db_ok (track_persist db ti st r now) = invoice_db_ok db"
  by (simp add: invoice_db_ok_def invoices_unique_def)

lemma ok_idempotency:
  assumes "invoice_db_ok db" "invoice_by_id db i \<noteq> None"
  shows "invoice_db_ok (insert_idempotency db key i now)"
proof (cases key)
  case (Some s)
  have *: "invoice_by_id (db\<lparr>idempotency_keys := ks\<rparr>) j = invoice_by_id db j" for ks j
    by (simp add: invoice_by_id_def)
  from Some assms show ?thesis
    by (auto simp: insert_idempotency_def upsert_def invoice_db_ok_def invoices_unique_def *
        update_where_def unique_snoc)
qed (use assms in \<open>simp add: insert_idempotency_def\<close>)

lemma keep_update_where:
  assumes "\<And>r. P r \<Longrightarrow> inv_id (f r) = inv_id r" "invoice_by_id db k \<noteq> None"
  shows "find_by inv_id k (update_where P f (invoices db)) \<noteq> None"
  using find_by_update_where [of P inv_id f k "invoices db"] assms by (simp add: invoice_by_id_def)

lemma ok_update_where:
  assumes ok: "invoice_db_ok db" and id: "\<And>r. P r \<Longrightarrow> inv_id (f r) = inv_id r"
    and f: "\<And>r. r \<in> set (invoices db) \<Longrightarrow> P r \<Longrightarrow> invoice_row_ok r \<Longrightarrow> invoice_row_ok (f r)"
  shows "invoice_db_ok (db\<lparr>invoices := update_where P f (invoices db)\<rparr>)"
proof (rule ok_rows [OF ok])
  show "unique_on inv_id (update_where P f (invoices db))"
    using invoice_db_okD(1) [OF ok] id by (simp add: invoices_unique_def unique_update_where)
  show "r \<in> set (update_where P f (invoices db)) \<Longrightarrow> invoice_row_ok r" for r
    using invoice_db_okD(2) [OF ok] f by (auto simp: update_where_def)
  show "invoice_by_id db k \<noteq> None \<Longrightarrow> find_by inv_id k (update_where P f (invoices db)) \<noteq> None" for k
    by (rule keep_update_where) (use id in auto)
qed

lemma row_ok_claim: "claim_where w v now r \<Longrightarrow> invoice_row_ok r \<Longrightarrow> invoice_row_ok (claim_set w u now r)"
  by (auto simp: invoice_row_ok_def claim_where_def claimable_status_def)

lemma row_ok_track: "invoice_row_ok r \<Longrightarrow> invoice_row_ok (track_set ti r now r)"
  by (auto simp: invoice_row_ok_def track_set_def Let_def paid_like_def)

lemma row_ok_new: "invoice_row_ok (new_invoice ci now)"
  by (simp add: invoice_row_ok_def new_invoice_def paid_like_def)

lemma create_preserves:
  assumes ok: "invoice_db_ok db"
  shows "invoice_db_ok (snd (createInvoice db ci now))"
proof (cases rule: createInvoice_cases [of db ci now])
  case created
  have rows: "invoice_db_ok (db\<lparr>invoices := invoices db @ [new_invoice ci now]\<rparr>)"
  proof (rule ok_rows [OF ok])
    show "unique_on inv_id (invoices db @ [new_invoice ci now])"
      using invoice_db_okD(1) [OF ok] created(2)
      by (simp add: invoices_unique_def invoice_by_id_def unique_snoc)
    show "r \<in> set (invoices db @ [new_invoice ci now]) \<Longrightarrow> invoice_row_ok r" for r
      using invoice_db_okD(2) [OF ok] row_ok_new by auto
    show "invoice_by_id db k \<noteq> None \<Longrightarrow> find_by inv_id k (invoices db @ [new_invoice ci now]) \<noteq> None" for k
      by (auto simp: invoice_by_id_def find_by_append)
  qed
  have there: "invoice_by_id (db\<lparr>invoices := invoices db @ [new_invoice ci now]\<rparr>) (ci_invoice_id ci) \<noteq> None"
    by (auto simp: invoice_by_id_def find_by_append split: option.split)
  from created(3) rows there show ?thesis
    by (auto simp: created_db_def intro!: ok_idempotency ok_log_event)
qed (use ok in simp)

lemma claim_preserves:
  assumes ok: "invoice_db_ok db"
  shows "invoice_db_ok (snd (claimInvoice db k w v l now))"
proof -
  have "invoice_db_ok (db\<lparr>invoices := claim_invoice_rows db k w v l now\<rparr>)"
    unfolding claim_invoice_rows_def by (rule ok_update_where [OF ok]) (auto simp: row_ok_claim)
  moreover have "invoice_by_id (db\<lparr>invoices := claim_invoice_rows db k w v l now\<rparr>) k \<noteq> None"
    if "invoice_by_id db k = Some r" for r
    using keep_update_where [where P = "\<lambda>r. inv_id r = k \<and> claim_where w v now r" and f = "claim_set w (now + l) now", of db k] that
    by (simp add: claim_invoice_rows_def invoice_by_id_def)
  ultimately show ?thesis
    using ok by (auto simp: claimInvoice_eq [OF invoice_db_okD(1) [OF ok]] intro!: ok_log_event split: option.split)
qed

lemma track_preserves:
  assumes ok: "invoice_db_ok db"
  shows "invoice_db_ok (snd (trackInvoice db k ti now))"
proof (cases "invoice_by_id db k")
  case None
  then show ?thesis using trackInvoice_no_row [of db k ti now] ok by auto
next
  case (Some r)
  have the_row: "x = r" if "x \<in> set (invoices db)" "inv_id x = k" for x
    using that Some find_by_unique [of inv_id "invoices db" x] invoice_db_okD(1) [OF ok]
    by (simp add: invoices_unique_def invoice_by_id_def)
  have "invoice_db_ok (db\<lparr>invoices := track_invoice_rows db k ti r now\<rparr>)"
    unfolding track_invoice_rows_def
    by (rule ok_update_where [OF ok]) (auto dest!: the_row intro: row_ok_track)
  moreover have "invoice_by_id (db\<lparr>invoices := track_invoice_rows db k ti r now\<rparr>) k \<noteq> None" if "\<not> track_refused r ti now"
    using track_rows_lookup [OF Some that] by (simp add: invoice_by_id_def)
  ultimately show ?thesis
    using ok by (auto simp: trackInvoice_eq [OF Some] track_event_db_def Let_def intro!: ok_log_event)
qed

lemma payer_preserves:
  assumes ok: "invoice_db_ok db"
  shows "invoice_db_ok (snd (setPayerFiat db k fiat now))"
proof -
  have "invoice_db_ok (db\<lparr>invoices := update_where (\<lambda>r. inv_id r = k)
      (\<lambda>r. r\<lparr>inv_payer_fiat := Some (upper (trim fiat)), inv_updated_at := now\<rparr>) (invoices db)\<rparr>)"
    by (rule ok_update_where [OF ok]) (simp_all add: invoice_row_ok_def)
  then show ?thesis by (auto simp: setPayerFiat_def Let_def split: option.split)
qed

lemma addEvent_preserves:
  assumes "invoice_db_ok db" "addEvent db k kind p now = Inr db'"
  shows "invoice_db_ok db'"
  using assms ok_log_event [OF assms(1), of k kind p now]
  by (auto simp: addEvent_def invoice_by_id_def log_event_def split: if_splits)

lemma restore_preserves:
  assumes ok: "invoice_db_ok db" and ri: "restore_ok ri"
  shows "invoice_db_ok (snd (restorePersistedInvoice db ri now))"
proof -
  let ?new = "restored_row ri now"
  have new: "invoice_row_ok ?new" "inv_id ?new = ri_invoice_id ri"
    using ri by (simp_all add: restored_row_def invoice_row_ok_def restore_ok_def)
  have merged: "invoice_row_ok (restore_merge ?new r)" "inv_id (restore_merge ?new r) = inv_id r"
    if "invoice_row_ok r" for r
    using that ri by (auto simp: restore_merge_def restored_row_def invoice_row_ok_def restore_ok_def)
  have "invoice_db_ok (db\<lparr>invoices := upsert inv_id ?new (restore_merge ?new) (invoices db)\<rparr>)"
  proof (rule ok_rows [OF ok])
    show "unique_on inv_id (upsert inv_id ?new (restore_merge ?new) (invoices db))"
      using invoice_db_okD(1) [OF ok]
      by (auto simp: invoices_unique_def restore_merge_def intro!: unique_upsert)
    show "r \<in> set (upsert inv_id ?new (restore_merge ?new) (invoices db)) \<Longrightarrow> invoice_row_ok r" for r
      using invoice_db_okD(2) [OF ok] new merged by (auto simp: upsert_def update_where_def split: if_splits)
    show "invoice_by_id db k \<noteq> None \<Longrightarrow> find_by inv_id k (upsert inv_id ?new (restore_merge ?new) (invoices db)) \<noteq> None" for k
      using find_by_upsert [of inv_id ?new "restore_merge ?new" k "invoices db"]
      by (auto simp: invoice_by_id_def restore_merge_def split: if_splits)
  qed
  then show ?thesis by (auto simp: restorePersistedInvoice_def Let_def split: option.split)
qed

lemmas steps_preserve = create_preserves claim_preserves track_preserves payer_preserves

lemma server_step_preserves: "server_step db db' \<Longrightarrow> invoice_db_ok db \<Longrightarrow> invoice_db_ok db'"
  by (induction rule: server_step.induct) (auto intro: steps_preserve addEvent_preserves)

lemma empty_ok: "invoice_db_ok (empty_invoice_db logging)"
  by (simp add: empty_invoice_db_def invoice_db_ok_def invoices_unique_def)

lemma reachable_ok: "reachable_invoices db \<Longrightarrow> invoice_db_ok db"
  by (induction rule: reachable_invoices.induct)
    (auto intro: empty_ok server_step_preserves restore_preserves)

end
