(* ===== verification/InvoiceProps.thy ===== *)
theory InvoiceProps
  imports InvoiceLifecycle
begin

text \<open>
  The properties of the invoice tables, each with a witness on a small concrete database.
\<close>

section \<open>What a step keeps of a row\<close>

fun invoice_run :: "invoice_db \<Rightarrow> (string, address, track_input) lease_op list \<Rightarrow> invoice_db" where
  "invoice_run db [] = db"
| "invoice_run db (Claim_Op k w v l now # ps) = invoice_run (snd (claimInvoice db k w v l now)) ps"
| "invoice_run db (Track_Op k ti now # ps) = invoice_run (snd (trackInvoice db k ti now)) ps"

lemma invoice_run_queue: "sweeper_queue.run db ps = invoice_run db ps"
  by (induction db ps rule: invoice_run.induct) simp_all

definition row_succ :: "invoice \<Rightarrow> invoice \<Rightarrow> bool" where
  "row_succ r r' =
     (inv_terms r' = inv_terms r \<and> inv_created_at r' = inv_created_at r \<and>
      inv_pay_session_id r' = inv_pay_session_id r \<and> inv_version r \<le> inv_version r' \<and>
      (inv_paid_at r \<noteq> None \<longrightarrow> inv_paid_at r' = inv_paid_at r) \<and>
      (inv_swept_at r \<noteq> None \<longrightarrow> inv_swept_at r' = inv_swept_at r))"

lemma row_succ_refl [simp]: "row_succ r r"
  by (simp add: row_succ_def)

lemma row_succ_trans: "row_succ a b \<Longrightarrow> row_succ b c \<Longrightarrow> row_succ a c"
  by (auto simp: row_succ_def)

lemma row_succ_claim [simp]: "row_succ r (claim_set w u now r)"
  by (simp add: row_succ_def claim_set_def)

lemma row_succ_track [simp]: "row_succ r (track_set ti r now r)"
  by (auto simp: row_succ_def track_set_def Let_def)

lemma update_where_row:
  assumes "invoice_by_id db k = Some r" "\<And>x. P x \<Longrightarrow> inv_id (f x) = inv_id x"
    and "P r \<Longrightarrow> row_succ r (f r)"
  shows "\<exists>r'. find_by inv_id k (update_where P f (invoices db)) = Some r' \<and> row_succ r r'"
  using find_by_update_where [of P inv_id f k "invoices db"] assms by (auto simp: invoice_by_id_def)

lemma step_row:
  assumes "server_step db db'" "invoices_unique db" "invoice_by_id db k = Some r"
  shows "\<exists>r'. invoice_by_id db' k = Some r' \<and> row_succ r r'"
  using assms
proof (induction rule: server_step.induct)
  case (create db ci now)
  then show ?case
    by (cases rule: createInvoice_cases [of db ci now])
      (auto simp: created_db_def invoice_by_id_def find_by_append)
next
  case (claim db j w v l now)
  then have "\<exists>r'. find_by inv_id k (claim_invoice_rows db j w v l now) = Some r' \<and> row_succ r r'"
    unfolding claim_invoice_rows_def by (intro update_where_row) simp_all
  with claim show ?case
    by (auto simp: claimInvoice_eq invoice_by_id_def split: option.split)
next
  case (track db j ti now)
  show ?case
  proof (cases "invoice_by_id db j")
    case None
    then show ?thesis using trackInvoice_no_row [of db j ti now] track by auto
  next
    case (Some c)
    have "\<exists>r'. find_by inv_id k (track_invoice_rows db j ti c now) = Some r' \<and> row_succ r r'"
      unfolding track_invoice_rows_def
    proof (rule update_where_row [OF track(2)])
      assume P: "inv_id r = j \<and> (\<forall>v. ti_expected_version ti = Some v \<longrightarrow> inv_version r = v)"
      moreover have "inv_id r = k"
        using track(2) find_by_SomeD [of inv_id k "invoices db" r] by (simp add: invoice_by_id_def)
      ultimately have "c = r" using Some track(2) by simp
      then show "row_succ r (track_set ti c now r)" by simp
    qed simp
    with track Some show ?thesis
      by (auto simp: trackInvoice_eq track_event_db_def Let_def invoice_by_id_def)
  qed
next
  case (payer db j fiat now)
  have "\<exists>r'. find_by inv_id k (update_where (\<lambda>r. inv_id r = j)
      (\<lambda>r. r\<lparr>inv_payer_fiat := Some (upper (trim fiat)), inv_updated_at := now\<rparr>) (invoices db)) = Some r' \<and> row_succ r r'"
    by (rule update_where_row [OF payer(2)]) (simp_all add: row_succ_def)
  then show ?case by (auto simp: setPayerFiat_def Let_def invoice_by_id_def split: option.split)
next
  case (event db j kind payload now db')
  then show ?case by (auto simp: addEvent_def invoice_by_id_def split: if_splits)
qed

lemma steps_row:
  assumes "server_step\<^sup>*\<^sup>* db db'" "invoice_db_ok db" "invoice_by_id db k = Some r"
  shows "invoice_db_ok db' \<and> (\<exists>r'. invoice_by_id db' k = Some r' \<and> row_succ r r')"
  using assms
proof (induction rule: rtranclp_induct)
  case (step db1 db2)
  then obtain r1 where "invoice_db_ok db1" "invoice_by_id db1 k = Some r1" "row_succ r r1" by blast
  with step_row [OF step(2)] server_step_preserves [OF step(2)] invoice_db_okD(1) row_succ_trans
  show ?case by meson
qed simp

lemma step_idempotency_key:
  assumes "server_step db db'" "find_by ik_key key (idempotency_keys db) = Some x"
  shows "find_by ik_key key (idempotency_keys db') = Some x"
  using assms
proof (induction rule: server_step.induct)
  case (create db ci now)
  then show ?case
    by (cases rule: createInvoice_cases [of db ci now])
      (auto simp: created_db_def insert_idempotency_def log_event_def upsert_def update_where_def find_by_append)
next
  case (claim db j w v l now)
  then show ?case
    by (auto simp: claimInvoice_def Let_def addEvent_def split: option.split)
next
  case (track db j ti now)
  then show ?case
    by (auto simp: trackInvoice_def Let_def addEvent_def split: option.split)
next
  case (payer db j fiat now)
  then show ?case by (auto simp: setPayerFiat_def Let_def split: option.split)
next
  case (event db j kind payload now db')
  then show ?case by (auto simp: addEvent_def split: if_splits)
qed

lemma steps_idempotency_key:
  "server_step\<^sup>*\<^sup>* db db' \<Longrightarrow> find_by ik_key key (idempotency_keys db) = Some x \<Longrightarrow>
   find_by ik_key key (idempotency_keys db') = Some x"
  by (induction rule: rtranclp_induct) (auto dest: step_idempotency_key)

lemma prior_None_key_free:
  assumes "invoice_db_ok db" "prior_invoice db (Some key) = None" "key \<noteq> ''''"
  shows "find_by ik_key key (idempotency_keys db) = None"
proof (rule ccontr)
  assume "find_by ik_key key (idempotency_keys db) \<noteq> None"
  then obtain x where x: "find_by ik_key key (idempotency_keys db) = Some x" by auto
  then have "invoice_by_id db (ik_invoice_id x) \<noteq> None"
    using invoice_db_okD(4) [OF assms(1)] find_by_SomeD by fast
  with x assms(2,3) show False by (auto simp: prior_invoice_def getInvoice_def invoice_by_id_def)
qed

section \<open>A small database\<close>

definition demo_fields :: pay_link_fields where
  "demo_fields = \<lparr>pl_price = ''25.00'', pl_to = [''0xM''], pl_chains = [''8453''], pl_tokens = [''USDC''],
     pl_invoice_seed = Some ''seed'', pl_client_invoice_id = None, pl_callback = None, pl_title = None,
     pl_description = None, pl_allow_partial = False, pl_payment_mode = None, pl_display_fiat = None,
     pl_display_amount = None, pl_quote_country = None, pl_quote_payment_method = None,
     pl_quote_provider = None, pl_quote_slippage_bps = None, pl_lang = None\<rparr>"

definition demo_input :: create_input where
  "demo_input = \<lparr>ci_invoice_id = ''I1'', ci_fields = demo_fields, ci_chain_id = ''8453'', ci_token = ''USDC'',
     ci_selected_to = ''0xM'', ci_invoice_address = Some ''0xAB'', ci_pay_session_id = None,
     ci_idempotency_key = Some ''key''\<rparr>"

definition demo_db :: invoice_db where
  "demo_db = snd (createInvoice (empty_invoice_db True) demo_input 1000)"

definition demo_track :: "invoice_status option \<Rightarrow> int option \<Rightarrow> address option \<Rightarrow> track_input" where
  "demo_track st v w = \<lparr>ti_status = st, ti_amount_paid = None, ti_amount_swept = None,
     ti_fee_collected = None, ti_gas_spent_wei = None, ti_sweep_tx = None, ti_error = None,
     ti_payload = None, ti_expected_version = v, ti_sweeper = w\<rparr>"

lemma demo_db_reachable: "reachable_invoices demo_db"
  unfolding demo_db_def by (rule reachable_invoices.step [OF reachable_invoices.start server_step.create])

lemma demo_create:
  "createInvoice (empty_invoice_db True) demo_input 1000 = (Inr (new_invoice demo_input 1000, True), demo_db)"
  unfolding demo_db_def by code_simp

lemma demo_row: "invoice_by_id demo_db ''I1'' = Some (new_invoice demo_input 1000)"
  by code_simp

lemma demo_db_ok: "invoice_db_ok demo_db"
  by (rule reachable_ok [OF demo_db_reachable])

section \<open>Sweepers\<close>

text \<open>
  Operations of any sweepers on any invoices while a lease of length \<open>lease\<close> on \<open>k\<close> runs from
  \<open>t0\<close>: claims of \<open>k\<close> use the server's lease length and no track of \<open>k\<close> reports it swept.
\<close>

definition lease_traffic :: "string \<Rightarrow> int \<Rightarrow> timestamp \<Rightarrow> (string, address, track_input) lease_op list \<Rightarrow> bool" where
  "lease_traffic k lease t0 ps =
     (\<forall>p \<in> set ps. t0 \<le> op_now p \<and> op_now p \<le> t0 + lease \<and>
        (op_key p = k \<longrightarrow>
          (case p of Claim_Op _ _ _ l' _ \<Rightarrow> l' = lease
           | Track_Op _ ti _ \<Rightarrow> ti_status ti \<noteq> None \<and> ti_status ti \<noteq> Some Swept)))"

lemma lease_traffic_within: "lease_traffic k lease t0 ps \<Longrightarrow> \<forall>p \<in> set ps. sweeper_queue.within k lease t0 (t0 + lease) p"
  by (fastforce simp: lease_traffic_def sweeper_queue.within_def track_may_release_def split: lease_op.splits)

lemma claim_error_409:
  "invoices_unique db \<Longrightarrow> claimInvoice db k w v l now = (Inl e, db') \<Longrightarrow>
   e = Http_Error 409 ''Claim conflict'' (getInvoice db k)"
  by (auto simp: claimInvoice_eq split: option.splits if_splits)

lemma held_after_claim:
  assumes "reachable_invoices db" "claimInvoice db k a v lease t0 = (Inr r, db')" "lease_traffic k lease t0 ps"
  shows "invoices_unique (invoice_run db' ps) \<and> sweeper_queue.held (invoice_run db' ps) k a (t0 + lease)"
proof -
  have u: "invoices_unique db" by (rule invoice_db_okD(1) [OF reachable_ok [OF assms(1)]])
  have u': "invoices_unique db'" using sweeper_queue.claim_wf [OF u, of k a v lease t0] assms(2) by simp
  have "sweeper_queue.held db' k a (t0 + lease)"
    using sweeper_queue.claim_ok [OF u assms(2)] by (auto simp: sweeper_queue.held_def)
  with u' show ?thesis
    using sweeper_queue.held_run [OF u' _ lease_traffic_within [OF assms(3)]] sweeper_queue.run_wf [OF u', of ps]
    by (simp add: invoice_run_queue)
qed


definition demo_claimed :: invoice_db where
  "demo_claimed = snd (claimInvoice demo_db ''I1'' ''0xa'' 1 60000 2000)"

lemma demo_claim: "claimInvoice demo_db ''I1'' ''0xa'' 1 60000 2000 =
    (Inr (claim_set ''0xa'' 62000 2000 (new_invoice demo_input 1000)), demo_claimed)"
  unfolding demo_claimed_def by code_simp

definition demo_traffic :: "(string, address, track_input) lease_op list" where
  "demo_traffic = [Claim_Op ''I1'' ''0xb'' 2 60000 3000, Track_Op ''I1'' (demo_track (Some Paid) (Some 2) (Some ''0xa'')) 4000]"

lemma demo_traffic_ok: "lease_traffic ''I1'' 60000 2000 demo_traffic"
  by (simp add: lease_traffic_def demo_traffic_def demo_track_def)


text \<open>
  No lost update. A claim or a track that carries the version some earlier read returned
  is accepted only if the invoice still is the row that read returned.
\<close>

theorem accepted_version_means_untouched:
  assumes "reachable_invoices db" and "invoice_by_id db k = Some r"
    and "claimInvoice (invoice_run db ps) k w (inv_version r) l now = (Inr r', db') \<or>
         (trackInvoice (invoice_run db ps) k ti now = (Inr r', db') \<and> ti_expected_version ti = Some (inv_version r))"
  shows "invoice_by_id (invoice_run db ps) k = Some r"
  using sweeper_queue.accepted_version_untouched
    [OF invoice_db_okD(1) [OF reachable_ok [OF assms(1)]] assms(2), of ps w l now r' db' ti] assms(3)
  by (simp add: invoice_run_queue)

theorem accepted_version_means_untouched_witness:
  "invoice_by_id (invoice_run demo_db [Claim_Op ''I1'' ''0xb'' 7 60000 1500]) ''I1'' = Some (new_invoice demo_input 1000)"
proof (rule accepted_version_means_untouched [OF demo_db_reachable demo_row])
  show "claimInvoice (invoice_run demo_db [Claim_Op ''I1'' ''0xb'' 7 60000 1500]) ''I1'' ''0xa''
        (inv_version (new_invoice demo_input 1000)) 60000 2000 =
      (Inr (claim_set ''0xa'' 62000 2000 (new_invoice demo_input 1000)), demo_claimed) \<or>
     (trackInvoice (invoice_run demo_db [Claim_Op ''I1'' ''0xb'' 7 60000 1500]) ''I1'' (demo_track None None None) 2000 =
      (Inr (claim_set ''0xa'' 62000 2000 (new_invoice demo_input 1000)), demo_claimed) \<and>
      ti_expected_version (demo_track None None None) = Some (inv_version (new_invoice demo_input 1000)))"
    by (rule disjI1) code_simp
qed

text \<open>
  A sweep report is bound to the lease. While sweeper \<open>a\<close>'s lease is live, a report by a
  sweeper with another address (compared without regard to case) that the invoice was swept
  is answered 409 and changes nothing, whatever version it carries.
\<close>

theorem foreign_sweep_report_refused:
  assumes "reachable_invoices db"
    and "claimInvoice db k a v lease t0 = (Inr r, db')"
    and "lease_traffic k lease t0 ps"
    and "ti_status ti = Some Swept" and "ti_sweeper ti = Some b" and "b \<noteq> ''''" and "a \<noteq> ''''"
    and "lower b \<noteq> lower a" and "now < t0 + lease"
  shows "\<exists>m c. trackInvoice (invoice_run db' ps) k ti now = (Inl (Http_Error 409 m (Some c)), invoice_run db' ps) \<and>
    inv_claimed_by c = Some a"
proof -
  from held_after_claim [OF assms(1-3)] obtain c e where
    c: "invoice_by_id (invoice_run db' ps) k = Some c" "inv_claimed_by c = Some a"
       "inv_claimed_until c = Some e" "t0 + lease \<le> e"
    by (auto simp: sweeper_queue.held_def)
  with assms(4-9) have "track_refused c ti now"
    by (auto simp: track_refused_def claimed_by_another_def)
  with c show ?thesis by (auto simp: trackInvoice_eq)
qed

theorem foreign_sweep_report_refused_witness:
  "\<exists>m c. trackInvoice (invoice_run demo_claimed demo_traffic) ''I1''
      (demo_track (Some Swept) None (Some ''0xb'')) 5000 =
      (Inl (Http_Error 409 m (Some c)), invoice_run demo_claimed demo_traffic) \<and> inv_claimed_by c = Some ''0xa''"
  by (rule foreign_sweep_report_refused [OF demo_db_reachable demo_claim demo_traffic_ok, where b = "''0xb''"])
    (simp_all add: demo_track_def lower_def lower_char_def)

section \<open>History of an invoice\<close>

text \<open>
  C2. The invariant of the invoice tables, in every state the server can reach, restores from
  the persist log included: ids are unique, versions positive, a paid-like invoice has its
  payment time, a swept one its sweep time and no lease, events point at existing invoices
  with increasing ids, idempotency keys are unique and point at existing invoices.
\<close>

theorem reachable_invoice_db_ok: "reachable_invoices db \<Longrightarrow> invoice_db_ok db"
  by (rule reachable_ok)

theorem reachable_invoice_db_ok_witness: "invoice_db_ok (snd (claimInvoice demo_db ''I1'' ''0xa'' 1 60000 2000))"
  by (rule reachable_invoice_db_ok) (rule reachable_invoices.step [OF demo_db_reachable server_step.claim])

text \<open>
  C3. What is written once stays. However the server goes on, an invoice is never deleted,
  its commercial terms, creation time and pay session never change, its version never
  decreases, and a payment or sweep time once set is never overwritten.
\<close>

theorem invoice_history:
  assumes "reachable_invoices db" and "invoice_by_id db k = Some r" and "server_step\<^sup>*\<^sup>* db db'"
  shows "\<exists>r'. invoice_by_id db' k = Some r' \<and> inv_terms r' = inv_terms r \<and>
     inv_created_at r' = inv_created_at r \<and> inv_pay_session_id r' = inv_pay_session_id r \<and>
     inv_version r \<le> inv_version r' \<and>
     (inv_paid_at r = None \<or> inv_paid_at r' = inv_paid_at r) \<and>
     (inv_swept_at r = None \<or> inv_swept_at r' = inv_swept_at r)"
  using steps_row [OF assms(3) reachable_ok [OF assms(1)] assms(2)] by (auto simp: row_succ_def)

theorem invoice_history_witness:
  "\<exists>r'. invoice_by_id (invoice_run demo_claimed demo_traffic) ''I1'' = Some r' \<and>
     inv_terms r' = terms_of_input demo_input \<and> inv_paid_at r' = Some 4000 \<and> inv_version r' = 3"
proof -
  let ?db1 = "snd (claimInvoice demo_db ''I1'' ''0xa'' 1 60000 2000)"
  let ?db2 = "snd (claimInvoice ?db1 ''I1'' ''0xb'' 2 60000 3000)"
  let ?db3 = "snd (trackInvoice ?db2 ''I1'' (demo_track (Some Paid) (Some 2) (Some ''0xa'')) 4000)"
  have run: "invoice_run demo_claimed demo_traffic = ?db3"
    by (simp add: demo_claimed_def demo_traffic_def)
  have "server_step\<^sup>*\<^sup>* demo_db ?db3"
    by (meson server_step.claim server_step.track rtranclp.rtrancl_into_rtrancl rtranclp.rtrancl_refl)
  from invoice_history [OF demo_db_reachable demo_row this]
  obtain r' where r': "invoice_by_id (invoice_run demo_claimed demo_traffic) ''I1'' = Some r'"
      "inv_terms r' = inv_terms (new_invoice demo_input 1000)"
    by (auto simp: run)
  moreover have "map_option (\<lambda>r. (inv_paid_at r, inv_version r))
      (invoice_by_id (invoice_run demo_claimed demo_traffic) ''I1'') = Some (Some 4000, 3)"
    by code_simp
  ultimately show ?thesis by (simp add: new_invoice_def)
qed

section \<open>Creation\<close>

text \<open>
  C4. Creation is idempotent. Once a request with an idempotency key has created an invoice,
  every later request with that key, whatever the server did in between and whatever else
  the request says, returns that invoice, flags it as not created and changes nothing.
\<close>

theorem createInvoice_idempotent:
  assumes "reachable_invoices db"
    and "createInvoice db ci now = (Inr (r, True), db1)"
    and "ci_idempotency_key ci = Some key" and "key \<noteq> ''''"
    and "server_step\<^sup>*\<^sup>* db1 db2" and "ci_idempotency_key ci' = Some key"
  shows "\<exists>r2. createInvoice db2 ci' now' = (Inr (r2, False), db2) \<and>
    inv_id r2 = ci_invoice_id ci \<and> inv_terms r2 = terms_of_input ci"
proof -
  note ok = reachable_ok [OF assms(1)]
  have fresh: "prior_invoice db (Some key) = None" "invoice_by_id db (ci_invoice_id ci) = None"
    and made: "invoices db1 = invoices db @ [new_invoice ci now]"
      "idempotency_keys db1 = idempotency_keys (created_db db ci now)"
    using created_freshD [OF assms(2)] assms(3) by (simp_all add: created_db_def)
  have key: "find_by ik_key key (idempotency_keys db) = None"
    by (rule prior_None_key_free [OF ok fresh(1) assms(4)])
  have "find_by ik_key key (idempotency_keys db1) =
      Some \<lparr>ik_key = key, ik_invoice_id = ci_invoice_id ci, ik_created_at = now\<rparr>"
    using key assms(3,4) by (simp add: made created_db_def insert_idempotency_def upsert_def log_event_def find_by_append)
  note k2 = steps_idempotency_key [OF assms(5) this]
  have ok1: "invoice_db_ok db1" using create_preserves [OF ok, of ci now] assms(2) by simp
  have "invoice_by_id db1 (ci_invoice_id ci) = Some (new_invoice ci now)"
    using fresh(2) by (simp add: invoice_by_id_def made find_by_append)
  from steps_row [OF assms(5) ok1 this] obtain r2 where
    r2: "invoice_by_id db2 (ci_invoice_id ci) = Some r2" "row_succ (new_invoice ci now) r2" by blast
  have "prior_invoice db2 (Some key) = Some r2"
    using k2 r2(1) assms(4) by (simp add: prior_invoice_def invoice_by_id_def getInvoice_by_id)
  with r2 assms(6) show ?thesis
    using find_by_SomeD [of inv_id "ci_invoice_id ci" "invoices db2" r2]
    by (simp add: createInvoice_def invoice_by_id_def row_succ_def new_invoice_def)
qed

theorem createInvoice_idempotent_witness:
  "\<exists>r2. createInvoice demo_claimed (demo_input\<lparr>ci_invoice_id := ''I2'', ci_token := ''USDT''\<rparr>) 9000 =
      (Inr (r2, False), demo_claimed) \<and> inv_id r2 = ''I1'' \<and> inv_terms r2 = terms_of_input demo_input"
proof -
  have "server_step\<^sup>*\<^sup>* demo_db demo_claimed"
    unfolding demo_claimed_def by (rule r_into_rtranclp [of server_step, OF server_step.claim])
  from createInvoice_idempotent [OF reachable_invoices.start demo_create _ _ this,
      where ci' = "demo_input\<lparr>ci_invoice_id := ''I2'', ci_token := ''USDT''\<rparr>"]
  show ?thesis by (simp add: demo_input_def)
qed

text \<open>
  What creation does. A request with no earlier key, a fresh id and a seed creates exactly
  the row its fields describe: it awaits payment at version 1, one \<open>created\<close> event and one
  log entry are appended, no other invoice is touched. A request for an existing id is a
  409 carrying the existing invoice, and changes nothing.
\<close>

theorem createInvoice_spec:
  assumes "prior_invoice db (ci_idempotency_key ci) = None"
  shows "(case getInvoice db (ci_invoice_id ci) of
      Some r \<Rightarrow> createInvoice db ci now = (Inl (Http_Error 409 ''Invoice id already exists'' (Some r)), db)
    | None \<Rightarrow>
        if truthy (pl_invoice_seed (ci_fields ci))
        then \<exists>db'. createInvoice db ci now = (Inr (new_invoice ci now, True), db') \<and>
          invoices db' = invoices db @ [new_invoice ci now] \<and>
          map (\<lambda>e. (ev_invoice_id e, ev_kind e)) (events db') =
            map (\<lambda>e. (ev_invoice_id e, ev_kind e)) (events db) @ [(ci_invoice_id ci, Ev_Created)] \<and>
          (skip_persist_log db \<or> map_option (map pe_payload) (persist_log db') =
            map_option (\<lambda>l. map pe_payload l @ [invoiceCreatedPersistPayload (new_invoice ci now)]) (persist_log db))
        else createInvoice db ci now = (Inl (Http_Error 500 ''invoiceSeed is required'' None), db))"
proof (cases "getInvoice db (ci_invoice_id ci)")
  case None
  show ?thesis
  proof (cases "truthy (pl_invoice_seed (ci_fields ci))")
    case True
    have "createInvoice db ci now = (Inr (new_invoice ci now, True),
         invoicePersist (created_db db ci now) ''invoice.created''
           (invoiceCreatedPersistPayload (new_invoice ci now)) (ci_invoice_id ci) now)"
      using assms None True by (simp add: createInvoice_def create_tx_eq [OF getInvoice_None_by_id [OF None]])
    with None True show ?thesis
      by (auto simp: created_db_def log_event_def invoicePersist_def insert_idempotency_def comp_def split: option.split)
  qed (use assms None in \<open>simp add: createInvoice_def\<close>)
qed (use assms in \<open>simp add: createInvoice_def\<close>)

theorem createInvoice_spec_witness:
  "\<exists>db'. createInvoice demo_db (demo_input\<lparr>ci_invoice_id := ''I2'', ci_idempotency_key := None\<rparr>) 2000 =
     (Inr (new_invoice (demo_input\<lparr>ci_invoice_id := ''I2'', ci_idempotency_key := None\<rparr>) 2000, True), db') \<and>
     length (invoices db') = 2 \<and> length (events db') = 2"
proof -
  let ?ci = "demo_input\<lparr>ci_invoice_id := ''I2'', ci_idempotency_key := None\<rparr>"
  have "prior_invoice demo_db (ci_idempotency_key ?ci) = None" by (simp add: prior_invoice_def)
  note spec = createInvoice_spec [OF this, of 2000]
  have "getInvoice demo_db (ci_invoice_id ?ci) = None" "truthy (pl_invoice_seed (ci_fields ?ci))"
      "length (invoices demo_db) = 1" "length (events demo_db) = 1"
    by code_simp+
  with spec show ?thesis
    by (auto dest!: arg_cong [where f = length])
qed

section \<open>Reading by settlement address\<close>

text \<open>
  An invoice read by its settlement address cannot be worked by that address. The lookup
  answers with the newest such invoice, but every claim and every track is a 409 that
  carries it, it shows no events, adding one violates the foreign key, and setting the payer
  currency reports success without storing it; no call changes the tables.
\<close>

theorem address_lookup_is_read_only:
  assumes "reachable_invoices db" and "invoice_by_id db k = None" and "getInvoice db k = Some r"
  shows "claimInvoice db k w v l now = (Inl (Http_Error 409 ''Claim conflict'' (Some r)), db) \<and>
    (\<exists>m. trackInvoice db k ti now = (Inl (Http_Error 409 m (Some r)), db)) \<and>
    getEvents db k = [] \<and>
    addEvent db k kind payload now = Inl (Http_Error 500 ''FOREIGN KEY constraint failed'' None) \<and>
    setPayerFiat db k fiat now = (Inr r, db)"
proof (intro conjI)
  note ok = reachable_ok [OF assms(1)]
  have none: "\<And>x. x \<in> set (invoices db) \<Longrightarrow> inv_id x \<noteq> k"
    using assms(2) by (auto simp: invoice_by_id_def find_by_None_iff)
  then have ch: "changes (\<lambda>r. inv_id r = k \<and> Q r) (invoices db) = 0" for Q
    by (auto simp: changes_zero_iff)
  show "claimInvoice db k w v l now = (Inl (Http_Error 409 ''Claim conflict'' (Some r)), db)"
    using assms(2,3) by (simp add: claimInvoice_eq [OF invoice_db_okD(1) [OF ok]])
  show "\<exists>m. trackInvoice db k ti now = (Inl (Http_Error 409 m (Some r)), db)"
    using assms(3) ch by (auto simp: trackInvoice_def Let_def)
  have "ev_invoice_id e \<noteq> k" if "e \<in> set (events db)" for e
    using invoice_db_okD(3) [OF ok that] assms(2) by auto
  then have "filter (\<lambda>e. ev_invoice_id e = k) (events db) = []" by (simp add: filter_empty_conv)
  then show "getEvents db k = []" by (simp add: getEvents_def order_asc_def)
  show "addEvent db k kind payload now = Inl (Http_Error 500 ''FOREIGN KEY constraint failed'' None)"
    using assms(2) by (simp add: addEvent_def invoice_by_id_def)
  have "update_where (\<lambda>r. inv_id r = k) f (invoices db) = invoices db" for f
    using ch [of "\<lambda>_. True"] by (simp add: update_where_none)
  then show "setPayerFiat db k fiat now = (Inr r, db)"
    using assms(3) by (simp add: setPayerFiat_def Let_def)
qed

theorem address_lookup_is_read_only_witness:
  "(\<forall>r' db'. trackInvoice demo_db ''0xab'' (demo_track (Some Paid) None None) 5000 \<noteq> (Inr r', db')) \<and>
   setPayerFiat demo_db ''0xab'' ''eur'' 5000 = (Inr (new_invoice demo_input 1000), demo_db)"
proof -
  have "invoice_by_id demo_db ''0xab'' = None" "getInvoice demo_db ''0xab'' = Some (new_invoice demo_input 1000)"
    by code_simp+
  from address_lookup_is_read_only [OF demo_db_reachable this, of _ _ _ 5000 "demo_track (Some Paid) None None" Ev_Paid
      "Pl_Status Paid" "''eur''"]
  show ?thesis by auto
qed

section \<open>The work list\<close>

definition worker_eligible :: "invoice_status list \<Rightarrow> string list option \<Rightarrow> invoice \<Rightarrow> bool" where
  "worker_eligible statuses only r =
     (inv_status r \<in> set statuses \<and>
      (only = None \<or> only = Some [] \<or> (\<exists>cs c. only = Some cs \<and> tm_chain_id (inv_terms r) = Some c \<and> c \<in> set cs)))"

lemma listWorkerInvoices_eq:
  "listWorkerInvoices db statuses only =
     take 250 (order_asc inv_updated_at (filter (worker_eligible statuses only) (invoices db)))"
  unfolding listWorkerInvoices_def
  by (rule arg_cong [where f = "\<lambda>P. take 250 (order_asc inv_updated_at (filter P (invoices db)))"])
    (auto simp: worker_eligible_def fun_eq_iff split: option.split)

text \<open>
  The work list of the sweepers. It holds only invoices in the wanted statuses and on the
  wanted chains, at most 250 and oldest first; an invoice that qualifies but was left out
  is no older than any that was listed, so none starves while the others move on.
\<close>

theorem worker_list_fair:
  "(let l = listWorkerInvoices db statuses only in
    length l \<le> 250 \<and> sorted (map inv_updated_at l) \<and>
    (\<forall>r \<in> set l. r \<in> set (invoices db) \<and> worker_eligible statuses only r) \<and>
    (\<forall>r \<in> set (invoices db). worker_eligible statuses only r \<longrightarrow>
       r \<in> set l \<or> (length l = 250 \<and> (\<forall>x \<in> set l. inv_updated_at x \<le> inv_updated_at r))))"
proof -
  define q where "q = order_asc inv_updated_at (filter (worker_eligible statuses only) (invoices db))"
  have q: "set q = {r \<in> set (invoices db). worker_eligible statuses only r}" by (auto simp: q_def)
  have "sorted (map inv_updated_at (take 250 q))"
    using sorted_wrt_take [OF sorted_order_asc [of inv_updated_at]] by (simp add: q_def take_map)
  moreover have "r \<in> set (take 250 q) \<or> (length (take 250 q) = 250 \<and> (\<forall>x \<in> set (take 250 q). inv_updated_at x \<le> inv_updated_at r))"
    if "r \<in> set q" for r
  proof -
    have "r \<in> set (take 250 q) \<or> r \<in> set (drop 250 q)"
      using that by (metis Un_iff append_take_drop_id set_append)
    moreover have "250 < length q" if "r \<in> set (drop 250 q)"
      using that by (cases "250 < length q") auto
    ultimately show ?thesis
      using take_order_asc_le [of _ 250 inv_updated_at] by (auto simp: q_def)
  qed
  ultimately show ?thesis
    using q by (auto simp: listWorkerInvoices_eq q_def [symmetric] Let_def dest: in_set_takeD)
qed

theorem worker_list_fair_witness:
  "listWorkerInvoices demo_db default_worker_statuses None = [new_invoice demo_input 1000] \<and>
   new_invoice demo_input 1000 \<in> set (invoices demo_db)"
proof
  show l: "listWorkerInvoices demo_db default_worker_statuses None = [new_invoice demo_input 1000]"
    by code_simp
  show "new_invoice demo_input 1000 \<in> set (invoices demo_db)"
    using worker_list_fair [of demo_db default_worker_statuses None] by (simp add: l)
qed

end
