(* ===== verification/InvoiceReplay.thy ===== *)
theory InvoiceReplay
  imports InvoiceProps
begin

text \<open>
  Disaster recovery of invoices (commerce/server/invoice-persist-replay.ts): the invoice stream
  of the persist log is folded into one snapshot per invoice, and the snapshots are restored
  into a database. The snapshots are the list of the values of the JavaScript \<open>Map\<close>, in
  insertion order; setting a key that is there replaces its value in place.
\<close>

record invoice_snapshot =
  sn_id :: string
  sn_terms :: invoice_terms
  sn_status :: invoice_status
  sn_amount_paid :: string
  sn_amount_swept :: string
  sn_fee_collected :: string
  sn_gas_spent_wei :: string
  sn_sweep_tx :: "string option"
  sn_created_at :: "timestamp option"
  sn_paid_at :: "timestamp option"
  sn_swept_at :: "timestamp option"
  sn_saw_paid :: bool
  sn_saw_swept :: bool

text \<open>The terms a created event without any of its term fields is read as.\<close>

definition default_terms :: invoice_terms where
  "default_terms =
     \<lparr>tm_seed = '''', tm_client_invoice_id = '''', tm_price_usd = ''0'', tm_to_addresses = [],
      tm_selected_to = None, tm_chain_id = None, tm_token = None, tm_invoice_address = None,
      tm_title = None, tm_description = None, tm_callback_url = None, tm_allow_partial = False,
      tm_payment_mode = Crypto, tm_display_fiat = None, tm_display_amount = None,
      tm_quote_country = None, tm_quote_payment_method = None, tm_quote_provider = None,
      tm_quote_slippage_bps = None, tm_lang = None\<rparr>"

definition created_snapshot :: "invoice_payload persist_event \<Rightarrow> string \<Rightarrow> invoice_snapshot" where
  "created_snapshot e i =
     (let p = pe_payload e in
      \<lparr>sn_id = i, sn_terms = nullish (ip_terms p) default_terms, sn_status = Awaiting_Payment,
       sn_amount_paid = ''0'', sn_amount_swept = ''0'', sn_fee_collected = ''0'',
       sn_gas_spent_wei = ''0'', sn_sweep_tx = None,
       sn_created_at = Some (nullish (ip_created_at p) (pe_ts e)), sn_paid_at = None,
       sn_swept_at = None, sn_saw_paid = False, sn_saw_swept = False\<rparr>)"

definition snapshot_amounts :: "invoice_payload \<Rightarrow> invoice_snapshot \<Rightarrow> invoice_snapshot" where
  "snapshot_amounts p c =
     c\<lparr>sn_amount_paid := nullish (ip_amount_paid p) (sn_amount_paid c),
       sn_amount_swept := nullish (ip_amount_swept p) (sn_amount_swept c),
       sn_fee_collected := nullish (ip_fee_collected p) (sn_fee_collected c),
       sn_gas_spent_wei := nullish (ip_gas_spent_wei p) (sn_gas_spent_wei c)\<rparr>"

definition paid_snapshot :: "invoice_payload persist_event \<Rightarrow> invoice_snapshot \<Rightarrow> invoice_snapshot" where
  "paid_snapshot e c =
     (let p = pe_payload e in
      (snapshot_amounts p c)\<lparr>
        sn_status := (if nullish (ip_status p) Paid = Paid_Partial then Paid_Partial else Paid),
        sn_paid_at := Some (nullish (coalesce (ip_paid_at p) (sn_paid_at c)) (pe_ts e)),
        sn_saw_paid := True\<rparr>)"

definition swept_snapshot :: "invoice_payload persist_event \<Rightarrow> invoice_snapshot \<Rightarrow> invoice_snapshot" where
  "swept_snapshot e c =
     (let p = pe_payload e in
      (snapshot_amounts p c)\<lparr>
        sn_status := Swept,
        sn_sweep_tx := ip_sweep_tx p,
        sn_paid_at := Some (nullish (coalesce (ip_paid_at p) (sn_paid_at c)) (pe_ts e)),
        sn_swept_at := Some (nullish (ip_swept_at p) (pe_ts e)),
        sn_saw_paid := True, sn_saw_swept := True\<rparr>)"

definition applyInvoicePersistEvent :: "invoice_snapshot list \<Rightarrow> invoice_payload persist_event \<Rightarrow> invoice_snapshot list" where
  "applyInvoicePersistEvent st e =
     (let i = nullish (ip_invoice_id (pe_payload e)) '''' in
      if i = '''' then st
      else if pe_type e = ''invoice.created''
      then upsert sn_id (created_snapshot e i) (\<lambda>_. created_snapshot e i) st
      else if find_by sn_id i st = None then st
      else if pe_type e = ''invoice.paid'' then update_where (\<lambda>c. sn_id c = i) (paid_snapshot e) st
      else if pe_type e = ''invoice.swept'' then update_where (\<lambda>c. sn_id c = i) (swept_snapshot e) st
      else st)"

definition replayInvoicePersistState :: "invoice_payload persist_event list \<Rightarrow> invoice_snapshot list" where
  "replayInvoicePersistState es = fold (\<lambda>e st. applyInvoicePersistEvent st e) (filter (\<lambda>e. pe_stream e = ''invoice'') es) []"

definition restore_input_of :: "invoice_snapshot \<Rightarrow> restore_input" where
  "restore_input_of s =
     \<lparr>ri_invoice_id = sn_id s, ri_terms = sn_terms s, ri_status = sn_status s,
      ri_amount_paid = Some (sn_amount_paid s), ri_amount_swept = Some (sn_amount_swept s),
      ri_fee_collected = Some (sn_fee_collected s), ri_gas_spent_wei = Some (sn_gas_spent_wei s),
      ri_sweep_tx = sn_sweep_tx s, ri_created_at = sn_created_at s, ri_paid_at = sn_paid_at s,
      ri_swept_at = sn_swept_at s\<rparr>"

text \<open>The events that go with a restored invoice.\<close>

definition restored_events :: "invoice_snapshot \<Rightarrow> (event_kind \<times> event_payload) list" where
  "restored_events s =
     (let t = sn_terms s in
      [(Ev_Created, Pl_Restored (tm_chain_id t) (tm_token t) (tm_selected_to t) (tm_invoice_address t))] @
      (if sn_saw_paid s then [(Ev_Paid, Pl_Status (if sn_status s = Swept then Paid else sn_status s))] else []) @
      (if sn_saw_swept s then [(Ev_Swept, Pl_Swept (sn_sweep_tx s))] else []))"

fun add_events :: "invoice_db \<Rightarrow> string \<Rightarrow> (event_kind \<times> event_payload) list \<Rightarrow> timestamp \<Rightarrow> unit invoice_result \<times> invoice_db" where
  "add_events db k [] now = (Inr (), db)"
| "add_events db k ((kind, p) # es) now =
     (case addEvent db k kind p now of
        Inl e \<Rightarrow> (Inl e, db)
      | Inr db' \<Rightarrow> add_events db' k es now)"

fun restore_snapshots :: "invoice_snapshot list \<Rightarrow> timestamp \<Rightarrow> invoice_db \<Rightarrow> unit invoice_result \<times> invoice_db" where
  "restore_snapshots [] now db = (Inr (), db)"
| "restore_snapshots (s # ss) now db =
     (case restorePersistedInvoice db (restore_input_of s) now of
        (Inl e, db1) \<Rightarrow> (Inl e, db1)
      | (Inr r, db1) \<Rightarrow>
          (case add_events db1 (sn_id s) (restored_events s) now of
             (Inl e, db2) \<Rightarrow> (Inl e, db2)
           | (Inr _, db2) \<Rightarrow> restore_snapshots ss now db2))"

definition applyInvoicePersistStateToDb :: "invoice_db \<Rightarrow> invoice_snapshot list \<Rightarrow> timestamp \<Rightarrow> unit invoice_result \<times> invoice_db" where
  "applyInvoicePersistStateToDb db st now = runWithoutPersistLog (restore_snapshots st now) db"

section \<open>What the fold builds\<close>

abbreviation snapshot_of :: "invoice_snapshot list \<Rightarrow> string \<Rightarrow> invoice_snapshot option" where
  "snapshot_of st k \<equiv> find_by sn_id k st"

lemma snapshot_ids [simp]:
  "sn_id (created_snapshot e i) = i" "sn_id (paid_snapshot e c) = sn_id c" "sn_id (swept_snapshot e c) = sn_id c"
  by (simp_all add: created_snapshot_def paid_snapshot_def swept_snapshot_def snapshot_amounts_def Let_def)

lemma apply_event_unique:
  "unique_on sn_id st \<Longrightarrow> unique_on sn_id (applyInvoicePersistEvent st e)"
  by (auto simp: applyInvoicePersistEvent_def Let_def intro!: unique_upsert unique_update_where)

definition snapshot_ok :: "invoice_snapshot \<Rightarrow> bool" where
  "snapshot_ok s = (restore_ok (restore_input_of s) \<and> sn_id s \<noteq> '''')"

lemma snapshot_ok_steps:
  "i \<noteq> '''' \<Longrightarrow> snapshot_ok (created_snapshot e i)"
  "snapshot_ok c \<Longrightarrow> snapshot_ok (paid_snapshot e c)"
  "snapshot_ok c \<Longrightarrow> snapshot_ok (swept_snapshot e c)"
  by (simp_all add: snapshot_ok_def restore_ok_def restore_input_of_def created_snapshot_def
      paid_snapshot_def swept_snapshot_def snapshot_amounts_def Let_def paid_like_def)

lemma apply_event_ok:
  "\<forall>s \<in> set st. snapshot_ok s \<Longrightarrow> \<forall>s \<in> set (applyInvoicePersistEvent st e). snapshot_ok s"
  by (auto simp: applyInvoicePersistEvent_def Let_def upsert_def update_where_def snapshot_ok_steps)

lemma replay_append:
  "replayInvoicePersistState (es @ [e]) =
     (if pe_stream e = ''invoice'' then applyInvoicePersistEvent (replayInvoicePersistState es) e
      else replayInvoicePersistState es)"
  by (simp add: replayInvoicePersistState_def)

lemma replay_ok:
  "unique_on sn_id (replayInvoicePersistState es) \<and> (\<forall>s \<in> set (replayInvoicePersistState es). snapshot_ok s)"
proof (induction es rule: rev_induct)
  case (snoc e es)
  then show ?case by (auto simp: replay_append apply_event_unique dest: apply_event_ok)
qed (simp add: replayInvoicePersistState_def)

section \<open>The log keeps up with the tables\<close>

text \<open>
  A report is durable if it is one the server logs (no error, and the invoice ends paid,
  partially paid or swept), or if it leaves status and amounts as they are. Of the other
  reports the log says nothing: one that carries an error together with a new status, and
  one that puts an invoice back to awaiting payment.
\<close>

definition durable_track :: "track_input \<Rightarrow> invoice \<Rightarrow> bool" where
  "durable_track ti r =
     ((\<not> truthy (ti_error ti) \<and> paid_like (nullish (ti_status ti) (inv_status r))) \<or>
      (nullish (ti_status ti) (inv_status r) = inv_status r \<and> ti_amount_paid ti = None \<and>
       ti_amount_swept ti = None \<and> ti_fee_collected ti = None \<and> ti_gas_spent_wei ti = None \<and>
       ti_sweep_tx ti = None))"

inductive durable_step :: "invoice_db \<Rightarrow> invoice_db \<Rightarrow> bool" where
  create: "ci_invoice_id ci \<noteq> '''' \<Longrightarrow> durable_step db (snd (createInvoice db ci now))"
| claim: "durable_step db (snd (claimInvoice db k sweeper v lease now))"
| track: "(\<And>r. invoice_by_id db k = Some r \<Longrightarrow> durable_track ti r) \<Longrightarrow>
    durable_step db (snd (trackInvoice db k ti now))"
| payer: "durable_step db (snd (setPayerFiat db k fiat now))"
| event: "addEvent db k kind payload now = Inr db' \<Longrightarrow> durable_step db db'"

lemma durable_server_step: "durable_step db db' \<Longrightarrow> server_step db db'"
  by (induction rule: durable_step.induct) (auto intro: server_step.intros)

definition agrees :: "invoice_snapshot \<Rightarrow> invoice \<Rightarrow> bool" where
  "agrees s r =
     (inv_id r = sn_id s \<and> inv_terms r = sn_terms s \<and> inv_status r = sn_status s \<and>
      inv_amount_paid r = sn_amount_paid s \<and> inv_amount_swept r = sn_amount_swept s \<and>
      inv_fee_collected r = sn_fee_collected s \<and> inv_gas_spent_wei r = sn_gas_spent_wei s \<and>
      sn_created_at s = Some (inv_created_at r) \<and>
      sn_paid_at s = inv_paid_at r \<and> sn_swept_at s = inv_swept_at r \<and>
      (inv_status r = Swept \<longrightarrow> inv_sweep_tx r = sn_sweep_tx s))"

definition log_agrees :: "invoice_db \<Rightarrow> bool" where
  "log_agrees db =
     (\<not> skip_persist_log db \<and>
      (\<exists>l. persist_log db = Some l \<and>
        (\<forall>k. rel_option agrees (snapshot_of (replayInvoicePersistState l) k) (invoice_by_id db k))))"

lemma log_agreesI:
  assumes "log_agrees db" "persist_log db' = persist_log db" "skip_persist_log db' = skip_persist_log db"
    and "\<And>k s r. invoice_by_id db k = Some r \<Longrightarrow> agrees s r \<Longrightarrow> \<exists>r'. invoice_by_id db' k = Some r' \<and> agrees s r'"
    and "\<And>k. invoice_by_id db k = None \<Longrightarrow> invoice_by_id db' k = None"
  shows "log_agrees db'"
proof -
  from assms(1) obtain l where l: "persist_log db = Some l" "\<not> skip_persist_log db"
    and rel: "\<And>k. rel_option agrees (snapshot_of (replayInvoicePersistState l) k) (invoice_by_id db k)"
    by (auto simp: log_agrees_def)
  have "rel_option agrees (snapshot_of (replayInvoicePersistState l) k) (invoice_by_id db' k)" for k
  proof (cases "invoice_by_id db k")
    case None
    with rel [of k] assms(5) show ?thesis by simp
  next
    case (Some r)
    with rel [of k] obtain s where "snapshot_of (replayInvoicePersistState l) k = Some s" "agrees s r"
      by (auto simp: option_rel_Some2)
    with assms(4) [OF Some, of s] show ?thesis by (fastforce simp: option_rel_Some1)
  qed
  with l assms(2,3) show ?thesis by (simp add: log_agrees_def)
qed

lemma log_frames [simp]:
  "persist_log (log_event db k kind p now) = persist_log db"
  "skip_persist_log (log_event db k kind p now) = skip_persist_log db"
  "persist_log (insert_idempotency db key i now) = persist_log db"
  "skip_persist_log (insert_idempotency db key i now) = skip_persist_log db"
  by (simp_all add: log_event_def insert_idempotency_def)

text \<open>A logged event of invoice \<open>i\<close> changes the snapshot of \<open>i\<close> only.\<close>

lemma logged_event_agrees:
  assumes ag: "log_agrees db" and l: "persist_log db = Some l"
    and db': "persist_log db' = Some (l @ [e])" "\<not> skip_persist_log db'" "pe_stream e = ''invoice''"
    and i: "ip_invoice_id (pe_payload e) = Some i" "i \<noteq> ''''"
    and others: "\<And>k. k \<noteq> i \<Longrightarrow> invoice_by_id db' k = invoice_by_id db k"
    and here: "rel_option agrees (snapshot_of (applyInvoicePersistEvent (replayInvoicePersistState l) e) i) (invoice_by_id db' i)"
  shows "log_agrees db'"
proof -
  let ?st = "replayInvoicePersistState l"
  have "snapshot_of (applyInvoicePersistEvent ?st e) k = snapshot_of ?st k" if "k \<noteq> i" for k
  proof -
    have "find_by sn_id k (update_where (\<lambda>c. sn_id c = i) f ?st) = find_by sn_id k ?st"
      if "\<And>c. sn_id (f c) = sn_id c" for f
      using find_by_update_where [of "\<lambda>c. sn_id c = i" sn_id f k ?st] that \<open>k \<noteq> i\<close> find_by_SomeD [of sn_id k ?st]
      by (cases "find_by sn_id k ?st") auto
    moreover have "find_by sn_id k (upsert sn_id (created_snapshot e i) (\<lambda>_. created_snapshot e i) ?st) = find_by sn_id k ?st"
      using \<open>k \<noteq> i\<close> find_by_upsert [of sn_id "created_snapshot e i" "\<lambda>_. created_snapshot e i" k ?st] by simp
    ultimately show ?thesis using i by (simp add: applyInvoicePersistEvent_def)
  qed
  then have "rel_option agrees (snapshot_of (applyInvoicePersistEvent ?st e) k) (invoice_by_id db' k)" for k
    using here others [of k] ag l by (cases "k = i") (auto simp: log_agrees_def)
  with db' show ?thesis by (simp add: log_agrees_def replay_append)
qed

lemma agrees_created: "agrees (created_snapshot \<lparr>pe_ts = now, pe_stream = s, pe_type = t, pe_id = i,
    pe_payload = invoiceCreatedPersistPayload (new_invoice ci now)\<rparr> (ci_invoice_id ci)) (new_invoice ci now)"
  by (simp add: agrees_def created_snapshot_def invoiceCreatedPersistPayload_def new_invoice_def)

lemma agrees_paid:
  assumes "agrees s r" "invoice_row_ok r" "nullish (ti_status ti) (inv_status r) = st" "st = Paid \<or> st = Paid_Partial"
  shows "agrees (paid_snapshot \<lparr>pe_ts = now, pe_stream = x, pe_type = t, pe_id = i,
    pe_payload = invoiceStatusPersistPayload (track_set ti r now r)\<rparr> s) (track_set ti r now r)"
  using assms
  by (auto simp: agrees_def paid_snapshot_def snapshot_amounts_def invoiceStatusPersistPayload_def track_set_def
      Let_def paid_like_def)

lemma agrees_swept:
  assumes "agrees s r" "invoice_row_ok r" "nullish (ti_status ti) (inv_status r) = Swept"
  shows "agrees (swept_snapshot \<lparr>pe_ts = now, pe_stream = x, pe_type = t, pe_id = i,
    pe_payload = invoiceStatusPersistPayload (track_set ti r now r)\<rparr> s) (track_set ti r now r)"
  using assms
  by (auto simp: agrees_def swept_snapshot_def snapshot_amounts_def invoiceStatusPersistPayload_def track_set_def
      Let_def paid_like_def)

lemma agrees_quiet:
  assumes "agrees s r" "invoice_row_ok r" "nullish (ti_status ti) (inv_status r) = inv_status r"
    and "ti_amount_paid ti = None" "ti_amount_swept ti = None" "ti_fee_collected ti = None"
      "ti_gas_spent_wei ti = None" "ti_sweep_tx ti = None"
  shows "agrees s (track_set ti r now r)"
  using assms by (auto simp: agrees_def track_set_def Let_def invoice_row_ok_def)

lemma create_agrees:
  assumes ag: "log_agrees db" and i: "ci_invoice_id ci \<noteq> ''''"
  shows "log_agrees (snd (createInvoice db ci now))"
proof (cases rule: createInvoice_cases [of db ci now])
  case created
  let ?e = "\<lparr>pe_ts = now, pe_stream = ''invoice'', pe_type = ''invoice.created'', pe_id = ci_invoice_id ci,
    pe_payload = invoiceCreatedPersistPayload (new_invoice ci now)\<rparr>"
  let ?r = "new_invoice ci now"
  from ag obtain l where l: "persist_log db = Some l" "\<not> skip_persist_log db" by (auto simp: log_agrees_def)
  have frames: "persist_log (created_db db ci now) = persist_log db"
      "skip_persist_log (created_db db ci now) = skip_persist_log db"
      "invoices (created_db db ci now) = invoices db @ [?r]"
    by (simp_all add: created_db_def)
  have "log_agrees (invoicePersist (created_db db ci now) ''invoice.created''
      (invoiceCreatedPersistPayload ?r) (ci_invoice_id ci) now)"
  proof (rule logged_event_agrees [OF ag l(1), where e = ?e and i = "ci_invoice_id ci"])
    show "invoice_by_id (invoicePersist (created_db db ci now) ''invoice.created''
      (invoiceCreatedPersistPayload ?r) (ci_invoice_id ci) now) k = invoice_by_id db k" if "k \<noteq> ci_invoice_id ci" for k
      using that by (auto simp: invoice_by_id_def frames find_by_append split: option.split)
    have "invoice_by_id (created_db db ci now) (ci_invoice_id ci) = Some ?r"
      using created(2) by (simp add: invoice_by_id_def frames find_by_append)
    moreover have "snapshot_of (applyInvoicePersistEvent (replayInvoicePersistState l) ?e) (ci_invoice_id ci) =
        Some (created_snapshot ?e (ci_invoice_id ci))"
    proof -
      define c where "c = created_snapshot ?e (ci_invoice_id ci)"
      have "ip_invoice_id (pe_payload ?e) = Some (ci_invoice_id ci)" by (simp add: invoiceCreatedPersistPayload_def)
      then have "applyInvoicePersistEvent (replayInvoicePersistState l) ?e = upsert sn_id c (\<lambda>_. c) (replayInvoicePersistState l)"
        using i by (simp add: applyInvoicePersistEvent_def Let_def c_def)
      moreover have "sn_id c = ci_invoice_id ci" by (simp add: c_def)
      ultimately show ?thesis
        using find_by_upsert [of sn_id c "\<lambda>_. c" "ci_invoice_id ci" "replayInvoicePersistState l"]
        by (simp add: c_def split: option.split)
    qed
    ultimately show "rel_option agrees (snapshot_of (applyInvoicePersistEvent (replayInvoicePersistState l) ?e) (ci_invoice_id ci))
      (invoice_by_id (invoicePersist (created_db db ci now) ''invoice.created''
      (invoiceCreatedPersistPayload ?r) (ci_invoice_id ci) now) (ci_invoice_id ci))"
      by (simp add: agrees_created)
  qed (use l i frames in \<open>simp_all add: invoicePersist_def invoiceCreatedPersistPayload_def\<close>)
  with created show ?thesis by simp
qed (use ag in simp)

lemma claim_agrees:
  assumes "log_agrees db" "invoice_db_ok db"
  shows "log_agrees (snd (claimInvoice db k w v l now))"
proof (cases "\<exists>r. invoice_by_id db k = Some r \<and> claim_where w v now r")
  case True
  have "snd (claimInvoice db k w v l now) =
      log_event (db\<lparr>invoices := claim_invoice_rows db k w v l now\<rparr>) k Ev_Claimed (Pl_Claimed w (now + l)) now"
    using True by (auto simp: claimInvoice_eq [OF invoice_db_okD(1) [OF assms(2)]])
  moreover have "invoice_by_id (db\<lparr>invoices := claim_invoice_rows db k w v l now\<rparr>) j =
      map_option (\<lambda>r. if inv_id r = k \<and> claim_where w v now r then claim_set w (now + l) now r else r) (invoice_by_id db j)" for j
    unfolding invoice_by_id_def by (simp add: claim_invoice_rows_def find_by_update_where)
  ultimately show ?thesis
    by (intro log_agreesI [OF assms(1)]) (auto simp: agrees_def claim_set_def)
next
  case False
  then have "snd (claimInvoice db k w v l now) = db"
    by (auto simp: claimInvoice_eq [OF invoice_db_okD(1) [OF assms(2)]] split: option.split)
  with assms(1) show ?thesis by simp
qed

lemma payer_agrees:
  assumes "log_agrees db"
  shows "log_agrees (snd (setPayerFiat db k fiat now))"
proof -
  have "invoice_by_id (db\<lparr>invoices := update_where (\<lambda>r. inv_id r = k)
      (\<lambda>r. r\<lparr>inv_payer_fiat := Some (upper (trim fiat)), inv_updated_at := now\<rparr>) (invoices db)\<rparr>) j =
      map_option (\<lambda>r. if inv_id r = k then r\<lparr>inv_payer_fiat := Some (upper (trim fiat)), inv_updated_at := now\<rparr> else r)
        (invoice_by_id db j)" for j
    unfolding invoice_by_id_def by (simp add: find_by_update_where)
  then show ?thesis
    by (intro log_agreesI [OF assms(1)]) (auto simp: agrees_def setPayerFiat_def Let_def split: option.split)
qed

lemma by_id_track_event:
  assumes "invoice_by_id db k = Some r" "\<not> track_refused r ti now"
  shows "invoice_by_id (track_event_db db k ti r now) j = (if j = k then Some (track_set ti r now r) else invoice_by_id db j)"
  using track_rows_lookup [OF assms] track_rows_other [of j k db ti r now]
  by (auto simp: invoice_by_id_def track_event_db_def Let_def)

text \<open>A logged report: the snapshot of the invoice takes over what the row became.\<close>

lemma logged_track_agrees:
  assumes ag: "log_agrees db" and ok: "invoice_db_ok db" and r: "invoice_by_id db k = Some r"
    and st: "st = nullish (ti_status ti) (inv_status r)" "paid_like st" "\<not> truthy (ti_error ti)"
    and nr: "\<not> track_refused r ti now" and k: "k \<noteq> ''''"
  shows "log_agrees (track_persist (track_event_db db k ti r now) ti st (track_set ti r now r) now)"
proof -
  let ?r = "track_set ti r now r"
  have row: "invoice_row_ok r" "inv_id r = k" using by_id_ok [OF ok r] by simp_all
  from ag obtain l where l: "persist_log db = Some l" "\<not> skip_persist_log db" by (auto simp: log_agrees_def)
  obtain s where s: "snapshot_of (replayInvoicePersistState l) k = Some s" "agrees s r"
    using ag l(1) r by (auto simp: log_agrees_def option_rel_Some2 dest!: spec [of _ k])
  have frames: "persist_log (track_event_db db k ti r now) = persist_log db"
      "skip_persist_log (track_event_db db k ti r now) = skip_persist_log db"
      "invoices (track_event_db db k ti r now) = track_invoice_rows db k ti r now"
    by (simp_all add: track_event_db_def Let_def)
  define e where "e = \<lparr>pe_ts = now, pe_stream = ''invoice'', pe_type = (if st = Swept then ''invoice.swept'' else ''invoice.paid''),
      pe_id = inv_id ?r @ (if st = Swept then '':swept'' else '':paid''), pe_payload = invoiceStatusPersistPayload ?r\<rparr>"
  have e: "pe_stream e = ''invoice''" "ip_invoice_id (pe_payload e) = Some k" "pe_type e \<noteq> ''invoice.created''"
    using row by (auto simp: e_def invoiceStatusPersistPayload_def)
  have log: "track_persist (track_event_db db k ti r now) ti st ?r now =
      (track_event_db db k ti r now)\<lparr>persist_log := Some (l @ [e])\<rparr>"
    using st l frames by (auto simp: track_persist_def invoicePersist_def paid_like_def e_def)
  have rows: "invoice_by_id (track_persist (track_event_db db k ti r now) ti st ?r now) j =
      (if j = k then Some ?r else invoice_by_id db j)" for j
    by (simp add: by_id_track_event [OF r nr])
  let ?f = "if st = Swept then swept_snapshot e else paid_snapshot e"
  have "applyInvoicePersistEvent (replayInvoicePersistState l) e =
      update_where (\<lambda>c. sn_id c = k) ?f (replayInvoicePersistState l)"
    using e k s(1) by (simp add: applyInvoicePersistEvent_def Let_def) (simp add: e_def)
  then have snap: "snapshot_of (applyInvoicePersistEvent (replayInvoicePersistState l) e) k = Some (?f s)"
    using s(1) find_by_SomeD [OF s(1)] find_by_update_where [of "\<lambda>c. sn_id c = k" sn_id ?f k "replayInvoicePersistState l"]
    by simp
  have "agrees (?f s) ?r"
    using agrees_swept [OF s(2) row(1)] agrees_paid [OF s(2) row(1)] st
    by (auto simp: e_def paid_like_def)
  then show ?thesis
    using logged_event_agrees [OF ag l(1) _ _ e(1,2) k, of "track_persist (track_event_db db k ti r now) ti st ?r now"]
      rows snap l(2) frames by (simp add: log)
qed

lemma track_agrees:
  assumes ag: "log_agrees db" and ok: "invoice_db_ok db"
    and durable: "\<And>r. invoice_by_id db k = Some r \<Longrightarrow> durable_track ti r"
    and ids: "\<And>r. invoice_by_id db k = Some r \<Longrightarrow> k \<noteq> ''''"
  shows "log_agrees (snd (trackInvoice db k ti now))"
proof (cases "invoice_by_id db k")
  case None
  then show ?thesis using trackInvoice_no_row [of db k ti now] ag by auto
next
  case (Some r)
  have row: "invoice_row_ok r" "inv_id r = k" using by_id_ok [OF ok Some] by simp_all
  let ?st = "nullish (ti_status ti) (inv_status r)"
  consider "track_refused r ti now" | "\<not> track_refused r ti now" "\<not> truthy (ti_error ti)" "paid_like ?st"
    | "\<not> track_refused r ti now" "\<not> (\<not> truthy (ti_error ti) \<and> paid_like ?st)" by blast
  then show ?thesis
  proof cases
    case 1
    then show ?thesis using ag by (auto simp: trackInvoice_eq [OF Some])
  next
    case 2
    then show ?thesis
      using logged_track_agrees [OF ag ok Some refl, of ti now] ids [OF Some]
      by (auto simp: trackInvoice_eq [OF Some] track_refused_def)
  next
    case 3
    then have "track_persist (track_event_db db k ti r now) ti ?st (track_set ti r now r) now = track_event_db db k ti r now"
      by (auto simp: track_persist_def paid_like_def)
    moreover note rows = by_id_track_event [OF Some 3(1)]
    moreover have "agrees s (track_set ti r now r)" if "agrees s r" for s
      using agrees_quiet [OF that row(1)] durable [OF Some] 3 by (auto simp: durable_track_def)
    ultimately show ?thesis
      using 3(1) Some trackInvoice_eq [OF Some, of ti now]
      by (intro log_agreesI [OF ag])
        (auto simp: track_refused_def rows, simp_all add: track_event_db_def Let_def)
  qed
qed

lemma log_agrees_ids:
  assumes "log_agrees db" "invoice_by_id db k = Some r"
  shows "k \<noteq> ''''"
proof -
  from assms obtain l s where "snapshot_of (replayInvoicePersistState l) k = Some s"
    by (auto simp: log_agrees_def option_rel_Some2 dest!: spec [of _ k])
  then have "s \<in> set (replayInvoicePersistState l)" "sn_id s = k" by (auto dest: find_by_SomeD)
  with replay_ok [of l] show ?thesis by (auto simp: snapshot_ok_def)
qed

lemma durable_step_agrees:
  "durable_step db db' \<Longrightarrow> log_agrees db \<Longrightarrow> invoice_db_ok db \<Longrightarrow> log_agrees db'"
proof (induction rule: durable_step.induct)
  case (track db k ti now)
  then show ?case using track_agrees log_agrees_ids by blast
next
  case (event db k kind payload now db')
  from event(1) have "persist_log db' = persist_log db" "skip_persist_log db' = skip_persist_log db"
      "invoice_by_id db' j = invoice_by_id db j" for j
    by (auto simp: addEvent_def invoice_by_id_def split: if_splits)
  then show ?case by (intro log_agreesI [OF event(2)]) simp_all
qed (simp_all add: create_agrees claim_agrees payer_agrees)

lemma durable_run:
  assumes "durable_step\<^sup>*\<^sup>* (empty_invoice_db True) db"
  shows "invoice_db_ok db \<and> log_agrees db"
  using assms
proof (induction rule: rtranclp_induct)
  case base
  show ?case
    by (simp add: empty_ok) (simp add: log_agrees_def empty_invoice_db_def replayInvoicePersistState_def invoice_by_id_def)
next
  case (step db1 db2)
  then show ?case using durable_step_agrees server_step_preserves durable_server_step by blast
qed

section \<open>Restoring\<close>

lemma restored_row_id [simp]: "inv_id (restored_row ri now) = ri_invoice_id ri"
  by (simp add: restored_row_def)

lemma restore_merge_id [simp]: "inv_id (restore_merge new old) = inv_id old"
  by (simp add: restore_merge_def)

lemma restored_lookup:
  "find_by inv_id k (upsert inv_id (restored_row ri now) (restore_merge (restored_row ri now)) rows) =
     (if k = ri_invoice_id ri then Some (case find_by inv_id k rows of None \<Rightarrow> restored_row ri now
        | Some x \<Rightarrow> restore_merge (restored_row ri now) x)
      else find_by inv_id k rows)"
  by (subst find_by_upsert) simp_all

lemma restore_eq:
  "\<exists>r. restorePersistedInvoice db ri now = (Inr r, db\<lparr>invoices := upsert inv_id (restored_row ri now)
      (restore_merge (restored_row ri now)) (invoices db)\<rparr>)"
proof -
  define rows where "rows = upsert inv_id (restored_row ri now) (restore_merge (restored_row ri now)) (invoices db)"
  obtain r where "find_by inv_id (ri_invoice_id ri) rows = Some r"
    using restored_lookup [of "ri_invoice_id ri" ri now "invoices db"] by (auto simp: rows_def)
  then have "getInvoice (db\<lparr>invoices := rows\<rparr>) (ri_invoice_id ri) = Some r"
    by (simp add: getInvoice_by_id)
  then show ?thesis
    by (simp add: restorePersistedInvoice_def Let_def rows_def [symmetric])
qed

lemma add_events_ok:
  "find_by inv_id k (invoices db) \<noteq> None \<Longrightarrow>
   \<exists>db'. add_events db k es now = (Inr (), db') \<and> invoices db' = invoices db \<and>
     persist_log db' = persist_log db \<and> skip_persist_log db' = skip_persist_log db"
proof (induction es arbitrary: db)
  case (Cons p es)
  then obtain r where r: "find_by inv_id k (invoices db) = Some r" by auto
  obtain kind q where p: "p = (kind, q)" by force
  have "addEvent db k kind q now = Inr (log_event db k kind q now)" by (rule addEvent_by_id [OF r])
  with Cons.IH [of "log_event db k kind q now"] Cons.prems show ?case by (simp add: p)
qed simp

lemma restore_snapshots_ok:
  assumes "unique_on sn_id ss" "\<And>s. s \<in> set ss \<Longrightarrow> invoice_by_id db (sn_id s) = None"
  shows "\<exists>db'. restore_snapshots ss now db = (Inr (), db') \<and>
     (\<forall>k. invoice_by_id db' k = (case snapshot_of ss k of
        Some s \<Rightarrow> Some (restored_row (restore_input_of s) now) | None \<Rightarrow> invoice_by_id db k)) \<and>
     persist_log db' = persist_log db \<and> skip_persist_log db' = skip_persist_log db"
  using assms
proof (induction ss arbitrary: db)
  case (Cons s ss)
  let ?new = "restored_row (restore_input_of s) now"
  let ?db1 = "db\<lparr>invoices := upsert inv_id ?new (restore_merge ?new) (invoices db)\<rparr>"
  obtain r where r: "restorePersistedInvoice db (restore_input_of s) now = (Inr r, ?db1)"
    using restore_eq by blast
  have id: "ri_invoice_id (restore_input_of s) = sn_id s" by (simp add: restore_input_of_def)
  have lk1: "invoice_by_id ?db1 k = (if k = sn_id s then Some ?new else invoice_by_id db k)" for k
    using restored_lookup [of k "restore_input_of s" now "invoices db"] Cons.prems(2) [of s]
    by (simp add: invoice_by_id_def id)
  then obtain db2 where e: "add_events ?db1 (sn_id s) (restored_events s) now = (Inr (), db2)"
      "invoices db2 = invoices ?db1" "persist_log db2 = persist_log db" "skip_persist_log db2 = skip_persist_log db"
    using add_events_ok [of "sn_id s" ?db1 "restored_events s" now] by (auto simp: invoice_by_id_def)
  have lk2: "invoice_by_id db2 k = (if k = sn_id s then Some ?new else invoice_by_id db k)" for k
    using lk1 e(2) by (simp add: invoice_by_id_def)
  have fresh: "snapshot_of ss (sn_id s) = None" "unique_on sn_id ss"
    using Cons.prems(1) by (auto simp: unique_on_def find_by_None_iff image_iff)
  then have "invoice_by_id db2 (sn_id x) = None" if "x \<in> set ss" for x
    using that Cons.prems(2) lk2 by (auto simp: find_by_None_iff)
  with Cons.IH [OF fresh(2), of db2] obtain db3 where
    "restore_snapshots ss now db2 = (Inr (), db3)"
    "\<And>k. invoice_by_id db3 k = (case snapshot_of ss k of
        Some s \<Rightarrow> Some (restored_row (restore_input_of s) now) | None \<Rightarrow> invoice_by_id db2 k)"
    "persist_log db3 = persist_log db2" "skip_persist_log db3 = skip_persist_log db2" by blast
  with r e lk2 fresh show ?case by (auto split: option.split)
qed simp

text \<open>
  C5. Disaster recovery. After any run from an empty database in which every report is
  durable, folding the invoice stream of the persist log and restoring it into an empty
  database succeeds, logs nothing, and brings back exactly the invoices there were, each
  with its terms, status, amounts, creation, payment and sweep time (and sweep transaction,
  once swept), free of leases so that a restarted sweeper can claim it.
\<close>

theorem disaster_recovery:
  assumes "durable_step\<^sup>*\<^sup>* (empty_invoice_db True) db" and "persist_log db = Some l"
  shows "\<exists>db'. applyInvoicePersistStateToDb (empty_invoice_db logging) (replayInvoicePersistState l) now = (Inr (), db') \<and>
     persist_log db' = persist_log (empty_invoice_db logging) \<and> \<not> skip_persist_log db' \<and>
     (\<forall>k. case invoice_by_id db k of
        None \<Rightarrow> invoice_by_id db' k = None
      | Some r \<Rightarrow> \<exists>r'. invoice_by_id db' k = Some r' \<and> inv_terms r' = inv_terms r \<and> inv_status r' = inv_status r \<and>
          inv_amount_paid r' = inv_amount_paid r \<and> inv_amount_swept r' = inv_amount_swept r \<and>
          inv_fee_collected r' = inv_fee_collected r \<and> inv_gas_spent_wei r' = inv_gas_spent_wei r \<and>
          inv_created_at r' = inv_created_at r \<and> inv_paid_at r' = inv_paid_at r \<and> inv_swept_at r' = inv_swept_at r \<and>
          (inv_status r = Swept \<longrightarrow> inv_sweep_tx r' = inv_sweep_tx r) \<and>
          inv_claimed_by r' = None \<and> inv_claimed_until r' = None)"
proof -
  let ?ss = "replayInvoicePersistState l" and ?e = "(empty_invoice_db logging)\<lparr>skip_persist_log := True\<rparr>"
  have rel: "rel_option agrees (snapshot_of ?ss k) (invoice_by_id db k)" for k
    using durable_run [OF assms(1)] assms(2) by (simp add: log_agrees_def)
  have "invoice_by_id ?e k = None" for k by (simp add: empty_invoice_db_def invoice_by_id_def)
  note none = this
  obtain db1 where db1: "restore_snapshots ?ss now ?e = (Inr (), db1)" "persist_log db1 = persist_log ?e"
    and lk: "\<And>k. invoice_by_id db1 k = (case snapshot_of ?ss k of
        Some s \<Rightarrow> Some (restored_row (restore_input_of s) now) | None \<Rightarrow> invoice_by_id ?e k)"
    using restore_snapshots_ok [OF conjunct1 [OF replay_ok [of l]] none, of now] by blast
  have row: "case invoice_by_id db k of
        None \<Rightarrow> invoice_by_id db1 k = None
      | Some r \<Rightarrow> \<exists>s. invoice_by_id db1 k = Some (restored_row (restore_input_of s) now) \<and> agrees s r" for k
    using rel [of k] none [of k] by (auto simp: lk option_rel_Some1 option_rel_Some2 split: option.split)
  have "invoice_by_id (db1\<lparr>skip_persist_log := b\<rparr>) k = invoice_by_id db1 k" for b k
    by (simp add: invoice_by_id_def)
  note same = this
  define db' where "db' = db1\<lparr>skip_persist_log := False\<rparr>"
  have "applyInvoicePersistStateToDb (empty_invoice_db logging) ?ss now = (Inr (), db')"
    using db1(1) by (simp add: applyInvoicePersistStateToDb_def runWithoutPersistLog_def db'_def)
      (simp add: empty_invoice_db_def)
  moreover have "persist_log db' = persist_log (empty_invoice_db logging)" "\<not> skip_persist_log db'"
    using db1(2) by (simp_all add: db'_def)
  moreover have "case invoice_by_id db k of
        None \<Rightarrow> invoice_by_id db' k = None
      | Some r \<Rightarrow> \<exists>s. invoice_by_id db' k = Some (restored_row (restore_input_of s) now) \<and> agrees s r" for k
    unfolding db'_def same by (rule row)
  ultimately show ?thesis
    by (intro exI [of _ db'] conjI allI)
      (fastforce simp: agrees_def restored_row_def restore_input_of_def split: option.splits)+
qed

definition replay_db :: invoice_db where
  "replay_db =
     (let db1 = snd (createInvoice (empty_invoice_db True) demo_input 1000);
          db2 = snd (claimInvoice db1 ''I1'' ''0xa'' 1 60000 2000) in
      snd (trackInvoice db2 ''I1'' ((demo_track (Some Paid) (Some 2) (Some ''0xa''))\<lparr>ti_amount_paid := Some ''25''\<rparr>) 4000))"

lemma replay_db_durable: "durable_step\<^sup>*\<^sup>* (empty_invoice_db True) replay_db"
proof -
  have "durable_step db (snd (trackInvoice db ''I1'' ((demo_track (Some Paid) (Some 2) (Some ''0xa''))\<lparr>ti_amount_paid := Some ''25''\<rparr>) 4000))" for db
    by (rule durable_step.track) (simp add: durable_track_def demo_track_def paid_like_def)
  moreover have "durable_step db (snd (createInvoice db demo_input 1000))" for db
    by (rule durable_step.create) (simp add: demo_input_def)
  ultimately show ?thesis
    unfolding replay_db_def Let_def
    by (meson durable_step.claim rtranclp.rtrancl_into_rtrancl rtranclp.rtrancl_refl)
qed

theorem disaster_recovery_witness:
  "\<exists>l db'. persist_log replay_db = Some l \<and> length l = 2 \<and>
     applyInvoicePersistStateToDb (empty_invoice_db False) (replayInvoicePersistState l) 9000 = (Inr (), db') \<and>
     (\<exists>r'. invoice_by_id db' ''I1'' = Some r' \<and> inv_status r' = Paid \<and> inv_amount_paid r' = ''25'' \<and>
        inv_paid_at r' = Some 4000 \<and> inv_claimed_by r' = None)"
proof -
  have "map_option length (persist_log replay_db) = Some 2" by code_simp
  then obtain l where l: "persist_log replay_db = Some l" "length l = 2" by auto
  have "map_option (\<lambda>r. (inv_status r, inv_amount_paid r, inv_paid_at r)) (invoice_by_id replay_db ''I1'') =
      Some (Paid, ''25'', Some 4000)" by code_simp
  then obtain r where "invoice_by_id replay_db ''I1'' = Some r"
      "inv_status r = Paid" "inv_amount_paid r = ''25''" "inv_paid_at r = Some 4000" by auto
  with l disaster_recovery [OF replay_db_durable l(1), of False 9000] show ?thesis
    by (fastforce dest: spec [of _ "''I1''"])
qed

section \<open>Replay of any log into any database\<close>

lemma add_events_preserves:
  "invoice_db_ok db \<Longrightarrow> invoice_db_ok (snd (add_events db k es now))"
  by (induction db k es now rule: add_events.induct) (auto split: sum.split intro: addEvent_preserves)

lemma restore_snapshots_preserves:
  "invoice_db_ok db \<Longrightarrow> \<forall>s \<in> set ss. snapshot_ok s \<Longrightarrow>
   \<exists>db'. restore_snapshots ss now db = (Inr (), db') \<and> invoice_db_ok db'"
proof (induction ss arbitrary: db)
  case (Cons s ss)
  let ?new = "restored_row (restore_input_of s) now"
  let ?db1 = "db\<lparr>invoices := upsert inv_id ?new (restore_merge ?new) (invoices db)\<rparr>"
  obtain r where r: "restorePersistedInvoice db (restore_input_of s) now = (Inr r, ?db1)"
    using restore_eq by blast
  have ok1: "invoice_db_ok ?db1"
    using restore_preserves [OF Cons.prems(1), of "restore_input_of s" now] Cons.prems(2) r
    by (simp add: snapshot_ok_def)
  have "find_by inv_id (sn_id s) (invoices ?db1) \<noteq> None"
    using restored_lookup [of "sn_id s" "restore_input_of s" now "invoices db"] by (simp add: restore_input_of_def)
  from add_events_ok [OF this, of "restored_events s" now] obtain db2 where
    "add_events ?db1 (sn_id s) (restored_events s) now = (Inr (), db2)" by blast
  moreover from this have "invoice_db_ok db2"
    using add_events_preserves [OF ok1, of "sn_id s" "restored_events s" now] by simp
  ultimately show ?case using Cons.IH [of db2] Cons.prems(2) r by simp
qed simp

text \<open>
  Replay is safe on any log. Whatever events a log holds (a truncated log, events of
  unknown type, payments of invoices that were never created, several logs one after the
  other), replaying it into any consistent database succeeds and leaves it consistent.
\<close>

theorem replay_any_log_safe:
  assumes "invoice_db_ok db"
  shows "\<exists>db'. applyInvoicePersistStateToDb db (replayInvoicePersistState es) now = (Inr (), db') \<and> invoice_db_ok db'"
proof -
  have flag: "invoice_db_ok (d\<lparr>skip_persist_log := b\<rparr>) = invoice_db_ok d" for d b
    by (simp add: invoice_db_ok_def invoices_unique_def invoice_by_id_def)
  from restore_snapshots_preserves [of "db\<lparr>skip_persist_log := True\<rparr>" "replayInvoicePersistState es" now]
    obtain db1 where "restore_snapshots (replayInvoicePersistState es) now (db\<lparr>skip_persist_log := True\<rparr>) = (Inr (), db1)"
      "invoice_db_ok db1"
    using assms replay_ok [of es] flag by auto
  then show ?thesis
    by (simp add: applyInvoicePersistStateToDb_def runWithoutPersistLog_def flag)
qed

theorem replay_any_log_safe_witness:
  "\<exists>db'. applyInvoicePersistStateToDb demo_db (replayInvoicePersistState
     [\<lparr>pe_ts = 1, pe_stream = ''invoice'', pe_type = ''invoice.swept'', pe_id = ''x'',
        pe_payload = invoiceStatusPersistPayload (new_invoice demo_input 1000)\<rparr>]) 5000 = (Inr (), db') \<and> invoice_db_ok db'"
  by (rule replay_any_log_safe [OF demo_db_ok])

end
