(* ===== verification/PersistLog.thy ===== *)
theory PersistLog
  imports Invoices Decimals "HOL-Library.Char_ord" "HOL-Library.List_Lexorder"
begin

text \<open>
  The persist log on disk (commerce/server/persist-log.ts): one directory per stream with the
  active file \<open>wal.ndjson\<close>, one JSON line per event, and sealed segments
  \<open>seg-000001.ndjson.gz\<close>, \<open>seg-000002.ndjson.gz\<close>, .. The directory is a record of its files;
  a file's text is a string, and its size the length of the text.

  JSON and gzip are parameters (\<open>log_env\<close>); what the log relies on is \<open>log_env_ok\<close>: parsing
  gives back what was printed, a printed event is one non-blank line, and unpacking gives
  back what was packed.
\<close>

record 'p log_env =
  le_stringify :: "'p persist_event \<Rightarrow> string"
  le_parse :: "string \<Rightarrow> 'p persist_event option"
  le_gzip :: "string \<Rightarrow> string"
  le_gunzip :: "string \<Rightarrow> string"

definition log_env_ok :: "'p log_env \<Rightarrow> bool" where
  "log_env_ok env =
     ((\<forall>e. le_parse env (le_stringify env e) = Some e \<and> newline \<notin> set (le_stringify env e) \<and>
           trim (le_stringify env e) = le_stringify env e \<and> le_stringify env e \<noteq> '''') \<and>
      (\<forall>s. le_gunzip env (le_gzip env s) = s))"

record log_dir =
  ld_segs :: "(string \<times> string) list"
  ld_wal :: "string option"
  ld_wal_mtime :: timestamp
  ld_rotating :: "string option"

definition empty_log_dir :: log_dir where
  "empty_log_dir = \<lparr>ld_segs = [], ld_wal = None, ld_wal_mtime = 0, ld_rotating = None\<rparr>"

definition DEFAULT_ROTATE_BYTES :: nat where
  "DEFAULT_ROTATE_BYTES = 8 * 1024 * 1024"

definition DEFAULT_ROTATE_SEC :: int where
  "DEFAULT_ROTATE_SEC = 60"

section \<open>Segment names\<close>

definition seg_name :: "nat \<Rightarrow> string" where
  "seg_name n = ''seg-'' @ pad_start 6 (CHR ''0'') (dec n) @ ''.ndjson.gz''"

text \<open>The match of \<open>^seg-(\d+)\.ndjson\.gz$\<close>.\<close>

definition seg_number :: "string \<Rightarrow> nat option" where
  "seg_number name =
     (let mid = drop 4 (take (length name - 10) name) in
      if take 4 name = ''seg-'' \<and> 14 \<le> length name \<and> drop (length name - 10) name = ''.ndjson.gz'' \<and>
         mid \<noteq> '''' \<and> (\<forall>c \<in> set mid. is_digit c)
      then Some (number_of mid) else None)"

definition max_seg :: "(string \<times> string) list \<Rightarrow> nat" where
  "max_seg segs = fold (\<lambda>f m. max m (nullish (seg_number (fst f)) 0)) segs 0"

section \<open>Appending and sealing\<close>

text \<open>
  The file operations of \<open>sealSync\<close>, in order: rename the active file (over any left-over
  \<open>wal.rotating\<close>), write the packed segment, remove \<open>wal.rotating\<close>, start an empty active file.
\<close>

definition seal_steps :: "'p log_env \<Rightarrow> log_dir \<Rightarrow> (log_dir \<Rightarrow> log_dir) list" where
  "seal_steps env d0 =
     [(\<lambda>d. d\<lparr>ld_wal := None, ld_rotating := ld_wal d\<rparr>),
      (\<lambda>d. d\<lparr>ld_segs := upsert fst (seg_name (max_seg (ld_segs d0) + 1), le_gzip env (nullish (ld_rotating d) ''''))
               (\<lambda>_. (seg_name (max_seg (ld_segs d0) + 1), le_gzip env (nullish (ld_rotating d) ''''))) (ld_segs d)\<rparr>),
      (\<lambda>d. d\<lparr>ld_rotating := None\<rparr>),
      (\<lambda>d. d\<lparr>ld_wal := Some ''''\<rparr>)]"

text \<open>\<open>sealSync\<close> cut off after \<open>n\<close> of its file operations.\<close>

definition seal_until :: "'p log_env \<Rightarrow> nat \<Rightarrow> log_dir \<Rightarrow> log_dir" where
  "seal_until env n d =
     (if opt_all (\<lambda>s. s = '''') (ld_wal d) then d
      else fold (\<lambda>f d. f d) (take n (seal_steps env d)) d)"

definition sealSync :: "'p log_env \<Rightarrow> log_dir \<Rightarrow> log_dir" where
  "sealSync env d = seal_until env 4 d"

text \<open>The clock is read after the write; the file's modification time is the write's.\<close>

definition maybeSealSync :: "'p log_env \<Rightarrow> log_dir \<Rightarrow> timestamp \<Rightarrow> log_dir" where
  "maybeSealSync env d now =
     (case ld_wal d of
        None \<Rightarrow> d
      | Some s \<Rightarrow>
          if s = '''' then d
          else if length s < DEFAULT_ROTATE_BYTES \<and> now - ld_wal_mtime d < DEFAULT_ROTATE_SEC * 1000 then d
          else sealSync env d)"

definition append_line :: "'p log_env \<Rightarrow> log_dir \<Rightarrow> 'p persist_event \<Rightarrow> timestamp \<Rightarrow> log_dir" where
  "append_line env d e written =
     d\<lparr>ld_wal := Some (nullish (ld_wal d) '''' @ le_stringify env e @ [newline]), ld_wal_mtime := written\<rparr>"

definition appendSync :: "'p log_env \<Rightarrow> log_dir \<Rightarrow> 'p persist_event \<Rightarrow> timestamp \<Rightarrow> timestamp \<Rightarrow> log_dir" where
  "appendSync env d e written now = maybeSealSync env (append_line env d e written) now"

section \<open>Reading\<close>

definition log_lines :: "string \<Rightarrow> string list" where
  "log_lines text = filter (\<lambda>l. l \<noteq> '''') (map trim (split_on newline text))"

text \<open>
  A line that does not parse throws. In a segment that ends the whole read; in the active
  file the surrounding \<open>catch\<close> swallows it and the read ends there, quietly.
\<close>

fun parse_all :: "'p log_env \<Rightarrow> string list \<Rightarrow> 'p persist_event list option" where
  "parse_all env [] = Some []"
| "parse_all env (l # ls) =
     (case le_parse env l of
        None \<Rightarrow> None
      | Some e \<Rightarrow> (case parse_all env ls of None \<Rightarrow> None | Some es \<Rightarrow> Some (e # es)))"

fun parse_until_error :: "'p log_env \<Rightarrow> string list \<Rightarrow> 'p persist_event list" where
  "parse_until_error env [] = []"
| "parse_until_error env (l # ls) =
     (case le_parse env l of None \<Rightarrow> [] | Some e \<Rightarrow> e # parse_until_error env ls)"

definition is_seg_file :: "string \<Rightarrow> bool" where
  "is_seg_file n = (take 4 n = ''seg-'' \<and> 10 \<le> length n \<and> drop (length n - 10) n = ''.ndjson.gz'')"

fun read_segs :: "'p log_env \<Rightarrow> (string \<times> string) list \<Rightarrow> string list \<Rightarrow> 'p persist_event list option" where
  "read_segs env segs [] = Some []"
| "read_segs env segs (n # ns) =
     (case find_by fst n segs of
        None \<Rightarrow> None
      | Some f \<Rightarrow>
          (case parse_all env (log_lines (le_gunzip env (snd f))) of
             None \<Rightarrow> None
           | Some es \<Rightarrow> (case read_segs env segs ns of None \<Rightarrow> None | Some rest \<Rightarrow> Some (es @ rest))))"

definition collectPersistEvents :: "'p log_env \<Rightarrow> log_dir \<Rightarrow> 'p persist_event list option" where
  "collectPersistEvents env d =
     (case read_segs env (ld_segs d) (sort (filter is_seg_file (map fst (ld_segs d)))) of
        None \<Rightarrow> None
      | Some es \<Rightarrow>
          (case ld_wal d of
             None \<Rightarrow> Some es
           | Some text \<Rightarrow> Some (es @ parse_until_error env (log_lines text))))"

section \<open>Names sort as their numbers\<close>

lemma digit_less_iff: "a < 10 \<Longrightarrow> b < 10 \<Longrightarrow> digit a < digit b \<longleftrightarrow> a < b"
  by (simp add: less_char_def)

lemma append_less_same_length:
  fixes a b :: string
  shows "length a = length b \<Longrightarrow> a @ x < b @ y \<longleftrightarrow> a < b \<or> (a = b \<and> x < y)"
  by (induction a b rule: list_induct2) (auto simp: Cons_less_Cons)

lemma fixed_less: "m < n \<Longrightarrow> n < 10 ^ k \<Longrightarrow> fixed k m < fixed k n"
proof (induction k arbitrary: m n)
  case (Suc k)
  have "m div 10 \<le> n div 10" using Suc.prems(1) by (simp add: div_le_mono)
  moreover have "m mod 10 < n mod 10" if "m div 10 = n div 10"
    using that Suc.prems(1) mult_div_mod_eq [of 10 m] mult_div_mod_eq [of 10 n] by linarith
  ultimately have d: "m div 10 < n div 10 \<or> (m div 10 = n div 10 \<and> m mod 10 < n mod 10)"
    by linarith
  have "n div 10 < 10 ^ k" using Suc.prems(2) by (simp add: less_mult_imp_div_less)
  with Suc.IH d show ?case
    by (auto simp: append_less_same_length Cons_less_Cons digit_less_iff)
qed simp

lemma seg_name_eq: "n < 10 ^ 6 \<Longrightarrow> seg_name n = ''seg-'' @ fixed 6 n @ ''.ndjson.gz''"
  using pad_dec [of n 6] by (simp add: seg_name_def)

lemma seg_name_less: "m < n \<Longrightarrow> n < 10 ^ 6 \<Longrightarrow> seg_name m < seg_name n"
  using fixed_less [of m n 6]
  by (simp add: seg_name_eq append_less_same_length del: append_Cons append_Nil)

lemma seg_number_name: "n < 10 ^ 6 \<Longrightarrow> seg_number (seg_name n) = Some n"
  using number_of_fixed [of n 6] is_digit_fixed [of _ 6 n] length_fixed [of 6 n]
  by (auto simp: seg_number_def seg_name_eq Let_def simp del: fixed.simps length_fixed)

lemma is_seg_file_name: "n < 10 ^ 6 \<Longrightarrow> is_seg_file (seg_name n)"
  using length_fixed [of 6 n] by (simp add: is_seg_file_def seg_name_eq del: length_fixed)

section \<open>Texts and lines\<close>

definition log_text :: "'p log_env \<Rightarrow> 'p persist_event list \<Rightarrow> string" where
  "log_text env es = concat (map (\<lambda>e. le_stringify env e @ [newline]) es)"

lemma log_text_simps [simp]:
  "log_text env [] = []"
  "log_text env (e # es) = le_stringify env e @ newline # log_text env es"
  "log_text env (es @ es') = log_text env es @ log_text env es'"
  by (simp_all add: log_text_def)

lemma log_text_eq_Nil [simp]: "log_text env es = [] \<longleftrightarrow> es = []"
  by (cases es) simp_all

lemma log_envD:
  assumes "log_env_ok env"
  shows "le_parse env (le_stringify env e) = Some e" "newline \<notin> set (le_stringify env e)"
    "trim (le_stringify env e) = le_stringify env e" "le_stringify env e \<noteq> []"
    "le_gunzip env (le_gzip env s) = s"
  using assms by (auto simp: log_env_ok_def)

lemma log_lines_text:
  "log_env_ok env \<Longrightarrow> log_lines (log_text env es @ t) = map (le_stringify env) es @ log_lines t"
  by (induction es) (simp_all add: log_lines_def split_on_line log_envD)

lemma log_lines_Nil [simp]: "log_lines [] = []"
  by (simp add: log_lines_def)

lemma parse_all_printed: "log_env_ok env \<Longrightarrow> parse_all env (map (le_stringify env) es) = Some es"
  by (induction es) (simp_all add: log_envD)

lemma parse_until_printed:
  "log_env_ok env \<Longrightarrow> parse_until_error env (map (le_stringify env) es @ ls) = es @ parse_until_error env ls"
  by (induction es) (simp_all add: log_envD)

section \<open>What the directory holds\<close>

definition segs_of :: "'p log_env \<Rightarrow> 'p persist_event list list \<Rightarrow> (string \<times> string) list" where
  "segs_of env gs = map (\<lambda>i. (seg_name (Suc i), le_gzip env (log_text env (gs ! i)))) [0..<length gs]"

text \<open>Sealed groups of events \<open>gs\<close>, and the events \<open>w\<close> of the active file.\<close>

definition dir_holds :: "'p log_env \<Rightarrow> log_dir \<Rightarrow> 'p persist_event list list \<Rightarrow> 'p persist_event list \<Rightarrow> bool" where
  "dir_holds env d gs w =
     (ld_segs d = segs_of env gs \<and> (\<forall>g \<in> set gs. g \<noteq> []) \<and>
      (ld_wal d = Some (log_text env w) \<or> (ld_wal d = None \<and> w = [])))"

lemma segs_of_snoc: "segs_of env (gs @ [g]) = segs_of env gs @ [(seg_name (Suc (length gs)), le_gzip env (log_text env g))]"
  by (simp add: segs_of_def nth_append)

lemma max_seg_segs: "length gs < 10 ^ 6 \<Longrightarrow> max_seg (segs_of env gs) = length gs"
proof (induction gs rule: rev_induct)
  case (snoc g gs)
  then show ?case using seg_number_name [of "Suc (length gs)"]
    by (simp add: segs_of_snoc max_seg_def)
qed (simp add: segs_of_def max_seg_def)

lemma fst_segs_of: "map fst (segs_of env gs) = map (\<lambda>i. seg_name (Suc i)) [0..<length gs]"
  by (simp add: segs_of_def)

lemma seg_names_increasing:
  "n < 10 ^ 6 \<Longrightarrow> sorted_wrt (<) (map (\<lambda>i. seg_name (Suc i)) [0..<n])"
  by (simp add: sorted_wrt_map) (rule sorted_wrt_mono_rel [OF _ sorted_wrt_upt], simp add: seg_name_less)

lemma find_seg:
  assumes "length gs < 10 ^ 6" "i < length gs"
  shows "find_by fst (seg_name (Suc i)) (segs_of env gs) = Some (seg_name (Suc i), le_gzip env (log_text env (gs ! i)))"
proof -
  have "unique_on fst (segs_of env gs)"
    using seg_names_increasing [OF assms(1)] by (simp add: unique_on_def fst_segs_of strict_sorted_iff)
  moreover have "(seg_name (Suc i), le_gzip env (log_text env (gs ! i))) \<in> set (segs_of env gs)"
    using assms(2) by (auto simp: segs_of_def)
  ultimately show ?thesis by (auto simp: find_by_Some_iff)
qed

lemma read_segs_of:
  assumes "log_env_ok env" "length gs < 10 ^ 6" "\<forall>i \<in> set is. i < length gs"
  shows "read_segs env (segs_of env gs) (map (\<lambda>i. seg_name (Suc i)) is) = Some (concat (map (\<lambda>i. gs ! i) is))"
  using assms(3)
proof (induction "is")
  case (Cons i "is")
  have "log_lines (log_text env (gs ! i)) = map (le_stringify env) (gs ! i)"
    using log_lines_text [OF assms(1), of "gs ! i" "[]"] by simp
  with Cons show ?case
    by (simp add: find_seg [OF assms(2)] log_envD [OF assms(1)] parse_all_printed [OF assms(1)])
qed simp

lemma collect_holds:
  assumes env: "log_env_ok env" and d: "dir_holds env d gs w" and n: "length gs < 10 ^ 6"
  shows "collectPersistEvents env d = Some (concat gs @ w)"
proof -
  let ?names = "map (\<lambda>i. seg_name (Suc i)) [0..<length gs]"
  have segs: "ld_segs d = segs_of env gs" and wal: "ld_wal d = Some (log_text env w) \<or> ld_wal d = None \<and> w = []"
    using d by (simp_all add: dir_holds_def)
  have "is_seg_file (seg_name (Suc i))" if "i < length gs" for i
    by (rule is_seg_file_name) (use that n in linarith)
  then have f: "filter is_seg_file ?names = ?names"
    by (simp add: filter_map comp_def cong: filter_cong)
  have s: "sort ?names = ?names"
    using seg_names_increasing [OF n] by (simp add: sorted_sort_id strict_sorted_iff)
  have r: "read_segs env (segs_of env gs) ?names = Some (concat gs)"
    using read_segs_of [OF env n, of "[0..<length gs]"] by (simp add: map_nth)
  have "read_segs env (ld_segs d) (sort (filter is_seg_file (map fst (ld_segs d)))) = Some (concat gs)"
    by (simp only: segs fst_segs_of f s r)
  moreover have "parse_until_error env (log_lines (log_text env w)) = w"
    using log_lines_text [OF env, of w "[]"] parse_until_printed [OF env, of w "[]"] by simp
  ultimately show ?thesis
    using wal by (elim conjE disjE) (simp_all only: collectPersistEvents_def option.case append_Nil2)
qed

lemma append_line_holds:
  "dir_holds env d gs w \<Longrightarrow> dir_holds env (append_line env d e t) gs (w @ [e]) \<and>
   ld_wal (append_line env d e t) = Some (log_text env (w @ [e]))"
  by (auto simp: dir_holds_def append_line_def)

lemma sealed_dir:
  assumes "dir_holds env d gs w" "w \<noteq> []" "length gs < 10 ^ 6 - 1"
  shows "sealSync env d = d\<lparr>ld_segs := segs_of env (gs @ [w]), ld_wal := Some '''', ld_rotating := None\<rparr>"
proof -
  have wal: "ld_wal d = Some (log_text env w)" and segs: "ld_segs d = segs_of env gs"
    using assms(1,2) by (auto simp: dir_holds_def)
  have "seg_name (Suc (length gs)) \<noteq> x" if "x \<in> set (map fst (segs_of env gs))" for x
    using that seg_name_less [of _ "Suc (length gs)"] assms(3) by (fastforce simp: fst_segs_of)
  then have "find_by fst (seg_name (Suc (length gs))) (segs_of env gs) = None"
    by (metis (mono_tags) find_by_None_iff imageI list.set_map)
  with wal segs assms(2,3) show ?thesis
    by (simp add: sealSync_def seal_until_def seal_steps_def max_seg_segs upsert_def segs_of_snoc)
qed

lemma append_holds:
  assumes d: "dir_holds env d gs w" and n: "length gs < 10 ^ 6 - 1"
  shows "\<exists>gs' w'. dir_holds env (appendSync env d e t now) gs' w' \<and> concat gs' @ w' = concat gs @ w @ [e] \<and>
    length gs' \<le> length gs + 1"
proof -
  let ?d = "append_line env d e t"
  have held: "dir_holds env ?d gs (w @ [e])" and wal: "ld_wal ?d = Some (log_text env (w @ [e]))"
    using append_line_holds [OF d] by auto
  show ?thesis
  proof (cases "maybeSealSync env ?d now = ?d")
    case True
    with held show ?thesis
      by (intro exI [of _ gs] exI [of _ "w @ [e]"]) (simp add: appendSync_def)
  next
    case False
    then have "appendSync env d e t now = sealSync env ?d"
      using wal by (auto simp: appendSync_def maybeSealSync_def split: if_splits)
    then have "dir_holds env (appendSync env d e t now) (gs @ [w @ [e]]) []"
      using sealed_dir [OF held _ n] held by (simp add: dir_holds_def)
    then show ?thesis by (intro exI [of _ "gs @ [w @ [e]]"] exI [of _ "[]"]) simp
  qed
qed

section \<open>Properties of the log\<close>

fun append_all :: "'p log_env \<Rightarrow> log_dir \<Rightarrow> ('p persist_event \<times> timestamp \<times> timestamp) list \<Rightarrow> log_dir" where
  "append_all env d [] = d"
| "append_all env d ((e, written, now) # xs) = append_all env (appendSync env d e written now) xs"

lemma append_all_holds:
  "dir_holds env d gs w \<Longrightarrow> length gs + length xs < 10 ^ 6 \<Longrightarrow>
   \<exists>gs' w'. dir_holds env (append_all env d xs) gs' w' \<and> concat gs' @ w' = concat gs @ w @ map fst xs \<and>
     length gs' < 10 ^ 6"
proof (induction xs arbitrary: d gs w)
  case (Cons x xs)
  obtain e t now where x: "x = (e, t, now)" by (cases x)
  from append_holds [OF Cons.prems(1), of e t now] Cons.prems(2) obtain gs1 w1 where
    step: "dir_holds env (appendSync env d e t now) gs1 w1" "concat gs1 @ w1 = concat gs @ w @ [e]"
      "length gs1 \<le> length gs + 1" by auto
  with Cons.prems(2) have "length gs1 + length xs < 10 ^ 6" by simp
  from Cons.IH [OF step(1) this] step(2) show ?case
    by (auto simp: x) (metis append.assoc append_Cons append_Nil)
qed auto

lemma empty_holds: "dir_holds env empty_log_dir [] []"
  by (simp add: dir_holds_def empty_log_dir_def segs_of_def)

text \<open>
  C6. The log is a log. Whatever is appended to an empty stream, sealed into segments or not
  at whatever times, reading it back gives exactly the appended events in order, for fewer
  than a million of them (the width of the segment numbers keeps their names sorted).
\<close>

theorem log_roundtrip:
  assumes "log_env_ok env" and "length xs < 10 ^ 6"
  shows "collectPersistEvents env (append_all env empty_log_dir xs) = Some (map fst xs)"
proof -
  from append_all_holds [OF empty_holds, of xs env] assms(2) obtain gs w where
    "dir_holds env (append_all env empty_log_dir xs) gs w" "concat gs @ w = map fst xs" "length gs < 10 ^ 6"
    by auto
  with collect_holds [OF assms(1)] show ?thesis by metis
qed

text \<open>A codec without JSON, to show that the hypotheses can hold.\<close>

definition enc_string :: "string \<Rightarrow> string" where
  "enc_string s = concat (map (\<lambda>c. fixed 3 (of_char c)) s)"

function dec_string :: "string \<Rightarrow> string" where
  "dec_string s = (if length s < 3 then [] else char_of (number_of (take 3 s)) # dec_string (drop 3 s))"
  by auto
termination by (relation "measure length") auto

declare dec_string.simps [simp del]

definition demo_stringify :: "unit persist_event \<Rightarrow> string" where
  "demo_stringify e = (if pe_ts e < 0 then ''m'' else ''p'') @ dec (nat \<bar>pe_ts e\<bar>) @ '','' @ enc_string (pe_stream e) @ '','' @
     enc_string (pe_type e) @ '','' @ enc_string (pe_id e) @ '','' @ ''}''"

definition demo_parse :: "string \<Rightarrow> unit persist_event option" where
  "demo_parse s =
     (case split_on (CHR '','') s of
        [t, a, b, c, _] \<Rightarrow> Some \<lparr>pe_ts = (if take 1 t = ''m'' then - int (number_of (drop 1 t)) else int (number_of (drop 1 t))),
                               pe_stream = dec_string a, pe_type = dec_string b, pe_id = dec_string c, pe_payload = ()\<rparr>
      | _ \<Rightarrow> None)"

definition demo_log_env :: "unit log_env" where
  "demo_log_env = \<lparr>le_stringify = demo_stringify, le_parse = demo_parse, le_gzip = rev, le_gunzip = rev\<rparr>"

lemma dec_enc_string: "dec_string (enc_string s) = s"
proof (induction s)
  case (Cons c s)
  have "number_of (fixed 3 (of_char c)) = of_char c"
    by (rule number_of_fixed) (rule less_trans [OF nat_of_char_less_256], simp)
  with Cons show ?case
    using length_fixed [of 3 "of_char c"]
    by (subst dec_string.simps) (simp add: enc_string_def del: fixed.simps length_fixed)
qed (simp add: enc_string_def dec_string.simps)

lemma is_digit_enc: "c \<in> set (enc_string s) \<Longrightarrow> is_digit c"
  by (auto simp: enc_string_def dest: is_digit_fixed)

lemma digit_chars: "\<not> is_digit (CHR '','')" "\<not> is_digit newline"
  by (simp_all add: is_digit_def)

lemma trim_id: "s = a # m @ [b] \<Longrightarrow> \<not> is_space a \<Longrightarrow> \<not> is_space b \<Longrightarrow> trim s = s"
  by (simp add: trim_def)

lemma demo_split: "split_on (CHR '','') (demo_stringify e) =
    [(if pe_ts e < 0 then ''m'' else ''p'') @ dec (nat \<bar>pe_ts e\<bar>), enc_string (pe_stream e), enc_string (pe_type e),
     enc_string (pe_id e), ''}'']"
proof -
  have d: "CHR '','' \<notin> set (dec n)" "CHR '','' \<notin> set (enc_string s)" for n s
    using is_digit_dec is_digit_enc digit_chars(1) by blast+
  let ?t = "(if pe_ts e < 0 then ''m'' else ''p'') @ dec (nat \<bar>pe_ts e\<bar>)"
  have "CHR '','' \<notin> set ?t" using d(1) by auto
  then have "split_on (CHR '','') (?t @ CHR '','' # r) = ?t # split_on (CHR '','') r" for r
    by (rule split_on_line)
  then show ?thesis by (simp add: demo_stringify_def split_on_line d(2))
qed

lemma demo_trim: "\<not> is_space a \<Longrightarrow> trim (a # m @ demo_stringify e) = a # m @ demo_stringify e"
  "trim (demo_stringify e) = demo_stringify e"
proof -
  obtain b r where e: "demo_stringify e = b # r @ [CHR ''}'']" "\<not> is_space b"
    by (cases "pe_ts e < 0") (auto simp: demo_stringify_def is_space_def simp flip: append_assoc)
  moreover have "\<not> is_space (CHR ''}'')" by (simp add: is_space_def)
  ultimately show "trim (demo_stringify e) = demo_stringify e"
    "\<not> is_space a \<Longrightarrow> trim (a # m @ demo_stringify e) = a # m @ demo_stringify e"
    using trim_id [of "demo_stringify e" b r "CHR ''}''"]
      trim_id [of "a # m @ demo_stringify e" a "m @ b # r" "CHR ''}''"] by simp_all
qed

lemma demo_log_env_ok: "log_env_ok demo_log_env"
proof -
  have "demo_parse (demo_stringify e) = Some e" for e
    by (auto simp: demo_parse_def demo_split dec_enc_string number_of_dec)
  moreover have "newline \<notin> set (demo_stringify e)" for e
    using is_digit_dec is_digit_enc digit_chars(2) by (auto simp: demo_stringify_def)
  moreover have "demo_stringify e \<noteq> ''''" for e by (simp add: demo_stringify_def)
  ultimately show ?thesis by (simp add: log_env_ok_def demo_log_env_def demo_trim)
qed

definition demo_event :: "string \<Rightarrow> timestamp \<Rightarrow> unit persist_event" where
  "demo_event i t = \<lparr>pe_ts = t, pe_stream = ''invoice'', pe_type = ''invoice.paid'', pe_id = i, pe_payload = ()\<rparr>"

theorem log_roundtrip_witness:
  "collectPersistEvents demo_log_env (append_all demo_log_env empty_log_dir
      [(demo_event ''a'' 5, 5, 70000), (demo_event ''b'' 70001, 70001, 70002)]) =
   Some [demo_event ''a'' 5, demo_event ''b'' 70001]"
  using log_roundtrip [OF demo_log_env_ok, of "[(demo_event ''a'' 5, 5, 70000), (demo_event ''b'' 70001, 70001, 70002)]"]
  by simp

text \<open>
  What a crash while sealing costs. If the process stops after the first file operation
  of \<open>sealSync\<close> (the active file has been renamed, the segment not yet written), the events
  of the active file are in \<open>wal.rotating\<close>, which nothing reads: they are gone from the log.
  After any of the other operations nothing is lost.
\<close>

theorem seal_crash:
  assumes "log_env_ok env" and "dir_holds env d gs w" and "w \<noteq> []" and "length gs < 10 ^ 6 - 1"
  shows "collectPersistEvents env (seal_until env 1 d) = Some (concat gs) \<and>
    (\<forall>n \<in> {0, 2, 3, 4}. collectPersistEvents env (seal_until env n d) = Some (concat gs @ w))"
proof -
  have wal: "ld_wal d = Some (log_text env w)" using assms(2,3) by (auto simp: dir_holds_def)
  have n: "length gs < 10 ^ 6" "length (gs @ [w]) < 10 ^ 6" using assms(4) by simp_all
  have full: "seal_until env 4 d = d\<lparr>ld_segs := segs_of env (gs @ [w]), ld_wal := Some '''', ld_rotating := None\<rparr>"
    using sealed_dir [OF assms(2-4)] by (simp add: sealSync_def)
  have s1: "seal_until env 1 d = d\<lparr>ld_wal := None, ld_rotating := ld_wal d\<rparr>"
    using wal assms(3) by (simp add: seal_until_def seal_steps_def)
  have s23: "ld_segs (seal_until env n d) = segs_of env (gs @ [w]) \<and> ld_wal (seal_until env n d) = None" if "n = 2 \<or> n = 3" for n
  proof -
    have "ld_segs (seal_until env n d) = ld_segs (seal_until env 4 d)" "ld_wal (seal_until env n d) = None"
      using that wal assms(3) by (auto simp: seal_until_def seal_steps_def numeral_eq_Suc)
    then show ?thesis by (simp add: full)
  qed
  have "dir_holds env (seal_until env 1 d) gs []" unfolding s1 using assms(2) by (simp add: dir_holds_def)
  moreover have "dir_holds env (seal_until env n d) (gs @ [w]) []" if "n = 2 \<or> n = 3 \<or> n = 4" for n
    using that s23 [of n] assms(2,3) full by (auto simp: dir_holds_def)
  moreover have "seal_until env 0 d = d" by (simp add: seal_until_def)
  ultimately have "collectPersistEvents env (seal_until env 1 d) = Some (concat gs @ [])"
    "\<And>n. n = 2 \<or> n = 3 \<or> n = 4 \<Longrightarrow> collectPersistEvents env (seal_until env n d) = Some (concat (gs @ [w]) @ [])"
    "collectPersistEvents env (seal_until env 0 d) = Some (concat gs @ w)"
    using collect_holds [OF assms(1) _ n(1)] collect_holds [OF assms(1) _ n(2)] assms(2) by metis+
  then show ?thesis by (simp only: concat_append concat.simps append_Nil2 ball_simps insert_iff empty_iff) blast
qed

definition demo_dir :: log_dir where
  "demo_dir = append_line demo_log_env empty_log_dir (demo_event ''a'' 5) 5"

lemma demo_dir_holds: "dir_holds demo_log_env demo_dir [] [demo_event ''a'' 5]"
  using append_line_holds [OF empty_holds, of demo_log_env "demo_event ''a'' 5" 5] by (simp add: demo_dir_def)

theorem seal_crash_witness:
  "collectPersistEvents demo_log_env (seal_until demo_log_env 1 demo_dir) = Some [] \<and>
   collectPersistEvents demo_log_env (seal_until demo_log_env 4 demo_dir) = Some [demo_event ''a'' 5]"
  using seal_crash [OF demo_log_env_ok demo_dir_holds] by simp

text \<open>
  The active file is never sealed for its age. The age is taken from the modification
  time, which the append itself has just refreshed; so after an append that took less than
  a minute the file is sealed exactly when it has reached 8 MiB, however old its first
  event is.
\<close>

theorem age_never_seals:
  assumes "now - written < 60000"
  shows "appendSync env d e written now =
    (if length (nullish (ld_wal d) '''' @ le_stringify env e @ [newline]) < 8388608
     then append_line env d e written else sealSync env (append_line env d e written))"
  using assms
  by (simp add: appendSync_def maybeSealSync_def append_line_def DEFAULT_ROTATE_BYTES_def DEFAULT_ROTATE_SEC_def)

theorem age_never_seals_witness:
  "appendSync demo_log_env demo_dir (demo_event ''b'' 3600000) 3600000 3600005 =
   append_line demo_log_env demo_dir (demo_event ''b'' 3600000) 3600000"
proof -
  have "length (enc_string s) = 3 * length s" for s
    by (induction s) (simp_all add: enc_string_def)
  moreover have "length (dec n) \<le> 7" if "n < 10 ^ 7" for n
    using length_dec [OF that] by simp
  from this [of 5] this [of 3600000]
  have "length (dec 5) \<le> 7" "length (dec 3600000) \<le> 7" by simp_all
  ultimately have "length (nullish (ld_wal demo_dir) '''' @ le_stringify demo_log_env (demo_event ''b'' 3600000) @ [newline]) < 8388608"
    by (simp add: demo_dir_def append_line_def empty_log_dir_def demo_log_env_def demo_stringify_def demo_event_def)
  then show ?thesis
    using age_never_seals [of 3600005 3600000 demo_log_env demo_dir "demo_event ''b'' 3600000"] by simp
qed




section \<open>Torn lines\<close>

lemma log_lines_line:
  "newline \<notin> set s \<Longrightarrow> trim s \<noteq> [] \<Longrightarrow> log_lines (s @ newline # t) = trim s # log_lines t"
  by (simp add: log_lines_def split_on_line)

lemma torn_lines:
  assumes "log_env_ok env" "newline \<notin> set torn" "trim (torn @ le_stringify env e) \<noteq> []"
  shows "log_lines (log_text env w @ torn @ log_text env (e # later)) =
    map (le_stringify env) w @ trim (torn @ le_stringify env e) # map (le_stringify env) later"
proof -
  have "log_lines ((torn @ le_stringify env e) @ newline # log_text env later) =
      trim (torn @ le_stringify env e) # log_lines (log_text env later)"
    by (rule log_lines_line) (use assms log_envD(2) [OF assms(1)] in auto)
  then show ?thesis
    using log_lines_text [OF assms(1), of later "[]"] by (simp add: log_lines_text [OF assms(1)])
qed

lemma parse_until_torn:
  "log_env_ok env \<Longrightarrow> le_parse env l = None \<Longrightarrow> parse_until_error env (map (le_stringify env) w @ l # ls) = w"
  by (simp add: parse_until_printed)

lemma parse_all_torn:
  "log_env_ok env \<Longrightarrow> le_parse env l = None \<Longrightarrow> parse_all env (map (le_stringify env) w @ l # ls) = None"
  by (induction w) (simp_all add: log_envD)

lemma read_segs_None:
  "n \<in> set ns \<Longrightarrow> find_by fst n segs = Some f \<Longrightarrow> parse_all env (log_lines (le_gunzip env (snd f))) = None \<Longrightarrow>
   read_segs env segs ns = None"
  by (induction ns) (auto split: option.split)

lemma sealed_unreadable:
  assumes env: "log_env_ok env" and gs: "ld_segs d = segs_of env gs" "length gs < 10 ^ 6 - 1"
    and wal: "ld_wal d = Some text" "text \<noteq> ''''" "parse_all env (log_lines text) = None"
  shows "collectPersistEvents env (sealSync env d) = None"
proof -
  let ?name = "seg_name (Suc (length gs))" and ?file = "(seg_name (Suc (length gs)), le_gzip env text)"
  have n: "Suc (length gs) < 10 ^ 6" using gs(2) by simp
  have segs: "ld_segs (sealSync env d) = upsert fst ?file (\<lambda>_. ?file) (segs_of env gs)"
    using wal n gs(1) by (simp add: sealSync_def seal_until_def seal_steps_def max_seg_segs)
  have f: "find_by fst ?name (ld_segs (sealSync env d)) = Some ?file"
    using find_by_upsert [of fst ?file "\<lambda>_. ?file" ?name "segs_of env gs"] by (simp add: segs split: option.split)
  have "?name \<in> set (sort (filter is_seg_file (map fst (ld_segs (sealSync env d)))))"
    using find_by_SomeD [OF f] is_seg_file_name [OF n] by force
  from read_segs_None [OF this f, of env] show ?thesis
    by (simp add: collectPersistEvents_def log_envD(5) [OF env] wal(3))
qed

text \<open>
  A torn line hides what follows it. If the process stopped in the middle of writing a
  line, the next event \<open>e\<close> is written behind the rest \<open>torn\<close>. When the two together do not
  parse, the events before are still read, but \<open>e\<close> and all the events \<open>later\<close> in the active
  file are not, without an error; and once the file is sealed, the whole log cannot be read.
\<close>

theorem torn_line_hides_later_events:
  assumes "log_env_ok env" and "dir_holds env d gs w" and "length gs < 10 ^ 6 - 1"
    and "newline \<notin> set torn" and "trim (torn @ le_stringify env e) \<noteq> ''''"
    and "le_parse env (trim (torn @ le_stringify env e)) = None"
    and "ld_wal d' = Some (log_text env w @ torn @ log_text env (e # later))" and "ld_segs d' = ld_segs d"
  shows "collectPersistEvents env d' = Some (concat gs @ w) \<and> collectPersistEvents env (sealSync env d') = None"
proof
  let ?text = "log_text env w @ torn @ log_text env (e # later)"
  note lines = torn_lines [OF assms(1,4,5), of w later]
  have segs: "ld_segs d' = segs_of env gs" using assms(2,8) by (simp add: dir_holds_def)
  have "dir_holds env (d\<lparr>ld_wal := None\<rparr>) gs []" using assms(2) by (simp add: dir_holds_def)
  from collect_holds [OF assms(1) this] assms(3)
  have "collectPersistEvents env (d\<lparr>ld_wal := None\<rparr>) = Some (concat gs)" by simp
  then have "read_segs env (ld_segs d') (sort (filter is_seg_file (map fst (ld_segs d')))) = Some (concat gs)"
    unfolding assms(8) by (simp add: collectPersistEvents_def split: option.splits)
  then show "collectPersistEvents env d' = Some (concat gs @ w)"
    unfolding collectPersistEvents_def assms(7) by (simp add: lines parse_until_torn [OF assms(1,6)] del: log_text_simps)
  show "collectPersistEvents env (sealSync env d') = None"
  proof (rule sealed_unreadable [OF assms(1) segs assms(3,7)])
    show "parse_all env (log_lines ?text) = None"
      unfolding lines by (rule parse_all_torn [OF assms(1,6)])
  qed simp
qed

theorem torn_line_hides_later_events_witness:
  "collectPersistEvents demo_log_env (demo_dir\<lparr>ld_wal := Some (log_text demo_log_env [demo_event ''a'' 5] @ ''p5,'' @
      log_text demo_log_env [demo_event ''b'' 6, demo_event ''c'' 7])\<rparr>) = Some [demo_event ''a'' 5]"
proof -
  have t: "trim (''p5,'' @ demo_stringify e) = ''p5,'' @ demo_stringify e" for e
    using demo_trim(1) [of "CHR ''p''" "''5,''" e] by (simp add: is_space_def)
  have "trim (''p5,'' @ le_stringify demo_log_env (demo_event ''b'' 6)) \<noteq> ''''"
    "le_parse demo_log_env (trim (''p5,'' @ le_stringify demo_log_env (demo_event ''b'' 6))) = None"
    unfolding demo_log_env_def log_env.simps t by (simp_all add: demo_parse_def demo_split)
  from torn_line_hides_later_events [OF demo_log_env_ok demo_dir_holds _ _ this, where later = "[demo_event ''c'' 7]"]
  show ?thesis by simp
qed

end
