(* ===== verification/Nonces.thy ===== *)
theory Nonces
  imports Prelude Complex_Main
begin

text \<open>
  Request nonces. Four tables of the database keep used nonces until they expire
  (\<open>sweeper_nonces\<close>, \<open>bundler_nonces\<close>, \<open>wallet_client_nonces\<close>, \<open>guardian_nonces\<close>) and the
  four consume methods differ only in the table and in whether the owner is lower-cased.

  Two interfaces stand here. \<open>replay_guard\<close> is what the signed-request checks rely on: a
  nonce that was consumed is refused until its expiry has passed. \<open>auth_gate\<close> is what a
  server offers to its operators: a request with a signed timestamp and a nonce is accepted
  at most once, provided the nonce outlives the window in which the timestamp is accepted.
\<close>

record nonce_row =
  nonce_owner :: string
  nonce_value :: string
  nonce_expires :: timestamp

definition nonce_key :: "nonce_row \<Rightarrow> string \<times> string" where
  "nonce_key r = (nonce_owner r, nonce_value r)"

definition purge_nonces :: "timestamp \<Rightarrow> nonce_row list \<Rightarrow> nonce_row list" where
  "purge_nonces now t = delete_where (\<lambda>r. nonce_expires r < now) t"

definition consumeNonce :: "nonce_row list \<Rightarrow> address \<Rightarrow> string \<Rightarrow> int \<Rightarrow> timestamp \<Rightarrow> bool \<times> nonce_row list" where
  "consumeNonce t a n ttl now =
     (let t1 = purge_nonces now t in
      case insert_unique nonce_key \<lparr>nonce_owner = lower a, nonce_value = n, nonce_expires = now + ttl\<rparr> t1 of
        Some t2 \<Rightarrow> (True, t2)
      | None \<Rightarrow> (False, t1))"

definition consumeBundlerNonce :: "nonce_row list \<Rightarrow> address \<Rightarrow> string \<Rightarrow> int \<Rightarrow> timestamp \<Rightarrow> bool \<times> nonce_row list" where
  "consumeBundlerNonce t a n ttl now =
     (let t1 = purge_nonces now t in
      case insert_unique nonce_key \<lparr>nonce_owner = lower a, nonce_value = n, nonce_expires = now + ttl\<rparr> t1 of
        Some t2 \<Rightarrow> (True, t2)
      | None \<Rightarrow> (False, t1))"

definition consumeWalletClientNonce :: "nonce_row list \<Rightarrow> string \<Rightarrow> string \<Rightarrow> int \<Rightarrow> timestamp \<Rightarrow> bool \<times> nonce_row list" where
  "consumeWalletClientNonce t c n ttl now =
     (let t1 = purge_nonces now t in
      case insert_unique nonce_key \<lparr>nonce_owner = c, nonce_value = n, nonce_expires = now + ttl\<rparr> t1 of
        Some t2 \<Rightarrow> (True, t2)
      | None \<Rightarrow> (False, t1))"

definition consumeGuardianNonce :: "nonce_row list \<Rightarrow> address \<Rightarrow> string \<Rightarrow> int \<Rightarrow> timestamp \<Rightarrow> bool \<times> nonce_row list" where
  "consumeGuardianNonce t a n ttl now =
     (let t1 = purge_nonces now t in
      case insert_unique nonce_key \<lparr>nonce_owner = lower a, nonce_value = n, nonce_expires = now + ttl\<rparr> t1 of
        Some t2 \<Rightarrow> (True, t2)
      | None \<Rightarrow> (False, t1))"

text \<open>The issued login nonce of a guardian is deleted when it is presented.\<close>

definition takeGuardianNonce :: "nonce_row list \<Rightarrow> address \<Rightarrow> string \<Rightarrow> timestamp \<Rightarrow> bool \<times> nonce_row list" where
  "takeGuardianNonce t a n now =
     (let t1 = purge_nonces now t;
          P = (\<lambda>r. nonce_key r = (lower a, n)) in
      (0 < changes P t1, delete_where P t1))"

definition nonce_expiry :: "nonce_row list \<Rightarrow> string \<Rightarrow> string \<Rightarrow> timestamp option" where
  "nonce_expiry t owner n = map_option nonce_expires (find_by nonce_key (owner, n) t)"

section \<open>Replay protection, once for all four tables\<close>

locale replay_guard =
  fixes consume :: "'s \<Rightarrow> 'a \<Rightarrow> string \<Rightarrow> int \<Rightarrow> timestamp \<Rightarrow> bool \<times> 's"
    and expiry :: "'s \<Rightarrow> 'a \<Rightarrow> string \<Rightarrow> timestamp option"
    and wf :: "'s \<Rightarrow> bool"
  assumes consume_wf: "wf s \<Longrightarrow> wf (snd (consume s a n ttl now))"
    and consume_accepts: "fst (consume s a n ttl now) \<Longrightarrow> expiry (snd (consume s a n ttl now)) a n = Some (now + ttl)"
    and consume_keeps: "expiry s b m = Some e \<Longrightarrow> now \<le> e \<Longrightarrow> expiry (snd (consume s a n ttl now)) b m = Some e"
    and consume_rejects: "expiry s a n = Some e \<Longrightarrow> now \<le> e \<Longrightarrow> \<not> fst (consume s a n ttl now)"
    and consume_fresh: "wf s \<Longrightarrow> (\<And>e. expiry s a n = Some e \<Longrightarrow> e < now) \<Longrightarrow> fst (consume s a n ttl now)"
begin

fun consume_all :: "'s \<Rightarrow> ('a \<times> string \<times> int \<times> timestamp) list \<Rightarrow> 's" where
  "consume_all s [] = s"
| "consume_all s ((a, n, ttl, now) # xs) = consume_all (snd (consume s a n ttl now)) xs"

lemma consume_all_keeps:
  "expiry s b m = Some e \<Longrightarrow> \<forall>(a, n, ttl, now) \<in> set xs. now \<le> e \<Longrightarrow>
   expiry (consume_all s xs) b m = Some e"
  by (induction s xs rule: consume_all.induct) (auto intro: consume_keeps)

text \<open>However many nonces are consumed in between, a nonce is refused until it expires.\<close>

lemma no_second_use:
  assumes "fst (consume s a n ttl t0)"
    and "\<forall>(b, m, ttl', now) \<in> set xs. now \<le> t0 + ttl" and "now \<le> t0 + ttl"
  shows "\<not> fst (consume (consume_all (snd (consume s a n ttl t0)) xs) a n ttl' now)"
  using consume_rejects consume_all_keeps [OF consume_accepts [OF assms(1)] assms(2)] assms(3)
  by blast

end

section \<open>Signed requests\<close>

locale auth_gate =
  fixes accept :: "'s \<Rightarrow> 'q \<Rightarrow> timestamp \<Rightarrow> ('e + 'c) \<times> 's"
    and ident :: "'q \<Rightarrow> 'n"
    and expiry :: "'s \<Rightarrow> 'n \<Rightarrow> timestamp option"
    and stamp :: "'q \<Rightarrow> rat"
    and skew :: int
    and ttl :: int
  assumes nonce_outlives_window: "2 * skew \<le> ttl"
    and accept_in_window: "accept s q now = (Inr c, s') \<Longrightarrow>
      \<bar>of_int now - stamp q\<bar> \<le> of_int skew \<and> expiry s' (ident q) = Some (now + ttl)"
    and accept_keeps: "expiry s i = Some e \<Longrightarrow> now \<le> e \<Longrightarrow> expiry (snd (accept s p now)) i = Some e"
    and accept_rejects: "expiry s (ident q) = Some e \<Longrightarrow> now \<le> e \<Longrightarrow> \<not> is_ok (fst (accept s q now))"
begin

fun serve :: "'s \<Rightarrow> ('q \<times> timestamp) list \<Rightarrow> 's" where
  "serve s [] = s"
| "serve s ((q, now) # xs) = serve (snd (accept s q now)) xs"

lemma serve_keeps:
  "expiry s i = Some e \<Longrightarrow> \<forall>(p, t) \<in> set xs. t \<le> e \<Longrightarrow> expiry (serve s xs) i = Some e"
  by (induction s xs rule: serve.induct) (auto intro: accept_keeps)

text \<open>
  No request with the signer, nonce and timestamp of an accepted one is accepted again,
  whatever other requests (replays of it and forgeries included) are served in between, as
  long as the clock does not run backwards.
\<close>

lemma accepted_once:
  assumes "accept s q t0 = (Inr c, s')" and "ident p = ident q" and "stamp p = stamp q"
    and "\<forall>(r, t) \<in> set xs. t \<le> now"
  shows "\<not> is_ok (fst (accept (serve s' xs) p now))"
proof
  assume ok: "is_ok (fst (accept (serve s' xs) p now))"
  then obtain c' s'' where again: "accept (serve s' xs) p now = (Inr c', s'')"
    by (cases "accept (serve s' xs) p now") (auto simp: is_ok_iff)
  note w1 = accept_in_window [OF assms(1)] and w2 = accept_in_window [OF again]
  from w1 w2 assms(3) have "rat_of_int now \<le> rat_of_int (t0 + 2 * skew)" by auto
  then have now: "now \<le> t0 + ttl" using nonce_outlives_window by linarith
  with assms(4) have "\<forall>(r, t) \<in> set xs. t \<le> t0 + ttl" by fastforce
  then have "expiry (serve s' xs) (ident p) = Some (t0 + ttl)"
    using serve_keeps w1 assms(2) by metis
  from accept_rejects [OF this now] ok show False by simp
qed

end

section \<open>The four tables\<close>

lemma nonce_key_simps [simp]:
  "nonce_key \<lparr>nonce_owner = a, nonce_value = n, nonce_expires = e\<rparr> = (a, n)"
  by (simp add: nonce_key_def)

lemma purge_keeps: "nonce_expiry t a n = Some e \<Longrightarrow> now \<le> e \<Longrightarrow> nonce_expiry (purge_nonces now t) a n = Some e"
  using find_by_delete_where_kept [of nonce_key "(a, n)" t _ "\<lambda>r. nonce_expires r < now"]
  by (auto simp: nonce_expiry_def purge_nonces_def)

lemma purge_drops:
  assumes "unique_on nonce_key t" "\<And>e. nonce_expiry t a n = Some e \<Longrightarrow> e < now"
  shows "nonce_expiry (purge_nonces now t) a n = None"
  using assms(2) unfolding nonce_expiry_def purge_nonces_def find_by_delete_where [OF assms(1)]
  by (auto split: option.split)

lemma purge_unique: "unique_on nonce_key t \<Longrightarrow> unique_on nonce_key (purge_nonces now t)"
  by (simp add: purge_nonces_def unique_delete_where)

lemma nonce_expiry_insert:
  "insert_unique nonce_key \<lparr>nonce_owner = a, nonce_value = n, nonce_expires = e\<rparr> t = Some u \<Longrightarrow>
   nonce_expiry u b m = (if (b, m) = (a, n) then Some e else nonce_expiry t b m)"
  by (drule find_by_insert_unique [where k = "(b, m)"]) (auto simp: nonce_expiry_def)

lemma nonce_insert_None_iff:
  "insert_unique nonce_key \<lparr>nonce_owner = a, nonce_value = n, nonce_expires = e\<rparr> t = None \<longleftrightarrow>
   nonce_expiry t a n \<noteq> None"
  by (simp add: insert_unique_None_iff nonce_expiry_def)

lemma consume_laws:
  assumes "\<And>t a n ttl now. consume t a n ttl now =
     (let t1 = purge_nonces now t in
      case insert_unique nonce_key \<lparr>nonce_owner = f a, nonce_value = n, nonce_expires = now + ttl\<rparr> t1 of
        Some t2 \<Rightarrow> (True, t2)
      | None \<Rightarrow> (False, t1))"
  shows "replay_guard consume (\<lambda>t a n. nonce_expiry t (f a) n) (unique_on nonce_key)"
proof unfold_locales
  fix s a n ttl now
  show "unique_on nonce_key s \<Longrightarrow> unique_on nonce_key (snd (consume s a n ttl now))"
    by (auto simp: assms Let_def purge_unique dest: unique_insert_unique [OF purge_unique] split: option.split)
  show "fst (consume s a n ttl now) \<Longrightarrow> nonce_expiry (snd (consume s a n ttl now)) (f a) n = Some (now + ttl)"
    by (auto simp: assms Let_def nonce_expiry_insert split: option.splits)
  show "\<And>e. nonce_expiry s (f a) n = Some e \<Longrightarrow> now \<le> e \<Longrightarrow> \<not> fst (consume s a n ttl now)"
    using purge_keeps [of s "f a" n _ now]
    by (auto simp: assms Let_def insert_unique_def nonce_expiry_def split: option.splits)
  show "unique_on nonce_key s \<Longrightarrow> (\<And>e. nonce_expiry s (f a) n = Some e \<Longrightarrow> e < now) \<Longrightarrow>
      fst (consume s a n ttl now)"
    using purge_drops [of s "f a" n now]
    by (auto simp: assms Let_def nonce_insert_None_iff split: option.splits)
  fix b m e
  assume live: "nonce_expiry s (f b) m = Some e" "now \<le> e"
  note kept = purge_keeps [OF live]
  show "nonce_expiry (snd (consume s a n ttl now)) (f b) m = Some e"
    using kept
    by (auto simp: assms Let_def insert_unique_def nonce_expiry_def find_by_append split: option.split)
qed

interpretation sweeper_nonces: replay_guard consumeNonce "\<lambda>t a n. nonce_expiry t (lower a) n" "unique_on nonce_key"
  by (rule consume_laws) (simp add: consumeNonce_def)

interpretation bundler_nonces: replay_guard consumeBundlerNonce "\<lambda>t a n. nonce_expiry t (lower a) n" "unique_on nonce_key"
  by (rule consume_laws) (simp add: consumeBundlerNonce_def)

interpretation client_nonces: replay_guard consumeWalletClientNonce nonce_expiry "unique_on nonce_key"
  by (rule consume_laws [where f = "\<lambda>a. a"]) (simp add: consumeWalletClientNonce_def)

interpretation guardian_nonces: replay_guard consumeGuardianNonce "\<lambda>t a n. nonce_expiry t (lower a) n" "unique_on nonce_key"
  by (rule consume_laws) (simp add: consumeGuardianNonce_def)

end
