(* ===== verification/Registry.thy ===== *)
theory Registry
  imports Nonces
begin

text \<open>
  Who may call the server: the sweepers and bundlers the operator registers, the HMAC clients
  (partner sites) and the customers (email, wallet) each client has enrolled
  (commerce/server/db.ts). \<open>SweeperRow\<close> and \<open>BundlerRow\<close> have the same columns, so both
  tables hold \<open>operator_row\<close>s.
\<close>

record operator_row =
  or_address :: address
  or_label :: string
  or_chains :: "string list"
  or_enabled :: bool
  or_created_at :: timestamp
  or_last_seen_at :: "timestamp option"

record wallet_client =
  wc_id :: string
  wc_label :: string
  wc_rp_id :: string
  wc_origins :: "string list option"
  wc_hmac_secret :: string
  wc_enabled :: bool
  wc_created_at :: timestamp
  wc_updated_at :: timestamp
  wc_last_seen_at :: "timestamp option"

text \<open>What a client record shows to HTTP callers: everything but the secret.\<close>

record wallet_client_public =
  cl_id :: string
  cl_label :: string
  cl_rp_id :: string
  cl_origins :: "string list option"
  cl_enabled :: bool
  cl_created_at :: timestamp
  cl_updated_at :: timestamp

record wallet_identity =
  wi_client_id :: string
  wi_email :: string
  wi_wallet_address :: address
  wi_contact_json :: "string option"
  wi_created_at :: timestamp
  wi_updated_at :: timestamp

record registry_db =
  sweepers :: "operator_row list"
  sweeper_nonces :: "nonce_row list"
  bundlers :: "operator_row list"
  bundler_nonces :: "nonce_row list"
  wallet_clients :: "wallet_client list"
  wallet_client_nonces :: "nonce_row list"
  wallet_identities :: "wallet_identity list"

definition empty_registry :: registry_db where
  "empty_registry = \<lparr>sweepers = [], sweeper_nonces = [], bundlers = [], bundler_nonces = [],
     wallet_clients = [], wallet_client_nonces = [], wallet_identities = []\<rparr>"

definition normalizeEmail :: "string \<Rightarrow> string" where
  "normalizeEmail e = lower (trim e)"

lemma normalizeEmail_idem [simp]: "normalizeEmail (normalizeEmail e) = normalizeEmail e"
  by (simp add: normalizeEmail_def trim_lower)

lemma normalizeEmail_unfold: "lower (trim e) = normalizeEmail e"
  by (simp add: normalizeEmail_def)

section \<open>Sweepers and bundlers\<close>

definition upsertSweeper :: "registry_db \<Rightarrow> address \<Rightarrow> string \<Rightarrow> string list \<Rightarrow> bool option \<Rightarrow> timestamp \<Rightarrow> registry_db" where
  "upsertSweeper db a lbl cs enabled now =
     db\<lparr>sweepers := upsert or_address
          \<lparr>or_address = lower a, or_label = lbl, or_chains = cs, or_enabled = (enabled \<noteq> Some False),
           or_created_at = now, or_last_seen_at = None\<rparr>
          (\<lambda>old. old\<lparr>or_label := lbl, or_chains := cs, or_enabled := (enabled \<noteq> Some False)\<rparr>) (sweepers db)\<rparr>"

definition getSweeper :: "registry_db \<Rightarrow> address \<Rightarrow> operator_row option" where
  "getSweeper db a = find_by or_address (lower a) (sweepers db)"

definition touchSweeper :: "registry_db \<Rightarrow> address \<Rightarrow> timestamp \<Rightarrow> registry_db" where
  "touchSweeper db a now =
     db\<lparr>sweepers := update_where (\<lambda>r. or_address r = lower a) (\<lambda>r. r\<lparr>or_last_seen_at := Some now\<rparr>) (sweepers db)\<rparr>"

definition upsertBundler :: "registry_db \<Rightarrow> address \<Rightarrow> string \<Rightarrow> string list \<Rightarrow> bool option \<Rightarrow> timestamp \<Rightarrow> registry_db" where
  "upsertBundler db a lbl cs enabled now =
     db\<lparr>bundlers := upsert or_address
          \<lparr>or_address = lower a, or_label = lbl, or_chains = cs, or_enabled = (enabled \<noteq> Some False),
           or_created_at = now, or_last_seen_at = None\<rparr>
          (\<lambda>old. old\<lparr>or_label := lbl, or_chains := cs, or_enabled := (enabled \<noteq> Some False)\<rparr>) (bundlers db)\<rparr>"

definition getBundler :: "registry_db \<Rightarrow> address \<Rightarrow> operator_row option" where
  "getBundler db a = find_by or_address (lower a) (bundlers db)"

definition touchBundler :: "registry_db \<Rightarrow> address \<Rightarrow> timestamp \<Rightarrow> registry_db" where
  "touchBundler db a now =
     db\<lparr>bundlers := update_where (\<lambda>r. or_address r = lower a) (\<lambda>r. r\<lparr>or_last_seen_at := Some now\<rparr>) (bundlers db)\<rparr>"

section \<open>Clients\<close>

definition some_origins :: "string list option \<Rightarrow> string list option" where
  "some_origins os = (if os = Some [] then None else os)"

definition mapWalletClientPublic :: "wallet_client \<Rightarrow> wallet_client_public" where
  "mapWalletClientPublic r =
     \<lparr>cl_id = wc_id r, cl_label = wc_label r, cl_rp_id = wc_rp_id r, cl_origins = wc_origins r,
      cl_enabled = wc_enabled r, cl_created_at = wc_created_at r, cl_updated_at = wc_updated_at r\<rparr>"

definition getWalletClient :: "registry_db \<Rightarrow> string \<Rightarrow> wallet_client_public option" where
  "getWalletClient db i = map_option mapWalletClientPublic (find_by wc_id i (wallet_clients db))"

definition getWalletClientSecret :: "registry_db \<Rightarrow> string \<Rightarrow> (wallet_client_public \<times> string) option" where
  "getWalletClientSecret db i =
     map_option (\<lambda>r. (mapWalletClientPublic r, wc_hmac_secret r)) (find_by wc_id i (wallet_clients db))"

definition listWalletClients :: "registry_db \<Rightarrow> wallet_client_public list" where
  "listWalletClients db = map mapWalletClientPublic (order_asc wc_created_at (wallet_clients db))"

text \<open>\<open>new_id\<close> is the \<open>randomUUID()\<close> of the call.\<close>

definition createWalletClient ::
    "registry_db \<Rightarrow> string \<Rightarrow> string \<Rightarrow> string \<Rightarrow> string list option \<Rightarrow> string \<Rightarrow> bool option \<Rightarrow> timestamp \<Rightarrow>
     (wallet_client_public \<times> string) option \<times> registry_db" where
  "createWalletClient db new_id lbl rp origins secret enabled now =
     (case insert_unique wc_id
             \<lparr>wc_id = new_id, wc_label = lbl, wc_rp_id = lower (trim rp), wc_origins = some_origins origins,
              wc_hmac_secret = secret, wc_enabled = (enabled \<noteq> Some False), wc_created_at = now,
              wc_updated_at = now, wc_last_seen_at = None\<rparr> (wallet_clients db) of
        None \<Rightarrow> (None, db)
      | Some rows \<Rightarrow>
          (let db' = db\<lparr>wallet_clients := rows\<rparr> in
           (map_option (\<lambda>c. (c, secret)) (getWalletClient db' new_id), db')))"

text \<open>A patch: \<open>None\<close> is a field left out; \<open>Some None\<close> sets the origins to null.\<close>

record client_patch =
  cp_enabled :: "bool option"
  cp_label :: "string option"
  cp_rp_id :: "string option"
  cp_origins :: "string list option option"

definition updateWalletClient ::
    "registry_db \<Rightarrow> string \<Rightarrow> client_patch \<Rightarrow> timestamp \<Rightarrow> wallet_client_public option \<times> registry_db" where
  "updateWalletClient db i p now =
     (case getWalletClient db i of
        None \<Rightarrow> (None, db)
      | Some current \<Rightarrow>
          (let f = (\<lambda>r. r\<lparr>wc_label := nullish (cp_label p) (cl_label current),
                         wc_rp_id := nullish (map_option (lower \<circ> trim) (cp_rp_id p)) (cl_rp_id current),
                         wc_origins := some_origins (nullish (cp_origins p) (cl_origins current)),
                         wc_enabled := nullish (cp_enabled p) (cl_enabled current),
                         wc_updated_at := now\<rparr>);
               db' = db\<lparr>wallet_clients := update_where (\<lambda>r. wc_id r = i) f (wallet_clients db)\<rparr> in
           (getWalletClient db' i, db')))"

definition rotateWalletClientSecret ::
    "registry_db \<Rightarrow> string \<Rightarrow> string \<Rightarrow> timestamp \<Rightarrow> (wallet_client_public \<times> string) option \<times> registry_db" where
  "rotateWalletClientSecret db i secret now =
     (case getWalletClient db i of
        None \<Rightarrow> (None, db)
      | Some _ \<Rightarrow>
          (let db' = db\<lparr>wallet_clients := update_where (\<lambda>r. wc_id r = i)
                 (\<lambda>r. r\<lparr>wc_hmac_secret := secret, wc_updated_at := now\<rparr>) (wallet_clients db)\<rparr> in
           (map_option (\<lambda>c. (c, secret)) (getWalletClient db' i), db')))"

definition touchWalletClient :: "registry_db \<Rightarrow> string \<Rightarrow> timestamp \<Rightarrow> registry_db" where
  "touchWalletClient db i now =
     db\<lparr>wallet_clients := update_where (\<lambda>r. wc_id r = i) (\<lambda>r. r\<lparr>wc_last_seen_at := Some now\<rparr>) (wallet_clients db)\<rparr>"

section \<open>Customers of a client\<close>

definition wi_key :: "wallet_identity \<Rightarrow> string \<times> string \<times> address" where
  "wi_key r = (wi_client_id r, wi_email r, wi_wallet_address r)"

definition getWalletIdentity :: "registry_db \<Rightarrow> string \<Rightarrow> string \<Rightarrow> address \<Rightarrow> wallet_identity option" where
  "getWalletIdentity db c e w = find_by wi_key (c, normalizeEmail e, lower w) (wallet_identities db)"

definition upsertWalletIdentity ::
    "registry_db \<Rightarrow> string \<Rightarrow> string \<Rightarrow> address \<Rightarrow> string option \<Rightarrow> timestamp \<Rightarrow> wallet_identity option \<times> registry_db" where
  "upsertWalletIdentity db c e w contact now =
     (let db' = db\<lparr>wallet_identities := upsert wi_key
            \<lparr>wi_client_id = c, wi_email = normalizeEmail e, wi_wallet_address = lower w,
             wi_contact_json = contact, wi_created_at = now, wi_updated_at = now\<rparr>
            (\<lambda>old. old\<lparr>wi_contact_json := coalesce contact (wi_contact_json old), wi_updated_at := now\<rparr>)
            (wallet_identities db)\<rparr> in
      (getWalletIdentity db' c e w, db'))"

definition listWalletIdentities :: "registry_db \<Rightarrow> string \<Rightarrow> string \<Rightarrow> wallet_identity list" where
  "listWalletIdentities db c e =
     order_asc wi_created_at (filter (\<lambda>r. wi_client_id r = c \<and> wi_email r = normalizeEmail e) (wallet_identities db))"

definition clientOwnsWallet :: "registry_db \<Rightarrow> string \<Rightarrow> address \<Rightarrow> bool" where
  "clientOwnsWallet db c w = (\<exists>r \<in> set (wallet_identities db). wi_client_id r = c \<and> wi_wallet_address r = lower w)"

definition clientOwnsWalletForEmail :: "registry_db \<Rightarrow> string \<Rightarrow> string \<Rightarrow> address \<Rightarrow> bool" where
  "clientOwnsWalletForEmail db c e w = (getWalletIdentity db c e w \<noteq> None)"

section \<open>The registry interface\<close>

text \<open>
  What the request checks rely on: registering and switching off an operator takes effect at
  once, under any spelling of its address, and touching one changes nobody's registration.
\<close>

locale operator_registry =
  fixes upsert_op :: "registry_db \<Rightarrow> address \<Rightarrow> string \<Rightarrow> string list \<Rightarrow> bool option \<Rightarrow> timestamp \<Rightarrow> registry_db"
    and get_op :: "registry_db \<Rightarrow> address \<Rightarrow> operator_row option"
    and touch_op :: "registry_db \<Rightarrow> address \<Rightarrow> timestamp \<Rightarrow> registry_db"
  assumes get_upsert: "get_op (upsert_op db a lbl cs en now) b =
      (if lower b = lower a
       then Some (case get_op db a of
           None \<Rightarrow> \<lparr>or_address = lower a, or_label = lbl, or_chains = cs, or_enabled = (en \<noteq> Some False),
                    or_created_at = now, or_last_seen_at = None\<rparr>
         | Some r \<Rightarrow> r\<lparr>or_label := lbl, or_chains := cs, or_enabled := (en \<noteq> Some False)\<rparr>)
       else get_op db b)"
    and get_touch: "get_op (touch_op db a now) b =
      map_option (\<lambda>r. if lower b = lower a then r\<lparr>or_last_seen_at := Some now\<rparr> else r) (get_op db b)"
begin

definition active :: "registry_db \<Rightarrow> address \<Rightarrow> bool" where
  "active db a = opt_ex or_enabled (get_op db a)"

lemma active_upsert: "active (upsert_op db a lbl cs en now) b = (if lower b = lower a then en \<noteq> Some False else active db b)"
  by (auto simp: active_def get_upsert split: option.split)

lemma active_touch: "active (touch_op db a now) b = active db b"
  by (cases "get_op db b") (auto simp: active_def get_touch)

end

lemma find_upsert_operator:
  "find_by or_address k (upsert or_address \<lparr>or_address = a, or_label = lbl, or_chains = cs, or_enabled = en,
       or_created_at = now, or_last_seen_at = None\<rparr> (\<lambda>old. old\<lparr>or_label := lbl, or_chains := cs, or_enabled := en\<rparr>) t) =
   (if k = a then Some (case find_by or_address a t of
        None \<Rightarrow> \<lparr>or_address = a, or_label = lbl, or_chains = cs, or_enabled = en, or_created_at = now, or_last_seen_at = None\<rparr>
      | Some r \<Rightarrow> r\<lparr>or_label := lbl, or_chains := cs, or_enabled := en\<rparr>)
    else find_by or_address k t)"
  by (subst find_by_upsert) simp_all

lemma find_touch_operator:
  "find_by or_address k (update_where (\<lambda>r. or_address r = a) (\<lambda>r. r\<lparr>or_last_seen_at := Some now\<rparr>) t) =
   map_option (\<lambda>r. if k = a then r\<lparr>or_last_seen_at := Some now\<rparr> else r) (find_by or_address k t)"
  by (subst find_by_update_where) (auto intro!: option.map_cong dest: find_by_SomeD)

interpretation sweeper_registry: operator_registry upsertSweeper getSweeper touchSweeper
  by unfold_locales (simp_all add: upsertSweeper_def getSweeper_def touchSweeper_def find_upsert_operator find_touch_operator)

interpretation bundler_registry: operator_registry upsertBundler getBundler touchBundler
  by unfold_locales (simp_all add: upsertBundler_def getBundler_def touchBundler_def find_upsert_operator find_touch_operator)

end
