(* ===== verification/RequestAuth.thy ===== *)
theory RequestAuth
  imports Registry
begin

text \<open>
  The signed-request checks of the server: sweepers (commerce/server/sweeper-auth.ts) and
  bundlers (bundler-auth.ts) sign with their Ethereum key, clients (client-auth.ts) with a
  shared HMAC secret. Addresses, signatures, hashes, \<open>Number\<close> and the URL parser are
  parameters (\<open>auth_env\<close>); \<open>None\<close> is the exception the library throws, which the routes
  answer with 500.
\<close>

record auth_env =
  ae_getAddress :: "string \<Rightarrow> address option"
  ae_verifyMessage :: "string \<Rightarrow> string \<Rightarrow> address option"
  ae_sha256 :: "string \<Rightarrow> string"
  ae_hmac :: "string \<Rightarrow> string \<Rightarrow> string"
  ae_number :: "string \<Rightarrow> rat option"
  ae_pathname :: "string \<Rightarrow> string option"

text \<open>A request: header names map to string values (a repeated header, an array, reads as absent).\<close>

record http_request =
  hr_method :: "string option"
  hr_url :: "string option"
  hr_headers :: "(string \<times> string) list"

definition header :: "http_request \<Rightarrow> string \<Rightarrow> string option" where
  "header q name = map_of (hr_headers q) name"

definition SKEW_MS :: int where
  "SKEW_MS = 5 * 60 * 1000"

definition NONCE_TTL_MS :: int where
  "NONCE_TTL_MS = 10 * 60 * 1000"

type_synonym 'a auth_result = "unit http_error + 'a"

definition unauthorized :: "string \<Rightarrow> 'a auth_result" where
  "unauthorized msg = Inl (Http_Error 401 msg None)"

definition thrown :: "'a auth_result" where
  "thrown = Inl (Http_Error 500 ''Internal error'' None)"

record signed_fields =
  sf_method :: string
  sf_path :: string
  sf_body_hash :: string
  sf_timestamp :: string
  sf_nonce :: string

text \<open>The three canonical messages differ in their first line only.\<close>

definition message_lines :: "string \<Rightarrow> signed_fields \<Rightarrow> string list" where
  "message_lines title f =
     [title, ''Method: '' @ sf_method f, ''Path: '' @ sf_path f, ''Body-SHA256: '' @ sf_body_hash f,
      ''Timestamp: '' @ sf_timestamp f, ''Nonce: '' @ sf_nonce f]"

definition canonicalMessage :: "signed_fields \<Rightarrow> string" where
  "canonicalMessage f = join_lines (message_lines ''Trustless Commerce sweeper request'' f)"

definition canonicalBundlerMessage :: "signed_fields \<Rightarrow> string" where
  "canonicalBundlerMessage f = join_lines (message_lines ''Trustless Commerce bundler request'' f)"

definition canonicalClientMessage :: "signed_fields \<Rightarrow> string" where
  "canonicalClientMessage f = join_lines (message_lines ''Trustless Commerce client request'' f)"

text \<open>The fields a request is signed over; \<open>None\<close> when the URL does not parse.\<close>

definition request_fields :: "auth_env \<Rightarrow> http_request \<Rightarrow> string option \<Rightarrow> string \<Rightarrow> string \<Rightarrow> signed_fields option" where
  "request_fields env q body_hash ts n =
     map_option (\<lambda>path. \<lparr>sf_method = upper (nullish (hr_method q) ''GET''), sf_path = path,
         sf_body_hash = nullish body_hash (ae_sha256 env ''''), sf_timestamp = ts, sf_nonce = n\<rparr>)
       (ae_pathname env (nullish (hr_url q) ''/''))"

text \<open>\<open>!Number.isFinite(ts) || Math.abs(Date.now() - ts) > SKEW_MS\<close> is the negation.\<close>

definition in_window :: "auth_env \<Rightarrow> string \<Rightarrow> timestamp \<Rightarrow> bool" where
  "in_window env ts now = opt_ex (\<lambda>t. \<bar>of_int now - t\<bar> \<le> of_int SKEW_MS) (ae_number env ts)"

text \<open>The end of \<open>requireSweeper\<close> and \<open>requireBundler\<close>: does the key recovered from the signature own the address?\<close>

definition signature_ok :: "auth_env \<Rightarrow> string \<Rightarrow> string \<Rightarrow> address \<Rightarrow> bool option" where
  "signature_ok env msg sig a =
     map_option (\<lambda>recovered. recovered = a) (Option.bind (ae_verifyMessage env msg sig) (ae_getAddress env))"

section \<open>Sweepers\<close>

definition requireSweeper :: "auth_env \<Rightarrow> registry_db \<Rightarrow> http_request \<Rightarrow> timestamp \<Rightarrow> address auth_result \<times> registry_db" where
  "requireSweeper env db q now =
     (let ah = header q ''x-sweeper-address''; ts = header q ''x-sweeper-timestamp'';
          n = header q ''x-sweeper-nonce''; sig = header q ''x-sweeper-signature'' in
      if \<not> (truthy ah \<and> truthy ts \<and> truthy n \<and> truthy sig)
      then (unauthorized ''Missing sweeper signature headers'', db)
      else (case ae_getAddress env (the ah) of
        None \<Rightarrow> (thrown, db)
      | Some a \<Rightarrow>
          if \<not> opt_ex or_enabled (getSweeper db a)
          then (unauthorized ''Sweeper not registered or disabled'', db)
          else if \<not> in_window env (the ts) now
          then (unauthorized ''Sweeper timestamp skew too large'', db)
          else (let (fresh, ns) = consumeNonce (sweeper_nonces db) a (the n) NONCE_TTL_MS now;
                    db1 = db\<lparr>sweeper_nonces := ns\<rparr> in
                if \<not> fresh then (unauthorized ''Sweeper nonce already used'', db1)
                else (case request_fields env q (header q ''x-sweeper-body-hash'') (the ts) (the n) of
                  None \<Rightarrow> (thrown, db1)
                | Some f \<Rightarrow>
                    (case signature_ok env (canonicalMessage f) (the sig) a of
                      None \<Rightarrow> (thrown, db1)
                    | Some ok \<Rightarrow>
                        if \<not> ok then (unauthorized ''Invalid sweeper signature'', db1)
                        else (Inr a, touchSweeper db1 a now))))))"

section \<open>Bundlers\<close>

definition requireBundler :: "auth_env \<Rightarrow> registry_db \<Rightarrow> http_request \<Rightarrow> timestamp \<Rightarrow> address auth_result \<times> registry_db" where
  "requireBundler env db q now =
     (let ah = header q ''x-bundler-address''; ts = header q ''x-bundler-timestamp'';
          n = header q ''x-bundler-nonce''; sig = header q ''x-bundler-signature'' in
      if \<not> (truthy ah \<and> truthy ts \<and> truthy n \<and> truthy sig)
      then (unauthorized ''Missing bundler signature headers'', db)
      else (case ae_getAddress env (the ah) of
        None \<Rightarrow> (thrown, db)
      | Some a \<Rightarrow>
          if \<not> opt_ex or_enabled (getBundler db a)
          then (unauthorized ''Bundler not registered or disabled'', db)
          else if \<not> in_window env (the ts) now
          then (unauthorized ''Bundler timestamp skew too large'', db)
          else (let (fresh, ns) = consumeBundlerNonce (bundler_nonces db) a (the n) NONCE_TTL_MS now;
                    db1 = db\<lparr>bundler_nonces := ns\<rparr> in
                if \<not> fresh then (unauthorized ''Bundler nonce already used'', db1)
                else (case request_fields env q (header q ''x-bundler-body-hash'') (the ts) (the n) of
                  None \<Rightarrow> (thrown, db1)
                | Some f \<Rightarrow>
                    (case signature_ok env (canonicalBundlerMessage f) (the sig) a of
                      None \<Rightarrow> (thrown, db1)
                    | Some ok \<Rightarrow>
                        if \<not> ok then (unauthorized ''Invalid bundler signature'', db1)
                        else (Inr a, touchBundler db1 a now))))))"

section \<open>Clients\<close>

text \<open>Case-insensitive comparison of two digests, in constant time.\<close>

definition safeEqualHex :: "string \<Rightarrow> string \<Rightarrow> bool" where
  "safeEqualHex a b = (lower a = lower b)"

definition signClientCanonical :: "auth_env \<Rightarrow> string \<Rightarrow> string \<Rightarrow> string" where
  "signClientCanonical env secret msg = ae_hmac env secret msg"

definition requireWalletClient ::
    "auth_env \<Rightarrow> registry_db \<Rightarrow> http_request \<Rightarrow> string option \<Rightarrow> timestamp \<Rightarrow>
     (wallet_client_public \<times> string) auth_result \<times> registry_db" where
  "requireWalletClient env db q raw now =
     (let c = header q ''x-client-id''; ts = header q ''x-client-timestamp'';
          n = header q ''x-client-nonce''; sig = header q ''x-client-signature'' in
      if \<not> (truthy c \<and> truthy ts \<and> truthy n \<and> truthy sig)
      then (unauthorized ''Missing client HMAC headers'', db)
      else (case getWalletClientSecret db (the c) of
        None \<Rightarrow> (unauthorized ''Client not registered or disabled'', db)
      | Some (row, secret) \<Rightarrow>
          if \<not> cl_enabled row
          then (unauthorized ''Client not registered or disabled'', db)
          else if \<not> in_window env (the ts) now
          then (unauthorized ''Client timestamp skew too large'', db)
          else (let (fresh, ns) = consumeWalletClientNonce (wallet_client_nonces db) (the c) (the n) NONCE_TTL_MS now;
                    db1 = db\<lparr>wallet_client_nonces := ns\<rparr> in
                if \<not> fresh then (unauthorized ''Client nonce already used'', db1)
                else (case request_fields env q (header q ''x-client-body-hash'') (the ts) (the n) of
                  None \<Rightarrow> (thrown, db1)
                | Some f \<Rightarrow>
                    if opt_ex (\<lambda>b. \<not> safeEqualHex (ae_sha256 env b) (sf_body_hash f)) raw
                    then (unauthorized ''Client body hash mismatch'', db1)
                    else if \<not> safeEqualHex (signClientCanonical env secret (canonicalClientMessage f)) (the sig)
                    then (unauthorized ''Invalid client signature'', db1)
                    else (Inr (row, secret), touchWalletClient db1 (the c) now)))))"

section \<open>Requests the legitimate caller builds\<close>

definition signClientRequest :: "auth_env \<Rightarrow> string \<Rightarrow> string \<Rightarrow> string \<Rightarrow> string \<Rightarrow> string option \<Rightarrow> string \<Rightarrow> string \<Rightarrow>
    (string \<times> string) list" where
  "signClientRequest env c secret mth path body ts n =
     (let bh = ae_sha256 env (nullish body '''');
          msg = canonicalClientMessage \<lparr>sf_method = upper mth, sf_path = path, sf_body_hash = bh, sf_timestamp = ts, sf_nonce = n\<rparr> in
      [(''x-client-id'', c), (''x-client-timestamp'', ts), (''x-client-nonce'', n), (''x-client-body-hash'', bh),
       (''x-client-signature'', signClientCanonical env secret msg)])"

text \<open>\<open>sign\<close> is the wallet's \<open>signMessage\<close>, \<open>a\<close> its address.\<close>

definition signSweeperRequest :: "auth_env \<Rightarrow> (string \<Rightarrow> string) \<Rightarrow> address \<Rightarrow> string \<Rightarrow> string \<Rightarrow> string option \<Rightarrow> string \<Rightarrow> string \<Rightarrow>
    (string \<times> string) list" where
  "signSweeperRequest env sign a mth path body ts n =
     (let bh = ae_sha256 env (nullish body '''');
          msg = canonicalMessage \<lparr>sf_method = upper mth, sf_path = path, sf_body_hash = bh, sf_timestamp = ts, sf_nonce = n\<rparr> in
      [(''x-sweeper-address'', a), (''x-sweeper-timestamp'', ts), (''x-sweeper-nonce'', n), (''x-sweeper-body-hash'', bh),
       (''x-sweeper-signature'', sign msg)])"

definition signBundlerRequest :: "auth_env \<Rightarrow> (string \<Rightarrow> string) \<Rightarrow> address \<Rightarrow> string \<Rightarrow> string \<Rightarrow> string option \<Rightarrow> string \<Rightarrow> string \<Rightarrow>
    (string \<times> string) list" where
  "signBundlerRequest env sign a mth path body ts n =
     (let bh = ae_sha256 env (nullish body '''');
          msg = canonicalBundlerMessage \<lparr>sf_method = upper mth, sf_path = path, sf_body_hash = bh, sf_timestamp = ts, sf_nonce = n\<rparr> in
      [(''x-bundler-address'', a), (''x-bundler-timestamp'', ts), (''x-bundler-nonce'', n), (''x-bundler-body-hash'', bh),
       (''x-bundler-signature'', sign msg)])"

section \<open>From a nonce table to a gate\<close>

lemma gate_laws:
  assumes guard: "replay_guard consume expires valid"
    and accepted: "\<And>db q now c db'. accept db q now = (Inr c, db') \<Longrightarrow>
      \<bar>of_int now - stamp q\<bar> \<le> of_int SKEW_MS \<and>
      fst (consume (tab db) (who q) (nonce q) NONCE_TTL_MS now) \<and>
      tab db' = snd (consume (tab db) (who q) (nonce q) NONCE_TTL_MS now)"
    and writes: "\<And>db q now. tab (snd (accept db q now)) = tab db \<or>
      (\<exists>a n. tab (snd (accept db q now)) = snd (consume (tab db) a n NONCE_TTL_MS now))"
  shows "auth_gate accept (\<lambda>q. (who q, nonce q)) (\<lambda>db i. expires (tab db) (fst i) (snd i)) stamp SKEW_MS NONCE_TTL_MS"
proof unfold_locales
  note keeps = replay_guard.consume_keeps [OF guard] and rejects = replay_guard.consume_rejects [OF guard]
    and accepts = replay_guard.consume_accepts [OF guard]
  fix db q now
  show "2 * SKEW_MS \<le> NONCE_TTL_MS" by (simp add: SKEW_MS_def NONCE_TTL_MS_def)
  show "accept db q now = (Inr c, db') \<Longrightarrow> \<bar>of_int now - stamp q\<bar> \<le> of_int SKEW_MS \<and>
      expires (tab db') (fst (who q, nonce q)) (snd (who q, nonce q)) = Some (now + NONCE_TTL_MS)" for c db'
    using accepted [of db q now c db'] accepts [of "tab db" "who q" "nonce q" NONCE_TTL_MS now] by simp
  show "expires (tab db) (fst i) (snd i) = Some e \<Longrightarrow> now \<le> e \<Longrightarrow>
      expires (tab (snd (accept db q now))) (fst i) (snd i) = Some e" for i e
    using writes [of db q now] keeps [of "tab db" "fst i" "snd i" e now] by auto
  show "expires (tab db) (fst (who q, nonce q)) (snd (who q, nonce q)) = Some e \<Longrightarrow> now \<le> e \<Longrightarrow>
      \<not> is_ok (fst (accept db q now))" for e
    using rejects [of "tab db" "who q" "nonce q" e now NONCE_TTL_MS] accepted [of db q now]
    by (cases "accept db q now") (auto simp: is_ok_iff)
qed

definition nonce_header :: "string \<Rightarrow> http_request \<Rightarrow> string" where
  "nonce_header name q = nullish (header q name) ''''"

definition address_header :: "auth_env \<Rightarrow> string \<Rightarrow> http_request \<Rightarrow> address" where
  "address_header env name q = nullish (ae_getAddress env (nullish (header q name) '''')) ''''"

definition stamp_header :: "auth_env \<Rightarrow> string \<Rightarrow> http_request \<Rightarrow> rat" where
  "stamp_header env name q = nullish (ae_number env (nullish (header q name) '''')) 0"

lemma in_window_stamp: "in_window env ts now \<Longrightarrow> header q name = Some ts \<Longrightarrow>
    \<bar>of_int now - stamp_header env name q\<bar> \<le> of_int SKEW_MS"
  by (auto simp: in_window_def stamp_header_def)

section \<open>What an accepted request has shown\<close>

lemma requireSweeper_accepts:
  assumes "requireSweeper env db q now = (Inr a, db')"
  shows "\<exists>ah ts n sig f.
    header q ''x-sweeper-address'' = Some ah \<and> header q ''x-sweeper-timestamp'' = Some ts \<and>
    header q ''x-sweeper-nonce'' = Some n \<and> header q ''x-sweeper-signature'' = Some sig \<and>
    ae_getAddress env ah = Some a \<and> opt_ex or_enabled (getSweeper db a) \<and> in_window env ts now \<and>
    fst (consumeNonce (sweeper_nonces db) a n NONCE_TTL_MS now) \<and>
    request_fields env q (header q ''x-sweeper-body-hash'') ts n = Some f \<and>
    signature_ok env (canonicalMessage f) sig a = Some True \<and>
    db' = touchSweeper (db\<lparr>sweeper_nonces := snd (consumeNonce (sweeper_nonces db) a n NONCE_TTL_MS now)\<rparr>) a now"
  using assms
  by (auto simp: requireSweeper_def Let_def unauthorized_def thrown_def truthy_def
      split: if_splits option.splits prod.splits)

lemma requireSweeper_writes:
  "sweeper_nonces (snd (requireSweeper env db q now)) = sweeper_nonces db \<or>
   (\<exists>a n. sweeper_nonces (snd (requireSweeper env db q now)) = snd (consumeNonce (sweeper_nonces db) a n NONCE_TTL_MS now))"
proof (cases "ae_getAddress env (the (header q ''x-sweeper-address''))")
  case (Some a)
  obtain fresh ns where c: "consumeNonce (sweeper_nonces db) a (the (header q ''x-sweeper-nonce'')) NONCE_TTL_MS now = (fresh, ns)"
    by force
  then have "ns = snd (consumeNonce (sweeper_nonces db) a (the (header q ''x-sweeper-nonce'')) NONCE_TTL_MS now)" by simp
  moreover have "sweeper_nonces (snd (requireSweeper env db q now)) \<in> {sweeper_nonces db, ns}"
    by (simp add: requireSweeper_def Let_def Some c touchSweeper_def split: option.split)
  ultimately show ?thesis by blast
qed (simp add: requireSweeper_def Let_def)

interpretation sweeper_gate: auth_gate "requireSweeper env"
  "\<lambda>q. (address_header env ''x-sweeper-address'' q, nonce_header ''x-sweeper-nonce'' q)"
  "\<lambda>db i. nonce_expiry (sweeper_nonces db) (lower (fst i)) (snd i)"
  "stamp_header env ''x-sweeper-timestamp''" SKEW_MS NONCE_TTL_MS for env
proof (rule gate_laws [OF sweeper_nonces.replay_guard_axioms])
  fix db q now a db'
  assume "requireSweeper env db q now = (Inr a, db')"
  from requireSweeper_accepts [OF this]
  show "\<bar>of_int now - stamp_header env ''x-sweeper-timestamp'' q\<bar> \<le> of_int SKEW_MS \<and>
      fst (consumeNonce (sweeper_nonces db) (address_header env ''x-sweeper-address'' q) (nonce_header ''x-sweeper-nonce'' q) NONCE_TTL_MS now) \<and>
      sweeper_nonces db' = snd (consumeNonce (sweeper_nonces db) (address_header env ''x-sweeper-address'' q) (nonce_header ''x-sweeper-nonce'' q) NONCE_TTL_MS now)"
    by (auto simp: address_header_def nonce_header_def touchSweeper_def intro: in_window_stamp)
qed (rule requireSweeper_writes)

lemma requireBundler_accepts:
  assumes "requireBundler env db q now = (Inr a, db')"
  shows "\<exists>ah ts n sig f.
    header q ''x-bundler-address'' = Some ah \<and> header q ''x-bundler-timestamp'' = Some ts \<and>
    header q ''x-bundler-nonce'' = Some n \<and> header q ''x-bundler-signature'' = Some sig \<and>
    ae_getAddress env ah = Some a \<and> opt_ex or_enabled (getBundler db a) \<and> in_window env ts now \<and>
    fst (consumeBundlerNonce (bundler_nonces db) a n NONCE_TTL_MS now) \<and>
    request_fields env q (header q ''x-bundler-body-hash'') ts n = Some f \<and>
    signature_ok env (canonicalBundlerMessage f) sig a = Some True \<and>
    db' = touchBundler (db\<lparr>bundler_nonces := snd (consumeBundlerNonce (bundler_nonces db) a n NONCE_TTL_MS now)\<rparr>) a now"
  using assms
  by (auto simp: requireBundler_def Let_def unauthorized_def thrown_def truthy_def
      split: if_splits option.splits prod.splits)

lemma requireBundler_writes:
  "bundler_nonces (snd (requireBundler env db q now)) = bundler_nonces db \<or>
   (\<exists>a n. bundler_nonces (snd (requireBundler env db q now)) = snd (consumeBundlerNonce (bundler_nonces db) a n NONCE_TTL_MS now))"
proof (cases "ae_getAddress env (the (header q ''x-bundler-address''))")
  case (Some a)
  obtain fresh ns where c: "consumeBundlerNonce (bundler_nonces db) a (the (header q ''x-bundler-nonce'')) NONCE_TTL_MS now = (fresh, ns)"
    by force
  then have "ns = snd (consumeBundlerNonce (bundler_nonces db) a (the (header q ''x-bundler-nonce'')) NONCE_TTL_MS now)" by simp
  moreover have "bundler_nonces (snd (requireBundler env db q now)) \<in> {bundler_nonces db, ns}"
    by (simp add: requireBundler_def Let_def Some c touchBundler_def split: option.split)
  ultimately show ?thesis by blast
qed (simp add: requireBundler_def Let_def)

interpretation bundler_gate: auth_gate "requireBundler env"
  "\<lambda>q. (address_header env ''x-bundler-address'' q, nonce_header ''x-bundler-nonce'' q)"
  "\<lambda>db i. nonce_expiry (bundler_nonces db) (lower (fst i)) (snd i)"
  "stamp_header env ''x-bundler-timestamp''" SKEW_MS NONCE_TTL_MS for env
proof (rule gate_laws [OF bundler_nonces.replay_guard_axioms])
  fix db q now a db'
  assume "requireBundler env db q now = (Inr a, db')"
  from requireBundler_accepts [OF this]
  show "\<bar>of_int now - stamp_header env ''x-bundler-timestamp'' q\<bar> \<le> of_int SKEW_MS \<and>
      fst (consumeBundlerNonce (bundler_nonces db) (address_header env ''x-bundler-address'' q) (nonce_header ''x-bundler-nonce'' q) NONCE_TTL_MS now) \<and>
      bundler_nonces db' = snd (consumeBundlerNonce (bundler_nonces db) (address_header env ''x-bundler-address'' q) (nonce_header ''x-bundler-nonce'' q) NONCE_TTL_MS now)"
    by (auto simp: address_header_def nonce_header_def touchBundler_def intro: in_window_stamp)
qed (rule requireBundler_writes)

lemma requireWalletClient_accepts:
  assumes "requireWalletClient env db q raw now = (Inr c, db')"
  shows "\<exists>i ts n sig f r.
    header q ''x-client-id'' = Some i \<and> header q ''x-client-timestamp'' = Some ts \<and>
    header q ''x-client-nonce'' = Some n \<and> header q ''x-client-signature'' = Some sig \<and>
    find_by wc_id i (wallet_clients db) = Some r \<and> wc_enabled r \<and>
    c = (mapWalletClientPublic r, wc_hmac_secret r) \<and> in_window env ts now \<and>
    fst (consumeWalletClientNonce (wallet_client_nonces db) i n NONCE_TTL_MS now) \<and>
    request_fields env q (header q ''x-client-body-hash'') ts n = Some f \<and>
    (\<forall>b. raw = Some b \<longrightarrow> lower (ae_sha256 env b) = lower (sf_body_hash f)) \<and>
    lower (ae_hmac env (wc_hmac_secret r) (canonicalClientMessage f)) = lower sig \<and>
    db' = touchWalletClient (db\<lparr>wallet_client_nonces := snd (consumeWalletClientNonce (wallet_client_nonces db) i n NONCE_TTL_MS now)\<rparr>) i now"
  using assms
  by (auto simp: requireWalletClient_def Let_def unauthorized_def thrown_def truthy_def getWalletClientSecret_def
      safeEqualHex_def signClientCanonical_def mapWalletClientPublic_def split: if_splits option.splits prod.splits)

lemma requireWalletClient_writes:
  "wallet_client_nonces (snd (requireWalletClient env db q raw now)) = wallet_client_nonces db \<or>
   (\<exists>a n. wallet_client_nonces (snd (requireWalletClient env db q raw now)) =
     snd (consumeWalletClientNonce (wallet_client_nonces db) a n NONCE_TTL_MS now))"
proof -
  let ?i = "the (header q ''x-client-id'')" and ?n = "the (header q ''x-client-nonce'')"
  obtain fresh ns where c: "consumeWalletClientNonce (wallet_client_nonces db) ?i ?n NONCE_TTL_MS now = (fresh, ns)"
    by force
  then have "ns = snd (consumeWalletClientNonce (wallet_client_nonces db) ?i ?n NONCE_TTL_MS now)" by simp
  moreover have "wallet_client_nonces (snd (requireWalletClient env db q raw now)) \<in> {wallet_client_nonces db, ns}"
    by (simp add: requireWalletClient_def Let_def c touchWalletClient_def split: option.split prod.split)
  ultimately show ?thesis by blast
qed

interpretation client_gate: auth_gate "\<lambda>db q now. requireWalletClient env db (fst q) (snd q) now"
  "\<lambda>q. (nonce_header ''x-client-id'' (fst q), nonce_header ''x-client-nonce'' (fst q))"
  "\<lambda>db i. nonce_expiry (wallet_client_nonces db) (fst i) (snd i)"
  "\<lambda>q. stamp_header env ''x-client-timestamp'' (fst q)" SKEW_MS NONCE_TTL_MS for env
proof (rule gate_laws [OF client_nonces.replay_guard_axioms])
  fix db now c db' and q :: "http_request \<times> string option"
  assume "requireWalletClient env db (fst q) (snd q) now = (Inr c, db')"
  from requireWalletClient_accepts [OF this]
  show "\<bar>of_int now - stamp_header env ''x-client-timestamp'' (fst q)\<bar> \<le> of_int SKEW_MS \<and>
      fst (consumeWalletClientNonce (wallet_client_nonces db) (nonce_header ''x-client-id'' (fst q)) (nonce_header ''x-client-nonce'' (fst q)) NONCE_TTL_MS now) \<and>
      wallet_client_nonces db' = snd (consumeWalletClientNonce (wallet_client_nonces db) (nonce_header ''x-client-id'' (fst q)) (nonce_header ''x-client-nonce'' (fst q)) NONCE_TTL_MS now)"
    by (auto simp: nonce_header_def touchWalletClient_def intro: in_window_stamp)
qed (rule requireWalletClient_writes)

end
