(* ===== verification/AuthProps.thy ===== *)
theory AuthProps
  imports RequestAuth InvoiceProps
begin

text \<open>
  The properties of the request checks, and the two sweeper routes (commerce/server/routes.ts)
  that combine them with the invoice tables.
\<close>

section \<open>The sweeper routes\<close>

record server_state =
  st_registry :: registry_db
  st_invoices :: invoice_db

text \<open>The parsed JSON body of a claim; \<open>None\<close> is a field of another type or not a number.\<close>

record claim_body =
  cb_invoice_id :: "string option"
  cb_expected_version :: "int option"

definition claimInvoiceRoute ::
    "auth_env \<Rightarrow> int \<Rightarrow> server_state \<Rightarrow> http_request \<Rightarrow> claim_body \<Rightarrow> timestamp \<Rightarrow> invoice invoice_result \<times> server_state" where
  "claimInvoiceRoute env leaseMs st q body now =
     (case requireSweeper env (st_registry st) q now of
        (Inl e, reg) \<Rightarrow> (Inl (Http_Error (status_code e) (error_message e) None), st\<lparr>st_registry := reg\<rparr>)
      | (Inr a, reg) \<Rightarrow>
          (case cb_invoice_id body of
             None \<Rightarrow> (Inl (Http_Error 400 ''invoiceId is required'' None), st\<lparr>st_registry := reg\<rparr>)
           | Some k \<Rightarrow>
               (case cb_expected_version body of
                  None \<Rightarrow> (Inl (Http_Error 400 ''expectedVersion is required'' None), st\<lparr>st_registry := reg\<rparr>)
                | Some v \<Rightarrow>
                    (let (r, inv) = claimInvoice (st_invoices st) k a v leaseMs now in
                     (r, st\<lparr>st_registry := reg, st_invoices := inv\<rparr>)))))"

text \<open>\<open>trackInvoiceSigned\<close>: the reporting sweeper is the authenticated one, whatever the body says.\<close>

definition trackInvoiceSigned ::
    "auth_env \<Rightarrow> server_state \<Rightarrow> http_request \<Rightarrow> string option \<Rightarrow> track_input \<Rightarrow> timestamp \<Rightarrow> invoice invoice_result \<times> server_state" where
  "trackInvoiceSigned env st q k body now =
     (case requireSweeper env (st_registry st) q now of
        (Inl e, reg) \<Rightarrow> (Inl (Http_Error (status_code e) (error_message e) None), st\<lparr>st_registry := reg\<rparr>)
      | (Inr a, reg) \<Rightarrow>
          (case k of
             None \<Rightarrow> (Inl (Http_Error 400 ''invoiceId is required'' None), st\<lparr>st_registry := reg\<rparr>)
           | Some i \<Rightarrow>
               (let (r, inv) = trackInvoice (st_invoices st) i (body\<lparr>ti_sweeper := Some a\<rparr>) now in
                (r, st\<lparr>st_registry := reg, st_invoices := inv\<rparr>))))"

text \<open>Whether a track fires the merchant's callback.\<close>

definition becamePaidLike :: "invoice option \<Rightarrow> invoice \<Rightarrow> bool" where
  "becamePaidLike before r =
     (paid_like (inv_status r) \<and>
      (before = None \<or> opt_ex (\<lambda>b. \<not> paid_like (inv_status b) \<or> inv_status b \<noteq> inv_status r) before))"

section \<open>Replay\<close>

fun serve_sweepers :: "auth_env \<Rightarrow> registry_db \<Rightarrow> (http_request \<times> timestamp) list \<Rightarrow> registry_db" where
  "serve_sweepers env db [] = db"
| "serve_sweepers env db ((q, now) # xs) = serve_sweepers env (snd (requireSweeper env db q now)) xs"

lemma serve_sweepers_eq: "serve_sweepers env db xs = sweeper_gate.serve env db xs"
  by (induction env db xs rule: serve_sweepers.induct) simp_all

fun serve_clients :: "auth_env \<Rightarrow> registry_db \<Rightarrow> (http_request \<times> string option \<times> timestamp) list \<Rightarrow> registry_db" where
  "serve_clients env db [] = db"
| "serve_clients env db ((q, raw, now) # xs) = serve_clients env (snd (requireWalletClient env db q raw now)) xs"

lemma serve_clients_eq: "serve_clients env db xs = client_gate.serve env db (map (\<lambda>(q, raw, t). ((q, raw), t)) xs)"
  by (induction env db xs rule: serve_clients.induct) simp_all

text \<open>
  C7. A sweeper's request is accepted once. After a request has been accepted, no request
  with its address, nonce and timestamp headers is ever accepted again, whatever body, path or
  signature it carries and whatever other requests, forged ones included, are served in
  between, as long as the clock does not run backwards: nonces outlive the skew window.
\<close>

theorem sweeper_request_accepted_once:
  assumes "requireSweeper env db q t0 = (Inr a, db')"
    and "\<forall>name \<in> {''x-sweeper-address'', ''x-sweeper-nonce'', ''x-sweeper-timestamp''}. header p name = header q name"
    and "\<forall>(r, t) \<in> set xs. t \<le> now"
  shows "\<not> is_ok (fst (requireSweeper env (serve_sweepers env db' xs) p now))"
  unfolding serve_sweepers_eq
  by (rule sweeper_gate.accepted_once [OF assms(1) _ _ assms(3)])
    (use assms(2) in \<open>simp_all add: address_header_def nonce_header_def stamp_header_def\<close>)

text \<open>
  The same for HMAC clients: no request with the client, nonce and timestamp of an
  accepted one is accepted again.
\<close>

theorem client_request_accepted_once:
  assumes "requireWalletClient env db q raw t0 = (Inr c, db')"
    and "\<forall>name \<in> {''x-client-id'', ''x-client-nonce'', ''x-client-timestamp''}. header p name = header q name"
    and "\<forall>(r, raw', t) \<in> set xs. t \<le> now"
  shows "\<not> is_ok (fst (requireWalletClient env (serve_clients env db' xs) p raw2 now))"
proof -
  have "\<not> is_ok (fst (requireWalletClient env (client_gate.serve env db' (map (\<lambda>(q, raw, t). ((q, raw), t)) xs))
      (fst (p, raw2)) (snd (p, raw2)) now))"
  proof (rule client_gate.accepted_once)
    show "requireWalletClient env db (fst (q, raw)) (snd (q, raw)) t0 = (Inr c, db')" using assms(1) by simp
    show "\<forall>(r, t) \<in> set (map (\<lambda>(q, raw, t). ((q, raw), t)) xs). t \<le> now" using assms(3) by auto
  qed (use assms(2) in \<open>simp_all add: nonce_header_def stamp_header_def\<close>)
  then show ?thesis by (simp add: serve_clients_eq)
qed

section \<open>What a signature covers\<close>

lemma message_no_newline:
  "newline \<notin> set t \<Longrightarrow> \<forall>s \<in> {sf_method f, sf_path f, sf_body_hash f, sf_timestamp f, sf_nonce f}. newline \<notin> set s \<Longrightarrow>
   \<forall>l \<in> set (message_lines t f). newline \<notin> set l"
  by (simp add: message_lines_def)

lemma message_lines_eq: "message_lines t f = message_lines u g \<longleftrightarrow> t = u \<and> f = g"
  by (cases f, cases g) (auto simp: message_lines_def)

text \<open>
  A signed message has one reading. Two requests with the same canonical message agree
  in method, path, body hash, timestamp and nonce (header values, methods and URL paths
  contain no newline), and a message signed for one role is never one of another role.
\<close>

theorem canonical_message_injective:
  assumes "\<forall>s \<in> {sf_method f, sf_path f, sf_body_hash f, sf_timestamp f, sf_nonce f,
      sf_method g, sf_path g, sf_body_hash g, sf_timestamp g, sf_nonce g}. newline \<notin> set s"
  shows "(canonicalMessage f = canonicalMessage g \<longrightarrow> f = g) \<and>
    (canonicalClientMessage f = canonicalClientMessage g \<longrightarrow> f = g) \<and>
    canonicalMessage f \<noteq> canonicalBundlerMessage g \<and> canonicalMessage f \<noteq> canonicalClientMessage g \<and>
    canonicalBundlerMessage f \<noteq> canonicalClientMessage g"
proof -
  have inj: "t = u \<and> f = g" if "join_lines (message_lines t f) = join_lines (message_lines u g)"
    "newline \<notin> set t" "newline \<notin> set u" for t u
  proof -
    have ne: "message_lines t' h \<noteq> []" for t' h by (simp add: message_lines_def)
    have "\<forall>l \<in> set (message_lines t f). newline \<notin> set l"
      by (rule message_no_newline [OF that(2)]) (use assms in blast)
    note f = split_join_lines [OF ne this]
    have "\<forall>l \<in> set (message_lines u g). newline \<notin> set l"
      by (rule message_no_newline [OF that(3)]) (use assms in blast)
    note g = split_join_lines [OF ne this]
    from f g that(1) have "message_lines t f = message_lines u g" by metis
    then show ?thesis by (simp add: message_lines_eq)
  qed
  define s b c where "s = ''Trustless Commerce sweeper request''" and "b = ''Trustless Commerce bundler request''"
    and "c = ''Trustless Commerce client request''"
  have "newline \<notin> set s" "newline \<notin> set b" "newline \<notin> set c" "s \<noteq> b" "s \<noteq> c" "b \<noteq> c"
    by (simp_all add: s_def b_def c_def)
  with inj have "join_lines (message_lines s f) = join_lines (message_lines s g) \<Longrightarrow> f = g"
    "join_lines (message_lines c f) = join_lines (message_lines c g) \<Longrightarrow> f = g"
    "join_lines (message_lines s f) \<noteq> join_lines (message_lines b g)"
    "join_lines (message_lines s f) \<noteq> join_lines (message_lines c g)"
    "join_lines (message_lines b f) \<noteq> join_lines (message_lines c g)"
    by blast+
  then show ?thesis
    unfolding canonicalMessage_def canonicalClientMessage_def canonicalBundlerMessage_def
      s_def [symmetric] b_def [symmetric] c_def [symmetric] by blast
qed

text \<open>
  What acceptance of a client proves. The client is registered and enabled, the request
  is recent, and its signature is the HMAC, under the client's current secret, of the method,
  path, body hash, timestamp and nonce of this very request; and when the server passes the
  body it read, its hash is the signed one. Acceptance changes nothing but the client's nonces
  and last-seen time.
\<close>

theorem accepted_client_signed:
  assumes "requireWalletClient env db q (Some body) now = (Inr (c, secret), db')"
  shows "\<exists>r f sig. find_by wc_id (cl_id c) (wallet_clients db) = Some r \<and> wc_enabled r \<and> secret = wc_hmac_secret r \<and>
    header q ''x-client-id'' = Some (cl_id c) \<and> header q ''x-client-signature'' = Some sig \<and>
    request_fields env q (header q ''x-client-body-hash'') (nullish (header q ''x-client-timestamp'') '''')
      (nullish (header q ''x-client-nonce'') '''') = Some f \<and>
    lower (ae_hmac env secret (canonicalClientMessage f)) = lower sig \<and>
    lower (ae_sha256 env body) = lower (sf_body_hash f) \<and>
    sweepers db' = sweepers db \<and> sweeper_nonces db' = sweeper_nonces db \<and> bundlers db' = bundlers db \<and>
    bundler_nonces db' = bundler_nonces db \<and> wallet_identities db' = wallet_identities db \<and>
    map mapWalletClientPublic (wallet_clients db') = map mapWalletClientPublic (wallet_clients db)"
proof -
  from requireWalletClient_accepts [OF assms] obtain i ts n sig f r where
    h: "header q ''x-client-id'' = Some i" "header q ''x-client-timestamp'' = Some ts"
      "header q ''x-client-nonce'' = Some n" "header q ''x-client-signature'' = Some sig"
    and r: "find_by wc_id i (wallet_clients db) = Some r" "wc_enabled r" "c = mapWalletClientPublic r" "secret = wc_hmac_secret r"
    and f: "request_fields env q (header q ''x-client-body-hash'') ts n = Some f"
      "lower (ae_sha256 env body) = lower (sf_body_hash f)"
      "lower (ae_hmac env (wc_hmac_secret r) (canonicalClientMessage f)) = lower sig"
    and db': "db' = touchWalletClient (db\<lparr>wallet_client_nonces :=
        snd (consumeWalletClientNonce (wallet_client_nonces db) i n NONCE_TTL_MS now)\<rparr>) i now"
    by auto
  have "cl_id c = i" using find_by_SomeD [OF r(1)] r(3) by (simp add: mapWalletClientPublic_def)
  moreover have "map mapWalletClientPublic (wallet_clients db') = map mapWalletClientPublic (wallet_clients db)"
    by (auto simp: db' touchWalletClient_def update_where_def mapWalletClientPublic_def)
  ultimately show ?thesis using h r f by (auto simp: db' touchWalletClient_def)
qed

text \<open>
  A well-formed client request gets through. The headers \<open>signClientRequest\<close> builds for a
  registered, enabled client's secret, sent to the signed path with the signed body within
  the skew window and with a nonce that is not in use, are accepted.
\<close>

theorem signed_client_request_accepted:
  assumes "find_by wc_id i (wallet_clients db) = Some r" and "wc_enabled r"
    and "unique_on nonce_key (wallet_client_nonces db)"
    and "\<And>e. nonce_expiry (wallet_client_nonces db) i n = Some e \<Longrightarrow> e < now"
    and "ae_number env ts = Some t" and "\<bar>of_int now - t\<bar> \<le> of_int SKEW_MS"
    and "ae_pathname env url = Some path" and "upper mth' = upper mth" and "i \<noteq> ''''" and "ts \<noteq> ''''" and "n \<noteq> ''''"
    and "ae_hmac env (wc_hmac_secret r) (canonicalClientMessage \<lparr>sf_method = upper mth, sf_path = path,
           sf_body_hash = ae_sha256 env body, sf_timestamp = ts, sf_nonce = n\<rparr>) \<noteq> ''''"
  shows "\<exists>db'. requireWalletClient env db
      \<lparr>hr_method = Some mth', hr_url = Some url,
       hr_headers = signClientRequest env i (wc_hmac_secret r) mth path (Some body) ts n\<rparr> (Some body) now =
    (Inr (mapWalletClientPublic r, wc_hmac_secret r), db')"
proof -
  have "fst (consumeWalletClientNonce (wallet_client_nonces db) i n NONCE_TTL_MS now)"
    using client_nonces.consume_fresh [OF assms(3), of i n now NONCE_TTL_MS] assms(4) by blast
  then obtain ns where c: "consumeWalletClientNonce (wallet_client_nonces db) i n NONCE_TTL_MS now = (True, ns)"
    by (cases "consumeWalletClientNonce (wallet_client_nonces db) i n NONCE_TTL_MS now") auto
  have "in_window env ts now" using assms(5,6) by (simp add: in_window_def)
  with c assms(1,2,7-12) show ?thesis
    by (simp add: requireWalletClient_def signClientRequest_def header_def getWalletClientSecret_def Let_def
        request_fields_def safeEqualHex_def signClientCanonical_def mapWalletClientPublic_def)
qed

section \<open>What a sweeper's signature does not cover\<close>

text \<open>
  A sweeper's signature does not bind the request body. The body hash a sweeper signs is
  taken from its own header and never compared with the body that is read: a request that
  \<open>requireSweeper\<close> accepts claims, for the authenticated sweeper, whatever claimable invoice the
  delivered body names, even one the sweeper never signed for.
\<close>

theorem sweeper_body_not_bound:
  assumes "requireSweeper env (st_registry st) q now = (Inr a, reg)"
    and "reachable_invoices (st_invoices st)"
    and "invoice_by_id (st_invoices st) k = Some r" and "claim_where a (inv_version r) now r"
  shows "\<exists>st'. claimInvoiceRoute env lease st q \<lparr>cb_invoice_id = Some k, cb_expected_version = Some (inv_version r)\<rparr> now =
      (Inr (claim_set a (now + lease) now r), st') \<and>
    invoice_by_id (st_invoices st') k = Some (claim_set a (now + lease) now r)"
proof -
  have u: "invoices_unique (st_invoices st)" by (rule invoice_db_okD(1) [OF reachable_ok [OF assms(2)]])
  have ok: "claimInvoice (st_invoices st) k a (inv_version r) lease now = (Inr (claim_set a (now + lease) now r),
      snd (claimInvoice (st_invoices st) k a (inv_version r) lease now))"
    using assms(3,4) by (simp add: claimInvoice_eq [OF u])
  from sweeper_queue.claim_ok [OF u ok]
  have "invoice_by_id (snd (claimInvoice (st_invoices st) k a (inv_version r) lease now)) k = Some (claim_set a (now + lease) now r)"
    by blast
  moreover have "claimInvoiceRoute env lease st q \<lparr>cb_invoice_id = Some k, cb_expected_version = Some (inv_version r)\<rparr> now =
      (Inr (claim_set a (now + lease) now r),
       st\<lparr>st_registry := reg, st_invoices := snd (claimInvoice (st_invoices st) k a (inv_version r) lease now)\<rparr>)"
    unfolding claimInvoiceRoute_def assms(1) by (simp add: ok [THEN arg_cong [where f = fst], simplified] case_prod_beta)
  ultimately show ?thesis by auto
qed

section \<open>Witnesses\<close>

text \<open>A toy key scheme: a signature names its signer in front of the message.\<close>

definition demo_env :: auth_env where
  "demo_env =
     \<lparr>ae_getAddress = (\<lambda>s. Some s),
      ae_verifyMessage = (\<lambda>msg sig. if drop 4 sig = msg then Some (take 4 sig) else None),
      ae_sha256 = (\<lambda>s. ''h'' @ s), ae_hmac = (\<lambda>k m. k @ m),
      ae_number = (\<lambda>s. Some (of_nat (length s))), ae_pathname = Some\<rparr>"

definition demo_registry :: registry_db where
  "demo_registry =
     snd (createWalletClient (upsertSweeper empty_registry ''0xAA'' ''s1'' [] None 0) ''c1'' ''shop'' ''shop.example'' None
       ''secret'' None 0)"

definition demo_request :: http_request where
  "demo_request = \<lparr>hr_method = Some ''POST'', hr_url = Some ''/claim'',
     hr_headers = signSweeperRequest demo_env (\<lambda>m. ''0xaa'' @ m) ''0xaa'' ''POST'' ''/claim'' (Some ''b'') ''12345'' ''n1''\<rparr>"

lemma demo_request_accepted: "requireSweeper demo_env demo_registry demo_request 2000 =
    (Inr ''0xaa'', snd (requireSweeper demo_env demo_registry demo_request 2000))"
  by code_simp

theorem sweeper_request_accepted_once_witness:
  "\<not> is_ok (fst (requireSweeper demo_env (serve_sweepers demo_env
       (snd (requireSweeper demo_env demo_registry demo_request 2000)) [(demo_request, 3000)])
     (demo_request\<lparr>hr_url := Some ''/other''\<rparr>) 4000))"
  by (rule sweeper_request_accepted_once [OF demo_request_accepted]) (simp_all add: header_def)

definition demo_client_request :: http_request where
  "demo_client_request = \<lparr>hr_method = Some ''POST'', hr_url = Some ''/v1/x'',
     hr_headers = signClientRequest demo_env ''c1'' ''secret'' ''POST'' ''/v1/x'' (Some ''b'') ''12345'' ''n1''\<rparr>"

definition demo_client :: wallet_client where
  "demo_client = \<lparr>wc_id = ''c1'', wc_label = ''shop'', wc_rp_id = ''shop.example'', wc_origins = None,
     wc_hmac_secret = ''secret'', wc_enabled = True, wc_created_at = 0, wc_updated_at = 0, wc_last_seen_at = None\<rparr>"

lemma demo_client_row: "find_by wc_id ''c1'' (wallet_clients demo_registry) = Some demo_client"
  by code_simp

lemma demo_client_accepted: "requireWalletClient demo_env demo_registry demo_client_request (Some ''b'') 2000 =
    (Inr (mapWalletClientPublic demo_client, ''secret''),
     snd (requireWalletClient demo_env demo_registry demo_client_request (Some ''b'') 2000))"
  by code_simp

theorem client_request_accepted_once_witness:
  "\<not> is_ok (fst (requireWalletClient demo_env (serve_clients demo_env
       (snd (requireWalletClient demo_env demo_registry demo_client_request (Some ''b'') 2000)) [])
     demo_client_request None 4000))"
  by (rule client_request_accepted_once [OF demo_client_accepted]) simp_all

theorem canonical_message_injective_witness:
  "canonicalMessage \<lparr>sf_method = ''GET'', sf_path = ''/'', sf_body_hash = ''h'', sf_timestamp = ''1'', sf_nonce = ''n''\<rparr> \<noteq>
   canonicalMessage \<lparr>sf_method = ''GET'', sf_path = ''/'', sf_body_hash = ''h'', sf_timestamp = ''1'', sf_nonce = ''m''\<rparr>"
  using canonical_message_injective [of
      "\<lparr>sf_method = ''GET'', sf_path = ''/'', sf_body_hash = ''h'', sf_timestamp = ''1'', sf_nonce = ''n''\<rparr>"
      "\<lparr>sf_method = ''GET'', sf_path = ''/'', sf_body_hash = ''h'', sf_timestamp = ''1'', sf_nonce = ''m''\<rparr>"]
  by simp

theorem accepted_client_signed_witness:
  "header demo_client_request ''x-client-id'' = Some ''c1'' \<and>
   sweepers (snd (requireWalletClient demo_env demo_registry demo_client_request (Some ''b'') 2000)) = sweepers demo_registry"
  using accepted_client_signed [OF demo_client_accepted] by (auto simp: mapWalletClientPublic_def demo_client_def)

theorem signed_client_request_accepted_witness:
  "\<exists>db'. requireWalletClient demo_env demo_registry
      \<lparr>hr_method = Some ''post'', hr_url = Some ''/v1/x'',
       hr_headers = signClientRequest demo_env ''c1'' (wc_hmac_secret demo_client) ''POST'' ''/v1/x'' (Some ''b'') ''12345'' ''n1''\<rparr>
      (Some ''b'') 2000 = (Inr (mapWalletClientPublic demo_client, wc_hmac_secret demo_client), db')"
proof (rule signed_client_request_accepted [OF demo_client_row])
  show "ae_number demo_env ''12345'' = Some 5" "ae_pathname demo_env ''/v1/x'' = Some ''/v1/x''"
    by (simp_all add: demo_env_def)
  have "wallet_client_nonces demo_registry = []" by code_simp
  then show "unique_on nonce_key (wallet_client_nonces demo_registry)"
    "\<And>e. nonce_expiry (wallet_client_nonces demo_registry) ''c1'' ''n1'' = Some e \<Longrightarrow> e < 2000"
    by (simp_all add: nonce_expiry_def)
qed (code_simp | simp add: demo_client_def SKEW_MS_def demo_env_def canonicalClientMessage_def message_lines_def)+

definition demo_state :: server_state where
  "demo_state = \<lparr>st_registry = demo_registry, st_invoices = demo_db\<rparr>"

theorem sweeper_body_not_bound_witness:
  "\<exists>st'. claimInvoiceRoute demo_env 60000 demo_state demo_request
      \<lparr>cb_invoice_id = Some ''I1'', cb_expected_version = Some 1\<rparr> 2000 =
      (Inr (claim_set ''0xaa'' 62000 2000 (new_invoice demo_input 1000)), st') \<and>
    invoice_by_id (st_invoices st') ''I1'' = Some (claim_set ''0xaa'' 62000 2000 (new_invoice demo_input 1000))"
proof -
  have "requireSweeper demo_env (st_registry demo_state) demo_request 2000 =
      (Inr ''0xaa'', snd (requireSweeper demo_env demo_registry demo_request 2000))"
    "reachable_invoices (st_invoices demo_state)" "invoice_by_id (st_invoices demo_state) ''I1'' = Some (new_invoice demo_input 1000)"
    using demo_request_accepted demo_db_reachable demo_row by (simp_all add: demo_state_def)
  from sweeper_body_not_bound [OF this, of 60000] show ?thesis
    by (simp add: claim_where_def new_invoice_def claimable_status_def)
qed

end
