(* ===== verification/UserOps.thy ===== *)
theory UserOps
  imports Leases Complex_Main
begin

text \<open>
  The queue of user operations (table \<open>wallet_user_ops\<close> of commerce/server/db.ts): wallets
  submit signed ERC-4337 operations, bundlers claim them, submit them on chain and report.
  The table is keyed by \<open>user_op_hash\<close>, stored in lower case.
\<close>

datatype userop_status = Uop_Pending | Uop_Claimed | Uop_Submitted | Uop_Included | Uop_Failed | Uop_Rejected

record packed_user_op =
  puo_sender :: string
  puo_nonce :: string
  puo_init_code :: string
  puo_call_data :: string
  puo_account_gas_limits :: string
  puo_pre_verification_gas :: string
  puo_gas_fees :: string
  puo_paymaster_and_data :: string
  puo_signature :: string

record user_op =
  uo_id :: string
  uo_wallet_address :: address
  uo_chain_id :: string
  uo_hash :: string
  uo_user_op :: packed_user_op
  uo_status :: userop_status
  uo_claimed_by :: "address option"
  uo_claimed_until :: "timestamp option"
  uo_version :: int
  uo_tx_hash :: "string option"
  uo_reject_reason :: "string option"
  uo_gas_spent_wei :: "string option"
  uo_created_at :: timestamp
  uo_updated_at :: timestamp

type_synonym userop_table = "user_op list"
type_synonym 'a userop_result = "user_op http_error + 'a"

definition getWalletUserOpByHash :: "userop_table \<Rightarrow> string \<Rightarrow> user_op option" where
  "getWalletUserOpByHash t h = find_by uo_hash (lower h) t"

definition new_user_op :: "string \<Rightarrow> address \<Rightarrow> string \<Rightarrow> string \<Rightarrow> packed_user_op \<Rightarrow> timestamp \<Rightarrow> user_op" where
  "new_user_op i w c h op now =
     \<lparr>uo_id = i, uo_wallet_address = lower w, uo_chain_id = c, uo_hash = lower h, uo_user_op = op,
      uo_status = Uop_Pending, uo_claimed_by = None, uo_claimed_until = None, uo_version = 1,
      uo_tx_hash = None, uo_reject_reason = None, uo_gas_spent_wei = None, uo_created_at = now, uo_updated_at = now\<rparr>"

text \<open>\<open>i\<close> is the \<open>randomUUID()\<close>; a constraint failure on the hash answers with the operation that is there.\<close>

definition createWalletUserOp ::
    "userop_table \<Rightarrow> string \<Rightarrow> address \<Rightarrow> string \<Rightarrow> string \<Rightarrow> packed_user_op \<Rightarrow> timestamp \<Rightarrow> user_op userop_result \<times> userop_table" where
  "createWalletUserOp t i w c h op now =
     (if find_by uo_id i t \<noteq> None \<or> find_by uo_hash (lower h) t \<noteq> None
      then (case getWalletUserOpByHash t h of
              Some r \<Rightarrow> (Inr r, t)
            | None \<Rightarrow> (Inl (Http_Error 500 ''UNIQUE constraint failed: wallet_user_ops'' None), t))
      else (Inr (new_user_op i w c h op now), t @ [new_user_op i w c h op now]))"

definition requeue_set :: "address \<Rightarrow> string \<Rightarrow> packed_user_op \<Rightarrow> timestamp \<Rightarrow> user_op \<Rightarrow> user_op" where
  "requeue_set w c op now r =
     r\<lparr>uo_wallet_address := lower w, uo_chain_id := c, uo_user_op := op, uo_status := Uop_Pending,
       uo_claimed_by := None, uo_claimed_until := None, uo_tx_hash := None, uo_reject_reason := None,
       uo_gas_spent_wei := None, uo_version := uo_version r + 1, uo_updated_at := now\<rparr>"

definition requeueWalletUserOp ::
    "userop_table \<Rightarrow> string \<Rightarrow> packed_user_op \<Rightarrow> address \<Rightarrow> string \<Rightarrow> timestamp \<Rightarrow> user_op option \<times> userop_table" where
  "requeueWalletUserOp t h op w c now =
     (let P = (\<lambda>r. uo_hash r = lower h \<and> (uo_status r = Uop_Rejected \<or> uo_status r = Uop_Failed)) in
      if changes P t = 0 then (None, t)
      else (let t' = update_where P (requeue_set w c op now) t in (getWalletUserOpByHash t' h, t')))"

definition listBundlerUserOps :: "userop_table \<Rightarrow> userop_status list \<Rightarrow> string list option \<Rightarrow> user_op list" where
  "listBundlerUserOps t statuses only =
     take 100 (order_asc uo_created_at (filter (\<lambda>r. uo_status r \<in> set statuses \<and>
       (only = None \<or> only = Some [] \<or> opt_ex (\<lambda>cs. uo_chain_id r \<in> set cs) only)) t))"

text \<open>The statuses the bundler route asks for when the request names none.\<close>

definition bundler_default_statuses :: "userop_status list" where
  "bundler_default_statuses = [Uop_Pending, Uop_Claimed]"

section \<open>Claim and track\<close>

definition uop_claim_where :: "address \<Rightarrow> int \<Rightarrow> timestamp \<Rightarrow> user_op \<Rightarrow> bool" where
  "uop_claim_where b v now r =
     (uo_version r = v \<and> (uo_status r = Uop_Pending \<or> uo_status r = Uop_Claimed) \<and>
      (uo_claimed_by r = None \<or> uo_claimed_by r = Some b \<or> opt_ex (\<lambda>t. t < now) (uo_claimed_until r)))"

definition uop_claim_set :: "address \<Rightarrow> timestamp \<Rightarrow> timestamp \<Rightarrow> user_op \<Rightarrow> user_op" where
  "uop_claim_set b until now r =
     r\<lparr>uo_claimed_by := Some b, uo_claimed_until := Some until, uo_status := Uop_Claimed,
       uo_version := uo_version r + 1, uo_updated_at := now\<rparr>"

definition claimWalletUserOp ::
    "userop_table \<Rightarrow> string \<Rightarrow> address \<Rightarrow> int \<Rightarrow> int \<Rightarrow> timestamp \<Rightarrow> user_op userop_result \<times> userop_table" where
  "claimWalletUserOp t h b v leaseMs now =
     (let P = (\<lambda>r. uo_hash r = lower h \<and> uop_claim_where (lower b) v now r) in
      if changes P t = 0
      then (Inl (Http_Error 409 ''UserOp claim conflict'' (getWalletUserOpByHash t h)), t)
      else (let t' = update_where P (uop_claim_set (lower b) (now + leaseMs) now) t in
            case getWalletUserOpByHash t' h of
              None \<Rightarrow> (Inl (Http_Error 500 ''null'' None), t')
            | Some r \<Rightarrow> (Inr r, t')))"

record userop_track =
  ut_status :: "userop_status option"
  ut_tx_hash :: "string option"
  ut_reject_reason :: "string option"
  ut_gas_spent_wei :: "string option"
  ut_expected_version :: "int option"
  ut_bundler :: "address option"

definition terminal_status :: "userop_status option \<Rightarrow> bool" where
  "terminal_status st = (st = Some Uop_Included \<or> st = Some Uop_Failed \<or> st = Some Uop_Rejected)"

definition uop_track_set :: "userop_track \<Rightarrow> timestamp \<Rightarrow> user_op \<Rightarrow> user_op" where
  "uop_track_set ut now r =
     r\<lparr>uo_status := nullish (ut_status ut) (uo_status r),
       uo_tx_hash := coalesce (ut_tx_hash ut) (uo_tx_hash r),
       uo_reject_reason := coalesce (ut_reject_reason ut) (uo_reject_reason r),
       uo_gas_spent_wei := coalesce (ut_gas_spent_wei ut) (uo_gas_spent_wei r),
       uo_version := uo_version r + 1,
       uo_claimed_by := (if terminal_status (ut_status ut) then None else uo_claimed_by r),
       uo_claimed_until := (if terminal_status (ut_status ut) then None else uo_claimed_until r),
       uo_updated_at := now\<rparr>"

definition trackWalletUserOp ::
    "userop_table \<Rightarrow> string \<Rightarrow> userop_track \<Rightarrow> timestamp \<Rightarrow> user_op userop_result \<times> userop_table" where
  "trackWalletUserOp t h ut now =
     (case getWalletUserOpByHash t h of
        None \<Rightarrow> (Inl (Http_Error 404 ''UserOp not found'' None), t)
      | Some current \<Rightarrow>
          if opt_ex (\<lambda>v. uo_version current \<noteq> v) (ut_expected_version ut)
          then (Inl (Http_Error 409 ''UserOp version conflict'' (Some current)), t)
          else if truthy (ut_bundler ut) \<and> truthy (uo_claimed_by current) \<and>
                  uo_claimed_by current \<noteq> Some (lower (the (ut_bundler ut)))
          then (Inl (Http_Error 409 ''UserOp claimed by another bundler'' (Some current)), t)
          else (let t' = update_where (\<lambda>r. uo_hash r = lower h) (uop_track_set ut now) t in
                case getWalletUserOpByHash t' h of
                  None \<Rightarrow> (Inl (Http_Error 500 ''null'' None), t')
                | Some r \<Rightarrow> (Inr r, t')))"

section \<open>Closed forms\<close>

definition userops_unique :: "userop_table \<Rightarrow> bool" where
  "userops_unique t = unique_on uo_hash t"

lemma uop_set_hash [simp]:
  "uo_hash (uop_claim_set b u now r) = uo_hash r" "uo_hash (uop_track_set ut now r) = uo_hash r"
  "uo_hash (requeue_set w c op now r) = uo_hash r" "uo_hash (new_user_op i w c h op now) = lower h"
  by (simp_all add: uop_claim_set_def uop_track_set_def requeue_set_def new_user_op_def)

lemma userop_update_lookup:
  "(\<And>r. uo_hash (f r) = uo_hash r) \<Longrightarrow>
   getWalletUserOpByHash (update_where (\<lambda>r. uo_hash r = lower h \<and> Q r) f t) j =
     map_option (\<lambda>r. if lower j = lower h \<and> Q r then f r else r) (getWalletUserOpByHash t j)"
  unfolding getWalletUserOpByHash_def
  by (subst find_by_update_where) (auto intro!: option.map_cong dest: find_by_SomeD)

lemma claimWalletUserOp_eq:
  assumes "userops_unique t"
  shows "claimWalletUserOp t h b v l now =
    (case getWalletUserOpByHash t h of
       None \<Rightarrow> (Inl (Http_Error 409 ''UserOp claim conflict'' None), t)
     | Some r \<Rightarrow>
         if uop_claim_where (lower b) v now r
         then (Inr (uop_claim_set (lower b) (now + l) now r),
               update_where (\<lambda>r. uo_hash r = lower h \<and> uop_claim_where (lower b) v now r) (uop_claim_set (lower b) (now + l) now) t)
         else (Inl (Http_Error 409 ''UserOp claim conflict'' (Some r)), t))"
proof -
  have "changes (\<lambda>r. uo_hash r = lower h \<and> uop_claim_where (lower b) v now r) t = 0 \<longleftrightarrow>
      (case getWalletUserOpByHash t h of None \<Rightarrow> True | Some r \<Rightarrow> \<not> uop_claim_where (lower b) v now r)"
    using changes_key_zero_iff [OF assms [unfolded userops_unique_def], of "lower h"] by (simp add: getWalletUserOpByHash_def)
  then show ?thesis
    using userop_update_lookup [of "uop_claim_set (lower b) (now + l) now" h "uop_claim_where (lower b) v now" t h]
    by (auto simp: claimWalletUserOp_def Let_def split: option.splits if_splits)
qed

definition uop_track_refused :: "user_op \<Rightarrow> userop_track \<Rightarrow> bool" where
  "uop_track_refused r ut =
     (opt_ex (\<lambda>v. uo_version r \<noteq> v) (ut_expected_version ut) \<or>
      (truthy (ut_bundler ut) \<and> truthy (uo_claimed_by r) \<and> uo_claimed_by r \<noteq> Some (lower (the (ut_bundler ut)))))"

lemma trackWalletUserOp_eq:
  "trackWalletUserOp t h ut now =
    (case getWalletUserOpByHash t h of
       None \<Rightarrow> (Inl (Http_Error 404 ''UserOp not found'' None), t)
     | Some r \<Rightarrow>
         if uop_track_refused r ut
         then (Inl (Http_Error 409 (if opt_ex (\<lambda>v. uo_version r \<noteq> v) (ut_expected_version ut)
                 then ''UserOp version conflict'' else ''UserOp claimed by another bundler'') (Some r)), t)
         else (Inr (uop_track_set ut now r), update_where (\<lambda>r. uo_hash r = lower h) (uop_track_set ut now) t))"
  using userop_update_lookup [of "uop_track_set ut now" h "\<lambda>_. True" t h]
  by (auto simp: trackWalletUserOp_def Let_def uop_track_refused_def split: option.split)

interpretation bundler_queue: lease_queue
  getWalletUserOpByHash claimWalletUserOp trackWalletUserOp ut_expected_version "\<lambda>ut. terminal_status (ut_status ut)"
  uo_version uo_claimed_by uo_claimed_until lower lower userops_unique
proof unfold_locales
  show "lower j = lower k \<Longrightarrow> getWalletUserOpByHash t j = getWalletUserOpByHash t k" for j k t
    by (simp add: getWalletUserOpByHash_def)
  fix t h b v l now
  assume u: "userops_unique t"
  note eq = claimWalletUserOp_eq [OF u]
  show "userops_unique (snd (claimWalletUserOp t h b v l now))"
    using u by (auto simp: eq userops_unique_def unique_update_where split: option.split)
  {
    fix r' t'
    assume "claimWalletUserOp t h b v l now = (Inr r', t')"
    then obtain r where r: "getWalletUserOpByHash t h = Some r" "uop_claim_where (lower b) v now r"
        "r' = uop_claim_set (lower b) (now + l) now r"
        "t' = update_where (\<lambda>r. uo_hash r = lower h \<and> uop_claim_where (lower b) v now r) (uop_claim_set (lower b) (now + l) now) t"
      by (auto simp: eq split: option.splits if_splits)
    then show "\<exists>r. getWalletUserOpByHash t h = Some r \<and> uo_version r = v \<and>
        lease_free (uo_claimed_by r) (uo_claimed_until r) (lower b) now \<and>
        getWalletUserOpByHash t' h = Some r' \<and> uo_version r' = v + 1 \<and>
        uo_claimed_by r' = Some (lower b) \<and> uo_claimed_until r' = Some (now + l)"
      by (auto simp: userop_update_lookup uop_claim_where_def uop_claim_set_def lease_free_def)
    show "lower j \<noteq> lower h \<Longrightarrow> getWalletUserOpByHash t' j = getWalletUserOpByHash t j" for j
      using r(4) by (simp add: userop_update_lookup option.map_ident)
  }
  show "claimWalletUserOp t h b v l now = (Inl e, t') \<Longrightarrow> t' = t" for e t'
    by (auto simp: eq split: option.splits if_splits)
next
  fix t h ut now
  assume u: "userops_unique t"
  show "userops_unique (snd (trackWalletUserOp t h ut now))"
    using u by (auto simp: trackWalletUserOp_eq userops_unique_def unique_update_where split: option.split)
  note lk = userop_update_lookup [of "uop_track_set ut now" h "\<lambda>_. True" t, simplified]
  {
    fix r' t'
    assume "trackWalletUserOp t h ut now = (Inr r', t')"
    then obtain r where r: "getWalletUserOpByHash t h = Some r" "\<not> uop_track_refused r ut" "r' = uop_track_set ut now r"
        "t' = update_where (\<lambda>r. uo_hash r = lower h) (uop_track_set ut now) t"
      by (auto simp: trackWalletUserOp_eq split: option.splits if_splits)
    then show "\<exists>r. getWalletUserOpByHash t h = Some r \<and> (\<forall>v. ut_expected_version ut = Some v \<longrightarrow> uo_version r = v) \<and>
        getWalletUserOpByHash t' h = Some r' \<and> uo_version r' = uo_version r + 1 \<and>
        (\<not> terminal_status (ut_status ut) \<longrightarrow> uo_claimed_by r' = uo_claimed_by r \<and> uo_claimed_until r' = uo_claimed_until r)"
      by (auto simp: lk uop_track_refused_def uop_track_set_def)
    show "lower j \<noteq> lower h \<Longrightarrow> getWalletUserOpByHash t' j = getWalletUserOpByHash t j" for j
      using r(4) by (simp add: lk option.map_ident)
  }
  show "trackWalletUserOp t h ut now = (Inl e, t') \<Longrightarrow> t' = t" for e t'
    by (auto simp: trackWalletUserOp_eq split: option.splits if_splits)
qed

end
