(* ===== verification/UserOpProps.thy ===== *)
theory UserOpProps
  imports UserOps
begin

text \<open>The properties of the user-operation queue.\<close>

inductive userop_step :: "userop_table \<Rightarrow> userop_table \<Rightarrow> bool" where
  create: "userop_step t (snd (createWalletUserOp t i w c h op now))"
| requeue: "userop_step t (snd (requeueWalletUserOp t h op w c now))"
| claim: "userop_step t (snd (claimWalletUserOp t h b v lease now))"
| track: "userop_step t (snd (trackWalletUserOp t h ut now))"

text \<open>Steps in which bundler \<open>a\<close> reports nothing: every track names another bundler.\<close>

inductive step_without :: "address \<Rightarrow> userop_table \<Rightarrow> userop_table \<Rightarrow> bool" for a where
  create: "step_without a t (snd (createWalletUserOp t i w c h op now))"
| requeue: "step_without a t (snd (requeueWalletUserOp t h op w c now))"
| claim: "step_without a t (snd (claimWalletUserOp t h b v lease now))"
| track: "ut_bundler ut = Some b \<Longrightarrow> b \<noteq> '''' \<Longrightarrow> lower b \<noteq> a \<Longrightarrow> step_without a t (snd (trackWalletUserOp t h ut now))"

lemma create_unique: "userops_unique t \<Longrightarrow> userops_unique (snd (createWalletUserOp t i w c h op now))"
  by (auto simp: createWalletUserOp_def userops_unique_def unique_snoc split: option.split)

lemma requeue_unique: "userops_unique t \<Longrightarrow> userops_unique (snd (requeueWalletUserOp t h op w c now))"
  by (auto simp: requeueWalletUserOp_def userops_unique_def Let_def unique_update_where)

lemma userop_step_unique: "userop_step t t' \<Longrightarrow> userops_unique t \<Longrightarrow> userops_unique t'"
  by (induction rule: userop_step.induct)
    (auto intro: create_unique requeue_unique bundler_queue.claim_wf bundler_queue.track_wf)

lemma create_keeps: "getWalletUserOpByHash t k = Some r \<Longrightarrow> getWalletUserOpByHash (snd (createWalletUserOp t i w c h op now)) k = Some r"
  by (auto simp: createWalletUserOp_def getWalletUserOpByHash_def find_by_append split: option.split)

lemma requeue_lookup:
  "getWalletUserOpByHash (snd (requeueWalletUserOp t h op w c now)) k =
   map_option (\<lambda>r. if lower k = lower h \<and> (uo_status r = Uop_Rejected \<or> uo_status r = Uop_Failed)
                   then requeue_set w c op now r else r) (getWalletUserOpByHash t k)"
proof -
  let ?P = "\<lambda>r. uo_hash r = lower h \<and> (uo_status r = Uop_Rejected \<or> uo_status r = Uop_Failed)"
  note lk = userop_update_lookup [of "requeue_set w c op now" h "\<lambda>r. uo_status r = Uop_Rejected \<or> uo_status r = Uop_Failed" t k]
  show ?thesis
  proof (cases "changes ?P t = 0")
    case True
    then show ?thesis using lk update_where_none [OF True, of "requeue_set w c op now"]
      by (simp add: requeueWalletUserOp_def)
  qed (simp add: requeueWalletUserOp_def Let_def lk)
qed

definition bundler_traffic :: "string \<Rightarrow> int \<Rightarrow> timestamp \<Rightarrow> (string, address, userop_track) lease_op list \<Rightarrow> bool" where
  "bundler_traffic h lease t0 ps =
     (\<forall>p \<in> set ps. t0 \<le> op_now p \<and> op_now p \<le> t0 + lease \<and>
        (lower (op_key p) = lower h \<longrightarrow>
          (case p of Claim_Op _ _ _ l' _ \<Rightarrow> l' = lease | Track_Op _ ut _ \<Rightarrow> \<not> terminal_status (ut_status ut))))"

fun userop_run :: "userop_table \<Rightarrow> (string, address, userop_track) lease_op list \<Rightarrow> userop_table" where
  "userop_run t [] = t"
| "userop_run t (Claim_Op h b v l now # ps) = userop_run (snd (claimWalletUserOp t h b v l now)) ps"
| "userop_run t (Track_Op h ut now # ps) = userop_run (snd (trackWalletUserOp t h ut now)) ps"

lemma userop_run_queue: "bundler_queue.run t ps = userop_run t ps"
  by (induction t ps rule: userop_run.induct) simp_all

text \<open>
  Mutual exclusion of bundlers. While the lease a bundler won on an operation is live,
  whatever claims and non-final reports arrive in between, under any spelling of the hash,
  another bundler's claim is answered 409 with the operation, and changes nothing.
\<close>

theorem live_claim_excludes_other_bundlers:
  assumes "userops_unique t" and "claimWalletUserOp t h a v lease t0 = (Inr r, t')" and "0 \<le> lease"
    and "bundler_traffic h lease t0 ps" and "now \<le> t0 + lease" and "lower b \<noteq> lower a"
  shows "claimWalletUserOp (userop_run t' ps) h b v' lease' now =
    (Inl (Http_Error 409 ''UserOp claim conflict'' (getWalletUserOpByHash (userop_run t' ps) h)), userop_run t' ps)"
proof -
  have u: "userops_unique t'" using bundler_queue.claim_wf [OF assms(1), of h a v lease t0] assms(2) by simp
  have "\<forall>p \<in> set ps. bundler_queue.within h lease t0 (t0 + lease) p"
    using assms(4) by (fastforce simp: bundler_traffic_def bundler_queue.within_def split: lease_op.splits)
  from bundler_queue.live_lease_excludes [OF assms(1-3) this assms(5,6), of v' lease'] obtain e where
    e: "claimWalletUserOp (userop_run t' ps) h b v' lease' now = (Inl e, userop_run t' ps)"
    by (auto simp: userop_run_queue)
  have "userops_unique (userop_run t' ps)"
    using bundler_queue.run_wf [OF u, of ps] by (simp add: userop_run_queue)
  with e show ?thesis by (auto simp: claimWalletUserOp_eq split: option.splits if_splits)
qed

text \<open>
  Submitting is idempotent. Submitting an operation whose hash is known, whatever else
  the request says, returns the operation as it stands and changes nothing; a new hash adds
  exactly one pending operation at version 1.
\<close>

theorem createWalletUserOp_idempotent:
  assumes "find_by uo_id i t = None"
  shows "(case getWalletUserOpByHash t h of
      Some r \<Rightarrow> createWalletUserOp t i w c h op now = (Inr r, t)
    | None \<Rightarrow> createWalletUserOp t i w c h op now = (Inr (new_user_op i w c h op now), t @ [new_user_op i w c h op now]) \<and>
        (\<forall>j w' c' op' now'. createWalletUserOp (t @ [new_user_op i w c h op now]) j w' c' h op' now' =
           (Inr (new_user_op i w c h op now), t @ [new_user_op i w c h op now])))"
proof -
  have "find_by uo_hash (lower h) (t @ [new_user_op i w c h op now]) = Some (new_user_op i w c h op now)"
    if "find_by uo_hash (lower h) t = None"
    using that by (simp add: find_by_append)
  with assms show ?thesis
    by (auto simp: createWalletUserOp_def getWalletUserOpByHash_def split: option.split)
qed

text \<open>
  An operation can be stuck. Once bundler \<open>a\<close> has reported an operation submitted, then
  as long as \<open>a\<close> itself reports nothing more (its process died between sending the
  transaction and reading the receipt), nothing anybody else does ever changes the operation:
  its expired lease is not looked at, it cannot be claimed, requeued or resubmitted, and no
  bundler is even shown it.
\<close>

theorem submitted_operation_stuck:
  assumes "userops_unique t" and "getWalletUserOpByHash t k = Some r"
    and "uo_status r = Uop_Submitted" and "uo_claimed_by r = Some a" and "a \<noteq> ''''"
    and "(step_without a)\<^sup>*\<^sup>* t t'"
  shows "getWalletUserOpByHash t' k = Some r \<and> r \<notin> set (listBundlerUserOps t' bundler_default_statuses only)"
proof -
  have "userops_unique t' \<and> getWalletUserOpByHash t' k = Some r"
    using assms(6)
  proof (induction rule: rtranclp_induct)
    case base
    then show ?case using assms by simp
  next
    case (step t1 t2)
    then have t1: "userops_unique t1" "getWalletUserOpByHash t1 k = Some r" by simp_all
    from step(2) have "userop_step t1 t2"
      by (cases rule: step_without.cases) (auto intro: userop_step.intros)
    with t1(1) have u2: "userops_unique t2" by (rule userop_step_unique [rotated])
    from step(2) have "getWalletUserOpByHash t2 k = Some r"
    proof (cases rule: step_without.cases)
      case create
      then show ?thesis using t1 create_keeps by simp
    next
      case requeue
      then show ?thesis using t1 assms(3) by (simp add: requeue_lookup)
    next
      case (claim h b v lease now)
      have "getWalletUserOpByHash t1 h = Some r" if "lower h = lower k"
        using that t1(2) by (simp add: getWalletUserOpByHash_def)
      with claim t1 assms(3) show ?thesis
        by (cases "lower h = lower k")
          (auto simp: claimWalletUserOp_eq userop_update_lookup uop_claim_where_def split: option.split)
    next
      case (track ut b h now)
      have same: "getWalletUserOpByHash t1 h = Some r" if "lower h = lower k"
        using that t1(2) by (simp add: getWalletUserOpByHash_def)
      show ?thesis
      proof (cases "lower h = lower k")
        case True
        have "uop_track_refused r ut"
          using track(2-4) assms(4,5) by (auto simp: uop_track_refused_def)
        with same [OF True] track(1) t1(2) show ?thesis by (simp add: trackWalletUserOp_eq)
      next
        case False
        then have "lower k \<noteq> lower h" by simp
        with track(1) t1(2) show ?thesis
          using userop_update_lookup [of "uop_track_set ut now" h "\<lambda>_. True" t1 k]
          by (auto simp: trackWalletUserOp_eq split: option.split)
      qed
    qed
    with u2 show ?case by simp
  qed
  moreover have "r \<notin> set (listBundlerUserOps t' bundler_default_statuses only)"
    using assms(3) by (auto simp: listBundlerUserOps_def bundler_default_statuses_def dest: in_set_takeD)
  ultimately show ?thesis by simp
qed

section \<open>Witnesses\<close>

definition demo_packed :: packed_user_op where
  "demo_packed = \<lparr>puo_sender = ''0xw'', puo_nonce = ''0'', puo_init_code = ''0x'', puo_call_data = ''0x'',
     puo_account_gas_limits = ''0x'', puo_pre_verification_gas = ''0'', puo_gas_fees = ''0x'',
     puo_paymaster_and_data = ''0x'', puo_signature = ''0x''\<rparr>"

definition demo_ops :: userop_table where
  "demo_ops = snd (createWalletUserOp [] ''u1'' ''0xW'' ''8453'' ''0xAB'' demo_packed 1000)"

definition demo_ops_claimed :: userop_table where
  "demo_ops_claimed = snd (claimWalletUserOp demo_ops ''0xab'' ''0xB1'' 1 60000 2000)"

definition demo_ut :: "userop_status option \<Rightarrow> address option \<Rightarrow> userop_track" where
  "demo_ut st b = \<lparr>ut_status = st, ut_tx_hash = None, ut_reject_reason = None, ut_gas_spent_wei = None,
     ut_expected_version = None, ut_bundler = b\<rparr>"

definition demo_ops_submitted :: userop_table where
  "demo_ops_submitted = snd (trackWalletUserOp demo_ops_claimed ''0xAB'' (demo_ut (Some Uop_Submitted) (Some ''0xB1'')) 3000)"

lemma demo_ops_unique: "userops_unique demo_ops" "userops_unique demo_ops_submitted"
  by code_simp+

lemma demo_ops_claim: "claimWalletUserOp demo_ops ''0xab'' ''0xB1'' 1 60000 2000 =
    (Inr (uop_claim_set ''0xb1'' 62000 2000 (new_user_op ''u1'' ''0xW'' ''8453'' ''0xAB'' demo_packed 1000)), demo_ops_claimed)"
  unfolding demo_ops_claimed_def by code_simp

theorem live_claim_excludes_other_bundlers_witness:
  "claimWalletUserOp (userop_run demo_ops_claimed [Track_Op ''0xAB'' (demo_ut (Some Uop_Submitted) (Some ''0xB1'')) 3000])
      ''0xab'' ''0xb2'' 3 60000 4000 =
    (Inl (Http_Error 409 ''UserOp claim conflict'' (getWalletUserOpByHash
       (userop_run demo_ops_claimed [Track_Op ''0xAB'' (demo_ut (Some Uop_Submitted) (Some ''0xB1'')) 3000]) ''0xab'')),
     userop_run demo_ops_claimed [Track_Op ''0xAB'' (demo_ut (Some Uop_Submitted) (Some ''0xB1'')) 3000])"
  by (rule live_claim_excludes_other_bundlers [OF demo_ops_unique(1) demo_ops_claim])
    (simp_all add: bundler_traffic_def demo_ut_def terminal_status_def lower_def lower_char_def)

theorem createWalletUserOp_idempotent_witness:
  "createWalletUserOp demo_ops ''u2'' ''0xW'' ''1'' ''0xaB'' demo_packed 5000 =
     (Inr (new_user_op ''u1'' ''0xW'' ''8453'' ''0xAB'' demo_packed 1000), demo_ops)"
proof -
  have "find_by uo_id ''u2'' demo_ops = None"
    "getWalletUserOpByHash demo_ops ''0xaB'' = Some (new_user_op ''u1'' ''0xW'' ''8453'' ''0xAB'' demo_packed 1000)"
    by code_simp+
  with createWalletUserOp_idempotent [OF this(1), where h = "''0xaB''" and w = "''0xW''" and c = "''1''" and op = demo_packed and now = 5000]
  show ?thesis by simp
qed

theorem submitted_operation_stuck_witness:
  "\<exists>r. getWalletUserOpByHash (snd (claimWalletUserOp demo_ops_submitted ''0xab'' ''0xb2'' 3 60000 999999999)) ''0xab'' = Some r \<and>
     uo_status r = Uop_Submitted"
proof -
  have "map_option (\<lambda>r. (uo_status r, uo_claimed_by r)) (getWalletUserOpByHash demo_ops_submitted ''0xab'') =
      Some (Uop_Submitted, Some ''0xb1'')" by code_simp
  then obtain r where r: "getWalletUserOpByHash demo_ops_submitted ''0xab'' = Some r"
      "uo_status r = Uop_Submitted" "uo_claimed_by r = Some ''0xb1''" by auto
  have "(step_without ''0xb1'')\<^sup>*\<^sup>* demo_ops_submitted
      (snd (claimWalletUserOp demo_ops_submitted ''0xab'' ''0xb2'' 3 60000 999999999))"
    by (rule r_into_rtranclp) (rule step_without.claim)
  from submitted_operation_stuck [OF demo_ops_unique(2) r _ this] r(2) show ?thesis by auto
qed

end
