(* ===== verification/OneTime.thy ===== *)
theory OneTime
  imports Prelude
begin

text \<open>
  The interface of everything that may be used once: login and recovery challenges, issued
  nonces, device pairings. A use by key \<open>k\<close> succeeds only on a live token and spends it, a spent
  token stays spent whatever is used next, and a spent token is refused. Then, whatever is
  tried in whatever order, a token is used at most once.
\<close>

locale one_time_token =
  fixes attempt :: "'s \<Rightarrow> 'k \<Rightarrow> 'q \<Rightarrow> timestamp \<Rightarrow> 'r option \<times> 's"
    and live :: "'s \<Rightarrow> 'k \<Rightarrow> timestamp \<Rightarrow> bool"
    and spent :: "'s \<Rightarrow> 'k \<Rightarrow> bool"
  assumes attempt_ok: "attempt s k q now = (Some r, s') \<Longrightarrow> live s k now \<and> spent s' k"
    and spent_stays: "spent s k \<Longrightarrow> spent (snd (attempt s j q now)) k"
    and spent_fails: "spent s k \<Longrightarrow> fst (attempt s k q now) = None"
begin

text \<open>The keys of the attempts that succeed, in order.\<close>

fun successes :: "'s \<Rightarrow> ('k \<times> 'q \<times> timestamp) list \<Rightarrow> 'k list" where
  "successes s [] = []"
| "successes s ((k, q, now) # xs) =
     (case attempt s k q now of
        (None, s') \<Rightarrow> successes s' xs
      | (Some _, s') \<Rightarrow> k # successes s' xs)"

lemma spent_never: "spent s k \<Longrightarrow> k \<notin> set (successes s xs)"
proof (induction s xs rule: successes.induct)
  case (2 s j q now xs)
  obtain r s' where a: "attempt s j q now = (r, s')" by force
  have "spent s' k" using spent_stays [OF 2(3), of j q now] a by simp
  moreover have "r \<noteq> None \<Longrightarrow> j \<noteq> k" using spent_fails [of s k q now] 2(3) a by auto
  ultimately show ?case using 2(1,2) a by (cases r) auto
qed simp

theorem used_at_most_once: "distinct (successes s xs)"
proof (induction s xs rule: successes.induct)
  case (2 s k q now xs)
  obtain r s' where a: "attempt s k q now = (r, s')" by force
  show ?case
  proof (cases r)
    case (Some x)
    with a attempt_ok [of s k q now x s'] have "spent s' k" by simp
    with spent_never have "k \<notin> set (successes s' xs)" by blast
    with 2 a Some show ?thesis by auto
  qed (use 2 a in auto)
qed simp

end

end
