(* ===== verification/Challenges.thy ===== *)
theory Challenges
  imports OneTime Registry
begin

text \<open>
  Short-lived secrets of the wallet service (commerce/server/db.ts): WebAuthn challenges of
  HMAC clients (\<open>wallet_challenges\<close>), of hosted recovery (\<open>wallet_hosted_challenges\<close>), e-mail
  codes (\<open>wallet_email_otps\<close>) and guardian sessions.
\<close>

datatype challenge_purpose = Wc_Create | Wc_Recover | Wc_Cancel

datatype hosted_purpose = Hc_Attach | Hc_Recover | Hc_Cancel | Hc_Record

datatype otp_purpose = Otp_Attach | Otp_Recover | Otp_Login

record wallet_challenge =
  wch_id :: string
  wch_client_id :: string
  wch_purpose :: challenge_purpose
  wch_challenge :: string
  wch_email :: "string option"
  wch_wallet_address :: "address option"
  wch_consumed :: bool
  wch_expires_at :: timestamp
  wch_created_at :: timestamp

record hosted_challenge =
  hch_id :: string
  hch_purpose :: hosted_purpose
  hch_challenge :: string
  hch_wallet_address :: "address option"
  hch_consumed :: bool
  hch_expires_at :: timestamp
  hch_created_at :: timestamp

record email_otp =
  otp_id :: string
  otp_wallet_address :: address
  otp_email :: string
  otp_purpose :: otp_purpose
  otp_code_hash :: string
  otp_attempts :: nat
  otp_expires_at :: timestamp
  otp_consumed_at :: "timestamp option"
  otp_created_at :: timestamp

record guardian_session =
  gs_token_hash :: string
  gs_address :: address
  gs_expires_at :: timestamp
  gs_created_at :: timestamp

section \<open>Challenges of clients\<close>

definition getWalletChallenge :: "wallet_challenge list \<Rightarrow> string \<Rightarrow> wallet_challenge option" where
  "getWalletChallenge t i = find_by wch_id i t"

definition createWalletChallenge ::
    "wallet_challenge list \<Rightarrow> string \<Rightarrow> string \<Rightarrow> challenge_purpose \<Rightarrow> string \<Rightarrow> string option \<Rightarrow> address option \<Rightarrow>
     int option \<Rightarrow> timestamp \<Rightarrow> wallet_challenge option \<times> wallet_challenge list" where
  "createWalletChallenge t i c purpose challenge email w ttl now =
     (case insert_unique wch_id
            \<lparr>wch_id = i, wch_client_id = c, wch_purpose = purpose, wch_challenge = challenge,
             wch_email = map_option normalizeEmail (or_null email), wch_wallet_address = map_option lower w,
             wch_consumed = False, wch_expires_at = now + nullish ttl (5 * 60 * 1000), wch_created_at = now\<rparr> t of
        None \<Rightarrow> (None, t)
      | Some t' \<Rightarrow> (getWalletChallenge t' i, t'))"

definition consumeWalletChallenge ::
    "wallet_challenge list \<Rightarrow> string \<Rightarrow> string \<times> challenge_purpose \<Rightarrow> timestamp \<Rightarrow>
     wallet_challenge option \<times> wallet_challenge list" where
  "consumeWalletChallenge t i q now =
     (case getWalletChallenge t i of
        None \<Rightarrow> (None, t)
      | Some row \<Rightarrow>
          if wch_client_id row \<noteq> fst q \<or> wch_purpose row \<noteq> snd q then (None, t)
          else if wch_consumed row then (None, t)
          else if wch_expires_at row < now then (None, t)
          else (let P = (\<lambda>r. wch_id r = i \<and> \<not> wch_consumed r) in
                if changes P t = 0 then (None, t)
                else (let t' = update_where P (\<lambda>r. r\<lparr>wch_consumed := True\<rparr>) t in (getWalletChallenge t' i, t'))))"

section \<open>Challenges of hosted recovery\<close>

definition getHostedRecoveryChallenge :: "hosted_challenge list \<Rightarrow> string \<Rightarrow> hosted_challenge option" where
  "getHostedRecoveryChallenge t i = find_by hch_id i t"

definition createHostedRecoveryChallenge ::
    "hosted_challenge list \<Rightarrow> string \<Rightarrow> hosted_purpose \<Rightarrow> string \<Rightarrow> address option \<Rightarrow> int option \<Rightarrow> timestamp \<Rightarrow>
     hosted_challenge option \<times> hosted_challenge list" where
  "createHostedRecoveryChallenge t i purpose challenge w ttl now =
     (case insert_unique hch_id
            \<lparr>hch_id = i, hch_purpose = purpose, hch_challenge = challenge, hch_wallet_address = map_option lower w,
             hch_consumed = False, hch_expires_at = now + nullish ttl (5 * 60 * 1000), hch_created_at = now\<rparr> t of
        None \<Rightarrow> (None, t)
      | Some t' \<Rightarrow> (getHostedRecoveryChallenge t' i, t'))"

definition consumeHostedRecoveryChallenge ::
    "hosted_challenge list \<Rightarrow> string \<Rightarrow> hosted_purpose \<Rightarrow> timestamp \<Rightarrow> hosted_challenge option \<times> hosted_challenge list" where
  "consumeHostedRecoveryChallenge t i purpose now =
     (case getHostedRecoveryChallenge t i of
        None \<Rightarrow> (None, t)
      | Some row \<Rightarrow>
          if hch_purpose row \<noteq> purpose \<or> hch_consumed row then (None, t)
          else if hch_expires_at row < now then (None, t)
          else (let P = (\<lambda>r. hch_id r = i \<and> \<not> hch_consumed r) in
                if changes P t = 0 then (None, t)
                else (let t' = update_where P (\<lambda>r. r\<lparr>hch_consumed := True\<rparr>) t in (getHostedRecoveryChallenge t' i, t'))))"

section \<open>E-mail codes\<close>

text \<open>A new code ends every earlier one of the same wallet and purpose.\<close>

definition new_otp :: "string \<Rightarrow> address \<Rightarrow> string \<Rightarrow> otp_purpose \<Rightarrow> string \<Rightarrow> int option \<Rightarrow> timestamp \<Rightarrow> email_otp" where
  "new_otp i w e p h ttl now =
     \<lparr>otp_id = i, otp_wallet_address = lower w, otp_email = normalizeEmail e, otp_purpose = p,
      otp_code_hash = h, otp_attempts = 0, otp_expires_at = now + nullish ttl (10 * 60 * 1000), otp_consumed_at = None,
      otp_created_at = now\<rparr>"

definition ended_otps :: "email_otp list \<Rightarrow> address \<Rightarrow> otp_purpose \<Rightarrow> timestamp \<Rightarrow> email_otp list" where
  "ended_otps t w p now =
     update_where (\<lambda>r. otp_wallet_address r = lower w \<and> otp_purpose r = p \<and> otp_consumed_at r = None)
       (\<lambda>r. r\<lparr>otp_consumed_at := Some now\<rparr>) t"

definition createWalletEmailOtp ::
    "email_otp list \<Rightarrow> string \<Rightarrow> address \<Rightarrow> string \<Rightarrow> otp_purpose \<Rightarrow> string \<Rightarrow> int option \<Rightarrow> timestamp \<Rightarrow>
     (string \<times> timestamp) option \<times> email_otp list" where
  "createWalletEmailOtp t i w e purpose code_hash ttl now =
     (let row = new_otp i w e purpose code_hash ttl now in
      case insert_unique otp_id row (ended_otps t w purpose now) of
        None \<Rightarrow> (None, ended_otps t w purpose now)
      | Some t' \<Rightarrow> (Some (i, otp_expires_at row), t'))"

definition live_otps :: "email_otp list \<Rightarrow> address \<Rightarrow> string \<Rightarrow> otp_purpose \<Rightarrow> email_otp list" where
  "live_otps t w e purpose =
     filter (\<lambda>r. otp_wallet_address r = lower w \<and> otp_email r = normalizeEmail e \<and> otp_purpose r = purpose \<and>
                 otp_consumed_at r = None) t"

definition consumeWalletEmailOtp ::
    "email_otp list \<Rightarrow> address \<Rightarrow> string \<Rightarrow> otp_purpose \<Rightarrow> string \<Rightarrow> nat option \<Rightarrow> timestamp \<Rightarrow> bool \<times> email_otp list" where
  "consumeWalletEmailOtp t w e purpose code_hash max_attempts now =
     (case first_row (order_desc otp_created_at (live_otps t w e purpose)) of
        None \<Rightarrow> (False, t)
      | Some row \<Rightarrow>
          if otp_expires_at row < now then (False, t)
          else if nullish max_attempts 5 \<le> otp_attempts row then (False, t)
          else (let t1 = update_where (\<lambda>r. otp_id r = otp_id row) (\<lambda>r. r\<lparr>otp_attempts := otp_attempts r + 1\<rparr>) t in
                if otp_code_hash row \<noteq> code_hash then (False, t1)
                else (True, update_where (\<lambda>r. otp_id r = otp_id row) (\<lambda>r. r\<lparr>otp_consumed_at := Some now\<rparr>) t1)))"

definition getLatestWalletEmailOtp :: "email_otp list \<Rightarrow> address \<Rightarrow> otp_purpose \<Rightarrow> (string \<times> string \<times> string) option" where
  "getLatestWalletEmailOtp t w purpose =
     map_option (\<lambda>r. (otp_id r, otp_code_hash r, otp_email r))
       (first_row (order_desc otp_created_at
          (filter (\<lambda>r. otp_wallet_address r = lower w \<and> otp_purpose r = purpose \<and> otp_consumed_at r = None) t)))"

section \<open>Guardian sessions\<close>

definition createGuardianSession :: "guardian_session list \<Rightarrow> string \<Rightarrow> address \<Rightarrow> int option \<Rightarrow> timestamp \<Rightarrow> guardian_session list option" where
  "createGuardianSession t h a ttl now =
     insert_unique gs_token_hash
       \<lparr>gs_token_hash = h, gs_address = lower a, gs_expires_at = now + nullish ttl (12 * 60 * 60 * 1000), gs_created_at = now\<rparr> t"

definition deleteGuardianSession :: "guardian_session list \<Rightarrow> string \<Rightarrow> guardian_session list" where
  "deleteGuardianSession t h = delete_where (\<lambda>r. gs_token_hash r = h) t"

definition getGuardianSession :: "guardian_session list \<Rightarrow> string \<Rightarrow> timestamp \<Rightarrow> address option \<times> guardian_session list" where
  "getGuardianSession t h now =
     (case find_by gs_token_hash h t of
        None \<Rightarrow> (None, t)
      | Some row \<Rightarrow>
          if gs_expires_at row < now then (None, delete_where (\<lambda>r. gs_token_hash r = h) t)
          else (Some (gs_address row), t))"

section \<open>One use\<close>

definition challenge_live :: "wallet_challenge list \<Rightarrow> string \<Rightarrow> timestamp \<Rightarrow> bool" where
  "challenge_live t i now = opt_ex (\<lambda>r. \<not> wch_consumed r \<and> now \<le> wch_expires_at r) (getWalletChallenge t i)"

definition challenge_spent :: "wallet_challenge list \<Rightarrow> string \<Rightarrow> bool" where
  "challenge_spent t i = opt_ex wch_consumed (getWalletChallenge t i)"

lemma find_consumed_challenge:
  "getWalletChallenge (update_where (\<lambda>r. wch_id r = i \<and> \<not> wch_consumed r) (\<lambda>r. r\<lparr>wch_consumed := True\<rparr>) t) j =
   map_option (\<lambda>r. if j = i then r\<lparr>wch_consumed := True\<rparr> else r) (getWalletChallenge t j)"
  unfolding getWalletChallenge_def
  by (subst find_by_update_where) (auto intro!: option.map_cong dest: find_by_SomeD)

interpretation client_challenges: one_time_token consumeWalletChallenge challenge_live challenge_spent
proof unfold_locales
  fix t i q now r t'
  assume "consumeWalletChallenge t i q now = (Some r, t')"
  then show "challenge_live t i now \<and> challenge_spent t' i"
    by (auto simp: consumeWalletChallenge_def challenge_live_def challenge_spent_def Let_def find_consumed_challenge
        split: option.splits if_splits)
next
  fix t i j q now
  assume "challenge_spent t i"
  then obtain r where "getWalletChallenge t i = Some r" "wch_consumed r" by (auto simp: challenge_spent_def)
  then show "challenge_spent (snd (consumeWalletChallenge t j q now)) i"
    by (simp add: consumeWalletChallenge_def challenge_spent_def Let_def find_consumed_challenge split: option.split)
next
  fix t i q now
  assume "challenge_spent t i"
  then show "fst (consumeWalletChallenge t i q now) = None"
    by (auto simp: consumeWalletChallenge_def challenge_spent_def split: option.split)
qed

definition hosted_live :: "hosted_challenge list \<Rightarrow> string \<Rightarrow> timestamp \<Rightarrow> bool" where
  "hosted_live t i now = opt_ex (\<lambda>r. \<not> hch_consumed r \<and> now \<le> hch_expires_at r) (getHostedRecoveryChallenge t i)"

definition hosted_spent :: "hosted_challenge list \<Rightarrow> string \<Rightarrow> bool" where
  "hosted_spent t i = opt_ex hch_consumed (getHostedRecoveryChallenge t i)"

lemma find_consumed_hosted:
  "getHostedRecoveryChallenge (update_where (\<lambda>r. hch_id r = i \<and> \<not> hch_consumed r) (\<lambda>r. r\<lparr>hch_consumed := True\<rparr>) t) j =
   map_option (\<lambda>r. if j = i then r\<lparr>hch_consumed := True\<rparr> else r) (getHostedRecoveryChallenge t j)"
  unfolding getHostedRecoveryChallenge_def
  by (subst find_by_update_where) (auto intro!: option.map_cong dest: find_by_SomeD)

interpretation hosted_challenges: one_time_token consumeHostedRecoveryChallenge hosted_live hosted_spent
proof unfold_locales
  fix t i q now r t'
  assume "consumeHostedRecoveryChallenge t i q now = (Some r, t')"
  then show "hosted_live t i now \<and> hosted_spent t' i"
    by (auto simp: consumeHostedRecoveryChallenge_def hosted_live_def hosted_spent_def Let_def find_consumed_hosted
        split: option.splits if_splits)
next
  fix t i j q now
  assume "hosted_spent t i"
  then obtain r where "getHostedRecoveryChallenge t i = Some r" "hch_consumed r" by (auto simp: hosted_spent_def)
  then show "hosted_spent (snd (consumeHostedRecoveryChallenge t j q now)) i"
    by (simp add: consumeHostedRecoveryChallenge_def hosted_spent_def Let_def find_consumed_hosted split: option.split)
next
  fix t i q now
  assume "hosted_spent t i"
  then show "fst (consumeHostedRecoveryChallenge t i q now) = None"
    by (auto simp: consumeHostedRecoveryChallenge_def hosted_spent_def split: option.split)
qed

fun challenge_uses :: "wallet_challenge list \<Rightarrow> (string \<times> (string \<times> challenge_purpose) \<times> timestamp) list \<Rightarrow> string list" where
  "challenge_uses t [] = []"
| "challenge_uses t ((i, q, now) # xs) =
     (case consumeWalletChallenge t i q now of
        (None, t') \<Rightarrow> challenge_uses t' xs
      | (Some _, t') \<Rightarrow> i # challenge_uses t' xs)"

lemma challenge_uses_eq: "challenge_uses t xs = client_challenges.successes t xs"
  by (induction t xs rule: challenge_uses.induct) (simp_all split: option.split prod.split)

fun hosted_uses :: "hosted_challenge list \<Rightarrow> (string \<times> hosted_purpose \<times> timestamp) list \<Rightarrow> string list" where
  "hosted_uses t [] = []"
| "hosted_uses t ((i, q, now) # xs) =
     (case consumeHostedRecoveryChallenge t i q now of
        (None, t') \<Rightarrow> hosted_uses t' xs
      | (Some _, t') \<Rightarrow> i # hosted_uses t' xs)"

lemma hosted_uses_eq: "hosted_uses t xs = hosted_challenges.successes t xs"
  by (induction t xs rule: hosted_uses.induct) (simp_all split: option.split prod.split)

text \<open>
  A challenge is used at most once. Whatever challenges are presented in whatever order,
  for whatever client and purpose, no client challenge and no hosted-recovery challenge is
  ever accepted twice.
\<close>

theorem challenges_used_once:
  "distinct (challenge_uses t xs) \<and> distinct (hosted_uses u ys)"
  by (simp add: challenge_uses_eq hosted_uses_eq client_challenges.used_at_most_once hosted_challenges.used_at_most_once)

section \<open>Guessing a code\<close>

fun otp_guesses :: "email_otp list \<Rightarrow> address \<Rightarrow> string \<Rightarrow> otp_purpose \<Rightarrow> (string \<times> timestamp) list \<Rightarrow> bool list" where
  "otp_guesses t w e p [] = []"
| "otp_guesses t w e p ((c, now) # gs) =
     (let (ok, t') = consumeWalletEmailOtp t w e p c None now in ok # otp_guesses t' w e p gs)"

lemma length_otp_guesses [simp]: "length (otp_guesses t w e p gs) = length gs"
  by (induction t w e p gs rule: otp_guesses.induct) (simp_all split: prod.split)

lemma live_otps_attempt:
  "live_otps (update_where P (\<lambda>r. r\<lparr>otp_attempts := otp_attempts r + 1\<rparr>) t) w e p =
   update_where P (\<lambda>r. r\<lparr>otp_attempts := otp_attempts r + 1\<rparr>) (live_otps t w e p)"
  by (induction t) (simp_all add: live_otps_def update_where_def)

lemma live_otps_consume:
  "live_otps (update_where P (\<lambda>r. r\<lparr>otp_consumed_at := Some now\<rparr>) t) w e p = filter (\<lambda>r. \<not> P r) (live_otps t w e p)"
  by (induction t) (simp_all add: live_otps_def update_where_def)

lemma order_desc_single [simp]: "order_desc k [x] = [x]" "order_desc k [] = []"
  by (simp_all add: order_desc_def)

lemma consume_no_otp: "live_otps t w e p = [] \<Longrightarrow> consumeWalletEmailOtp t w e p c m now = (False, t)"
  by (simp add: consumeWalletEmailOtp_def)

lemma guesses_no_otp: "live_otps t w e p = [] \<Longrightarrow> otp_guesses t w e p gs = replicate (length gs) False"
proof (induction gs)
  case (Cons g gs)
  then show ?case by (cases g) (simp add: consume_no_otp)
qed simp

definition wrong_guess :: "email_otp \<Rightarrow> email_otp" where
  "wrong_guess r = r\<lparr>otp_attempts := otp_attempts r + 1\<rparr>"

lemma wrong_guess_simps [simp]:
  "otp_attempts (wrong_guess r) = otp_attempts r + 1" "otp_code_hash (wrong_guess r) = otp_code_hash r"
  "otp_expires_at (wrong_guess r) = otp_expires_at r"
  by (simp_all add: wrong_guess_def)

lemma consume_one_otp:
  assumes "live_otps t w e p = [r]"
  obtains (refused) "consumeWalletEmailOtp t w e p c None now = (False, t)" "otp_expires_at r < now \<or> 5 \<le> otp_attempts r"
  | (wrong) t' where "consumeWalletEmailOtp t w e p c None now = (False, t')" "otp_attempts r < 5"
      "live_otps t' w e p = [wrong_guess r]" "c \<noteq> otp_code_hash r"
  | (right) t' where "consumeWalletEmailOtp t w e p c None now = (True, t')" "otp_attempts r < 5" "now \<le> otp_expires_at r"
      "live_otps t' w e p = []" "c = otp_code_hash r"
proof (cases "otp_expires_at r < now \<or> 5 \<le> otp_attempts r")
  case True
  then have "consumeWalletEmailOtp t w e p c None now = (False, t)"
    unfolding consumeWalletEmailOtp_def assms order_desc_single by (auto simp: first_row_def)
  from this True show thesis by (rule refused)
next
  case False
  let ?t = "update_where (\<lambda>x. otp_id x = otp_id r) (\<lambda>r. r\<lparr>otp_attempts := otp_attempts r + 1\<rparr>) t"
  have l: "live_otps ?t w e p = [wrong_guess r]"
    unfolding live_otps_attempt assms by (simp add: update_where_def wrong_guess_def)
  have c: "consumeWalletEmailOtp t w e p c None now =
    (if otp_code_hash r \<noteq> c then (False, ?t)
     else (True, update_where (\<lambda>x. otp_id x = otp_id r) (\<lambda>r. r\<lparr>otp_consumed_at := Some now\<rparr>) ?t))"
    using False unfolding consumeWalletEmailOtp_def assms order_desc_single by (simp add: first_row_def Let_def)
  show thesis
  proof (cases "otp_code_hash r = c")
    case True
    have "live_otps (update_where (\<lambda>x. otp_id x = otp_id r) (\<lambda>r. r\<lparr>otp_consumed_at := Some now\<rparr>) ?t) w e p = []"
      unfolding live_otps_consume l by (simp add: wrong_guess_def)
    moreover have "consumeWalletEmailOtp t w e p c None now =
        (True, update_where (\<lambda>x. otp_id x = otp_id r) (\<lambda>r. r\<lparr>otp_consumed_at := Some now\<rparr>) ?t)"
      unfolding c by (rule if_not_P) (simp add: True)
    moreover have "otp_attempts r < 5" "now \<le> otp_expires_at r" "c = otp_code_hash r"
      using False True by simp_all
    ultimately show thesis by (intro right)
  next
    case wrong_code: False
    have "consumeWalletEmailOtp t w e p c None now = (False, ?t)" unfolding c by (rule if_P) (rule wrong_code)
    moreover have "otp_attempts r < 5" using False by simp
    ultimately show thesis using l wrong_code [symmetric] by (intro wrong)
  qed
qed

lemma guesses_refused:
  "live_otps t w e p = [r] \<Longrightarrow> \<forall>g \<in> set gs. otp_expires_at r < snd g \<or> 5 \<le> otp_attempts r \<Longrightarrow>
   otp_guesses t w e p gs = replicate (length gs) False"
proof (induction gs)
  case (Cons g gs)
  then have "consumeWalletEmailOtp t w e p (fst g) None (snd g) = (False, t)"
    by (auto simp: consumeWalletEmailOtp_def)
  with Cons show ?case by (cases g) simp
qed simp

lemma guesses_one_otp:
  "live_otps t w e p = [r] \<Longrightarrow> sorted (map snd gs) \<Longrightarrow> j < length gs \<Longrightarrow> otp_guesses t w e p gs ! j \<Longrightarrow>
   otp_attempts r + j < 5 \<and> fst (gs ! j) = otp_code_hash r \<and> snd (gs ! j) \<le> otp_expires_at r \<and>
   (\<forall>i < length gs. i \<noteq> j \<longrightarrow> \<not> otp_guesses t w e p gs ! i)"
proof (induction gs arbitrary: t r j)
  case (Cons g gs)
  obtain c now where g: "g = (c, now)" by force
  from Cons.prems(1) show ?case
  proof (cases rule: consume_one_otp [of t w e p r c now])
    case refused
    have "\<forall>x \<in> set gs. now \<le> snd x" using Cons.prems(2) by (auto simp: g)
    with refused have "\<forall>x \<in> set (g # gs). otp_expires_at r < snd x \<or> 5 \<le> otp_attempts r" by (auto simp: g)
    from guesses_refused [OF Cons.prems(1) this] Cons.prems(3,4) have False
      by (simp add: nth_replicate del: replicate_Suc otp_guesses.simps)
    then show ?thesis ..
  next
    case (wrong t')
    then have eq: "otp_guesses t w e p (g # gs) = False # otp_guesses t' w e p gs" by (simp add: g)
    with Cons.prems(4) obtain j' where j: "j = Suc j'" by (cases j) auto
    with Cons.prems eq have "j' < length gs" "otp_guesses t' w e p gs ! j'" "sorted (map snd gs)" by auto
    from Cons.IH [OF wrong(3) this(3,1,2)] have *: "otp_attempts r + 1 + j' < 5 \<and> fst (gs ! j') = otp_code_hash r \<and>
        snd (gs ! j') \<le> otp_expires_at r \<and> (\<forall>i < length gs. i \<noteq> j' \<longrightarrow> \<not> otp_guesses t' w e p gs ! i)" by simp
    have "\<not> otp_guesses t w e p (g # gs) ! i" if "i < length (g # gs)" "i \<noteq> j" for i
      using that * j eq by (cases i) auto
    with * j show ?thesis by simp
  next
    case (right t')
    then have eq: "otp_guesses t w e p (g # gs) = True # replicate (length gs) False"
      by (simp add: g guesses_no_otp)
    with Cons.prems(3,4) have "j = 0" by (cases j) (auto simp: nth_Cons')
    moreover have "\<not> otp_guesses t w e p (g # gs) ! i" if "i < length (g # gs)" "i \<noteq> 0" for i
      using that eq by (cases i) auto
    ultimately show ?thesis using right by (simp add: g)
  qed
qed simp



lemma create_otp_rows:
  "createWalletEmailOtp t i w e p h ttl now = (Some x, t') \<Longrightarrow> t' = ended_otps t w p now @ [new_otp i w e p h ttl now]"
  by (simp add: createWalletEmailOtp_def Let_def insert_unique_def split: if_splits)

lemma ended_otps_dead:
  "r \<in> set (ended_otps t w p now) \<Longrightarrow> otp_wallet_address r = lower w \<Longrightarrow> otp_purpose r = p \<Longrightarrow> otp_consumed_at r \<noteq> None"
proof
  let ?P = "\<lambda>r. otp_wallet_address r = lower w \<and> otp_purpose r = p \<and> otp_consumed_at r = None"
  assume r: "r \<in> set (ended_otps t w p now)" "otp_wallet_address r = lower w" "otp_purpose r = p" "otp_consumed_at r = None"
  define f :: "email_otp \<Rightarrow> email_otp" where "f x = (if ?P x then x\<lparr>otp_consumed_at := Some now\<rparr> else x)" for x
  from r(1) obtain x where x: "r = f x"
    unfolding ended_otps_def update_where_def set_map f_def by (rule imageE)
  show False

  proof (cases "?P x")
    case True
    then have "f x = x\<lparr>otp_consumed_at := Some now\<rparr>" unfolding f_def by (rule if_P)
    with x r(4) show False by simp
  next
    case False
    then have "f x = x" unfolding f_def by (rule if_not_P)
    with x r False show False by simp
  qed
qed

lemma created_otp_live:
  assumes "createWalletEmailOtp t i w e p h ttl now = (Some x, t')"
  shows "live_otps t' w e p = [new_otp i w e p h ttl now]"
proof -
  have "live_otps (ended_otps t w p now) w e p = []"
    unfolding ended_otps_def live_otps_consume by (auto simp: live_otps_def filter_empty_conv)
  then show ?thesis
    unfolding create_otp_rows [OF assms] by (simp add: live_otps_def new_otp_def)
qed

lemma new_otp_simps [simp]:
  "otp_code_hash (new_otp i w e p h ttl now) = h" "otp_attempts (new_otp i w e p h ttl now) = 0"
  "otp_expires_at (new_otp i w e p h ttl now) = now + nullish ttl (10 * 60 * 1000)"
  by (simp_all add: new_otp_def)

text \<open>
  C8. An e-mail code resists guessing. After a code has been issued, among any guesses for
  its wallet, address and purpose, as time goes on, at most one is accepted, it carries the
  code's hash, comes within the code's lifetime, and is one of the first five guesses: after
  five wrong ones the code is dead.
\<close>

theorem otp_five_guesses:
  assumes "createWalletEmailOtp t i w e p h ttl now = (Some x, t')" and "sorted (map snd gs)"
    and "j < length gs" and "otp_guesses t' w e p gs ! j"
  shows "j < 5 \<and> fst (gs ! j) = h \<and> snd (gs ! j) \<le> now + nullish ttl (10 * 60 * 1000) \<and>
    (\<forall>i < length gs. i \<noteq> j \<longrightarrow> \<not> otp_guesses t' w e p gs ! i)"
  using guesses_one_otp [OF created_otp_live [OF assms(1)] assms(2-4)] by simp

text \<open>
  A fresh code works. The right code, in time and before five guesses, is accepted, and
  every earlier code of the same wallet and purpose is dead.
\<close>

theorem otp_accepted:
  assumes "createWalletEmailOtp t i w e p h ttl now = (Some x, t')" and "length gs < 5"
    and "\<forall>g \<in> set gs. fst g \<noteq> h" and "now' \<le> now + nullish ttl (10 * 60 * 1000)"
    and "\<forall>g \<in> set gs. snd g \<le> now'"
  shows "last (otp_guesses t' w e p (gs @ [(h, now')])) \<and>
    (\<forall>r \<in> set t'. otp_wallet_address r = lower w \<and> otp_purpose r = p \<and> otp_consumed_at r = None \<longrightarrow> otp_id r = i)"
proof
  have "last (otp_guesses t w e p (gs @ [(h, now')]))"
    if "live_otps t w e p = [r]" "otp_code_hash r = h" "otp_attempts r + length gs < 5" "now' \<le> otp_expires_at r"
      "\<forall>g \<in> set gs. fst g \<noteq> h" "\<forall>g \<in> set gs. snd g \<le> now'" for t r
    using that
  proof (induction gs arbitrary: t r)
    case Nil
    then show ?case by (simp add: consumeWalletEmailOtp_def)
  next
    case (Cons g gs)
    obtain c t1 where g: "g = (c, t1)" by force
    from Cons.prems(1) show ?case
    proof (cases rule: consume_one_otp [of t w e p r c t1])
      case (wrong t')
      have ne: "otp_guesses t' w e p (gs @ [(h, now')]) \<noteq> []"
        using length_otp_guesses [of t' w e p "gs @ [(h, now')]"] by (auto simp del: length_otp_guesses)
      from Cons.prems have "last (otp_guesses t' w e p (gs @ [(h, now')]))"
        by (intro Cons.IH [OF wrong(3)]) auto
      with wrong(1) ne show ?thesis by (simp add: g)
    qed (use Cons.prems in \<open>auto simp: g\<close>)
  qed
  from this [OF created_otp_live [OF assms(1)]] assms(2-5)
  show "last (otp_guesses t' w e p (gs @ [(h, now')]))" by simp
  have "t' = ended_otps t w p now @ [new_otp i w e p h ttl now]"
    using assms(1) by (rule create_otp_rows)
  then show "\<forall>r \<in> set t'. otp_wallet_address r = lower w \<and> otp_purpose r = p \<and> otp_consumed_at r = None \<longrightarrow> otp_id r = i"
    by (auto simp: new_otp_def dest: ended_otps_dead)
qed

section \<open>Witnesses\<close>

definition demo_otps :: "email_otp list" where
  "demo_otps = snd (createWalletEmailOtp [] ''o1'' ''0xW'' ''a@b.c'' Otp_Recover ''h'' None 1000)"

lemma demo_otp_created: "createWalletEmailOtp [] ''o1'' ''0xW'' ''a@b.c'' Otp_Recover ''h'' None 1000 = (Some (''o1'', 601000), demo_otps)"
  unfolding demo_otps_def by code_simp

theorem otp_five_guesses_witness:
  "otp_guesses demo_otps ''0xw'' '' A@b.c'' Otp_Recover [(''x'', 2000), (''h'', 3000)] ! 1 \<and>
   \<not> otp_guesses demo_otps ''0xW'' ''a@b.c'' Otp_Recover [(''x'', 2000), (''h'', 3000), (''h'', 4000)] ! 2"
proof
  show "otp_guesses demo_otps ''0xw'' '' A@b.c'' Otp_Recover [(''x'', 2000), (''h'', 3000)] ! 1" by code_simp
  have "otp_guesses demo_otps ''0xW'' ''a@b.c'' Otp_Recover [(''x'', 2000), (''h'', 3000), (''h'', 4000)] ! 1" by code_simp
  from otp_five_guesses [OF demo_otp_created _ _ this]
  show "\<not> otp_guesses demo_otps ''0xW'' ''a@b.c'' Otp_Recover [(''x'', 2000), (''h'', 3000), (''h'', 4000)] ! 2" by simp
qed

theorem otp_accepted_witness:
  "last (otp_guesses demo_otps ''0xW'' ''a@b.c'' Otp_Recover ([(''x'', 2000)] @ [(''h'', 3000)]))"
  using otp_accepted [OF demo_otp_created, of "[(''x'', 2000)]" 3000] by simp

end
