(* ===== verification/CredentialId.thy ===== *)
theory CredentialId
  imports Prelude
begin

text \<open>
  WebAuthn credential ids as strings (commerce/shared/credential-id.ts). The same raw id may be
  stored as base64, base64url or hex; lookups try every form, comparisons decode to bytes.

  \<open>Buffer.from(s, "base64")\<close> of Node takes both alphabets, skips other characters, stops at
  the padding and drops an incomplete last byte; it never throws, so the \<open>catch\<close> of
  \<open>credentialIdToBytes\<close> is not reached and has no counterpart here.
\<close>

section \<open>Base64\<close>

definition b64_char :: "nat \<Rightarrow> char" where
  "b64_char n =
     char_of (if n < 26 then n + 65 else if n < 52 then n + 71 else if n < 62 then n - 4 else if n = 62 then 43 else 47)"

definition b64_value :: "char \<Rightarrow> nat option" where
  "b64_value c =
     (let n = of_char c :: nat in
      if 65 \<le> n \<and> n \<le> 90 then Some (n - 65)
      else if 97 \<le> n \<and> n \<le> 122 then Some (n - 71)
      else if 48 \<le> n \<and> n \<le> 57 then Some (n + 4)
      else if n = 43 \<or> n = 45 then Some 62
      else if n = 47 \<or> n = 95 then Some 63
      else None)"

fun sextets_to_bytes :: "nat list \<Rightarrow> nat list" where
  "sextets_to_bytes (a # b # c # d # r) =
     (a * 4 + b div 16) # (b mod 16 * 16 + c div 4) # (c mod 4 * 64 + d) # sextets_to_bytes r"
| "sextets_to_bytes [a, b, c] = [a * 4 + b div 16, b mod 16 * 16 + c div 4]"
| "sextets_to_bytes [a, b] = [a * 4 + b div 16]"
| "sextets_to_bytes [a] = []"
| "sextets_to_bytes [] = []"

fun bytes_to_sextets :: "nat list \<Rightarrow> nat list" where
  "bytes_to_sextets (x # y # z # r) =
     (x div 4) # (x mod 4 * 16 + y div 16) # (y mod 16 * 4 + z div 64) # (z mod 64) # bytes_to_sextets r"
| "bytes_to_sextets [x, y] = [x div 4, x mod 4 * 16 + y div 16, y mod 16 * 4]"
| "bytes_to_sextets [x] = [x div 4, x mod 4 * 16]"
| "bytes_to_sextets [] = []"

definition base64ToBytes :: "string \<Rightarrow> nat list" where
  "base64ToBytes s = sextets_to_bytes (List.map_filter b64_value (takeWhile (\<lambda>c. c \<noteq> CHR ''='') s))"

definition b64_padding :: "nat list \<Rightarrow> string" where
  "b64_padding bs = replicate ((3 - length bs mod 3) mod 3) (CHR ''='')"

definition bytesToBase64 :: "nat list \<Rightarrow> string" where
  "bytesToBase64 bs = map b64_char (bytes_to_sextets bs) @ b64_padding bs"

section \<open>Hex\<close>

definition hex_value :: "char \<Rightarrow> nat option" where
  "hex_value c =
     (let n = of_char c :: nat in
      if 48 \<le> n \<and> n \<le> 57 then Some (n - 48)
      else if 97 \<le> n \<and> n \<le> 102 then Some (n - 87)
      else if 65 \<le> n \<and> n \<le> 70 then Some (n - 55)
      else None)"

fun hex_prefix :: "string \<Rightarrow> nat list" where
  "hex_prefix [] = []"
| "hex_prefix (c # s) = (case hex_value c of None \<Rightarrow> [] | Some n \<Rightarrow> n # hex_prefix s)"

text \<open>\<open>parseInt(s, 16)\<close>; \<open>None\<close> is \<open>NaN\<close>. A \<open>Uint8Array\<close> keeps an integer modulo 256 and \<open>NaN\<close> as 0.\<close>

definition parse_hex_int :: "string \<Rightarrow> int option" where
  "parse_hex_int s =
     (let t = dropWhile is_space s;
          neg = starts_with t ''-'';
          u = (if neg \<or> starts_with t ''+'' then drop 1 t else t);
          v = (if starts_with u ''0x'' \<or> starts_with u ''0X'' then drop 2 u else u);
          ds = hex_prefix v in
      if ds = [] then None
      else (let n = foldl (\<lambda>a d. 16 * a + int d) 0 ds in Some (if neg then - n else n)))"

definition to_uint8 :: "int option \<Rightarrow> nat" where
  "to_uint8 x = nat (nullish x 0 mod 256)"

fun byte_pairs :: "string \<Rightarrow> nat list" where
  "byte_pairs (a # b # r) = to_uint8 (parse_hex_int [a, b]) # byte_pairs r"
| "byte_pairs [a] = []"
| "byte_pairs [] = []"

definition hexToBytes :: "string \<Rightarrow> nat list" where
  "hexToBytes s = byte_pairs (if starts_with s ''0x'' then drop 2 s else s)"

definition hex_digit :: "nat \<Rightarrow> char" where
  "hex_digit n = char_of (if n < 10 then n + 48 else n + 87)"

definition bytes_to_hex :: "nat list \<Rightarrow> string" where
  "bytes_to_hex bs = ''0x'' @ concat (map (\<lambda>b. [hex_digit (b div 16), hex_digit (b mod 16)]) bs)"

section \<open>Credential ids\<close>

definition credentialIdToBytes :: "string \<Rightarrow> nat list" where
  "credentialIdToBytes c =
     (let t = trim c in
      if t = '''' then []
      else if starts_with t ''0x'' then hexToBytes t
      else base64ToBytes t)"

definition credentialIdsMatch :: "string option \<Rightarrow> string option \<Rightarrow> bool" where
  "credentialIdsMatch a b =
     (case (a, b) of
        (Some x, Some y) \<Rightarrow>
          if trim x = '''' \<or> trim y = '''' then False
          else if trim x = trim y then True
          else (let ab = credentialIdToBytes x; bb = credentialIdToBytes y in
                if length ab \<noteq> length bb \<or> length ab = 0 then False
                else list_all (\<lambda>i. ab ! i = bb ! i) [0..<length ab])
      | _ \<Rightarrow> False)"

definition url_char :: "char \<Rightarrow> char" where
  "url_char c = (if c = CHR ''+'' then CHR ''-'' else if c = CHR ''/'' then CHR ''_'' else c)"

definition strip_padding :: "string \<Rightarrow> string" where
  "strip_padding s = rev (dropWhile (\<lambda>c. c = CHR ''='') (rev s))"

text \<open>\<open>[...new Set(xs)]\<close>: the distinct elements in order of first occurrence.\<close>

fun distinct_list :: "'a list \<Rightarrow> 'a list" where
  "distinct_list [] = []"
| "distinct_list (x # xs) = x # filter (\<lambda>y. y \<noteq> x) (distinct_list xs)"

definition credentialIdLookupVariants :: "string \<Rightarrow> string list" where
  "credentialIdLookupVariants c =
     (let bytes = credentialIdToBytes c in
      if length bytes = 0 then [trim c]
      else (let std = bytesToBase64 bytes;
                url = strip_padding (map url_char std);
                hex = bytes_to_hex bytes in
            distinct_list [trim c, std, url, hex]))"

lemma set_distinct_list [simp]: "set (distinct_list xs) = set xs"
  by (induction xs) auto

lemma distinct_distinct_list: "distinct (distinct_list xs)"
  by (induction xs) auto

section \<open>Decoding what was encoded\<close>

definition are_bytes :: "nat list \<Rightarrow> bool" where
  "are_bytes bs = list_all (\<lambda>b. b < 256) bs"

lemma sextet_values:
  assumes "n < 64"
  shows "b64_value (b64_char n) = Some n" "b64_value (url_char (b64_char n)) = Some n"
    "b64_char n \<noteq> CHR ''=''" "url_char (b64_char n) \<noteq> CHR ''=''"
    "\<not> is_space (b64_char n)" "\<not> is_space (url_char (b64_char n))"
proof -
  consider "n < 26" | "26 \<le> n" "n < 52" | "52 \<le> n" "n < 62" | "n = 62" | "n = 63"
    using assms by linarith
  then have "b64_value (b64_char n) = Some n \<and> b64_value (url_char (b64_char n)) = Some n \<and>
     b64_char n \<noteq> CHR ''='' \<and> url_char (b64_char n) \<noteq> CHR ''='' \<and>
     \<not> is_space (b64_char n) \<and> \<not> is_space (url_char (b64_char n))"
    by cases (simp_all add: b64_char_def b64_value_def url_char_def is_space_def char_of_eq_iff take_bit_eq_mod
      of_char_of Let_def, (linarith | auto)+)
  then show "b64_value (b64_char n) = Some n" "b64_value (url_char (b64_char n)) = Some n"
    "b64_char n \<noteq> CHR ''=''" "url_char (b64_char n) \<noteq> CHR ''=''"
    "\<not> is_space (b64_char n)" "\<not> is_space (url_char (b64_char n))"
    by simp_all
qed

lemma sextets_small: "are_bytes bs \<Longrightarrow> \<forall>n \<in> set (bytes_to_sextets bs). n < 64"
  by (induction bs rule: bytes_to_sextets.induct) (auto simp: are_bytes_def)

lemma pack:
  fixes a b k :: nat
  shows "b < k \<Longrightarrow> (a * k + b) div k = a" "b < k \<Longrightarrow> (a * k + b) mod k = b"
  by simp_all

lemma sextet_arith:
  fixes x y z :: nat
  shows "y < 256 \<Longrightarrow> x div 4 * 4 + (x mod 4 * 16 + y div 16) div 16 = x"
    and "y < 256 \<Longrightarrow> z < 256 \<Longrightarrow> (x mod 4 * 16 + y div 16) mod 16 * 16 + (y mod 16 * 4 + z div 64) div 4 = y"
    and "z < 256 \<Longrightarrow> (y mod 16 * 4 + z div 64) mod 4 * 64 + z mod 64 = z"
    and "x div 4 * 4 + x mod 4 * 16 div 16 = x"
    and "y < 256 \<Longrightarrow> (x mod 4 * 16 + y div 16) mod 16 * 16 + y mod 16 * 4 div 4 = y"
  by (simp_all add: pack less_mult_imp_div_less del: div_mult_self3 div_mult_self4)

lemma sextets_bytes: "are_bytes bs \<Longrightarrow> sextets_to_bytes (bytes_to_sextets bs) = bs"
proof (induction bs rule: bytes_to_sextets.induct)
  case (1 x y z r)
  then have "sextets_to_bytes (bytes_to_sextets r) = r" "x < 256" "y < 256" "z < 256"
    by (simp_all add: are_bytes_def)
  then show ?case by (simp only: bytes_to_sextets.simps sextets_to_bytes.simps sextet_arith)
qed (simp_all only: bytes_to_sextets.simps sextets_to_bytes.simps are_bytes_def list_all_iff list.set ball_simps simp_thms sextet_arith)

lemma map_filter_all: "\<forall>x \<in> set xs. f (g x) = Some x \<Longrightarrow> List.map_filter f (map g xs) = xs"
  by (induction xs) (simp_all add: map_filter_simps)

lemma takeWhile_body:
  "\<forall>c \<in> set body. P c \<Longrightarrow> takeWhile P (body @ pad) = body @ takeWhile P pad"
  by (induction body) auto

lemma decode_body:
  assumes "are_bytes bs" and "\<forall>n < 64. b64_value (g n) = Some n \<and> g n \<noteq> CHR ''=''"
  shows "base64ToBytes (map g (bytes_to_sextets bs) @ replicate k (CHR ''='')) = bs"
proof -
  note small = sextets_small [OF assms(1)]
  have "takeWhile (\<lambda>c. c \<noteq> CHR ''='') (map g (bytes_to_sextets bs) @ replicate k (CHR ''='')) =
      map g (bytes_to_sextets bs)"
    by (subst takeWhile_body) (use small assms(2) in \<open>auto simp: gr0_conv_Suc takeWhile_eq_Nil_iff\<close>)
  moreover have "List.map_filter b64_value (map g (bytes_to_sextets bs)) = bytes_to_sextets bs"
    using small assms(2) by (intro map_filter_all) auto
  ultimately show ?thesis by (simp add: base64ToBytes_def sextets_bytes [OF assms(1)])
qed

lemma base64_roundtrip: "are_bytes bs \<Longrightarrow> base64ToBytes (bytesToBase64 bs) = bs"
  unfolding bytesToBase64_def b64_padding_def by (rule decode_body) (simp_all add: sextet_values)

definition bytes_to_base64url :: "nat list \<Rightarrow> string" where
  "bytes_to_base64url bs = strip_padding (map url_char (bytesToBase64 bs))"

lemma strip_padding_body:
  "\<forall>c \<in> set body. c \<noteq> CHR ''='' \<Longrightarrow> strip_padding (body @ replicate k (CHR ''='')) = body"
proof -
  assume "\<forall>c \<in> set body. c \<noteq> CHR ''=''"
  then have "dropWhile (\<lambda>c. c = CHR ''='') (rev body) = rev body"
    by (cases body rule: rev_cases) auto
  moreover have "dropWhile (\<lambda>c. c = CHR ''='') (replicate k (CHR ''='') @ xs) = dropWhile (\<lambda>c. c = CHR ''='') xs" for xs
    by (induction k) auto
  ultimately show ?thesis by (simp add: strip_padding_def)
qed

lemma base64url_body: "are_bytes bs \<Longrightarrow> bytes_to_base64url bs = map (url_char \<circ> b64_char) (bytes_to_sextets bs)"
proof -
  assume bs: "are_bytes bs"
  have "map url_char (bytesToBase64 bs) =
      map (url_char \<circ> b64_char) (bytes_to_sextets bs) @ replicate ((3 - length bs mod 3) mod 3) (CHR ''='')"
    by (simp add: bytesToBase64_def b64_padding_def url_char_def)
  with sextet_values(4) sextets_small [OF bs] show ?thesis
    by (simp add: bytes_to_base64url_def strip_padding_body)
qed

lemma base64url_roundtrip: "are_bytes bs \<Longrightarrow> base64ToBytes (bytes_to_base64url bs) = bs"
  using decode_body [of bs "url_char \<circ> b64_char" 0] by (simp add: base64url_body sextet_values)

lemma hex_digit_values:
  assumes "d < 16"
  shows "hex_value (hex_digit d) = Some d" "\<not> is_space (hex_digit d)" "hex_digit d \<noteq> CHR ''-''" "hex_digit d \<noteq> CHR ''+''"
    "hex_digit d \<noteq> CHR ''x''" "hex_digit d \<noteq> CHR ''X''"
proof -
  consider "d < 10" | "10 \<le> d" by linarith
  then have "hex_value (hex_digit d) = Some d \<and> \<not> is_space (hex_digit d) \<and> hex_digit d \<noteq> CHR ''-'' \<and>
      hex_digit d \<noteq> CHR ''+'' \<and> hex_digit d \<noteq> CHR ''x'' \<and> hex_digit d \<noteq> CHR ''X''"
    by cases (use assms in \<open>simp_all add: hex_digit_def hex_value_def is_space_def char_of_eq_iff take_bit_eq_mod of_char_of\<close>)
  then show "hex_value (hex_digit d) = Some d" "\<not> is_space (hex_digit d)" "hex_digit d \<noteq> CHR ''-''"
    "hex_digit d \<noteq> CHR ''+''" "hex_digit d \<noteq> CHR ''x''" "hex_digit d \<noteq> CHR ''X''"
    by simp_all
qed

lemma hex_digit_pair:
  "d < 16 \<Longrightarrow> e < 16 \<Longrightarrow> to_uint8 (parse_hex_int [hex_digit d, hex_digit e]) = 16 * d + e"
  by (simp add: parse_hex_int_def starts_with_def hex_digit_values to_uint8_def Let_def nat_mod_distrib)

lemma hex_pairs: "\<forall>n < 256. to_uint8 (parse_hex_int [hex_digit (n div 16), hex_digit (n mod 16)]) = n"
proof (intro allI impI)
  fix n :: nat
  assume "n < 256"
  then have "n div 16 < 16" "n mod 16 < 16" by (simp_all add: less_mult_imp_div_less)
  then show "to_uint8 (parse_hex_int [hex_digit (n div 16), hex_digit (n mod 16)]) = n"
    using hex_digit_pair [of "n div 16" "n mod 16"] by simp
qed

lemma hex_roundtrip: "are_bytes bs \<Longrightarrow> hexToBytes (bytes_to_hex bs) = bs"
proof -
  assume "are_bytes bs"
  then have "byte_pairs (concat (map (\<lambda>b. [hex_digit (b div 16), hex_digit (b mod 16)]) bs)) = bs"
    using hex_pairs by (induction bs) (auto simp: are_bytes_def)
  then show ?thesis by (simp add: hexToBytes_def bytes_to_hex_def starts_with_def)
qed

section \<open>The forms of one id\<close>

lemma trim_no_space: "\<forall>c \<in> set s. \<not> is_space c \<Longrightarrow> trim s = s"
proof -
  have "dropWhile is_space s = s" if "\<forall>c \<in> set s. \<not> is_space c" for s :: string
    using that by (cases s) auto
  from this [of s] this [of "rev s"] show "\<forall>c \<in> set s. \<not> is_space c \<Longrightarrow> trim s = s"
    by (simp add: trim_def)
qed

lemma trim_forms:
  assumes "are_bytes bs"
  shows "trim (bytesToBase64 bs) = bytesToBase64 bs" "trim (bytes_to_base64url bs) = bytes_to_base64url bs"
    "trim (bytes_to_hex bs) = bytes_to_hex bs"
proof -
  have "\<not> is_space (hex_digit (b div 16)) \<and> \<not> is_space (hex_digit (b mod 16))" if "b \<in> set bs" for b
    using that assms by (intro conjI hex_digit_values) (auto simp: are_bytes_def list_all_iff less_mult_imp_div_less)
  then show "trim (bytes_to_hex bs) = bytes_to_hex bs"
    by (intro trim_no_space) (auto simp: bytes_to_hex_def is_space_def)
  show "trim (bytesToBase64 bs) = bytesToBase64 bs"
    using sextets_small [OF assms] sextet_values(5)
    by (intro trim_no_space) (auto simp: bytesToBase64_def b64_padding_def is_space_def [of "CHR ''=''"])
  show "trim (bytes_to_base64url bs) = bytes_to_base64url bs"
    using sextets_small [OF assms] sextet_values(6) by (intro trim_no_space) (auto simp: base64url_body [OF assms])
qed

lemma sextets_nonempty: "bs \<noteq> [] \<Longrightarrow> bytes_to_sextets bs \<noteq> []"
  by (cases bs rule: bytes_to_sextets.cases) auto

lemma forms_nonempty:
  "are_bytes bs \<Longrightarrow> bs \<noteq> [] \<Longrightarrow> bytesToBase64 bs \<noteq> [] \<and> bytes_to_base64url bs \<noteq> [] \<and> bytes_to_hex bs \<noteq> []"
  using sextets_nonempty [of bs] by (simp add: bytesToBase64_def base64url_body bytes_to_hex_def)

definition id_forms :: "nat list \<Rightarrow> string list" where
  "id_forms bs = [bytesToBase64 bs, bytes_to_base64url bs, bytes_to_hex bs]"

lemma form_decodes:
  assumes "are_bytes bs" "bs \<noteq> []" and "\<not> starts_with (bytesToBase64 bs) ''0x''" "f \<in> set (id_forms bs)"
  shows "credentialIdToBytes f = bs \<and> trim f = f \<and> f \<noteq> []"
proof -
  have "starts_with (bytes_to_base64url bs) ''0x'' \<Longrightarrow> starts_with (bytesToBase64 bs) ''0x''"
  proof -
    assume u: "starts_with (bytes_to_base64url bs) ''0x''"
    have *: "url_char c = CHR ''0'' \<Longrightarrow> c = CHR ''0''" "url_char c = CHR ''x'' \<Longrightarrow> c = CHR ''x''" for c
      by (auto simp: url_char_def split: if_splits)
    obtain c d ss where "map b64_char (bytes_to_sextets bs) = c # d # ss" "url_char c = CHR ''0''" "url_char d = CHR ''x''"
      using u by (cases "bytes_to_sextets bs"; cases "tl (bytes_to_sextets bs)")
        (auto simp: base64url_body [OF assms(1)] starts_with_def)
    with * show ?thesis by (simp add: bytesToBase64_def starts_with_def)
  qed
  with assms(3) have "\<not> starts_with (bytes_to_base64url bs) ''0x''" by blast
  moreover have "starts_with (bytes_to_hex bs) ''0x''" by (simp add: bytes_to_hex_def starts_with_def)
  ultimately show ?thesis
    using assms forms_nonempty [OF assms(1,2)] trim_forms [OF assms(1)] hex_roundtrip [OF assms(1)]
      base64_roundtrip [OF assms(1)] base64url_roundtrip [OF assms(1)]
    by (auto simp: id_forms_def credentialIdToBytes_def Let_def)
qed

lemma same_bytes_match:
  "trim x \<noteq> [] \<Longrightarrow> trim y \<noteq> [] \<Longrightarrow> credentialIdToBytes x = credentialIdToBytes y \<Longrightarrow> credentialIdToBytes y \<noteq> [] \<Longrightarrow>
   credentialIdsMatch (Some x) (Some y)"
  by (simp add: credentialIdsMatch_def Let_def list_all_iff)

text \<open>
  The storage forms of a credential id are interchangeable. If the base64 text of a raw id
  does not begin with \<open>0x\<close>, then its base64, base64url and hex forms decode to it and
  match one another, and a lookup by any of the three tries all three.
\<close>

theorem credential_forms_agree:
  assumes "are_bytes bs" and "bs \<noteq> []" and "\<not> starts_with (bytesToBase64 bs) ''0x''"
    and "f \<in> set (id_forms bs)" and "g \<in> set (id_forms bs)"
  shows "credentialIdToBytes f = bs \<and> credentialIdsMatch (Some f) (Some g) \<and>
    g \<in> set (credentialIdLookupVariants f) \<and> distinct (credentialIdLookupVariants f)"
proof -
  note f = form_decodes [OF assms(1-4)] and g = form_decodes [OF assms(1-3,5)]
  have "credentialIdsMatch (Some f) (Some g)"
    using f g assms(2) by (intro same_bytes_match) simp_all
  moreover have "g \<in> set (credentialIdLookupVariants f)"
  proof -
    have "set (credentialIdLookupVariants f) = insert f (set (id_forms bs))"
      using f assms(2) unfolding credentialIdLookupVariants_def Let_def
      by (simp only: length_0_conv if_False set_distinct_list id_forms_def bytes_to_base64url_def list.set)
    with assms(5) show ?thesis by simp
  qed
  moreover have "distinct (credentialIdLookupVariants f)"
    by (simp add: credentialIdLookupVariants_def Let_def distinct_distinct_list del: distinct_list.simps)
  ultimately show ?thesis using f by blast
qed

text \<open>
  A base64url id that begins with \<open>0x\<close> is read as hex. \<open>0x\<close> followed by an even, nonzero
  number of characters none of which is a hex digit, a space or a sign decodes to zero bytes,
  so any two such ids of the same length match, however different the credentials are.
\<close>

theorem unhex_ids_match:
  assumes "length s = length t" and "even (length s)" and "s \<noteq> []"
    and "\<forall>c \<in> set (s @ t). hex_value c = None \<and> \<not> is_space c \<and> c \<noteq> CHR ''-'' \<and> c \<noteq> CHR ''+''"
  shows "credentialIdsMatch (Some (''0x'' @ s)) (Some (''0x'' @ t)) \<and>
    credentialIdToBytes (''0x'' @ s) = replicate (length s div 2) 0"
proof -
  have zero: "byte_pairs u = replicate (length u div 2) 0"
    if "\<forall>c \<in> set u. hex_value c = None \<and> \<not> is_space c \<and> c \<noteq> CHR ''-'' \<and> c \<noteq> CHR ''+''" for u
    using that
    by (induction u rule: byte_pairs.induct) (auto simp: parse_hex_int_def starts_with_def to_uint8_def Let_def)
  have bytes: "trim (''0x'' @ u) = ''0x'' @ u \<and> credentialIdToBytes (''0x'' @ u) = replicate (length u div 2) 0"
    if "\<forall>c \<in> set u. hex_value c = None \<and> \<not> is_space c \<and> c \<noteq> CHR ''-'' \<and> c \<noteq> CHR ''+''" for u
  proof -
    have "trim (''0x'' @ u) = ''0x'' @ u" using that by (intro trim_no_space) (auto simp: is_space_def)
    with zero [OF that] show ?thesis
      by (simp add: credentialIdToBytes_def hexToBytes_def starts_with_def Let_def)
  qed
  from assms(4) bytes [of s] bytes [of t] have "trim (''0x'' @ s) = ''0x'' @ s" "trim (''0x'' @ t) = ''0x'' @ t"
    "credentialIdToBytes (''0x'' @ s) = replicate (length s div 2) 0"
    "credentialIdToBytes (''0x'' @ t) = replicate (length s div 2) 0"
    using assms(1) by auto
  moreover have "length s div 2 \<noteq> 0" using assms(2,3) by (cases s rule: byte_pairs.cases) auto
  ultimately have "credentialIdsMatch (Some (''0x'' @ s)) (Some (''0x'' @ t))"
    by (intro same_bytes_match) (simp_all only: replicate_empty length_replicate append_Cons list.distinct not_False_eq_True)
  with \<open>credentialIdToBytes (''0x'' @ s) = _\<close> show ?thesis by blast
qed

section \<open>Witnesses\<close>

theorem credential_forms_agree_witness:
  "id_forms [251, 255] = [''+/8='', ''-_8'', ''0xfbff''] \<and>
   credentialIdsMatch (Some ''-_8'') (Some ''0xfbff'') \<and> ''+/8='' \<in> set (credentialIdLookupVariants ''-_8'')"
proof -
  have e: "id_forms [251, 255] = [''+/8='', ''-_8'', ''0xfbff'']" by code_simp
  have "are_bytes [251, 255]" by (simp add: are_bytes_def)
  moreover have "\<not> starts_with (bytesToBase64 [251, 255]) ''0x''" by code_simp
  ultimately show ?thesis
    using credential_forms_agree [of "[251, 255]" "''-_8''" "''0xfbff''"]
      credential_forms_agree [of "[251, 255]" "''-_8''" "''+/8=''"] e by simp
qed

theorem unhex_ids_match_witness:
  "credentialIdsMatch (Some ''0xyz'') (Some ''0xQR'') \<and> base64ToBytes ''0xyz'' \<noteq> base64ToBytes ''0xQR''"
proof
  have "\<forall>c \<in> set (''yz'' @ ''QR''). hex_value c = None \<and> \<not> is_space c \<and> c \<noteq> CHR ''-'' \<and> c \<noteq> CHR ''+''"
    by code_simp
  from unhex_ids_match [OF _ _ _ this] show "credentialIdsMatch (Some ''0xyz'') (Some ''0xQR'')" by simp
  show "base64ToBytes ''0xyz'' \<noteq> base64ToBytes ''0xQR''" by code_simp
qed

end
