(* ===== verification/WalletTables.thy ===== *)
theory WalletTables
  imports Registry CredentialId
begin

text \<open>
  The wallet tables of commerce/server/db.ts that the wallet stream of the persist log rebuilds:
  identities and their sign-in methods, smart-wallet accounts, their devices, recovery e-mail,
  entities and entity keys, and the stream itself. Each persist event is a constructor of
  \<open>wallet_event\<close> with its payload.
\<close>

datatype method_kind = Mk_Webauthn | Mk_Yubikey | Mk_Eoa

datatype activation_status = Act_Pending | Act_Funded | Act_Deployed | Act_Error

datatype job_kind = Job_Initiate | Job_Cancel | Job_Execute

datatype job_status = Job_Pending | Job_Claimed | Job_Submitted | Job_Included | Job_Failed | Job_Rejected

record identity =
  idn_identity_id :: string
  idn_email :: string
  idn_google_sub :: "string option"
  idn_created_at :: timestamp

record identity_method =
  idm_id :: string
  idm_identity_id :: string
  idm_kind :: method_kind
  idm_credential_id :: "string option"
  idm_qx :: "string option"
  idm_qy :: "string option"
  idm_eoa :: "string option"
  idm_created_at :: timestamp

record wallet_account =
  wac_address :: address
  wac_salt :: string
  wac_owner_qx :: string
  wac_owner_qy :: string
  wac_credential_id :: "string option"
  wac_attestation :: "string option"
  wac_identity_id :: "string option"
  wac_label :: "string option"
  wac_deployed_chains :: "string list"
  wac_priority_at :: "timestamp option"
  wac_next_check_at :: "timestamp option"
  wac_last_check_at :: "timestamp option"
  wac_check_count :: nat
  wac_status :: activation_status
  wac_error :: "string option"
  wac_created_at :: timestamp
  wac_updated_at :: timestamp

record wallet_device =
  wdv_wallet_address :: address
  wdv_chain_id :: string
  wdv_owner_qx :: string
  wdv_owner_qy :: string
  wdv_label :: string
  wdv_credential_id :: "string option"
  wdv_created_at :: timestamp
  wdv_last_used_at :: "timestamp option"

record wallet_email =
  wem_wallet_address :: address
  wem_email :: string
  wem_verified_at :: "timestamp option"
  wem_created_at :: timestamp
  wem_updated_at :: timestamp

record wallet_entity =
  wen_wallet_address :: address
  wen_entity_id :: string
  wen_label :: "string option"
  wen_created_at :: timestamp

record wallet_entity_key =
  wek_wallet_address :: address
  wek_entity_id :: string
  wek_key_id :: string
  wek_key_type :: int
  wek_qx :: "string option"
  wek_qy :: "string option"
  wek_eoa :: "string option"
  wek_credential_id :: "string option"
  wek_created_at :: timestamp

datatype wallet_event =
    Identity_Created string string "string option" "timestamp option"
  | Identity_Google_Sub string string
  | Method_Added string string method_kind "string option" "string option" "string option" "string option"
  | Method_Removed string
  | Account_Created address string string string "string option" "string option"
  | Account_Identity_Updated address string
  | Account_Credential_Updated address string
  | Account_Deployed address string
  | Device_Registered address string string string string "string option"
  | Device_Removed address string string string
  | Email_Verified address string timestamp
  | Entity_Registered address string "string option"
  | Entity_Key_Registered address string string int "string option" "string option" "string option" "string option"
  | Recovery_Job_Status string address string job_kind job_status "string option"

record wallet_db =
  identities :: "identity list"
  identity_methods :: "identity_method list"
  wallet_accounts :: "wallet_account list"
  wallet_devices :: "wallet_device list"
  wallet_emails :: "wallet_email list"
  wallet_entities :: "wallet_entity list"
  wallet_entity_keys :: "wallet_entity_key list"
  wallet_log :: "(timestamp \<times> wallet_event) list option"
  wallet_skip_log :: bool

definition empty_wallet_db :: "bool \<Rightarrow> wallet_db" where
  "empty_wallet_db logging =
     \<lparr>identities = [], identity_methods = [], wallet_accounts = [], wallet_devices = [], wallet_emails = [],
      wallet_entities = [], wallet_entity_keys = [], wallet_log = (if logging then Some [] else None),
      wallet_skip_log = False\<rparr>"

type_synonym 'a wallet_result = "unit http_error + 'a"

text \<open>
  The statements below run on any extension of \<open>wallet_db\<close>: the recovery tables extend it.
\<close>

definition walletPersist :: "'z wallet_db_scheme \<Rightarrow> wallet_event \<Rightarrow> timestamp \<Rightarrow> 'z wallet_db_scheme" where
  "walletPersist db ev now =
     (case wallet_log db of
        None \<Rightarrow> db
      | Some l \<Rightarrow> if wallet_skip_log db then db else db\<lparr>wallet_log := Some (l @ [(now, ev)])\<rparr>)"

lemma walletPersist_tables [simp]:
  "identities (walletPersist db ev now) = identities db"
  "identity_methods (walletPersist db ev now) = identity_methods db"
  "wallet_accounts (walletPersist db ev now) = wallet_accounts db"
  "wallet_devices (walletPersist db ev now) = wallet_devices db"
  "wallet_emails (walletPersist db ev now) = wallet_emails db"
  "wallet_entities (walletPersist db ev now) = wallet_entities db"
  "wallet_entity_keys (walletPersist db ev now) = wallet_entity_keys db"
  "wallet_skip_log (walletPersist db ev now) = wallet_skip_log db"
  "wallet_db.more (walletPersist db ev now) = wallet_db.more db"
  by (simp_all add: walletPersist_def split: option.split)

text \<open>The entries the stream has gained.\<close>

definition logged :: "'z wallet_db_scheme \<Rightarrow> (timestamp \<times> wallet_event) list" where
  "logged db = nullish (wallet_log db) []"

definition logging :: "'z wallet_db_scheme \<Rightarrow> bool" where
  "logging db \<longleftrightarrow> wallet_log db \<noteq> None \<and> \<not> wallet_skip_log db"

lemma logging_walletPersist [simp]: "logging (walletPersist db ev now) = logging db"
  by (simp add: logging_def walletPersist_def split: option.split)

lemma logged_walletPersist:
  "logged (walletPersist db ev now) = (if logging db then logged db @ [(now, ev)] else logged db)"
  by (auto simp: logged_def walletPersist_def logging_def split: option.split)

end
