(* ===== verification/Identities.thy ===== *)
theory Identities
  imports WalletTables
begin

text \<open>
  Identities (an e-mail address with an optional Google account) and the methods that sign in
  to them: tables \<open>identities\<close> and \<open>identity_methods\<close> of commerce/server/db.ts.
\<close>

definition getIdentityById :: "'z wallet_db_scheme \<Rightarrow> string \<Rightarrow> identity option" where
  "getIdentityById db i = find_by idn_identity_id i (identities db)"

definition getIdentityByEmail :: "'z wallet_db_scheme \<Rightarrow> string \<Rightarrow> identity option" where
  "getIdentityByEmail db e = find_by idn_email (normalizeEmail e) (identities db)"

definition getIdentityByGoogleSub :: "'z wallet_db_scheme \<Rightarrow> string \<Rightarrow> identity option" where
  "getIdentityByGoogleSub db s = find_by idn_google_sub (Some s) (identities db)"

definition setIdentityGoogleSub :: "'z wallet_db_scheme \<Rightarrow> string \<Rightarrow> string \<Rightarrow> timestamp \<Rightarrow> 'z wallet_db_scheme" where
  "setIdentityGoogleSub db i s now =
     walletPersist
       (db\<lparr>identities := update_where (\<lambda>r. idn_identity_id r = i) (\<lambda>r. r\<lparr>idn_google_sub := Some s\<rparr>) (identities db)\<rparr>)
       (Identity_Google_Sub i s) now"

text \<open>\<open>email\<close> is UNIQUE: an insert or update that would give two identities one address throws.\<close>

definition upsertIdentity ::
    "'z wallet_db_scheme \<Rightarrow> string \<Rightarrow> string \<Rightarrow> string option \<Rightarrow> timestamp option \<Rightarrow> timestamp \<Rightarrow>
     identity wallet_result \<times> 'z wallet_db_scheme" where
  "upsertIdentity db i e sub created now =
     (let existing = getIdentityById db i;
          createdAt = nullish (coalesce created (map_option idn_created_at existing)) now;
          sub' = coalesce sub (Option.bind existing idn_google_sub) in
      if list_ex (\<lambda>r. idn_email r = normalizeEmail e \<and> idn_identity_id r \<noteq> i) (identities db)
      then (Inl (Http_Error 500 ''UNIQUE constraint failed: identities.email'' None), db)
      else (let db1 = db\<lparr>identities := upsert idn_identity_id
                  \<lparr>idn_identity_id = i, idn_email = normalizeEmail e, idn_google_sub = sub', idn_created_at = createdAt\<rparr>
                  (\<lambda>old. old\<lparr>idn_email := normalizeEmail e, idn_google_sub := coalesce sub' (idn_google_sub old)\<rparr>)
                  (identities db)\<rparr>;
                db2 = (if existing = None
                       then walletPersist db1 (Identity_Created i (normalizeEmail e) sub (Some createdAt)) now
                       else db1) in
            case getIdentityById db2 i of
              None \<Rightarrow> (Inl (Http_Error 500 ''null'' None), db2)
            | Some r \<Rightarrow> (Inr r, db2)))"

text \<open>\<open>new_id\<close> is the \<open>randomIdentityId()\<close> of the call.\<close>

definition getOrCreateIdentityByEmail ::
    "'z wallet_db_scheme \<Rightarrow> string \<Rightarrow> string \<Rightarrow> string option \<Rightarrow> timestamp \<Rightarrow> identity wallet_result \<times> 'z wallet_db_scheme" where
  "getOrCreateIdentityByEmail db new_id e sub now =
     (case getIdentityByEmail db e of
        Some existing \<Rightarrow>
          (let db1 = (if truthy sub \<and> \<not> truthy (idn_google_sub existing)
                      then setIdentityGoogleSub db (idn_identity_id existing) (the sub) now else db) in
           case getIdentityById db1 (idn_identity_id existing) of
             None \<Rightarrow> (Inl (Http_Error 500 ''null'' None), db1)
           | Some r \<Rightarrow> (Inr r, db1))
      | None \<Rightarrow> upsertIdentity db new_id e sub None now)"

section \<open>Methods\<close>

definition listIdentityMethods :: "'z wallet_db_scheme \<Rightarrow> string \<Rightarrow> identity_method list" where
  "listIdentityMethods db i = order_asc idm_created_at (filter (\<lambda>m. idm_identity_id m = i) (identity_methods db))"

fun keep_new :: "string list \<Rightarrow> string option list \<Rightarrow> string list" where
  "keep_new out [] = out"
| "keep_new out (c # cs) =
     (case map_option trim c of
        None \<Rightarrow> keep_new out cs
      | Some i \<Rightarrow> if i \<noteq> '''' \<and> i \<notin> set out then keep_new (out @ [i]) cs else keep_new out cs)"

definition listYubikeyCredentialIds :: "'z wallet_db_scheme \<Rightarrow> nat \<Rightarrow> string list" where
  "listYubikeyCredentialIds db limit =
     keep_new [] (map idm_credential_id (take limit (order_desc idm_created_at
       (filter (\<lambda>m. idm_kind m = Mk_Yubikey \<and> truthy (idm_credential_id m)) (identity_methods db)))))"

definition getIdentityMethodByPublicKey :: "'z wallet_db_scheme \<Rightarrow> string \<Rightarrow> string \<Rightarrow> identity_method option" where
  "getIdentityMethodByPublicKey db qx qy =
     (let nqx = lower (trim qx); nqy = lower (trim qy) in
      if \<not> starts_with nqx ''0x'' \<or> \<not> starts_with nqy ''0x'' then None
      else find (\<lambda>m. map_option lower (idm_qx m) = Some nqx \<and> map_option lower (idm_qy m) = Some nqy) (identity_methods db))"

definition getIdentityMethodByEoa :: "'z wallet_db_scheme \<Rightarrow> string \<Rightarrow> identity_method option" where
  "getIdentityMethodByEoa db eoa =
     (let needle = lower (trim eoa) in
      if \<not> starts_with needle ''0x'' \<or> length needle \<noteq> 42 then None
      else find (\<lambda>m. idm_kind m = Mk_Eoa \<and> map_option lower (idm_eoa m) = Some needle) (identity_methods db))"

text \<open>The first of the forms of a credential id that some row stores.\<close>

fun first_hit :: "('i \<Rightarrow> 'r option) \<Rightarrow> 'i list \<Rightarrow> 'r option" where
  "first_hit f [] = None"
| "first_hit f (i # is) = (case f i of None \<Rightarrow> first_hit f is | Some r \<Rightarrow> Some r)"

definition getIdentityMethodByCredentialId :: "'z wallet_db_scheme \<Rightarrow> string \<Rightarrow> identity_method option" where
  "getIdentityMethodByCredentialId db c =
     (case first_hit (\<lambda>i. find_by idm_credential_id (Some i) (identity_methods db)) (credentialIdLookupVariants c) of
        Some m \<Rightarrow> Some m
      | None \<Rightarrow> find (\<lambda>m. credentialIdsMatch (idm_credential_id m) (Some c))
                  (filter (\<lambda>m. truthy (idm_credential_id m)) (identity_methods db)))"

definition insertIdentityMethod ::
    "'z wallet_db_scheme \<Rightarrow> string \<Rightarrow> string \<Rightarrow> method_kind \<Rightarrow> string option \<Rightarrow> string option \<Rightarrow> string option \<Rightarrow>
     string option \<Rightarrow> timestamp \<Rightarrow> identity_method option \<times> 'z wallet_db_scheme" where
  "insertIdentityMethod db i ident k cred qx qy eoa now =
     (let existed = find_by idm_id i (identity_methods db) \<noteq> None;
          db1 = db\<lparr>identity_methods := upsert idm_id
            \<lparr>idm_id = i, idm_identity_id = ident, idm_kind = k, idm_credential_id = cred, idm_qx = qx, idm_qy = qy,
             idm_eoa = eoa, idm_created_at = now\<rparr>
            (\<lambda>old. old\<lparr>idm_credential_id := coalesce cred (idm_credential_id old)\<rparr>) (identity_methods db)\<rparr>;
          db2 = (if existed then db1 else walletPersist db1 (Method_Added i ident k cred qx qy eoa) now) in
      (find_by idm_id i (identity_methods db2), db2))"

definition deleteIdentityMethod ::
    "'z wallet_db_scheme \<Rightarrow> string \<Rightarrow> timestamp \<Rightarrow> identity_method option \<times> 'z wallet_db_scheme" where
  "deleteIdentityMethod db i now =
     (case find_by idm_id i (identity_methods db) of
        None \<Rightarrow> (None, db)
      | Some row \<Rightarrow>
          (Some row, walletPersist (db\<lparr>identity_methods := delete_where (\<lambda>m. idm_id m = i) (identity_methods db)\<rparr>)
             (Method_Removed i) now))"

end
