(* ===== verification/WalletAccounts.thy ===== *)
theory WalletAccounts
  imports Identities
begin

text \<open>
  Smart-wallet accounts, their activation queue, devices, recovery e-mail, entities and entity
  keys: the tables \<open>wallet_accounts\<close>, \<open>wallet_devices\<close>, \<open>wallet_emails\<close>, \<open>wallet_entities\<close> and
  \<open>wallet_entity_keys\<close> of commerce/server/db.ts.
\<close>

definition null_or_empty :: "string option \<Rightarrow> bool" where
  "null_or_empty x = (x = None \<or> x = Some '''')"

text \<open>The CASE by which accounts and devices keep the credential id they already have.\<close>

definition kept_credential :: "string option \<Rightarrow> string option \<Rightarrow> string option" where
  "kept_credential new old =
     (if null_or_empty new then old
      else if null_or_empty old then new
      else if old = new then new
      else old)"

section \<open>Accounts\<close>

definition getWalletAccount :: "'z wallet_db_scheme \<Rightarrow> address \<Rightarrow> wallet_account option" where
  "getWalletAccount db a = find_by wac_address (lower a) (wallet_accounts db)"

definition on_account :: "address \<Rightarrow> (wallet_account \<Rightarrow> wallet_account) \<Rightarrow> 'z wallet_db_scheme \<Rightarrow> 'z wallet_db_scheme" where
  "on_account a f db =
     db\<lparr>wallet_accounts := update_where (\<lambda>r. wac_address r = lower a) f (wallet_accounts db)\<rparr>"

record account_input =
  ai_address :: address
  ai_salt :: string
  ai_owner_qx :: string
  ai_owner_qy :: string
  ai_credential_id :: "string option"
  ai_attestation :: "string option"
  ai_identity_id :: "string option"
  ai_label :: "string option"

definition account_events :: "account_input \<Rightarrow> wallet_account option \<Rightarrow> wallet_event list" where
  "account_events i existed =
     (case existed of
        None \<Rightarrow> [Account_Created (lower (ai_address i)) (ai_salt i) (ai_owner_qx i) (ai_owner_qy i) (ai_credential_id i)
                   (ai_identity_id i)]
      | Some old \<Rightarrow>
          if truthy (ai_identity_id i) \<and> ai_identity_id i \<noteq> wac_identity_id old
          then [Account_Identity_Updated (lower (ai_address i)) (the (ai_identity_id i))]
          else if truthy (ai_credential_id i) \<and> ai_credential_id i \<noteq> wac_credential_id old
          then [Account_Credential_Updated (lower (ai_address i)) (the (ai_credential_id i))]
          else [])"

definition upsertWalletAccount ::
    "'z wallet_db_scheme \<Rightarrow> account_input \<Rightarrow> timestamp \<Rightarrow> wallet_account option \<times> 'z wallet_db_scheme" where
  "upsertWalletAccount db i now =
     (let addr = lower (ai_address i);
          existed = getWalletAccount db addr;
          label = coalesce (or_null (map_option trim (ai_label i))) (or_null (Option.bind existed wac_label));
          ident = coalesce (ai_identity_id i) (Option.bind existed wac_identity_id);
          db1 = db\<lparr>wallet_accounts := upsert wac_address
            \<lparr>wac_address = addr, wac_salt = ai_salt i, wac_owner_qx = ai_owner_qx i, wac_owner_qy = ai_owner_qy i,
             wac_credential_id = ai_credential_id i, wac_attestation = ai_attestation i, wac_identity_id = ident,
             wac_label = label, wac_deployed_chains = [], wac_priority_at = None, wac_next_check_at = None,
             wac_last_check_at = None, wac_check_count = 0, wac_status = Act_Pending, wac_error = None,
             wac_created_at = now, wac_updated_at = now\<rparr>
            (\<lambda>old. old\<lparr>wac_credential_id := kept_credential (ai_credential_id i) (wac_credential_id old),
                      wac_attestation := coalesce (ai_attestation i) (wac_attestation old),
                      wac_identity_id := (if null_or_empty ident then wac_identity_id old else ident),
                      wac_label := (if null_or_empty label then wac_label old else label),
                      wac_updated_at := now\<rparr>) (wallet_accounts db)\<rparr>;
          db2 = fold (\<lambda>ev d. walletPersist d ev now) (account_events i existed) db1 in
      (getWalletAccount db2 addr, db2))"

definition setWalletAccountLabel ::
    "'z wallet_db_scheme \<Rightarrow> address \<Rightarrow> string \<Rightarrow> timestamp \<Rightarrow> wallet_account option \<times> 'z wallet_db_scheme" where
  "setWalletAccountLabel db a label now =
     (let trimmed = take 64 (trim label) in
      if trimmed = '''' then (getWalletAccount db (lower a), db)
      else (let db' = on_account a (\<lambda>r. r\<lparr>wac_label := Some trimmed, wac_updated_at := now\<rparr>) db in
            (getWalletAccount db' (lower a), db')))"

definition listWalletAccountsByIdentityId :: "'z wallet_db_scheme \<Rightarrow> string \<Rightarrow> wallet_account list" where
  "listWalletAccountsByIdentityId db i =
     order_asc wac_created_at (filter (\<lambda>r. wac_identity_id r = Some i) (wallet_accounts db))"

fun extra_accounts :: "'z wallet_db_scheme \<Rightarrow> address list \<Rightarrow> address list \<Rightarrow> wallet_account list" where
  "extra_accounts db seen [] = []"
| "extra_accounts db seen (w # ws) =
     (if lower w \<in> set seen then extra_accounts db seen ws
      else case getWalletAccount db w of
             None \<Rightarrow> extra_accounts db seen ws
           | Some a \<Rightarrow> a # extra_accounts db (lower w # seen) ws)"

definition listWalletAccountsLinkedToIdentity :: "'z wallet_db_scheme \<Rightarrow> string \<Rightarrow> wallet_account list" where
  "listWalletAccountsLinkedToIdentity db i =
     (let owned = listWalletAccountsByIdentityId db i;
          linked = map wen_wallet_address (filter (\<lambda>e. wen_entity_id e = i) (wallet_entities db)) in
      owned @ extra_accounts db (map (\<lambda>w. lower (wac_address w)) owned) linked)"

text \<open>
  The search tries the account rows, then the devices (most recently used first) for every form
  of the id, then decodes every stored id, then asks the sign-in methods.
\<close>

definition last_used :: "wallet_device \<Rightarrow> int" where
  "last_used d = (case wdv_last_used_at d of None \<Rightarrow> - 1 | Some t \<Rightarrow> t)"

definition getWalletAccountByCredentialId :: "'z wallet_db_scheme \<Rightarrow> string \<Rightarrow> wallet_account option" where
  "getWalletAccountByCredentialId db c =
     (let variants = credentialIdLookupVariants c;
          device_of = (\<lambda>i. first_row (order_desc last_used (filter (\<lambda>d. wdv_credential_id d = Some i) (wallet_devices db)))) in
      case first_hit (\<lambda>i. find_by wac_credential_id (Some i) (wallet_accounts db)) variants of
        Some a \<Rightarrow> Some a
      | None \<Rightarrow>
      (case first_hit device_of variants of
        Some d \<Rightarrow> getWalletAccount db (wdv_wallet_address d)
      | None \<Rightarrow>
      (case find (\<lambda>a. credentialIdsMatch (wac_credential_id a) (Some c))
              (filter (\<lambda>a. truthy (wac_credential_id a)) (wallet_accounts db)) of
        Some a \<Rightarrow> Some a
      | None \<Rightarrow>
      (case find (\<lambda>d. credentialIdsMatch (wdv_credential_id d) (Some c))
              (filter (\<lambda>d. truthy (wdv_credential_id d)) (wallet_devices db)) of
        Some d \<Rightarrow> getWalletAccount db (wdv_wallet_address d)
      | None \<Rightarrow>
      (case getIdentityMethodByCredentialId db c of
        Some m \<Rightarrow> first_row (listWalletAccountsByIdentityId db (idm_identity_id m))
      | None \<Rightarrow> None)))))"

section \<open>Activation\<close>

text \<open>
  The order of the activation queue: funded accounts first, then those due earliest (a null
  date first), then the latest request.
\<close>

datatype activation_rank = Activation_Rank (rank_unfunded: bool) (rank_next: "timestamp option") (rank_priority: int)

fun null_first :: "timestamp option \<Rightarrow> bool \<times> int" where
  "null_first None = (False, 0)"
| "null_first (Some t) = (True, t)"

definition rank_key :: "activation_rank \<Rightarrow> bool \<times> bool \<times> int \<times> int" where
  "rank_key r = (rank_unfunded r, fst (null_first (rank_next r)), snd (null_first (rank_next r)), - rank_priority r)"

fun key_less :: "bool \<times> bool \<times> int \<times> int \<Rightarrow> bool \<times> bool \<times> int \<times> int \<Rightarrow> bool" where
  "key_less (a, b, c, d) (a', b', c', d') =
     (a < a' \<or> a = a' \<and> (b < b' \<or> b = b' \<and> (c < c' \<or> c = c' \<and> d < d')))"

lemma rank_key_inject: "rank_key r = rank_key s \<longleftrightarrow> r = s"
  by (cases r; cases s; cases "rank_next r"; cases "rank_next s") (auto simp: rank_key_def)

lemma key_less_linear: "key_less x y \<or> x = y \<or> key_less y x"
  by (cases x; cases y) auto

lemma key_less_trans: "key_less x y \<Longrightarrow> key_less y z \<Longrightarrow> key_less x z"
  by (cases x; cases y; cases z) auto

lemma key_less_irrefl: "\<not> key_less x x"
  by (cases x) auto

instantiation activation_rank :: linorder
begin

definition less_activation_rank :: "activation_rank \<Rightarrow> activation_rank \<Rightarrow> bool" where
  "less_activation_rank r s \<longleftrightarrow> key_less (rank_key r) (rank_key s)"

definition less_eq_activation_rank :: "activation_rank \<Rightarrow> activation_rank \<Rightarrow> bool" where
  "less_eq_activation_rank r s \<longleftrightarrow> r = s \<or> key_less (rank_key r) (rank_key s)"

instance
proof
  fix x y z :: activation_rank
  show "x < y \<longleftrightarrow> x \<le> y \<and> \<not> y \<le> x"
    unfolding less_activation_rank_def less_eq_activation_rank_def
    using key_less_irrefl key_less_trans by blast
  show "x \<le> x" by (simp add: less_eq_activation_rank_def)
  show "x \<le> y \<Longrightarrow> y \<le> z \<Longrightarrow> x \<le> z"
    unfolding less_eq_activation_rank_def using key_less_trans by blast
  show "x \<le> y \<Longrightarrow> y \<le> x \<Longrightarrow> x = y"
    unfolding less_eq_activation_rank_def using key_less_irrefl key_less_trans by blast
  show "x \<le> y \<or> y \<le> x"
    unfolding less_eq_activation_rank_def using key_less_linear rank_key_inject by blast
qed

end

definition activation_rank_of :: "wallet_account \<Rightarrow> activation_rank" where
  "activation_rank_of a =
     Activation_Rank (wac_status a \<noteq> Act_Funded) (wac_next_check_at a) (nullish (wac_priority_at a) 0)"

definition activation_due :: "timestamp \<Rightarrow> wallet_account \<Rightarrow> bool" where
  "activation_due now a =
     (wac_priority_at a \<noteq> None \<and> wac_status a \<noteq> Act_Deployed \<and> opt_all (\<lambda>t. t \<le> now) (wac_next_check_at a))"

definition listUndeployedWalletAccounts :: "'z wallet_db_scheme \<Rightarrow> string \<Rightarrow> int \<Rightarrow> timestamp \<Rightarrow> wallet_account list" where
  "listUndeployedWalletAccounts db c limit now =
     filter (\<lambda>a. c \<notin> set (wac_deployed_chains a))
       (take (nat (max 1 (min limit 500))) (order_asc activation_rank_of (filter (activation_due now) (wallet_accounts db))))"

definition touchWalletActivation ::
    "'z wallet_db_scheme \<Rightarrow> address \<Rightarrow> bool \<Rightarrow> timestamp \<Rightarrow> wallet_account option \<times> 'z wallet_db_scheme" where
  "touchWalletActivation db a funded now =
     (case getWalletAccount db a of
        None \<Rightarrow> (None, db)
      | Some _ \<Rightarrow>
          (let db' = on_account a (\<lambda>r. r\<lparr>wac_priority_at := Some now, wac_next_check_at := Some now,
                        wac_status := (if funded then Act_Funded else wac_status r), wac_error := None,
                        wac_updated_at := now\<rparr>) db in
           (getWalletAccount db' a, db')))"

definition activation_delay :: "nat \<Rightarrow> int" where
  "activation_delay checks = min (24 * 60 * 60000) (max 60000 (60000 * 2 ^ min (checks - 1) 10))"

definition recordWalletActivationCheck ::
    "'z wallet_db_scheme \<Rightarrow> address \<Rightarrow> bool \<Rightarrow> bool option \<Rightarrow> string option \<Rightarrow> timestamp \<Rightarrow>
     wallet_account option \<times> 'z wallet_db_scheme" where
  "recordWalletActivationCheck db a funded deployed error now =
     (case getWalletAccount db a of
        None \<Rightarrow> (None, db)
      | Some account \<Rightarrow>
          (let checks = wac_check_count account + 1;
               delay = (if deployed = Some True \<or> funded then 0 else activation_delay checks);
               status = (if deployed = Some True then Act_Deployed else if funded then Act_Funded
                         else if truthy error then Act_Error else Act_Pending);
               db' = on_account a (\<lambda>r. r\<lparr>wac_last_check_at := Some now, wac_next_check_at := Some (now + delay),
                        wac_check_count := checks, wac_status := status, wac_error := error, wac_updated_at := now\<rparr>) db in
           (getWalletAccount db' a, db')))"

definition markWalletDeployed ::
    "'z wallet_db_scheme \<Rightarrow> address \<Rightarrow> string \<Rightarrow> timestamp \<Rightarrow> wallet_account option \<times> 'z wallet_db_scheme" where
  "markWalletDeployed db a c now =
     (case getWalletAccount db a of
        None \<Rightarrow> (None, db)
      | Some account \<Rightarrow>
          if c \<in> set (wac_deployed_chains account) then (Some account, db)
          else (let db' = walletPersist (on_account a (\<lambda>r. r\<lparr>wac_deployed_chains := wac_deployed_chains account @ [c],
                        wac_status := Act_Deployed, wac_error := None, wac_updated_at := now\<rparr>) db)
                        (Account_Deployed (lower a) c) now in
                (getWalletAccount db' a, db')))"

section \<open>Devices\<close>

definition listWalletDevices :: "'z wallet_db_scheme \<Rightarrow> address \<Rightarrow> string \<Rightarrow> wallet_device list" where
  "listWalletDevices db w c =
     order_asc wdv_created_at (filter (\<lambda>d. wdv_wallet_address d = lower w \<and> wdv_chain_id d = c) (wallet_devices db))"

definition device_id :: "wallet_device \<Rightarrow> address \<times> string \<times> string \<times> string" where
  "device_id d = (wdv_wallet_address d, wdv_chain_id d, wdv_owner_qx d, wdv_owner_qy d)"

definition upsertWalletDevice ::
    "'z wallet_db_scheme \<Rightarrow> address \<Rightarrow> string \<Rightarrow> string \<Rightarrow> string \<Rightarrow> string \<Rightarrow> string option \<Rightarrow> timestamp \<Rightarrow>
     wallet_device option \<times> 'z wallet_db_scheme" where
  "upsertWalletDevice db w c qx qy label cred now =
     (let db1 = db\<lparr>wallet_devices := upsert device_id
            \<lparr>wdv_wallet_address = lower w, wdv_chain_id = c, wdv_owner_qx = qx, wdv_owner_qy = qy, wdv_label = label,
             wdv_credential_id = cred, wdv_created_at = now, wdv_last_used_at = Some now\<rparr>
            (\<lambda>old. old\<lparr>wdv_label := label, wdv_credential_id := kept_credential cred (wdv_credential_id old),
                      wdv_last_used_at := Some now\<rparr>) (wallet_devices db)\<rparr>;
          db2 = walletPersist db1 (Device_Registered (lower w) c qx qy label cred) now in
      (find (\<lambda>d. wdv_owner_qx d = qx \<and> wdv_owner_qy d = qy) (listWalletDevices db2 w c), db2))"

definition deleteWalletDevice ::
    "'z wallet_db_scheme \<Rightarrow> address \<Rightarrow> string \<Rightarrow> string \<Rightarrow> string \<Rightarrow> timestamp \<Rightarrow> 'z wallet_db_scheme" where
  "deleteWalletDevice db w c qx qy now =
     walletPersist (db\<lparr>wallet_devices := delete_where (\<lambda>d. device_id d = (lower w, c, qx, qy)) (wallet_devices db)\<rparr>)
       (Device_Removed (lower w) c qx qy) now"

definition getWalletDeviceByCredentialId ::
    "'z wallet_db_scheme \<Rightarrow> string \<Rightarrow> address option \<Rightarrow> wallet_device option" where
  "getWalletDeviceByCredentialId db c w =
     (if trim c = '''' then None
      else if truthy w
      then find (\<lambda>d. wdv_credential_id d = Some (trim c) \<and> wdv_wallet_address d = lower (the w)) (wallet_devices db)
      else first_row (order_desc last_used (filter (\<lambda>d. wdv_credential_id d = Some (trim c)) (wallet_devices db))))"

section \<open>E-mail\<close>

definition getWalletEmail :: "'z wallet_db_scheme \<Rightarrow> address \<Rightarrow> wallet_email option" where
  "getWalletEmail db w = find_by wem_wallet_address (lower w) (wallet_emails db)"

definition upsertWalletEmail ::
    "'z wallet_db_scheme \<Rightarrow> address \<Rightarrow> string \<Rightarrow> timestamp option \<Rightarrow> timestamp \<Rightarrow> wallet_email option \<times> 'z wallet_db_scheme" where
  "upsertWalletEmail db w e verified now =
     (let addr = lower w; email = normalizeEmail e;
          db1 = db\<lparr>wallet_emails := upsert wem_wallet_address
            \<lparr>wem_wallet_address = addr, wem_email = email, wem_verified_at = verified, wem_created_at = now,
             wem_updated_at = now\<rparr>
            (\<lambda>old. old\<lparr>wem_email := email,
                      wem_verified_at := (if verified \<noteq> None then verified
                                          else if email \<noteq> wem_email old then None else wem_verified_at old),
                      wem_updated_at := now\<rparr>) (wallet_emails db)\<rparr>;
          db2 = (case verified of None \<Rightarrow> db1 | Some t \<Rightarrow> walletPersist db1 (Email_Verified addr email t) now) in
      (getWalletEmail db2 addr, db2))"

definition verified_wallets :: "'z wallet_db_scheme \<Rightarrow> string \<Rightarrow> wallet_email list" where
  "verified_wallets db e =
     order_desc wem_updated_at
       (filter (\<lambda>r. wem_email r = normalizeEmail e \<and> wem_verified_at r \<noteq> None) (wallet_emails db))"

definition findWalletByVerifiedEmail :: "'z wallet_db_scheme \<Rightarrow> string \<Rightarrow> wallet_email option" where
  "findWalletByVerifiedEmail db e = first_row (verified_wallets db e)"

definition listWalletsByVerifiedEmail :: "'z wallet_db_scheme \<Rightarrow> string \<Rightarrow> wallet_email list" where
  "listWalletsByVerifiedEmail db e = verified_wallets db e"

definition markWalletEmailVerified ::
    "'z wallet_db_scheme \<Rightarrow> address \<Rightarrow> string \<Rightarrow> timestamp \<Rightarrow> wallet_email option \<times> 'z wallet_db_scheme" where
  "markWalletEmailVerified db w e now =
     (let P = (\<lambda>r. wem_wallet_address r = lower w);
          db1 = (if changes P (wallet_emails db) = 0 then snd (upsertWalletEmail db w e (Some now) now)
                 else walletPersist
                   (db\<lparr>wallet_emails := update_where P (\<lambda>r. r\<lparr>wem_verified_at := Some now, wem_email := normalizeEmail e,
                         wem_updated_at := now\<rparr>) (wallet_emails db)\<rparr>)
                   (Email_Verified (lower w) (normalizeEmail e) now) now) in
      (getWalletEmail db1 w, db1))"

lemma mark_verified_row:
  obtains r where "getWalletEmail (snd (markWalletEmailVerified db w e t)) w = Some r" "wem_wallet_address r = lower w"
    "wem_email r = normalizeEmail e" "wem_verified_at r = Some t"
proof (cases "changes (\<lambda>r. wem_wallet_address r = lower w) (wallet_emails db) = 0")
  case True
  then have "find_by wem_wallet_address (lower w) (wallet_emails db) = None"
    by (auto simp: changes_zero_iff find_by_None_iff)
  with True that show ?thesis
    by (simp add: markWalletEmailVerified_def Let_def upsertWalletEmail_def getWalletEmail_def upsert_new find_by_append)
next
  case False
  then obtain r where "find_by wem_wallet_address (lower w) (wallet_emails db) = Some r"
    by (cases "find_by wem_wallet_address (lower w) (wallet_emails db)") (auto simp: changes_zero_iff find_by_None_iff)
  moreover from this have "wem_wallet_address r = lower w" using find_by_SomeD by fast
  ultimately show ?thesis
    using False that by (simp add: markWalletEmailVerified_def Let_def getWalletEmail_def find_by_update_where)
qed

section \<open>Entities\<close>

definition entity_id :: "wallet_entity \<Rightarrow> address \<times> string" where
  "entity_id r = (wen_wallet_address r, wen_entity_id r)"

definition key_id :: "wallet_entity_key \<Rightarrow> address \<times> string" where
  "key_id r = (wek_wallet_address r, wek_key_id r)"

definition getWalletEntity :: "'z wallet_db_scheme \<Rightarrow> address \<Rightarrow> string \<Rightarrow> wallet_entity option" where
  "getWalletEntity db w e = find_by entity_id (lower w, e) (wallet_entities db)"

definition upsertWalletEntity ::
    "'z wallet_db_scheme \<Rightarrow> address \<Rightarrow> string \<Rightarrow> string option \<Rightarrow> timestamp \<Rightarrow> wallet_entity option \<times> 'z wallet_db_scheme" where
  "upsertWalletEntity db w e label now =
     (let db1 = walletPersist
            (db\<lparr>wallet_entities := upsert entity_id
               \<lparr>wen_wallet_address = lower w, wen_entity_id = e, wen_label = label, wen_created_at = now\<rparr>
               (\<lambda>old. old\<lparr>wen_label := coalesce label (wen_label old)\<rparr>) (wallet_entities db)\<rparr>)
            (Entity_Registered (lower w) e label) now in
      (getWalletEntity db1 w e, db1))"

definition listWalletEntities :: "'z wallet_db_scheme \<Rightarrow> address \<Rightarrow> wallet_entity list" where
  "listWalletEntities db w = order_asc wen_created_at (filter (\<lambda>r. wen_wallet_address r = lower w) (wallet_entities db))"

definition getWalletEntityKey :: "'z wallet_db_scheme \<Rightarrow> address \<Rightarrow> string \<Rightarrow> wallet_entity_key option" where
  "getWalletEntityKey db w k = find_by key_id (lower w, k) (wallet_entity_keys db)"

definition upsertWalletEntityKey ::
    "'z wallet_db_scheme \<Rightarrow> address \<Rightarrow> string \<Rightarrow> string \<Rightarrow> int \<Rightarrow> string option \<Rightarrow> string option \<Rightarrow> string option \<Rightarrow>
     string option \<Rightarrow> timestamp \<Rightarrow> wallet_entity_key option \<times> 'z wallet_db_scheme" where
  "upsertWalletEntityKey db w e k ty qx qy eoa cred now =
     (let row = \<lparr>wek_wallet_address = lower w, wek_entity_id = e, wek_key_id = k, wek_key_type = ty, wek_qx = qx,
                 wek_qy = qy, wek_eoa = eoa, wek_credential_id = cred, wek_created_at = now\<rparr>;
          db1 = walletPersist
            (db\<lparr>wallet_entity_keys := upsert key_id row
               (\<lambda>old. old\<lparr>wek_entity_id := e, wek_key_type := ty, wek_qx := qx, wek_qy := qy, wek_eoa := eoa,
                         wek_credential_id := cred\<rparr>) (wallet_entity_keys db)\<rparr>)
            (Entity_Key_Registered (lower w) e k ty qx qy eoa cred) now in
      (getWalletEntityKey db1 w k, db1))"

definition listWalletEntityKeys :: "'z wallet_db_scheme \<Rightarrow> address \<Rightarrow> string option \<Rightarrow> wallet_entity_key list" where
  "listWalletEntityKeys db w e =
     order_asc wek_created_at
       (filter (\<lambda>r. wek_wallet_address r = lower w \<and> (truthy e \<longrightarrow> Some (wek_entity_id r) = e)) (wallet_entity_keys db))"

definition deleteWalletEntity :: "'z wallet_db_scheme \<Rightarrow> address \<Rightarrow> string \<Rightarrow> bool \<times> 'z wallet_db_scheme" where
  "deleteWalletEntity db w e =
     (let P = (\<lambda>r. entity_id r = (lower w, e)) in
      (changes P (wallet_entities db) > 0,
       db\<lparr>wallet_entity_keys :=
            delete_where (\<lambda>r. wek_wallet_address r = lower w \<and> wek_entity_id r = e) (wallet_entity_keys db),
          wallet_entities := delete_where P (wallet_entities db)\<rparr>))"

definition deleteWalletEntityKey :: "'z wallet_db_scheme \<Rightarrow> address \<Rightarrow> string \<Rightarrow> bool \<times> 'z wallet_db_scheme" where
  "deleteWalletEntityKey db w k =
     (let P = (\<lambda>r. key_id r = (lower w, k)) in
      (changes P (wallet_entity_keys db) > 0,
       db\<lparr>wallet_entity_keys := delete_where P (wallet_entity_keys db)\<rparr>))"

end
