(* ===== verification/WalletReplay.thy ===== *)
theory WalletReplay
  imports WalletAccounts
begin

text \<open>
  Disaster recovery of the wallet tables (commerce/server/wallet-persist-replay.ts): the wallet
  stream is folded into seven \<open>Map\<close>s, whose values are then written into a database. A \<open>Map\<close> is
  the list of its values in insertion order; its key is a function of the value, and setting a
  key that is there replaces the value in place.
\<close>

record identity_snap =
  isn_identity_id :: string
  isn_email :: string
  isn_google_sub :: "string option"
  isn_created_at :: "timestamp option"

record method_snap =
  msn_id :: string
  msn_identity_id :: string
  msn_kind :: method_kind
  msn_credential_id :: "string option"
  msn_qx :: "string option"
  msn_qy :: "string option"
  msn_eoa :: "string option"

record account_snap =
  asn_address :: address
  asn_salt :: string
  asn_owner_qx :: string
  asn_owner_qy :: string
  asn_credential_id :: "string option"
  asn_identity_id :: "string option"
  asn_deployed_chains :: "string list"

record device_snap =
  dsn_wallet_address :: address
  dsn_chain_id :: string
  dsn_owner_qx :: string
  dsn_owner_qy :: string
  dsn_label :: string
  dsn_credential_id :: "string option"

record email_snap =
  esn_wallet_address :: address
  esn_email :: string
  esn_verified_at :: "timestamp option"

record entity_snap =
  tsn_wallet_address :: address
  tsn_entity_id :: string
  tsn_label :: "string option"

record entity_key_snap =
  ksn_wallet_address :: address
  ksn_entity_id :: string
  ksn_key_id :: string
  ksn_key_type :: int
  ksn_qx :: "string option"
  ksn_qy :: "string option"
  ksn_eoa :: "string option"
  ksn_credential_id :: "string option"

record wallet_state =
  ws_identities :: "identity_snap list"
  ws_methods :: "method_snap list"
  ws_accounts :: "account_snap list"
  ws_devices :: "device_snap list"
  ws_emails :: "email_snap list"
  ws_entities :: "entity_snap list"
  ws_entity_keys :: "entity_key_snap list"

definition emptyWalletPersistState :: wallet_state where
  "emptyWalletPersistState =
     \<lparr>ws_identities = [], ws_methods = [], ws_accounts = [], ws_devices = [], ws_emails = [], ws_entities = [],
      ws_entity_keys = []\<rparr>"

definition deviceKey :: "address \<Rightarrow> string \<Rightarrow> string \<Rightarrow> string \<Rightarrow> string" where
  "deviceKey w c qx qy = lower w @ ''|'' @ c @ ''|'' @ qx @ ''|'' @ qy"

definition entityKey :: "address \<Rightarrow> string \<Rightarrow> string" where
  "entityKey w e = lower w @ ''|'' @ e"

definition entityKeyKey :: "address \<Rightarrow> string \<Rightarrow> string" where
  "entityKeyKey w k = lower w @ ''|'' @ k"

definition device_snap_key :: "device_snap \<Rightarrow> string" where
  "device_snap_key d = deviceKey (dsn_wallet_address d) (dsn_chain_id d) (dsn_owner_qx d) (dsn_owner_qy d)"

definition entity_snap_key :: "entity_snap \<Rightarrow> string" where
  "entity_snap_key e = entityKey (tsn_wallet_address e) (tsn_entity_id e)"

definition entity_key_snap_key :: "entity_key_snap \<Rightarrow> string" where
  "entity_key_snap_key k = entityKeyKey (ksn_wallet_address k) (ksn_key_id k)"

section \<open>One event\<close>

text \<open>
  The payload fields are read with the types the operations write; the coercions of payloads
  nobody writes (\<open>String(x ?? "")\<close> of a missing field) have no counterpart.
\<close>

fun applyWalletPersistEvent :: "wallet_state \<Rightarrow> timestamp \<times> wallet_event \<Rightarrow> wallet_state" where
  "applyWalletPersistEvent st (ts, Identity_Created i e sub created) =
     (let email = lower (trim e); s = \<lparr>isn_identity_id = i, isn_email = email, isn_google_sub = sub, isn_created_at = created\<rparr> in
      if i = '''' \<or> email = '''' then st
      else st\<lparr>ws_identities := upsert isn_identity_id s (\<lambda>_. s) (ws_identities st)\<rparr>)"
| "applyWalletPersistEvent st (ts, Identity_Google_Sub i sub) =
     st\<lparr>ws_identities := update_where (\<lambda>s. isn_identity_id s = i) (\<lambda>s. s\<lparr>isn_google_sub := Some sub\<rparr>) (ws_identities st)\<rparr>"
| "applyWalletPersistEvent st (ts, Method_Added i ident k cred qx qy eoa) =
     (let s = \<lparr>msn_id = i, msn_identity_id = ident, msn_kind = k, msn_credential_id = cred, msn_qx = qx, msn_qy = qy,
               msn_eoa = eoa\<rparr> in
      if i = '''' \<or> ident = '''' then st
      else st\<lparr>ws_methods := upsert msn_id s (\<lambda>_. s) (ws_methods st)\<rparr>)"
| "applyWalletPersistEvent st (ts, Method_Removed i) =
     (if i \<noteq> '''' then st\<lparr>ws_methods := delete_where (\<lambda>s. msn_id s = i) (ws_methods st)\<rparr> else st)"
| "applyWalletPersistEvent st (ts, Account_Created a salt qx qy cred ident) =
     (let s = \<lparr>asn_address = lower a, asn_salt = salt, asn_owner_qx = qx, asn_owner_qy = qy, asn_credential_id = cred,
               asn_identity_id = or_null ident, asn_deployed_chains = []\<rparr> in
      if a = '''' then st
      else st\<lparr>ws_accounts := upsert asn_address s (\<lambda>_. s) (ws_accounts st)\<rparr>)"
| "applyWalletPersistEvent st (ts, Account_Identity_Updated a ident) =
     st\<lparr>ws_accounts := update_where (\<lambda>s. asn_address s = lower a) (\<lambda>s. s\<lparr>asn_identity_id := Some ident\<rparr>) (ws_accounts st)\<rparr>"
| "applyWalletPersistEvent st (ts, Account_Credential_Updated a cred) =
     st\<lparr>ws_accounts := update_where (\<lambda>s. asn_address s = lower a) (\<lambda>s. s\<lparr>asn_credential_id := Some cred\<rparr>) (ws_accounts st)\<rparr>"
| "applyWalletPersistEvent st (ts, Account_Deployed a c) =
     st\<lparr>ws_accounts := update_where
          (\<lambda>s. asn_address s = lower a \<and> c \<noteq> '''' \<and> c \<notin> set (asn_deployed_chains s))
          (\<lambda>s. s\<lparr>asn_deployed_chains := asn_deployed_chains s @ [c]\<rparr>) (ws_accounts st)\<rparr>"
| "applyWalletPersistEvent st (ts, Device_Registered w c qx qy label cred) =
     (let s = \<lparr>dsn_wallet_address = lower w, dsn_chain_id = c, dsn_owner_qx = qx, dsn_owner_qy = qy, dsn_label = label,
               dsn_credential_id = cred\<rparr> in
      if w = '''' \<or> qx = '''' \<or> qy = '''' then st
      else st\<lparr>ws_devices := upsert device_snap_key s (\<lambda>_. s) (ws_devices st)\<rparr>)"
| "applyWalletPersistEvent st (ts, Device_Removed w c qx qy) =
     st\<lparr>ws_devices := delete_where (\<lambda>s. device_snap_key s = deviceKey (lower w) c qx qy) (ws_devices st)\<rparr>"
| "applyWalletPersistEvent st (ts, Email_Verified w e stamp) =
     (let email = lower (trim e); s = \<lparr>esn_wallet_address = lower w, esn_email = email, esn_verified_at = Some stamp\<rparr> in
      if w = '''' \<or> email = '''' then st
      else st\<lparr>ws_emails := upsert esn_wallet_address s (\<lambda>_. s) (ws_emails st)\<rparr>)"
| "applyWalletPersistEvent st (ts, Entity_Registered w e label) =
     (let s = \<lparr>tsn_wallet_address = lower w, tsn_entity_id = e, tsn_label = label\<rparr> in
      if w = '''' \<or> e = '''' then st
      else st\<lparr>ws_entities := upsert entity_snap_key s (\<lambda>_. s) (ws_entities st)\<rparr>)"
| "applyWalletPersistEvent st (ts, Entity_Key_Registered w e k ty qx qy eoa cred) =
     (let s = \<lparr>ksn_wallet_address = lower w, ksn_entity_id = e, ksn_key_id = k, ksn_key_type = ty, ksn_qx = qx, ksn_qy = qy,
               ksn_eoa = eoa, ksn_credential_id = cred\<rparr> in
      if w = '''' \<or> k = '''' then st
      else st\<lparr>ws_entity_keys := upsert entity_key_snap_key s (\<lambda>_. s) (ws_entity_keys st)\<rparr>)"
| "applyWalletPersistEvent st (ts, Recovery_Job_Status j w c k s tx) = st"

definition replayWalletPersistState :: "(timestamp \<times> wallet_event) list \<Rightarrow> wallet_state" where
  "replayWalletPersistState es = fold (\<lambda>e st. applyWalletPersistEvent st e) es emptyWalletPersistState"

section \<open>Writing the state\<close>

fun restore_identities :: "identity_snap list \<Rightarrow> timestamp \<Rightarrow> wallet_db \<Rightarrow> unit wallet_result \<times> wallet_db" where
  "restore_identities [] now db = (Inr (), db)"
| "restore_identities (s # ss) now db =
     (case upsertIdentity db (isn_identity_id s) (isn_email s) (isn_google_sub s) (isn_created_at s) now of
        (Inl e, db') \<Rightarrow> (Inl e, db')
      | (Inr _, db') \<Rightarrow> restore_identities ss now db')"

definition restore_method :: "timestamp \<Rightarrow> method_snap \<Rightarrow> wallet_db \<Rightarrow> wallet_db" where
  "restore_method now s db =
     snd (insertIdentityMethod db (msn_id s) (msn_identity_id s) (msn_kind s) (msn_credential_id s) (msn_qx s) (msn_qy s)
            (msn_eoa s) now)"

text \<open>\<open>derive_salt\<close> is \<open>deriveWalletSalt\<close> of commerce/shared/wallet-address.ts, a keccak hash.\<close>

definition account_input_of :: "(string \<Rightarrow> string \<Rightarrow> string) \<Rightarrow> account_snap \<Rightarrow> account_input" where
  "account_input_of derive_salt s =
     \<lparr>ai_address = asn_address s,
      ai_salt = (if asn_salt s \<noteq> '''' then asn_salt s else derive_salt (asn_owner_qx s) (asn_owner_qy s)),
      ai_owner_qx = asn_owner_qx s, ai_owner_qy = asn_owner_qy s, ai_credential_id = asn_credential_id s,
      ai_attestation = None, ai_identity_id = asn_identity_id s, ai_label = None\<rparr>"

definition restore_account :: "(string \<Rightarrow> string \<Rightarrow> string) \<Rightarrow> timestamp \<Rightarrow> account_snap \<Rightarrow> wallet_db \<Rightarrow> wallet_db" where
  "restore_account derive_salt now s db =
     (let db1 = snd (upsertWalletAccount db (account_input_of derive_salt s) now);
          db2 = fold (\<lambda>c d. snd (markWalletDeployed d (asn_address s) c now)) (asn_deployed_chains s) db1 in
      snd (touchWalletActivation db2 (asn_address s) False now))"

definition restore_device :: "timestamp \<Rightarrow> device_snap \<Rightarrow> wallet_db \<Rightarrow> wallet_db" where
  "restore_device now s db =
     snd (upsertWalletDevice db (dsn_wallet_address s) (dsn_chain_id s) (dsn_owner_qx s) (dsn_owner_qy s) (dsn_label s)
            (dsn_credential_id s) now)"

definition restore_email :: "timestamp \<Rightarrow> email_snap \<Rightarrow> wallet_db \<Rightarrow> wallet_db" where
  "restore_email now s db = snd (upsertWalletEmail db (esn_wallet_address s) (esn_email s) (esn_verified_at s) now)"

definition restore_entity :: "timestamp \<Rightarrow> entity_snap \<Rightarrow> wallet_db \<Rightarrow> wallet_db" where
  "restore_entity now s db = snd (upsertWalletEntity db (tsn_wallet_address s) (tsn_entity_id s) (tsn_label s) now)"

definition restore_entity_key :: "timestamp \<Rightarrow> entity_key_snap \<Rightarrow> wallet_db \<Rightarrow> wallet_db" where
  "restore_entity_key now s db =
     snd (upsertWalletEntityKey db (ksn_wallet_address s) (ksn_entity_id s) (ksn_key_id s) (ksn_key_type s) (ksn_qx s)
            (ksn_qy s) (ksn_eoa s) (ksn_credential_id s) now)"

definition restore_rest :: "(string \<Rightarrow> string \<Rightarrow> string) \<Rightarrow> timestamp \<Rightarrow> wallet_state \<Rightarrow> wallet_db \<Rightarrow> wallet_db" where
  "restore_rest derive_salt now st db =
     fold (restore_entity_key now) (ws_entity_keys st)
       (fold (restore_entity now) (ws_entities st)
         (fold (restore_email now) (ws_emails st)
           (fold (restore_device now) (ws_devices st)
             (fold (restore_account derive_salt now) (ws_accounts st)
               (fold (restore_method now) (ws_methods st) db)))))"

definition applyWalletPersistStateToDb ::
    "(string \<Rightarrow> string \<Rightarrow> string) \<Rightarrow> wallet_db \<Rightarrow> wallet_state \<Rightarrow> timestamp \<Rightarrow> unit wallet_result \<times> wallet_db" where
  "applyWalletPersistStateToDb derive_salt db st now =
     (let prev = wallet_skip_log db;
          (res, db') = (case restore_identities (ws_identities st) now (db\<lparr>wallet_skip_log := True\<rparr>) of
             (Inl e, d) \<Rightarrow> (Inl e, d)
           | (Inr _, d) \<Rightarrow> (Inr (), restore_rest derive_salt now st d)) in
      (res, db'\<lparr>wallet_skip_log := prev\<rparr>))"

definition replayWalletPersistLogToDb ::
    "(string \<Rightarrow> string \<Rightarrow> string) \<Rightarrow> wallet_db \<Rightarrow> (timestamp \<times> wallet_event) list \<Rightarrow> timestamp \<Rightarrow>
     unit wallet_result \<times> wallet_db" where
  "replayWalletPersistLogToDb derive_salt db lg now =
     applyWalletPersistStateToDb derive_salt db (replayWalletPersistState lg) now"

end
