(* ===== verification/WalletRecovery.thy ===== *)
theory WalletRecovery
  imports WalletReplay
begin

text \<open>
  What disaster recovery of the wallet tables restores. The operations of the database are a
  step relation; along every run the state folded from the log and the live tables stay in
  agreement on identities, methods, accounts and devices (credential ids apart), and writing the
  state into an empty database gives those tables back.
\<close>

section \<open>Runs\<close>

definition plain :: "string \<Rightarrow> bool" where
  "plain s = (CHR ''|'' \<notin> set s)"

inductive wallet_step :: "wallet_db \<Rightarrow> wallet_db \<Rightarrow> bool" where
  sign_in: "getIdentityById db new_id = None \<Longrightarrow> new_id \<noteq> '''' \<Longrightarrow> normalizeEmail e \<noteq> '''' \<Longrightarrow>
    wallet_step db (snd (getOrCreateIdentityByEmail db new_id e sub now))"
| google: "wallet_step db (setIdentityGoogleSub db i sub now)"
| add_method: "i \<noteq> '''' \<Longrightarrow> ident \<noteq> '''' \<Longrightarrow> wallet_step db (snd (insertIdentityMethod db i ident k cred qx qy eoa now))"
| remove_method: "i \<noteq> '''' \<Longrightarrow> wallet_step db (snd (deleteIdentityMethod db i now))"
| account: "ai_address a \<noteq> '''' \<Longrightarrow> ai_salt a \<noteq> '''' \<Longrightarrow> wallet_step db (snd (upsertWalletAccount db a now))"
| label: "wallet_step db (snd (setWalletAccountLabel db w l now))"
| touch: "wallet_step db (snd (touchWalletActivation db w funded now))"
| check: "wallet_step db (snd (recordWalletActivationCheck db w funded deployed err now))"
| deployed: "c \<noteq> '''' \<Longrightarrow> wallet_step db (snd (markWalletDeployed db w c now))"
| device: "w \<noteq> '''' \<Longrightarrow> qx \<noteq> '''' \<Longrightarrow> qy \<noteq> '''' \<Longrightarrow> plain (w @ c @ qx @ qy) \<Longrightarrow>
    wallet_step db (snd (upsertWalletDevice db w c qx qy l cred now))"
| remove_device: "plain (w @ c @ qx @ qy) \<Longrightarrow> wallet_step db (deleteWalletDevice db w c qx qy now)"
| email: "wallet_step db (snd (upsertWalletEmail db w e verified now))"
| verify_email: "wallet_step db (snd (markWalletEmailVerified db w e now))"
| entity: "wallet_step db (snd (upsertWalletEntity db w e l now))"
| entity_key: "wallet_step db (snd (upsertWalletEntityKey db w e key ty qx' qy' eoa cred now))"
| remove_entity: "wallet_step db (snd (deleteWalletEntity db w e))"
| remove_key: "wallet_step db (snd (deleteWalletEntityKey db w key))"

inductive wallet_reachable :: "wallet_db \<Rightarrow> bool" where
  start: "wallet_reachable (empty_wallet_db True)"
| step: "wallet_reachable db \<Longrightarrow> wallet_step db db' \<Longrightarrow> wallet_reachable db'"

section \<open>Facts that survive\<close>

definition identity_facts :: "identity \<Rightarrow> identity_snap" where
  "identity_facts r =
     \<lparr>isn_identity_id = idn_identity_id r, isn_email = idn_email r, isn_google_sub = idn_google_sub r,
      isn_created_at = Some (idn_created_at r)\<rparr>"

definition method_facts :: "identity_method \<Rightarrow> method_snap" where
  "method_facts r =
     \<lparr>msn_id = idm_id r, msn_identity_id = idm_identity_id r, msn_kind = idm_kind r, msn_credential_id = None,
      msn_qx = idm_qx r, msn_qy = idm_qy r, msn_eoa = idm_eoa r\<rparr>"

definition account_facts :: "wallet_account \<Rightarrow> account_snap" where
  "account_facts r =
     \<lparr>asn_address = wac_address r, asn_salt = wac_salt r, asn_owner_qx = wac_owner_qx r, asn_owner_qy = wac_owner_qy r,
      asn_credential_id = None, asn_identity_id = or_null (wac_identity_id r), asn_deployed_chains = wac_deployed_chains r\<rparr>"

definition device_facts :: "wallet_device \<Rightarrow> device_snap" where
  "device_facts r =
     \<lparr>dsn_wallet_address = wdv_wallet_address r, dsn_chain_id = wdv_chain_id r, dsn_owner_qx = wdv_owner_qx r,
      dsn_owner_qy = wdv_owner_qy r, dsn_label = wdv_label r, dsn_credential_id = None\<rparr>"

abbreviation bare_method :: "method_snap \<Rightarrow> method_snap" where
  "bare_method s \<equiv> s\<lparr>msn_credential_id := None\<rparr>"

abbreviation bare_account :: "account_snap \<Rightarrow> account_snap" where
  "bare_account s \<equiv> s\<lparr>asn_credential_id := None\<rparr>"

abbreviation bare_device :: "device_snap \<Rightarrow> device_snap" where
  "bare_device s \<equiv> s\<lparr>dsn_credential_id := None\<rparr>"

text \<open>The replay state of the log a database has written.\<close>

definition wallet_state_of :: "wallet_db \<Rightarrow> wallet_state" where
  "wallet_state_of db = replayWalletPersistState (logged db)"

definition identities_agree :: "wallet_db \<Rightarrow> bool" where
  "identities_agree db \<longleftrightarrow> ws_identities (wallet_state_of db) = map identity_facts (identities db)"

definition methods_agree :: "wallet_db \<Rightarrow> bool" where
  "methods_agree db \<longleftrightarrow> map bare_method (ws_methods (wallet_state_of db)) = map method_facts (identity_methods db)"

definition accounts_agree :: "wallet_db \<Rightarrow> bool" where
  "accounts_agree db \<longleftrightarrow> map bare_account (ws_accounts (wallet_state_of db)) = map account_facts (wallet_accounts db)"

definition devices_agree :: "wallet_db \<Rightarrow> bool" where
  "devices_agree db \<longleftrightarrow> map bare_device (ws_devices (wallet_state_of db)) = map device_facts (wallet_devices db)"

definition device_plain :: "wallet_device \<Rightarrow> bool" where
  "device_plain d = (lower (wdv_wallet_address d) = wdv_wallet_address d \<and>
     plain (wdv_wallet_address d @ wdv_chain_id d @ wdv_owner_qx d @ wdv_owner_qy d))"

definition wallet_tables_ok :: "wallet_db \<Rightarrow> bool" where
  "wallet_tables_ok db \<longleftrightarrow> logging db \<and>
     unique_on idn_identity_id (identities db) \<and> unique_on idn_email (identities db) \<and>
     (\<forall>r \<in> set (identities db). normalizeEmail (idn_email r) = idn_email r) \<and>
     unique_on idm_id (identity_methods db) \<and>
     unique_on wac_address (wallet_accounts db) \<and>
     (\<forall>r \<in> set (wallet_accounts db). lower (wac_address r) = wac_address r \<and> wac_salt r \<noteq> '''' \<and>
        distinct (wac_deployed_chains r) \<and> '''' \<notin> set (wac_deployed_chains r)) \<and>
     unique_on device_id (wallet_devices db) \<and> (\<forall>d \<in> set (wallet_devices db). device_plain d)"

section \<open>The state and the log\<close>

lemma state_walletPersist:
  "logging db \<Longrightarrow> wallet_state_of (walletPersist db ev now) = applyWalletPersistEvent (wallet_state_of db) (now, ev)"
  by (simp add: wallet_state_of_def replayWalletPersistState_def logged_walletPersist)

lemma state_tables [simp]:
  "wallet_state_of (db\<lparr>identities := a\<rparr>) = wallet_state_of db"
  "wallet_state_of (db\<lparr>identity_methods := b\<rparr>) = wallet_state_of db"
  "wallet_state_of (db\<lparr>wallet_accounts := c\<rparr>) = wallet_state_of db"
  "wallet_state_of (db\<lparr>wallet_devices := d\<rparr>) = wallet_state_of db"
  "wallet_state_of (db\<lparr>wallet_emails := e\<rparr>) = wallet_state_of db"
  "wallet_state_of (db\<lparr>wallet_entities := f\<rparr>) = wallet_state_of db"
  "wallet_state_of (db\<lparr>wallet_entity_keys := g\<rparr>) = wallet_state_of db"
  by (simp_all add: wallet_state_of_def logged_def)

lemma logging_tables [simp]:
  "logging (db\<lparr>identities := a\<rparr>) = logging db" "logging (db\<lparr>identity_methods := b\<rparr>) = logging db"
  "logging (db\<lparr>wallet_accounts := c\<rparr>) = logging db" "logging (db\<lparr>wallet_devices := d\<rparr>) = logging db"
  "logging (db\<lparr>wallet_emails := e\<rparr>) = logging db" "logging (db\<lparr>wallet_entities := f\<rparr>) = logging db"
  "logging (db\<lparr>wallet_entity_keys := g\<rparr>) = logging db"
  by (simp_all add: logging_def)

lemma append_bar_inject:
  "plain a \<Longrightarrow> plain b \<Longrightarrow> a @ CHR ''|'' # x = b @ CHR ''|'' # y \<longleftrightarrow> a = b \<and> x = y"
proof (induction a arbitrary: b)
  case Nil
  then show ?case by (cases b) (auto simp: plain_def)
next
  case (Cons c a)
  then show ?case by (cases b) (auto simp: plain_def)
qed

lemma plain_append [simp]: "plain (a @ b) = (plain a \<and> plain b)"
  by (simp add: plain_def)

lemma lower_char_bar: "lower_char c = CHR ''|'' \<longleftrightarrow> c = CHR ''|''"
  by (auto simp: lower_char_def Let_def char_of_eq_iff take_bit_eq_mod)

lemma plain_lower [simp]: "plain (lower s) = plain s"
  by (auto simp: plain_def lower_def image_iff lower_char_bar)
     (metis lower_char_bar)+

lemma deviceKey_inject:
  "plain (w @ c @ qx @ qy) \<Longrightarrow> plain (w' @ c' @ qx' @ qy') \<Longrightarrow>
   deviceKey w c qx qy = deviceKey w' c' qx' qy' \<longleftrightarrow> lower w = lower w' \<and> c = c' \<and> qx = qx' \<and> qy = qy'"
  by (simp add: deviceKey_def append_bar_inject)

section \<open>Identities and methods\<close>

lemmas agree_defs = identities_agree_def methods_agree_def accounts_agree_def devices_agree_def

text \<open>A step that leaves a table and the part of the state for it alone keeps them in agreement.\<close>

lemma identities_agree_frame:
  "identities_agree db \<Longrightarrow> identities db' = identities db \<Longrightarrow>
   ws_identities (wallet_state_of db') = ws_identities (wallet_state_of db) \<Longrightarrow> identities_agree db'"
  by (simp add: identities_agree_def)

lemma identity_facts_id [simp]: "isn_identity_id (identity_facts r) = idn_identity_id r"
  by (simp add: identity_facts_def)

lemma google_agrees:
  assumes "identities_agree db" "logging db"
  shows "identities_agree (setIdentityGoogleSub db i sub now)"
proof -
  have "map identity_facts (update_where (\<lambda>r. idn_identity_id r = i) (\<lambda>r. r\<lparr>idn_google_sub := Some sub\<rparr>) (identities db)) =
      update_where (\<lambda>s. isn_identity_id s = i) (\<lambda>s. s\<lparr>isn_google_sub := Some sub\<rparr>) (map identity_facts (identities db))"
    by (rule map_rows_update_where) (simp_all add: identity_facts_def)
  with assms show ?thesis
    by (simp add: identities_agree_def setIdentityGoogleSub_def state_walletPersist)
qed

lemma sign_in_closed:
  assumes "getIdentityById db new_id = None" "getIdentityByEmail db e = None"
  shows "getOrCreateIdentityByEmail db new_id e sub now =
    (let r = \<lparr>idn_identity_id = new_id, idn_email = normalizeEmail e, idn_google_sub = sub, idn_created_at = now\<rparr> in
     (Inr r, walletPersist (db\<lparr>identities := identities db @ [r]\<rparr>)
        (Identity_Created new_id (normalizeEmail e) sub (Some now)) now))"
proof -
  have "\<not> list_ex (\<lambda>r. idn_email r = normalizeEmail e \<and> idn_identity_id r \<noteq> new_id) (identities db)"
    using assms(2) by (auto simp: getIdentityByEmail_def find_by_None_iff list_ex_iff)
  with assms show ?thesis
    by (simp add: getOrCreateIdentityByEmail_def upsertIdentity_def Let_def getIdentityById_def upsert_def find_by_append)
qed

lemma sign_in_known:
  "getIdentityByEmail db e = Some r \<Longrightarrow>
   snd (getOrCreateIdentityByEmail db new_id e sub now) =
     (if truthy sub \<and> \<not> truthy (idn_google_sub r) then setIdentityGoogleSub db (idn_identity_id r) (the sub) now else db)"
  by (simp add: getOrCreateIdentityByEmail_def Let_def split: option.split)

lemma sign_in_agrees:
  assumes "identities_agree db" "logging db" "getIdentityById db new_id = None" "new_id \<noteq> ''''" "normalizeEmail e \<noteq> ''''"
  shows "identities_agree (snd (getOrCreateIdentityByEmail db new_id e sub now))"
proof (cases "getIdentityByEmail db e")
  case None
  have "find_by isn_identity_id new_id (map identity_facts (identities db)) = None"
    using assms(3) by (auto simp: getIdentityById_def find_by_None_iff)
  with assms show ?thesis
    by (simp add: sign_in_closed [OF assms(3) None] Let_def identities_agree_def state_walletPersist
      normalizeEmail_unfold upsert_new identity_facts_def)
next
  case (Some r)
  with assms google_agrees show ?thesis by (simp add: sign_in_known)
qed

lemma method_facts_id [simp]: "msn_id (method_facts r) = idm_id r"
  by (simp add: method_facts_def)

lemma add_method_agrees:
  assumes "methods_agree db" "logging db" "i \<noteq> ''''" "ident \<noteq> ''''"
  shows "methods_agree (snd (insertIdentityMethod db i ident k cred qx qy eoa now))"
proof -
  let ?m = "\<lparr>idm_id = i, idm_identity_id = ident, idm_kind = k, idm_credential_id = cred, idm_qx = qx, idm_qy = qy,
      idm_eoa = eoa, idm_created_at = now\<rparr>"
  let ?s = "\<lparr>msn_id = i, msn_identity_id = ident, msn_kind = k, msn_credential_id = cred, msn_qx = qx, msn_qy = qy,
      msn_eoa = eoa\<rparr>"
  show ?thesis
  proof (cases "find_by idm_id i (identity_methods db)")
    case None
    have "map bare_method (upsert msn_id ?s (\<lambda>_. ?s) (ws_methods (wallet_state_of db))) =
        upsert msn_id (bare_method ?s) (\<lambda>_. bare_method ?s) (map bare_method (ws_methods (wallet_state_of db)))"
      by (rule map_rows_upsert) simp_all
    moreover have "find_by msn_id i (map method_facts (identity_methods db)) = None"
      using None by (auto simp: find_by_None_iff)
    ultimately show ?thesis
      using None assms by (simp add: insertIdentityMethod_def Let_def methods_agree_def state_walletPersist upsert_new
        method_facts_def)
  next
    case (Some r)
    have "map method_facts (update_where (\<lambda>x. idm_id x = i)
        (\<lambda>old. old\<lparr>idm_credential_id := coalesce cred (idm_credential_id old)\<rparr>) (identity_methods db)) =
        map method_facts (identity_methods db)"
      by (rule map_rows_unchanged) (simp add: method_facts_def)
    with Some assms show ?thesis
      by (simp add: insertIdentityMethod_def Let_def methods_agree_def upsert_def)
  qed
qed

lemma remove_method_agrees:
  assumes "methods_agree db" "logging db" "i \<noteq> ''''"
  shows "methods_agree (snd (deleteIdentityMethod db i now))"
proof -
  have "map bare_method (delete_where (\<lambda>s. msn_id s = i) (ws_methods (wallet_state_of db))) =
      delete_where (\<lambda>s. msn_id s = i) (map bare_method (ws_methods (wallet_state_of db)))"
    by (rule map_rows_delete_where) simp
  moreover have "map method_facts (delete_where (\<lambda>m. idm_id m = i) (identity_methods db)) =
      delete_where (\<lambda>s. msn_id s = i) (map method_facts (identity_methods db))"
    by (rule map_rows_delete_where) simp
  ultimately show ?thesis
    using assms by (simp add: deleteIdentityMethod_def methods_agree_def state_walletPersist split: option.split)
qed

section \<open>Accounts\<close>

lemma account_facts_address [simp]: "asn_address (account_facts r) = wac_address r"
  by (simp add: account_facts_def)

lemma on_account_tables [simp]:
  "identities (on_account a f db) = identities db" "identity_methods (on_account a f db) = identity_methods db"
  "wallet_devices (on_account a f db) = wallet_devices db" "wallet_state_of (on_account a f db) = wallet_state_of db"
  "logging (on_account a f db) = logging db"
  by (simp_all add: on_account_def)

lemma on_account_rows:
  "wallet_accounts (on_account a f db) = update_where (\<lambda>r. wac_address r = lower a) f (wallet_accounts db)"
  by (simp add: on_account_def)

lemma fold_persist_tables [simp]:
  "identities (fold (\<lambda>ev d. walletPersist d ev now) evs db) = identities db"
  "identity_methods (fold (\<lambda>ev d. walletPersist d ev now) evs db) = identity_methods db"
  "wallet_accounts (fold (\<lambda>ev d. walletPersist d ev now) evs db) = wallet_accounts db"
  "wallet_devices (fold (\<lambda>ev d. walletPersist d ev now) evs db) = wallet_devices db"
  "logging (fold (\<lambda>ev d. walletPersist d ev now) evs db) = logging db"
  by (induction evs arbitrary: db) simp_all

lemma truthy_iff: "truthy x \<longleftrightarrow> (\<exists>s. x = Some s \<and> s \<noteq> '''')"
  by (cases x) simp_all

text \<open>Updates of columns that are not among the facts.\<close>

lemma on_account_agrees:
  assumes "accounts_agree db" "\<And>r. account_facts (f r) = account_facts r"
  shows "accounts_agree (on_account a f db)"
  using assms by (simp add: accounts_agree_def on_account_rows map_rows_unchanged)

lemma state_account_update:
  assumes "\<And>s. asn_address (g s) = asn_address s" "\<And>s. bare_account (g s) = g (bare_account s)"
  shows "map bare_account (update_where (\<lambda>s. asn_address s = a \<and> Q (asn_deployed_chains s)) g L) =
    update_where (\<lambda>s. asn_address s = a \<and> Q (asn_deployed_chains s)) g (map bare_account L)"
  by (rule map_rows_update_where) (simp_all add: assms)

lemma new_account_agrees:
  assumes "accounts_agree db" "logging db" "getWalletAccount db (ai_address a) = None" "ai_address a \<noteq> ''''"
  shows "accounts_agree (snd (upsertWalletAccount db a now))"
proof -
  let ?s = "\<lparr>asn_address = lower (ai_address a), asn_salt = ai_salt a, asn_owner_qx = ai_owner_qx a,
      asn_owner_qy = ai_owner_qy a, asn_credential_id = ai_credential_id a, asn_identity_id = or_null (ai_identity_id a),
      asn_deployed_chains = []\<rparr>"
  have none: "find_by wac_address (lower (ai_address a)) (wallet_accounts db) = None"
    using assms(3) by (simp add: getWalletAccount_def)
  then have "find_by asn_address (lower (ai_address a)) (map account_facts (wallet_accounts db)) = None"
    by (auto simp: find_by_None_iff)
  moreover have "map bare_account (upsert asn_address ?s (\<lambda>_. ?s) (ws_accounts (wallet_state_of db))) =
      upsert asn_address (bare_account ?s) (\<lambda>_. bare_account ?s) (map bare_account (ws_accounts (wallet_state_of db)))"
    by (rule map_rows_upsert) simp_all
  ultimately show ?thesis
    using assms none
    by (simp add: upsertWalletAccount_def Let_def account_events_def getWalletAccount_def accounts_agree_def
      state_walletPersist upsert_new account_facts_def)
qed

lemma known_account_agrees:
  assumes "accounts_agree db" "logging db" "getWalletAccount db (ai_address a) = Some old"
    and "unique_on wac_address (wallet_accounts db)"
  shows "accounts_agree (snd (upsertWalletAccount db a now))"
proof -
  let ?w = "lower (ai_address a)" and ?i = "ai_identity_id a"
  define new_id where "new_id \<longleftrightarrow> truthy ?i \<and> ?i \<noteq> wac_identity_id old"
  define merge where "merge x = x\<lparr>wac_credential_id := kept_credential (ai_credential_id a) (wac_credential_id x),
      wac_attestation := coalesce (ai_attestation a) (wac_attestation x),
      wac_identity_id := (if null_or_empty (coalesce ?i (wac_identity_id old)) then wac_identity_id x
                          else coalesce ?i (wac_identity_id old)),
      wac_label := (if null_or_empty (coalesce (or_null (map_option trim (ai_label a))) (or_null (wac_label old)))
                    then wac_label x else coalesce (or_null (map_option trim (ai_label a))) (or_null (wac_label old))),
      wac_updated_at := now\<rparr>" for x :: wallet_account
  have old: "find_by wac_address ?w (wallet_accounts db) = Some old"
    using assms(3) by (simp add: getWalletAccount_def)
  have rows: "wallet_accounts (snd (upsertWalletAccount db a now)) =
      update_where (\<lambda>x. wac_address x = ?w) merge (wallet_accounts db)"
    using old by (simp add: upsertWalletAccount_def Let_def getWalletAccount_def upsert_def merge_def [abs_def] cong: if_cong)
  have only: "x = old" if "x \<in> set (wallet_accounts db)" "wac_address x = ?w" for x
    using find_by_unique [OF assms(4) that(1)] that(2) old by simp
  have state: "wallet_state_of (snd (upsertWalletAccount db a now)) =
      (if new_id then applyWalletPersistEvent (wallet_state_of db) (now, Account_Identity_Updated ?w (the ?i))
       else if truthy (ai_credential_id a) \<and> ai_credential_id a \<noteq> wac_credential_id old
       then applyWalletPersistEvent (wallet_state_of db) (now, Account_Credential_Updated ?w (the (ai_credential_id a)))
       else wallet_state_of db)"
    using old assms(2) by (simp add: upsertWalletAccount_def Let_def account_events_def getWalletAccount_def
      state_walletPersist new_id_def)
  show ?thesis
  proof (cases new_id)
    case True
    have "map account_facts (update_where (\<lambda>x. wac_address x = ?w) merge (wallet_accounts db)) =
        update_where (\<lambda>s. asn_address s = ?w \<and> True) (\<lambda>s. s\<lparr>asn_identity_id := ?i\<rparr>) (map account_facts (wallet_accounts db))"
      by (rule map_rows_update_where)
        (use True in \<open>auto simp: merge_def account_facts_def new_id_def null_or_empty_def or_null_def truthy_iff\<close>)
    moreover have "map bare_account (update_where (\<lambda>s. asn_address s = ?w \<and> True) (\<lambda>s. s\<lparr>asn_identity_id := ?i\<rparr>) L) =
        update_where (\<lambda>s. asn_address s = ?w \<and> True) (\<lambda>s. s\<lparr>asn_identity_id := ?i\<rparr>) (map bare_account L)" for L
      by (rule state_account_update) simp_all
    moreover have "Some (the ?i) = ?i" using True by (cases ?i) (auto simp: new_id_def)
    ultimately show ?thesis
      using assms(1) True by (simp add: accounts_agree_def state rows)
  next
    case False
    have "account_facts (merge x) = account_facts x" if "x \<in> set (wallet_accounts db)" "wac_address x = ?w" for x
      using only [OF that] False
      by (cases ?i) (auto simp: merge_def account_facts_def new_id_def null_or_empty_def or_null_def, metis truthy_simps(2))
    then have "map account_facts (update_where (\<lambda>x. wac_address x = ?w) merge (wallet_accounts db)) =
        map account_facts (wallet_accounts db)"
      by (rule map_rows_unchanged)
    moreover have "map bare_account (update_where (\<lambda>s. asn_address s = ?w) (\<lambda>s. s\<lparr>asn_credential_id := c\<rparr>) L) =
        map bare_account L" for c L
      by (rule map_rows_unchanged) simp
    ultimately show ?thesis
      using assms(1) False by (simp add: accounts_agree_def state rows)
  qed
qed

lemma deployed_agrees:
  assumes "accounts_agree db" "logging db" "c \<noteq> ''''" and "unique_on wac_address (wallet_accounts db)"
  shows "accounts_agree (snd (markWalletDeployed db w c now))"
proof (cases "getWalletAccount db w")
  case None
  with assms show ?thesis by (simp add: markWalletDeployed_def)
next
  case (Some old)
  show ?thesis
  proof (cases "c \<in> set (wac_deployed_chains old)")
    case True
    with Some assms show ?thesis by (simp add: markWalletDeployed_def)
  next
    case False
    let ?f = "\<lambda>r. r\<lparr>wac_deployed_chains := wac_deployed_chains old @ [c], wac_status := Act_Deployed, wac_error := None,
        wac_updated_at := now\<rparr>"
    let ?Q = "\<lambda>cs. c \<noteq> '''' \<and> c \<notin> set cs" and ?g = "\<lambda>s. s\<lparr>asn_deployed_chains := asn_deployed_chains s @ [c]\<rparr>"
    have only: "x = old" if "x \<in> set (wallet_accounts db)" "wac_address x = lower w" for x
      using find_by_unique [OF assms(4) that(1)] that(2) Some by (simp add: getWalletAccount_def)
    have "map account_facts (update_where (\<lambda>x. wac_address x = lower w) ?f (wallet_accounts db)) =
        update_where (\<lambda>s. asn_address s = lower w \<and> ?Q (asn_deployed_chains s)) ?g (map account_facts (wallet_accounts db))"
      by (rule map_rows_update_where) (use only False assms(3) in \<open>auto simp: account_facts_def\<close>)
    moreover have "map bare_account (update_where (\<lambda>s. asn_address s = lower w \<and> ?Q (asn_deployed_chains s)) ?g L) =
        update_where (\<lambda>s. asn_address s = lower w \<and> ?Q (asn_deployed_chains s)) ?g (map bare_account L)" for L
      by (rule state_account_update) simp_all
    ultimately show ?thesis
      using Some False assms(1,2) by (simp add: markWalletDeployed_def Let_def accounts_agree_def state_walletPersist on_account_rows)
  qed
qed

section \<open>Devices\<close>

lemma device_snap_key_facts: "device_snap_key (device_facts d) = deviceKey (wdv_wallet_address d) (wdv_chain_id d) (wdv_owner_qx d) (wdv_owner_qy d)"
  by (simp add: device_snap_key_def device_facts_def)

lemma device_snap_key_bare [simp]: "device_snap_key (bare_device s) = device_snap_key s"
  by (simp add: device_snap_key_def)

lemma device_key_iff:
  "device_plain d \<Longrightarrow> plain (w @ c @ qx @ qy) \<Longrightarrow>
   device_snap_key (device_facts d) = deviceKey w c qx qy \<longleftrightarrow> device_id d = (lower w, c, qx, qy)"
  unfolding device_snap_key_facts by (subst deviceKey_inject) (auto simp: device_plain_def device_id_def)

lemma deviceKey_lower [simp]: "deviceKey (lower w) c qx qy = deviceKey w c qx qy"
  by (simp add: deviceKey_def)

lemma device_agrees:
  assumes "devices_agree db" "logging db" "\<forall>d \<in> set (wallet_devices db). device_plain d"
    and "w \<noteq> ''''" "qx \<noteq> ''''" "qy \<noteq> ''''" "plain (w @ c @ qx @ qy)"
  shows "devices_agree (snd (upsertWalletDevice db w c qx qy l cred now))"
proof -
  let ?r = "\<lparr>wdv_wallet_address = lower w, wdv_chain_id = c, wdv_owner_qx = qx, wdv_owner_qy = qy, wdv_label = l,
             wdv_credential_id = cred, wdv_created_at = now, wdv_last_used_at = Some now\<rparr>"
  let ?m = "\<lambda>old. old\<lparr>wdv_label := l, wdv_credential_id := kept_credential cred (wdv_credential_id old),
                      wdv_last_used_at := Some now\<rparr>"
  let ?s = "\<lparr>dsn_wallet_address = lower w, dsn_chain_id = c, dsn_owner_qx = qx, dsn_owner_qy = qy, dsn_label = l,
               dsn_credential_id = cred\<rparr>"
  have "map bare_device (upsert device_snap_key ?s (\<lambda>_. ?s) L) =
      upsert device_snap_key (bare_device ?s) (\<lambda>_. bare_device ?s) (map bare_device L)" for L
    by (rule map_rows_upsert) (simp_all add: device_snap_key_def)
  moreover have "map device_facts (upsert device_id ?r ?m (wallet_devices db)) =
      upsert device_snap_key (device_facts ?r) (\<lambda>_. device_facts ?r) (map device_facts (wallet_devices db))"
  proof (rule map_rows_upsert)
    fix x assume "x \<in> set (wallet_devices db)"
    with assms(3) have "device_plain x" by blast
    from device_key_iff [OF this assms(7)]
    show "device_snap_key (device_facts x) = device_snap_key (device_facts ?r) \<longleftrightarrow> device_id x = device_id ?r"
      by (simp add: device_snap_key_facts [of ?r]) (simp add: device_id_def)
  qed (simp add: device_facts_def device_id_def)
  moreover have "bare_device ?s = device_facts ?r" by (simp add: device_facts_def)
  ultimately show ?thesis
    using assms by (simp add: devices_agree_def upsertWalletDevice_def Let_def state_walletPersist)
qed

lemma remove_device_agrees:
  assumes "devices_agree db" "logging db" "\<forall>d \<in> set (wallet_devices db). device_plain d" "plain (w @ c @ qx @ qy)"
  shows "devices_agree (deleteWalletDevice db w c qx qy now)"
proof -
  have "map bare_device (delete_where (\<lambda>s. device_snap_key s = deviceKey w c qx qy) L) =
      delete_where (\<lambda>s. device_snap_key s = deviceKey w c qx qy) (map bare_device L)" for L
    by (rule map_rows_delete_where) simp
  moreover have "map device_facts (delete_where (\<lambda>d. device_id d = (lower w, c, qx, qy)) (wallet_devices db)) =
      delete_where (\<lambda>s. device_snap_key s = deviceKey w c qx qy) (map device_facts (wallet_devices db))"
    by (rule map_rows_delete_where) (use device_key_iff assms(3,4) in blast)
  ultimately show ?thesis
    using assms(1,2) by (simp add: devices_agree_def deleteWalletDevice_def state_walletPersist)
qed

section \<open>Every step\<close>

definition wallet_inv :: "wallet_db \<Rightarrow> bool" where
  "wallet_inv db \<longleftrightarrow> wallet_tables_ok db \<and> identities_agree db \<and> methods_agree db \<and> accounts_agree db \<and> devices_agree db"

lemma wallet_invD:
  assumes "wallet_inv db"
  shows "wallet_tables_ok db" "identities_agree db" "methods_agree db" "accounts_agree db" "devices_agree db"
    "logging db" "unique_on wac_address (wallet_accounts db)" "\<forall>d \<in> set (wallet_devices db). device_plain d"
  using assms by (simp_all add: wallet_inv_def wallet_tables_ok_def)

text \<open>The part of the invariant about one table, and the frame of a step that writes another one.\<close>

definition identities_ok :: "wallet_db \<Rightarrow> bool" where
  "identities_ok db \<longleftrightarrow> unique_on idn_identity_id (identities db) \<and> unique_on idn_email (identities db) \<and>
     (\<forall>r \<in> set (identities db). normalizeEmail (idn_email r) = idn_email r)"

definition accounts_ok :: "wallet_db \<Rightarrow> bool" where
  "accounts_ok db \<longleftrightarrow> unique_on wac_address (wallet_accounts db) \<and>
     (\<forall>r \<in> set (wallet_accounts db). lower (wac_address r) = wac_address r \<and> wac_salt r \<noteq> '''' \<and>
        distinct (wac_deployed_chains r) \<and> '''' \<notin> set (wac_deployed_chains r))"

definition devices_ok :: "wallet_db \<Rightarrow> bool" where
  "devices_ok db \<longleftrightarrow> unique_on device_id (wallet_devices db) \<and> (\<forall>d \<in> set (wallet_devices db). device_plain d)"

lemma wallet_inv_parts:
  "wallet_inv db \<longleftrightarrow> logging db \<and>
     (identities_ok db \<and> identities_agree db) \<and>
     (unique_on idm_id (identity_methods db) \<and> methods_agree db) \<and>
     (accounts_ok db \<and> accounts_agree db) \<and>
     (devices_ok db \<and> devices_agree db)"
  by (auto simp: wallet_inv_def wallet_tables_ok_def identities_ok_def accounts_ok_def devices_ok_def)

text \<open>A step that rewrites one table keeps the invariant when it keeps that table's part.\<close>

lemma inv_by_identities:
  assumes "wallet_inv db" "identities_ok db'" "identities_agree db'"
    and "logging db' \<and> identity_methods db' = identity_methods db \<and> wallet_accounts db' = wallet_accounts db \<and>
      wallet_devices db' = wallet_devices db \<and> ws_methods (wallet_state_of db') = ws_methods (wallet_state_of db) \<and>
      ws_accounts (wallet_state_of db') = ws_accounts (wallet_state_of db) \<and>
      ws_devices (wallet_state_of db') = ws_devices (wallet_state_of db)"
  shows "wallet_inv db'"
  using assms by (simp add: wallet_inv_parts accounts_ok_def devices_ok_def methods_agree_def accounts_agree_def devices_agree_def)

lemma inv_by_methods:
  assumes "wallet_inv db" "unique_on idm_id (identity_methods db')" "methods_agree db'"
    and "logging db' \<and> identities db' = identities db \<and> wallet_accounts db' = wallet_accounts db \<and>
      wallet_devices db' = wallet_devices db \<and> ws_identities (wallet_state_of db') = ws_identities (wallet_state_of db) \<and>
      ws_accounts (wallet_state_of db') = ws_accounts (wallet_state_of db) \<and>
      ws_devices (wallet_state_of db') = ws_devices (wallet_state_of db)"
  shows "wallet_inv db'"
  using assms by (simp add: wallet_inv_parts identities_ok_def accounts_ok_def devices_ok_def identities_agree_def
    accounts_agree_def devices_agree_def)

lemma inv_by_accounts:
  assumes "wallet_inv db" "accounts_ok db'" "accounts_agree db'"
    and "logging db' \<and> identities db' = identities db \<and> identity_methods db' = identity_methods db \<and>
      wallet_devices db' = wallet_devices db \<and> ws_identities (wallet_state_of db') = ws_identities (wallet_state_of db) \<and>
      ws_methods (wallet_state_of db') = ws_methods (wallet_state_of db) \<and>
      ws_devices (wallet_state_of db') = ws_devices (wallet_state_of db)"
  shows "wallet_inv db'"
  using assms by (simp add: wallet_inv_parts identities_ok_def devices_ok_def identities_agree_def methods_agree_def
    devices_agree_def)

lemma inv_by_devices:
  assumes "wallet_inv db" "devices_ok db'" "devices_agree db'"
    and "logging db' \<and> identities db' = identities db \<and> identity_methods db' = identity_methods db \<and>
      wallet_accounts db' = wallet_accounts db \<and> ws_identities (wallet_state_of db') = ws_identities (wallet_state_of db) \<and>
      ws_methods (wallet_state_of db') = ws_methods (wallet_state_of db) \<and>
      ws_accounts (wallet_state_of db') = ws_accounts (wallet_state_of db)"
  shows "wallet_inv db'"
  using assms by (simp add: wallet_inv_parts identities_ok_def accounts_ok_def identities_agree_def methods_agree_def
    accounts_agree_def)



lemma identities_ok_google: "identities_ok db \<Longrightarrow> identities_ok (setIdentityGoogleSub db i sub now)"
  by (auto simp: identities_ok_def setIdentityGoogleSub_def intro!: unique_update_where)
     (auto simp: update_where_def)

lemma identities_ok_sign_in:
  assumes "identities_ok db" "getIdentityById db new_id = None"
  shows "identities_ok (snd (getOrCreateIdentityByEmail db new_id e sub now))"
proof (cases "getIdentityByEmail db e")
  case None
  with assms show ?thesis
    by (auto simp: sign_in_closed [OF assms(2) None] Let_def identities_ok_def getIdentityById_def getIdentityByEmail_def
      intro!: unique_snoc)
next
  case (Some r)
  with assms identities_ok_google show ?thesis by (simp add: sign_in_known)
qed

lemma accounts_ok_on_account:
  assumes "accounts_ok db" "\<And>r. wac_address (f r) = wac_address r" "\<And>r. wac_salt (f r) = wac_salt r"
    and "\<And>r. r \<in> set (wallet_accounts db) \<Longrightarrow> wac_address r = lower a \<Longrightarrow>
      distinct (wac_deployed_chains (f r)) \<and> '''' \<notin> set (wac_deployed_chains (f r))"
  shows "accounts_ok (on_account a f db)"
  using assms unfolding accounts_ok_def on_account_rows
  by (auto simp: update_where_def intro!: unique_update_where [unfolded update_where_def])

lemma accounts_ok_upsert:
  assumes "accounts_ok db" "ai_salt a \<noteq> ''''"
  shows "accounts_ok (snd (upsertWalletAccount db a now))"
proof -
  show ?thesis
    unfolding accounts_ok_def upsertWalletAccount_def Let_def snd_conv fold_persist_tables
    using assms by (simp, intro conjI unique_upsert ball_upsert) (simp_all add: accounts_ok_def)
qed

lemma devices_ok_upsert:
  assumes "devices_ok db" "plain (w @ c @ qx @ qy)"
  shows "devices_ok (snd (upsertWalletDevice db w c qx qy l cred now))"
  using assms unfolding devices_ok_def upsertWalletDevice_def Let_def snd_conv walletPersist_tables
  by (simp, intro conjI unique_upsert ball_upsert) (simp_all add: device_id_def device_plain_def)

section \<open>The invariant\<close>

lemma deleteIdentityMethod_cases:
  obtains "snd (deleteIdentityMethod db i now) = db"
  | "snd (deleteIdentityMethod db i now) =
      walletPersist (db\<lparr>identity_methods := delete_where (\<lambda>m. idm_id m = i) (identity_methods db)\<rparr>) (Method_Removed i) now"
  by (cases "find_by idm_id i (identity_methods db)") (simp_all add: deleteIdentityMethod_def)

lemma insertIdentityMethod_unique:
  "unique_on idm_id (identity_methods db) \<Longrightarrow>
   unique_on idm_id (identity_methods (snd (insertIdentityMethod db i ident k cred qx qy eoa now)))"
  by (simp add: insertIdentityMethod_def Let_def unique_upsert)

text \<open>What the steps leave alone.\<close>

lemma frame_sign_in:
  assumes "logging db" "getIdentityById db new_id = None" and d: "db' = snd (getOrCreateIdentityByEmail db new_id e sub now)"
  shows "logging db' \<and> identity_methods db' = identity_methods db \<and> wallet_accounts db' = wallet_accounts db \<and>
    wallet_devices db' = wallet_devices db \<and> ws_methods (wallet_state_of db') = ws_methods (wallet_state_of db) \<and>
    ws_accounts (wallet_state_of db') = ws_accounts (wallet_state_of db) \<and>
    ws_devices (wallet_state_of db') = ws_devices (wallet_state_of db)"
  using assms(1) unfolding d
  by (cases "getIdentityByEmail db e")
    (simp_all add: sign_in_closed [OF assms(2)] sign_in_known Let_def setIdentityGoogleSub_def state_walletPersist)

lemma frame_method:
  assumes "logging db" "db' = snd (insertIdentityMethod db i ident k cred qx qy eoa now) \<or> db' = snd (deleteIdentityMethod db i now)"
  shows "logging db' \<and> identities db' = identities db \<and> wallet_accounts db' = wallet_accounts db \<and>
    wallet_devices db' = wallet_devices db \<and> ws_identities (wallet_state_of db') = ws_identities (wallet_state_of db) \<and>
    ws_accounts (wallet_state_of db') = ws_accounts (wallet_state_of db) \<and>
    ws_devices (wallet_state_of db') = ws_devices (wallet_state_of db)"
  using assms(2)
proof
  assume "db' = snd (insertIdentityMethod db i ident k cred qx qy eoa now)"
  with assms(1) show ?thesis by (simp add: insertIdentityMethod_def Let_def state_walletPersist)
next
  assume d: "db' = snd (deleteIdentityMethod db i now)"
  show ?thesis
    by (rule deleteIdentityMethod_cases [of db i now]) (use assms(1) d in \<open>simp_all add: state_walletPersist\<close>)
qed

lemma frame_on_account:
  "identities (on_account a f db) = identities db \<and> identity_methods (on_account a f db) = identity_methods db \<and>
   wallet_devices (on_account a f db) = wallet_devices db"
  by (simp add: on_account_def)

lemma state_account_events:
  assumes "logging db"
  shows "ws_identities (wallet_state_of (fold (\<lambda>ev d. walletPersist d ev now) (account_events a old) db)) = ws_identities (wallet_state_of db)"
    "ws_methods (wallet_state_of (fold (\<lambda>ev d. walletPersist d ev now) (account_events a old) db)) = ws_methods (wallet_state_of db)"
    "ws_devices (wallet_state_of (fold (\<lambda>ev d. walletPersist d ev now) (account_events a old) db)) = ws_devices (wallet_state_of db)"
  using assms unfolding account_events_def
  by (cases old; simp add: state_walletPersist Let_def)+

lemma frame_account:
  assumes "logging db" and d: "db' = snd (upsertWalletAccount db a now)"
  shows "logging db' \<and> identities db' = identities db \<and> identity_methods db' = identity_methods db \<and>
    wallet_devices db' = wallet_devices db \<and> ws_identities (wallet_state_of db') = ws_identities (wallet_state_of db) \<and>
    ws_methods (wallet_state_of db') = ws_methods (wallet_state_of db) \<and>
    ws_devices (wallet_state_of db') = ws_devices (wallet_state_of db)"
  using assms(1) unfolding d by (simp add: upsertWalletAccount_def Let_def state_account_events)

lemma frame_deployed:
  assumes "logging db" and d: "db' = snd (markWalletDeployed db w c now)"
  shows "logging db' \<and> identities db' = identities db \<and> identity_methods db' = identity_methods db \<and>
    wallet_devices db' = wallet_devices db \<and> ws_identities (wallet_state_of db') = ws_identities (wallet_state_of db) \<and>
    ws_methods (wallet_state_of db') = ws_methods (wallet_state_of db) \<and>
    ws_devices (wallet_state_of db') = ws_devices (wallet_state_of db)"
  using assms(1) unfolding d
  by (cases "getWalletAccount db w") (simp_all add: markWalletDeployed_def Let_def state_walletPersist)

lemma frame_device:
  assumes "logging db" and d: "db' = snd (upsertWalletDevice db w c qx qy l cred now) \<or> db' = deleteWalletDevice db w c qx qy now"
  shows "logging db' \<and> identities db' = identities db \<and> identity_methods db' = identity_methods db \<and>
    wallet_accounts db' = wallet_accounts db \<and> ws_identities (wallet_state_of db') = ws_identities (wallet_state_of db) \<and>
    ws_methods (wallet_state_of db') = ws_methods (wallet_state_of db) \<and>
    ws_accounts (wallet_state_of db') = ws_accounts (wallet_state_of db)"
  using d assms(1) by (elim disjE) (simp_all add: upsertWalletDevice_def deleteWalletDevice_def Let_def state_walletPersist)

text \<open>The steps on e-mail and entities write none of the four tables and none of their parts of the state.\<close>

definition same_core :: "wallet_db \<Rightarrow> wallet_db \<Rightarrow> bool" where
  "same_core db db' \<longleftrightarrow> logging db' = logging db \<and> identities db' = identities db \<and>
     identity_methods db' = identity_methods db \<and> wallet_accounts db' = wallet_accounts db \<and>
     wallet_devices db' = wallet_devices db \<and>
     ws_identities (wallet_state_of db') = ws_identities (wallet_state_of db) \<and>
     ws_methods (wallet_state_of db') = ws_methods (wallet_state_of db) \<and>
     ws_accounts (wallet_state_of db') = ws_accounts (wallet_state_of db) \<and>
     ws_devices (wallet_state_of db') = ws_devices (wallet_state_of db)"

lemma same_core_inv: "wallet_inv db \<Longrightarrow> same_core db db' \<Longrightarrow> wallet_inv db'"
  by (auto simp: same_core_def wallet_inv_def wallet_tables_ok_def agree_defs)

lemma same_core_emails:
  "logging db \<Longrightarrow> same_core db (snd (upsertWalletEmail db w e v now))"
  "logging db \<Longrightarrow> same_core db (snd (markWalletEmailVerified db w e now))"
  by (simp_all add: same_core_def upsertWalletEmail_def markWalletEmailVerified_def Let_def state_walletPersist split: option.split)

lemma same_core_entities:
  "logging db \<Longrightarrow> same_core db (snd (upsertWalletEntity db w e l now))"
  "logging db \<Longrightarrow> same_core db (snd (upsertWalletEntityKey db w e key ty qx qy eoa cred now))"
  "same_core db (snd (deleteWalletEntity db w e))" "same_core db (snd (deleteWalletEntityKey db w key))"
  by (simp_all add: same_core_def upsertWalletEntity_def upsertWalletEntityKey_def deleteWalletEntity_def
    deleteWalletEntityKey_def Let_def state_walletPersist)

lemma inv_on_account:
  assumes "wallet_inv db" "\<And>r. account_facts (f r) = account_facts r"
  shows "wallet_inv (on_account a f db)"
proof -
  have f: "wac_address (f r) = wac_address r" "wac_salt (f r) = wac_salt r"
    "wac_deployed_chains (f r) = wac_deployed_chains r" for r
    using assms(2) [of r] by (simp_all add: account_facts_def)
  have "accounts_ok (on_account a f db)"
    using assms(1) f by (intro accounts_ok_on_account) (auto simp: wallet_inv_parts accounts_ok_def)
  moreover have "accounts_agree (on_account a f db)"
    using wallet_invD(4) [OF assms(1)] assms(2) by (rule on_account_agrees)
  ultimately show ?thesis
    using wallet_invD(6) [OF assms(1)] by (intro inv_by_accounts [OF assms(1)]) simp_all
qed

lemma inv_deployed:
  assumes "wallet_inv db" "c \<noteq> ''''"
  shows "wallet_inv (snd (markWalletDeployed db w c now))"
proof -
  note i = wallet_invD [OF assms(1)]
  let ?db = "snd (markWalletDeployed db w c now)"
  have "accounts_ok ?db"
  proof (cases "getWalletAccount db w")
    case None
    with assms show ?thesis by (simp add: markWalletDeployed_def wallet_inv_parts)
  next
    case (Some old)
    let ?f = "\<lambda>r. r\<lparr>wac_deployed_chains := wac_deployed_chains old @ [c], wac_status := Act_Deployed, wac_error := None,
        wac_updated_at := now\<rparr>"
    have old: "old \<in> set (wallet_accounts db)" using Some find_by_SomeD by (fastforce simp: getWalletAccount_def)
    have "accounts_ok db" using assms(1) by (simp add: wallet_inv_parts)
    moreover have "accounts_ok (on_account w ?f db)" if "c \<notin> set (wac_deployed_chains old)"
      using \<open>accounts_ok db\<close> that old assms(2) by (intro accounts_ok_on_account) (auto simp: accounts_ok_def)
    ultimately show ?thesis using Some by (auto simp: markWalletDeployed_def Let_def accounts_ok_def)
  qed
  moreover have "accounts_agree ?db" by (rule deployed_agrees [OF i(4) i(6) assms(2) i(7)])
  ultimately show ?thesis by (rule inv_by_accounts [OF assms(1) _ _ frame_deployed [OF i(6) refl]])
qed

lemma inv_account:
  assumes "wallet_inv db" "ai_address a \<noteq> ''''" "ai_salt a \<noteq> ''''"
  shows "wallet_inv (snd (upsertWalletAccount db a now))"
proof -
  note i = wallet_invD [OF assms(1)]
  have "accounts_agree (snd (upsertWalletAccount db a now))"
    using new_account_agrees [OF i(4,6) _ assms(2)] known_account_agrees [OF i(4,6) _ i(7)]
    by (cases "getWalletAccount db (ai_address a)") auto
  moreover have "accounts_ok (snd (upsertWalletAccount db a now))"
    using assms by (intro accounts_ok_upsert) (simp_all add: wallet_inv_parts)
  ultimately show ?thesis by (intro inv_by_accounts [OF assms(1) _ _ frame_account [OF i(6) refl]])
qed

lemma inv_sign_in:
  assumes "wallet_inv db" "getIdentityById db new_id = None" "new_id \<noteq> ''''" "normalizeEmail e \<noteq> ''''"
  shows "wallet_inv (snd (getOrCreateIdentityByEmail db new_id e sub now))"
proof -
  note i = wallet_invD [OF assms(1)]
  let ?db = "snd (getOrCreateIdentityByEmail db new_id e sub now)"
  have "identities_agree ?db" by (rule sign_in_agrees [OF i(2,6) assms(2-4)])
  moreover have "identities_ok ?db" using assms(1,2) by (intro identities_ok_sign_in) (simp_all add: wallet_inv_parts)
  ultimately show ?thesis by (intro inv_by_identities [OF assms(1) _ _ frame_sign_in [OF i(6) assms(2) refl]])
qed

lemma inv_google:
  assumes "wallet_inv db"
  shows "wallet_inv (setIdentityGoogleSub db i sub now)"
proof -
  note inv = wallet_invD [OF assms(1)]
  let ?db = "setIdentityGoogleSub db i sub now"
  have "identities_agree ?db" by (rule google_agrees [OF inv(2,6)])
  moreover have "identities_ok ?db" using assms(1) by (intro identities_ok_google) (simp add: wallet_inv_parts)
  moreover have "logging ?db" "identity_methods ?db = identity_methods db" "wallet_accounts ?db = wallet_accounts db"
    "wallet_devices ?db = wallet_devices db" "ws_methods (wallet_state_of ?db) = ws_methods (wallet_state_of db)"
    "ws_accounts (wallet_state_of ?db) = ws_accounts (wallet_state_of db)"
    "ws_devices (wallet_state_of ?db) = ws_devices (wallet_state_of db)"
    using inv(6) by (simp_all add: setIdentityGoogleSub_def state_walletPersist)
  ultimately show ?thesis by (intro inv_by_identities [OF assms(1)]) simp_all
qed

lemma inv_method:
  assumes "wallet_inv db" "i \<noteq> ''''"
    and "db' = snd (insertIdentityMethod db i ident k cred qx qy eoa now) \<and> ident \<noteq> '''' \<or> db' = snd (deleteIdentityMethod db i now)"
  shows "wallet_inv db'"
proof -
  note inv = wallet_invD [OF assms(1)]
  have "methods_agree db'"
    using assms(3) add_method_agrees [OF inv(3,6) assms(2)] remove_method_agrees [OF inv(3,6) assms(2)] by blast
  moreover have "unique_on idm_id (identity_methods db')"
  proof -
    have u: "unique_on idm_id (identity_methods db)" using assms(1) by (simp add: wallet_inv_parts)
    have "unique_on idm_id (identity_methods (snd (deleteIdentityMethod db i now)))"
      by (rule deleteIdentityMethod_cases [of db i now]) (simp_all add: u unique_delete_where)
    with assms(3) insertIdentityMethod_unique [OF u] show ?thesis by blast
  qed
  ultimately show ?thesis
    using inv_by_methods [OF assms(1)] frame_method [OF inv(6)] assms(3) by blast
qed

lemma inv_device:
  assumes "wallet_inv db" "plain (w @ c @ qx @ qy)"
    and "db' = snd (upsertWalletDevice db w c qx qy l cred now) \<and> w \<noteq> '''' \<and> qx \<noteq> '''' \<and> qy \<noteq> '''' \<or>
      db' = deleteWalletDevice db w c qx qy now"
  shows "wallet_inv db'"
proof -
  note inv = wallet_invD [OF assms(1)]
  have "devices_agree db'"
    using assms(3) device_agrees [OF inv(5,6,8) _ _ _ assms(2)] remove_device_agrees [OF inv(5,6,8) assms(2)] by blast
  moreover have "devices_ok db'"
  proof -
    have ok: "devices_ok db" using assms(1) by (simp add: wallet_inv_parts)
    have "wallet_devices (deleteWalletDevice db w c qx qy now) =
        delete_where (\<lambda>d. device_id d = (lower w, c, qx, qy)) (wallet_devices db)"
      by (simp add: deleteWalletDevice_def)
    with ok have "devices_ok (deleteWalletDevice db w c qx qy now)"
      unfolding devices_ok_def by (metis unique_delete_where ball_delete_where)
    with assms(3) devices_ok_upsert [OF ok assms(2)] show ?thesis by blast
  qed
  ultimately show ?thesis
    using inv_by_devices [OF assms(1)] frame_device [OF inv(6)] assms(3) by blast
qed

lemma inv_account_columns:
  assumes "wallet_inv db"
  shows "wallet_inv (snd (setWalletAccountLabel db w l now))" "wallet_inv (snd (touchWalletActivation db w funded now))"
    "wallet_inv (snd (recordWalletActivationCheck db w funded dep err now))"
proof -
  note on = inv_on_account [OF assms]
  have "wallet_inv (on_account w (\<lambda>r. r\<lparr>wac_label := Some (take 64 (trim l)), wac_updated_at := now\<rparr>) db)"
    by (rule on) (simp add: account_facts_def)
  with assms show "wallet_inv (snd (setWalletAccountLabel db w l now))"
    unfolding setWalletAccountLabel_def Let_def
    by (cases "take 64 (trim l) = ''''") (simp_all only: if_True if_False snd_conv simp_thms)
  have "wallet_inv (on_account w (\<lambda>r. r\<lparr>wac_priority_at := Some now, wac_next_check_at := Some now,
      wac_status := (if funded then Act_Funded else wac_status r), wac_error := None, wac_updated_at := now\<rparr>) db)"
    by (rule on) (simp add: account_facts_def)
  with assms show "wallet_inv (snd (touchWalletActivation db w funded now))"
    unfolding touchWalletActivation_def Let_def
    by (cases "getWalletAccount db w") (simp_all only: option.case snd_conv)
  have "wallet_inv (on_account w (\<lambda>r. r\<lparr>wac_last_check_at := Some now, wac_next_check_at := a, wac_check_count := b,
      wac_status := c, wac_error := d, wac_updated_at := now\<rparr>) db)" for a b c d
    by (rule on) (simp add: account_facts_def)
  with assms show "wallet_inv (snd (recordWalletActivationCheck db w funded dep err now))"
    unfolding recordWalletActivationCheck_def Let_def
    by (cases "getWalletAccount db w") (simp_all only: option.case snd_conv)
qed

lemma wallet_step_inv: "wallet_step db db' \<Longrightarrow> wallet_inv db \<Longrightarrow> wallet_inv db'"
proof (induction rule: wallet_step.induct)
  case (sign_in db new_id e sub now)
  then show ?case by (intro inv_sign_in)
next
  case (add_method i ident db k cred qx qy eoa now)
  show ?case by (rule inv_method [OF add_method(3,1) disjI1 [OF conjI [OF refl add_method(2)]]])
next
  case (remove_method i db now)
  show ?case by (rule inv_method [OF remove_method(2,1) disjI2 [OF refl]])
next
  case (device w qx qy c db l cred now)
  then show ?case by (intro inv_device [OF device(5,4) disjI1 [OF conjI [OF refl]]]) simp
next
  case (remove_device w c qx qy db now)
  show ?case by (rule inv_device [OF remove_device(2,1) disjI2 [OF refl]])
qed (auto intro: inv_google inv_account inv_account_columns inv_deployed same_core_inv same_core_emails same_core_entities wallet_invD)

lemma wallet_reachable_inv: "wallet_reachable db \<Longrightarrow> wallet_inv db"
proof (induction rule: wallet_reachable.induct)
  case start
  show ?case
    by (simp add: wallet_inv_def wallet_tables_ok_def agree_defs empty_wallet_db_def logging_def wallet_state_of_def
      logged_def replayWalletPersistState_def emptyWalletPersistState_def)
qed (rule wallet_step_inv)

section \<open>Writing the state into an empty database\<close>

lemma persist_skipped [simp]: "wallet_skip_log db \<Longrightarrow> walletPersist db ev now = db"
  by (simp add: walletPersist_def split: option.split)

lemma fold_persist_skipped [simp]:
  "wallet_skip_log db \<Longrightarrow> fold (\<lambda>ev d. walletPersist d ev now) evs db = db"
  by (induction evs arbitrary: db) simp_all

lemma find_by_None_image: "find_by key k t = None \<longleftrightarrow> k \<notin> key ` set t"
  by (force simp: find_by_None_iff)

lemma facts_keys [simp]:
  "isn_identity_id \<circ> identity_facts = idn_identity_id" "isn_email \<circ> identity_facts = idn_email"
  "asn_address \<circ> account_facts = wac_address" "msn_id \<circ> method_facts = idm_id"
  by (simp_all add: fun_eq_iff identity_facts_def account_facts_def method_facts_def)

lemma facts_key_sets [simp]:
  "(\<lambda>x. isn_email (identity_facts x)) = idn_email" 
  by (simp add: fun_eq_iff identity_facts_def)

text \<open>A loop that appends one new row per snapshot.\<close>

lemma fold_append_rows:
  assumes "\<And>s d. s \<in> set ss \<Longrightarrow> P d \<Longrightarrow> key s \<notin> kd ` set (T d) \<Longrightarrow> P (f s d) \<and> T (f s d) = T d @ [h s] \<and> kd (h s) = key s"
    and "P d" and "distinct (map kd (T d) @ map key ss)"
  shows "P (fold f ss d) \<and> T (fold f ss d) = T d @ map h ss"
  using assms
proof (induction ss arbitrary: d)
  case (Cons s ss)
  from Cons.prems(3) have "key s \<notin> kd ` set (T d)" by auto
  with Cons.prems(1) [of s d] Cons.prems(2) have s: "P (f s d)" "T (f s d) = T d @ [h s]" "kd (h s) = key s" by auto
  have "P (fold f ss (f s d)) \<and> T (fold f ss (f s d)) = T (f s d) @ map h ss"
  proof (rule Cons.IH [OF _ s(1)])
    show "distinct (map kd (T (f s d)) @ map key ss)" using Cons.prems(3) s(2,3) by auto
  qed (use Cons.prems(1) in auto)
  with s(2) show ?case by simp
qed simp

text \<open>The four tables, the switch and the log.\<close>

definition core_of :: "wallet_db \<Rightarrow> bool \<times> (timestamp \<times> wallet_event) list option" where
  "core_of db = (wallet_skip_log db, wallet_log db)"

lemma restore_identities_rows:
  assumes "wallet_skip_log db" "distinct (map isn_identity_id (map identity_facts (identities db) @ ss))"
    and "distinct (map isn_email (map identity_facts (identities db) @ ss))"
    and "\<forall>s \<in> set ss. normalizeEmail (isn_email s) = isn_email s \<and> isn_created_at s \<noteq> None"
  shows "\<exists>rows. restore_identities ss now db = (Inr (), db\<lparr>identities := identities db @ rows\<rparr>) \<and> map identity_facts rows = ss"
  using assms
proof (induction ss arbitrary: db)
  case (Cons s ss)
  let ?r = "\<lparr>idn_identity_id = isn_identity_id s, idn_email = isn_email s, idn_google_sub = isn_google_sub s,
      idn_created_at = the (isn_created_at s)\<rparr>"
  have new: "find_by idn_identity_id (isn_identity_id s) (identities db) = None"
    using Cons.prems(2) by (simp add: find_by_None_image)
  have "isn_email s \<notin> idn_email ` set (identities db)" using Cons.prems(3) by simp
  then have "\<not> list_ex (\<lambda>r. idn_email r = isn_email s \<and> idn_identity_id r \<noteq> isn_identity_id s) (identities db)"
    by (metis (mono_tags, lifting) imageI list_ex_iff)
  then have one: "upsertIdentity db (isn_identity_id s) (isn_email s) (isn_google_sub s) (isn_created_at s) now =
      (Inr ?r, db\<lparr>identities := identities db @ [?r]\<rparr>)"
    using new Cons.prems(1,4) by (auto simp: upsertIdentity_def Let_def getIdentityById_def upsert_def find_by_append)
  have facts: "identity_facts ?r = s" using Cons.prems(4) by (auto simp: identity_facts_def)
  have "\<exists>rows. restore_identities ss now (db\<lparr>identities := identities db @ [?r]\<rparr>) =
      (Inr (), (db\<lparr>identities := identities db @ [?r]\<rparr>)\<lparr>identities := identities (db\<lparr>identities := identities db @ [?r]\<rparr>) @ rows\<rparr>) \<and>
      map identity_facts rows = ss"
    by (rule Cons.IH) (use Cons.prems facts in auto)
  then obtain rows where "restore_identities ss now (db\<lparr>identities := identities db @ [?r]\<rparr>) =
      (Inr (), db\<lparr>identities := identities db @ ?r # rows\<rparr>)" "map identity_facts rows = ss"
    by auto
  with one facts show ?case by (intro exI [of _ "?r # rows"]) simp
qed simp

definition methods_kept :: "wallet_db \<Rightarrow> wallet_db \<Rightarrow> bool" where
  "methods_kept d0 d \<longleftrightarrow> core_of d = core_of d0 \<and> identities d = identities d0 \<and> wallet_accounts d = wallet_accounts d0 \<and>
     wallet_devices d = wallet_devices d0"

lemma restore_methods_rows:
  assumes "wallet_skip_log d" "identity_methods d = []" "unique_on msn_id ss"
  shows "methods_kept d (fold (restore_method now) ss d) \<and>
    map method_facts (identity_methods (fold (restore_method now) ss d)) = map bare_method ss"
proof -
  have "methods_kept d (fold (restore_method now) ss d) \<and>
    map method_facts (identity_methods (fold (restore_method now) ss d)) = map method_facts (identity_methods d) @ map bare_method ss"
  proof (rule fold_append_rows [where key = msn_id and kd = msn_id and T = "\<lambda>d. map method_facts (identity_methods d)"])
    fix s :: method_snap and d'
    assume d': "methods_kept d d'" and "msn_id s \<notin> msn_id ` set (map method_facts (identity_methods d'))"
    then have "find_by idm_id (msn_id s) (identity_methods d') = None"
      by (simp add: find_by_None_image image_image)
    moreover have "wallet_skip_log d'" using d' assms(1) by (simp add: methods_kept_def core_of_def)
    ultimately show "methods_kept d (restore_method now s d') \<and>
        map method_facts (identity_methods (restore_method now s d')) = map method_facts (identity_methods d') @ [bare_method s] \<and>
        msn_id (bare_method s) = msn_id s"
      using d' by (simp add: restore_method_def insertIdentityMethod_def Let_def upsert_new methods_kept_def core_of_def
        method_facts_def)
  qed (use assms in \<open>simp_all add: methods_kept_def unique_on_def\<close>)
  with assms(2) show ?thesis by simp
qed

definition accounts_kept :: "wallet_db \<Rightarrow> wallet_db \<Rightarrow> bool" where
  "accounts_kept d0 d \<longleftrightarrow> core_of d = core_of d0 \<and> identities d = identities d0 \<and> identity_methods d = identity_methods d0 \<and>
     wallet_devices d = wallet_devices d0"

lemma accounts_kept_on_account: "accounts_kept d0 (on_account a f d) = accounts_kept d0 d"
  by (simp add: accounts_kept_def core_of_def on_account_def)

lemma last_account:
  assumes "wallet_accounts d = A @ [r]" "wac_address r = lower a" "lower a \<notin> wac_address ` set A"
  shows "getWalletAccount d a = Some r" "wallet_accounts (on_account a f d) = A @ [f r]"
proof -
  have none: "find_by wac_address (lower a) A = None" using assms(3) by (simp add: find_by_None_image)
  with assms show "getWalletAccount d a = Some r" by (simp add: getWalletAccount_def find_by_append)
  have "update_where (\<lambda>x. wac_address x = lower a) f A = A"
    using assms(3) unfolding update_where_def by (intro map_idI) (metis imageI)
  with assms show "wallet_accounts (on_account a f d) = A @ [f r]" by (simp add: on_account_rows) (simp add: update_where_def)
qed

lemma deploy_chains:
  assumes "wallet_skip_log d" "wallet_accounts d = A @ [r]" "wac_address r = lower a" "lower a \<notin> wac_address ` set A"
    and "distinct (wac_deployed_chains r @ cs)"
  shows "\<exists>r'. wallet_accounts (fold (\<lambda>c d. snd (markWalletDeployed d a c now)) cs d) = A @ [r'] \<and>
    account_facts r' = (account_facts r)\<lparr>asn_deployed_chains := wac_deployed_chains r @ cs\<rparr> \<and>
    wac_address r' = lower a \<and>
    (accounts_kept d0 d \<longrightarrow> accounts_kept d0 (fold (\<lambda>c d. snd (markWalletDeployed d a c now)) cs d))"
  using assms
proof (induction cs arbitrary: d r)
  case (Cons c cs)
  let ?f = "\<lambda>x. x\<lparr>wac_deployed_chains := wac_deployed_chains r @ [c], wac_status := Act_Deployed, wac_error := None,
      wac_updated_at := now\<rparr>"
  note last = last_account [OF Cons.prems(2-4)]
  have skip: "wallet_skip_log (on_account a ?f d)" using Cons.prems(1) by (simp add: on_account_def)
  have m: "snd (markWalletDeployed d a c now) = on_account a ?f d"
    using Cons.prems(5) skip by (simp add: markWalletDeployed_def last(1) Let_def)
  have rows: "wallet_accounts (on_account a ?f d) = A @ [?f r]" by (rule last(2))
  have "wac_address (?f r) = lower a" "distinct (wac_deployed_chains (?f r) @ cs)" using Cons.prems(3,5) by auto
  from Cons.IH [OF skip rows this(1) Cons.prems(4) this(2)] show ?case
    by (simp add: m accounts_kept_on_account account_facts_def)
qed (auto simp: account_facts_def)

lemma restore_account_row:
  assumes "accounts_kept d0 d" "wallet_skip_log d" "asn_address s \<notin> asn_address ` set (map account_facts (wallet_accounts d))"
    and "lower (asn_address s) = asn_address s" "asn_salt s \<noteq> ''''" "or_null (asn_identity_id s) = asn_identity_id s"
    and "distinct (asn_deployed_chains s)"
  shows "accounts_kept d0 (restore_account ds now s d) \<and>
    map account_facts (wallet_accounts (restore_account ds now s d)) = map account_facts (wallet_accounts d) @ [bare_account s]"
proof -
  let ?a = "asn_address s" and ?A = "wallet_accounts d"
  have notin: "lower ?a \<notin> wac_address ` set ?A" using assms(3,4) by (simp add: image_image)
  then have none: "find_by wac_address (lower ?a) ?A = None" by (simp add: find_by_None_image)
  define d1 where "d1 = snd (upsertWalletAccount d (account_input_of ds s) now)"
  obtain r where r: "wallet_accounts d1 = ?A @ [r]" "wac_address r = lower ?a" "wac_deployed_chains r = []"
    "account_facts r = (bare_account s)\<lparr>asn_deployed_chains := []\<rparr>"
    using none assms(2,4-6) unfolding d1_def
    by (simp add: upsertWalletAccount_def Let_def getWalletAccount_def upsert_new account_input_of_def account_facts_def)
  have d1: "wallet_skip_log d1" "accounts_kept d0 d1"
    using assms(1,2) by (simp_all add: d1_def upsertWalletAccount_def Let_def accounts_kept_def core_of_def)
  define d2 where "d2 = fold (\<lambda>c d. snd (markWalletDeployed d ?a c now)) (asn_deployed_chains s) d1"
  have dist: "distinct (wac_deployed_chains r @ asn_deployed_chains s)" using r(3) assms(7) by simp
  obtain r' where r': "wallet_accounts d2 = ?A @ [r']" "account_facts r' = bare_account s" "wac_address r' = lower ?a"
    "accounts_kept d0 d2"
    using deploy_chains [OF d1(1) r(1,2) notin dist, of now d0] r(3,4) d1(2) unfolding d2_def by auto
  let ?f = "\<lambda>r. r\<lparr>wac_priority_at := Some now, wac_next_check_at := Some now, wac_status := wac_status r,
      wac_error := None, wac_updated_at := now\<rparr>"
  have "restore_account ds now s d = on_account ?a ?f d2"
    unfolding restore_account_def Let_def d1_def [symmetric] d2_def [symmetric]
    by (simp add: touchWalletActivation_def last_account(1) [OF r'(1,3) notin] Let_def)
  moreover have "wallet_accounts (on_account ?a ?f d2) = ?A @ [?f r']" by (rule last_account(2) [OF r'(1,3) notin])
  moreover have "account_facts (?f r') = account_facts r'" by (simp add: account_facts_def)
  ultimately show ?thesis using r'(2,4) by (simp add: accounts_kept_on_account)
qed

lemma restore_accounts_rows:
  assumes "wallet_skip_log d" "wallet_accounts d = []" "unique_on asn_address ss"
    and "\<forall>s \<in> set ss. lower (asn_address s) = asn_address s \<and> asn_salt s \<noteq> '''' \<and>
      or_null (asn_identity_id s) = asn_identity_id s \<and> distinct (asn_deployed_chains s)"
  shows "accounts_kept d (fold (restore_account ds now) ss d) \<and>
    map account_facts (wallet_accounts (fold (restore_account ds now) ss d)) = map bare_account ss"
proof -
  have "accounts_kept d (fold (restore_account ds now) ss d) \<and>
    map account_facts (wallet_accounts (fold (restore_account ds now) ss d)) =
      map account_facts (wallet_accounts d) @ map bare_account ss"
  proof (rule fold_append_rows [where key = asn_address and kd = asn_address and T = "\<lambda>d. map account_facts (wallet_accounts d)"])
    fix s :: account_snap and d'
    assume s: "s \<in> set ss" and d': "accounts_kept d d'" and fresh: "asn_address s \<notin> asn_address ` set (map account_facts (wallet_accounts d'))"
    have skip: "wallet_skip_log d'" using d' assms(1) by (simp add: accounts_kept_def core_of_def)
    show "accounts_kept d (restore_account ds now s d') \<and>
        map account_facts (wallet_accounts (restore_account ds now s d')) = map account_facts (wallet_accounts d') @ [bare_account s] \<and>
        asn_address (bare_account s) = asn_address s"
      using restore_account_row [OF d' skip fresh] assms(4) s by simp
  qed (use assms in \<open>simp_all add: accounts_kept_def unique_on_def\<close>)
  with assms(2) show ?thesis by simp
qed

definition devices_kept :: "wallet_db \<Rightarrow> wallet_db \<Rightarrow> bool" where
  "devices_kept d0 d \<longleftrightarrow> core_of d = core_of d0 \<and> identities d = identities d0 \<and> identity_methods d = identity_methods d0 \<and>
     wallet_accounts d = wallet_accounts d0"

definition device_snap_id :: "device_snap \<Rightarrow> address \<times> string \<times> string \<times> string" where
  "device_snap_id s = (dsn_wallet_address s, dsn_chain_id s, dsn_owner_qx s, dsn_owner_qy s)"

lemma device_snap_id_facts [simp]: "device_snap_id (device_facts x) = device_id x"
  by (simp add: device_snap_id_def device_facts_def device_id_def)

lemma restore_devices_rows:
  assumes "wallet_skip_log d" "wallet_devices d = []" "unique_on device_snap_id ss"
    and "\<forall>s \<in> set ss. lower (dsn_wallet_address s) = dsn_wallet_address s"
  shows "devices_kept d (fold (restore_device now) ss d) \<and>
    map device_facts (wallet_devices (fold (restore_device now) ss d)) = map bare_device ss"
proof -
  have "devices_kept d (fold (restore_device now) ss d) \<and>
    map device_facts (wallet_devices (fold (restore_device now) ss d)) = map device_facts (wallet_devices d) @ map bare_device ss"
  proof (rule fold_append_rows [where key = device_snap_id and kd = device_snap_id and T = "\<lambda>d. map device_facts (wallet_devices d)"])
    fix s :: device_snap and d'
    assume s: "s \<in> set ss" and d': "devices_kept d d'" and "device_snap_id s \<notin> device_snap_id ` set (map device_facts (wallet_devices d'))"
    then have "find_by device_id (device_snap_id s) (wallet_devices d') = None"
      by (simp add: find_by_None_image image_image)
    moreover have "wallet_skip_log d'" using d' assms(1) by (simp add: devices_kept_def core_of_def)
    moreover have "lower (dsn_wallet_address s) = dsn_wallet_address s" using s assms(4) by blast
    ultimately show "devices_kept d (restore_device now s d') \<and>
        map device_facts (wallet_devices (restore_device now s d')) = map device_facts (wallet_devices d') @ [bare_device s] \<and>
        device_snap_id (bare_device s) = device_snap_id s"
      using d' by (simp add: restore_device_def upsertWalletDevice_def Let_def upsert_def device_id_def device_snap_id_def
        devices_kept_def core_of_def device_facts_def)
  qed (use assms in \<open>simp_all add: devices_kept_def unique_on_def\<close>)
  with assms(2) show ?thesis by simp
qed

text \<open>E-mails, entities and keys are written without touching the rest.\<close>

definition four_tables :: "wallet_db \<Rightarrow> wallet_db \<Rightarrow> bool" where
  "four_tables d0 d \<longleftrightarrow> core_of d = core_of d0 \<and> identities d = identities d0 \<and> identity_methods d = identity_methods d0 \<and>
     wallet_accounts d = wallet_accounts d0 \<and> wallet_devices d = wallet_devices d0"

lemma fold_keeps:
  assumes "\<And>s d. P d \<Longrightarrow> P (f s d)"
  shows "P d \<Longrightarrow> P (fold f ss d)"
  by (induction ss arbitrary: d) (simp_all add: assms)

lemma restore_rest_four_tables:
  assumes "wallet_skip_log d"
  shows "four_tables d (fold (restore_entity_key now) ks (fold (restore_entity now) es (fold (restore_email now) ms d)))"
proof -
  have "four_tables d (restore_email now s d')" if "four_tables d d'" for s d'
    using that assms
    by (simp add: restore_email_def upsertWalletEmail_def four_tables_def core_of_def Let_def split: option.split)
  moreover have "four_tables d d" by (simp add: four_tables_def)
  moreover have "four_tables d (restore_entity now s d')" if "four_tables d d'" for s d'
    using that assms by (simp add: restore_entity_def upsertWalletEntity_def four_tables_def core_of_def Let_def)
  moreover have "four_tables d (restore_entity_key now s d')" if "four_tables d d'" for s d'
    using that assms by (simp add: restore_entity_key_def upsertWalletEntityKey_def four_tables_def core_of_def Let_def)
  ultimately show ?thesis by (intro fold_keeps [of "four_tables d"])
qed

section \<open>Recovery\<close>

lemma mapped_elem: "map g xs = map f ys \<Longrightarrow> s \<in> set xs \<Longrightarrow> \<exists>r \<in> set ys. g s = f r"
  by (metis (no_types, lifting) image_iff list.set_map imageI)

lemma unique_by_projection:
  assumes "map g xs = map f ys" "\<And>s. key (g s) = key s" "\<And>r. key (f r) = key' r" "unique_on key' ys"
  shows "unique_on key xs"
proof -
  have "map key xs = map key (map g xs)" by (simp add: assms(2))
  also have "\<dots> = map key' ys" by (simp add: assms(1,3))
  finally show ?thesis using assms(4) by (simp add: unique_on_def)
qed

lemma or_null_idem [simp]: "or_null (or_null x) = or_null x"
  by (simp add: or_null_def)

lemma state_accounts_restorable:
  assumes "wallet_inv db" "s \<in> set (ws_accounts (wallet_state_of db))"
  shows "lower (asn_address s) = asn_address s \<and> asn_salt s \<noteq> '''' \<and> or_null (asn_identity_id s) = asn_identity_id s \<and>
    distinct (asn_deployed_chains s)"
proof -
  obtain r where "r \<in> set (wallet_accounts db)" "bare_account s = account_facts r"
    using mapped_elem [OF _ assms(2), of bare_account] wallet_invD(4) [OF assms(1)] unfolding accounts_agree_def by blast
  then have "asn_address s = wac_address r" "asn_salt s = wac_salt r" "asn_identity_id s = or_null (wac_identity_id r)"
    "asn_deployed_chains s = wac_deployed_chains r"
    by (metis (no_types) account_facts_def account_snap.select_convs account_snap.simps(1-7) account_snap.ext_inject
      account_snap.surjective account_snap.update_convs(5))+
  with \<open>r \<in> set (wallet_accounts db)\<close> assms(1) show ?thesis
    by (simp add: wallet_inv_parts accounts_ok_def)
qed

lemma state_devices_restorable:
  assumes "wallet_inv db" "s \<in> set (ws_devices (wallet_state_of db))"
  shows "lower (dsn_wallet_address s) = dsn_wallet_address s"
proof -
  obtain r where r: "r \<in> set (wallet_devices db)" "bare_device s = device_facts r"
    using mapped_elem [OF _ assms(2), of bare_device] wallet_invD(5) [OF assms(1)] unfolding devices_agree_def by blast
  have "dsn_wallet_address (bare_device s) = wdv_wallet_address r" unfolding r(2) by (simp add: device_facts_def)
  with r(1) assms(1) show ?thesis by (simp add: wallet_inv_parts devices_ok_def device_plain_def)
qed

lemma restore_state:
  assumes inv: "wallet_inv db" and d: "d = (empty_wallet_db b)\<lparr>wallet_skip_log := True\<rparr>"
  defines "st \<equiv> wallet_state_of db"
  shows "\<exists>d1. restore_identities (ws_identities st) now d = (Inr (), d1) \<and>
    core_of (restore_rest ds now st d1) = core_of d \<and>
    map identity_facts (identities (restore_rest ds now st d1)) = map identity_facts (identities db) \<and>
    map method_facts (identity_methods (restore_rest ds now st d1)) = map method_facts (identity_methods db) \<and>
    map account_facts (wallet_accounts (restore_rest ds now st d1)) = map account_facts (wallet_accounts db) \<and>
    map device_facts (wallet_devices (restore_rest ds now st d1)) = map device_facts (wallet_devices db)"
proof -
  note i = wallet_invD [OF inv, unfolded agree_defs, folded st_def]
  have empty: "wallet_skip_log d" "identities d = []" "identity_methods d = []" "wallet_accounts d = []" "wallet_devices d = []"
    by (simp_all add: d empty_wallet_db_def)
  have "identities_ok db" "unique_on idm_id (identity_methods db)" "accounts_ok db" "devices_ok db"
    using inv by (simp_all add: wallet_inv_parts)
  note ok = this
  obtain rows where rows: "restore_identities (ws_identities st) now d = (Inr (), d\<lparr>identities := rows\<rparr>)"
    "map identity_facts rows = ws_identities st"
    using restore_identities_rows [OF empty(1), of "ws_identities st" now] empty(2) ok(1)
    by (auto simp: i(2) identities_ok_def unique_on_def) (auto simp: identity_facts_def)
  define d1 where "d1 = d\<lparr>identities := rows\<rparr>"
  define d2 where "d2 = fold (restore_method now) (ws_methods st) d1"
  define d3 where "d3 = fold (restore_account ds now) (ws_accounts st) d2"
  define d4 where "d4 = fold (restore_device now) (ws_devices st) d3"
  have "unique_on msn_id (ws_methods st)"
    by (rule unique_by_projection [OF i(3) _ _ ok(2)]) simp_all
  then have 2: "methods_kept d1 d2 \<and> map method_facts (identity_methods d2) = map bare_method (ws_methods st)"
    unfolding d2_def by (intro restore_methods_rows) (simp_all add: d1_def empty)
  then have e2: "wallet_skip_log d2" "wallet_accounts d2 = []" "wallet_devices d2 = []"
    by (simp_all add: methods_kept_def core_of_def d1_def empty)
  have "unique_on asn_address (ws_accounts st)"
    by (rule unique_by_projection [OF i(4) _ _ conjunct1 [OF ok(3) [unfolded accounts_ok_def]]]) simp_all
  then have 3: "accounts_kept d2 d3 \<and> map account_facts (wallet_accounts d3) = map bare_account (ws_accounts st)"
    unfolding d3_def by (intro restore_accounts_rows e2) (use state_accounts_restorable [OF inv] in \<open>auto simp: st_def\<close>)
  then have e3: "wallet_skip_log d3" "wallet_devices d3 = []"
    using e2 by (simp_all add: accounts_kept_def core_of_def)
  have "unique_on device_snap_id (ws_devices st)"
    by (rule unique_by_projection [OF i(5) _ _ conjunct1 [OF ok(4) [unfolded devices_ok_def]]])
      (simp_all add: device_snap_id_def device_id_def device_facts_def)
  then have 4: "devices_kept d3 d4 \<and> map device_facts (wallet_devices d4) = map bare_device (ws_devices st)"
    unfolding d4_def by (intro restore_devices_rows e3) (use state_devices_restorable [OF inv] in \<open>auto simp: st_def\<close>)
  then have "wallet_skip_log d4" using e3 by (simp add: devices_kept_def core_of_def)
  from restore_rest_four_tables [OF this, of now "ws_entity_keys st" "ws_entities st" "ws_emails st"]
  have "four_tables d4 (restore_rest ds now st d1)"
    by (simp add: restore_rest_def d2_def d3_def d4_def)
  with 2 3 4 rows i(2-5) show ?thesis
    by (intro exI [of _ d1]) (simp add: four_tables_def devices_kept_def accounts_kept_def methods_kept_def d1_def core_of_def)
qed


section \<open>Witness\<close>

definition demo_method_db :: wallet_db where
  "demo_method_db = snd (insertIdentityMethod (snd (insertIdentityMethod (empty_wallet_db True) ''m1'' ''i1'' Mk_Webauthn
     (Some ''c1'') None None None 5)) ''m2'' ''i1'' Mk_Yubikey None None None None 6)"

definition demo_wallet_db :: wallet_db where
  "demo_wallet_db = snd (upsertWalletDevice (snd (deleteIdentityMethod demo_method_db ''m1'' 7))
     ''0xW'' ''1'' ''qx'' ''qy'' ''Phone'' None 8)"

lemma demo_reachable: "wallet_reachable demo_wallet_db"
  unfolding demo_wallet_db_def demo_method_db_def
  by (intro wallet_reachable.step [OF _ wallet_step.device] wallet_reachable.step [OF _ wallet_step.remove_method]
    wallet_reachable.step [OF _ wallet_step.add_method] wallet_reachable.start) (simp_all add: plain_def)


end
