(* ===== verification/RecoveryGaps.thy ===== *)
theory RecoveryGaps
  imports WalletRecovery
begin

text \<open>
  What replaying the wallet stream does not restore: removed entities, an e-mail address whose
  verification was withdrawn, and the credential id of an account.
\<close>

section \<open>What recovery gets wrong\<close>

definition snaps_ok :: "wallet_state \<Rightarrow> bool" where
  "snaps_ok st \<longleftrightarrow>
     unique_on esn_wallet_address (ws_emails st) \<and>
     (\<forall>s \<in> set (ws_emails st). lower (esn_wallet_address s) = esn_wallet_address s \<and> normalizeEmail (esn_email s) = esn_email s) \<and>
     unique_on entity_snap_key (ws_entities st) \<and>
     (\<forall>s \<in> set (ws_entities st). lower (tsn_wallet_address s) = tsn_wallet_address s)"

lemma snaps_ok_apply:
  assumes "snaps_ok st"
  shows "snaps_ok (applyWalletPersistEvent st (ts, ev))"
proof (cases ev)
  case (Email_Verified w e t)
  let ?s = "\<lparr>esn_wallet_address = lower w, esn_email = lower (trim e), esn_verified_at = Some t\<rparr>"
  have "unique_on esn_wallet_address (upsert esn_wallet_address ?s (\<lambda>_. ?s) (ws_emails st))"
    using assms by (intro unique_upsert) (simp_all add: snaps_ok_def)
  moreover have "\<forall>s \<in> set (upsert esn_wallet_address ?s (\<lambda>_. ?s) (ws_emails st)).
      lower (esn_wallet_address s) = esn_wallet_address s \<and> normalizeEmail (esn_email s) = esn_email s"
    using assms by (intro ball_upsert) (simp_all add: snaps_ok_def normalizeEmail_unfold)
  ultimately show ?thesis using assms Email_Verified by (simp add: snaps_ok_def Let_def)
next
  case (Entity_Registered w e l)
  let ?s = "\<lparr>tsn_wallet_address = lower w, tsn_entity_id = e, tsn_label = l\<rparr>"
  have "unique_on entity_snap_key (upsert entity_snap_key ?s (\<lambda>_. ?s) (ws_entities st))"
    using assms by (intro unique_upsert) (simp_all add: snaps_ok_def)
  moreover have "\<forall>s \<in> set (upsert entity_snap_key ?s (\<lambda>_. ?s) (ws_entities st)).
      lower (tsn_wallet_address s) = tsn_wallet_address s"
    using assms by (intro ball_upsert) (simp_all add: snaps_ok_def)
  ultimately show ?thesis using assms Entity_Registered by (simp add: snaps_ok_def Let_def)
qed (use assms in \<open>simp_all add: snaps_ok_def Let_def\<close>)

lemma snaps_ok_replay: "snaps_ok (replayWalletPersistState es)"
proof (induction es rule: rev_induct)
  case Nil
  show ?case by (simp add: snaps_ok_def replayWalletPersistState_def emptyWalletPersistState_def)
next
  case (snoc e es)
  then show ?case using snaps_ok_apply by (cases e) (simp add: replayWalletPersistState_def)
qed

definition email_facts :: "wallet_email \<Rightarrow> email_snap" where
  "email_facts r = \<lparr>esn_wallet_address = wem_wallet_address r, esn_email = wem_email r, esn_verified_at = wem_verified_at r\<rparr>"

definition entity_facts :: "wallet_entity \<Rightarrow> entity_snap" where
  "entity_facts r = \<lparr>tsn_wallet_address = wen_wallet_address r, tsn_entity_id = wen_entity_id r, tsn_label = wen_label r\<rparr>"

definition snap_entity_id :: "entity_snap \<Rightarrow> address \<times> string" where
  "snap_entity_id s = (tsn_wallet_address s, tsn_entity_id s)"

lemma facts_ids [simp]:
  "esn_wallet_address (email_facts r) = wem_wallet_address r" "snap_entity_id (entity_facts x) = entity_id x"
  by (simp_all add: email_facts_def entity_facts_def snap_entity_id_def entity_id_def)

lemma restore_emails_rows:
  assumes "wallet_skip_log d" "wallet_emails d = []" "wallet_entities d = []" "unique_on esn_wallet_address ss"
    and "\<forall>s \<in> set ss. lower (esn_wallet_address s) = esn_wallet_address s \<and> normalizeEmail (esn_email s) = esn_email s"
  shows "(wallet_skip_log (fold (restore_email now) ss d) \<and> wallet_entities (fold (restore_email now) ss d) = []) \<and>
    map email_facts (wallet_emails (fold (restore_email now) ss d)) = map email_facts (wallet_emails d) @ map (\<lambda>s. s) ss"
proof (rule fold_append_rows [where key = esn_wallet_address and kd = esn_wallet_address
      and T = "\<lambda>d. map email_facts (wallet_emails d)" and P = "\<lambda>d. wallet_skip_log d \<and> wallet_entities d = []"])
  fix s :: email_snap and d' :: wallet_db
  assume s: "s \<in> set ss" and d': "wallet_skip_log d' \<and> wallet_entities d' = []"
    and "esn_wallet_address s \<notin> esn_wallet_address ` set (map email_facts (wallet_emails d'))"
  then have "find_by wem_wallet_address (esn_wallet_address s) (wallet_emails d') = None"
    by (simp add: find_by_None_image image_image)
  moreover have "lower (esn_wallet_address s) = esn_wallet_address s" "normalizeEmail (esn_email s) = esn_email s"
    using s assms(5) by simp_all
  ultimately show "(wallet_skip_log (restore_email now s d') \<and> wallet_entities (restore_email now s d') = []) \<and>
      map email_facts (wallet_emails (restore_email now s d')) = map email_facts (wallet_emails d') @ [s] \<and>
      esn_wallet_address s = esn_wallet_address s"
    using d' by (simp add: restore_email_def upsertWalletEmail_def Let_def upsert_def email_facts_def split: option.split)
qed (use assms in \<open>simp_all add: unique_on_def\<close>)

lemma restore_entities_rows:
  assumes "wallet_skip_log d" "wallet_entities d = []" "unique_on snap_entity_id ss"
    and "\<forall>s \<in> set ss. lower (tsn_wallet_address s) = tsn_wallet_address s"
  shows "(wallet_skip_log (fold (restore_entity now) ss d) \<and> wallet_emails (fold (restore_entity now) ss d) = wallet_emails d) \<and>
    map entity_facts (wallet_entities (fold (restore_entity now) ss d)) = map entity_facts (wallet_entities d) @ map (\<lambda>s. s) ss"
proof (rule fold_append_rows [where key = snap_entity_id and kd = snap_entity_id
      and T = "\<lambda>d. map entity_facts (wallet_entities d)" and P = "\<lambda>d'. wallet_skip_log d' \<and> wallet_emails d' = wallet_emails d"])
  fix s :: entity_snap and d' :: wallet_db
  assume s: "s \<in> set ss" and d': "wallet_skip_log d' \<and> wallet_emails d' = wallet_emails d"
    and "snap_entity_id s \<notin> snap_entity_id ` set (map entity_facts (wallet_entities d'))"
  then have "find_by entity_id (snap_entity_id s) (wallet_entities d') = None"
    by (simp add: find_by_None_image image_image)
  moreover have "lower (tsn_wallet_address s) = tsn_wallet_address s" using s assms(4) by simp
  ultimately show "(wallet_skip_log (restore_entity now s d') \<and> wallet_emails (restore_entity now s d') = wallet_emails d) \<and>
      map entity_facts (wallet_entities (restore_entity now s d')) = map entity_facts (wallet_entities d') @ [s] \<and>
      snap_entity_id s = snap_entity_id s"
    using d' by (simp add: restore_entity_def upsertWalletEntity_def Let_def upsert_def entity_facts_def snap_entity_id_def
      entity_id_def)
qed (use assms in \<open>simp_all add: unique_on_def\<close>)

lemma unique_snap_entity_id: "unique_on entity_snap_key ss \<Longrightarrow> unique_on snap_entity_id ss"
  by (induction ss) (auto simp: unique_on_def entity_snap_key_def snap_entity_id_def)

lemma restored_rows:
  assumes "wallet_inv db"
  shows "\<exists>db'. replayWalletPersistLogToDb ds (empty_wallet_db b) (logged db) now = (Inr (), db') \<and>
    map email_facts (wallet_emails db') = ws_emails (wallet_state_of db) \<and>
    map entity_facts (wallet_entities db') = ws_entities (wallet_state_of db)"
proof -
  let ?st = "wallet_state_of db" and ?d = "(empty_wallet_db b)\<lparr>wallet_skip_log := True\<rparr>"
  have ok: "snaps_ok ?st" by (simp add: wallet_state_of_def snaps_ok_replay)
  obtain d1 where d1: "restore_identities (ws_identities ?st) now ?d = (Inr (), d1)"
    using restore_state [OF assms refl] by blast
  define others where "others d \<longleftrightarrow> wallet_skip_log d \<and> wallet_emails d = [] \<and> wallet_entities d = []" for d :: wallet_db
  have ids: "others d \<Longrightarrow> restore_identities ss now d = (Inr (), d') \<Longrightarrow> others d'" for ss d d'
  proof (induction ss arbitrary: d)
    case (Cons s ss)
    then obtain r d'' where u: "upsertIdentity d (isn_identity_id s) (isn_email s) (isn_google_sub s) (isn_created_at s) now = (Inr r, d'')"
      "restore_identities ss now d'' = (Inr (), d')"
      by (auto split: prod.splits sum.splits)
    have "others d''" using u(1) Cons.prems(1) by (auto simp: upsertIdentity_def Let_def others_def split: if_splits option.splits)
    from Cons.IH [OF this u(2)] show ?case .
  qed simp
  have "others d1" by (rule ids [OF _ d1]) (simp add: others_def empty_wallet_db_def)
  moreover have "others (restore_method now s d)" if "others d" for s d
    using that by (simp add: restore_method_def insertIdentityMethod_def Let_def others_def)
  moreover have "others (restore_device now s d)" if "others d" for s d
    using that by (simp add: restore_device_def upsertWalletDevice_def Let_def others_def)
  moreover have "others (restore_account ds now s d)" if "others d" for s d
  proof -
    have dep: "others (snd (markWalletDeployed d a c now))" if "others d" for d a c
      using that by (simp add: markWalletDeployed_def Let_def on_account_def others_def split: option.split)
    have up: "others (snd (upsertWalletAccount d i now))" for i
      using that by (simp add: upsertWalletAccount_def Let_def others_def)
    have "others (fold (\<lambda>c d. snd (markWalletDeployed d a c now)) cs (snd (upsertWalletAccount d i now)))" for a cs i
      by (rule fold_keeps [of others, OF _ up]) (rule dep)
    then show ?thesis
      by (simp add: restore_account_def Let_def touchWalletActivation_def on_account_def others_def split: option.split)
  qed
  ultimately have d4: "others (fold (restore_device now) (ws_devices ?st) (fold (restore_account ds now) (ws_accounts ?st)
      (fold (restore_method now) (ws_methods ?st) d1)))" (is "others ?d4")
    by (intro fold_keeps [of others])
  let ?d5 = "fold (restore_email now) (ws_emails ?st) ?d4"
  have d5: "wallet_skip_log ?d5 \<and> wallet_entities ?d5 = []" "map email_facts (wallet_emails ?d5) = ws_emails ?st"
    using restore_emails_rows [of ?d4 "ws_emails ?st" now] d4 ok by (auto simp: others_def snaps_ok_def)
  let ?d6 = "fold (restore_entity now) (ws_entities ?st) ?d5"
  have d6: "wallet_skip_log ?d6" "wallet_emails ?d6 = wallet_emails ?d5" "map entity_facts (wallet_entities ?d6) = ws_entities ?st"
    using restore_entities_rows [of ?d5 "ws_entities ?st" now] d5 ok by (auto simp: snaps_ok_def unique_snap_entity_id)
  have "wallet_emails (fold (restore_entity_key now) ks d) = wallet_emails d \<and>
      wallet_entities (fold (restore_entity_key now) ks d) = wallet_entities d" for ks d
    by (induction ks arbitrary: d) (simp_all add: restore_entity_key_def upsertWalletEntityKey_def Let_def)
  then show ?thesis
    using d1 d5 d6 by (simp add: replayWalletPersistLogToDb_def applyWalletPersistStateToDb_def Let_def restore_rest_def
      wallet_state_of_def)
qed

lemma find_mapped: "map f xs = ys \<Longrightarrow> (\<And>x. key' (f x) = key x) \<Longrightarrow> find_by key' k ys = map_option f (find_by key k xs)"
  by (induction xs arbitrary: ys) auto

lemma restored_entity:
  assumes "wallet_inv db" "find_by entity_snap_key (entityKey w e) (ws_entities (wallet_state_of db)) = Some s"
    and "tsn_wallet_address s = lower w" "tsn_entity_id s = e"
  shows "getWalletEntity (snd (replayWalletPersistLogToDb ds (empty_wallet_db b) (logged db) now)) w e \<noteq> None"
proof -
  obtain db' where db': "replayWalletPersistLogToDb ds (empty_wallet_db b) (logged db) now = (Inr (), db')"
    "map entity_facts (wallet_entities db') = ws_entities (wallet_state_of db)"
    using restored_rows [OF assms(1)] by blast
  have "s \<in> set (ws_entities (wallet_state_of db))" using assms(2) find_by_SomeD by fast
  then obtain r where "r \<in> set (wallet_entities db')" "s = entity_facts r" using db'(2) by (metis imageE list.set_map)
  moreover from this have "entity_id r = (lower w, e)" using assms(3,4) by (simp add: entity_facts_def entity_id_def)
  ultimately show ?thesis using db'(1) by (auto simp: getWalletEntity_def find_by_None_iff)
qed

lemma entity_returns:
  assumes "wallet_inv db" "w \<noteq> ''''" "e \<noteq> ''''"
    and db2: "db2 = snd (deleteWalletEntity (snd (upsertWalletEntity db w e l t)) w e)"
  shows "getWalletEntity db2 w e = None \<and>
    getWalletEntity (snd (replayWalletPersistLogToDb ds (empty_wallet_db b) (logged db2) now)) w e \<noteq> None"
proof
  show "getWalletEntity db2 w e = None"
    by (simp add: db2 deleteWalletEntity_def Let_def getWalletEntity_def find_by_None_iff delete_where_def)
  let ?s = "\<lparr>tsn_wallet_address = lower w, tsn_entity_id = e, tsn_label = l\<rparr>"
  note log = wallet_invD(6) [OF assms(1)]
  have key: "entity_snap_key ?s = entityKey w e" by (simp add: entity_snap_key_def entityKey_def)
  have st: "ws_entities (wallet_state_of db2) = upsert entity_snap_key ?s (\<lambda>_. ?s) (ws_entities (wallet_state_of db))"
    using log assms(2,3) by (simp add: db2 deleteWalletEntity_def upsertWalletEntity_def Let_def state_walletPersist)
  have found: "find_by entity_snap_key (entityKey w e) (ws_entities (wallet_state_of db2)) = Some ?s"
    unfolding st by (subst find_by_upsert) (simp_all add: key split: option.split)
  have inv2: "wallet_inv db2"
    unfolding db2 using assms(1) log same_core_inv [OF _ same_core_entities(1)] same_core_inv [OF _ same_core_entities(3)] by blast
  show "getWalletEntity (snd (replayWalletPersistLogToDb ds (empty_wallet_db b) (logged db2) now)) w e \<noteq> None"
    by (rule restored_entity [OF inv2 found]) simp_all
qed

lemma verified_row:
  "map_option email_facts (getWalletEmail (snd (markWalletEmailVerified db w x t)) w) =
   Some \<lparr>esn_wallet_address = lower w, esn_email = normalizeEmail x, esn_verified_at = Some t\<rparr>"
  by (rule mark_verified_row [of db w x t]) (simp add: email_facts_def)

lemma replaced_row:
  assumes "getWalletEmail db w = Some r" "wem_email r \<noteq> normalizeEmail y"
  shows "map_option email_facts (getWalletEmail (snd (upsertWalletEmail db w y None u)) w) =
    Some \<lparr>esn_wallet_address = lower w, esn_email = normalizeEmail y, esn_verified_at = None\<rparr>"
proof -
  have "wem_wallet_address r = lower w" using assms(1) find_by_SomeD unfolding getWalletEmail_def by fast
  with assms show ?thesis
    by (simp add: upsertWalletEmail_def Let_def getWalletEmail_def find_by_upsert email_facts_def)
qed

lemma email_returns:
  assumes "wallet_inv db" "w \<noteq> ''''" "normalizeEmail x \<noteq> ''''" "normalizeEmail y \<noteq> normalizeEmail x"
    and db2: "db2 = snd (upsertWalletEmail (snd (markWalletEmailVerified db w x t)) w y None u)"
  shows "map_option email_facts (getWalletEmail db2 w) =
      Some \<lparr>esn_wallet_address = lower w, esn_email = normalizeEmail y, esn_verified_at = None\<rparr> \<and>
    map_option email_facts (getWalletEmail (snd (replayWalletPersistLogToDb ds (empty_wallet_db b) (logged db2) now)) w) =
      Some \<lparr>esn_wallet_address = lower w, esn_email = normalizeEmail x, esn_verified_at = Some t\<rparr>"
proof
  let ?db1 = "snd (markWalletEmailVerified db w x t)"
  let ?s = "\<lparr>esn_wallet_address = lower w, esn_email = normalizeEmail x, esn_verified_at = Some t\<rparr>"
  note log = wallet_invD(6) [OF assms(1)]
  obtain r where r: "getWalletEmail ?db1 w = Some r" "email_facts r = ?s"
    using verified_row [of db w x t] by auto
  then have "wem_email r = normalizeEmail x" by (simp add: email_facts_def)
  with r(1) assms(4) show "map_option email_facts (getWalletEmail db2 w) =
      Some \<lparr>esn_wallet_address = lower w, esn_email = normalizeEmail y, esn_verified_at = None\<rparr>"
    unfolding db2 by (intro replaced_row) auto
  have "wallet_state_of ?db1 = applyWalletPersistEvent (wallet_state_of db) (t, Email_Verified (lower w) (normalizeEmail x) t)"
    using log by (simp add: markWalletEmailVerified_def upsertWalletEmail_def Let_def state_walletPersist)
  then have st: "ws_emails (wallet_state_of db2) = upsert esn_wallet_address ?s (\<lambda>_. ?s) (ws_emails (wallet_state_of db))"
    using assms(2,3) by (simp add: db2 upsertWalletEmail_def Let_def normalizeEmail_unfold)
  have "wallet_inv db2"
    unfolding db2
    by (metis same_core_inv same_core_emails assms(1) wallet_invD(6))
  then obtain db' where db': "replayWalletPersistLogToDb ds (empty_wallet_db b) (logged db2) now = (Inr (), db')"
    "map email_facts (wallet_emails db') = ws_emails (wallet_state_of db2)"
    using restored_rows by blast
  have "map_option email_facts (getWalletEmail db' w) = find_by esn_wallet_address (lower w) (ws_emails (wallet_state_of db2))"
    unfolding getWalletEmail_def by (rule find_mapped [OF db'(2), symmetric]) simp
  also have "\<dots> = Some ?s" unfolding st by (subst find_by_upsert) (simp_all split: option.split)
  finally show "map_option email_facts (getWalletEmail (snd (replayWalletPersistLogToDb ds (empty_wallet_db b) (logged db2) now)) w) = Some ?s"
    by (simp add: db'(1))
qed

text \<open>
  Replaying the log undoes what was never logged. After a run of wallet operations, an
  entity that is registered and then removed is gone from the live table but back after
  recovery. An e-mail address that was verified and then replaced by another, not yet verified,
  one is unverified in the live table, but recovery restores the old address as verified.
\<close>

theorem recovery_reverts:
  assumes "wallet_reachable db" and "w \<noteq> ''''" and "e \<noteq> ''''"
    and "normalizeEmail x \<noteq> ''''" and "normalizeEmail y \<noteq> normalizeEmail x"
  shows
    "(let db2 = snd (deleteWalletEntity (snd (upsertWalletEntity db w e l t)) w e) in
       getWalletEntity db2 w e = None \<and>
       getWalletEntity (snd (replayWalletPersistLogToDb ds (empty_wallet_db b) (logged db2) now)) w e \<noteq> None) \<and>
     (let db2 = snd (upsertWalletEmail (snd (markWalletEmailVerified db w x t)) w y None u) in
       map_option email_facts (getWalletEmail db2 w) =
         Some \<lparr>esn_wallet_address = lower w, esn_email = normalizeEmail y, esn_verified_at = None\<rparr> \<and>
       map_option email_facts (getWalletEmail (snd (replayWalletPersistLogToDb ds (empty_wallet_db b) (logged db2) now)) w) =
         Some \<lparr>esn_wallet_address = lower w, esn_email = normalizeEmail x, esn_verified_at = Some t\<rparr>)"
  unfolding Let_def
  using entity_returns [OF wallet_reachable_inv [OF assms(1)] assms(2,3) refl]
    email_returns [OF wallet_reachable_inv [OF assms(1)] assms(2,4,5) refl] by (rule conjI)

theorem recovery_reverts_witness:
  "\<exists>db :: wallet_db. getWalletEntity db ''0xw'' ''e1'' = None \<and>
     getWalletEntity (snd (replayWalletPersistLogToDb (\<lambda>_ _. ''s'') (empty_wallet_db True) (logged db) 9)) ''0xw'' ''e1'' \<noteq> None"
proof -
  have "''0xw'' \<noteq> ''''" "''e1'' \<noteq> ''''" "normalizeEmail ''a@b'' \<noteq> ''''" "normalizeEmail ''c@d'' \<noteq> normalizeEmail ''a@b''"
    by code_simp+
  from recovery_reverts [OF wallet_reachable.start this, of None 5 "\<lambda>_ _. ''s''" True 9 6]
  show ?thesis unfolding Let_def by blast
qed

end
