(* ===== verification/WalletActivation.thy ===== *)
theory WalletActivation
  imports WalletAccounts
begin

text \<open>
  The activation queue: which accounts the deployer is given, in which order and when a failed
  check comes up again.
\<close>

lemma getWalletAccount_on_account:
  assumes "\<And>r. wac_address (f r) = wac_address r"
  shows "getWalletAccount (on_account a f db) b =
    map_option (\<lambda>r. if lower a = lower b then f r else r) (getWalletAccount db b)"
  unfolding getWalletAccount_def on_account_def
  by (simp add: find_by_update_where assms) (auto intro!: option.map_cong dest: find_by_SomeD)

lemma activation_delay_bounds: "60000 \<le> activation_delay n \<and> activation_delay n \<le> 61440000"
proof -
  have "(1::int) \<le> 2 ^ k \<and> (2::int) ^ k \<le> 1024" if "k \<le> 10" for k :: nat
    using power_increasing [OF that, of "2::int"] by simp
  from this [of "min (n - 1) 10"] show ?thesis by (simp add: activation_delay_def)
qed



lemma listed_due:
  "a \<in> set (listUndeployedWalletAccounts db c l now) \<Longrightarrow> a \<in> set (wallet_accounts db) \<and> activation_due now a \<and> c \<notin> set (wac_deployed_chains a)"
  by (auto simp: listUndeployedWalletAccounts_def dest!: in_set_takeD)

definition account_listed :: "'z wallet_db_scheme \<Rightarrow> address \<Rightarrow> string \<Rightarrow> int \<Rightarrow> timestamp \<Rightarrow> bool" where
  "account_listed db w c l now = list_ex (\<lambda>a. wac_address a = lower w) (listUndeployedWalletAccounts db c l now)"

lemma account_listedD:
  assumes "account_listed db w c l now" "unique_on wac_address (wallet_accounts db)"
  shows "\<exists>a. getWalletAccount db w = Some a \<and> activation_due now a"
proof -
  obtain a where "a \<in> set (listUndeployedWalletAccounts db c l now)" "wac_address a = lower w"
    using assms(1) by (auto simp: account_listed_def list_ex_iff)
  with listed_due [of a db c l now] find_by_unique [OF assms(2), of a] show ?thesis
    by (auto simp: getWalletAccount_def)
qed

lemma unique_on_account:
  "(\<And>r. wac_address (f r) = wac_address r) \<Longrightarrow> unique_on wac_address (wallet_accounts db) \<Longrightarrow>
   unique_on wac_address (wallet_accounts (on_account a f db))"
  by (simp add: on_account_def unique_update_where)

text \<open>
  Failed checks back off. A check that finds an account neither funded nor deployed puts it
  off by 60 seconds, doubling with every check up to 1024 minutes and never reaching the 24-hour
  cap the code writes; until then the account is not handed to the deployer.
\<close>

theorem activation_backoff:
  assumes "getWalletAccount db w = Some a" and "unique_on wac_address (wallet_accounts db)"
    and "snd (recordWalletActivationCheck db w False deployed err now) = db'" and "deployed \<noteq> Some True"
  shows "\<exists>d. 60000 \<le> d \<and> d \<le> 61440000 \<and> d < 24 * 60 * 60000 \<and>
    (wac_check_count a < 10 \<longrightarrow> d = 60000 * 2 ^ wac_check_count a) \<and>
    map_option wac_next_check_at (getWalletAccount db' w) = Some (Some (now + d)) \<and>
    (\<forall>t < now + d. \<not> account_listed db' w c l t)"
proof (intro exI conjI)
  let ?d = "activation_delay (wac_check_count a + 1)"
  let ?f = "\<lambda>r. r\<lparr>wac_last_check_at := Some now, wac_next_check_at := Some (now + ?d), wac_check_count := wac_check_count a + 1,
      wac_status := (if truthy err then Act_Error else Act_Pending), wac_error := err, wac_updated_at := now\<rparr>"
  have db': "db' = on_account w ?f db"
    using assms(1,3,4) by (simp add: recordWalletActivationCheck_def Let_def)
  have row: "getWalletAccount db' w = Some (?f a)"
    using assms(1) by (simp add: db' getWalletAccount_on_account)
  show "60000 \<le> ?d" "?d \<le> 61440000" using activation_delay_bounds by blast+
  then show "?d < 24 * 60 * 60000" by simp
  show "wac_check_count a < 10 \<longrightarrow> ?d = 60000 * 2 ^ wac_check_count a"
  proof
    assume n: "wac_check_count a < 10"
    have "(1::int) \<le> 2 ^ wac_check_count a" "(2::int) ^ wac_check_count a \<le> 1024"
      using power_increasing [of "wac_check_count a" 10 "2::int"] n by simp_all
    with n show "?d = 60000 * 2 ^ wac_check_count a" by (simp add: activation_delay_def min_def max_def)
  qed
  show "map_option wac_next_check_at (getWalletAccount db' w) = Some (Some (now + ?d))" by (simp add: row)
  show "\<forall>t < now + ?d. \<not> account_listed db' w c l t"
  proof (intro allI impI notI)
    fix t assume t: "t < now + ?d" "account_listed db' w c l t"
    have "unique_on wac_address (wallet_accounts db')" unfolding db' using assms(2) by (intro unique_on_account) simp
    from account_listedD [OF t(2) this] row t(1) show False by (auto simp: activation_due_def)
  qed
qed

text \<open>
  An account deployed on one chain is never handed to the deployer for another. Marking
  it deployed on a chain takes it off the queue of every chain and at every time, and asking
  for its activation again does not put it back unless the request says it is funded.
\<close>

theorem deployed_once_never_queued:
  assumes "getWalletAccount db w = Some a" and "unique_on wac_address (wallet_accounts db)"
    and "c1 \<notin> set (wac_deployed_chains a)" and "db' = snd (markWalletDeployed db w c1 now)"
  shows "\<not> account_listed db' w c2 l t \<and>
    \<not> account_listed (snd (touchWalletActivation db' w False now')) w c2 l t \<and>
    (c2 \<noteq> c1 \<and> c2 \<notin> set (wac_deployed_chains a) \<longrightarrow>
      map_option wac_deployed_chains (getWalletAccount db' w) = Some (wac_deployed_chains a @ [c1]))"
proof -
  let ?f = "\<lambda>r. r\<lparr>wac_deployed_chains := wac_deployed_chains a @ [c1], wac_status := Act_Deployed, wac_error := None,
      wac_updated_at := now\<rparr>"
  let ?g = "\<lambda>r. r\<lparr>wac_priority_at := Some now', wac_next_check_at := Some now', wac_status := wac_status r, wac_error := None,
      wac_updated_at := now'\<rparr>"
  have accounts: "wallet_accounts db' = wallet_accounts (on_account w ?f db)"
    using assms(1,3,4) by (simp add: markWalletDeployed_def Let_def)
  have row: "getWalletAccount db' w = Some (?f a)"
    using assms(1) getWalletAccount_on_account [of ?f w db w] unfolding getWalletAccount_def accounts by simp
  have u: "unique_on wac_address (wallet_accounts db')" unfolding accounts using assms(2) by (intro unique_on_account) simp
  have "\<not> account_listed db' w c2 l t"
    using account_listedD [OF _ u] row by (force simp: activation_due_def)
  moreover have "\<not> account_listed (snd (touchWalletActivation db' w False now')) w c2 l t"
  proof
    assume listed: "account_listed (snd (touchWalletActivation db' w False now')) w c2 l t"
    have db'': "snd (touchWalletActivation db' w False now') = on_account w ?g db'"
      using row by (simp add: touchWalletActivation_def Let_def)
    have "unique_on wac_address (wallet_accounts (on_account w ?g db'))" using u by (intro unique_on_account) simp_all
    from account_listedD [OF listed [unfolded db''] this] row show False
      by (auto simp: getWalletAccount_on_account activation_due_def)
  qed
  ultimately show ?thesis by (simp add: row)
qed

section \<open>Witnesses\<close>

definition demo_account_db :: wallet_db where
  "demo_account_db = snd (touchWalletActivation (snd (upsertWalletAccount (empty_wallet_db True)
     \<lparr>ai_address = ''0xW'', ai_salt = ''s'', ai_owner_qx = ''x'', ai_owner_qy = ''y'', ai_credential_id = None,
      ai_attestation = None, ai_identity_id = None, ai_label = None\<rparr> 5)) ''0xw'' False 6)"

definition demo_account :: wallet_account where
  "demo_account = the (getWalletAccount demo_account_db ''0xw'')"

lemma demo_account_facts:
  "getWalletAccount demo_account_db ''0xw'' = Some demo_account" "unique_on wac_address (wallet_accounts demo_account_db)"
  "wac_check_count demo_account = 0" "wac_deployed_chains demo_account = []"
proof -
  have "map_option wac_check_count (getWalletAccount demo_account_db ''0xw'') = Some 0" by code_simp
  then show a: "getWalletAccount demo_account_db ''0xw'' = Some demo_account" "wac_check_count demo_account = 0"
    by (auto simp: demo_account_def)
  have "map_option wac_deployed_chains (getWalletAccount demo_account_db ''0xw'') = Some []" by code_simp
  with a(1) show "wac_deployed_chains demo_account = []" by simp
  show "unique_on wac_address (wallet_accounts demo_account_db)" by code_simp
qed

theorem activation_backoff_witness:
  "account_listed demo_account_db ''0xw'' ''1'' 100 7 \<and>
   \<not> account_listed (snd (recordWalletActivationCheck demo_account_db ''0xw'' False None None 10)) ''0xw'' ''1'' 100 60009"
proof
  show "account_listed demo_account_db ''0xw'' ''1'' 100 7" by code_simp
  obtain d where "wac_check_count demo_account < 10 \<longrightarrow> d = 60000 * 2 ^ wac_check_count demo_account"
    "\<forall>t < 10 + d. \<not> account_listed (snd (recordWalletActivationCheck demo_account_db ''0xw'' False None None 10)) ''0xw'' ''1'' 100 t"
    using activation_backoff [OF demo_account_facts(1,2) refl, of None None 10 "''1''" 100] by auto
  then show "\<not> account_listed (snd (recordWalletActivationCheck demo_account_db ''0xw'' False None None 10)) ''0xw'' ''1'' 100 60009"
    by (simp add: demo_account_facts)
qed

theorem deployed_once_never_queued_witness:
  "account_listed demo_account_db ''0xw'' ''2'' 100 7 \<and>
   \<not> account_listed (snd (markWalletDeployed demo_account_db ''0xw'' ''1'' 8)) ''0xw'' ''2'' 100 1000000"
proof
  show "account_listed demo_account_db ''0xw'' ''2'' 100 7" by code_simp
  show "\<not> account_listed (snd (markWalletDeployed demo_account_db ''0xw'' ''1'' 8)) ''0xw'' ''2'' 100 1000000"
    using deployed_once_never_queued [OF demo_account_facts(1,2) _ refl, of "''1''" 8 "''2''" 100 1000000]
    by (simp add: demo_account_facts)
qed

end
