(* ===== verification/WebAuthn.thy ===== *)
theory WebAuthn
  imports CredentialId
begin

text \<open>
  Passkey assertions: the check of commerce/shared/webauthn-verify.ts and the encoding for the
  wallet contract of commerce/shared/webauthn-signature.ts. Both read an ES256 signature that is
  either the two 32-byte numbers or their DER encoding; each file has its own parser.

  SHA-256, the UTF-8 codec, \<open>JSON.parse\<close>, the URL parser, and the P-256 verification of
  \<open>node:crypto\<close> (with the SPKI key built here) are the fields of \<open>webauthn_env\<close>. An exception
  carries the \<open>statusCode\<close> and \<open>code\<close> the code attaches, or neither.
\<close>

record js_error =
  je_status :: "nat option"
  je_code :: "string option"
  je_message :: string

type_synonym 'a throws = "js_error + 'a"

definition plain_error :: "string \<Rightarrow> js_error" where
  "plain_error msg = \<lparr>je_status = None, je_code = None, je_message = msg\<rparr>"

definition coded_error :: "string \<Rightarrow> string \<Rightarrow> js_error" where
  "coded_error code msg = \<lparr>je_status = Some 400, je_code = Some code, je_message = msg\<rparr>"

text \<open>The members of the parsed client data that are read; \<open>None\<close> is a missing one.\<close>

record client_data =
  cd_type :: "string option"
  cd_challenge :: "string option"
  cd_origin :: "string option"

record webauthn_env =
  we_utf8 :: "nat list \<Rightarrow> string"
  we_utf8_bytes :: "string \<Rightarrow> nat list"
  we_json :: "string \<Rightarrow> client_data option"
  we_hostname :: "string \<Rightarrow> string option"
  we_sha256 :: "nat list \<Rightarrow> nat list"
  we_verify :: "nat list \<Rightarrow> nat list \<Rightarrow> nat list \<Rightarrow> bool option"

record assertion =
  as_authenticator_data :: string
  as_client_data_json :: string
  as_signature :: string

record verify_options =
  vo_challenge :: string
  vo_rp_id :: string
  vo_origins :: "string list option"
  vo_owner_qx :: string
  vo_owner_qy :: string

section \<open>Bytes and text\<close>

text \<open>\<open>Buffer.from(s, "hex")\<close> stops at the first pair that is not hex.\<close>

fun hex_buffer :: "string \<Rightarrow> nat list" where
  "hex_buffer (a # b # r) =
     (case (hex_value a, hex_value b) of (Some x, Some y) \<Rightarrow> (16 * x + y) # hex_buffer r | _ \<Rightarrow> [])"
| "hex_buffer _ = []"

definition hex_text :: "nat list \<Rightarrow> string" where
  "hex_text bs = drop 2 (bytes_to_hex bs)"

definition strip0x :: "string \<Rightarrow> string" where
  "strip0x h = (if starts_with h ''0x'' then drop 2 h else h)"

fun index_of :: "string \<Rightarrow> string \<Rightarrow> nat option" where
  "index_of s p = (if starts_with s p then Some 0 else case s of [] \<Rightarrow> None | _ # r \<Rightarrow> map_option Suc (index_of r p))"

definition std_char :: "char \<Rightarrow> char" where
  "std_char c = (if c = CHR ''-'' then CHR ''+'' else if c = CHR ''_'' then CHR ''/'' else c)"

definition decodeToBuffer :: "string \<Rightarrow> nat list" where
  "decodeToBuffer v =
     (if starts_with v ''0x'' then hex_buffer (drop 2 v)
      else (let b64 = map std_char v;
                pad = (if length b64 mod 4 = 0 then '''' else replicate (4 - length b64 mod 4) (CHR ''='')) in
            base64ToBytes (b64 @ pad)))"

definition decodeToHex :: "string \<Rightarrow> string" where
  "decodeToHex v = (if starts_with v ''0x'' then lower v else bytes_to_hex (decodeToBuffer v))"

definition looksLikeUtf8Json :: "string \<Rightarrow> bool" where
  "looksLikeUtf8Json v = (starts_with (trim v) ''{'' \<and> index_of (trim v) ''challenge'' \<noteq> None)"

definition decodeToUtf8 :: "webauthn_env \<Rightarrow> string \<Rightarrow> string" where
  "decodeToUtf8 env v = (if looksLikeUtf8Json v then v else we_utf8 env (decodeToBuffer v))"

definition normalizeB64Url :: "string \<Rightarrow> string" where
  "normalizeB64Url v = strip_padding (map url_char v)"

definition challengesEqual :: "string \<Rightarrow> string \<Rightarrow> bool" where
  "challengesEqual a b = (normalizeB64Url a = normalizeB64Url b)"

definition challengeToBase64Url :: "nat list \<Rightarrow> string" where
  "challengeToBase64Url bs = strip_padding (map url_char (bytesToBase64 bs))"

section \<open>Signatures\<close>

definition byte_at :: "nat list \<Rightarrow> nat \<Rightarrow> nat option" where
  "byte_at bs i = (if i < length bs then Some (bs ! i) else None)"

definition slice :: "nat list \<Rightarrow> nat \<Rightarrow> nat \<Rightarrow> nat list" where
  "slice bs i j = take (j - i) (drop i bs)"

text \<open>\<open>bytes.copy(out, 32 - bytes.length)\<close> throws when the number has more than 32 bytes.\<close>

definition pad32 :: "nat list \<Rightarrow> nat list throws" where
  "pad32 bs =
     (if length bs = 32 then Inr bs
      else if length bs = 33 \<and> byte_at bs 0 = Some 0 then Inr (drop 1 bs)
      else if 32 < length bs then Inl (plain_error ''The value of targetStart is out of range'')
      else Inr (replicate (32 - length bs) 0 @ bs))"

text \<open>
  The two numbers inside a DER signature. A missing length byte of \<open>r\<close> makes the offset
  \<open>NaN\<close>, and the next tag is \<open>undefined\<close>; one of \<open>s\<close> makes an empty slice.
\<close>

definition der_numbers :: "nat list \<Rightarrow> (nat list \<times> nat list) throws" where
  "der_numbers bs =
     (if byte_at bs 0 \<noteq> Some 48 then Inl (plain_error ''Invalid DER signature'')
      else if byte_at bs 2 \<noteq> Some 2 then Inl (plain_error ''Invalid DER r'')
      else (case byte_at bs 3 of
        None \<Rightarrow> Inl (plain_error ''Invalid DER s'')
      | Some r_len \<Rightarrow>
          if byte_at bs (4 + r_len) \<noteq> Some 2 then Inl (plain_error ''Invalid DER s'')
          else Inr (slice bs 4 (4 + r_len),
                    case byte_at bs (5 + r_len) of
                      None \<Rightarrow> []
                    | Some s_len \<Rightarrow> slice bs (6 + r_len) (6 + r_len + s_len))))"

definition parseEs256 :: "nat list \<Rightarrow> (string \<times> string) throws" where
  "parseEs256 bs =
     (if length bs = 64 then Inr (''0x'' @ hex_text (slice bs 0 32), ''0x'' @ hex_text (slice bs 32 64))
      else (case der_numbers bs of
        Inl e \<Rightarrow> Inl e
      | Inr (r, s) \<Rightarrow>
          (case pad32 r of
             Inl e \<Rightarrow> Inl e
           | Inr r32 \<Rightarrow>
               (case pad32 s of
                  Inl e \<Rightarrow> Inl e
                | Inr s32 \<Rightarrow> Inr (''0x'' @ hex_text r32, ''0x'' @ hex_text s32)))))"

section \<open>The parser of webauthn-signature.ts\<close>

definition P256_N :: int where
  "P256_N = 0xFFFFFFFF00000000FFFFFFFFFFFFFFFFBCE6FAADA7179E84F3B9CAC2FC632551"

definition P256_HALF_N :: int where
  "P256_HALF_N = 0x7fffffff800000007fffffffffffffffde737d56d38bcf4279dce5617e3192a8"

definition BigInt_hex :: "string \<Rightarrow> int" where
  "BigInt_hex s = foldl (\<lambda>a d. 16 * a + int d) 0 (hex_prefix (strip0x s))"

text \<open>The loop of \<open>bigIntToBytes32\<close>: \<open>i\<close> bytes are left to write, the last one first.\<close>

fun write_bytes :: "nat \<Rightarrow> int \<Rightarrow> nat list \<Rightarrow> nat list" where
  "write_bytes 0 n out = out"
| "write_bytes (Suc i) n out = write_bytes i (drop_bit 8 n) (nat (and n 255) # out)"

definition bigIntToBytes32 :: "int \<Rightarrow> nat list" where
  "bigIntToBytes32 n = write_bytes 32 n []"

definition normalizeP256Signature :: "string \<Rightarrow> string \<Rightarrow> string \<times> string" where
  "normalizeP256Signature r s =
     (if BigInt_hex s \<le> P256_HALF_N then (r, s)
      else (r, bytes_to_hex (bigIntToBytes32 (P256_N - BigInt_hex s))))"

definition parseEs256Signature :: "nat list \<Rightarrow> (string \<times> string) throws" where
  "parseEs256Signature bs =
     (if length bs = 64 then Inr (normalizeP256Signature (bytes_to_hex (slice bs 0 32)) (bytes_to_hex (slice bs 32 64)))
      else (case der_numbers bs of
        Inl e \<Rightarrow> Inl e
      | Inr (r, s) \<Rightarrow>
          (case pad32 r of
             Inl e \<Rightarrow> Inl e
           | Inr r32 \<Rightarrow>
               (case pad32 s of
                  Inl e \<Rightarrow> Inl e
                | Inr s32 \<Rightarrow> Inr (normalizeP256Signature (bytes_to_hex r32) (bytes_to_hex s32))))))"

record assertion_parts =
  ap_r :: string
  ap_s :: string
  ap_challenge_index :: nat
  ap_type_index :: nat
  ap_authenticator_data :: string
  ap_client_data_json :: string

definition decodeToBytes :: "string \<Rightarrow> nat list" where
  "decodeToBytes v =
     (if starts_with v ''0x'' then byte_pairs (drop 2 v)
      else (let b64 = map std_char v;
                pad = (if length b64 mod 4 = 0 then '''' else replicate (4 - length b64 mod 4) (CHR ''='')) in
            base64ToBytes (b64 @ pad)))"

definition decodeClientData :: "webauthn_env \<Rightarrow> string \<Rightarrow> string" where
  "decodeClientData env v =
     (let t = trim v in
      if starts_with t ''{'' \<and> index_of t ''challenge'' \<noteq> None then t else we_utf8 env (decodeToBytes v))"

text \<open>The parts that \<open>encodeWebAuthnSignatureFromJson\<close> hands to the ABI encoder.\<close>

definition webauthn_signature_parts :: "webauthn_env \<Rightarrow> assertion \<Rightarrow> assertion_parts throws" where
  "webauthn_signature_parts env a =
     (let json = decodeClientData env (as_client_data_json a);
          auth = (if starts_with (as_authenticator_data a) ''0x'' then lower (as_authenticator_data a)
                  else bytes_to_hex (decodeToBytes (as_authenticator_data a))) in
      case parseEs256Signature (decodeToBytes (as_signature a)) of
        Inl e \<Rightarrow> Inl e
      | Inr (r, s) \<Rightarrow>
          (case (index_of json ''\"type\":\"webauthn.get\"'', index_of json ''\"challenge\":\"'') of
             (Some ti, Some ci) \<Rightarrow>
               Inr \<lparr>ap_r = r, ap_s = s, ap_challenge_index = ci, ap_type_index = ti, ap_authenticator_data = auth,
                    ap_client_data_json = json\<rparr>
           | _ \<Rightarrow> Inl (plain_error ''Invalid WebAuthn clientDataJSON'')))"

section \<open>The check of an assertion\<close>

definition parseAssertionJson :: "webauthn_env \<Rightarrow> assertion \<Rightarrow> assertion_parts throws" where
  "parseAssertionJson env a =
     (let json = decodeToUtf8 env (as_client_data_json a) in
      case parseEs256 (decodeToBuffer (as_signature a)) of
        Inl e \<Rightarrow> Inl e
      | Inr (r, s) \<Rightarrow>
          (case (index_of json ''\"type\":\"webauthn.get\"'', index_of json ''\"challenge\":\"'') of
             (Some ti, Some ci) \<Rightarrow>
               Inr \<lparr>ap_r = r, ap_s = s, ap_challenge_index = ci, ap_type_index = ti,
                    ap_authenticator_data = decodeToHex (as_authenticator_data a), ap_client_data_json = json\<rparr>
           | _ \<Rightarrow> Inl (coded_error ''invalid_assertion'' ''Invalid WebAuthn clientDataJSON'')))"

definition isLoopbackHost :: "string \<Rightarrow> bool" where
  "isLoopbackHost h = (h = ''localhost'' \<or> h = ''127.0.0.1'' \<or> h = ''[::1]'' \<or> h = ''::1'')"

definition ends_with :: "string \<Rightarrow> string \<Rightarrow> bool" where
  "ends_with s p = starts_with (rev s) (rev p)"

definition originAllowed :: "webauthn_env \<Rightarrow> string \<Rightarrow> string \<Rightarrow> string list option \<Rightarrow> bool" where
  "originAllowed env origin rp_id origins =
     (case nullish origins [] of
        x # xs \<Rightarrow> origin \<in> set (x # xs)
      | [] \<Rightarrow>
          (case we_hostname env origin of
             None \<Rightarrow> False
           | Some hn \<Rightarrow>
               (let h = lower hn; rp = lower rp_id in
                if isLoopbackHost h \<and> isLoopbackHost rp then True else h = rp \<or> ends_with h (''.'' @ rp))))"

definition spki_prefix :: "nat list" where
  "spki_prefix = hex_buffer ''3059301306072a8648ce3d020106082a8648ce3d030107034200''"

definition p256PublicKeyFromCoords :: "string \<Rightarrow> string \<Rightarrow> nat list throws" where
  "p256PublicKeyFromCoords qx qy =
     (let x = hex_buffer (strip0x qx); y = hex_buffer (strip0x qy) in
      if length x \<noteq> 32 \<or> length y \<noteq> 32
      then Inl \<lparr>je_status = Some 400, je_code = None, je_message = ''Invalid P-256 coordinates''\<rparr>
      else Inr (spki_prefix @ [4] @ x @ y))"

definition verifyWebAuthnAssertion :: "webauthn_env \<Rightarrow> assertion \<Rightarrow> verify_options \<Rightarrow> unit throws" where
  "verifyWebAuthnAssertion env a opts =
     (case parseAssertionJson env a of
        Inl e \<Rightarrow> Inl e
      | Inr parts \<Rightarrow>
     (case we_json env (ap_client_data_json parts) of
        None \<Rightarrow> Inl (coded_error ''invalid_assertion'' ''Invalid clientDataJSON'')
      | Some cd \<Rightarrow>
          if cd_type cd \<noteq> Some ''webauthn.get''
          then Inl (coded_error ''invalid_assertion'' ''Expected webauthn.get assertion'')
          else if \<not> truthy (cd_challenge cd) \<or> \<not> challengesEqual (the (cd_challenge cd)) (vo_challenge opts)
          then Inl (coded_error ''challenge_mismatch'' ''Challenge mismatch'')
          else if \<not> truthy (cd_origin cd) \<or> \<not> originAllowed env (the (cd_origin cd)) (vo_rp_id opts) (vo_origins opts)
          then Inl (coded_error ''origin_mismatch'' ''Origin not allowed for client rpId'')
          else (let authData = hex_buffer (strip0x (ap_authenticator_data parts));
                    signed = authData @ we_sha256 env (we_utf8_bytes env (ap_client_data_json parts));
                    sig = hex_buffer (strip0x (ap_r parts)) @ hex_buffer (strip0x (ap_s parts)) in
                case p256PublicKeyFromCoords (vo_owner_qx opts) (vo_owner_qy opts) of
                  Inl e \<Rightarrow> Inl e
                | Inr key \<Rightarrow>
                    (case we_verify env key signed sig of
                       None \<Rightarrow> Inl (plain_error ''verify'')
                     | Some ok \<Rightarrow>
                         if ok then Inr () else Inl (coded_error ''invalid_signature'' ''Invalid WebAuthn signature'')))))"

end
