(* ===== verification/SessionTokens.thy ===== *)
theory SessionTokens
  imports WebAuthn
begin

text \<open>
  The signed tokens of commerce/server/identity-session.ts (login cookie, recovery cookie, OAuth
  state) and commerce/server/recovery-email-session.ts, and the API key check of
  commerce/server/auth.ts. A token is \<open>payload.signature\<close>: the payload is base64url of a JSON
  object, the signature the HMAC of the payload text.

  JSON, HMAC-SHA256, the UTF-8 codec and the URI codec are fields of \<open>token_env\<close>. An object is
  the list of its members; a member that has not the type the code expects reads as missing.
\<close>

datatype json = JNull | JBool bool | JNum int | JStr string

type_synonym json_object = "(string \<times> json) list"

record token_env =
  te_stringify :: "json_object \<Rightarrow> string"
  te_parse :: "string \<Rightarrow> json_object option"
  te_hmac :: "string \<Rightarrow> string \<Rightarrow> nat list"
  te_utf8_bytes :: "string \<Rightarrow> nat list"
  te_utf8 :: "nat list \<Rightarrow> string"
  te_encode_uri :: "string \<Rightarrow> string"
  te_decode_uri :: "string \<Rightarrow> string option"

definition str_member :: "json_object \<Rightarrow> string \<Rightarrow> string option" where
  "str_member p k = (case map_of p k of Some (JStr s) \<Rightarrow> Some s | _ \<Rightarrow> None)"

definition num_member :: "json_object \<Rightarrow> string \<Rightarrow> int option" where
  "num_member p k = (case map_of p k of Some (JNum n) \<Rightarrow> Some n | _ \<Rightarrow> None)"

definition has_at :: "string option \<Rightarrow> bool" where
  "has_at e = opt_ex (\<lambda>s. CHR ''@'' \<in> set s) e"

definition SESSION_TTL_MS :: int where
  "SESSION_TTL_MS = 30 * 24 * 60 * 60 * 1000"

definition OAUTH_TTL_MS :: int where
  "OAUTH_TTL_MS = 15 * 60 * 1000"

definition RECOVER_TTL_MS :: int where
  "RECOVER_TTL_MS = 15 * 60 * 1000"

section \<open>Signing\<close>

definition signPayload :: "token_env \<Rightarrow> string \<Rightarrow> json_object \<Rightarrow> string" where
  "signPayload env secret p =
     (let encoded = bytes_to_base64url (te_utf8_bytes env (te_stringify env p));
          sig = bytes_to_base64url (te_hmac env secret encoded) in
      encoded @ ''.'' @ sig)"

definition verifyPayload :: "token_env \<Rightarrow> string \<Rightarrow> string option \<Rightarrow> json_object option" where
  "verifyPayload env secret token =
     (if \<not> truthy token \<or> secret = '''' then None
      else (case split_on (CHR ''.'') (the token) of
        payload # sig # _ \<Rightarrow>
          if payload = '''' \<or> sig = '''' then None
          else if sig \<noteq> bytes_to_base64url (te_hmac env secret payload) then None
          else te_parse env (te_utf8 env (base64ToBytes payload))
      | _ \<Rightarrow> None))"

section \<open>Login, recovery and OAuth tokens\<close>

record session =
  ses_identity_id :: string
  ses_email :: string
  ses_exp :: int

definition issueIdentitySession :: "token_env \<Rightarrow> string \<Rightarrow> string \<Rightarrow> string \<Rightarrow> timestamp \<Rightarrow> string" where
  "issueIdentitySession env secret i e now =
     signPayload env secret
       [(''identityId'', JStr i), (''email'', JStr (lower (trim e))), (''exp'', JNum (now + SESSION_TTL_MS))]"

definition verifyIdentitySession :: "token_env \<Rightarrow> string \<Rightarrow> string option \<Rightarrow> timestamp \<Rightarrow> session option" where
  "verifyIdentitySession env secret token now =
     (case verifyPayload env secret token of
        None \<Rightarrow> None
      | Some p \<Rightarrow>
          (case num_member p ''exp'' of
             None \<Rightarrow> None
           | Some e \<Rightarrow>
               if \<not> truthy (str_member p ''identityId'') \<or> \<not> has_at (str_member p ''email'') then None
               else if e < now then None
               else Some \<lparr>ses_identity_id = the (str_member p ''identityId''), ses_email = the (str_member p ''email''),
                          ses_exp = e\<rparr>))"

definition issueOAuthState :: "token_env \<Rightarrow> string \<Rightarrow> string \<Rightarrow> timestamp \<Rightarrow> string" where
  "issueOAuthState env secret nonce now =
     signPayload env secret [(''nonce'', JStr nonce), (''exp'', JNum (now + OAUTH_TTL_MS))]"

definition verifyOAuthState :: "token_env \<Rightarrow> string \<Rightarrow> string option \<Rightarrow> timestamp \<Rightarrow> bool" where
  "verifyOAuthState env secret token now =
     (case verifyPayload env secret token of
        None \<Rightarrow> False
      | Some p \<Rightarrow> truthy (str_member p ''nonce'') \<and> opt_ex (\<lambda>e. now \<le> e) (num_member p ''exp''))"

datatype recover_kind = Rk_Yubikey | Rk_Eoa

record recover_session =
  rs_identity_id :: string
  rs_email :: string
  rs_kind :: recover_kind
  rs_method_id :: string
  rs_credential_id :: "string option"
  rs_qx :: "string option"
  rs_qy :: "string option"
  rs_eoa :: "string option"

definition recover_kind_text :: "recover_kind \<Rightarrow> string" where
  "recover_kind_text k = (case k of Rk_Yubikey \<Rightarrow> ''yubikey'' | Rk_Eoa \<Rightarrow> ''eoa'')"

definition optional_member :: "string \<Rightarrow> string option \<Rightarrow> json_object" where
  "optional_member k x = (case x of None \<Rightarrow> [] | Some s \<Rightarrow> [(k, JStr s)])"

definition issueIdentityRecoverSession :: "token_env \<Rightarrow> string \<Rightarrow> recover_session \<Rightarrow> timestamp \<Rightarrow> string" where
  "issueIdentityRecoverSession env secret p now =
     signPayload env secret
       ([(''identityId'', JStr (rs_identity_id p)), (''email'', JStr (rs_email p)),
         (''kind'', JStr (recover_kind_text (rs_kind p))), (''methodId'', JStr (rs_method_id p))] @
        optional_member ''credentialId'' (rs_credential_id p) @ optional_member ''qx'' (rs_qx p) @
        optional_member ''qy'' (rs_qy p) @ optional_member ''eoa'' (rs_eoa p) @
        [(''exp'', JNum (now + RECOVER_TTL_MS))])"

definition verifyIdentityRecoverSession :: "token_env \<Rightarrow> string \<Rightarrow> string option \<Rightarrow> timestamp \<Rightarrow> recover_session option" where
  "verifyIdentityRecoverSession env secret token now =
     (case verifyPayload env secret token of
        None \<Rightarrow> None
      | Some p \<Rightarrow>
          (let kind = (if str_member p ''kind'' = Some ''yubikey'' then Some Rk_Yubikey
                       else if str_member p ''kind'' = Some ''eoa'' then Some Rk_Eoa else None) in
           if \<not> truthy (str_member p ''identityId'') \<or> \<not> has_at (str_member p ''email'') \<or> num_member p ''exp'' = None then None
           else if kind = None then None
           else if \<not> truthy (str_member p ''methodId'') \<or> opt_ex (\<lambda>e. e < now) (num_member p ''exp'') then None
           else Some \<lparr>rs_identity_id = the (str_member p ''identityId''), rs_email = the (str_member p ''email''),
                      rs_kind = the kind, rs_method_id = the (str_member p ''methodId''),
                      rs_credential_id = str_member p ''credentialId'', rs_qx = str_member p ''qx'',
                      rs_qy = str_member p ''qy'', rs_eoa = str_member p ''eoa''\<rparr>))"

section \<open>The token of the e-mail recovery\<close>

definition issueRecoveryEmailSession :: "token_env \<Rightarrow> string \<Rightarrow> string \<Rightarrow> timestamp \<Rightarrow> string" where
  "issueRecoveryEmailSession env secret e now =
     (let payload = bytes_to_base64url (te_utf8_bytes env (te_stringify env
            [(''email'', JStr (lower (trim e))), (''exp'', JNum (now + 15 * 60 * 1000))]));
          sig = bytes_to_base64url (te_hmac env secret payload) in
      payload @ ''.'' @ sig)"

definition verifyRecoveryEmailSession :: "token_env \<Rightarrow> string \<Rightarrow> string option \<Rightarrow> timestamp \<Rightarrow> string option" where
  "verifyRecoveryEmailSession env secret token now =
     (if \<not> truthy token \<or> secret = '''' then None
      else (case split_on (CHR ''.'') (the token) of
        payload # sig # _ \<Rightarrow>
          if payload = '''' \<or> sig = '''' then None
          else if sig \<noteq> bytes_to_base64url (te_hmac env secret payload) then None
          else (case te_parse env (te_utf8 env (base64ToBytes payload)) of
            None \<Rightarrow> None
          | Some p \<Rightarrow>
              if \<not> has_at (str_member p ''email'') \<or> opt_all (\<lambda>e. e < now) (num_member p ''exp'') then None
              else str_member p ''email'')
      | _ \<Rightarrow> None))"

definition emailLookupOtpWallet :: "string \<Rightarrow> address" where
  "emailLookupOtpWallet e = ''email:'' @ lower (trim e)"

section \<open>Cookies\<close>

definition IDENTITY_COOKIE_NAME :: string where
  "IDENTITY_COOKIE_NAME = ''tc_identity''"

definition IDENTITY_RECOVER_COOKIE_NAME :: string where
  "IDENTITY_RECOVER_COOKIE_NAME = ''tc_identity_recover''"

definition cookie_part :: "token_env \<Rightarrow> (string \<rightharpoonup> string) \<Rightarrow> string \<Rightarrow> (string \<rightharpoonup> string)" where
  "cookie_part env out part =
     (case index_of part ''='' of
        None \<Rightarrow> out
      | Some idx \<Rightarrow>
          (let key = trim (take idx part); value = trim (drop (idx + 1) part) in
           if key = '''' then out else out(key \<mapsto> nullish (te_decode_uri env value) value)))"

definition parseCookieHeader :: "token_env \<Rightarrow> string option \<Rightarrow> (string \<rightharpoonup> string)" where
  "parseCookieHeader env h =
     (if \<not> truthy h then Map.empty
      else foldl (cookie_part env) Map.empty (split_on (CHR '';'') (the h)))"

definition cookieString :: "token_env \<Rightarrow> (int \<Rightarrow> string) \<Rightarrow> string \<Rightarrow> string \<Rightarrow> int \<Rightarrow> bool \<Rightarrow> string list" where
  "cookieString env show_int name value max_age secure =
     [name @ ''='' @ te_encode_uri env value, ''Path=/'', ''HttpOnly'', ''SameSite=Lax'',
      ''Max-Age='' @ show_int (max 0 max_age)] @ (if secure then [''Secure''] else [])"

definition readIdentitySessionFromRequest :: "token_env \<Rightarrow> string \<Rightarrow> string option \<Rightarrow> timestamp \<Rightarrow> session option" where
  "readIdentitySessionFromRequest env secret cookie_header now =
     verifyIdentitySession env secret (parseCookieHeader env cookie_header IDENTITY_COOKIE_NAME) now"

definition readIdentityRecoverSessionFromRequest :: "token_env \<Rightarrow> string \<Rightarrow> string option \<Rightarrow> timestamp \<Rightarrow> recover_session option" where
  "readIdentityRecoverSessionFromRequest env secret cookie_header now =
     verifyIdentityRecoverSession env secret (parseCookieHeader env cookie_header IDENTITY_RECOVER_COOKIE_NAME) now"

section \<open>API keys\<close>

definition readBearerOrApiKey :: "string option \<Rightarrow> string option \<Rightarrow> string option" where
  "readBearerOrApiKey api_key authorization =
     (case api_key of
        Some k \<Rightarrow> Some k
      | None \<Rightarrow> if opt_ex (\<lambda>a. starts_with a ''Bearer '') authorization
                then map_option (drop (length ''Bearer '')) authorization else None)"

definition requireApiKey :: "string option \<Rightarrow> string option \<Rightarrow> string \<Rightarrow> string \<Rightarrow> unit http_error + unit" where
  "requireApiKey api_key authorization expected label =
     (if expected = '''' then Inl (Http_Error 503 (label @ '' is not configured'') None)
      else (let supplied = readBearerOrApiKey api_key authorization in
            if \<not> truthy supplied \<or> supplied \<noteq> Some expected then Inl (Http_Error 401 ''Unauthorized'' None)
            else Inr ()))"

section \<open>Tokens verify\<close>

text \<open>What is used of the parameters: JSON and UTF-8 give one object back, bytes are bytes.\<close>

definition token_codec_ok :: "token_env \<Rightarrow> string \<Rightarrow> json_object \<Rightarrow> bool" where
  "token_codec_ok env secret p =
     (let text = te_stringify env p; bytes = te_utf8_bytes env text in
      are_bytes bytes \<and> bytes \<noteq> [] \<and> te_utf8 env bytes = text \<and> te_parse env text = Some p \<and>
      are_bytes (te_hmac env secret (bytes_to_base64url bytes)) \<and> te_hmac env secret (bytes_to_base64url bytes) \<noteq> [])"

lemma base64url_no_dot: "are_bytes bs \<Longrightarrow> CHR ''.'' \<notin> set (bytes_to_base64url bs)"
proof
  assume bs: "are_bytes bs" and "CHR ''.'' \<in> set (bytes_to_base64url bs)"
  then obtain n where n: "n \<in> set (bytes_to_sextets bs)" "url_char (b64_char n) = CHR ''.''"
    by (auto simp: base64url_body)
  with sextets_small [OF bs] have "b64_value (CHR ''.'') = Some n"
    using sextet_values by (metis comp_apply)
  then show False by (simp add: b64_value_def)
qed

lemma base64url_nonempty: "are_bytes bs \<Longrightarrow> bs \<noteq> [] \<Longrightarrow> bytes_to_base64url bs \<noteq> ''''"
  by (simp add: base64url_body sextets_nonempty)

lemma split_token: "CHR ''.'' \<notin> set a \<Longrightarrow> CHR ''.'' \<notin> set b \<Longrightarrow> split_on (CHR ''.'') (a @ ''.'' @ b) = [a, b]"
  by (simp add: split_on_line split_on_one)

lemma verify_signed:
  assumes "token_codec_ok env secret p" "secret \<noteq> ''''"
  shows "verifyPayload env secret (Some (signPayload env secret p)) = Some p"
proof -
  let ?bytes = "te_utf8_bytes env (te_stringify env p)"
  let ?enc = "bytes_to_base64url ?bytes"
  from assms(1) have ok: "are_bytes ?bytes" "?bytes \<noteq> []" "te_utf8 env ?bytes = te_stringify env p"
      "te_parse env (te_stringify env p) = Some p" "are_bytes (te_hmac env secret ?enc)" "te_hmac env secret ?enc \<noteq> []"
    by (simp_all add: token_codec_ok_def Let_def)
  have "split_on (CHR ''.'') (signPayload env secret p) = [?enc, bytes_to_base64url (te_hmac env secret ?enc)]"
    unfolding signPayload_def Let_def using ok by (intro split_token base64url_no_dot)
  with ok assms(2) show ?thesis
    by (simp add: verifyPayload_def signPayload_def Let_def base64url_nonempty base64url_roundtrip)
qed

lemma trim_no_spaces: "\<forall>c \<in> set s. \<not> is_space c \<Longrightarrow> trim s = s"
  by (rule trim_no_space)

lemma parse_one_cookie:
  assumes "CHR '';'' \<notin> set v" "\<forall>c \<in> set v. \<not> is_space c" "te_decode_uri env v = Some t"
  shows "parseCookieHeader env (Some (IDENTITY_COOKIE_NAME @ ''='' @ v)) = [IDENTITY_COOKIE_NAME \<mapsto> t]"
proof -
  let ?h = "IDENTITY_COOKIE_NAME @ ''='' @ v"
  have "CHR '';'' \<notin> set ?h" using assms(1) by (simp add: IDENTITY_COOKIE_NAME_def)
  then have "parseCookieHeader env (Some ?h) = cookie_part env Map.empty ?h"
    by (simp add: parseCookieHeader_def split_on_one IDENTITY_COOKIE_NAME_def)
  moreover have "index_of ?h ''='' = Some 11" by (simp add: IDENTITY_COOKIE_NAME_def starts_with_def)
  moreover have "take 11 ?h = IDENTITY_COOKIE_NAME" "drop (11 + 1) ?h = v" "trim IDENTITY_COOKIE_NAME = IDENTITY_COOKIE_NAME"
      "IDENTITY_COOKIE_NAME \<noteq> ''''"
    by (simp_all add: IDENTITY_COOKIE_NAME_def trim_def is_space_def)
  ultimately show ?thesis using trim_no_space [OF assms(2)] assms(3) by (simp add: cookie_part_def Let_def)
qed

text \<open>
  A login survives the trip through the cookie. The token issued for an identity, sent back in
  the cookie header, is read as exactly that identity and its normalised address until thirty
  days have passed, and not after.
\<close>

theorem login_cookie_roundtrip:
  assumes "token_codec_ok env secret [(''identityId'', JStr i), (''email'', JStr (lower (trim e))), (''exp'', JNum (now + SESSION_TTL_MS))]"
    and "secret \<noteq> ''''" and "i \<noteq> ''''" and "CHR ''@'' \<in> set (lower (trim e))"
    and "v = te_encode_uri env (issueIdentitySession env secret i e now)"
    and "te_decode_uri env v = Some (issueIdentitySession env secret i e now)"
    and "CHR '';'' \<notin> set v" and "\<forall>c \<in> set v. \<not> is_space c"
  shows "readIdentitySessionFromRequest env secret (Some (IDENTITY_COOKIE_NAME @ ''='' @ v)) now' =
    (if now' \<le> now + SESSION_TTL_MS
     then Some \<lparr>ses_identity_id = i, ses_email = lower (trim e), ses_exp = now + SESSION_TTL_MS\<rparr> else None)"
  unfolding readIdentitySessionFromRequest_def parse_one_cookie [OF assms(7,8,6)]
  using verify_signed [OF assms(1,2)] assms(3,4)
  by (simp add: verifyIdentitySession_def issueIdentitySession_def num_member_def str_member_def has_at_def)

text \<open>
  A recovery token is a login. The token that proving a YubiKey or an EOA earns is signed with
  the same secret and the login check asks for no kind, so whoever puts it into the login cookie
  is logged in as that identity until it expires.
\<close>

theorem recover_token_is_login:
  assumes "token_codec_ok env secret
      ([(''identityId'', JStr (rs_identity_id p)), (''email'', JStr (rs_email p)),
        (''kind'', JStr (recover_kind_text (rs_kind p))), (''methodId'', JStr (rs_method_id p))] @
       optional_member ''credentialId'' (rs_credential_id p) @ optional_member ''qx'' (rs_qx p) @
       optional_member ''qy'' (rs_qy p) @ optional_member ''eoa'' (rs_eoa p) @ [(''exp'', JNum (now + RECOVER_TTL_MS))])"
    and "secret \<noteq> ''''" and "rs_identity_id p \<noteq> ''''" and "CHR ''@'' \<in> set (rs_email p)" and "rs_method_id p \<noteq> ''''"
    and "now' \<le> now + RECOVER_TTL_MS"
  shows "verifyIdentitySession env secret (Some (issueIdentityRecoverSession env secret p now)) now' =
      Some \<lparr>ses_identity_id = rs_identity_id p, ses_email = rs_email p, ses_exp = now + RECOVER_TTL_MS\<rparr> \<and>
    verifyIdentityRecoverSession env secret (Some (issueIdentityRecoverSession env secret p now)) now' = Some p"
proof -
  note v = verify_signed [OF assms(1,2)]
  have opt: "map_of (optional_member k x) = (case x of None \<Rightarrow> Map.empty | Some s \<Rightarrow> [k \<mapsto> JStr s])" for k x
    by (simp add: optional_member_def split: option.split)
  have kind: "recover_kind_text k = ''yubikey'' \<longleftrightarrow> k = Rk_Yubikey" "recover_kind_text k = ''eoa'' \<longleftrightarrow> k = Rk_Eoa" for k
    by (cases k; simp add: recover_kind_text_def)+
  show ?thesis
    unfolding issueIdentityRecoverSession_def verifyIdentitySession_def verifyIdentityRecoverSession_def v
    using assms(3-6) by (cases "rs_kind p")
      (auto simp: num_member_def str_member_def has_at_def map_add_def opt kind Let_def truthy_def split: option.split)
qed

definition demo_tokens :: "json_object \<Rightarrow> token_env" where
  "demo_tokens p =
     \<lparr>te_stringify = (\<lambda>_. ''x''), te_parse = (\<lambda>_. Some p), te_hmac = (\<lambda>_ _. [7]), te_utf8_bytes = (\<lambda>_. [1]),
      te_utf8 = (\<lambda>_. ''x''), te_encode_uri = (\<lambda>s. s), te_decode_uri = Some\<rparr>"

lemma demo_tokens_ok: "token_codec_ok (demo_tokens p) secret p"
  by (simp add: token_codec_ok_def demo_tokens_def are_bytes_def)

lemma demo_token: "signPayload (demo_tokens p) secret q = ''AQ.Bw''"
proof -
  have "bytes_to_base64url [1] = ''AQ''" "bytes_to_base64url [7] = ''Bw''" by code_simp+
  then show ?thesis by (simp add: signPayload_def demo_tokens_def)
qed

theorem login_cookie_roundtrip_witness:
  "readIdentitySessionFromRequest
     (demo_tokens [(''identityId'', JStr ''i1''), (''email'', JStr (lower (trim ''A@b''))), (''exp'', JNum (0 + SESSION_TTL_MS))])
     ''s'' (Some (IDENTITY_COOKIE_NAME @ ''='' @ ''AQ.Bw'')) 5 =
   Some \<lparr>ses_identity_id = ''i1'', ses_email = ''a@b'', ses_exp = 2592000000\<rparr>"
proof -
  let ?env = "demo_tokens [(''identityId'', JStr ''i1''), (''email'', JStr (lower (trim ''A@b''))), (''exp'', JNum (0 + SESSION_TTL_MS))]"
  have t: "issueIdentitySession ?env ''s'' ''i1'' ''A@b'' 0 = ''AQ.Bw''" by (simp add: issueIdentitySession_def demo_token)
  have at: "CHR ''@'' \<in> set (lower (trim ''A@b''))" "lower (trim ''A@b'') = ''a@b''" by code_simp+
  have uri: "te_decode_uri ?env x = Some x" "te_encode_uri ?env x = x" for x by (simp_all add: demo_tokens_def)
  have chars: "CHR '';'' \<notin> set ''AQ.Bw''" "\<forall>c \<in> set ''AQ.Bw''. \<not> is_space c" by (simp_all add: is_space_def)
  show ?thesis
    using login_cookie_roundtrip [OF demo_tokens_ok _ _ at(1), where secret = "''s''" and v = "''AQ.Bw''" and i = "''i1''"
      and now = 0 and now' = 5] uri chars
    unfolding t by (simp add: at(2) SESSION_TTL_MS_def)
qed

theorem recover_token_is_login_witness:
  "\<exists>env t. verifyIdentitySession env ''s'' (Some t) 5 = Some \<lparr>ses_identity_id = ''i1'', ses_email = ''a@b'', ses_exp = RECOVER_TTL_MS\<rparr> \<and>
     verifyIdentityRecoverSession env ''s'' (Some t) 5 \<noteq> None"
proof -
  let ?p = "\<lparr>rs_identity_id = ''i1'', rs_email = ''a@b'', rs_kind = Rk_Yubikey, rs_method_id = ''m1'', rs_credential_id = Some ''c'',
    rs_qx = None, rs_qy = None, rs_eoa = None\<rparr>"
  from recover_token_is_login [OF demo_tokens_ok, where secret = "''s''" and p = ?p and now = 0 and now' = 5] show ?thesis
    by (intro exI conjI) (auto simp: RECOVER_TTL_MS_def)
qed

end
