(* ===== verification/WebAuthnProps.thy ===== *)
theory WebAuthnProps
  imports WebAuthn
begin

text \<open>The properties of the passkey assertions: what an accepted one binds, and the two signature formats.\<close>

section \<open>Challenges\<close>

lemma url_char_idem [simp]: "url_char (url_char c) = url_char c"
  by (simp add: url_char_def)

lemma strip_padding_idem: "map url_char s = s \<Longrightarrow> strip_padding (strip_padding s) = strip_padding s"
proof -
  have "dropWhile P (dropWhile P xs) = dropWhile P xs" for P and xs :: "char list" by (induction xs) auto
  then show ?thesis by (simp add: strip_padding_def)
qed

lemma map_url_strip: "map url_char (strip_padding (map url_char s)) = strip_padding (map url_char s)"
proof -
  have "set (strip_padding (map url_char s)) \<subseteq> set (map url_char s)"
    unfolding strip_padding_def using set_dropWhileD by fastforce
  then show ?thesis by (intro map_idI) (auto simp: subset_iff)
qed

lemma normalize_challenge [simp]: "normalizeB64Url (challengeToBase64Url bs) = challengeToBase64Url bs"
  using strip_padding_idem [of "map url_char (bytesToBase64 bs)"] map_url_strip [of "bytesToBase64 bs"]
  by (simp add: normalizeB64Url_def challengeToBase64Url_def)

lemma challenge_inject:
  "are_bytes bs \<Longrightarrow> are_bytes bs' \<Longrightarrow> challengeToBase64Url bs = challengeToBase64Url bs' \<longleftrightarrow> bs = bs'"
  using base64url_roundtrip unfolding challengeToBase64Url_def bytes_to_base64url_def by metis

lemma accepted_assertion:
  assumes "verifyWebAuthnAssertion env a opts = Inr ()"
  obtains parts cd c og key where "parseAssertionJson env a = Inr parts"
    "we_json env (ap_client_data_json parts) = Some cd" "cd_type cd = Some ''webauthn.get''"
    "cd_challenge cd = Some c" "challengesEqual c (vo_challenge opts)"
    "cd_origin cd = Some og" "originAllowed env og (vo_rp_id opts) (vo_origins opts)"
    "p256PublicKeyFromCoords (vo_owner_qx opts) (vo_owner_qy opts) = Inr key"
    "we_verify env key (hex_buffer (strip0x (ap_authenticator_data parts)) @
        we_sha256 env (we_utf8_bytes env (ap_client_data_json parts)))
      (hex_buffer (strip0x (ap_r parts)) @ hex_buffer (strip0x (ap_s parts))) = Some True"
  using assms unfolding verifyWebAuthnAssertion_def truthy_def Let_def
  by (auto split: sum.splits option.splits if_splits)

text \<open>
  C10. An assertion serves one challenge only. If one assertion is accepted for two challenges the
  server has drawn, they are the same bytes, whatever keys, sites and origins the two checks
  named.
\<close>

theorem assertion_for_one_challenge:
  assumes "verifyWebAuthnAssertion env a opts = Inr ()" and "verifyWebAuthnAssertion env a opts' = Inr ()"
    and "vo_challenge opts = challengeToBase64Url bs" and "vo_challenge opts' = challengeToBase64Url bs'"
    and "are_bytes bs" and "are_bytes bs'"
  shows "bs = bs'"
proof -
  from assms(1) obtain parts cd c where 1: "parseAssertionJson env a = Inr parts"
      "we_json env (ap_client_data_json parts) = Some cd" "cd_challenge cd = Some c" "challengesEqual c (vo_challenge opts)"
    by (rule accepted_assertion)
  from assms(2) obtain parts' cd' c' where 2: "parseAssertionJson env a = Inr parts'"
      "we_json env (ap_client_data_json parts') = Some cd'" "cd_challenge cd' = Some c'" "challengesEqual c' (vo_challenge opts')"
    by (rule accepted_assertion)
  from 1 2 have "c' = c" by simp
  with 1(4) 2(4) assms(3,4) have "challengeToBase64Url bs = challengeToBase64Url bs'"
    by (simp add: challengesEqual_def)
  with challenge_inject [OF assms(5,6)] show ?thesis by simp
qed

section \<open>Signature formats\<close>

lemma hex_buffer_text: "are_bytes bs \<Longrightarrow> hex_buffer (hex_text bs) = bs"
proof (induction bs)
  case (Cons b bs)
  then have "b div 16 < 16" "b mod 16 < 16" by (simp_all add: are_bytes_def less_mult_imp_div_less)
  moreover have "16 * (b div 16) + b mod 16 = b" by simp
  ultimately show ?case using Cons by (simp add: hex_text_def bytes_to_hex_def are_bytes_def hex_digit_values)
qed (simp add: hex_text_def bytes_to_hex_def)

lemma bytes_to_hex_text: "bytes_to_hex bs = ''0x'' @ hex_text bs"
  by (simp add: hex_text_def bytes_to_hex_def)

lemma strip0x_hex [simp]: "strip0x (''0x'' @ s) = s" "strip0x (bytes_to_hex bs) = hex_text bs"
  by (simp_all add: strip0x_def starts_with_def bytes_to_hex_def hex_text_def)

text \<open>A number in DER: no leading zeros but one in front of a high bit.\<close>

definition der_int :: "nat list \<Rightarrow> nat list" where
  "der_int bs =
     (let t = dropWhile (\<lambda>b. b = 0) bs in if t = [] then [0] else if 128 \<le> hd t then 0 # t else t)"

definition der_signature :: "nat list \<Rightarrow> nat list \<Rightarrow> nat list" where
  "der_signature r s =
     (let a = der_int r; b = der_int s in
      [48, 4 + length a + length b] @ [2, length a] @ a @ [2, length b] @ b)"

lemma pad32_der_int:
  assumes "length bs = 32"
  shows "pad32 (der_int bs) = Inr bs"
proof -
  let ?t = "dropWhile (\<lambda>b. b = 0) bs"
  have zeros: "takeWhile (\<lambda>b. b = 0) bs = replicate (length (takeWhile (\<lambda>b. b = 0) bs)) 0"
    by (rule replicate_eqI [symmetric, THEN sym]) (auto dest: set_takeWhileD)
  have split: "takeWhile (\<lambda>b. b = 0) bs @ ?t = bs" by simp
  have len: "length (takeWhile (\<lambda>b. b = 0) bs) + length ?t = 32"
    using assms split by (metis length_append)
  then have pad: "replicate (32 - length ?t) 0 @ ?t = bs"
    using zeros split by (metis add_diff_cancel_right')
  show ?thesis
  proof (cases "?t = []")
    case True
    with pad show ?thesis by (simp add: der_int_def pad32_def numeral_eq_Suc replicate_append_same [symmetric])
  next
    case False
    show ?thesis
    proof (cases "128 \<le> hd ?t")
      case True
      have "replicate (32 - Suc (length ?t)) 0 @ 0 # ?t = bs" if "length ?t < 32"
        using that pad by (simp add: Suc_diff_Suc [symmetric] replicate_append_same [symmetric])
      with True False len pad show ?thesis
        by (cases "length ?t = 32") (auto simp: der_int_def pad32_def byte_at_def Let_def)
    next
      case small: False
      with False len pad show ?thesis
        by (cases "length ?t = 32") (auto simp: der_int_def pad32_def Let_def)
    qed
  qed
qed

lemma der_numbers_signature: "der_numbers (der_signature r s) = Inr (der_int r, der_int s)"
  by (simp add: der_numbers_def der_signature_def byte_at_def slice_def Let_def nth_append eval_nat_numeral)

text \<open>
  The two signature formats are read alike. The DER encoding of two 32-byte numbers (unless it
  happens to be 64 bytes long, which the code takes for the raw form) and their plain
  concatenation both give the server back exactly these bytes, and the wallet encoder the same
  first number and the same second one up to its sign.
\<close>

theorem es256_forms_agree:
  assumes "are_bytes r" "are_bytes s" "length r = 32" "length s = 32"
    and "sig = r @ s \<or> sig = der_signature r s \<and> length sig \<noteq> 64"
  shows "parseEs256 sig = Inr (bytes_to_hex r, bytes_to_hex s) \<and>
    hex_buffer (strip0x (bytes_to_hex r)) @ hex_buffer (strip0x (bytes_to_hex s)) = r @ s \<and>
    parseEs256Signature sig = Inr (normalizeP256Signature (bytes_to_hex r) (bytes_to_hex s))"
proof (intro conjI)
  have raw: "slice (r @ s) 0 32 = r" "slice (r @ s) 32 64 = s" using assms(3,4) by (simp_all add: slice_def)
  show "parseEs256 sig = Inr (bytes_to_hex r, bytes_to_hex s)"
    using assms(3-5) raw by (auto simp: parseEs256_def bytes_to_hex_text der_numbers_signature pad32_der_int)
  show "parseEs256Signature sig = Inr (normalizeP256Signature (bytes_to_hex r) (bytes_to_hex s))"
    using assms(3-5) raw by (auto simp: parseEs256Signature_def der_numbers_signature pad32_der_int)
qed (use assms in \<open>simp add: hex_buffer_text\<close>)

section \<open>The low half of the order\<close>

definition bytes_value :: "nat list \<Rightarrow> int" where
  "bytes_value bs = foldl (\<lambda>a b. 256 * a + int b) 0 bs"

lemma foldl_horner: "foldl (\<lambda>a b. k * a + f b) x bs = k ^ length bs * x + foldl (\<lambda>a b. k * a + f b) (0::int) bs"
proof (induction bs arbitrary: x)
  case (Cons b bs)
  from Cons [of "k * x + f b"] Cons [of "f b"] show ?case by (simp add: algebra_simps)
qed simp

lemma BigInt_hex_bytes: "are_bytes bs \<Longrightarrow> BigInt_hex (bytes_to_hex bs) = bytes_value bs"
proof -
  assume bs: "are_bytes bs"
  have "foldl (\<lambda>a d. 16 * a + int d) x (hex_prefix (hex_text bs)) = foldl (\<lambda>a b. 256 * a + int b) x bs" for x
    using bs
  proof (induction bs arbitrary: x)
    case (Cons b bs)
    then have small: "b div 16 < 16" "b mod 16 < 16" by (simp_all add: are_bytes_def less_mult_imp_div_less)
    have "16 * (16 * x + int (b div 16)) + int (b mod 16) = 256 * x + int b"
      by (simp add: zdiv_int zmod_int)
    with Cons small show ?case
      by (simp add: hex_text_def bytes_to_hex_def are_bytes_def hex_digit_values add.assoc)
  qed (simp add: hex_text_def bytes_to_hex_def)
  then show ?thesis by (simp add: BigInt_hex_def bytes_value_def)
qed

lemma write_bytes_value: "bytes_value (write_bytes i n out) = n mod 256 ^ i * 256 ^ length out + bytes_value out"
proof (induction i arbitrary: n out)
  case (Suc i)
  have "int (nat (and n 255)) = n mod 256"
    using take_bit_eq_mask [of 8 n] take_bit_eq_mod [of 8 n] by (simp add: mask_eq_exp_minus_1)
  moreover have "drop_bit 8 n = n div 256" by (simp add: drop_bit_eq_div)
  moreover have "bytes_value (b # out) = int b * 256 ^ length out + bytes_value out" for b
    using foldl_horner [of 256 int "int b" out] by (simp add: bytes_value_def algebra_simps)
  moreover have "n mod 256 ^ Suc i = n div 256 mod 256 ^ i * 256 + n mod 256"
    by (simp add: zmod_zmult2_eq)
  ultimately show ?case by (simp add: Suc algebra_simps)
qed simp

lemma write_bytes_bytes: "are_bytes out \<Longrightarrow> are_bytes (write_bytes i n out) \<and> length (write_bytes i n out) = i + length out"
proof (induction i arbitrary: n out)
  case (Suc i)
  have "and n 255 \<ge> 0" "and n 255 \<le> 255" by (simp_all add: and_nonnegative_int_iff AND_upper2)
  then have "nat (and n 255) < 256" by linarith
  with Suc show ?case by (auto simp: are_bytes_def)
qed simp

lemma bytes_value_bounds: "are_bytes bs \<Longrightarrow> 0 \<le> bytes_value bs \<and> bytes_value bs < 256 ^ length bs"
proof (induction bs rule: rev_induct)
  case (snoc b bs)
  then show ?case by (auto simp: are_bytes_def bytes_value_def)
qed (simp add: bytes_value_def)

lemma bigIntToBytes32_value:
  assumes "0 \<le> n" "n < 256 ^ 32"
  shows "are_bytes (bigIntToBytes32 n)" "length (bigIntToBytes32 n) = 32" "bytes_value (bigIntToBytes32 n) = n"
  using assms write_bytes_bytes [of "[]" 32 n] write_bytes_value [of 32 n "[]"]
  by (simp_all add: bigIntToBytes32_def are_bytes_def bytes_value_def)

text \<open>
  The wallet encoder always produces a low signature. The second number it emits is 32 bytes
  and at most half the group order; it is the one it was given or its negation, and encoding
  the result again changes nothing.
\<close>

theorem normalized_signature_low:
  assumes "are_bytes s" "length s = 32" "bytes_value s < P256_N" and "normalizeP256Signature r (bytes_to_hex s) = (r', s')"
  shows "\<exists>t. r' = r \<and> s' = bytes_to_hex t \<and> are_bytes t \<and> length t = 32 \<and> bytes_value t \<le> P256_HALF_N \<and>
    (bytes_value t = bytes_value s \<or> bytes_value t + bytes_value s = P256_N) \<and>
    normalizeP256Signature r' s' = (r', s')"
proof (cases "bytes_value s \<le> P256_HALF_N")
  case True
  with assms show ?thesis by (auto simp: normalizeP256Signature_def BigInt_hex_bytes)
next
  case False
  let ?t = "bigIntToBytes32 (P256_N - bytes_value s)"
  have half: "P256_N = 2 * P256_HALF_N + 1" "P256_N < 256 ^ 32" by (simp_all add: P256_N_def P256_HALF_N_def)
  from bytes_value_bounds [OF assms(1)] have "0 \<le> P256_N - bytes_value s" "P256_N - bytes_value s < 256 ^ 32"
    using assms(3) half(2) by simp_all
  note t = bigIntToBytes32_value [OF this]
  have res: "r' = r" "s' = bytes_to_hex ?t"
    using False assms by (simp_all add: normalizeP256Signature_def BigInt_hex_bytes)
  have low: "P256_N - bytes_value s \<le> P256_HALF_N" using False half(1) by linarith
  with t have "normalizeP256Signature r (bytes_to_hex ?t) = (r, bytes_to_hex ?t)"
    by (simp add: normalizeP256Signature_def BigInt_hex_bytes)
  with t low show ?thesis unfolding res by (intro exI [of _ ?t]) simp
qed

section \<open>Witnesses\<close>

definition demo_client_json :: string where
  "demo_client_json = ''{\"type\":\"webauthn.get\",\"challenge\":\"AQID\",\"origin\":\"https://a.b\"}''"

definition demo_webauthn :: webauthn_env where
  "demo_webauthn =
     \<lparr>we_utf8 = (\<lambda>_. ''''), we_utf8_bytes = (\<lambda>s. [length s]),
      we_json = (\<lambda>s. if s = demo_client_json
        then Some \<lparr>cd_type = Some ''webauthn.get'', cd_challenge = Some ''AQID'', cd_origin = Some ''https://a.b''\<rparr> else None),
      we_hostname = (\<lambda>s. if starts_with s ''https://'' then Some (drop 8 s) else None),
      we_sha256 = (\<lambda>bs. bs), we_verify = (\<lambda>key msg sig. Some (sig = replicate 32 200 @ replicate 32 2))\<rparr>"

definition demo_key :: string where
  "demo_key = bytes_to_hex (replicate 32 5)"

definition demo_options :: verify_options where
  "demo_options =
     \<lparr>vo_challenge = challengeToBase64Url [1, 2, 3], vo_rp_id = ''B'', vo_origins = None,
      vo_owner_qx = demo_key, vo_owner_qy = demo_key\<rparr>"

definition demo_assertion :: assertion where
  "demo_assertion =
     \<lparr>as_authenticator_data = ''0x00'', as_client_data_json = demo_client_json,
      as_signature = bytes_to_hex (der_signature (replicate 32 200) (replicate 32 2))\<rparr>"

lemma demo_parts: "\<exists>ti ci. index_of demo_client_json ''\"type\":\"webauthn.get\"'' = Some ti \<and>
    index_of demo_client_json ''\"challenge\":\"'' = Some ci"
  unfolding demo_client_json_def by (simp add: starts_with_def)

lemma demo_looks: "looksLikeUtf8Json demo_client_json"
  unfolding demo_client_json_def looksLikeUtf8Json_def by (simp add: starts_with_def trim_def is_space_def)

lemma are_bytes_replicate: "b < 256 \<Longrightarrow> are_bytes (replicate n b)"
  by (simp add: are_bytes_def list_all_iff)

lemma demo_origin: "originAllowed demo_webauthn ''https://a.b'' ''B'' None"
  by code_simp

lemma demo_assertion_ok: "verifyWebAuthnAssertion demo_webauthn demo_assertion demo_options = Inr ()"
proof -
  have sig: "parseEs256 (decodeToBuffer (as_signature demo_assertion)) =
      Inr (bytes_to_hex (replicate 32 200), bytes_to_hex (replicate 32 2))"
  proof -
    let ?d = "der_signature (replicate 32 200) (replicate 32 2)"
    have d: "are_bytes ?d" "length ?d \<noteq> 64" "are_bytes (replicate 32 200)" "are_bytes (replicate 32 2)" by code_simp+
    have "decodeToBuffer (as_signature demo_assertion) = ?d"
      by (simp only: demo_assertion_def assertion.select_convs decodeToBuffer_def bytes_to_hex_text starts_with_def)
        (simp add: hex_buffer_text [OF d(1)])
    moreover have "parseEs256 ?d = Inr (bytes_to_hex (replicate 32 200), bytes_to_hex (replicate 32 2))"
      using d by (simp del: replicate.simps One_nat_def add: parseEs256_def bytes_to_hex_text der_numbers_signature pad32_der_int)
    ultimately show ?thesis by simp
  qed
  obtain ti ci where "index_of demo_client_json ''\"type\":\"webauthn.get\"'' = Some ti"
      "index_of demo_client_json ''\"challenge\":\"'' = Some ci"
    using demo_parts by blast
  with demo_looks have parts: "parseAssertionJson demo_webauthn demo_assertion = Inr
      \<lparr>ap_r = bytes_to_hex (replicate 32 200), ap_s = bytes_to_hex (replicate 32 2), ap_challenge_index = ci,
       ap_type_index = ti, ap_authenticator_data = decodeToHex ''0x00'', ap_client_data_json = demo_client_json\<rparr>"
    unfolding parseAssertionJson_def Let_def sig by (simp add: demo_assertion_def decodeToUtf8_def)
  have "challengesEqual ''AQID'' (challengeToBase64Url [1, 2, 3])" by code_simp
  with demo_origin show ?thesis
    unfolding verifyWebAuthnAssertion_def parts
    by (simp add: demo_webauthn_def demo_options_def demo_key_def p256PublicKeyFromCoords_def hex_buffer_text are_bytes_replicate Let_def)
qed

theorem assertion_for_one_challenge_witness:
  "\<forall>bs. are_bytes bs \<and> verifyWebAuthnAssertion demo_webauthn demo_assertion (demo_options\<lparr>vo_challenge := challengeToBase64Url bs\<rparr>) = Inr ()
   \<longleftrightarrow> bs = [1, 2, 3]"
proof (intro allI iffI)
  fix bs
  have same: "demo_options\<lparr>vo_challenge := challengeToBase64Url [1, 2, 3]\<rparr> = demo_options" by (simp add: demo_options_def)
  assume bs: "are_bytes bs \<and> verifyWebAuthnAssertion demo_webauthn demo_assertion (demo_options\<lparr>vo_challenge := challengeToBase64Url bs\<rparr>) = Inr ()"
  have "are_bytes [1, 2, 3]" by code_simp
  from assertion_for_one_challenge [OF conjunct2 [OF bs] demo_assertion_ok _ _ conjunct1 [OF bs] this]
  show "bs = [1, 2, 3]" by (simp add: demo_options_def)
next
  fix bs :: "nat list"
  assume "bs = [1, 2, 3]"
  with demo_assertion_ok show "are_bytes bs \<and>
      verifyWebAuthnAssertion demo_webauthn demo_assertion (demo_options\<lparr>vo_challenge := challengeToBase64Url bs\<rparr>) = Inr ()"
    by (simp add: demo_options_def are_bytes_def)
qed

theorem es256_forms_agree_witness:
  "parseEs256 (der_signature (replicate 32 200) (0 # replicate 31 1)) =
   Inr (bytes_to_hex (replicate 32 200), bytes_to_hex (0 # replicate 31 1))"
proof -
  have "are_bytes (replicate 32 200)" "are_bytes (0 # replicate 31 1)" "length (replicate 32 (200::nat)) = 32"
      "length (0 # replicate 31 (1::nat)) = 32" "length (der_signature (replicate 32 200) (0 # replicate 31 1)) \<noteq> 64" by code_simp+
  from es256_forms_agree [OF this(1-4), of "der_signature (replicate 32 200) (0 # replicate 31 1)"] this(5)
  show ?thesis by blast
qed

theorem normalized_signature_low_witness:
  "\<exists>t. snd (normalizeP256Signature ''0x'' (bytes_to_hex (128 # replicate 31 1))) = bytes_to_hex t \<and> bytes_value t \<le> P256_HALF_N"
proof -
  have "are_bytes (128 # replicate 31 1)" "length (128 # replicate 31 1 :: nat list) = 32" "bytes_value (128 # replicate 31 1) < P256_N"
    by code_simp+
  from normalized_signature_low [OF this, of "''0x''"] show ?thesis
    by (metis surjective_pairing)
qed

end
