(* ===== verification/RecoveryTables.thy ===== *)
theory RecoveryTables
  imports WalletAccounts Challenges Leases
begin

text \<open>
  The tables of wallet recovery (commerce/server/db.ts): \<open>wallet_recovery_jobs\<close>, the queue the
  wallet deployer works off, and \<open>wallet_recovery_requests\<close>, the requests of users who lost
  their passkey. A job is the third work queue behind the locale \<open>lease_queue\<close>. The database
  record extends the wallet tables, since a finished job is written to the wallet stream.
\<close>

datatype request_status =
  Rq_Awaiting_Email | Rq_Awaiting_Guardian | Rq_Queued | Rq_On_Chain | Rq_Completed | Rq_Cancelled | Rq_Rejected | Rq_Archived

datatype owner_kind = Ow_Webauthn | Ow_Yubikey | Ow_Eoa

record recovery_job =
  rj_id :: string
  rj_wallet_address :: address
  rj_chain_id :: string
  rj_kind :: job_kind
  rj_new_qx :: "string option"
  rj_new_qy :: "string option"
  rj_cancel_signature :: "string option"
  rj_status :: job_status
  rj_claimed_by :: "string option"
  rj_claimed_until :: "timestamp option"
  rj_version :: int
  rj_tx_hash :: "string option"
  rj_error :: "string option"
  rj_created_at :: timestamp
  rj_updated_at :: timestamp

record recovery_request =
  rr_id :: string
  rr_wallet_address :: address
  rr_email :: string
  rr_new_qx :: string
  rr_new_qy :: string
  rr_credential_id :: string
  rr_device_label :: "string option"
  rr_new_owner_kind :: owner_kind
  rr_new_eoa :: "string option"
  rr_status :: request_status
  rr_email_verified_at :: "timestamp option"
  rr_captcha_ok_at :: "timestamp option"
  rr_guardian_address :: "string option"
  rr_guardian_acted_at :: "timestamp option"
  rr_job_id :: "string option"
  rr_chain_id :: string
  rr_operator_payload :: "string option"
  rr_created_at :: timestamp
  rr_updated_at :: timestamp

record recovery_db = wallet_db +
  recovery_jobs :: "recovery_job list"
  recovery_requests :: "recovery_request list"
  email_otps :: "email_otp list"
  hosted_challenges :: "hosted_challenge list"
  guardian_nonces :: "nonce_row list"
  guardian_sessions :: "guardian_session list"

type_synonym job_result = "recovery_job http_error + recovery_job"

section \<open>Jobs\<close>

definition getWalletRecoveryJob :: "recovery_db \<Rightarrow> string \<Rightarrow> recovery_job option" where
  "getWalletRecoveryJob db i = find_by rj_id i (recovery_jobs db)"

definition new_job :: "string \<Rightarrow> address \<Rightarrow> string \<Rightarrow> job_kind \<Rightarrow> string option \<Rightarrow> string option \<Rightarrow> string option \<Rightarrow> timestamp \<Rightarrow> recovery_job" where
  "new_job i w c k qx qy sig now =
     \<lparr>rj_id = i, rj_wallet_address = lower w, rj_chain_id = c, rj_kind = k, rj_new_qx = qx, rj_new_qy = qy,
      rj_cancel_signature = sig, rj_status = Job_Pending, rj_claimed_by = None, rj_claimed_until = None, rj_version = 1,
      rj_tx_hash = None, rj_error = None, rj_created_at = now, rj_updated_at = now\<rparr>"

text \<open>\<open>i\<close> is the \<open>randomUUID()\<close>; \<open>None\<close> is the exception of a taken primary key.\<close>

definition createWalletRecoveryJob ::
    "recovery_db \<Rightarrow> string \<Rightarrow> address \<Rightarrow> string \<Rightarrow> job_kind \<Rightarrow> string option \<Rightarrow> string option \<Rightarrow> string option \<Rightarrow> timestamp \<Rightarrow>
     (recovery_job \<times> recovery_db) option" where
  "createWalletRecoveryJob db i w c k qx qy sig now =
     (case insert_unique rj_id (new_job i w c k qx qy sig now) (recovery_jobs db) of
        None \<Rightarrow> None
      | Some js \<Rightarrow> Some (new_job i w c k qx qy sig now, db\<lparr>recovery_jobs := js\<rparr>))"

definition listWalletRecoveryJobs :: "recovery_db \<Rightarrow> job_status list \<Rightarrow> string list option \<Rightarrow> recovery_job list" where
  "listWalletRecoveryJobs db statuses only =
     take 100 (order_asc rj_created_at (filter (\<lambda>r. rj_status r \<in> set statuses \<and>
       (only = None \<or> only = Some [] \<or> opt_ex (\<lambda>cs. rj_chain_id r \<in> set cs) only)) (recovery_jobs db)))"

definition listWalletRecoveryJobsForWallet :: "recovery_db \<Rightarrow> address \<Rightarrow> recovery_job list" where
  "listWalletRecoveryJobsForWallet db w =
     take 20 (order_desc rj_created_at (filter (\<lambda>r. rj_wallet_address r = lower w) (recovery_jobs db)))"

definition job_claim_where :: "string \<Rightarrow> int \<Rightarrow> timestamp \<Rightarrow> recovery_job \<Rightarrow> bool" where
  "job_claim_where b v now r =
     (rj_version r = v \<and> (rj_status r = Job_Pending \<or> rj_status r = Job_Claimed) \<and>
      (rj_claimed_by r = None \<or> rj_claimed_by r = Some b \<or> opt_ex (\<lambda>t. t < now) (rj_claimed_until r)))"

definition job_claim_set :: "string \<Rightarrow> timestamp \<Rightarrow> timestamp \<Rightarrow> recovery_job \<Rightarrow> recovery_job" where
  "job_claim_set b until now r =
     r\<lparr>rj_claimed_by := Some b, rj_claimed_until := Some until, rj_status := Job_Claimed,
       rj_version := rj_version r + 1, rj_updated_at := now\<rparr>"

definition claimWalletRecoveryJob ::
    "recovery_db \<Rightarrow> string \<Rightarrow> string \<Rightarrow> int \<Rightarrow> int \<Rightarrow> timestamp \<Rightarrow> job_result \<times> recovery_db" where
  "claimWalletRecoveryJob db i b v leaseMs now =
     (let P = (\<lambda>r. rj_id r = i \<and> job_claim_where (lower b) v now r) in
      if changes P (recovery_jobs db) = 0
      then (Inl (Http_Error 409 ''Recovery job claim conflict'' (getWalletRecoveryJob db i)), db)
      else (let db' = db\<lparr>recovery_jobs := update_where P (job_claim_set (lower b) (now + leaseMs) now) (recovery_jobs db)\<rparr> in
            case getWalletRecoveryJob db' i of
              None \<Rightarrow> (Inl (Http_Error 500 ''null'' None), db')
            | Some r \<Rightarrow> (Inr r, db')))"

record job_track =
  jt_status :: "job_status option"
  jt_tx_hash :: "string option"
  jt_error :: "string option"
  jt_expected_version :: "int option"
  jt_worker :: "string option"

definition job_terminal :: "job_status option \<Rightarrow> bool" where
  "job_terminal st = (st = Some Job_Included \<or> st = Some Job_Failed \<or> st = Some Job_Rejected)"

definition job_releases :: "job_track \<Rightarrow> bool" where
  "job_releases jt = (job_terminal (jt_status jt) \<or> jt_status jt = Some Job_Pending)"

definition job_track_set :: "job_track \<Rightarrow> timestamp \<Rightarrow> recovery_job \<Rightarrow> recovery_job" where
  "job_track_set jt now r =
     r\<lparr>rj_status := nullish (jt_status jt) (rj_status r),
       rj_tx_hash := coalesce (jt_tx_hash jt) (rj_tx_hash r),
       rj_error := coalesce (jt_error jt) (rj_error r),
       rj_version := rj_version r + 1,
       rj_claimed_by := (if job_releases jt then None else rj_claimed_by r),
       rj_claimed_until := (if job_releases jt then None else rj_claimed_until r),
       rj_updated_at := now\<rparr>"

definition job_event :: "recovery_job \<Rightarrow> wallet_event" where
  "job_event r = Recovery_Job_Status (rj_id r) (rj_wallet_address r) (rj_chain_id r) (rj_kind r) (rj_status r) (rj_tx_hash r)"

definition trackWalletRecoveryJob ::
    "recovery_db \<Rightarrow> string \<Rightarrow> job_track \<Rightarrow> timestamp \<Rightarrow> job_result \<times> recovery_db" where
  "trackWalletRecoveryJob db i jt now =
     (case getWalletRecoveryJob db i of
        None \<Rightarrow> (Inl (Http_Error 404 ''Recovery job not found'' None), db)
      | Some current \<Rightarrow>
          if opt_ex (\<lambda>v. rj_version current \<noteq> v) (jt_expected_version jt)
          then (Inl (Http_Error 409 ''Recovery job version conflict'' (Some current)), db)
          else if truthy (jt_worker jt) \<and> truthy (rj_claimed_by current) \<and>
                  rj_claimed_by current \<noteq> Some (lower (the (jt_worker jt)))
          then (Inl (Http_Error 409 ''Recovery job claimed by another worker'' (Some current)), db)
          else (let db1 = db\<lparr>recovery_jobs := update_where (\<lambda>r. rj_id r = i) (job_track_set jt now) (recovery_jobs db)\<rparr> in
                case getWalletRecoveryJob db1 i of
                  None \<Rightarrow> (Inl (Http_Error 500 ''null'' None), db1)
                | Some r \<Rightarrow>
                    (Inr r, if job_terminal (jt_status jt) then walletPersist db1 (job_event r) now else db1)))"

section \<open>Requests\<close>

definition getWalletRecoveryRequest :: "recovery_db \<Rightarrow> string \<Rightarrow> recovery_request option" where
  "getWalletRecoveryRequest db i = find_by rr_id i (recovery_requests db)"

record request_input =
  ri_wallet_address :: address
  ri_email :: string
  ri_new_qx :: string
  ri_new_qy :: string
  ri_credential_id :: string
  ri_device_label :: "string option"
  ri_new_owner_kind :: "owner_kind option"
  ri_new_eoa :: "string option"
  ri_status :: request_status
  ri_email_verified_at :: "timestamp option"
  ri_captcha_ok_at :: "timestamp option"
  ri_chain_id :: string

definition new_request :: "string \<Rightarrow> request_input \<Rightarrow> timestamp \<Rightarrow> recovery_request" where
  "new_request i ri now =
     \<lparr>rr_id = i, rr_wallet_address = lower (ri_wallet_address ri), rr_email = normalizeEmail (ri_email ri),
      rr_new_qx = ri_new_qx ri, rr_new_qy = ri_new_qy ri, rr_credential_id = ri_credential_id ri,
      rr_device_label = ri_device_label ri, rr_new_owner_kind = nullish (ri_new_owner_kind ri) Ow_Webauthn,
      rr_new_eoa = map_option lower (ri_new_eoa ri), rr_status = ri_status ri,
      rr_email_verified_at = ri_email_verified_at ri, rr_captcha_ok_at = ri_captcha_ok_at ri,
      rr_guardian_address = None, rr_guardian_acted_at = None, rr_job_id = None, rr_chain_id = ri_chain_id ri,
      rr_operator_payload = None, rr_created_at = now, rr_updated_at = now\<rparr>"

definition createWalletRecoveryRequest ::
    "recovery_db \<Rightarrow> string \<Rightarrow> request_input \<Rightarrow> timestamp \<Rightarrow> (recovery_request \<times> recovery_db) option" where
  "createWalletRecoveryRequest db i ri now =
     (case insert_unique rr_id (new_request i ri now) (recovery_requests db) of
        None \<Rightarrow> None
      | Some rs \<Rightarrow> Some (new_request i ri now, db\<lparr>recovery_requests := rs\<rparr>))"

definition request_active :: "recovery_request \<Rightarrow> bool" where
  "request_active r =
     (rr_status r = Rq_Awaiting_Email \<or> rr_status r = Rq_Awaiting_Guardian \<or> rr_status r = Rq_Queued \<or> rr_status r = Rq_On_Chain)"

definition getActiveWalletRecoveryRequest :: "recovery_db \<Rightarrow> address \<Rightarrow> recovery_request option" where
  "getActiveWalletRecoveryRequest db w =
     first_row (order_desc rr_created_at
       (filter (\<lambda>r. rr_wallet_address r = lower w \<and> request_active r) (recovery_requests db)))"

definition listWalletRecoveryRequests :: "recovery_db \<Rightarrow> request_status list option \<Rightarrow> recovery_request list" where
  "listWalletRecoveryRequests db statuses =
     take 200 (order_desc rr_created_at
       (if statuses = None \<or> statuses = Some [] then recovery_requests db
        else filter (\<lambda>r. opt_ex (\<lambda>ss. rr_status r \<in> set ss) statuses) (recovery_requests db)))"

record request_patch =
  rp_status :: "request_status option"
  rp_email_verified_at :: "timestamp option"
  rp_guardian_address :: "string option"
  rp_guardian_acted_at :: "timestamp option"
  rp_job_id :: "string option"
  rp_operator_payload :: "string option"

definition no_patch :: request_patch where
  "no_patch =
     \<lparr>rp_status = None, rp_email_verified_at = None, rp_guardian_address = None, rp_guardian_acted_at = None,
      rp_job_id = None, rp_operator_payload = None\<rparr>"

definition request_set :: "request_patch \<Rightarrow> timestamp \<Rightarrow> recovery_request \<Rightarrow> recovery_request" where
  "request_set p now r =
     r\<lparr>rr_status := nullish (rp_status p) (rr_status r),
       rr_email_verified_at := coalesce (rp_email_verified_at p) (rr_email_verified_at r),
       rr_guardian_address := coalesce (rp_guardian_address p) (rr_guardian_address r),
       rr_guardian_acted_at := coalesce (rp_guardian_acted_at p) (rr_guardian_acted_at r),
       rr_job_id := coalesce (rp_job_id p) (rr_job_id r),
       rr_operator_payload := coalesce (rp_operator_payload p) (rr_operator_payload r),
       rr_updated_at := now\<rparr>"

definition updateWalletRecoveryRequest ::
    "recovery_db \<Rightarrow> string \<Rightarrow> request_patch \<Rightarrow> timestamp \<Rightarrow> recovery_request option \<times> recovery_db" where
  "updateWalletRecoveryRequest db i p now =
     (if getWalletRecoveryRequest db i = None then (None, db)
      else (let db' = db\<lparr>recovery_requests := update_where (\<lambda>r. rr_id r = i) (request_set p now) (recovery_requests db)\<rparr> in
            (getWalletRecoveryRequest db' i, db')))"

definition getWalletRecoveryRequestByJobId :: "recovery_db \<Rightarrow> string \<Rightarrow> recovery_request option" where
  "getWalletRecoveryRequestByJobId db j = find_by rr_job_id (Some j) (recovery_requests db)"

section \<open>The queue of jobs\<close>

definition jobs_unique :: "recovery_db \<Rightarrow> bool" where
  "jobs_unique db = unique_on rj_id (recovery_jobs db)"

lemma job_set_id [simp]: "rj_id (job_claim_set b u now r) = rj_id r" "rj_id (job_track_set jt now r) = rj_id r"
  by (simp_all add: job_claim_set_def job_track_set_def)

lemma walletPersist_recovery [simp]:
  "recovery_jobs (walletPersist db ev now) = recovery_jobs db"
  "recovery_requests (walletPersist db ev now) = recovery_requests db"
  "email_otps (walletPersist db ev now) = email_otps db"
  "hosted_challenges (walletPersist db ev now) = hosted_challenges db"
  "guardian_nonces (walletPersist db ev now) = guardian_nonces db"
  "guardian_sessions (walletPersist db ev now) = guardian_sessions db"
  by (simp_all add: walletPersist_def split: option.split)

lemma job_update_lookup:
  "(\<And>r. rj_id (f r) = rj_id r) \<Longrightarrow>
   find_by rj_id j (update_where (\<lambda>r. rj_id r = i \<and> Q r) f js) =
     map_option (\<lambda>r. if j = i \<and> Q r then f r else r) (find_by rj_id j js)"
  by (subst find_by_update_where) (auto intro!: option.map_cong dest: find_by_SomeD)

lemma claimWalletRecoveryJob_eq:
  assumes "jobs_unique db"
  shows "claimWalletRecoveryJob db i b v l now =
    (case getWalletRecoveryJob db i of
       None \<Rightarrow> (Inl (Http_Error 409 ''Recovery job claim conflict'' None), db)
     | Some r \<Rightarrow>
         if job_claim_where (lower b) v now r
         then (Inr (job_claim_set (lower b) (now + l) now r),
               db\<lparr>recovery_jobs := update_where (\<lambda>r. rj_id r = i \<and> job_claim_where (lower b) v now r)
                   (job_claim_set (lower b) (now + l) now) (recovery_jobs db)\<rparr>)
         else (Inl (Http_Error 409 ''Recovery job claim conflict'' (Some r)), db))"
proof -
  have "changes (\<lambda>r. rj_id r = i \<and> job_claim_where (lower b) v now r) (recovery_jobs db) = 0 \<longleftrightarrow>
      (case getWalletRecoveryJob db i of None \<Rightarrow> True | Some r \<Rightarrow> \<not> job_claim_where (lower b) v now r)"
    using changes_key_zero_iff [OF assms [unfolded jobs_unique_def], of i] by (simp add: getWalletRecoveryJob_def)
  then show ?thesis
    using job_update_lookup [of "job_claim_set (lower b) (now + l) now" i i "job_claim_where (lower b) v now" "recovery_jobs db"]
    by (auto simp: claimWalletRecoveryJob_def getWalletRecoveryJob_def Let_def split: option.splits if_splits)
qed

definition job_track_refused :: "recovery_job \<Rightarrow> job_track \<Rightarrow> bool" where
  "job_track_refused r jt =
     (opt_ex (\<lambda>v. rj_version r \<noteq> v) (jt_expected_version jt) \<or>
      (truthy (jt_worker jt) \<and> truthy (rj_claimed_by r) \<and> rj_claimed_by r \<noteq> Some (lower (the (jt_worker jt)))))"

definition job_tracked :: "recovery_db \<Rightarrow> string \<Rightarrow> job_track \<Rightarrow> timestamp \<Rightarrow> recovery_job \<Rightarrow> recovery_db" where
  "job_tracked db i jt now r =
     (let db1 = db\<lparr>recovery_jobs := update_where (\<lambda>r. rj_id r = i) (job_track_set jt now) (recovery_jobs db)\<rparr> in
      if job_terminal (jt_status jt) then walletPersist db1 (job_event (job_track_set jt now r)) now else db1)"

lemma job_tracked_jobs [simp]:
  "recovery_jobs (job_tracked db i jt now r) = update_where (\<lambda>r. rj_id r = i) (job_track_set jt now) (recovery_jobs db)"
  by (simp add: job_tracked_def Let_def)

lemma trackWalletRecoveryJob_eq:
  "trackWalletRecoveryJob db i jt now =
    (case getWalletRecoveryJob db i of
       None \<Rightarrow> (Inl (Http_Error 404 ''Recovery job not found'' None), db)
     | Some r \<Rightarrow>
         if job_track_refused r jt
         then (Inl (Http_Error 409 (if opt_ex (\<lambda>v. rj_version r \<noteq> v) (jt_expected_version jt)
                 then ''Recovery job version conflict'' else ''Recovery job claimed by another worker'') (Some r)), db)
         else (Inr (job_track_set jt now r), job_tracked db i jt now r))"
  using job_update_lookup [of "job_track_set jt now" i i "\<lambda>_. True" "recovery_jobs db"]
  by (auto simp: trackWalletRecoveryJob_def getWalletRecoveryJob_def Let_def job_track_refused_def job_tracked_def split: option.split)

interpretation job_queue: lease_queue
  getWalletRecoveryJob claimWalletRecoveryJob trackWalletRecoveryJob jt_expected_version job_releases
  rj_version rj_claimed_by rj_claimed_until lower "\<lambda>i. i" jobs_unique
proof unfold_locales
  show "j = k \<Longrightarrow> getWalletRecoveryJob db j = getWalletRecoveryJob db k" for j k db by simp
  fix db i b v l now
  assume u: "jobs_unique db"
  note eq = claimWalletRecoveryJob_eq [OF u]
  show "jobs_unique (snd (claimWalletRecoveryJob db i b v l now))"
    using u by (auto simp: eq jobs_unique_def unique_update_where split: option.split)
  {
    fix r' db'
    assume "claimWalletRecoveryJob db i b v l now = (Inr r', db')"
    then obtain r where r: "getWalletRecoveryJob db i = Some r" "job_claim_where (lower b) v now r"
        "r' = job_claim_set (lower b) (now + l) now r"
        "db' = db\<lparr>recovery_jobs := update_where (\<lambda>r. rj_id r = i \<and> job_claim_where (lower b) v now r)
            (job_claim_set (lower b) (now + l) now) (recovery_jobs db)\<rparr>"
      by (auto simp: eq split: option.splits if_splits)
    then show "\<exists>r. getWalletRecoveryJob db i = Some r \<and> rj_version r = v \<and>
        lease_free (rj_claimed_by r) (rj_claimed_until r) (lower b) now \<and>
        getWalletRecoveryJob db' i = Some r' \<and> rj_version r' = v + 1 \<and>
        rj_claimed_by r' = Some (lower b) \<and> rj_claimed_until r' = Some (now + l)"
      by (auto simp: getWalletRecoveryJob_def job_update_lookup job_claim_where_def job_claim_set_def lease_free_def)
    show "j \<noteq> i \<Longrightarrow> getWalletRecoveryJob db' j = getWalletRecoveryJob db j" for j
      using r(4) by (simp add: getWalletRecoveryJob_def job_update_lookup option.map_ident)
  }
  show "claimWalletRecoveryJob db i b v l now = (Inl e, db') \<Longrightarrow> db' = db" for e db'
    by (auto simp: eq split: option.splits if_splits)
next
  fix db i jt now
  assume u: "jobs_unique db"
  show "jobs_unique (snd (trackWalletRecoveryJob db i jt now))"
    using u by (auto simp: trackWalletRecoveryJob_eq jobs_unique_def unique_update_where split: option.split)
  note lk = job_update_lookup [of "job_track_set jt now" _ i "\<lambda>_. True" "recovery_jobs db", simplified]
  {
    fix r' db'
    assume "trackWalletRecoveryJob db i jt now = (Inr r', db')"
    then obtain r where r: "getWalletRecoveryJob db i = Some r" "\<not> job_track_refused r jt" "r' = job_track_set jt now r"
        "db' = job_tracked db i jt now r"
      by (auto simp: trackWalletRecoveryJob_eq split: option.splits if_splits)
    then show "\<exists>r. getWalletRecoveryJob db i = Some r \<and> (\<forall>v. jt_expected_version jt = Some v \<longrightarrow> rj_version r = v) \<and>
        getWalletRecoveryJob db' i = Some r' \<and> rj_version r' = rj_version r + 1 \<and>
        (\<not> job_releases jt \<longrightarrow> rj_claimed_by r' = rj_claimed_by r \<and> rj_claimed_until r' = rj_claimed_until r)"
      by (auto simp: getWalletRecoveryJob_def lk job_track_refused_def job_track_set_def)
    show "j \<noteq> i \<Longrightarrow> getWalletRecoveryJob db' j = getWalletRecoveryJob db j" for j
      using r(4) by (simp add: getWalletRecoveryJob_def lk option.map_ident)
  }
  show "trackWalletRecoveryJob db i jt now = (Inl e, db') \<Longrightarrow> db' = db" for e db'
    by (auto simp: trackWalletRecoveryJob_eq split: option.splits if_splits)
qed

end
