(* ===== verification/RecoveryFlow.thy ===== *)
theory RecoveryFlow
  imports RecoveryTables SessionTokens Nonces Identities
begin

text \<open>
  The routes of hosted recovery (commerce/server/wallet-hosted-recovery.ts), the two job routes of
  wallet-client-routes.ts and the two operator routes of identity-routes.ts. A handler takes the
  fields of the JSON body it reads (\<open>None\<close>: missing, or not of the type the code asks for), the
  random values of the call and the time, and returns the reply and the database. Error replies
  keep status and \<open>error\<close>; of the other replies the records are kept.

  Fields of \<open>recovery_env\<close>: the configuration, and what is asked of other systems (passkey and
  typed-data verification, the captcha and mail services, the chain, SHA-256). \<open>re_get_address\<close> is
  the checksum form of a string \<open>re_is_address\<close> accepts.
\<close>

record wallet_on_chain =
  oc_advanced :: bool
  oc_threshold :: int
  oc_key_record :: "string \<Rightarrow> (string \<times> string) option"
  oc_is_owner :: "string \<Rightarrow> bool"

record recovery_env =
  re_webauthn :: webauthn_env
  re_tokens :: token_env
  re_turnstile_secret :: "string option"
  re_captcha_provider :: "string option"
  re_siteverify :: "string \<Rightarrow> string \<Rightarrow> bool"
  re_rp_id :: string
  re_chain_id :: string
  re_session_secret :: string
  re_is_address :: "string \<Rightarrow> bool"
  re_get_address :: "string \<Rightarrow> string"
  re_sha256 :: "string \<Rightarrow> string"
  re_restore_enabled :: "string \<Rightarrow> bool"
  re_send_failed :: "string \<Rightarrow> nat option"
  re_personal_signer :: "string \<Rightarrow> string \<Rightarrow> string option"
  re_recover_signer :: "address \<Rightarrow> string \<Rightarrow> string \<Rightarrow> string \<Rightarrow> string \<Rightarrow> string option"
  re_on_chain :: "address \<Rightarrow> wallet_on_chain option"
  re_guardian :: "string option"
  re_method_id :: "string \<Rightarrow> nat \<Rightarrow> string \<Rightarrow> string \<Rightarrow> string \<Rightarrow> string"

section \<open>Fields\<close>

definition str :: "string option \<Rightarrow> string option" where
  "str x = or_null (map_option trim x)"

definition normalizeHex32 :: "string option \<Rightarrow> string option" where
  "normalizeHex32 x =
     (if \<not> truthy x then None
      else (let v = lower (trim (the x)) in
            if starts_with v ''0x'' \<and> length v = 66 \<and> list_all (\<lambda>c. hex_value c \<noteq> None) (drop 2 v) then Some v else None))"

definition isZeroPubkey :: "string \<Rightarrow> string \<Rightarrow> bool" where
  "isZeroPubkey qx qy =
     (let zero = (\<lambda>q. let v = lower (trim q) in starts_with v ''0x'' \<and> drop 2 v \<noteq> '''' \<and> list_all (\<lambda>c. c = CHR ''0'') (drop 2 v)) in
      zero qx \<and> zero qy)"

definition ZERO_PUBKEY :: string where
  "ZERO_PUBKEY = ''0x'' @ replicate 64 (CHR ''0'')"

definition hashOtpCode :: "recovery_env \<Rightarrow> string \<Rightarrow> string" where
  "hashOtpCode env code = re_sha256 env (trim code)"

definition verifyCaptcha :: "recovery_env \<Rightarrow> string option \<Rightarrow> bool option" where
  "verifyCaptcha env token =
     (if \<not> truthy (re_turnstile_secret env) then Some True
      else if \<not> truthy token then Some False
      else if re_turnstile_secret env = Some ''test-secret'' \<and> token = Some ''test-pass'' then Some True
      else if truthy (re_captcha_provider env) \<and> re_captcha_provider env \<noteq> Some ''turnstile'' then None
      else Some (re_siteverify env (the (re_turnstile_secret env)) (the token)))"

definition failed :: "nat \<Rightarrow> string \<Rightarrow> 'a wallet_result" where
  "failed status err = Inl (Http_Error status err None)"

text \<open>A guard that has to hold before the rest of a handler runs.\<close>

definition requireCaptcha :: "recovery_env \<Rightarrow> string option \<Rightarrow> (nat \<times> string) option" where
  "requireCaptcha env token =
     (if \<not> truthy (re_turnstile_secret env) then None
      else (case verifyCaptcha env token of
              None \<Rightarrow> Some (500, ''error'')
            | Some ok \<Rightarrow> if ok then None else Some (400, ''captcha_failed'')))"

definition requireEmailRestoreEnabled :: "recovery_env \<Rightarrow> recovery_db \<Rightarrow> string \<Rightarrow> bool" where
  "requireEmailRestoreEnabled env db e =
     (case getIdentityByEmail db e of None \<Rightarrow> True | Some i \<Rightarrow> re_restore_enabled env (idn_identity_id i))"

definition requireWalletRestoreEnabled :: "recovery_env \<Rightarrow> recovery_db \<Rightarrow> address \<Rightarrow> bool" where
  "requireWalletRestoreEnabled env db w =
     (case Option.bind (getWalletAccount db w) wac_identity_id of
        None \<Rightarrow> True
      | Some i \<Rightarrow> i = '''' \<or> re_restore_enabled env i)"

definition assertion_error :: "recovery_env \<Rightarrow> assertion \<Rightarrow> string \<Rightarrow> string \<Rightarrow> string \<Rightarrow> (nat \<times> string) option" where
  "assertion_error env a challenge qx qy =
     (case verifyWebAuthnAssertion (re_webauthn env) a
             \<lparr>vo_challenge = challenge, vo_rp_id = re_rp_id env, vo_origins = None, vo_owner_qx = qx, vo_owner_qy = qy\<rparr> of
        Inr _ \<Rightarrow> None
      | Inl e \<Rightarrow> Some (nullish (je_status e) 500, nullish (je_code e) ''assertion_failed''))"

definition create_otp :: "recovery_env \<Rightarrow> recovery_db \<Rightarrow> string \<Rightarrow> address \<Rightarrow> string \<Rightarrow> otp_purpose \<Rightarrow> string \<Rightarrow> timestamp \<Rightarrow>
    bool \<times> recovery_db" where
  "create_otp env db i w e purpose code now =
     (let (res, t) = createWalletEmailOtp (email_otps db) i w e purpose (hashOtpCode env code) None now in
      (res \<noteq> None, db\<lparr>email_otps := t\<rparr>))"

definition consume_otp :: "recovery_env \<Rightarrow> recovery_db \<Rightarrow> address \<Rightarrow> string \<Rightarrow> otp_purpose \<Rightarrow> string \<Rightarrow> timestamp \<Rightarrow> bool \<times> recovery_db" where
  "consume_otp env db w e purpose code now =
     (let (ok, t) = consumeWalletEmailOtp (email_otps db) w e purpose (hashOtpCode env code) None now in
      (ok, db\<lparr>email_otps := t\<rparr>))"

definition consume_challenge :: "recovery_db \<Rightarrow> string \<Rightarrow> hosted_purpose \<Rightarrow> timestamp \<Rightarrow> hosted_challenge option \<times> recovery_db" where
  "consume_challenge db i purpose now =
     (let (c, t) = consumeHostedRecoveryChallenge (hosted_challenges db) i purpose now in
      (c, db\<lparr>hosted_challenges := t\<rparr>))"

section \<open>Recovery e-mail\<close>

record attach_body =
  ab_captcha :: "string option"
  ab_wallet :: "string option"
  ab_email :: "string option"
  ab_challenge_id :: "string option"
  ab_owner_qx :: "string option"
  ab_owner_qy :: "string option"
  ab_assertion :: "assertion option"

text \<open>Is the key one of the wallet's own devices, or its first owner?\<close>

definition owns_wallet :: "recovery_env \<Rightarrow> recovery_db \<Rightarrow> wallet_account \<Rightarrow> address \<Rightarrow> string \<Rightarrow> string \<Rightarrow> bool" where
  "owns_wallet env db account w qx qy =
     (list_ex (\<lambda>d. wdv_owner_qx d = qx \<and> wdv_owner_qy d = qy) (listWalletDevices db w (re_chain_id env)) \<or>
      (wac_owner_qx account = qx \<and> wac_owner_qy account = qy))"

definition attachEmail ::
    "recovery_env \<Rightarrow> recovery_db \<Rightarrow> attach_body \<Rightarrow> string \<times> string \<Rightarrow> timestamp \<Rightarrow> unit wallet_result \<times> recovery_db" where
  "attachEmail env db body fresh now =
     (case requireCaptcha env (ab_captcha body) of
        Some (st, err) \<Rightarrow> (failed st err, db)
      | None \<Rightarrow>
     (case (str (ab_wallet body), map_option lower (str (ab_email body)), str (ab_challenge_id body),
            normalizeHex32 (str (ab_owner_qx body)), normalizeHex32 (str (ab_owner_qy body))) of
        (Some w, Some e, Some cid, Some qx, Some qy) \<Rightarrow>
          if \<not> re_is_address env w
          then (failed 400 ''walletAddress, email, challengeId, ownerQx, ownerQy required'', db)
          else if CHR ''@'' \<notin> set e then (failed 400 ''invalid_email'', db)
          else (case getWalletAccount db w of
            None \<Rightarrow> (failed 404 ''account_not_found'', db)
          | Some account \<Rightarrow>
              if \<not> owns_wallet env db account w qx qy then (failed 403 ''unknown_owner_device'', db)
              else (case consume_challenge db cid Hc_Attach now of
                (None, db1) \<Rightarrow> (failed 400 ''invalid_or_expired_challenge'', db1)
              | (Some challenge, db1) \<Rightarrow>
                  (case ab_assertion body of
                     None \<Rightarrow> (failed 400 ''assertion required'', db1)
                   | Some a \<Rightarrow>
                       (case assertion_error env a (hch_challenge challenge) qx qy of
                          Some (st, err) \<Rightarrow> (failed st err, db1)
                        | None \<Rightarrow>
                            (let db2 = snd (upsertWalletEmail db1 w e None now);
                                 (ok, db3) = create_otp env db2 (fst fresh) w e Otp_Attach (snd fresh) now in
                             if \<not> ok then (failed 500 ''error'', db3)
                             else (case re_send_failed env e of
                                     Some st \<Rightarrow> (failed st ''email_send_failed'', db3)
                                   | None \<Rightarrow> (Inr (), db3)))))))
      | _ \<Rightarrow> (failed 400 ''walletAddress, email, challengeId, ownerQx, ownerQy required'', db)))"

definition verifyEmailOtp ::
    "recovery_env \<Rightarrow> recovery_db \<Rightarrow> string option \<Rightarrow> string option \<Rightarrow> string option \<Rightarrow> string option \<Rightarrow> timestamp \<Rightarrow>
     wallet_email option wallet_result \<times> recovery_db" where
  "verifyEmailOtp env db captcha wallet email code now =
     (case requireCaptcha env captcha of
        Some (st, err) \<Rightarrow> (failed st err, db)
      | None \<Rightarrow>
     (case (str wallet, map_option lower (str email), str code) of
        (Some w, Some e, Some c) \<Rightarrow>
          (case consume_otp env db w e Otp_Attach c now of
             (False, db1) \<Rightarrow> (failed 400 ''invalid_otp'', db1)
           | (True, db1) \<Rightarrow> (let (r, db2) = markWalletEmailVerified db1 w e now in (Inr r, db2)))
      | _ \<Rightarrow> (failed 400 ''walletAddress, email, code required'', db)))"

section \<open>Looking wallets up by e-mail\<close>

fun recovery_wallets :: "recovery_db \<Rightarrow> string list \<Rightarrow> (address \<times> timestamp) list \<Rightarrow> (address \<times> timestamp \<times> bool) list" where
  "recovery_wallets db seen [] = []"
| "recovery_wallets db seen ((a, t) # rest) =
     (if lower a \<in> set seen then recovery_wallets db seen rest
      else (a, t, getActiveWalletRecoveryRequest db a \<noteq> None) # recovery_wallets db (lower a # seen) rest)"

definition walletsForRecoveryEmail :: "recovery_db \<Rightarrow> string \<Rightarrow> (address \<times> timestamp \<times> bool) list" where
  "walletsForRecoveryEmail db e =
     recovery_wallets db []
       (map (\<lambda>r. (wem_wallet_address r,
                  nullish (map_option wac_created_at (getWalletAccount db (wem_wallet_address r))) (wem_created_at r)))
          (listWalletsByVerifiedEmail db e) @
        (case getIdentityByEmail db e of
           None \<Rightarrow> []
         | Some i \<Rightarrow> map (\<lambda>a. (wac_address a, wac_created_at a)) (listWalletAccountsByIdentityId db (idn_identity_id i))))"

definition startRecoveryEmailLookup ::
    "recovery_env \<Rightarrow> recovery_db \<Rightarrow> string option \<Rightarrow> string option \<Rightarrow> string \<times> string \<Rightarrow> timestamp \<Rightarrow> unit wallet_result \<times> recovery_db" where
  "startRecoveryEmailLookup env db captcha email fresh now =
     (case requireCaptcha env captcha of
        Some (st, err) \<Rightarrow> (failed st err, db)
      | None \<Rightarrow>
     (case map_option lower (str email) of
        None \<Rightarrow> (failed 400 ''invalid_email'', db)
      | Some e \<Rightarrow>
          if CHR ''@'' \<notin> set e then (failed 400 ''invalid_email'', db)
          else if \<not> requireEmailRestoreEnabled env db e then (failed 403 ''restore_disabled'', db)
          else if walletsForRecoveryEmail db e = [] then (Inr (), db)
          else (let (ok, db1) = create_otp env db (fst fresh) (emailLookupOtpWallet e) e Otp_Recover (snd fresh) now in
                if \<not> ok then (failed 500 ''error'', db1)
                else (case re_send_failed env e of
                        Some st \<Rightarrow> (failed st ''email_send_failed'', db1)
                      | None \<Rightarrow> (Inr (), db1)))))"

definition verifyRecoveryEmailLookup ::
    "recovery_env \<Rightarrow> recovery_db \<Rightarrow> string option \<Rightarrow> string option \<Rightarrow> timestamp \<Rightarrow> string wallet_result \<times> recovery_db" where
  "verifyRecoveryEmailLookup env db email code now =
     (case (map_option lower (str email), str code) of
        (Some e, Some c) \<Rightarrow>
          if CHR ''@'' \<notin> set e then (failed 400 ''email and code required'', db)
          else (case consume_otp env db (emailLookupOtpWallet e) e Otp_Recover c now of
            (False, db1) \<Rightarrow> (failed 400 ''invalid_otp'', db1)
          | (True, db1) \<Rightarrow>
              if re_session_secret env = '''' then (failed 503 ''email_session_unavailable'', db1)
              else (Inr (issueRecoveryEmailSession (re_tokens env) (re_session_secret env) e now), db1))
      | _ \<Rightarrow> (failed 400 ''email and code required'', db))"

definition listRecoveryEmailWallets ::
    "recovery_env \<Rightarrow> recovery_db \<Rightarrow> string option \<Rightarrow> timestamp \<Rightarrow> (address \<times> timestamp \<times> bool) list wallet_result" where
  "listRecoveryEmailWallets env db token now =
     (case verifyRecoveryEmailSession (re_tokens env) (re_session_secret env) token now of
        None \<Rightarrow> failed 401 ''invalid_email_session''
      | Some e \<Rightarrow> if e = '''' then failed 401 ''invalid_email_session'' else Inr (walletsForRecoveryEmail db e))"

section \<open>Asking for a recovery\<close>

record eoa_owner =
  eo_existing :: bool
  eo_advanced :: bool
  eo_entity_id :: "string option"
  eo_key_id :: "string option"
  eo_threshold :: int

definition KEY_EOA :: int where
  "KEY_EOA = 2"

definition zero_hash :: string where
  "zero_hash = ''0x'' @ replicate 64 (CHR ''0'')"

text \<open>
  Is the EOA already an owner of the wallet contract? \<open>re_on_chain\<close> is \<open>None\<close> without RPC, without
  code or when the chain cannot be read; its fields have the value the code assumes when
  reading one of them fails.
\<close>

definition lookupEoaOwner :: "recovery_env \<Rightarrow> recovery_db \<Rightarrow> address \<Rightarrow> string \<Rightarrow> eoa_owner" where
  "lookupEoaOwner env db w eoa =
     (let nobody = \<lparr>eo_existing = False, eo_advanced = False, eo_entity_id = None, eo_key_id = None, eo_threshold = 1\<rparr> in
      case re_on_chain env w of
        None \<Rightarrow> nobody
      | Some c \<Rightarrow>
          if oc_advanced c
          then (let none = nobody\<lparr>eo_advanced := True, eo_threshold := oc_threshold c\<rparr> in
                case find (\<lambda>k. wek_key_type k = KEY_EOA \<and> truthy (wek_eoa k) \<and> re_get_address env (the (wek_eoa k)) = eoa)
                    (listWalletEntityKeys db w None) of
                  None \<Rightarrow> none
                | Some k \<Rightarrow>
                    (case oc_key_record c (wek_key_id k) of
                       None \<Rightarrow> none
                     | Some (a, ent) \<Rightarrow>
                         if a \<noteq> '''' \<and> re_get_address env a = eoa \<and> ent \<noteq> zero_hash
                         then \<lparr>eo_existing = True, eo_advanced = True, eo_entity_id = Some ent, eo_key_id = Some (wek_key_id k),
                               eo_threshold = oc_threshold c\<rparr>
                         else none))
          else if oc_is_owner c eoa then nobody\<lparr>eo_existing := True\<rparr>
          else nobody)"

record recover_body =
  rb_captcha :: "string option"
  rb_email_session :: "string option"
  rb_email :: "string option"
  rb_wallets :: "string list option"
  rb_wallet :: "string option"
  rb_owner_kind :: "string option"
  rb_new_owner_kind :: "string option"
  rb_challenge_id :: "string option"
  rb_owner_qx :: "string option"
  rb_new_owner_qx :: "string option"
  rb_owner_qy :: "string option"
  rb_new_owner_qy :: "string option"
  rb_credential_id :: "string option"
  rb_eoa_address :: "string option"
  rb_eoa_signature :: "string option"
  rb_assertion :: "assertion option"
  rb_chain_id :: "string option"
  rb_label :: "string option"

definition parseOwnerKind :: "string option \<Rightarrow> owner_kind" where
  "parseOwnerKind v = (if v = Some ''yubikey'' then Ow_Yubikey else if v = Some ''eoa'' then Ow_Eoa else Ow_Webauthn)"

text \<open>What the loop over the wallets uses of the request.\<close>

record recover_context =
  rc_session_email :: "string option"
  rc_email_input :: "string option"
  rc_owner_kind :: owner_kind
  rc_qx :: string
  rc_qy :: string
  rc_credential_id :: string
  rc_new_eoa :: "string option"
  rc_eoa_signature :: "string option"
  rc_challenge :: string
  rc_chain_id :: string
  rc_label :: string

record recover_result =
  rx_created :: "recovery_request list"
  rx_skipped :: "(address \<times> string) list"
  rx_existing :: "(address \<times> eoa_owner) list"

text \<open>Why the loop passes over a wallet, if it does, or the owner it already has.\<close>

definition wallet_refusal :: "recovery_env \<Rightarrow> recovery_db \<Rightarrow> recover_context \<Rightarrow> address \<Rightarrow> (string + eoa_owner) option" where
  "wallet_refusal env db cx w =
     (if getWalletAccount db w = None then Some (Inl ''account_not_found'')
      else if getActiveWalletRecoveryRequest db w \<noteq> None then Some (Inl ''recovery_already_active'')
      else (let eoa_refusal =
              (if rc_owner_kind cx = Ow_Eoa \<and> truthy (rc_new_eoa cx) \<and> truthy (rc_eoa_signature cx)
               then (case re_recover_signer env w (rc_challenge cx) (the (rc_new_eoa cx)) (rc_chain_id cx) (the (rc_eoa_signature cx)) of
                       None \<Rightarrow> Some (Inl ''eoa_signature_failed'')
                     | Some recovered \<Rightarrow>
                         if Some recovered \<noteq> rc_new_eoa cx then Some (Inl ''eoa_signature_mismatch'')
                         else (let owner = lookupEoaOwner env db w (the (rc_new_eoa cx)) in
                               if eo_existing owner \<and> 1 < eo_threshold owner then Some (Inl ''threshold_not_one'')
                               else if eo_existing owner then Some (Inr owner)
                               else None))
               else None) in
            case eoa_refusal of
              Some r \<Rightarrow> Some r
            | None \<Rightarrow>
                if truthy (rc_session_email cx) \<and>
                   \<not> opt_ex (\<lambda>r. wem_verified_at r \<noteq> None \<and> Some (wem_email r) = rc_session_email cx) (getWalletEmail db w)
                then Some (Inl ''email_mismatch'') else None))"

definition request_email :: "recovery_db \<Rightarrow> recover_context \<Rightarrow> address \<Rightarrow> string option" where
  "request_email db cx w =
     coalesce (rc_session_email cx) (coalesce (rc_email_input cx) (map_option wem_email (getWalletEmail db w)))"

definition email_verified :: "recovery_db \<Rightarrow> recover_context \<Rightarrow> address \<Rightarrow> bool" where
  "email_verified db cx w =
     (truthy (rc_session_email cx) \<or>
      (truthy (request_email db cx w) \<and>
       opt_ex (\<lambda>r. wem_verified_at r \<noteq> None \<and> Some (wem_email r) = request_email db cx w) (getWalletEmail db w)))"

definition needs_code :: "recovery_db \<Rightarrow> recover_context \<Rightarrow> address \<Rightarrow> bool" where
  "needs_code db cx w = (truthy (request_email db cx w) \<and> \<not> email_verified db cx w)"

definition request_of :: "recovery_db \<Rightarrow> recover_context \<Rightarrow> address \<Rightarrow> timestamp \<Rightarrow> request_input" where
  "request_of db cx w now =
     (let e = request_email db cx w in
      \<lparr>ri_wallet_address = w, ri_email = nullish e '''', ri_new_qx = rc_qx cx, ri_new_qy = rc_qy cx,
       ri_credential_id = rc_credential_id cx, ri_device_label = Some (rc_label cx), ri_new_owner_kind = Some (rc_owner_kind cx),
       ri_new_eoa = rc_new_eoa cx,
       ri_status = (if needs_code db cx w then Rq_Awaiting_Email else Rq_Awaiting_Guardian),
       ri_email_verified_at = (if email_verified db cx w \<or> \<not> truthy e then Some now else None),
       ri_captcha_ok_at = Some now, ri_chain_id = rc_chain_id cx\<rparr>)"

text \<open>
  The loop. Each wallet comes with the id of its request, the id of its e-mail code and the
  code. A mail that cannot be sent ends the handler.
\<close>

fun request_loop ::
    "recovery_env \<Rightarrow> recover_context \<Rightarrow> timestamp \<Rightarrow> (address \<times> string \<times> string \<times> string) list \<Rightarrow> recover_result \<Rightarrow>
     recovery_db \<Rightarrow> recover_result wallet_result \<times> recovery_db" where
  "request_loop env cx now [] acc db = (Inr acc, db)"
| "request_loop env cx now ((w, rid, oid, code) # ws) acc db =
     (case wallet_refusal env db cx w of
        Some (Inl err) \<Rightarrow> request_loop env cx now ws (acc\<lparr>rx_skipped := rx_skipped acc @ [(w, err)]\<rparr>) db
      | Some (Inr owner) \<Rightarrow> request_loop env cx now ws (acc\<lparr>rx_existing := rx_existing acc @ [(w, owner)]\<rparr>) db
      | None \<Rightarrow>
          (case createWalletRecoveryRequest db rid (request_of db cx w now) now of
             None \<Rightarrow> (failed 500 ''error'', db)
           | Some (r, db1) \<Rightarrow>
               (let acc1 = acc\<lparr>rx_created := rx_created acc @ [r]\<rparr> in
                if needs_code db cx w
                then (let e = the (request_email db cx w);
                          (ok, db2) = create_otp env db1 oid w e Otp_Recover code now in
                      if \<not> ok then (failed 500 ''error'', db2)
                      else (case re_send_failed env e of
                              Some st \<Rightarrow> (failed st ''email_send_failed'', db2)
                            | None \<Rightarrow> request_loop env cx now ws acc1 db2))
                else request_loop env cx now ws acc1 db1)))"

text \<open>The reply when no request was created.\<close>

definition nothing_created :: "recover_result \<Rightarrow> nat \<Rightarrow> recover_result wallet_result" where
  "nothing_created rx n =
     (let errs = map snd (rx_skipped rx) in
      if rx_existing rx \<noteq> [] then Inr rx
      else (case find (\<lambda>e. e = ''eoa_signature_failed'' \<or> e = ''eoa_signature_mismatch'') errs of
        Some e \<Rightarrow> if n = 1 then failed 400 e
          else if list_all (\<lambda>e. e = ''threshold_not_one'') errs \<and> errs \<noteq> [] then failed 400 ''threshold_not_one''
          else failed 404 (hd errs)
      | None \<Rightarrow>
          if list_all (\<lambda>e. e = ''threshold_not_one'') errs \<and> errs \<noteq> [] then failed 400 ''threshold_not_one''
          else if ''recovery_already_active'' \<in> set errs \<and> n = 1 then failed 409 ''recovery_already_active''
          else failed 404 (if errs = [] then ''account_not_found'' else hd errs)))"

text \<open>The wallets a request is about, in checksum form.\<close>

definition requested_wallets :: "recovery_env \<Rightarrow> recovery_db \<Rightarrow> recover_body \<Rightarrow> string option \<Rightarrow> address list" where
  "requested_wallets env db body session_email =
     (let email_input = map_option lower (str (rb_email body));
          from_array = map (re_get_address env) (filter (re_is_address env) (nullish (rb_wallets body) []));
          single = (if str (rb_wallet body) = None \<and> from_array = [] \<and> truthy email_input \<and> \<not> truthy session_email
                    then map_option wem_wallet_address (findWalletByVerifiedEmail db (the email_input))
                    else str (rb_wallet body)) in
      if from_array \<noteq> [] then from_array
      else if truthy single \<and> re_is_address env (the single) then [re_get_address env (the single)]
      else [])"

text \<open>The new owner a request names, once the challenge is consumed: qx, qy, credential id, EOA and its signature.\<close>

definition new_owner ::
    "recovery_env \<Rightarrow> recover_body \<Rightarrow> string \<Rightarrow> (string \<times> string \<times> string \<times> string option \<times> string option) wallet_result" where
  "new_owner env body challenge =
     (let kind = parseOwnerKind (coalesce (str (rb_owner_kind body)) (str (rb_new_owner_kind body)));
          qx = normalizeHex32 (coalesce (str (rb_owner_qx body)) (str (rb_new_owner_qx body)));
          qy = normalizeHex32 (coalesce (str (rb_owner_qy body)) (str (rb_new_owner_qy body))) in
      if kind = Ow_Eoa
      then (case (str (rb_eoa_address body), str (rb_eoa_signature body)) of
              (Some a, Some sig) \<Rightarrow>
                if \<not> re_is_address env a then failed 400 ''eoaAddress and eoaSignature required''
                else if map_option (re_get_address env)
                          (re_personal_signer env (''Trustless Commerce wallet recovery'' @ newline # ''Challenge: '' @ challenge) sig) =
                        Some (re_get_address env a)
                then failed 400 ''eoa_personal_sign_rejected''
                else Inr (ZERO_PUBKEY, ZERO_PUBKEY, ''eoa:'' @ lower (re_get_address env a), Some (re_get_address env a), Some sig)
            | _ \<Rightarrow> failed 400 ''eoaAddress and eoaSignature required'')
      else (case (qx, qy, str (rb_credential_id body)) of
              (Some x, Some y, Some cred) \<Rightarrow>
                (case rb_assertion body of
                   None \<Rightarrow> failed 400 ''assertion required''
                 | Some a \<Rightarrow>
                     (case assertion_error env a challenge x y of
                        Some (st, err) \<Rightarrow> failed st err
                      | None \<Rightarrow> Inr (x, y, cred, None, None)))
            | _ \<Rightarrow> failed 400 ''ownerQx, ownerQy, credentialId required''))"

definition recover_captcha :: "recovery_env \<Rightarrow> recover_body \<Rightarrow> string option \<Rightarrow> (nat \<times> string) option" where
  "recover_captcha env body session_email =
     (if truthy session_email then None else requireCaptcha env (rb_captcha body))"

definition createRecoveryRequest ::
    "recovery_env \<Rightarrow> recovery_db \<Rightarrow> recover_body \<Rightarrow> (string \<times> string \<times> string) list \<Rightarrow> timestamp \<Rightarrow>
     recover_result wallet_result \<times> recovery_db" where
  "createRecoveryRequest env db body fresh now =
     (let session_email = verifyRecoveryEmailSession (re_tokens env) (re_session_secret env) (rb_email_session body) now in
      case recover_captcha env body session_email of
        Some (st, err) \<Rightarrow> (failed st err, db)
      | None \<Rightarrow>
          (let wallets = requested_wallets env db body session_email;
               kind = parseOwnerKind (coalesce (str (rb_owner_kind body)) (str (rb_new_owner_kind body))) in
           if wallets = [] then (failed 400 ''walletAddress or walletAddresses required'', db)
           else if (truthy session_email \<and> \<not> requireEmailRestoreEnabled env db (the session_email)) \<or>
                   \<not> list_all (requireWalletRestoreEnabled env db) wallets
           then (failed 403 ''restore_disabled'', db)
           else (case str (rb_challenge_id body) of
             None \<Rightarrow> (failed 400 ''challengeId required'', db)
           | Some cid \<Rightarrow>
               (case consume_challenge db cid Hc_Recover now of
                  (None, db1) \<Rightarrow> (failed 400 ''invalid_or_expired_challenge'', db1)
                | (Some challenge, db1) \<Rightarrow>
                    (case new_owner env body (hch_challenge challenge) of
                       Inl e \<Rightarrow> (Inl e, db1)
                     | Inr (qx, qy, cred, eoa, sig) \<Rightarrow>
                         (let cx = \<lparr>rc_session_email = session_email, rc_email_input = map_option lower (str (rb_email body)),
                                rc_owner_kind = kind, rc_qx = qx, rc_qy = qy, rc_credential_id = cred, rc_new_eoa = eoa,
                                rc_eoa_signature = sig, rc_challenge = hch_challenge challenge,
                                rc_chain_id = nullish (str (rb_chain_id body)) (re_chain_id env),
                                rc_label = nullish (str (rb_label body)) (if kind = Ow_Eoa then ''Recovery wallet'' else ''Recovery device'')\<rparr> in
                          case request_loop env cx now (zip wallets fresh)
                              \<lparr>rx_created = [], rx_skipped = [], rx_existing = []\<rparr> db1 of
                            (Inl e, db2) \<Rightarrow> (Inl e, db2)
                          | (Inr rx, db2) \<Rightarrow>
                              (if rx_created rx = [] then nothing_created rx (length wallets) else Inr rx, db2)))))))"

definition status_patch :: "request_status \<Rightarrow> request_patch" where
  "status_patch s = no_patch\<lparr>rp_status := Some s\<rparr>"

definition verifyRecoveryEmail ::
    "recovery_env \<Rightarrow> recovery_db \<Rightarrow> string \<Rightarrow> string option \<Rightarrow> string option \<Rightarrow> timestamp \<Rightarrow>
     recovery_request option wallet_result \<times> recovery_db" where
  "verifyRecoveryEmail env db i captcha code now =
     (case requireCaptcha env captcha of
        Some (st, err) \<Rightarrow> (failed st err, db)
      | None \<Rightarrow>
     (case getWalletRecoveryRequest db i of
        None \<Rightarrow> (failed 404 ''request_not_found'', db)
      | Some r \<Rightarrow>
          if rr_status r \<noteq> Rq_Awaiting_Email then (failed 400 ''not_awaiting_email'', db)
          else (case str code of
            None \<Rightarrow> (failed 400 ''code required'', db)
          | Some c \<Rightarrow>
              (case consume_otp env db (rr_wallet_address r) (rr_email r) Otp_Recover c now of
                 (False, db1) \<Rightarrow> (failed 400 ''invalid_otp'', db1)
               | (True, db1) \<Rightarrow>
                   (let db2 = snd (markWalletEmailVerified db1 (rr_wallet_address r) (rr_email r) now);
                        (u, db3) = updateWalletRecoveryRequest db2 (rr_id r)
                          (no_patch\<lparr>rp_status := Some Rq_Awaiting_Guardian, rp_email_verified_at := Some now\<rparr>) now in
                    (Inr u, db3))))))"

section \<open>Cancelling\<close>

record cancel_body =
  cb_captcha :: "string option"
  cb_challenge_id :: "string option"
  cb_owner_qx :: "string option"
  cb_owner_qy :: "string option"
  cb_credential_id :: "string option"
  cb_assertion :: "assertion option"
  cb_authorization :: "string option"
  cb_assertion_text :: string

text \<open>
  The key the assertion has to verify under: the one in the body if there is one, else that of
  the named device, else the first owner of the account.
\<close>

definition cancel_key :: "recovery_env \<Rightarrow> recovery_db \<Rightarrow> recovery_request \<Rightarrow> cancel_body \<Rightarrow> string \<Rightarrow> (string \<times> string) option" where
  "cancel_key env db r body cred =
     (let qx = normalizeHex32 (str (cb_owner_qx body)); qy = normalizeHex32 (str (cb_owner_qy body));
          device = coalesce (getWalletDeviceByCredentialId db cred (Some (rr_wallet_address r)))
            (if qx \<noteq> None \<and> qy \<noteq> None
             then find (\<lambda>d. Some (wdv_owner_qx d) = qx \<and> Some (wdv_owner_qy d) = qy)
               (listWalletDevices db (rr_wallet_address r) (re_chain_id env))
             else None);
          account = getWalletAccount db (rr_wallet_address r);
          x = coalesce qx (coalesce (map_option wdv_owner_qx device) (map_option wac_owner_qx account));
          y = coalesce qy (coalesce (map_option wdv_owner_qy device) (map_option wac_owner_qy account)) in
      if truthy x \<and> truthy y then Some (the x, the y) else None)"

text \<open>\<open>cb_assertion_text\<close> is \<open>JSON.stringify(assertion)\<close>; \<open>i\<close> is the id of the cancel job.\<close>

definition cancelRecoveryRequest ::
    "recovery_env \<Rightarrow> recovery_db \<Rightarrow> string \<Rightarrow> cancel_body \<Rightarrow> string \<Rightarrow> timestamp \<Rightarrow>
     recovery_request option wallet_result \<times> recovery_db" where
  "cancelRecoveryRequest env db i body job_id now =
     (case requireCaptcha env (cb_captcha body) of
        Some (st, err) \<Rightarrow> (failed st err, db)
      | None \<Rightarrow>
     (case getWalletRecoveryRequest db i of
        None \<Rightarrow> (failed 404 ''request_not_found'', db)
      | Some r \<Rightarrow>
          if \<not> request_active r then (failed 400 ''not_cancellable'', db)
          else (case (str (cb_challenge_id body), str (cb_credential_id body)) of
            (Some cid, Some cred) \<Rightarrow>
              (case cancel_key env db r body cred of
                 None \<Rightarrow> (failed 403 ''unknown_owner_device'', db)
               | Some (qx, qy) \<Rightarrow>
                   (case consume_challenge db cid Hc_Cancel now of
                      (None, db1) \<Rightarrow> (failed 400 ''invalid_or_expired_challenge'', db1)
                    | (Some challenge, db1) \<Rightarrow>
                        (case cb_assertion body of
                           None \<Rightarrow> (failed 400 ''assertion required'', db1)
                         | Some a \<Rightarrow>
                             (case assertion_error env a (hch_challenge challenge) qx qy of
                                Some (st, err) \<Rightarrow> (failed st err, db1)
                              | None \<Rightarrow>
                                  if rr_status r = Rq_On_Chain \<or> rr_status r = Rq_Queued
                                  then (case createWalletRecoveryJob db1 job_id (rr_wallet_address r) (rr_chain_id r) Job_Cancel None None
                                            (coalesce (str (cb_authorization body)) (Some (cb_assertion_text body))) now of
                                    None \<Rightarrow> (failed 500 ''error'', db1)
                                  | Some (job, db2) \<Rightarrow>
                                      (let db3 = snd (updateWalletRecoveryRequest db2 (rr_id r)
                                             ((status_patch Rq_Cancelled)\<lparr>rp_job_id := Some (rj_id job)\<rparr>) now) in
                                       (Inr (getWalletRecoveryRequest db3 (rr_id r)), db3)))
                                  else (let db2 = snd (updateWalletRecoveryRequest db1 (rr_id r) (status_patch Rq_Cancelled) now) in
                                        (Inr (getWalletRecoveryRequest db2 (rr_id r)), db2))))))
          | _ \<Rightarrow> (failed 400 ''challengeId and credentialId required'', db))))"

section \<open>The guardian\<close>

definition GUARDIAN_NONCE_MS :: int where
  "GUARDIAN_NONCE_MS = 10 * 60 * 1000"

definition guardianLoginMessage :: "recovery_env \<Rightarrow> string \<Rightarrow> string \<Rightarrow> string \<Rightarrow> string" where
  "guardianLoginMessage env a nonce issued_at =
     join_lines [''Trustless Commerce guardian login'', ''Address: '' @ re_get_address env a, ''Nonce: '' @ nonce,
                 ''Issued At: '' @ issued_at]"

definition is_guardian :: "recovery_env \<Rightarrow> string \<Rightarrow> bool" where
  "is_guardian env a = (re_guardian env \<noteq> None \<and> re_get_address env a = re_get_address env (the (re_guardian env)))"

definition guardianNonce :: "recovery_env \<Rightarrow> recovery_db \<Rightarrow> string option \<Rightarrow> string \<Rightarrow> timestamp \<Rightarrow> string wallet_result \<times> recovery_db" where
  "guardianNonce env db address nonce now =
     (let a = map_option trim address in
      if \<not> truthy a \<or> \<not> re_is_address env (the a) then (failed 400 ''address required'', db)
      else if \<not> is_guardian env (the a) then (failed 403 ''not_guardian'', db)
      else (Inr nonce, db\<lparr>guardian_nonces := snd (consumeGuardianNonce (guardian_nonces db) (the a) nonce GUARDIAN_NONCE_MS now)\<rparr>))"

text \<open>\<open>token\<close> is the \<open>randomBytes(32)\<close> of the call in hex.\<close>

definition guardianLogin ::
    "recovery_env \<Rightarrow> recovery_db \<Rightarrow> string option \<Rightarrow> string option \<Rightarrow> string option \<Rightarrow> string option \<Rightarrow> string \<Rightarrow> timestamp \<Rightarrow>
     string wallet_result \<times> recovery_db" where
  "guardianLogin env db address signature message nonce token now =
     (case (str address, str signature, str message, str nonce) of
        (Some a, Some sig, Some msg, Some n) \<Rightarrow>
          if \<not> is_guardian env a then (failed 403 ''not_guardian'', db)
          else (let (taken, ns) = takeGuardianNonce (guardian_nonces db) a n now; db1 = db\<lparr>guardian_nonces := ns\<rparr> in
                if \<not> taken then (failed 401 ''invalid_or_reused_nonce'', db1)
                else (case map_option (re_get_address env) (re_personal_signer env msg sig) of
                  None \<Rightarrow> (failed 401 ''invalid_signature'', db1)
                | Some recovered \<Rightarrow>
                    if recovered \<noteq> re_get_address env a then (failed 401 ''invalid_signature'', db1)
                    else if index_of msg n = None \<or> index_of (lower msg) ''guardian'' = None
                    then (failed 401 ''invalid_message'', db1)
                    else (case createGuardianSession (guardian_sessions db1) (re_sha256 env token) (re_get_address env a) None now of
                      None \<Rightarrow> (failed 500 ''error'', db1)
                    | Some ss \<Rightarrow> (Inr token, db1\<lparr>guardian_sessions := ss\<rparr>))))
      | _ \<Rightarrow> (failed 400 ''address, signature, message, nonce required'', db))"

text \<open>The session every other guardian route asks for; reading it removes it when it has expired.\<close>

definition requireGuardianSession :: "recovery_env \<Rightarrow> recovery_db \<Rightarrow> string option \<Rightarrow> timestamp \<Rightarrow> address wallet_result \<times> recovery_db" where
  "requireGuardianSession env db token now =
     (if \<not> truthy token then (failed 401 ''unauthorized'', db)
      else (case getGuardianSession (guardian_sessions db) (re_sha256 env (the token)) now of
        (None, ss) \<Rightarrow> (failed 401 ''unauthorized'', db\<lparr>guardian_sessions := ss\<rparr>)
      | (Some a, ss) \<Rightarrow>
          if is_guardian env a then (Inr a, db\<lparr>guardian_sessions := ss\<rparr>)
          else (failed 403 ''not_guardian'', db\<lparr>guardian_sessions := ss\<rparr>)))"

definition guardianApprove ::
    "recovery_env \<Rightarrow> recovery_db \<Rightarrow> string option \<Rightarrow> string \<Rightarrow> string \<Rightarrow> timestamp \<Rightarrow>
     (recovery_request option \<times> recovery_job) wallet_result \<times> recovery_db" where
  "guardianApprove env db token i job_id now =
     (case requireGuardianSession env db token now of
        (Inl e, db1) \<Rightarrow> (Inl e, db1)
      | (Inr guardian, db1) \<Rightarrow>
     (case getWalletRecoveryRequest db1 i of
        None \<Rightarrow> (failed 404 ''request_not_found'', db1)
      | Some r \<Rightarrow>
          if rr_status r \<noteq> Rq_Awaiting_Guardian then (failed 400 ''not_awaiting_guardian'', db1)
          else if rr_email_verified_at r = None \<and> rr_email r \<noteq> '''' then (failed 400 ''email_not_verified'', db1)
          else if rr_new_owner_kind r = Ow_Eoa \<or> isZeroPubkey (rr_new_qx r) (rr_new_qy r)
          then (failed 400 ''eoa_new_owner_manual'', db1)
          else (case createWalletRecoveryJob db1 job_id (rr_wallet_address r) (rr_chain_id r) Job_Initiate
                    (Some (rr_new_qx r)) (Some (rr_new_qy r)) None now of
            None \<Rightarrow> (failed 500 ''error'', db1)
          | Some (job, db2) \<Rightarrow>
              (let db3 = snd (upsertWalletDevice db2 (rr_wallet_address r) (rr_chain_id r) (rr_new_qx r) (rr_new_qy r)
                     (nullish (or_null (rr_device_label r)) ''Recovery device'') (Some (rr_credential_id r)) now);
                   (u, db4) = updateWalletRecoveryRequest db3 (rr_id r)
                     ((status_patch Rq_Queued)\<lparr>rp_guardian_address := Some guardian, rp_guardian_acted_at := Some now,
                        rp_job_id := Some (rj_id job)\<rparr>) now in
               (Inr (u, job), db4)))))"

definition guardianReject ::
    "recovery_env \<Rightarrow> recovery_db \<Rightarrow> string option \<Rightarrow> string \<Rightarrow> timestamp \<Rightarrow> recovery_request option wallet_result \<times> recovery_db" where
  "guardianReject env db token i now =
     (case requireGuardianSession env db token now of
        (Inl e, db1) \<Rightarrow> (Inl e, db1)
      | (Inr guardian, db1) \<Rightarrow>
     (case getWalletRecoveryRequest db1 i of
        None \<Rightarrow> (failed 404 ''request_not_found'', db1)
      | Some r \<Rightarrow>
          if rr_status r \<noteq> Rq_Awaiting_Guardian \<and> rr_status r \<noteq> Rq_Awaiting_Email then (failed 400 ''not_rejectable'', db1)
          else (let (u, db2) = updateWalletRecoveryRequest db1 (rr_id r)
                      ((status_patch Rq_Rejected)\<lparr>rp_guardian_address := Some guardian, rp_guardian_acted_at := Some now\<rparr>) now in
                (Inr u, db2))))"

section \<open>Jobs and their requests\<close>

definition METHOD_WEBAUTHN :: nat where
  "METHOD_WEBAUTHN = 0"

definition METHOD_EOA :: nat where
  "METHOD_EOA = 2"

definition zero_address :: string where
  "zero_address = ''0x'' @ replicate 40 (CHR ''0'')"

definition indexRestoredIdentityMethod :: "recovery_env \<Rightarrow> recovery_db \<Rightarrow> recovery_request \<Rightarrow> timestamp \<Rightarrow> recovery_db" where
  "indexRestoredIdentityMethod env db r now =
     (case Option.bind (getWalletAccount db (rr_wallet_address r)) (or_null \<circ> wac_identity_id) of
        None \<Rightarrow> db
      | Some identity_id \<Rightarrow>
          (let eoa_kind = (rr_new_owner_kind r = Ow_Eoa);
               qx = (if eoa_kind then zero_hash else rr_new_qx r); qy = (if eoa_kind then zero_hash else rr_new_qy r);
               eoa = (if eoa_kind then nullish (rr_new_eoa r) zero_address else zero_address) in
           if \<not> eoa_kind \<and> (rr_new_qx r = '''' \<or> rr_new_qy r = '''' \<or> rr_credential_id r = '''') then db
           else if eoa_kind \<and> \<not> truthy (rr_new_eoa r) then db
           else snd (insertIdentityMethod db
             (re_method_id env identity_id (if eoa_kind then METHOD_EOA else METHOD_WEBAUTHN) qx qy eoa) identity_id
             (if eoa_kind then Mk_Eoa else Mk_Webauthn) (Some (rr_credential_id r))
             (if eoa_kind then None else Some (rr_new_qx r)) (if eoa_kind then None else Some (rr_new_qy r))
             (if eoa_kind then Some eoa else None) now)))"

definition syncRequestFromJob :: "recovery_env \<Rightarrow> recovery_db \<Rightarrow> string \<Rightarrow> job_status \<Rightarrow> timestamp \<Rightarrow> recovery_db" where
  "syncRequestFromJob env db job_id st now =
     (case getWalletRecoveryRequestByJobId db job_id of
        None \<Rightarrow> db
      | Some r \<Rightarrow>
          if st \<noteq> Job_Included then db
          else (case map_option rj_kind (getWalletRecoveryJob db job_id) of
            Some Job_Initiate \<Rightarrow> snd (updateWalletRecoveryRequest db (rr_id r) (status_patch Rq_On_Chain) now)
          | Some Job_Execute \<Rightarrow>
              (let db1 = indexRestoredIdentityMethod env db r now;
                   db2 = snd (updateWalletRecoveryRequest db1 (rr_id r) (status_patch Rq_Completed) now) in
               snd (updateWalletRecoveryRequest db2 (rr_id r) (status_patch Rq_Archived) now))
          | Some Job_Cancel \<Rightarrow> snd (updateWalletRecoveryRequest db (rr_id r) (status_patch Rq_Cancelled) now)
          | None \<Rightarrow> db))"

text \<open>The worker routes; the API key has been checked.\<close>

definition claimJobRoute ::
    "recovery_db \<Rightarrow> string option \<Rightarrow> string option \<Rightarrow> int option \<Rightarrow> int \<Rightarrow> timestamp \<Rightarrow> job_result \<times> recovery_db" where
  "claimJobRoute db i worker expected leaseMs now =
     (case (str i, expected) of
        (Some j, Some v) \<Rightarrow> claimWalletRecoveryJob db j (nullish (str worker) ''wallet-deployer'') v leaseMs now
      | _ \<Rightarrow> (Inl (Http_Error 400 ''id and expectedVersion required'' None), db))"

definition trackJobRoute ::
    "recovery_env \<Rightarrow> recovery_db \<Rightarrow> string option \<Rightarrow> job_track \<Rightarrow> timestamp \<Rightarrow> job_result \<times> recovery_db" where
  "trackJobRoute env db i jt now =
     (case str i of
        None \<Rightarrow> (Inl (Http_Error 400 ''id required'' None), db)
      | Some j \<Rightarrow>
          (case trackWalletRecoveryJob db j (jt\<lparr>jt_worker := str (jt_worker jt)\<rparr>) now of
             (Inl e, db1) \<Rightarrow> (Inl e, db1)
           | (Inr job, db1) \<Rightarrow>
               (Inr job, case jt_status jt of None \<Rightarrow> db1 | Some st \<Rightarrow> syncRequestFromJob env db1 j st now)))"

section \<open>The operator routes\<close>

text \<open>
  \<open>caller\<close> is the session of \<open>requireSession\<close>; \<open>merge\<close> is the JSON object the route builds from the
  stored payload, the body and the caller.
\<close>

definition operatorSign ::
    "recovery_db \<Rightarrow> session option \<Rightarrow> string \<Rightarrow> string option \<Rightarrow> string option \<Rightarrow> (string option \<Rightarrow> string \<Rightarrow> string) \<Rightarrow> timestamp \<Rightarrow>
     recovery_request option wallet_result \<times> recovery_db" where
  "operatorSign db caller i signature blob merge now =
     (case caller of
        None \<Rightarrow> (failed 401 ''unauthorized'', db)
      | Some s \<Rightarrow>
     (case getWalletRecoveryRequest db i of
        None \<Rightarrow> (failed 404 ''request_not_found'', db)
      | Some r \<Rightarrow>
          (case coalesce (str signature) (str blob) of
             None \<Rightarrow> (failed 400 ''signature_required'', db)
           | Some b \<Rightarrow>
               (let (u, db1) = updateWalletRecoveryRequest db (rr_id r)
                      (no_patch\<lparr>rp_operator_payload := Some (merge (rr_operator_payload r) b)\<rparr>) now in
                (Inr u, db1)))))"

definition operatorInitiated ::
    "recovery_db \<Rightarrow> session option \<Rightarrow> string \<Rightarrow> string \<Rightarrow> timestamp \<Rightarrow>
     (recovery_request option \<times> recovery_job) wallet_result \<times> recovery_db" where
  "operatorInitiated db caller i job_id now =
     (case caller of
        None \<Rightarrow> (failed 401 ''unauthorized'', db)
      | Some s \<Rightarrow>
     (case getWalletRecoveryRequest db i of
        None \<Rightarrow> (failed 404 ''request_not_found'', db)
      | Some r \<Rightarrow>
          if \<not> truthy (Option.bind (getWalletAccount db (rr_wallet_address r)) wac_identity_id)
          then (failed 400 ''not_identity_wallet'', db)
          else (case createWalletRecoveryJob db job_id (rr_wallet_address r) (rr_chain_id r) Job_Execute None None None now of
            None \<Rightarrow> (failed 500 ''error'', db)
          | Some (job, db1) \<Rightarrow>
              (let (u, db2) = updateWalletRecoveryRequest db1 (rr_id r)
                     ((status_patch Rq_On_Chain)\<lparr>rp_guardian_address := Some (ses_identity_id s),
                        rp_guardian_acted_at := Some now, rp_job_id := Some (rj_id job)\<rparr>) now in
               (Inr (u, job), db2)))))"

end
