(* ===== verification/RecoveryMoves.thy ===== *)
theory RecoveryMoves
  imports RecoveryFlow
begin

text \<open>
  What the recovery routes do to the two tables of recovery, as a state machine. A state is the
  jobs and the requests; a move is one of the nine things that happen to them, with the guard
  under which it happens. \<open>routes_refine_moves\<close> shows that every route but the operator's, on any
  input, makes no move, one, or (a request for several wallets, a finished job) several.
\<close>

type_synonym machine = "recovery_job list \<times> recovery_request list"

definition machine_of :: "recovery_db \<Rightarrow> machine" where
  "machine_of db = (recovery_jobs db, recovery_requests db)"

definition patched :: "string \<Rightarrow> request_patch \<Rightarrow> timestamp \<Rightarrow> recovery_request list \<Rightarrow> recovery_request list" where
  "patched i p now rs = update_where (\<lambda>r. rr_id r = i) (request_set p now) rs"

inductive recovery_move :: "machine \<Rightarrow> machine \<Rightarrow> bool" where
  submit: "insert_unique rr_id (new_request i ri now) rs = Some rs' \<Longrightarrow>
     ri_status ri = Rq_Awaiting_Email \<or> ri_status ri = Rq_Awaiting_Guardian \<and> ri_email_verified_at ri \<noteq> None \<Longrightarrow>
     recovery_move (js, rs) (js, rs')"
| prove_email: "find_by rr_id i rs = Some r \<Longrightarrow> rr_status r = Rq_Awaiting_Email \<Longrightarrow>
     recovery_move (js, rs)
       (js, patched i (no_patch\<lparr>rp_status := Some Rq_Awaiting_Guardian, rp_email_verified_at := Some now\<rparr>) now rs)"
| approve: "find_by rr_id i rs = Some r \<Longrightarrow> rr_status r = Rq_Awaiting_Guardian \<Longrightarrow>
     rr_email_verified_at r \<noteq> None \<or> rr_email r = '''' \<Longrightarrow> rr_new_owner_kind r \<noteq> Ow_Eoa \<Longrightarrow>
     \<not> isZeroPubkey (rr_new_qx r) (rr_new_qy r) \<Longrightarrow>
     insert_unique rj_id (new_job j (rr_wallet_address r) (rr_chain_id r) Job_Initiate (Some (rr_new_qx r)) (Some (rr_new_qy r)) None now) js = Some js' \<Longrightarrow>
     recovery_move (js, rs)
       (js', patched i ((status_patch Rq_Queued)\<lparr>rp_guardian_address := Some g, rp_guardian_acted_at := Some now, rp_job_id := Some j\<rparr>) now rs)"
| reject: "find_by rr_id i rs = Some r \<Longrightarrow> rr_status r = Rq_Awaiting_Guardian \<or> rr_status r = Rq_Awaiting_Email \<Longrightarrow>
     recovery_move (js, rs)
       (js, patched i ((status_patch Rq_Rejected)\<lparr>rp_guardian_address := Some g, rp_guardian_acted_at := Some now\<rparr>) now rs)"
| cancel_early: "find_by rr_id i rs = Some r \<Longrightarrow> rr_status r = Rq_Awaiting_Guardian \<or> rr_status r = Rq_Awaiting_Email \<Longrightarrow>
     recovery_move (js, rs) (js, patched i (status_patch Rq_Cancelled) now rs)"
| cancel_late: "find_by rr_id i rs = Some r \<Longrightarrow> rr_status r = Rq_Queued \<or> rr_status r = Rq_On_Chain \<Longrightarrow>
     insert_unique rj_id (new_job j (rr_wallet_address r) (rr_chain_id r) Job_Cancel None None sig now) js = Some js' \<Longrightarrow>
     recovery_move (js, rs) (js', patched i ((status_patch Rq_Cancelled)\<lparr>rp_job_id := Some j\<rparr>) now rs)"
| claim: "recovery_move (js, rs) (update_where (\<lambda>r. rj_id r = j \<and> P r) (job_claim_set b until now) js, rs)"
| track: "recovery_move (js, rs) (update_where (\<lambda>r. rj_id r = j) (job_track_set jt now) js, rs)"
| sync: "find_by rr_job_id (Some j) rs = Some r \<Longrightarrow> find_by rj_id j js = Some job \<Longrightarrow>
     st = (case rj_kind job of Job_Initiate \<Rightarrow> Rq_On_Chain | Job_Cancel \<Rightarrow> Rq_Cancelled | Job_Execute \<Rightarrow> st) \<Longrightarrow>
     rj_kind job = Job_Execute \<longrightarrow> st = Rq_Completed \<or> st = Rq_Archived \<Longrightarrow>
     recovery_move (js, rs) (js, patched (rr_id r) (status_patch st) now rs)"

lemmas moves_intros =
  r_into_rtranclp [of recovery_move, OF recovery_move.prove_email] r_into_rtranclp [of recovery_move, OF recovery_move.approve]
  r_into_rtranclp [of recovery_move, OF recovery_move.reject] r_into_rtranclp [of recovery_move, OF recovery_move.cancel_early]
  r_into_rtranclp [of recovery_move, OF recovery_move.cancel_late]

abbreviation recovery_moves :: "machine \<Rightarrow> machine \<Rightarrow> bool" where
  "recovery_moves \<equiv> recovery_move\<^sup>*\<^sup>*"

section \<open>The other tables\<close>

named_theorems machine_frame \<open>operations on other tables leave the machine alone\<close>

lemma machine_same [machine_frame]:
  "machine_of (db\<lparr>email_otps := t\<rparr>) = machine_of db"
  "machine_of (db\<lparr>hosted_challenges := hc\<rparr>) = machine_of db"
  "machine_of (db\<lparr>guardian_nonces := ns\<rparr>) = machine_of db"
  "machine_of (db\<lparr>guardian_sessions := ss\<rparr>) = machine_of db"
  "machine_of (walletPersist db ev now) = machine_of db"
  by (simp_all add: machine_of_def)

lemma machine_wallet_tables [machine_frame]:
  "machine_of (db\<lparr>wallet_emails := es\<rparr>) = machine_of db"
  "machine_of (db\<lparr>wallet_devices := ds\<rparr>) = machine_of db"
  "machine_of (db\<lparr>identity_methods := ms\<rparr>) = machine_of db"
  by (simp_all add: machine_of_def)

lemma machine_wallet_ops [machine_frame]:
  "machine_of (snd (upsertWalletEmail db w e v now)) = machine_of db"
  "machine_of (snd (markWalletEmailVerified db w e now)) = machine_of db"
  "machine_of (snd (upsertWalletDevice db w c qx qy l cred now)) = machine_of db"
  "machine_of (snd (insertIdentityMethod db i ident k c' x y eoa now)) = machine_of db"
  by (simp_all add: upsertWalletEmail_def markWalletEmailVerified_def upsertWalletDevice_def insertIdentityMethod_def Let_def
    machine_frame split: option.split)

lemma machine_tokens [machine_frame]:
  "machine_of (snd (create_otp env db i w e p code now)) = machine_of db"
  "machine_of (snd (consume_otp env db w e p code now)) = machine_of db"
  "machine_of (snd (consume_challenge db i hp now)) = machine_of db"
  "machine_of (snd (requireGuardianSession env db token now)) = machine_of db"
  by (simp_all add: create_otp_def consume_otp_def consume_challenge_def requireGuardianSession_def machine_frame
    split: prod.split option.split)

lemma request_of_machine: "machine_of db' = machine_of db \<Longrightarrow> getWalletRecoveryRequest db' i = getWalletRecoveryRequest db i"
  by (simp add: machine_of_def getWalletRecoveryRequest_def)

lemma machine_of_patch:
  "machine_of (snd (updateWalletRecoveryRequest db i p now)) =
   (fst (machine_of db), if find_by rr_id i (snd (machine_of db)) = None then snd (machine_of db) else patched i p now (snd (machine_of db)))"
  by (simp add: updateWalletRecoveryRequest_def getWalletRecoveryRequest_def machine_of_def patched_def Let_def)

lemma patched_missing: "find_by rr_id i rs = None \<Longrightarrow> patched i p now rs = rs"
  by (auto simp: patched_def update_where_def find_by_None_iff intro: map_idI)

lemma machine_of_update [simp]:
  "machine_of (snd (updateWalletRecoveryRequest db i p now)) = (fst (machine_of db), patched i p now (snd (machine_of db)))"
  by (simp add: machine_of_patch patched_missing)

lemma created_job:
  assumes "createWalletRecoveryJob db i w c k qx qy sig now = Some (job, db')"
  shows "machine_of db' = (recovery_jobs db', recovery_requests db)" "recovery_requests db' = recovery_requests db" "rj_id job = i"
    "insert_unique rj_id (new_job i w c k qx qy sig now) (recovery_jobs db) = Some (recovery_jobs db')"
  using assms by (auto simp: createWalletRecoveryJob_def machine_of_def new_job_def split: option.splits)

lemma machine_tokensD:
  "consume_otp env db w e p code now = (ok, db') \<Longrightarrow> machine_of db' = machine_of db"
  "create_otp env db i w e p code now = (ok, db') \<Longrightarrow> machine_of db' = machine_of db"
  "consume_challenge db i hp now = (c, db') \<Longrightarrow> machine_of db' = machine_of db"
  "requireGuardianSession env db token now = (g, db') \<Longrightarrow> machine_of db' = machine_of db"
  "upsertWalletEmail db w e v now = (em, db') \<Longrightarrow> machine_of db' = machine_of db"
  "markWalletEmailVerified db w e now = (em, db') \<Longrightarrow> machine_of db' = machine_of db"
  by (metis machine_tokens machine_wallet_ops snd_conv)+

lemma update_machineD:
  "updateWalletRecoveryRequest db i p now = (u, db') \<Longrightarrow> machine_of db' = (fst (machine_of db), patched i p now (snd (machine_of db)))"
  by (metis machine_of_update snd_conv)

section \<open>The routes\<close>

lemma requestD: "getWalletRecoveryRequest db i = Some r \<Longrightarrow> find_by rr_id i (snd (machine_of db)) = Some r \<and> rr_id r = i"
  by (auto simp: getWalletRecoveryRequest_def machine_of_def dest: find_by_SomeD)

lemma verify_email_moves: "recovery_moves (machine_of db) (machine_of (snd (verifyRecoveryEmail env db i captcha code now)))"
  by (cases "machine_of db")
    (auto simp: verifyRecoveryEmail_def Let_def machine_frame split: option.split prod.split bool.split
      dest!: requestD machine_tokensD update_machineD intro!: moves_intros)

lemma reject_moves: "recovery_moves (machine_of db) (machine_of (snd (guardianReject env db token i now)))"
  by (cases "machine_of db")
    (auto simp: guardianReject_def Let_def machine_frame split: option.split prod.split sum.split
      dest!: requestD machine_tokensD update_machineD intro!: moves_intros)

lemma created_jobD:
  "createWalletRecoveryJob db i w c k qx qy sig now = Some (job, db') \<Longrightarrow>
   \<exists>js. machine_of db' = (js, snd (machine_of db)) \<and> rj_id job = i \<and>
     insert_unique rj_id (new_job i w c k qx qy sig now) (fst (machine_of db)) = Some js"
  by (auto simp: createWalletRecoveryJob_def machine_of_def new_job_def split: option.splits)

lemma approve_moves: "recovery_moves (machine_of db) (machine_of (snd (guardianApprove env db token i j now)))"
  by (cases "machine_of db")
    (auto simp: guardianApprove_def Let_def machine_frame split: option.split prod.split sum.split
      dest!: requestD machine_tokensD created_jobD update_machineD intro!: moves_intros)

lemma cancel_moves: "recovery_moves (machine_of db) (machine_of (snd (cancelRecoveryRequest env db i body j now)))"
  by (cases "machine_of db")
    (auto simp: cancelRecoveryRequest_def Let_def machine_frame request_active_def split: option.split prod.split sum.split
      dest!: requestD machine_tokensD created_jobD update_machineD
      intro!: moves_intros)

lemma request_of_starts:
  "ri_status (request_of db cx w now) = Rq_Awaiting_Email \<or>
   ri_status (request_of db cx w now) = Rq_Awaiting_Guardian \<and> ri_email_verified_at (request_of db cx w now) \<noteq> None"
  by (auto simp: request_of_def needs_code_def Let_def)

lemma created_requestD:
  "createWalletRecoveryRequest db i ri now = Some (r, db') \<Longrightarrow>
   \<exists>rs. machine_of db' = (fst (machine_of db), rs) \<and>
     insert_unique rr_id (new_request i ri now) (snd (machine_of db)) = Some rs"
  by (auto simp: createWalletRecoveryRequest_def machine_of_def split: option.splits)

lemma created_request_moves:
  assumes "createWalletRecoveryRequest db i (request_of db cx w now) now = Some (r, db')"
  shows "recovery_move (machine_of db) (machine_of db')"
proof -
  obtain js rs where m: "machine_of db = (js, rs)" by force
  with created_requestD [OF assms] obtain rs' where
    "machine_of db' = (js, rs')" "insert_unique rr_id (new_request i (request_of db cx w now) now) rs = Some rs'" by auto
  with m recovery_move.submit [OF this(2) request_of_starts] show ?thesis by simp
qed

lemma request_loop_moves:
  "request_loop env cx now ws acc db = (res, db') \<Longrightarrow> recovery_moves (machine_of db) (machine_of db')"
proof (induction ws arbitrary: acc db)
  case (Cons x ws)
  obtain w rid oid code where x: "x = (w, rid, oid, code)" by (cases x)
  show ?case
  proof (cases "wallet_refusal env db cx w")
    case (Some why)
    with Cons show ?thesis by (cases why) (auto simp: x)
  next
    case None
    show ?thesis
    proof (cases "createWalletRecoveryRequest db rid (request_of db cx w now) now")
      case created: (Some p)
      obtain r db1 where p: "p = (r, db1)" by force
      with created have move: "recovery_move (machine_of db) (machine_of db1)" by (simp add: created_request_moves)
      have "recovery_moves (machine_of db1) (machine_of db')"
        using Cons.prems None created p
        by (auto simp: x Let_def split: if_splits prod.splits option.splits dest!: machine_tokensD dest: Cons.IH)
      with move show ?thesis by (rule converse_rtranclp_into_rtranclp)
    qed (use Cons.prems None in \<open>simp add: x\<close>)
  qed
qed simp

lemma create_moves: "recovery_moves (machine_of db) (machine_of (snd (createRecoveryRequest env db body fresh now)))"
  by (auto simp: createRecoveryRequest_def Let_def split: option.split prod.split sum.split
    dest!: machine_tokensD(3) dest: request_loop_moves)

lemma attach_frame: "machine_of (snd (attachEmail env db body fresh now)) = machine_of db"
  by (auto simp: attachEmail_def Let_def machine_frame split: option.split prod.split dest!: machine_tokensD)

lemma login_frame:
  "machine_of (snd (guardianNonce env db a n now)) = machine_of db"
  "machine_of (snd (guardianLogin env db a' sig msg n' token now)) = machine_of db"
  by (auto simp: guardianNonce_def guardianLogin_def Let_def machine_frame split: option.split prod.split)

lemma lookup_frame:
  "machine_of (snd (startRecoveryEmailLookup env db captcha email fresh now)) = machine_of db"
  "machine_of (snd (verifyRecoveryEmailLookup env db email code now)) = machine_of db"
  "machine_of (snd (verifyEmailOtp env db captcha w email code now)) = machine_of db"
  by (auto simp: startRecoveryEmailLookup_def verifyRecoveryEmailLookup_def verifyEmailOtp_def Let_def machine_frame
    split: option.split prod.split bool.split dest!: machine_tokensD)

lemma sync_moves: "recovery_moves (machine_of db) (machine_of (syncRequestFromJob env db j st now))"
proof (cases "find_by rr_job_id (Some j) (recovery_requests db)")
  case (Some r)
  show ?thesis
  proof (cases "st = Job_Included \<and> getWalletRecoveryJob db j \<noteq> None")
    case True
    then obtain job where job: "getWalletRecoveryJob db j = Some job" by auto
    have one: "recovery_move (js, rs) (js, patched (rr_id r') (status_patch s) now rs)"
      if "find_by rr_job_id (Some j) rs = Some r'" "find_by rj_id j js = Some job"
        "s = (case rj_kind job of Job_Initiate \<Rightarrow> Rq_On_Chain | Job_Cancel \<Rightarrow> Rq_Cancelled | Job_Execute \<Rightarrow> s)"
        "rj_kind job = Job_Execute \<longrightarrow> s = Rq_Completed \<or> s = Rq_Archived" for js rs r' s
      using that by (rule recovery_move.sync)
    note first = one [OF Some job [unfolded getWalletRecoveryJob_def]]
    show ?thesis
    proof (cases "rj_kind job")
      case Job_Execute
      let ?rs = "patched (rr_id r) (status_patch Rq_Completed) now (recovery_requests db)"
      have "find_by rr_job_id (Some j) ?rs = Some (if rr_id r = rr_id r then request_set (status_patch Rq_Completed) now r else r)"
        using Some by (simp add: patched_def find_by_update_where status_patch_def no_patch_def request_set_def)
      then have again: "find_by rr_job_id (Some j) ?rs = Some (request_set (status_patch Rq_Completed) now r)" by simp
      have same_id: "rr_id (request_set (status_patch Rq_Completed) now r) = rr_id r" by (simp add: request_set_def)
      have second: "recovery_move (recovery_jobs db, ?rs) (recovery_jobs db, patched (rr_id r) (status_patch Rq_Archived) now ?rs)"
        using one [OF again job [unfolded getWalletRecoveryJob_def], of Rq_Archived] Job_Execute by (simp add: same_id)
      have idx: "machine_of (indexRestoredIdentityMethod env db r now) = (recovery_jobs db, recovery_requests db)"
        by (simp add: indexRestoredIdentityMethod_def Let_def machine_frame machine_of_def [of db] split: option.split)
      have res: "machine_of (syncRequestFromJob env db j st now) =
          (recovery_jobs db, patched (rr_id r) (status_patch Rq_Archived) now ?rs)"
        using True job Job_Execute Some by (simp add: syncRequestFromJob_def getWalletRecoveryRequestByJobId_def Let_def idx)
      from first [of Rq_Completed] second Job_Execute show ?thesis
        unfolding res by (auto simp: machine_of_def [of db])
    qed (use True job Some first [of Rq_On_Chain] first [of Rq_Cancelled] in
      \<open>auto simp: syncRequestFromJob_def getWalletRecoveryRequestByJobId_def Let_def machine_of_def [of db]\<close>)
  qed (use Some in \<open>auto simp: syncRequestFromJob_def getWalletRecoveryRequestByJobId_def split: option.split\<close>)
qed (simp add: syncRequestFromJob_def getWalletRecoveryRequestByJobId_def)

lemma claim_moves: "recovery_moves (machine_of db) (machine_of (snd (claimJobRoute db i worker v lease now)))"
proof -
  have "recovery_move (recovery_jobs db, recovery_requests db) (recovery_jobs db', recovery_requests db') \<or> db' = db"
    if "claimWalletRecoveryJob db k b v l now = (res, db')" for k b v l res db'
    using that recovery_move.claim [of "recovery_jobs db" "recovery_requests db" k "job_claim_where (lower b) v now" "lower b" "now + l" now]
    by (auto simp: claimWalletRecoveryJob_def Let_def split: if_splits option.splits)
  then show ?thesis
    unfolding claimJobRoute_def machine_of_def
    by (cases "str i"; cases v) (auto split: prod.split dest: r_into_rtranclp, metis prod.collapse r_into_rtranclp rtranclp.rtrancl_refl)
qed

lemma track_moves: "recovery_moves (machine_of db) (machine_of (snd (trackJobRoute env db i jt now)))"
proof (cases "str i")
  case (Some j)
  obtain res db1 where t: "trackWalletRecoveryJob db j (jt\<lparr>jt_worker := str (jt_worker jt)\<rparr>) now = (res, db1)" by force
  then have "recovery_moves (machine_of db) (machine_of db1)"
    using recovery_move.track [of "recovery_jobs db" "recovery_requests db" j "jt\<lparr>jt_worker := str (jt_worker jt)\<rparr>" now]
    by (auto simp: trackWalletRecoveryJob_eq job_tracked_def machine_of_def Let_def split: option.splits if_splits intro: r_into_rtranclp)
  with sync_moves [of db1 env j _ now] t Some show ?thesis
    by (cases res) (auto simp: trackJobRoute_def split: option.split intro: rtranclp_trans)
qed (simp add: trackJobRoute_def)

section \<open>Refinement\<close>

text \<open>
  The routes of hosted recovery and of the worker, on any input; \<open>elsewhere\<close> stands for every
  other route, none of which writes the two tables except the operator's and the client API's.
\<close>

inductive recovery_route :: "recovery_env \<Rightarrow> recovery_db \<Rightarrow> recovery_db \<Rightarrow> bool" for env where
  attach: "recovery_route env db (snd (attachEmail env db body fresh now))"
| attach_verify: "recovery_route env db (snd (verifyEmailOtp env db captcha w e c now))"
| lookup_start: "recovery_route env db (snd (startRecoveryEmailLookup env db captcha e fresh now))"
| lookup_verify: "recovery_route env db (snd (verifyRecoveryEmailLookup env db e c now))"
| create: "recovery_route env db (snd (createRecoveryRequest env db rbody fr now))"
| verify_email: "recovery_route env db (snd (verifyRecoveryEmail env db i captcha c now))"
| cancel: "recovery_route env db (snd (cancelRecoveryRequest env db i cbody j now))"
| guardian_nonce: "recovery_route env db (snd (guardianNonce env db a n now))"
| guardian_login: "recovery_route env db (snd (guardianLogin env db a' sig msg n' token now))"
| approve: "recovery_route env db (snd (guardianApprove env db tok i j now))"
| reject: "recovery_route env db (snd (guardianReject env db tok i now))"
| claim_job: "recovery_route env db (snd (claimJobRoute db k worker v lease now))"
| track_job: "recovery_route env db (snd (trackJobRoute env db k jt now))"
| elsewhere: "recovery_jobs db' = recovery_jobs db \<Longrightarrow> recovery_requests db' = recovery_requests db \<Longrightarrow> recovery_route env db db'"

inductive recovery_reachable :: "recovery_env \<Rightarrow> recovery_db \<Rightarrow> bool" for env where
  start: "recovery_jobs db = [] \<Longrightarrow> recovery_requests db = [] \<Longrightarrow> recovery_reachable env db"
| route: "recovery_reachable env db \<Longrightarrow> recovery_route env db db' \<Longrightarrow> recovery_reachable env db'"

text \<open>
  C11. The recovery routes implement the recovery state machine. Whatever a route is asked, what it
  does to jobs and requests is a sequence of moves of the machine, each under its guard.
\<close>

theorem routes_refine_moves:
  assumes "recovery_route env db db'"
  shows "recovery_moves (machine_of db) (machine_of db')"
  using assms
  by cases (simp_all add: attach_frame login_frame lookup_frame create_moves verify_email_moves cancel_moves approve_moves
    reject_moves claim_moves track_moves, simp add: machine_of_def)

end
