(* ===== verification/RecoveryProps.thy ===== *)
theory RecoveryProps
  imports RecoveryMoves
begin

text \<open>The invariant of the recovery machine and the properties of the routes.\<close>

section \<open>The invariant\<close>

text \<open>A request and its job: without one it waits or is closed, with one the kind of the job tells its status.\<close>

definition job_ok :: "recovery_job list \<Rightarrow> recovery_request \<Rightarrow> bool" where
  "job_ok js r =
     (case rr_job_id r of
        None \<Rightarrow> rr_status r \<in> {Rq_Awaiting_Email, Rq_Awaiting_Guardian, Rq_Cancelled, Rq_Rejected}
      | Some j \<Rightarrow>
          (\<exists>job. find_by rj_id j js = Some job \<and>
             (rj_kind job = Job_Initiate \<and> rr_status r \<in> {Rq_Queued, Rq_On_Chain} \<or>
              rj_kind job = Job_Cancel \<and> rr_status r = Rq_Cancelled)))"

definition approves :: "recovery_job \<Rightarrow> recovery_request \<Rightarrow> bool" where
  "approves job r =
     (rj_wallet_address job = lower (rr_wallet_address r) \<and> rj_new_qx job = Some (rr_new_qx r) \<and> rj_new_qy job = Some (rr_new_qy r) \<and>
      rr_guardian_address r \<noteq> None \<and> (rr_email_verified_at r \<noteq> None \<or> rr_email r = ''''))"

definition job_approved :: "recovery_request list \<Rightarrow> recovery_job \<Rightarrow> bool" where
  "job_approved rs job = (rj_kind job \<noteq> Job_Execute \<and> (rj_kind job = Job_Initiate \<longrightarrow> (\<exists>r \<in> set rs. approves job r)))"

fun machine_inv :: "machine \<Rightarrow> bool" where
  "machine_inv (js, rs) =
     (unique_on rj_id js \<and> unique_on rr_id rs \<and> (\<forall>r \<in> set rs. job_ok js r) \<and> (\<forall>job \<in> set js. job_approved rs job))"

text \<open>Lists of jobs that grow or change without losing a job or its kind.\<close>

definition jobs_kept :: "recovery_job list \<Rightarrow> recovery_job list \<Rightarrow> bool" where
  "jobs_kept js js' = (\<forall>j job. find_by rj_id j js = Some job \<longrightarrow> (\<exists>job'. find_by rj_id j js' = Some job' \<and> rj_kind job' = rj_kind job))"

lemma job_ok_kept: "jobs_kept js js' \<Longrightarrow> job_ok js r \<Longrightarrow> job_ok js' r"
  by (simp add: job_ok_def jobs_kept_def split: option.splits) metis

lemma jobs_kept_insert: "insert_unique rj_id job js = Some js' \<Longrightarrow> jobs_kept js js'"
proof -
  assume ins: "insert_unique rj_id job js = Some js'"
  then have "find_by rj_id (rj_id job) js = None" by (simp add: insert_unique_def split: if_splits)
  then show "jobs_kept js js'" unfolding jobs_kept_def by (simp add: find_by_insert_unique [OF ins])
qed

lemma jobs_kept_update: "(\<And>x. rj_id (f x) = rj_id x \<and> rj_kind (f x) = rj_kind x) \<Longrightarrow> jobs_kept js (update_where P f js)"
  by (auto simp: jobs_kept_def find_by_update_where)

lemma job_set_kind [simp]: "rj_kind (job_claim_set b u now r) = rj_kind r" "rj_kind (job_track_set jt now r) = rj_kind r"
  by (simp_all add: job_claim_set_def job_track_set_def)

lemma approves_sets [simp]:
  "approves (job_claim_set b u now job) r = approves job r" "approves (job_track_set jt now job) r = approves job r"
  by (simp_all add: approves_def job_claim_set_def job_track_set_def)

lemma request_set_fixed [simp]:
  "rr_id (request_set p now r) = rr_id r" "rr_wallet_address (request_set p now r) = rr_wallet_address r"
  "rr_new_qx (request_set p now r) = rr_new_qx r" "rr_new_qy (request_set p now r) = rr_new_qy r"
  "rr_email (request_set p now r) = rr_email r"
  "rr_status (request_set p now r) = nullish (rp_status p) (rr_status r)"
  "rr_job_id (request_set p now r) = coalesce (rp_job_id p) (rr_job_id r)"
  by (simp_all add: request_set_def)

lemma approves_request_set: "approves job r \<Longrightarrow> approves job (request_set p now r)"
  by (auto simp: approves_def request_set_def)

lemma job_approved_patched: "job_approved rs job \<Longrightarrow> job_approved (patched i p now rs) job"
proof -
  assume ok: "job_approved rs job"
  have "\<exists>r \<in> set (patched i p now rs). approves job r" if r: "r \<in> set rs" "approves job r" for r
  proof
    show "(if rr_id r = i then request_set p now r else r) \<in> set (patched i p now rs)"
      using r(1) by (force simp: patched_def update_where_def)
  qed (use r(2) in \<open>simp add: approves_request_set\<close>)
  with ok show ?thesis by (auto simp: job_approved_def)
qed

lemma job_approved_insert: "insert_unique rr_id r rs = Some rs' \<Longrightarrow> job_approved rs job \<Longrightarrow> job_approved rs' job"
  by (auto simp: job_approved_def insert_unique_def split: if_splits)

lemma job_approved_sets:
  "job_approved rs (job_claim_set b u now job) = job_approved rs job" "job_approved rs (job_track_set jt now job) = job_approved rs job"
  by (simp_all add: job_approved_def)

lemma update_where_jobs: "x \<in> set (update_where P f js) \<longleftrightarrow> (\<exists>y \<in> set js. x = (if P y then f y else y))"
  by (auto simp: update_where_def)

text \<open>Patching one request keeps the others; the patched one has to be looked at.\<close>

lemma patched_ok:
  assumes "unique_on rr_id rs" "\<forall>r \<in> set rs. job_ok js r" "find_by rr_id i rs = Some r" "jobs_kept js js'"
    and "job_ok js' (request_set p now r)"
  shows "\<forall>r \<in> set (patched i p now rs). job_ok js' r"
proof
  fix x assume "x \<in> set (patched i p now rs)"
  then obtain y where y: "y \<in> set rs" "x = (if rr_id y = i then request_set p now y else y)"
    by (auto simp: patched_def update_where_def)
  show "job_ok js' x"
  proof (cases "rr_id y = i")
    case True
    with find_by_unique [OF assms(1) y(1)] assms(3) have "y = r" by simp
    with True y assms(5) show ?thesis by simp
  qed (use y assms(2,4) job_ok_kept in auto)
qed

lemma patched_unique: "unique_on rr_id rs \<Longrightarrow> unique_on rr_id (patched i p now rs)"
  by (simp add: patched_def unique_update_where)

lemma status_patch_simps [simp]:
  "rp_status (status_patch s) = Some s" "rp_job_id (status_patch s) = None" "rp_status no_patch = None" "rp_job_id no_patch = None"
  by (simp_all add: status_patch_def no_patch_def)

lemma kept_refl [simp]: "jobs_kept js js" by (simp add: jobs_kept_def)

lemma job_ok_cases:
  assumes "job_ok js r"
  obtains "rr_job_id r = None" "rr_status r \<in> {Rq_Awaiting_Email, Rq_Awaiting_Guardian, Rq_Cancelled, Rq_Rejected}"
  | j job where "rr_job_id r = Some j" "find_by rj_id j js = Some job" "rj_kind job = Job_Initiate" "rr_status r \<in> {Rq_Queued, Rq_On_Chain}"
  | j job where "rr_job_id r = Some j" "find_by rj_id j js = Some job" "rj_kind job = Job_Cancel" "rr_status r = Rq_Cancelled"
  using assms by (auto simp: job_ok_def split: option.splits)

lemma new_job_simps [simp]:
  "rj_id (new_job j w c k qx qy sig now) = j" "rj_kind (new_job j w c k qx qy sig now) = k"
  "rj_wallet_address (new_job j w c k qx qy sig now) = lower w" "rj_new_qx (new_job j w c k qx qy sig now) = qx"
  "rj_new_qy (new_job j w c k qx qy sig now) = qy"
  by (simp_all add: new_job_def)

lemma inv_move: "recovery_move m m' \<Longrightarrow> machine_inv m \<Longrightarrow> machine_inv m'"
proof (induction rule: recovery_move.induct)
  case (submit i ri now rs rs' js)
  then have "set rs' = insert (new_request i ri now) (set rs)" by (auto simp: insert_unique_def split: if_splits)
  moreover have "job_ok js (new_request i ri now)" using submit.hyps(2) by (auto simp: job_ok_def new_request_def)
  ultimately show ?case
    using submit by (auto simp: unique_insert_unique job_approved_insert [OF submit.hyps(1)])
next
  case (prove_email i rs r js now)
  then have "job_ok js r" by (auto dest: find_by_SomeD)
  then have "job_ok js (request_set (no_patch\<lparr>rp_status := Some Rq_Awaiting_Guardian, rp_email_verified_at := Some now\<rparr>) now r)"
    using prove_email.hyps by (cases rule: job_ok_cases) (auto simp: job_ok_def)
  with prove_email show ?case
    by (auto simp: patched_unique job_approved_patched dest: patched_ok [OF _ _ prove_email.hyps(1) kept_refl, rotated 2])
next
  case (approve i rs r j now js js' g)
  let ?p = "(status_patch Rq_Queued)\<lparr>rp_guardian_address := Some g, rp_guardian_acted_at := Some now, rp_job_id := Some j\<rparr>"
  let ?job = "new_job j (rr_wallet_address r) (rr_chain_id r) Job_Initiate (Some (rr_new_qx r)) (Some (rr_new_qy r)) None now"
  have js': "set js' = insert ?job (set js)" "find_by rj_id j js' = Some ?job"
    using approve.hyps(6) find_by_insert_unique [OF approve.hyps(6), of j] by (auto simp: insert_unique_def split: if_splits)
  have "job_ok js' (request_set ?p now r)" using js'(2) by (simp add: job_ok_def)
  with approve have ok: "\<forall>r \<in> set (patched i ?p now rs). job_ok js' r"
    by (intro patched_ok [OF _ _ approve.hyps(1) jobs_kept_insert [OF approve.hyps(6)]]) simp_all
  have "request_set ?p now r \<in> set (patched i ?p now rs)"
    using approve.hyps(1) by (force simp: patched_def update_where_def dest!: find_by_SomeD)
  moreover have "approves ?job (request_set ?p now r)"
    using approve.hyps(3) by (auto simp: approves_def request_set_def status_patch_def no_patch_def)
  ultimately have "job_approved (patched i ?p now rs) ?job" by (auto simp: job_approved_def)
  with approve ok js'(1) show ?case
    by (auto simp: patched_unique job_approved_patched unique_insert_unique [OF _ approve.hyps(6)])
next
  case (reject i rs r js now g)
  then have "job_ok js r" by (auto dest: find_by_SomeD)
  then have "job_ok js (request_set ((status_patch Rq_Rejected)\<lparr>rp_guardian_address := Some g, rp_guardian_acted_at := Some now\<rparr>) now r)"
    using reject.hyps by (cases rule: job_ok_cases) (auto simp: job_ok_def)
  with reject show ?case
    by (auto simp: patched_unique job_approved_patched dest: patched_ok [OF _ _ reject.hyps(1) kept_refl, rotated 2])
next
  case (cancel_early i rs r js now)
  then have "job_ok js r" by (auto dest: find_by_SomeD)
  then have "job_ok js (request_set (status_patch Rq_Cancelled) now r)"
    using cancel_early.hyps by (cases rule: job_ok_cases) (auto simp: job_ok_def)
  with cancel_early show ?case
    by (auto simp: patched_unique job_approved_patched dest: patched_ok [OF _ _ cancel_early.hyps(1) kept_refl, rotated 2])
next
  case (cancel_late i rs r j sig now js js')
  let ?p = "(status_patch Rq_Cancelled)\<lparr>rp_job_id := Some j\<rparr>"
  let ?job = "new_job j (rr_wallet_address r) (rr_chain_id r) Job_Cancel None None sig now"
  have js': "set js' = insert ?job (set js)" "find_by rj_id j js' = Some ?job"
    using cancel_late.hyps(3) find_by_insert_unique [OF cancel_late.hyps(3), of j] by (auto simp: insert_unique_def split: if_splits)
  have "job_ok js' (request_set ?p now r)" using js'(2) by (simp add: job_ok_def)
  with cancel_late have ok: "\<forall>r \<in> set (patched i ?p now rs). job_ok js' r"
    by (intro patched_ok [OF _ _ cancel_late.hyps(1) jobs_kept_insert [OF cancel_late.hyps(3)]]) simp_all
  have "job_approved (patched i ?p now rs) ?job" by (simp add: job_approved_def)
  with cancel_late ok js'(1) show ?case
    by (auto simp: patched_unique job_approved_patched unique_insert_unique [OF _ cancel_late.hyps(3)])
next
  case (claim js rs j P b until now)
  have "jobs_kept js (update_where (\<lambda>r. rj_id r = j \<and> P r) (job_claim_set b until now) js)" by (rule jobs_kept_update) simp
  with claim show ?case
    by (auto simp: unique_update_where job_approved_sets update_where_jobs dest: job_ok_kept)
next
  case (track js rs j jt now)
  have "jobs_kept js (update_where (\<lambda>r. rj_id r = j) (job_track_set jt now) js)" by (rule jobs_kept_update) simp
  with track show ?case
    by (auto simp: unique_update_where job_approved_sets update_where_jobs dest: job_ok_kept)
next
  case (sync j rs r js job st now)
  then have r: "r \<in> set rs" "rr_job_id r = Some j" "find_by rr_id (rr_id r) rs = Some r"
    by (auto dest: find_by_SomeD intro: find_by_unique)
  from sync.hyps(2) sync.prems have "rj_kind job \<noteq> Job_Execute" by (auto simp: job_approved_def dest: find_by_SomeD)
  with sync.hyps(2,3) r(2) have "job_ok js (request_set (status_patch st) now r)"
    by (cases "rj_kind job") (auto simp: job_ok_def)
  with sync.prems show ?case
    by (auto simp: patched_unique job_approved_patched dest: patched_ok [OF _ _ r(3) kept_refl, rotated 2])
qed

lemma inv_moves: "recovery_moves m m' \<Longrightarrow> machine_inv m \<Longrightarrow> machine_inv m'"
  by (induction rule: rtranclp_induct) (auto intro: inv_move)

lemma reachable_inv: "recovery_reachable env db \<Longrightarrow> machine_inv (machine_of db)"
proof (induction rule: recovery_reachable.induct)
  case (route db db')
  then show ?case using routes_refine_moves inv_moves by blast
qed (simp add: machine_of_def)


section \<open>The life of a request\<close>

text \<open>The statuses a request can have from now on.\<close>

fun ahead :: "request_status \<Rightarrow> request_status list" where
  "ahead Rq_Awaiting_Email = [Rq_Awaiting_Email, Rq_Awaiting_Guardian, Rq_Queued, Rq_On_Chain, Rq_Cancelled, Rq_Rejected]"
| "ahead Rq_Awaiting_Guardian = [Rq_Awaiting_Guardian, Rq_Queued, Rq_On_Chain, Rq_Cancelled, Rq_Rejected]"
| "ahead Rq_Queued = [Rq_Queued, Rq_On_Chain, Rq_Cancelled]"
| "ahead Rq_On_Chain = [Rq_On_Chain, Rq_Cancelled]"
| "ahead s = [s]"

lemma ahead_trans: "t \<in> set (ahead s) \<Longrightarrow> u \<in> set (ahead t) \<Longrightarrow> u \<in> set (ahead s)"
  by (cases s; cases t) auto

lemma ahead_refl [simp]: "s \<in> set (ahead s)"
  by (cases s) simp_all

definition follows :: "recovery_request \<Rightarrow> recovery_request list \<Rightarrow> bool" where
  "follows r rs = (\<exists>r'. find_by rr_id (rr_id r) rs = Some r' \<and> rr_status r' \<in> set (ahead (rr_status r)) \<and>
     rr_wallet_address r' = rr_wallet_address r)"

lemma follows_patched:
  assumes "find_by rr_id (rr_id x) rs = Some x"
    and "\<And>r. find_by rr_id i rs = Some r \<Longrightarrow> nullish (rp_status p) (rr_status r) \<in> set (ahead (rr_status r))"
  shows "follows x (patched i p now rs)"
  using assms by (auto simp: follows_def patched_def find_by_update_where)

lemma follows_same: "find_by rr_id (rr_id x) rs = Some x \<Longrightarrow> follows x rs"
  by (simp add: follows_def)

lemma follows_move: "recovery_move m m' \<Longrightarrow> machine_inv m \<Longrightarrow> find_by rr_id (rr_id x) (snd m) = Some x \<Longrightarrow> follows x (snd m')"
proof (induction rule: recovery_move.induct)
  case (submit i ri now rs rs' js)
  then show ?case by (auto intro!: follows_same simp: find_by_append insert_unique_def split: if_splits)
next
  case (sync j rs r js job st now)
  then have r: "r \<in> set rs" "rr_job_id r = Some j" by (auto dest: find_by_SomeD)
  with sync.prems(1) have "job_ok js r" "rj_kind job \<noteq> Job_Execute"
    using sync.hyps(2) by (auto simp: job_approved_def dest: find_by_SomeD)
  with sync.hyps(2,3) r(2) have step: "st \<in> set (ahead (rr_status r))" by (auto elim!: job_ok_cases)
  from r(1) sync.prems(1) have "find_by rr_id (rr_id r) rs = Some r" by (auto intro: find_by_unique)
  with sync.prems(2) step show ?case by (auto intro!: follows_patched)
next
  case (claim js rs j P b until now)
  then show ?case by (simp add: follows_same)
next
  case (track js rs j jt now)
  then show ?case by (simp add: follows_same)
qed (auto intro!: follows_patched)

lemma follows_moves:
  "recovery_moves m m' \<Longrightarrow> machine_inv m \<Longrightarrow> find_by rr_id (rr_id x) (snd m) = Some x \<Longrightarrow> follows x (snd m')"
proof (induction rule: rtranclp_induct)
  case (step m' m'')
  then obtain y where y: "find_by rr_id (rr_id x) (snd m') = Some y" "rr_status y \<in> set (ahead (rr_status x))"
      "rr_wallet_address y = rr_wallet_address x"
    by (auto simp: follows_def)
  then have "rr_id y = rr_id x" by (auto dest: find_by_SomeD)
  with follows_move [OF step.hyps(2) inv_moves [OF step.hyps(1) step.prems(1)], of y] y show ?case
    by (auto simp: follows_def intro: ahead_trans)
qed (simp add: follows_def)

lemma routes_moves: "(recovery_route env)\<^sup>*\<^sup>* db db' \<Longrightarrow> recovery_moves (machine_of db) (machine_of db')"
  by (induction rule: rtranclp_induct) (auto dest: routes_refine_moves)

lemma later_request:
  assumes "recovery_reachable env db" and "getWalletRecoveryRequest db i = Some r" and "(recovery_route env)\<^sup>*\<^sup>* db db'"
  obtains r' where "getWalletRecoveryRequest db' i = Some r'" "rr_status r' \<in> set (ahead (rr_status r))"
    "rr_wallet_address r' = rr_wallet_address r" "rr_status r' \<notin> {Rq_Completed, Rq_Archived}"
proof -
  have id: "rr_id r = i" using assms(2) by (auto simp: getWalletRecoveryRequest_def dest: find_by_SomeD)
  note inv = reachable_inv [OF assms(1)] and moves = routes_moves [OF assms(3)]
  have "find_by rr_id (rr_id r) (snd (machine_of db)) = Some r" using assms(2) id by (simp add: getWalletRecoveryRequest_def machine_of_def)
  from follows_moves [OF moves inv this] obtain r' where r': "getWalletRecoveryRequest db' i = Some r'"
      "rr_status r' \<in> set (ahead (rr_status r))" "rr_wallet_address r' = rr_wallet_address r"
    by (auto simp: follows_def getWalletRecoveryRequest_def machine_of_def id)
  have "job_ok (recovery_jobs db') r'" using inv_moves [OF moves inv] r'(1)
    by (auto simp: machine_of_def getWalletRecoveryRequest_def dest: find_by_SomeD)
  then have "rr_status r' \<notin> {Rq_Completed, Rq_Archived}" by (auto elim: job_ok_cases)
  with r' that show ?thesis by blast
qed

text \<open>
  Requests only move forward. Through the recovery routes a request goes from the e-mail to
  the guardian to the queue to the chain, or is cancelled, or rejected before it is queued; a
  cancelled or rejected one never moves again, none is ever deleted, and none is ever completed.
\<close>

theorem requests_move_forward:
  assumes "recovery_reachable env db" and "getWalletRecoveryRequest db i = Some r" and "(recovery_route env)\<^sup>*\<^sup>* db db'"
  shows "\<exists>r'. getWalletRecoveryRequest db' i = Some r' \<and> rr_status r' \<in> set (ahead (rr_status r)) \<and>
    rr_status r' \<notin> {Rq_Completed, Rq_Archived}"
  using later_request [OF assms] by metis

text \<open>
  An initiated recovery blocks the next one. Once a request is on chain, whatever the routes
  and the worker do, it is on chain or cancelled, and as long as it is on chain every further
  request for the wallet is turned down; there is no way to finish it.
\<close>

theorem on_chain_request_blocks:
  assumes "recovery_reachable env db" and "getWalletRecoveryRequest db i = Some r" and "rr_status r = Rq_On_Chain"
    and "(recovery_route env)\<^sup>*\<^sup>* db db'" and "rr_wallet_address r = lower w"
  shows "\<exists>r'. getWalletRecoveryRequest db' i = Some r' \<and>
    (rr_status r' = Rq_Cancelled \<or>
     rr_status r' = Rq_On_Chain \<and>
     wallet_refusal env db' cx w = Some (Inl (if getWalletAccount db' w = None then ''account_not_found'' else ''recovery_already_active'')))"
proof -
  obtain r' where r': "getWalletRecoveryRequest db' i = Some r'" "rr_status r' \<in> set (ahead (rr_status r))"
      "rr_wallet_address r' = lower w"
    using later_request [OF assms(1,2,4)] assms(5) by metis
  let ?P = "\<lambda>x. rr_wallet_address x = lower w \<and> request_active x"
  have "getActiveWalletRecoveryRequest db' w \<noteq> None" if "rr_status r' = Rq_On_Chain"
  proof -
    have "r' \<in> set (order_desc rr_created_at (filter ?P (recovery_requests db')))"
      using that r'(1,3) by (auto simp: getWalletRecoveryRequest_def request_active_def order_desc_def dest: find_by_SomeD)
    then show ?thesis
      unfolding getActiveWalletRecoveryRequest_def
      by (cases "order_desc rr_created_at (filter ?P (recovery_requests db'))") (auto simp: first_row_def)
  qed
  with r' assms(3) show ?thesis by (auto simp: wallet_refusal_def)
qed

end
