(* ===== verification/RecoveryOwnership.thy ===== *)
theory RecoveryOwnership
  imports RecoveryProps WebAuthnProps
begin

text \<open>
  Who may do what in a recovery. The guardian's part is \<open>initiate_needs_guardian\<close>; the theorems
  here are about the steps for which the routes ask less than ownership of the wallet: naming
  the recovery e-mail, cancelling, and the operator's step. The last one is the worker's lease.
\<close>

section \<open>Cancelling\<close>

lemma updated_request:
  assumes "getWalletRecoveryRequest db i = Some r"
  shows "getWalletRecoveryRequest (snd (updateWalletRecoveryRequest db i p now)) i = Some (request_set p now r)"
    "fst (updateWalletRecoveryRequest db i p now) = Some (request_set p now r)"
  using assms
  by (auto simp: updateWalletRecoveryRequest_def getWalletRecoveryRequest_def Let_def find_by_update_where dest: find_by_SomeD)

lemma fresh_job:
  assumes "getWalletRecoveryJob db j = None"
  obtains db' where "createWalletRecoveryJob db j w c k qx qy sig now = Some (new_job j w c k qx qy sig now, db')"
    "recovery_requests db' = recovery_requests db" "wallet_accounts db' = wallet_accounts db"
    "recovery_jobs db' = recovery_jobs db @ [new_job j w c k qx qy sig now]"
  using assms by (auto simp: createWalletRecoveryJob_def getWalletRecoveryJob_def insert_unique_def)

lemma consumed_keeps:
  assumes "consume_challenge db cid hp now = (c, db1)"
  shows "recovery_jobs db1 = recovery_jobs db" "recovery_requests db1 = recovery_requests db"
    "wallet_accounts db1 = wallet_accounts db" "wallet_devices db1 = wallet_devices db" "wallet_emails db1 = wallet_emails db"
    "email_otps db1 = email_otps db"
  using assms by (auto simp: consume_challenge_def split: prod.splits)

text \<open>
  Any passkey cancels any recovery. A caller who names an active request and signs the cancel
  challenge with a key of its own, put into the body, cancels the request, whatever devices
  and owner the wallet has.
\<close>

theorem any_passkey_cancels:
  assumes "getWalletRecoveryRequest db i = Some r" and "request_active r"
    and "requireCaptcha env (cb_captcha body) = None"
    and "str (cb_challenge_id body) = Some cid" and "str (cb_credential_id body) = Some cred"
    and "normalizeHex32 (str (cb_owner_qx body)) = Some qx" and "normalizeHex32 (str (cb_owner_qy body)) = Some qy"
    and "consume_challenge db cid Hc_Cancel now = (Some ch, db1)"
    and "cb_assertion body = Some a" and "assertion_error env a (hch_challenge ch) qx qy = None"
    and "getWalletRecoveryJob db j = None"
  shows "\<exists>r'. getWalletRecoveryRequest (snd (cancelRecoveryRequest env db i body j now)) i = Some r' \<and> rr_status r' = Rq_Cancelled"
proof -
  have id: "rr_id r = i" using assms(1) by (auto simp: getWalletRecoveryRequest_def dest: find_by_SomeD)
  have key: "cancel_key env db r body cred = Some (qx, qy)"
  proof -
    have "qx \<noteq> ''''" "qy \<noteq> ''''" using assms(6,7) by (auto simp: normalizeHex32_def Let_def split: if_splits)
    with assms(6,7) show ?thesis by (simp add: cancel_key_def)
  qed
  note kept = consumed_keeps [OF assms(8)]
  have r1: "getWalletRecoveryRequest db1 i = Some r" using assms(1) kept by (simp add: getWalletRecoveryRequest_def)
  have j1: "getWalletRecoveryJob db1 j = None" using assms(11) kept by (simp add: getWalletRecoveryJob_def)
  from j1 obtain db2 where db2: "createWalletRecoveryJob db1 j (rr_wallet_address r) (rr_chain_id r) Job_Cancel None None
      (coalesce (str (cb_authorization body)) (Some (cb_assertion_text body))) now =
      Some (new_job j (rr_wallet_address r) (rr_chain_id r) Job_Cancel None None
        (coalesce (str (cb_authorization body)) (Some (cb_assertion_text body))) now, db2)"
      "recovery_requests db2 = recovery_requests db1"
    by (rule fresh_job)
  from r1 db2(2) have r2: "getWalletRecoveryRequest db2 i = Some r" by (simp add: getWalletRecoveryRequest_def)
  show ?thesis
    using assms(2) unfolding cancelRecoveryRequest_def
    by (simp add: assms(1,3,4,5,8,9,10) key id db2(1) updated_request [OF r1] updated_request [OF r2])
qed

section \<open>The operator's step\<close>

text \<open>
  Any login reopens any recovery of an identity wallet. The operator route asks for a login
  but not for the operator's: whoever is logged in puts a request of any status, closed ones
  included, on chain and queues the job that executes it.
\<close>

theorem any_login_reopens:
  assumes "getWalletRecoveryRequest db i = Some r" and "getWalletAccount db (rr_wallet_address r) = Some account"
    and "truthy (wac_identity_id account)" and "getWalletRecoveryJob db j = None"
  shows "\<exists>r' job. getWalletRecoveryRequest (snd (operatorInitiated db (Some s) i j now)) i = Some r' \<and>
    rr_status r' = Rq_On_Chain \<and> rr_guardian_address r' = Some (ses_identity_id s) \<and>
    getWalletRecoveryJob (snd (operatorInitiated db (Some s) i j now)) j = Some job \<and>
    rj_kind job = Job_Execute \<and> rj_status job = Job_Pending \<and> rj_wallet_address job = lower (rr_wallet_address r)"
proof -
  have id: "rr_id r = i" using assms(1) by (auto simp: getWalletRecoveryRequest_def dest: find_by_SomeD)
  obtain db1 where db1: "createWalletRecoveryJob db j (rr_wallet_address r) (rr_chain_id r) Job_Execute None None None now =
      Some (new_job j (rr_wallet_address r) (rr_chain_id r) Job_Execute None None None now, db1)"
      "recovery_requests db1 = recovery_requests db"
      "recovery_jobs db1 = recovery_jobs db @ [new_job j (rr_wallet_address r) (rr_chain_id r) Job_Execute None None None now]"
    using fresh_job [OF assms(4)] by metis
  let ?p = "(status_patch Rq_On_Chain)\<lparr>rp_guardian_address := Some (ses_identity_id s), rp_guardian_acted_at := Some now, rp_job_id := Some j\<rparr>"
  have res: "snd (operatorInitiated db (Some s) i j now) = snd (updateWalletRecoveryRequest db1 i ?p now)"
    using assms(1-3) id by (simp add: operatorInitiated_def db1(1) case_prod_beta)
  have r1: "getWalletRecoveryRequest db1 i = Some r" using assms(1) db1(2) by (simp add: getWalletRecoveryRequest_def)
  have "recovery_jobs (snd (updateWalletRecoveryRequest db1 i ?p now)) = recovery_jobs db1"
    using machine_of_update [of db1 i ?p now] by (simp add: machine_of_def)
  then have "getWalletRecoveryJob (snd (updateWalletRecoveryRequest db1 i ?p now)) j =
      Some (new_job j (rr_wallet_address r) (rr_chain_id r) Job_Execute None None None now)"
    using assms(4) db1(3) by (simp add: getWalletRecoveryJob_def find_by_append)
  then show ?thesis
    unfolding res by (simp add: updated_request [OF r1] new_job_def) (simp add: request_set_def)
qed

section \<open>The worker's lease\<close>

definition worker_traffic :: "string \<Rightarrow> int \<Rightarrow> timestamp \<Rightarrow> (string, string, job_track) lease_op list \<Rightarrow> bool" where
  "worker_traffic j lease t0 ps =
     (\<forall>p \<in> set ps. t0 \<le> op_now p \<and> op_now p \<le> t0 + lease \<and>
        (op_key p = j \<longrightarrow> (case p of Claim_Op _ _ _ l' _ \<Rightarrow> l' = lease | Track_Op _ jt _ \<Rightarrow> \<not> job_releases jt)))"

fun job_run :: "recovery_db \<Rightarrow> (string, string, job_track) lease_op list \<Rightarrow> recovery_db" where
  "job_run db [] = db"
| "job_run db (Claim_Op j b v l now # ps) = job_run (snd (claimWalletRecoveryJob db j b v l now)) ps"
| "job_run db (Track_Op j jt now # ps) = job_run (snd (trackWalletRecoveryJob db j jt now)) ps"

lemma job_run_queue: "job_queue.run db ps = job_run db ps"
  by (induction db ps rule: job_run.induct) simp_all

text \<open>
  A recovery job has one worker. From a claim that succeeds until the lease runs out, while no
  report finishes the job or puts it back, the claims of every other worker fail and leave the
  database as it is.
\<close>

theorem job_lease_excludes:
  assumes "recovery_reachable env db" and "claimWalletRecoveryJob db j a v lease t0 = (Inr r, db')" and "0 \<le> lease"
    and "worker_traffic j lease t0 ps" and "now \<le> t0 + lease" and "lower b \<noteq> lower a"
  shows "\<exists>e. claimWalletRecoveryJob (job_run db' ps) j b v' l' now = (Inl e, job_run db' ps)"
proof -
  have "jobs_unique db" using reachable_inv [OF assms(1)] by (simp add: machine_of_def jobs_unique_def)
  from job_queue.live_lease_excludes [OF this assms(2,3) _ assms(5,6), of ps v' l'] assms(4)
  show ?thesis by (auto simp: worker_traffic_def job_queue.within_def job_run_queue)
qed

end
