(* ===== verification/RecoveryDemo.thy ===== *)
theory RecoveryDemo
  imports RecoveryOwnership
begin

text \<open>
  A small run of the recovery routes: one wallet, a lost passkey, a guardian. The witnesses of the
  recovery theorems apply them to it.
\<close>

section \<open>The configuration and the first database\<close>

definition demo_env :: recovery_env where
  "demo_env =
     \<lparr>re_webauthn = demo_webauthn,
      re_tokens = \<lparr>te_stringify = (\<lambda>_. ''''), te_parse = (\<lambda>_. None), te_hmac = (\<lambda>_ _. []), te_utf8_bytes = (\<lambda>_. []),
        te_utf8 = (\<lambda>_. ''''), te_encode_uri = id, te_decode_uri = Some\<rparr>,
      re_turnstile_secret = None, re_captcha_provider = None, re_siteverify = (\<lambda>_ _. False), re_rp_id = ''B'',
      re_chain_id = ''1'', re_session_secret = '''', re_is_address = (\<lambda>s. s \<noteq> ''''), re_get_address = id, re_sha256 = id,
      re_restore_enabled = (\<lambda>_. True), re_send_failed = (\<lambda>_. None), re_personal_signer = (\<lambda>_ _. None),
      re_recover_signer = (\<lambda>_ _ _ _ _. None), re_on_chain = (\<lambda>_. None), re_guardian = Some ''g'',
      re_method_id = (\<lambda>_ _ _ _ _. '''')\<rparr>"

definition demo_challenge :: "string \<Rightarrow> hosted_purpose \<Rightarrow> hosted_challenge" where
  "demo_challenge i p =
     \<lparr>hch_id = i, hch_purpose = p, hch_challenge = challengeToBase64Url [1, 2, 3], hch_wallet_address = None,
      hch_consumed = False, hch_expires_at = 1000, hch_created_at = 0\<rparr>"

definition demo_account :: wallet_account where
  "demo_account =
     \<lparr>wac_address = ''w'', wac_salt = '''', wac_owner_qx = ''x'', wac_owner_qy = ''y'', wac_credential_id = None,
      wac_attestation = None, wac_identity_id = Some ''i'', wac_label = None, wac_deployed_chains = [], wac_priority_at = None,
      wac_next_check_at = None, wac_last_check_at = None, wac_check_count = 0, wac_status = Act_Pending, wac_error = None,
      wac_created_at = 0, wac_updated_at = 0\<rparr>"

definition demo_db0 :: recovery_db where
  "demo_db0 =
     \<lparr>identities = [], identity_methods = [], wallet_accounts = [demo_account], wallet_devices = [], wallet_emails = [],
      wallet_entities = [], wallet_entity_keys = [], wallet_log = None, wallet_skip_log = False, recovery_jobs = [],
      recovery_requests = [], email_otps = [], hosted_challenges = [demo_challenge ''c'' Hc_Recover, demo_challenge ''d'' Hc_Cancel],
      guardian_nonces = [], guardian_sessions = [\<lparr>gs_token_hash = ''t'', gs_address = ''g'', gs_expires_at = 1000, gs_created_at = 0\<rparr>]\<rparr>"

definition demo_body :: recover_body where
  "demo_body =
     \<lparr>rb_captcha = None, rb_email_session = None, rb_email = None, rb_wallets = Some [''w''], rb_wallet = None,
      rb_owner_kind = None, rb_new_owner_kind = None, rb_challenge_id = Some ''c'', rb_owner_qx = Some demo_key,
      rb_new_owner_qx = None, rb_owner_qy = Some demo_key, rb_new_owner_qy = None, rb_credential_id = Some ''k'',
      rb_eoa_address = None, rb_eoa_signature = None, rb_assertion = Some demo_assertion, rb_chain_id = None, rb_label = None\<rparr>"

definition demo_cancel :: cancel_body where
  "demo_cancel =
     \<lparr>cb_captcha = None, cb_challenge_id = Some ''d'', cb_owner_qx = Some demo_key, cb_owner_qy = Some demo_key,
      cb_credential_id = Some ''k'', cb_assertion = Some demo_assertion, cb_authorization = None, cb_assertion_text = ''a''\<rparr>"

section \<open>The key of the new device\<close>

lemma hex_digit_lower: "d < 16 \<Longrightarrow> lower_char (hex_digit d) = hex_digit d"
  by (auto simp: lower_char_def hex_digit_def of_char_of Let_def)

lemma hex_text_char:
  assumes "are_bytes bs" "c \<in> set (hex_text bs)"
  shows "lower_char c = c" "\<not> is_space c" "hex_value c \<noteq> None"
proof -
  from assms obtain b where "b \<in> set bs" "c = hex_digit (b div 16) \<or> c = hex_digit (b mod 16)"
    by (auto simp: hex_text_def bytes_to_hex_def)
  moreover from this assms(1) have "b div 16 < 16" "b mod 16 < 16" by (simp_all add: are_bytes_def list_all_iff less_mult_imp_div_less)
  ultimately obtain d where "d < 16" "c = hex_digit d" by blast
  then show "lower_char c = c" "\<not> is_space c" "hex_value c \<noteq> None" by (simp_all add: hex_digit_values hex_digit_lower)
qed

lemma hex_text_length: "length (hex_text bs) = 2 * length bs"
  by (induction bs) (simp_all add: hex_text_def bytes_to_hex_def)

lemma normalizeHex32_key:
  assumes "are_bytes bs" "length bs = 32"
  shows "normalizeHex32 (Some (bytes_to_hex bs)) = Some (bytes_to_hex bs)" "trim (bytes_to_hex bs) = bytes_to_hex bs"
proof -
  show t: "trim (bytes_to_hex bs) = bytes_to_hex bs"
    unfolding bytes_to_hex_text using hex_text_char(2) [OF assms(1)] by (intro trim_no_space) (auto simp: is_space_def)
  have "map lower_char (hex_text bs) = hex_text bs" using hex_text_char(1) [OF assms(1)] by (rule map_idI)
  then have "lower (bytes_to_hex bs) = bytes_to_hex bs" by (simp add: bytes_to_hex_text lower_def lower_char_def)
  with t show "normalizeHex32 (Some (bytes_to_hex bs)) = Some (bytes_to_hex bs)"
    using hex_text_char(3) [OF assms(1)] assms(2)
    by (simp add: normalizeHex32_def Let_def bytes_to_hex_text starts_with_def hex_text_length list_all_iff)
qed

lemma demo_key_bytes: "are_bytes (replicate 32 5)" "length (replicate 32 (5 :: nat)) = 32"
  by (simp_all add: are_bytes_replicate)

lemma demo_key_text: "demo_key = ''0x'' @ hex_text (replicate 32 5)"
  by (simp only: demo_key_def bytes_to_hex_text)

lemma demo_key_simps [simp]:
  "normalizeHex32 (Some demo_key) = Some demo_key" "trim demo_key = demo_key" "demo_key \<noteq> ''''"
  using normalizeHex32_key [OF demo_key_bytes] by (simp_all only: demo_key_def) (simp add: bytes_to_hex_def)

lemma demo_digits: "hex_digit 0 = CHR ''0''" "hex_digit 5 = CHR ''5''"
  by code_simp+

lemma demo_key_not_zero: "\<not> isZeroPubkey demo_key q"
proof -
  have "replicate (Suc 31) (5 :: nat) = 5 # replicate 31 5" by (rule replicate_Suc)
  moreover have "hex_text (5 # bs) = CHR ''0'' # CHR ''5'' # hex_text bs" for bs
    using demo_digits by (simp add: hex_text_def bytes_to_hex_def)
  ultimately have digits: "hex_text (replicate 32 5) = CHR ''0'' # CHR ''5'' # hex_text (replicate 31 5)" by simp
  show ?thesis
    by (simp add: isZeroPubkey_def Let_def) (simp add: demo_key_text digits lower_def lower_char_def)
qed

section \<open>The run\<close>

lemma demo_assertion_accepted: "assertion_error demo_env demo_assertion (challengeToBase64Url [1, 2, 3]) demo_key demo_key = None"
  using demo_assertion_ok by (simp add: assertion_error_def demo_env_def demo_options_def)

lemmas demo_defs = demo_env_def demo_db0_def demo_challenge_def demo_account_def demo_body_def demo_cancel_def

lemma trim_simps [simp]: "trim ''w'' = ''w''" "trim ''c'' = ''c''" "trim ''d'' = ''d''" "trim ''k'' = ''k''" "trim ''j'' = ''j''"
    "lower ''w'' = ''w''" "lower ''b'' = ''b''" "lower ''a'' = ''a''"
  by code_simp+

definition demo_request :: recovery_request where
  "demo_request =
     \<lparr>rr_id = ''r'', rr_wallet_address = ''w'', rr_email = '''', rr_new_qx = demo_key, rr_new_qy = demo_key, rr_credential_id = ''k'',
      rr_device_label = Some ''Recovery device'', rr_new_owner_kind = Ow_Webauthn, rr_new_eoa = None,
      rr_status = Rq_Awaiting_Guardian, rr_email_verified_at = Some 1, rr_captcha_ok_at = Some 1, rr_guardian_address = None,
      rr_guardian_acted_at = None, rr_job_id = None, rr_chain_id = ''1'', rr_operator_payload = None, rr_created_at = 1, rr_updated_at = 1\<rparr>"

definition demo_used :: "hosted_challenge list" where
  "demo_used = [(demo_challenge ''c'' Hc_Recover)\<lparr>hch_consumed := True\<rparr>, demo_challenge ''d'' Hc_Cancel]"

definition demo_db1 :: recovery_db where
  "demo_db1 = demo_db0\<lparr>recovery_requests := [demo_request], hosted_challenges := demo_used\<rparr>"

lemma demo_owner: "new_owner demo_env demo_body (challengeToBase64Url [1, 2, 3]) = Inr (demo_key, demo_key, ''k'', None, None)"
  using demo_assertion_accepted
  by (simp add: new_owner_def demo_body_def parseOwnerKind_def str_def or_null_def)

lemma demo_created: "snd (createRecoveryRequest demo_env demo_db0 demo_body [(''r'', ''o'', ''e'')] 1) = demo_db1"
proof -
  have "verifyRecoveryEmailSession (re_tokens demo_env) (re_session_secret demo_env) (rb_email_session demo_body) 1 = None"
    by (simp add: demo_defs verifyRecoveryEmailSession_def)
  moreover have "consume_challenge demo_db0 ''c'' Hc_Recover 1 =
      (Some ((demo_challenge ''c'' Hc_Recover)\<lparr>hch_consumed := True\<rparr>), demo_db0\<lparr>hosted_challenges := demo_used\<rparr>)"
    by (simp add: consume_challenge_def consumeHostedRecoveryChallenge_def getHostedRecoveryChallenge_def demo_db0_def demo_used_def
      demo_challenge_def update_where_def changes_def)
  ultimately show ?thesis
    using demo_owner
    by (simp add: createRecoveryRequest_def recover_captcha_def requested_wallets_def str_def or_null_def
      requireCaptcha_def requireEmailRestoreEnabled_def requireWalletRestoreEnabled_def wallet_refusal_def request_of_def
      request_email_def email_verified_def needs_code_def createWalletRecoveryRequest_def insert_unique_def new_request_def
      parseOwnerKind_def getWalletAccount_def getActiveWalletRecoveryRequest_def order_desc_def getWalletEmail_def Let_def
      normalizeEmail_def demo_defs demo_db1_def demo_request_def demo_used_def)
qed

definition demo_approved :: recovery_request where
  "demo_approved =
     demo_request\<lparr>rr_status := Rq_Queued, rr_guardian_address := Some ''g'', rr_guardian_acted_at := Some 2, rr_job_id := Some ''j'',
       rr_updated_at := 2\<rparr>"

definition demo_db2 :: recovery_db where
  "demo_db2 = snd (guardianApprove demo_env demo_db1 (Some ''t'') ''r'' ''j'' 2)"

lemma demo_machine2:
  "machine_of demo_db2 = ([new_job ''j'' ''w'' ''1'' Job_Initiate (Some demo_key) (Some demo_key) None 2], [demo_approved])"
  unfolding demo_db2_def
  by (simp add: guardianApprove_def requireGuardianSession_def demo_defs demo_db1_def demo_request_def demo_approved_def
    demo_key_not_zero getGuardianSession_def is_guardian_def getWalletRecoveryRequest_def createWalletRecoveryJob_def insert_unique_def
    case_prod_beta Let_def machine_frame)
    (simp add: machine_of_def patched_def update_where_def request_set_def status_patch_def no_patch_def)

lemma demo_recovery_reachable: "recovery_reachable demo_env demo_db0" "recovery_reachable demo_env demo_db1" "recovery_reachable demo_env demo_db2"
proof -
  show 0: "recovery_reachable demo_env demo_db0" by (rule recovery_reachable.start) (simp_all add: demo_db0_def)
  show 1: "recovery_reachable demo_env demo_db1"
    using recovery_reachable.route [OF 0 recovery_route.create [of _ _ demo_body "[(''r'', ''o'', ''e'')]" 1]] by (simp only: demo_created)
  show "recovery_reachable demo_env demo_db2"
    unfolding demo_db2_def by (rule recovery_reachable.route [OF 1 recovery_route.approve])
qed

lemma demo_tables [simp]:
  "recovery_jobs demo_db2 = [new_job ''j'' ''w'' ''1'' Job_Initiate (Some demo_key) (Some demo_key) None 2]"
  "recovery_requests demo_db2 = [demo_approved]"
  using demo_machine2 by (simp_all add: machine_of_def)

section \<open>Witnesses\<close>

theorem routes_refine_moves_witness:
  "recovery_moves ([], [demo_request]) ([new_job ''j'' ''w'' ''1'' Job_Initiate (Some demo_key) (Some demo_key) None 2], [demo_approved])"
  using routes_refine_moves [OF recovery_route.approve [of demo_env demo_db1 "Some ''t''" "''r''" "''j''" 2]] demo_machine2
  by (simp add: demo_db2_def machine_of_def demo_db1_def demo_db0_def)


theorem requests_move_forward_witness:
  "\<exists>r'. getWalletRecoveryRequest demo_db2 ''r'' = Some r' \<and> rr_status r' \<in> set (ahead Rq_Awaiting_Guardian)"
proof -
  have "recovery_route demo_env demo_db1 demo_db2" unfolding demo_db2_def by (rule recovery_route.approve)
  moreover have "getWalletRecoveryRequest demo_db1 ''r'' = Some demo_request"
    by (simp add: getWalletRecoveryRequest_def demo_db1_def demo_request_def)
  moreover have "rr_status demo_request = Rq_Awaiting_Guardian" by (simp add: demo_request_def)
  ultimately show ?thesis
    using requests_move_forward [OF demo_recovery_reachable(2), of "''r''" demo_request demo_db2] by fastforce
qed

lemma demo_job_claim: "\<exists>r db. claimWalletRecoveryJob demo_db2 ''j'' ''a'' 1 10 3 = (Inr r, db)"
  by (simp add: claimWalletRecoveryJob_def Let_def changes_def job_claim_where_def getWalletRecoveryJob_def new_job_def update_where_def
    job_claim_set_def)

theorem job_lease_excludes_witness:
  "\<exists>r db e. claimWalletRecoveryJob demo_db2 ''j'' ''a'' 1 10 3 = (Inr r, db) \<and>
    claimWalletRecoveryJob (job_run db [Claim_Op ''j'' ''b'' 2 10 4]) ''j'' ''b'' 2 10 5 =
      (Inl e, job_run db [Claim_Op ''j'' ''b'' 2 10 4])"
proof -
  obtain r db where c: "claimWalletRecoveryJob demo_db2 ''j'' ''a'' 1 10 3 = (Inr r, db)" using demo_job_claim by blast
  have "worker_traffic ''j'' 10 3 [Claim_Op ''j'' ''b'' 2 10 4]" by (simp add: worker_traffic_def)
  from job_lease_excludes [OF demo_recovery_reachable(3) c _ this, of 5 "''b''" 2 10] c show ?thesis by auto
qed

definition demo_included :: job_track where
  "demo_included =
     \<lparr>jt_status = Some Job_Included, jt_tx_hash = None, jt_error = None, jt_expected_version = None, jt_worker = None\<rparr>"

definition demo_db3 :: recovery_db where
  "demo_db3 = snd (trackJobRoute demo_env demo_db2 (Some ''j'') demo_included 4)"

lemma demo_db3_request:
  "getWalletRecoveryRequest demo_db3 ''r'' = Some (demo_approved\<lparr>rr_status := Rq_On_Chain, rr_updated_at := 4\<rparr>)"
proof -
  have "snd (machine_of demo_db3) = [demo_approved\<lparr>rr_status := Rq_On_Chain, rr_updated_at := 4\<rparr>]"
    by (simp add: demo_db3_def trackJobRoute_def str_def or_null_def demo_included_def trackWalletRecoveryJob_def
      getWalletRecoveryJob_def job_terminal_def Let_def update_where_def syncRequestFromJob_def getWalletRecoveryRequestByJobId_def)
      (simp add: machine_of_def patched_def update_where_def request_set_def status_patch_def no_patch_def demo_approved_def demo_request_def)
  then show ?thesis by (simp add: getWalletRecoveryRequest_def machine_of_def demo_approved_def demo_request_def)
qed

theorem on_chain_request_blocks_witness:
  "\<forall>cx. wallet_refusal demo_env demo_db3 cx ''w'' =
     Some (Inl (if getWalletAccount demo_db3 ''w'' = None then ''account_not_found'' else ''recovery_already_active''))"
proof
  fix cx
  have "recovery_reachable demo_env demo_db3"
    unfolding demo_db3_def by (rule recovery_reachable.route [OF demo_recovery_reachable(3) recovery_route.track_job])
  from on_chain_request_blocks [OF this demo_db3_request _ rtranclp.rtrancl_refl, of "''w''" cx] demo_db3_request
  show "wallet_refusal demo_env demo_db3 cx ''w'' =
      Some (Inl (if getWalletAccount demo_db3 ''w'' = None then ''account_not_found'' else ''recovery_already_active''))"
    by (simp add: demo_approved_def demo_request_def)
qed

theorem any_passkey_cancels_witness:
  "\<exists>r. getWalletRecoveryRequest (snd (cancelRecoveryRequest demo_env demo_db1 ''r'' demo_cancel ''j'' 2)) ''r'' = Some r \<and>
     rr_status r = Rq_Cancelled"
proof -
  let ?ch = "(demo_challenge ''d'' Hc_Cancel)\<lparr>hch_consumed := True\<rparr>"
  have req: "getWalletRecoveryRequest demo_db1 ''r'' = Some demo_request" "request_active demo_request"
    by (simp_all add: getWalletRecoveryRequest_def demo_db1_def demo_request_def request_active_def)
  have body: "requireCaptcha demo_env (cb_captcha demo_cancel) = None" "str (cb_challenge_id demo_cancel) = Some ''d''"
      "str (cb_credential_id demo_cancel) = Some ''k''" "normalizeHex32 (str (cb_owner_qx demo_cancel)) = Some demo_key"
      "normalizeHex32 (str (cb_owner_qy demo_cancel)) = Some demo_key" "cb_assertion demo_cancel = Some demo_assertion"
      "getWalletRecoveryJob demo_db1 ''j'' = None"
    by (simp_all add: requireCaptcha_def demo_defs str_def or_null_def getWalletRecoveryJob_def demo_db1_def)
  have "\<exists>db. consume_challenge demo_db1 ''d'' Hc_Cancel 2 = (Some ?ch, db)"
    by (simp add: consume_challenge_def consumeHostedRecoveryChallenge_def getHostedRecoveryChallenge_def demo_db1_def demo_used_def
      demo_challenge_def update_where_def changes_def)
  then obtain db where "consume_challenge demo_db1 ''d'' Hc_Cancel 2 = (Some ?ch, db)" by blast
  moreover have "assertion_error demo_env demo_assertion (hch_challenge ?ch) demo_key demo_key = None"
    using demo_assertion_accepted by (simp add: demo_challenge_def)
  ultimately show ?thesis by (rule any_passkey_cancels [OF req body(1-5) _ body(6) _ body(7)])
qed

definition demo_rejected_db :: recovery_db where
  "demo_rejected_db = demo_db0\<lparr>recovery_requests := [demo_request\<lparr>rr_status := Rq_Rejected\<rparr>]\<rparr>"

theorem any_login_reopens_witness:
  "\<exists>r. getWalletRecoveryRequest (snd (operatorInitiated demo_rejected_db
       (Some \<lparr>ses_identity_id = ''mallory'', ses_email = ''m@m'', ses_exp = 100\<rparr>) ''r'' ''j'' 2)) ''r'' = Some r \<and>
     rr_status r = Rq_On_Chain"
proof -
  have "getWalletRecoveryRequest demo_rejected_db ''r'' = Some (demo_request\<lparr>rr_status := Rq_Rejected\<rparr>)"
      "getWalletAccount demo_rejected_db (rr_wallet_address (demo_request\<lparr>rr_status := Rq_Rejected\<rparr>)) = Some demo_account"
      "truthy (wac_identity_id demo_account)" "getWalletRecoveryJob demo_rejected_db ''j'' = None"
    by (simp_all add: demo_rejected_db_def demo_db0_def demo_request_def demo_account_def getWalletRecoveryRequest_def
      getWalletAccount_def getWalletRecoveryJob_def)
  from any_login_reopens [OF this] show ?thesis by blast
qed

end
