(* ===== verification/RecoveryReads.thy ===== *)
theory RecoveryReads
  imports RecoveryFlow
begin

text \<open>
  The remaining routes of commerce/server/wallet-hosted-recovery.ts: drawing a challenge, the
  state of a wallet's recovery, its e-mail, and the guardian's list; with the views of a request
  they send (\<open>publicRequest\<close>, \<open>guardianRequest\<close>) and the masked e-mail of commerce/server/email.ts.
\<close>

definition maskEmail :: "string \<Rightarrow> string" where
  "maskEmail e =
     (let normalized = lower (trim e) in
      case index_of normalized ''@'' of
        None \<Rightarrow> ''***''
      | Some p \<Rightarrow>
          if p = 0 then ''***''
          else take (min 2 p) normalized @ ''***@'' @ drop (p + 1) normalized)"

text \<open>A view is the request without the captcha time and the operators' payload, and with the e-mail masked.\<close>

record request_view =
  rv_id :: string
  rv_wallet_address :: address
  rv_email :: string
  rv_new_key :: "string \<times> string"
  rv_credential_id :: string
  rv_device_label :: "string option"
  rv_new_owner_kind :: owner_kind
  rv_new_eoa :: "string option"
  rv_status :: request_status
  rv_email_verified_at :: "timestamp option"
  rv_guardian_address :: "string option"
  rv_guardian_acted_at :: "timestamp option"
  rv_job_id :: "string option"
  rv_chain_id :: string
  rv_created_at :: timestamp
  rv_updated_at :: timestamp

definition publicRequest :: "recovery_request \<Rightarrow> request_view" where
  "publicRequest r =
     \<lparr>rv_id = rr_id r, rv_wallet_address = rr_wallet_address r, rv_email = (if rr_email r \<noteq> '''' then maskEmail (rr_email r) else ''''),
      rv_new_key = (rr_new_qx r, rr_new_qy r), rv_credential_id = rr_credential_id r, rv_device_label = rr_device_label r,
      rv_new_owner_kind = rr_new_owner_kind r, rv_new_eoa = rr_new_eoa r, rv_status = rr_status r,
      rv_email_verified_at = rr_email_verified_at r, rv_guardian_address = rr_guardian_address r,
      rv_guardian_acted_at = rr_guardian_acted_at r, rv_job_id = rr_job_id r, rv_chain_id = rr_chain_id r,
      rv_created_at = rr_created_at r, rv_updated_at = rr_updated_at r\<rparr>"

definition guardianRequest :: "recovery_request \<Rightarrow> request_view" where
  "guardianRequest r = (publicRequest r)\<lparr>rv_email := rr_email r\<rparr>"

definition parse_purpose :: "string option \<Rightarrow> hosted_purpose option" where
  "parse_purpose p =
     (if p = Some ''attach'' then Some Hc_Attach else if p = Some ''recover'' then Some Hc_Recover
      else if p = Some ''cancel'' then Some Hc_Cancel else if p = Some ''record'' then Some Hc_Record else None)"

text \<open>\<open>POST /api/wallet/recovery/challenges\<close>; \<open>i\<close> and \<open>bytes\<close> are the random values.\<close>

definition recoveryChallengeRoute ::
    "recovery_db \<Rightarrow> string option \<Rightarrow> string option \<Rightarrow> string \<Rightarrow> nat list \<Rightarrow> timestamp \<Rightarrow> hosted_challenge option wallet_result \<times> recovery_db" where
  "recoveryChallengeRoute db purpose wallet i bytes now =
     (case parse_purpose (str purpose) of
        None \<Rightarrow> (failed 400 ''purpose must be attach, recover, cancel, or record'', db)
      | Some p \<Rightarrow>
          (case createHostedRecoveryChallenge (hosted_challenges db) i p (challengeToBase64Url bytes) (str wallet) None now of
             (None, t) \<Rightarrow> (failed 500 ''error'', db\<lparr>hosted_challenges := t\<rparr>)
           | (Some c, t) \<Rightarrow> (Inr (Some c), db\<lparr>hosted_challenges := t\<rparr>)))"

text \<open>\<open>GET /api/wallet/email\<close>: the wallet, the masked e-mail, whether it is verified.\<close>

definition walletEmailRoute ::
    "recovery_env \<Rightarrow> recovery_db \<Rightarrow> string option \<Rightarrow> (address \<times> string option \<times> bool) wallet_result" where
  "walletEmailRoute env db wallet =
     (let w = map_option trim wallet in
      if \<not> truthy w \<or> \<not> re_is_address env (the w) then failed 400 ''wallet required''
      else (let row = getWalletEmail db (the w) in
            Inr (lower (re_get_address env (the w)), map_option (maskEmail \<circ> wem_email) row,
                 opt_ex (\<lambda>r. wem_verified_at r \<noteq> None) row)))"

record pending_owner =
  po_qx :: string
  po_qy :: string
  po_executable_at :: string
  po_request_id :: string
  po_active :: bool

text \<open>
  \<open>GET /api/wallet/recovery\<close>. \<open>identity_restore\<close> and \<open>wallet_pending\<close> read the chain, \<open>None\<close> where
  nothing is pending, the call fails, or no RPC is configured.
\<close>

definition getRecoveryStatus ::
    "recovery_env \<Rightarrow> (string \<Rightarrow> pending_owner option) \<Rightarrow> (address \<Rightarrow> pending_owner option) \<Rightarrow> recovery_db \<Rightarrow> string option \<Rightarrow>
     (request_view option \<times> pending_owner option \<times> (string \<times> bool) option) wallet_result" where
  "getRecoveryStatus env identity_restore wallet_pending db wallet =
     (let w = map_option trim wallet in
      if \<not> truthy w \<or> \<not> re_is_address env (the w) then failed 400 ''wallet required''
      else (let a = the w;
                pending = (case Option.bind (getWalletAccount db a) (or_null \<circ> wac_identity_id) of
                     Some i \<Rightarrow> map_option (\<lambda>p. p\<lparr>po_request_id := zero_hash\<rparr>) (identity_restore i)
                   | None \<Rightarrow> wallet_pending (re_get_address env a)) in
            Inr (map_option publicRequest (getActiveWalletRecoveryRequest db a), pending,
                 map_option (\<lambda>r. (maskEmail (wem_email r), wem_verified_at r \<noteq> None)) (getWalletEmail db a))))"

section \<open>The guardian's list\<close>

fun parse_request_status :: "string \<Rightarrow> request_status option" where
  "parse_request_status s =
     map_of [(''awaiting_email'', Rq_Awaiting_Email), (''awaiting_guardian'', Rq_Awaiting_Guardian), (''queued'', Rq_Queued),
       (''on_chain'', Rq_On_Chain), (''completed'', Rq_Completed), (''cancelled'', Rq_Cancelled), (''rejected'', Rq_Rejected),
       (''archived'', Rq_Archived)] s"

text \<open>
  The statuses the query names. A word that names none matches no row; a list of such words
  only is not the empty list, so it selects nothing.
\<close>

definition guardian_statuses :: "string option \<Rightarrow> request_status option list" where
  "guardian_statuses requested =
     (if requested = Some ''active'' then map Some [Rq_Awaiting_Guardian, Rq_Queued, Rq_On_Chain]
      else if requested = Some ''archive'' then map Some [Rq_Completed, Rq_Cancelled, Rq_Rejected, Rq_Archived]
      else if truthy requested then map (parse_request_status \<circ> trim) (split_on (CHR '','') (the requested))
      else map Some [Rq_Awaiting_Guardian, Rq_Queued, Rq_On_Chain])"

definition listed_requests :: "recovery_db \<Rightarrow> request_status option list \<Rightarrow> recovery_request list" where
  "listed_requests db statuses =
     take 200 (order_desc rr_created_at (filter (\<lambda>r. Some (rr_status r) \<in> set statuses) (recovery_requests db)))"

definition guardianList ::
    "recovery_env \<Rightarrow> recovery_db \<Rightarrow> string option \<Rightarrow> string option \<Rightarrow> timestamp \<Rightarrow> request_view list wallet_result \<times> recovery_db" where
  "guardianList env db token requested now =
     (case requireGuardianSession env db token now of
        (Inl e, db1) \<Rightarrow> (Inl e, db1)
      | (Inr _, db1) \<Rightarrow> (Inr (map guardianRequest (listed_requests db1 (guardian_statuses requested))), db1))"

text \<open>\<open>listed_requests\<close> is \<open>listWalletRecoveryRequests\<close> on the words that name a status.\<close>

lemma listed_requests_eq:
  assumes "ss \<noteq> []"
  shows "listed_requests db (map Some ss) = listWalletRecoveryRequests db (Some ss)"
proof -
  have "Some x \<in> Some ` set ss \<longleftrightarrow> x \<in> set ss" for x by auto
  with assms show ?thesis by (simp add: listed_requests_def listWalletRecoveryRequests_def)
qed

end
