(* ===== verification/UserOpFee.thy ===== *)
theory UserOpFee
  imports UserOps Decimals CredentialId "HOL-Library.Signed_Division"
begin

text \<open>
  What a user operation says: building and reading its call data, gas words and fee
  (commerce/shared/userop.ts), the fee check of server and bundler (commerce/shared/userop-fee.ts),
  and USDC amounts as text. The ABI codec of ethers is the parameter \<open>abi_env\<close>; \<open>None\<close> is an
  exception (or, for the parsers, a \<open>null\<close>, which the code treats alike).
\<close>

unbundle bit_operations_syntax

record batch_call =
  bc_target :: address
  bc_value :: int
  bc_data :: string

type_synonym abi_row = "string \<times> int \<times> string"

text \<open>
  \<open>ab_wallet_tx\<close>: name and second argument of a call to the wallet; \<open>ab_erc20_tx\<close>: name and the
  two arguments of a call to a token; \<open>ab_batch\<close>: the rows of \<open>tuple(address,uint256,bytes)[]\<close>;
  \<open>ab_be_hex32\<close>: \<open>toBeHex(n, 32)\<close>.
\<close>

record abi_env =
  ab_address :: "string \<Rightarrow> address option"
  ab_wallet_tx :: "string \<Rightarrow> (string \<times> string) option"
  ab_erc20_tx :: "string \<Rightarrow> (string \<times> string \<times> int) option"
  ab_batch :: "string \<Rightarrow> abi_row list option"
  ab_encode_transfer :: "address \<Rightarrow> int \<Rightarrow> string option"
  ab_encode_execute :: "string \<Rightarrow> string \<Rightarrow> string"
  ab_encode_batch :: "abi_row list \<Rightarrow> string option"
  ab_be_hex32 :: "int \<Rightarrow> string"

section \<open>BigInt of a text\<close>

definition radix_int :: "nat \<Rightarrow> string \<Rightarrow> int option" where
  "radix_int b s =
     (if s = '''' \<or> \<not> list_all (\<lambda>c. opt_ex (\<lambda>d. d < b) (hex_value c)) s then None
      else Some (foldl (\<lambda>a c. int b * a + int (the (hex_value c))) 0 s))"

definition BigInt_text :: "string \<Rightarrow> int option" where
  "BigInt_text s =
     (let t = trim s; prefix = lower (take 2 t) in
      if t = '''' then Some 0
      else if prefix = ''0x'' then radix_int 16 (drop 2 t)
      else if prefix = ''0o'' then radix_int 8 (drop 2 t)
      else if prefix = ''0b'' then radix_int 2 (drop 2 t)
      else if take 1 t = ''-'' then map_option uminus (radix_int 10 (drop 1 t))
      else if take 1 t = ''+'' then radix_int 10 (drop 1 t)
      else radix_int 10 t)"

section \<open>Gas words\<close>

definition mask128 :: int where
  "mask128 = push_bit 128 1 - 1"

definition packUint128Pair :: "abi_env \<Rightarrow> int \<Rightarrow> int \<Rightarrow> string" where
  "packUint128Pair env high low = ab_be_hex32 env (push_bit 128 (high AND mask128) OR (low AND mask128))"

definition unpackUint128Pair :: "string \<Rightarrow> (int \<times> int) option" where
  "unpackUint128Pair packed = map_option (\<lambda>v. (drop_bit 128 v, v AND mask128)) (BigInt_text packed)"

definition estimateUserOpPrefund :: "packed_user_op \<Rightarrow> int option" where
  "estimateUserOpPrefund op =
     (case (unpackUint128Pair (puo_account_gas_limits op), unpackUint128Pair (puo_gas_fees op),
            BigInt_text (puo_pre_verification_gas op)) of
        (Some (verification, call), Some (_, max_fee), Some pre) \<Rightarrow> Some ((verification + call + pre) * max_fee)
      | _ \<Rightarrow> None)"

record gas_config =
  gas_verification :: int
  gas_call :: int
  gas_pre_verification :: int
  gas_max_fee :: int
  gas_max_priority_fee :: int

definition DEFAULT_GAS :: gas_config where
  "DEFAULT_GAS =
     \<lparr>gas_verification = 500000, gas_call = 350000, gas_pre_verification = 50000, gas_max_fee = 1000000000,
      gas_max_priority_fee = 1000000000\<rparr>"

section \<open>Building an operation\<close>

definition ERC7821_BATCH_MODE :: string where
  "ERC7821_BATCH_MODE = ''0x01'' @ replicate 62 (CHR ''0'')"

definition encodeErc20Transfer :: "abi_env \<Rightarrow> string \<Rightarrow> int \<Rightarrow> string option" where
  "encodeErc20Transfer env recipient amount = Option.bind (ab_address env recipient) (\<lambda>a. ab_encode_transfer env a amount)"

definition encodeBatch :: "abi_env \<Rightarrow> batch_call list \<Rightarrow> string option" where
  "encodeBatch env calls =
     Option.bind (those (map (\<lambda>c. map_option (\<lambda>t. (t, bc_value c, bc_data c)) (ab_address env (bc_target c))) calls))
       (ab_encode_batch env)"

definition encodeExecuteCallData :: "abi_env \<Rightarrow> batch_call list \<Rightarrow> string option" where
  "encodeExecuteCallData env calls = map_option (ab_encode_execute env ERC7821_BATCH_MODE) (encodeBatch env calls)"

definition token_call :: "abi_env \<Rightarrow> string \<Rightarrow> string \<Rightarrow> int \<Rightarrow> batch_call option" where
  "token_call env token recipient amount =
     (case (ab_address env token, encodeErc20Transfer env recipient amount) of
        (Some t, Some d) \<Rightarrow> Some \<lparr>bc_target = t, bc_value = 0, bc_data = d\<rparr>
      | _ \<Rightarrow> None)"

definition buildFeeTransferCall :: "abi_env \<Rightarrow> string \<Rightarrow> string \<Rightarrow> int \<Rightarrow> batch_call option" where
  "buildFeeTransferCall env fee_token beneficiary amount = token_call env fee_token beneficiary amount"

definition buildSendBatchCalls :: "abi_env \<Rightarrow> string \<Rightarrow> string \<Rightarrow> int \<Rightarrow> string \<Rightarrow> int \<Rightarrow> string option \<Rightarrow> batch_call list option" where
  "buildSendBatchCalls env fee_token beneficiary fee recipient amount send_token =
     (case (buildFeeTransferCall env fee_token beneficiary fee, token_call env (nullish send_token fee_token) recipient amount) of
        (Some f, Some s) \<Rightarrow> Some [f, s]
      | _ \<Rightarrow> None)"

definition buildPackedUserOperation :: "abi_env \<Rightarrow> string \<Rightarrow> int \<Rightarrow> string \<Rightarrow> string option \<Rightarrow> gas_config \<Rightarrow> packed_user_op option" where
  "buildPackedUserOperation env sender nonce call_data signature g =
     map_option (\<lambda>a.
       \<lparr>puo_sender = a, puo_nonce = int_text nonce, puo_init_code = ''0x'', puo_call_data = call_data,
        puo_account_gas_limits = packUint128Pair env (gas_verification g) (gas_call g),
        puo_pre_verification_gas = int_text (gas_pre_verification g),
        puo_gas_fees = packUint128Pair env (gas_max_priority_fee g) (gas_max_fee g),
        puo_paymaster_and_data = ''0x'', puo_signature = nullish signature ''0x''\<rparr>) (ab_address env sender)"

section \<open>Reading an operation\<close>

definition decodeErc20TransferCall :: "abi_env \<Rightarrow> string \<Rightarrow> (address \<times> int) option" where
  "decodeErc20TransferCall env data =
     (case ab_erc20_tx env data of
        None \<Rightarrow> None
      | Some (name, recipient, amount) \<Rightarrow>
          if name \<noteq> ''transfer'' then None else map_option (\<lambda>a. (a, amount)) (ab_address env recipient))"

definition read_rows :: "abi_env \<Rightarrow> abi_row list \<Rightarrow> batch_call list option" where
  "read_rows env rows =
     those (map (\<lambda>(t, v, d). map_option (\<lambda>a. \<lparr>bc_target = a, bc_value = v, bc_data = d\<rparr>) (ab_address env t)) rows)"

definition decodeExecuteCalls :: "abi_env \<Rightarrow> string \<Rightarrow> batch_call list" where
  "decodeExecuteCalls env call_data =
     (case ab_wallet_tx env call_data of
        None \<Rightarrow> []
      | Some (name, data) \<Rightarrow>
          if name \<noteq> ''execute'' then [] else nullish (Option.bind (ab_batch env data) (read_rows env)) [])"

text \<open>The log entries of a transaction, as \<open>parseLog\<close> reads them: event name, operation hash, success.\<close>

fun userOpExecutionSucceeded :: "('l \<Rightarrow> (string \<times> string \<times> bool) option) \<Rightarrow> 'l list \<Rightarrow> string \<Rightarrow> bool" where
  "userOpExecutionSucceeded parse [] h = False"
| "userOpExecutionSucceeded parse (l # ls) h =
     (case parse l of
        Some (name, hash, success) \<Rightarrow>
          if name = ''UserOperationEvent'' \<and> lower hash = lower h then success else userOpExecutionSucceeded parse ls h
      | None \<Rightarrow> userOpExecutionSucceeded parse ls h)"

section \<open>The fee check\<close>

datatype fee_reason = Fee_Missing | Fee_Too_Low | Invalid_Call_Data | Invalid_Batch | Wrong_Beneficiary | Wrong_Fee_Token

record fee_config =
  fc_fee_token :: string
  fc_fee_token_symbol :: string
  fc_fee_token_decimals :: nat
  fc_beneficiary :: string
  fc_min_fee :: int

record decoded_fee =
  df_amount :: int
  df_token :: address
  df_beneficiary :: address
  df_main_calls :: "batch_call list"

definition TRANSFER_SELECTOR :: string where
  "TRANSFER_SELECTOR = ''0xa9059cbb''"

definition decodeBatchFromExecutionData :: "abi_env \<Rightarrow> string \<Rightarrow> batch_call list option" where
  "decodeBatchFromExecutionData env data = Option.bind (ab_batch env data) (read_rows env)"

definition decodeExecuteBatch :: "abi_env \<Rightarrow> string \<Rightarrow> batch_call list option" where
  "decodeExecuteBatch env call_data =
     (if call_data = '''' \<or> call_data = ''0x'' then None
      else (case ab_wallet_tx env call_data of
        None \<Rightarrow> None
      | Some (name, data) \<Rightarrow> if name \<noteq> ''execute'' then None else decodeBatchFromExecutionData env data))"

definition decodeTransfer :: "abi_env \<Rightarrow> string \<Rightarrow> (address \<times> int) option" where
  "decodeTransfer env data =
     (if \<not> starts_with (lower data) TRANSFER_SELECTOR then None else decodeErc20TransferCall env data)"

text \<open>The outer \<open>None\<close> is an exception of \<open>getAddress\<close>, which only a bad configuration causes.\<close>

definition validateFeeBatch :: "abi_env \<Rightarrow> batch_call list option \<Rightarrow> fee_config \<Rightarrow> (fee_reason + decoded_fee) option" where
  "validateFeeBatch env calls c =
     (case nullish calls [] of
        [] \<Rightarrow> Some (Inl Invalid_Batch)
      | first # rest \<Rightarrow>
          (case (ab_address env (bc_target first), ab_address env (fc_fee_token c)) of
             (Some target, Some token) \<Rightarrow>
               if target \<noteq> token then Some (Inl Wrong_Fee_Token)
               else (case decodeTransfer env (bc_data first) of
                 None \<Rightarrow> Some (Inl Fee_Missing)
               | Some (recipient, amount) \<Rightarrow>
                   (case (ab_address env recipient, ab_address env (fc_beneficiary c)) of
                      (Some r, Some b) \<Rightarrow>
                        if r \<noteq> b then Some (Inl Wrong_Beneficiary)
                        else if amount < fc_min_fee c then Some (Inl Fee_Too_Low)
                        else Some (Inr \<lparr>df_amount = amount, df_token = target, df_beneficiary = recipient, df_main_calls = rest\<rparr>)
                    | _ \<Rightarrow> None))
           | _ \<Rightarrow> None))"

definition validateUserOpFee :: "abi_env \<Rightarrow> packed_user_op \<Rightarrow> fee_config \<Rightarrow> (fee_reason + decoded_fee) option" where
  "validateUserOpFee env op c =
     (case decodeExecuteBatch env (puo_call_data op) of
        None \<Rightarrow> Some (Inl Invalid_Call_Data)
      | Some calls \<Rightarrow> validateFeeBatch env (Some calls) c)"

text \<open>Of an accepted send: what was decoded, the amount and the recipient.\<close>

definition validateSendUserOp ::
    "abi_env \<Rightarrow> packed_user_op \<Rightarrow> fee_config \<Rightarrow> (fee_reason + decoded_fee \<times> int \<times> address) option" where
  "validateSendUserOp env op c =
     (case validateUserOpFee env op c of
        None \<Rightarrow> None
      | Some (Inl e) \<Rightarrow> Some (Inl e)
      | Some (Inr d) \<Rightarrow>
          (case df_main_calls d of
             [main] \<Rightarrow>
               (case (ab_address env (bc_target main), ab_address env (fc_fee_token c)) of
                  (Some target, Some token) \<Rightarrow>
                    if target \<noteq> token then Some (Inl Wrong_Fee_Token)
                    else (case decodeTransfer env (bc_data main) of
                      None \<Rightarrow> Some (Inl Invalid_Batch)
                    | Some (recipient, amount) \<Rightarrow> Some (Inr (d, amount, recipient)))
                | _ \<Rightarrow> None)
           | _ \<Rightarrow> Some (Inl Invalid_Batch)))"

section \<open>Amounts as text\<close>

definition formatUsdcAmount :: "int \<Rightarrow> nat \<Rightarrow> string" where
  "formatUsdcAmount atoms decimals =
     (let base = 10 ^ decimals;
          whole = atoms sdiv base; fraction = atoms smod base;
          padded = pad_start decimals (CHR ''0'') (int_text fraction);
          frac_str = rev (dropWhile (\<lambda>c. c = CHR ''0'') (rev padded)) in
      if frac_str \<noteq> '''' then int_text whole @ ''.'' @ frac_str else int_text whole)"

definition formatUsdFromUsdc :: "int \<Rightarrow> nat \<Rightarrow> string" where
  "formatUsdFromUsdc atoms decimals = CHR ''$'' # formatUsdcAmount atoms decimals"

definition digits :: "string \<Rightarrow> bool" where
  "digits s = (s \<noteq> '''' \<and> list_all is_digit s)"

definition parseUsdcInput :: "string \<Rightarrow> nat \<Rightarrow> int option" where
  "parseUsdcInput v decimals =
     (let read = (\<lambda>whole fraction.
            if decimals < length fraction then None
            else Some (int (number_of whole) * 10 ^ decimals +
                       int (number_of (fraction @ replicate (decimals - length fraction) (CHR ''0''))))) in
      case split_on (CHR ''.'') (trim v) of
        [whole] \<Rightarrow> if digits whole then read whole '''' else None
      | [whole, fraction] \<Rightarrow> if digits whole \<and> digits fraction then read whole fraction else None
      | _ \<Rightarrow> None)"

end
