(* ===== verification/UserOpFeeProps.thy ===== *)
theory UserOpFeeProps
  imports UserOpFee
begin

text \<open>
  What the client builds and what the server and the bundler accept agree; gas words and amounts
  survive their way through text. \<open>abi_ok\<close> is what is relied on of the ABI codec: decoding gives
  back what was encoded, and a transfer starts with its selector.
\<close>

definition abi_ok :: "abi_env \<Rightarrow> bool" where
  "abi_ok env \<longleftrightarrow>
     (\<forall>s a. ab_address env s = Some a \<longrightarrow> ab_address env a = Some a) \<and>
     (\<forall>a n d. ab_encode_transfer env a n = Some d \<longrightarrow> ab_address env a = Some a \<longrightarrow>
        ab_erc20_tx env d = Some (''transfer'', a, n) \<and> starts_with (lower d) TRANSFER_SELECTOR) \<and>
     (\<forall>m x. ab_wallet_tx env (ab_encode_execute env m x) = Some (''execute'', x) \<and>
        ab_encode_execute env m x \<noteq> '''' \<and> ab_encode_execute env m x \<noteq> ''0x'') \<and>
     (\<forall>rows x. ab_encode_batch env rows = Some x \<longrightarrow> ab_batch env x = Some rows)"

lemma abi_okD:
  assumes "abi_ok env"
  shows "ab_address env s = Some a \<Longrightarrow> ab_address env a = Some a"
    "ab_encode_transfer env a n = Some d \<Longrightarrow> ab_address env a = Some a \<Longrightarrow>
       ab_erc20_tx env d = Some (''transfer'', a, n) \<and> starts_with (lower d) TRANSFER_SELECTOR"
    "ab_wallet_tx env (ab_encode_execute env m x) = Some (''execute'', x)"
    "ab_encode_execute env m x \<noteq> ''''" "ab_encode_execute env m x \<noteq> ''0x''"
    "ab_encode_batch env rows = Some y \<Longrightarrow> ab_batch env y = Some rows"
proof -
  from assms [unfolded abi_ok_def]
  have laws: "\<forall>s a. ab_address env s = Some a \<longrightarrow> ab_address env a = Some a"
    "\<forall>a n d. ab_encode_transfer env a n = Some d \<longrightarrow> ab_address env a = Some a \<longrightarrow>
        ab_erc20_tx env d = Some (''transfer'', a, n) \<and> starts_with (lower d) TRANSFER_SELECTOR"
    "\<forall>m x. ab_wallet_tx env (ab_encode_execute env m x) = Some (''execute'', x) \<and>
        ab_encode_execute env m x \<noteq> '''' \<and> ab_encode_execute env m x \<noteq> ''0x''"
    "\<forall>rows x. ab_encode_batch env rows = Some x \<longrightarrow> ab_batch env x = Some rows" by simp_all
  show "ab_address env s = Some a \<Longrightarrow> ab_address env a = Some a" using laws(1) by simp
  show "ab_encode_transfer env a n = Some d \<Longrightarrow> ab_address env a = Some a \<Longrightarrow>
       ab_erc20_tx env d = Some (''transfer'', a, n) \<and> starts_with (lower d) TRANSFER_SELECTOR" using laws(2) by simp
  show "ab_wallet_tx env (ab_encode_execute env m x) = Some (''execute'', x)"
    "ab_encode_execute env m x \<noteq> ''''" "ab_encode_execute env m x \<noteq> ''0x''" using laws(3) by simp_all
  show "ab_encode_batch env rows = Some y \<Longrightarrow> ab_batch env y = Some rows" using laws(4) by simp
qed

section \<open>Calls\<close>

lemma those_Some_iff: "those xs = Some ys \<longleftrightarrow> xs = map Some ys"
  by (induction xs arbitrary: ys) (auto split: option.splits)

lemma read_written_rows:
  assumes "abi_ok env" and "those (map (\<lambda>c. map_option (\<lambda>t. (t, bc_value c, bc_data c)) (ab_address env (bc_target c))) calls) = Some rows"
  shows "read_rows env rows = Some (map (\<lambda>c. c\<lparr>bc_target := the (ab_address env (bc_target c))\<rparr>) calls)"
  using assms(2)
proof (induction calls arbitrary: rows)
  case (Cons c calls)
  then obtain t rest where t: "ab_address env (bc_target c) = Some t" "rows = (t, bc_value c, bc_data c) # rest"
      "those (map (\<lambda>c. map_option (\<lambda>t. (t, bc_value c, bc_data c)) (ab_address env (bc_target c))) calls) = Some rest"
    by (auto simp: those_Some_iff Cons_eq_map_conv split: option.splits)
  with Cons.IH [OF t(3)] abi_okD(1) [OF assms(1) t(1)] show ?case by (simp add: read_rows_def)
qed (simp add: read_rows_def)

text \<open>Call data that was built is read back, with the targets in checksum form.\<close>

lemma decode_built_batch:
  assumes "abi_ok env" and "encodeExecuteCallData env calls = Some cd"
  shows "decodeExecuteBatch env cd = Some (map (\<lambda>c. c\<lparr>bc_target := the (ab_address env (bc_target c))\<rparr>) calls)"
    "decodeExecuteCalls env cd = map (\<lambda>c. c\<lparr>bc_target := the (ab_address env (bc_target c))\<rparr>) calls"
proof -
  from assms(2) obtain rows x where
    rows: "those (map (\<lambda>c. map_option (\<lambda>t. (t, bc_value c, bc_data c)) (ab_address env (bc_target c))) calls) = Some rows"
      "ab_encode_batch env rows = Some x" "cd = ab_encode_execute env ERC7821_BATCH_MODE x"
    by (auto simp: encodeExecuteCallData_def encodeBatch_def bind_eq_Some_conv)
  note laws = abi_okD [OF assms(1)]
  from laws(6) [OF rows(2)] read_written_rows [OF assms(1) rows(1)]
  show "decodeExecuteBatch env cd = Some (map (\<lambda>c. c\<lparr>bc_target := the (ab_address env (bc_target c))\<rparr>) calls)"
    "decodeExecuteCalls env cd = map (\<lambda>c. c\<lparr>bc_target := the (ab_address env (bc_target c))\<rparr>) calls"
    unfolding rows(3) by (simp_all add: decodeExecuteBatch_def decodeExecuteCalls_def decodeBatchFromExecutionData_def laws)
qed

lemma token_call_read:
  assumes "abi_ok env" and "token_call env token recipient amount = Some c"
  obtains t r where "ab_address env token = Some t" "ab_address env recipient = Some r" "ab_address env r = Some r"
    "ab_address env t = Some t" "bc_target c = t" "bc_value c = 0" "decodeTransfer env (bc_data c) = Some (r, amount)"
proof -
  from assms(2) obtain t r d where t: "ab_address env token = Some t" "ab_address env recipient = Some r"
      "ab_encode_transfer env r amount = Some d" "c = \<lparr>bc_target = t, bc_value = 0, bc_data = d\<rparr>"
    by (auto simp: token_call_def encodeErc20Transfer_def bind_eq_Some_conv split: option.splits)
  note r = abi_okD(1) [OF assms(1) t(2)]
  from abi_okD(2) [OF assms(1) t(3) r] r t abi_okD(1) [OF assms(1) t(1)] that show thesis
    by (simp add: decodeTransfer_def decodeErc20TransferCall_def)
qed

lemma built_send_passes:
  assumes "abi_ok env"
    and "buildSendBatchCalls env (fc_fee_token c) (fc_beneficiary c) fee recipient amount token = Some calls"
    and "encodeExecuteCallData env calls = Some cd" and "fc_min_fee c \<le> fee" and "puo_call_data op = cd"
  shows "\<exists>d. validateUserOpFee env op c = Some (Inr d) \<and> df_amount d = fee \<and>
    (token = None \<longrightarrow> validateSendUserOp env op c = Some (Inr (d, amount, the (ab_address env recipient))))"
proof -
  from assms(2) obtain f s where calls: "calls = [f, s]" and f: "token_call env (fc_fee_token c) (fc_beneficiary c) fee = Some f"
      and s: "token_call env (nullish token (fc_fee_token c)) recipient amount = Some s"
    by (auto simp: buildSendBatchCalls_def buildFeeTransferCall_def split: option.splits)
  from token_call_read [OF assms(1) f] obtain t b where fee_call: "ab_address env (fc_fee_token c) = Some t"
      "ab_address env (fc_beneficiary c) = Some b" "ab_address env b = Some b" "ab_address env t = Some t" "bc_target f = t"
      "decodeTransfer env (bc_data f) = Some (b, fee)" by metis
  from token_call_read [OF assms(1) s] obtain t' r where send: "ab_address env (nullish token (fc_fee_token c)) = Some t'"
      "ab_address env recipient = Some r" "ab_address env t' = Some t'" "bc_target s = t'"
      "decodeTransfer env (bc_data s) = Some (r, amount)" by metis
  have "decodeExecuteBatch env (puo_call_data op) = Some [f, s]"
    using decode_built_batch(1) [OF assms(1,3)] assms(5) fee_call(4,5) send(3,4) calls by simp
  then have ok: "validateUserOpFee env op c = Some (Inr \<lparr>df_amount = fee, df_token = t, df_beneficiary = b, df_main_calls = [s]\<rparr>)"
    using fee_call assms(4) by (simp add: validateUserOpFee_def validateFeeBatch_def)
  moreover have "t' = t" if "token = None" using that send(1) fee_call(1) by simp
  ultimately show ?thesis using send fee_call by (auto simp: validateSendUserOp_def)
qed

text \<open>
  What the client builds is accepted. A send whose fee is at least the configured minimum, paid
  in the configured token to the configured beneficiary, passes the fee check of server and
  bundler, which reads back exactly its fee; sent in the fee token, it also passes the check
  for sends, which reads back its amount and recipient.
\<close>

theorem built_send_accepted:
  assumes "abi_ok env"
    and "buildSendBatchCalls env (fc_fee_token c) (fc_beneficiary c) fee recipient amount token = Some calls"
    and "encodeExecuteCallData env calls = Some cd" and "fc_min_fee c \<le> fee" and "puo_call_data op = cd"
  shows "\<exists>d. validateUserOpFee env op c = Some (Inr d) \<and> df_amount d = fee \<and>
    (token = None \<longrightarrow> validateSendUserOp env op c = Some (Inr (d, amount, the (ab_address env recipient))))"
  by (rule built_send_passes [OF assms])

lemma fee_check_pays:
  assumes "validateUserOpFee env op c = Some (Inr d)" and "\<forall>s a. ab_address env s = Some a \<longrightarrow> ab_address env a = Some a"
  shows "\<exists>first. decodeExecuteCalls env (puo_call_data op) = first # df_main_calls d \<and>
    ab_address env (bc_target first) = ab_address env (fc_fee_token c) \<and>
    decodeErc20TransferCall env (bc_data first) = Some (df_beneficiary d, df_amount d) \<and>
    ab_address env (fc_beneficiary c) = Some (df_beneficiary d) \<and> fc_min_fee c \<le> df_amount d"
proof -
  from assms(1) obtain calls where calls: "decodeExecuteBatch env (puo_call_data op) = Some calls"
      "validateFeeBatch env (Some calls) c = Some (Inr d)"
    by (auto simp: validateUserOpFee_def split: option.splits)
  from calls(2) obtain first where first: "calls = first # df_main_calls d"
      "ab_address env (bc_target first) = ab_address env (fc_fee_token c)"
      "decodeTransfer env (bc_data first) = Some (df_beneficiary d, df_amount d)"
      "ab_address env (df_beneficiary d) = ab_address env (fc_beneficiary c)" "fc_min_fee c \<le> df_amount d"
      "ab_address env (fc_beneficiary c) \<noteq> None"
    by (auto simp: validateFeeBatch_def split: list.splits option.splits if_splits)
  have read: "decodeErc20TransferCall env (bc_data first) = Some (df_beneficiary d, df_amount d)"
    using first(3) by (simp add: decodeTransfer_def split: if_splits)
  then have "ab_address env (df_beneficiary d) = Some (df_beneficiary d)"
    using assms(2) by (auto simp: decodeErc20TransferCall_def split: option.splits if_splits)
  moreover have "decodeExecuteCalls env (puo_call_data op) = calls"
    using calls(1) by (auto simp: decodeExecuteBatch_def decodeExecuteCalls_def decodeBatchFromExecutionData_def
      split: option.splits if_splits)
  ultimately show ?thesis using first read by auto
qed

text \<open>
  An accepted operation pays. If the check accepts an operation, the first call of its batch is
  a transfer, in the fee token, to the beneficiary, of at least the minimum; the history's
  decoder reads the same calls.
\<close>

theorem accepted_fee_paid:
  assumes "validateUserOpFee env op c = Some (Inr d)" and "\<forall>s a. ab_address env s = Some a \<longrightarrow> ab_address env a = Some a"
  shows "\<exists>first. decodeExecuteCalls env (puo_call_data op) = first # df_main_calls d \<and>
    ab_address env (bc_target first) = ab_address env (fc_fee_token c) \<and>
    decodeErc20TransferCall env (bc_data first) = Some (df_beneficiary d, df_amount d) \<and>
    ab_address env (fc_beneficiary c) = Some (df_beneficiary d) \<and> fc_min_fee c \<le> df_amount d"
  by (rule fee_check_pays [OF assms])

section \<open>Numbers and their text\<close>

lemma hex_value_digit: "is_digit c \<Longrightarrow> hex_value c = Some (digit_value c)"
  by (simp add: is_digit_def hex_value_def digit_value_def Let_def)

lemma digit_value_less: "is_digit c \<Longrightarrow> digit_value c < 10"
  unfolding is_digit_def digit_value_def by linarith

lemma digit_not_special:
  assumes "is_digit c"
  shows "\<not> is_space c" "c \<noteq> CHR ''-''" "c \<noteq> CHR ''+''" "c \<noteq> CHR ''.''" "c \<noteq> CHR ''x''" "c \<noteq> newline"
    "lower_char c = c"
  using assms by (auto simp: is_digit_def is_space_def lower_char_def Let_def)

lemma dec_nonempty [simp]: "dec n \<noteq> ''''"
  by (subst dec.simps) simp

lemma trim_dec: "trim (dec n) = dec n"
  using digit_not_special(1) is_digit_dec by (intro trim_no_space) blast

lemma radix_int_dec: "radix_int 10 (dec n) = Some (int n)"
proof -
  have all: "list_all is_digit (dec n)" by (simp add: list_all_iff is_digit_dec)
  have "foldl (\<lambda>a c. int 10 * a + int (the (hex_value c))) (int m) s = int (foldl (\<lambda>a c. 10 * a + digit_value c) m s)"
    if "list_all is_digit s" for s m
    using that
  proof (induction s arbitrary: m)
    case (Cons c s)
    then show ?case using Cons.IH [of "10 * m + digit_value c"] by (simp add: hex_value_digit)
  qed simp
  from this [OF all, of 0] show ?thesis
    using all number_of_dec [of n] by (simp add: radix_int_def list_all_iff hex_value_digit digit_value_less number_of_def)
qed

lemma BigInt_text_dec: "BigInt_text (dec n) = Some (int n)"
proof -
  have d: "\<forall>c \<in> set (dec n). is_digit c" using is_digit_dec by blast
  have sub: "set (take k (dec n)) \<subseteq> set (dec n)" for k by (rule set_take_subset)
  have "lower (take 2 (dec n)) = take 2 (dec n)"
    unfolding lower_def using d sub [of 2] digit_not_special(7) by (intro map_idI) blast
  moreover have "take k (dec n) \<noteq> s" if "\<not> list_all is_digit s" for k s
    using that d sub [of k] by (auto simp: list_all_iff)
  moreover have "\<not> list_all is_digit ''0x''" "\<not> list_all is_digit ''0o''" "\<not> list_all is_digit ''0b''"
      "\<not> list_all is_digit ''-''" "\<not> list_all is_digit ''+''"
    by (simp_all add: is_digit_def)
  ultimately show ?thesis by (simp add: BigInt_text_def trim_dec radix_int_dec Let_def)
qed

lemma BigInt_int_text: "0 \<le> n \<Longrightarrow> BigInt_text (int_text n) = Some n"
  by (simp add: int_text_def BigInt_text_dec)

section \<open>Gas words\<close>

definition hex_words_ok :: "abi_env \<Rightarrow> bool" where
  "hex_words_ok env \<longleftrightarrow> (\<forall>n. 0 \<le> n \<longrightarrow> n < 2 ^ 256 \<longrightarrow> BigInt_text (ab_be_hex32 env n) = Some n)"

lemma mask128_and: "x AND mask128 = x mod 2 ^ 128"
  using take_bit_eq_mask [of 128 x] take_bit_eq_mod [of 128 x]
  by (simp add: mask128_def mask_eq_exp_minus_1 push_bit_of_1)

lemma unpack_pack:
  assumes "hex_words_ok env"
  shows "unpackUint128Pair (packUint128Pair env high low) = Some (high mod 2 ^ 128, low mod 2 ^ 128)"
proof -
  let ?h = "high mod 2 ^ 128 :: int" and ?l = "low mod 2 ^ 128 :: int"
  have b: "0 \<le> ?h" "?h < 2 ^ 128" "0 \<le> ?l" "?l < 2 ^ 128" by simp_all
  have "push_bit 128 (take_bit 128 high) AND take_bit 128 low = 0"
    by (rule bit_eqI) (simp add: bit_and_iff bit_push_bit_iff bit_take_bit_iff)
  then have "push_bit 128 ?h OR ?l = push_bit 128 ?h + ?l"
    unfolding take_bit_eq_mod [symmetric]
    using plus_and_or [of "push_bit 128 (take_bit 128 high)" "take_bit 128 low"] by simp

  then have word: "push_bit 128 (high AND mask128) OR (low AND mask128) = ?h * 2 ^ 128 + ?l"
    by (simp add: mask128_and push_bit_eq_mult)
  have range: "0 \<le> ?h * 2 ^ 128 + ?l" "?h * 2 ^ 128 + ?l < 2 ^ 256"
    using b by (simp_all add: mult_strict_right_mono)
  have halves: "drop_bit 128 (?h * 2 ^ 128 + ?l) = ?h" "(?h * 2 ^ 128 + ?l) mod 2 ^ 128 = ?l"
    using b by (simp_all add: drop_bit_eq_div)
  have "BigInt_text (ab_be_hex32 env (?h * 2 ^ 128 + ?l)) = Some (?h * 2 ^ 128 + ?l)"
    using assms range unfolding hex_words_ok_def by blast
  then show ?thesis
    unfolding packUint128Pair_def unpackUint128Pair_def word by (simp only: option.map mask128_and halves)
qed

text \<open>
  The prefund is computed from the gas that was asked for. Packing two gas values into a word
  and unpacking them gives them back modulo \<open>2 ^ 128\<close>, so the prefund of an operation built with
  gas values in range is the sum of the three limits times the maximal fee, and it is at most
  \<open>3 * 2 ^ 256\<close>.
\<close>

theorem prefund_of_built:
  assumes "hex_words_ok env" and "buildPackedUserOperation env sender nonce cd sig g = Some op"
    and "0 \<le> gas_pre_verification g" and "gas_pre_verification g < 2 ^ 128"
  shows "\<exists>p. estimateUserOpPrefund op = Some p \<and>
    p = (gas_verification g mod 2 ^ 128 + gas_call g mod 2 ^ 128 + gas_pre_verification g) * (gas_max_fee g mod 2 ^ 128) \<and>
    0 \<le> p \<and> p < 3 * 2 ^ 256"
proof -
  let ?sum = "gas_verification g mod 2 ^ 128 + gas_call g mod 2 ^ 128 + gas_pre_verification g"
  have "estimateUserOpPrefund op = Some (?sum * (gas_max_fee g mod 2 ^ 128))"
    using assms(2,3) by (auto simp: buildPackedUserOperation_def estimateUserOpPrefund_def unpack_pack [OF assms(1)] BigInt_int_text)
  moreover have "0 \<le> ?sum" using assms(3) by simp
  moreover have "?sum < 3 * 2 ^ 128"
    using assms(4) pos_mod_bound [of "2 ^ 128" "gas_verification g"] pos_mod_bound [of "2 ^ 128" "gas_call g"] by simp
  moreover have "0 \<le> gas_max_fee g mod 2 ^ 128" "gas_max_fee g mod 2 ^ 128 < 2 ^ 128" by simp_all
  moreover have "s * f < 3 * 2 ^ 256" if "0 \<le> s" "s < 3 * 2 ^ 128" "0 \<le> f" "f < 2 ^ 128" for s f :: int
    using mult_strict_mono' [OF that(2,4,1,3)] by simp
  ultimately show ?thesis by (intro exI [of _ "?sum * (gas_max_fee g mod 2 ^ 128)"]) simp
qed

section \<open>Amounts\<close>

lemma stripped_zeros:
  "\<exists>m. s = rev (dropWhile (\<lambda>c. c = CHR ''0'') (rev s)) @ replicate m (CHR ''0'')"
proof -
  have "takeWhile (\<lambda>c. c = CHR ''0'') (rev s) = replicate (length (takeWhile (\<lambda>c. c = CHR ''0'') (rev s))) (CHR ''0'')"
    by (rule replicate_eqI [symmetric, THEN sym]) (auto dest: set_takeWhileD)
  then have "rev (takeWhile (\<lambda>c. c = CHR ''0'') (rev s)) = replicate (length (takeWhile (\<lambda>c. c = CHR ''0'') (rev s))) (CHR ''0'')"
    by (metis rev_replicate)
  moreover have "s = rev (dropWhile (\<lambda>c. c = CHR ''0'') (rev s)) @ rev (takeWhile (\<lambda>c. c = CHR ''0'') (rev s))"
    by (metis rev_append rev_rev_ident takeWhile_dropWhile_id)
  ultimately show ?thesis by metis
qed

lemma digits_plain:
  assumes "digits s"
  shows "CHR ''.'' \<notin> set s" "\<forall>c \<in> set s. \<not> is_space c"
proof -
  have "\<forall>c \<in> set s. is_digit c" using assms by (simp add: digits_def list_all_iff)
  then show "CHR ''.'' \<notin> set s" "\<forall>c \<in> set s. \<not> is_space c" using digit_not_special(1,4) by blast+
qed

lemma digits_dec: "digits (dec n)"
  by (simp add: digits_def list_all_iff is_digit_dec)

lemma parse_whole: "parseUsdcInput (dec q) decimals = Some (int q * 10 ^ decimals + int (number_of (replicate decimals (CHR ''0''))))"
  using digits_dec split_on_one [OF digits_plain(1) [OF digits_dec], of q]
  by (simp add: parseUsdcInput_def Let_def number_of_dec trim_dec)

lemma parse_decimal:
  assumes "digits f" "length f \<le> decimals"
  shows "parseUsdcInput (dec q @ ''.'' @ f) decimals =
    Some (int q * 10 ^ decimals + int (number_of (f @ replicate (decimals - length f) (CHR ''0''))))"
proof -
  note plain = digits_plain [OF digits_dec] digits_plain [OF assms(1)]
  have "trim (dec q @ ''.'' @ f) = dec q @ ''.'' @ f"
    using plain(2,4) by (intro trim_no_space) (auto simp: is_space_def)
  moreover have "split_on (CHR ''.'') (dec q @ ''.'' @ f) = [dec q, f]"
    using split_on_line [OF plain(1), of q f] split_on_one [OF plain(3)] by simp
  ultimately show ?thesis using digits_dec assms by (simp add: parseUsdcInput_def Let_def number_of_dec)
qed

text \<open>
  Amounts survive being shown. A non-negative amount of a token of any number of decimals, shown
  to the user and typed in again, is the same amount.
\<close>

theorem usdc_text_roundtrip:
  assumes "0 \<le> atoms"
  shows "parseUsdcInput (formatUsdcAmount atoms decimals) decimals = Some atoms"
proof -
  define n where "n = nat atoms"
  define q r where "q = n div 10 ^ decimals" and "r = n mod 10 ^ decimals"
  have n: "atoms = int n" "q * 10 ^ decimals + r = n" "r < 10 ^ decimals"
    using assms unfolding q_def r_def by (simp_all only: div_mult_mod_eq) (simp_all add: n_def)
  have parts: "atoms sdiv 10 ^ decimals = int q" "atoms smod 10 ^ decimals = int r"
    by (cases "n = 0"; simp add: n(1) q_def r_def signed_divide_int_def signed_modulo_int_def zdiv_int zmod_int)+
  let ?p = "pad_start decimals (CHR ''0'') (dec r)"
  define f where "f = rev (dropWhile (\<lambda>c. c = CHR ''0'') (rev ?p))"
  obtain m where m: "?p = f @ replicate m (CHR ''0'')" using stripped_zeros unfolding f_def by metis
  have shown: "formatUsdcAmount atoms decimals = (if f = '''' then dec q else dec q @ ''.'' @ f)"
    by (simp add: formatUsdcAmount_def Let_def parts int_text_def f_def)
  show ?thesis
  proof (cases "decimals = 0")
    case True
    then have "r = 0" using n(3) by simp
    then have "f = ''''" using True by (simp add: f_def pad_start_def dec.simps)
    with True n shown \<open>r = 0\<close> show ?thesis by (simp add: parse_whole number_of_def)
  next
    case False
    then have p: "?p = fixed decimals r" using n(3) by (simp add: pad_dec)
    then have len: "length f + m = decimals" using m by (metis length_append length_fixed length_replicate)
    have val: "number_of (f @ replicate (decimals - length f) (CHR ''0'')) = r"
      using p m len number_of_fixed [OF n(3)] by (metis diff_add_inverse)
    have "list_all is_digit f" using p m is_digit_fixed by (auto simp: list_all_iff) (metis Un_iff set_append)
    then have "f \<noteq> '''' \<Longrightarrow> digits f" by (simp add: digits_def)
    then show ?thesis
      using shown val parse_decimal [of f decimals q] parse_whole [of q decimals] len n by auto
  qed
qed

section \<open>Witnesses\<close>

text \<open>A codec whose addresses are strings of digits: a batch is written line by line.\<close>

fun demo_rows :: "string list \<Rightarrow> abi_row list option" where
  "demo_rows (t # v # d # r) = map_option (Cons (t, int (number_of v), d)) (demo_rows r)"
| "demo_rows [] = Some []"
| "demo_rows _ = None"

definition demo_lines :: "abi_row list \<Rightarrow> string list" where
  "demo_lines rows = concat (map (\<lambda>(t, v, d). [t, dec (nat v), d]) rows)"

definition demo_abi :: abi_env where
  "demo_abi =
     \<lparr>ab_address = (\<lambda>s. if digits s then Some s else None),
      ab_wallet_tx = (\<lambda>s. if starts_with s ''0xe'' then Some (''execute'', drop 3 s) else None),
      ab_erc20_tx = (\<lambda>s. case split_on (CHR ''x'') (drop 10 s) of [a, n] \<Rightarrow> Some (''transfer'', a, int (number_of n)) | _ \<Rightarrow> None),
      ab_batch = (\<lambda>s. demo_rows (split_on newline s)),
      ab_encode_transfer = (\<lambda>a n. if digits a \<and> 0 \<le> n then Some (TRANSFER_SELECTOR @ a @ CHR ''x'' # dec (nat n)) else None),
      ab_encode_execute = (\<lambda>m x. ''0xe'' @ x),
      ab_encode_batch = (\<lambda>rows. if rows \<noteq> [] \<and> (\<forall>(t, v, d) \<in> set rows. 0 \<le> v \<and> newline \<notin> set t \<and> newline \<notin> set d)
         then Some (join_lines (demo_lines rows)) else None),
      ab_be_hex32 = int_text\<rparr>"

lemma demo_rows_lines: "\<forall>(t, v, d) \<in> set rows. 0 \<le> v \<Longrightarrow> demo_rows (demo_lines rows) = Some rows"
  by (induction rows) (auto simp: demo_lines_def number_of_dec)

lemma dec_no_newline: "newline \<notin> set (dec n)" "CHR ''x'' \<notin> set (dec n)"
  using is_digit_dec digit_not_special(5,6) by blast+

lemma demo_abi_ok: "abi_ok demo_abi"
proof -
  have "split_on (CHR ''x'') (a @ CHR ''x'' # dec k) = [a, dec k]" if "digits a" for a k
  proof -
    have "CHR ''x'' \<notin> set a" using that digit_not_special(5) by (auto simp: digits_def list_all_iff)
    then show ?thesis by (simp add: split_on_line split_on_one dec_no_newline)
  qed
  moreover have "lower (TRANSFER_SELECTOR @ s) = TRANSFER_SELECTOR @ lower s" for s
    by (simp add: TRANSFER_SELECTOR_def lower_def lower_char_def)
  moreover have "length TRANSFER_SELECTOR = 10" by (simp add: TRANSFER_SELECTOR_def)
  moreover have "demo_rows (split_on newline (join_lines (demo_lines rows))) = Some rows"
    if "rows \<noteq> []" "\<forall>(t, v, d) \<in> set rows. 0 \<le> v \<and> newline \<notin> set t \<and> newline \<notin> set d" for rows
  proof -
    have "demo_lines rows \<noteq> []" using that(1) by (cases rows) (auto simp: demo_lines_def)
    moreover have "\<forall>l \<in> set (demo_lines rows). newline \<notin> set l"
      using that(2) dec_no_newline by (auto simp: demo_lines_def)
    ultimately show ?thesis using that(2) split_join_lines demo_rows_lines by fastforce
  qed
  ultimately show ?thesis
    unfolding abi_ok_def by (auto simp: demo_abi_def starts_with_def number_of_dec split: if_splits)
qed

definition demo_fee :: fee_config where
  "demo_fee =
     \<lparr>fc_fee_token = ''1'', fc_fee_token_symbol = ''USDC'', fc_fee_token_decimals = 6, fc_beneficiary = ''2'', fc_min_fee = 10\<rparr>"

lemma demo_send:
  "\<exists>calls cd. buildSendBatchCalls demo_abi ''1'' ''2'' 15 ''3'' 700 None = Some calls \<and> encodeExecuteCallData demo_abi calls = Some cd"
proof -
  have ok: "newline \<notin> set (TRANSFER_SELECTOR @ a @ CHR ''x'' # dec k)" if "newline \<notin> set a" for a k
    using that dec_no_newline by (simp add: TRANSFER_SELECTOR_def)
  have "digits ''1''" "digits ''2''" "digits ''3''" by code_simp+
  with ok [of "''2''"] ok [of "''3''"] show ?thesis
    by (simp add: buildSendBatchCalls_def buildFeeTransferCall_def token_call_def encodeErc20Transfer_def
      encodeExecuteCallData_def encodeBatch_def demo_abi_def)
qed

theorem built_send_accepted_witness:
  "\<exists>calls cd. buildSendBatchCalls demo_abi ''1'' ''2'' 15 ''3'' 700 None = Some calls \<and> encodeExecuteCallData demo_abi calls = Some cd \<and>
    (\<forall>op. puo_call_data op = cd \<longrightarrow> (\<exists>d. validateSendUserOp demo_abi op demo_fee = Some (Inr (d, 700, ''3'')) \<and> df_amount d = 15))"
proof -
  obtain calls cd where b: "buildSendBatchCalls demo_abi ''1'' ''2'' 15 ''3'' 700 None = Some calls"
      "encodeExecuteCallData demo_abi calls = Some cd" using demo_send by blast
  have "ab_address demo_abi ''3'' = Some ''3''" by code_simp
  with b built_send_accepted [OF demo_abi_ok, of demo_fee 15 "''3''" 700 None calls cd] show ?thesis
    by (fastforce simp: demo_fee_def)
qed

definition demo_op :: "string \<Rightarrow> packed_user_op" where
  "demo_op cd =
     \<lparr>puo_sender = ''7'', puo_nonce = ''0'', puo_init_code = ''0x'', puo_call_data = cd, puo_account_gas_limits = ''0'',
      puo_pre_verification_gas = ''0'', puo_gas_fees = ''0'', puo_paymaster_and_data = ''0x'', puo_signature = ''0x''\<rparr>"

theorem accepted_fee_paid_witness:
  "\<exists>op d. validateUserOpFee demo_abi op demo_fee = Some (Inr d) \<and> 10 \<le> df_amount d \<and>
    ab_address demo_abi ''2'' = Some (df_beneficiary d)"
proof -
  obtain calls cd where "buildSendBatchCalls demo_abi ''1'' ''2'' 15 ''3'' 700 None = Some calls"
      "encodeExecuteCallData demo_abi calls = Some cd" using demo_send by blast
  with built_send_passes [OF demo_abi_ok, of demo_fee 15 "''3''" 700 None calls cd "demo_op cd"]
  obtain d where d: "validateUserOpFee demo_abi (demo_op cd) demo_fee = Some (Inr d)"
    by (auto simp: demo_fee_def demo_op_def)
  have "\<forall>s a. ab_address demo_abi s = Some a \<longrightarrow> ab_address demo_abi a = Some a"
    using abi_okD(1) [OF demo_abi_ok] by blast
  from accepted_fee_paid [OF d this] have "10 \<le> df_amount d" "ab_address demo_abi ''2'' = Some (df_beneficiary d)"
    by (auto simp: demo_fee_def)
  with d show ?thesis by blast
qed

theorem prefund_of_built_witness:
  "\<exists>op. buildPackedUserOperation demo_abi ''7'' 0 ''0x'' None DEFAULT_GAS = Some op \<and>
    estimateUserOpPrefund op = Some (900000 * 1000000000)"
proof -
  have "hex_words_ok demo_abi" by (simp add: hex_words_ok_def demo_abi_def BigInt_int_text)
  moreover have "digits ''7''" by code_simp
  then obtain op where op: "buildPackedUserOperation demo_abi ''7'' 0 ''0x'' None DEFAULT_GAS = Some op"
    by (simp add: buildPackedUserOperation_def demo_abi_def)
  ultimately show ?thesis using prefund_of_built [OF _ op] op by (simp add: DEFAULT_GAS_def)
qed

theorem usdc_text_roundtrip_witness: "parseUsdcInput (formatUsdcAmount 1234500 6) 6 = Some 1234500"
  by (rule usdc_text_roundtrip) simp

end
