(* ===== verification/RowOrder.thy ===== *)
theory RowOrder
  imports Prelude
begin

text \<open>
  Tables whose rows only move forward. \<open>le r s\<close> says that a row \<open>r\<close> may become \<open>s\<close>; a table grows
  into another one when every row of the first is found under its key in the second, moved
  forward. The statements of a component are shown to grow the table once, and what holds of
  \<open>le\<close> holds over every run.
\<close>

locale row_order =
  fixes key :: "'r \<Rightarrow> 'k" and le :: "'r \<Rightarrow> 'r \<Rightarrow> bool"
  assumes later_refl: "le r r"
    and later_trans: "le r s \<Longrightarrow> le s u \<Longrightarrow> le r u"
begin

definition grows :: "'r list \<Rightarrow> 'r list \<Rightarrow> bool" where
  "grows t t' = (\<forall>k r. find_by key k t = Some r \<longrightarrow> (\<exists>s. find_by key k t' = Some s \<and> le r s))"

lemma grows_refl [simp]: "grows t t"
  by (auto simp: grows_def intro: later_refl)

lemma growsD:
  assumes "grows t t'" and "find_by key k t = Some r"
  obtains s where "find_by key k t' = Some s" and "le r s"
  using assms unfolding grows_def by blast

lemma grows_trans:
  assumes "grows t u" and "grows u v"
  shows "grows t v"
  unfolding grows_def
proof (intro allI impI)
  fix k r
  assume "find_by key k t = Some r"
  then obtain s where s: "find_by key k u = Some s" "le r s" by (rule growsD [OF assms(1)])
  obtain w where "find_by key k v = Some w" "le s w" by (rule growsD [OF assms(2) s(1)])
  with s(2) later_trans show "\<exists>w. find_by key k v = Some w \<and> le r w" by blast
qed

lemma grows_insert:
  assumes "insert_unique key r t = Some t'"
  shows "grows t t'"
  unfolding grows_def
proof (intro allI impI)
  fix k x
  assume "find_by key k t = Some x"
  then have "find_by key k t' = Some x"
    using assms by (auto simp: insert_unique_def find_by_append split: if_splits)
  with later_refl show "\<exists>s. find_by key k t' = Some s \<and> le x s" by blast
qed

lemma find_update_key:
  assumes "\<And>x. key (f x) = key x"
  shows "find_by key j (update_where (\<lambda>x. key x = k) f t) = map_option (\<lambda>r. if j = k then f r else r) (find_by key j t)"
proof -
  have "find_by key j (update_where (\<lambda>x. key x = k) f t) = map_option (\<lambda>r. if key r = k then f r else r) (find_by key j t)"
    using assms by (intro find_by_update_where) simp
  also have "\<dots> = map_option (\<lambda>r. if j = k then f r else r) (find_by key j t)"
    by (auto intro!: option.map_cong dest: find_by_SomeD)
  finally show ?thesis .
qed

lemma grows_update:
  assumes "\<And>x. key (f x) = key x" and "\<And>r. find_by key k t = Some r \<Longrightarrow> le r (f r)"
  shows "grows t (update_where (\<lambda>x. key x = k) f t)"
  unfolding grows_def find_update_key [OF assms(1)]
proof (intro allI impI)
  fix j r
  assume j: "find_by key j t = Some r"
  show "\<exists>s. map_option (\<lambda>r. if j = k then f r else r) (find_by key j t) = Some s \<and> le r s"
    using j assms(2) later_refl by (cases "j = k") auto
qed

end

end
