(* ===== verification/Pairings.thy ===== *)
theory Pairings
  imports RecoveryFlow RowOrder
begin

text \<open>
  Pairing a second device: table \<open>wallet_pairings\<close> of commerce/server/db.ts and the route
  \<open>POST /api/wallet/pairing\<close> of commerce/server/wallet-routes.ts. A device that owns the wallet
  creates a pairing and shows its nonce, the new device submits its key under the nonce, the
  first one adds the owner on chain and consumes the pairing. A pairing that is read after its
  time is marked expired by the read.
\<close>

datatype pairing_status = Pr_Pending | Pr_Approved | Pr_Consumed | Pr_Expired

record pairing =
  pr_nonce :: string
  pr_wallet_address :: address
  pr_chain_id :: string
  pr_new_owner_qx :: "string option"
  pr_new_owner_qy :: "string option"
  pr_new_owner_credential_id :: "string option"
  pr_device_label :: "string option"
  pr_status :: pairing_status
  pr_expires_at :: timestamp
  pr_created_at :: timestamp

definition pairing_open :: "pairing \<Rightarrow> bool" where
  "pairing_open r = (pr_status r = Pr_Pending \<or> pr_status r = Pr_Approved)"

definition set_status :: "string \<Rightarrow> pairing_status \<Rightarrow> pairing list \<Rightarrow> pairing list" where
  "set_status n s t = update_where (\<lambda>r. pr_nonce r = n) (\<lambda>r. r\<lparr>pr_status := s\<rparr>) t"

definition getWalletPairing :: "pairing list \<Rightarrow> string \<Rightarrow> timestamp \<Rightarrow> pairing option \<times> pairing list" where
  "getWalletPairing t n now =
     (case find_by pr_nonce n t of
        None \<Rightarrow> (None, t)
      | Some r \<Rightarrow>
          if pairing_open r \<and> pr_expires_at r < now
          then (Some (r\<lparr>pr_status := Pr_Expired\<rparr>), set_status n Pr_Expired t)
          else (Some r, t))"

text \<open>\<open>n\<close> is the \<open>randomUUID()\<close>; the outer \<open>None\<close> is a taken key.\<close>

definition createWalletPairing ::
    "pairing list \<Rightarrow> string \<Rightarrow> address \<Rightarrow> string \<Rightarrow> timestamp \<Rightarrow> (pairing option \<times> pairing list) option" where
  "createWalletPairing t n w c now =
     map_option (\<lambda>t'. getWalletPairing t' n now)
       (insert_unique pr_nonce
          \<lparr>pr_nonce = n, pr_wallet_address = lower w, pr_chain_id = c, pr_new_owner_qx = None, pr_new_owner_qy = None,
           pr_new_owner_credential_id = None, pr_device_label = None, pr_status = Pr_Pending,
           pr_expires_at = now + 5 * 60 * 1000, pr_created_at = now\<rparr> t)"

definition submitWalletPairing ::
    "pairing list \<Rightarrow> string \<Rightarrow> string \<Rightarrow> string \<Rightarrow> string option \<Rightarrow> string option \<Rightarrow> timestamp \<Rightarrow> pairing option \<times> pairing list" where
  "submitWalletPairing t n qx qy label cred now =
     (let (row, t1) = getWalletPairing t n now in
      case row of
        None \<Rightarrow> (None, t1)
      | Some r \<Rightarrow>
          if pr_status r \<noteq> Pr_Pending then (None, t1)
          else if pr_expires_at r < now then (None, set_status n Pr_Expired t1)
          else getWalletPairing (update_where (\<lambda>r. pr_nonce r = n)
                 (\<lambda>r. r\<lparr>pr_new_owner_qx := Some qx, pr_new_owner_qy := Some qy, pr_device_label := label,
                         pr_new_owner_credential_id := cred, pr_status := Pr_Approved\<rparr>) t1) n now)"

definition consumeWalletPairing :: "pairing list \<Rightarrow> string \<Rightarrow> timestamp \<Rightarrow> pairing option \<times> pairing list" where
  "consumeWalletPairing t n now =
     (let (row, t1) = getWalletPairing t n now in
      case row of
        None \<Rightarrow> (None, t1)
      | Some r \<Rightarrow> if pr_status r \<noteq> Pr_Approved then (None, t1) else getWalletPairing (set_status n Pr_Consumed t1) n now)"

definition rejectWalletPairing :: "pairing list \<Rightarrow> string \<Rightarrow> timestamp \<Rightarrow> pairing option \<times> pairing list" where
  "rejectWalletPairing t n now =
     (let (row, t1) = getWalletPairing t n now in
      case row of
        None \<Rightarrow> (None, t1)
      | Some r \<Rightarrow> if \<not> pairing_open r then (None, t1) else getWalletPairing (set_status n Pr_Expired t1) n now)"

section \<open>The route\<close>

record pairing_body =
  pb_action :: "string option"
  pb_chain_id :: "string option"
  pb_wallet_address :: "string option"
  pb_nonce :: "string option"
  pb_new_owner_qx :: "string option"
  pb_new_owner_qy :: "string option"
  pb_device_label :: "string option"
  pb_new_owner_credential_id :: "string option"
  pb_credential_id :: "string option"

definition pairing_reply :: "pairing option \<times> pairing list \<Rightarrow> pairing wallet_result \<times> pairing list" where
  "pairing_reply res = (case fst res of None \<Rightarrow> failed 404 ''pairing_not_found'' | Some r \<Rightarrow> Inr r, snd res)"

text \<open>\<open>fresh\<close> is the nonce a creation draws.\<close>

definition pairingRoute ::
    "pairing list \<Rightarrow> pairing_body \<Rightarrow> string \<Rightarrow> timestamp \<Rightarrow> pairing wallet_result \<times> pairing list" where
  "pairingRoute t body fresh now =
     (let a = pb_action body; nonce = str (pb_nonce body) in
      if a = Some ''create''
      then (case map_option lower (str (pb_wallet_address body)) of
              None \<Rightarrow> (failed 400 ''walletAddress required'', t)
            | Some w \<Rightarrow>
                (case createWalletPairing t fresh w (nullish (str (pb_chain_id body)) ''11155111'') now of
                   None \<Rightarrow> (failed 500 ''error'', t)
                 | Some res \<Rightarrow> pairing_reply res))
      else if a = Some ''submit''
      then (case (nonce, normalizeHex32 (str (pb_new_owner_qx body)), normalizeHex32 (str (pb_new_owner_qy body))) of
              (Some n, Some qx, Some qy) \<Rightarrow>
                pairing_reply (submitWalletPairing t n qx qy (str (pb_device_label body))
                  (coalesce (str (pb_new_owner_credential_id body)) (str (pb_credential_id body))) now)
            | _ \<Rightarrow> (failed 400 ''nonce, newOwnerQx, newOwnerQy required'', t))
      else if a = Some ''poll'' \<or> a = Some ''consume'' \<or> a = Some ''reject''
      then (case nonce of
              None \<Rightarrow> (failed 400 ''nonce required'', t)
            | Some n \<Rightarrow>
                pairing_reply (if a = Some ''poll'' then getWalletPairing t n now
                  else if a = Some ''consume'' then consumeWalletPairing t n now
                  else rejectWalletPairing t n now))
      else (failed 400 ''unknown action'', t))"

fun pairing_run :: "pairing list \<Rightarrow> (pairing_body \<times> string \<times> timestamp) list \<Rightarrow> pairing list" where
  "pairing_run t [] = t"
| "pairing_run t ((body, fresh, now) # xs) = pairing_run (snd (pairingRoute t body fresh now)) xs"

text \<open>The nonces whose consumption was answered with the pairing.\<close>

fun consumed_nonces :: "pairing list \<Rightarrow> (pairing_body \<times> string \<times> timestamp) list \<Rightarrow> string list" where
  "consumed_nonces t [] = []"
| "consumed_nonces t ((body, fresh, now) # xs) =
     (let (res, t') = pairingRoute t body fresh now in
      if pb_action body = Some ''consume'' \<and> is_ok res then the (str (pb_nonce body)) # consumed_nonces t' xs
      else consumed_nonces t' xs)"

section \<open>Pairings move forward\<close>

fun status_later :: "pairing_status \<Rightarrow> pairing_status \<Rightarrow> bool" where
  "status_later Pr_Pending s = True"
| "status_later Pr_Approved s = (s \<noteq> Pr_Pending)"
| "status_later s s' = (s' = s)"

definition pairing_later :: "pairing \<Rightarrow> pairing \<Rightarrow> bool" where
  "pairing_later r s \<longleftrightarrow>
     status_later (pr_status r) (pr_status s) \<and>
     pr_wallet_address s = pr_wallet_address r \<and> pr_chain_id s = pr_chain_id r \<and> pr_expires_at s = pr_expires_at r \<and>
     (pr_status r \<noteq> Pr_Pending \<longrightarrow>
        pr_new_owner_qx s = pr_new_owner_qx r \<and> pr_new_owner_qy s = pr_new_owner_qy r \<and>
        pr_new_owner_credential_id s = pr_new_owner_credential_id r \<and> pr_device_label s = pr_device_label r)"

interpretation pairing_rows: row_order pr_nonce pairing_later
proof
  show "pairing_later r r" for r by (cases "pr_status r") (simp_all add: pairing_later_def)
  show "pairing_later r u" if "pairing_later r s" "pairing_later s u" for r s u
    using that by (cases "pr_status r"; cases "pr_status s") (auto simp: pairing_later_def)
qed

lemma grows_get: "pairing_rows.grows t (snd (getWalletPairing t n now))"
  by (auto simp: getWalletPairing_def set_status_def pairing_open_def pairing_later_def split: option.split
    intro!: pairing_rows.grows_update)

lemma get_row:
  "getWalletPairing t n now = (Some r, t') \<Longrightarrow>
   find_by pr_nonce n t' = Some r \<and> (pairing_open r \<longrightarrow> t' = t \<and> now \<le> pr_expires_at r)"
  by (auto simp: getWalletPairing_def set_status_def pairing_open_def pairing_rows.find_update_key split: option.splits if_splits)

lemma grows_row:
  assumes "getWalletPairing t n now = (Some r, t1)" and "\<And>x. pr_nonce (f x) = pr_nonce x" and "pairing_later r (f r)"
  shows "pairing_rows.grows t1 (update_where (\<lambda>r. pr_nonce r = n) f t1)"
  using assms(3) get_row [OF assms(1)] by (intro pairing_rows.grows_update assms(2)) simp

lemma grows_submit: "pairing_rows.grows t (snd (submitWalletPairing t n qx qy label cred now))"
proof -
  obtain row t1 where g: "getWalletPairing t n now = (row, t1)" by force
  have t1: "pairing_rows.grows t t1" using grows_get [of t n now] g by simp
  show ?thesis
  proof (cases row)
    case None
    with g t1 show ?thesis by (simp add: submitWalletPairing_def)
  next
    case (Some r)
    show ?thesis
    proof (cases "pr_status r = Pr_Pending")
      case True
      note upd = pairing_rows.grows_trans [OF t1 grows_row [OF g [unfolded Some]]]
      have "pairing_rows.grows t (set_status n Pr_Expired t1)"
        unfolding set_status_def by (rule upd) (simp_all add: pairing_later_def True)
      moreover have "pairing_rows.grows t (update_where (\<lambda>r. pr_nonce r = n)
          (\<lambda>r. r\<lparr>pr_new_owner_qx := Some qx, pr_new_owner_qy := Some qy, pr_device_label := label,
                  pr_new_owner_credential_id := cred, pr_status := Pr_Approved\<rparr>) t1)"
        by (rule upd) (simp_all add: pairing_later_def True)
      ultimately show ?thesis
        using g Some True by (simp add: submitWalletPairing_def pairing_rows.grows_trans [OF _ grows_get])
    qed (use g t1 Some in \<open>simp add: submitWalletPairing_def\<close>)
  qed
qed

lemma grows_consume: "pairing_rows.grows t (snd (consumeWalletPairing t n now))"
proof -
  obtain row t1 where g: "getWalletPairing t n now = (row, t1)" by force
  have t1: "pairing_rows.grows t t1" using grows_get [of t n now] g by simp
  have "pairing_rows.grows t (set_status n Pr_Consumed t1)" if "row = Some r" "pr_status r = Pr_Approved" for r
    unfolding set_status_def
    by (rule pairing_rows.grows_trans [OF t1 grows_row [OF g [unfolded that(1)]]]) (simp_all add: pairing_later_def that(2))
  with g t1 show ?thesis
    by (cases row) (simp_all add: consumeWalletPairing_def pairing_rows.grows_trans [OF _ grows_get])
qed

lemma grows_reject: "pairing_rows.grows t (snd (rejectWalletPairing t n now))"
proof -
  obtain row t1 where g: "getWalletPairing t n now = (row, t1)" by force
  have t1: "pairing_rows.grows t t1" using grows_get [of t n now] g by simp
  have "pairing_rows.grows t (set_status n Pr_Expired t1)" if "row = Some r" "pairing_open r" for r
    unfolding set_status_def using that(2)
    by (intro pairing_rows.grows_trans [OF t1 grows_row [OF g [unfolded that(1)]]]) (auto simp: pairing_later_def pairing_open_def)
  with g t1 show ?thesis
    by (cases row) (simp_all add: rejectWalletPairing_def pairing_rows.grows_trans [OF _ grows_get])
qed

lemmas grows_operations = grows_submit grows_consume grows_reject

lemma grows_create: "createWalletPairing t n w c now = Some res \<Longrightarrow> pairing_rows.grows t (snd res)"
  unfolding createWalletPairing_def using pairing_rows.grows_insert pairing_rows.grows_trans [OF _ grows_get] by fastforce

lemma snd_pairing_reply [simp]: "snd (pairing_reply res) = snd res"
  by (simp add: pairing_reply_def)

lemma grows_route: "pairing_rows.grows t (snd (pairingRoute t body fresh now))"
  by (simp add: pairingRoute_def Let_def grows_operations grows_get grows_create split: option.split)

lemma grows_run: "pairing_rows.grows t (pairing_run t xs)"
  by (induction t xs rule: pairing_run.induct) (auto intro: pairing_rows.grows_trans [OF grows_route])

section \<open>The rows are well formed\<close>

definition hex32 :: "string \<Rightarrow> bool" where
  "hex32 v = (starts_with v ''0x'' \<and> length v = 66 \<and> list_all (\<lambda>c. hex_value c \<noteq> None) (drop 2 v))"

definition typed_pairing :: "pairing \<Rightarrow> bool" where
  "typed_pairing r \<longleftrightarrow>
     pr_wallet_address r = lower (pr_wallet_address r) \<and>
     (case (pr_new_owner_qx r, pr_new_owner_qy r) of
        (None, None) \<Rightarrow> pr_status r = Pr_Pending \<or> pr_status r = Pr_Expired
      | (Some qx, Some qy) \<Rightarrow> pr_status r \<noteq> Pr_Pending \<and> hex32 qx \<and> hex32 qy
      | _ \<Rightarrow> False)"

definition typed_pairings :: "pairing list \<Rightarrow> bool" where
  "typed_pairings t \<longleftrightarrow> list_all typed_pairing t \<and> unique_on pr_nonce t"

lemma normalizeHex32_hex32: "normalizeHex32 x = Some v \<Longrightarrow> hex32 v"
  by (auto simp: normalizeHex32_def hex32_def Let_def split: if_splits)

lemma typed_update:
  assumes t: "typed_pairings t" and key: "\<And>x. pr_nonce (f x) = pr_nonce x"
    and row: "\<And>r. find_by pr_nonce n t = Some r \<Longrightarrow> typed_pairing r \<Longrightarrow> typed_pairing (f r)"
  shows "typed_pairings (update_where (\<lambda>r. pr_nonce r = n) f t)"
proof -
  have "find_by pr_nonce n t = Some r" if "r \<in> set t" "pr_nonce r = n" for r
    using t find_by_unique [of pr_nonce t r] that by (simp add: typed_pairings_def)
  then have "\<forall>r \<in> set (update_where (\<lambda>r. pr_nonce r = n) f t). typed_pairing r"
    using t row by (intro ball_update_where) (auto simp: typed_pairings_def list_all_iff)
  then show ?thesis
    using t key by (simp add: typed_pairings_def list_all_iff unique_update_where)
qed

lemma typed_get: "typed_pairings t \<Longrightarrow> typed_pairings (snd (getWalletPairing t n now))"
  by (auto simp: getWalletPairing_def set_status_def typed_pairing_def split: option.splits intro!: typed_update)

lemma typed_create:
  assumes "typed_pairings t" and "createWalletPairing t n w c now = Some res"
  shows "typed_pairings (snd res)"
proof -
  obtain t' r where ins: "insert_unique pr_nonce r t = Some t'" and res: "res = getWalletPairing t' n now"
    and r: "typed_pairing r"
    using assms(2) by (fastforce simp: createWalletPairing_def typed_pairing_def)
  have "typed_pairings t'"
    using assms(1) ins r by (auto simp: typed_pairings_def insert_unique_def unique_snoc split: if_splits)
  with res show ?thesis by (simp add: typed_get)
qed

lemma typed_submit:
  assumes "typed_pairings t" and "hex32 qx" and "hex32 qy"
  shows "typed_pairings (snd (submitWalletPairing t n qx qy label cred now))"
proof -
  obtain row t1 where g: "getWalletPairing t n now = (row, t1)" by force
  have t1: "typed_pairings t1" using typed_get [OF assms(1), of n now] g by simp
  have "typed_pairings (update_where (\<lambda>r. pr_nonce r = n)
          (\<lambda>r. r\<lparr>pr_new_owner_qx := Some qx, pr_new_owner_qy := Some qy, pr_device_label := label,
                  pr_new_owner_credential_id := cred, pr_status := Pr_Approved\<rparr>) t1)"
    using assms by (intro typed_update t1) (simp_all add: typed_pairing_def)
  moreover have "typed_pairings (set_status n Pr_Expired t1)"
    unfolding set_status_def by (intro typed_update t1) (auto simp: typed_pairing_def split: option.splits)
  ultimately show ?thesis
    using g t1 by (cases row) (simp_all add: submitWalletPairing_def typed_get)
qed

lemma typed_consume: "typed_pairings t \<Longrightarrow> typed_pairings (snd (consumeWalletPairing t n now))"
proof -
  assume t: "typed_pairings t"
  obtain row t1 where g: "getWalletPairing t n now = (row, t1)" by force
  have t1: "typed_pairings t1" using typed_get [OF t, of n now] g by simp
  have "typed_pairings (set_status n Pr_Consumed t1)" if "row = Some r" "pr_status r = Pr_Approved" for r
    using get_row [OF g [unfolded that(1)]] that(2) unfolding set_status_def
    by (intro typed_update t1) (auto simp: typed_pairing_def split: option.splits)
  with g t1 show ?thesis
    by (cases row) (simp_all add: consumeWalletPairing_def typed_get)
qed

lemma typed_reject: "typed_pairings t \<Longrightarrow> typed_pairings (snd (rejectWalletPairing t n now))"
proof -
  assume t: "typed_pairings t"
  obtain row t1 where g: "getWalletPairing t n now = (row, t1)" by force
  have t1: "typed_pairings t1" using typed_get [OF t, of n now] g by simp
  have "typed_pairings (set_status n Pr_Expired t1)"
    unfolding set_status_def by (intro typed_update t1) (auto simp: typed_pairing_def split: option.splits)
  with g t1 show ?thesis
    by (cases row) (simp_all add: rejectWalletPairing_def typed_get)
qed

lemma typed_route: "typed_pairings t \<Longrightarrow> typed_pairings (snd (pairingRoute t body fresh now))"
  by (simp add: pairingRoute_def Let_def typed_get typed_create typed_submit typed_consume typed_reject normalizeHex32_hex32
      split: option.split)

text \<open>
  C13. Type of the table: whatever requests are served from an empty table on, nonces are unique,
  wallet addresses are lower case, a pending pairing holds no key and an approved or consumed one
  holds both coordinates as 32-byte hexadecimal words.
\<close>

theorem pairings_typed: "typed_pairings (pairing_run [] xs)"
proof -
  have "typed_pairings t \<Longrightarrow> typed_pairings (pairing_run t xs)" for t
    by (induction t xs rule: pairing_run.induct) (simp_all add: typed_route)
  then show ?thesis
    by (simp add: typed_pairings_def)
qed

section \<open>A pairing is consumed once\<close>

lemma consumed_stays:
  assumes "find_by pr_nonce n t = Some r" and "pr_status r = Pr_Consumed"
  shows "\<exists>s. find_by pr_nonce n (snd (pairingRoute t body fresh now)) = Some s \<and> pr_status s = Pr_Consumed"
  using pairing_rows.growsD [OF grows_route assms(1), of body fresh now] assms(2) by (auto simp: pairing_later_def)

lemma get_consumed:
  "find_by pr_nonce n t = Some r \<Longrightarrow> pr_status r = Pr_Consumed \<Longrightarrow> getWalletPairing t n now = (Some r, t)"
  by (simp add: getWalletPairing_def pairing_open_def)

lemma consume_route:
  assumes "pb_action body = Some ''consume''" and "is_ok (fst (pairingRoute t body fresh now))"
  obtains n r s where "str (pb_nonce body) = Some n"
    and "find_by pr_nonce n t = Some r" and "pr_status r = Pr_Approved"
    and "find_by pr_nonce n (snd (pairingRoute t body fresh now)) = Some s" and "pr_status s = Pr_Consumed"
    and "fst (pairingRoute t body fresh now) = Inr s"
proof -
  obtain n where n: "str (pb_nonce body) = Some n"
    using assms by (cases "str (pb_nonce body)") (simp_all add: pairingRoute_def is_ok_def failed_def)
  have route: "pairingRoute t body fresh now = pairing_reply (consumeWalletPairing t n now)"
    using assms(1) n by (simp add: pairingRoute_def)
  obtain row t1 where g: "getWalletPairing t n now = (row, t1)" by force
  obtain r where r: "row = Some r" "pr_status r = Pr_Approved"
    using assms(2) route g
    by (cases row) (auto simp: consumeWalletPairing_def pairing_reply_def is_ok_def failed_def split: if_splits)
  have f: "find_by pr_nonce n t = Some r" "t1 = t"
    using get_row [OF g [unfolded r(1)]] r(2) by (auto simp: pairing_open_def)
  have "find_by pr_nonce n (set_status n Pr_Consumed t) = Some (r\<lparr>pr_status := Pr_Consumed\<rparr>)"
    using f(1) by (simp add: set_status_def pairing_rows.find_update_key)
  then have "pairingRoute t body fresh now = (Inr (r\<lparr>pr_status := Pr_Consumed\<rparr>), set_status n Pr_Consumed t)"
    using route g r f by (simp add: consumeWalletPairing_def pairing_reply_def get_consumed)
  with that n f(1) r(2) \<open>find_by pr_nonce n (set_status n Pr_Consumed t) = _\<close> show thesis by simp
qed

lemma consumed_not_again:
  "find_by pr_nonce n t = Some r \<Longrightarrow> pr_status r = Pr_Consumed \<Longrightarrow> n \<notin> set (consumed_nonces t xs)"
proof (induction xs arbitrary: t r)
  case (Cons x xs)
  obtain body fresh now where x: "x = (body, fresh, now)" by (cases x)
  let ?t' = "snd (pairingRoute t body fresh now)"
  have later: "n \<notin> set (consumed_nonces ?t' xs)"
    using consumed_stays [OF Cons.prems] Cons.IH by blast
  have "n \<noteq> the (str (pb_nonce body))" if "pb_action body = Some ''consume''" "is_ok (fst (pairingRoute t body fresh now))"
    using consume_route [OF that] Cons.prems by fastforce
  with later show ?case by (simp add: x split_beta)
qed simp

lemma consumed_distinct: "distinct (consumed_nonces t xs)"
proof (induction xs arbitrary: t)
  case (Cons x xs)
  obtain body fresh now where x: "x = (body, fresh, now)" by (cases x)
  have "the (str (pb_nonce body)) \<notin> set (consumed_nonces (snd (pairingRoute t body fresh now)) xs)"
    if "pb_action body = Some ''consume''" "is_ok (fst (pairingRoute t body fresh now))"
    by (rule consume_route [OF that]) (simp add: consumed_not_again)
  with Cons.IH show ?case by (simp add: x split_beta)
qed simp

text \<open>
  In any sequence of pairing requests on any table, no pairing is consumed twice, and the key
  of a pairing is fixed when it is submitted: afterwards its row is never deleted and its key,
  credential, label, wallet, chain and expiry never change.
\<close>

theorem pairing_consumed_once:
  "distinct (consumed_nonces t xs) \<and>
   (\<forall>n r. find_by pr_nonce n t = Some r \<longrightarrow>
      (\<exists>s. find_by pr_nonce n (pairing_run t xs) = Some s \<and> pairing_later r s))"
  using grows_run [of t xs] by (auto simp: consumed_distinct pairing_rows.grows_def)

definition demo_pairing :: pairing where
  "demo_pairing =
     \<lparr>pr_nonce = ''n'', pr_wallet_address = ''0xab'', pr_chain_id = ''1'', pr_new_owner_qx = Some ''0x01'', pr_new_owner_qy = Some ''0x02'',
      pr_new_owner_credential_id = None, pr_device_label = None, pr_status = Pr_Approved, pr_expires_at = 100, pr_created_at = 0\<rparr>"

definition demo_consume :: pairing_body where
  "demo_consume =
     \<lparr>pb_action = Some ''consume'', pb_chain_id = None, pb_wallet_address = None, pb_nonce = Some ''n'',
      pb_new_owner_qx = None, pb_new_owner_qy = None, pb_device_label = None, pb_new_owner_credential_id = None,
      pb_credential_id = None\<rparr>"

lemma pairing_consumed_once_witness:
  "consumed_nonces [demo_pairing] [(demo_consume, ''x'', 7), (demo_consume, ''x'', 8)] = [''n''] \<and>
   (\<exists>s. find_by pr_nonce ''n'' (pairing_run [demo_pairing] [(demo_consume, ''x'', 7), (demo_consume, ''x'', 8)]) = Some s \<and>
        pairing_later demo_pairing s)"
proof
  show "consumed_nonces [demo_pairing] [(demo_consume, ''x'', 7), (demo_consume, ''x'', 8)] = [''n'']"
    by code_simp
  have "find_by pr_nonce ''n'' [demo_pairing] = Some demo_pairing"
    by (simp add: demo_pairing_def)
  then show "\<exists>s. find_by pr_nonce ''n'' (pairing_run [demo_pairing] [(demo_consume, ''x'', 7), (demo_consume, ''x'', 8)]) = Some s \<and>
        pairing_later demo_pairing s"
    using pairing_consumed_once [of "[demo_pairing]"] by blast
qed

end
