(* ===== verification/WalletRoutes.thy ===== *)
theory WalletRoutes
  imports RecoveryFlow
begin

text \<open>
  Routes of commerce/server/wallet-routes.ts on accounts and devices: registering and removing
  devices, the activation calls of the wallet deployer, and restoring the record of a wallet
  with a passkey (\<open>recoverWalletAccount\<close>, with commerce/shared/wallet-recover-match.ts). None of
  the device routes asks who calls.
\<close>

section \<open>Devices\<close>

definition default_chain :: string where
  "default_chain = ''11155111''"

record device_body =
  db_wallet :: "string option"
  db_chain_id :: "string option"
  db_owner_qx :: "string option"
  db_owner_qy :: "string option"
  db_label :: "string option"
  db_credential_id :: "string option"

definition listDevicesRoute :: "'z wallet_db_scheme \<Rightarrow> string option \<Rightarrow> string option \<Rightarrow> wallet_device list wallet_result" where
  "listDevicesRoute db wallet chain =
     (case map_option (\<lambda>w. lower (trim w)) wallet of
        None \<Rightarrow> failed 400 ''wallet required''
      | Some w \<Rightarrow>
          if w = '''' then failed 400 ''wallet required''
          else Inr (listWalletDevices db w (nullish (map_option trim chain) default_chain)))"

definition registerDeviceRoute ::
    "'z wallet_db_scheme \<Rightarrow> device_body \<Rightarrow> timestamp \<Rightarrow> wallet_device option wallet_result \<times> 'z wallet_db_scheme" where
  "registerDeviceRoute db body now =
     (case (map_option lower (str (db_wallet body)), normalizeHex32 (str (db_owner_qx body)), normalizeHex32 (str (db_owner_qy body))) of
        (Some w, Some qx, Some qy) \<Rightarrow>
          (let (d, db') = upsertWalletDevice db w (nullish (str (db_chain_id body)) default_chain) qx qy
                            (nullish (str (db_label body)) ''Passkey'') (str (db_credential_id body)) now in
           (Inr d, db'))
      | _ \<Rightarrow> (failed 400 ''walletAddress, ownerQx, ownerQy required'', db))"

text \<open>The path parts four to six; a coordinate may leave out \<open>0x\<close>, and an empty part counts as missing.\<close>

definition path_coord :: "string option \<Rightarrow> string option" where
  "path_coord p =
     (if \<not> truthy p then None
      else normalizeHex32 (Some (if starts_with (the p) ''0x'' then the p else ''0x'' @ the p)))"

definition deleteDeviceRoute ::
    "'z wallet_db_scheme \<Rightarrow> string option \<Rightarrow> string option \<Rightarrow> string option \<Rightarrow> string option \<Rightarrow> timestamp \<Rightarrow>
     unit wallet_result \<times> 'z wallet_db_scheme" where
  "deleteDeviceRoute db wallet qx qy chain now =
     (case (or_null (map_option (\<lambda>w. lower (trim w)) wallet), path_coord qx, path_coord qy) of
        (Some w, Some x, Some y) \<Rightarrow> (Inr (), deleteWalletDevice db w (nullish (map_option trim chain) default_chain) x y now)
      | _ \<Rightarrow> (failed 400 ''invalid path'', db))"

section \<open>Activation\<close>

text \<open>
  \<open>authorized\<close> is the outcome of \<open>requireApiKey\<close>, \<open>conf_chain\<close> the configured chain. The limit of
  the list is \<open>Number\<close> of the parameter, \<open>None\<close> when that is not finite.
\<close>

definition deployerAccountsRoute ::
    "'z wallet_db_scheme \<Rightarrow> bool \<Rightarrow> string \<Rightarrow> string option \<Rightarrow> int option \<Rightarrow> timestamp \<Rightarrow> wallet_account list wallet_result" where
  "deployerAccountsRoute db authorized conf_chain chain limit now =
     (if \<not> authorized then failed 401 ''unauthorized''
      else Inr (listUndeployedWalletAccounts db (nullish (map_option trim chain) conf_chain) (nullish limit 100) now))"

definition activationRoute ::
    "'z wallet_db_scheme \<Rightarrow> bool \<Rightarrow> address \<Rightarrow> bool \<Rightarrow> bool \<Rightarrow> string option \<Rightarrow> timestamp \<Rightarrow>
     wallet_account wallet_result \<times> 'z wallet_db_scheme" where
  "activationRoute db authorized a funded deployed error now =
     (if \<not> authorized then (failed 401 ''unauthorized'', db)
      else (case recordWalletActivationCheck db a funded (Some deployed) (str error) now of
              (None, db') \<Rightarrow> (failed 404 ''account_not_found'', db')
            | (Some acc, db') \<Rightarrow> (Inr acc, db')))"

definition deployedRoute ::
    "'z wallet_db_scheme \<Rightarrow> bool \<Rightarrow> string \<Rightarrow> address \<Rightarrow> string option \<Rightarrow> timestamp \<Rightarrow>
     wallet_account wallet_result \<times> 'z wallet_db_scheme" where
  "deployedRoute db authorized conf_chain a chain now =
     (if \<not> authorized then (failed 401 ''unauthorized'', db)
      else (case markWalletDeployed db a (nullish (str chain) conf_chain) now of
              (None, db') \<Rightarrow> (failed 404 ''account_not_found'', db')
            | (Some acc, db') \<Rightarrow> (Inr acc, db')))"

text \<open>
  A balance poll moves a wallet to the front of the activation queue and marks the chains it is
  seen on; \<open>polled\<close> holds, for each configured chain, the balance and whether the wallet has code
  there or is marked.
\<close>

definition balancePoll :: "'z wallet_db_scheme \<Rightarrow> address \<Rightarrow> (string \<times> int \<times> bool) list \<Rightarrow> timestamp \<Rightarrow> 'z wallet_db_scheme" where
  "balancePoll db a polled now =
     fold (\<lambda>(c, b, deployed) d. if deployed then snd (markWalletDeployed d a c now) else d) polled
       (snd (touchWalletActivation db a (list_ex (\<lambda>(c, b, deployed). b > 0) polled) now))"

section \<open>Owners on chain\<close>

type_synonym owner_coords = "string \<times> string"

definition ownerCoordKey :: "string \<Rightarrow> string \<Rightarrow> string" where
  "ownerCoordKey qx qy = lower qx @ '':'' @ lower qy"

text \<open>The list of candidates with the set of their keys.\<close>

definition pushOwnerCandidate ::
    "string option \<Rightarrow> string option \<Rightarrow> owner_coords list \<times> string list \<Rightarrow> owner_coords list \<times> string list" where
  "pushOwnerCandidate qx_raw qy_raw acc =
     (case (normalizeHex32 qx_raw, normalizeHex32 qy_raw) of
        (Some qx, Some qy) \<Rightarrow>
          if ownerCoordKey qx qy \<in> set (snd acc) then acc
          else (fst acc @ [(qx, qy)], ownerCoordKey qx qy # snd acc)
      | _ \<Rightarrow> acc)"

text \<open>
  What the chain answers, \<open>None\<close> being a call that throws: the code, the identity of an identity
  wallet, its methods (the inner \<open>None\<close> a \<open>getMethod\<close> that throws; the flag is \<open>exists\<close>), and the
  owners of a wallet of the older kind.
\<close>

record chain_read =
  cr_code :: "string option"
  cr_identity :: "string option"
  cr_methods :: "(string \<times> string \<times> bool) option list option"
  cr_owner_count :: "nat option"
  cr_owner_at :: "nat \<Rightarrow> (string \<times> string) option"

text \<open>The flag tells whether the loop came to its end.\<close>

fun read_methods ::
    "owner_coords list \<times> string list \<Rightarrow> (string \<times> string \<times> bool) option list \<Rightarrow> (owner_coords list \<times> string list) \<times> bool" where
  "read_methods acc [] = (acc, True)"
| "read_methods acc (None # ms) = (acc, False)"
| "read_methods acc (Some (qx, qy, e) # ms) =
     read_methods (if e then pushOwnerCandidate (Some qx) (Some qy) acc else acc) ms"

fun read_owners :: "(nat \<Rightarrow> (string \<times> string) option) \<Rightarrow> owner_coords list \<times> string list \<Rightarrow> nat list \<Rightarrow> owner_coords list \<times> string list" where
  "read_owners f acc [] = acc"
| "read_owners f acc (i # js) =
     (case f i of
        None \<Rightarrow> acc
      | Some (qx, qy) \<Rightarrow> read_owners f (pushOwnerCandidate (Some qx) (Some qy) acc) js)"

definition identity_owners :: "chain_read \<Rightarrow> (owner_coords list \<times> string list) \<times> bool" where
  "identity_owners r =
     (case cr_identity r of
        None \<Rightarrow> (([], []), False)
      | Some i \<Rightarrow>
          if i = '''' \<or> i = zero_hash then (([], []), False)
          else (case cr_methods r of None \<Rightarrow> (([], []), False) | Some ms \<Rightarrow> read_methods ([], []) ms))"

definition readWalletOwnersOnChain :: "chain_read option \<Rightarrow> owner_coords list option" where
  "readWalletOwnersOnChain chain =
     (case chain of
        None \<Rightarrow> Some []
      | Some r \<Rightarrow>
          (case cr_code r of
             None \<Rightarrow> None
           | Some code \<Rightarrow>
               if code = ''0x'' then Some []
               else (let (acc, complete) = identity_owners r in
                     Some (fst (if complete then acc
                                else (case cr_owner_count r of
                                        None \<Rightarrow> acc
                                      | Some n \<Rightarrow> read_owners (cr_owner_at r) acc [0..<n]))))))"

section \<open>Restoring a record\<close>

definition sameRecoverOwner :: "owner_coords \<Rightarrow> owner_coords \<Rightarrow> bool" where
  "sameRecoverOwner a b \<longleftrightarrow> lower (fst a) = lower (fst b) \<and> lower (snd a) = lower (snd b)"

datatype match_reason = Invalid_Signature | Create2_Mismatch | Not_Onchain_Owner

datatype match_miss = Coordinates_Required | Owner_Mismatch match_reason

record owner_match =
  om_owner :: owner_coords
  om_salt :: string
  om_create2_matched :: bool

text \<open>
  \<open>derive\<close> is \<open>deriveWalletSalt\<close> (a keccak hash) and \<open>predict\<close> is \<open>predictWalletAddress\<close> for the
  configured factory and implementation. The three flags are \<open>sawValidSig\<close>, \<open>sawCreate2Fail\<close> and
  \<open>sawNotOnChain\<close>.
\<close>

fun match_candidates ::
    "(owner_coords \<Rightarrow> string) \<Rightarrow> (string \<Rightarrow> address) \<Rightarrow> address \<Rightarrow> owner_coords list \<Rightarrow> (owner_coords \<Rightarrow> bool) \<Rightarrow>
     bool \<times> bool \<times> bool \<Rightarrow> owner_coords list \<Rightarrow> match_miss + owner_match" where
  "match_candidates derive predict w on_chain verify (sig, c2, noc) [] =
     Inl (Owner_Mismatch (if sig \<and> c2 then Create2_Mismatch else if sig \<and> noc then Not_Onchain_Owner else Invalid_Signature))"
| "match_candidates derive predict w on_chain verify (sig, c2, noc) (c # cs) =
     (if \<not> verify c then match_candidates derive predict w on_chain verify (sig, c2, noc) cs
      else if on_chain \<noteq> [] \<and> \<not> list_ex (\<lambda>q. sameRecoverOwner q c) on_chain
      then match_candidates derive predict w on_chain verify (True, c2, True) cs
      else (let salt = derive c; create2 = (lower (predict salt) = lower w) in
            if on_chain = [] \<and> \<not> create2
            then match_candidates derive predict w on_chain verify (True, True, noc) cs
            else Inr \<lparr>om_owner = c, om_salt = salt, om_create2_matched = create2\<rparr>))"

definition matchRecoveredWalletOwner ::
    "(owner_coords \<Rightarrow> string) \<Rightarrow> (string \<Rightarrow> address) \<Rightarrow> address \<Rightarrow> owner_coords list \<Rightarrow> (owner_coords \<Rightarrow> bool) \<Rightarrow>
     owner_coords list \<Rightarrow> match_miss + owner_match" where
  "matchRecoveredWalletOwner derive predict w on_chain verify candidates =
     (if candidates = [] then Inl Coordinates_Required
      else match_candidates derive predict w on_chain verify (False, False, False) candidates)"

text \<open>\<open>wr_chains\<close>: the configured chains; the reading of a chain without an RPC address is \<open>None\<close>.\<close>

record wallet_routes_env =
  wr_recovery :: recovery_env
  wr_chain_id :: string
  wr_chains :: "(string \<times> chain_read option) list"
  wr_factory :: "string option"
  wr_implementation :: "string option"
  wr_cors :: "string list"
  wr_derive_salt :: "owner_coords \<Rightarrow> string"
  wr_predict :: "string \<Rightarrow> string \<Rightarrow> string \<Rightarrow> address"

record record_body =
  wb_wallet :: "string option"
  wb_chain_id :: "string option"
  wb_owner_qx :: "string option"
  wb_owner_qy :: "string option"
  wb_credential_id :: "string option"
  wb_challenge_id :: "string option"
  wb_assertion :: "assertion option"
  wb_label :: "string option"

definition chain_of :: "wallet_routes_env \<Rightarrow> string \<Rightarrow> chain_read option" where
  "chain_of env c =
     (case find (\<lambda>x. fst x = c) (wr_chains env) of
        Some x \<Rightarrow> snd x
      | None \<Rightarrow> (case wr_chains env of [] \<Rightarrow> None | x # _ \<Rightarrow> snd x))"

definition usable_assertion :: "assertion option \<Rightarrow> assertion option" where
  "usable_assertion a =
     (case a of
        None \<Rightarrow> None
      | Some x \<Rightarrow> if as_client_data_json x = '''' \<or> as_authenticator_data x = '''' \<or> as_signature x = '''' then None else Some x)"

definition owner_verifies :: "wallet_routes_env \<Rightarrow> assertion \<Rightarrow> string \<Rightarrow> owner_coords \<Rightarrow> bool" where
  "owner_verifies env a challenge owner =
     (case verifyWebAuthnAssertion (re_webauthn (wr_recovery env)) a
             \<lparr>vo_challenge = challenge, vo_rp_id = re_rp_id (wr_recovery env),
              vo_origins = (if ''*'' \<in> set (wr_cors env) then None else Some (wr_cors env)),
              vo_owner_qx = fst owner, vo_owner_qy = snd owner\<rparr> of
        Inl _ \<Rightarrow> False
      | Inr _ \<Rightarrow> True)"

definition owner_candidates :: "string option \<Rightarrow> string option \<Rightarrow> wallet_account option \<Rightarrow> owner_coords list \<Rightarrow> owner_coords list" where
  "owner_candidates qx qy stored on_chain =
     (let acc = pushOwnerCandidate qx qy ([], []);
          acc = (case stored of None \<Rightarrow> acc | Some s \<Rightarrow> pushOwnerCandidate (Some (wac_owner_qx s)) (Some (wac_owner_qy s)) acc) in
      fst (fold (\<lambda>q. pushOwnerCandidate (Some (fst q)) (Some (snd q))) on_chain acc))"

definition miss_error :: "match_miss \<Rightarrow> string" where
  "miss_error x = (case x of Coordinates_Required \<Rightarrow> ''owner_coordinates_required'' | Owner_Mismatch _ \<Rightarrow> ''passkey_owner_mismatch'')"

definition recovered_input :: "recovery_db \<Rightarrow> address \<Rightarrow> string \<Rightarrow> owner_match \<Rightarrow> account_input" where
  "recovered_input db w cred found =
     \<lparr>ai_address = w, ai_salt = nullish (or_null (map_option wac_salt (getWalletAccount db w))) (om_salt found),
      ai_owner_qx = fst (om_owner found), ai_owner_qy = snd (om_owner found), ai_credential_id = Some cred,
      ai_attestation = None, ai_identity_id = None, ai_label = None\<rparr>"

definition store_recovered ::
    "recovery_db \<Rightarrow> address \<Rightarrow> string \<Rightarrow> string \<Rightarrow> string option \<Rightarrow> owner_coords list \<Rightarrow> owner_match \<Rightarrow> timestamp \<Rightarrow>
     (wallet_account option \<times> wallet_device option) \<times> recovery_db" where
  "store_recovered db w c cred label on_chain found now =
     (let (account, db1) = upsertWalletAccount db (recovered_input db w cred found) now;
          db2 = (if on_chain \<noteq> [] then snd (markWalletDeployed db1 w c now) else db1);
          (device, db3) = upsertWalletDevice db2 w c (fst (om_owner found)) (snd (om_owner found))
             (nullish label ''Recovered passkey'') (Some cred) now in
      ((coalesce (getWalletAccount db3 w) account, device), db3))"

definition recoverWalletAccount ::
    "wallet_routes_env \<Rightarrow> recovery_db \<Rightarrow> record_body \<Rightarrow> timestamp \<Rightarrow>
     (wallet_account option \<times> wallet_device option) wallet_result \<times> recovery_db" where
  "recoverWalletAccount env db body now =
     (let chain_id = nullish (str (wb_chain_id body)) (wr_chain_id env) in
      case (map_option lower (str (wb_wallet body)), str (wb_credential_id body), str (wb_challenge_id body)) of
        (Some w, Some cred, Some cid) \<Rightarrow>
          if \<not> re_is_address (wr_recovery env) w
          then (failed 400 ''walletAddress, credentialId, challengeId required'', db)
          else (case usable_assertion (wb_assertion body) of
            None \<Rightarrow> (failed 400 ''assertion required'', db)
          | Some a \<Rightarrow>
          (case getHostedRecoveryChallenge (hosted_challenges db) cid of
            None \<Rightarrow> (failed 400 ''invalid_or_expired_challenge'', db)
          | Some ch \<Rightarrow>
              if hch_purpose ch \<noteq> Hc_Record \<or> hch_consumed ch \<or> hch_expires_at ch < now
              then (failed 400 ''invalid_or_expired_challenge'', db)
              else (case readWalletOwnersOnChain (chain_of env chain_id) of
                None \<Rightarrow> (failed 500 ''error'', db)
              | Some on_chain \<Rightarrow>
                  (let candidates = owner_candidates (normalizeHex32 (str (wb_owner_qx body))) (normalizeHex32 (str (wb_owner_qy body)))
                                      (getWalletAccount db w) on_chain in
                   if candidates = [] then (failed 400 ''owner_coordinates_required'', db)
                   else if \<not> truthy (wr_factory env) \<or> \<not> truthy (wr_implementation env)
                   then (failed 503 ''wallet_factory_not_configured'', db)
                   else (case matchRecoveredWalletOwner (wr_derive_salt env)
                                (wr_predict env (the (wr_factory env)) (the (wr_implementation env)))
                                w on_chain (owner_verifies env a (hch_challenge ch)) candidates of
                     Inl miss \<Rightarrow> (failed 400 (miss_error miss), db)
                   | Inr found \<Rightarrow>
                       (case consume_challenge db cid Hc_Record now of
                          (None, db1) \<Rightarrow> (failed 400 ''invalid_or_expired_challenge'', db1)
                        | (Some _, db1) \<Rightarrow>
                            (let (res, db2) = store_recovered db1 w chain_id cred (str (wb_label body)) on_chain found now in
                             (Inr res, db2))))))))
      | _ \<Rightarrow> (failed 400 ''walletAddress, credentialId, challengeId required'', db))"

section \<open>The match is a search\<close>

definition may_own :: "(owner_coords \<Rightarrow> string) \<Rightarrow> (string \<Rightarrow> address) \<Rightarrow> address \<Rightarrow> owner_coords list \<Rightarrow> owner_coords \<Rightarrow> bool" where
  "may_own derive predict w on_chain c =
     (if on_chain = [] then lower (predict (derive c)) = lower w else list_ex (\<lambda>q. sameRecoverOwner q c) on_chain)"

lemma match_candidates_find:
  "match_candidates derive predict w on_chain verify (sig, c2, noc) cs =
     (case find (\<lambda>c. verify c \<and> may_own derive predict w on_chain c) cs of
        Some c \<Rightarrow> Inr \<lparr>om_owner = c, om_salt = derive c, om_create2_matched = (lower (predict (derive c)) = lower w)\<rparr>
      | None \<Rightarrow>
          (let sig' = (sig \<or> list_ex verify cs) in
           Inl (Owner_Mismatch (if sig' \<and> (c2 \<or> on_chain = [] \<and> list_ex verify cs) then Create2_Mismatch
             else if sig' \<and> (noc \<or> on_chain \<noteq> [] \<and> list_ex verify cs) then Not_Onchain_Owner else Invalid_Signature))))"
proof (induction cs arbitrary: on_chain sig c2 noc)
  case (Cons c cs)
  show ?case
    by (cases "verify c"; cases "on_chain = []") (simp_all add: Cons.IH may_own_def Let_def split: option.split)
qed (simp add: Let_def)

lemma match_found:
  assumes "matchRecoveredWalletOwner derive predict w on_chain verify cs = Inr found"
  shows "verify (om_owner found) \<and> may_own derive predict w on_chain (om_owner found)"
proof (cases "find (\<lambda>c. verify c \<and> may_own derive predict w on_chain c) cs")
  case None
  with assms show ?thesis by (simp add: matchRecoveredWalletOwner_def match_candidates_find Let_def split: if_splits)
next
  case (Some c)
  then have "verify c \<and> may_own derive predict w on_chain c" by (auto simp: find_Some_iff)
  with assms Some show ?thesis by (auto simp: matchRecoveredWalletOwner_def match_candidates_find split: if_splits)
qed

text \<open>
  C14. The search for the owner of a recovered record is the first candidate whose signature
  verifies and that is an owner on chain, or, for a wallet without owners on chain, whose
  CREATE2 address is the wallet. Otherwise the reason tells whether no signature verified, or
  which of the two tests the verified ones failed.
\<close>

theorem matchRecoveredWalletOwner_spec:
  "matchRecoveredWalletOwner derive predict w on_chain verify cs =
     (case find (\<lambda>c. verify c \<and> may_own derive predict w on_chain c) cs of
        Some c \<Rightarrow> Inr \<lparr>om_owner = c, om_salt = derive c, om_create2_matched = (lower (predict (derive c)) = lower w)\<rparr>
      | None \<Rightarrow>
          Inl (if cs = [] then Coordinates_Required
               else Owner_Mismatch (if \<not> list_ex verify cs then Invalid_Signature
                                    else if on_chain = [] then Create2_Mismatch else Not_Onchain_Owner)))"
  by (cases "cs = []")
    (auto simp: matchRecoveredWalletOwner_def match_candidates_find Let_def split: option.split)

end
