(* ===== verification/WalletRouteProps.thy ===== *)
theory WalletRouteProps
  imports WalletRoutes RecoveryDemo
begin

text \<open>
  What the unauthenticated device route means for recovery, and who can restore the record of a
  wallet.
\<close>

section \<open>A registered device owns the wallet\<close>

lemma upserted_device:
  "\<exists>d \<in> set (listWalletDevices (snd (upsertWalletDevice db w c qx qy l cred now)) w c). wdv_owner_qx d = qx \<and> wdv_owner_qy d = qy"
proof -
  let ?t = "wallet_devices (snd (upsertWalletDevice db w c qx qy l cred now))"
  have "find_by device_id (lower w, c, qx, qy) ?t \<noteq> None"
    by (simp add: upsertWalletDevice_def Let_def, subst find_by_upsert) (simp_all add: device_id_def)
  then obtain d where "d \<in> set ?t" "device_id d = (lower w, c, qx, qy)"
    using find_by_SomeD by fastforce
  then show ?thesis
    by (auto simp: listWalletDevices_def device_id_def)
qed

lemma upserted_device_result:
  "\<exists>d. fst (upsertWalletDevice db w c qx qy l cred now) = Some d \<and> wdv_owner_qx d = qx \<and> wdv_owner_qy d = qy"
proof -
  let ?L = "listWalletDevices (snd (upsertWalletDevice db w c qx qy l cred now)) w c"
  have "find (\<lambda>d. wdv_owner_qx d = qx \<and> wdv_owner_qy d = qy) ?L \<noteq> None"
    using upserted_device [of db w c qx qy l cred now] unfolding find_None_iff by blast
  moreover have "fst (upsertWalletDevice db w c qx qy l cred now) = find (\<lambda>d. wdv_owner_qx d = qx \<and> wdv_owner_qy d = qy) ?L"
    by (simp add: upsertWalletDevice_def Let_def)
  ultimately show ?thesis
    by (auto simp: find_Some_iff)
qed

lemma owns_registered:
  assumes "listWalletDevices db w (re_chain_id env) = listWalletDevices (snd (upsertWalletDevice db0 w (re_chain_id env) qx qy l cred now)) w (re_chain_id env)"
  shows "owns_wallet env db account w qx qy"
  using assms upserted_device [of db0 w "re_chain_id env" qx qy l cred now] by (auto simp: owns_wallet_def list_ex_iff)

lemma otp_round:
  assumes "fst (create_otp env db i w e p code now)" and "now' \<le> now + 10 * 60 * 1000"
  shows "fst (consume_otp env (snd (create_otp env db i w e p code now)) w e p code now')"
proof -
  obtain x t' where c: "createWalletEmailOtp (email_otps db) i w e p (hashOtpCode env code) None now = (Some x, t')"
    using assms(1) by (cases "createWalletEmailOtp (email_otps db) i w e p (hashOtpCode env code) None now")
      (auto simp: create_otp_def)
  have "fst (consumeWalletEmailOtp t' w e p (hashOtpCode env code) None now')"
    by (cases rule: consume_one_otp [OF created_otp_live [OF c], of "hashOtpCode env code" now']) (use assms(2) in auto)
  with c show ?thesis
    by (simp add: create_otp_def consume_otp_def split_beta)
qed

text \<open>What somebody without any key of the wallet sends: his own key, his own address, and a signature by his key.\<close>

definition takeover :: "recovery_env \<Rightarrow> recovery_db \<Rightarrow> device_body \<Rightarrow> attach_body \<Rightarrow> address \<Rightarrow> string \<Rightarrow> timestamp \<Rightarrow> bool" where
  "takeover env db dbody abody w e now \<longleftrightarrow>
     str (db_wallet dbody) = Some w \<and> str (db_chain_id dbody) = Some (re_chain_id env) \<and>
     normalizeHex32 (str (db_owner_qx dbody)) = normalizeHex32 (str (ab_owner_qx abody)) \<and>
     normalizeHex32 (str (db_owner_qy dbody)) = normalizeHex32 (str (ab_owner_qy abody)) \<and>
     requireCaptcha env (ab_captcha abody) = None \<and>
     str (ab_wallet abody) = Some w \<and> str (ab_email abody) = Some e \<and> re_is_address env w \<and> CHR ''@'' \<in> set e \<and>
     (\<exists>cid qx qy a ch t. str (ab_challenge_id abody) = Some cid \<and>
        normalizeHex32 (str (ab_owner_qx abody)) = Some qx \<and> normalizeHex32 (str (ab_owner_qy abody)) = Some qy \<and>
        ab_assertion abody = Some a \<and>
        consumeHostedRecoveryChallenge (hosted_challenges db) cid Hc_Attach now = (Some ch, t) \<and>
        assertion_error env a (hch_challenge ch) qx qy = None)"

lemma in_lower_at: "CHR ''@'' \<in> set e \<Longrightarrow> CHR ''@'' \<in> set (lower e)"
  by (force simp: lower_def lower_char_def image_iff)

lemma device_frame [simp]:
  fixes db :: recovery_db
  shows "hosted_challenges (snd (upsertWalletDevice db w c qx qy l cred now)) = hosted_challenges db"
    and "email_otps (snd (upsertWalletDevice db w c qx qy l cred now)) = email_otps db"
    and "wallet_accounts (snd (upsertWalletDevice db w c qx qy l cred now)) = wallet_accounts db"
    and "email_otps (snd (upsertWalletEmail db w e None now)) = email_otps db"
  by (simp_all add: upsertWalletDevice_def upsertWalletEmail_def Let_def walletPersist_def split: option.split)

lemma lower_device [simp]: "upsertWalletDevice db (lower w) c qx qy l cred now = upsertWalletDevice db w c qx qy l cred now"
  by (simp add: upsertWalletDevice_def listWalletDevices_def)
lemma takeover_attach:
  assumes t: "takeover env db dbody abody w e now" and acc: "getWalletAccount db w = Some account" and sent: "re_send_failed env (lower e) = None"
    and fresh: "find_by otp_id i (email_otps db) = None"
  shows "\<exists>db'. snd (attachEmail env (snd (registerDeviceRoute db dbody now0)) abody (i, code) now) =
             snd (create_otp env db' i w (lower e) Otp_Attach code now) \<and>
           fst (create_otp env db' i w (lower e) Otp_Attach code now)"
proof -
  from t obtain cid qx qy a ch tt where
    dev: "str (db_wallet dbody) = Some w" "str (db_chain_id dbody) = Some (re_chain_id env)"
      "normalizeHex32 (str (db_owner_qx dbody)) = Some qx" "normalizeHex32 (str (db_owner_qy dbody)) = Some qy"
    and body: "requireCaptcha env (ab_captcha abody) = None" "str (ab_wallet abody) = Some w" "str (ab_email abody) = Some e"
      "str (ab_challenge_id abody) = Some cid" "re_is_address env w" "CHR ''@'' \<in> set (lower e)"
      "normalizeHex32 (str (ab_owner_qx abody)) = Some qx" "normalizeHex32 (str (ab_owner_qy abody)) = Some qy" "ab_assertion abody = Some a"
    and ch: "consumeHostedRecoveryChallenge (hosted_challenges db) cid Hc_Attach now = (Some ch, tt)"
      "assertion_error env a (hch_challenge ch) qx qy = None"
    unfolding takeover_def using in_lower_at by metis
  let ?db1 = "snd (registerDeviceRoute db dbody now0)"
  have db1: "?db1 = snd (upsertWalletDevice db w (re_chain_id env) qx qy (nullish (str (db_label dbody)) ''Passkey'') (str (db_credential_id dbody)) now0)"
    using dev by (simp add: registerDeviceRoute_def split_beta)
  let ?db2 = "?db1\<lparr>hosted_challenges := tt\<rparr>"
  let ?db3 = "snd (upsertWalletEmail ?db2 w (lower e) None now)"
  have acc1: "getWalletAccount ?db1 w = Some account" using acc by (simp add: db1 getWalletAccount_def)
  have owns: "owns_wallet env ?db1 account w qx qy" by (rule owns_registered) (simp add: db1)
  have chal: "consume_challenge ?db1 cid Hc_Attach now = (Some ch, ?db2)"
    using ch(1) by (simp add: consume_challenge_def db1)
  have otp: "fst (create_otp env ?db3 i w (lower e) Otp_Attach code now)"
  proof -
    have "find_by otp_id i (ended_otps (email_otps db) w Otp_Attach now) = None"
      using fresh unfolding ended_otps_def by (subst find_by_update_where) simp_all
    then show ?thesis
      by (simp add: create_otp_def db1 createWalletEmailOtp_def insert_unique_def new_otp_def)
  qed
  have "attachEmail env ?db1 abody (i, code) now = (Inr (), snd (create_otp env ?db3 i w (lower e) Otp_Attach code now))"
    using otp body ch(2) acc1 owns chal sent by (simp add: attachEmail_def split_beta)
  with otp show ?thesis by auto
qed

text \<open>
  Anybody becomes the recovery e-mail of any wallet. The device route takes a key for any
  wallet from any caller, and attaching an e-mail trusts the devices of the wallet: a caller
  without a key of the wallet registers his own key, signs the attach challenge with it,
  receives the code at his own address, and confirms it within ten minutes. Afterwards his
  address is the verified recovery e-mail of the wallet, whatever it was before.
\<close>

theorem any_visitor_takes_email:
  assumes "takeover env db dbody abody w e t" and "getWalletAccount db w = Some account"
    and "re_send_failed env (lower e) = None" and "find_by otp_id i (email_otps db) = None"
    and "requireCaptcha env captcha = None" and "str (Some code) = Some code" and "t' \<le> t + 10 * 60 * 1000"
  shows "\<exists>row. getWalletEmail (snd (verifyEmailOtp env
             (snd (attachEmail env (snd (registerDeviceRoute db dbody t0)) abody (i, code) t))
             captcha (ab_wallet abody) (ab_email abody) (Some code) t')) w = Some row \<and>
           wem_email row = normalizeEmail (lower e) \<and> wem_verified_at row = Some t'"
proof -
  obtain db' where db': "snd (attachEmail env (snd (registerDeviceRoute db dbody t0)) abody (i, code) t) =
      snd (create_otp env db' i w (lower e) Otp_Attach code t)" "fst (create_otp env db' i w (lower e) Otp_Attach code t)"
    using takeover_attach [OF assms(1-4)] by blast
  obtain db'' where ok: "consume_otp env (snd (create_otp env db' i w (lower e) Otp_Attach code t)) w (lower e) Otp_Attach code t' = (True, db'')"
    using otp_round [OF db'(2) assms(7)] by (metis eq_fst_iff)
  have body: "str (ab_wallet abody) = Some w" "str (ab_email abody) = Some e"
    using assms(1) by (simp_all add: takeover_def)
  obtain row where row: "getWalletEmail (snd (markWalletEmailVerified db'' w (lower e) t')) w = Some row"
      "wem_email row = normalizeEmail (lower e)" "wem_verified_at row = Some t'"
    by (rule mark_verified_row)
  have "snd (verifyEmailOtp env (snd (create_otp env db' i w (lower e) Otp_Attach code t)) captcha (ab_wallet abody) (ab_email abody)
      (Some code) t') = snd (markWalletEmailVerified db'' w (lower e) t')"
    using assms(5,6) body ok by (simp add: verifyEmailOtp_def split_beta)
  with row show ?thesis by (simp add: db'(1))
qed

definition demo_visit_db :: recovery_db where
  "demo_visit_db = demo_db0\<lparr>hosted_challenges := [demo_challenge ''c'' Hc_Attach]\<rparr>"

definition demo_device :: device_body where
  "demo_device =
     \<lparr>db_wallet = Some ''w'', db_chain_id = Some ''1'', db_owner_qx = Some demo_key, db_owner_qy = Some demo_key, db_label = None,
      db_credential_id = None\<rparr>"

definition demo_attach :: attach_body where
  "demo_attach =
     \<lparr>ab_captcha = None, ab_wallet = Some ''w'', ab_email = Some ''b@a'', ab_challenge_id = Some ''c'', ab_owner_qx = Some demo_key,
      ab_owner_qy = Some demo_key, ab_assertion = Some demo_assertion\<rparr>"

lemma demo_strings [simp]: "trim ''b@a'' = ''b@a''" "trim ''1'' = ''1''"
  by code_simp+

lemma demo_takeover: "takeover demo_env demo_visit_db demo_device demo_attach ''w'' ''b@a'' 2"
proof -
  have c: "consumeHostedRecoveryChallenge (hosted_challenges demo_visit_db) ''c'' Hc_Attach 2 =
      (Some ((demo_challenge ''c'' Hc_Attach)\<lparr>hch_consumed := True\<rparr>), [(demo_challenge ''c'' Hc_Attach)\<lparr>hch_consumed := True\<rparr>])"
    by (simp add: consumeHostedRecoveryChallenge_def getHostedRecoveryChallenge_def demo_visit_db_def demo_challenge_def
      update_where_def changes_def)
  have ok: "assertion_error demo_env demo_assertion (hch_challenge ((demo_challenge ''c'' Hc_Attach)\<lparr>hch_consumed := True\<rparr>)) demo_key demo_key = None"
    using demo_assertion_accepted by (simp add: demo_challenge_def)
  have body: "str (ab_challenge_id demo_attach) = Some ''c''" "normalizeHex32 (str (ab_owner_qx demo_attach)) = Some demo_key"
      "normalizeHex32 (str (ab_owner_qy demo_attach)) = Some demo_key" "ab_assertion demo_attach = Some demo_assertion"
      "str (db_wallet demo_device) = Some ''w''" "str (db_chain_id demo_device) = Some (re_chain_id demo_env)"
      "normalizeHex32 (str (db_owner_qx demo_device)) = Some demo_key" "normalizeHex32 (str (db_owner_qy demo_device)) = Some demo_key"
      "requireCaptcha demo_env (ab_captcha demo_attach) = None" "str (ab_wallet demo_attach) = Some ''w''"
      "str (ab_email demo_attach) = Some ''b@a''" "re_is_address demo_env ''w''" "CHR ''@'' \<in> set ''b@a''"
    by (simp_all add: demo_attach_def demo_device_def demo_env_def str_def or_null_def requireCaptcha_def)
  from c ok body(1-4) have "\<exists>cid qx qy a ch t. str (ab_challenge_id demo_attach) = Some cid \<and>
        normalizeHex32 (str (ab_owner_qx demo_attach)) = Some qx \<and> normalizeHex32 (str (ab_owner_qy demo_attach)) = Some qy \<and>
        ab_assertion demo_attach = Some a \<and>
        consumeHostedRecoveryChallenge (hosted_challenges demo_visit_db) cid Hc_Attach 2 = (Some ch, t) \<and>
        assertion_error demo_env a (hch_challenge ch) qx qy = None" by blast
  then show ?thesis
    unfolding takeover_def by (simp only: body simp_thms)
qed

lemma any_visitor_takes_email_witness:
  "\<exists>row. getWalletEmail (snd (verifyEmailOtp demo_env
             (snd (attachEmail demo_env (snd (registerDeviceRoute demo_visit_db demo_device 1)) demo_attach (''o'', ''123456'') 2))
             None (ab_wallet demo_attach) (ab_email demo_attach) (Some ''123456'') 3)) ''w'' = Some row \<and>
         wem_email row = normalizeEmail (lower ''b@a'') \<and> wem_verified_at row = Some 3"
proof (rule any_visitor_takes_email [OF demo_takeover])
  show "getWalletAccount demo_visit_db ''w'' = Some demo_account"
    by (simp add: getWalletAccount_def demo_visit_db_def demo_db0_def demo_account_def)
  show "str (Some ''123456'') = Some ''123456''"
    by code_simp
qed (simp_all add: demo_visit_db_def demo_db0_def demo_env_def requireCaptcha_def)

section \<open>Who restores a record\<close>

lemma recover_success:
  assumes "recoverWalletAccount env db body now = (Inr res, db')"
  obtains w cred cid ch a on_chain found c db1 where
    "map_option lower (str (wb_wallet body)) = Some w" "str (wb_challenge_id body) = Some cid"
    "usable_assertion (wb_assertion body) = Some a"
    "getHostedRecoveryChallenge (hosted_challenges db) cid = Some ch" "hch_purpose ch = Hc_Record" "\<not> hch_consumed ch" "now \<le> hch_expires_at ch"
    "readWalletOwnersOnChain (chain_of env (nullish (str (wb_chain_id body)) (wr_chain_id env))) = Some on_chain"
    "matchRecoveredWalletOwner (wr_derive_salt env) (wr_predict env (the (wr_factory env)) (the (wr_implementation env))) w on_chain
       (owner_verifies env a (hch_challenge ch))
       (owner_candidates (normalizeHex32 (str (wb_owner_qx body))) (normalizeHex32 (str (wb_owner_qy body))) (getWalletAccount db w) on_chain) = Inr found"
    "consume_challenge db cid Hc_Record now = (Some c, db1)"
    "store_recovered db1 w (nullish (str (wb_chain_id body)) (wr_chain_id env)) cred (str (wb_label body)) on_chain found now = (res, db')"
  using assms unfolding recoverWalletAccount_def Let_def
  by (auto simp: failed_def not_less split: option.splits sum.splits if_splits prod.splits)

lemma upsert_account_challenges [simp]:
  fixes db :: recovery_db
  shows "hosted_challenges (snd (upsertWalletAccount db i now)) = hosted_challenges db"
proof -
  have "hosted_challenges (fold (\<lambda>ev d. walletPersist d ev now) evs d) = hosted_challenges d" for evs and d :: recovery_db
    by (induction evs arbitrary: d) (simp_all add: walletPersist_def split: option.split)
  then show ?thesis by (simp add: upsertWalletAccount_def Let_def)
qed

lemma mark_deployed_challenges [simp]:
  fixes db :: recovery_db
  shows "hosted_challenges (snd (markWalletDeployed db a c now)) = hosted_challenges db"
  by (simp add: markWalletDeployed_def on_account_def walletPersist_def Let_def split: option.split)

lemma store_recovered_device:
  assumes "store_recovered db w c cred label on_chain found now = ((account, device), db')"
  shows "\<exists>d. device = Some d \<and> om_owner found = (wdv_owner_qx d, wdv_owner_qy d)" "hosted_challenges db' = hosted_challenges db"
proof -
  let ?db1 = "snd (upsertWalletAccount db (recovered_input db w cred found) now)"
  let ?db2 = "if on_chain \<noteq> [] then snd (markWalletDeployed ?db1 w c now) else ?db1"
  have db2: "(device, db') = upsertWalletDevice ?db2 w c (fst (om_owner found)) (snd (om_owner found))
      (nullish label ''Recovered passkey'') (Some cred) now"
    using assms by (auto simp: store_recovered_def Let_def split_beta)
  have same: "hosted_challenges ?db2 = hosted_challenges db" by simp
  show "\<exists>d. device = Some d \<and> om_owner found = (wdv_owner_qx d, wdv_owner_qy d)"
    using db2 upserted_device_result [of ?db2 w c "fst (om_owner found)" "snd (om_owner found)"] by (metis fst_conv prod.collapse)
  show "hosted_challenges db' = hosted_challenges db"
    using db2 same device_frame(1) by (metis snd_conv)
qed

lemma consumed_challenge_dead:
  assumes "consume_challenge db i hp now = (Some c, db1)" and "hosted_challenges db2 = hosted_challenges db1"
  shows "fst (consume_challenge db2 i hq now') = None"
proof -
  have "consumeHostedRecoveryChallenge (hosted_challenges db) i hp now = (Some c, hosted_challenges db2)"
    using assms by (auto simp: consume_challenge_def split_beta prod_eq_iff)
  then have "hosted_spent (hosted_challenges db2) i" using hosted_challenges.attempt_ok by blast
  then show ?thesis
    using hosted_challenges.spent_fails by (simp add: consume_challenge_def split_beta)
qed


section \<open>A wallet that cannot be read counts as undeployed\<close>

lemma normalizeHex32_idem:
  assumes "normalizeHex32 x = Some v"
  shows "normalizeHex32 (Some v) = Some v"
proof -
  have v: "v = lower (trim (the x))" "starts_with v ''0x''" "length v = 66" "list_all (\<lambda>c. hex_value c \<noteq> None) (drop 2 v)"
    using assms by (auto simp: normalizeHex32_def Let_def split: if_splits)
  then have "lower (trim v) = v" "truthy (Some v)" by (auto simp: trim_lower truthy_def)
  with v(2-4) show ?thesis by (simp add: normalizeHex32_def)
qed

lemma live_challenge_consumed:
  assumes "getHostedRecoveryChallenge (hosted_challenges db) i = Some ch" "hch_purpose ch = hp" "\<not> hch_consumed ch" "now \<le> hch_expires_at ch"
  shows "\<exists>c db1. consume_challenge db i hp now = (Some c, db1)"
proof -
  have row: "ch \<in> set (hosted_challenges db)" "hch_id ch = i"
    using assms(1) find_by_SomeD unfolding getHostedRecoveryChallenge_def by fast+
  then have live: "changes (\<lambda>r. hch_id r = i \<and> \<not> hch_consumed r) (hosted_challenges db) \<noteq> 0"
    using assms(3) by (auto simp: changes_zero_iff)
  have "getHostedRecoveryChallenge (update_where (\<lambda>r. hch_id r = i \<and> \<not> hch_consumed r) (\<lambda>r. r\<lparr>hch_consumed := True\<rparr>) (hosted_challenges db)) i
      = Some (ch\<lparr>hch_consumed := True\<rparr>)"
    using assms(1,3) row by (simp add: getHostedRecoveryChallenge_def find_by_update_where)
  then show ?thesis
    using assms live by (simp add: consume_challenge_def consumeHostedRecoveryChallenge_def Let_def)
qed

lemma recover_runs:
  assumes on_chain: "readWalletOwnersOnChain (chain_of env (nullish (str (wb_chain_id body)) (wr_chain_id env))) = Some on_chain"
    and w: "map_option lower (str (wb_wallet body)) = Some w" "re_is_address (wr_recovery env) w"
    and ids: "str (wb_credential_id body) = Some cred" "str (wb_challenge_id body) = Some cid" "usable_assertion (wb_assertion body) = Some a"
    and ch: "getHostedRecoveryChallenge (hosted_challenges db) cid = Some ch" "hch_purpose ch = Hc_Record" "\<not> hch_consumed ch" "now \<le> hch_expires_at ch"
    and conf: "wr_factory env = Some f" "wr_implementation env = Some im" "truthy (Some f)" "truthy (Some im)"
    and found: "matchRecoveredWalletOwner (wr_derive_salt env) (wr_predict env f im) w on_chain (owner_verifies env a (hch_challenge ch))
       (owner_candidates (normalizeHex32 (str (wb_owner_qx body))) (normalizeHex32 (str (wb_owner_qy body))) (getWalletAccount db w) on_chain) = Inr found"
  shows "\<exists>account d. fst (recoverWalletAccount env db body now) = Inr (account, Some d) \<and> (wdv_owner_qx d, wdv_owner_qy d) = om_owner found"
proof -
  have some: "owner_candidates (normalizeHex32 (str (wb_owner_qx body))) (normalizeHex32 (str (wb_owner_qy body))) (getWalletAccount db w) on_chain \<noteq> []"
    using found by (auto simp: matchRecoveredWalletOwner_def)
  obtain c db1 where used: "consume_challenge db cid Hc_Record now = (Some c, db1)"
    using live_challenge_consumed [OF ch] by blast
  obtain account device db2 where stored: "store_recovered db1 w (nullish (str (wb_chain_id body)) (wr_chain_id env)) cred (str (wb_label body)) on_chain
      found now = ((account, device), db2)"
    by (metis prod.collapse)
  obtain z where z: "str (wb_wallet body) = Some z" "lower z = w" using w(1) by auto
  have "recoverWalletAccount env db body now = (Inr (account, device), db2)"
    using z w(2) ids ch conf on_chain some found used stored by (simp add: recoverWalletAccount_def)
  then show ?thesis using store_recovered_device(1) [OF stored] by auto
qed

text \<open>
  When the RPC node answers for the code of a deployed wallet but the calls that name its
  owners fail, the owners are read as the empty list, which is how an undeployed wallet looks:
  the key the wallet's address was derived from then restores the record and becomes one of its
  devices, whether or not it still is an owner on chain.
\<close>

theorem unread_owners_restore_first_key:
  assumes "chain_of env (nullish (str (wb_chain_id body)) (wr_chain_id env)) = Some r"
    and "cr_code r = Some code" and "cr_identity r = None" and "cr_owner_count r = None"
    and w: "map_option lower (str (wb_wallet body)) = Some w" "re_is_address (wr_recovery env) w"
    and ids: "str (wb_credential_id body) = Some cred" "str (wb_challenge_id body) = Some cid" "usable_assertion (wb_assertion body) = Some a"
    and ch: "getHostedRecoveryChallenge (hosted_challenges db) cid = Some ch" "hch_purpose ch = Hc_Record" "\<not> hch_consumed ch" "now \<le> hch_expires_at ch"
    and key: "normalizeHex32 (str (wb_owner_qx body)) = Some qx" "normalizeHex32 (str (wb_owner_qy body)) = Some qy"
    and conf: "wr_factory env = Some f" "wr_implementation env = Some im" "truthy (Some f)" "truthy (Some im)"
    and sig: "owner_verifies env a (hch_challenge ch) (qx, qy)"
    and first: "lower (wr_predict env f im (wr_derive_salt env (qx, qy))) = lower w"
  shows "\<exists>account d. fst (recoverWalletAccount env db body now) = Inr (account, Some d) \<and> (wdv_owner_qx d, wdv_owner_qy d) = (qx, qy)"
proof -
  have on_chain: "readWalletOwnersOnChain (chain_of env (nullish (str (wb_chain_id body)) (wr_chain_id env))) = Some []"
    using assms(1-4) by (simp add: readWalletOwnersOnChain_def identity_owners_def)
  let ?cs = "owner_candidates (Some qx) (Some qy) (getWalletAccount db w) []"
  have push: "\<exists>rest. fst (pushOwnerCandidate x y ([(qx, qy)], seen)) = (qx, qy) # rest" for x y seen
    by (simp add: pushOwnerCandidate_def split: option.split)
  have "pushOwnerCandidate (Some qx) (Some qy) ([], []) = ([(qx, qy)], [ownerCoordKey qx qy])"
    using normalizeHex32_idem [OF key(1)] normalizeHex32_idem [OF key(2)] by (simp add: pushOwnerCandidate_def)
  with push obtain rest where cs: "?cs = (qx, qy) # rest"
    by (cases "getWalletAccount db w") (fastforce simp: owner_candidates_def Let_def)+
  have found: "matchRecoveredWalletOwner (wr_derive_salt env) (wr_predict env f im) w [] (owner_verifies env a (hch_challenge ch)) ?cs =
      Inr \<lparr>om_owner = (qx, qy), om_salt = wr_derive_salt env (qx, qy), om_create2_matched = True\<rparr>"
    using sig first by (simp add: cs matchRecoveredWalletOwner_def Let_def)
  have "\<exists>account d. fst (recoverWalletAccount env db body now) = Inr (account, Some d) \<and> (wdv_owner_qx d, wdv_owner_qy d) =
      om_owner \<lparr>om_owner = (qx, qy), om_salt = wr_derive_salt env (qx, qy), om_create2_matched = True\<rparr>"
    by (rule recover_runs [OF on_chain w ids ch conf]) (simp only: key found)
  then show ?thesis by simp
qed

definition demo_unread :: chain_read where
  "demo_unread = \<lparr>cr_code = Some ''0x60'', cr_identity = None, cr_methods = None, cr_owner_count = None, cr_owner_at = (\<lambda>_. None)\<rparr>"

definition demo_routes :: wallet_routes_env where
  "demo_routes =
     \<lparr>wr_recovery = demo_env, wr_chain_id = ''1'', wr_chains = [(''1'', Some demo_unread)], wr_factory = Some ''f'',
      wr_implementation = Some ''m'', wr_cors = [''*''], wr_derive_salt = (\<lambda>_. ''s''), wr_predict = (\<lambda>_ _ _. ''w'')\<rparr>"

definition demo_record :: record_body where
  "demo_record =
     \<lparr>wb_wallet = Some ''w'', wb_chain_id = None, wb_owner_qx = Some demo_key, wb_owner_qy = Some demo_key, wb_credential_id = Some ''k'',
      wb_challenge_id = Some ''c'', wb_assertion = Some demo_assertion, wb_label = None\<rparr>"

definition demo_record_db :: recovery_db where
  "demo_record_db = demo_db0\<lparr>hosted_challenges := [demo_challenge ''c'' Hc_Record]\<rparr>"

lemma demo_record_facts:
  "chain_of demo_routes (nullish (str (wb_chain_id demo_record)) (wr_chain_id demo_routes)) = Some demo_unread"
  "map_option lower (str (wb_wallet demo_record)) = Some ''w''" "re_is_address (wr_recovery demo_routes) ''w''"
  "str (wb_credential_id demo_record) = Some ''k''" "str (wb_challenge_id demo_record) = Some ''c''"
  "usable_assertion (wb_assertion demo_record) = Some demo_assertion"
  "getHostedRecoveryChallenge (hosted_challenges demo_record_db) ''c'' = Some (demo_challenge ''c'' Hc_Record)"
  "normalizeHex32 (str (wb_owner_qx demo_record)) = Some demo_key" "normalizeHex32 (str (wb_owner_qy demo_record)) = Some demo_key"
  "owner_verifies demo_routes demo_assertion (hch_challenge (demo_challenge ''c'' Hc_Record)) (demo_key, demo_key)"
proof -
  show "owner_verifies demo_routes demo_assertion (hch_challenge (demo_challenge ''c'' Hc_Record)) (demo_key, demo_key)"
    using demo_assertion_ok by (simp add: owner_verifies_def demo_routes_def demo_env_def demo_options_def demo_challenge_def)
  show "usable_assertion (wb_assertion demo_record) = Some demo_assertion"
    by (simp add: usable_assertion_def demo_record_def) (simp add: demo_assertion_def bytes_to_hex_def demo_client_json_def)
qed (simp_all add: demo_routes_def demo_record_def demo_record_db_def chain_of_def str_def or_null_def demo_env_def
  getHostedRecoveryChallenge_def demo_challenge_def)

lemma unread_owners_restore_first_key_witness:
  "\<exists>account d. fst (recoverWalletAccount demo_routes demo_record_db demo_record 1) = Inr (account, Some d) \<and>
     (wdv_owner_qx d, wdv_owner_qy d) = (demo_key, demo_key)"
  by (rule unread_owners_restore_first_key [OF demo_record_facts(1) _ _ _ demo_record_facts(2-7) _ _ _ demo_record_facts(8,9), where f = "''f''" and im = "''m''"])
    (use demo_record_facts(10) in \<open>simp_all add: demo_unread_def demo_challenge_def demo_routes_def\<close>)


end
