(* ===== verification/Transfers.thy ===== *)
theory Transfers
  imports UserOpFee RowOrder
begin

text \<open>
  The ledger of transfers a wallet shows: tables \<open>wallet_transfers\<close> and \<open>wallet_transfer_sync\<close> of
  commerce/server/db.ts, the transfers read from operations and proposals
  (commerce/shared/wallet-transfers.ts), the stable tokens of a chain
  (commerce/shared/evm-stables.ts), and the explorer import
  (commerce/server/wallet-transfer-sync.ts). Besides its key the table has a unique index on
  chain, transaction and log index.
\<close>

section \<open>The table\<close>

datatype transfer_direction = Transfer_In | Transfer_Out

datatype transfer_source = By_Userop | By_Proposal | By_Explorer

record transfer_draft =
  tf_wallet :: address
  tf_chain_id :: string
  tf_direction :: transfer_direction
  tf_token :: address
  tf_symbol :: string
  tf_decimals :: nat
  tf_amount :: string
  tf_counterparty :: address
  tf_tx_hash :: string
  tf_log_index :: int
  tf_block :: int
  tf_source :: transfer_source
  tf_user_op_hash :: "string option"
  tf_proposal_id :: "string option"

record transfer = transfer_draft +
  tf_id :: string
  tf_created_at :: timestamp

text \<open>What identifies a transfer, and what the index is on. Neither contains the wallet.\<close>

definition semantic_key :: "'z transfer_draft_scheme \<Rightarrow> string \<times> string \<times> address \<times> string \<times> transfer_direction \<times> address" where
  "semantic_key r = (tf_chain_id r, tf_tx_hash r, tf_token r, tf_amount r, tf_direction r, tf_counterparty r)"

definition log_key :: "'z transfer_draft_scheme \<Rightarrow> string \<times> string \<times> int" where
  "log_key r = (tf_chain_id r, tf_tx_hash r, tf_log_index r)"

definition lower_draft :: "'z transfer_draft_scheme \<Rightarrow> 'z transfer_draft_scheme" where
  "lower_draft d =
     d\<lparr>tf_wallet := lower (tf_wallet d), tf_tx_hash := lower (tf_tx_hash d), tf_token := lower (tf_token d),
       tf_counterparty := lower (tf_counterparty d)\<rparr>"

definition merged_transfer :: "transfer_draft \<Rightarrow> transfer \<Rightarrow> transfer" where
  "merged_transfer d r =
     r\<lparr>tf_log_index := max (tf_log_index d) (tf_log_index r), tf_block := max (tf_block d) (tf_block r),
       tf_source := (if tf_source r = By_Userop \<or> tf_source r = By_Proposal then tf_source r else tf_source d),
       tf_user_op_hash := coalesce (tf_user_op_hash r) (tf_user_op_hash d),
       tf_proposal_id := coalesce (tf_proposal_id r) (tf_proposal_id d)\<rparr>"

definition matching_transfer :: "transfer list \<Rightarrow> transfer_draft \<Rightarrow> transfer option" where
  "matching_transfer t d =
     (case find_by semantic_key (semantic_key d) t of
        Some r \<Rightarrow> Some r
      | None \<Rightarrow> find_by log_key (log_key d) t)"

definition new_transfer :: "transfer_draft \<Rightarrow> string \<Rightarrow> timestamp \<Rightarrow> transfer" where
  "new_transfer d i now = transfer_draft.extend d \<lparr>tf_id = i, tf_created_at = now\<rparr>"

text \<open>
  \<open>i\<close> is the \<open>randomUUID()\<close>, \<open>now\<close> the given time or the clock; \<open>None\<close> is a violated constraint: the
  key, or the index when the merged log index is another row's.
\<close>

definition upsertWalletTransfer :: "transfer list \<Rightarrow> transfer_draft \<Rightarrow> string \<Rightarrow> timestamp \<Rightarrow> transfer list option" where
  "upsertWalletTransfer t d0 i now =
     (let d = lower_draft d0 in
      case matching_transfer t d of
        Some r \<Rightarrow>
          (let r' = merged_transfer d r in
           if list_ex (\<lambda>x. tf_id x \<noteq> tf_id r \<and> log_key x = log_key r') t then None
           else Some (update_where (\<lambda>x. tf_id x = tf_id r) (merged_transfer d) t))
      | None \<Rightarrow> insert_unique tf_id (new_transfer d i now) t)"

definition getWalletTransfer :: "transfer list \<Rightarrow> string \<Rightarrow> transfer option" where
  "getWalletTransfer t i = find_by tf_id i t"

text \<open>The list order: the later block first, then the higher log index, then the later time.\<close>

definition listWalletTransfers :: "transfer list \<Rightarrow> address \<Rightarrow> string option \<Rightarrow> nat \<Rightarrow> transfer list" where
  "listWalletTransfers t w chain limit =
     take limit (order_desc tf_block (order_desc tf_log_index (order_desc tf_created_at
       (filter (\<lambda>r. tf_wallet r = lower w \<and> (\<not> truthy chain \<or> chain = Some (tf_chain_id r))) t))))"

record transfer_cursor =
  cu_wallet :: address
  cu_chain_id :: string
  cu_last_block :: int
  cu_last_log :: int
  cu_fetched_at :: timestamp

definition cursor_id :: "transfer_cursor \<Rightarrow> address \<times> string" where
  "cursor_id c = (cu_wallet c, cu_chain_id c)"

definition getWalletTransferSync :: "transfer_cursor list \<Rightarrow> address \<Rightarrow> string \<Rightarrow> transfer_cursor option" where
  "getWalletTransferSync t w c = find_by cursor_id (lower w, c) t"

definition upsertWalletTransferSync :: "transfer_cursor list \<Rightarrow> address \<Rightarrow> string \<Rightarrow> int \<Rightarrow> int \<Rightarrow> timestamp \<Rightarrow> transfer_cursor list" where
  "upsertWalletTransferSync t w c b l fetched =
     upsert cursor_id \<lparr>cu_wallet = lower w, cu_chain_id = c, cu_last_block = b, cu_last_log = l, cu_fetched_at = fetched\<rparr>
       (\<lambda>r. r\<lparr>cu_last_block := b, cu_last_log := l, cu_fetched_at := fetched\<rparr>) t"

section \<open>Stable tokens\<close>

record stable_token =
  sk_symbol :: string
  sk_address :: address
  sk_decimals :: nat

record chain_entry =
  ch_chain_id :: string
  ch_fee_token :: "string option"
  ch_fee_symbol :: string
  ch_fee_decimals :: nat

definition EVM_KNOWN_STABLE_ADDRESSES :: "string \<Rightarrow> string \<Rightarrow> address option" where
  "EVM_KNOWN_STABLE_ADDRESSES chain symbol =
     (if chain = ''1'' \<and> symbol = ''USDC'' then Some ''0xA0b86991c6218b36c1d19D4a2e9Eb0cE3606eB48''
      else if chain = ''8453'' \<and> symbol = ''USDC'' then Some ''0x833589fCD6eDb6E08f4c7C32D4f71b54bdA02913''
      else if chain = ''56'' \<and> symbol = ''USDC'' then Some ''0x8AC76a51cc950d9822D68b83fE1Ad97B32Cd580d''
      else if chain = ''56'' \<and> symbol = ''USDT'' then Some ''0x55d398326f99059fF775485246999027B3197955''
      else None)"

definition resolveEvmStableTokenAddress :: "string \<Rightarrow> string \<Rightarrow> (string \<times> string option) option \<Rightarrow> address option" where
  "resolveEvmStableTokenAddress chain token fee =
     (let symbol = upper (trim token) in
      case fee of
        Some (s, a) \<Rightarrow>
          if truthy a \<and> upper (trim s) = symbol then a else EVM_KNOWN_STABLE_ADDRESSES chain symbol
      | None \<Rightarrow> EVM_KNOWN_STABLE_ADDRESSES chain symbol)"

definition push_stable ::
    "string \<Rightarrow> string option \<Rightarrow> nat \<Rightarrow> stable_token list \<times> string list \<Rightarrow> stable_token list \<times> string list" where
  "push_stable symbol a decimals acc =
     (if \<not> truthy a \<or> upper symbol \<in> set (snd acc) then acc
      else (fst acc @ [\<lparr>sk_symbol = upper symbol, sk_address = the a, sk_decimals = decimals\<rparr>], upper symbol # snd acc))"

definition walletStableTokensForChain :: "chain_entry \<Rightarrow> stable_token list" where
  "walletStableTokensForChain ch =
     fst (fold (\<lambda>s. push_stable s (resolveEvmStableTokenAddress (ch_chain_id ch) s (Some (ch_fee_symbol ch, ch_fee_token ch))) 6)
       [''USDC'', ''USDT''] (push_stable (ch_fee_symbol ch) (ch_fee_token ch) (ch_fee_decimals ch) ([], [])))"

definition stablesForChain :: "chain_entry \<Rightarrow> stable_token list" where
  "stablesForChain ch =
     (let extras = walletStableTokensForChain ch in
      if truthy (ch_fee_token ch) \<and> \<not> list_ex (\<lambda>t. lower (sk_address t) = lower (the (ch_fee_token ch))) extras
      then \<lparr>sk_symbol = ch_fee_symbol ch, sk_address = the (ch_fee_token ch), sk_decimals = ch_fee_decimals ch\<rparr> # extras
      else extras)"

text \<open>\<open>tokenMap\<close>: the last token of an address wins.\<close>

definition tokenMap :: "stable_token list \<Rightarrow> address \<Rightarrow> stable_token option" where
  "tokenMap ts a = map_of (rev (map (\<lambda>t. (lower (sk_address t), t)) ts)) a"

section \<open>Transfers of operations and proposals\<close>

definition isBundlerFeeTransfer :: "address \<Rightarrow> address \<Rightarrow> string option \<Rightarrow> string option \<Rightarrow> bool" where
  "isBundlerFeeTransfer token recipient fee_token beneficiary =
     (truthy fee_token \<and> truthy beneficiary \<and> lower token = lower (the fee_token) \<and> lower recipient = lower (the beneficiary))"

text \<open>\<open>None\<close>: an address \<open>getAddress\<close> refuses.\<close>

definition draftOut ::
    "abi_env \<Rightarrow> address \<Rightarrow> string \<Rightarrow> stable_token \<Rightarrow> address \<Rightarrow> int \<Rightarrow> string \<Rightarrow> nat \<Rightarrow> transfer_source \<Rightarrow> string option \<Rightarrow>
     string option \<Rightarrow> transfer_draft option" where
  "draftOut env wallet chain token counterparty amount tx_hash n source op_hash proposal =
     (case (ab_address env wallet, ab_address env (sk_address token), ab_address env counterparty) of
        (Some w, Some tok, Some cp) \<Rightarrow>
          Some \<lparr>tf_wallet = lower w, tf_chain_id = chain, tf_direction = Transfer_Out, tf_token = lower tok,
            tf_symbol = sk_symbol token, tf_decimals = sk_decimals token, tf_amount = int_text amount, tf_counterparty = lower cp,
            tf_tx_hash = lower tx_hash, tf_log_index = int n, tf_block = 0, tf_source = source,
            tf_user_op_hash = map_option lower op_hash, tf_proposal_id = proposal\<rparr>
      | _ \<Rightarrow> None)"

text \<open>The calls that are transfers of a stable token and not the bundler's fee.\<close>

definition paid_out :: "abi_env \<Rightarrow> stable_token list \<Rightarrow> string option \<Rightarrow> string option \<Rightarrow> address \<Rightarrow> string \<Rightarrow> (stable_token \<times> address \<times> int) option" where
  "paid_out env stables fee_token beneficiary target data =
     (case (tokenMap stables (lower target), decodeErc20TransferCall env data) of
        (Some token, Some (recipient, amount)) \<Rightarrow>
          if isBundlerFeeTransfer target recipient fee_token beneficiary then None else Some (token, recipient, amount)
      | _ \<Rightarrow> None)"

definition op_payments ::
    "abi_env \<Rightarrow> packed_user_op \<Rightarrow> stable_token list \<Rightarrow> string option \<Rightarrow> string option \<Rightarrow> (stable_token \<times> address \<times> int) list" where
  "op_payments env op stables fee_token beneficiary =
     List.map_filter (\<lambda>c. paid_out env stables fee_token beneficiary (bc_target c) (bc_data c)) (decodeExecuteCalls env (puo_call_data op))"

definition outgoingTransfersFromUserOp ::
    "abi_env \<Rightarrow> address \<Rightarrow> string \<Rightarrow> string \<Rightarrow> string \<Rightarrow> packed_user_op \<Rightarrow> stable_token list \<Rightarrow> string option \<Rightarrow> string option \<Rightarrow>
     transfer_draft list option" where
  "outgoingTransfersFromUserOp env wallet chain tx_hash op_hash op stables fee_token beneficiary =
     (let sent = op_payments env op stables fee_token beneficiary in
      those (map (\<lambda>(n, token, recipient, amount).
                    draftOut env wallet chain token recipient amount tx_hash n By_Userop (Some op_hash) None)
               (zip [0..<length sent] sent)))"

text \<open>The inner \<open>None\<close> is a \<open>null\<close>: nothing to record.\<close>

definition outgoingTransferFromProposal ::
    "abi_env \<Rightarrow> address \<Rightarrow> string \<Rightarrow> string \<Rightarrow> string \<Rightarrow> address \<Rightarrow> string \<Rightarrow> stable_token list \<Rightarrow> string option \<Rightarrow> string option \<Rightarrow>
     transfer_draft option option" where
  "outgoingTransferFromProposal env wallet chain tx_hash proposal target data stables fee_token beneficiary =
     (case paid_out env stables fee_token beneficiary target data of
        None \<Rightarrow> Some None
      | Some (token, recipient, amount) \<Rightarrow>
          map_option Some (draftOut env wallet chain token recipient amount tx_hash 0 By_Proposal None (Some proposal)))"

text \<open>The chains of the configuration, its own fee token, and the bundlers' beneficiary.\<close>

record transfer_config =
  tc_chains :: "chain_entry list"
  tc_fee_token :: "string option"
  tc_fee_symbol :: string
  tc_fee_decimals :: nat
  tc_beneficiary :: "string option"

definition chainFor :: "transfer_config \<Rightarrow> string \<Rightarrow> chain_entry" where
  "chainFor conf c =
     (case find (\<lambda>ch. ch_chain_id ch = c) (tc_chains conf) of
        Some ch \<Rightarrow> ch
      | None \<Rightarrow> \<lparr>ch_chain_id = c, ch_fee_token = tc_fee_token conf, ch_fee_symbol = tc_fee_symbol conf,
                 ch_fee_decimals = tc_fee_decimals conf\<rparr>)"

text \<open>Drafts stored one after the other; \<open>ids\<close> are the random keys, one for each draft. A failure keeps what was stored before it.\<close>

fun store_transfers :: "transfer list \<Rightarrow> transfer_draft list \<Rightarrow> string list \<Rightarrow> timestamp \<Rightarrow> bool \<times> transfer list" where
  "store_transfers t (d # ds) (i # ids) now =
     (case upsertWalletTransfer t d i now of
        None \<Rightarrow> (False, t)
      | Some t' \<Rightarrow> store_transfers t' ds ids now)"
| "store_transfers t _ _ now = (True, t)"

definition recordIncludedUserOpTransfers ::
    "abi_env \<Rightarrow> transfer_config \<Rightarrow> transfer list \<Rightarrow> user_op \<Rightarrow> string list \<Rightarrow> timestamp \<Rightarrow> bool \<times> transfer list" where
  "recordIncludedUserOpTransfers env conf t uo ids now =
     (if uo_status uo \<noteq> Uop_Included \<or> \<not> truthy (uo_tx_hash uo) then (True, t)
      else (let ch = chainFor conf (uo_chain_id uo) in
            case outgoingTransfersFromUserOp env (uo_wallet_address uo) (uo_chain_id uo) (the (uo_tx_hash uo)) (uo_hash uo) (uo_user_op uo)
                   (stablesForChain ch) (coalesce (ch_fee_token ch) (tc_fee_token conf)) (tc_beneficiary conf) of
              None \<Rightarrow> (False, t)
            | Some drafts \<Rightarrow> store_transfers t drafts ids now))"

section \<open>Import from the explorer\<close>

text \<open>
  A row of the explorer's answer. A missing field is \<open>None\<close>; numbers are given as \<open>Number\<close> reads
  them.
\<close>

record explorer_row =
  er_block :: "int option"
  er_time :: "int option"
  er_hash :: "string option"
  er_from :: "string option"
  er_to :: "string option"
  er_contract :: "string option"
  er_value :: "string option"
  er_log :: "int option"

definition draftFromExplorer ::
    "abi_env \<Rightarrow> explorer_row \<Rightarrow> address \<Rightarrow> string \<Rightarrow> (address \<Rightarrow> stable_token option) \<Rightarrow> string option \<Rightarrow> string option \<Rightarrow>
     timestamp \<Rightarrow> (transfer_draft \<times> timestamp) option" where
  "draftFromExplorer env row wallet chain stables fee_token beneficiary now =
     (let hash = lower (nullish (er_hash row) []); sender = lower (nullish (er_from row) []); to = lower (nullish (er_to row) []);
          contract = lower (nullish (er_contract row) []); inbound = (to = wallet); outbound = (sender = wallet) in
      if \<not> starts_with hash ''0x'' \<or> \<not> starts_with contract ''0x'' then None
      else (case stables contract of
        None \<Rightarrow> None
      | Some token \<Rightarrow>
          if \<not> inbound \<and> \<not> outbound then None
          else if outbound \<and> truthy beneficiary \<and> truthy fee_token \<and> Some to = beneficiary \<and> Some contract = fee_token then None
          else (case (ab_address env contract, ab_address env (if inbound then sender else to)) of
            (Some tok, Some cp) \<Rightarrow>
              Some (\<lparr>tf_wallet = wallet, tf_chain_id = chain, tf_direction = (if inbound then Transfer_In else Transfer_Out),
                 tf_token = lower tok, tf_symbol = sk_symbol token, tf_decimals = sk_decimals token,
                 tf_amount = nullish (er_value row) ''0'', tf_counterparty = lower cp, tf_tx_hash = hash,
                 tf_log_index = nullish (er_log row) 0, tf_block = nullish (er_block row) 0, tf_source = By_Explorer,
                 tf_user_op_hash = None, tf_proposal_id = None\<rparr>,
                (let ts = nullish (er_time row) 0 in if ts > 0 then ts * 1000 else now))
          | _ \<Rightarrow> None)))"

definition PAGE_SIZE :: nat where
  "PAGE_SIZE = 100"

definition PAGES_PER_TICK :: nat where
  "PAGES_PER_TICK = 3"

text \<open>
  The state of a pass: the table, the position \<open>(lastBlock, lastLog)\<close> and whether it advanced. A
  row is given with the random key its transfer gets; \<open>None\<close> is a constraint failure, which ends
  the pass without storing the cursor.
\<close>

type_synonym sync_pass = "transfer list \<times> (int \<times> int) \<times> bool"

definition sync_row ::
    "(explorer_row \<Rightarrow> (transfer_draft \<times> timestamp) option) \<Rightarrow> explorer_row \<times> string \<Rightarrow> sync_pass \<Rightarrow> sync_pass option" where
  "sync_row draft_of row st =
     (let (t, (b, l), adv) = st;
          stored = (case draft_of (fst row) of
                      None \<Rightarrow> Some (t, adv)
                    | Some (d, at_time) \<Rightarrow> map_option (\<lambda>t'. (t', True)) (upsertWalletTransfer t d (snd row) at_time));
          block = nullish (er_block (fst row)) 0; k = nullish (er_log (fst row)) 0 in
      case stored of
        None \<Rightarrow> None
      | Some (t', adv') \<Rightarrow>
          Some (if block > b \<or> block = b \<and> k > l then (t', (block, k), True) else (t', (b, l), adv')))"

fun sync_rows ::
    "(explorer_row \<Rightarrow> (transfer_draft \<times> timestamp) option) \<Rightarrow> (explorer_row \<times> string) list \<Rightarrow> sync_pass \<Rightarrow> transfer list + sync_pass" where
  "sync_rows draft_of [] st = Inr st"
| "sync_rows draft_of (row # rows) st =
     (case sync_row draft_of row st of None \<Rightarrow> Inl (fst st) | Some st' \<Rightarrow> sync_rows draft_of rows st')"

datatype explorer_reply = Explorer_Limited | Explorer_Down | Explorer_Rows "(explorer_row \<times> string) list"

datatype page_end = Pass_Limited | Pass_Failed | Pass_Done "int \<times> int" bool

text \<open>
  \<open>pages\<close> answers a page number; \<open>Explorer_Limited\<close> stands for status 429, any status from 400 on,
  and the rate-limit message, \<open>Explorer_Down\<close> for a request that throws. The fuel is the number of pages left.
\<close>

fun sync_pages ::
    "(explorer_row \<Rightarrow> (transfer_draft \<times> timestamp) option) \<Rightarrow> (nat \<Rightarrow> explorer_reply) \<Rightarrow> nat \<Rightarrow> nat \<Rightarrow> sync_pass \<Rightarrow>
     transfer list \<times> page_end" where
  "sync_pages draft_of pages page 0 (t, pos, adv) = (t, Pass_Done pos adv)"
| "sync_pages draft_of pages page (Suc left) (t, pos, adv) =
     (case pages page of
        Explorer_Limited \<Rightarrow> (t, Pass_Limited)
      | Explorer_Down \<Rightarrow> (t, Pass_Failed)
      | Explorer_Rows rows \<Rightarrow>
          (case sync_rows draft_of rows (t, pos, adv) of
             Inl t' \<Rightarrow> (t', Pass_Failed)
           | Inr (t', pos', adv') \<Rightarrow>
               if length rows < PAGE_SIZE then (t', Pass_Done pos' adv')
               else sync_pages draft_of pages (page + 1) left (t', pos', adv')))"

definition touchSync :: "transfer_cursor list \<Rightarrow> address \<Rightarrow> string \<Rightarrow> transfer_cursor option \<Rightarrow> timestamp \<Rightarrow> transfer_cursor list" where
  "touchSync cs wallet chain cursor now =
     upsertWalletTransferSync cs wallet chain (nullish (map_option cu_last_block cursor) 0) (nullish (map_option cu_last_log cursor) 0) now"

text \<open>\<open>explorer start page\<close> is the answer for the wallet; \<open>wallet\<close> is an address \<open>getAddress\<close> accepts.\<close>

definition syncWalletTransfersFromExplorer ::
    "abi_env \<Rightarrow> transfer_config \<Rightarrow> bool \<Rightarrow> transfer list \<times> transfer_cursor list \<Rightarrow> address \<Rightarrow> string \<Rightarrow>
     (int \<Rightarrow> nat \<Rightarrow> explorer_reply) \<Rightarrow> timestamp \<Rightarrow> transfer list \<times> transfer_cursor list" where
  "syncWalletTransfersFromExplorer env conf has_key st wallet chain explorer now =
     (let (t, cs) = st; ch = chainFor conf chain; stables = stablesForChain ch;
          w = lower (nullish (ab_address env wallet) wallet); cursor = getWalletTransferSync cs w chain in
      if \<not> has_key then (t, cs)
      else if stables = [] then (t, touchSync cs wallet chain (getWalletTransferSync cs wallet chain) now)
      else
        (let start = nullish (map_option cu_last_block cursor) 0;
             draft_of = (\<lambda>row. draftFromExplorer env row w chain (tokenMap stables)
               (map_option lower (coalesce (ch_fee_token ch) (tc_fee_token conf))) (map_option lower (tc_beneficiary conf)) now) in
         case sync_pages draft_of (explorer start) 1 PAGES_PER_TICK (t, (start, nullish (map_option cu_last_log cursor) 0), False) of
           (t', Pass_Limited) \<Rightarrow> (t', touchSync cs wallet chain cursor now)
         | (t', Pass_Failed) \<Rightarrow> (t', cs)
         | (t', Pass_Done (b, l) adv) \<Rightarrow>
             (t', upsertWalletTransferSync cs w chain
                    (if adv then b else nullish (map_option cu_last_block cursor) 0)
                    (if adv then l else nullish (map_option cu_last_log cursor) 0) now)))"

text \<open>Whether a request to list a wallet's transfers starts a pass: not within \<open>min_ms\<close> of the last one.\<close>

definition sync_due :: "transfer_cursor list \<Rightarrow> address \<Rightarrow> string \<Rightarrow> int \<Rightarrow> timestamp \<Rightarrow> bool" where
  "sync_due cs wallet chain min_ms now =
     (case getWalletTransferSync cs wallet chain of None \<Rightarrow> True | Some c \<Rightarrow> \<not> now - cu_fetched_at c < min_ms)"

end
