(* ===== verification/TransferProps.thy ===== *)
theory TransferProps
  imports Transfers
begin

text \<open>The properties of the transfer ledger and of its import from the explorer.\<close>

section \<open>Keys\<close>

definition transfers_ok :: "transfer list \<Rightarrow> bool" where
  "transfers_ok t \<longleftrightarrow> unique_on tf_id t \<and> unique_on semantic_key t \<and> unique_on log_key t"

lemma merged_keys [simp]:
  "tf_id (merged_transfer d r) = tf_id r" "semantic_key (merged_transfer d r) = semantic_key r"
  "tf_wallet (merged_transfer d r) = tf_wallet r"
  by (simp_all add: merged_transfer_def semantic_key_def)

lemma new_transfer_simps [simp]:
  "tf_id (new_transfer d i now) = i" "semantic_key (new_transfer d i now) = semantic_key d" "log_key (new_transfer d i now) = log_key d"
  "tf_wallet (new_transfer d i now) = tf_wallet d" "tf_block (new_transfer d i now) = tf_block d" "tf_created_at (new_transfer d i now) = now"
  "tf_tx_hash (new_transfer d i now) = tf_tx_hash d" "tf_chain_id (new_transfer d i now) = tf_chain_id d"
  "transfer_draft.truncate (new_transfer d i now) = d"
  by (simp_all add: new_transfer_def semantic_key_def log_key_def transfer_draft.defs)

lemma unique_update_one:
  assumes "unique_on ident t" and "unique_on key t" and "r \<in> set t"
    and "\<And>x. x \<in> set t \<Longrightarrow> ident x \<noteq> ident r \<Longrightarrow> key x \<noteq> key (f r)"
  shows "unique_on key (update_where (\<lambda>x. ident x = ident r) f t)"
proof -
  have one: "x = r" if "x \<in> set t" "ident x = ident r" for x
    using assms(1,3) that by (auto simp: unique_on_def distinct_map inj_on_def)
  have inj: "x = y" if "x \<in> set t" "y \<in> set t" "key x = key y" for x y
    using assms(2) that by (auto simp: unique_on_def distinct_map inj_on_def)
  have "inj_on (\<lambda>x. key (if ident x = ident r then f x else x)) (set t)"
  proof (rule inj_onI)
    fix x y
    assume t: "x \<in> set t" "y \<in> set t" and eq: "key (if ident x = ident r then f x else x) = key (if ident y = ident r then f y else y)"
    consider "ident x = ident r" "ident y = ident r" | "ident x = ident r" "ident y \<noteq> ident r"
      | "ident x \<noteq> ident r" "ident y = ident r" | "ident x \<noteq> ident r" "ident y \<noteq> ident r" by blast
    then show "x = y"
    proof cases
      case 1
      then show ?thesis using one t by blast
    next
      case 2
      with eq one [OF t(1)] have "key y = key (f r)" by simp
      then show ?thesis using assms(4) [OF t(2) 2(2)] by blast
    next
      case 3
      with eq one [OF t(2)] have "key x = key (f r)" by simp
      then show ?thesis using assms(4) [OF t(1) 3(1)] by blast
    next
      case 4
      with eq inj [OF t] show ?thesis by simp
    qed
  qed
  with assms(2) show ?thesis
    by (simp add: unique_on_def update_where_def distinct_map comp_def)
qed

lemma matching_transferD:
  "matching_transfer t d = Some r \<Longrightarrow> r \<in> set t \<and> (semantic_key r = semantic_key d \<or> log_key r = log_key d)"
  by (auto simp: matching_transfer_def dest!: find_by_SomeD split: option.splits)

text \<open>The three outcomes of an upsert.\<close>

lemma upsert_transfer_cases:
  assumes "upsertWalletTransfer t d i now = Some t'"
  obtains (merged) r where "matching_transfer t (lower_draft d) = Some r" "r \<in> set t"
      "t' = update_where (\<lambda>x. tf_id x = tf_id r) (merged_transfer (lower_draft d)) t"
      "\<forall>x \<in> set t. tf_id x \<noteq> tf_id r \<longrightarrow> log_key x \<noteq> log_key (merged_transfer (lower_draft d) r)"
  | (inserted) "matching_transfer t (lower_draft d) = None" "find_by tf_id i t = None" "t' = t @ [new_transfer (lower_draft d) i now]"
proof (cases "matching_transfer t (lower_draft d)")
  case None
  with assms inserted show thesis
    by (auto simp: upsertWalletTransfer_def Let_def insert_unique_def split: if_splits)
next
  case (Some r)
  with assms merged matching_transferD [OF Some] show thesis
    by (auto simp: upsertWalletTransfer_def Let_def list_ex_iff split: if_splits)
qed

lemma upsert_transfers_ok:
  assumes "transfers_ok t" and "upsertWalletTransfer t d i now = Some t'"
  shows "transfers_ok t'"
  using assms(2)
proof (cases rule: upsert_transfer_cases)
  case (merged r)
  have "unique_on log_key t'"
    unfolding merged(3) using assms(1) merged(2,4) by (intro unique_update_one) (auto simp: transfers_ok_def)
  with assms(1) merged(3) show ?thesis
    by (simp add: transfers_ok_def unique_update_where)
next
  case inserted
  then have "find_by semantic_key (semantic_key (lower_draft d)) t = None" "find_by log_key (log_key (lower_draft d)) t = None"
    by (simp_all add: matching_transfer_def split: option.splits)
  with inserted assms(1) show ?thesis
    by (simp add: transfers_ok_def unique_snoc)
qed

lemma store_transfers_ok: "transfers_ok t \<Longrightarrow> transfers_ok (snd (store_transfers t ds ids now))"
  by (induction t ds ids now rule: store_transfers.induct) (auto split: option.split dest: upsert_transfers_ok)

section \<open>Rows only gain information\<close>

definition transfer_later :: "transfer \<Rightarrow> transfer \<Rightarrow> bool" where
  "transfer_later r s \<longleftrightarrow>
     tf_id s = tf_id r \<and> tf_wallet s = tf_wallet r \<and> semantic_key s = semantic_key r \<and> tf_symbol s = tf_symbol r \<and>
     tf_decimals s = tf_decimals r \<and> tf_created_at s = tf_created_at r \<and> tf_log_index r \<le> tf_log_index s \<and> tf_block r \<le> tf_block s \<and>
     (tf_source r \<noteq> By_Explorer \<longrightarrow> tf_source s = tf_source r) \<and>
     (\<forall>h. tf_user_op_hash r = Some h \<longrightarrow> tf_user_op_hash s = Some h) \<and> (\<forall>p. tf_proposal_id r = Some p \<longrightarrow> tf_proposal_id s = Some p)"

interpretation transfer_rows: row_order tf_id transfer_later
  by unfold_locales (auto simp: transfer_later_def)

lemma merged_later: "transfer_later r (merged_transfer d r)"
  by (cases "tf_source r") (simp_all add: transfer_later_def, simp_all add: merged_transfer_def)

lemma upsert_grows: "upsertWalletTransfer t d i now = Some t' \<Longrightarrow> transfer_rows.grows t t'"
proof (erule upsert_transfer_cases)
  fix r
  assume "t' = update_where (\<lambda>x. tf_id x = tf_id r) (merged_transfer (lower_draft d)) t"
  then show ?thesis by (simp add: transfer_rows.grows_update merged_later)
next
  assume "find_by tf_id i t = None" "t' = t @ [new_transfer (lower_draft d) i now]"
  then have "insert_unique tf_id (new_transfer (lower_draft d) i now) t = Some t'" by (simp add: insert_unique_def)
  then show ?thesis by (rule transfer_rows.grows_insert)
qed

text \<open>Everything that writes the ledger is a sequence of upserts.\<close>

definition upserted :: "transfer list \<Rightarrow> transfer list \<Rightarrow> bool" where
  "upserted = (\<lambda>t t'. \<exists>d i now. upsertWalletTransfer t d i now = Some t')\<^sup>*\<^sup>*"

lemma upserted_refl [simp]: "upserted t t"
  by (simp add: upserted_def)

lemma upserted_step: "upsertWalletTransfer t d i now = Some t' \<Longrightarrow> upserted t' t'' \<Longrightarrow> upserted t t''"
  unfolding upserted_def by (rule converse_rtranclp_into_rtranclp) blast+

lemma upserted_one: "upsertWalletTransfer t d i now = Some t' \<Longrightarrow> upserted t t'"
  unfolding upserted_def by (rule r_into_rtranclp) blast

lemma upserted_trans: "upserted t t' \<Longrightarrow> upserted t' t'' \<Longrightarrow> upserted t t''"
  unfolding upserted_def by (rule rtranclp_trans)

lemma upserted_facts:
  assumes "upserted t t'"
  shows "transfers_ok t \<Longrightarrow> transfers_ok t'" "transfer_rows.grows t t'"
  using assms unfolding upserted_def
  by (induction rule: rtranclp_induct) (auto intro: upsert_transfers_ok transfer_rows.grows_trans [OF _ upsert_grows])

lemma store_upserted: "upserted t (snd (store_transfers t ds ids now))"
  by (induction t ds ids now rule: store_transfers.induct) (auto split: option.split intro: upserted_step)

lemma included_upserted: "upserted t (snd (recordIncludedUserOpTransfers env conf t uo ids now))"
  by (simp add: recordIncludedUserOpTransfers_def Let_def store_upserted split: option.split)

lemma sync_row_upserted:
  assumes "sync_row f row st = Some st'"
  shows "upserted (fst st) (fst st')"
proof (cases "f (fst row)")
  case None
  with assms show ?thesis by (auto simp: sync_row_def Let_def split_beta split: if_splits)
next
  case (Some x)
  then obtain t' where "upsertWalletTransfer (fst st) (fst x) (snd row) (snd x) = Some t'" "fst st' = t'"
    using assms by (cases x) (auto simp: sync_row_def Let_def split_beta split: option.splits if_splits)
  then show ?thesis using upserted_one by blast
qed

lemma sync_rows_upserted:
  "upserted (fst st) (case sync_rows f rows st of Inl t' \<Rightarrow> t' | Inr st' \<Rightarrow> fst st')"
  by (induction f rows st rule: sync_rows.induct) (auto split: option.split sum.split intro: upserted_trans dest: sync_row_upserted)

lemma sync_pages_upserted: "upserted (fst st) (fst (sync_pages f pages page left st))"
proof (induction f pages page left st rule: sync_pages.induct)
  case (2 f pages page left t pos adv)
  show ?case
  proof (cases "pages page")
    case (Explorer_Rows rows)
    with 2 sync_rows_upserted [of "(t, pos, adv)" f rows] show ?thesis
      by (cases "sync_rows f rows (t, pos, adv)") (auto intro: upserted_trans)
  qed simp_all
qed simp

lemma sync_upserted: "upserted (fst st) (fst (syncWalletTransfersFromExplorer env conf has_key st wallet chain explorer now))"
proof -
  have "upserted t (fst (sync_pages f pages page left (t, pos, adv)))" for t f pages page left pos adv
    using sync_pages_upserted [of "(t, pos, adv)"] by simp
  then show ?thesis
    by (cases st) (auto simp: syncWalletTransfersFromExplorer_def Let_def split_beta split: page_end.split)
qed

datatype ledger_op =
    Included user_op "string list" timestamp
  | Imported bool address string "int \<Rightarrow> nat \<Rightarrow> explorer_reply" timestamp

fun ledger_run ::
    "abi_env \<Rightarrow> transfer_config \<Rightarrow> transfer list \<times> transfer_cursor list \<Rightarrow> ledger_op list \<Rightarrow> transfer list \<times> transfer_cursor list" where
  "ledger_run env conf st [] = st"
| "ledger_run env conf st (Included uo ids now # ops) =
     ledger_run env conf (snd (recordIncludedUserOpTransfers env conf (fst st) uo ids now), snd st) ops"
| "ledger_run env conf st (Imported has_key w c explorer now # ops) =
     ledger_run env conf (syncWalletTransfersFromExplorer env conf has_key st w c explorer now) ops"

lemma ledger_run_upserted: "upserted (fst st) (fst (ledger_run env conf st ops))"
proof (induction env conf st ops rule: ledger_run.induct)
  case (2 env conf st uo ids now ops)
  then show ?case using upserted_trans [OF included_upserted] by simp
next
  case (3 env conf st has_key w c explorer now ops)
  then show ?case using upserted_trans [OF sync_upserted] by simp
qed simp


section \<open>Two operations of one bundle\<close>

definition only_transfer :: "abi_env \<Rightarrow> transfer_config \<Rightarrow> user_op \<Rightarrow> transfer_draft \<Rightarrow> bool" where
  "only_transfer env conf uo d \<longleftrightarrow>
     uo_status uo = Uop_Included \<and> truthy (uo_tx_hash uo) \<and>
     (let ch = chainFor conf (uo_chain_id uo) in
      outgoingTransfersFromUserOp env (uo_wallet_address uo) (uo_chain_id uo) (the (uo_tx_hash uo)) (uo_hash uo) (uo_user_op uo)
        (stablesForChain ch) (coalesce (ch_fee_token ch) (tc_fee_token conf)) (tc_beneficiary conf) = Some [d])"

lemma those_SomeD: "those xs = Some ys \<Longrightarrow> xs = map Some ys"
  by (induction xs arbitrary: ys) (auto split: option.splits)

lemma only_transfer_draft:
  assumes "only_transfer env conf uo d"
  shows "tf_chain_id d = uo_chain_id uo" "tf_tx_hash d = lower (the (uo_tx_hash uo))" "tf_log_index d = 0" "lower_draft d = d"
proof -
  let ?ch = "chainFor conf (uo_chain_id uo)"
  define sent where "sent = op_payments env (uo_user_op uo) (stablesForChain ?ch) (coalesce (ch_fee_token ?ch) (tc_fee_token conf)) (tc_beneficiary conf)"
  define f where "f = (\<lambda>n token recipient amount. draftOut env (uo_wallet_address uo) (uo_chain_id uo) token recipient amount
        (the (uo_tx_hash uo)) n By_Userop (Some (uo_hash uo)) None)"
  have those: "those (map (\<lambda>(n, token, recipient, amount). f n token recipient amount) (zip [0..<length sent] sent)) = Some [d]"
    using assms by (simp add: only_transfer_def outgoingTransfersFromUserOp_def Let_def sent_def f_def)
  from those_SomeD [OF those] have "length sent = 1" by (auto dest: arg_cong [of _ _ length])
  then obtain token recipient amount where "sent = [(token, recipient, amount)]" by (cases sent) auto
  with those_SomeD [OF those] have "f 0 token recipient amount = Some d" by simp
  then show "tf_chain_id d = uo_chain_id uo" "tf_tx_hash d = lower (the (uo_tx_hash uo))" "tf_log_index d = 0" "lower_draft d = d"
    unfolding f_def by (auto simp: draftOut_def lower_draft_def split: option.splits)
qed

lemma record_only:
  assumes "only_transfer env conf uo d"
  shows "recordIncludedUserOpTransfers env conf t uo (i # ids) now =
    (case upsertWalletTransfer t d i now of None \<Rightarrow> (False, t) | Some t' \<Rightarrow> (True, t'))"
  using assms by (auto simp: only_transfer_def recordIncludedUserOpTransfers_def Let_def split: option.split)

lemma bundled_lost:
  assumes "lower_draft d1 = d1" "lower_draft d2 = d2" "log_key d1 = log_key d2" "tf_log_index d1 = tf_log_index d2"
    and free: "\<forall>r \<in> set t. (tf_chain_id r, tf_tx_hash r) \<noteq> (tf_chain_id d1, tf_tx_hash d1)" and ids: "find_by tf_id i t = None"
  shows "\<exists>t2. Option.bind (upsertWalletTransfer t d1 i now) (\<lambda>t1. upsertWalletTransfer t1 d2 j now') = Some t2 \<and>
    map tf_wallet t2 = map tf_wallet t @ [tf_wallet d1] \<and> map (\<lambda>r. (tf_chain_id r, tf_tx_hash r)) t2 =
    map (\<lambda>r. (tf_chain_id r, tf_tx_hash r)) t @ [(tf_chain_id d1, tf_tx_hash d1)]"
proof -
  let ?r = "new_transfer d1 i now"
  have keys: "semantic_key r \<noteq> semantic_key d" "log_key r \<noteq> log_key d" if "r \<in> set t" "d = d1 \<or> d = d2" for r d
    using that free assms(3) by (auto simp: semantic_key_def log_key_def)
  have none: "find_by semantic_key (semantic_key d) t = None" "find_by log_key (log_key d) t = None" if "d = d1 \<or> d = d2" for d
    using keys [OF _ that] by (auto simp: find_by_None_iff)
  then have first: "upsertWalletTransfer t d1 i now = Some (t @ [?r])"
    using assms(1) ids by (simp add: upsertWalletTransfer_def matching_transfer_def insert_unique_def)
  have matched: "matching_transfer (t @ [?r]) d2 = Some ?r"
    using none [of d2] assms(3) by (simp add: matching_transfer_def find_by_append)
  have same: "log_key (merged_transfer d2 ?r) = log_key d1"
    using assms(4) by (simp add: merged_transfer_def log_key_def new_transfer_def transfer_draft.defs)
  have "upsertWalletTransfer (t @ [?r]) d2 j now' = Some (update_where (\<lambda>x. tf_id x = i) (merged_transfer d2) (t @ [?r]))"
    using keys(2) [of _ d1] by (auto simp: upsertWalletTransfer_def assms(2) matched Let_def same list_ex_iff)
  moreover have "update_where (\<lambda>x. tf_id x = i) (merged_transfer d2) (t @ [?r]) = t @ [merged_transfer d2 ?r]"
    using ids by (auto simp: update_where_def find_by_None_iff intro: map_idI)
  moreover have "(tf_chain_id (merged_transfer d2 ?r), tf_tx_hash (merged_transfer d2 ?r)) = (tf_chain_id d1, tf_tx_hash d1)"
    by (simp add: merged_transfer_def)
  ultimately show ?thesis using first by simp
qed

text \<open>
  Of two operations in one transaction the ledger keeps one. The log index of a transfer read
  from an operation is its position among the operation's transfers, not its position in the
  transaction. When a bundle includes operations of two wallets that send one transfer each, the
  second one finds the place \<open>(chain, transaction, 0)\<close> taken and is merged into the row of the
  first wallet: recording succeeds, and the second wallet has no row for the transaction.
\<close>

theorem bundled_transfer_lost:
  assumes "only_transfer env conf uo1 d1" and "only_transfer env conf uo2 d2" and "uo_chain_id uo1 = uo_chain_id uo2"
    and "lower (the (uo_tx_hash uo1)) = lower (the (uo_tx_hash uo2))" and "tf_wallet d1 \<noteq> tf_wallet d2"
    and "\<forall>r \<in> set t. (tf_chain_id r, tf_tx_hash r) \<noteq> (uo_chain_id uo1, lower (the (uo_tx_hash uo1)))" and "find_by tf_id i t = None"
  shows "let (ok1, t1) = recordIncludedUserOpTransfers env conf t uo1 [i] now;
             (ok2, t2) = recordIncludedUserOpTransfers env conf t1 uo2 [j] now' in
         ok1 \<and> ok2 \<and> (\<forall>r \<in> set t2. tf_tx_hash r = lower (the (uo_tx_hash uo2)) \<longrightarrow> tf_chain_id r = uo_chain_id uo2 \<longrightarrow> tf_wallet r \<noteq> tf_wallet d2)"
proof -
  note d1 = only_transfer_draft [OF assms(1)] and d2 = only_transfer_draft [OF assms(2)]
  have "log_key d1 = log_key d2" using d1 d2 assms(3,4) by (simp add: log_key_def)
  from bundled_lost [OF d1(4) d2(4) this _ _ assms(7), of now j now'] assms(6) d1 d2
  obtain t2 where t2: "Option.bind (upsertWalletTransfer t d1 i now) (\<lambda>t1. upsertWalletTransfer t1 d2 j now') = Some t2"
      "map tf_wallet t2 = map tf_wallet t @ [tf_wallet d1]"
      "map (\<lambda>r. (tf_chain_id r, tf_tx_hash r)) t2 = map (\<lambda>r. (tf_chain_id r, tf_tx_hash r)) t @ [(tf_chain_id d1, tf_tx_hash d1)]"
    by auto
  have len: "length t2 = Suc (length t)" using t2(2) by (metis length_append_singleton length_map)
  have "tf_wallet r \<noteq> tf_wallet d2" if r: "r \<in> set t2" "tf_tx_hash r = lower (the (uo_tx_hash uo2))" "tf_chain_id r = uo_chain_id uo2" for r
  proof -
    obtain k where k: "k < length t2" "r = t2 ! k" using r(1) by (auto simp: in_set_conv_nth)
    have "k = length t"
    proof (rule ccontr)
      assume "k \<noteq> length t"
      with k len have "k < length t" by simp
      moreover have "(tf_chain_id (t2 ! k), tf_tx_hash (t2 ! k)) = (map (\<lambda>r. (tf_chain_id r, tf_tx_hash r)) t2) ! k" using k by simp
      ultimately have "(tf_chain_id (t2 ! k), tf_tx_hash (t2 ! k)) = (tf_chain_id (t ! k), tf_tx_hash (t ! k))"
        by (simp add: t2(3) nth_append)
      with assms(3,4,6) \<open>k < length t\<close> k r show False by (metis nth_mem)
    qed
    then have "tf_wallet r = (map tf_wallet t2) ! length t" using k by simp
    also have "\<dots> = tf_wallet d1" by (simp add: t2(2) nth_append)
    finally show ?thesis using assms(5) by simp
  qed
  moreover obtain t1 where "upsertWalletTransfer t d1 i now = Some t1" "upsertWalletTransfer t1 d2 j now' = Some t2"
    using t2(1) by (auto simp: bind_eq_Some_conv)
  ultimately show ?thesis by (simp add: record_only [OF assms(1)] record_only [OF assms(2)])
qed

section \<open>A crowded block\<close>

definition row_block :: "explorer_row \<times> string \<Rightarrow> int" where
  "row_block r = nullish (er_block (fst r)) 0"

text \<open>The explorer answers with the wallet's token transfers in block order, from the start block on, page by page.\<close>

definition account_pages :: "(explorer_row \<times> string) list \<Rightarrow> int \<Rightarrow> nat \<Rightarrow> explorer_reply" where
  "account_pages rows start page =
     Explorer_Rows (take PAGE_SIZE (drop ((page - 1) * PAGE_SIZE) (filter (\<lambda>r. start \<le> row_block r) rows)))"

definition crowded :: "int \<Rightarrow> (explorer_row \<times> string) list \<Rightarrow> bool" where
  "crowded b rows \<longleftrightarrow> sorted (map row_block rows) \<and> PAGES_PER_TICK * PAGE_SIZE \<le> length (filter (\<lambda>r. row_block r = b) rows)"

text \<open>The transfers of later blocks.\<close>

definition after_block :: "int \<Rightarrow> transfer list \<Rightarrow> string set" where
  "after_block b t = tf_id ` {r \<in> set t. b < tf_block r}"

lemma upsert_after_block:
  assumes "upsertWalletTransfer t d i now = Some t'" and "tf_block d \<le> b"
  shows "after_block b t' \<subseteq> after_block b t"
  using assms(1)
proof (cases rule: upsert_transfer_cases)
  case (merged r)
  have "tf_block (lower_draft d) \<le> b" using assms(2) by (simp add: lower_draft_def)
  then have "b < tf_block (merged_transfer (lower_draft d) x) \<Longrightarrow> b < tf_block x" for x
    by (simp add: merged_transfer_def split: if_splits)
  note lowered = this
  show ?thesis
  proof
    fix y
    assume "y \<in> after_block b t'"
    then obtain x where x: "x \<in> set t" "y = tf_id (if tf_id x = tf_id r then merged_transfer (lower_draft d) x else x)"
        "b < tf_block (if tf_id x = tf_id r then merged_transfer (lower_draft d) x else x)"
      unfolding merged(3) after_block_def update_where_def by auto
    then have "y = tf_id x" by simp
    moreover have "b < tf_block x" using x(3) lowered by (cases "tf_id x = tf_id r") simp_all
    ultimately show "y \<in> after_block b t" using x(1) by (simp add: after_block_def)
  qed
next
  case inserted
  with assms(2) show ?thesis by (auto simp: after_block_def lower_draft_def)
qed

lemma draft_block: "draftFromExplorer env row w c stables ft bf now = Some (d, at_time) \<Longrightarrow> tf_block d = nullish (er_block row) 0"
  by (auto simp: draftFromExplorer_def Let_def split: if_splits option.splits)

lemma sync_row_crowded:
  assumes f: "\<And>row d at_time. f row = Some (d, at_time) \<Longrightarrow> tf_block d = nullish (er_block row) 0"
    and "sync_row f row (t, (b, l), adv) = Some (t', (b', l'), adv')" and "row_block row = b"
  shows "b' = b \<and> after_block b t' \<subseteq> after_block b t"
proof (cases "f (fst row)")
  case None
  with assms(2,3) show ?thesis by (auto simp: sync_row_def Let_def row_block_def split: if_splits)
next
  case (Some x)
  then have "tf_block (fst x) \<le> b" using f [of "fst row" "fst x" "snd x"] assms(3) by (simp add: row_block_def)
  moreover obtain t'' where "upsertWalletTransfer t (fst x) (snd row) (snd x) = Some t''"
      "(t', (b', l'), adv') = (if nullish (er_block (fst row)) 0 > b \<or> nullish (er_block (fst row)) 0 = b \<and> nullish (er_log (fst row)) 0 > l
         then (t'', (nullish (er_block (fst row)) 0, nullish (er_log (fst row)) 0), True) else (t'', (b, l), True))"
    using assms(2) Some by (cases x) (auto simp: sync_row_def Let_def split: option.splits if_splits)
  ultimately show ?thesis
    using upsert_after_block assms(3) by (auto simp: row_block_def split: if_splits)
qed

lemma sync_rows_crowded:
  assumes f: "\<And>row d at_time. f row = Some (d, at_time) \<Longrightarrow> tf_block d = nullish (er_block row) 0"
  shows "\<forall>r \<in> set rows. row_block r = b \<Longrightarrow>
    (case sync_rows f rows (t, (b, l), adv) of
       Inl t' \<Rightarrow> after_block b t' \<subseteq> after_block b t
     | Inr (t', (b', l'), adv') \<Rightarrow> b' = b \<and> after_block b t' \<subseteq> after_block b t)"
proof (induction rows arbitrary: t l adv)
  case (Cons row rows)
  show ?case
  proof (cases "sync_row f row (t, (b, l), adv)")
    case (Some st)
    obtain t1 b1 l1 adv1 where st: "st = (t1, (b1, l1), adv1)" by (cases st) auto
    have "b1 = b \<and> after_block b t1 \<subseteq> after_block b t"
      using sync_row_crowded [OF f] Some Cons.prems unfolding st by simp
    then show ?thesis
      using Cons.IH [of t1 l1 adv1] Cons.prems Some st by (auto split: sum.splits)
  qed simp
qed simp

lemma sync_pages_crowded:
  assumes f: "\<And>row d at_time. f row = Some (d, at_time) \<Longrightarrow> tf_block d = nullish (er_block row) 0"
    and pages: "\<And>n. page \<le> n \<Longrightarrow> n < page + left \<Longrightarrow> \<exists>rows. pages n = Explorer_Rows rows \<and> length rows = PAGE_SIZE \<and> (\<forall>r \<in> set rows. row_block r = b)"
  shows "\<exists>t' e. sync_pages f pages page left (t, (b, l), adv) = (t', e) \<and> after_block b t' \<subseteq> after_block b t \<and>
    (e = Pass_Failed \<or> (\<exists>l' adv'. e = Pass_Done (b, l') adv'))"
  using pages
proof (induction left arbitrary: page t l adv)
  case (Suc left)
  obtain rows where rows: "pages page = Explorer_Rows rows" "length rows = PAGE_SIZE" "\<forall>r \<in> set rows. row_block r = b"
    using Suc.prems [of page] by auto
  note step = sync_rows_crowded [of f rows b t l adv, OF f rows(3)]
  show ?case
  proof (cases "sync_rows f rows (t, (b, l), adv)")
    case (Inl t')
    with rows step show ?thesis by simp
  next
    case (Inr st)
    then obtain t1 l1 adv1 where st: "sync_rows f rows (t, (b, l), adv) = Inr (t1, (b, l1), adv1)" "after_block b t1 \<subseteq> after_block b t"
      using step by (cases st) auto
    have "\<exists>t' e. sync_pages f pages (page + 1) left (t1, (b, l1), adv1) = (t', e) \<and> after_block b t' \<subseteq> after_block b t1 \<and>
        (e = Pass_Failed \<or> (\<exists>l' adv'. e = Pass_Done (b, l') adv'))"
      using Suc.prems by (intro Suc.IH) simp
    with rows st show ?thesis by auto
  qed
qed simp

lemma split_sorted:
  "sorted (map row_block rows) \<Longrightarrow>
   filter (\<lambda>r. b \<le> row_block r) rows = filter (\<lambda>r. row_block r = b) rows @ filter (\<lambda>r. b < row_block r) rows"
proof (induction rows)
  case (Cons x xs)
  show ?case
  proof (cases "row_block x \<le> b")
    case True
    with Cons show ?thesis by auto
  next
    case False
    then have later: "\<forall>y \<in> set xs. b < row_block y" using Cons.prems by auto
    then have "filter (\<lambda>r. row_block r = b) xs = []" by (auto simp: filter_empty_conv)
    moreover have "filter (\<lambda>r. b \<le> row_block r) xs = filter (\<lambda>r. b < row_block r) xs"
      using later by (intro filter_cong) auto
    ultimately show ?thesis using False by simp
  qed
qed simp

lemma crowded_page:
  assumes "crowded b rows" and "n < PAGES_PER_TICK + 1" and "0 < n"
  shows "\<exists>page. account_pages rows b n = Explorer_Rows page \<and> length page = PAGE_SIZE \<and> (\<forall>r \<in> set page. row_block r = b)"
proof -
  let ?late = "filter (\<lambda>r. b \<le> row_block r) rows" and ?here = "filter (\<lambda>r. row_block r = b) rows"
  have split: "?late = ?here @ filter (\<lambda>r. b < row_block r) rows"
    using assms(1) by (intro split_sorted) (simp add: crowded_def)
  have len: "300 \<le> length ?here" using assms(1) by (simp add: crowded_def PAGES_PER_TICK_def PAGE_SIZE_def)
  have n: "n = 1 \<or> n = 2 \<or> n = 3" using assms(2,3) by (auto simp: PAGES_PER_TICK_def)
  let ?page = "take 100 (drop ((n - 1) * 100) ?late)"
  have page: "?page = take 100 (drop ((n - 1) * 100) ?here)" using n len by (auto simp: split)
  have "length (take 100 (drop ((n - 1) * 100) ?here)) = 100" using n len by auto
  moreover have "\<forall>r \<in> set (take 100 (drop ((n - 1) * 100) ?here)). row_block r = b"
    using set_take_subset [of 100 "drop ((n - 1) * 100) ?here"] set_drop_subset [of "(n - 1) * 100" ?here] by auto
  ultimately show ?thesis unfolding account_pages_def PAGE_SIZE_def page by blast
qed

lemma sync_pass_crowded:
  assumes "crowded b rows" and cursor: "getWalletTransferSync (snd st) wallet chain = Some c" "cu_last_block c = b"
    and addr: "lower (nullish (ab_address env wallet) wallet) = lower wallet"
  shows "\<exists>c'. getWalletTransferSync (snd (syncWalletTransfersFromExplorer env conf has_key st wallet chain (account_pages rows) now)) wallet chain = Some c' \<and>
      cu_last_block c' = b \<and>
    after_block b (fst (syncWalletTransfersFromExplorer env conf has_key st wallet chain (account_pages rows) now)) \<subseteq> after_block b (fst st)"
proof -
  obtain t cs where st: "st = (t, cs)" by force
  have stored: "\<exists>c'. getWalletTransferSync (upsertWalletTransferSync cs w chain b l fetched) wallet chain = Some c' \<and> cu_last_block c' = b"
    if "lower w = lower wallet" for w l fetched
    using that unfolding getWalletTransferSync_def upsertWalletTransferSync_def
    by (subst find_by_upsert) (simp_all add: cursor_id_def split: option.split)
  have cur: "getWalletTransferSync cs wallet chain = Some c" "getWalletTransferSync cs (lower (nullish (ab_address env wallet) wallet)) chain = Some c"
    using cursor addr by (simp_all add: st getWalletTransferSync_def)
  let ?f = "\<lambda>row. draftFromExplorer env row (lower (nullish (ab_address env wallet) wallet)) chain (tokenMap (stablesForChain (chainFor conf chain)))
     (map_option lower (coalesce (ch_fee_token (chainFor conf chain)) (tc_fee_token conf))) (map_option lower (tc_beneficiary conf)) now"
  have "\<exists>t' e. sync_pages ?f (account_pages rows b) 1 PAGES_PER_TICK (t, (b, cu_last_log c), False) = (t', e) \<and>
      after_block b t' \<subseteq> after_block b t \<and> (e = Pass_Failed \<or> (\<exists>l' adv'. e = Pass_Done (b, l') adv'))"
  proof (rule sync_pages_crowded)
    show "\<exists>page. account_pages rows b n = Explorer_Rows page \<and> length page = PAGE_SIZE \<and> (\<forall>r \<in> set page. row_block r = b)"
      if "1 \<le> n" "n < 1 + PAGES_PER_TICK" for n
      using crowded_page [OF assms(1)] that by simp
  qed (rule draft_block)
  then obtain t' e where pass: "sync_pages ?f (account_pages rows b) 1 PAGES_PER_TICK (t, (b, cu_last_log c), False) = (t', e)"
      "after_block b t' \<subseteq> after_block b t" "e = Pass_Failed \<or> (\<exists>l' adv'. e = Pass_Done (b, l') adv')" by blast
  show ?thesis
  proof (cases "has_key \<and> stablesForChain (chainFor conf chain) \<noteq> []")
    case True
    from pass(3) show ?thesis
    proof
      assume "e = Pass_Failed"
      with pass True cur cursor(2) show ?thesis
        by (simp add: syncWalletTransfersFromExplorer_def st Let_def)
    next
      assume "\<exists>l' adv'. e = Pass_Done (b, l') adv'"
      with pass True cur cursor(2) stored addr show ?thesis
        by (auto simp: syncWalletTransfersFromExplorer_def st Let_def)
    qed
  next
    case False
    with cur cursor(2) stored show ?thesis
      by (auto simp: syncWalletTransfersFromExplorer_def st Let_def touchSync_def)
  qed
qed

text \<open>
  A crowded block stops the import for good. The import asks again from the last block it
  has seen and reads at most three pages of a hundred rows, and every token counts, also worthless
  ones anybody can send. Once the cursor stands at a block with three hundred rows of the
  wallet, no later pass moves it, however often and late it runs, and no transfer of a later
  block is ever imported.
\<close>

theorem crowded_block_stalls_import:
  assumes "\<forall>p \<in> set passes. crowded b (fst p)" and "getWalletTransferSync (snd st) wallet chain = Some c" and "cu_last_block c = b"
    and "lower (nullish (ab_address env wallet) wallet) = lower wallet"
  shows "let st' = ledger_run env conf st (map (\<lambda>(rows, now). Imported True wallet chain (account_pages rows) now) passes) in
    after_block b (fst st') \<subseteq> after_block b (fst st) \<and>
    (\<exists>c'. getWalletTransferSync (snd st') wallet chain = Some c' \<and> cu_last_block c' = b)"
  using assms(1-3)
proof (induction passes arbitrary: st c)
  case (Cons p passes)
  obtain rows now where p: "p = (rows, now)" by force
  let ?st = "syncWalletTransfersFromExplorer env conf True st wallet chain (account_pages rows) now"
  obtain c' where c': "getWalletTransferSync (snd ?st) wallet chain = Some c'" "cu_last_block c' = b"
      and sub: "after_block b (fst ?st) \<subseteq> after_block b (fst st)"
    using sync_pass_crowded [OF _ Cons.prems(2,3) assms(4), of rows conf True now] Cons.prems(1) p by auto
  from Cons.IH [OF _ c'] Cons.prems(1) sub show ?case
    by (auto simp: p Let_def)
qed (simp add: Let_def)

section \<open>Recording twice\<close>

lemma coalesce_same [simp]: "coalesce x x = x" "coalesce (coalesce x y) y = coalesce x y"
  by (simp_all add: coalesce_def split: option.split)

lemma merged_twice: "merged_transfer d (merged_transfer d r) = merged_transfer d r"
  by (cases "tf_source r") (simp_all add: merged_transfer_def)

lemma update_where_same: "(\<And>x. x \<in> set t \<Longrightarrow> P x \<Longrightarrow> f x = x) \<Longrightarrow> update_where P f t = t"
  by (auto simp: update_where_def intro: map_idI)

lemma upsert_matched_row:
  assumes "transfers_ok t" and "r \<in> set t" and "matching_transfer t (lower_draft d) = Some r" and "merged_transfer (lower_draft d) r = r"
  shows "upsertWalletTransfer t d i now = Some t"
proof -
  have id: "x = r" if "x \<in> set t" "tf_id x = tf_id r" for x
    using assms(1,2) that by (auto simp: transfers_ok_def unique_on_def distinct_map inj_on_def)
  have "\<not> list_ex (\<lambda>x. tf_id x \<noteq> tf_id r \<and> log_key x = log_key r) t"
    using assms(1,2) by (auto simp: list_ex_iff transfers_ok_def unique_on_def distinct_map inj_on_def)
  moreover have "update_where (\<lambda>x. tf_id x = tf_id r) (merged_transfer (lower_draft d)) t = t"
    using id assms(4) by (intro update_where_same) blast
  ultimately show ?thesis using assms(3,4) by (simp add: upsertWalletTransfer_def Let_def)
qed

text \<open>
  Recording is idempotent. A transfer recorded a second time, because a bundler repeats its
  report or because the import reads the last block again, changes nothing.
\<close>

theorem upsert_transfer_twice:
  assumes "transfers_ok t" and "upsertWalletTransfer t d i now = Some t'"
  shows "upsertWalletTransfer t' d j now' = Some t'"
proof -
  have ok: "transfers_ok t'" by (rule upsert_transfers_ok [OF assms])
  then have uniq: "unique_on semantic_key t'" "unique_on log_key t'" by (simp_all add: transfers_ok_def)
  let ?d = "lower_draft d"
  from assms(2) show ?thesis
  proof (cases rule: upsert_transfer_cases)
    case (merged r)
    let ?r = "merged_transfer ?d r"
    have row: "?r \<in> set t'" using merged(2) unfolding merged(3) update_where_def by (auto intro: image_eqI [of _ _ r])
    have "matching_transfer t' ?d = Some ?r"
    proof (cases "find_by semantic_key (semantic_key ?d) t")
      case None
      then have "log_key r = log_key ?d" using merged(1) by (auto simp: matching_transfer_def dest: find_by_SomeD)
      then have "log_key ?r = log_key ?d" by (simp add: log_key_def merged_transfer_def)
      then have "find_by log_key (log_key ?d) t' = Some ?r" using find_by_unique [OF uniq(2) row] by simp
      moreover have "find_by semantic_key (semantic_key ?d) t' = None"
        unfolding merged(3) using None by (subst find_by_update_where) simp_all
      ultimately show ?thesis by (simp add: matching_transfer_def)
    next
      case (Some x)
      then have "semantic_key ?r = semantic_key ?d" using merged(1) by (auto simp: matching_transfer_def dest: find_by_SomeD)
      then show ?thesis using find_by_unique [OF uniq(1) row] by (simp add: matching_transfer_def)
    qed
    then show ?thesis using upsert_matched_row [OF ok row] merged_twice by blast
  next
    case inserted
    let ?r = "new_transfer ?d i now"
    have row: "?r \<in> set t'" by (simp add: inserted(3))
    have "matching_transfer t' ?d = Some ?r"
      using find_by_unique [OF uniq(1) row] by (simp add: matching_transfer_def)
    moreover have "merged_transfer ?d ?r = ?r"
      by (cases "tf_source ?d"; cases "tf_user_op_hash ?d"; cases "tf_proposal_id ?d")
        (simp_all add: merged_transfer_def new_transfer_def transfer_draft.defs)
    ultimately show ?thesis using upsert_matched_row [OF ok row] by blast
  qed
qed

end
