(* ===== verification/TransferDemo.thy ===== *)
theory TransferDemo
  imports TransferProps UserOpFeeProps
begin

text \<open>Small runs of the transfer ledger: the witnesses of its theorems.\<close>

text \<open>Every call data is one transfer of 700 units to \<open>b\<close>; every address stands for itself.\<close>

definition ledger_abi :: abi_env where
  "ledger_abi =
     \<lparr>ab_address = Some, ab_wallet_tx = (\<lambda>s. Some (''execute'', s)), ab_erc20_tx = (\<lambda>s. Some (''transfer'', ''b'', 700)),
      ab_batch = (\<lambda>s. Some [(''0xc'', 0, s)]), ab_encode_transfer = (\<lambda>_ _. None), ab_encode_execute = (\<lambda>_ s. s),
      ab_encode_batch = (\<lambda>_. None), ab_be_hex32 = int_text\<rparr>"

definition ledger_conf :: transfer_config where
  "ledger_conf =
     \<lparr>tc_chains = [], tc_fee_token = Some ''0xc'', tc_fee_symbol = ''USDC'', tc_fee_decimals = 6, tc_beneficiary = Some ''z''\<rparr>"

definition ledger_uo :: "string \<Rightarrow> string \<Rightarrow> user_op" where
  "ledger_uo w h =
     \<lparr>uo_id = h, uo_wallet_address = w, uo_chain_id = ''7'', uo_hash = h, uo_user_op = demo_op ''0x1'', uo_status = Uop_Included,
      uo_claimed_by = None, uo_claimed_until = None, uo_version = 1, uo_tx_hash = Some ''0xf'', uo_reject_reason = None,
      uo_gas_spent_wei = None, uo_created_at = 0, uo_updated_at = 0\<rparr>"

definition ledger_draft :: "string \<Rightarrow> string \<Rightarrow> transfer_draft" where
  "ledger_draft w h =
     \<lparr>tf_wallet = w, tf_chain_id = ''7'', tf_direction = Transfer_Out, tf_token = ''0xc'', tf_symbol = ''USDC'', tf_decimals = 6,
      tf_amount = ''700'', tf_counterparty = ''b'', tf_tx_hash = ''0xf'', tf_log_index = 0, tf_block = 0, tf_source = By_Userop,
      tf_user_op_hash = Some h, tf_proposal_id = None\<rparr>"

lemma ledger_only:
  "only_transfer ledger_abi ledger_conf (ledger_uo ''0xa'' ''0x1'') (ledger_draft ''0xa'' ''0x1'')"
  "only_transfer ledger_abi ledger_conf (ledger_uo ''0xd'' ''0x2'') (ledger_draft ''0xd'' ''0x2'')"
  by code_simp+

lemma bundled_transfer_lost_witness:
  "let (ok1, t1) = recordIncludedUserOpTransfers ledger_abi ledger_conf [] (ledger_uo ''0xa'' ''0x1'') [''i''] 1;
       (ok2, t2) = recordIncludedUserOpTransfers ledger_abi ledger_conf t1 (ledger_uo ''0xd'' ''0x2'') [''j''] 2 in
   ok1 \<and> ok2 \<and> (\<forall>r \<in> set t2. tf_tx_hash r = ''0xf'' \<longrightarrow> tf_chain_id r = ''7'' \<longrightarrow> tf_wallet r \<noteq> ''0xd'')"
proof -
  have hash: "lower ''0xf'' = ''0xf''" by code_simp
  show ?thesis
    using bundled_transfer_lost [OF ledger_only, of "[]" "''i''" 1 "''j''" 2]
    by (simp add: ledger_uo_def ledger_draft_def hash)
qed

definition ledger_rows :: "transfer list" where
  "ledger_rows = fst (ledger_run ledger_abi ledger_conf ([], []) [Included (ledger_uo ''0xa'' ''0x1'') [''i''] 1])"

lemma ledger_first: "upsertWalletTransfer [] (ledger_draft ''0xa'' ''0x1'') ''i'' 1 = Some ledger_rows" "find_by tf_id ''i'' ledger_rows \<noteq> None"
  by code_simp+


lemma upsert_transfer_twice_witness:
  "upsertWalletTransfer ledger_rows (ledger_draft ''0xa'' ''0x1'') ''j'' 2 = Some ledger_rows"
  using upsert_transfer_twice [OF _ ledger_first(1)] by (simp add: transfers_ok_def)

definition spam_row :: explorer_row where
  "spam_row =
     \<lparr>er_block = Some 5, er_time = None, er_hash = Some ''0xf'', er_from = Some ''0xe'', er_to = Some ''0xa'', er_contract = Some ''0x5'',
      er_value = None, er_log = None\<rparr>"

definition stalled_cursor :: transfer_cursor where
  "stalled_cursor = \<lparr>cu_wallet = ''0xa'', cu_chain_id = ''7'', cu_last_block = 5, cu_last_log = 0, cu_fetched_at = 0\<rparr>"

definition spam_rows :: "(explorer_row \<times> string) list" where
  "spam_rows = replicate 300 (spam_row, ''i'') @ [(spam_row\<lparr>er_block := Some 6\<rparr>, ''k'')]"

lemma spam_crowded: "crowded 5 spam_rows"
proof -
  have here: "row_block (spam_row, ''i'') = 5" "row_block (spam_row\<lparr>er_block := Some 6\<rparr>, ''k'') = 6"
    by (simp_all add: row_block_def spam_row_def)
  have "sorted (map row_block (replicate n (spam_row, ''i'') @ [(spam_row\<lparr>er_block := Some 6\<rparr>, ''k'')]))" for n
    by (simp add: sorted_append here map_replicate_const)
  moreover have "filter (\<lambda>r. row_block r = 5) (replicate n (spam_row, ''i'')) = replicate n (spam_row, ''i'')" for n
    by (induction n) (simp_all add: here)
  ultimately show ?thesis
    unfolding crowded_def spam_rows_def filter_append length_append by (simp only: PAGES_PER_TICK_def PAGE_SIZE_def length_replicate) simp
qed

lemma crowded_block_stalls_import_witness:
  "let st' = ledger_run ledger_abi ledger_conf ([], [stalled_cursor])
         (map (\<lambda>(rows, now). Imported True ''0xa'' ''7'' (account_pages rows) now) [(spam_rows, 100), (spam_rows, 200)]) in
   \<exists>c'. getWalletTransferSync (snd st') ''0xa'' ''7'' = Some c' \<and> cu_last_block c' = 5"
proof -
  have low: "lower ''0xa'' = ''0xa''" by code_simp
  have "getWalletTransferSync (snd ([] :: transfer list, [stalled_cursor])) ''0xa'' ''7'' = Some stalled_cursor" "cu_last_block stalled_cursor = 5"
    by (simp_all add: getWalletTransferSync_def cursor_id_def stalled_cursor_def low)
  moreover have "lower (nullish (ab_address ledger_abi ''0xa'') ''0xa'') = lower ''0xa''" by (simp add: ledger_abi_def)
  moreover have "\<forall>p \<in> set [(spam_rows, 100), (spam_rows, 200)]. crowded 5 (fst p)" using spam_crowded by simp
  ultimately show ?thesis
    using crowded_block_stalls_import [of "[(spam_rows, 100), (spam_rows, 200)]" 5 "([], [stalled_cursor])" "''0xa''" "''7''"
      stalled_cursor ledger_abi ledger_conf] by (simp only: Let_def) blast
qed

end
