(* ===== verification/UserOpRoutes.thy ===== *)
theory UserOpRoutes
  imports RecoveryFlow RequestAuth Transfers
begin

text \<open>
  The routes of user operations: submitting one (POST /api/wallet/userops of
  commerce/server/wallet-routes.ts) and the three calls of the bundlers (/api/bundler/userops,
  claim and track of commerce/server/routes.ts).

  Submitting waits for answers of the chain between the look at the queue and the write, and
  other requests are served in the meantime: the route is given the table \<open>t\<close> it looks at and the
  table \<open>t'\<close> it finds when it goes on.
\<close>

section \<open>Submitting\<close>

text \<open>What an RPC node answers: \<open>getUserOpHash\<close> of the entry point and \<open>balanceOf\<close> of a token; \<open>None\<close> is an exception.\<close>

record chain_calls =
  cc_user_op_hash :: "packed_user_op \<Rightarrow> string option"
  cc_balance :: "address \<Rightarrow> address \<Rightarrow> int option"

record userop_config =
  uc_chain_id :: string
  uc_fee_token :: "string option"
  uc_fee_symbol :: string
  uc_fee_decimals :: nat
  uc_beneficiary :: "string option"
  uc_bundler_fee :: int
  uc_rpc :: "chain_calls option"

record submit_body =
  sb_user_op :: "packed_user_op option"
  sb_hash :: "string option"
  sb_chain_id :: "string option"

definition feeConfigFromWallet :: "userop_config \<Rightarrow> fee_config" where
  "feeConfigFromWallet conf =
     \<lparr>fc_fee_token = nullish (uc_fee_token conf) '''', fc_fee_token_symbol = uc_fee_symbol conf,
      fc_fee_token_decimals = uc_fee_decimals conf, fc_beneficiary = nullish (uc_beneficiary conf) '''',
      fc_min_fee = uc_bundler_fee conf\<rparr>"

text \<open>Without a node only the form of the hash is looked at.\<close>

definition userOpHashMatchesLocal :: "string \<Rightarrow> bool" where
  "userOpHashMatchesLocal h =
     (starts_with h ''0x'' \<and> length h = 66 \<and> list_all (\<lambda>c. is_digit c \<or> c \<in> set ''abcdef'') (drop 2 h))"

definition verifyUserOpHash :: "chain_calls option \<Rightarrow> packed_user_op \<Rightarrow> string \<Rightarrow> bool option" where
  "verifyUserOpHash rpc op h =
     (case rpc of
        None \<Rightarrow> Some (userOpHashMatchesLocal h)
      | Some cc \<Rightarrow> map_option (\<lambda>x. lower x = lower h) (cc_user_op_hash cc op))"

text \<open>The fee and every further transfer of the fee token; the bundler counts in the same way.\<close>

fun total_out :: "abi_env \<Rightarrow> string \<Rightarrow> int \<Rightarrow> batch_call list \<Rightarrow> int option" where
  "total_out env token acc [] = Some acc"
| "total_out env token acc (c # cs) =
     (case (ab_address env (bc_target c), ab_address env token) of
        (Some a, Some b) \<Rightarrow>
          if a \<noteq> b then total_out env token acc cs
          else (case ab_erc20_tx env (bc_data c) of
                  Some (name, _, n) \<Rightarrow> total_out env token (if name = ''transfer'' then acc + n else acc) cs
                | None \<Rightarrow> total_out env token acc cs)
      | _ \<Rightarrow> None)"

definition fee_reason_text :: "fee_reason \<Rightarrow> string" where
  "fee_reason_text r =
     (case r of
        Fee_Missing \<Rightarrow> ''fee_missing'' | Fee_Too_Low \<Rightarrow> ''fee_too_low'' | Invalid_Call_Data \<Rightarrow> ''invalid_call_data''
      | Invalid_Batch \<Rightarrow> ''invalid_batch'' | Wrong_Beneficiary \<Rightarrow> ''wrong_beneficiary'' | Wrong_Fee_Token \<Rightarrow> ''wrong_fee_token'')"

text \<open>The error of \<open>verifyTokenBalance\<close>, or \<open>None\<close> when the balance is enough; the outer \<open>None\<close> is an exception.\<close>

definition verifyTokenBalance :: "abi_env \<Rightarrow> chain_calls \<Rightarrow> address \<Rightarrow> fee_config \<Rightarrow> packed_user_op \<Rightarrow> string option option" where
  "verifyTokenBalance env cc wallet c op =
     (case cc_balance cc (fc_fee_token c) wallet of
        None \<Rightarrow> None
      | Some balance \<Rightarrow>
          (case validateUserOpFee env op c of
             None \<Rightarrow> None
           | Some (Inl e) \<Rightarrow> Some (Some (fee_reason_text e))
           | Some (Inr d) \<Rightarrow>
               (case total_out env (fc_fee_token c) (df_amount d) (df_main_calls d) of
                  None \<Rightarrow> None
                | Some acc \<Rightarrow> Some (if balance < acc then Some ''insufficient_balance'' else None))))"

definition uop_live :: "user_op \<Rightarrow> bool" where
  "uop_live r = (uo_status r \<noteq> Uop_Rejected \<and> uo_status r \<noteq> Uop_Failed)"

text \<open>Everything before the write: the operation, its hash and chain, and the operation that is already there.\<close>

definition submit_checks ::
    "abi_env \<Rightarrow> userop_config \<Rightarrow> userop_table \<Rightarrow> submit_body \<Rightarrow>
     user_op http_error + (packed_user_op \<times> string \<times> string \<times> address \<times> user_op option)" where
  "submit_checks env conf t body =
     (let chain = nullish (str (sb_chain_id body)) (uc_chain_id conf); c = feeConfigFromWallet conf;
          stop = (\<lambda>n e. Inl (Http_Error n e None)) in
      case (sb_user_op body, map_option lower (str (sb_hash body))) of
        (Some op, Some h) \<Rightarrow>
          if fc_beneficiary c = '''' \<or> fc_fee_token c = '''' then stop 503 ''bundler_not_configured''
          else (case validateUserOpFee env op c of
             None \<Rightarrow> stop 500 ''Internal error''
           | Some (Inl e) \<Rightarrow> stop 400 (fee_reason_text e)
           | Some (Inr d) \<Rightarrow>
               (let existing = getWalletUserOpByHash t h in
                if opt_ex uop_live existing then stop 409 ''duplicate_user_op_hash''
                else (case verifyUserOpHash (uc_rpc conf) op h of
                   None \<Rightarrow> stop 400 ''submit_failed''
                 | Some False \<Rightarrow> stop 400 ''invalid_user_op_hash''
                 | Some True \<Rightarrow>
                     (case (case uc_rpc conf of None \<Rightarrow> Some None | Some cc \<Rightarrow> verifyTokenBalance env cc (puo_sender op) c op) of
                        None \<Rightarrow> stop 400 ''submit_failed''
                      | Some (Some e) \<Rightarrow> stop 400 e
                      | Some None \<Rightarrow>
                          (case ab_address env (puo_sender op) of
                             None \<Rightarrow> stop 400 ''submit_failed''
                           | Some w \<Rightarrow> Inr (op, h, chain, w, existing))))))
      | _ \<Rightarrow> stop 400 ''userOp and userOpHash required'')"

definition submitUserOpRoute ::
    "abi_env \<Rightarrow> userop_config \<Rightarrow> userop_table \<Rightarrow> userop_table \<Rightarrow> submit_body \<Rightarrow> string \<Rightarrow> timestamp \<Rightarrow>
     (nat \<times> user_op) userop_result \<times> userop_table" where
  "submitUserOpRoute env conf t t' body i now =
     (case submit_checks env conf t body of
        Inl e \<Rightarrow> (Inl e, t')
      | Inr (op, h, chain, w, existing) \<Rightarrow>
          if existing \<noteq> None
          then (case requeueWalletUserOp t' h op w chain now of
                  (None, t'') \<Rightarrow> (Inl (Http_Error 409 ''duplicate_user_op_hash'' None), t'')
                | (Some r, t'') \<Rightarrow> (Inr (200, r), t''))
          else (case createWalletUserOp t' i w chain h op now of
                  (Inl e, t'') \<Rightarrow> (Inl (Http_Error 400 ''submit_failed'' None), t'')
                | (Inr r, t'') \<Rightarrow> (Inr (201, r), t'')))"

definition pollUserOpRoute :: "userop_table \<Rightarrow> string \<Rightarrow> user_op userop_result" where
  "pollUserOpRoute t h =
     (case getWalletUserOpByHash t h of
        None \<Rightarrow> Inl (Http_Error 404 ''userop_not_found'' None)
      | Some r \<Rightarrow> Inr r)"

section \<open>The bundler routes\<close>

record bundler_state =
  bs_registry :: registry_db
  bs_ops :: userop_table
  bs_transfers :: "transfer list"

definition parseUserOpStatus :: "string option \<Rightarrow> userop_status option" where
  "parseUserOpStatus s =
     Option.bind s (map_of [(''pending'', Uop_Pending), (''claimed'', Uop_Claimed), (''submitted'', Uop_Submitted),
       (''included'', Uop_Included), (''failed'', Uop_Failed), (''rejected'', Uop_Rejected)])"

text \<open>A status nobody has selects nothing, so unknown words of the query are dropped.\<close>

definition requested_statuses :: "string option \<Rightarrow> userop_status list" where
  "requested_statuses q =
     (if truthy q
      then List.map_filter (\<lambda>s. parseUserOpStatus (Some s)) (filter (\<lambda>s. s \<noteq> '''') (map trim (split_on (CHR '','') (the q))))
      else bundler_default_statuses)"

definition listUserOpsRoute ::
    "auth_env \<Rightarrow> bundler_state \<Rightarrow> http_request \<Rightarrow> string option \<Rightarrow> timestamp \<Rightarrow> user_op list auth_result \<times> bundler_state" where
  "listUserOpsRoute aenv st q requested now =
     (case requireBundler aenv (bs_registry st) q now of
        (Inl e, reg) \<Rightarrow> (Inl e, st\<lparr>bs_registry := reg\<rparr>)
      | (Inr a, reg) \<Rightarrow>
          (case getBundler reg a of
             None \<Rightarrow> (thrown, st\<lparr>bs_registry := reg\<rparr>)
           | Some b \<Rightarrow>
               (Inr (listBundlerUserOps (bs_ops st) (requested_statuses requested)
                       (if or_chains b = [] then None else Some (or_chains b))), st\<lparr>bs_registry := reg\<rparr>)))"

record uop_claim_body =
  uk_hash :: "string option"
  uk_expected_version :: "int option"

definition claimUserOpRoute ::
    "auth_env \<Rightarrow> int \<Rightarrow> bundler_state \<Rightarrow> http_request \<Rightarrow> uop_claim_body \<Rightarrow> timestamp \<Rightarrow> user_op userop_result \<times> bundler_state" where
  "claimUserOpRoute aenv leaseMs st q body now =
     (case requireBundler aenv (bs_registry st) q now of
        (Inl e, reg) \<Rightarrow> (Inl (Http_Error (status_code e) (error_message e) None), st\<lparr>bs_registry := reg\<rparr>)
      | (Inr a, reg) \<Rightarrow>
          (case (uk_hash body, uk_expected_version body) of
             (None, _) \<Rightarrow> (Inl (Http_Error 400 ''userOpHash is required'' None), st\<lparr>bs_registry := reg\<rparr>)
           | (Some h, None) \<Rightarrow> (Inl (Http_Error 400 ''expectedVersion is required'' None), st\<lparr>bs_registry := reg\<rparr>)
           | (Some h, Some v) \<Rightarrow>
               (let (r, ops) = claimWalletUserOp (bs_ops st) h a v leaseMs now in
                (r, st\<lparr>bs_registry := reg, bs_ops := ops\<rparr>))))"

record uop_track_body =
  uk_track_hash :: "string option"
  uk_status :: "string option"
  uk_tx_hash :: "string option"
  uk_reject_reason :: "string option"
  uk_gas_spent_wei :: "string option"
  uk_track_version :: "int option"

text \<open>
  A report that the operation is included also enters its payments into the ledger; \<open>ids\<close> are the
  random keys of the ledger rows. If the ledger refuses a row the caller gets a 500, but the
  report has been written.
\<close>

definition trackUserOpRoute ::
    "auth_env \<Rightarrow> abi_env \<Rightarrow> transfer_config \<Rightarrow> bundler_state \<Rightarrow> http_request \<Rightarrow> uop_track_body \<Rightarrow> string list \<Rightarrow> timestamp \<Rightarrow>
     user_op userop_result \<times> bundler_state" where
  "trackUserOpRoute aenv env conf st q body ids now =
     (case requireBundler aenv (bs_registry st) q now of
        (Inl e, reg) \<Rightarrow> (Inl (Http_Error (status_code e) (error_message e) None), st\<lparr>bs_registry := reg\<rparr>)
      | (Inr a, reg) \<Rightarrow>
          (case uk_track_hash body of
             None \<Rightarrow> (Inl (Http_Error 400 ''userOpHash is required'' None), st\<lparr>bs_registry := reg\<rparr>)
           | Some h \<Rightarrow>
               (case trackWalletUserOp (bs_ops st) h
                       \<lparr>ut_status = parseUserOpStatus (uk_status body), ut_tx_hash = uk_tx_hash body,
                        ut_reject_reason = uk_reject_reason body, ut_gas_spent_wei = uk_gas_spent_wei body,
                        ut_expected_version = uk_track_version body, ut_bundler = Some a\<rparr> now of
                  (Inl e, ops) \<Rightarrow> (Inl e, st\<lparr>bs_registry := reg, bs_ops := ops\<rparr>)
                | (Inr r, ops) \<Rightarrow>
                    (let (ok, ledger) = recordIncludedUserOpTransfers env conf (bs_transfers st) r ids now in
                     (if ok then Inr r else Inl (Http_Error 500 ''Internal error'' None),
                      st\<lparr>bs_registry := reg, bs_ops := ops, bs_transfers := ledger\<rparr>)))))"

end
