(* ===== verification/BundlerWorker.thy ===== *)
theory BundlerWorker
  imports UserOpRoutes
begin

text \<open>
  The bundler's worker (commerce/bundler/worker.ts): for every listed operation it checks fee, hash,
  balance, prefund and a simulation, claims the operation, sends it to the entry point and reports.
  It talks to the server over HTTP with retries; the server is a parameter, a state that answers
  numbered calls, so that other clients may act and time may pass before every call.
\<close>

section \<open>Calls with retries\<close>

datatype server_reply = Reply_Ok user_op | Reply_Conflict "user_op option" | Reply_Down | Reply_Refused

record 's op_server =
  sv_claim :: "nat \<Rightarrow> string \<Rightarrow> int \<Rightarrow> 's \<Rightarrow> server_reply \<times> 's"
  sv_track :: "nat \<Rightarrow> string \<Rightarrow> userop_track \<Rightarrow> 's \<Rightarrow> server_reply \<times> 's"

text \<open>
  \<open>left\<close> attempts remain, \<open>n\<close> is the number of the next call. The outer \<open>None\<close> is the exception for
  an answer that is neither a success nor a conflict nor a failure of the server.
\<close>

fun claimWithRetry :: "'s op_server \<Rightarrow> nat \<Rightarrow> nat \<Rightarrow> string \<Rightarrow> int \<Rightarrow> 's \<Rightarrow> user_op option option \<times> nat \<times> 's" where
  "claimWithRetry sv 0 n h v s = (Some None, n, s)"
| "claimWithRetry sv (Suc left) n h v s =
     (case sv_claim sv n h v s of
        (Reply_Ok r, s') \<Rightarrow> (Some (Some r), Suc n, s')
      | (Reply_Conflict None, s') \<Rightarrow> (Some None, Suc n, s')
      | (Reply_Conflict (Some r), s') \<Rightarrow>
          if uo_status r = Uop_Included then (Some None, Suc n, s') else claimWithRetry sv left (Suc n) h (uo_version r) s'
      | (Reply_Down, s') \<Rightarrow> claimWithRetry sv left (Suc n) h v s'
      | (Reply_Refused, s') \<Rightarrow> (None, Suc n, s'))"

text \<open>After a conflict the report is sent again with the version the server has.\<close>

fun trackWithRetry :: "'s op_server \<Rightarrow> nat \<Rightarrow> nat \<Rightarrow> string \<Rightarrow> userop_track \<Rightarrow> 's \<Rightarrow> user_op option option \<times> nat \<times> 's" where
  "trackWithRetry sv 0 n h ut s = (Some None, n, s)"
| "trackWithRetry sv (Suc left) n h ut s =
     (case sv_track sv n h ut s of
        (Reply_Ok r, s') \<Rightarrow> (Some (Some r), Suc n, s')
      | (Reply_Conflict q, s') \<Rightarrow>
          if opt_ex (\<lambda>r. uo_status r = Uop_Included) q then (Some q, Suc n, s')
          else trackWithRetry sv left (Suc n) h (ut\<lparr>ut_expected_version := map_option uo_version q\<rparr>) s'
      | (Reply_Down, s') \<Rightarrow> trackWithRetry sv left (Suc n) h ut s'
      | (Reply_Refused, s') \<Rightarrow> (None, Suc n, s'))"

section \<open>The chain\<close>

text \<open>A JavaScript error with the members ethers nests the revert data in.\<close>

datatype js_error = Js_Error (err_data: "string option") (err_error: "js_error option") (err_info: "js_error option")

fun extractRevertData :: "js_error \<Rightarrow> string option" where
  "extractRevertData (Js_Error (Some d) e i) = Some d"
| "extractRevertData (Js_Error None e i) =
     coalesce (case e of None \<Rightarrow> None | Some x \<Rightarrow> extractRevertData x) (case i of None \<Rightarrow> None | Some x \<Rightarrow> extractRevertData x)"

text \<open>\<open>decode\<close> reads the reason of \<open>FailedOp(uint256, string)\<close>.\<close>

definition userOpSimulationRejectReason :: "(string \<Rightarrow> string option) \<Rightarrow> js_error \<Rightarrow> string" where
  "userOpSimulationRejectReason decode e =
     (case extractRevertData e of
        None \<Rightarrow> ''simulation_revert''
      | Some d \<Rightarrow>
          if \<not> starts_with d ''0x220266b6'' then ''simulation_revert''
          else (case decode (''0x'' @ drop 10 d) of
             None \<Rightarrow> ''simulation_revert''
           | Some reason \<Rightarrow>
               if text_includes reason ''AA24'' then ''signature_invalid''
               else if text_includes reason ''AA21'' then ''prefund_failed''
               else if text_includes reason ''AA20'' then ''account_not_deployed''
               else ''simulation_revert:'' @ reason))"

record 'l tx_receipt =
  rc_status :: nat
  rc_logs :: "'l list"
  rc_hash :: string
  rc_gas_used :: nat

text \<open>
  What the node answers: hash, balance of a token, deposit at the entry point, whether a top-up is
  mined, the error of the simulation, and the receipt of \<open>handleOps\<close>. \<open>None\<close> is an exception
  (of \<open>ca_simulate\<close>: none).
\<close>

record 'l chain_access =
  ca_hash :: "packed_user_op \<Rightarrow> string option"
  ca_balance :: "address \<Rightarrow> address \<Rightarrow> int option"
  ca_deposit :: "address \<Rightarrow> int option"
  ca_deposit_to :: "address \<Rightarrow> int \<Rightarrow> bool"
  ca_simulate :: "packed_user_op \<Rightarrow> address \<Rightarrow> js_error option"
  ca_handle_ops :: "packed_user_op \<Rightarrow> address \<Rightarrow> 'l tx_receipt option"
  ca_decode_reason :: "string \<Rightarrow> string option"
  ca_parse_log :: "'l \<Rightarrow> (string \<times> string \<times> bool) option"

datatype chain_event = Deposit address int | Handle_Ops packed_user_op address

record bundler_chain =
  bn_chain_id :: string
  bn_rpc_url :: "string option"
  bn_bundler_address :: "string option"
  bn_private_key :: "string option"
  bn_beneficiary :: "string option"
  bn_fee_usdc :: "string option"
  bn_fee_token :: "string option"
  bn_fee_symbol :: "string option"
  bn_fee_decimals :: "nat option"

definition fee_recipient :: "bundler_chain \<Rightarrow> string" where
  "fee_recipient ch = (if truthy (bn_beneficiary ch) then the (bn_beneficiary ch) else nullish (bn_bundler_address ch) '''')"

text \<open>\<open>None\<close>: the configured fee is not an integer.\<close>

definition bundlerFeeConfig :: "bundler_chain \<Rightarrow> fee_config option" where
  "bundlerFeeConfig ch =
     map_option (\<lambda>fee. \<lparr>fc_fee_token = nullish (bn_fee_token ch) '''', fc_fee_token_symbol = nullish (bn_fee_symbol ch) ''USDC'',
         fc_fee_token_decimals = nullish (bn_fee_decimals ch) 6, fc_beneficiary = fee_recipient ch, fc_min_fee = fee\<rparr>)
       (BigInt_text (nullish (bn_fee_usdc ch) ''100000''))"

text \<open>The deposit sent, if any, and whether the prefund is there.\<close>

definition ensureAccountPrefund :: "abi_env \<Rightarrow> 'l chain_access \<Rightarrow> address \<Rightarrow> packed_user_op \<Rightarrow> chain_event list \<times> bool" where
  "ensureAccountPrefund env ca wallet op =
     (case (estimateUserOpPrefund op, ca_deposit ca wallet) of
        (Some required, Some deposit) \<Rightarrow>
          if required \<le> deposit then ([], True)
          else (case ab_address env wallet of
             None \<Rightarrow> ([], False)
           | Some w \<Rightarrow> (let topUp = required - deposit + required div 5 in ([Deposit w topUp], ca_deposit_to ca w topUp)))
      | _ \<Rightarrow> ([], False))"

section \<open>One operation\<close>

definition report :: "userop_status \<Rightarrow> string option \<Rightarrow> int \<Rightarrow> userop_track" where
  "report st reason v =
     \<lparr>ut_status = Some st, ut_tx_hash = None, ut_reject_reason = reason, ut_gas_spent_wei = None, ut_expected_version = Some v,
      ut_bundler = None\<rparr>"

text \<open>What the checks before the claim come to: an exception, a reason to reject, or the beneficiary; with the deposits made.\<close>

datatype op_verdict = Op_Error | Op_Reject string | Op_Send address

definition op_checks ::
    "abi_env \<Rightarrow> 'l chain_access \<Rightarrow> bundler_chain \<Rightarrow> user_op \<Rightarrow> chain_event list \<times> op_verdict" where
  "op_checks env ca ch r =
     (case bundlerFeeConfig ch of
        None \<Rightarrow> ([], Op_Error)
      | Some c \<Rightarrow>
     (case validateUserOpFee env (uo_user_op r) c of
        None \<Rightarrow> ([], Op_Error)
      | Some (Inl e) \<Rightarrow> ([], Op_Reject (fee_reason_text e))
      | Some (Inr d) \<Rightarrow>
     (case ca_hash ca (uo_user_op r) of
        None \<Rightarrow> ([], Op_Error)
      | Some h \<Rightarrow>
          if lower h \<noteq> lower (uo_hash r) then ([], Op_Reject ''invalid_user_op_hash'')
          else
     (case (ca_balance ca (fc_fee_token c) (uo_wallet_address r), total_out env (fc_fee_token c) (df_amount d) (df_main_calls d)) of
        (Some balance, Some out) \<Rightarrow>
          if balance < out then ([], Op_Reject ''insufficient_balance'')
          else
     (case ab_address env (fee_recipient ch) of
        None \<Rightarrow> ([], Op_Error)
      | Some b \<Rightarrow>
          (let (sent, ok) = ensureAccountPrefund env ca (uo_wallet_address r) (uo_user_op r) in
           if \<not> ok then (sent, Op_Reject ''prefund_failed'')
           else (case ca_simulate ca (uo_user_op r) b of
                   Some e \<Rightarrow> (sent, Op_Reject (userOpSimulationRejectReason (ca_decode_reason ca) e))
                 | None \<Rightarrow> (sent, Op_Send b))))
      | _ \<Rightarrow> ([], Op_Error)))))"

definition final_report :: "'l chain_access \<Rightarrow> user_op \<Rightarrow> 'l tx_receipt \<Rightarrow> int \<Rightarrow> userop_track" where
  "final_report ca r receipt v =
     (let ok = rc_status receipt = 1 \<and> userOpExecutionSucceeded (ca_parse_log ca) (rc_logs receipt) (uo_hash r) in
      \<lparr>ut_status = Some (if ok then Uop_Included else Uop_Failed), ut_tx_hash = Some (rc_hash receipt),
       ut_reject_reason = (if ok then None else Some ''execution_reverted''),
       ut_gas_spent_wei = (if rc_gas_used receipt = 0 then None else Some (dec (rc_gas_used receipt))),
       ut_expected_version = Some v, ut_bundler = None\<rparr>)"

text \<open>\<open>r\<close> is the operation as it was listed. An exception ends the work on it; the answer to the report that it is submitted is not looked at.\<close>

definition processUserOp ::
    "abi_env \<Rightarrow> 'l chain_access \<Rightarrow> nat \<Rightarrow> 's op_server \<Rightarrow> bundler_chain \<Rightarrow> user_op \<Rightarrow> nat \<Rightarrow> 's \<Rightarrow> chain_event list \<times> nat \<times> 's" where
  "processUserOp env ca retries sv ch r n s =
     (let (sent, verdict) = op_checks env ca ch r in
      case verdict of
        Op_Error \<Rightarrow> (sent, n, s)
      | Op_Reject reason \<Rightarrow> (sent, snd (trackWithRetry sv retries n (uo_hash r) (report Uop_Rejected (Some reason) (uo_version r)) s))
      | Op_Send b \<Rightarrow>
          (case claimWithRetry sv retries n (uo_hash r) (uo_version r) s of
             (Some (Some c), n1, s1) \<Rightarrow>
               (case trackWithRetry sv retries n1 (uo_hash r) (report Uop_Submitted None (uo_version c)) s1 of
                  (None, n2, s2) \<Rightarrow> (sent, n2, s2)
                | (Some _, n2, s2) \<Rightarrow>
                    (case ca_handle_ops ca (uo_user_op r) b of
                       None \<Rightarrow> (sent @ [Handle_Ops (uo_user_op r) b], n2, s2)
                     | Some receipt \<Rightarrow>
                         (sent @ [Handle_Ops (uo_user_op r) b],
                          snd (trackWithRetry sv retries n2 (uo_hash r) (final_report ca r receipt (uo_version c + 1)) s2))))
           | (_, n1, s1) \<Rightarrow> (sent, n1, s1)))"

section \<open>One tick\<close>

text \<open>The placeholders of the configuration templates count as no secret.\<close>

definition isUnsetSecret :: "string option \<Rightarrow> bool" where
  "isUnsetSecret x =
     (let v = nullish (map_option trim x) '''' in
      v = '''' \<or> v = ''_PRIVATE_KEY_'' \<or> starts_with (lower v) ''change-me'' \<or> starts_with (lower v) ''placeholder'')"

definition chain_ready :: "bundler_chain \<Rightarrow> bool" where
  "chain_ready ch =
     (truthy (map_option trim (bn_rpc_url ch)) \<and> \<not> isUnsetSecret (bn_private_key ch) \<and> truthy (map_option trim (bn_bundler_address ch)))"

text \<open>The node of each chain is given by the chain's configuration; \<open>listed\<close> is what the server lists.\<close>

fun process_listed ::
    "abi_env \<Rightarrow> (bundler_chain \<Rightarrow> 'l chain_access) \<Rightarrow> nat \<Rightarrow> 's op_server \<Rightarrow> bundler_chain list \<Rightarrow> user_op list \<Rightarrow> nat \<Rightarrow> 's \<Rightarrow>
     chain_event list \<times> nat \<times> 's" where
  "process_listed env node retries sv chs [] n s = ([], n, s)"
| "process_listed env node retries sv chs (r # rs) n s =
     (case find (\<lambda>ch. bn_chain_id ch = uo_chain_id r) chs of
        None \<Rightarrow> process_listed env node retries sv chs rs n s
      | Some ch \<Rightarrow>
          (let (ev, n', s') = processUserOp env (node ch) retries sv ch r n s;
               (evs, rest) = process_listed env node retries sv chs rs n' s' in
           (ev @ evs, rest)))"

definition bundler_tick ::
    "abi_env \<Rightarrow> (bundler_chain \<Rightarrow> 'l chain_access) \<Rightarrow> nat \<Rightarrow> 's op_server \<Rightarrow> string option \<Rightarrow> bundler_chain list \<Rightarrow> user_op list \<Rightarrow> nat \<Rightarrow>
     's \<Rightarrow> chain_event list \<times> nat \<times> 's" where
  "bundler_tick env node retries sv key chs listed n s =
     (let ready = filter chain_ready chs in
      if isUnsetSecret key \<or> ready = [] then ([], n, s) else process_listed env node retries sv ready listed n s)"

end
