(* ===== verification/BundlerProps.thy ===== *)
theory BundlerProps
  imports BundlerWorker UserOpProps
begin

text \<open>
  The worker against any server, and against the queue of the model: what is sent to the chain was
  checked and claimed, a run ends after a bounded number of calls, and what a quiet run leaves in
  the queue.
\<close>

section \<open>Retries\<close>

lemma claim_retry_calls: "n \<le> fst (snd (claimWithRetry sv left n h v s)) \<and> fst (snd (claimWithRetry sv left n h v s)) \<le> n + left"
proof (induction sv left n h v s rule: claimWithRetry.induct)
  case (2 sv left n h v s)
  obtain reply s' where call: "sv_claim sv n h v s = (reply, s')" by fastforce
  show ?case
  proof (cases reply)
    case (Reply_Conflict q)
    with call 2(1) [OF call [symmetric]] show ?thesis by (cases q) auto
  qed (use call 2(2) [OF call [symmetric]] in auto)
qed simp

lemma track_retry_calls: "n \<le> fst (snd (trackWithRetry sv left n h ut s)) \<and> fst (snd (trackWithRetry sv left n h ut s)) \<le> n + left"
proof (induction sv left n h ut s rule: trackWithRetry.induct)
  case (2 sv left n h ut s)
  obtain reply s' where call: "sv_track sv n h ut s = (reply, s')" by fastforce
  show ?case
  proof (cases reply)
    case (Reply_Conflict q)
    with call 2(1) [OF call [symmetric]] show ?thesis by auto
  qed (use call 2(2) [OF call [symmetric]] in auto)
qed simp

text \<open>What the calls keep, the retries keep; a retried claim that succeeds has had one successful call, its last.\<close>

lemma claim_retry_keeps:
  assumes keeps: "\<And>n v s. I s \<Longrightarrow> I (snd (sv_claim sv n h v s))" and "I s"
  shows "I (snd (snd (claimWithRetry sv left n h v s)))"
  using assms(2)
proof (induction left arbitrary: n v s)
  case (Suc left)
  obtain reply s' where call: "sv_claim sv n h v s = (reply, s')" by fastforce
  then have "I s'" using keeps [OF Suc.prems, of n v] by simp
  with Suc.IH call show ?case by (auto split: server_reply.split option.split)
qed simp

lemma track_retry_keeps:
  assumes keeps: "\<And>n ut s. I s \<Longrightarrow> I (snd (sv_track sv n h ut s))" and "I s"
  shows "I (snd (snd (trackWithRetry sv left n h ut s)))"
  using assms(2)
proof (induction left arbitrary: n ut s)
  case (Suc left)
  obtain reply s' where call: "sv_track sv n h ut s = (reply, s')" by fastforce
  then have "I s'" using keeps [OF Suc.prems, of n ut] by simp
  with Suc.IH call show ?case by (auto split: server_reply.split option.split)
qed simp

lemma claim_retry_success:
  assumes keeps: "\<And>n v s. I s \<Longrightarrow> I (snd (sv_claim sv n h v s))" and "I s"
    and "claimWithRetry sv left n h v s = (Some (Some c), n1, s1)"
  shows "\<exists>k w s0. I s0 \<and> sv_claim sv k h w s0 = (Reply_Ok c, s1)"
  using assms(2,3)
proof (induction left arbitrary: n v s)
  case (Suc left)
  obtain reply s' where call: "sv_claim sv n h v s = (reply, s')" by fastforce
  then have I: "I s'" using keeps [OF Suc.prems(1), of n v] by simp
  show ?case
  proof (cases reply)
    case (Reply_Ok r)
    with Suc.prems(2) call have "r = c" "s' = s1" by simp_all
    with call Reply_Ok Suc.prems(1) show ?thesis by blast
  next
    case (Reply_Conflict q)
    then obtain r where "q = Some r" using Suc.prems(2) call by (cases q) auto
    with Reply_Conflict Suc.prems(2) call have "claimWithRetry sv left (Suc n) h (uo_version r) s' = (Some (Some c), n1, s1)"
      by (simp split: if_splits)
    with Suc.IH [OF I] show ?thesis by blast
  next
    case Reply_Down
    with Suc.prems(2) call have "claimWithRetry sv left (Suc n) h v s' = (Some (Some c), n1, s1)" by simp
    with Suc.IH [OF I] show ?thesis by blast
  qed (use Suc.prems(2) call in simp)
qed simp

section \<open>Bounded work\<close>

lemma process_calls: "fst (snd (processUserOp env ca retries sv ch r n s)) \<le> n + 3 * retries"
proof -
  obtain sent verdict where checks: "op_checks env ca ch r = (sent, verdict)" by fastforce
  show ?thesis
  proof (cases verdict)
    case (Op_Reject reason)
    then show ?thesis
      using checks track_retry_calls [of n sv retries "uo_hash r" "report Uop_Rejected (Some reason) (uo_version r)" s]
      by (simp add: processUserOp_def)
  next
    case (Op_Send b)
    obtain c n1 s1 where claim: "claimWithRetry sv retries n (uo_hash r) (uo_version r) s = (c, n1, s1)" by (metis prod_cases3)
    then have n1: "n1 \<le> n + retries" using claim_retry_calls [of n sv retries "uo_hash r" "uo_version r" s] by simp
    show ?thesis
    proof (cases c)
      case None
      with Op_Send checks claim n1 show ?thesis by (simp add: processUserOp_def)
    next
      case (Some q)
      show ?thesis
      proof (cases q)
        case None
        with Some Op_Send checks claim n1 show ?thesis by (simp add: processUserOp_def)
      next
        case (Some x)
        let ?sub = "report Uop_Submitted None (uo_version x)"
        obtain y n2 s2 where sub: "trackWithRetry sv retries n1 (uo_hash r) ?sub s1 = (y, n2, s2)" by (metis prod_cases3)
        then have n2: "n2 \<le> n1 + retries" using track_retry_calls [of n1 sv retries "uo_hash r" ?sub s1] by simp
        have "fst (snd (trackWithRetry sv retries n2 (uo_hash r) ut s2)) \<le> n + 3 * retries" for ut
          using conjunct2 [OF track_retry_calls [of n2 sv retries "uo_hash r" ut s2]] n1 n2 by linarith
        with Some \<open>c = Some q\<close> Op_Send checks claim sub n1 n2 show ?thesis
          by (cases y; cases "ca_handle_ops ca (uo_user_op r) b") (auto simp: processUserOp_def)
      qed
    qed
  qed (use checks in \<open>simp add: processUserOp_def\<close>)
qed

lemma process_listed_calls: "fst (snd (process_listed env node retries sv chs rs n s)) \<le> n + 3 * retries * length rs"
proof (induction env node retries sv chs rs n s rule: process_listed.induct)
  case (2 env node retries sv chs r rs n s)
  show ?case
  proof (cases "find (\<lambda>ch. bn_chain_id ch = uo_chain_id r) chs")
    case None
    with 2(1) [OF None] show ?thesis by simp
  next
    case (Some ch)
    obtain ev n' s' where p: "processUserOp env (node ch) retries sv ch r n s = (ev, n', s')" by (metis prod_cases3)
    then have "n' \<le> n + 3 * retries" using process_calls [of env "node ch" retries sv ch r n s] by simp
    moreover have "fst (snd (process_listed env node retries sv chs rs n' s')) \<le> n' + 3 * retries * length rs"
      using 2(2) [OF Some] p by simp
    ultimately show ?thesis using Some p by (simp add: split_beta)
  qed
qed simp

text \<open>
  C18. A tick of the bundler ends. Whatever the server answers, the worker makes at most three times
  the configured number of attempts per listed operation; in particular a server that answers
  every call with a conflict does not keep it.
\<close>

theorem bundler_tick_bounded:
  "fst (snd (bundler_tick env node retries sv key chs listed n s)) \<le> n + 3 * retries * length listed"
  by (auto simp: bundler_tick_def Let_def intro: process_listed_calls)


section \<open>What is sent\<close>

text \<open>The operation passed every check of the worker at the configuration of its chain.\<close>

definition passed_checks :: "abi_env \<Rightarrow> 'l chain_access \<Rightarrow> bundler_chain \<Rightarrow> user_op \<Rightarrow> address \<Rightarrow> bool" where
  "passed_checks env ca ch r b \<longleftrightarrow>
     (\<exists>c d balance out h. bundlerFeeConfig ch = Some c \<and> validateUserOpFee env (uo_user_op r) c = Some (Inr d) \<and>
        ca_hash ca (uo_user_op r) = Some h \<and> lower h = lower (uo_hash r) \<and>
        total_out env (fc_fee_token c) (df_amount d) (df_main_calls d) = Some out \<and>
        ca_balance ca (fc_fee_token c) (uo_wallet_address r) = Some balance \<and> out \<le> balance) \<and>
     ab_address env (fee_recipient ch) = Some b \<and> ca_simulate ca (uo_user_op r) b = None"

lemma checks_send:
  assumes "op_checks env ca ch r = (sent, Op_Send b)"
  shows "passed_checks env ca ch r b"
  using assms
  by (auto simp: op_checks_def passed_checks_def Let_def split: option.splits sum.splits if_splits prod.splits)

lemma checks_sent: "Handle_Ops op b \<notin> set (fst (op_checks env ca ch r))"
  by (auto simp: op_checks_def ensureAccountPrefund_def Let_def split: option.splits sum.splits prod.splits if_splits)

lemma process_sends:
  assumes "Handle_Ops op b \<in> set (fst (processUserOp env ca retries sv ch r n s))"
  obtains sent c n1 s1 where "op = uo_user_op r" "op_checks env ca ch r = (sent, Op_Send b)"
    "claimWithRetry sv retries n (uo_hash r) (uo_version r) s = (Some (Some c), n1, s1)"
proof -
  obtain sent verdict where checks: "op_checks env ca ch r = (sent, verdict)" by fastforce
  then have none: "Handle_Ops op b \<notin> set sent" using checks_sent [of op b env ca ch r] by simp
  show thesis
  proof (cases verdict)
    case (Op_Send b')
    obtain x n1 s1 where claim: "claimWithRetry sv retries n (uo_hash r) (uo_version r) s = (x, n1, s1)" by (metis prod_cases3)
    have "\<exists>c. x = Some (Some c)"
    proof (rule ccontr)
      assume "\<nexists>c. x = Some (Some c)"
      then have "x = None \<or> x = Some None" by (metis not_None_eq)
      with assms checks claim Op_Send none show False by (auto simp: processUserOp_def)
    qed
    then obtain c where c: "x = Some (Some c)" ..
    have "op = uo_user_op r \<and> b = b'"
      using assms checks claim Op_Send c none by (auto simp: processUserOp_def split: prod.splits option.splits)
    with that checks claim Op_Send c show thesis by blast
  qed (use assms checks none in \<open>simp_all add: processUserOp_def\<close>)
qed

text \<open>
  Only checked and claimed operations are sent. If working on an operation calls
  \<open>handleOps\<close>, it was for this operation, after its fee, hash, balance and simulation passed at
  the configuration of its chain, and after the server answered one of at most \<open>retries\<close> claims of
  the worker with the operation. For any server.
\<close>

theorem sends_only_checked:
  assumes "Handle_Ops op b \<in> set (fst (processUserOp env ca retries sv ch r n s))"
  shows "op = uo_user_op r \<and> passed_checks env ca ch r b \<and>
    (\<exists>c n1 s1. claimWithRetry sv retries n (uo_hash r) (uo_version r) s = (Some (Some c), n1, s1) \<and> n1 \<le> n + retries)"
proof -
  from process_sends [OF assms] obtain sent c n1 s1 where p: "op = uo_user_op r" "op_checks env ca ch r = (sent, Op_Send b)"
    "claimWithRetry sv retries n (uo_hash r) (uo_version r) s = (Some (Some c), n1, s1)" .
  with checks_send [OF p(2)] claim_retry_calls [of n sv retries "uo_hash r" "uo_version r" s] show ?thesis by auto
qed

section \<open>Against the queue\<close>

text \<open>The contract of a server that keeps a queue: what it answers is the row it has.\<close>

locale op_service =
  fixes sv :: "'s op_server" and row :: "'s \<Rightarrow> string \<Rightarrow> user_op option" and wf :: "'s \<Rightarrow> bool" and me :: address
  assumes claim_wf: "wf s \<Longrightarrow> wf (snd (sv_claim sv n h v s))"
    and claim_grants: "wf s \<Longrightarrow> sv_claim sv n h v s = (Reply_Ok c, s') \<Longrightarrow>
      row s' h = Some c \<and> uo_status c = Uop_Claimed \<and> uo_claimed_by c = Some me \<and> uo_version c = v + 1"
    and track_wf: "wf s \<Longrightarrow> wf (snd (sv_track sv n h ut s))"
    and track_shows: "wf s \<Longrightarrow> sv_track sv n h ut s = (Reply_Ok c, s') \<Longrightarrow> row s' h = Some c"
begin

lemma claim_retry_grants:
  assumes "wf s" and "claimWithRetry sv left n h v s = (Some (Some c), n1, s1)"
  shows "wf s1" "row s1 h = Some c" "uo_status c = Uop_Claimed" "uo_claimed_by c = Some me"
proof -
  from claim_retry_success [of wf sv h, OF claim_wf assms] obtain k w s0 where
    call: "wf s0" "sv_claim sv k h w s0 = (Reply_Ok c, s1)" by blast
  from claim_wf [OF call(1), of k h w] call(2) show "wf s1" by simp
  from claim_grants [OF call] show "row s1 h = Some c" "uo_status c = Uop_Claimed" "uo_claimed_by c = Some me" by simp_all
qed

text \<open>When an operation is sent, its row has been claimed by the worker in this run.\<close>

lemma sent_row_claimed:
  assumes "wf s" and "Handle_Ops op b \<in> set (fst (processUserOp env ca retries sv ch r n s))"
  shows "\<exists>c n1 s1. claimWithRetry sv retries n (uo_hash r) (uo_version r) s = (Some (Some c), n1, s1) \<and>
    row s1 (uo_hash r) = Some c \<and> uo_status c = Uop_Claimed \<and> uo_claimed_by c = Some me"
proof -
  from process_sends [OF assms(2)] obtain sent c n1 s1 where
    "claimWithRetry sv retries n (uo_hash r) (uo_version r) s = (Some (Some c), n1, s1)" .
  with claim_retry_grants [OF assms(1) this] show ?thesis by blast
qed

end

text \<open>What other clients of the queue do before a call.\<close>

datatype queue_call =
    Q_Create string address string string packed_user_op timestamp
  | Q_Requeue string packed_user_op address string timestamp
  | Q_Claim string address int int timestamp
  | Q_Track string userop_track timestamp

fun apply_call :: "queue_call \<Rightarrow> userop_table \<Rightarrow> userop_table" where
  "apply_call (Q_Create i w c h op now) t = snd (createWalletUserOp t i w c h op now)"
| "apply_call (Q_Requeue h op w c now) t = snd (requeueWalletUserOp t h op w c now)"
| "apply_call (Q_Claim h b v l now) t = snd (claimWalletUserOp t h b v l now)"
| "apply_call (Q_Track h ut now) t = snd (trackWalletUserOp t h ut now)"

definition reply_of :: "user_op userop_result \<Rightarrow> server_reply" where
  "reply_of res =
     (case res of
        Inr r \<Rightarrow> Reply_Ok r
      | Inl e \<Rightarrow> if status_code e = 409 then Reply_Conflict (error_subject e)
                 else if 500 \<le> status_code e then Reply_Down else Reply_Refused)"

text \<open>
  The queue behind the routes, for the bundler \<open>a\<close> its request check has identified: before call \<open>n\<close>
  the other clients make the calls \<open>world n\<close>, and it is then \<open>clock n\<close>.
\<close>

definition serve :: "address \<Rightarrow> int \<Rightarrow> (nat \<Rightarrow> timestamp) \<Rightarrow> (nat \<Rightarrow> queue_call list) \<Rightarrow> userop_table op_server" where
  "serve a lease clock world =
     \<lparr>sv_claim = (\<lambda>n h v t. apfst reply_of (claimWalletUserOp (fold apply_call (world n) t) h a v lease (clock n))),
      sv_track = (\<lambda>n h ut t. apfst reply_of (trackWalletUserOp (fold apply_call (world n) t) h (ut\<lparr>ut_bundler := Some a\<rparr>) (clock n)))\<rparr>"

lemma apply_call_unique: "userops_unique t \<Longrightarrow> userops_unique (apply_call q t)"
  by (cases q) (auto intro: create_unique requeue_unique bundler_queue.claim_wf bundler_queue.track_wf)

lemma world_unique: "userops_unique t \<Longrightarrow> userops_unique (fold apply_call qs t)"
  by (induction qs arbitrary: t) (simp_all add: apply_call_unique)

lemma reply_of_Ok [simp]: "reply_of res = Reply_Ok r \<longleftrightarrow> res = Inr r"
  by (auto simp: reply_of_def split: sum.split)

interpretation served_queue: op_service "serve a lease clock world" getWalletUserOpByHash userops_unique "lower a"
proof unfold_locales
  fix t h v n ut c t'
  assume u: "userops_unique t"
  note w = world_unique [OF u, of "world n"]
  show "userops_unique (snd (sv_claim (serve a lease clock world) n h v t))"
    using bundler_queue.claim_wf [OF w, of h a v lease "clock n"] by (simp add: serve_def apfst_def map_prod_def split_beta)
  show "userops_unique (snd (sv_track (serve a lease clock world) n h ut t))"
    using bundler_queue.track_wf [OF w, of h "ut\<lparr>ut_bundler := Some a\<rparr>" "clock n"] by (simp add: serve_def apfst_def map_prod_def split_beta)
  {
    assume "sv_claim (serve a lease clock world) n h v t = (Reply_Ok c, t')"
    then have call: "claimWalletUserOp (fold apply_call (world n) t) h a v lease (clock n) = (Inr c, t')"
      by (auto simp: serve_def apfst_def map_prod_def split_beta prod_eq_iff)
    have "uo_status c = Uop_Claimed"
      using call by (auto simp: claimWalletUserOp_eq [OF w] uop_claim_set_def split: option.splits if_splits)
    with bundler_queue.claim_ok [OF w call]
    show "getWalletUserOpByHash t' h = Some c \<and> uo_status c = Uop_Claimed \<and> uo_claimed_by c = Some (lower a) \<and> uo_version c = v + 1"
      by blast
  next
    assume "sv_track (serve a lease clock world) n h ut t = (Reply_Ok c, t')"
    then have "trackWalletUserOp (fold apply_call (world n) t) h (ut\<lparr>ut_bundler := Some a\<rparr>) (clock n) = (Inr c, t')"
      by (auto simp: serve_def apfst_def map_prod_def split_beta prod_eq_iff)
    from bundler_queue.track_ok [OF w this] show "getWalletUserOpByHash t' h = Some c" by blast
  }
qed


text \<open>
  C19. What is sent is claimed. Whatever the other clients of the queue do before each call, when the
  worker of bundler \<open>a\<close> sends an operation, the queue has answered one of its claims in this run
  by giving it the row, which then was claimed by \<open>a\<close>.
\<close>

theorem sent_operation_claimed:
  assumes "userops_unique t"
    and "Handle_Ops op b \<in> set (fst (processUserOp env ca retries (serve a lease clock world) ch r n t))"
  shows "\<exists>c n1 t1. claimWithRetry (serve a lease clock world) retries n (uo_hash r) (uo_version r) t = (Some (Some c), n1, t1) \<and>
    getWalletUserOpByHash t1 (uo_hash r) = Some c \<and> uo_status c = Uop_Claimed \<and> uo_claimed_by c = Some (lower a)"
  by (rule served_queue.sent_row_claimed [OF assms])

section \<open>A quiet run\<close>

abbreviation quiet :: "nat \<Rightarrow> queue_call list" where
  "quiet \<equiv> \<lambda>_. []"

lemma quiet_track:
  assumes "getWalletUserOpByHash t h = Some c" and "uo_claimed_by c = Some (lower a)" and "ut_expected_version ut = Some (uo_version c)"
  shows "trackWithRetry (serve a lease clock quiet) (Suc left) n h ut t =
    (Some (Some (uop_track_set ut (clock n) c)), Suc n, update_where (\<lambda>r. uo_hash r = lower h) (uop_track_set ut (clock n)) t)"
proof -
  have set: "uop_track_set (ut\<lparr>ut_bundler := Some a\<rparr>) now = uop_track_set ut now" for now
    by (rule ext) (simp add: uop_track_set_def)
  have "\<not> uop_track_refused c (ut\<lparr>ut_bundler := Some a\<rparr>)"
    using assms(2,3) by (simp add: uop_track_refused_def)
  then show ?thesis
    using assms(1) by (simp add: serve_def trackWalletUserOp_eq reply_of_def set)
qed

text \<open>
  C20. A quiet run delivers. If the listed row is the one in the queue and can be claimed, its checks
  pass and nobody else acts, then the worker sends it exactly once, after the deposit, makes
  three calls, and leaves the row, which is no longer claimed, included or failed as the receipt
  says, with the transaction; no other row changes.
\<close>

theorem quiet_run_delivers:
  assumes "op_checks env ca ch r = (sent, Op_Send b)" and "ca_handle_ops ca (uo_user_op r) b = Some receipt"
    and "userops_unique t" and "getWalletUserOpByHash t (uo_hash r) = Some r" and "uop_claim_where (lower a) (uo_version r) (clock n) r"
  shows "let (events, n', t') = processUserOp env ca (Suc retries) (serve a lease clock quiet) ch r n t;
             ok = rc_status receipt = 1 \<and> userOpExecutionSucceeded (ca_parse_log ca) (rc_logs receipt) (uo_hash r) in
    events = sent @ [Handle_Ops (uo_user_op r) b] \<and> n' = n + 3 \<and>
    (\<exists>r'. getWalletUserOpByHash t' (uo_hash r) = Some r' \<and> uo_status r' = (if ok then Uop_Included else Uop_Failed) \<and>
       uo_tx_hash r' = Some (rc_hash receipt) \<and> uo_claimed_by r' = None \<and> uo_version r' = uo_version r + 3 \<and>
       uo_user_op r' = uo_user_op r) \<and>
    (\<forall>k. lower k \<noteq> lower (uo_hash r) \<longrightarrow> getWalletUserOpByHash t' k = getWalletUserOpByHash t k)"
proof -
  let ?h = "uo_hash r" and ?sv = "serve a lease clock quiet"
  define c where "c = uop_claim_set (lower a) (clock n + lease) (clock n) r"
  define t1 where "t1 = update_where (\<lambda>x. uo_hash x = lower ?h \<and> uop_claim_where (lower a) (uo_version r) (clock n) x)
      (uop_claim_set (lower a) (clock n + lease) (clock n)) t"
  have claim: "claimWithRetry ?sv (Suc retries) n ?h (uo_version r) t = (Some (Some c), Suc n, t1)"
    using assms(3-5) by (simp add: serve_def claimWalletUserOp_eq reply_of_def c_def t1_def)
  have t1: "getWalletUserOpByHash t1 k = (if lower k = lower ?h then Some c else getWalletUserOpByHash t k)" for k
    using userop_update_lookup [of "uop_claim_set (lower a) (clock n + lease) (clock n)" ?h "uop_claim_where (lower a) (uo_version r) (clock n)" t k]
      assms(4,5) by (auto simp: t1_def c_def getWalletUserOpByHash_def option.map_ident)
  have c: "uo_claimed_by c = Some (lower a)" "uo_version c = uo_version r + 1" "uo_user_op c = uo_user_op r"
    by (simp_all add: c_def uop_claim_set_def)
  let ?sub = "report Uop_Submitted None (uo_version c)"
  define c2 where "c2 = uop_track_set ?sub (clock (Suc n)) c"
  define t2 where "t2 = update_where (\<lambda>x. uo_hash x = lower ?h) (uop_track_set ?sub (clock (Suc n))) t1"
  have sub: "trackWithRetry ?sv (Suc retries) (Suc n) ?h ?sub t1 = (Some (Some c2), Suc (Suc n), t2)"
    using quiet_track [of t1 ?h c a ?sub lease clock retries "Suc n"] t1 c by (simp add: c2_def t2_def report_def)
  have c2: "uo_claimed_by c2 = Some (lower a)" "uo_version c2 = uo_version c + 1" "uo_user_op c2 = uo_user_op r"
    by (simp_all add: c2_def uop_track_set_def report_def terminal_status_def c)
  have t2: "getWalletUserOpByHash t2 k = (if lower k = lower ?h then Some c2 else getWalletUserOpByHash t k)" for k
    using userop_update_lookup [of "uop_track_set ?sub (clock (Suc n))" ?h "\<lambda>_. True" t1 k] by (simp add: t1 t2_def c2_def option.map_ident)
  let ?fin = "final_report ca r receipt (uo_version c + 1)"
  define c3 where "c3 = uop_track_set ?fin (clock (Suc (Suc n))) c2"
  define t3 where "t3 = update_where (\<lambda>x. uo_hash x = lower ?h) (uop_track_set ?fin (clock (Suc (Suc n)))) t2"
  have fin: "trackWithRetry ?sv (Suc retries) (Suc (Suc n)) ?h ?fin t2 = (Some (Some c3), Suc (Suc (Suc n)), t3)"
    using quiet_track [of t2 ?h c2 a ?fin lease clock retries "Suc (Suc n)"] t2 c2 by (simp add: c3_def t3_def final_report_def Let_def)
  have t3: "getWalletUserOpByHash t3 k = (if lower k = lower ?h then Some c3 else getWalletUserOpByHash t k)" for k
    using userop_update_lookup [of "uop_track_set ?fin (clock (Suc (Suc n)))" ?h "\<lambda>_. True" t2 k] by (simp add: t2 t3_def c3_def option.map_ident)
  have "processUserOp env ca (Suc retries) ?sv ch r n t = (sent @ [Handle_Ops (uo_user_op r) b], n + 3, t3)"
    using assms(1,2) claim sub fin by (simp add: processUserOp_def)
  moreover have "uo_claimed_by c3 = None" "uo_version c3 = uo_version r + 3" "uo_tx_hash c3 = Some (rc_hash receipt)"
    "uo_user_op c3 = uo_user_op r" "uo_status c3 = (if rc_status receipt = 1 \<and>
       userOpExecutionSucceeded (ca_parse_log ca) (rc_logs receipt) ?h then Uop_Included else Uop_Failed)"
    by (simp_all add: c3_def uop_track_set_def final_report_def Let_def terminal_status_def coalesce_def c c2)
  ultimately show ?thesis by (simp add: t3)
qed


section \<open>A report about an older row\<close>

lemma stale_track:
  assumes "getWalletUserOpByHash t h = Some c" and "uo_claimed_by c = None" and "uo_status c \<noteq> Uop_Included"
    and "ut_expected_version ut = Some v" and "v \<noteq> uo_version c"
  shows "trackWithRetry (serve a lease clock quiet) (Suc (Suc left)) n h ut t =
    (Some (Some (uop_track_set ut (clock (Suc n)) c)), Suc (Suc n), update_where (\<lambda>r. uo_hash r = lower h) (uop_track_set ut (clock (Suc n))) t)"
proof -
  have set: "uop_track_set (ut\<lparr>ut_expected_version := w, ut_bundler := b\<rparr>) now = uop_track_set ut now" for w b now
    by (rule ext) (simp add: uop_track_set_def)
  show ?thesis
    using assms by (simp add: serve_def trackWalletUserOp_eq reply_of_def uop_track_refused_def set)
qed

text \<open>
  A rejection hits what is there now. The worker rejects what it has listed, and after a version
  conflict sends the report again with the version the server has. So when its checks fail for
  the row \<open>r\<close> it listed, the row \<open>c\<close> that has taken its place in the queue, perhaps the same hash
  submitted again with another signature, ends up rejected with the reason found for \<open>r\<close>, as long
  as no bundler holds it.
\<close>

theorem stale_rejection_applied:
  assumes "op_checks env ca ch r = (sent, Op_Reject reason)" and "getWalletUserOpByHash t (uo_hash r) = Some c"
    and "uo_claimed_by c = None" and "uo_status c \<noteq> Uop_Included" and "uo_version r \<noteq> uo_version c"
  shows "\<exists>c'. getWalletUserOpByHash (snd (snd (processUserOp env ca (Suc (Suc retries)) (serve a lease clock quiet) ch r n t))) (uo_hash r) = Some c' \<and>
    uo_status c' = Uop_Rejected \<and> uo_reject_reason c' = Some reason \<and> uo_user_op c' = uo_user_op c"
proof -
  let ?ut = "report Uop_Rejected (Some reason) (uo_version r)"
  have "trackWithRetry (serve a lease clock quiet) (Suc (Suc retries)) n (uo_hash r) ?ut t =
    (Some (Some (uop_track_set ?ut (clock (Suc n)) c)), Suc (Suc n), update_where (\<lambda>x. uo_hash x = lower (uo_hash r)) (uop_track_set ?ut (clock (Suc n))) t)"
    using assms(2-5) by (intro stale_track) (simp_all add: report_def)
  then show ?thesis
    using userop_update_lookup [of "uop_track_set ?ut (clock (Suc n))" "uo_hash r" "\<lambda>_. True" t "uo_hash r"] assms(1,2)
    by (simp add: processUserOp_def) (simp add: uop_track_set_def report_def coalesce_def)
qed

end
