(* ===== verification/UserOpRouteProps.thy ===== *)
theory UserOpRouteProps
  imports UserOpRoutes UserOpFeeProps TransferProps
begin

text \<open>
  What the routes of user operations promise together: everything in the queue pays the bundler,
  a live operation is not replaced, and a payment that was included is in the ledger.
\<close>

section \<open>The queue pays\<close>

text \<open>The requests that change queue and ledger. A submission may have looked at any earlier table \<open>t0\<close>.\<close>

inductive ops_step ::
    "auth_env \<Rightarrow> abi_env \<Rightarrow> userop_config \<Rightarrow> transfer_config \<Rightarrow> int \<Rightarrow> bundler_state \<Rightarrow> bundler_state \<Rightarrow> bool"
  for aenv env conf tconf lease where
  submit: "ops_step aenv env conf tconf lease st
             (st\<lparr>bs_ops := snd (submitUserOpRoute env conf t0 (bs_ops st) body i now)\<rparr>)"
| listed: "ops_step aenv env conf tconf lease st (snd (listUserOpsRoute aenv st q requested now))"
| claimed: "ops_step aenv env conf tconf lease st (snd (claimUserOpRoute aenv lease st q cbody now))"
| tracked: "ops_step aenv env conf tconf lease st (snd (trackUserOpRoute aenv env tconf st q tbody ids now))"

definition queue_pays :: "abi_env \<Rightarrow> fee_config \<Rightarrow> userop_table \<Rightarrow> bool" where
  "queue_pays env c t \<longleftrightarrow> (\<forall>r \<in> set t. \<exists>d. validateUserOpFee env (uo_user_op r) c = Some (Inr d))"

lemma queue_pays_update:
  "queue_pays env c t \<Longrightarrow> (\<And>r. uo_user_op (f r) = uo_user_op r) \<Longrightarrow> queue_pays env c (update_where P f t)"
  by (auto simp: queue_pays_def update_where_def)

lemma claim_track_keep_ops:
  "queue_pays env c t \<Longrightarrow> queue_pays env c (snd (claimWalletUserOp t h b v l now))"
  "queue_pays env c t \<Longrightarrow> queue_pays env c (snd (trackWalletUserOp t h ut now))"
proof -
  assume ok: "queue_pays env c t"
  have "queue_pays env c (update_where P (uop_claim_set b u now) t)" for P b u
    using ok by (rule queue_pays_update) (simp add: uop_claim_set_def)
  then show "queue_pays env c (snd (claimWalletUserOp t h b v l now))"
    using ok by (simp add: claimWalletUserOp_def Let_def split: option.split)
  have "queue_pays env c (update_where P (uop_track_set ut now) t)" for P
    using ok by (rule queue_pays_update) (simp add: uop_track_set_def)
  then show "queue_pays env c (snd (trackWalletUserOp t h ut now))"
    using ok by (simp add: trackWalletUserOp_def Let_def split: option.split)
qed

lemma submit_checksD:
  assumes "submit_checks env conf t body = Inr (op, h, chain, w, existing)"
  shows "\<exists>d. validateUserOpFee env op (feeConfigFromWallet conf) = Some (Inr d)"
    "existing = getWalletUserOpByHash t h" "\<not> opt_ex uop_live existing" "ab_address env (puo_sender op) = Some w"
    "sb_user_op body = Some op" "map_option lower (str (sb_hash body)) = Some h"
    "verifyUserOpHash (uc_rpc conf) op h = Some True"
  using assms by (auto simp: submit_checks_def Let_def split: option.splits if_splits sum.splits bool.splits)

lemma submit_queue_pays:
  assumes "queue_pays env (feeConfigFromWallet conf) t"
  shows "queue_pays env (feeConfigFromWallet conf) (snd (submitUserOpRoute env conf t0 t body i now))"
proof (cases "submit_checks env conf t0 body")
  case (Inl e)
  with assms show ?thesis by (simp add: submitUserOpRoute_def)
next
  case (Inr x)
  obtain op h chain w existing where x: "x = (op, h, chain, w, existing)" by (cases x)
  obtain d where d: "validateUserOpFee env op (feeConfigFromWallet conf) = Some (Inr d)"
    using submit_checksD(1) Inr x by blast
  have "queue_pays env (feeConfigFromWallet conf) (update_where P (requeue_set w chain op now) t)" for P
    using assms d by (auto simp: queue_pays_def update_where_def requeue_set_def)
  moreover have "queue_pays env (feeConfigFromWallet conf) (t @ [new_user_op i w chain h op now])"
    using assms d by (auto simp: queue_pays_def new_user_op_def)
  ultimately show ?thesis
    using Inr x assms
    by (auto simp: submitUserOpRoute_def requeueWalletUserOp_def createWalletUserOp_def Let_def split: option.split)
qed

lemma route_ops:
  "bs_ops (snd (listUserOpsRoute aenv st q requested now)) = bs_ops st"
  "bs_ops (snd (claimUserOpRoute aenv l st q cbody now)) = bs_ops st \<or>
   (\<exists>h b v. bs_ops (snd (claimUserOpRoute aenv l st q cbody now)) = snd (claimWalletUserOp (bs_ops st) h b v l now))"
  "bs_ops (snd (trackUserOpRoute aenv env tconf st q tbody ids now)) = bs_ops st \<or>
   (\<exists>h ut. bs_ops (snd (trackUserOpRoute aenv env tconf st q tbody ids now)) = snd (trackWalletUserOp (bs_ops st) h ut now))"
    apply (simp add: listUserOpsRoute_def split: prod.split sum.split option.split)
   apply (simp add: claimUserOpRoute_def split_beta split: sum.split option.split, blast)
  apply (auto simp: trackUserOpRoute_def Let_def split_beta split: sum.split option.split)
  done

lemma ops_step_pays:
  assumes "ops_step aenv env conf tconf lease st st'" and "queue_pays env (feeConfigFromWallet conf) (bs_ops st)"
  shows "queue_pays env (feeConfigFromWallet conf) (bs_ops st')"
  using assms
proof cases
  case submit
  with assms(2) show ?thesis by (simp add: submit_queue_pays)
next
  case listed
  with assms(2) show ?thesis by (simp add: route_ops)
next
  case (claimed q cbody now)
  then show ?thesis
    using route_ops(2) [of aenv lease st q cbody now] assms(2) claim_track_keep_ops(1) [OF assms(2)] by auto
next
  case (tracked q tbody ids now)
  then show ?thesis
    using route_ops(3) [of aenv env tconf st q tbody ids now] assms(2) claim_track_keep_ops(2) [OF assms(2)] by auto
qed



section \<open>A live operation is not replaced\<close>

lemma requeue_keeps_live:
  assumes "getWalletUserOpByHash t h = Some r" and "uop_live r"
  shows "getWalletUserOpByHash (snd (requeueWalletUserOp t k op w c now)) h = Some r"
    "lower k = lower h \<Longrightarrow> userops_unique t \<Longrightarrow> requeueWalletUserOp t k op w c now = (None, t)"
proof -
  let ?Q = "\<lambda>r. uo_status r = Uop_Rejected \<or> uo_status r = Uop_Failed"
  have dead: "\<not> ?Q r" using assms(2) by (simp add: uop_live_def)
  show "getWalletUserOpByHash (snd (requeueWalletUserOp t k op w c now)) h = Some r"
    using userop_update_lookup [of "requeue_set w c op now" k ?Q t h] dead assms(1) by (auto simp: requeueWalletUserOp_def Let_def)
  assume "lower k = lower h" "userops_unique t"
  then have "changes (\<lambda>r. uo_hash r = lower k \<and> ?Q r) t = 0"
    using changes_key_zero_iff [of uo_hash t "lower h" ?Q] assms dead by (simp add: userops_unique_def getWalletUserOpByHash_def)
  then show "requeueWalletUserOp t k op w c now = (None, t)"
    by (simp add: requeueWalletUserOp_def Let_def)
qed

lemma created_op_keeps:
  assumes "getWalletUserOpByHash t h = Some r"
  shows "getWalletUserOpByHash (snd (createWalletUserOp t i w c k op now)) h = Some r"
    "lower k = lower h \<Longrightarrow> createWalletUserOp t i w c k op now = (Inr r, t)"
  using assms by (auto simp: createWalletUserOp_def getWalletUserOpByHash_def find_by_append split: option.split)

text \<open>
  A live operation is not replaced. An operation that is pending, claimed, submitted or included
  when a submission comes to write is afterwards the row it was, whatever the submission saw
  before it waited for the chain; and if the submission names its hash and succeeds, the answer
  is that row.
\<close>

theorem live_operation_kept:
  assumes "userops_unique t" and "getWalletUserOpByHash t h = Some r" and "uop_live r"
  shows "getWalletUserOpByHash (snd (submitUserOpRoute env conf t0 t body i now)) h = Some r \<and>
    (map_option lower (str (sb_hash body)) = Some (lower h) \<longrightarrow>
     (\<forall>n q. fst (submitUserOpRoute env conf t0 t body i now) = Inr (n, q) \<longrightarrow> q = r \<and> n = 201))"
proof (cases "submit_checks env conf t0 body")
  case (Inl e)
  with assms(2) show ?thesis by (simp add: submitUserOpRoute_def)
next
  case (Inr x)
  obtain op k chain w existing where x: "x = (op, k, chain, w, existing)" by (cases x)
  with Inr have k: "map_option lower (str (sb_hash body)) = Some k" by (simp add: submit_checksD(6))
  then have low: "lower k = k" by auto
  show ?thesis
  proof (cases existing)
    case None
    with Inr x created_op_keeps(1) [OF assms(2), of i w chain k op now] created_op_keeps(2) [OF assms(2), of k i w chain op now] k low show ?thesis
      by (auto simp: submitUserOpRoute_def split: sum.splits prod.splits)
  next
    case (Some e)
    with Inr x requeue_keeps_live [OF assms(2,3), of k op w chain now] assms(1) k low show ?thesis
      by (auto simp: submitUserOpRoute_def split: option.splits prod.splits)
  qed
qed


section \<open>An included payment is in the ledger\<close>

text \<open>
  The fee and the payment of a send, as the ledger sees the chain of the operation: the fee goes
  to the bundler, the token is one of the stable tokens \<open>sk\<close> of the chain, and the payment is not
  itself a payment to the bundler.
\<close>

definition ledger_reads ::
    "abi_env \<Rightarrow> transfer_config \<Rightarrow> string \<Rightarrow> string \<Rightarrow> string \<Rightarrow> string \<Rightarrow> string \<Rightarrow> stable_token \<Rightarrow> bool" where
  "ledger_reads env tconf chain fee_token beneficiary token recipient sk \<longleftrightarrow>
     (let ch = chainFor tconf chain; ft = coalesce (ch_fee_token ch) (tc_fee_token tconf);
          addr = (\<lambda>s. the (ab_address env s)) in
      isBundlerFeeTransfer (addr fee_token) (addr beneficiary) ft (tc_beneficiary tconf) \<and>
      \<not> isBundlerFeeTransfer (addr token) (addr recipient) ft (tc_beneficiary tconf) \<and>
      tokenMap (stablesForChain ch) (lower (addr token)) = Some sk \<and> ab_address env (sk_address sk) = ab_address env token)"

lemma token_call_decoded:
  assumes "abi_ok env" and "token_call env token recipient amount = Some c"
  shows "bc_target c = the (ab_address env token)" "ab_address env (bc_target c) = Some (bc_target c)"
    "decodeErc20TransferCall env (bc_data c) = Some (the (ab_address env recipient), amount)"
    "ab_address env token \<noteq> None" "ab_address env recipient \<noteq> None"
    "ab_address env (the (ab_address env recipient)) = ab_address env recipient"
proof -
  from token_call_read [OF assms] obtain t r where c: "ab_address env token = Some t" "ab_address env recipient = Some r"
      "ab_address env r = Some r" "ab_address env t = Some t" "bc_target c = t" "decodeTransfer env (bc_data c) = Some (r, amount)"
    by blast
  from c(6) have "decodeErc20TransferCall env (bc_data c) = Some (r, amount)" by (simp add: decodeTransfer_def split: if_splits)
  with c(1-5) show "bc_target c = the (ab_address env token)" "ab_address env (bc_target c) = Some (bc_target c)"
    "decodeErc20TransferCall env (bc_data c) = Some (the (ab_address env recipient), amount)"
    "ab_address env token \<noteq> None" "ab_address env recipient \<noteq> None"
    "ab_address env (the (ab_address env recipient)) = ab_address env recipient" by simp_all
qed

lemma payments_of_send:
  assumes "abi_ok env"
    and "buildSendBatchCalls env fee_token beneficiary fee recipient amount (Some token) = Some calls"
    and "encodeExecuteCallData env calls = Some (puo_call_data op)"
    and "ledger_reads env tconf chain fee_token beneficiary token recipient sk"
  shows "op_payments env op (stablesForChain (chainFor tconf chain)) (coalesce (ch_fee_token (chainFor tconf chain)) (tc_fee_token tconf))
      (tc_beneficiary tconf) = [(sk, the (ab_address env recipient), amount)]"
    "\<exists>a b. ab_address env (sk_address sk) = Some a \<and> ab_address env token = Some a \<and>
      ab_address env recipient = Some b \<and> ab_address env b = Some b"
proof -
  from assms(2) obtain f s where calls: "calls = [f, s]" and f: "token_call env fee_token beneficiary fee = Some f"
      and s: "token_call env token recipient amount = Some s"
    by (auto simp: buildSendBatchCalls_def buildFeeTransferCall_def split: option.splits)
  note f = token_call_decoded [OF assms(1) f] and s = token_call_decoded [OF assms(1) s]
  have "decodeExecuteCalls env (puo_call_data op) = [f, s]"
    using decode_built_batch(2) [OF assms(1,3)] f(2) s(2) by (simp add: calls)
  moreover have "paid_out env (stablesForChain (chainFor tconf chain)) (coalesce (ch_fee_token (chainFor tconf chain)) (tc_fee_token tconf))
      (tc_beneficiary tconf) (bc_target f) (bc_data f) = None"
    using assms(4) f(1,3) by (simp add: ledger_reads_def Let_def paid_out_def split: option.split)
  ultimately show "op_payments env op (stablesForChain (chainFor tconf chain)) (coalesce (ch_fee_token (chainFor tconf chain)) (tc_fee_token tconf))
      (tc_beneficiary tconf) = [(sk, the (ab_address env recipient), amount)]"
    using assms(4) s(1,3) by (simp add: op_payments_def ledger_reads_def Let_def paid_out_def List.map_filter_def)
  show "\<exists>a b. ab_address env (sk_address sk) = Some a \<and> ab_address env token = Some a \<and>
      ab_address env recipient = Some b \<and> ab_address env b = Some b"
    using assms(4) s(4-6) by (auto simp: ledger_reads_def Let_def)
qed

text \<open>The route stores the report and, for an included operation, its drafts.\<close>

lemma track_routeD:
  assumes "trackUserOpRoute aenv env tconf st q body ids now = (Inr r, st')"
  shows "getWalletUserOpByHash (bs_ops st') (the (uk_track_hash body)) = Some r"
    "recordIncludedUserOpTransfers env tconf (bs_transfers st) r ids now = (True, bs_transfers st')"
    "\<exists>r0. getWalletUserOpByHash (bs_ops st) (the (uk_track_hash body)) = Some r0 \<and> uo_user_op r = uo_user_op r0 \<and>
       uo_wallet_address r = uo_wallet_address r0 \<and> uo_chain_id r = uo_chain_id r0"
proof -
  obtain a h reg ops ut where route: "requireBundler aenv (bs_registry st) q now = (Inr a, reg)" "uk_track_hash body = Some h"
      "trackWalletUserOp (bs_ops st) h ut now = (Inr r, ops)" "bs_ops st' = ops"
    and ledger: "recordIncludedUserOpTransfers env tconf (bs_transfers st) r ids now = (True, bs_transfers st')"
    using assms by (auto simp: trackUserOpRoute_def Let_def split: prod.splits sum.splits option.splits if_splits)
  show "recordIncludedUserOpTransfers env tconf (bs_transfers st) r ids now = (True, bs_transfers st')" by (rule ledger)
  from route(3) obtain r0 where r0: "getWalletUserOpByHash (bs_ops st) h = Some r0" "r = uop_track_set ut now r0"
      "ops = update_where (\<lambda>r. uo_hash r = lower h) (uop_track_set ut now) (bs_ops st)"
    by (auto simp: trackWalletUserOp_eq split: option.splits if_splits)
  show "getWalletUserOpByHash (bs_ops st') (the (uk_track_hash body)) = Some r"
    using userop_update_lookup [of "uop_track_set ut now" h "\<lambda>_. True" "bs_ops st" h] r0 route(2,4) by simp
  show "\<exists>r0. getWalletUserOpByHash (bs_ops st) (the (uk_track_hash body)) = Some r0 \<and> uo_user_op r = uo_user_op r0 \<and>
       uo_wallet_address r = uo_wallet_address r0 \<and> uo_chain_id r = uo_chain_id r0"
    using r0(1,2) route(2) by (simp add: uop_track_set_def)
qed

lemma only_draft_of_send:
  assumes "op_payments env (uo_user_op r) (stablesForChain (chainFor tconf (uo_chain_id r)))
      (coalesce (ch_fee_token (chainFor tconf (uo_chain_id r))) (tc_fee_token tconf)) (tc_beneficiary tconf) = [(sk, b, amount)]"
    and "ab_address env (sk_address sk) = Some a" and "ab_address env b = Some b" and "ab_address env (uo_wallet_address r) = Some w"
    and "uo_status r = Uop_Included" and "truthy (uo_tx_hash r)"
  shows "\<exists>d. only_transfer env tconf r d \<and> tf_wallet d = lower w \<and>
    semantic_key d = (uo_chain_id r, lower (the (uo_tx_hash r)), lower a, int_text amount, Transfer_Out, lower b)"
  using assms by (auto simp: only_transfer_def outgoingTransfersFromUserOp_def Let_def draftOut_def semantic_key_def)

text \<open>
  A payment reaches the history. When a bundler's report that an operation is included, with
  its transaction, is answered, and the operation was built as a send of \<open>amount\<close> of a token, then the
  ledger has a row of the wallet for this transaction with this token, amount and recipient,
  provided that no other row of the transaction is there yet. The fee is not entered.
\<close>

theorem included_payment_recorded:
  assumes "abi_ok env"
    and "buildSendBatchCalls env fee_token beneficiary fee recipient amount (Some token) = Some calls"
    and "encodeExecuteCallData env calls = Some (puo_call_data (uo_user_op r))"
    and "ledger_reads env tconf (uo_chain_id r) fee_token beneficiary token recipient sk"
    and "trackUserOpRoute aenv env tconf st q body (i # ids) now = (Inr r, st')"
    and "uo_status r = Uop_Included" and "truthy (uo_tx_hash r)" and "ab_address env (uo_wallet_address r) = Some w"
    and "\<forall>x \<in> set (bs_transfers st). (tf_chain_id x, tf_tx_hash x) \<noteq> (uo_chain_id r, lower (the (uo_tx_hash r)))"
  shows "\<exists>s. bs_transfers st' = bs_transfers st @ [s] \<and> tf_wallet s = lower w \<and> tf_source s = By_Userop \<and>
    semantic_key s = (uo_chain_id r, lower (the (uo_tx_hash r)), lower (the (ab_address env token)), int_text amount,
      Transfer_Out, lower (the (ab_address env recipient)))"
proof -
  note pay = payments_of_send [OF assms(1-4)]
  from pay(2) obtain a b where ab: "ab_address env (sk_address sk) = Some a" "ab_address env token = Some a"
      "ab_address env recipient = Some b" "ab_address env b = Some b" by blast
  from only_draft_of_send [OF pay(1) ab(1)] ab assms(6-8) obtain d where
    d: "only_transfer env tconf r d" "tf_wallet d = lower w"
      "semantic_key d = (uo_chain_id r, lower (the (uo_tx_hash r)), lower a, int_text amount, Transfer_Out, lower b)" by auto
  note facts = only_transfer_draft [OF d(1)]
  have "matching_transfer (bs_transfers st) (lower_draft d) = None"
    using assms(9) facts by (auto simp: matching_transfer_def find_by_None_iff semantic_key_def log_key_def split: option.split)
  moreover from track_routeD(2) [OF assms(5)] have "upsertWalletTransfer (bs_transfers st) d i now = Some (bs_transfers st')"
    by (simp add: record_only [OF d(1)] split: option.splits)
  ultimately have "bs_transfers st' = bs_transfers st @ [new_transfer (lower_draft d) i now]"
    by (auto elim: upsert_transfer_cases)
  moreover have "tf_source d = By_Userop"
    using d(1) by (auto simp: only_transfer_def outgoingTransfersFromUserOp_def Let_def draftOut_def dest!: those_SomeD split: option.splits)
  moreover have "tf_source (new_transfer d i now) = tf_source d" by (simp add: new_transfer_def transfer_draft.defs)
  ultimately show ?thesis using d facts(4) ab by simp
qed

end
