(* ===== verification/UserOpRouteDemo.thy ===== *)
theory UserOpRouteDemo
  imports UserOpRouteProps
begin

text \<open>One send from its submission to the ledger: the witnesses of the theorems on the routes of user operations.\<close>

definition send_calls :: "batch_call list" where
  "send_calls = the (buildSendBatchCalls demo_abi ''1'' ''2'' 15 ''3'' 700 (Some ''1''))"

definition send_data :: string where
  "send_data = the (encodeExecuteCallData demo_abi send_calls)"

lemma send_built:
  "buildSendBatchCalls demo_abi ''1'' ''2'' 15 ''3'' 700 (Some ''1'') = Some send_calls"
  "encodeExecuteCallData demo_abi send_calls = Some send_data"
proof -
  obtain calls cd where "buildSendBatchCalls demo_abi ''1'' ''2'' 15 ''3'' 700 None = Some calls"
    "encodeExecuteCallData demo_abi calls = Some cd" using demo_send by blast
  then show "buildSendBatchCalls demo_abi ''1'' ''2'' 15 ''3'' 700 (Some ''1'') = Some send_calls"
    "encodeExecuteCallData demo_abi send_calls = Some send_data"
    by (simp_all add: send_calls_def send_data_def buildSendBatchCalls_def)
qed

definition send_conf :: userop_config where
  "send_conf =
     \<lparr>uc_chain_id = ''7'', uc_fee_token = Some ''1'', uc_fee_symbol = ''USDC'', uc_fee_decimals = 6, uc_beneficiary = Some ''2'',
      uc_bundler_fee = 10, uc_rpc = None\<rparr>"

definition send_ledger :: transfer_config where
  "send_ledger =
     \<lparr>tc_chains = [], tc_fee_token = Some ''1'', tc_fee_symbol = ''USDC'', tc_fee_decimals = 6, tc_beneficiary = Some ''2''\<rparr>"

definition send_hash :: string where
  "send_hash = ''0x'' @ replicate 64 (CHR ''a'')"

definition send_body :: submit_body where
  "send_body = \<lparr>sb_user_op = Some (demo_op send_data), sb_hash = Some send_hash, sb_chain_id = None\<rparr>"

text \<open>A toy key scheme: a signature names its signer in front of the message.\<close>

definition bundler_env :: auth_env where
  "bundler_env =
     \<lparr>ae_getAddress = Some, ae_verifyMessage = (\<lambda>msg sig. if drop 4 sig = msg then Some (take 4 sig) else None),
      ae_sha256 = (\<lambda>s. ''h'' @ s), ae_hmac = (\<lambda>k m. k @ m), ae_number = (\<lambda>s. Some (of_nat (length s))), ae_pathname = Some\<rparr>"

definition signed_by_bundler :: "string \<Rightarrow> http_request" where
  "signed_by_bundler n =
     \<lparr>hr_method = Some ''POST'', hr_url = Some ''/p'',
      hr_headers = signBundlerRequest bundler_env (\<lambda>m. ''0xbb'' @ m) ''0xbb'' ''POST'' ''/p'' (Some ''b'') ''12345'' n\<rparr>"

definition send_start :: bundler_state where
  "send_start =
     \<lparr>bs_registry = upsertBundler empty_registry ''0xbb'' ''b1'' [] None 0, bs_ops = [], bs_transfers = []\<rparr>"

definition send_submitted :: bundler_state where
  "send_submitted = send_start\<lparr>bs_ops := snd (submitUserOpRoute demo_abi send_conf [] (bs_ops send_start) send_body ''u1'' 1000)\<rparr>"

definition send_claimed :: bundler_state where
  "send_claimed = snd (claimUserOpRoute bundler_env 180000 send_submitted (signed_by_bundler ''n1'')
     \<lparr>uk_hash = Some send_hash, uk_expected_version = Some 1\<rparr> 2000)"

definition send_report :: uop_track_body where
  "send_report =
     \<lparr>uk_track_hash = Some send_hash, uk_status = Some ''included'', uk_tx_hash = Some ''0xf'', uk_reject_reason = None,
      uk_gas_spent_wei = None, uk_track_version = Some 2\<rparr>"

definition send_row :: user_op where
  "send_row = new_user_op ''u1'' ''7'' ''7'' send_hash (demo_op send_data) 1000"

lemma send_checked: "submit_checks demo_abi send_conf [] send_body = Inr (demo_op send_data, send_hash, ''7'', ''7'', None)"
proof -
  have seven: "digits ''7''" "nullish (str None) ''7'' = ''7''" "str (Some send_hash) = Some send_hash" "lower send_hash = send_hash" "userOpHashMatchesLocal send_hash"
    by code_simp+
  obtain d where "validateUserOpFee demo_abi (demo_op send_data) demo_fee = Some (Inr d)"
    using built_send_passes [OF demo_abi_ok, of demo_fee 15 "''3''" 700 "Some ''1''" send_calls send_data "demo_op send_data"] send_built
    by (auto simp: demo_fee_def demo_op_def)
  moreover have "feeConfigFromWallet send_conf = demo_fee" by (simp add: feeConfigFromWallet_def send_conf_def demo_fee_def)
  ultimately show ?thesis using seven
    by (simp add: submit_checks_def send_body_def demo_fee_def send_conf_def verifyUserOpHash_def demo_op_def demo_abi_def
        getWalletUserOpByHash_def find_by_def)
qed


lemma send_submitted_ops: "bs_ops send_submitted = [send_row]" "bs_registry send_submitted = bs_registry send_start"
  "bs_transfers send_submitted = []"
  by (simp_all add: send_submitted_def submitUserOpRoute_def send_checked send_start_def createWalletUserOp_def send_row_def find_by_def)

text \<open>The requests of the bundler pass its check; the tokens of the registry are evaluated, the rows are not.\<close>

lemma bundler_accepted:
  "fst (requireBundler bundler_env (bs_registry send_start) (signed_by_bundler ''n1'') 2000) = Inr ''0xbb''"
  "fst (requireBundler bundler_env (snd (requireBundler bundler_env (bs_registry send_start) (signed_by_bundler ''n1'') 2000))
     (signed_by_bundler ''n2'') 3000) = Inr ''0xbb''"
  by code_simp+

lemma send_row_simps:
  "uo_hash send_row = send_hash" "uo_version send_row = 1" "uo_status send_row = Uop_Pending" "uo_claimed_by send_row = None"
  "lower send_hash = send_hash" "uo_user_op send_row = demo_op send_data" "uo_wallet_address send_row = ''7''"
  "uo_chain_id send_row = ''7''"
proof -
  show hash: "lower send_hash = send_hash" by code_simp
  have seven: "lower ''7'' = ''7''" by code_simp
  show "uo_hash send_row = send_hash" "uo_version send_row = 1" "uo_status send_row = Uop_Pending" "uo_claimed_by send_row = None"
    "uo_user_op send_row = demo_op send_data" "uo_wallet_address send_row = ''7''" "uo_chain_id send_row = ''7''"
    by (simp_all add: send_row_def new_user_op_def hash seven)
qed

definition send_claimed_row :: user_op where
  "send_claimed_row = uop_claim_set ''0xbb'' 182000 2000 send_row"

lemma bb_lower: "lower ''0xbb'' = ''0xbb''"
  by code_simp

lemma send_claimed_state:
  "bs_ops send_claimed = [send_claimed_row]" "bs_transfers send_claimed = []"
  "bs_registry send_claimed = snd (requireBundler bundler_env (bs_registry send_start) (signed_by_bundler ''n1'') 2000)"
proof -
  obtain reg where reg: "requireBundler bundler_env (bs_registry send_start) (signed_by_bundler ''n1'') 2000 = (Inr ''0xbb'', reg)"
    using bundler_accepted(1) by (cases "requireBundler bundler_env (bs_registry send_start) (signed_by_bundler ''n1'') 2000") simp
  have unique: "userops_unique [send_row]" by (simp add: userops_unique_def unique_on_def)
  have found: "getWalletUserOpByHash [send_row] send_hash = Some send_row"
    by (simp add: getWalletUserOpByHash_def find_by_def send_row_simps)
  have "uop_claim_where ''0xbb'' 1 2000 send_row" by (simp add: uop_claim_where_def send_row_simps)
  then have "claimWalletUserOp [send_row] send_hash ''0xbb'' 1 180000 2000 = (Inr send_claimed_row, [send_claimed_row])"
    by (simp add: claimWalletUserOp_eq [OF unique] found bb_lower send_row_simps update_where_def send_claimed_row_def)
  then show "bs_ops send_claimed = [send_claimed_row]" "bs_transfers send_claimed = []"
    "bs_registry send_claimed = snd (requireBundler bundler_env (bs_registry send_start) (signed_by_bundler ''n1'') 2000)"
    by (simp_all add: send_claimed_def claimUserOpRoute_def send_submitted_ops reg)
qed

definition send_included_row :: user_op where
  "send_included_row = uop_track_set
     \<lparr>ut_status = Some Uop_Included, ut_tx_hash = Some ''0xf'', ut_reject_reason = None, ut_gas_spent_wei = None,
      ut_expected_version = Some 2, ut_bundler = Some ''0xbb''\<rparr> 3000 send_claimed_row"

lemma send_included_simps:
  "uo_user_op send_included_row = demo_op send_data" "uo_wallet_address send_included_row = ''7''"
  "uo_chain_id send_included_row = ''7''" "uo_status send_included_row = Uop_Included" "uo_tx_hash send_included_row = Some ''0xf''"
  by (simp_all add: send_included_row_def uop_track_set_def send_claimed_row_def uop_claim_set_def send_row_simps coalesce_def)

lemma send_ledger_reads: "ledger_reads demo_abi send_ledger ''7'' ''1'' ''2'' ''1'' ''3''
    \<lparr>sk_symbol = ''USDC'', sk_address = ''1'', sk_decimals = 6\<rparr>"
  by code_simp


lemma send_report_ok:
  "fst (trackUserOpRoute bundler_env demo_abi send_ledger send_claimed (signed_by_bundler ''n2'') send_report [''t1''] 3000) =
     Inr send_included_row"
proof -
  let ?ut = "\<lparr>ut_status = Some Uop_Included, ut_tx_hash = Some ''0xf'', ut_reject_reason = None, ut_gas_spent_wei = None,
      ut_expected_version = Some 2, ut_bundler = Some ''0xbb''\<rparr>"
  have d: "digits ''7''" by code_simp
  have a: "ab_address demo_abi ''7'' = Some ''7''" "ab_address demo_abi ''1'' = Some ''1''" "ab_address demo_abi ''3'' = Some ''3''"
    by code_simp+
  note pay = payments_of_send [OF demo_abi_ok send_built(1) _ send_ledger_reads, of "demo_op send_data"]
  obtain dr where dr: "only_transfer demo_abi send_ledger send_included_row dr"
    using only_draft_of_send [of demo_abi send_included_row send_ledger _ "''3''" 700 "''1''" "''7''"] pay(1) a send_built(2)
    by (auto simp: send_included_simps demo_op_def)
  have "upsertWalletTransfer [] dr ''t1'' 3000 = Some [new_transfer dr ''t1'' 3000]"
    using only_transfer_draft(4) [OF dr]
    by (simp add: upsertWalletTransfer_def matching_transfer_def find_by_def insert_unique_def)
  then have ledger: "fst (recordIncludedUserOpTransfers demo_abi send_ledger [] send_included_row [''t1''] 3000)"
    by (simp add: record_only [OF dr])
  have found: "getWalletUserOpByHash [send_claimed_row] send_hash = Some send_claimed_row"
    by (simp add: getWalletUserOpByHash_def find_by_def send_row_simps send_claimed_row_def)
  have "\<not> uop_track_refused send_claimed_row ?ut"
    by (simp add: uop_track_refused_def send_claimed_row_def uop_claim_set_def send_row_simps bb_lower)
  then have "fst (trackWalletUserOp [send_claimed_row] send_hash ?ut 3000) = Inr send_included_row"
    by (simp add: trackWalletUserOp_eq found send_included_row_def)
  moreover obtain reg where "requireBundler bundler_env (bs_registry send_claimed) (signed_by_bundler ''n2'') 3000 = (Inr ''0xbb'', reg)"
    using bundler_accepted(2) unfolding send_claimed_state
    by (cases "requireBundler bundler_env (snd (requireBundler bundler_env (bs_registry send_start) (signed_by_bundler ''n1'') 2000))
          (signed_by_bundler ''n2'') 3000") simp
  moreover have "parseUserOpStatus (Some ''included'') = Some Uop_Included" by code_simp
  ultimately show ?thesis using ledger
    by (simp add: trackUserOpRoute_def send_report_def send_claimed_state split_beta Let_def split: sum.split prod.split)
qed

theorem included_payment_recorded_witness:
  "\<exists>s. bs_transfers (snd (trackUserOpRoute bundler_env demo_abi send_ledger send_claimed (signed_by_bundler ''n2'') send_report [''t1''] 3000)) = [s]
     \<and> tf_amount s = ''700'' \<and> tf_counterparty s = ''3''"
proof -
  obtain st' where st': "trackUserOpRoute bundler_env demo_abi send_ledger send_claimed (signed_by_bundler ''n2'') send_report [''t1''] 3000 =
      (Inr send_included_row, st')"
    using send_report_ok
    by (cases "trackUserOpRoute bundler_env demo_abi send_ledger send_claimed (signed_by_bundler ''n2'') send_report [''t1''] 3000") simp
  have a: "ab_address demo_abi ''7'' = Some ''7''" "ab_address demo_abi ''3'' = Some ''3''" "lower ''3'' = ''3''" "int_text 700 = ''700''"
    by code_simp+
  have "encodeExecuteCallData demo_abi send_calls = Some (puo_call_data (uo_user_op send_included_row))"
    by (simp add: send_included_simps demo_op_def send_built)
  from included_payment_recorded [OF demo_abi_ok send_built(1) this _ st', of "\<lparr>sk_symbol = ''USDC'', sk_address = ''1'', sk_decimals = 6\<rparr>" "''7''"]
  show ?thesis using a send_ledger_reads by (auto simp: st' send_included_simps send_claimed_state semantic_key_def)
qed


theorem live_operation_kept_witness:
  "getWalletUserOpByHash (snd (submitUserOpRoute demo_abi send_conf [] [send_row] send_body ''u2'' 1500)) send_hash = Some send_row"
proof -
  have "userops_unique [send_row]" "getWalletUserOpByHash [send_row] send_hash = Some send_row" "uop_live send_row"
    by (simp_all add: userops_unique_def unique_on_def getWalletUserOpByHash_def find_by_def uop_live_def send_row_simps)
  from live_operation_kept [OF this] show ?thesis by blast
qed

end
