(* ===== verification/BundlerDemo.thy ===== *)
theory BundlerDemo
  imports BundlerProps UserOpRouteDemo
begin

text \<open>The worker on the send of \<open>UserOpRouteDemo\<close>: the witnesses of its theorems.\<close>

definition worker_chain :: bundler_chain where
  "worker_chain =
     \<lparr>bn_chain_id = ''7'', bn_rpc_url = Some ''u'', bn_bundler_address = Some ''2'', bn_private_key = Some ''k'', bn_beneficiary = None,
      bn_fee_usdc = Some ''10'', bn_fee_token = Some ''1'', bn_fee_symbol = None, bn_fee_decimals = None\<rparr>"

text \<open>A node on which the sender has 1000 units and every operation succeeds.\<close>

definition worker_node :: "unit chain_access" where
  "worker_node =
     \<lparr>ca_hash = (\<lambda>_. Some send_hash), ca_balance = (\<lambda>_ _. Some 1000), ca_deposit = (\<lambda>_. Some 0), ca_deposit_to = (\<lambda>_ _. True),
      ca_simulate = (\<lambda>_ _. None),
      ca_handle_ops = (\<lambda>_ _. Some \<lparr>rc_status = 1, rc_logs = [()], rc_hash = ''0xf'', rc_gas_used = 21\<rparr>),
      ca_decode_reason = (\<lambda>_. None), ca_parse_log = (\<lambda>_. Some (''UserOperationEvent'', send_hash, True))\<rparr>"

lemma worker_fee: "bundlerFeeConfig worker_chain = Some demo_fee" "fee_recipient worker_chain = ''2''"
  by code_simp+

lemma worker_checks: "op_checks demo_abi worker_node worker_chain send_row = ([], Op_Send ''2'')"
  by code_simp


definition worker_clock :: "nat \<Rightarrow> timestamp" where
  "worker_clock n = 2000 + int n"

definition worker_server :: "userop_table op_server" where
  "worker_server = serve ''0xbb'' 180000 worker_clock quiet"

definition worker_receipt :: "unit tx_receipt" where
  "worker_receipt = \<lparr>rc_status = 1, rc_logs = [()], rc_hash = ''0xf'', rc_gas_used = 21\<rparr>"

lemma worker_queue: "userops_unique [send_row]" "getWalletUserOpByHash [send_row] (uo_hash send_row) = Some send_row"
  "uop_claim_where ''0xbb'' 1 2000 send_row"
  by (simp_all add: userops_unique_def unique_on_def getWalletUserOpByHash_def find_by_def send_row_simps uop_claim_where_def)

lemma quiet_run_delivers_witness:
  "\<exists>r'. getWalletUserOpByHash (snd (snd (processUserOp demo_abi worker_node 5 worker_server worker_chain send_row 0 [send_row]))) send_hash = Some r' \<and>
     uo_status r' = Uop_Included \<and> uo_tx_hash r' = Some ''0xf''"
proof -
  have receipt: "ca_handle_ops worker_node (uo_user_op send_row) ''2'' = Some worker_receipt"
    by (simp add: worker_node_def worker_receipt_def)
  have ok: "userOpExecutionSucceeded (ca_parse_log worker_node) [()] send_hash" by code_simp
  have low: "lower ''0xbb'' = ''0xbb''" by code_simp
  have "uop_claim_where (lower ''0xbb'') (uo_version send_row) (worker_clock 0) send_row"
    using worker_queue(3) by (simp add: worker_clock_def send_row_simps low)
  from quiet_run_delivers [where retries = 4 and a = "''0xbb''" and clock = worker_clock and n = 0 and lease = 180000,
      OF worker_checks receipt worker_queue(1,2) this]
  show ?thesis using ok by (auto simp: worker_server_def worker_receipt_def send_row_simps split_beta Let_def)
qed

lemma worker_events: "Handle_Ops (demo_op send_data) ''2'' \<in> set (fst (processUserOp demo_abi worker_node 5 worker_server worker_chain send_row 0 [send_row]))"
proof -
  have claim: "claimWithRetry worker_server 5 0 send_hash 1 [send_row] = (Some (Some send_claimed_row), 1, [send_claimed_row])"
    using worker_queue
    by (simp add: worker_server_def serve_def numeral_eq_Suc claimWalletUserOp_eq reply_of_def send_row_simps bb_lower worker_clock_def
        update_where_def send_claimed_row_def)
  obtain y n2 t2 where "trackWithRetry worker_server 5 1 send_hash (report Uop_Submitted None 2) [send_claimed_row] = (Some y, n2, t2)"
  proof -
    have "getWalletUserOpByHash [send_claimed_row] send_hash = Some send_claimed_row" "uo_claimed_by send_claimed_row = Some (lower ''0xbb'')"
        "uo_version send_claimed_row = 2"
      by (simp_all add: send_claimed_row_def uop_claim_set_def getWalletUserOpByHash_def find_by_def send_row_simps bb_lower)
    from quiet_track [OF this(1,2), of "report Uop_Submitted None 2" 180000 worker_clock 4 1] this(3) that
    show thesis by (simp add: worker_server_def report_def numeral_eq_Suc)
  qed
  moreover have "uo_version send_claimed_row = 2" by (simp add: send_claimed_row_def uop_claim_set_def send_row_simps)
  ultimately show ?thesis
    using claim by (simp add: processUserOp_def worker_checks send_row_simps split: option.split)
qed

lemma sends_only_checked_witness: "passed_checks demo_abi worker_node worker_chain send_row ''2''"
  using sends_only_checked [OF worker_events] by simp

lemma sent_operation_claimed_witness:
  "\<exists>c n1 t1. claimWithRetry worker_server 5 0 send_hash 1 [send_row] = (Some (Some c), n1, t1) \<and> uo_claimed_by c = Some ''0xbb''"
  using sent_operation_claimed [OF worker_queue(1) worker_events [unfolded worker_server_def]]
  by (auto simp: worker_server_def send_row_simps bb_lower)

text \<open>The operation was rejected and submitted again, so the queue has version 3; now the balance of the listing's node is too low.\<close>

definition resubmitted_row :: user_op where
  "resubmitted_row = send_row\<lparr>uo_version := 3\<rparr>"

lemma stale_rejection_applied_witness:
  "\<exists>c'. getWalletUserOpByHash (snd (snd (processUserOp demo_abi (worker_node\<lparr>ca_balance := \<lambda>_ _. Some 0\<rparr>) 5 worker_server worker_chain send_row 0
       [resubmitted_row]))) send_hash = Some c' \<and> uo_status c' = Uop_Rejected"
proof -
  have checks: "op_checks demo_abi (worker_node\<lparr>ca_balance := \<lambda>_ _. Some 0\<rparr>) worker_chain send_row = ([], Op_Reject ''insufficient_balance'')"
    by code_simp
  have "getWalletUserOpByHash [resubmitted_row] (uo_hash send_row) = Some resubmitted_row" "uo_claimed_by resubmitted_row = None"
    "uo_status resubmitted_row \<noteq> Uop_Included" "uo_version send_row \<noteq> uo_version resubmitted_row"
    by (simp_all add: resubmitted_row_def getWalletUserOpByHash_def find_by_def send_row_simps)
  from stale_rejection_applied [where retries = 3, OF checks this, of "''0xbb''" 180000 worker_clock 0]
  show ?thesis by (auto simp: worker_server_def send_row_simps numeral_eq_Suc)
qed

end
