(* ===== verification/Proposals.thy ===== *)
theory Proposals
  imports UserOpRoutes
begin

text \<open>
  Proposals of wallets with several signers: the tables \<open>wallet_proposals\<close> and
  \<open>wallet_proposal_sigs\<close> of commerce/server/db.ts, the packing of signatures
  (commerce/shared/advanced-wallet.ts), and the routes of commerce/server/wallet-advanced-routes.ts
  that create, prepare, sign and execute a proposal. None of these routes asks who calls.
\<close>

section \<open>The tables\<close>

datatype proposal_status = Pp_Draft | Pp_Signing | Pp_Ready | Pp_Executed | Pp_Cancelled

record proposal =
  pp_id :: string
  pp_wallet :: address
  pp_chain_id :: string
  pp_target :: address
  pp_value :: string
  pp_data :: string
  pp_nonce :: "string option"
  pp_status :: proposal_status
  pp_tx_hash :: "string option"
  pp_created_at :: timestamp
  pp_updated_at :: timestamp

record proposal_sig =
  ps_proposal :: string
  ps_entity :: string
  ps_key_id :: string
  ps_key_type :: int
  ps_signature :: string
  ps_created_at :: timestamp

definition sig_key :: "proposal_sig \<Rightarrow> string \<times> string" where
  "sig_key s = (ps_proposal s, ps_entity s)"

record proposal_db =
  pd_proposals :: "proposal list"
  pd_sigs :: "proposal_sig list"

text \<open>A proposal is read with the number of its signatures.\<close>

definition getWalletProposal :: "proposal_db \<Rightarrow> string \<Rightarrow> (proposal \<times> nat) option" where
  "getWalletProposal db i =
     map_option (\<lambda>p. (p, length (filter (\<lambda>s. ps_proposal s = pp_id p) (pd_sigs db)))) (find_by pp_id i (pd_proposals db))"

definition createWalletProposal ::
    "proposal_db \<Rightarrow> string \<Rightarrow> address \<Rightarrow> string \<Rightarrow> address \<Rightarrow> string \<Rightarrow> string \<Rightarrow> timestamp \<Rightarrow> (proposal \<times> proposal_db) option" where
  "createWalletProposal db i w c target value data now =
     (let p = \<lparr>pp_id = i, pp_wallet = lower w, pp_chain_id = c, pp_target = lower target, pp_value = value, pp_data = data,
               pp_nonce = None, pp_status = Pp_Draft, pp_tx_hash = None, pp_created_at = now, pp_updated_at = now\<rparr> in
      map_option (\<lambda>t. (p, db\<lparr>pd_proposals := t\<rparr>)) (insert_unique pp_id p (pd_proposals db)))"

text \<open>An UPDATE of the proposals that satisfy \<open>P\<close>; \<open>None\<close> when there are none.\<close>

definition update_proposal ::
    "proposal_db \<Rightarrow> string \<Rightarrow> (proposal \<Rightarrow> bool) \<Rightarrow> (proposal \<Rightarrow> proposal) \<Rightarrow> (proposal \<times> nat) option \<times> proposal_db" where
  "update_proposal db i P f =
     (let Q = (\<lambda>p. pp_id p = i \<and> P p) in
      if changes Q (pd_proposals db) = 0 then (None, db)
      else (let db' = db\<lparr>pd_proposals := update_where Q f (pd_proposals db)\<rparr> in (getWalletProposal db' i, db')))"

definition preparable :: "proposal \<Rightarrow> bool" where
  "preparable p =
     (pp_status p = Pp_Draft \<or> pp_status p = Pp_Signing \<or> pp_status p = Pp_Ready \<or>
      (pp_status p = Pp_Executed \<and> pp_tx_hash p = None))"

definition prepareWalletProposal :: "proposal_db \<Rightarrow> string \<Rightarrow> string \<Rightarrow> timestamp \<Rightarrow> (proposal \<times> nat) option \<times> proposal_db" where
  "prepareWalletProposal db i nonce now =
     update_proposal db i preparable (\<lambda>p. p\<lparr>pp_nonce := Some nonce, pp_status := Pp_Signing, pp_updated_at := now\<rparr>)"

definition updateWalletProposalStatus :: "proposal_db \<Rightarrow> string \<Rightarrow> proposal_status \<Rightarrow> timestamp \<Rightarrow> (proposal \<times> nat) option \<times> proposal_db" where
  "updateWalletProposalStatus db i st now =
     update_proposal db i (\<lambda>_. True) (\<lambda>p. p\<lparr>pp_status := st, pp_updated_at := now\<rparr>)"

definition updateWalletProposalTxHash :: "proposal_db \<Rightarrow> string \<Rightarrow> string \<Rightarrow> timestamp \<Rightarrow> (proposal \<times> nat) option \<times> proposal_db" where
  "updateWalletProposalTxHash db i tx now =
     update_proposal db i (\<lambda>_. True) (\<lambda>p. p\<lparr>pp_tx_hash := Some tx, pp_status := Pp_Executed, pp_updated_at := now\<rparr>)"

definition listWalletProposals :: "proposal_db \<Rightarrow> address \<Rightarrow> proposal_status option \<Rightarrow> (proposal \<times> nat) list" where
  "listWalletProposals db w st =
     List.map_filter (\<lambda>p. getWalletProposal db (pp_id p))
       (order_desc pp_created_at (filter (\<lambda>p. pp_wallet p = lower w \<and> opt_all (\<lambda>s. pp_status p = s) st) (pd_proposals db)))"

text \<open>The foreign key: \<open>None\<close> when the proposal does not exist.\<close>

definition addWalletProposalSig ::
    "proposal_db \<Rightarrow> string \<Rightarrow> string \<Rightarrow> string \<Rightarrow> int \<Rightarrow> string \<Rightarrow> timestamp \<Rightarrow> (proposal_sig \<times> proposal_db) option" where
  "addWalletProposalSig db i e k ty sig now =
     (if find_by pp_id i (pd_proposals db) = None then None
      else (let s = \<lparr>ps_proposal = i, ps_entity = e, ps_key_id = k, ps_key_type = ty, ps_signature = sig, ps_created_at = now\<rparr> in
            Some (s, db\<lparr>pd_sigs := upsert sig_key s (\<lambda>_. s) (pd_sigs db)\<rparr>)))"

definition getWalletProposalSig :: "proposal_db \<Rightarrow> string \<Rightarrow> string \<Rightarrow> proposal_sig option" where
  "getWalletProposalSig db i e = find_by sig_key (i, e) (pd_sigs db)"

definition listWalletProposalSigs :: "proposal_db \<Rightarrow> string \<Rightarrow> proposal_sig list" where
  "listWalletProposalSigs db i = order_asc ps_created_at (filter (\<lambda>s. ps_proposal s = i) (pd_sigs db))"

section \<open>Packed signatures\<close>

text \<open>\<open>av_encode\<close> and \<open>av_decode\<close>: the ABI codec on \<open>tuple(bytes32,bytes)[]\<close>.\<close>

record sig_codec =
  av_encode :: "(string \<times> string) list \<Rightarrow> string option"
  av_decode :: "string \<Rightarrow> (string \<times> string) list option"

definition ADVANCED_SIG_MAGIC :: string where
  "ADVANCED_SIG_MAGIC = ''0x41574431''"

definition encodeAdvancedSignature :: "sig_codec \<Rightarrow> (string \<times> string) list \<Rightarrow> string option" where
  "encodeAdvancedSignature cod sigs = map_option (\<lambda>p. ADVANCED_SIG_MAGIC @ drop 2 p) (av_encode cod sigs)"

definition decodeAdvancedSignature :: "sig_codec \<Rightarrow> string \<Rightarrow> (string \<times> string) list option" where
  "decodeAdvancedSignature cod s =
     (if starts_with s ADVANCED_SIG_MAGIC then av_decode cod (''0x'' @ drop 10 s) else None)"

text \<open>The signature of the key in a packed one, or its first.\<close>

definition inner_sig :: "(string \<times> string) list \<Rightarrow> string \<Rightarrow> string option" where
  "inner_sig parts k =
     map_option snd (coalesce (if k = '''' then None else find (\<lambda>p. lower (fst p) = lower k) parts)
                              (case parts of [] \<Rightarrow> None | p # _ \<Rightarrow> Some p))"

text \<open>At most three layers are taken off.\<close>

fun unwrap_layers :: "sig_codec \<Rightarrow> string \<Rightarrow> nat \<Rightarrow> string \<Rightarrow> string" where
  "unwrap_layers cod k 0 s = s"
| "unwrap_layers cod k (Suc n) s =
     (if \<not> starts_with (lower s) ADVANCED_SIG_MAGIC then s
      else (case Option.bind (decodeAdvancedSignature cod s) (\<lambda>parts. or_null (inner_sig parts k)) of
              None \<Rightarrow> s
            | Some inner \<Rightarrow> unwrap_layers cod k n inner))"

definition unwrapAdvancedInnerSig :: "sig_codec \<Rightarrow> string \<Rightarrow> string \<Rightarrow> string" where
  "unwrapAdvancedInnerSig cod s k = unwrap_layers cod k 3 s"

definition pack_signatures :: "sig_codec \<Rightarrow> proposal_sig list \<Rightarrow> string option" where
  "pack_signatures cod sigs =
     encodeAdvancedSignature cod (map (\<lambda>s. (ps_key_id s, unwrapAdvancedInnerSig cod (ps_signature s) (ps_key_id s))) sigs)"

section \<open>The operation of a proposal\<close>

text \<open>The node of a chain: \<open>getNonce\<close> and \<open>getUserOpHash\<close> of the entry point; \<open>None\<close> is an exception.\<close>

record entry_point =
  ep_nonce :: "address \<Rightarrow> int option"
  ep_hash :: "packed_user_op \<Rightarrow> string option"

text \<open>\<open>pc_node\<close>: the node of a chain, or of the default one when the chain is not configured; \<open>None\<close> without an RPC address.\<close>

record proposal_config =
  pc_chain_id :: string
  pc_transfers :: transfer_config
  pc_bundler_fee :: int
  pc_node :: "string \<Rightarrow> entry_point option"

definition buildProposalUserOp :: "abi_env \<Rightarrow> proposal_config \<Rightarrow> address \<Rightarrow> proposal \<Rightarrow> string \<Rightarrow> packed_user_op option" where
  "buildProposalUserOp env conf wallet p signature =
     (let fee_token = ch_fee_token (chainFor (pc_transfers conf) (pp_chain_id p)); beneficiary = tc_beneficiary (pc_transfers conf) in
      if \<not> truthy fee_token \<or> \<not> truthy beneficiary then None
      else (case (buildFeeTransferCall env (the fee_token) (the beneficiary) (pc_bundler_fee conf), ab_address env (pp_target p),
                  BigInt_text (pp_value p), BigInt_text (nullish (pp_nonce p) ''0'')) of
              (Some fee_call, Some target, Some value, Some nonce) \<Rightarrow>
                (case encodeExecuteCallData env [fee_call, \<lparr>bc_target = target, bc_value = value, bc_data = pp_data p\<rparr>] of
                   None \<Rightarrow> None
                 | Some cd \<Rightarrow> buildPackedUserOperation env wallet nonce cd (Some signature) DEFAULT_GAS)
            | _ \<Rightarrow> None))"

definition computeProposalUserOpHash :: "abi_env \<Rightarrow> proposal_config \<Rightarrow> address \<Rightarrow> proposal \<Rightarrow> string option" where
  "computeProposalUserOpHash env conf wallet p =
     (case (buildProposalUserOp env conf wallet p ''0x'', pc_node conf (pp_chain_id p)) of
        (Some op, Some node) \<Rightarrow> ep_hash node op
      | _ \<Rightarrow> None)"

definition recordProposalTransfers ::
    "abi_env \<Rightarrow> transfer_config \<Rightarrow> transfer list \<Rightarrow> proposal \<Rightarrow> string \<Rightarrow> timestamp \<Rightarrow> bool \<times> transfer list" where
  "recordProposalTransfers env conf t p i now =
     (if \<not> truthy (pp_tx_hash p) then (True, t)
      else (let ch = chainFor conf (pp_chain_id p) in
            case outgoingTransferFromProposal env (pp_wallet p) (pp_chain_id p) (the (pp_tx_hash p)) (pp_id p) (pp_target p) (pp_data p)
                   (stablesForChain ch) (coalesce (ch_fee_token ch) (tc_fee_token conf)) (tc_beneficiary conf) of
              None \<Rightarrow> (False, t)
            | Some None \<Rightarrow> (True, t)
            | Some (Some d) \<Rightarrow> store_transfers t [d] [i] now))"

end
