(* ===== verification/ProposalRoutes.thy ===== *)
theory ProposalRoutes
  imports Proposals
begin

text \<open>
  The routes of proposals (commerce/server/wallet-advanced-routes.ts). A body field is given as the
  text \<open>String(value)\<close> of it, absent or null as \<open>None\<close>; a key type as \<open>Number\<close> reads it, \<open>None\<close> for
  \<open>NaN\<close>. Where a route waits for the chain, \<open>world\<close> is what other requests do to the tables in the
  meantime.
\<close>

record proposal_state =
  pt_db :: proposal_db
  pt_ops :: userop_table
  pt_transfers :: "transfer list"

type_synonym 'a proposal_result = "user_op http_error + 'a"

definition refuse :: "nat \<Rightarrow> string \<Rightarrow> 'a proposal_result" where
  "refuse n e = Inl (Http_Error n e None)"

definition crash :: "'a proposal_result" where
  "crash = refuse 500 ''Internal error''"

record proposal_body =
  pb_target :: "string option"
  pb_value :: "string option"
  pb_data :: "string option"
  pb_chain_id :: "string option"

definition createProposalRoute ::
    "abi_env \<Rightarrow> proposal_config \<Rightarrow> proposal_state \<Rightarrow> string \<Rightarrow> proposal_body \<Rightarrow> string \<Rightarrow> timestamp \<Rightarrow> proposal proposal_result \<times> proposal_state" where
  "createProposalRoute env conf st wallet body i now =
     (case ab_address env wallet of
        None \<Rightarrow> (crash, st)
      | Some w \<Rightarrow>
          (let target = trim (nullish (pb_target body) '''') in
           if ab_address env target = None then (refuse 400 ''invalid_target'', st)
           else (case createWalletProposal (pt_db st) i w (nullish (pb_chain_id body) (pc_chain_id conf)) target
                        (nullish (pb_value body) ''0'') (nullish (pb_data body) ''0x'') now of
                   None \<Rightarrow> (crash, st)
                 | Some (p, db) \<Rightarrow> (Inr p, st\<lparr>pt_db := db\<rparr>))))"

definition listProposalsRoute :: "abi_env \<Rightarrow> proposal_state \<Rightarrow> string \<Rightarrow> proposal_status option \<Rightarrow> (proposal \<times> nat) list proposal_result" where
  "listProposalsRoute env st wallet status =
     (case ab_address env wallet of
        None \<Rightarrow> crash
      | Some w \<Rightarrow> Inr (listWalletProposals (pt_db st) w status))"

text \<open>The proposal a path names, of the wallet the path names.\<close>

definition named_proposal :: "abi_env \<Rightarrow> proposal_state \<Rightarrow> string \<Rightarrow> string \<Rightarrow> (address \<times> proposal) proposal_result" where
  "named_proposal env st wallet i =
     (case ab_address env wallet of
        None \<Rightarrow> crash
      | Some w \<Rightarrow>
          (case getWalletProposal (pt_db st) i of
             None \<Rightarrow> refuse 404 ''proposal_not_found''
           | Some (p, n) \<Rightarrow> if lower (pp_wallet p) \<noteq> lower w then refuse 404 ''proposal_not_found'' else Inr (w, p)))"

definition showProposalRoute :: "abi_env \<Rightarrow> proposal_state \<Rightarrow> string \<Rightarrow> string \<Rightarrow> (proposal \<times> proposal_sig list) proposal_result" where
  "showProposalRoute env st wallet i =
     (case named_proposal env st wallet i of
        Inl e \<Rightarrow> Inl e
      | Inr (w, p) \<Rightarrow> Inr (p, listWalletProposalSigs (pt_db st) i))"

text \<open>
  PATCH: the transaction of the proposal, from whoever sends one. A proposal that was found stays, so
  that the route is one step although it reads its body after it has looked; so it is with signing.
 \<open>j\<close> is the key of a new ledger row.
\<close>

definition reportTxRoute ::
    "abi_env \<Rightarrow> proposal_config \<Rightarrow> proposal_state \<Rightarrow> string \<Rightarrow> string \<Rightarrow> string option \<Rightarrow> string \<Rightarrow> timestamp \<Rightarrow> proposal option proposal_result \<times> proposal_state" where
  "reportTxRoute env conf st wallet i tx j now =
     (case named_proposal env st wallet i of
        Inl e \<Rightarrow> (Inl e, st)
      | Inr _ \<Rightarrow>
          (let hash = trim (nullish tx '''') in
           if hash = '''' then (refuse 400 ''tx_hash_required'', st)
           else (case updateWalletProposalTxHash (pt_db st) i hash now of
                   (None, db) \<Rightarrow> (Inr None, st\<lparr>pt_db := db\<rparr>)
                 | (Some (p, n), db) \<Rightarrow>
                     (let (ok, ledger) = recordProposalTransfers env (pc_transfers conf) (pt_transfers st) p j now in
                      (if ok then Inr (Some p) else crash, st\<lparr>pt_db := db, pt_transfers := ledger\<rparr>)))))"

text \<open>
  A proposal that can no longer be prepared is \<open>null\<close>, and reading its chain throws; the wait is for
  the nonce.
\<close>

definition prepareProposalRoute ::
    "abi_env \<Rightarrow> proposal_config \<Rightarrow> proposal_state \<Rightarrow> (proposal_state \<Rightarrow> proposal_state) \<Rightarrow> string \<Rightarrow> string \<Rightarrow> timestamp \<Rightarrow>
     (proposal \<times> string) proposal_result \<times> proposal_state" where
  "prepareProposalRoute env conf st world wallet i now =
     (case named_proposal env st wallet i of
        Inl e \<Rightarrow> (Inl e, st)
      | Inr (w, p) \<Rightarrow>
          (case pc_node conf (pp_chain_id p) of
             None \<Rightarrow> (refuse 503 ''rpc_unavailable'', st)
           | Some node \<Rightarrow>
               (case ep_nonce node w of
                  None \<Rightarrow> (crash, world st)
                | Some nonce \<Rightarrow>
                    (let st1 = world st in
                     case prepareWalletProposal (pt_db st1) i (int_text nonce) now of
                       (None, db) \<Rightarrow> (crash, st1\<lparr>pt_db := db\<rparr>)
                     | (Some (q, n), db) \<Rightarrow>
                         (case computeProposalUserOpHash env conf w q of
                            None \<Rightarrow> (crash, st1\<lparr>pt_db := db\<rparr>)
                          | Some h \<Rightarrow> (Inr (q, h), st1\<lparr>pt_db := db\<rparr>))))))"

record sign_body =
  gb_entity :: "string option"
  gb_key_id :: "string option"
  gb_key_type :: "int option option"
  gb_signature :: "string option"

text \<open>A key type that is \<open>NaN\<close> is not negative; the NOT NULL column then refuses it.\<close>

definition signProposalRoute ::
    "abi_env \<Rightarrow> proposal_state \<Rightarrow> string \<Rightarrow> string \<Rightarrow> sign_body \<Rightarrow> timestamp \<Rightarrow> proposal_sig proposal_result \<times> proposal_state" where
  "signProposalRoute env st wallet i body now =
     (case named_proposal env st wallet i of
        Inl e \<Rightarrow> (Inl e, st)
      | Inr _ \<Rightarrow>
          (let field = (\<lambda>x. trim (nullish x '''')); e = field (gb_entity body); k = field (gb_key_id body);
               ty = nullish (gb_key_type body) (Some (-1)); sig = field (gb_signature body) in
           if e = '''' \<or> k = '''' \<or> sig = '''' \<or> opt_ex (\<lambda>n. n < 0) ty then (refuse 400 ''invalid_signature'', st)
           else (case ty of
                   None \<Rightarrow> (crash, st)
                 | Some n \<Rightarrow>
                     (case addWalletProposalSig (pt_db st) i e k n sig now of
                        None \<Rightarrow> (crash, st)
                      | Some (s, db) \<Rightarrow> (Inr s, st\<lparr>pt_db := db\<rparr>)))))"

section \<open>Execution\<close>

text \<open>A nonce is fetched when the proposal has none, or was executed without a transaction.\<close>

definition needs_nonce :: "proposal \<Rightarrow> bool" where
  "needs_nonce p = (\<not> truthy (pp_nonce p) \<or> pp_status p = Pp_Executed)"

definition execute_prepare ::
    "proposal_config \<Rightarrow> proposal_state \<Rightarrow> (proposal_state \<Rightarrow> proposal_state) \<Rightarrow> address \<Rightarrow> proposal \<Rightarrow> timestamp \<Rightarrow>
     proposal proposal_result \<times> proposal_state" where
  "execute_prepare conf st world w p now =
     (if \<not> needs_nonce p then (Inr p, st)
      else (case pc_node conf (pp_chain_id p) of
         None \<Rightarrow> (refuse 503 ''rpc_unavailable'', st)
       | Some node \<Rightarrow>
           (case ep_nonce node w of
              None \<Rightarrow> (crash, world st)
            | Some nonce \<Rightarrow>
                (let st1 = world st; (q, db) = prepareWalletProposal (pt_db st1) (pp_id p) (int_text nonce) now in
                 (Inr (nullish (map_option fst q) p), st1\<lparr>pt_db := db\<rparr>)))))"

text \<open>The operation is put into the queue, or the one that is already there is answered.\<close>

definition queue_operation ::
    "proposal_state \<Rightarrow> address \<Rightarrow> proposal \<Rightarrow> packed_user_op \<Rightarrow> string \<Rightarrow> string \<Rightarrow> timestamp \<Rightarrow>
     (string \<times> user_op) proposal_result \<times> proposal_state" where
  "queue_operation st w p op h j now =
     (let existing = getWalletUserOpByHash (pt_ops st) h;
          raced = (\<lambda>ops. case getWalletUserOpByHash ops h of
             Some r \<Rightarrow> Inr (h, r) | None \<Rightarrow> refuse 409 ''duplicate_user_op_hash'') in
      case existing of
        Some e \<Rightarrow>
          if uo_status e = Uop_Included
          then (Inr (h, e),
                if truthy (uo_tx_hash e)
                then st\<lparr>pt_db := snd (updateWalletProposalTxHash (pt_db st) (pp_id p) (the (uo_tx_hash e)) now)\<rparr> else st)
          else if uop_live e then (Inr (h, e), st)
          else (case requeueWalletUserOp (pt_ops st) h op w (pp_chain_id p) now of
                  (Some r, ops) \<Rightarrow> (Inr (h, r), st\<lparr>pt_ops := ops\<rparr>)
                | (None, ops) \<Rightarrow> (raced ops, st\<lparr>pt_ops := ops\<rparr>))
      | None \<Rightarrow>
          (case createWalletUserOp (pt_ops st) j w (pp_chain_id p) h op now of
             (Inr r, ops) \<Rightarrow> (Inr (h, r), st\<lparr>pt_ops := ops\<rparr>)
           | (Inl _, ops) \<Rightarrow> (raced ops, st\<lparr>pt_ops := ops\<rparr>)))"

text \<open>
  \<open>override\<close> is a signature in the body; the waits are for the body (\<open>reading\<close>), for the nonce and for
  the hash. The proposal is looked up before the body is there.
\<close>

definition executeProposalRoute ::
    "abi_env \<Rightarrow> sig_codec \<Rightarrow> proposal_config \<Rightarrow> proposal_state \<Rightarrow> (proposal_state \<Rightarrow> proposal_state) \<Rightarrow>
     (proposal_state \<Rightarrow> proposal_state) \<Rightarrow> (proposal_state \<Rightarrow> proposal_state) \<Rightarrow>
     string \<Rightarrow> string \<Rightarrow> string option \<Rightarrow> string \<Rightarrow> timestamp \<Rightarrow> (string \<times> user_op) proposal_result \<times> proposal_state" where
  "executeProposalRoute env cod conf st reading world world' wallet i override j now =
     (case named_proposal env st wallet i of
        Inl e \<Rightarrow> (Inl e, st)
      | Inr (w, p) \<Rightarrow>
          let st0 = reading st in
          if truthy (pp_tx_hash p) then (refuse 409 ''already_executed'', st0)
          else if pp_status p = Pp_Cancelled then (refuse 409 ''proposal_cancelled'', st0)
          else (let sigs = listWalletProposalSigs (pt_db st0) i in
                if sigs = [] then (refuse 400 ''no_signatures'', st0)
                else (case execute_prepare conf st0 world w p now of
                   (Inl e, st1) \<Rightarrow> (Inl e, st1)
                 | (Inr q, st1) \<Rightarrow>
                     (case pack_signatures cod sigs of
                        None \<Rightarrow> (crash, st1)
                      | Some packed \<Rightarrow>
                          (case (buildProposalUserOp env conf w q (nullish override packed), pc_node conf (pp_chain_id p)) of
                             (Some op, Some node) \<Rightarrow>
                               (case ep_hash node op of
                                  None \<Rightarrow> (crash, world' st1)
                                | Some h \<Rightarrow> queue_operation (world' st1) w p op h j now)
                           | _ \<Rightarrow> (crash, st1))))))"

end
