(* ===== verification/ProposalProps.thy ===== *)
theory ProposalProps
  imports ProposalRoutes RowOrder UserOpRouteProps
begin

text \<open>
  The properties of proposals. The routes are shown to take the steps of a small machine on the
  tables; what holds along its runs, the invariant of the tables and the forward movement of
  every proposal, then holds of any interleaving of requests.
\<close>

section \<open>The machine\<close>

text \<open>A run changes proposals and signatures by these steps only; queue and ledger may change freely.\<close>

inductive proposal_step :: "proposal_state \<Rightarrow> proposal_state \<Rightarrow> bool" where
  created: "createWalletProposal (pt_db st) i w c target value data now = Some (p, db) \<Longrightarrow> proposal_step st (st\<lparr>pt_db := db\<rparr>)"
| prepared: "proposal_step st (st\<lparr>pt_db := snd (prepareWalletProposal (pt_db st) i nonce now)\<rparr>)"
| closed: "tx \<noteq> [] \<Longrightarrow> proposal_step st (st\<lparr>pt_db := snd (updateWalletProposalTxHash (pt_db st) i tx now)\<rparr>)"
| signed: "addWalletProposalSig (pt_db st) i e k ty sig now = Some (s, db) \<Longrightarrow> proposal_step st (st\<lparr>pt_db := db\<rparr>)"
| other: "proposal_step st (st\<lparr>pt_ops := ops, pt_transfers := ledger\<rparr>)"

abbreviation proposal_steps :: "proposal_state \<Rightarrow> proposal_state \<Rightarrow> bool" where
  "proposal_steps \<equiv> proposal_step\<^sup>*\<^sup>*"

lemma steps_ops: "proposal_steps st (st\<lparr>pt_ops := ops\<rparr>)"
  using r_into_rtranclp [of proposal_step, OF proposal_step.other [where st = st and ops = ops and ledger = "pt_transfers st"]] by simp

lemma steps_ledger: "proposal_steps st (st\<lparr>pt_transfers := ledger\<rparr>)"
  using r_into_rtranclp [of proposal_step, OF proposal_step.other [where st = st and ops = "pt_ops st" and ledger = ledger]] by simp

section \<open>The routes take its steps\<close>

lemma create_route_steps: "proposal_steps st (snd (createProposalRoute env conf st wallet body i now))"
proof -
  have "proposal_steps st (st\<lparr>pt_db := db\<rparr>)" if "createWalletProposal (pt_db st) i w c target amt data now = Some (p, db)"
    for w c target amt data p db
    using proposal_step.created [OF that] by (rule r_into_rtranclp)
  then show ?thesis by (auto simp: createProposalRoute_def Let_def split: option.split)
qed

lemma tx_route_steps: "proposal_steps st (snd (reportTxRoute env conf st wallet i tx j now))"
proof -
  let ?hash = "trim (nullish tx [])"
  have "proposal_steps st (st\<lparr>pt_db := snd (updateWalletProposalTxHash (pt_db st) i ?hash now), pt_transfers := ledger\<rparr>)"
    if "?hash \<noteq> []" for ledger
    using r_into_rtranclp [of proposal_step, OF proposal_step.closed [OF that]] steps_ledger by (rule rtranclp_trans)
  moreover have "proposal_steps st (st\<lparr>pt_db := snd (updateWalletProposalTxHash (pt_db st) i ?hash now)\<rparr>)" if "?hash \<noteq> []"
    using proposal_step.closed [OF that] by (rule r_into_rtranclp)
  ultimately show ?thesis
    by (auto simp: reportTxRoute_def Let_def split: sum.split option.split prod.split)
qed

lemma sign_route_steps: "proposal_steps st (snd (signProposalRoute env st wallet i body now))"
proof -
  have "proposal_steps st (st\<lparr>pt_db := db\<rparr>)" if "addWalletProposalSig (pt_db st) i e k ty sig now = Some (s, db)" for e k ty sig s db
    using proposal_step.signed [OF that] by (rule r_into_rtranclp)
  then show ?thesis by (auto simp: signProposalRoute_def Let_def split: sum.split option.split)
qed

lemma prepared_steps:
  assumes "proposal_steps st st1"
  shows "proposal_steps st (st1\<lparr>pt_db := snd (prepareWalletProposal (pt_db st1) i nonce now)\<rparr>)"
  using assms proposal_step.prepared by (rule rtranclp.rtrancl_into_rtrancl)

lemma prepare_route_steps:
  assumes "proposal_steps st (world st)"
  shows "proposal_steps st (snd (prepareProposalRoute env conf st world wallet i now))"
proof -
  have "proposal_steps st ((world st)\<lparr>pt_db := db\<rparr>)" if "prepareWalletProposal (pt_db (world st)) i nonce now = (q, db)" for nonce q db
    using prepared_steps [of st "world st" i nonce now] assms that by simp
  then show ?thesis using assms
    by (auto simp: prepareProposalRoute_def Let_def split: sum.split option.split prod.split)
qed

lemma execute_prepare_steps:
  assumes "proposal_steps st (world st)"
  shows "proposal_steps st (snd (execute_prepare conf st world w p now))"
proof -
  have "proposal_steps st ((world st)\<lparr>pt_db := db\<rparr>)" if "prepareWalletProposal (pt_db (world st)) i nonce now = (q, db)" for i nonce q db
    using prepared_steps [of st "world st" i nonce now] assms that by simp
  then show ?thesis using assms
    by (auto simp: execute_prepare_def Let_def split: option.split prod.split)
qed

lemma queue_operation_steps: "proposal_steps st (snd (queue_operation st w p op h j now))"
proof -
  have tx: "proposal_steps st (st\<lparr>pt_db := snd (updateWalletProposalTxHash (pt_db st) (pp_id p) (the (uo_tx_hash e)) now)\<rparr>)"
    if "truthy (uo_tx_hash e)" for e :: user_op
    using that by (intro r_into_rtranclp [of proposal_step] proposal_step.closed) (cases "uo_tx_hash e"; simp add: truthy_def)
  show ?thesis
    using steps_ops tx by (simp add: queue_operation_def Let_def split_beta split: option.split sum.split)
qed

lemma execute_route_steps:
  assumes "\<And>x. proposal_steps x (reading x)" and "\<And>x. proposal_steps x (world x)" and "\<And>x. proposal_steps x (world' x)"
  shows "proposal_steps st (snd (executeProposalRoute env cod conf st reading world world' wallet i override j now))"
proof -
  have prep: "proposal_steps st st1" if "execute_prepare conf (reading st) world w p now = (r, st1)" for w p r st1
    using execute_prepare_steps [of "reading st" world conf w p now, OF assms(2)] that assms(1) by (metis rtranclp_trans snd_conv)
  have "proposal_steps st (snd (queue_operation (world' st1) w p op h j now))"
    if "execute_prepare conf (reading st) world w p now = (r, st1)" for w p r st1 op h
    using prep [OF that] assms(3) queue_operation_steps by (meson rtranclp_trans)
  moreover have "proposal_steps st (world' st1)" if "execute_prepare conf (reading st) world w p now = (r, st1)" for w p r st1
    using prep [OF that] assms(3) by (meson rtranclp_trans)
  ultimately show ?thesis using prep assms(1)
    by (auto simp: executeProposalRoute_def Let_def split: sum.split option.split prod.split)
qed


text \<open>Any interleaving of requests; what happens while a request waits is again such a run.\<close>

inductive served :: "proposal_state \<Rightarrow> proposal_state \<Rightarrow> bool" where
  nothing: "served st st"
| create: "served st0 st \<Longrightarrow> served st0 (snd (createProposalRoute env conf st wallet body i now))"
| report: "served st0 st \<Longrightarrow> served st0 (snd (reportTxRoute env conf st wallet i tx j now))"
| sign: "served st0 st \<Longrightarrow> served st0 (snd (signProposalRoute env st wallet i sbody now))"
| prepare: "served st0 st \<Longrightarrow> (\<And>x. served x (world x)) \<Longrightarrow>
    served st0 (snd (prepareProposalRoute env conf st world wallet i now))"
| execute: "served st0 st \<Longrightarrow> (\<And>x. served x (reading x)) \<Longrightarrow> (\<And>x. served x (world x)) \<Longrightarrow> (\<And>x. served x (world' x)) \<Longrightarrow>
    served st0 (snd (executeProposalRoute env cod conf st reading world world' wallet i override j now))"
| elsewhere: "served st0 st \<Longrightarrow> served st0 (st\<lparr>pt_ops := ops, pt_transfers := ledger\<rparr>)"

lemma served_steps: "served st st' \<Longrightarrow> proposal_steps st st'"
proof (induction rule: served.induct)
  case (create st0 st env conf wallet body i now)
  then show ?case using create_route_steps by (meson rtranclp_trans)
next
  case (report st0 st env conf wallet i tx j now)
  then show ?case using tx_route_steps by (meson rtranclp_trans)
next
  case (sign st0 st env wallet i sbody now)
  then show ?case using sign_route_steps by (meson rtranclp_trans)
next
  case (prepare st0 st world env conf wallet i now)
  then show ?case using prepare_route_steps by (meson rtranclp_trans)
next
  case (execute st0 st reading world world' env cod conf wallet i override j now)
  then show ?case using execute_route_steps by (meson rtranclp_trans)
next
  case (elsewhere st0 st ops ledger)
  then show ?case using proposal_step.other by (meson rtranclp.rtrancl_into_rtrancl)
qed simp

section \<open>Invariant and order\<close>

definition proposal_ok :: "proposal \<Rightarrow> bool" where
  "proposal_ok p \<longleftrightarrow>
     (case pp_status p of
        Pp_Draft \<Rightarrow> pp_nonce p = None \<and> pp_tx_hash p = None
      | Pp_Signing \<Rightarrow> pp_nonce p \<noteq> None \<and> pp_tx_hash p = None
      | Pp_Executed \<Rightarrow> truthy (pp_tx_hash p)
      | _ \<Rightarrow> False)"

definition proposals_ok :: "proposal_db \<Rightarrow> bool" where
  "proposals_ok db \<longleftrightarrow>
     unique_on pp_id (pd_proposals db) \<and> unique_on sig_key (pd_sigs db) \<and> (\<forall>p \<in> set (pd_proposals db). proposal_ok p) \<and>
     (\<forall>s \<in> set (pd_sigs db). find_by pp_id (ps_proposal s) (pd_proposals db) \<noteq> None)"

fun status_rank :: "proposal_status \<Rightarrow> nat" where
  "status_rank Pp_Draft = 0"
| "status_rank Pp_Signing = 1"
| "status_rank Pp_Ready = 1"
| "status_rank Pp_Executed = 2"
| "status_rank Pp_Cancelled = 2"

text \<open>What a proposal says never changes; nonce and transaction are not taken back; the status does not go back.\<close>

definition proposal_later :: "proposal \<Rightarrow> proposal \<Rightarrow> bool" where
  "proposal_later p q \<longleftrightarrow>
     (pp_id q, pp_wallet q, pp_chain_id q, pp_target q, pp_value q, pp_data q, pp_created_at q) =
     (pp_id p, pp_wallet p, pp_chain_id p, pp_target p, pp_value p, pp_data p, pp_created_at p) \<and>
     (pp_nonce p \<noteq> None \<longrightarrow> pp_nonce q \<noteq> None) \<and> (truthy (pp_tx_hash p) \<longrightarrow> truthy (pp_tx_hash q)) \<and>
     (proposal_ok p \<longrightarrow> proposal_ok q \<and> status_rank (pp_status p) \<le> status_rank (pp_status q))"

interpretation proposal_rows: row_order pp_id proposal_later
  by unfold_locales (auto simp: proposal_later_def)

text \<open>The two updates move a proposal forward.\<close>

lemma prepare_later: "preparable p \<Longrightarrow> proposal_later p (p\<lparr>pp_nonce := Some n, pp_status := Pp_Signing, pp_updated_at := now\<rparr>)"
  by (cases "pp_status p") (auto simp: proposal_later_def proposal_ok_def preparable_def)

lemma close_later: "tx \<noteq> [] \<Longrightarrow> proposal_later p (p\<lparr>pp_tx_hash := Some tx, pp_status := Pp_Executed, pp_updated_at := now\<rparr>)"
  by (cases "pp_status p") (auto simp: proposal_later_def proposal_ok_def)


context row_order
begin

lemma grows_update_where:
  assumes "\<And>x. key (f x) = key x" and "\<And>r. P r \<Longrightarrow> le r (f r)"
  shows "grows t (update_where P f t)"
proof -
  have "find_by key k (update_where P f t) = map_option (\<lambda>r. if P r then f r else r) (find_by key k t)" for k
    using assms(1) by (rule find_by_update_where)
  then show ?thesis using assms(2) later_refl by (auto simp: grows_def)
qed

end

lemma update_proposal_tables:
  "pd_proposals (snd (update_proposal db i P f)) = update_where (\<lambda>p. pp_id p = i \<and> P p) f (pd_proposals db)"
  "pd_sigs (snd (update_proposal db i P f)) = pd_sigs db"
  by (auto simp: update_proposal_def Let_def update_where_none)

lemma update_proposal_ok:
  assumes "proposals_ok db" and "\<And>p. pp_id (f p) = pp_id p" and "\<And>p. P p \<Longrightarrow> proposal_later p (f p)"
  shows "proposals_ok (snd (update_proposal db i P f))"
proof -
  have later: "proposal_ok (f p)" if "P p" "proposal_ok p" for p
    using assms(3) [OF that(1)] that(2) by (simp add: proposal_later_def)
  have "find_by pp_id k (update_where (\<lambda>p. pp_id p = i \<and> P p) f (pd_proposals db)) = None \<longleftrightarrow> find_by pp_id k (pd_proposals db) = None" for k
    using assms(2) by (simp add: find_by_update_where)
  then show ?thesis
    using assms(1) later
    by (auto simp: proposals_ok_def update_proposal_tables unique_update_where assms(2)) (auto simp: update_where_def)
qed

lemma proposal_step_keeps:
  assumes "proposal_step st st'"
  shows "(proposals_ok (pt_db st) \<longrightarrow> proposals_ok (pt_db st')) \<and>
    proposal_rows.grows (pd_proposals (pt_db st)) (pd_proposals (pt_db st'))"
  using assms
proof cases
  case (created i w c target amt data now p db)
  let ?p = "\<lparr>pp_id = i, pp_wallet = lower w, pp_chain_id = c, pp_target = lower target, pp_value = amt, pp_data = data,
      pp_nonce = None, pp_status = Pp_Draft, pp_tx_hash = None, pp_created_at = now, pp_updated_at = now\<rparr>"
  from created(2) obtain t where t: "insert_unique pp_id ?p (pd_proposals (pt_db st)) = Some t" "db = (pt_db st)\<lparr>pd_proposals := t\<rparr>"
    by (auto simp: createWalletProposal_def Let_def)
  have grows: "proposal_rows.grows (pd_proposals (pt_db st)) (pd_proposals (pt_db st'))"
    using proposal_rows.grows_insert [OF t(1)] created(1) t(2) by simp
  have "proposal_ok ?p" by (simp add: proposal_ok_def)
  then have ok: "proposals_ok (pt_db st) \<longrightarrow> proposals_ok (pt_db st')"
    using t created(1) by (auto simp: proposals_ok_def insert_unique_def unique_snoc find_by_append split: if_splits option.splits)
  show ?thesis using ok grows by blast
next
  case (prepared i nonce now)
  have grows: "proposal_rows.grows (pd_proposals (pt_db st)) (pd_proposals (pt_db st'))"
    unfolding prepared(1) prepareWalletProposal_def
    by (simp add: update_proposal_tables) (rule proposal_rows.grows_update_where, auto intro: prepare_later)
  have ok: "proposals_ok (pt_db st) \<longrightarrow> proposals_ok (pt_db st')"
    unfolding prepared(1) prepareWalletProposal_def by (simp add: update_proposal_ok prepare_later)
  show ?thesis using ok grows by blast
next
  case (closed tx i now)
  have grows: "proposal_rows.grows (pd_proposals (pt_db st)) (pd_proposals (pt_db st'))"
    unfolding closed(1) updateWalletProposalTxHash_def
    using closed(2) by (simp add: update_proposal_tables) (rule proposal_rows.grows_update_where, auto intro: close_later)
  have ok: "proposals_ok (pt_db st) \<longrightarrow> proposals_ok (pt_db st')"
    unfolding closed(1) updateWalletProposalTxHash_def using closed(2) by (simp add: update_proposal_ok close_later)
  show ?thesis using ok grows by blast
next
  case (signed i e k ty sig now s db)
  then have s: "ps_proposal s = i" "find_by pp_id i (pd_proposals (pt_db st)) \<noteq> None"
      "db = (pt_db st)\<lparr>pd_sigs := upsert sig_key s (\<lambda>_. s) (pd_sigs (pt_db st))\<rparr>"
    by (auto simp: addWalletProposalSig_def Let_def split: if_splits)
  then have grows: "proposal_rows.grows (pd_proposals (pt_db st)) (pd_proposals (pt_db st'))"
    using signed(1) by simp
  have "unique_on sig_key (pd_sigs (pt_db st)) \<Longrightarrow> unique_on sig_key (upsert sig_key s (\<lambda>_. s) (pd_sigs (pt_db st)))"
    by (rule unique_upsert) auto
  moreover have "set (upsert sig_key s (\<lambda>_. s) (pd_sigs (pt_db st))) \<subseteq> insert s (set (pd_sigs (pt_db st)))"
    by (auto simp: upsert_def update_where_def)
  ultimately have ok: "proposals_ok (pt_db st) \<longrightarrow> proposals_ok (pt_db st')"
    using s signed(1) by (auto simp: proposals_ok_def)
  show ?thesis using ok grows by blast
qed simp_all

lemma proposal_steps_keep:
  assumes "proposal_steps st st'"
  shows "(proposals_ok (pt_db st) \<longrightarrow> proposals_ok (pt_db st')) \<and>
    proposal_rows.grows (pd_proposals (pt_db st)) (pd_proposals (pt_db st'))"
  using assms
proof (induction rule: rtranclp_induct)
  case (step y z)
  then show ?case using proposal_step_keeps [OF step.hyps(2)] proposal_rows.grows_trans by blast
qed simp

text \<open>
  C26. The history of proposals. However requests interleave, also while one of them waits for the
  chain: every signature belongs to a proposal and every entity has one signature for it; a draft has
  no nonce, a proposal being signed has one and no transaction, an executed one has its
  transaction; wallet, chain, target, value and data of a proposal never change, its nonce and
  transaction are not taken back and its status does not go back.
\<close>

theorem proposal_history:
  assumes "served st st'" and "proposals_ok (pt_db st)"
  shows "proposals_ok (pt_db st') \<and>
    (\<forall>i p. find_by pp_id i (pd_proposals (pt_db st)) = Some p \<longrightarrow>
       (\<exists>q. find_by pp_id i (pd_proposals (pt_db st')) = Some q \<and> proposal_later p q))"
  using proposal_steps_keep [OF served_steps [OF assms(1)]] assms(2) by (auto simp: proposal_rows.grows_def)


section \<open>The operation of a proposal\<close>

lemma built_operation_pays:
  assumes "abi_ok env" and "buildProposalUserOp env conf w p signature = Some op"
    and "ch_fee_token (chainFor (pc_transfers conf) (pp_chain_id p)) = Some (fc_fee_token c)"
    and "tc_beneficiary (pc_transfers conf) = Some (fc_beneficiary c)" and "fc_min_fee c \<le> pc_bundler_fee conf"
  shows "\<exists>d target v. validateUserOpFee env op c = Some (Inr d) \<and> df_amount d = pc_bundler_fee conf \<and>
    df_main_calls d = [\<lparr>bc_target = target, bc_value = v, bc_data = pp_data p\<rparr>] \<and> ab_address env (pp_target p) = Some target \<and>
    BigInt_text (pp_value p) = Some v \<and> ab_address env w = Some (puo_sender op) \<and> puo_signature op = signature"
proof -
  from assms(2-4) obtain f target v n cd where
    f: "token_call env (fc_fee_token c) (fc_beneficiary c) (pc_bundler_fee conf) = Some f" and target: "ab_address env (pp_target p) = Some target"
    and v: "BigInt_text (pp_value p) = Some v"
    and cd: "encodeExecuteCallData env [f, \<lparr>bc_target = target, bc_value = v, bc_data = pp_data p\<rparr>] = Some cd"
    and op: "buildPackedUserOperation env w n cd (Some signature) DEFAULT_GAS = Some op"
    by (auto simp: buildProposalUserOp_def Let_def buildFeeTransferCall_def split: option.splits if_splits)
  let ?s = "\<lparr>bc_target = target, bc_value = v, bc_data = pp_data p\<rparr>"
  from token_call_read [OF assms(1) f] obtain t b where fee: "ab_address env (fc_fee_token c) = Some t"
      "ab_address env (fc_beneficiary c) = Some b" "ab_address env b = Some b" "ab_address env t = Some t" "bc_target f = t"
      "decodeTransfer env (bc_data f) = Some (b, pc_bundler_fee conf)" by metis
  have sender: "ab_address env w = Some (puo_sender op)" "puo_call_data op = cd" "puo_signature op = signature"
    using op by (auto simp: buildPackedUserOperation_def)
  have "decodeExecuteBatch env (puo_call_data op) = Some [f, ?s]"
    using decode_built_batch(1) [OF assms(1) cd] sender(2) fee(4,5) abi_okD(1) [OF assms(1) target] by simp
  then have "validateUserOpFee env op c =
      Some (Inr \<lparr>df_amount = pc_bundler_fee conf, df_token = t, df_beneficiary = b, df_main_calls = [?s]\<rparr>)"
    using fee assms(5) by (simp add: validateUserOpFee_def validateFeeBatch_def)
  then show ?thesis using target v sender by simp
qed

text \<open>
  A proposal is executed as it stands, and pays. The operation built for a proposal passes the
  fee check at its chain's fee token and the bundler's beneficiary, and after the fee its only
  call is the target, value and data of the proposal; it is sent by the wallet, with the
  signature that was packed.
\<close>

theorem proposal_operation_accepted:
  assumes "abi_ok env" and "buildProposalUserOp env conf w p signature = Some op"
    and "ch_fee_token (chainFor (pc_transfers conf) (pp_chain_id p)) = Some (fc_fee_token c)"
    and "tc_beneficiary (pc_transfers conf) = Some (fc_beneficiary c)" and "fc_min_fee c \<le> pc_bundler_fee conf"
  shows "\<exists>d target v. validateUserOpFee env op c = Some (Inr d) \<and> df_amount d = pc_bundler_fee conf \<and>
    df_main_calls d = [\<lparr>bc_target = target, bc_value = v, bc_data = pp_data p\<rparr>] \<and> ab_address env (pp_target p) = Some target \<and>
    BigInt_text (pp_value p) = Some v \<and> ab_address env w = Some (puo_sender op) \<and> puo_signature op = signature"
  by (rule built_operation_pays [OF assms])

section \<open>Packed signatures\<close>

text \<open>The codec gives back what it packed, as a hexadecimal text.\<close>

definition codec_ok :: "sig_codec \<Rightarrow> bool" where
  "codec_ok cod \<longleftrightarrow> (\<forall>sigs p. av_encode cod sigs = Some p \<longrightarrow> starts_with p ''0x'' \<and> av_decode cod p = Some sigs)"

lemma decode_packed:
  assumes "codec_ok cod" and "encodeAdvancedSignature cod sigs = Some s"
  shows "decodeAdvancedSignature cod s = Some sigs" "starts_with s ADVANCED_SIG_MAGIC"
proof -
  from assms(2) obtain p where p: "av_encode cod sigs = Some p" "s = ADVANCED_SIG_MAGIC @ drop 2 p"
    by (auto simp: encodeAdvancedSignature_def)
  with assms(1) have "starts_with p ''0x''" "av_decode cod p = Some sigs" by (auto simp: codec_ok_def)
  then have "take 2 p = ''0x''" by (simp add: starts_with_def numeral_2_eq_2)
  then obtain q where "p = ''0x'' @ q" using append_take_drop_id [of 2 p] by metis
  with p \<open>av_decode cod p = Some sigs\<close> show "decodeAdvancedSignature cod s = Some sigs" "starts_with s ADVANCED_SIG_MAGIC"
    by (simp_all add: decodeAdvancedSignature_def starts_with_def ADVANCED_SIG_MAGIC_def)
qed

text \<open>
  Old and new signature rows are packed alike. A row that stores a packed signature instead of
  the signature of its key, as older clients did, is unwrapped to the signature packed for its key,
  and so packing the rows gives the same for both forms.
\<close>

theorem packed_rows_unwrapped:
  assumes "codec_ok cod" and "encodeAdvancedSignature cod sigs = Some s" and "k \<noteq> []"
    and "find (\<lambda>p. lower (fst p) = lower k) sigs = Some (k', sig)" and "sig \<noteq> []" and "\<not> starts_with (lower sig) ADVANCED_SIG_MAGIC"
    and "ps_key_id r = k" and "ps_key_id r' = k" and "ps_signature r = s" and "ps_signature r' = sig"
  shows "unwrapAdvancedInnerSig cod s k = sig \<and> pack_signatures cod (xs @ r # ys) = pack_signatures cod (xs @ r' # ys)"
proof -
  note packed = decode_packed [OF assms(1,2)]
  have "starts_with (lower s) ADVANCED_SIG_MAGIC"
    using packed(2) by (auto simp: starts_with_def ADVANCED_SIG_MAGIC_def lower_def lower_char_def take_map)
  moreover have "inner_sig sigs k = Some sig" using assms(3,4) by (simp add: inner_sig_def coalesce_def)
  moreover have "unwrap_layers cod k n sig = sig" for n using assms(6) by (cases n) simp_all
  ultimately have "unwrapAdvancedInnerSig cod s k = sig"
    using packed(1) assms(5,6) by (simp add: unwrapAdvancedInnerSig_def numeral_eq_Suc or_null_def)
  moreover have "unwrapAdvancedInnerSig cod sig k = sig"
    using assms(6) by (simp add: unwrapAdvancedInnerSig_def numeral_eq_Suc)
  ultimately show ?thesis using assms(7-10) by (simp add: pack_signatures_def)
qed


section \<open>Execution and the queue\<close>

lemma queue_pays_set:
  assumes "queue_pays env c t" and "validateUserOpFee env op c = Some (Inr d)"
  shows "queue_pays env c (snd (requeueWalletUserOp t h op w ch now))" "queue_pays env c (snd (createWalletUserOp t i w ch h op now))"
proof -
  have "queue_pays env c (update_where P (requeue_set w ch op now) t)" for P
    using assms by (auto simp: queue_pays_def update_where_def requeue_set_def)
  then show "queue_pays env c (snd (requeueWalletUserOp t h op w ch now))"
    using assms(1) by (simp add: requeueWalletUserOp_def Let_def)
  have "queue_pays env c (t @ [new_user_op i w ch h op now])"
    using assms by (auto simp: queue_pays_def new_user_op_def)
  then show "queue_pays env c (snd (createWalletUserOp t i w ch h op now))"
    using assms(1) by (simp add: createWalletUserOp_def split: option.split)
qed

lemma queue_operation_pays:
  assumes "queue_pays env c (pt_ops st)" and "validateUserOpFee env op c = Some (Inr d)"
  shows "queue_pays env c (pt_ops (snd (queue_operation st w p op h j now)))"
  using assms(1) queue_pays_set [OF assms]
  by (simp add: queue_operation_def Let_def split_beta split: option.split sum.split)

text \<open>The answered row is the row of the queue, and no live operation has been replaced.\<close>

lemma queue_operation_row:
  shows "fst (queue_operation st w p op h j now) = Inr (k, r) \<Longrightarrow>
      k = h \<and> getWalletUserOpByHash (pt_ops (snd (queue_operation st w p op h j now))) h = Some r"
    and "getWalletUserOpByHash (pt_ops st) g = Some e \<Longrightarrow> uop_live e \<Longrightarrow>
      getWalletUserOpByHash (pt_ops (snd (queue_operation st w p op h j now))) g = Some e"
proof -
  have requeued: "getWalletUserOpByHash t' h = Some r" if "requeueWalletUserOp t h op w ch now = (Some r, t')" for t t' r ch
    using that by (auto simp: requeueWalletUserOp_def Let_def split: if_splits)
  have created: "getWalletUserOpByHash t' h = Some r" if "createWalletUserOp t j w ch h op now = (Inr r, t')" for t t' r ch
  proof (cases "find_by uo_hash (lower h) t")
    case None
    with that show ?thesis
      by (auto simp: createWalletUserOp_def getWalletUserOpByHash_def find_by_append split: if_splits)
  next
    case (Some x)
    with that show ?thesis by (auto simp: createWalletUserOp_def getWalletUserOpByHash_def)
  qed
  show "fst (queue_operation st w p op h j now) = Inr (k, r) \<Longrightarrow>
      k = h \<and> getWalletUserOpByHash (pt_ops (snd (queue_operation st w p op h j now))) h = Some r"
    using requeued created
    by (auto simp: queue_operation_def refuse_def Let_def split: option.splits sum.splits prod.splits if_splits)
  assume g: "getWalletUserOpByHash (pt_ops st) g = Some e" "uop_live e"
  show "getWalletUserOpByHash (pt_ops (snd (queue_operation st w p op h j now))) g = Some e"
    using g requeue_keeps_live(1) [OF g, of h op w "pp_chain_id p" now] created_op_keeps(1) [OF g(1), of j w "pp_chain_id p" h op now]
    by (simp add: queue_operation_def Let_def split_beta split: option.split sum.split)
qed


text \<open>What execute does once its checks have passed: prepare, build, wait for the hash, and queue.\<close>

lemma execute_success:
  assumes "fst (executeProposalRoute env cod conf st reading world world' wallet i override j now) = Inr (h, r)"
  obtains w p q st1 packed op where
    "named_proposal env st wallet i = Inr (w, p)" "\<not> truthy (pp_tx_hash p)" "pp_status p \<noteq> Pp_Cancelled"
    "listWalletProposalSigs (pt_db (reading st)) i \<noteq> []" "execute_prepare conf (reading st) world w p now = (Inr q, st1)"
    "pack_signatures cod (listWalletProposalSigs (pt_db (reading st)) i) = Some packed"
    "buildProposalUserOp env conf w q (nullish override packed) = Some op"
    "executeProposalRoute env cod conf st reading world world' wallet i override j now = queue_operation (world' st1) w p op h j now"
proof -
  from assms obtain w p q st1 packed op node k where facts:
    "named_proposal env st wallet i = Inr (w, p)" "\<not> truthy (pp_tx_hash p)" "pp_status p \<noteq> Pp_Cancelled"
    "listWalletProposalSigs (pt_db (reading st)) i \<noteq> []" "execute_prepare conf (reading st) world w p now = (Inr q, st1)"
    "pack_signatures cod (listWalletProposalSigs (pt_db (reading st)) i) = Some packed"
    "buildProposalUserOp env conf w q (nullish override packed) = Some op"
    "executeProposalRoute env cod conf st reading world world' wallet i override j now = queue_operation (world' st1) w p op k j now"
    by (auto simp: executeProposalRoute_def refuse_def crash_def Let_def split: sum.splits option.splits prod.splits if_splits)
  have "k = h"
    using assms unfolding facts(8)
    by (auto simp: queue_operation_def refuse_def Let_def split: option.splits sum.splits prod.splits if_splits)
  with that facts show thesis by blast
qed


text \<open>The proposal that is executed says what the one that was read says.\<close>

lemma execute_prepare_same:
  assumes "execute_prepare conf st0 world w p now = (Inr q, st1)" and "proposal_steps st (world st0)"
    and "find_by pp_id (pp_id p) (pd_proposals (pt_db st)) = Some p"
  shows "(pp_wallet q, pp_chain_id q, pp_target q, pp_value q, pp_data q) = (pp_wallet p, pp_chain_id p, pp_target p, pp_value p, pp_data p)"
proof (cases "q = p")
  case False
  with assms(1) obtain nonce n db where prep: "prepareWalletProposal (pt_db (world st0)) (pp_id p) (int_text nonce) now = (Some (q, n), db)"
    by (auto simp: execute_prepare_def refuse_def crash_def Let_def nullish_def split: if_splits option.splits prod.splits)
  have "proposal_steps st ((world st0)\<lparr>pt_db := db\<rparr>)"
    using prepared_steps [OF assms(2), of "pp_id p" "int_text nonce" now] prep by simp
  then have "proposal_rows.grows (pd_proposals (pt_db st)) (pd_proposals db)"
    using proposal_steps_keep [of st "(world st0)\<lparr>pt_db := db\<rparr>"] by simp
  then obtain s where s: "find_by pp_id (pp_id p) (pd_proposals db) = Some s" "proposal_later p s"
    using assms(3) by (rule proposal_rows.growsD)
  moreover have "getWalletProposal db (pp_id p) = Some (q, n)"
    using prep by (auto simp: prepareWalletProposal_def update_proposal_def Let_def split: if_splits)
  ultimately show ?thesis by (auto simp: getWalletProposal_def proposal_later_def)
qed simp

lemma named_proposalD:
  assumes "named_proposal env st wallet i = Inr (w, p)"
  shows "ab_address env wallet = Some w" "find_by pp_id i (pd_proposals (pt_db st)) = Some p" "pp_id p = i" "lower (pp_wallet p) = lower w"
  using assms by (auto simp: named_proposal_def refuse_def crash_def getWalletProposal_def dest: find_by_SomeD split: option.splits if_splits)

text \<open>The answered row was there, or is the new operation.\<close>

lemma queue_operation_new:
  assumes "fst (queue_operation st w p op h j now) = Inr (k, r)"
  shows "getWalletUserOpByHash (pt_ops st) h = Some r \<or> uo_user_op r = op"
proof (cases "getWalletUserOpByHash (pt_ops st) h")
  case None
  then show ?thesis
    using assms by (auto simp: queue_operation_def refuse_def createWalletUserOp_def new_user_op_def Let_def split: option.splits if_splits)
next
  case (Some e)
  show ?thesis
  proof (cases "uop_live e")
    case True
    with assms Some show ?thesis by (auto simp: queue_operation_def split: if_splits)
  next
    case False
    then have st: "uo_status e \<noteq> Uop_Included" "uo_status e = Uop_Rejected \<or> uo_status e = Uop_Failed" by (auto simp: uop_live_def)
    let ?Q = "\<lambda>r. uo_status r = Uop_Rejected \<or> uo_status r = Uop_Failed"
    have new: "getWalletUserOpByHash (update_where (\<lambda>r. uo_hash r = lower h \<and> ?Q r) (requeue_set w c op now) (pt_ops st)) h =
        Some (requeue_set w c op now e)" for c
      using userop_update_lookup [of "requeue_set w c op now" h ?Q "pt_ops st" h] Some st(2) by simp
    obtain q t' where q: "requeueWalletUserOp (pt_ops st) h op w (pp_chain_id p) now = (q, t')" by fastforce
    show ?thesis
    proof (cases q)
      case None
      with q new have "t' = pt_ops st" by (auto simp: requeueWalletUserOp_def Let_def split: if_splits)
      with assms Some False st(1) q None show ?thesis by (auto simp: queue_operation_def refuse_def Let_def)
    next
      case (Some x)
      with q new have "uo_user_op x = op" by (auto simp: requeueWalletUserOp_def Let_def requeue_set_def split: if_splits)
      with assms \<open>getWalletUserOpByHash (pt_ops st) h = Some e\<close> False st(1) q Some show ?thesis
        by (auto simp: queue_operation_def refuse_def Let_def)
    qed
  qed
qed

text \<open>
  C27. Executing queues the proposal. When execute answers with an operation, the queue has this
  operation under the answered hash; it was there when the route came back from its waits, or it
  is one whose only call after the fee is the target, value and data the proposal had when it was
  read, whatever was served in between. Every live operation is left as it was.
\<close>

theorem execute_queues_proposal:
  assumes "abi_ok env" and "fst (executeProposalRoute env cod conf st reading world world' wallet i override j now) = Inr (h, r)"
    and "named_proposal env st wallet i = Inr (w, p)" and "served st (reading st)" and "served (reading st) (world (reading st))"
    and "ch_fee_token (chainFor (pc_transfers conf) (pp_chain_id p)) = Some (fc_fee_token c)"
    and "tc_beneficiary (pc_transfers conf) = Some (fc_beneficiary c)" and "fc_min_fee c \<le> pc_bundler_fee conf"
  shows "let before = pt_ops (world' (snd (execute_prepare conf (reading st) world w p now)));
             ops = pt_ops (snd (executeProposalRoute env cod conf st reading world world' wallet i override j now)) in
    getWalletUserOpByHash ops h = Some r \<and>
    (getWalletUserOpByHash before h = Some r \<or>
     (\<exists>d target v. validateUserOpFee env (uo_user_op r) c = Some (Inr d) \<and> ab_address env (pp_target p) = Some target \<and>
        BigInt_text (pp_value p) = Some v \<and> df_main_calls d = [\<lparr>bc_target = target, bc_value = v, bc_data = pp_data p\<rparr>])) \<and>
    (\<forall>g e. getWalletUserOpByHash before g = Some e \<longrightarrow> uop_live e \<longrightarrow> getWalletUserOpByHash ops g = Some e)"
proof -
  from execute_success [OF assms(2)] assms(3) obtain q st1 packed op where run:
    "execute_prepare conf (reading st) world w p now = (Inr q, st1)"
    "buildProposalUserOp env conf w q (nullish override packed) = Some op"
    "executeProposalRoute env cod conf st reading world world' wallet i override j now = queue_operation (world' st1) w p op h j now"
    by (metis Pair_inject sum.inject(2))
  note named = named_proposalD [OF assms(3)]
  have same: "pp_chain_id q = pp_chain_id p" "pp_target q = pp_target p" "pp_value q = pp_value p" "pp_data q = pp_data p"
    using execute_prepare_same [OF run(1) rtranclp_trans [OF served_steps [OF assms(4)] served_steps [OF assms(5)]]] named(2,3) by simp_all
  have answer: "fst (queue_operation (world' st1) w p op h j now) = Inr (h, r)" using assms(2) run(3) by simp
  have pays: "\<exists>d target v. validateUserOpFee env op c = Some (Inr d) \<and> ab_address env (pp_target p) = Some target \<and>
      BigInt_text (pp_value p) = Some v \<and> df_main_calls d = [\<lparr>bc_target = target, bc_value = v, bc_data = pp_data p\<rparr>]"
    using built_operation_pays [OF assms(1) run(2) _ assms(7,8)] assms(6) same by auto
  from queue_operation_row(1) [OF answer] queue_operation_new [OF answer] pays queue_operation_row(2)
  show ?thesis unfolding run(3) by (auto simp: run(1))
qed

section \<open>Anyone closes a proposal\<close>

text \<open>
  A proposal is closed by whoever names a transaction for it. The PATCH route takes any
  non-empty text as the transaction of a proposal from any caller who knows wallet and proposal id;
  from then on execute answers that the proposal was executed, whatever is served later.
\<close>

theorem reported_proposal_closed:
  assumes "named_proposal env st wallet i = Inr (w, p)" and "trim tx \<noteq> []" and "proposals_ok (pt_db st)"
    and "served (snd (reportTxRoute env conf st wallet i (Some tx) j now)) st'"
  shows "executeProposalRoute env cod conf' st' reading world world' wallet i override j' now' = (refuse 409 ''already_executed'', reading st')"
proof -
  let ?st1 = "snd (reportTxRoute env conf st wallet i (Some tx) j now)"
  let ?f = "\<lambda>p. p\<lparr>pp_tx_hash := Some (trim tx), pp_status := Pp_Executed, pp_updated_at := now\<rparr>"
  note named = named_proposalD [OF assms(1)]
  have "pd_proposals (pt_db ?st1) = update_where (\<lambda>x. pp_id x = i \<and> True) ?f (pd_proposals (pt_db st))"
    using assms(1,2) update_proposal_tables(1) [of "pt_db st" i "\<lambda>_. True" ?f]
    by (auto simp: reportTxRoute_def updateWalletProposalTxHash_def Let_def split: option.split prod.split)
  then have "find_by pp_id i (pd_proposals (pt_db ?st1)) = Some (?f p)"
    using proposal_rows.find_update_key [of ?f i i "pd_proposals (pt_db st)"] named(2) by simp
  then obtain q where q: "find_by pp_id i (pd_proposals (pt_db st')) = Some q" "proposal_later (?f p) q"
    using proposal_rows.growsD [OF conjunct2 [OF proposal_steps_keep [OF served_steps [OF assms(4)]]]] by blast
  have closed: "truthy (pp_tx_hash q)" "pp_wallet q = pp_wallet p"
    using q(2) assms(2) by (auto simp: proposal_later_def)
  then have "named_proposal env st' wallet i = Inr (w, q)"
    using named q(1) by (simp add: named_proposal_def getWalletProposal_def)
  with closed show ?thesis by (simp add: executeProposalRoute_def Let_def)
qed

end
