(* ===== verification/ProposalDemo.thy ===== *)
theory ProposalDemo
  imports ProposalProps UserOpRouteDemo
begin

text \<open>A proposal from its creation to the queue: the witnesses of the theorems on proposals.\<close>

text \<open>A codec that knows one signature, \<open>s\<close> of the key \<open>k\<close>.\<close>

definition one_sig_codec :: sig_codec where
  "one_sig_codec =
     \<lparr>av_encode = (\<lambda>sigs. if sigs = [(''k'', ''s'')] then Some ''0x77'' else None),
      av_decode = (\<lambda>x. if x = ''0x77'' then Some [(''k'', ''s'')] else None)\<rparr>"

lemma one_sig_codec_ok: "codec_ok one_sig_codec"
  by (auto simp: codec_ok_def one_sig_codec_def starts_with_def)

definition vote_conf :: proposal_config where
  "vote_conf =
     \<lparr>pc_chain_id = ''7'', pc_transfers = send_ledger, pc_bundler_fee = 15,
      pc_node = (\<lambda>_. Some \<lparr>ep_nonce = (\<lambda>_. Some 4), ep_hash = (\<lambda>_. Some send_hash)\<rparr>)\<rparr>"

definition vote_empty :: proposal_state where
  "vote_empty = \<lparr>pt_db = \<lparr>pd_proposals = [], pd_sigs = []\<rparr>, pt_ops = [], pt_transfers = []\<rparr>"

definition vote_created :: proposal_state where
  "vote_created = snd (createProposalRoute demo_abi vote_conf vote_empty ''7''
     \<lparr>pb_target = Some ''3'', pb_value = None, pb_data = None, pb_chain_id = None\<rparr> ''p1'' 1000)"

definition vote_signed :: proposal_state where
  "vote_signed = snd (signProposalRoute demo_abi vote_created ''7'' ''p1''
     \<lparr>gb_entity = Some ''e1'', gb_key_id = Some ''k'', gb_key_type = Some (Some 0), gb_signature = Some ''s''\<rparr> 2000)"

definition vote_proposal :: proposal where
  "vote_proposal =
     \<lparr>pp_id = ''p1'', pp_wallet = ''7'', pp_chain_id = ''7'', pp_target = ''3'', pp_value = ''0'', pp_data = ''0x'', pp_nonce = None,
      pp_status = Pp_Draft, pp_tx_hash = None, pp_created_at = 1000, pp_updated_at = 1000\<rparr>"

lemma vote_signed_rows: "pd_proposals (pt_db vote_signed) = [vote_proposal]" "named_proposal demo_abi vote_signed ''7'' ''p1'' = Inr (''7'', vote_proposal)"
  "pd_proposals (pt_db vote_created) = [vote_proposal]"
  by code_simp+

text \<open>The operation is built without evaluating its gas words.\<close>

lemma vote_calls:
  "(case (buildFeeTransferCall demo_abi ''1'' ''2'' 15, ab_address demo_abi ''3'', BigInt_text ''0'') of
     (Some f, Some t, Some v) \<Rightarrow> encodeExecuteCallData demo_abi [f, \<lparr>bc_target = t, bc_value = v, bc_data = ''0x''\<rparr>] \<noteq> None
   | _ \<Rightarrow> False)"
  by code_simp

lemma vote_built:
  assumes "BigInt_text (nullish nonce ''0'') = Some n"
  obtains op where "buildProposalUserOp demo_abi vote_conf ''7'' (vote_proposal\<lparr>pp_nonce := nonce, pp_status := st, pp_updated_at := t\<rparr>) sig = Some op"
proof -
  have conf: "ch_fee_token (chainFor (pc_transfers vote_conf) ''7'') = Some ''1''" "tc_beneficiary (pc_transfers vote_conf) = Some ''2''"
    "pc_bundler_fee vote_conf = 15" "digits ''7''"
    by code_simp+
  have "ab_address demo_abi ''7'' = Some ''7''" using conf(4) by (simp add: demo_abi_def)
  then have "buildPackedUserOperation demo_abi ''7'' n cd s g \<noteq> None" for n cd s g
    by (simp add: buildPackedUserOperation_def)
  then have "buildProposalUserOp demo_abi vote_conf ''7'' (vote_proposal\<lparr>pp_nonce := nonce, pp_status := st, pp_updated_at := t\<rparr>) sig \<noteq> None"
    using vote_calls conf(1-3) assms
    by (auto simp: buildProposalUserOp_def vote_proposal_def truthy_def split: option.splits)
  then show thesis using that by blast
qed

lemma vote_executed: "is_ok (fst (executeProposalRoute demo_abi one_sig_codec vote_conf vote_signed id id id ''7'' ''p1'' None ''u1'' 3000))"
proof -
  have facts: "pp_tx_hash vote_proposal = None" "pp_status vote_proposal = Pp_Draft" "needs_nonce vote_proposal"
    "listWalletProposalSigs (pt_db vote_signed) ''p1'' \<noteq> []"
    "pack_signatures one_sig_codec (listWalletProposalSigs (pt_db vote_signed) ''p1'') = Some ''0x4157443177''"
    "prepareWalletProposal (pt_db vote_signed) ''p1'' (int_text 4) 3000 =
       (Some (vote_proposal\<lparr>pp_nonce := Some ''4'', pp_status := Pp_Signing, pp_updated_at := 3000\<rparr>, 1),
        snd (prepareWalletProposal (pt_db vote_signed) ''p1'' (int_text 4) 3000))"
    "pp_id vote_proposal = ''p1''" "BigInt_text (nullish (Some ''4'') ''0'') = Some 4" "pt_ops vote_signed = []"
    by code_simp+
  obtain op where op: "buildProposalUserOp demo_abi vote_conf ''7'' (vote_proposal\<lparr>pp_nonce := Some ''4'', pp_status := Pp_Signing, pp_updated_at := 3000\<rparr>)
      ''0x4157443177'' = Some op"
    using facts(8) by (rule vote_built)
  have node: "pc_node vote_conf c = Some \<lparr>ep_nonce = (\<lambda>_. Some 4), ep_hash = (\<lambda>_. Some send_hash)\<rparr>" for c
    by (simp add: vote_conf_def)
  have "execute_prepare vote_conf vote_signed id ''7'' vote_proposal 3000 =
      (Inr (vote_proposal\<lparr>pp_nonce := Some ''4'', pp_status := Pp_Signing, pp_updated_at := 3000\<rparr>),
       vote_signed\<lparr>pt_db := snd (prepareWalletProposal (pt_db vote_signed) ''p1'' (int_text 4) 3000)\<rparr>)"
    using facts(3,6,7) node by (auto simp: execute_prepare_def Let_def split: prod.split)
  then show ?thesis
    using facts(1,2,4,5,9) op node vote_signed_rows(2)
    by (simp add: executeProposalRoute_def Let_def truthy_def queue_operation_def createWalletUserOp_def getWalletUserOpByHash_def find_by_def is_ok_def)
qed

lemma vote_empty_ok: "proposals_ok (pt_db vote_empty)"
  by (simp add: proposals_ok_def vote_empty_def unique_on_def)

lemma vote_served: "served vote_empty vote_signed" "served vote_empty vote_created" "served vote_created vote_signed"
proof -
  show created: "served vote_empty vote_created" unfolding vote_created_def by (rule served.create) (rule served.nothing)
  show "served vote_created vote_signed" unfolding vote_signed_def by (rule served.sign) (rule served.nothing)
  show "served vote_empty vote_signed" unfolding vote_signed_def by (rule served.sign [OF created])
qed

theorem proposal_history_witness:
  "proposals_ok (pt_db vote_signed) \<and> (\<exists>q. find_by pp_id ''p1'' (pd_proposals (pt_db vote_signed)) = Some q \<and> proposal_later vote_proposal q)"
proof -
  have ok: "proposals_ok (pt_db vote_created)"
    by (simp add: proposals_ok_def vote_signed_rows unique_on_def vote_proposal_def proposal_ok_def) code_simp
  have "find_by pp_id ''p1'' (pd_proposals (pt_db vote_created)) = Some vote_proposal"
    by (simp add: vote_signed_rows find_by_def vote_proposal_def)
  with proposal_history [OF vote_served(3) ok] show ?thesis by blast
qed

theorem execute_queues_proposal_witness:
  "\<exists>h r. fst (executeProposalRoute demo_abi one_sig_codec vote_conf vote_signed id id id ''7'' ''p1'' None ''u1'' 3000) = Inr (h, r) \<and>
     getWalletUserOpByHash (pt_ops (snd (executeProposalRoute demo_abi one_sig_codec vote_conf vote_signed id id id ''7'' ''p1'' None ''u1'' 3000))) h = Some r"
proof -
  obtain h r where answer: "fst (executeProposalRoute demo_abi one_sig_codec vote_conf vote_signed id id id ''7'' ''p1'' None ''u1'' 3000) = Inr (h, r)"
    using vote_executed by (cases "fst (executeProposalRoute demo_abi one_sig_codec vote_conf vote_signed id id id ''7'' ''p1'' None ''u1'' 3000)") auto
  have config: "ch_fee_token (chainFor (pc_transfers vote_conf) (pp_chain_id vote_proposal)) = Some (fc_fee_token demo_fee)"
    "tc_beneficiary (pc_transfers vote_conf) = Some (fc_beneficiary demo_fee)" "fc_min_fee demo_fee \<le> pc_bundler_fee vote_conf"
    by code_simp+
  have waits: "served vote_signed (id vote_signed)" unfolding id_apply by (rule served.nothing)
  have waits': "served (id vote_signed) (id (id vote_signed))" unfolding id_apply by (rule served.nothing)
  show ?thesis
    using execute_queues_proposal [where reading = id and world = id and world' = id, OF demo_abi_ok answer vote_signed_rows(2) waits waits' config] answer
    unfolding Let_def by blast
qed

theorem reported_proposal_closed_witness:
  "fst (executeProposalRoute demo_abi one_sig_codec vote_conf
      (snd (reportTxRoute demo_abi vote_conf vote_signed ''7'' ''p1'' (Some ''x'') ''t1'' 2500)) id id id ''7'' ''p1'' None ''u1'' 3000) =
   refuse 409 ''already_executed''"
proof -
  have ok: "proposals_ok (pt_db vote_signed)"
    using proposal_steps_keep [OF served_steps [OF vote_served(1)]] vote_empty_ok by blast
  have "trim ''x'' \<noteq> []" by code_simp
  from reported_proposal_closed [OF vote_signed_rows(2) this ok served.nothing] show ?thesis by simp
qed

theorem proposal_operation_accepted_witness:
  "\<exists>op d. buildProposalUserOp demo_abi vote_conf ''7'' vote_proposal ''0x'' = Some op \<and> validateUserOpFee demo_abi op demo_fee = Some (Inr d) \<and>
     df_amount d = 15"
proof -
  have zero: "BigInt_text (nullish None ''0'') = Some 0" by code_simp
  have same: "vote_proposal\<lparr>pp_nonce := None, pp_status := Pp_Draft, pp_updated_at := 1000\<rparr> = vote_proposal" by (simp add: vote_proposal_def)
  obtain op where op: "buildProposalUserOp demo_abi vote_conf ''7'' vote_proposal ''0x'' = Some op"
    using vote_built [where st = Pp_Draft and t = 1000 and sig = "''0x''", OF zero] unfolding same by blast
  have config: "ch_fee_token (chainFor (pc_transfers vote_conf) (pp_chain_id vote_proposal)) = Some (fc_fee_token demo_fee)"
    "tc_beneficiary (pc_transfers vote_conf) = Some (fc_beneficiary demo_fee)" "fc_min_fee demo_fee \<le> pc_bundler_fee vote_conf"
    "pc_bundler_fee vote_conf = 15"
    by code_simp+
  from proposal_operation_accepted [OF demo_abi_ok op config(1-3)] op config(4) show ?thesis by auto
qed

theorem packed_rows_unwrapped_witness:
  "unwrapAdvancedInnerSig one_sig_codec ''0x4157443177'' ''k'' = ''s''"
proof -
  have a: "encodeAdvancedSignature one_sig_codec [(''k'', ''s'')] = Some ''0x4157443177''" "''k'' \<noteq> []"
    "find (\<lambda>p. lower (fst p) = lower ''k'') [(''k'', ''s'')] = Some (''k'', ''s'')" "''s'' \<noteq> []" "\<not> starts_with (lower ''s'') ADVANCED_SIG_MAGIC"
    by code_simp+
  let ?r = "\<lparr>ps_proposal = ''p'', ps_entity = ''e'', ps_key_id = ''k'', ps_key_type = 0, ps_signature = ''0x4157443177'', ps_created_at = 0\<rparr>"
  from packed_rows_unwrapped [OF one_sig_codec_ok a, of ?r "?r\<lparr>ps_signature := ''s''\<rparr>" "[]" "[]"] show ?thesis by simp
qed

end
