(* ===== verification/Addresses.thy ===== *)
theory Addresses
  imports CredentialId
begin

text \<open>
  Chains and merchant addresses of the three kinds of chains (src/commerce-addresses.ts). The
  checksum of an Ethereum address, the check of a Tron address and the decoding of a Solana key
  are parameters; \<open>None\<close> is the exception they throw.
\<close>

record addr_env =
  ad_getAddress :: "string \<Rightarrow> address option"
  ad_tron_valid :: "string \<Rightarrow> bool"
  ad_pubkey :: "string \<Rightarrow> string option"

section \<open>Chains\<close>

datatype chain_kind = Evm_Chain | Tron_Chain | Solana_Chain

definition TRON_NILE_NUMERIC_CHAIN_ID :: string where
  "TRON_NILE_NUMERIC_CHAIN_ID = ''3448148188''"

definition TRON_SHASTA_NUMERIC_CHAIN_ID :: string where
  "TRON_SHASTA_NUMERIC_CHAIN_ID = ''2494104990''"

definition TRON_MAINNET_NUMERIC_CHAIN_ID :: string where
  "TRON_MAINNET_NUMERIC_CHAIN_ID = ''728126428''"

definition chainKind :: "string option \<Rightarrow> chain_kind" where
  "chainKind chain =
     (let i = nullish chain '''' in
      if i \<in> {''nile'', ''shasta'', ''tron'', TRON_NILE_NUMERIC_CHAIN_ID, TRON_SHASTA_NUMERIC_CHAIN_ID, TRON_MAINNET_NUMERIC_CHAIN_ID}
      then Tron_Chain
      else if i \<in> {''devnet'', ''mainnet-beta'', ''solana'', ''solana-devnet''} then Solana_Chain
      else Evm_Chain)"

definition tronNumericChainId :: "string \<Rightarrow> string" where
  "tronNumericChainId chain =
     (if chain = ''nile'' then TRON_NILE_NUMERIC_CHAIN_ID
      else if chain = ''shasta'' then TRON_SHASTA_NUMERIC_CHAIN_ID
      else if chain = ''tron'' then TRON_MAINNET_NUMERIC_CHAIN_ID
      else chain)"

definition defaultTronFullHost :: "string option \<Rightarrow> string" where
  "defaultTronFullHost chain =
     (let i = nullish chain '''' in
      if i = ''nile'' \<or> i = TRON_NILE_NUMERIC_CHAIN_ID then ''https://nile.trongrid.io''
      else if i = ''shasta'' \<or> i = TRON_SHASTA_NUMERIC_CHAIN_ID then ''https://api.shasta.trongrid.io''
      else ''https://api.trongrid.io'')"

definition tokenAllowedOnChain :: "string \<Rightarrow> string \<Rightarrow> bool" where
  "tokenAllowedOnChain chain token =
     (let symbol = upper (trim token); kind = chainKind (Some chain) in
      if kind = Tron_Chain then symbol = ''USDT''
      else if kind = Solana_Chain then symbol = ''USDC'' \<or> symbol = ''USDT''
      else if chain = ''8453'' then symbol = ''USDC''
      else if chain = ''56'' then symbol = ''USDC'' \<or> symbol = ''USDT''
      else symbol = ''USDC'' \<or> symbol = ''USDT'')"

definition defaultTokenForChain :: "string \<Rightarrow> string" where
  "defaultTokenForChain chain = (if chainKind (Some chain) = Tron_Chain then ''USDT'' else ''USDC'')"

section \<open>Addresses\<close>

text \<open>\<open>[1-9A-HJ-NP-Za-km-z]\<close>\<close>

definition base58_char :: "char \<Rightarrow> bool" where
  "base58_char c =
     (let n = of_char c :: nat in
      (49 \<le> n \<and> n \<le> 57) \<or> (65 \<le> n \<and> n \<le> 72) \<or> (74 \<le> n \<and> n \<le> 78) \<or> (80 \<le> n \<and> n \<le> 90) \<or>
      (97 \<le> n \<and> n \<le> 107) \<or> (109 \<le> n \<and> n \<le> 122))"

definition looksLikeTronAddress :: "string \<Rightarrow> bool" where
  "looksLikeTronAddress v =
     (let t = trim v in length t = 34 \<and> starts_with t ''T'' \<and> list_all base58_char (drop 1 t))"

definition looksLikeSolanaAddress :: "addr_env \<Rightarrow> string \<Rightarrow> bool" where
  "looksLikeSolanaAddress env v =
     (let t = trim v in
      32 \<le> length t \<and> length t \<le> 44 \<and> list_all base58_char t \<and> \<not> (starts_with t ''T'' \<and> length t = 34) \<and>
      ad_pubkey env t \<noteq> None)"

definition isTronAddress :: "addr_env \<Rightarrow> string \<Rightarrow> bool" where
  "isTronAddress env v = (let t = trim v in looksLikeTronAddress t \<and> ad_tron_valid env t)"

definition isEvmAddress :: "addr_env \<Rightarrow> string \<Rightarrow> bool" where
  "isEvmAddress env v = (ad_getAddress env (trim v) \<noteq> None)"

definition normalizeMerchantAddress :: "addr_env \<Rightarrow> string \<Rightarrow> address option" where
  "normalizeMerchantAddress env v =
     (let t = trim v in
      if t = '''' then None
      else if starts_with t ''0x'' \<or> starts_with t ''0X'' then ad_getAddress env t
      else if looksLikeTronAddress t then (if isTronAddress env t then Some t else None)
      else if looksLikeSolanaAddress env t then ad_pubkey env t
      else None)"

text \<open>\<open>map\<close> with a function that may throw.\<close>

fun map_throws :: "('a \<Rightarrow> 'b option) \<Rightarrow> 'a list \<Rightarrow> 'b list option" where
  "map_throws f [] = Some []"
| "map_throws f (x # xs) = (case f x of None \<Rightarrow> None | Some y \<Rightarrow> map_option ((#) y) (map_throws f xs))"

definition normalizeMerchantAddresses :: "addr_env \<Rightarrow> string list \<Rightarrow> address list option" where
  "normalizeMerchantAddresses env = map_throws (normalizeMerchantAddress env)"

text \<open>An exception in a comparison falls through to the next one.\<close>

definition addressesEqual :: "addr_env \<Rightarrow> string \<Rightarrow> string \<Rightarrow> bool" where
  "addressesEqual env a b =
     (let text = (trim a = trim b);
          key = (if looksLikeSolanaAddress env a \<and> looksLikeSolanaAddress env b
                 then (case (ad_pubkey env a, ad_pubkey env b) of (Some x, Some y) \<Rightarrow> x = y | _ \<Rightarrow> text) else text) in
      if starts_with a ''0x'' \<or> starts_with b ''0x''
      then (case (ad_getAddress env a, ad_getAddress env b) of (Some x, Some y) \<Rightarrow> x = y | _ \<Rightarrow> key) else key)"

section \<open>What the libraries do\<close>

text \<open>
  A checksummed address is \<open>0x\<close> and forty hexadecimal digits and is its own checksum. Base58 is
  unambiguous: a key decoded from a text is written as that text.
\<close>

definition addr_ok :: "addr_env \<Rightarrow> bool" where
  "addr_ok env \<longleftrightarrow>
     (\<forall>a b. ad_getAddress env a = Some b \<longrightarrow>
        length b = 42 \<and> starts_with b ''0x'' \<and> list_all (\<lambda>c. hex_value c \<noteq> None) (drop 2 b) \<and> ad_getAddress env b = Some b) \<and>
     (\<forall>a b. ad_pubkey env a = Some b \<longrightarrow> b = a)"

lemma addr_okD:
  assumes "addr_ok env"
  shows "ad_getAddress env a = Some b \<Longrightarrow> ad_getAddress env b = Some b"
    and "ad_getAddress env a = Some b \<Longrightarrow> starts_with b ''0x''"
    and "ad_getAddress env a = Some b \<Longrightarrow> \<exists>h. b = ''0x'' @ h \<and> length h = 40 \<and> list_all (\<lambda>c. hex_value c \<noteq> None) h"
    and "ad_pubkey env a = Some b \<Longrightarrow> b = a"
proof -
  show "ad_getAddress env a = Some b \<Longrightarrow> \<exists>h. b = ''0x'' @ h \<and> length h = 40 \<and> list_all (\<lambda>c. hex_value c \<noteq> None) h"
  proof -
    assume "ad_getAddress env a = Some b"
    with assms have b: "length b = 42" "take 2 b = ''0x''" "list_all (\<lambda>c. hex_value c \<noteq> None) (drop 2 b)"
      by (auto simp: addr_ok_def starts_with_def numeral_2_eq_2)
    show ?thesis
      using append_take_drop_id [of 2 b] b by (intro exI [of _ "drop 2 b"]) (simp add: length_drop)
  qed
qed (use assms in \<open>auto simp: addr_ok_def\<close>)

text \<open>Characters of an address.\<close>

lemma address_char:
  "hex_value c \<noteq> None \<Longrightarrow> \<not> is_space c \<and> c \<noteq> CHR '',''" "base58_char c \<Longrightarrow> \<not> is_space c \<and> c \<noteq> CHR '',''"
  by (auto simp: hex_value_def base58_char_def is_space_def Let_def split: if_splits)

lemma trim_clean: "\<forall>c \<in> set s. \<not> is_space c \<Longrightarrow> trim s = s"
proof -
  assume "\<forall>c \<in> set s. \<not> is_space c"
  then have "dropWhile is_space s = s" "dropWhile is_space (rev s) = rev s"
    by (auto simp: dropWhile_eq_self_iff intro: hd_in_set last_in_set simp: hd_rev)
  then show ?thesis by (simp add: trim_def)
qed

text \<open>A normalized address is written without blanks and commas, and is its own normal form.\<close>

definition plain_address :: "string \<Rightarrow> bool" where
  "plain_address v \<longleftrightarrow> v \<noteq> [] \<and> (\<forall>c \<in> set v. \<not> is_space c \<and> c \<noteq> CHR '','')"

lemma getAddress_plain: "addr_ok env \<Longrightarrow> ad_getAddress env a = Some b \<Longrightarrow> plain_address b"
proof -
  assume "addr_ok env" "ad_getAddress env a = Some b"
  then obtain h where h: "b = ''0x'' @ h" "list_all (\<lambda>c. hex_value c \<noteq> None) h" using addr_okD(3) by metis
  have "\<not> is_space (CHR ''0'') \<and> \<not> is_space (CHR ''x'')" by code_simp
  with h show ?thesis using address_char(1) by (auto simp: plain_address_def list_all_iff)
qed

lemma normalize_plain:
  assumes "addr_ok env" and "normalizeMerchantAddress env v = Some n"
  shows "plain_address n"
proof -
  let ?t = "trim v"
  have tron: "plain_address ?t" if "looksLikeTronAddress ?t"
  proof -
    from that have t: "length ?t = 34" "take 1 ?t = ''T''" "list_all base58_char (drop 1 ?t)"
      by (auto simp: looksLikeTronAddress_def starts_with_def Let_def)
    have "base58_char (CHR ''T'')" by code_simp
    then have "list_all base58_char ?t" using t by (cases ?t) auto
    then have "\<forall>c \<in> set ?t. \<not> is_space c \<and> c \<noteq> CHR '',''" using address_char(2) unfolding list_all_iff by blast
    moreover have "?t \<noteq> []" using t(1) by fastforce
    ultimately show ?thesis unfolding plain_address_def by blast
  qed
  have solana: "plain_address ?t" if "looksLikeSolanaAddress env ?t"
  proof -
    from that have t: "32 \<le> length ?t" "list_all base58_char ?t" by (auto simp: looksLikeSolanaAddress_def Let_def)
    then have "\<forall>c \<in> set ?t. \<not> is_space c \<and> c \<noteq> CHR '',''" using address_char(2) unfolding list_all_iff by blast
    moreover have "?t \<noteq> []" using t(1) by fastforce
    ultimately show ?thesis unfolding plain_address_def by blast
  qed
  have "ad_getAddress env ?t = Some n \<or> looksLikeTronAddress ?t \<and> n = ?t \<or> looksLikeSolanaAddress env ?t \<and> ad_pubkey env ?t = Some n"
    using assms(2) by (simp add: normalizeMerchantAddress_def Let_def split: if_splits)
  then show ?thesis using tron solana getAddress_plain [OF assms(1)] addr_okD(4) [OF assms(1)] by blast
qed

lemma normalize_idem:
  assumes "addr_ok env" and "normalizeMerchantAddress env v = Some n"
  shows "normalizeMerchantAddress env n = Some n"
proof -
  have trim: "trim n = n" "n \<noteq> []" using normalize_plain [OF assms] by (auto simp: plain_address_def trim_clean)
  show ?thesis
  proof (cases "ad_getAddress env (trim v) = Some n")
    case True
    then show ?thesis using addr_okD(1,2) [OF assms(1) True] trim by (simp add: normalizeMerchantAddress_def)
  next
    case False
    with assms have "n = trim v" using addr_okD(4) [OF assms(1)]
      by (auto simp: normalizeMerchantAddress_def Let_def split: if_splits)
    then show ?thesis using assms(2) by (simp add: normalizeMerchantAddress_def)
  qed
qed

end
