(* ===== verification/PayLinks.thy ===== *)
theory PayLinks
  imports Addresses Invoices Decimals
begin

text \<open>
  Pay links (commerce/shared/invoice.ts): the terms of an invoice as the query of a URL, and the
  normalization of the terms in a request body.

  A text is the list of its characters up to U+00FF; \<open>URLSearchParams\<close> is the list of its pairs,
  written and read as the URL standard says (\<open>application/x-www-form-urlencoded\<close>).
\<close>

section \<open>URLSearchParams\<close>

type_synonym search_params = "(string \<times> string) list"

definition sp_get :: "search_params \<Rightarrow> string \<Rightarrow> string option" where
  "sp_get ps k = map_of ps k"

fun sp_set :: "search_params \<Rightarrow> string \<Rightarrow> string \<Rightarrow> search_params" where
  "sp_set [] k v = [(k, v)]"
| "sp_set (p # ps) k v = (if fst p = k then (k, v) # filter (\<lambda>q. fst q \<noteq> k) ps else p # sp_set ps k v)"

text \<open>\<open>set\<close> under a condition, as the code writes it.\<close>

definition sp_set_opt :: "search_params \<Rightarrow> string \<Rightarrow> string option \<Rightarrow> search_params" where
  "sp_set_opt ps k v = (if truthy v then sp_set ps k (the v) else ps)"

definition utf8_bytes :: "char \<Rightarrow> nat list" where
  "utf8_bytes c = (let n = of_char c in if n < 128 then [n] else [192 + n div 64, 128 + n mod 64])"

definition form_hex :: "nat \<Rightarrow> char" where
  "form_hex n = char_of (if n < 10 then n + 48 else n + 55)"

definition form_plain :: "char \<Rightarrow> bool" where
  "form_plain c =
     (let n = of_char c :: nat in
      (48 \<le> n \<and> n \<le> 57) \<or> (65 \<le> n \<and> n \<le> 90) \<or> (97 \<le> n \<and> n \<le> 122) \<or> c = CHR ''*'' \<or> c = CHR ''-'' \<or> c = CHR ''.'' \<or> c = CHR ''_'')"

definition form_char :: "char \<Rightarrow> string" where
  "form_char c =
     (if c = CHR '' '' then ''+''
      else if form_plain c then [c]
      else concat (map (\<lambda>b. [CHR ''%'', form_hex (b div 16), form_hex (b mod 16)]) (utf8_bytes c)))"

definition form_encode :: "string \<Rightarrow> string" where
  "form_encode s = concat (map form_char s)"

fun form_bytes :: "string \<Rightarrow> nat list" where
  "form_bytes [] = []"
| "form_bytes (c # s) =
     (if c = CHR ''+'' then 32 # form_bytes s
      else if c = CHR ''%''
      then (case s of
              a # b # r \<Rightarrow>
                (case (hex_value a, hex_value b) of
                   (Some x, Some y) \<Rightarrow> (16 * x + y) # form_bytes r
                 | _ \<Rightarrow> 37 # form_bytes s)
            | _ \<Rightarrow> 37 # form_bytes s)
      else utf8_bytes c @ form_bytes s)"

text \<open>UTF-8 of the characters above; other sequences stand for characters the model does not have.\<close>

fun utf8_text :: "nat list \<Rightarrow> string" where
  "utf8_text [] = []"
| "utf8_text (n # ns) =
     (if n < 128 then char_of n # utf8_text ns
      else (case ns of
              m # r \<Rightarrow> if (n = 194 \<or> n = 195) \<and> 128 \<le> m \<and> m < 192 then char_of ((n - 192) * 64 + (m - 128)) # utf8_text r
                       else CHR ''?'' # utf8_text ns
            | [] \<Rightarrow> ''?''))"

definition form_decode :: "string \<Rightarrow> string" where
  "form_decode s = utf8_text (form_bytes s)"

fun join_with :: "char \<Rightarrow> string list \<Rightarrow> string" where
  "join_with c [] = []"
| "join_with c [l] = l"
| "join_with c (l # ls) = l @ c # join_with c ls"

definition sp_to_string :: "search_params \<Rightarrow> string" where
  "sp_to_string ps = join_with (CHR ''&'') (map (\<lambda>(k, v). form_encode k @ CHR ''='' # form_encode v) ps)"

definition sp_pair :: "string \<Rightarrow> string \<times> string" where
  "sp_pair s =
     (form_decode (takeWhile (\<lambda>c. c \<noteq> CHR ''='') s), form_decode (drop 1 (dropWhile (\<lambda>c. c \<noteq> CHR ''='') s)))"

definition sp_parse :: "string \<Rightarrow> search_params" where
  "sp_parse s = map sp_pair (filter (\<lambda>p. p \<noteq> []) (split_on (CHR ''&'') (if starts_with s ''?'' then drop 1 s else s)))"

section \<open>Reading parameters\<close>

definition splitList :: "string option \<Rightarrow> string list" where
  "splitList v = filter (\<lambda>s. s \<noteq> []) (map trim (split_on (CHR '','') (nullish v '''')))"

definition optionalParam :: "search_params \<Rightarrow> string \<Rightarrow> string option" where
  "optionalParam ps k = or_null (map_option trim (sp_get ps k))"

text \<open>The first of two spellings of a parameter that is there.\<close>

definition either_param :: "search_params \<Rightarrow> string \<Rightarrow> string \<Rightarrow> string option" where
  "either_param ps a b = coalesce (optionalParam ps a) (optionalParam ps b)"

definition parseBoolean :: "string option \<Rightarrow> bool" where
  "parseBoolean v = (truthy v \<and> (v = Some ''1'' \<or> map_option lower v = Some ''true'' \<or> map_option lower v = Some ''yes''))"

definition DEFAULT_CHAIN :: string where
  "DEFAULT_CHAIN = ''11155111''"

definition DEFAULT_TOKEN :: string where
  "DEFAULT_TOKEN = ''USDC''"

section \<open>Decoding\<close>

text \<open>A merchant address, normalized where that is possible.\<close>

definition link_address :: "addr_env \<Rightarrow> string \<Rightarrow> string" where
  "link_address env v =
     (case normalizeMerchantAddress env v of
        Some a \<Rightarrow> a
      | None \<Rightarrow> (case ad_getAddress env v of Some a \<Rightarrow> a | None \<Rightarrow> v))"

text \<open>\<open>number\<close> is \<open>Number\<close> of a text, \<open>None\<close> when it is not a finite number.\<close>

definition decode_params :: "addr_env \<Rightarrow> (string \<Rightarrow> rat option) \<Rightarrow> search_params \<Rightarrow> invoice http_error + pay_link_fields" where
  "decode_params env number ps =
     (case parsePaymentMode (either_param ps ''payment_mode'' ''paymentMode'') of
        Inl e \<Rightarrow> Inl e
      | Inr mode \<Rightarrow>
          (case optionalParam ps ''price'' of
             None \<Rightarrow> Inl (Http_Error 500 ''Missing pay-link parameter: price'' None)
           | Some price \<Rightarrow>
               Inr \<lparr>pl_price = price, pl_to = map (link_address env) (splitList (sp_get ps ''to'')),
                    pl_chains = splitList (Some (nullish (sp_get ps ''chains'') DEFAULT_CHAIN)),
                    pl_tokens = map upper (splitList (Some (nullish (sp_get ps ''tokens'') DEFAULT_TOKEN))),
                    pl_invoice_seed = optionalParam ps ''invoice_seed'', pl_client_invoice_id = optionalParam ps ''client_invoice_id'',
                    pl_callback = optionalParam ps ''callback'', pl_title = optionalParam ps ''title'',
                    pl_description = optionalParam ps ''description'', pl_allow_partial = parseBoolean (sp_get ps ''allow_partial''),
                    pl_payment_mode = Some mode, pl_display_fiat = map_option upper (either_param ps ''display_fiat'' ''displayFiat''),
                    pl_display_amount = either_param ps ''display_amount'' ''displayAmount'',
                    pl_quote_country = map_option lower (either_param ps ''quote_country'' ''quoteCountry''),
                    pl_quote_payment_method = map_option lower (either_param ps ''quote_payment_method'' ''quotePaymentMethod''),
                    pl_quote_provider = map_option lower (either_param ps ''quote_provider'' ''quoteProvider''),
                    pl_quote_slippage_bps = Option.bind (either_param ps ''quote_slippage_bps'' ''quoteSlippageBps'') number,
                    pl_lang = either_param ps ''lang'' ''locale''\<rparr>))"

definition decodePayLink :: "addr_env \<Rightarrow> (string \<Rightarrow> rat option) \<Rightarrow> string \<Rightarrow> invoice http_error + pay_link_fields" where
  "decodePayLink env number s = decode_params env number (sp_parse (if starts_with s ''?'' then drop 1 s else s))"

section \<open>Encoding\<close>

definition payment_mode_text :: "payment_mode \<Rightarrow> string" where
  "payment_mode_text m = (case m of Crypto \<Rightarrow> ''crypto'' | Crypto_Or_Fiat \<Rightarrow> ''crypto_or_fiat'' | Fiat \<Rightarrow> ''fiat'')"

definition link_mode :: "pay_link_fields \<Rightarrow> string option" where
  "link_mode f = (case pl_payment_mode f of None \<Rightarrow> None | Some m \<Rightarrow> if m = Crypto then None else Some (payment_mode_text m))"

definition link_params :: "pay_link_fields \<Rightarrow> search_params" where
  "link_params f =
     (let p0 = sp_set (sp_set (sp_set (sp_set [] ''price'' (pl_price f)) ''to'' (join_with (CHR '','') (pl_to f)))
                 ''chains'' (join_with (CHR '','') (pl_chains f))) ''tokens'' (join_with (CHR '','') (pl_tokens f));
          p1 = sp_set_opt (sp_set_opt (sp_set_opt (sp_set_opt p0 ''client_invoice_id'' (pl_client_invoice_id f)) ''callback'' (pl_callback f))
                 ''title'' (pl_title f)) ''description'' (pl_description f);
          p2 = sp_set_opt (sp_set p1 ''allow_partial'' (if pl_allow_partial f then ''1'' else ''0'')) ''payment_mode'' (link_mode f);
          p3 = sp_set_opt (sp_set_opt (sp_set_opt p2 ''display_fiat'' (pl_display_fiat f)) ''display_amount'' (pl_display_amount f))
                 ''quote_country'' (pl_quote_country f);
          p4 = sp_set_opt (sp_set_opt p3 ''quote_payment_method'' (pl_quote_payment_method f)) ''quote_provider'' (pl_quote_provider f);
          p5 = sp_set_opt p4 ''quote_slippage_bps'' (map_option (\<lambda>q. int_text (js_round q)) (pl_quote_slippage_bps f)) in
      sp_set_opt p5 ''lang'' (pl_lang f))"

definition encodePayLink :: "pay_link_fields \<Rightarrow> string" where
  "encodePayLink f = sp_to_string (link_params f)"

definition encodeInvoiceResumeLink :: "string \<Rightarrow> string option \<Rightarrow> string" where
  "encodeInvoiceResumeLink i lang = sp_to_string (sp_set_opt (sp_set [] ''id'' i) ''lang'' lang)"

definition payPath :: "pay_link_fields \<Rightarrow> string" where
  "payPath f = ''/pay?'' @ encodePayLink f"

section \<open>Request bodies\<close>

text \<open>
  A body maps its fields to texts: absent or null is \<open>None\<close>, an array is its elements joined by
  commas, anything else is \<open>String\<close> of it.
\<close>

type_synonym request_body = "string \<Rightarrow> string option"

text \<open>\<open>body.a ?? body.b\<close>\<close>

definition field2 :: "request_body \<Rightarrow> string \<Rightarrow> string \<Rightarrow> string option" where
  "field2 body a b = coalesce (body a) (body b)"

definition objectToSearchParams :: "(string \<times> string option) list \<Rightarrow> search_params" where
  "objectToSearchParams entries =
     foldl (\<lambda>ps (k, v). case v of None \<Rightarrow> ps | Some s \<Rightarrow> sp_set ps k s) [] entries"

definition normalizePayLinkFields :: "addr_env \<Rightarrow> (string \<Rightarrow> rat option) \<Rightarrow> request_body \<Rightarrow> invoice http_error + pay_link_fields" where
  "normalizePayLinkFields env number body =
     decode_params env number (objectToSearchParams
       [(''price'', body ''price''), (''to'', body ''to''), (''chains'', body ''chains''), (''tokens'', body ''tokens''),
        (''client_invoice_id'', field2 body ''clientInvoiceId'' ''client_invoice_id''), (''callback'', body ''callback''),
        (''title'', body ''title''), (''description'', body ''description''),
        (''allow_partial'', field2 body ''allowPartial'' ''allow_partial''),
        (''payment_mode'', field2 body ''paymentMode'' ''payment_mode''),
        (''display_fiat'', field2 body ''displayFiat'' ''display_fiat''),
        (''display_amount'', field2 body ''displayAmount'' ''display_amount''),
        (''quote_country'', field2 body ''quoteCountry'' ''quote_country''),
        (''quote_payment_method'', field2 body ''quotePaymentMethod'' ''quote_payment_method''),
        (''quote_provider'', field2 body ''quoteProvider'' ''quote_provider''),
        (''quote_slippage_bps'', field2 body ''quoteSlippageBps'' ''quote_slippage_bps''), (''lang'', body ''lang'')])"

definition parseSlippageBps :: "(string \<Rightarrow> rat option) \<Rightarrow> string option \<Rightarrow> int" where
  "parseSlippageBps number v =
     (if \<not> truthy v then 100
      else (case number (the v) of
              None \<Rightarrow> 100
            | Some n \<Rightarrow> if n < 0 then 100 else min 10000 (js_round n)))"

end
