(* ===== verification/InvoiceRoutes.thy ===== *)
theory InvoiceRoutes
  imports PayLinks AuthProps
begin

text \<open>
  Creating invoices (\<open>createInvoice\<close> and \<open>createSessionDeprecated\<close> of commerce/server/routes.ts):
  from a request body to the row, its id and the address that receives the payment. Hashes, ABI
  encoding, key derivation and the calls of a node are parameters; \<open>None\<close> is an exception.
\<close>

record invoice_env =
  ie_addr :: addr_env
  ie_number :: "string \<Rightarrow> rat option"
  ie_getBytes :: "string \<Rightarrow> nat list option"
  ie_keccak :: "string \<Rightarrow> string"
  ie_utf8_hex :: "string \<Rightarrow> string"
  ie_encode_id :: "string \<Rightarrow> string list \<Rightarrow> string"
  ie_packed :: "address \<Rightarrow> string \<Rightarrow> string"
  ie_create2 :: "address \<Rightarrow> string \<Rightarrow> string \<Rightarrow> address"
  ie_onchain :: "string \<Rightarrow> address \<Rightarrow> address \<Rightarrow> string \<Rightarrow> address option"
  ie_encode_tron :: "string \<Rightarrow> string \<Rightarrow> string \<Rightarrow> string"
  ie_tron_address :: "string \<Rightarrow> string \<Rightarrow> address option"
  ie_solana_pda :: "string \<Rightarrow> nat list \<Rightarrow> string \<Rightarrow> string \<Rightarrow> string option"
  ie_solana_ata :: "string \<Rightarrow> string \<Rightarrow> string option"

record evm_chain =
  ec_sweeper :: "string option"
  ec_forwarder :: "string option"
  ec_rpc :: "string option"
  ec_tokens :: "(string \<times> string option) list"

record solana_chain =
  sc_enabled :: "bool option"
  sc_program :: string
  sc_tokens :: "(string \<times> string) list"

record invoice_config =
  ic_captcha :: "string option \<Rightarrow> bool option"
  ic_onramp :: bool
  ic_evm :: "(string \<times> evm_chain) list"
  ic_solana :: "(string \<times> solana_chain) list"
  ic_tron_secret :: "string option"
  ic_tron_host :: "string option"

definition bad :: "nat \<Rightarrow> string \<Rightarrow> 'a invoice_result" where
  "bad n e = Inl (Http_Error n e None)"

definition crashed :: "'a invoice_result" where
  "crashed = bad 500 ''Internal error''"

definition or_crash :: "'a option \<Rightarrow> 'a invoice_result" where
  "or_crash x = (case x of None \<Rightarrow> crashed | Some y \<Rightarrow> Inr y)"

section \<open>Ids\<close>

definition bytes32_hex :: "invoice_env \<Rightarrow> string \<Rightarrow> string option" where
  "bytes32_hex env v =
     (case ie_getBytes env v of None \<Rightarrow> None | Some bs \<Rightarrow> if length bs = 32 then Some (bytes_to_hex bs) else None)"

definition getCommerceInvoiceId :: "invoice_env \<Rightarrow> string \<Rightarrow> string list \<Rightarrow> string option" where
  "getCommerceInvoiceId env seed to =
     (case (bytes32_hex env seed, normalizeMerchantAddresses (ie_addr env) to) of
        (Some s, Some addrs) \<Rightarrow> Some (ie_keccak env (ie_encode_id env s addrs))
      | _ \<Rightarrow> None)"

definition invoiceIdFromPayLink :: "invoice_env \<Rightarrow> pay_link_fields \<Rightarrow> string option" where
  "invoiceIdFromPayLink env f =
     (if \<not> truthy (pl_invoice_seed f) then None else getCommerceInvoiceId env (the (pl_invoice_seed f)) (pl_to f))"

section \<open>Payment addresses\<close>

definition commerceInvoiceSalt :: "invoice_env \<Rightarrow> string \<Rightarrow> string \<Rightarrow> string option" where
  "commerceInvoiceSalt env to i =
     (case (ad_getAddress (ie_addr env) to, ie_getBytes env i) of
        (Some a, Some bs) \<Rightarrow> Some (ie_keccak env (ie_packed env a (bytes_to_hex bs)))
      | _ \<Rightarrow> None)"

definition commerceMinimalProxyInitCodeHash :: "invoice_env \<Rightarrow> string \<Rightarrow> string option" where
  "commerceMinimalProxyInitCodeHash env impl =
     map_option (\<lambda>a. ie_keccak env (''0x3d602d80600a3d3981f3363d3d373d3d3d363d73'' @ lower (drop 2 a) @ ''5af43d82803e903d91602b57fd5bf3''))
       (ad_getAddress (ie_addr env) impl)"

definition predictCommerceInvoiceAddress :: "invoice_env \<Rightarrow> string \<Rightarrow> string \<Rightarrow> string \<Rightarrow> string \<Rightarrow> address option" where
  "predictCommerceInvoiceAddress env sweeper impl to i =
     (case (ad_getAddress (ie_addr env) sweeper, commerceInvoiceSalt env to i, commerceMinimalProxyInitCodeHash env impl) of
        (Some s, Some salt, Some code) \<Rightarrow> Some (ie_create2 env s salt code)
      | _ \<Rightarrow> None)"

definition sdk_getInvoiceAddress :: "invoice_env \<Rightarrow> string \<Rightarrow> string \<Rightarrow> string \<Rightarrow> string \<Rightarrow> address option" where
  "sdk_getInvoiceAddress env rpc sweeper to i =
     (case (ad_getAddress (ie_addr env) sweeper, ad_getAddress (ie_addr env) to, ie_getBytes env i) of
        (Some s, Some t, Some bs) \<Rightarrow>
          Option.bind (ie_onchain env rpc s t (bytes_to_hex bs)) (ad_getAddress (ie_addr env))
      | _ \<Rightarrow> None)"

definition deriveTronInvoicePrivateKey :: "invoice_env \<Rightarrow> string \<Rightarrow> string \<Rightarrow> string \<Rightarrow> string option" where
  "deriveTronInvoicePrivateKey env secret chain i =
     map_option (\<lambda>n. let k = ie_keccak env (ie_encode_tron env (ie_keccak env (ie_utf8_hex env secret)) chain n) in
         if starts_with k ''0x'' then drop 2 k else k) (bytes32_hex env i)"

definition deriveTronInvoiceAddress :: "invoice_env \<Rightarrow> string \<Rightarrow> string \<Rightarrow> string \<Rightarrow> string \<Rightarrow> address option" where
  "deriveTronInvoiceAddress env secret chain i host =
     Option.bind (deriveTronInvoicePrivateKey env secret chain i) (ie_tron_address env host)"

definition normalizeInvoiceId32 :: "string \<Rightarrow> nat list option" where
  "normalizeInvoiceId32 i =
     (let h = (if starts_with i ''0x'' then drop 2 i else i) in
      if length h = 64 \<and> list_all (\<lambda>c. hex_value c \<noteq> None) h then Some (hexToBytes h) else None)"

definition predictCommerceSolanaInvoiceAta :: "invoice_env \<Rightarrow> string \<Rightarrow> string \<Rightarrow> string \<Rightarrow> string \<Rightarrow> address option" where
  "predictCommerceSolanaInvoiceAta env program merchant i mint =
     (case normalizeInvoiceId32 i of
        None \<Rightarrow> None
      | Some bs \<Rightarrow> Option.bind (ie_solana_pda env program bs merchant mint) (ie_solana_ata env mint))"

definition resolveSolanaChain :: "(string \<times> solana_chain) list \<Rightarrow> string \<Rightarrow> solana_chain option" where
  "resolveSolanaChain networks chain =
     (if chain = '''' then None
      else (case map_of networks chain of
              None \<Rightarrow> None
            | Some c \<Rightarrow> if sc_enabled c = Some False \<or> sc_program c = '''' \<or> starts_with (sc_program c) ''PLACEHOLDER'' then None else Some c))"

definition resolveSolanaToken :: "solana_chain \<Rightarrow> string \<Rightarrow> string option" where
  "resolveSolanaToken c token =
     (case map_of (sc_tokens c) (upper (trim token)) of
        None \<Rightarrow> None
      | Some mint \<Rightarrow> if mint = '''' \<or> starts_with mint ''PLACEHOLDER'' then None else Some mint)"

definition resolveEvmChain :: "(string \<times> evm_chain) list \<Rightarrow> string \<Rightarrow> evm_chain option" where
  "resolveEvmChain networks chain =
     (if chain = '''' then None
      else (case map_of networks chain of None \<Rightarrow> None | Some c \<Rightarrow> if truthy (ec_sweeper c) then Some c else None))"

definition getInvoiceAddress :: "invoice_env \<Rightarrow> invoice_config \<Rightarrow> address \<Rightarrow> string \<Rightarrow> string \<Rightarrow> string \<Rightarrow> address invoice_result" where
  "getInvoiceAddress env conf to i chain token =
     (case chainKind (Some chain) of
        Tron_Chain \<Rightarrow>
          if \<not> truthy (ic_tron_secret conf) then bad 503 ''TRON_INVOICE_MASTER_SECRET is required to create Tron invoices''
          else or_crash (deriveTronInvoiceAddress env (the (ic_tron_secret conf)) (tronNumericChainId chain) i
                 (nullish (ic_tron_host conf) (defaultTronFullHost (Some chain))))
      | Solana_Chain \<Rightarrow>
          (case resolveSolanaChain (ic_solana conf) chain of
             None \<Rightarrow> bad 503 ''Solana chain is not configured or not enabled''
           | Some c \<Rightarrow>
               (case resolveSolanaToken c token of
                  None \<Rightarrow> bad 400 ''Token is not configured for Solana chain''
                | Some mint \<Rightarrow> or_crash (predictCommerceSolanaInvoiceAta env (sc_program c) to i mint)))
      | Evm_Chain \<Rightarrow>
          (case resolveEvmChain (ic_evm conf) chain of
             None \<Rightarrow> bad 503 ''EVM chain is not configured''
           | Some c \<Rightarrow>
               if truthy (ec_forwarder c) then or_crash (predictCommerceInvoiceAddress env (the (ec_sweeper c)) (the (ec_forwarder c)) to i)
               else if \<not> truthy (ec_rpc c) then bad 503 ''EVM RPC URL is required when sweeper address is set''
               else or_crash (sdk_getInvoiceAddress env (the (ec_rpc c)) (the (ec_sweeper c)) to i)))"

section \<open>Checks\<close>

definition PAY_IN_CHAIN_ID :: string where
  "PAY_IN_CHAIN_ID = ''8453''"

definition PAY_IN_TOKEN :: string where
  "PAY_IN_TOKEN = ''USDC''"

definition isPayInSettlement :: "string \<Rightarrow> string \<Rightarrow> bool" where
  "isPayInSettlement chain token = (chain = PAY_IN_CHAIN_ID \<and> upper (trim token) = PAY_IN_TOKEN)"

text \<open>\<open>/^0x[0-9a-fA-F]{40}$/i\<close>\<close>

definition evm_shaped :: "string \<Rightarrow> bool" where
  "evm_shaped a = (lower (take 2 a) = ''0x'' \<and> length a = 42 \<and> list_all (\<lambda>c. hex_value c \<noteq> None) (drop 2 a))"

definition assertPaymentModeAllowed :: "invoice_config \<Rightarrow> payment_mode \<Rightarrow> pay_link_fields \<Rightarrow> unit invoice_result" where
  "assertPaymentModeAllowed conf mode f =
     (if mode = Crypto then Inr ()
      else if \<not> ic_onramp conf then bad 400 ''Card and bank payments are not enabled on this instance''
      else if paymentModeAllowsFiat mode then
        (if \<not> (list_ex (\<lambda>c. c = PAY_IN_CHAIN_ID) (pl_chains f) \<and> list_ex (\<lambda>t. upper t = PAY_IN_TOKEN) (pl_tokens f))
         then bad 400 ''Fiat invoices settle as USDC on Base''
         else if \<not> list_ex evm_shaped (pl_to f) then bad 400 ''Fiat invoices require an EVM merchant address''
         else Inr ())
      else Inr ())"

definition assertTokenChainPair :: "invoice_config \<Rightarrow> string \<Rightarrow> string \<Rightarrow> unit invoice_result" where
  "assertTokenChainPair conf chain token =
     (if \<not> tokenAllowedOnChain chain token then bad 400 ''Token is not allowed on chain''
      else if chainKind (Some chain) \<noteq> Evm_Chain then Inr ()
      else (case map_of (ic_evm conf) chain of
              None \<Rightarrow> Inr ()
            | Some c \<Rightarrow>
                if ec_tokens c = [] then Inr ()
                else if \<not> truthy (Option.bind (map_of (ec_tokens c) (upper (trim token))) id)
                then bad 400 ''Token is not configured for EVM chain'' else Inr ()))"

definition pickDefaultTo :: "addr_env \<Rightarrow> pay_link_fields \<Rightarrow> string \<Rightarrow> string option" where
  "pickDefaultTo env f chain =
     coalesce (List.find (\<lambda>v. case chainKind (Some chain) of
                                Tron_Chain \<Rightarrow> starts_with v ''T''
                              | Solana_Chain \<Rightarrow> looksLikeSolanaAddress env v
                              | Evm_Chain \<Rightarrow> starts_with v ''0x'') (pl_to f))
       (first_row (pl_to f))"

definition resolveSelectedTo :: "addr_env \<Rightarrow> request_body \<Rightarrow> pay_link_fields \<Rightarrow> string \<Rightarrow> address invoice_result" where
  "resolveSelectedTo env body f chain =
     (case normalizeMerchantAddress env (nullish (coalesce (field2 body ''selectedTo'' ''selected_to'') (pickDefaultTo env f chain)) '''') of
        None \<Rightarrow> bad 400 ''selectedTo is not a valid merchant address''
      | Some to \<Rightarrow>
          let kind = chainKind (Some chain) in
          if \<not> list_ex (\<lambda>v. addressesEqual env v to) (pl_to f)
          then bad 400 ''selectedTo is not in the pay-link merchant address list''
          else if kind = Tron_Chain \<and> \<not> starts_with to ''T'' then bad 400 ''selectedTo must be a Tron address for Nile/Tron chains''
          else if kind = Evm_Chain \<and> \<not> starts_with to ''0x'' then bad 400 ''selectedTo must be an EVM address for this chain''
          else if kind = Solana_Chain \<and> \<not> looksLikeSolanaAddress env to then bad 400 ''selectedTo must be a Solana address for this chain''
          else Inr to)"

section \<open>The routes\<close>

text \<open>What both routes refuse before they look at the terms.\<close>

definition create_guard :: "invoice_config \<Rightarrow> request_body \<Rightarrow> unit invoice_result" where
  "create_guard conf body =
     (case ic_captcha conf (body ''captchaToken'') of
        None \<Rightarrow> crashed
      | Some ok \<Rightarrow>
          if \<not> ok then bad 400 ''Captcha verification failed''
          else if field2 body ''invoiceSeed'' ''invoice_seed'' \<noteq> None
          then bad 400 ''invoiceSeed is server-assigned; do not provide it in the request''
          else Inr ())"

definition three_capitals :: "string \<Rightarrow> bool" where
  "three_capitals s = (length s = 3 \<and> list_all (\<lambda>c. 65 \<le> (of_char c :: nat) \<and> (of_char c :: nat) \<le> 90) s)"

text \<open>The terms of the invoice: those of the link, checked, and those of the body. \<open>seed\<close> is the random one.\<close>

definition create_fields ::
    "invoice_env \<Rightarrow> invoice_config \<Rightarrow> request_body \<Rightarrow> string \<Rightarrow> (pay_link_fields \<times> pay_link_fields \<times> payment_mode) invoice_result" where
  "create_fields env conf body seed =
     (case parsePaymentMode (field2 body ''paymentMode'' ''payment_mode'') of
        Inl e \<Rightarrow> Inl e
      | Inr mode \<Rightarrow>
          (let body' = (if paymentModeAllowsFiat mode
                        then body(''price'' := Some (nullish (field2 body ''price'' ''priceUsd'') ''0''),
                                  ''chains'' := Some PAY_IN_CHAIN_ID, ''tokens'' := Some PAY_IN_TOKEN)
                        else body) in
           case normalizePayLinkFields (ie_addr env) (ie_number env) body' of
             Inl e \<Rightarrow> Inl e
           | Inr base \<Rightarrow>
               (case assertPaymentModeAllowed conf mode base of
                  Inl e \<Rightarrow> Inl e
                | Inr _ \<Rightarrow>
                    (let opt = (\<lambda>f x. or_null (Some (f (trim (nullish x '''')))));
                         fiat = opt upper (field2 body ''displayFiat'' ''display_fiat'');
                         amount = opt id (field2 body ''displayAmount'' ''display_amount'');
                         country = opt lower (field2 body ''quoteCountry'' ''quote_country'');
                         meth = opt lower (field2 body ''quotePaymentMethod'' ''quote_payment_method'');
                         prov = opt lower (field2 body ''quoteProvider'' ''quote_provider'');
                         bps = parseSlippageBps (ie_number env) (field2 body ''quoteSlippageBps'' ''quote_slippage_bps'') in
                     if pl_price base = '''' \<or> pl_price base = ''0'' then bad 400 ''price is required''
                     else if amount \<noteq> None \<and> fiat = None then bad 400 ''displayFiat is required when displayAmount is set''
                     else if opt_ex (\<lambda>s. \<not> three_capitals s) fiat then bad 400 ''displayFiat must be a 3-letter currency code''
                     else Inr (base, base\<lparr>pl_invoice_seed := Some seed, pl_payment_mode := Some mode,
                            pl_display_fiat := coalesce fiat (pl_display_fiat base), pl_display_amount := coalesce amount (pl_display_amount base),
                            pl_quote_country := coalesce country (pl_quote_country base),
                            pl_quote_payment_method := coalesce meth (pl_quote_payment_method base),
                            pl_quote_provider := coalesce prov (pl_quote_provider base),
                            pl_quote_slippage_bps := (if fiat \<noteq> None \<or> amount \<noteq> None then Some (of_int bps) else pl_quote_slippage_bps base)\<rparr>, mode)))))"

text \<open>Chain, token, recipient, id and address of the invoice.\<close>

definition settle_terms ::
    "invoice_env \<Rightarrow> invoice_config \<Rightarrow> request_body \<Rightarrow> pay_link_fields \<Rightarrow> payment_mode \<Rightarrow> string \<Rightarrow> string \<Rightarrow>
     (address \<times> string \<times> address) invoice_result" where
  "settle_terms env conf body f mode chain token =
     (case assertTokenChainPair conf chain token of
        Inl e \<Rightarrow> Inl e
      | Inr _ \<Rightarrow>
          if paymentModeAllowsFiat mode \<and> \<not> isPayInSettlement chain token then bad 400 ''Fiat invoices settle as USDC on Base''
          else (case resolveSelectedTo (ie_addr env) body f chain of
                  Inl e \<Rightarrow> Inl e
                | Inr to \<Rightarrow>
                    (case invoiceIdFromPayLink env f of
                       None \<Rightarrow> crashed
                     | Some i \<Rightarrow>
                         (case getInvoiceAddress env conf to i chain token of
                            Inl e \<Rightarrow> Inl e
                          | Inr a \<Rightarrow> Inr (to, i, a)))))"

definition body_chain :: "request_body \<Rightarrow> pay_link_fields \<Rightarrow> string" where
  "body_chain body f = nullish (coalesce (field2 body ''chainId'' ''chain_id'') (first_row (pl_chains f))) ''undefined''"

definition body_token :: "request_body \<Rightarrow> pay_link_fields \<Rightarrow> string" where
  "body_token body f = upper (nullish (coalesce (body ''token'') (first_row (pl_tokens f))) ''undefined'')"

record create_reply =
  cr_invoice :: invoice
  cr_created :: bool
  cr_pay_link :: string
  cr_checkout_link :: string

definition createInvoiceRoute ::
    "invoice_env \<Rightarrow> invoice_config \<Rightarrow> invoice_db \<Rightarrow> request_body \<Rightarrow> string option \<Rightarrow> string \<Rightarrow> timestamp \<Rightarrow> create_reply invoice_result \<times> invoice_db" where
  "createInvoiceRoute env conf db body idempotency seed now =
     (case create_guard conf body of
        Inl e \<Rightarrow> (Inl e, db)
      | Inr _ \<Rightarrow>
          (case create_fields env conf body seed of
             Inl e \<Rightarrow> (Inl e, db)
           | Inr (base, f, mode) \<Rightarrow>
               (let chain = (if paymentModeAllowsFiat mode then PAY_IN_CHAIN_ID else body_chain body f);
                    token = (if paymentModeAllowsFiat mode then upper PAY_IN_TOKEN else body_token body f) in
                case settle_terms env conf body f mode chain token of
                  Inl e \<Rightarrow> (Inl e, db)
                | Inr (to, i, a) \<Rightarrow>
                    (case createInvoice db
                            \<lparr>ci_invoice_id = i, ci_fields = f, ci_chain_id = chain, ci_token = token, ci_selected_to = to,
                             ci_invoice_address = Some a, ci_pay_session_id = body ''paySessionId'',
                             ci_idempotency_key = idempotency\<rparr> now of
                       (Inl e, db') \<Rightarrow> (Inl e, db')
                     | (Inr (r, created), db') \<Rightarrow>
                         (Inr \<lparr>cr_invoice = r, cr_created = created,
                               cr_pay_link = ''/pay?'' @ encodeInvoiceResumeLink (inv_id r) (coalesce (tm_lang (inv_terms r)) (pl_lang f)),
                               cr_checkout_link = ''/pay?'' @ encodePayLink (base\<lparr>pl_payment_mode := Some mode\<rparr>)\<rparr>, db')))))"

text \<open>The older route: no idempotency, no price check, a session id of its own.\<close>

definition createSessionDeprecated ::
    "invoice_env \<Rightarrow> invoice_config \<Rightarrow> invoice_db \<Rightarrow> request_body \<Rightarrow> string \<Rightarrow> string \<Rightarrow> timestamp \<Rightarrow> invoice invoice_result \<times> invoice_db" where
  "createSessionDeprecated env conf db body session seed now =
     (case create_guard conf body of
        Inl e \<Rightarrow> (Inl e, db)
      | Inr _ \<Rightarrow>
          (case normalizePayLinkFields (ie_addr env) (ie_number env) body of
             Inl e \<Rightarrow> (Inl e, db)
           | Inr base \<Rightarrow>
               (case parsePaymentMode (coalesce (field2 body ''paymentMode'' ''payment_mode'') (map_option payment_mode_text (pl_payment_mode base))) of
                  Inl e \<Rightarrow> (Inl e, db)
                | Inr mode \<Rightarrow>
                    (case assertPaymentModeAllowed conf mode base of
                       Inl e \<Rightarrow> (Inl e, db)
                     | Inr _ \<Rightarrow>
                         (let f = base\<lparr>pl_invoice_seed := Some seed, pl_payment_mode := Some mode\<rparr>;
                              chain = body_chain body f; token = body_token body f in
                          case settle_terms env conf body f mode chain token of
                            Inl e \<Rightarrow> (Inl e, db)
                          | Inr (to, i, a) \<Rightarrow>
                              (case createInvoice db
                                      \<lparr>ci_invoice_id = i, ci_fields = f, ci_chain_id = chain, ci_token = token, ci_selected_to = to,
                                       ci_invoice_address = Some a, ci_pay_session_id = Some session, ci_idempotency_key = None\<rparr> now of
                                 (Inl e, db') \<Rightarrow> (Inl e, db')
                               | (Inr (r, _), db') \<Rightarrow> (Inr r, db')))))))"

end
