(* ===== verification/MerchantRoutes.thy ===== *)
theory MerchantRoutes
  imports InvoiceRoutes SessionTokens
begin

text \<open>
  The other routes on invoices (commerce/server/routes.ts) and the merchant's signature they ask for
  (auth.ts): showing and listing, the reports of sweepers with the callback to the shop, forcing a
  sweep, the faucet (faucet.ts), and what an administrator does.
\<close>

section \<open>Merchant signatures\<close>

record merchant_auth =
  ma_address :: string
  ma_message :: string
  ma_signature :: string

definition readMerchantAuth :: "http_request \<Rightarrow> merchant_auth auth_result" where
  "readMerchantAuth q =
     (let a = header q ''x-merchant-address''; m = header q ''x-merchant-message''; s = header q ''x-merchant-signature'' in
      if \<not> (truthy a \<and> truthy m \<and> truthy s) then unauthorized ''Missing merchant signature headers''
      else Inr \<lparr>ma_address = the a, ma_message = the m, ma_signature = the s\<rparr>)"

definition verifyMerchantAuth :: "auth_env \<Rightarrow> merchant_auth \<Rightarrow> address auth_result" where
  "verifyMerchantAuth env ma =
     (case (ae_getAddress env (ma_address ma),
            Option.bind (ae_verifyMessage env (ma_message ma) (ma_signature ma)) (ae_getAddress env)) of
        (Some expected, Some recovered) \<Rightarrow>
          (let m = lower (ma_message ma) in
           if recovered \<noteq> expected then unauthorized ''Invalid merchant signature''
           else if \<not> text_includes m ''trustless commerce'' \<or> \<not> text_includes m (lower expected)
           then unauthorized ''Merchant signature message is not scoped to this app''
           else Inr expected)
      | _ \<Rightarrow> thrown)"

definition requireMerchant :: "auth_env \<Rightarrow> http_request \<Rightarrow> address auth_result" where
  "requireMerchant env q = (case readMerchantAuth q of Inl e \<Rightarrow> Inl e | Inr ma \<Rightarrow> verifyMerchantAuth env ma)"

text \<open>The text a shop signs; \<open>issued\<close> is the ISO time.\<close>

definition merchantLoginMessage :: "auth_env \<Rightarrow> string \<Rightarrow> string \<Rightarrow> string \<Rightarrow> string option" where
  "merchantLoginMessage env a nonce issued =
     map_option (\<lambda>c. join_lines [''Trustless Commerce merchant login'', ''Address: '' @ c, ''Nonce: '' @ nonce, ''Issued At: '' @ issued])
       (ae_getAddress env a)"

definition of_auth :: "'a auth_result \<Rightarrow> 'a invoice_result" where
  "of_auth x = (case x of Inl e \<Rightarrow> Inl (Http_Error (status_code e) (error_message e) None) | Inr y \<Rightarrow> Inr y)"

section \<open>Showing and listing\<close>

definition invoice_not_found :: "'a invoice_result" where
  "invoice_not_found = bad 404 ''Invoice not found''"

definition getInvoiceRoute :: "invoice_db \<Rightarrow> string \<Rightarrow> (invoice \<times> invoice_event list) invoice_result" where
  "getInvoiceRoute db k =
     (case getInvoice db k of None \<Rightarrow> invoice_not_found | Some r \<Rightarrow> Inr (r, getEvents db k))"

definition status_text :: "invoice_status \<Rightarrow> string" where
  "status_text s =
     (case s of Created \<Rightarrow> ''created'' | Awaiting_Payment \<Rightarrow> ''awaiting_payment'' | Paid \<Rightarrow> ''paid''
      | Paid_Partial \<Rightarrow> ''paid_partial'' | Swept \<Rightarrow> ''swept'')"

text \<open>
  \<open>LIKE '%to%'\<close> on the JSON text of the addresses; \<open>LIKE\<close> ignores the case of ASCII letters, and a
  normalized address has no characters that stand for others or separate the elements.
\<close>

definition listInvoices :: "invoice_db \<Rightarrow> string option \<Rightarrow> string option \<Rightarrow> invoice list" where
  "listInvoices db status to =
     order_desc inv_created_at (filter (\<lambda>r.
       (\<not> truthy status \<or> status_text (inv_status r) = the status) \<and>
       (\<not> truthy to \<or> tm_selected_to (inv_terms r) = to \<or>
        list_ex (\<lambda>a. text_includes (lower a) (lower (the to))) (tm_to_addresses (inv_terms r)))) (invoices db))"

definition normalizeLookupAddress :: "addr_env \<Rightarrow> string \<Rightarrow> address option" where
  "normalizeLookupAddress env v =
     (case normalizeMerchantAddress env v of Some a \<Rightarrow> Some a | None \<Rightarrow> ad_getAddress env v)"

text \<open>Anyone lists the invoices of an address; a signature is checked only when one is sent.\<close>

definition listMerchantInvoices ::
    "addr_env \<Rightarrow> auth_env \<Rightarrow> invoice_db \<Rightarrow> http_request \<Rightarrow> string option \<Rightarrow> string option \<Rightarrow> invoice list invoice_result" where
  "listMerchantInvoices env aenv db q to status =
     (let asked = or_null (map_option trim to);
          lookup = (case asked of None \<Rightarrow> None | Some v \<Rightarrow> Some (or_crash (normalizeLookupAddress env v)));
          signed = (header q ''x-merchant-address'' \<noteq> None \<and> header q ''x-merchant-message'' \<noteq> None \<and> header q ''x-merchant-signature'' \<noteq> None);
          answer = (\<lambda>a. Inr (listInvoices db status (Some a))) in
      if signed
      then (case of_auth (requireMerchant aenv q) of
              Inl e \<Rightarrow> Inl e
            | Inr merchant \<Rightarrow>
                (case nullish lookup (Inr merchant) of
                   Inl e \<Rightarrow> Inl e
                 | Inr a \<Rightarrow> if \<not> addressesEqual env a merchant then bad 403 ''Merchant auth address must match the requested to address''
                            else answer a))
      else (case nullish lookup (of_auth (requireMerchant aenv q)) of Inl e \<Rightarrow> Inl e | Inr a \<Rightarrow> answer a))"

section \<open>Forcing a sweep\<close>

text \<open>The event is written under the text of the path, which may be a payment address.\<close>

definition forceSweepRoute ::
    "addr_env \<Rightarrow> auth_env \<Rightarrow> invoice_db \<Rightarrow> http_request \<Rightarrow> string \<Rightarrow> bool option \<Rightarrow> timestamp \<Rightarrow> invoice invoice_result \<times> invoice_db" where
  "forceSweepRoute env aenv db q k force now =
     (case of_auth (requireMerchant aenv q) of
        Inl e \<Rightarrow> (Inl e, db)
      | Inr merchant \<Rightarrow>
          (case getInvoice db k of
             None \<Rightarrow> (invoice_not_found, db)
           | Some r \<Rightarrow>
               if \<not> list_ex (\<lambda>v. addressesEqual env v merchant) (tm_to_addresses (inv_terms r))
               then (bad 403 ''Merchant auth address does not own this invoice'', db)
               else (case addEvent db k Ev_Force_Sweep (Pl_Force_Sweep (force \<noteq> Some False) merchant) now of
                       Inl e \<Rightarrow> (Inl e, db)
                     | Inr db' \<Rightarrow> (Inr r, db'))))"

section \<open>Reports of sweepers\<close>

definition parseInvoiceStatus :: "string option \<Rightarrow> invoice_status option invoice_result" where
  "parseInvoiceStatus v =
     (if v = None then Inr None
      else if v = Some ''created'' then Inr (Some Created)
      else if v = Some ''awaiting_payment'' then Inr (Some Awaiting_Payment)
      else if v = Some ''paid'' then Inr (Some Paid)
      else if v = Some ''paid_partial'' then Inr (Some Paid_Partial)
      else if v = Some ''swept'' then Inr (Some Swept)
      else bad 400 ''Invalid invoice status'')"

text \<open>The answer of the shop to a callback: status and success, or the error of \<open>fetch\<close>.\<close>

type_synonym shop_answer = "string + int \<times> bool"

definition postCallback :: "invoice_db \<Rightarrow> string \<Rightarrow> string \<Rightarrow> shop_answer \<Rightarrow> timestamp \<Rightarrow> unit invoice_result \<times> invoice_db" where
  "postCallback db url i ans now =
     (case addEvent db i (case ans of Inl _ \<Rightarrow> Ev_Error | Inr _ \<Rightarrow> Ev_Callback)
             (case ans of Inl e \<Rightarrow> Pl_Callback_Error url e | Inr (st, ok) \<Rightarrow> Pl_Callback url st ok) now of
        Inl e \<Rightarrow> (Inl e, db)
      | Inr db' \<Rightarrow> (Inr (), db'))"

text \<open>\<open>shop\<close> is the answer to the callback, \<open>world\<close> what other requests do while it is awaited.\<close>

definition applyTrack ::
    "invoice_db \<Rightarrow> string option \<Rightarrow> string option \<Rightarrow> track_input \<Rightarrow> address option \<Rightarrow> shop_answer \<Rightarrow> (invoice_db \<Rightarrow> invoice_db) \<Rightarrow>
     timestamp \<Rightarrow> unit invoice_result \<times> invoice_db" where
  "applyTrack db k status body sweeper shop world now =
     (case k of
        None \<Rightarrow> (bad 400 ''invoiceId is required'', db)
      | Some i \<Rightarrow>
          (case parseInvoiceStatus status of
             Inl e \<Rightarrow> (Inl e, db)
           | Inr st \<Rightarrow>
               (case trackInvoice db i (body\<lparr>ti_status := st, ti_sweeper := sweeper\<rparr>) now of
                  (Inl e, db1) \<Rightarrow> (Inl e, db1)
                | (Inr r, db1) \<Rightarrow>
                    if becamePaidLike (getInvoice db i) r \<and> truthy (tm_callback_url (inv_terms r))
                    then postCallback (world db1) (the (tm_callback_url (inv_terms r))) (inv_id r) shop now
                    else (Inr (), db1))))"

definition tracked_answer :: "string option \<Rightarrow> unit invoice_result \<times> invoice_db \<Rightarrow> invoice option invoice_result \<times> invoice_db" where
  "tracked_answer k res =
     (case res of (Inl e, db) \<Rightarrow> (Inl e, db) | (Inr _, db) \<Rightarrow> (Inr (Option.bind k (getInvoice db)), db))"

definition trackSignedRoute ::
    "auth_env \<Rightarrow> server_state \<Rightarrow> http_request \<Rightarrow> string option \<Rightarrow> string option \<Rightarrow> track_input \<Rightarrow> shop_answer \<Rightarrow> (invoice_db \<Rightarrow> invoice_db) \<Rightarrow>
     timestamp \<Rightarrow> invoice option invoice_result \<times> server_state" where
  "trackSignedRoute aenv st q k status body shop world now =
     (case requireSweeper aenv (st_registry st) q now of
        (Inl e, reg) \<Rightarrow> (of_auth (Inl e), st\<lparr>st_registry := reg\<rparr>)
      | (Inr a, reg) \<Rightarrow>
          (let (res, db) = tracked_answer k (applyTrack (st_invoices st) k status body (Some a) shop world now) in
           (res, st\<lparr>st_registry := reg, st_invoices := db\<rparr>)))"

definition trackInvoiceLegacy ::
    "string \<Rightarrow> invoice_db \<Rightarrow> http_request \<Rightarrow> string option \<Rightarrow> string option \<Rightarrow> track_input \<Rightarrow> shop_answer \<Rightarrow> (invoice_db \<Rightarrow> invoice_db) \<Rightarrow>
     timestamp \<Rightarrow> invoice option invoice_result \<times> invoice_db" where
  "trackInvoiceLegacy key db q k status body shop world now =
     (case of_auth (requireApiKey (header q ''x-api-key'') (header q ''authorization'') key ''SWEEPER_API_KEY'') of
        Inl e \<Rightarrow> (Inl e, db)
      | Inr _ \<Rightarrow> tracked_answer k (applyTrack db k status body None shop world now))"

text \<open>The list a sweeper works on: a status nobody has selects nothing.\<close>

definition worker_statuses :: "string option \<Rightarrow> invoice_status list" where
  "worker_statuses q =
     (if truthy q
      then List.map_filter (\<lambda>s. case parseInvoiceStatus (Some s) of Inr x \<Rightarrow> x | Inl _ \<Rightarrow> None)
             (filter (\<lambda>s. s \<noteq> '''') (map trim (split_on (CHR '','') (the q))))
      else default_worker_statuses)"

definition sweeperInvoicesRoute ::
    "auth_env \<Rightarrow> server_state \<Rightarrow> http_request \<Rightarrow> string option \<Rightarrow> timestamp \<Rightarrow> invoice list invoice_result \<times> server_state" where
  "sweeperInvoicesRoute aenv st q requested now =
     (case requireSweeper aenv (st_registry st) q now of
        (Inl e, reg) \<Rightarrow> (of_auth (Inl e), st\<lparr>st_registry := reg\<rparr>)
      | (Inr a, reg) \<Rightarrow>
          (case getSweeper reg a of
             None \<Rightarrow> (crashed, st\<lparr>st_registry := reg\<rparr>)
           | Some s \<Rightarrow>
               (Inr (listWorkerInvoices (st_invoices st) (worker_statuses requested)
                       (if or_chains s = [] then None else Some (or_chains s))), st\<lparr>st_registry := reg\<rparr>)))"

definition internalInvoicesRoute :: "string \<Rightarrow> invoice_db \<Rightarrow> http_request \<Rightarrow> string option \<Rightarrow> invoice list invoice_result" where
  "internalInvoicesRoute key db q requested =
     (case of_auth (requireApiKey (header q ''x-api-key'') (header q ''authorization'') key ''SWEEPER_API_KEY'') of
        Inl e \<Rightarrow> Inl e
      | Inr _ \<Rightarrow> Inr (listWorkerInvoices db (worker_statuses requested) None))"

definition sweeperHeartbeatRoute :: "auth_env \<Rightarrow> server_state \<Rightarrow> http_request \<Rightarrow> timestamp \<Rightarrow> unit invoice_result \<times> server_state" where
  "sweeperHeartbeatRoute aenv st q now =
     (case requireSweeper aenv (st_registry st) q now of
        (Inl e, reg) \<Rightarrow> (of_auth (Inl e), st\<lparr>st_registry := reg\<rparr>)
      | (Inr a, reg) \<Rightarrow> (Inr (), st\<lparr>st_registry := touchSweeper reg a now\<rparr>))"

section \<open>Administration\<close>

record operator_body =
  ob_address :: "string option"
  ob_label :: "string option"
  ob_chains :: "string list option"
  ob_enabled :: "bool option"

definition admin_operator ::
    "auth_env \<Rightarrow> string \<Rightarrow> (registry_db \<Rightarrow> address \<Rightarrow> string \<Rightarrow> string list \<Rightarrow> bool option \<Rightarrow> timestamp \<Rightarrow> registry_db) \<Rightarrow> registry_db \<Rightarrow>
     http_request \<Rightarrow> operator_body \<Rightarrow> timestamp \<Rightarrow> address invoice_result \<times> registry_db" where
  "admin_operator aenv key upsert_op reg q body now =
     (case of_auth (requireApiKey (header q ''x-api-key'') (header q ''authorization'') key ''ADMIN_API_KEY'') of
        Inl e \<Rightarrow> (Inl e, reg)
      | Inr _ \<Rightarrow>
          (case ae_getAddress aenv (nullish (ob_address body) '''') of
             None \<Rightarrow> (crashed, reg)
           | Some a \<Rightarrow>
               (Inr a, upsert_op reg a (nullish (ob_label body) a) (nullish (ob_chains body) []) (Some (ob_enabled body \<noteq> Some False)) now)))"

definition adminSweepersRoute where
  "adminSweepersRoute aenv key = admin_operator aenv key upsertSweeper"

definition adminBundlersRoute where
  "adminBundlersRoute aenv key = admin_operator aenv key upsertBundler"

section \<open>Faucet\<close>

record faucet_config =
  fa_enabled :: bool
  fa_secret :: "string option"
  fa_dry_run :: bool

definition FAUCET_TESTNET_CHAINS :: "string set" where
  "FAUCET_TESTNET_CHAINS = {''11155111'', ''nile''}"

definition isFaucetTestnetChain :: "string option \<Rightarrow> bool" where
  "isFaucetTestnetChain chain = (truthy chain \<and> the chain \<in> FAUCET_TESTNET_CHAINS)"

record faucet_result =
  fr_tx_hash :: string
  fr_chain_id :: string
  fr_amount :: string
  fr_dry_run :: bool

text \<open>
  \<open>number\<close> is \<open>Number\<close>; \<open>dry\<close> makes the pretended transaction; \<open>pay\<close> sends the token on an EVM or Tron
  chain (\<open>fundEvm\<close>, \<open>fundTron\<close>) and is given chain, token, recipient and amount.
\<close>

definition fundFiatInvoiceFromFaucet ::
    "(string \<Rightarrow> rat option) \<Rightarrow> (string \<Rightarrow> string) \<Rightarrow> (string \<Rightarrow> string \<Rightarrow> address \<Rightarrow> string \<Rightarrow> string invoice_result) \<Rightarrow> faucet_config \<Rightarrow>
     invoice \<Rightarrow> string \<Rightarrow> faucet_result invoice_result" where
  "fundFiatInvoiceFromFaucet number dry pay fa r secret =
     (let t = inv_terms r in
      if \<not> fa_enabled fa then bad 503 ''Faucet is disabled''
      else if \<not> truthy (fa_secret fa) then bad 503 ''Faucet secret is not configured''
      else if Some secret \<noteq> fa_secret fa then bad 403 ''Invalid faucet secret''
      else if tm_payment_mode t \<noteq> Fiat then bad 400 ''Faucet is only available for fiat-only invoices''
      else if inv_status r \<noteq> Awaiting_Payment \<and> inv_status r \<noteq> Paid_Partial then bad 400 ''Invoice status cannot be funded''
      else if \<not> truthy (tm_invoice_address t) then bad 400 ''Invoice has no settlement address''
      else if \<not> isFaucetTestnetChain (tm_chain_id t) then bad 400 ''Faucet is only available on testnet chains''
      else (let chain = the (tm_chain_id t); token = upper (nullish (tm_token t) ''USDC''); amount = tm_price_usd t;
                answer = (\<lambda>h d. \<lparr>fr_tx_hash = h, fr_chain_id = chain, fr_amount = amount, fr_dry_run = d\<rparr>) in
            if amount = '''' \<or> opt_ex (\<lambda>n. n \<le> 0) (number amount) then bad 400 ''Invoice has no positive settlement amount''
            else if fa_dry_run fa then Inr (answer (dry (inv_id r)) True)
            else if chainKind (Some chain) = Solana_Chain then bad 400 ''Faucet does not support chain''
            else (case pay chain token (the (tm_invoice_address t)) amount of
                    Inl e \<Rightarrow> Inl e
                  | Inr h \<Rightarrow> Inr (answer h False))))"

text \<open>The transfer is awaited; the event is written afterwards, under the text of the path.\<close>

definition fundInvoiceFaucet ::
    "(string \<Rightarrow> rat option) \<Rightarrow> (string \<Rightarrow> string) \<Rightarrow> (string \<Rightarrow> string \<Rightarrow> address \<Rightarrow> string \<Rightarrow> string invoice_result) \<Rightarrow> faucet_config \<Rightarrow>
     invoice_db \<Rightarrow> (invoice_db \<Rightarrow> invoice_db) \<Rightarrow> string \<Rightarrow> string option \<Rightarrow> timestamp \<Rightarrow> faucet_result invoice_result \<times> invoice_db" where
  "fundInvoiceFaucet number dry pay fa db world k secret now =
     (case getInvoice db k of
        None \<Rightarrow> (invoice_not_found, db)
      | Some r \<Rightarrow>
          (let db1 = world db in
           case fundFiatInvoiceFromFaucet number dry pay fa r (nullish secret '''') of
             Inl e \<Rightarrow> (Inl e, db1)
           | Inr f \<Rightarrow>
               (case addEvent db1 k Ev_Force_Sweep (Pl_Faucet (fr_tx_hash f) (fr_chain_id f) (fr_amount f) (fr_dry_run f)) now of
                  Inl e \<Rightarrow> (Inl e, db1)
                | Inr db' \<Rightarrow> (Inr f, db'))))"

end
