(* ===== verification/PayLinkProps.thy ===== *)
theory PayLinkProps
  imports PayLinks
begin

text \<open>Pay links say what they were made of: writing a link and reading it back.\<close>

section \<open>Form encoding\<close>

lemma hex_value_form: "n < 16 \<Longrightarrow> hex_value (form_hex n) = Some n"
  by (auto simp: hex_value_def form_hex_def Let_def of_char_of)

lemma high_bits: "(of_char c :: nat) div 64 < 4"
proof -
  have "(of_char c :: nat) < 4 * 64" by simp
  then show ?thesis by (rule less_mult_imp_div_less)
qed

lemma utf8_bytes_less: "b \<in> set (utf8_bytes c) \<Longrightarrow> b < 256"
  using high_bits [of c] by (auto simp: utf8_bytes_def Let_def split: if_splits)

lemma utf8_roundtrip: "utf8_text (utf8_bytes c @ ns) = c # utf8_text ns"
proof (cases "(of_char c :: nat) < 128")
  case False
  let ?n = "of_char c :: nat"
  from False have "2 \<le> ?n div 64" by (simp add: div_le_mono [of 128 ?n 64, simplified])
  with high_bits [of c] have "?n div 64 = 2 \<or> ?n div 64 = 3" by arith
  then have "192 + ?n div 64 = 194 \<or> 192 + ?n div 64 = 195" by auto
  moreover have "?n mod 64 < 64" "char_of (?n div 64 * 64 + ?n mod 64) = c" by simp_all
  ultimately show ?thesis using False by (auto simp: utf8_bytes_def Let_def simp del: char_of_char)
qed (simp add: utf8_bytes_def)

lemma form_bytes_hex:
  "\<forall>b \<in> set bs. b < 256 \<Longrightarrow>
    form_bytes (concat (map (\<lambda>b. [CHR ''%'', form_hex (b div 16), form_hex (b mod 16)]) bs) @ s) = bs @ form_bytes s"
proof (induction bs)
  case (Cons b bs)
  then have "hex_value (form_hex (b div 16)) = Some (b div 16)" "hex_value (form_hex (b mod 16)) = Some (b mod 16)"
    by (auto intro!: hex_value_form)
  with Cons show ?case by simp
qed simp

lemma form_plain_special: "\<not> form_plain (CHR ''+'')" "\<not> form_plain (CHR ''%'')" "\<not> form_plain (CHR ''&'')" "\<not> form_plain (CHR ''='')"
    "\<not> form_plain (CHR ''?'')" "utf8_bytes (CHR '' '') = [32]"
  by code_simp+

lemma form_bytes_char: "form_bytes (form_char c @ s) = utf8_bytes c @ form_bytes s"
proof (cases "c = CHR '' ''")
  case False
  show ?thesis
  proof (cases "form_plain c")
    case True
    then have "c \<noteq> CHR ''+''" "c \<noteq> CHR ''%''" using form_plain_special by auto
    with True False show ?thesis by (simp add: form_char_def)
  next
    case plain: False
    with False show ?thesis using form_bytes_hex [of "utf8_bytes c" s] utf8_bytes_less by (simp add: form_char_def)
  qed
qed (simp add: form_char_def form_plain_special)

lemma form_roundtrip: "form_decode (form_encode s) = s"
proof -
  have "utf8_text (form_bytes (form_encode s @ [])) = s" 
    by (induction s) (simp_all add: form_encode_def form_bytes_char utf8_roundtrip)
  then show ?thesis by (simp add: form_decode_def)
qed

text \<open>What separates the pairs does not occur in an encoded text.\<close>

lemma form_hex_plain: "n < 16 \<Longrightarrow> form_plain (form_hex n)"
  by (auto simp: form_plain_def form_hex_def Let_def of_char_of)

lemma form_encode_chars:
  assumes "x \<in> set (form_encode s)"
  shows "x \<noteq> CHR ''&'' \<and> x \<noteq> CHR ''='' \<and> x \<noteq> CHR ''?''"
proof -
  from assms obtain c where c: "x \<in> set (form_char c)" by (auto simp: form_encode_def)
  have "x = CHR ''+'' \<or> x = CHR ''%'' \<or> form_plain x"
  proof (cases "c = CHR '' '' \<or> form_plain c")
    case False
    with c have "x = CHR ''%'' \<or> (\<exists>b \<in> set (utf8_bytes c). x = form_hex (b div 16) \<or> x = form_hex (b mod 16))"
      by (auto simp: form_char_def split: if_splits)
    moreover have "b div 16 < 16" "b mod 16 < 16" if "b \<in> set (utf8_bytes c)" for b using utf8_bytes_less [OF that] by auto
    ultimately show ?thesis using form_hex_plain by blast
  qed (use c in \<open>auto simp: form_char_def split: if_splits\<close>)
  then show ?thesis using form_plain_special by auto
qed

section \<open>Queries\<close>

lemma split_join_with:
  "ls \<noteq> [] \<Longrightarrow> \<forall>l \<in> set ls. c \<notin> set l \<Longrightarrow> split_on c (join_with c ls) = ls"
  by (induction c ls rule: join_with.induct) (simp_all add: split_on_line split_on_one)

lemma sp_pair_written: "sp_pair (form_encode k @ CHR ''='' # form_encode v) = (k, v)"
proof -
  have "\<forall>x \<in> set (form_encode k). x \<noteq> CHR ''=''" using form_encode_chars by blast
  then have "takeWhile (\<lambda>c. c \<noteq> CHR ''='') (form_encode k @ CHR ''='' # form_encode v) = form_encode k"
    "dropWhile (\<lambda>c. c \<noteq> CHR ''='') (form_encode k @ CHR ''='' # form_encode v) = CHR ''='' # form_encode v"
    by (simp_all add: takeWhile_append2 dropWhile_append2)
  then show ?thesis by (simp add: sp_pair_def form_roundtrip)
qed

lemma written_no_question: "\<not> starts_with (sp_to_string ps) ''?''"
proof (cases ps)
  case (Cons p qs)
  obtain k v where p: "p = (k, v)" by fastforce
  have "take 1 (sp_to_string ps) = take 1 (form_encode k @ CHR ''='' # form_encode v)"
    unfolding sp_to_string_def Cons p by (cases qs; cases "form_encode k") simp_all
  moreover have "take 1 (form_encode k @ CHR ''='' # form_encode v) \<noteq> ''?''"
    using form_encode_chars [of _ k] by (cases "form_encode k") auto
  ultimately show ?thesis by (auto simp: starts_with_def)
qed (simp add: sp_to_string_def starts_with_def)

lemma sp_roundtrip: "sp_parse (sp_to_string ps) = ps"
proof (cases "ps = []")
  case True
  then show ?thesis by (simp add: sp_parse_def sp_to_string_def starts_with_def)
next
  case False
  let ?w = "\<lambda>(k, v). form_encode k @ CHR ''='' # form_encode v"
  have "\<forall>l \<in> set (map ?w ps). CHR ''&'' \<notin> set l" using form_encode_chars by fastforce
  then have "split_on (CHR ''&'') (sp_to_string ps) = map ?w ps"
    using False split_join_with [of "map ?w ps"] by (simp add: sp_to_string_def)
  moreover have "filter (\<lambda>p. p \<noteq> []) (map ?w ps) = map ?w ps" by (auto simp: filter_id_conv)
  moreover have "map (sp_pair \<circ> ?w) ps = ps" by (rule map_idI) (auto simp: sp_pair_written)
  ultimately show ?thesis using written_no_question by (simp add: sp_parse_def)
qed

lemma map_of_filter_key: "k' \<noteq> k \<Longrightarrow> map_of (filter (\<lambda>q. fst q \<noteq> k) ps) k' = map_of ps k'"
  by (induction ps) auto

lemma sp_get_set: "sp_get (sp_set ps k v) k' = (if k' = k then Some v else sp_get ps k')"
  by (induction ps) (auto simp: sp_get_def map_of_filter_key)

lemma sp_get_set_opt: "sp_get (sp_set_opt ps k v) k' = (if k' = k \<and> truthy v then v else sp_get ps k')"
  by (cases v) (auto simp: sp_set_opt_def sp_get_set)

lemma sp_get_Nil: "sp_get [] k = None"
  by (simp add: sp_get_def)

section \<open>Normal terms\<close>

definition clean :: "string \<Rightarrow> bool" where
  "clean s \<longleftrightarrow> trim s = s \<and> s \<noteq> []"

definition clean_list :: "string list \<Rightarrow> bool" where
  "clean_list ls \<longleftrightarrow> (\<forall>l \<in> set ls. clean l \<and> CHR '','' \<notin> set l)"

abbreviation opt_clean :: "string option \<Rightarrow> bool" where
  "opt_clean x \<equiv> \<forall>s. x = Some s \<longrightarrow> clean s"

text \<open>What reading a link makes of its parameters.\<close>

definition normal_terms :: "addr_env \<Rightarrow> pay_link_fields \<Rightarrow> bool" where
  "normal_terms env f \<longleftrightarrow>
     clean (pl_price f) \<and> clean_list (pl_to f) \<and> clean_list (pl_chains f) \<and> clean_list (pl_tokens f) \<and>
     map (link_address env) (pl_to f) = pl_to f \<and> map upper (pl_tokens f) = pl_tokens f \<and>
     opt_clean (pl_client_invoice_id f) \<and> opt_clean (pl_callback f) \<and> opt_clean (pl_title f) \<and> opt_clean (pl_description f) \<and>
     opt_clean (pl_display_fiat f) \<and> map_option upper (pl_display_fiat f) = pl_display_fiat f \<and> opt_clean (pl_display_amount f) \<and>
     opt_clean (pl_quote_country f) \<and> map_option lower (pl_quote_country f) = pl_quote_country f \<and>
     opt_clean (pl_quote_payment_method f) \<and> map_option lower (pl_quote_payment_method f) = pl_quote_payment_method f \<and>
     opt_clean (pl_quote_provider f) \<and> map_option lower (pl_quote_provider f) = pl_quote_provider f \<and>
     opt_clean (pl_lang f) \<and> pl_payment_mode f \<noteq> None"

lemma upper_char_facts [simp]:
  "upper_char (upper_char c) = upper_char c" "is_space (upper_char c) = is_space c" "upper_char c = CHR '','' \<longleftrightarrow> c = CHR '',''"
  "CHR '','' = upper_char c \<longleftrightarrow> c = CHR '',''"
proof -
  show "upper_char (upper_char c) = upper_char c" "is_space (upper_char c) = is_space c"
    by (auto simp: upper_char_def is_space_def Let_def of_char_of)
  show "upper_char c = CHR '','' \<longleftrightarrow> c = CHR '',''"
    by (auto simp: upper_char_def Let_def dest: arg_cong [where f = "of_char :: char \<Rightarrow> nat"])
  then show "CHR '','' = upper_char c \<longleftrightarrow> c = CHR '',''" by metis
qed

lemma upper_idem [simp]: "upper (upper s) = upper s"
  by (simp add: upper_def comp_def)

lemma trim_upper: "trim (upper s) = upper (trim s)"
proof -
  have "dropWhile is_space (map upper_char s) = map upper_char (dropWhile is_space s)" for s by (induction s) auto
  then show ?thesis by (simp add: trim_def upper_def rev_map)
qed

lemma clean_case: "clean s \<Longrightarrow> clean (upper s)" "clean s \<Longrightarrow> clean (lower s)"
  by (auto simp: clean_def trim_upper trim_lower) (simp add: upper_def)

lemma set_trim: "set (trim s) \<subseteq> set s"
  unfolding trim_def by (auto dest!: set_dropWhileD)

lemma split_on_no_sep: "l \<in> set (split_on c s) \<Longrightarrow> c \<notin> set l"
proof (induction c s arbitrary: l rule: split_on.induct)
  case (2 c x xs)
  show ?case
  proof (cases "x = c")
    case False
    show ?thesis
    proof (cases "split_on c xs")
      case (Cons m ms)
      then have "c \<notin> set m" "c \<notin> set k" if "k \<in> set ms" for k
        using 2(2) [OF False, of m] 2(2) [OF False, of k] that by simp_all
      then show ?thesis using "2.prems" False Cons 2(2) [OF False, of m] by auto
    qed (use "2.prems" False in auto)
  qed (use 2 in auto)
qed simp

lemma splitList_clean: "clean_list (splitList v)"
proof -
  have "clean (trim l)" "CHR '','' \<notin> set (trim l)" if "l \<in> set (split_on (CHR '','') s)" "trim l \<noteq> []" for l s
    using that split_on_no_sep [OF that(1)] set_trim [of l] by (auto simp: clean_def)
  then show ?thesis by (auto simp: clean_list_def splitList_def)
qed

lemma splitList_join: "clean_list ls \<Longrightarrow> splitList (Some (join_with (CHR '','') ls)) = ls"
proof (cases "ls = []")
  case False
  assume ls: "clean_list ls"
  then have "split_on (CHR '','') (join_with (CHR '','') ls) = ls"
    using False by (intro split_join_with) (auto simp: clean_list_def)
  moreover have "map trim ls = ls" "filter (\<lambda>s. s \<noteq> []) ls = ls"
    using ls by (auto simp: clean_list_def clean_def intro: map_idI simp: filter_id_conv)
  ultimately show ?thesis by (simp add: splitList_def)
qed (simp add: splitList_def)

lemma optionalParam_clean: "opt_clean (optionalParam ps k)"
  by (auto simp: optionalParam_def or_null_def clean_def truthy_def split: option.splits if_splits)

lemma either_param_clean: "opt_clean (either_param ps a b)"
  using optionalParam_clean by (cases "optionalParam ps a") (auto simp: either_param_def)

lemma clean_plain: "plain_address s \<Longrightarrow> clean s \<and> CHR '','' \<notin> set s"
  by (auto simp: plain_address_def clean_def trim_clean)

lemma link_address_normal:
  assumes "addr_ok env" and "clean v" "CHR '','' \<notin> set v"
  shows "clean (link_address env v) \<and> CHR '','' \<notin> set (link_address env v) \<and> link_address env (link_address env v) = link_address env v"
proof (cases "normalizeMerchantAddress env v")
  case (Some a)
  then show ?thesis
    using clean_plain [OF normalize_plain [OF assms(1) Some]] normalize_idem [OF assms(1) Some] by (simp add: link_address_def)
next
  case None
  show ?thesis
  proof (cases "ad_getAddress env v")
    case (Some a)
    note plain = getAddress_plain [OF assms(1) Some]
    then have "trim a = a" "a \<noteq> []" using clean_plain by (auto simp: clean_def)
    then have "normalizeMerchantAddress env a = Some a"
      using addr_okD(1,2) [OF assms(1) Some] by (simp add: normalizeMerchantAddress_def)
    with None Some clean_plain [OF plain] show ?thesis by (simp add: link_address_def)
  next
    case n: None
    with None assms(2,3) show ?thesis by (simp add: link_address_def)
  qed
qed

text \<open>Terms that have been read are normal.\<close>

lemma decoded_terms_normal:
  assumes "addr_ok env" and "decode_params env number ps = Inr f"
  shows "normal_terms env f"
proof -
  have lists: "clean_list (map (link_address env) (splitList v))" "clean_list (map upper (splitList v))"
    "map (link_address env) (map (link_address env) (splitList v)) = map (link_address env) (splitList v)" for v
    using splitList_clean [of v] link_address_normal [OF assms(1)] clean_case(1) by (auto simp: clean_list_def upper_def)
  have texts: "opt_clean (map_option upper (either_param ps a b))" "opt_clean (map_option lower (either_param ps a b))"
    "map_option upper (map_option upper (either_param ps a b)) = map_option upper (either_param ps a b)"
    "map_option lower (map_option lower (either_param ps a b)) = map_option lower (either_param ps a b)" for a b
    using either_param_clean [of ps a b] clean_case by (auto simp: option.map_comp comp_def)
  from assms(2) obtain price mode where "optionalParam ps ''price'' = Some price"
    and f: "f = \<lparr>pl_price = price, pl_to = map (link_address env) (splitList (sp_get ps ''to'')),
                    pl_chains = splitList (Some (nullish (sp_get ps ''chains'') DEFAULT_CHAIN)),
                    pl_tokens = map upper (splitList (Some (nullish (sp_get ps ''tokens'') DEFAULT_TOKEN))),
                    pl_invoice_seed = optionalParam ps ''invoice_seed'', pl_client_invoice_id = optionalParam ps ''client_invoice_id'',
                    pl_callback = optionalParam ps ''callback'', pl_title = optionalParam ps ''title'',
                    pl_description = optionalParam ps ''description'', pl_allow_partial = parseBoolean (sp_get ps ''allow_partial''),
                    pl_payment_mode = Some mode, pl_display_fiat = map_option upper (either_param ps ''display_fiat'' ''displayFiat''),
                    pl_display_amount = either_param ps ''display_amount'' ''displayAmount'',
                    pl_quote_country = map_option lower (either_param ps ''quote_country'' ''quoteCountry''),
                    pl_quote_payment_method = map_option lower (either_param ps ''quote_payment_method'' ''quotePaymentMethod''),
                    pl_quote_provider = map_option lower (either_param ps ''quote_provider'' ''quoteProvider''),
                    pl_quote_slippage_bps = Option.bind (either_param ps ''quote_slippage_bps'' ''quoteSlippageBps'') number,
                    pl_lang = either_param ps ''lang'' ''locale''\<rparr>"
    unfolding decode_params_def by (auto split: sum.splits option.splits)
  then have "clean price" using optionalParam_clean by blast
  then show ?thesis
    unfolding f normal_terms_def pay_link_fields.simps
    by (intro conjI lists texts splitList_clean optionalParam_clean either_param_clean) simp_all
qed

section \<open>Writing and reading\<close>

lemma optionalParam_written: "opt_clean v \<Longrightarrow> sp_get ps k = (if truthy v then v else None) \<Longrightarrow> optionalParam ps k = v"
  by (cases v) (auto simp: optionalParam_def or_null_def clean_def)

lemma link_params_get:
  "sp_get (link_params f) ''price'' = Some (pl_price f)" "sp_get (link_params f) ''to'' = Some (join_with (CHR '','') (pl_to f))"
  "sp_get (link_params f) ''chains'' = Some (join_with (CHR '','') (pl_chains f))"
  "sp_get (link_params f) ''tokens'' = Some (join_with (CHR '','') (pl_tokens f))"
  "sp_get (link_params f) ''allow_partial'' = Some (if pl_allow_partial f then ''1'' else ''0'')"
  by (simp_all add: link_params_def Let_def sp_get_set sp_get_set_opt sp_get_Nil del: sp_set.simps)

lemma link_params_get_opt:
  "sp_get (link_params f) ''client_invoice_id'' = (if truthy (pl_client_invoice_id f) then pl_client_invoice_id f else None)"
  "sp_get (link_params f) ''callback'' = (if truthy (pl_callback f) then pl_callback f else None)"
  "sp_get (link_params f) ''title'' = (if truthy (pl_title f) then pl_title f else None)"
  "sp_get (link_params f) ''description'' = (if truthy (pl_description f) then pl_description f else None)"
  "sp_get (link_params f) ''payment_mode'' = (if truthy (link_mode f) then link_mode f else None)"
  "sp_get (link_params f) ''display_fiat'' = (if truthy (pl_display_fiat f) then pl_display_fiat f else None)"
  "sp_get (link_params f) ''display_amount'' = (if truthy (pl_display_amount f) then pl_display_amount f else None)"
  "sp_get (link_params f) ''quote_country'' = (if truthy (pl_quote_country f) then pl_quote_country f else None)"
  "sp_get (link_params f) ''quote_payment_method'' = (if truthy (pl_quote_payment_method f) then pl_quote_payment_method f else None)"
  "sp_get (link_params f) ''quote_provider'' = (if truthy (pl_quote_provider f) then pl_quote_provider f else None)"
  "sp_get (link_params f) ''lang'' = (if truthy (pl_lang f) then pl_lang f else None)"
  by (simp_all add: link_params_def Let_def sp_get_set sp_get_set_opt sp_get_Nil del: sp_set.simps)

lemma link_params_get_bps:
  "sp_get (link_params f) ''quote_slippage_bps'' =
    (let v = map_option (\<lambda>q. int_text (js_round q)) (pl_quote_slippage_bps f) in if truthy v then v else None)"
  by (simp add: link_params_def Let_def sp_get_set sp_get_set_opt sp_get_Nil del: sp_set.simps)

lemma link_params_absent:
  "sp_get (link_params f) ''invoice_seed'' = None" "sp_get (link_params f) ''paymentMode'' = None"
  "sp_get (link_params f) ''displayFiat'' = None" "sp_get (link_params f) ''displayAmount'' = None"
  "sp_get (link_params f) ''quoteCountry'' = None" "sp_get (link_params f) ''quotePaymentMethod'' = None"
  "sp_get (link_params f) ''quoteProvider'' = None" "sp_get (link_params f) ''quoteSlippageBps'' = None"
  "sp_get (link_params f) ''locale'' = None"
  by (simp_all add: link_params_def Let_def sp_get_set sp_get_set_opt sp_get_Nil del: sp_set.simps)

lemma int_text_clean: "clean (int_text n)"
proof -
  have "\<not> is_space c" if "is_digit c" for c using that by (auto simp: is_digit_def is_space_def Let_def)
  moreover have "\<not> is_space (CHR ''-'')" by code_simp
  ultimately have "\<forall>c \<in> set (int_text n). \<not> is_space c" using is_digit_dec by (auto simp: int_text_def)
  moreover have "int_text n \<noteq> []" by (simp add: int_text_def dec.simps [of "nat n"])
  ultimately show ?thesis by (simp add: clean_def trim_clean)
qed

lemma written_payment_mode:
  "pl_payment_mode f \<noteq> None \<Longrightarrow>
    parsePaymentMode (either_param (link_params f) ''payment_mode'' ''paymentMode'') = (Inr (the (pl_payment_mode f)) :: invoice http_error + payment_mode)"
proof -
  assume "pl_payment_mode f \<noteq> None"
  then obtain m where m: "pl_payment_mode f = Some m" by blast
  have "clean ''fiat''" "clean ''crypto_or_fiat''" unfolding clean_def by code_simp+
  then have "opt_clean (link_mode f)" unfolding link_mode_def m by (cases m) (simp_all add: payment_mode_text_def)
  then have "optionalParam (link_params f) ''payment_mode'' = link_mode f" by (rule optionalParam_written) (rule link_params_get_opt)
  moreover have "optionalParam (link_params f) ''paymentMode'' = None" by (simp add: optionalParam_def link_params_absent or_null_def)
  ultimately show ?thesis
    by (cases m) (simp_all add: either_param_def link_mode_def m payment_mode_text_def parsePaymentMode_def)
qed

lemma written_terms:
  assumes "normal_terms env f"
    and "\<forall>q. pl_quote_slippage_bps f = Some q \<longrightarrow> number (int_text (js_round q)) = Some (of_int (js_round q))"
  shows "decode_params env number (link_params f) =
    Inr (f\<lparr>pl_invoice_seed := None, pl_quote_slippage_bps := map_option (\<lambda>q. of_int (js_round q)) (pl_quote_slippage_bps f)\<rparr>)"
proof -
  note normal = assms(1) [unfolded normal_terms_def]
  have one: "optionalParam (link_params f) k = v" if "opt_clean v" "sp_get (link_params f) k = (if truthy v then v else None)" for k v
    using that by (rule optionalParam_written)
  have none: "optionalParam (link_params f) k = None" if "sp_get (link_params f) k = None" for k
    using that by (simp add: optionalParam_def or_null_def)
  have "optionalParam (link_params f) ''price'' = Some (pl_price f)"
    using normal by (intro one) (auto simp: link_params_get clean_def)
  moreover have "either_param (link_params f) ''quote_slippage_bps'' ''quoteSlippageBps'' =
      map_option (\<lambda>q. int_text (js_round q)) (pl_quote_slippage_bps f)"
    unfolding either_param_def using int_text_clean
    by (subst one [of "map_option (\<lambda>q. int_text (js_round q)) (pl_quote_slippage_bps f)"]) (auto simp: link_params_get_bps none link_params_absent)
  moreover have "Option.bind (map_option (\<lambda>q. int_text (js_round q)) (pl_quote_slippage_bps f)) number =
      map_option (\<lambda>q. of_int (js_round q)) (pl_quote_slippage_bps f)"
    using assms(2) by (cases "pl_quote_slippage_bps f") simp_all
  moreover have "optionalParam (link_params f) ''client_invoice_id'' = pl_client_invoice_id f" "optionalParam (link_params f) ''callback'' = pl_callback f"
    "optionalParam (link_params f) ''title'' = pl_title f" "optionalParam (link_params f) ''description'' = pl_description f"
    "optionalParam (link_params f) ''display_fiat'' = pl_display_fiat f" "optionalParam (link_params f) ''display_amount'' = pl_display_amount f"
    "optionalParam (link_params f) ''quote_country'' = pl_quote_country f"
    "optionalParam (link_params f) ''quote_payment_method'' = pl_quote_payment_method f"
    "optionalParam (link_params f) ''quote_provider'' = pl_quote_provider f" "optionalParam (link_params f) ''lang'' = pl_lang f"
    using normal by (intro one link_params_get_opt; blast)+
  moreover obtain m where "pl_payment_mode f = Some m" using normal by blast
  moreover have "parsePaymentMode (either_param (link_params f) ''payment_mode'' ''paymentMode'') =
      (Inr (the (pl_payment_mode f)) :: invoice http_error + payment_mode)"
    using normal by (intro written_payment_mode) blast
  moreover have "parseBoolean (Some (if pl_allow_partial f then ''1'' else ''0'')) = pl_allow_partial f"
    by (simp add: parseBoolean_def lower_def lower_char_def)
  ultimately show ?thesis
    using normal unfolding decode_params_def
    by (auto simp add: either_param_def none link_params_absent link_params_get splitList_join intro!: pay_link_fields.equality)
qed

lemma link_roundtrip:
  assumes "normal_terms env f"
    and "\<forall>q. pl_quote_slippage_bps f = Some q \<longrightarrow> number (int_text (js_round q)) = Some (of_int (js_round q))"
  shows "decodePayLink env number (encodePayLink f) =
    Inr (f\<lparr>pl_invoice_seed := None, pl_quote_slippage_bps := map_option (\<lambda>q. of_int (js_round q)) (pl_quote_slippage_bps f)\<rparr>)"
  using written_terms [OF assms] written_no_question by (simp add: decodePayLink_def encodePayLink_def sp_roundtrip)

text \<open>
  C28. A pay link says what it was made of. Terms that were read from a link or a request body, written
  as a link and read again, are the same terms, whatever characters their texts have; only the
  seed of the invoice is left out, and the slippage is rounded to a whole number.
\<close>

theorem pay_link_roundtrip:
  assumes "addr_ok env" and "decode_params env number ps = Inr f"
    and "\<forall>q. pl_quote_slippage_bps f = Some q \<longrightarrow> number (int_text (js_round q)) = Some (of_int (js_round q))"
  shows "decodePayLink env number (encodePayLink f) =
    Inr (f\<lparr>pl_invoice_seed := None, pl_quote_slippage_bps := map_option (\<lambda>q. of_int (js_round q)) (pl_quote_slippage_bps f)\<rparr>)"
  using link_roundtrip [OF decoded_terms_normal [OF assms(1,2)] assms(3)] .

section \<open>An example\<close>

definition demo_addr :: addr_env where
  "demo_addr =
     \<lparr>ad_getAddress = (\<lambda>s. if starts_with s ''0x'' \<and> length s = 42 \<and> list_all (\<lambda>c. hex_value c \<noteq> None) (drop 2 s) then Some s else None),
      ad_tron_valid = (\<lambda>_. True), ad_pubkey = Some\<rparr>"

lemma demo_addr_ok: "addr_ok demo_addr"
  by (auto simp: addr_ok_def demo_addr_def)

definition demo_merchant :: address where
  "demo_merchant = ''0x'' @ replicate 40 (CHR ''a'')"

definition demo_number :: "string \<Rightarrow> rat option" where
  "demo_number s = (if s = ''100'' then Some 100 else None)"

definition demo_query :: search_params where
  "demo_query =
     [(''price'', '' 12.50''), (''to'', demo_merchant @ '',''), (''title'', ''Tea & cake = 100%''), (''payment_mode'', ''fiat''),
      (''displayFiat'', ''sek''), (''quote_slippage_bps'', ''100''), (''invoice_seed'', ''s'')]"

definition demo_link :: pay_link_fields where
  "demo_link =
     \<lparr>pl_price = ''12.50'', pl_to = [demo_merchant], pl_chains = [''11155111''], pl_tokens = [''USDC''], pl_invoice_seed = Some ''s'',
      pl_client_invoice_id = None, pl_callback = None, pl_title = Some ''Tea & cake = 100%'', pl_description = None, pl_allow_partial = False,
      pl_payment_mode = Some Fiat, pl_display_fiat = Some ''SEK'', pl_display_amount = None, pl_quote_country = None,
      pl_quote_payment_method = None, pl_quote_provider = None, pl_quote_slippage_bps = Some 100, pl_lang = None\<rparr>"

lemma demo_link_read: "decode_params demo_addr demo_number demo_query = Inr demo_link"
  by code_simp

theorem pay_link_roundtrip_witness:
  "decodePayLink demo_addr demo_number (encodePayLink demo_link) = Inr (demo_link\<lparr>pl_invoice_seed := None\<rparr>)"
proof -
  have hundred: "js_round 100 = 100" "int_text 100 = ''100''" by (simp add: js_round_def floor_unique) code_simp
  from pay_link_roundtrip [OF demo_addr_ok demo_link_read] hundred show ?thesis
    by (simp add: demo_link_def demo_number_def)
qed

end
