(* ===== verification/InvoiceRouteProps.thy ===== *)
theory InvoiceRouteProps
  imports InvoiceRoutes PayLinkProps InvoiceProps
begin

text \<open>
  What the creating routes guarantee of every invoice, whatever workers do to it later: it pays one of
  the merchant's addresses, on a chain and in a token that fit, to the address that belongs to its id.
\<close>

section \<open>Settled invoices\<close>

definition of_kind :: "addr_env \<Rightarrow> chain_kind \<Rightarrow> address \<Rightarrow> bool" where
  "of_kind env kind a =
     (case kind of Tron_Chain \<Rightarrow> starts_with a ''T'' | Evm_Chain \<Rightarrow> starts_with a ''0x'' | Solana_Chain \<Rightarrow> looksLikeSolanaAddress env a)"

definition settled :: "invoice_env \<Rightarrow> invoice_config \<Rightarrow> string \<Rightarrow> invoice_terms \<Rightarrow> bool" where
  "settled env conf i t \<longleftrightarrow>
     (\<exists>to chain token a.
        tm_selected_to t = Some to \<and> tm_chain_id t = Some chain \<and> tm_token t = Some token \<and> tm_invoice_address t = Some a \<and>
        (\<exists>v \<in> set (tm_to_addresses t). addressesEqual (ie_addr env) v to) \<and>
        of_kind (ie_addr env) (chainKind (Some chain)) to \<and> tokenAllowedOnChain chain token \<and>
        getCommerceInvoiceId env (tm_seed t) (tm_to_addresses t) = Some i \<and>
        getInvoiceAddress env conf to i chain token = Inr a \<and>
        (paymentModeAllowsFiat (tm_payment_mode t) \<longrightarrow> isPayInSettlement chain token))"

text \<open>Requests in any order: the routes that create, and everything else that changes invoices.\<close>

inductive invoice_traffic :: "invoice_env \<Rightarrow> invoice_config \<Rightarrow> invoice_db \<Rightarrow> invoice_db \<Rightarrow> bool" for env conf db0 where
  idle: "invoice_traffic env conf db0 db0"
| created: "invoice_traffic env conf db0 db \<Longrightarrow> invoice_traffic env conf db0 (snd (createInvoiceRoute env conf db body key seed now))"
| session: "invoice_traffic env conf db0 db \<Longrightarrow> invoice_traffic env conf db0 (snd (createSessionDeprecated env conf db body j seed now))"
| claimed: "invoice_traffic env conf db0 db \<Longrightarrow> invoice_traffic env conf db0 (snd (claimInvoice db k w v lease now))"
| tracked: "invoice_traffic env conf db0 db \<Longrightarrow> invoice_traffic env conf db0 (snd (trackInvoice db k ti now))"
| payer: "invoice_traffic env conf db0 db \<Longrightarrow> invoice_traffic env conf db0 (snd (setPayerFiat db k fiat now))"
| event: "invoice_traffic env conf db0 db \<Longrightarrow> addEvent db k kind p now = Inr db' \<Longrightarrow> invoice_traffic env conf db0 db'"

section \<open>What is checked\<close>

lemma selected_recipient:
  assumes "resolveSelectedTo env body f chain = Inr to"
  shows "\<exists>v \<in> set (pl_to f). addressesEqual env v to" "of_kind env (chainKind (Some chain)) to"
  using assms
  by (auto simp: resolveSelectedTo_def bad_def Let_def of_kind_def list_ex_iff split: option.splits if_splits chain_kind.split)

lemma settle_checked:
  assumes "settle_terms env conf body f mode chain token = Inr (to, i, a)"
  shows "tokenAllowedOnChain chain token" "paymentModeAllowsFiat mode \<Longrightarrow> isPayInSettlement chain token"
    "resolveSelectedTo (ie_addr env) body f chain = Inr to" "invoiceIdFromPayLink env f = Some i"
    "getInvoiceAddress env conf to i chain token = Inr a"
  using assms by (auto simp: settle_terms_def assertTokenChainPair_def bad_def crashed_def split: sum.splits option.splits if_splits)

lemma settled_input:
  assumes "settle_terms env conf body f mode chain token = Inr (to, i, a)" and "pl_payment_mode f = Some mode"
  shows "settled env conf i (terms_of_input
    \<lparr>ci_invoice_id = i, ci_fields = f, ci_chain_id = chain, ci_token = token, ci_selected_to = to, ci_invoice_address = Some a,
     ci_pay_session_id = j, ci_idempotency_key = k\<rparr>)"
proof -
  note checked = settle_checked [OF assms(1)]
  have "getCommerceInvoiceId env (nullish (pl_invoice_seed f) '''') (pl_to f) = Some i"
    using checked(4) by (auto simp: invoiceIdFromPayLink_def truthy_def split: if_splits option.splits)
  then show ?thesis
    using checked selected_recipient(1,2) [OF checked(3)] assms(2) by (simp add: settled_def terms_of_input_def Let_def)
qed

section \<open>The invariant\<close>

abbreviation id_terms :: "invoice_db \<Rightarrow> (string \<times> invoice_terms) list" where
  "id_terms db \<equiv> map (\<lambda>r. (inv_id r, inv_terms r)) (invoices db)"

lemma id_terms_update:
  "(\<And>r. inv_id (f r) = inv_id r \<and> inv_terms (f r) = inv_terms r) \<Longrightarrow>
    map (\<lambda>r. (inv_id r, inv_terms r)) (update_where P f t) = map (\<lambda>r. (inv_id r, inv_terms r)) t"
  by (simp add: update_where_def)

lemma addEvent_terms: "addEvent db k kind p now = Inr db' \<Longrightarrow> id_terms db' = id_terms db"
  by (auto simp: addEvent_def split: if_splits)

lemma work_keeps_terms:
  "id_terms (snd (claimInvoice db k w v lease now)) = id_terms db" "id_terms (snd (trackInvoice db k ti now)) = id_terms db"
  "id_terms (snd (setPayerFiat db k fiat now)) = id_terms db"
  by (auto simp: claimInvoice_def trackInvoice_def setPayerFiat_def Let_def id_terms_update dest!: addEvent_terms split: option.split sum.split)

lemma created_terms:
  assumes "settled env conf (ci_invoice_id ci) (terms_of_input ci)" and "\<forall>(i, t) \<in> set (id_terms db). settled env conf i t"
  shows "\<forall>(i, t) \<in> set (id_terms (snd (createInvoice db ci now))). settled env conf i t"
  by (cases rule: createInvoice_cases [of db ci now]) (use assms in \<open>auto simp: created_db_def new_invoice_def\<close>)

lemma created_payment_mode:
  "create_fields env conf body seed = Inr (base, f, mode) \<Longrightarrow> pl_payment_mode f = Some mode"
  by (auto simp: create_fields_def bad_def Let_def split: sum.splits if_splits)

text \<open>Both routes leave the tables alone or create an invoice from terms that were checked.\<close>

definition checked_creation :: "invoice_env \<Rightarrow> invoice_config \<Rightarrow> invoice_db \<Rightarrow> timestamp \<Rightarrow> invoice_db \<Rightarrow> bool" where
  "checked_creation env conf db now db' \<longleftrightarrow>
     (\<exists>body f mode chain token to i a s k.
        settle_terms env conf body f mode chain token = Inr (to, i, a) \<and> pl_payment_mode f = Some mode \<and>
        db' = snd (createInvoice db \<lparr>ci_invoice_id = i, ci_fields = f, ci_chain_id = chain, ci_token = token, ci_selected_to = to,
           ci_invoice_address = Some a, ci_pay_session_id = s, ci_idempotency_key = k\<rparr> now))"

lemma create_route_checked:
  "snd (createInvoiceRoute env conf db body key seed now) = db \<or>
   checked_creation env conf db now (snd (createInvoiceRoute env conf db body key seed now))"
proof (cases "create_fields env conf body seed")
  case (Inr x)
  obtain base f mode where x: "create_fields env conf body seed = Inr (base, f, mode)" using Inr by (cases x) auto
  let ?chain = "if paymentModeAllowsFiat mode then PAY_IN_CHAIN_ID else body_chain body f"
  let ?token = "if paymentModeAllowsFiat mode then upper PAY_IN_TOKEN else body_token body f"
  show ?thesis
  proof (cases "settle_terms env conf body f mode ?chain ?token")
    case (Inr y)
    obtain to i a where y: "settle_terms env conf body f mode ?chain ?token = Inr (to, i, a)" using Inr by (cases y) auto
    let ?ci = "\<lparr>ci_invoice_id = i, ci_fields = f, ci_chain_id = ?chain, ci_token = ?token, ci_selected_to = to,
           ci_invoice_address = Some a, ci_pay_session_id = body ''paySessionId'', ci_idempotency_key = key\<rparr>"
    have "snd (createInvoiceRoute env conf db body key seed now) = db \<or>
        snd (createInvoiceRoute env conf db body key seed now) = snd (createInvoice db ?ci now)"
      using y by (cases "paymentModeAllowsFiat mode") (simp_all add: createInvoiceRoute_def Let_def x split: sum.split prod.split)
    then show ?thesis using y created_payment_mode [OF x] unfolding checked_creation_def by blast
  qed (cases "paymentModeAllowsFiat mode"; simp add: createInvoiceRoute_def Let_def x split: sum.split)
qed (simp add: createInvoiceRoute_def split: sum.split)

lemma session_route_checked:
  "snd (createSessionDeprecated env conf db body j seed now) = db \<or>
   checked_creation env conf db now (snd (createSessionDeprecated env conf db body j seed now))"
proof (cases "normalizePayLinkFields (ie_addr env) (ie_number env) body")
  case base: (Inr base)
  show ?thesis
  proof (cases "parsePaymentMode (coalesce (field2 body ''paymentMode'' ''payment_mode'') (map_option payment_mode_text (pl_payment_mode base)))
      :: invoice http_error + payment_mode")
    case mode: (Inr mode)
    let ?f = "base\<lparr>pl_invoice_seed := Some seed, pl_payment_mode := Some mode\<rparr>"
    show ?thesis
    proof (cases "settle_terms env conf body ?f mode (body_chain body ?f) (body_token body ?f)")
      case (Inr y)
      obtain to i a where y: "settle_terms env conf body ?f mode (body_chain body ?f) (body_token body ?f) = Inr (to, i, a)"
        using Inr by (cases y) auto
      let ?ci = "\<lparr>ci_invoice_id = i, ci_fields = ?f, ci_chain_id = body_chain body ?f, ci_token = body_token body ?f, ci_selected_to = to,
           ci_invoice_address = Some a, ci_pay_session_id = Some j, ci_idempotency_key = None\<rparr>"
      have "snd (createSessionDeprecated env conf db body j seed now) = db \<or>
          snd (createSessionDeprecated env conf db body j seed now) = snd (createInvoice db ?ci now)"
        by (simp add: createSessionDeprecated_def Let_def base mode y split: sum.split prod.split)
      moreover have "pl_payment_mode ?f = Some mode" by simp
      ultimately show ?thesis using y unfolding checked_creation_def by blast
    qed (simp add: createSessionDeprecated_def Let_def base mode split: sum.split)
  qed (simp add: createSessionDeprecated_def base split: sum.split)
qed (simp add: createSessionDeprecated_def split: sum.split)

lemma checked_settles:
  assumes "db' = db \<or> checked_creation env conf db now db'" and "\<forall>(i, t) \<in> set (id_terms db). settled env conf i t"
  shows "\<forall>(i, t) \<in> set (id_terms db'). settled env conf i t"
proof -
  have "\<forall>(i, t) \<in> set (id_terms db'). settled env conf i t" if checked: "checked_creation env conf db now db'"
  proof -
    from checked obtain body f mode chain token to i a s k where
      settle: "settle_terms env conf body f mode chain token = Inr (to, i, a)" "pl_payment_mode f = Some mode"
      and db': "db' = snd (createInvoice db \<lparr>ci_invoice_id = i, ci_fields = f, ci_chain_id = chain, ci_token = token, ci_selected_to = to,
           ci_invoice_address = Some a, ci_pay_session_id = s, ci_idempotency_key = k\<rparr> now)"
      unfolding checked_creation_def by blast
    show ?thesis unfolding db' by (rule created_terms [OF _ assms(2)]) (simp add: settled_input [OF settle])
  qed
  with assms show ?thesis by blast
qed

lemma traffic_settled:
  assumes "invoice_traffic env conf (empty_invoice_db logging) db" and "r \<in> set (invoices db)"
  shows "settled env conf (inv_id r) (inv_terms r)"
proof -
  have "\<forall>(i, t) \<in> set (id_terms db). settled env conf i t"
    using assms(1)
  proof (induction rule: invoice_traffic.induct)
    case idle
    then show ?case by (simp add: empty_invoice_db_def)
  next
    case (created db body key seed now)
    show ?case by (rule checked_settles [OF create_route_checked created.IH])
  next
    case (session db body j seed now)
    show ?case by (rule checked_settles [OF session_route_checked session.IH])
  next
    case (event db k kind p now db')
    then show ?case using addEvent_terms [OF event.hyps(2)] by simp
  qed (simp_all only: work_keeps_terms)
  with assms(2) show ?thesis by auto
qed

text \<open>
  C29. Every invoice settles as its merchant said. However requests interleave, every invoice the server
  holds has one of its merchant's addresses as recipient, of the kind of its chain, and a token
  allowed there; its id is the hash of its seed and addresses; its payment address is the one derived
  from recipient, id, chain and token; and one that may be paid by card settles as USDC on Base.
\<close>

theorem invoices_settle:
  assumes "invoice_traffic env conf (empty_invoice_db logging) db" and "r \<in> set (invoices db)"
  shows "settled env conf (inv_id r) (inv_terms r)"
  using assms by (rule traffic_settled)

section \<open>An example\<close>

text \<open>Toy hashes that keep what they hash.\<close>

definition shop_env :: invoice_env where
  "shop_env =
     \<lparr>ie_addr = demo_addr, ie_number = demo_number,
      ie_getBytes = (\<lambda>s. if starts_with s ''0x'' then Some (replicate 32 17) else None), ie_keccak = (\<lambda>s. s), ie_utf8_hex = (\<lambda>s. s),
      ie_encode_id = (\<lambda>s to. s), ie_packed = (\<lambda>a i. i), ie_create2 = (\<lambda>s salt code. salt), ie_onchain = (\<lambda>_ _ _ _. None),
      ie_encode_tron = (\<lambda>s c i. i), ie_tron_address = (\<lambda>_ _. None), ie_solana_pda = (\<lambda>_ _ _ _. None), ie_solana_ata = (\<lambda>_ _. None)\<rparr>"

definition shop_conf :: invoice_config where
  "shop_conf =
     \<lparr>ic_captcha = (\<lambda>_. Some True), ic_onramp = False,
      ic_evm = [(''11155111'', \<lparr>ec_sweeper = Some demo_merchant, ec_forwarder = Some demo_merchant, ec_rpc = None, ec_tokens = []\<rparr>)],
      ic_solana = [], ic_tron_secret = None, ic_tron_host = None\<rparr>"

definition shop_seed :: string where
  "shop_seed = ''0x'' @ replicate 64 (CHR ''1'')"

definition shop_body :: request_body where
  "shop_body = (\<lambda>_. None)(''price'' := Some ''10'', ''to'' := Some demo_merchant)"

definition shop_db :: invoice_db where
  "shop_db = snd (createInvoiceRoute shop_env shop_conf (empty_invoice_db True) shop_body None shop_seed 1000)"

definition shop_terms :: pay_link_fields where
  "shop_terms =
     \<lparr>pl_price = ''10'', pl_to = [demo_merchant], pl_chains = [''11155111''], pl_tokens = [''USDC''], pl_invoice_seed = Some shop_seed,
      pl_client_invoice_id = None, pl_callback = None, pl_title = None, pl_description = None, pl_allow_partial = False,
      pl_payment_mode = Some Crypto, pl_display_fiat = None, pl_display_amount = None, pl_quote_country = None,
      pl_quote_payment_method = None, pl_quote_provider = None, pl_quote_slippage_bps = None, pl_lang = None\<rparr>"

lemma shop_checked:
  "create_guard shop_conf shop_body = Inr ()"
  "create_fields shop_env shop_conf shop_body shop_seed = Inr (shop_terms\<lparr>pl_invoice_seed := None\<rparr>, shop_terms, Crypto)"
  "body_chain shop_body shop_terms = ''11155111''" "body_token shop_body shop_terms = ''USDC''"
  "assertTokenChainPair shop_conf ''11155111'' ''USDC'' = Inr ()"
  "resolveSelectedTo demo_addr shop_body shop_terms ''11155111'' = Inr demo_merchant"
  by code_simp+

lemma shop_address: "\<exists>i a. invoiceIdFromPayLink shop_env shop_terms = Some i \<and> getInvoiceAddress shop_env shop_conf demo_merchant i ''11155111'' ''USDC'' = Inr a"
proof -
  have facts: "starts_with shop_seed ''0x''" "shop_seed \<noteq> []" "normalizeMerchantAddresses demo_addr [demo_merchant] = Some [demo_merchant]"
    "ad_getAddress demo_addr demo_merchant = Some demo_merchant" "chainKind (Some ''11155111'') = Evm_Chain" "demo_merchant \<noteq> []"
    by code_simp+
  have bytes: "starts_with (bytes_to_hex bs) ''0x''" for bs by (simp add: bytes_to_hex_def starts_with_def)
  show ?thesis
    using facts bytes
    by (simp add: invoiceIdFromPayLink_def shop_terms_def getCommerceInvoiceId_def bytes32_hex_def getInvoiceAddress_def shop_conf_def
        resolveEvmChain_def predictCommerceInvoiceAddress_def commerceInvoiceSalt_def commerceMinimalProxyInitCodeHash_def or_crash_def shop_env_def)
qed

lemma shop_row: "length (invoices shop_db) = 1"
proof -
  obtain i a where i: "invoiceIdFromPayLink shop_env shop_terms = Some i"
    "getInvoiceAddress shop_env shop_conf demo_merchant i ''11155111'' ''USDC'' = Inr a" using shop_address by blast
  have addr: "ie_addr shop_env = demo_addr" by (simp add: shop_env_def)
  have "settle_terms shop_env shop_conf shop_body shop_terms Crypto ''11155111'' ''USDC'' = Inr (demo_merchant, i, a)"
    using i shop_checked(5,6) by (simp add: settle_terms_def addr paymentModeAllowsFiat_def)
  then have db: "shop_db = snd (createInvoice (empty_invoice_db True)
      \<lparr>ci_invoice_id = i, ci_fields = shop_terms, ci_chain_id = ''11155111'', ci_token = ''USDC'', ci_selected_to = demo_merchant,
       ci_invoice_address = Some a, ci_pay_session_id = None, ci_idempotency_key = None\<rparr> 1000)" (is "_ = snd (createInvoice _ ?ci _)")
    using shop_checked(1-4)
    by (simp add: shop_db_def createInvoiceRoute_def Let_def paymentModeAllowsFiat_def shop_body_def split: prod.split sum.split)
  have "truthy (pl_invoice_seed shop_terms)" by code_simp
  then have run: "createInvoice (empty_invoice_db True) ?ci 1000 =
      (Inr (new_invoice ?ci 1000, True), invoicePersist (created_db (empty_invoice_db True) ?ci 1000) ''invoice.created''
         (invoiceCreatedPersistPayload (new_invoice ?ci 1000)) i 1000)"
    by (simp add: createInvoice_def prior_invoice_def getInvoice_def empty_invoice_db_def find_by_def order_desc_def create_tx_eq invoice_by_id_def)
  show ?thesis unfolding db run by (simp add: created_db_def empty_invoice_db_def)
qed

theorem invoices_settle_witness:
  "settled shop_env shop_conf (inv_id (hd (invoices shop_db))) (inv_terms (hd (invoices shop_db)))"
proof (rule invoices_settle)
  show "invoice_traffic shop_env shop_conf (empty_invoice_db True) shop_db"
    unfolding shop_db_def by (rule invoice_traffic.created) (rule invoice_traffic.idle)
  show "hd (invoices shop_db) \<in> set (invoices shop_db)" using shop_row by (cases "invoices shop_db") simp_all
qed

end
