(* ===== verification/MerchantProps.thy ===== *)
theory MerchantProps
  imports MerchantRoutes InvoiceRouteProps
begin

text \<open>Who can force a sweep, and what the faucet pays for.\<close>

section \<open>Substrings\<close>

lemma starts_with_append: "starts_with (p @ s) p"
  by (simp add: starts_with_def)

lemma text_includes_append: "text_includes (xs @ p @ ys) p"
proof (induction xs)
  case Nil
  show ?case using starts_with_append [of p ys] by (cases "p @ ys") simp_all
qed simp

lemma lower_append: "lower (xs @ ys) = lower xs @ lower ys"
  by (simp add: lower_def)

section \<open>Forcing a sweep\<close>

lemma requireMerchantD:
  assumes "of_auth (requireMerchant aenv q) = Inr merchant"
  shows "\<exists>ma signer. readMerchantAuth q = Inr ma \<and> ae_getAddress aenv (ma_address ma) = Some merchant \<and>
    ae_verifyMessage aenv (ma_message ma) (ma_signature ma) = Some signer \<and> ae_getAddress aenv signer = Some merchant \<and>
    text_includes (lower (ma_message ma)) ''trustless commerce'' \<and> text_includes (lower (ma_message ma)) (lower merchant)"
  using assms
  by (auto simp: of_auth_def requireMerchant_def verifyMerchantAuth_def unauthorized_def thrown_def Let_def bind_eq_Some_conv
      split: sum.splits option.splits if_splits)

text \<open>
  C30. Only a merchant of an invoice forces its sweep. When the route accepts, the request names an
  address, carries a message signed with the key of this address that mentions both the
  application and the address, and the address is one of the invoice's; all that is written is one
  event of the invoice.
\<close>

theorem force_sweep_authorized:
  assumes "forceSweepRoute env aenv db q k force now = (Inr r, db')"
  shows "\<exists>ma merchant signer. readMerchantAuth q = Inr ma \<and> ae_getAddress aenv (ma_address ma) = Some merchant \<and>
    ae_verifyMessage aenv (ma_message ma) (ma_signature ma) = Some signer \<and> ae_getAddress aenv signer = Some merchant \<and>
    text_includes (lower (ma_message ma)) ''trustless commerce'' \<and> text_includes (lower (ma_message ma)) (lower merchant) \<and>
    (\<exists>v \<in> set (tm_to_addresses (inv_terms r)). addressesEqual env v merchant) \<and> invoice_by_id db k = Some r \<and>
    db' = log_event db k Ev_Force_Sweep (Pl_Force_Sweep (force \<noteq> Some False) merchant) now"
proof -
  from assms obtain merchant where m: "of_auth (requireMerchant aenv q) = Inr merchant" "getInvoice db k = Some r"
    "\<exists>v \<in> set (tm_to_addresses (inv_terms r)). addressesEqual env v merchant"
    "addEvent db k Ev_Force_Sweep (Pl_Force_Sweep (force \<noteq> Some False) merchant) now = Inr db'"
    by (auto simp: forceSweepRoute_def invoice_not_found_def bad_def list_ex_iff split: sum.splits option.splits if_splits)
  then have "find_by inv_id k (invoices db) \<noteq> None" by (auto simp: addEvent_def split: if_splits)
  then have "invoice_by_id db k = Some r" using m(2) by (auto simp: getInvoice_def invoice_by_id_def split: option.splits)
  moreover from this have "db' = log_event db k Ev_Force_Sweep (Pl_Force_Sweep (force \<noteq> Some False) merchant) now"
    using m(4) by (simp add: addEvent_by_id invoice_by_id_def)
  ultimately show ?thesis using requireMerchantD [OF m(1)] m(3) by blast
qed

text \<open>A signed login message is accepted.\<close>

lemma login_accepted:
  assumes "merchantLoginMessage aenv a nonce issued = Some msg" and "ae_getAddress aenv a = Some c" and "ae_getAddress aenv c = Some c"
    and "ae_verifyMessage aenv msg sig = Some signer" and "ae_getAddress aenv signer = Some c"
  shows "verifyMerchantAuth aenv \<lparr>ma_address = c, ma_message = msg, ma_signature = sig\<rparr> = Inr c"
proof -
  let ?rest = "[newline] @ ''Nonce: '' @ nonce @ [newline] @ ''Issued At: '' @ issued"
  have msg: "msg = [] @ ''Trustless Commerce'' @ '' merchant login'' @ [newline] @ ''Address: '' @ c @ ?rest"
    "msg = (''Trustless Commerce merchant login'' @ [newline] @ ''Address: '') @ c @ ?rest"
    using assms(1,2) by (auto simp: merchantLoginMessage_def)
  have "lower ''Trustless Commerce'' = ''trustless commerce''" by code_simp
  then have "text_includes (lower msg) ''trustless commerce''" unfolding msg(1) lower_append by (metis text_includes_append)
  moreover have "text_includes (lower msg) (lower c)" unfolding msg(2) lower_append by (metis text_includes_append append_assoc)
  ultimately show ?thesis using assms(3-5) by (simp add: verifyMerchantAuth_def Let_def)
qed

text \<open>
  A merchant can always force the sweep of an invoice. Whoever signs the login message of the
  application with the key of one of the invoice's addresses gets the event written.
\<close>

theorem merchant_forces_sweep:
  assumes "merchantLoginMessage aenv a nonce issued = Some msg" and "ae_getAddress aenv a = Some c" and "ae_getAddress aenv c = Some c"
    and "ae_verifyMessage aenv msg sig = Some signer" and "ae_getAddress aenv signer = Some c"
    and "readMerchantAuth q = Inr \<lparr>ma_address = c, ma_message = msg, ma_signature = sig\<rparr>"
    and "invoice_by_id db k = Some r" and "v \<in> set (tm_to_addresses (inv_terms r))" and "addressesEqual env v c"
  shows "forceSweepRoute env aenv db q k force now =
    (Inr r, log_event db k Ev_Force_Sweep (Pl_Force_Sweep (force \<noteq> Some False) c) now)"
proof -
  have "of_auth (requireMerchant aenv q) = Inr c"
    using assms(6) login_accepted [OF assms(1-5)] by (simp add: requireMerchant_def of_auth_def)
  moreover have "list_ex (\<lambda>v. addressesEqual env v c) (tm_to_addresses (inv_terms r))" using assms(8,9) by (auto simp: list_ex_iff)
  ultimately show ?thesis
    using assms(7) by (simp add: forceSweepRoute_def getInvoice_by_id addEvent_by_id invoice_by_id_def)
qed

section \<open>Faucet\<close>

text \<open>
  When the faucet answers with a transaction, it was asked with its secret, the invoice can only be paid
  by card, still waits for money and settles on a test network; the amount is the price of the invoice.
\<close>

lemma faucet_answer:
  assumes "fundInvoiceFaucet number dry pay fa db world k secret now = (Inr f, db')"
  shows "\<exists>r. getInvoice db k = Some r \<and> fa_enabled fa \<and> fa_secret fa = Some (nullish secret '''') \<and>
    tm_payment_mode (inv_terms r) = Fiat \<and> (inv_status r = Awaiting_Payment \<or> inv_status r = Paid_Partial) \<and>
    (tm_chain_id (inv_terms r) = Some ''11155111'' \<or> tm_chain_id (inv_terms r) = Some ''nile'') \<and>
    fr_amount f = tm_price_usd (inv_terms r) \<and> tm_chain_id (inv_terms r) = Some (fr_chain_id f) \<and>
    (fr_dry_run f \<or> (\<exists>token a. tm_invoice_address (inv_terms r) = Some a \<and> pay (fr_chain_id f) token a (fr_amount f) = Inr (fr_tx_hash f)))"
proof -
  from assms obtain r where r: "getInvoice db k = Some r" "fundFiatInvoiceFromFaucet number dry pay fa r (nullish secret '''') = Inr f"
    by (auto simp: fundInvoiceFaucet_def invoice_not_found_def bad_def Let_def split: option.splits sum.splits)
  have truthy: "\<exists>s. x = Some s \<and> s \<noteq> []" if "truthy x" for x using that by (cases x) auto
  from r(2) have "fa_enabled fa" "fa_secret fa = Some (nullish secret '''')" "tm_payment_mode (inv_terms r) = Fiat"
    "inv_status r = Awaiting_Payment \<or> inv_status r = Paid_Partial" "truthy (tm_invoice_address (inv_terms r))"
    "isFaucetTestnetChain (tm_chain_id (inv_terms r))" "fr_amount f = tm_price_usd (inv_terms r)"
    "fr_chain_id f = the (tm_chain_id (inv_terms r))"
    "fr_dry_run f \<or> pay (fr_chain_id f) (upper (nullish (tm_token (inv_terms r)) ''USDC'')) (the (tm_invoice_address (inv_terms r))) (fr_amount f) = Inr (fr_tx_hash f)"
    by (auto simp: fundFiatInvoiceFromFaucet_def bad_def Let_def split: if_splits sum.splits)
  then show ?thesis
    using r(1) truthy [of "tm_invoice_address (inv_terms r)"] truthy [of "tm_chain_id (inv_terms r)"]
    by (auto simp: isFaucetTestnetChain_def FAUCET_TESTNET_CHAINS_def)
qed

text \<open>
  C31. The faucet never pays. Invoices that can only be paid by card settle on Base, the faucet serves
  test networks only, and so it refuses every invoice the routes have created.
\<close>

theorem faucet_pays_nothing:
  assumes "invoice_traffic env conf (empty_invoice_db logging) db"
  shows "\<not> is_ok (fst (fundInvoiceFaucet number dry pay fa db world k secret now))"
proof
  let ?run = "fundInvoiceFaucet number dry pay fa db world k secret now"
  assume "is_ok (fst ?run)"
  then obtain f where "fst ?run = Inr f" by (cases "fst ?run") auto
  then have "?run = (Inr f, snd ?run)" by (simp add: prod_eq_iff)
  from faucet_answer [OF this] obtain r where r: "getInvoice db k = Some r" "tm_payment_mode (inv_terms r) = Fiat"
    "tm_chain_id (inv_terms r) = Some ''11155111'' \<or> tm_chain_id (inv_terms r) = Some ''nile''" by blast
  have "r \<in> set (invoices db)"
    using r(1) by (auto simp: getInvoice_def dest: find_by_SomeD first_row_SomeD split: option.splits)
  from traffic_settled [OF assms this] have "isPayInSettlement (the (tm_chain_id (inv_terms r))) (the (tm_token (inv_terms r)))"
    using r(2) by (auto simp: settled_def paymentModeAllowsFiat_def)
  then show False using r(3) by (auto simp: isPayInSettlement_def PAY_IN_CHAIN_ID_def)
qed

section \<open>An example\<close>

text \<open>A toy signature names its signer.\<close>

definition merchant_env :: auth_env where
  "merchant_env =
     \<lparr>ae_getAddress = Some, ae_verifyMessage = (\<lambda>m s. Some s), ae_sha256 = (\<lambda>s. s), ae_hmac = (\<lambda>k m. m), ae_number = (\<lambda>_. None), ae_pathname = Some\<rparr>"

definition merchant_message :: string where
  "merchant_message = the (merchantLoginMessage merchant_env ''0xM'' ''n1'' ''t'')"

definition merchant_request :: http_request where
  "merchant_request =
     \<lparr>hr_method = Some ''POST'', hr_url = Some ''/x'',
      hr_headers = [(''x-merchant-address'', ''0xM''), (''x-merchant-message'', merchant_message), (''x-merchant-signature'', ''0xM'')]\<rparr>"

lemma merchant_signed:
  "merchantLoginMessage merchant_env ''0xM'' ''n1'' ''t'' = Some merchant_message"
  "readMerchantAuth merchant_request = Inr \<lparr>ma_address = ''0xM'', ma_message = merchant_message, ma_signature = ''0xM''\<rparr>"
  "addressesEqual demo_addr ''0xM'' ''0xM''" "''0xM'' \<in> set (tm_to_addresses (inv_terms (new_invoice demo_input 1000)))"
  by code_simp+

lemma merchant_env_simps: "ae_getAddress merchant_env a = Some a" "ae_verifyMessage merchant_env m s = Some s"
  by (simp_all add: merchant_env_def)

theorem merchant_forces_sweep_witness:
  "forceSweepRoute demo_addr merchant_env demo_db merchant_request ''I1'' None 5000 =
    (Inr (new_invoice demo_input 1000), log_event demo_db ''I1'' Ev_Force_Sweep (Pl_Force_Sweep True ''0xM'') 5000)"
  using merchant_forces_sweep [OF merchant_signed(1) merchant_env_simps(1,1,2,1) merchant_signed(2) demo_row merchant_signed(4,3)]
  by simp

theorem force_sweep_authorized_witness:
  "\<exists>ma. readMerchantAuth merchant_request = Inr ma \<and> text_includes (lower (ma_message ma)) ''trustless commerce''"
proof -
  have "of_auth (requireMerchant merchant_env merchant_request) = Inr ''0xM''" by code_simp
  moreover have "list_ex (\<lambda>v. addressesEqual demo_addr v ''0xM'') (tm_to_addresses (inv_terms (new_invoice demo_input 1000)))" by code_simp
  ultimately have "forceSweepRoute demo_addr merchant_env demo_db merchant_request ''I1'' None 5000 =
      (Inr (new_invoice demo_input 1000), log_event demo_db ''I1'' Ev_Force_Sweep (Pl_Force_Sweep True ''0xM'') 5000)"
    using demo_row by (simp add: forceSweepRoute_def getInvoice_by_id addEvent_by_id invoice_by_id_def)
  from force_sweep_authorized [OF this] show ?thesis by blast
qed

theorem faucet_pays_nothing_witness:
  "\<not> is_ok (fst (fundInvoiceFaucet demo_number id (\<lambda>_ _ _ _. Inr ''t'') \<lparr>fa_enabled = True, fa_secret = Some ''s'', fa_dry_run = True\<rparr>
     shop_db id (inv_id (hd (invoices shop_db))) (Some ''s'') 2000))"
proof (rule faucet_pays_nothing)
  show "invoice_traffic shop_env shop_conf (empty_invoice_db True) shop_db"
    unfolding shop_db_def by (rule invoice_traffic.created) (rule invoice_traffic.idle)
qed

end
