(* ===== verification/RateLimit.thy ===== *)
theory RateLimit
  imports Prelude Complex_Main
begin

text \<open>
  The token buckets of the server (commerce/server/rate-limit.ts): one bucket for each kind of request
  and caller, filled at a steady rate. Numbers are exact; the rounding of doubles is not modelled. The field
  \<open>capacity\<close> of a bucket is written and never read, and left out.
  \<open>perSecond\<close> is positive for a limit that is on.
\<close>

record bucket =
  bk_tokens :: rat
  bk_updated_at :: timestamp

type_synonym buckets = "string \<Rightarrow> bucket option"

record take_result =
  tk_ok :: bool
  tk_remaining :: "int option"
  tk_reset_ms :: int

text \<open>\<open>remaining\<close> is \<open>None\<close> for infinity.\<close>

definition bucket_capacity :: "rat \<Rightarrow> rat option \<Rightarrow> rat" where
  "bucket_capacity per_second burst = max 1 (nullish burst per_second)"

definition refilled :: "buckets \<Rightarrow> string \<Rightarrow> rat \<Rightarrow> rat option \<Rightarrow> timestamp \<Rightarrow> rat" where
  "refilled bs key per_second burst now =
     (let cap = bucket_capacity per_second burst; e = nullish (bs key) \<lparr>bk_tokens = cap, bk_updated_at = now\<rparr> in
      min cap (bk_tokens e + of_int (now - bk_updated_at e) / 1000 * per_second))"

definition takeToken :: "buckets \<Rightarrow> string \<Rightarrow> rat \<Rightarrow> rat option \<Rightarrow> timestamp \<Rightarrow> take_result \<times> buckets" where
  "takeToken bs key per_second burst now =
     (if per_second \<le> 0 then (\<lparr>tk_ok = True, tk_remaining = None, tk_reset_ms = 0\<rparr>, bs)
      else (let n = refilled bs key per_second burst now in
            if n < 1
            then (\<lparr>tk_ok = False, tk_remaining = Some 0, tk_reset_ms = \<lceil>(1 - n) / per_second * 1000\<rceil>\<rparr>,
                  bs(key \<mapsto> \<lparr>bk_tokens = n, bk_updated_at = now\<rparr>))
            else (\<lparr>tk_ok = True, tk_remaining = Some \<lfloor>n - 1\<rfloor>, tk_reset_ms = 0\<rparr>,
                  bs(key \<mapsto> \<lparr>bk_tokens = n - 1, bk_updated_at = now\<rparr>))))"

text \<open>The caller, as the first name of the header says.\<close>

definition clientIp :: "string option \<Rightarrow> string option \<Rightarrow> string" where
  "clientIp forwarded remote =
     (if truthy forwarded then trim (hd (split_on (CHR '','') (the forwarded))) else nullish remote ''unknown'')"

section \<open>Which bucket\<close>

record rate_limit_config =
  rl_quote_per_second :: rat
  rl_quote_burst :: rat
  rl_create_per_second :: rat
  rl_public_per_second :: rat
  rl_sweeper_per_second :: rat
  rl_wallet_client_per_second :: rat

record rate_decision =
  rd_bucket :: string
  rd_per_second :: rat
  rd_burst :: rat

definition plain_limit :: "string \<Rightarrow> rat \<Rightarrow> rate_decision" where
  "plain_limit b r = \<lparr>rd_bucket = b, rd_per_second = r, rd_burst = max 1 r\<rparr>"

text \<open>A path \<open>/api/a/<one segment>/b\<close>.\<close>

definition path_matches :: "string list \<Rightarrow> string \<Rightarrow> string \<Rightarrow> bool" where
  "path_matches before last_part path =
     (let ps = split_on (CHR ''/'') path; n = length before in
      length ps = n + 2 \<and> take n ps = before \<and> ps ! n \<noteq> '''' \<and> ps ! (n + 1) = last_part)"

definition resolveRateLimit :: "string \<Rightarrow> string \<Rightarrow> rate_limit_config \<Rightarrow> rate_decision option" where
  "resolveRateLimit meth path conf =
     (let m = upper meth; under = (\<lambda>p. path = p \<or> starts_with path (p @ ''/'')) in
      if path = ''/api/health'' \<or> path = ''/api/ready'' then None
      else if under ''/api/admin'' then None
      else if under ''/api/internal'' then None
      else if starts_with path ''/api/wallet/deployer/'' then None
      else if m = ''PATCH'' \<and> path_matches ['''', ''api'', ''wallet'', ''accounts''] ''deployed'' path then None
      else if starts_with path ''/api/public/pay-in/''
      then Some \<lparr>rd_bucket = ''quote'', rd_per_second = rl_quote_per_second conf, rd_burst = rl_quote_burst conf\<rparr>
      else if m = ''POST'' \<and> (path = ''/api/invoices'' \<or> path = ''/api/sessions'' \<or> path = ''/api/invoices/activate'')
      then Some (plain_limit ''create'' (rl_create_per_second conf))
      else if m = ''POST'' \<and> path_matches ['''', ''api'', ''invoices''] ''faucet'' path
      then Some (let c = max 1 (min 5 (rl_create_per_second conf)) in \<lparr>rd_bucket = ''create'', rd_per_second = c, rd_burst = c\<rparr>)
      else if under ''/api/client/wallets'' then Some (plain_limit ''wallet_client'' (rl_wallet_client_per_second conf))
      else if under ''/api/sweeper'' \<or> under ''/api/bundler'' then Some (plain_limit ''sweeper'' (rl_sweeper_per_second conf))
      else Some (plain_limit ''public'' (rl_public_per_second conf)))"

text \<open>A request passes, or is refused with the seconds to wait (429).\<close>

definition limit_request ::
    "rate_limit_config \<Rightarrow> buckets \<Rightarrow> string \<Rightarrow> string \<Rightarrow> string \<Rightarrow> timestamp \<Rightarrow> int option \<times> buckets" where
  "limit_request conf bs meth path ip now =
     (case resolveRateLimit meth path conf of
        None \<Rightarrow> (None, bs)
      | Some d \<Rightarrow>
          (let (r, bs') = takeToken bs (rd_bucket d @ '':'' @ ip) (rd_per_second d) (Some (rd_burst d)) now in
           (if tk_ok r then None else Some (max 1 \<lceil>of_int (tk_reset_ms r) / 1000 :: rat\<rceil>), bs')))"

section \<open>How much a bucket lets through\<close>

text \<open>Calls on many buckets; those on \<open>key\<close> that are accepted are counted.\<close>

fun accepted_calls :: "string \<Rightarrow> rat \<Rightarrow> rat option \<Rightarrow> buckets \<Rightarrow> (string \<times> timestamp) list \<Rightarrow> nat" where
  "accepted_calls key r b bs [] = 0"
| "accepted_calls key r b bs ((k, now) # xs) =
     (let (res, bs') = takeToken bs k r b now in
      (if k = key \<and> tk_ok res then 1 else 0) + accepted_calls key r b bs' xs)"

lemma refilled_le: "refilled bs key r b now \<le> bucket_capacity r b"
  by (simp add: refilled_def Let_def)

lemma take_other: "k \<noteq> key \<Longrightarrow> snd (takeToken bs k r b now) key = bs key"
  by (simp add: takeToken_def Let_def)

text \<open>What is let through is what was in the bucket and what has flown in since.\<close>

lemma accepted_from_bucket:
  assumes "0 < r" and "sorted (u # map snd xs)" and "bs key = Some \<lparr>bk_tokens = n, bk_updated_at = u\<rparr>" and "0 \<le> n"
  shows "of_nat (accepted_calls key r b bs xs) \<le> n + of_int (last (u # map snd xs) - u) / 1000 * r"
  using assms
proof (induction xs arbitrary: bs n u)
  case Nil
  then show ?case by simp
next
  case (Cons x xs)
  obtain k now where x: "x = (k, now)" by fastforce
  have order: "u \<le> now" "sorted (now # map snd xs)" "sorted (u # map snd xs)" using Cons.prems(2) x by auto
  let ?stop = "last (now # map snd xs)"
  show ?case
  proof (cases "k = key")
    case False
    let ?bs = "snd (takeToken bs k r b now)"
    have "?bs key = Some \<lparr>bk_tokens = n, bk_updated_at = u\<rparr>" using take_other [OF False] Cons.prems(3) by simp
    from Cons.IH [of u ?bs n, OF Cons.prems(1) order(3) this Cons.prems(4)]
    have "of_nat (accepted_calls key r b ?bs xs) \<le> n + of_int (last (u # map snd xs) - u) / 1000 * r" .
    moreover have "last (u # map snd xs) \<le> ?stop" using order(1) by simp
    then have "(of_int (last (u # map snd xs) - u) :: rat) / 1000 * r \<le> of_int (?stop - u) / 1000 * r"
      using Cons.prems(1) by (intro mult_right_mono divide_right_mono) simp_all
    ultimately show ?thesis using False by (simp add: x split_beta)
  next
    case True
    let ?m = "refilled bs key r b now"
    have flow: "?m \<le> n + of_int (now - u) / 1000 * r" using Cons.prems(3) by (simp add: refilled_def Let_def)
    have m: "0 \<le> ?m"
      using Cons.prems(1,3,4) order(1) by (auto simp: refilled_def Let_def bucket_capacity_def intro!: add_nonneg_nonneg mult_nonneg_nonneg)
    have time: "(of_int (now - u) :: rat) / 1000 * r + of_int (?stop - now) / 1000 * r = of_int (?stop - u) / 1000 * r"
      by (simp add: field_simps)
    let ?bs = "snd (takeToken bs k r b now)"
    show ?thesis
    proof (cases "?m < 1")
      case refused: True
      then have "?bs key = Some \<lparr>bk_tokens = ?m, bk_updated_at = now\<rparr>" "\<not> tk_ok (fst (takeToken bs k r b now))"
        using True Cons.prems(1) by (simp_all add: takeToken_def Let_def)
      note tokens = this
      have "of_nat (accepted_calls key r b ?bs xs) \<le> ?m + of_int (?stop - now) / 1000 * r"
        by (rule Cons.IH [of now ?bs ?m, OF Cons.prems(1) order(2) tokens(1) m])
      with flow time have "of_nat (accepted_calls key r b ?bs xs) \<le> n + of_int (?stop - u) / 1000 * r" by linarith
      with True tokens(2) show ?thesis by (simp add: x split_beta)
    next
      case False
      then have "?bs key = Some \<lparr>bk_tokens = ?m - 1, bk_updated_at = now\<rparr>" "tk_ok (fst (takeToken bs k r b now))"
        using True Cons.prems(1) by (simp_all add: takeToken_def Let_def)
      note tokens = this
      have "of_nat (accepted_calls key r b ?bs xs) \<le> (?m - 1) + of_int (?stop - now) / 1000 * r"
        by (rule Cons.IH [of now ?bs "?m - 1", OF Cons.prems(1) order(2) tokens(1)]) (use False in simp)
      with flow time have "1 + of_nat (accepted_calls key r b ?bs xs) \<le> n + of_int (?stop - u) / 1000 * r" by linarith
      with True tokens(2) show ?thesis by (simp add: x split_beta)
    qed
  qed
qed

text \<open>
  C32. A bucket bounds what it lets through. Of the requests of one caller on one kind of route, however
  many come and whatever others do in between, no more are accepted than the bucket holds when it is
  full and what flows in while they come.
\<close>

theorem rate_limit_bound:
  assumes "0 < r" and "sorted (map snd ((key, t0) # xs))"
    and "\<forall>e. bs key = Some e \<longrightarrow> 0 \<le> bk_tokens e \<and> bk_updated_at e \<le> t0"
  shows "of_nat (accepted_calls key r b bs ((key, t0) # xs)) \<le> bucket_capacity r b + of_int (last (t0 # map snd xs) - t0) / 1000 * r"
proof -
  let ?m = "refilled bs key r b t0"
  have m: "0 \<le> ?m"
    using assms(1,3) by (cases "bs key") (auto simp: refilled_def Let_def bucket_capacity_def intro!: add_nonneg_nonneg mult_nonneg_nonneg)
  have order: "sorted (t0 # map snd xs)" using assms(2) by simp
  let ?bs = "snd (takeToken bs key r b t0)"
  show ?thesis
  proof (cases "?m < 1")
    case True
    then have "?bs key = Some \<lparr>bk_tokens = ?m, bk_updated_at = t0\<rparr>" "\<not> tk_ok (fst (takeToken bs key r b t0))"
      using assms(1) by (simp_all add: takeToken_def Let_def)
    note tokens = this
    have "of_nat (accepted_calls key r b ?bs xs) \<le> ?m + of_int (last (t0 # map snd xs) - t0) / 1000 * r"
      by (rule accepted_from_bucket [of r t0 xs ?bs key ?m b, OF assms(1) order tokens(1) m])
    with refilled_le [of bs key r b t0]
    have "of_nat (accepted_calls key r b ?bs xs) \<le> bucket_capacity r b + of_int (last (t0 # map snd xs) - t0) / 1000 * r"
      by linarith
    with tokens(2) show ?thesis by (simp add: split_beta)
  next
    case False
    then have "?bs key = Some \<lparr>bk_tokens = ?m - 1, bk_updated_at = t0\<rparr>" "tk_ok (fst (takeToken bs key r b t0))"
      using assms(1) by (simp_all add: takeToken_def Let_def)
    note tokens = this
    have "of_nat (accepted_calls key r b ?bs xs) \<le> (?m - 1) + of_int (last (t0 # map snd xs) - t0) / 1000 * r"
      by (rule accepted_from_bucket [of r t0 xs ?bs key "?m - 1" b, OF assms(1) order tokens(1)]) (use False in simp)
    with refilled_le [of bs key r b t0]
    have "1 + of_nat (accepted_calls key r b ?bs xs) \<le> bucket_capacity r b + of_int (last (t0 # map snd xs) - t0) / 1000 * r"
      by linarith
    with tokens(2) show ?thesis by (simp add: split_beta)
  qed
qed

theorem rate_limit_bound_witness:
  "of_nat (accepted_calls ''create:1'' 1 None (\<lambda>_. None) [(''create:1'', 0), (''create:2'', 100), (''create:1'', 500), (''create:1'', 1000)]) \<le> (2 :: rat)"
  using rate_limit_bound [of 1 "''create:1''" 0 "[(''create:2'', 100), (''create:1'', 500), (''create:1'', 1000)]" "\<lambda>_. None" None]
  by (simp add: bucket_capacity_def)

end
