(* ===== verification/IdentityRoutes.thy ===== *)
theory IdentityRoutes
  imports RecoveryFlow RateLimit Decimals
begin

text \<open>
  Sign-in (commerce/server/identity-routes.ts): codes by e-mail, Google, passkeys, recovery with a
  security key or an Ethereum key, the methods and wallets of an identity; with the calls of
  identity-onchain.ts, parseGoogleIdToken of google-oauth.ts and loginOptionsAfterFailedGet of
  identity-store.ts.

  A body is the map of its members that are texts. A route answers with a result, the login cookie
  it sets, if any, and the state. Where it reads the tables before it waits for a chain and uses
  them afterwards, \<open>world\<close> is what other requests do meanwhile.
\<close>

section \<open>The identity store on chain\<close>

datatype store_call =
    Sc_Register string string string
  | Sc_Add_Method string nat string string address string
  | Sc_Remove_Method string string string
  | Sc_Restore_Add_Method string nat string string address
  | Sc_Initiate_Restore string nat string string address

text \<open>
  The answers of the node: \<open>None\<close> is a failed call. \<open>sa_send\<close> sends a transaction and waits for it:
  the text of the error, or success.
\<close>

record store_answers =
  sa_identity :: "string \<Rightarrow> (bool \<times> bool) option"
  sa_exists :: "string \<Rightarrow> bool option"
  sa_method :: "string \<Rightarrow> bool option"
  sa_operator :: "address option"
  sa_restore_delay :: "int option"
  sa_send :: "store_call \<Rightarrow> string option"
  sa_super_signer :: "address \<Rightarrow> string \<Rightarrow> (bool \<times> bool) option"
  sa_operator_signer :: "address \<Rightarrow> string \<Rightarrow> (bool \<times> int option) option"

text \<open>
  The configuration: that of identities and, where it is missing, that of wallets. \<open>iv_salt\<close>,
  \<open>iv_predict\<close> are deriveIdentityWalletSalt and predictWalletAddress, \<open>iv_typed_signer\<close> is
  verifyTypedData, \<open>iv_exchange\<close> the exchange of a code for an id token with Google.
\<close>

record identity_env =
  iv_env :: recovery_env
  iv_store :: "string option"
  iv_wallet_store :: "string option"
  iv_rpc :: "string option"
  iv_wallet_rpc :: "string option"
  iv_deployer_key :: "string option"
  iv_factory :: "string option"
  iv_wallet_factory :: "string option"
  iv_impl :: "string option"
  iv_wallet_impl :: "string option"
  iv_chain_id :: int
  iv_restore_override :: "bool option"
  iv_google :: bool
  iv_exchange :: "string \<Rightarrow> string wallet_result"
  iv_salt :: "string \<Rightarrow> nat \<Rightarrow> string"
  iv_predict :: "string \<Rightarrow> string \<Rightarrow> string \<Rightarrow> address option"
  iv_typed_signer :: "string \<Rightarrow> int \<Rightarrow> string \<Rightarrow> string \<Rightarrow> address option"

definition has_provider :: "identity_env \<Rightarrow> bool" where
  "has_provider env = (truthy (iv_rpc env) \<and> truthy (iv_store env))"

definition has_signer :: "identity_env \<Rightarrow> bool" where
  "has_signer env = (truthy (iv_rpc env) \<and> truthy (iv_deployer_key env) \<and> truthy (iv_store env))"

definition readIdentityRestoreEnabled :: "identity_env \<Rightarrow> store_answers \<Rightarrow> string \<Rightarrow> bool" where
  "readIdentityRestoreEnabled env ch i =
     (case iv_restore_override env of
        Some b \<Rightarrow> b
      | None \<Rightarrow>
          if \<not> has_provider env then True
          else (case sa_identity ch i of None \<Rightarrow> True | Some (there, enabled) \<Rightarrow> \<not> there \<or> enabled))"

definition identityMethodExistsOnChain :: "identity_env \<Rightarrow> store_answers \<Rightarrow> string \<Rightarrow> bool" where
  "identityMethodExistsOnChain env ch m = (if \<not> has_provider env then True else nullish (sa_method ch m) False)"

definition sent :: "store_answers \<Rightarrow> store_call \<Rightarrow> string + bool" where
  "sent ch c = (case sa_send ch c of Some e \<Rightarrow> Inl e | None \<Rightarrow> Inr True)"

definition registerIdentityOnChain :: "identity_env \<Rightarrow> store_answers \<Rightarrow> string \<Rightarrow> string \<Rightarrow> string \<Rightarrow> string + bool" where
  "registerIdentityOnChain env ch i qx qy =
     (if \<not> has_signer env then Inr False
      else (case sa_exists ch i of
              None \<Rightarrow> Inl ''call failed''
            | Some there \<Rightarrow> if there then Inr True else sent ch (Sc_Register i qx qy)))"

text \<open>\<open>getAddress\<close> of the Ethereum key, unless it is the zero address.\<close>

definition chain_eoa :: "identity_env \<Rightarrow> address \<Rightarrow> address option" where
  "chain_eoa env a =
     (if a = '''' \<or> a = zero_address then Some zero_address
      else if re_is_address (iv_env env) a then Some (re_get_address (iv_env env) a) else None)"

definition addIdentityMethodOnChain ::
    "identity_env \<Rightarrow> store_answers \<Rightarrow> string \<Rightarrow> nat \<Rightarrow> string \<Rightarrow> string \<Rightarrow> address \<Rightarrow> string \<Rightarrow> string + bool" where
  "addIdentityMethodOnChain env ch i kind qx qy eoa authorization =
     (if \<not> has_signer env then Inr False
      else (case chain_eoa env eoa of
              None \<Rightarrow> Inl ''invalid address''
            | Some a \<Rightarrow> sent ch (Sc_Add_Method i kind qx qy a authorization)))"

definition removeIdentityMethodOnChain :: "identity_env \<Rightarrow> store_answers \<Rightarrow> string \<Rightarrow> string \<Rightarrow> string \<Rightarrow> string + bool" where
  "removeIdentityMethodOnChain env ch i m authorization =
     (if \<not> has_signer env then Inr False else sent ch (Sc_Remove_Method i m authorization))"

definition restoreIdentityMethodOnChain ::
    "identity_env \<Rightarrow> store_answers \<Rightarrow> string \<Rightarrow> nat \<Rightarrow> string \<Rightarrow> string \<Rightarrow> string + bool" where
  "restoreIdentityMethodOnChain env ch i kind qx qy =
     (if \<not> has_signer env then Inr False
      else (case sa_restore_delay ch of
              None \<Rightarrow> Inl ''call failed''
            | Some delay \<Rightarrow>
                if delay = 0 then sent ch (Sc_Restore_Add_Method i kind qx qy zero_address)
                else sent ch (Sc_Initiate_Restore i kind qx qy zero_address)))"

definition readIdentityRecoveryOperator :: "identity_env \<Rightarrow> store_answers \<Rightarrow> address option" where
  "readIdentityRecoveryOperator env ch =
     (if \<not> has_provider env then None
      else Option.bind (sa_operator ch)
             (\<lambda>a. if a = '''' \<or> a = zero_address then None
                  else if re_is_address (iv_env env) a then Some (re_get_address (iv_env env) a) else None))"

section \<open>State and sessions\<close>

record sign_in_state =
  si_db :: recovery_db
  si_buckets :: buckets
  si_challenges :: "string \<Rightarrow> (string \<times> timestamp) option"

type_synonym 'a sign_in_reply = "'a wallet_result \<times> string option \<times> sign_in_state"

type_synonym json_body = "string \<Rightarrow> string option"

text \<open>An answer that leaves the state as it is and sets no cookie.\<close>

definition refused :: "sign_in_state \<Rightarrow> nat \<Rightarrow> string \<Rightarrow> 'a sign_in_reply" where
  "refused st n e = (failed n e, None, st)"

definition identityOtpWallet :: "string \<Rightarrow> string" where
  "identityOtpWallet e = ''identity:'' @ lower (trim e)"

definition requireSession :: "identity_env \<Rightarrow> string option \<Rightarrow> timestamp \<Rightarrow> session wallet_result" where
  "requireSession env cookies now =
     (case readIdentitySessionFromRequest (re_tokens (iv_env env)) (re_session_secret (iv_env env)) cookies now of
        None \<Rightarrow> failed 401 ''unauthorized''
      | Some s \<Rightarrow> Inr s)"

definition requireRecoverSession :: "identity_env \<Rightarrow> string option \<Rightarrow> timestamp \<Rightarrow> recover_session wallet_result" where
  "requireRecoverSession env cookies now =
     (case readIdentityRecoverSessionFromRequest (re_tokens (iv_env env)) (re_session_secret (iv_env env)) cookies now of
        None \<Rightarrow> failed 401 ''unauthorized''
      | Some s \<Rightarrow> Inr s)"

definition issueSessionCookie :: "identity_env \<Rightarrow> identity \<Rightarrow> timestamp \<Rightarrow> string" where
  "issueSessionCookie env i now =
     issueIdentitySession (re_tokens (iv_env env)) (re_session_secret (iv_env env)) (idn_identity_id i) (idn_email i) now"

definition identityFromCredentialId :: "recovery_db \<Rightarrow> string \<Rightarrow> identity option" where
  "identityFromCredentialId db c =
     (case getIdentityMethodByCredentialId db c of None \<Rightarrow> None | Some m \<Rightarrow> getIdentityById db (idm_identity_id m))"

text \<open>The session of the cookie or, without one, of the identity that has the credential; then with a new cookie.\<close>

definition session_or_credential ::
    "identity_env \<Rightarrow> recovery_db \<Rightarrow> string option \<Rightarrow> string option \<Rightarrow> timestamp \<Rightarrow> ((string \<times> string) \<times> string option) option" where
  "session_or_credential env db cookies cred now =
     (case readIdentitySessionFromRequest (re_tokens (iv_env env)) (re_session_secret (iv_env env)) cookies now of
        Some s \<Rightarrow> Some ((ses_identity_id s, ses_email s), None)
      | None \<Rightarrow>
          (case Option.bind cred (identityFromCredentialId db) of
             None \<Rightarrow> None
           | Some i \<Rightarrow> Some ((idn_identity_id i, idn_email i), Some (issueSessionCookie env i now))))"

definition METHOD_YUBIKEY :: nat where
  "METHOD_YUBIKEY = 1"

definition kindToNum :: "method_kind \<Rightarrow> nat" where
  "kindToNum k = (case k of Mk_Yubikey \<Rightarrow> METHOD_YUBIKEY | Mk_Eoa \<Rightarrow> METHOD_EOA | Mk_Webauthn \<Rightarrow> METHOD_WEBAUTHN)"

definition parse_kind :: "string option \<Rightarrow> method_kind" where
  "parse_kind v =
     (if str v = Some ''yubikey'' then Mk_Yubikey else if str v = Some ''eoa'' then Mk_Eoa else Mk_Webauthn)"

definition normalizeQxQy :: "string option \<Rightarrow> string option" where
  "normalizeQxQy x =
     (case x of
        None \<Rightarrow> None
      | Some s \<Rightarrow>
          let v = lower (trim s) in
          if starts_with v ''0x'' \<and> length v = 66 \<and> list_all (\<lambda>c. hex_value c \<noteq> None) (drop 2 v) then Some v else None)"

definition body_key :: "json_body \<Rightarrow> string option \<times> string option" where
  "body_key body = (normalizeQxQy (coalesce (body ''qx'') (body ''ownerQx'')), normalizeQxQy (coalesce (body ''qy'') (body ''ownerQy'')))"

record method_counts =
  mc_webauthn :: nat
  mc_yubikey :: nat
  mc_eoa :: nat

definition methodCounts :: "recovery_db \<Rightarrow> string \<Rightarrow> method_counts" where
  "methodCounts db i =
     (let ms = listIdentityMethods db i; n = (\<lambda>k. length (filter (\<lambda>m. idm_kind m = k) ms)) in
      \<lparr>mc_webauthn = n Mk_Webauthn, mc_yubikey = n Mk_Yubikey, mc_eoa = n Mk_Eoa\<rparr>)"

definition has_methods :: "method_counts \<Rightarrow> bool" where
  "has_methods c = (mc_webauthn c + mc_yubikey c + mc_eoa c > 0)"

record login_options =
  lo_try_webauthn :: bool
  lo_pair :: bool
  lo_yubikey :: bool
  lo_crypto_wallet :: bool

definition loginOptionsAfterFailedGet :: "bool \<Rightarrow> method_counts \<Rightarrow> login_options" where
  "loginOptionsAfterFailedGet there c =
     (if \<not> there then \<lparr>lo_try_webauthn = False, lo_pair = False, lo_yubikey = False, lo_crypto_wallet = False\<rparr>
      else \<lparr>lo_try_webauthn = mc_webauthn c > 0, lo_pair = mc_webauthn c > 0, lo_yubikey = mc_yubikey c > 0,
            lo_crypto_wallet = mc_eoa c > 0\<rparr>)"

record me_payload =
  me_email :: string
  me_identity_id :: string
  me_counts :: method_counts
  me_keys :: "identity_method list"
  me_exists :: bool
  me_restore_enabled :: bool
  me_options :: login_options

definition mePayload :: "recovery_db \<Rightarrow> string \<Rightarrow> string \<Rightarrow> bool \<Rightarrow> me_payload" where
  "mePayload db i e restore =
     (let c = methodCounts db i in
      \<lparr>me_email = e, me_identity_id = i, me_counts = c, me_keys = listIdentityMethods db i, me_exists = has_methods c,
       me_restore_enabled = restore, me_options = loginOptionsAfterFailedGet (has_methods c) c\<rparr>)"

section \<open>Wallets\<close>

definition first_config :: "string option \<Rightarrow> string option \<Rightarrow> string option" where
  "first_config a b = or_null (coalesce a b)"

definition wallet_input ::
    "identity_env \<Rightarrow> string \<Rightarrow> string \<Rightarrow> string \<Rightarrow> string option \<Rightarrow> string option \<Rightarrow> nat \<Rightarrow> address \<Rightarrow> account_input" where
  "wallet_input env i qx qy cred label index a =
     \<lparr>ai_address = a, ai_salt = iv_salt env i index, ai_owner_qx = qx, ai_owner_qy = qy, ai_credential_id = cred,
      ai_attestation = None, ai_identity_id = Some i,
      ai_label = Some (nullish (or_null (map_option trim label))
        (if index = 0 then ''Wallet'' else ''Wallet '' @ int_text (int index + 1)))\<rparr>"

definition createWalletForIdentity ::
    "identity_env \<Rightarrow> recovery_db \<Rightarrow> string \<Rightarrow> string \<Rightarrow> string \<Rightarrow> string option \<Rightarrow> string option \<Rightarrow> timestamp \<Rightarrow>
     wallet_account option wallet_result \<times> recovery_db" where
  "createWalletForIdentity env db i qx qy cred label now =
     (case (first_config (iv_factory env) (iv_wallet_factory env), first_config (iv_impl env) (iv_wallet_impl env)) of
        (Some factory, Some impl) \<Rightarrow>
          (let index = length (listWalletAccountsByIdentityId db i) in
           case iv_predict env factory impl (iv_salt env i index) of
             None \<Rightarrow> (failed 500 ''error'', db)
           | Some a \<Rightarrow>
               (let (account, db1) = upsertWalletAccount db (wallet_input env i qx qy cred label index a) now;
                    e = map_option idn_email (getIdentityById db1 i) in
                (Inr account,
                 if has_at e then snd (upsertWalletEmail db1 (lower a) (the e) (Some now) now) else db1)))
      | _ \<Rightarrow> (failed 503 ''wallet_factory_not_configured'', db))"

section \<open>Sign-in by e-mail\<close>

definition email_of :: "string option \<Rightarrow> string option" where
  "email_of v = (let e = map_option lower (str v) in if has_at e then e else None)"

definition emailLookupRoute :: "identity_env \<Rightarrow> store_answers \<Rightarrow> sign_in_state \<Rightarrow> json_body \<Rightarrow> (string \<times> bool \<times> login_options) option" where
  "emailLookupRoute env ch st body =
     (case Option.bind (email_of (body ''email'')) (getIdentityByEmail (si_db st)) of
        None \<Rightarrow> None
      | Some i \<Rightarrow>
          (let c = methodCounts (si_db st) (idn_identity_id i) in
           Some (if has_methods c then idn_identity_id i else '''', readIdentityRestoreEnabled env ch (idn_identity_id i),
                 loginOptionsAfterFailedGet (has_methods c) c)))"

definition maskEmail :: "string \<Rightarrow> string" where
  "maskEmail e =
     (let n = lower (trim e) in
      case index_of n ''@'' of
        None \<Rightarrow> ''***''
      | Some k \<Rightarrow> if k = 0 then ''***'' else take (min 2 k) n @ ''***@'' @ drop (k + 1) n)"

datatype email_start = Es_Ignored | Es_Exists string | Es_Sent bool string

definition emailStartRoute ::
    "identity_env \<Rightarrow> sign_in_state \<Rightarrow> json_body \<Rightarrow> string \<Rightarrow> string \<Rightarrow> timestamp \<Rightarrow> email_start sign_in_reply" where
  "emailStartRoute env st body otp code now =
     (case requireCaptcha (iv_env env) (body ''captchaToken'') of
        Some (n, e) \<Rightarrow> refused st n e
      | None \<Rightarrow>
          (case email_of (body ''email'') of
             None \<Rightarrow> (Inr Es_Ignored, None, st)
           | Some e \<Rightarrow>
               if opt_ex (\<lambda>i. has_methods (methodCounts (si_db st) (idn_identity_id i))) (getIdentityByEmail (si_db st) e)
               then (Inr (Es_Exists (maskEmail e)), None, st)
               else (let (ok, db) = create_otp (iv_env env) (si_db st) otp (identityOtpWallet e) e Otp_Login code now in
                     if \<not> ok then refused (st\<lparr>si_db := db\<rparr>) 500 ''error''
                     else (Inr (Es_Sent (re_send_failed (iv_env env) e = None) (maskEmail e)), None, st\<lparr>si_db := db\<rparr>))))"

definition emailVerifyRoute ::
    "identity_env \<Rightarrow> sign_in_state \<Rightarrow> json_body \<Rightarrow> string \<Rightarrow> timestamp \<Rightarrow> me_payload sign_in_reply" where
  "emailVerifyRoute env st body new_id now =
     (case (email_of (body ''email''), str (body ''code'')) of
        (Some e, Some code) \<Rightarrow>
          (case consume_otp (iv_env env) (si_db st) (identityOtpWallet e) e Otp_Login code now of
             (False, db) \<Rightarrow> refused (st\<lparr>si_db := db\<rparr>) 400 ''invalid_otp''
           | (True, db) \<Rightarrow>
               (case getOrCreateIdentityByEmail db new_id e None now of
                  (Inl x, db1) \<Rightarrow> (Inl x, None, st\<lparr>si_db := db1\<rparr>)
                | (Inr i, db1) \<Rightarrow>
                    (Inr (mePayload db1 (idn_identity_id i) (idn_email i) True), Some (issueSessionCookie env i now), st\<lparr>si_db := db1\<rparr>)))
      | _ \<Rightarrow> refused st 400 ''email_and_code_required'')"

section \<open>Google\<close>

record google_claims =
  gc_sub :: string
  gc_email :: string

definition parseGoogleIdToken :: "token_env \<Rightarrow> string \<Rightarrow> google_claims wallet_result" where
  "parseGoogleIdToken env token =
     (case split_on (CHR ''.'') token of
        _ # payload # _ \<Rightarrow>
          (case te_parse env (te_utf8 env (base64ToBytes payload)) of
             None \<Rightarrow> failed 400 ''invalid_id_token''
           | Some p \<Rightarrow>
               (let email = lower (trim (nullish (str_member p ''email'') '''')); sub = nullish (str_member p ''sub'') '''';
                    verified = (map_of p ''email_verified'' = Some (JBool True) \<or> map_of p ''email_verified'' = Some (JStr ''true'')) in
                if CHR ''@'' \<notin> set email \<or> sub = '''' then failed 400 ''invalid_id_token''
                else if \<not> verified then failed 400 ''email_not_verified''
                else Inr \<lparr>gc_sub = sub, gc_email = email\<rparr>))
      | _ \<Rightarrow> failed 400 ''invalid_id_token'')"

text \<open>The state for the redirect to Google, which is also set as a cookie.\<close>

definition googleStartRoute :: "identity_env \<Rightarrow> string \<Rightarrow> timestamp \<Rightarrow> string option" where
  "googleStartRoute env nonce now =
     (if \<not> iv_google env then None
      else Some (issueOAuthState (re_tokens (iv_env env)) (re_session_secret (iv_env env)) nonce now))"

definition GOOGLE_OAUTH_COOKIE_NAME :: string where
  "GOOGLE_OAUTH_COOKIE_NAME = ''tc_google_oauth''"

text \<open>The identity of the claims: that of the Google account, else that of the address, else a new one.\<close>

definition google_identity ::
    "recovery_db \<Rightarrow> google_claims \<Rightarrow> string \<Rightarrow> timestamp \<Rightarrow> identity wallet_result \<times> recovery_db" where
  "google_identity db c new_id now =
     (let by_sub = getIdentityByGoogleSub db (gc_sub c); by_email = getIdentityByEmail db (gc_email c) in
      if by_sub \<noteq> None \<and> by_email \<noteq> None \<and> idn_identity_id (the by_sub) \<noteq> idn_identity_id (the by_email)
      then (failed 409 ''identity_conflict'', db)
      else (case (case coalesce by_sub by_email of
                    Some i \<Rightarrow> (Inr i, db)
                  | None \<Rightarrow> getOrCreateIdentityByEmail db new_id (gc_email c) (Some (gc_sub c)) now) of
              (Inl e, db1) \<Rightarrow> (Inl e, db1)
            | (Inr i, db1) \<Rightarrow>
                (Inr i, if truthy (idn_google_sub i) then db1 else setIdentityGoogleSub db1 (idn_identity_id i) (gc_sub c) now)))"

definition googleCallbackRoute ::
    "identity_env \<Rightarrow> sign_in_state \<Rightarrow> string option \<Rightarrow> string option \<Rightarrow> string option \<Rightarrow> string \<Rightarrow> timestamp \<Rightarrow> identity sign_in_reply" where
  "googleCallbackRoute env st cookies code state new_id now =
     (let toks = re_tokens (iv_env env) in
      if \<not> truthy code \<or> \<not> truthy state \<or> parseCookieHeader toks cookies GOOGLE_OAUTH_COOKIE_NAME \<noteq> state \<or>
         \<not> verifyOAuthState toks (re_session_secret (iv_env env)) state now
      then refused st 400 ''invalid_oauth_state''
      else (case iv_exchange env (the code) of
              Inl e \<Rightarrow> (Inl e, None, st)
            | Inr token \<Rightarrow>
                (case parseGoogleIdToken toks token of
                   Inl e \<Rightarrow> (Inl e, None, st)
                 | Inr c \<Rightarrow>
                     (case google_identity (si_db st) c new_id now of
                        (Inl e, db) \<Rightarrow> (Inl e, None, st\<lparr>si_db := db\<rparr>)
                      | (Inr i, db) \<Rightarrow> (Inr i, Some (issueSessionCookie env i now), st\<lparr>si_db := db\<rparr>)))))"

section \<open>The own identity\<close>

definition meRoute ::
    "identity_env \<Rightarrow> store_answers \<Rightarrow> sign_in_state \<Rightarrow> (sign_in_state \<Rightarrow> sign_in_state) \<Rightarrow> string option \<Rightarrow> timestamp \<Rightarrow> me_payload wallet_result" where
  "meRoute env ch st world cookies now =
     (case requireSession env cookies now of
        Inl e \<Rightarrow> Inl e
      | Inr s \<Rightarrow>
          (case getIdentityById (si_db st) (ses_identity_id s) of
             None \<Rightarrow> failed 401 ''unauthorized''
           | Some i \<Rightarrow>
               Inr (mePayload (si_db (world st)) (idn_identity_id i) (idn_email i)
                      (readIdentityRestoreEnabled env ch (idn_identity_id i)))))"

definition pairReadyRoute :: "sign_in_state \<Rightarrow> json_body \<Rightarrow> bool wallet_result" where
  "pairReadyRoute st body =
     (let cred = str (body ''credentialId''); qx = normalizeQxQy (body ''qx''); qy = normalizeQxQy (body ''qy'') in
      if cred = None \<and> (qx = None \<or> qy = None) then failed 400 ''credentialId_or_qx_qy_required''
      else Inr ((cred \<noteq> None \<and> getIdentityMethodByCredentialId (si_db st) (the cred) \<noteq> None) \<or>
                (qx \<noteq> None \<and> qy \<noteq> None \<and> getIdentityMethodByPublicKey (si_db st) (the qx) (the qy) \<noteq> None)))"

text \<open>The login of a passkey: its id or its public key is all that is asked for.\<close>

definition passkeyLoginRoute ::
    "identity_env \<Rightarrow> sign_in_state \<Rightarrow> json_body \<Rightarrow> timestamp \<Rightarrow> (identity \<times> identity_method \<times> wallet_account list) sign_in_reply" where
  "passkeyLoginRoute env st body now =
     (let cred = str (body ''credentialId''); qx = normalizeQxQy (body ''qx''); qy = normalizeQxQy (body ''qy''); db = si_db st in
      if cred = None \<and> (qx = None \<or> qy = None) then refused st 400 ''credentialId required''
      else (case coalesce (Option.bind cred (getIdentityMethodByCredentialId db))
                   (if qx \<noteq> None \<and> qy \<noteq> None then getIdentityMethodByPublicKey db (the qx) (the qy) else None) of
              None \<Rightarrow> refused st 404 ''identity_not_found''
            | Some m \<Rightarrow>
                (case getIdentityById db (idm_identity_id m) of
                   None \<Rightarrow> refused st 404 ''identity_not_found''
                 | Some i \<Rightarrow>
                     (Inr (i, m, listWalletAccountsLinkedToIdentity db (idm_identity_id m)), Some (issueSessionCookie env i now), st))))"

definition YUBIKEY_LIMIT :: nat where
  "YUBIKEY_LIMIT = 32"

definition securityKeysRoute :: "sign_in_state \<Rightarrow> string list" where
  "securityKeysRoute st = listYubikeyCredentialIds (si_db st) YUBIKEY_LIMIT"

section \<open>Recovery with another key\<close>

definition issueRecoverChallenge :: "sign_in_state \<Rightarrow> string \<Rightarrow> string \<Rightarrow> timestamp \<Rightarrow> string \<times> sign_in_state" where
  "issueRecoverChallenge st ip challenge now =
     (challenge, st\<lparr>si_challenges := (si_challenges st)(ip \<mapsto> (challenge, now + 5 * 60 * 1000))\<rparr>)"

definition consumeRecoverChallenge :: "sign_in_state \<Rightarrow> string \<Rightarrow> string option \<Rightarrow> timestamp \<Rightarrow> bool \<times> sign_in_state" where
  "consumeRecoverChallenge st ip challenge now =
     (if \<not> truthy challenge then (False, st)
      else (let st' = st\<lparr>si_challenges := (si_challenges st)(ip := None)\<rparr> in
            case si_challenges st ip of
              None \<Rightarrow> (False, st')
            | Some (c, until) \<Rightarrow> (\<not> until < now \<and> lower c = lower (trim (the challenge)), st')))"

text \<open>The key that proves who recovers.\<close>

definition proving_method ::
    "identity_env \<Rightarrow> sign_in_state \<Rightarrow> recover_kind \<Rightarrow> json_body \<Rightarrow> string \<Rightarrow> timestamp \<Rightarrow> identity_method wallet_result \<times> sign_in_state" where
  "proving_method env st kind body ip now =
     (case kind of
        Rk_Yubikey \<Rightarrow>
          (case str (body ''credentialId'') of
             None \<Rightarrow> (failed 400 ''credentialId required'', st)
           | Some c \<Rightarrow>
               (case getIdentityMethodByCredentialId (si_db st) c of
                  None \<Rightarrow> (failed 404 ''identity_not_found'', st)
                | Some m \<Rightarrow> if idm_kind m \<noteq> Mk_Yubikey then (failed 404 ''identity_not_found'', st) else (Inr m, st)))
      | Rk_Eoa \<Rightarrow>
          (case (str (body ''challenge''), str (body ''signature''), coalesce (str (body ''eoa'')) (str (body ''address''))) of
             (Some challenge, Some sig, Some eoa) \<Rightarrow>
               if \<not> re_is_address (iv_env env) eoa then (failed 400 ''eoa_challenge_signature_required'', st)
               else (case consumeRecoverChallenge st ip (Some challenge) now of
                 (False, st1) \<Rightarrow> (failed 400 ''invalid_or_expired_challenge'', st1)
               | (True, st1) \<Rightarrow>
                   (let store = coalesce (iv_store env) (iv_wallet_store env) in
                    if \<not> truthy store \<or> iv_chain_id env = 0 then (failed 503 ''identity_store_unavailable'', st1)
                    else (case iv_typed_signer env (the store) (iv_chain_id env) challenge sig of
                            None \<Rightarrow> (failed 400 ''invalid_signature'', st1)
                          | Some signer \<Rightarrow>
                              if lower signer \<noteq> lower (re_get_address (iv_env env) eoa) then (failed 400 ''invalid_signature'', st1)
                              else (case getIdentityMethodByEoa (si_db st1) signer of
                                      None \<Rightarrow> (failed 404 ''identity_not_found'', st1)
                                    | Some m \<Rightarrow> if idm_kind m \<noteq> Mk_Eoa then (failed 404 ''identity_not_found'', st1) else (Inr m, st1)))))
           | _ \<Rightarrow> (failed 400 ''eoa_challenge_signature_required'', st)))"

definition recover_session_of :: "recover_kind \<Rightarrow> identity \<Rightarrow> identity_method \<Rightarrow> recover_session" where
  "recover_session_of kind i m =
     \<lparr>rs_identity_id = idn_identity_id i, rs_email = idn_email i, rs_kind = kind, rs_method_id = idm_id m,
      rs_credential_id = idm_credential_id m, rs_qx = idm_qx m, rs_qy = idm_qy m, rs_eoa = idm_eoa m\<rparr>"

text \<open>The cookie of this route is the recovery cookie.\<close>

definition recoverProveRoute ::
    "identity_env \<Rightarrow> sign_in_state \<Rightarrow> (sign_in_state \<Rightarrow> sign_in_state) \<Rightarrow> json_body \<Rightarrow> string \<Rightarrow> timestamp \<Rightarrow>
     (identity \<times> identity_method \<times> wallet_account list) sign_in_reply" where
  "recoverProveRoute env st world body ip now =
     (case (if str (body ''kind'') = Some ''yubikey'' then Some Rk_Yubikey else if str (body ''kind'') = Some ''eoa'' then Some Rk_Eoa else None) of
        None \<Rightarrow> refused st 400 ''kind_required''
      | Some kind \<Rightarrow>
          (case proving_method env st kind body ip now of
             (Inl e, st1) \<Rightarrow> (Inl e, None, st1)
           | (Inr m, st1) \<Rightarrow>
               (case getIdentityById (si_db st1) (idm_identity_id m) of
                  None \<Rightarrow> refused st1 404 ''identity_not_found''
                | Some i \<Rightarrow>
                    (let st2 = world st1 in
                     (Inr (i, m, listWalletAccountsByIdentityId (si_db st2) (idn_identity_id i)),
                      Some (issueIdentityRecoverSession (re_tokens (iv_env env)) (re_session_secret (iv_env env)) (recover_session_of kind i m) now),
                      st2)))))"

definition recoverSessionRoute ::
    "identity_env \<Rightarrow> sign_in_state \<Rightarrow> (sign_in_state \<Rightarrow> sign_in_state) \<Rightarrow> string option \<Rightarrow> timestamp \<Rightarrow>
     (identity \<times> wallet_account list \<times> method_counts \<times> recover_session) wallet_result" where
  "recoverSessionRoute env st world cookies now =
     (case requireRecoverSession env cookies now of
        Inl e \<Rightarrow> Inl e
      | Inr s \<Rightarrow>
          (case getIdentityById (si_db st) (rs_identity_id s) of
             None \<Rightarrow> failed 401 ''unauthorized''
           | Some i \<Rightarrow>
               (let db = si_db (world st) in
                Inr (i, listWalletAccountsByIdentityId db (idn_identity_id i), methodCounts db (idn_identity_id i), s))))"

definition index_method ::
    "sign_in_state \<Rightarrow> string \<Rightarrow> string \<Rightarrow> method_kind \<Rightarrow> string option \<Rightarrow> string option \<Rightarrow> string option \<Rightarrow> string option \<Rightarrow> timestamp \<Rightarrow>
     string option \<Rightarrow> identity_method option sign_in_reply" where
  "index_method st m i kind cred qx qy eoa now cookie =
     (let (r, db) = insertIdentityMethod (si_db st) m i kind cred qx qy eoa now in (Inr r, cookie, st\<lparr>si_db := db\<rparr>))"

definition recoverAddMethodRoute ::
    "identity_env \<Rightarrow> store_answers \<Rightarrow> sign_in_state \<Rightarrow> (sign_in_state \<Rightarrow> sign_in_state) \<Rightarrow> string option \<Rightarrow> json_body \<Rightarrow> timestamp \<Rightarrow>
     identity_method option sign_in_reply" where
  "recoverAddMethodRoute env ch st world cookies body now =
     (case requireRecoverSession env cookies now of
        Inl e \<Rightarrow> (Inl e, None, st)
      | Inr s \<Rightarrow>
          (case (body_key body, str (body ''credentialId'')) of
             ((Some qx, Some qy), Some cred) \<Rightarrow>
               (let pay = nullish (str (body ''pay'')) ''relayer''; kind = parse_kind (body ''kind'');
                    i = rs_identity_id s;
                    m = re_method_id (iv_env env) i (kindToNum kind) qx qy zero_address;
                    index = (\<lambda>x. index_method x m i kind (Some cred) (Some qx) (Some qy) None now None) in
                if pay = ''relayer''
                then (case requireCaptcha (iv_env env) (body ''captchaToken'') of
                        Some _ \<Rightarrow> refused st 400 ''captcha_failed''
                      | None \<Rightarrow>
                          (let (t, bs) = takeToken (si_buckets st) (''identity-recover-relay:'' @ i) (1 / 120) (Some 1) now;
                               st1 = st\<lparr>si_buckets := bs\<rparr> in
                           if \<not> tk_ok t then refused st1 429 ''rate_limited''
                           else if has_provider env
                           then (case str (body ''authorization'') of
                                   None \<Rightarrow> refused st1 400 ''authorization_required''
                                 | Some a \<Rightarrow>
                                     (case addIdentityMethodOnChain env ch i (kindToNum kind) qx qy zero_address a of
                                        Inl _ \<Rightarrow> refused (world st1) 502 ''add_method_failed''
                                      | Inr _ \<Rightarrow> index (world st1)))
                           else index st1))
                else if pay = ''recorded''
                then (if identityMethodExistsOnChain env ch m then index (world st) else refused (world st) 400 ''method_not_on_chain'')
                else refused st 400 ''pay_invalid'')
           | _ \<Rightarrow> refused st 400 ''qx_qy_credentialId_required''))"

section \<open>Registration\<close>

text \<open>The wallets after a registration: those there are or a first one.\<close>

definition first_wallet ::
    "identity_env \<Rightarrow> sign_in_state \<Rightarrow> identity \<Rightarrow> string \<Rightarrow> string \<Rightarrow> string \<Rightarrow> string option \<Rightarrow> timestamp \<Rightarrow> unit wallet_result \<times> sign_in_state" where
  "first_wallet env st i qx qy cred attestation now =
     (let db = si_db st; ident = idn_identity_id i in
      if listWalletAccountsByIdentityId db ident \<noteq> [] then (Inr (), st)
      else (case createWalletForIdentity env db ident qx qy (Some cred) None now of
              (Inl e, db1) \<Rightarrow> (Inl e, st\<lparr>si_db := db1\<rparr>)
            | (Inr None, db1) \<Rightarrow> (failed 500 ''error'', st\<lparr>si_db := db1\<rparr>)
            | (Inr (Some a), db1) \<Rightarrow>
                if truthy attestation
                then (Inr (), st\<lparr>si_db := snd (upsertWalletAccount db1
                        \<lparr>ai_address = wac_address a, ai_salt = wac_salt a, ai_owner_qx = qx, ai_owner_qy = qy, ai_credential_id = Some cred,
                         ai_attestation = attestation, ai_identity_id = Some ident, ai_label = None\<rparr> now)\<rparr>)
                else (Inr (), st\<lparr>si_db := db1\<rparr>)))"

definition passkeyRegisterRoute ::
    "identity_env \<Rightarrow> store_answers \<Rightarrow> sign_in_state \<Rightarrow> (sign_in_state \<Rightarrow> sign_in_state) \<Rightarrow> string option \<Rightarrow> json_body \<Rightarrow> string option \<Rightarrow>
     timestamp \<Rightarrow> (wallet_account list \<times> me_payload) sign_in_reply" where
  "passkeyRegisterRoute env ch st world cookies body attestation now =
     (case requireSession env cookies now of
        Inl e \<Rightarrow> (Inl e, None, st)
      | Inr s \<Rightarrow>
          (case (body_key body, str (body ''credentialId'')) of
             ((Some qx, Some qy), Some cred) \<Rightarrow>
               if mc_webauthn (methodCounts (si_db st) (ses_identity_id s)) > 0 then refused st 409 ''identity_exists''
               else (case getIdentityById (si_db st) (ses_identity_id s) of
                 None \<Rightarrow> refused st 401 ''unauthorized''
               | Some i \<Rightarrow>
                   (let ident = idn_identity_id i;
                        m = re_method_id (iv_env env) ident METHOD_WEBAUTHN qx qy zero_address;
                        db1 = snd (insertIdentityMethod (si_db st) m ident Mk_Webauthn (Some cred) (Some qx) (Some qy) None now);
                        st2 = world (st\<lparr>si_db := db1\<rparr>) in
                    case registerIdentityOnChain env ch ident qx qy of
                      Inl _ \<Rightarrow> refused st2 502 ''identity_register_failed''
                    | Inr _ \<Rightarrow>
                        (case first_wallet env st2 i qx qy cred attestation now of
                           (Inl e, st3) \<Rightarrow> (Inl e, None, st3)
                         | (Inr _, st3) \<Rightarrow>
                             (Inr (listWalletAccountsByIdentityId (si_db st3) ident, mePayload (si_db st3) ident (idn_email i) True), None, st3))))
           | _ \<Rightarrow> refused st 400 ''qx_qy_credentialId_required''))"

section \<open>Wallets of an identity\<close>

definition listWalletsRoute :: "identity_env \<Rightarrow> sign_in_state \<Rightarrow> string option \<Rightarrow> timestamp \<Rightarrow> wallet_account list wallet_result" where
  "listWalletsRoute env st cookies now =
     (case requireSession env cookies now of
        Inl e \<Rightarrow> Inl e
      | Inr s \<Rightarrow> Inr (listWalletAccountsLinkedToIdentity (si_db st) (ses_identity_id s)))"

text \<open>Joining a shared wallet; the answers of the node say whether it is one and the caller signs for it.\<close>

definition joinWalletRoute ::
    "identity_env \<Rightarrow> store_answers \<Rightarrow> sign_in_state \<Rightarrow> (sign_in_state \<Rightarrow> sign_in_state) \<Rightarrow> string option \<Rightarrow> json_body \<Rightarrow> timestamp \<Rightarrow>
     wallet_account sign_in_reply" where
  "joinWalletRoute env ch st world cookies body now =
     (case requireSession env cookies now of
        Inl e \<Rightarrow> (Inl e, None, st)
      | Inr s \<Rightarrow>
          (case str (body ''address'') of
             None \<Rightarrow> refused st 400 ''address_required''
           | Some a \<Rightarrow>
               if \<not> re_is_address (iv_env env) a then refused st 400 ''address_required''
               else (case getWalletAccount (si_db st) a of
                 None \<Rightarrow> refused st 404 ''wallet_not_found''
               | Some account \<Rightarrow>
                   if \<not> truthy (coalesce (iv_rpc env) (iv_wallet_rpc env)) then refused st 400 ''rpc_required''
                   else (let st1 = world st in
                     case sa_super_signer ch (re_get_address (iv_env env) a) (ses_identity_id s) of
                       None \<Rightarrow> refused st1 400 ''join_failed''
                     | Some (super, signer) \<Rightarrow>
                         if \<not> super \<or> \<not> signer then refused st1 403 ''not_super_signer''
                         else (Inr account, None,
                               st1\<lparr>si_db := snd (upsertWalletEntity (si_db st1) (wac_address account) (ses_identity_id s) (Some (ses_email s)) now)\<rparr>)))))"

text \<open>The session or credential of a request on wallets or methods, before the rest runs.\<close>

definition with_identity ::
    "identity_env \<Rightarrow> sign_in_state \<Rightarrow> string option \<Rightarrow> string option \<Rightarrow> timestamp \<Rightarrow> (string \<Rightarrow> string option \<Rightarrow> 'a sign_in_reply) \<Rightarrow> 'a sign_in_reply" where
  "with_identity env st cookies cred now run =
     (case session_or_credential env (si_db st) cookies (str cred) now of
        None \<Rightarrow> refused st 401 ''unauthorized''
      | Some ((i, _), cookie) \<Rightarrow> run i cookie)"

definition refused_with :: "sign_in_state \<Rightarrow> string option \<Rightarrow> nat \<Rightarrow> string \<Rightarrow> 'a sign_in_reply" where
  "refused_with st cookie n e = (failed n e, cookie, st)"

definition createWalletRoute ::
    "identity_env \<Rightarrow> sign_in_state \<Rightarrow> string option \<Rightarrow> json_body \<Rightarrow> timestamp \<Rightarrow> wallet_account option sign_in_reply" where
  "createWalletRoute env st cookies body now =
     with_identity env st cookies (body ''credentialId'') now (\<lambda>i cookie.
       case find (\<lambda>m. idm_kind m = Mk_Webauthn \<and> truthy (idm_qx m) \<and> truthy (idm_qy m)) (listIdentityMethods (si_db st) i) of
         None \<Rightarrow> refused_with st cookie 400 ''passkey_required''
       | Some m \<Rightarrow>
           (let (r, db) = createWalletForIdentity env (si_db st) i (the (idm_qx m)) (the (idm_qy m)) (idm_credential_id m) (str (body ''label'')) now in
            (r, cookie, st\<lparr>si_db := db\<rparr>)))"

definition renameWalletRoute ::
    "identity_env \<Rightarrow> sign_in_state \<Rightarrow> string option \<Rightarrow> json_body \<Rightarrow> timestamp \<Rightarrow> wallet_account option sign_in_reply" where
  "renameWalletRoute env st cookies body now =
     with_identity env st cookies (body ''credentialId'') now (\<lambda>i cookie.
       case (str (body ''address''), str (body ''label'')) of
         (Some a, Some label) \<Rightarrow>
           if Option.bind (getWalletAccount (si_db st) a) wac_identity_id \<noteq> Some i then refused_with st cookie 404 ''wallet_not_found''
           else (let (r, db) = setWalletAccountLabel (si_db st) a label now in (Inr r, cookie, st\<lparr>si_db := db\<rparr>))
       | _ \<Rightarrow> refused_with st cookie 400 ''address_and_label_required'')"

text \<open>The recovery requests the operator's signers see.\<close>

definition operatorRestoresRoute ::
    "identity_env \<Rightarrow> store_answers \<Rightarrow> sign_in_state \<Rightarrow> string option \<Rightarrow> timestamp \<Rightarrow>
     (address option \<times> int \<times> (recovery_request \<times> string option) list) wallet_result" where
  "operatorRestoresRoute env ch st cookies now =
     (case requireSession env cookies now of
        Inl e \<Rightarrow> Inl e
      | Inr s \<Rightarrow>
          (case readIdentityRecoveryOperator env ch of
             None \<Rightarrow> Inr (None, 0, [])
           | Some operator \<Rightarrow>
               if \<not> truthy (coalesce (iv_rpc env) (iv_wallet_rpc env)) then Inr (Some operator, 0, [])
               else (case sa_operator_signer ch operator (ses_identity_id s) of
                       Some (True, Some threshold) \<Rightarrow>
                         (let ident = (\<lambda>r. Option.bind (getWalletAccount (si_db st) (rr_wallet_address r)) wac_identity_id) in
                          Inr (Some operator, threshold,
                               map (\<lambda>r. (r, ident r))
                                 (filter (\<lambda>r. truthy (ident r))
                                    (listWalletRecoveryRequests (si_db st) (Some [Rq_Awaiting_Guardian, Rq_Queued, Rq_On_Chain])))))
                     | Some (_, threshold) \<Rightarrow> Inr (Some operator, nullish threshold 0, [])
                     | None \<Rightarrow> Inr (Some operator, 0, []))))"

section \<open>Methods\<close>

definition addMethodRoute ::
    "identity_env \<Rightarrow> store_answers \<Rightarrow> sign_in_state \<Rightarrow> (sign_in_state \<Rightarrow> sign_in_state) \<Rightarrow> string option \<Rightarrow> json_body \<Rightarrow> timestamp \<Rightarrow>
     identity_method option sign_in_reply" where
  "addMethodRoute env ch st world cookies body now =
     with_identity env st cookies (body ''provingCredentialId'') now (\<lambda>i cookie.
       let kind = parse_kind (body ''kind''); qx = nullish (fst (body_key body)) zero_hash; qy = nullish (snd (body_key body)) zero_hash;
           eoa = nullish (str (body ''eoa'')) zero_address; authorization = str (body ''authorization''); pay = str (body ''pay'') in
       if \<not> has_methods (methodCounts (si_db st) i) then refused_with st cookie 400 ''register_passkey_first''
       else if \<not> re_is_address (iv_env env) eoa then refused_with st cookie 500 ''error''
       else (let m = re_method_id (iv_env env) i (kindToNum kind) qx qy eoa;
                 index = (\<lambda>x. index_method x m i kind (str (body ''credentialId'')) (if kind = Mk_Eoa then None else Some qx)
                                (if kind = Mk_Eoa then None else Some qy) (if kind = Mk_Eoa then Some eoa else None) now cookie) in
             if pay = Some ''recorded''
             then (if identityMethodExistsOnChain env ch m then index (world st) else refused_with (world st) cookie 400 ''method_not_on_chain'')
             else if pay = Some ''pending'' then index st
             else if has_provider env \<and> authorization = None then refused_with st cookie 400 ''authorization_required''
             else (case authorization of
                     None \<Rightarrow> index st
                   | Some a \<Rightarrow>
                       (case addIdentityMethodOnChain env ch i (kindToNum kind) qx qy eoa a of
                          Inl _ \<Rightarrow> refused_with (world st) cookie 502 ''add_method_failed''
                        | Inr _ \<Rightarrow> index (world st)))))"

text \<open>The method a request names: by its id, by its credential or by its key.\<close>

definition named_method :: "recovery_db \<Rightarrow> string \<Rightarrow> json_body \<Rightarrow> identity_method option" where
  "named_method db i body =
     (let owned = listIdentityMethods db i;
          by_id = (case str (body ''methodId'') of None \<Rightarrow> None | Some k \<Rightarrow> find (\<lambda>m. lower (idm_id m) = lower k) owned);
          by_cred = (case Option.bind (str (body ''credentialId'')) (getIdentityMethodByCredentialId db) of
                       None \<Rightarrow> None | Some m \<Rightarrow> if idm_identity_id m = i then Some m else None);
          by_key = (case body_key body of
                      (Some qx, Some qy) \<Rightarrow>
                        find (\<lambda>m. truthy (idm_qx m) \<and> truthy (idm_qy m) \<and> lower (the (idm_qx m)) = lower qx \<and> lower (the (idm_qy m)) = lower qy) owned
                    | _ \<Rightarrow> None) in
      coalesce by_id (coalesce by_cred by_key))"

definition text_has :: "string \<Rightarrow> string \<Rightarrow> bool" where
  "text_has s p = text_includes (lower s) (lower p)"

definition removeMethodRoute ::
    "identity_env \<Rightarrow> store_answers \<Rightarrow> sign_in_state \<Rightarrow> (sign_in_state \<Rightarrow> sign_in_state) \<Rightarrow> string option \<Rightarrow> json_body \<Rightarrow> timestamp \<Rightarrow>
     string sign_in_reply" where
  "removeMethodRoute env ch st world cookies body now =
     (case requireSession env cookies now of
        Inl e \<Rightarrow> (Inl e, None, st)
      | Inr s \<Rightarrow>
          (case named_method (si_db st) (ses_identity_id s) body of
             None \<Rightarrow> refused st 404 ''method_not_found''
           | Some m \<Rightarrow>
               (let delete = (\<lambda>x. (Inr (idm_id m), None, x\<lparr>si_db := snd (deleteIdentityMethod (si_db x) (idm_id m) now)\<rparr>)) in
                if filter (\<lambda>n. idm_id n \<noteq> idm_id m) (listIdentityMethods (si_db st) (ses_identity_id s)) = []
                then refused st 400 ''last_method''
                else if \<not> has_provider env then delete st
                else (let st1 = world st in
                      if \<not> identityMethodExistsOnChain env ch (idm_id m) then delete st1
                      else (case str (body ''authorization'') of
                              None \<Rightarrow> refused st1 400 ''authorization_required''
                            | Some a \<Rightarrow>
                                (case removeIdentityMethodOnChain env ch (ses_identity_id s) (idm_id m) a of
                                   Inr True \<Rightarrow> delete st1
                                 | Inr False \<Rightarrow> refused st1 400 ''remove_need_funds''
                                 | Inl e \<Rightarrow>
                                     if text_has e ''LastMethod'' then refused st1 400 ''last_method''
                                     else if text_has e ''InvalidSignature'' \<or> text_has e ''0x8baa579f''
                                     then refused st1 400 ''invalid_signature''
                                     else refused st1 502 ''remove_method_failed''))))))"

definition restoreMethodRoute ::
    "identity_env \<Rightarrow> store_answers \<Rightarrow> sign_in_state \<Rightarrow> string option \<Rightarrow> json_body \<Rightarrow> timestamp \<Rightarrow> identity_method option sign_in_reply" where
  "restoreMethodRoute env ch st cookies body now =
     (case requireSession env cookies now of
        Inl e \<Rightarrow> (Inl e, None, st)
      | Inr s \<Rightarrow>
          (case body_key body of
             (Some qx, Some qy) \<Rightarrow>
               (let kind = parse_kind (body ''kind''); i = ses_identity_id s in
                case restoreIdentityMethodOnChain env ch i (kindToNum kind) qx qy of
                  Inl _ \<Rightarrow> refused st 502 ''restore_failed''
                | Inr _ \<Rightarrow>
                    index_method st (re_method_id (iv_env env) i (kindToNum kind) qx qy zero_address) i kind (str (body ''credentialId''))
                      (Some qx) (Some qy) None now None)
           | _ \<Rightarrow> refused st 400 ''qx_qy_required''))"

end
