(* ===== verification/IdentityRouteProps.thy ===== *)
theory IdentityRouteProps
  imports IdentityRoutes
begin

text \<open>
  What the sign-in routes guarantee: the wallets of an identity are those derived from it, a method is
  removed only while another is left, a Google account leads to one identity. And what they do not: a
  security key is asked for no proof.
\<close>

section \<open>The wallets of an identity\<close>

type_synonym account_key = "address \<times> string \<times> string option"

definition account_keys :: "'z wallet_db_scheme \<Rightarrow> account_key list" where
  "account_keys db = map (\<lambda>a. (wac_address a, wac_salt a, wac_identity_id a)) (wallet_accounts db)"

definition keys_of :: "string \<Rightarrow> account_key list \<Rightarrow> account_key list" where
  "keys_of i ks = filter (\<lambda>k. snd (snd k) = Some i) ks"

text \<open>Address and salt of the wallet with a given number.\<close>

definition identity_wallet :: "identity_env \<Rightarrow> string \<Rightarrow> nat \<Rightarrow> (address \<times> string) option" where
  "identity_wallet env i n =
     (case (first_config (iv_factory env) (iv_wallet_factory env), first_config (iv_impl env) (iv_wallet_impl env)) of
        (Some f, Some m) \<Rightarrow> map_option (\<lambda>a. (lower a, iv_salt env i n)) (iv_predict env f m (iv_salt env i n))
      | _ \<Rightarrow> None)"

definition claim_address :: "address \<Rightarrow> string \<Rightarrow> string \<Rightarrow> account_key list \<Rightarrow> account_key list" where
  "claim_address a s i ks = upsert fst (a, s, Some i) (\<lambda>k. (fst k, fst (snd k), if i = '''' then snd (snd k) else Some i)) ks"

lemma upsert_keys:
  assumes "ai_identity_id x = Some i"
  shows "account_keys (snd (upsertWalletAccount db x now)) = claim_address (lower (ai_address x)) (ai_salt x) i (account_keys db)"
proof -
  have f: "find_by fst a (map (\<lambda>a. (wac_address a, wac_salt a, wac_identity_id a)) t) =
      map_option (\<lambda>a. (wac_address a, wac_salt a, wac_identity_id a)) (find_by wac_address a t)" for a t
    by (induction t) simp_all
  have w: "wallet_accounts (fold (\<lambda>ev d. walletPersist d ev now) es d) = wallet_accounts d" for es and d :: "'a wallet_db_scheme"
    by (induction es arbitrary: d) simp_all
  show ?thesis
    using assms
    by (simp add: upsertWalletAccount_def account_keys_def claim_address_def upsert_def Let_def f w null_or_empty_def
        coalesce_def update_where_def o_def if_distrib [of fst] cong: if_cong)
qed

inductive keys_step :: "identity_env \<Rightarrow> account_key list \<Rightarrow> account_key list \<Rightarrow> bool" for env where
  created: "identity_wallet env i (length (keys_of i ks)) = Some (a, s) \<Longrightarrow> keys_step env ks (claim_address a s i ks)"
| repeated: "(a, s, Some i) \<in> set ks \<Longrightarrow> keys_step env ks (claim_address a s i ks)"

abbreviation keys_steps :: "identity_env \<Rightarrow> account_key list \<Rightarrow> account_key list \<Rightarrow> bool" where
  "keys_steps env \<equiv> (keys_step env)\<^sup>*\<^sup>*"

abbreviation st_keys :: "sign_in_state \<Rightarrow> account_key list" where
  "st_keys st \<equiv> account_keys (si_db st)"

definition derived :: "identity_env \<Rightarrow> account_key list \<Rightarrow> bool" where
  "derived env ks \<longleftrightarrow> distinct (map fst ks) \<and>
     (\<forall>k \<in> set ks. \<exists>i n. snd (snd k) = Some i \<and> n < length (keys_of i ks) \<and> identity_wallet env i n = Some (fst k, fst (snd k)))"

text \<open>Different numbers and identities give different addresses.\<close>

definition wallets_differ :: "identity_env \<Rightarrow> bool" where
  "wallets_differ env \<longleftrightarrow>
     (\<forall>i j m n a s t. identity_wallet env i m = Some (a, s) \<longrightarrow> identity_wallet env j n = Some (a, t) \<longrightarrow> i = j \<and> m = n)"

lemma claim_new: "a \<notin> fst ` set ks \<Longrightarrow> claim_address a s i ks = ks @ [(a, s, Some i)]"
  by (auto simp: claim_address_def upsert_def find_by_None_iff split: option.split dest: find_by_SomeD)

lemma claim_again:
  assumes "distinct (map fst ks)" and "(a, s, Some i) \<in> set ks"
  shows "claim_address a s i ks = ks"
proof -
  have "find_by fst a ks \<noteq> None" unfolding find_by_None_iff using assms(2) fst_conv [of a "(s, Some i)"] by blast
  moreover have "update_where (\<lambda>k. fst k = a) (\<lambda>k. (fst k, fst (snd k), if i = '''' then snd (snd k) else Some i)) ks = ks"
    unfolding update_where_def
  proof (rule map_idI)
    fix k assume "k \<in> set ks"
    with assms have "fst k = a \<longrightarrow> k = (a, s, Some i)" by (metis eq_key_imp_eq_value prod.collapse)
    then show "(if fst k = a then (fst k, fst (snd k), if i = '''' then snd (snd k) else Some i) else k) = k" by auto
  qed
  ultimately show ?thesis by (auto simp: claim_address_def upsert_def)
qed

lemma derived_step:
  assumes "wallets_differ env" and "keys_step env ks ks'" and "derived env ks"
  shows "derived env ks'"
  using assms(2)
proof cases
  case (created i a s)
  have "a \<notin> fst ` set ks"
  proof
    assume "a \<in> fst ` set ks"
    then obtain k where k: "k \<in> set ks" "fst k = a" by auto
    with assms(3) obtain j n where j: "n < length (keys_of j ks)" "identity_wallet env j n = Some (a, fst (snd k))"
      unfolding derived_def by metis
    with created(2) assms(1) have "i = j" "length (keys_of i ks) = n" unfolding wallets_differ_def by blast+
    with j(1) show False by simp
  qed
  then have ks': "ks' = ks @ [(a, s, Some i)]" using created(1) claim_new by simp
  have more: "length (keys_of j ks) \<le> length (keys_of j ks')" for j by (simp add: ks' keys_of_def)
  have last: "length (keys_of i ks) < length (keys_of i ks')" by (simp add: ks' keys_of_def)
  have "\<exists>i n. snd (snd k) = Some i \<and> n < length (keys_of i ks') \<and> identity_wallet env i n = Some (fst k, fst (snd k))"
    if "k \<in> set ks'" for k
  proof (cases "k \<in> set ks")
    case True
    with assms(3) show ?thesis unfolding derived_def using more less_le_trans by blast
  next
    case False
    with that have "k = (a, s, Some i)" by (simp add: ks')
    with created(2) last show ?thesis by auto
  qed
  moreover have "distinct (map fst ks')" using assms(3) \<open>a \<notin> fst ` set ks\<close> by (auto simp: derived_def ks')
  ultimately show ?thesis unfolding derived_def by blast
next
  case (repeated a s i)
  with assms(3) show ?thesis by (simp add: claim_again derived_def)
qed

lemma derived_steps: "keys_steps env ks ks' \<Longrightarrow> wallets_differ env \<Longrightarrow> derived env ks \<Longrightarrow> derived env ks'"
  by (induction rule: rtranclp_induct) (simp_all add: derived_step)

lemma derived_exactly:
  assumes "derived env ks"
  shows "(\<lambda>k. (fst k, fst (snd k))) ` set (keys_of i ks) = {p. \<exists>n < length (keys_of i ks). identity_wallet env i n = Some p}"
    (is "?A = ?B")
proof (rule card_seteq)
  let ?n = "length (keys_of i ks)"
  have image: "?B = the ` (identity_wallet env i ` {..<?n} - {None})" by force
  have "card ?B \<le> card (identity_wallet env i ` {..<?n} - {None})" unfolding image by (rule card_image_le) simp
  also have "\<dots> \<le> card (identity_wallet env i ` {..<?n})" by (rule card_mono) auto
  also have "\<dots> \<le> ?n" using card_image_le [of "{..<?n}" "identity_wallet env i"] by simp
  finally have "card ?B \<le> ?n" .
  have "distinct (map fst (keys_of i ks))" using assms by (simp add: derived_def keys_of_def distinct_map_filter)
  then have "distinct (keys_of i ks)" "inj_on fst (set (keys_of i ks))" by (simp_all add: distinct_map)
  then have "inj_on (\<lambda>k. (fst k, fst (snd k))) (set (keys_of i ks))" by (auto simp: inj_on_def)
  then have "?n = card ?A" using \<open>distinct (keys_of i ks)\<close> by (simp add: card_image distinct_card)
  with \<open>card ?B \<le> ?n\<close> show "card ?B \<le> card ?A" by simp
  show "finite ?B" unfolding image by simp
  show "?A \<subseteq> ?B" using assms by (fastforce simp: derived_def keys_of_def)
qed

section \<open>The routes take these steps\<close>

lemma keys_kept [simp]:
  "account_keys (walletPersist db ev now) = account_keys db"
  "account_keys (snd (insertIdentityMethod db m i k c qx qy e now)) = account_keys db"
  "account_keys (snd (deleteIdentityMethod db m now)) = account_keys db"
  "account_keys (setIdentityGoogleSub db i s now) = account_keys db"
  "account_keys (snd (upsertWalletEmail db w mail v now)) = account_keys db"
  "account_keys (snd (upsertWalletEntity db w i l now)) = account_keys db"
  by (simp_all add: account_keys_def insertIdentityMethod_def deleteIdentityMethod_def setIdentityGoogleSub_def upsertWalletEmail_def
      upsertWalletEntity_def Let_def split: option.split)

lemma keys_label [simp]: "account_keys (snd (setWalletAccountLabel db a l now)) = account_keys db"
  by (simp add: account_keys_def setWalletAccountLabel_def on_account_def update_where_def Let_def)

lemma keys_upsert_identity [simp]: "account_keys (snd (upsertIdentity db i e s c now)) = account_keys db"
  by (auto simp: upsertIdentity_def Let_def account_keys_def split: option.split)

lemma keys_sign_in [simp]: "account_keys (snd (getOrCreateIdentityByEmail db i e s now)) = account_keys db"
  by (auto simp: getOrCreateIdentityByEmail_def Let_def split: option.split)

lemma keys_otp [simp]:
  "account_keys (snd (create_otp env db i w e p c now)) = account_keys db" "account_keys (snd (consume_otp env db w e p c now)) = account_keys db"
  by (simp_all add: create_otp_def consume_otp_def account_keys_def split_beta)

lemma count_keys: "length (listWalletAccountsByIdentityId db i) = length (keys_of i (account_keys db))"
  by (simp add: listWalletAccountsByIdentityId_def keys_of_def account_keys_def filter_map o_def order_asc_def)

lemma wallet_input_simps [simp]:
  "ai_identity_id (wallet_input env i qx qy cred label n a) = Some i"
  "ai_address (wallet_input env i qx qy cred label n a) = a"
  "ai_salt (wallet_input env i qx qy cred label n a) = iv_salt env i n"
  by (simp_all add: wallet_input_def)

lemma create_wallet_steps: "keys_steps env (account_keys db) (account_keys (snd (createWalletForIdentity env db i qx qy cred label now)))"
proof (cases "identity_wallet env i (length (keys_of i (account_keys db)))")
  case None
  then show ?thesis
    by (auto simp: createWalletForIdentity_def identity_wallet_def Let_def count_keys split: option.split)
next
  case (Some p)
  obtain a s where p: "p = (a, s)" by fastforce
  then have "keys_step env (account_keys db) (claim_address a s i (account_keys db))" using Some keys_step.created by blast
  moreover have "account_keys (snd (createWalletForIdentity env db i qx qy cred label now)) = claim_address a s i (account_keys db)"
    using Some p by (auto simp: createWalletForIdentity_def identity_wallet_def Let_def count_keys upsert_keys split_beta split: option.splits)
  ultimately show ?thesis by auto
qed

lemma created_account:
  assumes "createWalletForIdentity env db i qx qy cred label now = (Inr (Some a), db')" and "i \<noteq> ''''"
  shows "(lower (wac_address a), wac_salt a, Some i) \<in> set (account_keys db')"
proof -
  from assms(1) obtain n c where "fst (upsertWalletAccount db (wallet_input env i qx qy cred label n c) now) = Some a"
    "account_keys db' = account_keys (snd (upsertWalletAccount db (wallet_input env i qx qy cred label n c) now))"
    by (auto simp: createWalletForIdentity_def failed_def Let_def split_beta split: option.splits if_splits)
  then obtain x where x: "ai_identity_id x = Some i" "fst (upsertWalletAccount db x now) = Some a"
    "account_keys db' = account_keys (snd (upsertWalletAccount db x now))" by (meson wallet_input_simps(1))
  let ?db = "snd (upsertWalletAccount db x now)"
  have row: "getWalletAccount ?db (lower (ai_address x)) = Some a" using x(2) by (simp add: upsertWalletAccount_def Let_def)
  then have a: "a \<in> set (wallet_accounts ?db)" "wac_address a = lower (ai_address x)"
    by (auto simp: getWalletAccount_def dest: find_by_SomeD)
  then have "(wac_address a, wac_salt a, wac_identity_id a) \<in> set (account_keys ?db)" "lower (wac_address a) = wac_address a"
    by (simp_all add: account_keys_def image_iff) (metis a)
  moreover have "wac_identity_id a = Some i"
  proof -
    have "(c, t, j) \<in> set (claim_address c s i ks) \<Longrightarrow> j = Some i" for c t j s and ks :: "account_key list"
      using assms(2) by (auto simp: claim_address_def upsert_def update_where_def find_by_None_iff split: if_splits option.splits)
    then show ?thesis using calculation(1) upsert_keys [OF x(1)] a(2) by metis
  qed
  ultimately show ?thesis using x(3) by simp
qed

lemma first_wallet_steps:
  assumes "idn_identity_id i \<noteq> ''''"
  shows "keys_steps env (st_keys st) (st_keys (snd (first_wallet env st i qx qy cred attestation now)))"
proof -
  let ?c = "createWalletForIdentity env (si_db st) (idn_identity_id i) qx qy (Some cred) None now"
  have one: "keys_steps env (st_keys st) (account_keys (snd ?c))" by (rule create_wallet_steps)
  have two: "keys_steps env (account_keys db') (account_keys (snd (upsertWalletAccount db' x now)))"
    if "?c = (Inr (Some a), db')" "ai_identity_id x = Some (idn_identity_id i)" "ai_address x = wac_address a" "ai_salt x = wac_salt a"
    for a db' x
    using created_account [OF that(1) assms] keys_step.repeated [of "lower (wac_address a)" "wac_salt a" "idn_identity_id i" _ env]
    by (simp add: upsert_keys [OF that(2)] that(3,4) r_into_rtranclp)
  show ?thesis
  proof (cases ?c)
    case (Pair r db')
    with one have db': "keys_steps env (st_keys st) (account_keys db')" by simp
    consider e where "r = Inl e" | "r = Inr None" | a where "r = Inr (Some a)" by (cases r) auto
    then show ?thesis
    proof cases
      case (3 a)
      then show ?thesis using Pair db' rtranclp_trans [OF db' two] by (auto simp: first_wallet_def Let_def)
    qed (use Pair db' in \<open>auto simp: first_wallet_def Let_def\<close>)
  qed
qed

lemma session_named: "requireSession env cookies now = Inr s \<Longrightarrow> ses_identity_id s \<noteq> ''''"
  by (auto simp: requireSession_def readIdentitySessionFromRequest_def verifyIdentitySession_def failed_def truthy_def
      split: option.splits if_splits)

abbreviation end_keys :: "'a sign_in_reply \<Rightarrow> account_key list" where
  "end_keys r \<equiv> st_keys (snd (snd r))"

lemma end_keys_simps [simp]:
  "end_keys (refused st n e) = st_keys st" "end_keys (refused_with st c n e) = st_keys st"
  "end_keys (index_method st m i kind cred qx qy eoa now c) = st_keys st"
  by (simp_all add: refused_def refused_with_def index_method_def split_beta)

lemma register_steps:
  assumes "\<And>x. keys_steps env (st_keys x) (st_keys (world x))"
  shows "keys_steps env (st_keys st) (end_keys (passkeyRegisterRoute env ch st world cookies body attestation now))"
proof (cases "requireSession env cookies now")
  case (Inl e)
  then show ?thesis by (simp add: passkeyRegisterRoute_def)
next
  case (Inr s)
  show ?thesis
  proof (cases "\<exists>qx qy cred i. body_key body = (Some qx, Some qy) \<and> str (body ''credentialId'') = Some cred \<and>
      \<not> mc_webauthn (methodCounts (si_db st) (ses_identity_id s)) > 0 \<and> getIdentityById (si_db st) (ses_identity_id s) = Some i")
    case False
    with Inr show ?thesis
      by (auto simp: passkeyRegisterRoute_def split: option.split prod.split)
  next
    case True
    then obtain qx qy cred i where k: "body_key body = (Some qx, Some qy)" "str (body ''credentialId'') = Some cred"
      "\<not> mc_webauthn (methodCounts (si_db st) (ses_identity_id s)) > 0" "getIdentityById (si_db st) (ses_identity_id s) = Some i" by blast
    then have "idn_identity_id i \<noteq> ''''" using session_named [OF Inr] by (auto simp: getIdentityById_def dest: find_by_SomeD)
    note first = first_wallet_steps [OF this]
    let ?m = "re_method_id (iv_env env) (idn_identity_id i) METHOD_WEBAUTHN qx qy zero_address"
    let ?st1 = "st\<lparr>si_db := snd (insertIdentityMethod (si_db st) ?m (idn_identity_id i) Mk_Webauthn (Some cred) (Some qx) (Some qy) None now)\<rparr>"
    have w: "keys_steps env (st_keys st) (st_keys (world ?st1))" using assms [of ?st1] by simp
    have f: "keys_steps env (st_keys st) (st_keys (snd (first_wallet env (world ?st1) i qx qy cred attestation now)))"
      using w first rtranclp_trans by fast
    show ?thesis
      using Inr k w f by (auto simp: passkeyRegisterRoute_def Let_def split_beta split: sum.split prod.split)
  qed
qed

text \<open>The other routes leave the accounts as they are, or as they are after a wait.\<close>

lemma kept_pairs:
  "consume_otp e db w m p c now = (b, db') \<Longrightarrow> account_keys db' = account_keys db"
  "create_otp e db i w m p c now = (b, db') \<Longrightarrow> account_keys db' = account_keys db"
  "getOrCreateIdentityByEmail db i m s now = (r, db') \<Longrightarrow> account_keys db' = account_keys db"
  "setWalletAccountLabel db i m now = (x, db') \<Longrightarrow> account_keys db' = account_keys db"
  using keys_otp keys_sign_in keys_label by (metis snd_conv)+

lemma quiet_routes [simp]:
  "end_keys (emailStartRoute env st body otp code now) = st_keys st"
  "end_keys (emailVerifyRoute env st body new_id now) = st_keys st"
  "end_keys (restoreMethodRoute env ch st cookies body now) = st_keys st"
  "end_keys (renameWalletRoute env st cookies body now) = st_keys st"
proof -
  show "end_keys (emailStartRoute env st body otp code now) = st_keys st"
    by (auto simp: emailStartRoute_def Let_def kept_pairs split: option.split prod.split)
  show "end_keys (emailVerifyRoute env st body new_id now) = st_keys st"
    by (auto simp: emailVerifyRoute_def kept_pairs split: option.split prod.split bool.split sum.split)
  show "end_keys (restoreMethodRoute env ch st cookies body now) = st_keys st"
    by (auto simp: restoreMethodRoute_def Let_def split: option.split prod.split sum.split)
  show "end_keys (renameWalletRoute env st cookies body now) = st_keys st"
    by (auto simp: renameWalletRoute_def with_identity_def kept_pairs split: option.split prod.split)
qed

lemma quiet_google [simp]: "end_keys (googleCallbackRoute env st cookies code state new_id now) = st_keys st"
proof -
  have "account_keys (snd (google_identity db c new_id now)) = account_keys db" for db c
    by (auto simp: google_identity_def Let_def kept_pairs split: option.split prod.split sum.split)
  then have "google_identity db c new_id now = (r, db') \<Longrightarrow> account_keys db' = account_keys db" for db c r db' by (metis snd_conv)
  then show ?thesis by (auto simp: googleCallbackRoute_def Let_def split: sum.split prod.split)
qed

definition kept_by :: "(sign_in_state \<Rightarrow> sign_in_state) \<Rightarrow> sign_in_state \<Rightarrow> 'a sign_in_reply \<Rightarrow> bool" where
  "kept_by world st r \<longleftrightarrow> end_keys r = st_keys st \<or> (\<exists>x. st_keys x = st_keys st \<and> end_keys r = st_keys (world x))"

lemma kept_steps:
  assumes "kept_by world st r" and "\<And>x. keys_steps env (st_keys x) (st_keys (world x))"
  shows "keys_steps env (st_keys st) (end_keys r)"
  using assms unfolding kept_by_def by (metis rtranclp.rtrancl_refl)

lemma challenge_kept: "consumeRecoverChallenge st ip c now = (b, st') \<Longrightarrow> st_keys st' = st_keys st"
  by (auto simp: consumeRecoverChallenge_def Let_def split: if_splits option.splits)

lemma proving_kept: "proving_method env st kind body ip now = (r, st') \<Longrightarrow> st_keys st' = st_keys st"
  by (auto simp: proving_method_def Let_def challenge_kept split: recover_kind.splits option.splits if_splits prod.splits bool.splits)

lemma proving_keys: "st_keys (snd (proving_method env st kind body ip now)) = st_keys st"
  using proving_kept by (metis prod.collapse)

lemma kept_intros:
  assumes "st_keys x = st_keys st"
  shows "kept_by world st (refused x n e)" "kept_by world st (refused_with x c n e)" "kept_by world st (refused (world x) n e)"
    "kept_by world st (refused_with (world x) c n e)" "kept_by world st (index_method x m i kind cred qx qy eoa now c)"
    "kept_by world st (index_method (world x) m i kind cred qx qy eoa now c)" "kept_by world st (r, c, x)" "kept_by world st (r, c, world x)"
    "account_keys db = st_keys (world x) \<Longrightarrow> kept_by world st (r, c, y\<lparr>si_db := db\<rparr>)"
    "account_keys db = st_keys st \<Longrightarrow> kept_by world st (r, c, y\<lparr>si_db := db\<rparr>)"
  using assms by (auto simp: kept_by_def)

lemma waiting_routes:
  "kept_by world st (recoverProveRoute env st world body ip now)"
  "kept_by world st (joinWalletRoute env ch st world cookies body now)"
  "kept_by world st (removeMethodRoute env ch st world cookies body now)"
  "kept_by world st (recoverAddMethodRoute env ch st world cookies body now)"
  "kept_by world st (addMethodRoute env ch st world cookies body now)"
  unfolding recoverProveRoute_def joinWalletRoute_def removeMethodRoute_def recoverAddMethodRoute_def addMethodRoute_def with_identity_def Let_def
  by (auto simp: kept_intros proving_keys split_beta split: option.split prod.split sum.split bool.split intro!: kept_intros)

lemma create_wallet_route_steps: "keys_steps env (st_keys st) (end_keys (createWalletRoute env st cookies body now))"
proof -
  have c: "keys_steps env (account_keys db) (account_keys db')" if "createWalletForIdentity env db i qx qy cred label now = (r, db')"
    for db i qx qy cred label r db'
    using create_wallet_steps [of env db i qx qy cred label now] that by simp
  show ?thesis
    by (auto simp: createWalletRoute_def with_identity_def c split: option.split prod.split)
qed

text \<open>Requests in any order; what happens during the wait of a request is again such traffic.\<close>

inductive sign_in_traffic :: "identity_env \<Rightarrow> sign_in_state \<Rightarrow> sign_in_state \<Rightarrow> bool" for env where
  idle: "sign_in_traffic env st st"
| start: "sign_in_traffic env st0 st \<Longrightarrow> sign_in_traffic env st0 (snd (snd (emailStartRoute env st body otp code now)))"
| verify: "sign_in_traffic env st0 st \<Longrightarrow> sign_in_traffic env st0 (snd (snd (emailVerifyRoute env st body new_id now)))"
| google: "sign_in_traffic env st0 st \<Longrightarrow>
    sign_in_traffic env st0 (snd (snd (googleCallbackRoute env st cookies code state new_id now)))"
| register: "sign_in_traffic env st0 st \<Longrightarrow> (\<And>x. sign_in_traffic env x (world x)) \<Longrightarrow>
    sign_in_traffic env st0 (snd (snd (passkeyRegisterRoute env ch st world cookies body attestation now)))"
| create: "sign_in_traffic env st0 st \<Longrightarrow> sign_in_traffic env st0 (snd (snd (createWalletRoute env st cookies body now)))"
| rename: "sign_in_traffic env st0 st \<Longrightarrow> sign_in_traffic env st0 (snd (snd (renameWalletRoute env st cookies body now)))"
| join: "sign_in_traffic env st0 st \<Longrightarrow> (\<And>x. sign_in_traffic env x (world x)) \<Longrightarrow>
    sign_in_traffic env st0 (snd (snd (joinWalletRoute env ch st world cookies body now)))"
| prove: "sign_in_traffic env st0 st \<Longrightarrow> (\<And>x. sign_in_traffic env x (world x)) \<Longrightarrow>
    sign_in_traffic env st0 (snd (snd (recoverProveRoute env st world body ip now)))"
| recover: "sign_in_traffic env st0 st \<Longrightarrow> (\<And>x. sign_in_traffic env x (world x)) \<Longrightarrow>
    sign_in_traffic env st0 (snd (snd (recoverAddMethodRoute env ch st world cookies body now)))"
| add: "sign_in_traffic env st0 st \<Longrightarrow> (\<And>x. sign_in_traffic env x (world x)) \<Longrightarrow>
    sign_in_traffic env st0 (snd (snd (addMethodRoute env ch st world cookies body now)))"
| remove: "sign_in_traffic env st0 st \<Longrightarrow> (\<And>x. sign_in_traffic env x (world x)) \<Longrightarrow>
    sign_in_traffic env st0 (snd (snd (removeMethodRoute env ch st world cookies body now)))"
| restore: "sign_in_traffic env st0 st \<Longrightarrow> sign_in_traffic env st0 (snd (snd (restoreMethodRoute env ch st cookies body now)))"
| challenge: "sign_in_traffic env st0 st \<Longrightarrow> sign_in_traffic env st0 (snd (issueRecoverChallenge st ip c now))"
| elsewhere: "sign_in_traffic env st0 st \<Longrightarrow> st_keys st' = st_keys st \<Longrightarrow> sign_in_traffic env st0 st'"

lemma traffic_steps: "sign_in_traffic env st0 st \<Longrightarrow> keys_steps env (st_keys st0) (st_keys st)"
proof (induction rule: sign_in_traffic.induct)
  case (register st0 st world ch cookies body attestation now)
  then show ?case using register_steps by (meson rtranclp_trans)
next
  case (create st0 st cookies body now)
  then show ?case using create_wallet_route_steps by (meson rtranclp_trans)
next
  case (join st0 st world ch cookies body now)
  then show ?case using kept_steps [OF waiting_routes(2)] by (meson rtranclp_trans)
next
  case (prove st0 st world body ip now)
  then show ?case using kept_steps [OF waiting_routes(1)] by (meson rtranclp_trans)
next
  case (recover st0 st world ch cookies body now)
  then show ?case using kept_steps [OF waiting_routes(4)] by (meson rtranclp_trans)
next
  case (add st0 st world ch cookies body now)
  then show ?case using kept_steps [OF waiting_routes(5)] by (meson rtranclp_trans)
next
  case (remove st0 st world ch cookies body now)
  then show ?case using kept_steps [OF waiting_routes(3)] by (meson rtranclp_trans)
qed (simp_all add: issueRecoverChallenge_def)


section \<open>What proves a caller\<close>

lemma keep_newD: "k \<in> set (keep_new out cs) \<Longrightarrow> k \<in> set out \<or> (\<exists>c. Some c \<in> set cs \<and> k = trim c \<and> k \<noteq> '''')"
  by (induction out cs rule: keep_new.induct) (auto simp: Let_def split: option.splits if_splits)

lemma first_hitD: "first_hit f xs = Some r \<Longrightarrow> \<exists>i \<in> set xs. f i = Some r"
  by (induction xs) (auto split: option.splits)

lemma find_mem: "find P xs = Some x \<Longrightarrow> x \<in> set xs \<and> P x"
  by (auto simp: find_Some_iff)

lemma credential_method:
  assumes "getIdentityMethodByCredentialId db c = Some m"
  shows "m \<in> set (identity_methods db)"
  using assms by (auto simp: getIdentityMethodByCredentialId_def split: option.splits dest!: first_hitD find_by_SomeD find_mem)

lemma listed_key_found:
  assumes "m \<in> set (identity_methods db)" and "idm_credential_id m = Some c" and "trim c \<noteq> ''''"
  shows "\<exists>m' \<in> set (identity_methods db). getIdentityMethodByCredentialId db (trim c) = Some m'"
proof (cases "first_hit (\<lambda>i. find_by idm_credential_id (Some i) (identity_methods db)) (credentialIdLookupVariants (trim c))")
  case None
  have "c \<noteq> ''''" using assms(3) by (auto simp: trim_def)
  then have "credentialIdsMatch (idm_credential_id m) (Some (trim c))" "truthy (idm_credential_id m)"
    using assms(2,3) by (simp_all add: credentialIdsMatch_def)
  then have "find (\<lambda>m. credentialIdsMatch (idm_credential_id m) (Some (trim c))) (filter (\<lambda>m. truthy (idm_credential_id m)) (identity_methods db)) \<noteq> None"
    using assms(1) by (auto simp: find_None_iff)
  then show ?thesis using None credential_method [of db "trim c"] by (auto simp: getIdentityMethodByCredentialId_def)
next
  case (Some x)
  then show ?thesis using credential_method [of db "trim c"] by (auto simp: getIdentityMethodByCredentialId_def)
qed

text \<open>
  C34. A stranger signs in. The route that lists the credentials of all security keys asks for nothing,
  and the login route asks for a credential only: every listed key earns whoever posts it the
  login cookie of the identity it belongs to, without a signature.
\<close>

theorem stranger_signs_in:
  assumes "k \<in> set (securityKeysRoute st)"
    and "\<forall>m \<in> set (identity_methods (si_db st)). getIdentityById (si_db st) (idm_identity_id m) \<noteq> None"
  shows "\<exists>i m ws. passkeyLoginRoute env st [''credentialId'' \<mapsto> k] now = (Inr (i, m, ws), Some (issueSessionCookie env i now), st) \<and>
    getIdentityMethodByCredentialId (si_db st) k = Some m \<and> m \<in> set (identity_methods (si_db st)) \<and> idn_identity_id i = idm_identity_id m"
proof -
  from assms(1) obtain m c where c: "m \<in> set (identity_methods (si_db st))" "Some c = idm_credential_id m" "k = trim c" "k \<noteq> ''''"
    by (auto simp: securityKeysRoute_def listYubikeyCredentialIds_def order_desc_def dest!: keep_newD in_set_takeD)
  with listed_key_found [of m "si_db st" c] obtain m'
    where m': "m' \<in> set (identity_methods (si_db st))" "getIdentityMethodByCredentialId (si_db st) k = Some m'" by auto
  with assms(2) obtain i where i: "getIdentityById (si_db st) (idm_identity_id m') = Some i" by auto
  have "str (Some k) = Some k" using c(3,4) by (simp add: str_def or_null_def)
  moreover have "idn_identity_id i = idm_identity_id m'" using i by (auto simp: getIdentityById_def dest: find_by_SomeD)
  ultimately show ?thesis using m' i by (simp add: passkeyLoginRoute_def normalizeQxQy_def Let_def)
qed

text \<open>
  C35. With an Ethereum key a recovery has to sign. The recovery cookie is set only for a challenge
  that this client was given at most five minutes ago and that is used up by it, signed with the
  key of a method of the identity.
\<close>

theorem recovery_needs_signature:
  assumes "recoverProveRoute env st world body ip now = (Inr (i, m, ws), Some cookie, st')" and "str (body ''kind'') = Some ''eoa''"
  shows "\<exists>challenge c until sig store signer st1.
    si_challenges st ip = Some (c, until) \<and> now \<le> until \<and> lower c = lower challenge \<and>
    iv_typed_signer env store (iv_chain_id env) challenge sig = Some signer \<and>
    getIdentityMethodByEoa (si_db st) signer = Some m \<and> getIdentityById (si_db st) (idm_identity_id m) = Some i \<and>
    si_challenges st1 ip = None \<and> si_db st1 = si_db st \<and> st' = world st1"
proof -
  from assms obtain st1 where p: "proving_method env st Rk_Eoa body ip now = (Inr m, st1)" "getIdentityById (si_db st1) (idm_identity_id m) = Some i"
    "st' = world st1"
    by (auto simp: recoverProveRoute_def refused_def failed_def Let_def split: option.splits prod.splits sum.splits if_splits)
  from p(1) obtain challenge sig signer where s: "consumeRecoverChallenge st ip (Some challenge) now = (True, st1)"
    "iv_typed_signer env (the (coalesce (iv_store env) (iv_wallet_store env))) (iv_chain_id env) challenge sig = Some signer"
    "getIdentityMethodByEoa (si_db st1) signer = Some m" "str (body ''challenge'') = Some challenge"
    by (auto simp: proving_method_def failed_def Let_def split: option.splits prod.splits bool.splits if_splits)
  have "trim challenge = challenge" using s(4) by (auto simp: str_def or_null_def split: option.splits if_splits)
  with s(1) obtain c until where "si_challenges st ip = Some (c, until)" "now \<le> until" "lower c = lower challenge"
    "st1 = st\<lparr>si_challenges := (si_challenges st)(ip := None)\<rparr>"
    by (auto simp: consumeRecoverChallenge_def Let_def split: if_splits option.splits)
  then have "si_challenges st1 ip = None" "si_db st1 = si_db st" by simp_all
  then show ?thesis using s(2,3) p(2,3) \<open>si_challenges st ip = Some (c, until)\<close> \<open>now \<le> until\<close> \<open>lower c = lower challenge\<close> by metis
qed

text \<open>
  A Google account leads to one identity. A successful callback came with the state this browser was
  given and a confirmed address, and signs in the identity of the account, else the one of the
  address, else a new one that is linked to the account.
\<close>

theorem google_sign_in:
  assumes "googleCallbackRoute env st cookies code state new_id now = (Inr i, cookie, st')"
    and "\<forall>r \<in> set (identities (si_db st)). idn_identity_id r \<noteq> new_id"
  shows "\<exists>token c. iv_exchange env (nullish code '''') = Inr token \<and> parseGoogleIdToken (re_tokens (iv_env env)) token = Inr c \<and>
    parseCookieHeader (re_tokens (iv_env env)) cookies GOOGLE_OAUTH_COOKIE_NAME = state \<and>
    verifyOAuthState (re_tokens (iv_env env)) (re_session_secret (iv_env env)) state now \<and>
    cookie = Some (issueSessionCookie env i now) \<and>
    (case getIdentityByGoogleSub (si_db st) (gc_sub c) of
       Some j \<Rightarrow> i = j
     | None \<Rightarrow> (case getIdentityByEmail (si_db st) (gc_email c) of
                 Some j \<Rightarrow> i = j
               | None \<Rightarrow> idn_identity_id i = new_id \<and> idn_email i = normalizeEmail (gc_email c) \<and> idn_google_sub i = Some (gc_sub c)))"
proof -
  from assms(1) obtain token c where t: "truthy code" "iv_exchange env (the code) = Inr token" "parseGoogleIdToken (re_tokens (iv_env env)) token = Inr c"
    "parseCookieHeader (re_tokens (iv_env env)) cookies GOOGLE_OAUTH_COOKIE_NAME = state"
    "verifyOAuthState (re_tokens (iv_env env)) (re_session_secret (iv_env env)) state now"
    "fst (google_identity (si_db st) c new_id now) = Inr i" "cookie = Some (issueSessionCookie env i now)"
    by (auto simp: googleCallbackRoute_def refused_def failed_def Let_def split: if_splits sum.splits prod.splits)
  have new: "getIdentityById (si_db st) new_id = None" using assms(2) by (simp add: getIdentityById_def find_by_None_iff)
  have up: "upsertIdentity (si_db st) new_id e (Some s) None now = (Inr j, db) \<Longrightarrow>
      idn_identity_id j = new_id \<and> idn_email j = normalizeEmail e \<and> idn_google_sub j = Some s" for e s j db
    using new by (auto simp: upsertIdentity_def Let_def getIdentityById_def find_by_upsert upsert_def find_by_append coalesce_def
        split: if_splits option.splits)
  have "case getIdentityByGoogleSub (si_db st) (gc_sub c) of
       Some j \<Rightarrow> i = j
     | None \<Rightarrow> (case getIdentityByEmail (si_db st) (gc_email c) of
                 Some j \<Rightarrow> i = j
               | None \<Rightarrow> idn_identity_id i = new_id \<and> idn_email i = normalizeEmail (gc_email c) \<and> idn_google_sub i = Some (gc_sub c))"
    using t(6) up
    by (auto simp: google_identity_def failed_def Let_def getOrCreateIdentityByEmail_def split: if_splits option.splits sum.splits prod.splits)
  with t show ?thesis by (cases code) auto
qed

section \<open>Removing methods\<close>

lemma coalesceD: "coalesce a b = Some x \<Longrightarrow> a = Some x \<or> b = Some x"
  by (cases a) (simp_all add: coalesce_def)

lemma named_owned:
  assumes "named_method db i body = Some m"
  shows "m \<in> set (identity_methods db) \<and> idm_identity_id m = i"
proof -
  have owned: "find P (listIdentityMethods db i) = Some x \<Longrightarrow> x \<in> set (identity_methods db) \<and> idm_identity_id x = i" for P x
    by (auto simp: listIdentityMethods_def order_asc_def dest: find_mem)
  consider k where "find (\<lambda>m. lower (idm_id m) = lower k) (listIdentityMethods db i) = Some m"
    | c where "getIdentityMethodByCredentialId db c = Some m" "idm_identity_id m = i"
    | P where "find P (listIdentityMethods db i) = Some m"
    using assms unfolding named_method_def Let_def
    by (elim coalesceD [THEN disjE]) (auto simp: bind_eq_Some_conv split: option.splits if_splits prod.splits)
  then show ?thesis by cases (auto dest: owned credential_method)
qed

lemma methods_left: "set (listIdentityMethods db i) = {m \<in> set (identity_methods db). idm_identity_id m = i}"
  by (auto simp: listIdentityMethods_def order_asc_def)

lemma deleted_rows:
  "set (identity_methods (snd (deleteIdentityMethod db k now))) = {m \<in> set (identity_methods db). idm_id m \<noteq> k}"
  by (auto simp: deleteIdentityMethod_def delete_where_def find_by_None_iff split: option.split)

text \<open>
  C36. The last method stays. When nothing else happens meanwhile, a removal takes away one method of
  the caller, nothing else, and leaves the identity another one.
\<close>

theorem last_method_kept:
  assumes "removeMethodRoute env ch st id cookies body now = (Inr k, cookie, st')"
  shows "\<exists>s m. requireSession env cookies now = Inr s \<and> m \<in> set (identity_methods (si_db st)) \<and>
    idm_identity_id m = ses_identity_id s \<and> idm_id m = k \<and>
    set (identity_methods (si_db st')) = {r \<in> set (identity_methods (si_db st)). idm_id r \<noteq> k} \<and>
    listIdentityMethods (si_db st') (ses_identity_id s) \<noteq> []"
proof -
  from assms obtain s where s: "requireSession env cookies now = Inr s"
    by (cases "requireSession env cookies now") (simp_all add: removeMethodRoute_def)
  with assms obtain m where m: "named_method (si_db st) (ses_identity_id s) body = Some m"
    by (cases "named_method (si_db st) (ses_identity_id s) body") (simp_all add: removeMethodRoute_def refused_def failed_def)
  with s assms have r: "idm_id m = k" "\<exists>n \<in> set (listIdentityMethods (si_db st) (ses_identity_id s)). idm_id n \<noteq> k"
    "si_db st' = snd (deleteIdentityMethod (si_db st) k now)"
    by (auto simp: removeMethodRoute_def refused_def failed_def Let_def filter_empty_conv
        split: sum.splits option.splits if_splits bool.splits)
  from r(2) obtain n where "n \<in> set (listIdentityMethods (si_db st) (ses_identity_id s))" "idm_id n \<noteq> k" by blast
  then have "n \<in> set (listIdentityMethods (si_db st') (ses_identity_id s))" by (simp add: methods_left deleted_rows r(3))
  then have "listIdentityMethods (si_db st') (ses_identity_id s) \<noteq> []" by auto
  moreover have "set (identity_methods (si_db st')) = {r \<in> set (identity_methods (si_db st)). idm_id r \<noteq> k}"
    by (simp add: r(3) deleted_rows)
  ultimately show ?thesis using s r(1) named_owned [OF m] by blast
qed

text \<open>
  Two removals that overlap take away both methods, because each looks at the table before it waits for
  the chain. Methods the node does not confirm need no authorization.
\<close>

lemma racing_removals:
  assumes "requireSession env cookies now = Inr s" and "has_provider env"
    and "named_method (si_db st) (ses_identity_id s) body = Some a" and "named_method (si_db st) (ses_identity_id s) body' = Some b"
    and "idm_id a \<noteq> idm_id b" and "set (listIdentityMethods (si_db st) (ses_identity_id s)) = {a, b}"
    and "sa_method ch (idm_id a) \<noteq> Some True" and "sa_method ch (idm_id b) \<noteq> Some True"
    and "other = (\<lambda>x. snd (snd (removeMethodRoute env ch x id cookies body' now)))"
  shows "listIdentityMethods (si_db (snd (snd (removeMethodRoute env ch st other cookies body now)))) (ses_identity_id s) = []"
proof -
  have off: "\<not> identityMethodExistsOnChain env ch (idm_id a)" "\<not> identityMethodExistsOnChain env ch (idm_id b)"
    using assms(2,7,8) by (auto simp: identityMethodExistsOnChain_def nullish_def split: option.split)
  have others: "filter (\<lambda>n. idm_id n \<noteq> idm_id a) (listIdentityMethods (si_db st) (ses_identity_id s)) \<noteq> []"
    "filter (\<lambda>n. idm_id n \<noteq> idm_id b) (listIdentityMethods (si_db st) (ses_identity_id s)) \<noteq> []"
    using assms(5,6) by (auto simp: filter_empty_conv)
  have first: "si_db (other st) = snd (deleteIdentityMethod (si_db st) (idm_id b) now)"
    unfolding assms(9) using assms(1,2,4) off(2) others(2) by (simp add: removeMethodRoute_def Let_def)
  have "si_db (snd (snd (removeMethodRoute env ch st other cookies body now))) = snd (deleteIdentityMethod (si_db (other st)) (idm_id a) now)"
    using assms(1-3) off(1) others(1) by (simp add: removeMethodRoute_def Let_def)
  then have "set (listIdentityMethods (si_db (snd (snd (removeMethodRoute env ch st other cookies body now)))) (ses_identity_id s)) =
      {m \<in> set (listIdentityMethods (si_db st) (ses_identity_id s)). idm_id m \<noteq> idm_id a \<and> idm_id m \<noteq> idm_id b}"
    by (auto simp: methods_left deleted_rows first)
  also have "\<dots> = {}" using assms(6) by auto
  finally show ?thesis by simp
qed

end
