(* ===== verification/IdentityDemo.thy ===== *)
theory IdentityDemo
  imports IdentityRouteProps RecoveryDemo
begin

text \<open>A small installation of the sign-in routes; the witnesses of their theorems run on it.\<close>

definition id_payload :: json_object where
  "id_payload =
     [(''identityId'', JStr ''i''), (''email'', JStr ''a@b''), (''exp'', JNum 1000), (''nonce'', JStr ''n''), (''sub'', JStr ''g''),
      (''email_verified'', JBool True)]"

definition id_env :: identity_env where
  "id_env =
     \<lparr>iv_env = demo_env\<lparr>re_tokens := demo_tokens id_payload, re_session_secret := ''s'', re_method_id := (\<lambda>_ _ _ _ _. ''m'')\<rparr>,
      iv_store = None, iv_wallet_store = Some ''st'', iv_rpc = None, iv_wallet_rpc = None, iv_deployer_key = None, iv_factory = Some ''f'',
      iv_wallet_factory = None, iv_impl = None, iv_wallet_impl = Some ''p'', iv_chain_id = 1, iv_restore_override = None,
      iv_google = True, iv_exchange = (\<lambda>_. Inr ''h.AQ.s''), iv_salt = (\<lambda>i n. if i = ''i'' \<and> n = 0 then ''first'' else ''''),
      iv_predict = (\<lambda>f p s. if s = ''first'' then Some ''0xW'' else None), iv_typed_signer = (\<lambda>_ _ m s. Some s)\<rparr>"

definition id_chain :: store_answers where
  "id_chain =
     \<lparr>sa_identity = (\<lambda>_. None), sa_exists = (\<lambda>_. None), sa_method = (\<lambda>_. None), sa_operator = None, sa_restore_delay = None,
      sa_send = (\<lambda>_. None), sa_super_signer = (\<lambda>_ _. None), sa_operator_signer = (\<lambda>_ _. None)\<rparr>"

definition id_cookies :: "string option" where
  "id_cookies = Some ''tc_google_oauth=AQ.Bw; tc_identity=AQ.Bw''"

definition id_key :: string where
  "id_key = ''0x'' @ replicate 64 (CHR ''1'')"

definition id_eoa :: string where
  "id_eoa = ''0x'' @ replicate 40 (CHR ''2'')"

definition id_method :: "string \<Rightarrow> method_kind \<Rightarrow> identity_method" where
  "id_method k kind =
     \<lparr>idm_id = k, idm_identity_id = ''i'', idm_kind = kind, idm_credential_id = Some k, idm_qx = None, idm_qy = None,
      idm_eoa = (if kind = Mk_Eoa then Some id_eoa else None), idm_created_at = 0\<rparr>"

definition id_identity :: identity where
  "id_identity = \<lparr>idn_identity_id = ''i'', idn_email = ''a@b'', idn_google_sub = None, idn_created_at = 0\<rparr>"

definition id_state :: "identity_method list \<Rightarrow> sign_in_state" where
  "id_state ms =
     \<lparr>si_db = demo_db0\<lparr>identities := [id_identity], identity_methods := ms, wallet_accounts := []\<rparr>, si_buckets = (\<lambda>_. None),
      si_challenges = (\<lambda>_. None)(''ip'' \<mapsto> (''c'', 500))\<rparr>"

lemmas id_defs = id_payload_def id_env_def id_state_def id_method_def id_identity_def demo_db0_def

lemma id_session: "requireSession id_env id_cookies 10 = Inr \<lparr>ses_identity_id = ''i'', ses_email = ''a@b'', ses_exp = 1000\<rparr>"
  by code_simp

section \<open>Wallets\<close>

definition id_registered :: sign_in_state where
  "id_registered = snd (snd (passkeyRegisterRoute id_env id_chain (id_state []) id id_cookies
     [''qx'' \<mapsto> id_key, ''qy'' \<mapsto> id_key, ''credentialId'' \<mapsto> ''k''] None 10))"

lemma id_wallet: "identity_wallet id_env i n = Some (a, s) \<Longrightarrow> i = ''i'' \<and> n = 0"
  by (auto simp: identity_wallet_def id_env_def first_config_def coalesce_def or_null_def split: if_splits)


lemma id_has_wallet: "map wac_address (listWalletAccountsByIdentityId (si_db id_registered) ''i'') = [''0xw'']"
  by code_simp

section \<open>Proofs of the caller\<close>

theorem stranger_signs_in_witness:
  "\<exists>i m ws. passkeyLoginRoute id_env (id_state [id_method ''k'' Mk_Yubikey]) [''credentialId'' \<mapsto> ''k''] 10 =
     (Inr (i, m, ws), Some (issueSessionCookie id_env i 10), id_state [id_method ''k'' Mk_Yubikey])"
proof -
  have "''k'' \<in> set (securityKeysRoute (id_state [id_method ''k'' Mk_Yubikey]))" by code_simp
  moreover have "\<forall>m \<in> set (identity_methods (si_db (id_state [id_method ''k'' Mk_Yubikey]))).
      getIdentityById (si_db (id_state [id_method ''k'' Mk_Yubikey])) (idm_identity_id m) \<noteq> None"
    by (simp add: id_state_def id_method_def id_identity_def getIdentityById_def)
  ultimately show ?thesis using stranger_signs_in [of "''k''" "id_state [id_method ''k'' Mk_Yubikey]" id_env 10] by blast
qed

definition id_proof :: json_body where
  "id_proof = [''kind'' \<mapsto> ''eoa'', ''challenge'' \<mapsto> ''c'', ''signature'' \<mapsto> id_eoa, ''eoa'' \<mapsto> id_eoa]"

theorem recovery_needs_signature_witness:
  "\<exists>c until. si_challenges (id_state [id_method ''e'' Mk_Eoa]) ''ip'' = Some (c, until) \<and> 10 \<le> until"
proof -
  let ?run = "recoverProveRoute id_env (id_state [id_method ''e'' Mk_Eoa]) id id_proof ''ip'' 10"
  have "case ?run of (Inr _, Some _, _) \<Rightarrow> True | _ \<Rightarrow> False" by code_simp
  then obtain i m ws cookie st' where "?run = (Inr (i, m, ws), Some cookie, st')"
    by (auto split: prod.splits sum.splits option.splits)
  moreover have "str (id_proof ''kind'') = Some ''eoa''" by code_simp
  ultimately show ?thesis using recovery_needs_signature by blast
qed

theorem google_sign_in_witness: "\<exists>token. iv_exchange id_env (nullish (Some ''code'') '''') = Inr token"
proof -
  let ?run = "googleCallbackRoute id_env (id_state []) id_cookies (Some ''code'') (Some ''AQ.Bw'') ''new'' 10"
  have "is_ok (fst ?run)" by code_simp
  then obtain i cookie st' where "?run = (Inr i, cookie, st')" by (cases ?run) (auto simp: is_ok_def split: sum.splits)
  moreover have "\<forall>r \<in> set (identities (si_db (id_state []))). idn_identity_id r \<noteq> ''new''"
    by (simp add: id_state_def id_identity_def)
  ultimately show ?thesis using google_sign_in by blast
qed

section \<open>Removing a method\<close>

theorem last_method_kept_witness:
  "listIdentityMethods (si_db (snd (snd (removeMethodRoute id_env id_chain (id_state [id_method ''k'' Mk_Webauthn, id_method ''e'' Mk_Eoa]) id
     id_cookies [''methodId'' \<mapsto> ''E''] 10)))) ''i'' \<noteq> []"
proof -
  let ?run = "removeMethodRoute id_env id_chain (id_state [id_method ''k'' Mk_Webauthn, id_method ''e'' Mk_Eoa]) id id_cookies [''methodId'' \<mapsto> ''E''] 10"
  have "is_ok (fst ?run)" by code_simp
  then obtain k cookie st' where run: "?run = (Inr k, cookie, st')" by (cases ?run) (auto simp: is_ok_def split: sum.splits)
  from last_method_kept [OF this] id_session show ?thesis by (auto simp: run)
qed

end
