(* ===== verification/WalletClientRoutes.thy ===== *)
theory WalletClientRoutes
  imports UserOpRoutes Proposals
begin

text \<open>
  The routes for shops that keep wallets for their customers (commerce/server/wallet-client-routes.ts):
  the operator registers clients, the clients sign their requests with a shared secret and create
  wallets, send and recover. Claiming and tracking the recovery jobs is in \<open>RecoveryFlow\<close>.

  A route that waits for a chain gets what other requests do meanwhile as a function \<open>world\<close>.
\<close>

section \<open>Configuration, state, bodies\<close>

record client_chain =
  ck_chain_id :: string
  ck_fee_token :: "string option"
  ck_symbol :: string
  ck_node :: "entry_point option"

text \<open>
  \<open>ce_node\<close> is the node of the default chain, \<open>ce_pending\<close> its answer to \<open>pendingOwner()\<close>: whether there is
  one and the text to sign for cancelling it. \<open>ce_parse\<close> is \<open>JSON.parse\<close> of a body.
\<close>

record client_body =
  kb_text :: "string \<Rightarrow> string option"
  kb_assertion :: "assertion option"
  kb_assertion_json :: string
  kb_verified :: bool
  kb_attestation :: "string option"
  kb_contact :: "string option"
  kb_op :: "packed_user_op option"

record client_env =
  ce_auth :: auth_env
  ce_webauthn :: webauthn_env
  ce_abi :: abi_env
  ce_parse :: "string \<Rightarrow> client_body option"
  ce_admin_key :: string
  ce_sweeper_key :: string
  ce_ops :: userop_config
  ce_chains :: "client_chain list"
  ce_node :: "entry_point option"
  ce_pending :: "(address \<Rightarrow> (bool \<times> string) option) option"
  ce_factory :: "string option"
  ce_implementation :: "string option"
  ce_derive_salt :: "string \<Rightarrow> string \<Rightarrow> string"
  ce_predict :: "string \<Rightarrow> string \<Rightarrow> string \<Rightarrow> address option"

record client_state =
  cs_registry :: registry_db
  cs_challenges :: "wallet_challenge list"
  cs_db :: recovery_db
  cs_ops :: userop_table

type_synonym 'a client_reply = "'a wallet_result \<times> client_state"

definition empty_client_body :: client_body where
  "empty_client_body =
     \<lparr>kb_text = (\<lambda>_. None), kb_assertion = None, kb_assertion_json = '''', kb_verified = False, kb_attestation = None,
      kb_contact = None, kb_op = None\<rparr>"

definition kb_str :: "client_body \<Rightarrow> string \<Rightarrow> string option" where
  "kb_str b k = str (kb_text b k)"

text \<open>An error without the row that caused it.\<close>

definition plain_http :: "'r http_error \<Rightarrow> unit http_error" where
  "plain_http e = Http_Error (status_code e) (error_message e) None"

section \<open>The operator's routes\<close>

definition client_admin :: "client_env \<Rightarrow> string option \<Rightarrow> string option \<Rightarrow> unit wallet_result" where
  "client_admin env api_key authorization = requireApiKey api_key authorization (ce_admin_key env) ''ADMIN_API_KEY''"

record new_client_body =
  nb_label :: "string option"
  nb_rp_id :: "string option"
  nb_origins :: "string list option"
  nb_enabled :: "bool option"

text \<open>\<open>secret\<close> is the generated secret; the answer holds it, together with the public record.\<close>

definition createClientRoute ::
    "client_env \<Rightarrow> client_state \<Rightarrow> string option \<Rightarrow> string option \<Rightarrow> new_client_body \<Rightarrow> string \<Rightarrow> string \<Rightarrow> timestamp \<Rightarrow>
     (wallet_client_public \<times> string) client_reply" where
  "createClientRoute env st api_key authorization body i secret now =
     (case client_admin env api_key authorization of
        Inl e \<Rightarrow> (Inl e, st)
      | Inr _ \<Rightarrow>
          (case map_option lower (str (nb_rp_id body)) of
             None \<Rightarrow> (failed 400 ''rpId required'', st)
           | Some rp \<Rightarrow>
               (case createWalletClient (cs_registry st) i (nullish (str (nb_label body)) ''Wallet client'') rp
                       (map_option (filter (\<lambda>x. x \<noteq> '''')) (nb_origins body)) secret (Some (nb_enabled body \<noteq> Some False)) now of
                  (None, reg) \<Rightarrow> (failed 500 ''error'', st\<lparr>cs_registry := reg\<rparr>)
                | (Some c, reg) \<Rightarrow> (Inr c, st\<lparr>cs_registry := reg\<rparr>))))"

definition listClientsRoute :: "client_env \<Rightarrow> client_state \<Rightarrow> string option \<Rightarrow> string option \<Rightarrow> wallet_client_public list wallet_result" where
  "listClientsRoute env st api_key authorization =
     (case client_admin env api_key authorization of Inl e \<Rightarrow> Inl e | Inr _ \<Rightarrow> Inr (listWalletClients (cs_registry st)))"

definition rotateClientRoute ::
    "client_env \<Rightarrow> client_state \<Rightarrow> string option \<Rightarrow> string option \<Rightarrow> string \<Rightarrow> string \<Rightarrow> timestamp \<Rightarrow> (wallet_client_public \<times> string) client_reply" where
  "rotateClientRoute env st api_key authorization i secret now =
     (case client_admin env api_key authorization of
        Inl e \<Rightarrow> (Inl e, st)
      | Inr _ \<Rightarrow>
          (case rotateWalletClientSecret (cs_registry st) i secret now of
             (None, reg) \<Rightarrow> (failed 404 ''client_not_found'', st\<lparr>cs_registry := reg\<rparr>)
           | (Some c, reg) \<Rightarrow> (Inr c, st\<lparr>cs_registry := reg\<rparr>)))"

definition patchClientRoute ::
    "client_env \<Rightarrow> client_state \<Rightarrow> string option \<Rightarrow> string option \<Rightarrow> string \<Rightarrow> client_patch \<Rightarrow> timestamp \<Rightarrow> wallet_client_public client_reply" where
  "patchClientRoute env st api_key authorization i patch now =
     (case client_admin env api_key authorization of
        Inl e \<Rightarrow> (Inl e, st)
      | Inr _ \<Rightarrow>
          (case updateWalletClient (cs_registry st) i patch now of
             (None, reg) \<Rightarrow> (failed 404 ''client_not_found'', st\<lparr>cs_registry := reg\<rparr>)
           | (Some c, reg) \<Rightarrow> (Inr c, st\<lparr>cs_registry := reg\<rparr>)))"

text \<open>\<open>statuses\<close> are the statuses of the query that exist; without the parameter it is \<open>None\<close>.\<close>

definition listJobsRoute ::
    "client_env \<Rightarrow> client_state \<Rightarrow> string option \<Rightarrow> string option \<Rightarrow> job_status list option \<Rightarrow> string option \<Rightarrow> recovery_job list wallet_result" where
  "listJobsRoute env st api_key authorization statuses chain =
     (case requireApiKey api_key authorization (ce_sweeper_key env) ''SWEEPER_API_KEY'' of
        Inl e \<Rightarrow> Inl e
      | Inr _ \<Rightarrow>
          Inr (listWalletRecoveryJobs (cs_db st) (nullish statuses [Job_Pending])
                 (map_option (\<lambda>c. [c]) (or_null (map_option trim chain)))))"

section \<open>Signed requests\<close>

text \<open>
  Every route of a client first checks the signature over the raw body, which costs a nonce, and
  then parses the body.
\<close>

definition clientCall ::
    "client_env \<Rightarrow> client_state \<Rightarrow> http_request \<Rightarrow> string \<Rightarrow> timestamp \<Rightarrow>
     (wallet_client_public \<Rightarrow> client_body \<Rightarrow> client_state \<Rightarrow> 'a client_reply) \<Rightarrow> 'a client_reply" where
  "clientCall env st q raw now run =
     (let (r, reg) = requireWalletClient (ce_auth env) (cs_registry st) q (Some raw) now; st1 = st\<lparr>cs_registry := reg\<rparr> in
      case r of
        Inl e \<Rightarrow> (Inl e, st1)
      | Inr (c, _) \<Rightarrow>
          (case (if raw = '''' then Some empty_client_body else ce_parse env raw) of
             None \<Rightarrow> (failed 500 ''error'', st1)
           | Some body \<Rightarrow> run c body st1))"

definition client_purpose :: "string option \<Rightarrow> challenge_purpose option" where
  "client_purpose v =
     (if v = Some ''create'' then Some Wc_Create else if v = Some ''recover'' then Some Wc_Recover
      else if v = Some ''cancel'' then Some Wc_Cancel else None)"

definition clientChallengeRoute ::
    "wallet_client_public \<Rightarrow> client_body \<Rightarrow> string \<Rightarrow> string \<Rightarrow> timestamp \<Rightarrow> client_state \<Rightarrow> wallet_challenge client_reply" where
  "clientChallengeRoute c body i challenge now st =
     (case client_purpose (kb_str body ''purpose'') of
        None \<Rightarrow> (failed 400 ''purpose must be create, recover, or cancel'', st)
      | Some p \<Rightarrow>
          (case createWalletChallenge (cs_challenges st) i (cl_id c) p challenge (kb_str body ''email'') (kb_str body ''walletAddress'') None now of
             (None, t) \<Rightarrow> (failed 500 ''error'', st\<lparr>cs_challenges := t\<rparr>)
           | (Some ch, t) \<Rightarrow> (Inr ch, st\<lparr>cs_challenges := t\<rparr>)))"

definition client_assertion_error ::
    "client_env \<Rightarrow> wallet_client_public \<Rightarrow> assertion \<Rightarrow> string \<Rightarrow> string \<Rightarrow> string \<Rightarrow> (nat \<times> string) option" where
  "client_assertion_error env c a challenge qx qy =
     (case verifyWebAuthnAssertion (ce_webauthn env) a
             \<lparr>vo_challenge = challenge, vo_rp_id = cl_rp_id c, vo_origins = cl_origins c, vo_owner_qx = qx, vo_owner_qy = qy\<rparr> of
        Inr _ \<Rightarrow> None
      | Inl e \<Rightarrow> Some (nullish (je_status e) 500, nullish (je_code e) ''assertion_failed''))"

text \<open>A challenge of this client is used up, and its assertion has to verify under the key.\<close>

definition signed_challenge ::
    "client_env \<Rightarrow> wallet_client_public \<Rightarrow> client_body \<Rightarrow> string \<Rightarrow> challenge_purpose \<Rightarrow> string \<Rightarrow> string \<Rightarrow> timestamp \<Rightarrow> client_state \<Rightarrow>
     unit client_reply" where
  "signed_challenge env c body cid p qx qy now st =
     (case consumeWalletChallenge (cs_challenges st) cid (cl_id c, p) now of
        (None, t) \<Rightarrow> (failed 400 ''invalid_or_expired_challenge'', st\<lparr>cs_challenges := t\<rparr>)
      | (Some ch, t) \<Rightarrow>
          (case kb_assertion body of
             None \<Rightarrow> (failed 400 ''assertion required'', st\<lparr>cs_challenges := t\<rparr>)
           | Some a \<Rightarrow>
               (case client_assertion_error env c a (wch_challenge ch) qx qy of
                  Some (n, e) \<Rightarrow> (failed n e, st\<lparr>cs_challenges := t\<rparr>)
                | None \<Rightarrow> (Inr (), st\<lparr>cs_challenges := t\<rparr>))))"

section \<open>Wallets\<close>

definition store_client_wallet ::
    "client_env \<Rightarrow> wallet_client_public \<Rightarrow> client_body \<Rightarrow> string \<Rightarrow> string \<Rightarrow> string \<Rightarrow> string \<Rightarrow> address \<Rightarrow> timestamp \<Rightarrow> client_state \<Rightarrow>
     (wallet_account option \<times> wallet_device option \<times> wallet_identity option) \<times> client_state" where
  "store_client_wallet env c body email qx qy cred a now st =
     (let (account, db1) = upsertWalletAccount (cs_db st)
            \<lparr>ai_address = a, ai_salt = ce_derive_salt env qx qy, ai_owner_qx = qx, ai_owner_qy = qy, ai_credential_id = Some cred,
             ai_attestation = kb_attestation body, ai_identity_id = None, ai_label = None\<rparr> now;
          (device, db2) = upsertWalletDevice db1 a (uc_chain_id (ce_ops env)) qx qy (nullish (kb_str body ''label'') ''Passkey'') (Some cred) now;
          (customer, reg) = upsertWalletIdentity (cs_registry st) (cl_id c) email a
            (if kb_contact body \<noteq> None then kb_contact body else kb_str body ''contactJson'') now in
      ((account, device, customer), st\<lparr>cs_db := db2, cs_registry := reg\<rparr>))"

definition createClientWallet ::
    "client_env \<Rightarrow> wallet_client_public \<Rightarrow> client_body \<Rightarrow> timestamp \<Rightarrow> client_state \<Rightarrow>
     (wallet_account option \<times> wallet_device option \<times> wallet_identity option) client_reply" where
  "createClientWallet env c body now st =
     (case (kb_str body ''email'', kb_str body ''challengeId'', normalizeHex32 (kb_str body ''ownerQx''),
            normalizeHex32 (kb_str body ''ownerQy''), kb_str body ''credentialId'') of
        (Some email, Some cid, Some qx, Some qy, Some cred) \<Rightarrow>
          (case signed_challenge env c body cid Wc_Create qx qy now st of
             (Inl e, st1) \<Rightarrow> (Inl e, st1)
           | (Inr _, st1) \<Rightarrow>
               if \<not> truthy (ce_factory env) \<or> \<not> truthy (ce_implementation env) then (failed 503 ''wallet_factory_not_configured'', st1)
               else (case ce_predict env (the (ce_factory env)) (the (ce_implementation env)) (ce_derive_salt env qx qy) of
                       None \<Rightarrow> (failed 500 ''error'', st1)
                     | Some a \<Rightarrow>
                         (let (rows, st2) = store_client_wallet env c body email qx qy cred (lower a) now st1 in (Inr rows, st2))))
      | _ \<Rightarrow> (failed 400 ''email, challengeId, ownerQx, ownerQy, credentialId required'', st))"

definition listClientWallets ::
    "client_env \<Rightarrow> wallet_client_public \<Rightarrow> string option \<Rightarrow> string option \<Rightarrow> client_state \<Rightarrow>
     (wallet_identity \<times> wallet_account option \<times> wallet_device list) list wallet_result" where
  "listClientWallets env c email chain st =
     (case or_null (map_option trim email) of
        None \<Rightarrow> failed 400 ''email required''
      | Some e \<Rightarrow>
          Inr (map (\<lambda>r. (r, getWalletAccount (cs_db st) (wi_wallet_address r),
                 listWalletDevices (cs_db st) (wi_wallet_address r) (nullish (map_option trim chain) (uc_chain_id (ce_ops env)))))
               (listWalletIdentities (cs_registry st) (cl_id c) e)))"

section \<open>Sending\<close>

definition send_chain :: "client_env \<Rightarrow> string \<Rightarrow> client_chain option" where
  "send_chain env chain =
     coalesce (find (\<lambda>k. ck_chain_id k = chain) (ce_chains env))
       (if uc_chain_id (ce_ops env) = chain
        then Some \<lparr>ck_chain_id = chain, ck_fee_token = uc_fee_token (ce_ops env), ck_symbol = uc_fee_symbol (ce_ops env), ck_node = ce_node env\<rparr>
        else None)"

definition send_token :: "client_chain \<Rightarrow> client_body \<Rightarrow> string" where
  "send_token k body =
     (if upper (nullish (kb_str body ''token'') (ck_symbol k)) = upper (ck_symbol k) then the (ck_fee_token k)
      else nullish (kb_str body ''tokenAddress'') (the (ck_fee_token k)))"

text \<open>The operation that is built for a send; \<open>None\<close> is an exception.\<close>

definition build_send :: "client_env \<Rightarrow> entry_point \<Rightarrow> client_chain \<Rightarrow> address \<Rightarrow> string \<Rightarrow> string \<Rightarrow> client_body \<Rightarrow> packed_user_op option" where
  "build_send env node k addr recipient amount body =
     (case (Option.bind (ab_address (ce_abi env) addr) (ep_nonce node), BigInt_text amount, ab_address (ce_abi env) recipient) of
        (Some nonce, Some n, Some r) \<Rightarrow>
          Option.bind (buildSendBatchCalls (ce_abi env) (the (ck_fee_token k)) (the (uc_beneficiary (ce_ops env))) (uc_bundler_fee (ce_ops env)) r n
              (Some (send_token k body)))
            (\<lambda>calls. Option.bind (encodeExecuteCallData (ce_abi env) calls)
              (\<lambda>cd. buildPackedUserOperation (ce_abi env) addr nonce cd None DEFAULT_GAS))
      | _ \<Rightarrow> None)"

definition prepareSend ::
    "client_env \<Rightarrow> wallet_client_public \<Rightarrow> string \<Rightarrow> client_body \<Rightarrow> client_state \<Rightarrow> (packed_user_op \<times> string \<times> string) wallet_result" where
  "prepareSend env c wallet body st =
     (let addr = lower wallet; chain = nullish (kb_str body ''chainId'') (uc_chain_id (ce_ops env)) in
      if \<not> clientOwnsWallet (cs_registry st) (cl_id c) addr then failed 403 ''wallet_not_bound_to_client''
      else (case (kb_str body ''to'', kb_str body ''amount'') of
        (Some recipient, Some amount) \<Rightarrow>
          if ab_address (ce_abi env) recipient = None then failed 400 ''to and amount required''
          else (case send_chain env chain of
            None \<Rightarrow> failed 503 ''bundler_not_configured''
          | Some k \<Rightarrow>
              if \<not> truthy (ck_fee_token k) \<or> \<not> truthy (uc_beneficiary (ce_ops env)) then failed 503 ''bundler_not_configured''
              else (case ck_node k of
                None \<Rightarrow> failed 503 ''rpc_not_configured''
              | Some node \<Rightarrow>
                  (case build_send env node k addr recipient amount body of
                     None \<Rightarrow> failed 500 ''error''
                   | Some op \<Rightarrow>
                       (case ep_hash node op of
                          None \<Rightarrow> failed 500 ''error''
                        | Some h \<Rightarrow> Inr (op, h, chain)))))
      | _ \<Rightarrow> failed 400 ''to and amount required''))"

text \<open>The rest is as in the route of wallet-routes.ts, so that \<open>submitUserOpRoute\<close> states it.\<close>

definition submitSend ::
    "client_env \<Rightarrow> wallet_client_public \<Rightarrow> (client_state \<Rightarrow> client_state) \<Rightarrow> string \<Rightarrow> client_body \<Rightarrow> string \<Rightarrow> timestamp \<Rightarrow> client_state \<Rightarrow>
     (nat \<times> user_op) client_reply" where
  "submitSend env c world wallet body i now st =
     (let addr = lower wallet in
      if \<not> clientOwnsWallet (cs_registry st) (cl_id c) addr then (failed 403 ''wallet_not_bound_to_client'', st)
      else (case (kb_op body, kb_str body ''userOpHash'') of
        (Some op, Some h) \<Rightarrow>
          (case ab_address (ce_abi env) (puo_sender op) of
             None \<Rightarrow> (failed 500 ''error'', st)
           | Some sender \<Rightarrow>
               if lower sender \<noteq> addr then (failed 400 ''sender_mismatch'', st)
               else (let st1 = (if uc_rpc (ce_ops env) = None then st else world st);
                         (r, ops) = submitUserOpRoute (ce_abi env) (ce_ops env) (cs_ops st) (cs_ops st1)
                            \<lparr>sb_user_op = Some op, sb_hash = Some h, sb_chain_id = kb_text body ''chainId''\<rparr> i now in
                     (map_sum plain_http id r, st1\<lparr>cs_ops := ops\<rparr>)))
      | _ \<Rightarrow> (failed 400 ''userOp and userOpHash required'', st)))"

section \<open>Recovery\<close>

definition initiateRecovery ::
    "client_env \<Rightarrow> wallet_client_public \<Rightarrow> string \<Rightarrow> client_body \<Rightarrow> string \<Rightarrow> timestamp \<Rightarrow> client_state \<Rightarrow> recovery_job client_reply" where
  "initiateRecovery env c wallet body i now st =
     (let addr = lower wallet in
      case kb_str body ''email'' of
        None \<Rightarrow> (failed 400 ''email required'', st)
      | Some email \<Rightarrow>
          if \<not> clientOwnsWalletForEmail (cs_registry st) (cl_id c) email addr then (failed 403 ''wallet_not_bound_to_client_email'', st)
          else if \<not> kb_verified body then (failed 400 ''identityVerified_required'', st)
          else (case (kb_str body ''challengeId'', normalizeHex32 (coalesce (kb_str body ''ownerQx'') (kb_str body ''newOwnerQx'')),
                      normalizeHex32 (coalesce (kb_str body ''ownerQy'') (kb_str body ''newOwnerQy'')), kb_str body ''credentialId'') of
            (Some cid, Some qx, Some qy, Some cred) \<Rightarrow>
              (case signed_challenge env c body cid Wc_Recover qx qy now st of
                 (Inl e, st1) \<Rightarrow> (Inl e, st1)
               | (Inr _, st1) \<Rightarrow>
                   (let chain = nullish (kb_str body ''chainId'') (uc_chain_id (ce_ops env));
                        db1 = snd (upsertWalletDevice (cs_db st1) addr chain qx qy (nullish (kb_str body ''label'') ''Recovery device'') (Some cred) now) in
                    case createWalletRecoveryJob db1 i addr chain Job_Initiate (Some qx) (Some qy) None now of
                      None \<Rightarrow> (failed 500 ''error'', st1\<lparr>cs_db := db1\<rparr>)
                    | Some (job, db2) \<Rightarrow> (Inr job, st1\<lparr>cs_db := db2\<rparr>)))
          | _ \<Rightarrow> (failed 400 ''challengeId, ownerQx, ownerQy, credentialId required'', st)))"

text \<open>The device that cancels, and the key the signature is checked with, which the body overrides.\<close>

definition cancel_device :: "client_env \<Rightarrow> client_body \<Rightarrow> string \<Rightarrow> address \<Rightarrow> recovery_db \<Rightarrow> (string \<times> string) option" where
  "cancel_device env body cred addr db =
     (let qx = normalizeHex32 (kb_str body ''ownerQx''); qy = normalizeHex32 (kb_str body ''ownerQy'') in
      map_option (\<lambda>d. (nullish qx (wdv_owner_qx d), nullish qy (wdv_owner_qy d)))
        (coalesce (getWalletDeviceByCredentialId db cred (Some addr))
          (if qx \<noteq> None \<and> qy \<noteq> None
           then find (\<lambda>d. Some (wdv_owner_qx d) = qx \<and> Some (wdv_owner_qy d) = qy) (listWalletDevices db addr (uc_chain_id (ce_ops env)))
           else None)))"

text \<open>With a pending owner on chain its cancel text is expected, and the challenge instead is enough too.\<close>

definition cancel_error :: "client_env \<Rightarrow> wallet_client_public \<Rightarrow> address \<Rightarrow> assertion \<Rightarrow> string \<Rightarrow> string \<Rightarrow> string \<Rightarrow> (nat \<times> string) option" where
  "cancel_error env c addr a challenge qx qy =
     (let expected = (case ce_pending env of
            None \<Rightarrow> challenge
          | Some f \<Rightarrow> (case f addr of Some (True, digest) \<Rightarrow> digest | _ \<Rightarrow> challenge)) in
      case client_assertion_error env c a expected qx qy of
        None \<Rightarrow> None
      | Some e \<Rightarrow> if expected \<noteq> challenge then client_assertion_error env c a challenge qx qy else Some e)"

definition cancelClientRecovery ::
    "client_env \<Rightarrow> wallet_client_public \<Rightarrow> (client_state \<Rightarrow> client_state) \<Rightarrow> string \<Rightarrow> client_body \<Rightarrow> string \<Rightarrow> timestamp \<Rightarrow> client_state \<Rightarrow>
     recovery_job client_reply" where
  "cancelClientRecovery env c world wallet body i now st =
     (let addr = lower wallet in
      if \<not> clientOwnsWallet (cs_registry st) (cl_id c) addr then (failed 403 ''wallet_not_bound_to_client'', st)
      else (case (kb_str body ''challengeId'', kb_str body ''credentialId'') of
        (Some cid, Some cred) \<Rightarrow>
          (case cancel_device env body cred addr (cs_db st) of
             None \<Rightarrow> (failed 403 ''unknown_owner_device'', st)
           | Some (qx, qy) \<Rightarrow>
               (case consumeWalletChallenge (cs_challenges st) cid (cl_id c, Wc_Cancel) now of
                  (None, t) \<Rightarrow> (failed 400 ''invalid_or_expired_challenge'', st\<lparr>cs_challenges := t\<rparr>)
                | (Some ch, t) \<Rightarrow>
                    (case kb_assertion body of
                       None \<Rightarrow> (failed 400 ''assertion required'', st\<lparr>cs_challenges := t\<rparr>)
                     | Some a \<Rightarrow>
                         (let st1 = (if ce_pending env = None then st\<lparr>cs_challenges := t\<rparr> else world (st\<lparr>cs_challenges := t\<rparr>)) in
                          case cancel_error env c addr a (wch_challenge ch) qx qy of
                            Some (n, e) \<Rightarrow> (failed n e, st1)
                          | None \<Rightarrow>
                              (case createWalletRecoveryJob (cs_db st1) i addr (nullish (kb_str body ''chainId'') (uc_chain_id (ce_ops env)))
                                      Job_Cancel None None (Some (kb_assertion_json body)) now of
                                 None \<Rightarrow> (failed 500 ''error'', st1)
                               | Some (job, db) \<Rightarrow> (Inr job, st1\<lparr>cs_db := db\<rparr>))))))
      | _ \<Rightarrow> (failed 400 ''challengeId and credentialId required'', st)))"

definition getClientRecovery :: "wallet_client_public \<Rightarrow> string \<Rightarrow> client_state \<Rightarrow> recovery_job list wallet_result" where
  "getClientRecovery c wallet st =
     (if \<not> clientOwnsWallet (cs_registry st) (cl_id c) (lower wallet) then failed 403 ''wallet_not_bound_to_client''
      else Inr (listWalletRecoveryJobsForWallet (cs_db st) (lower wallet)))"

section \<open>The router\<close>

datatype http_verb = Verb_Get | Verb_Post | Verb_Other

text \<open>The paths below /api/client/wallets, with the address the path holds.\<close>

datatype client_path = Cp_Challenges | Cp_Wallets | Cp_Prepare address | Cp_Send address | Cp_Cancel address | Cp_Recovery address | Cp_Unknown

datatype client_answer =
    Ans_Challenge wallet_challenge
  | Ans_Created "wallet_account option" "wallet_device option" "wallet_identity option"
  | Ans_Wallets "(wallet_identity \<times> wallet_account option \<times> wallet_device list) list"
  | Ans_Prepared packed_user_op string string
  | Ans_Sent nat user_op
  | Ans_Job recovery_job
  | Ans_Jobs "recovery_job list"

definition answer :: "('a \<Rightarrow> client_answer) \<Rightarrow> 'a client_reply \<Rightarrow> client_answer client_reply" where
  "answer f r = (map_sum id f (fst r), snd r)"

text \<open>\<open>query\<close> holds the parameters email and chainId, \<open>fresh\<close> a random id and challenge.\<close>

definition client_handler ::
    "client_env \<Rightarrow> (client_state \<Rightarrow> client_state) \<Rightarrow> http_verb \<Rightarrow> client_path \<Rightarrow> string option \<times> string option \<Rightarrow> string \<times> string \<Rightarrow> timestamp \<Rightarrow>
     wallet_client_public \<Rightarrow> client_body \<Rightarrow> client_state \<Rightarrow> client_answer client_reply" where
  "client_handler env world verb path query fresh now c body st =
     (case (verb, path) of
        (Verb_Post, Cp_Challenges) \<Rightarrow> answer Ans_Challenge (clientChallengeRoute c body (fst fresh) (snd fresh) now st)
      | (Verb_Post, Cp_Wallets) \<Rightarrow> answer (\<lambda>(a, d, i). Ans_Created a d i) (createClientWallet env c body now st)
      | (Verb_Get, Cp_Wallets) \<Rightarrow> answer Ans_Wallets (listClientWallets env c (fst query) (snd query) st, st)
      | (Verb_Post, Cp_Prepare w) \<Rightarrow> answer (\<lambda>(op, h, chain). Ans_Prepared op h chain) (prepareSend env c w body st, st)
      | (Verb_Post, Cp_Send w) \<Rightarrow> answer (\<lambda>(n, op). Ans_Sent n op) (submitSend env c world w body (fst fresh) now st)
      | (Verb_Post, Cp_Cancel w) \<Rightarrow> answer Ans_Job (cancelClientRecovery env c world w body (fst fresh) now st)
      | (Verb_Get, Cp_Recovery w) \<Rightarrow> answer Ans_Jobs (getClientRecovery c w st, st)
      | (Verb_Post, Cp_Recovery w) \<Rightarrow> answer Ans_Job (initiateRecovery env c w body (fst fresh) now st)
      | _ \<Rightarrow> (failed 404 ''Not found'', st))"

definition handleClientRoute ::
    "client_env \<Rightarrow> client_state \<Rightarrow> (client_state \<Rightarrow> client_state) \<Rightarrow> http_request \<Rightarrow> string \<Rightarrow> http_verb \<Rightarrow> client_path \<Rightarrow>
     string option \<times> string option \<Rightarrow> string \<times> string \<Rightarrow> timestamp \<Rightarrow> client_answer client_reply" where
  "handleClientRoute env st world q raw verb path query fresh now =
     clientCall env st q raw now (client_handler env world verb path query fresh now)"

end
