(* ===== verification/WalletClientProps.thy ===== *)
theory WalletClientProps
  imports WalletClientRoutes UserOpFeeProps
begin

text \<open>
  What the clients of the wallet service can and cannot do to each other, what a recovery through a
  client takes, and which prepared sends are accepted.
\<close>

section \<open>Rows of others\<close>

text \<open>The wallets clients are bound to, and what client \<open>j\<close> sees of itself and of wallet \<open>w\<close>.\<close>

definition bindings :: "client_state \<Rightarrow> (string \<times> address) set" where
  "bindings st = (\<lambda>r. (wi_client_id r, wi_wallet_address r)) ` set (wallet_identities (cs_registry st))"

definition only_client :: "string \<Rightarrow> address \<Rightarrow> client_state \<Rightarrow> bool" where
  "only_client j w st = (lower w = w \<and> (\<forall>c. (c, w) \<in> bindings st \<longrightarrow> c = j))"

definition customers_of :: "string \<Rightarrow> client_state \<Rightarrow> wallet_identity list" where
  "customers_of j st = filter (\<lambda>r. wi_client_id r = j) (wallet_identities (cs_registry st))"

definition challenge_of :: "string \<Rightarrow> client_state \<Rightarrow> string \<Rightarrow> wallet_challenge option" where
  "challenge_of j st i = (case getWalletChallenge (cs_challenges st) i of None \<Rightarrow> None | Some r \<Rightarrow> if wch_client_id r = j then Some r else None)"

definition jobs_of :: "address \<Rightarrow> client_state \<Rightarrow> recovery_job list" where
  "jobs_of w st = filter (\<lambda>r. rj_wallet_address r = w) (recovery_jobs (cs_db st))"

definition devices_of :: "address \<Rightarrow> client_state \<Rightarrow> wallet_device list" where
  "devices_of w st = filter (\<lambda>d. wdv_wallet_address d = w) (wallet_devices (cs_db st))"

text \<open>A step keeps every binding, the rows of client \<open>j\<close>, and those of the wallets only \<open>j\<close> is bound to.\<close>

definition spares :: "string \<Rightarrow> client_state \<Rightarrow> client_state \<Rightarrow> bool" where
  "spares j st st' =
     (bindings st \<subseteq> bindings st' \<and> customers_of j st' = customers_of j st \<and> challenge_of j st' = challenge_of j st \<and>
      (\<forall>w. only_client j w st' \<longrightarrow>
         jobs_of w st' = jobs_of w st \<and> devices_of w st' = devices_of w st \<and>
         getWalletAccount (cs_db st') w = getWalletAccount (cs_db st) w))"

named_theorems view_defs

lemmas [view_defs] = bindings_def customers_of_def challenge_of_def jobs_of_def devices_of_def getWalletAccount_def

lemma only_client_earlier: "only_client j w st' \<Longrightarrow> bindings st \<subseteq> bindings st' \<Longrightarrow> only_client j w st"
  by (auto simp: only_client_def)

lemma spares_refl [intro]: "spares j st st"
  by (simp add: spares_def)

lemma spares_trans:
  assumes "spares j st st'" and "spares j st' st''"
  shows "spares j st st''"
  using assms only_client_earlier [of j _ st'' st'] by (simp add: spares_def) blast

text \<open>A step that leaves the rows it is about as they are.\<close>

lemma spares_same:
  assumes "wallet_identities (cs_registry st') = wallet_identities (cs_registry st)" and "challenge_of j st' = challenge_of j st"
    and "\<And>w. only_client j w st' \<Longrightarrow> jobs_of w st' = jobs_of w st \<and> devices_of w st' = devices_of w st \<and>
      getWalletAccount (cs_db st') w = getWalletAccount (cs_db st) w"
  shows "spares j st st'"
  using assms by (simp add: spares_def bindings_def customers_of_def)

lemma filter_update_where_other:
  "(\<And>r. Q r \<Longrightarrow> \<not> P r) \<Longrightarrow> (\<And>r. Q r \<Longrightarrow> \<not> P (f r)) \<Longrightarrow> filter P (update_where Q f t) = filter P t"
  by (induction t) (auto simp: update_where_def)

lemma filter_upsert_other:
  assumes "\<And>x. key x = key r \<Longrightarrow> \<not> P x" and "\<And>x. key x = key r \<Longrightarrow> \<not> P (merge x)"
  shows "filter P (upsert key r merge t) = filter P t"
  using assms by (auto simp: upsert_def intro!: filter_update_where_other)

lemma image_upsert:
  assumes "\<And>x y. key x = key y \<Longrightarrow> f x = f y" and "\<And>x. key x = key r \<Longrightarrow> key (merge x) = key r"
  shows "f ` set (upsert key r merge t) = insert (f r) (f ` set t)"
proof (cases "find_by key (key r) t")
  case (Some x)
  then have x: "x \<in> set t" "key x = key r" by (auto dest: find_by_SomeD)
  have "f (if key y = key r then merge y else y) = f y" for y
    using assms(1) [of "merge y" y] assms(2) [of y] by simp
  then have "f ` set (update_where (\<lambda>x. key x = key r) merge t) = f ` set t"
    unfolding update_where_def set_map image_image by (simp only:)
  also have "\<dots> = insert (f r) (f ` set t)" using x assms(1) [of x r] by (simp add: insert_absorb rev_image_eqI)
  finally show ?thesis using Some by (simp add: upsert_def)
qed (simp add: upsert_def)

lemma upsert_identity_bindings:
  "(\<lambda>r. (wi_client_id r, wi_wallet_address r)) ` set (wallet_identities (snd (upsertWalletIdentity reg c e a contact now))) =
   insert (c, lower a) ((\<lambda>r. (wi_client_id r, wi_wallet_address r)) ` set (wallet_identities reg))"
proof -
  let ?r = "\<lparr>wi_client_id = c, wi_email = normalizeEmail e, wi_wallet_address = lower a, wi_contact_json = contact,
    wi_created_at = now, wi_updated_at = now\<rparr>"
  let ?m = "\<lambda>old. old\<lparr>wi_contact_json := coalesce contact (wi_contact_json old), wi_updated_at := now\<rparr>"
  have "wallet_identities (snd (upsertWalletIdentity reg c e a contact now)) = upsert wi_key ?r ?m (wallet_identities reg)"
    by (simp add: upsertWalletIdentity_def Let_def)
  then show ?thesis
    using image_upsert [of wi_key "\<lambda>r. (wi_client_id r, wi_wallet_address r)" ?r ?m "wallet_identities reg"] by (simp add: wi_key_def)
qed

lemma wallet_identities_requireWalletClient [simp]:
  "wallet_identities (snd (requireWalletClient env db q raw now)) = wallet_identities db"
  by (simp add: requireWalletClient_def touchWalletClient_def Let_def split: option.split prod.split)

lemma walletPersist_rows [simp]:
  "wallet_devices (walletPersist db ev now) = wallet_devices db"
  "wallet_accounts (walletPersist db ev now) = wallet_accounts db"
  by (simp_all add: walletPersist_def split: option.split)

lemma fold_walletPersist_rows:
  fixes db :: recovery_db
  shows "recovery_jobs (fold (\<lambda>ev d. walletPersist d ev now) evs db) = recovery_jobs db"
    "wallet_devices (fold (\<lambda>ev d. walletPersist d ev now) evs db) = wallet_devices db"
    "wallet_accounts (fold (\<lambda>ev d. walletPersist d ev now) evs db) = wallet_accounts db"
  by (induction evs arbitrary: db) simp_all

section \<open>Steps of one client\<close>

text \<open>Consuming a challenge of another client.\<close>

lemma consume_spares:
  assumes "c \<noteq> j"
  shows "challenge_of j (st\<lparr>cs_challenges := snd (consumeWalletChallenge (cs_challenges st) i (c, p) now)\<rparr>) = challenge_of j st"
proof
  fix k
  have u: "find_by wch_id k (update_where (\<lambda>r. wch_id r = i \<and> \<not> wch_consumed r) (\<lambda>r. r\<lparr>wch_consumed := True\<rparr>) (cs_challenges st)) =
      map_option (\<lambda>r. if wch_id r = i \<and> \<not> wch_consumed r then r\<lparr>wch_consumed := True\<rparr> else r) (find_by wch_id k (cs_challenges st))"
    by (rule find_by_update_where) simp
  show "challenge_of j (st\<lparr>cs_challenges := snd (consumeWalletChallenge (cs_challenges st) i (c, p) now)\<rparr>) k = challenge_of j st k"
  proof (cases "k = i")
    case True
    then show ?thesis using assms u
      by (auto simp: challenge_of_def getWalletChallenge_def consumeWalletChallenge_def Let_def split: option.splits)
  next
    case False
    then show ?thesis using u
      by (auto simp: challenge_of_def getWalletChallenge_def consumeWalletChallenge_def Let_def dest: find_by_SomeD split: option.splits)
  qed
qed

lemma create_challenge_spares:
  assumes "c \<noteq> j"
  shows "challenge_of j (st\<lparr>cs_challenges := snd (createWalletChallenge (cs_challenges st) i c p challenge e w ttl now)\<rparr>) = challenge_of j st"
proof
  fix k
  let ?t' = "snd (createWalletChallenge (cs_challenges st) i c p challenge e w ttl now)"
  have "?t' = cs_challenges st \<or>
      (find_by wch_id i (cs_challenges st) = None \<and> (\<exists>r. ?t' = cs_challenges st @ [r] \<and> wch_id r = i \<and> wch_client_id r = c))"
    by (simp add: createWalletChallenge_def insert_unique_def)
  then show "challenge_of j (st\<lparr>cs_challenges := ?t'\<rparr>) k = challenge_of j st k"
  proof
    assume "find_by wch_id i (cs_challenges st) = None \<and> (\<exists>r. ?t' = cs_challenges st @ [r] \<and> wch_id r = i \<and> wch_client_id r = c)"
    then obtain r where r: "find_by wch_id i (cs_challenges st) = None" "?t' = cs_challenges st @ [r]" "wch_id r = i" "wch_client_id r = c" by blast
    show ?thesis using r(1,3,4) assms
      by (cases "find_by wch_id k (cs_challenges st)") (auto simp: challenge_of_def getWalletChallenge_def r(2) find_by_append)
  qed (simp add: challenge_of_def)
qed

lemma challenge_spares:
  assumes "cl_id c \<noteq> j"
  shows "spares j st (snd (clientChallengeRoute c body i challenge now st))"
proof (cases "client_purpose (kb_str body ''purpose'')")
  case (Some p)
  have eq: "snd (clientChallengeRoute c body i challenge now st) =
      st\<lparr>cs_challenges := snd (createWalletChallenge (cs_challenges st) i (cl_id c) p challenge (kb_str body ''email'') (kb_str body ''walletAddress'') None now)\<rparr>"
    by (simp add: clientChallengeRoute_def Some case_prod_beta split: option.split)
  show ?thesis unfolding eq
    by (rule spares_same) (use assms in \<open>auto simp: create_challenge_spares jobs_of_def devices_of_def\<close>)
qed (simp add: clientChallengeRoute_def spares_refl)

lemma signed_spares:
  assumes "cl_id c \<noteq> j"
  shows "spares j st (snd (signed_challenge env c body cid p qx qy now st))"
proof -
  have eq: "snd (signed_challenge env c body cid p qx qy now st) = st\<lparr>cs_challenges := snd (consumeWalletChallenge (cs_challenges st) cid (cl_id c, p) now)\<rparr>"
    by (simp add: signed_challenge_def split: option.split prod.split)
  show ?thesis unfolding eq
    by (rule spares_same) (use assms in \<open>auto simp: consume_spares jobs_of_def devices_of_def\<close>)
qed

lemma store_spares:
  assumes "cl_id c \<noteq> j"
  shows "spares j st (snd (store_client_wallet env c body email qx qy cred a now st))"
proof -
  let ?st' = "snd (store_client_wallet env c body email qx qy cred a now st)"
  obtain db1 where db1: "db1 = snd (upsertWalletAccount (cs_db st)
      \<lparr>ai_address = a, ai_salt = ce_derive_salt env qx qy, ai_owner_qx = qx, ai_owner_qy = qy, ai_credential_id = Some cred,
       ai_attestation = kb_attestation body, ai_identity_id = None, ai_label = None\<rparr> now)" by blast
  obtain contact where reg: "cs_registry ?st' = snd (upsertWalletIdentity (cs_registry st) (cl_id c) email a contact now)"
    by (simp add: store_client_wallet_def Let_def case_prod_beta)
  have db: "cs_db ?st' = snd (upsertWalletDevice db1 a (uc_chain_id (ce_ops env)) qx qy (nullish (kb_str body ''label'') ''Passkey'') (Some cred) now)"
    by (simp add: store_client_wallet_def Let_def db1 case_prod_beta)
  have ch: "cs_challenges ?st' = cs_challenges st" by (simp add: store_client_wallet_def Let_def case_prod_beta)
  have bound: "bindings ?st' = insert (cl_id c, lower a) (bindings st)"
    unfolding bindings_def reg using upsert_identity_bindings [of "cs_registry st" "cl_id c" email a contact now] by simp
  have cust: "customers_of j ?st' = customers_of j st"
    unfolding customers_of_def reg using assms
    by (auto simp: upsertWalletIdentity_def Let_def wi_key_def intro!: filter_upsert_other)
  have "jobs_of w ?st' = jobs_of w st \<and> devices_of w ?st' = devices_of w st \<and> getWalletAccount (cs_db ?st') w = getWalletAccount (cs_db st) w"
    if w: "w \<noteq> lower a" "lower w = w" for w
  proof -
    have "jobs_of w ?st' = jobs_of w st"
      by (simp add: jobs_of_def db db1 upsertWalletDevice_def upsertWalletAccount_def Let_def fold_walletPersist_rows)
    moreover have "devices_of w ?st' = devices_of w st"
      using w by (auto simp: devices_of_def db db1 upsertWalletDevice_def upsertWalletAccount_def Let_def fold_walletPersist_rows
          device_id_def intro!: filter_upsert_other)
    moreover have "getWalletAccount (cs_db ?st') w = getWalletAccount (cs_db st) w"
      using w by (simp add: getWalletAccount_def db db1 upsertWalletDevice_def upsertWalletAccount_def Let_def fold_walletPersist_rows
          find_by_upsert)
    ultimately show ?thesis by blast
  qed
  then show ?thesis
    using assms cust ch by (auto simp: spares_def bound only_client_def challenge_of_def fun_eq_iff)
qed

lemma create_spares:
  assumes "cl_id c \<noteq> j"
  shows "spares j st (snd (createClientWallet env c body now st))"
proof -
  have "snd (createClientWallet env c body now st) = st \<or>
      (\<exists>cid qx qy. let st1 = snd (signed_challenge env c body cid Wc_Create qx qy now st) in
         snd (createClientWallet env c body now st) = st1 \<or>
         (\<exists>email cred a. snd (createClientWallet env c body now st) = snd (store_client_wallet env c body email qx qy cred a now st1)))"
    by (auto simp: createClientWallet_def Let_def case_prod_beta split: option.split sum.split) blast+
  then show ?thesis
    using spares_refl spares_trans [OF signed_spares store_spares] signed_spares assms by (auto simp: Let_def)
qed

lemma owned_binding:
  "clientOwnsWallet (cs_registry st) c a \<Longrightarrow> (c, lower a) \<in> bindings st"
  "clientOwnsWalletForEmail (cs_registry st) c e a \<Longrightarrow> (c, lower a) \<in> bindings st"
  by (force simp: clientOwnsWallet_def clientOwnsWalletForEmail_def getWalletIdentity_def bindings_def wi_key_def dest: find_by_SomeD)+

text \<open>A new job for a wallet a client is bound to.\<close>

lemma job_spares:
  assumes "createWalletRecoveryJob (cs_db st) i a chain kind qx qy sig now = Some (job, db)" and "c \<noteq> j" and "(c, lower a) \<in> bindings st"
  shows "spares j st (st\<lparr>cs_db := db\<rparr>)"
proof (rule spares_same)
  fix w assume "only_client j w (st\<lparr>cs_db := db\<rparr>)"
  then have w: "w \<noteq> lower a" using assms(2,3) by (auto simp: only_client_def bindings_def)
  have db: "db = (cs_db st)\<lparr>recovery_jobs := recovery_jobs (cs_db st) @ [new_job i a chain kind qx qy sig now]\<rparr>"
    using assms(1) by (auto simp: createWalletRecoveryJob_def insert_unique_def split: if_splits)
  have "rj_wallet_address (new_job i a chain kind qx qy sig now) = lower a" by (simp add: new_job_def)
  then show "jobs_of w (st\<lparr>cs_db := db\<rparr>) = jobs_of w st \<and> devices_of w (st\<lparr>cs_db := db\<rparr>) = devices_of w st \<and>
      getWalletAccount (cs_db (st\<lparr>cs_db := db\<rparr>)) w = getWalletAccount (cs_db st) w"
    using w by (simp add: db jobs_of_def devices_of_def getWalletAccount_def)
qed (simp_all add: challenge_of_def fun_eq_iff)

lemma device_spares:
  assumes "c \<noteq> j" and "(c, lower a) \<in> bindings st"
  shows "spares j st (st\<lparr>cs_db := snd (upsertWalletDevice (cs_db st) a chain qx qy label cred now)\<rparr>)"
proof (rule spares_same)
  fix w let ?st' = "st\<lparr>cs_db := snd (upsertWalletDevice (cs_db st) a chain qx qy label cred now)\<rparr>"
  assume "only_client j w ?st'"
  then have "w \<noteq> lower a" using assms by (auto simp: only_client_def bindings_def)
  then show "jobs_of w ?st' = jobs_of w st \<and> devices_of w ?st' = devices_of w st \<and> getWalletAccount (cs_db ?st') w = getWalletAccount (cs_db st) w"
    by (auto simp: jobs_of_def devices_of_def getWalletAccount_def upsertWalletDevice_def Let_def device_id_def intro!: filter_upsert_other)
qed (simp_all add: challenge_of_def fun_eq_iff)

text \<open>The states a request for recovery can end in.\<close>

lemma initiate_states:
  obtains "snd (initiateRecovery env c wallet body i now st) = st"
  | cid qx qy email st1 where "clientOwnsWalletForEmail (cs_registry st) (cl_id c) email (lower wallet)"
      "st1 = snd (signed_challenge env c body cid Wc_Recover qx qy now st)" "snd (initiateRecovery env c wallet body i now st) = st1"
  | cid qx qy email st1 st2 chain label cred where "clientOwnsWalletForEmail (cs_registry st) (cl_id c) email (lower wallet)"
      "st1 = snd (signed_challenge env c body cid Wc_Recover qx qy now st)"
      "st2 = st1\<lparr>cs_db := snd (upsertWalletDevice (cs_db st1) (lower wallet) chain qx qy label cred now)\<rparr>"
      "snd (initiateRecovery env c wallet body i now st) = st2"
  | cid qx qy email st1 st2 chain label cred job db where "clientOwnsWalletForEmail (cs_registry st) (cl_id c) email (lower wallet)"
      "st1 = snd (signed_challenge env c body cid Wc_Recover qx qy now st)"
      "st2 = st1\<lparr>cs_db := snd (upsertWalletDevice (cs_db st1) (lower wallet) chain qx qy label cred now)\<rparr>"
      "createWalletRecoveryJob (cs_db st2) i (lower wallet) chain Job_Initiate (Some qx) (Some qy) None now = Some (job, db)"
      "snd (initiateRecovery env c wallet body i now st) = st2\<lparr>cs_db := db\<rparr>"
proof (cases "\<exists>email cid qx qy cred. kb_str body ''email'' = Some email \<and> clientOwnsWalletForEmail (cs_registry st) (cl_id c) email (lower wallet) \<and>
    kb_verified body \<and> kb_str body ''challengeId'' = Some cid \<and> normalizeHex32 (coalesce (kb_str body ''ownerQx'') (kb_str body ''newOwnerQx'')) = Some qx \<and>
    normalizeHex32 (coalesce (kb_str body ''ownerQy'') (kb_str body ''newOwnerQy'')) = Some qy \<and> kb_str body ''credentialId'' = Some cred")
  case False
  then have "snd (initiateRecovery env c wallet body i now st) = st"
    by (auto simp: initiateRecovery_def Let_def split: option.split)
  then show ?thesis by (rule that(1))
next
  case True
  then obtain email cid qx qy cred where g: "kb_str body ''email'' = Some email"
    "clientOwnsWalletForEmail (cs_registry st) (cl_id c) email (lower wallet)" "kb_verified body" "kb_str body ''challengeId'' = Some cid"
    "normalizeHex32 (coalesce (kb_str body ''ownerQx'') (kb_str body ''newOwnerQx'')) = Some qx"
    "normalizeHex32 (coalesce (kb_str body ''ownerQy'') (kb_str body ''newOwnerQy'')) = Some qy" "kb_str body ''credentialId'' = Some cred" by blast
  obtain r st1 where s: "signed_challenge env c body cid Wc_Recover qx qy now st = (r, st1)" by force
  let ?chain = "nullish (kb_str body ''chainId'') (uc_chain_id (ce_ops env))"
  let ?db = "snd (upsertWalletDevice (cs_db st1) (lower wallet) ?chain qx qy (nullish (kb_str body ''label'') ''Recovery device'') (Some cred) now)"
  show ?thesis
  proof (cases r)
    case (Inl e)
    then have "snd (initiateRecovery env c wallet body i now st) = st1" using g s by (simp add: initiateRecovery_def)
    then show ?thesis using that(2) [of email st1 cid qx qy] g(2) s by simp
  next
    case (Inr u)
    show ?thesis
    proof (cases "createWalletRecoveryJob ?db i (lower wallet) ?chain Job_Initiate (Some qx) (Some qy) None now")
      case None
      then have "snd (initiateRecovery env c wallet body i now st) = st1\<lparr>cs_db := ?db\<rparr>" using g s Inr by (simp add: initiateRecovery_def Let_def)
      then show ?thesis using that(3) [of email st1 cid qx qy] g(2) s by simp
    next
      case (Some p)
      obtain job db where p: "p = (job, db)" by force
      then have "snd (initiateRecovery env c wallet body i now st) = st1\<lparr>cs_db := db\<rparr>" using g s Inr Some by (simp add: initiateRecovery_def Let_def)
      then show ?thesis using that(4) [of email st1 cid qx qy _ ?chain _ "Some cred" job db] g(2) s Some p by simp
    qed
  qed
qed

lemma initiate_spares:
  assumes "cl_id c \<noteq> j"
  shows "spares j st (snd (initiateRecovery env c wallet body i now st))"
proof -
  have signed: "spares j st st1" "(cl_id c, lower (lower wallet)) \<in> bindings st1"
    if "clientOwnsWalletForEmail (cs_registry st) (cl_id c) email (lower wallet)" "st1 = snd (signed_challenge env c body cid Wc_Recover qx qy now st)"
    for email cid qx qy st1
  proof -
    show "spares j st st1" using that(2) assms signed_spares by blast
    then have "bindings st \<subseteq> bindings st1" by (simp add: spares_def)
    then show "(cl_id c, lower (lower wallet)) \<in> bindings st1" using owned_binding(2) [OF that(1)] by blast
  qed
  show ?thesis
  proof (cases rule: initiate_states [of env c wallet body i now st])
    case 1
    then show ?thesis by auto
  next
    case (2 cid qx qy email st1)
    with signed show ?thesis by metis
  next
    case (3 cid qx qy email st1 st2 chain label cred)
    from signed [OF 3(1,2)] device_spares [OF assms, of "lower wallet" st1 chain qx qy label cred now] show ?thesis
      using spares_trans 3(3,4) by metis
  next
    case (4 cid qx qy email st1 st2 chain label cred job db)
    have s2: "spares j st st2"
      using signed [OF 4(1,2)] device_spares [OF assms, of "lower wallet" st1 chain qx qy label cred now] spares_trans 4(3) by metis
    moreover have "(cl_id c, lower (lower wallet)) \<in> bindings st2" using signed(2) [OF 4(1,2)] by (simp add: 4(3) bindings_def)
    ultimately show ?thesis using job_spares [OF 4(4) assms] spares_trans 4(5) by metis
  qed
qed

text \<open>A cancellation waits for the chain between its challenge and its job.\<close>

lemma cancel_spares:
  assumes "cl_id c \<noteq> j" and "\<And>s. spares j s (world s)"
  shows "spares j st (snd (cancelClientRecovery env c world wallet body i now st))"
proof (cases "clientOwnsWallet (cs_registry st) (cl_id c) (lower wallet) \<and> kb_str body ''challengeId'' \<noteq> None \<and> kb_str body ''credentialId'' \<noteq> None \<and>
    cancel_device env body (the (kb_str body ''credentialId'')) (lower wallet) (cs_db st) \<noteq> None")
  case False
  then have "snd (cancelClientRecovery env c world wallet body i now st) = st"
    by (auto simp: cancelClientRecovery_def Let_def split: option.split)
  then show ?thesis by auto
next
  case True
  then obtain cid cred qx qy where g: "clientOwnsWallet (cs_registry st) (cl_id c) (lower wallet)" "kb_str body ''challengeId'' = Some cid"
    "kb_str body ''credentialId'' = Some cred" "cancel_device env body cred (lower wallet) (cs_db st) = Some (qx, qy)" by auto
  obtain r t where t: "consumeWalletChallenge (cs_challenges st) cid (cl_id c, Wc_Cancel) now = (r, t)" by force
  let ?st = "snd (cancelClientRecovery env c world wallet body i now st)"
  have used: "spares j st (st\<lparr>cs_challenges := t\<rparr>)"
    using consume_spares [OF assms(1), of st cid Wc_Cancel now] by (intro spares_same) (auto simp: t jobs_of_def devices_of_def)
  let ?st1 = "if ce_pending env = None then st\<lparr>cs_challenges := t\<rparr> else world (st\<lparr>cs_challenges := t\<rparr>)"
  have waited: "spares j st ?st1" using used assms(2) spares_trans by auto
  then have bound: "(cl_id c, lower (lower wallet)) \<in> bindings ?st1" using owned_binding(1) [OF g(1)] by (auto simp: spares_def)
  have "?st = st\<lparr>cs_challenges := t\<rparr> \<or> ?st = ?st1 \<or>
      (\<exists>chain sig job db. createWalletRecoveryJob (cs_db ?st1) i (lower wallet) chain Job_Cancel None None sig now = Some (job, db) \<and> ?st = ?st1\<lparr>cs_db := db\<rparr>)"
    using g t by (simp add: cancelClientRecovery_def Let_def split: option.split) blast
  then show ?thesis
  proof (elim disjE exE conjE)
    fix chain sig job db
    assume "createWalletRecoveryJob (cs_db ?st1) i (lower wallet) chain Job_Cancel None None sig now = Some (job, db)" and "?st = ?st1\<lparr>cs_db := db\<rparr>"
    then show ?thesis using spares_trans [OF waited job_spares [OF _ assms(1) bound]] by metis
  qed (use used waited in metis)+
qed

lemma submit_spares:
  assumes "\<And>s. spares j s (world s)"
  shows "spares j st (snd (submitSend env c world wallet body i now st))"
proof -
  have ops: "spares j st (s\<lparr>cs_ops := ops\<rparr>)" if "spares j st s" for s ops
  proof -
    have "spares j s (s\<lparr>cs_ops := ops\<rparr>)" by (rule spares_same) (simp_all add: challenge_of_def fun_eq_iff jobs_of_def devices_of_def)
    with that show ?thesis by (rule spares_trans)
  qed
  have "snd (submitSend env c world wallet body i now st) = st \<or> (\<exists>ops. snd (submitSend env c world wallet body i now st) = st\<lparr>cs_ops := ops\<rparr>) \<or>
      (\<exists>ops. snd (submitSend env c world wallet body i now st) = (world st)\<lparr>cs_ops := ops\<rparr>)"
    by (auto simp: submitSend_def Let_def case_prod_beta split: option.split)
  then show ?thesis using ops assms by (elim disjE exE) (simp_all add: spares_refl)
qed

lemma handler_spares:
  assumes "cl_id c \<noteq> j" and "\<And>s. spares j s (world s)"
  shows "spares j st (snd (client_handler env world verb path query fresh now c body st))"
proof -
  note steps = challenge_spares [OF assms(1)] create_spares [OF assms(1)] submit_spares [OF assms(2)]
    cancel_spares [OF assms] initiate_spares [OF assms(1)] spares_refl
  show ?thesis by (cases verb; cases path) (simp_all add: client_handler_def answer_def steps)
qed

lemma client_id_signed:
  assumes "requireWalletClient env db q raw now = (Inr (c, secret), db')"
  shows "header q ''x-client-id'' = Some (cl_id c)"
  using requireWalletClient_accepts [OF assms] by (auto simp: mapWalletClientPublic_def dest: find_by_SomeD)

lemma route_spares:
  assumes "header q ''x-client-id'' \<noteq> Some j" and "\<And>s. spares j s (world s)"
  shows "spares j st (snd (handleClientRoute env st world q raw verb path query fresh now))"
proof -
  obtain r reg where a: "requireWalletClient (ce_auth env) (cs_registry st) q (Some raw) now = (r, reg)" by force
  have checked: "spares j st (st\<lparr>cs_registry := reg\<rparr>)"
    using wallet_identities_requireWalletClient [of "ce_auth env" "cs_registry st" q "Some raw" now]
    by (intro spares_same) (simp_all add: a challenge_of_def fun_eq_iff jobs_of_def devices_of_def)
  show ?thesis
  proof (cases r)
    case (Inr p)
    obtain c secret where p: "p = (c, secret)" by force
    then have "cl_id c \<noteq> j" using client_id_signed a Inr assms(1) by metis
    from handler_spares [OF this assms(2)] show ?thesis
      using checked spares_trans [OF checked] by (simp add: handleClientRoute_def clientCall_def Let_def a Inr p split: option.split)
  qed (simp add: handleClientRoute_def clientCall_def a checked)
qed

section \<open>Clients are kept apart\<close>

text \<open>Whatever requests signed as other clients than \<open>j\<close>, or not signed at all, do, also during waits.\<close>

inductive others_traffic :: "client_env \<Rightarrow> string \<Rightarrow> client_state \<Rightarrow> client_state \<Rightarrow> bool" for env j where
  others_idle: "others_traffic env j st st"
| others_request:
    "others_traffic env j st (snd (handleClientRoute env st1 world q raw verb path query fresh now))"
    if "others_traffic env j st st1" and "\<forall>s. others_traffic env j s (world s)" and "header q ''x-client-id'' \<noteq> Some j"

lemma traffic_spares: "others_traffic env j st st' \<Longrightarrow> spares j st st'"
proof (induction rule: others_traffic.induct)
  case (others_request st st1 world q raw verb path query fresh now)
  then have "spares j st1 (snd (handleClientRoute env st1 world q raw verb path query fresh now))" by (intro route_spares) simp_all
  with others_request show ?case using spares_trans by blast
qed (rule spares_refl)

text \<open>
  C40. Clients are kept apart. However requests that are not signed as client \<open>j\<close> interleave, also during
  their waits: the customers and challenges of \<open>j\<close> stay as they are, and so do the recovery jobs, devices
  and account of every wallet that no other client is bound to.
\<close>

theorem clients_kept_apart:
  assumes "others_traffic env j st st'"
    and "\<forall>r \<in> set (wallet_identities (cs_registry st')). wi_wallet_address r = lower w \<longrightarrow> wi_client_id r = j"
  shows "filter (\<lambda>r. wi_client_id r = j) (wallet_identities (cs_registry st')) = filter (\<lambda>r. wi_client_id r = j) (wallet_identities (cs_registry st)) \<and>
    (\<forall>k r. wch_client_id r = j \<longrightarrow> (getWalletChallenge (cs_challenges st') k = Some r) = (getWalletChallenge (cs_challenges st) k = Some r)) \<and>
    filter (\<lambda>r. rj_wallet_address r = lower w) (recovery_jobs (cs_db st')) = filter (\<lambda>r. rj_wallet_address r = lower w) (recovery_jobs (cs_db st)) \<and>
    filter (\<lambda>d. wdv_wallet_address d = lower w) (wallet_devices (cs_db st')) = filter (\<lambda>d. wdv_wallet_address d = lower w) (wallet_devices (cs_db st)) \<and>
    getWalletAccount (cs_db st') (lower w) = getWalletAccount (cs_db st) (lower w)"
proof -
  have s: "spares j st st'" using assms(1) by (rule traffic_spares)
  have only: "only_client j (lower w) st'" using assms(2) by (auto simp: only_client_def bindings_def)
  have "challenge_of j st' = challenge_of j st" using s by (simp add: spares_def)
  then have ch: "challenge_of j st' k = challenge_of j st k" for k by simp
  have "\<forall>k r. wch_client_id r = j \<longrightarrow> (getWalletChallenge (cs_challenges st') k = Some r) = (getWalletChallenge (cs_challenges st) k = Some r)"
  proof (intro allI impI)
    fix k and r :: wallet_challenge assume "wch_client_id r = j"
    then show "(getWalletChallenge (cs_challenges st') k = Some r) = (getWalletChallenge (cs_challenges st) k = Some r)"
      using ch [of k] by (auto simp: challenge_of_def split: option.splits if_splits)
  qed
  moreover have "jobs_of (lower w) st' = jobs_of (lower w) st \<and> devices_of (lower w) st' = devices_of (lower w) st \<and>
      getWalletAccount (cs_db st') (lower w) = getWalletAccount (cs_db st) (lower w)"
    using s only by (simp add: spares_def)
  ultimately show ?thesis using s by (simp add: spares_def jobs_of_def devices_of_def customers_of_def)
qed

end
