(* ===== verification/WalletClientUse.thy ===== *)
theory WalletClientUse
  imports WalletClientRoutes UserOpFeeProps
begin

text \<open>What a recovery through a client takes, and which prepared sends are accepted.\<close>

section \<open>Recovery\<close>

lemma consume_challengeD:
  assumes "consumeWalletChallenge t i (c, p) now = (Some used, t')"
  shows "\<exists>ch. getWalletChallenge t i = Some ch \<and> wch_client_id ch = c \<and> wch_purpose ch = p \<and> \<not> wch_consumed ch \<and> now \<le> wch_expires_at ch \<and>
    wch_challenge used = wch_challenge ch \<and> (\<forall>q t. fst (consumeWalletChallenge t' i q t) = None)"
proof -
  have "challenge_spent t' i" using client_challenges.attempt_ok [OF assms] by blast
  then have "\<forall>q t. fst (consumeWalletChallenge t' i q t) = None" using client_challenges.spent_fails by blast
  then show ?thesis using assms
    by (auto simp: consumeWalletChallenge_def Let_def find_consumed_challenge split: option.splits if_splits)
qed

lemma signed_challengeD:
  assumes "signed_challenge env c body cid p qx qy now st = (Inr u, st1)"
  shows "\<exists>ch a t. getWalletChallenge (cs_challenges st) cid = Some ch \<and> wch_client_id ch = cl_id c \<and> wch_purpose ch = p \<and>
    \<not> wch_consumed ch \<and> now \<le> wch_expires_at ch \<and> client_assertion_error env c a (wch_challenge ch) qx qy = None \<and>
    st1 = st\<lparr>cs_challenges := t\<rparr> \<and> (\<forall>q now. fst (consumeWalletChallenge t cid q now) = None)"
proof -
  obtain r t where t: "consumeWalletChallenge (cs_challenges st) cid (cl_id c, p) now = (r, t)" by force
  with assms obtain used a where r: "r = Some used" and a: "client_assertion_error env c a (wch_challenge used) qx qy = None"
    and st1: "st1 = st\<lparr>cs_challenges := t\<rparr>"
    by (auto simp: signed_challenge_def failed_def split: option.splits)
  from consume_challengeD [OF t [unfolded r]] a st1 show ?thesis by auto
qed

text \<open>
  A recovery through a client. A client gets a job that replaces the owner of a wallet by a key only
  when the wallet is bound to it for the e-mail it names and it vouches for the person; the key has
  signed a fresh recovery challenge of this client, which is used up. No guardian is asked.
\<close>

theorem client_recovery_attested:
  assumes "initiateRecovery env c wallet body i now st = (Inr job, st')"
  shows "\<exists>email cid qx qy ch a.
    clientOwnsWalletForEmail (cs_registry st) (cl_id c) email (lower wallet) \<and> kb_verified body \<and>
    getWalletChallenge (cs_challenges st) cid = Some ch \<and> wch_client_id ch = cl_id c \<and> wch_purpose ch = Wc_Recover \<and>
    \<not> wch_consumed ch \<and> now \<le> wch_expires_at ch \<and> client_assertion_error env c a (wch_challenge ch) qx qy = None \<and>
    rj_kind job = Job_Initiate \<and> rj_wallet_address job = lower wallet \<and> rj_new_qx job = Some qx \<and> rj_new_qy job = Some qy \<and>
    recovery_jobs (cs_db st') = recovery_jobs (cs_db st) @ [job] \<and>
    (\<forall>q t. fst (consumeWalletChallenge (cs_challenges st') cid q t) = None)"
proof -
  from assms obtain email cid qx qy cred u st1 where g: "kb_str body ''email'' = Some email"
    "clientOwnsWalletForEmail (cs_registry st) (cl_id c) email (lower wallet)" "kb_verified body" "kb_str body ''challengeId'' = Some cid"
    "normalizeHex32 (coalesce (kb_str body ''ownerQx'') (kb_str body ''newOwnerQx'')) = Some qx"
    "normalizeHex32 (coalesce (kb_str body ''ownerQy'') (kb_str body ''newOwnerQy'')) = Some qy" "kb_str body ''credentialId'' = Some cred"
    "signed_challenge env c body cid Wc_Recover qx qy now st = (Inr u, st1)"
    by (auto simp: initiateRecovery_def Let_def failed_def split: option.splits if_splits prod.splits sum.splits)
  let ?chain = "nullish (kb_str body ''chainId'') (uc_chain_id (ce_ops env))"
  let ?db = "snd (upsertWalletDevice (cs_db st1) (lower wallet) ?chain qx qy (nullish (kb_str body ''label'') ''Recovery device'') (Some cred) now)"
  obtain db where j: "createWalletRecoveryJob ?db i (lower wallet) ?chain Job_Initiate (Some qx) (Some qy) None now = Some (job, db)"
    "st' = st1\<lparr>cs_db := db\<rparr>"
    using assms g by (auto simp: initiateRecovery_def Let_def failed_def split: option.splits)
  have "recovery_jobs ?db = recovery_jobs (cs_db st1)" by (simp add: upsertWalletDevice_def Let_def)
  with j have job: "job = new_job i (lower wallet) ?chain Job_Initiate (Some qx) (Some qy) None now"
    "recovery_jobs (cs_db st') = recovery_jobs (cs_db st1) @ [job]"
    by (auto simp: createWalletRecoveryJob_def insert_unique_def split: if_splits)
  from signed_challengeD [OF g(8)] obtain ch a t where s: "getWalletChallenge (cs_challenges st) cid = Some ch" "wch_client_id ch = cl_id c"
    "wch_purpose ch = Wc_Recover" "\<not> wch_consumed ch" "now \<le> wch_expires_at ch" "client_assertion_error env c a (wch_challenge ch) qx qy = None"
    "st1 = st\<lparr>cs_challenges := t\<rparr>" "\<forall>q now. fst (consumeWalletChallenge t cid q now) = None" by blast
  have "cs_db st1 = cs_db st" "cs_challenges st' = t" by (simp_all add: s(7) j(2))
  with job s g(2,3) show ?thesis by (auto simp: new_job_def)
qed

section \<open>Sending\<close>

text \<open>What an answer of the preparation says.\<close>

lemma prepareSendD:
  assumes "prepareSend env c wallet body st = Inr (op, h, chain)"
  shows "\<exists>recipient amount k node. clientOwnsWallet (cs_registry st) (cl_id c) (lower wallet) \<and> kb_str body ''to'' = Some recipient \<and>
    kb_str body ''amount'' = Some amount \<and> send_chain env chain = Some k \<and> truthy (ck_fee_token k) \<and> truthy (uc_beneficiary (ce_ops env)) \<and>
    ck_node k = Some node \<and> build_send env node k (lower wallet) recipient amount body = Some op \<and> ep_hash node op = Some h"
  using assms by (auto simp: prepareSend_def Let_def failed_def split: option.splits if_splits)

lemma build_sendD:
  assumes "build_send env node k addr recipient amount body = Some op"
  shows "\<exists>n r calls cd a nonce. BigInt_text amount = Some n \<and> ab_address (ce_abi env) recipient = Some r \<and> ab_address (ce_abi env) addr = Some a \<and>
    buildSendBatchCalls (ce_abi env) (the (ck_fee_token k)) (the (uc_beneficiary (ce_ops env))) (uc_bundler_fee (ce_ops env)) r n
      (Some (send_token k body)) = Some calls \<and>
    encodeExecuteCallData (ce_abi env) calls = Some cd \<and> puo_call_data op = cd \<and> puo_sender op = a"
  using assms by (auto simp: build_send_def bind_eq_Some_conv buildPackedUserOperation_def split: option.splits)

text \<open>The fee check of a send with one further transfer, and what it takes from the account.\<close>

lemma built_send_total:
  assumes "abi_ok env" and "buildSendBatchCalls env (fc_fee_token c) (fc_beneficiary c) fee recipient n (Some (fc_fee_token c)) = Some calls"
    and "encodeExecuteCallData env calls = Some cd" and "fc_min_fee c \<le> fee" and "puo_call_data op = cd"
  shows "\<exists>d. validateUserOpFee env op c = Some (Inr d) \<and> total_out env (fc_fee_token c) (df_amount d) (df_main_calls d) = Some (fee + n)"
proof -
  have same: "buildSendBatchCalls env (fc_fee_token c) (fc_beneficiary c) fee recipient n None = Some calls"
    using assms(2) by (simp add: buildSendBatchCalls_def)
  from built_send_passes [OF assms(1) same assms(3-5)] obtain d where d: "validateUserOpFee env op c = Some (Inr d)" "df_amount d = fee"
    "validateSendUserOp env op c = Some (Inr (d, n, the (ab_address env recipient)))" by auto
  from d(1,3) obtain m r t where m: "df_main_calls d = [m]" "ab_address env (bc_target m) = Some t" "ab_address env (fc_fee_token c) = Some t"
    "decodeTransfer env (bc_data m) = Some (r, n)"
    by (auto simp: validateSendUserOp_def split: option.splits list.splits if_splits)
  from m(4) obtain x where "ab_erc20_tx env (bc_data m) = Some (''transfer'', x, n)"
    by (auto simp: decodeTransfer_def decodeErc20TransferCall_def split: if_splits option.splits)
  with d(1,2) m show ?thesis by (auto simp: Let_def)
qed

lemma str_trimmed: "str x = Some s \<Longrightarrow> str (Some s) = Some s"
  by (auto simp: str_def or_null_def split: option.splits if_splits)

lemma submit_refused:
  assumes "sb_user_op body = Some op" and "str (sb_hash body) = Some h" and "fc_beneficiary (feeConfigFromWallet conf) \<noteq> ''''"
    and "fc_fee_token (feeConfigFromWallet conf) \<noteq> ''''" and "validateUserOpFee env op (feeConfigFromWallet conf) = Some (Inl e)"
  shows "submit_checks env conf t body = Inl (Http_Error 400 (fee_reason_text e) None)"
  using assms by (simp add: submit_checks_def Let_def)

lemma submit_passes:
  assumes "sb_user_op body = Some op" and "str (sb_hash body) = Some h" and "fc_beneficiary (feeConfigFromWallet conf) \<noteq> ''''"
    and "fc_fee_token (feeConfigFromWallet conf) \<noteq> ''''" and "validateUserOpFee env op (feeConfigFromWallet conf) = Some (Inr d)"
    and "getWalletUserOpByHash t (lower h) = None" and "uc_rpc conf = Some cc" and "verifyUserOpHash (Some cc) op (lower h) = Some True"
    and "verifyTokenBalance env cc (puo_sender op) (feeConfigFromWallet conf) op = Some None" and "ab_address env (puo_sender op) = Some w"
    and "str (sb_chain_id body) = None"
  shows "submit_checks env conf t body = Inr (op, lower h, uc_chain_id conf, w, None)"
  using assms by (simp add: submit_checks_def Let_def)

text \<open>
  A prepared send is accepted. What the server has prepared for a client on the default chain, in the
  fee token, is queued when the client hands it in, signed and under the answered hash, if the
  account holds fee and amount and the hash is not in the queue.
\<close>

theorem prepared_send_accepted:
  assumes "prepareSend env c wallet body st = Inr (op, h, uc_chain_id (ce_ops env))" and "kb_str body ''token'' = None"
    and "find (\<lambda>k. ck_chain_id k = uc_chain_id (ce_ops env)) (ce_chains env) = None"
    and "ce_node env = Some node" and "uc_rpc (ce_ops env) = Some cc" and "\<forall>o1 s. cc_user_op_hash cc (o1\<lparr>puo_signature := s\<rparr>) = ep_hash node o1"
    and "abi_ok (ce_abi env)" and "\<forall>s a. ab_address (ce_abi env) s = Some a \<longrightarrow> lower a = lower s"
    and "kb_op body' = Some (op\<lparr>puo_signature := sig\<rparr>)" and "kb_str body' ''userOpHash'' = Some h" and "kb_text body' ''chainId'' = None"
    and "cc_balance cc (nullish (uc_fee_token (ce_ops env)) '''') (puo_sender op) = Some b"
    and "\<forall>amount n. kb_str body ''amount'' = Some amount \<longrightarrow> BigInt_text amount = Some n \<longrightarrow> uc_bundler_fee (ce_ops env) + n \<le> b"
    and "getWalletUserOpByHash (cs_ops st) h = None" and "find_by uo_id i (cs_ops st) = None"
  shows "\<exists>r. submitSend env c id wallet body' i now st = (Inr (201, r), st\<lparr>cs_ops := cs_ops st @ [r]\<rparr>) \<and>
    uo_hash r = lower h \<and> uo_user_op r = op\<lparr>puo_signature := sig\<rparr> \<and> uo_status r = Uop_Pending \<and> uo_wallet_address r = lower wallet"
proof -
  let ?c = "feeConfigFromWallet (ce_ops env)" and ?op = "op\<lparr>puo_signature := sig\<rparr>" and ?k = "\<lparr>ck_chain_id = uc_chain_id (ce_ops env),
    ck_fee_token = uc_fee_token (ce_ops env), ck_symbol = uc_fee_symbol (ce_ops env), ck_node = ce_node env\<rparr>"
  have "send_chain env (uc_chain_id (ce_ops env)) = Some ?k" using assms(3) by (simp add: send_chain_def coalesce_def)
  with prepareSendD [OF assms(1)] assms(4) obtain recipient amount where p: "clientOwnsWallet (cs_registry st) (cl_id c) (lower wallet)"
    "kb_str body ''amount'' = Some amount" "truthy (uc_fee_token (ce_ops env))" "truthy (uc_beneficiary (ce_ops env))"
    "build_send env node ?k (lower wallet) recipient amount body = Some op" "ep_hash node op = Some h" by auto
  have token: "send_token ?k body = the (uc_fee_token (ce_ops env))" using assms(2) by (simp add: send_token_def)
  obtain tok ben where conf: "uc_fee_token (ce_ops env) = Some tok" "tok \<noteq> ''''" "uc_beneficiary (ce_ops env) = Some ben" "ben \<noteq> ''''"
    using p(3,4) by (auto simp: truthy_def split: option.splits)
  then have c: "fc_fee_token ?c = tok" "fc_beneficiary ?c = ben" "fc_min_fee ?c = uc_bundler_fee (ce_ops env)"
    by (simp_all add: feeConfigFromWallet_def)
  from build_sendD [OF p(5)] obtain n r calls cd a where b: "BigInt_text amount = Some n" "ab_address (ce_abi env) (lower wallet) = Some a"
    "buildSendBatchCalls (ce_abi env) (fc_fee_token ?c) (fc_beneficiary ?c) (uc_bundler_fee (ce_ops env)) r n (Some (fc_fee_token ?c)) = Some calls"
    "encodeExecuteCallData (ce_abi env) calls = Some cd" "puo_call_data ?op = cd" "puo_sender ?op = a"
    using conf c token by auto
  from built_send_total [OF assms(7) b(3,4) _ b(5)] c(3) obtain d where d: "validateUserOpFee (ce_abi env) ?op ?c = Some (Inr d)"
    "total_out (ce_abi env) (fc_fee_token ?c) (df_amount d) (df_main_calls d) = Some (uc_bundler_fee (ce_ops env) + n)" by auto
  have sender: "ab_address (ce_abi env) a = Some a" "lower a = lower wallet"
    using abi_okD(1) [OF assms(7) b(2)] assms(8) [rule_format, OF b(2)] by simp_all
  have "\<not> b < uc_bundler_fee (ce_ops env) + n" using assms(13) p(2) b(1) by auto
  moreover have "cc_balance cc (fc_fee_token ?c) (puo_sender ?op) = Some b" using assms(12) by (simp add: feeConfigFromWallet_def)
  ultimately have bal: "verifyTokenBalance (ce_abi env) cc (puo_sender ?op) ?c ?op = Some None"
    unfolding verifyTokenBalance_def using d by simp
  have hash: "verifyUserOpHash (Some cc) ?op (lower h) = Some True" using assms(6) p(6) by (simp add: verifyUserOpHash_def)
  have sh: "str (Some h) = Some h" using assms(10) str_trimmed by (auto simp: kb_str_def)
  have none: "getWalletUserOpByHash (cs_ops st) (lower h) = None" "find_by uo_hash (lower h) (cs_ops st) = None"
    using assms(14) by (simp_all add: getWalletUserOpByHash_def)
  let ?body = "\<lparr>sb_user_op = Some ?op, sb_hash = Some h, sb_chain_id = kb_text body' ''chainId''\<rparr>"
  have "submit_checks (ce_abi env) (ce_ops env) (cs_ops st) ?body = Inr (?op, lower h, uc_chain_id (ce_ops env), a, None)"
  proof (rule submit_passes)
    show "str (sb_chain_id ?body) = None" using assms(11) by (simp add: str_def or_null_def)
    show "ab_address (ce_abi env) (puo_sender ?op) = Some a" using sender(1) b(6) by simp
  qed (use sh c conf d(1) none(1) assms(5) hash bal in simp_all)
  then have "submitUserOpRoute (ce_abi env) (ce_ops env) (cs_ops st) (cs_ops st) ?body i now =
      (Inr (201, new_user_op i a (uc_chain_id (ce_ops env)) (lower h) ?op now),
       cs_ops st @ [new_user_op i a (uc_chain_id (ce_ops env)) (lower h) ?op now])"
    using none assms(15) by (simp add: submitUserOpRoute_def createWalletUserOp_def)
  moreover have "ab_address (ce_abi env) (puo_sender ?op) = Some a" using sender(1) b(6) by simp
  ultimately have "submitSend env c id wallet body' i now st =
      (Inr (201, new_user_op i a (uc_chain_id (ce_ops env)) (lower h) ?op now),
       st\<lparr>cs_ops := cs_ops st @ [new_user_op i a (uc_chain_id (ce_ops env)) (lower h) ?op now]\<rparr>)"
    using assms(9,10) p(1) sender(2) by (simp add: submitSend_def Let_def)
  then show ?thesis using sender(2) by (simp add: new_user_op_def)
qed

text \<open>
  A send prepared for another chain is refused. The preparation takes fee token and node of the chain
  that is named, the submission those of the default chain: what was prepared for a chain with
  another fee token is always refused, although nothing was changed.
\<close>

theorem other_chain_refused:
  assumes "prepareSend env c wallet body st = Inr (op, h, chain)" and "send_chain env chain = Some k"
    and "uc_fee_token (ce_ops env) = Some tok" and "ab_address (ce_abi env) tok = Some t" and "ab_address (ce_abi env) (the (ck_fee_token k)) \<noteq> Some t"
    and "tok \<noteq> ''''" and "abi_ok (ce_abi env)" and "\<forall>s a. ab_address (ce_abi env) s = Some a \<longrightarrow> lower a = lower s"
    and "kb_op body' = Some (op\<lparr>puo_signature := sig\<rparr>)" and "kb_str body' ''userOpHash'' = Some h"
  shows "fst (submitSend env c world wallet body' i now st) = Inl (Http_Error 400 ''wrong_fee_token'' None)"
proof -
  let ?c = "feeConfigFromWallet (ce_ops env)" and ?op = "op\<lparr>puo_signature := sig\<rparr>"
  from prepareSendD [OF assms(1)] assms(2) obtain recipient amount node where p: "clientOwnsWallet (cs_registry st) (cl_id c) (lower wallet)"
    "truthy (uc_beneficiary (ce_ops env))" "build_send env node k (lower wallet) recipient amount body = Some op" by auto
  obtain ben where conf: "uc_beneficiary (ce_ops env) = Some ben" "ben \<noteq> ''''" using p(2) by (auto simp: truthy_def split: option.splits)
  from build_sendD [OF p(3)] obtain n r calls cd a where b: "ab_address (ce_abi env) (lower wallet) = Some a"
    "buildSendBatchCalls (ce_abi env) (the (ck_fee_token k)) ben (uc_bundler_fee (ce_ops env)) r n (Some (send_token k body)) = Some calls"
    "encodeExecuteCallData (ce_abi env) calls = Some cd" "puo_call_data ?op = cd" "puo_sender ?op = a"
    using conf by auto
  from b(2) obtain f s where f: "calls = [f, s]" "token_call (ce_abi env) (the (ck_fee_token k)) ben (uc_bundler_fee (ce_ops env)) = Some f"
    by (auto simp: buildSendBatchCalls_def buildFeeTransferCall_def split: option.splits)
  from token_call_read [OF assms(7) f(2)] obtain t' where t': "ab_address (ce_abi env) (the (ck_fee_token k)) = Some t'"
    "ab_address (ce_abi env) t' = Some t'" "bc_target f = t'" by metis
  have "validateUserOpFee (ce_abi env) ?op ?c = Some (Inl Wrong_Fee_Token)"
    using decode_built_batch(1) [OF assms(7) b(3)] b(4) f(1) t' assms(3-5)
    by (simp add: validateUserOpFee_def validateFeeBatch_def feeConfigFromWallet_def)
  moreover have "fc_beneficiary ?c \<noteq> ''''" "fc_fee_token ?c \<noteq> ''''" using conf assms(3,6) by (simp_all add: feeConfigFromWallet_def)
  moreover have "str (Some h) = Some h" using assms(10) str_trimmed by (auto simp: kb_str_def)
  ultimately have "submit_checks (ce_abi env) (ce_ops env) t0 \<lparr>sb_user_op = Some ?op, sb_hash = Some h, sb_chain_id = kb_text body' ''chainId''\<rparr> =
      Inl (Http_Error 400 ''wrong_fee_token'' None)" for t0
    using submit_refused [of _ ?op h "ce_ops env" "ce_abi env" Wrong_Fee_Token t0] by (simp add: fee_reason_text_def)
  moreover have "ab_address (ce_abi env) (puo_sender ?op) = Some a" using abi_okD(1) [OF assms(7) b(1)] b(5) by simp
  moreover have "lower a = lower wallet" using assms(8) [rule_format, OF b(1)] by simp
  ultimately show ?thesis
    using p(1) assms(9,10) by (simp add: submitSend_def Let_def case_prod_beta submitUserOpRoute_def plain_http_def)
qed

end
