(* ===== verification/WalletClientDemo.thy ===== *)
theory WalletClientDemo
  imports WalletClientProps WalletClientUse RecoveryDemo UserOpRouteDemo
begin

text \<open>A shop with one customer: the witnesses of the theorems on the clients of the wallet service.\<close>

definition shop_node :: entry_point where
  "shop_node = \<lparr>ep_nonce = (\<lambda>_. Some 0), ep_hash = (\<lambda>_. Some send_hash)\<rparr>"

definition shop_calls :: chain_calls where
  "shop_calls = \<lparr>cc_user_op_hash = (\<lambda>_. Some send_hash), cc_balance = (\<lambda>_ _. Some 1000)\<rparr>"

definition shop_env :: client_env where
  "shop_env =
     \<lparr>ce_auth = bundler_env, ce_webauthn = demo_webauthn, ce_abi = demo_abi,
      ce_parse = (\<lambda>s. Some (empty_client_body\<lparr>kb_text := [''purpose'' \<mapsto> s]\<rparr>)), ce_admin_key = ''a'', ce_sweeper_key = ''s'',
      ce_ops = send_conf\<lparr>uc_bundler_fee := 15, uc_rpc := Some shop_calls\<rparr>,
      ce_chains = [\<lparr>ck_chain_id = ''8'', ck_fee_token = Some ''5'', ck_symbol = ''EUR'', ck_node = Some shop_node\<rparr>],
      ce_node = Some shop_node, ce_pending = None, ce_factory = None, ce_implementation = None, ce_derive_salt = (@),
      ce_predict = (\<lambda>_ _ _. None)\<rparr>"

definition shop_row :: wallet_client where
  "shop_row =
     \<lparr>wc_id = ''c1'', wc_label = ''shop'', wc_rp_id = ''B'', wc_origins = None, wc_hmac_secret = ''k'', wc_enabled = True,
      wc_created_at = 0, wc_updated_at = 0, wc_last_seen_at = None\<rparr>"

definition shop :: wallet_client_public where
  "shop = mapWalletClientPublic shop_row"

definition shop_customer :: "string \<Rightarrow> wallet_identity" where
  "shop_customer c =
     \<lparr>wi_client_id = c, wi_email = ''b'', wi_wallet_address = ''7'', wi_contact_json = None, wi_created_at = 0, wi_updated_at = 0\<rparr>"

definition shop_state :: "string \<Rightarrow> client_state" where
  "shop_state c =
     \<lparr>cs_registry = empty_registry\<lparr>wallet_clients := [shop_row], wallet_identities := [shop_customer c]\<rparr>,
      cs_challenges = [\<lparr>wch_id = ''c'', wch_client_id = ''c1'', wch_purpose = Wc_Recover, wch_challenge = challengeToBase64Url [1, 2, 3],
        wch_email = None, wch_wallet_address = None, wch_consumed = False, wch_expires_at = 1000, wch_created_at = 0\<rparr>],
      cs_db = demo_db0, cs_ops = []\<rparr>"

section \<open>Kept apart\<close>

definition shop_request :: http_request where
  "shop_request =
     \<lparr>hr_method = Some ''POST'', hr_url = Some ''/p'',
      hr_headers = signClientRequest bundler_env ''c1'' ''k'' ''POST'' ''/p'' (Some ''create'') ''12345'' ''n1''\<rparr>"

definition shop_served :: "client_answer client_reply" where
  "shop_served =
     handleClientRoute shop_env (shop_state ''j'') id shop_request ''create'' Verb_Post Cp_Challenges (None, None) (''h1'', ''x'') 2000"

lemma shop_request_served: "is_ok (fst shop_served)"
  by code_simp

theorem clients_kept_apart_witness:
  "filter (\<lambda>r. wi_client_id r = ''j'') (wallet_identities (cs_registry (snd shop_served))) = [shop_customer ''j'']"
proof -
  have "others_traffic shop_env ''j'' (shop_state ''j'') (snd shop_served)"
    unfolding shop_served_def
    by (rule others_traffic.others_request)
      (simp_all add: others_traffic.others_idle shop_request_def signClientRequest_def header_def Let_def)
  moreover have "map wi_client_id (wallet_identities (cs_registry (snd shop_served))) = [''j'']" by code_simp
  then have "\<forall>r \<in> set (wallet_identities (cs_registry (snd shop_served))). wi_wallet_address r = lower ''7'' \<longrightarrow> wi_client_id r = ''j''" by auto
  ultimately show ?thesis using clients_kept_apart [of shop_env "''j''" "shop_state ''j''" "snd shop_served" "''7''"]
    by (simp add: shop_state_def shop_customer_def)
qed

section \<open>Recovery\<close>

definition shop_recovery :: client_body where
  "shop_recovery = empty_client_body
     \<lparr>kb_text := [''email'' \<mapsto> ''b'', ''challengeId'' \<mapsto> ''c'', ''ownerQx'' \<mapsto> demo_key, ''ownerQy'' \<mapsto> demo_key, ''credentialId'' \<mapsto> ''k''],
      kb_assertion := Some demo_assertion, kb_verified := True\<rparr>"

lemma shop_texts: "str (Some ''b'') = Some ''b''" "str (Some ''c'') = Some ''c''" "str (Some ''k'') = Some ''k''" "lower ''7'' = ''7''"
    "trim ''b'' = ''b''" "lower ''b'' = ''b''" "str None = None"
  by code_simp+

lemma shop_assertion: "client_assertion_error shop_env shop demo_assertion (challengeToBase64Url [1, 2, 3]) demo_key demo_key = None"
  using demo_assertion_ok
  by (simp add: client_assertion_error_def shop_env_def shop_def mapWalletClientPublic_def shop_row_def demo_options_def)

lemma shop_recovers: "\<exists>job. fst (initiateRecovery shop_env shop ''7'' shop_recovery ''j'' 10 (shop_state ''c1'')) = Inr job"
proof -
  have key: "str (Some demo_key) = Some demo_key" by (simp add: str_def or_null_def)
  have owns: "clientOwnsWalletForEmail (cs_registry (shop_state ''c1'')) (cl_id shop) ''b'' ''7''"
    by (simp add: clientOwnsWalletForEmail_def getWalletIdentity_def shop_state_def shop_customer_def wi_key_def find_by_def shop_def
        mapWalletClientPublic_def shop_row_def normalizeEmail_def shop_texts)
  have "\<exists>st1. signed_challenge shop_env shop shop_recovery ''c'' Wc_Recover demo_key demo_key 10 (shop_state ''c1'') = (Inr (), st1) \<and>
      cs_db st1 = demo_db0"
    using shop_assertion
    by (simp add: signed_challenge_def consumeWalletChallenge_def shop_state_def getWalletChallenge_def find_by_def shop_def
        mapWalletClientPublic_def shop_row_def changes_def update_where_def shop_recovery_def)
  then obtain st1 where s: "signed_challenge shop_env shop shop_recovery ''c'' Wc_Recover demo_key demo_key 10 (shop_state ''c1'') = (Inr (), st1)"
    "cs_db st1 = demo_db0" by blast
  have body: "kb_str shop_recovery ''email'' = Some ''b''" "kb_str shop_recovery ''challengeId'' = Some ''c''"
    "kb_str shop_recovery ''ownerQx'' = Some demo_key" "kb_str shop_recovery ''ownerQy'' = Some demo_key"
    "kb_str shop_recovery ''credentialId'' = Some ''k''" "kb_verified shop_recovery"
    by (simp_all add: kb_str_def shop_recovery_def shop_texts key)
  have jobs: "recovery_jobs (snd (upsertWalletDevice demo_db0 w ch qx qy l cr now)) = []" for w ch qx qy l cr now
    by (simp add: upsertWalletDevice_def Let_def demo_db0_def)
  show ?thesis
    using owns body by (simp add: initiateRecovery_def Let_def shop_texts coalesce_def s createWalletRecoveryJob_def insert_unique_def jobs)
qed

theorem client_recovery_attested_witness:
  "\<exists>job cid ch. fst (initiateRecovery shop_env shop ''7'' shop_recovery ''j'' 10 (shop_state ''c1'')) = Inr job \<and>
    getWalletChallenge (cs_challenges (shop_state ''c1'')) cid = Some ch \<and> \<not> wch_consumed ch \<and> rj_kind job = Job_Initiate"
proof -
  obtain job st' where "initiateRecovery shop_env shop ''7'' shop_recovery ''j'' 10 (shop_state ''c1'') = (Inr job, st')"
    using shop_recovers by (metis prod.collapse)
  from client_recovery_attested [OF this] this show ?thesis by fastforce
qed

section \<open>Sending\<close>

definition shop_send :: "string \<Rightarrow> client_body" where
  "shop_send chain = empty_client_body\<lparr>kb_text := [''to'' \<mapsto> ''3'', ''amount'' \<mapsto> ''700'', ''chainId'' \<mapsto> chain]\<rparr>"

definition shop_submit :: "packed_user_op \<Rightarrow> client_body" where
  "shop_submit op = empty_client_body\<lparr>kb_text := [''userOpHash'' \<mapsto> send_hash], kb_op := Some (op\<lparr>puo_signature := ''s''\<rparr>)\<rparr>"

lemma send_texts: "str (Some ''3'') = Some ''3''" "str (Some ''700'') = Some ''700''" "str (Some ''7'') = Some ''7''" "str (Some ''8'') = Some ''8''"
    "BigInt_text ''700'' = Some 700" "ab_address demo_abi ''3'' = Some ''3''" "ab_address demo_abi ''7'' = Some ''7''"
    "ab_address demo_abi ''5'' = Some ''5''" "ab_address demo_abi ''1'' = Some ''1''" "str (Some send_hash) = Some send_hash"
  by code_simp+

lemma demo_addresses: "ab_address demo_abi s = Some a \<Longrightarrow> lower a = lower s"
  by (simp add: demo_abi_def split: if_splits)

lemma shop_owns: "clientOwnsWallet (cs_registry (shop_state ''c1'')) (cl_id shop) ''7''"
  by (simp add: clientOwnsWallet_def shop_state_def shop_customer_def shop_def mapWalletClientPublic_def shop_row_def shop_texts)

lemma built_calls:
  assumes "digits t"
  shows "\<exists>calls cd. buildSendBatchCalls demo_abi t ''2'' 15 ''3'' 700 (Some t) = Some calls \<and> encodeExecuteCallData demo_abi calls = Some cd"
proof -
  have ok: "newline \<notin> set (TRANSFER_SELECTOR @ a @ CHR ''x'' # dec k)" if "newline \<notin> set a" for a k
    using that dec_no_newline by (simp add: TRANSFER_SELECTOR_def)
  have "newline \<notin> set t" using assms by (auto simp: digits_def list_all_iff dest: digit_not_special)
  moreover have "digits ''2''" "digits ''3''" by code_simp+
  ultimately show ?thesis using assms ok [of "''2''"] ok [of "''3''"]
    by (simp add: buildSendBatchCalls_def token_call_def buildFeeTransferCall_def encodeErc20Transfer_def
      encodeExecuteCallData_def encodeBatch_def demo_abi_def)
qed

lemma shop_prepares:
  "\<exists>op. prepareSend shop_env shop ''7'' (shop_send ''7'') (shop_state ''c1'') = Inr (op, send_hash, ''7'')"
  "\<exists>op. prepareSend shop_env shop ''7'' (shop_send ''8'') (shop_state ''c1'') = Inr (op, send_hash, ''8'')"
proof -
  have "digits ''1''" "digits ''5''" by code_simp+
  from this [THEN built_calls] show "\<exists>op. prepareSend shop_env shop ''7'' (shop_send ''7'') (shop_state ''c1'') = Inr (op, send_hash, ''7'')"
    "\<exists>op. prepareSend shop_env shop ''7'' (shop_send ''8'') (shop_state ''c1'') = Inr (op, send_hash, ''8'')"
    using shop_owns
    by (auto simp: prepareSend_def Let_def shop_texts shop_send_def kb_str_def send_texts empty_client_body_def send_chain_def shop_env_def
        send_conf_def coalesce_def build_send_def shop_node_def send_token_def buildPackedUserOperation_def)
qed

theorem prepared_send_accepted_witness:
  "\<exists>op r. fst (submitSend shop_env shop id ''7'' (shop_submit op) ''u1'' 20 (shop_state ''c1'')) = Inr (201, r) \<and> uo_status r = Uop_Pending"
proof -
  obtain op where op: "prepareSend shop_env shop ''7'' (shop_send ''7'') (shop_state ''c1'') = Inr (op, send_hash, ''7'')"
    using shop_prepares(1) by blast
  have "\<exists>r. submitSend shop_env shop id ''7'' (shop_submit op) ''u1'' 20 (shop_state ''c1'') =
      (Inr (201, r), (shop_state ''c1'')\<lparr>cs_ops := cs_ops (shop_state ''c1'') @ [r]\<rparr>) \<and>
    uo_hash r = lower send_hash \<and> uo_user_op r = op\<lparr>puo_signature := ''s''\<rparr> \<and> uo_status r = Uop_Pending \<and> uo_wallet_address r = lower ''7''"
  proof (rule prepared_send_accepted [where body = "shop_send ''7''" and node = shop_node and cc = shop_calls and b = 1000])
    show "\<forall>s a. ab_address (ce_abi shop_env) s = Some a \<longrightarrow> lower a = lower s" using demo_addresses by (simp add: shop_env_def)
  qed (use op demo_abi_ok in \<open>simp_all add: shop_env_def send_conf_def shop_send_def shop_submit_def kb_str_def send_texts shop_texts
      empty_client_body_def shop_node_def shop_calls_def shop_state_def getWalletUserOpByHash_def find_by_def\<close>)
  then obtain r where r: "submitSend shop_env shop id ''7'' (shop_submit op) ''u1'' 20 (shop_state ''c1'') =
      (Inr (201, r), (shop_state ''c1'')\<lparr>cs_ops := cs_ops (shop_state ''c1'') @ [r]\<rparr>)" "uo_status r = Uop_Pending" by blast
  show ?thesis by (intro exI [of _ op] exI [of _ r]) (simp add: r)
qed

theorem other_chain_refused_witness:
  "\<exists>op. fst (submitSend shop_env shop id ''7'' (shop_submit op) ''u1'' 20 (shop_state ''c1'')) = Inl (Http_Error 400 ''wrong_fee_token'' None)"
proof -
  obtain op where op: "prepareSend shop_env shop ''7'' (shop_send ''8'') (shop_state ''c1'') = Inr (op, send_hash, ''8'')"
    using shop_prepares(2) by blast
  have "fst (submitSend shop_env shop id ''7'' (shop_submit op) ''u1'' 20 (shop_state ''c1'')) = Inl (Http_Error 400 ''wrong_fee_token'' None)"
  proof (rule other_chain_refused [OF op, where k = "hd (ce_chains shop_env)" and tok = "''1''" and t = "''1''"])
    show "\<forall>s a. ab_address (ce_abi shop_env) s = Some a \<longrightarrow> lower a = lower s" using demo_addresses by (simp add: shop_env_def)
  qed (use demo_abi_ok in \<open>simp_all add: shop_env_def send_conf_def send_chain_def coalesce_def send_texts shop_submit_def kb_str_def
      empty_client_body_def\<close>)
  then show ?thesis by blast
qed

end
