(* ===== verification/WorkerCalls.thy ===== *)
theory WorkerCalls
  imports Prelude
begin

text \<open>
  What the workers have in common: calls of the server and of nodes, one after the other, each of
  which may fail. Server, nodes and clock are one state \<open>'s\<close>, which a call may change; the
  transactions a worker sends are logged.
\<close>

type_synonym ('t, 's) worker_state = "'t list \<times> 's"

text \<open>A step ends with a result or with the text of an error.\<close>

type_synonym ('a, 't, 's) effect = "(string + 'a) \<times> ('t, 's) worker_state"

definition andThen :: "('a, 't, 's) effect \<Rightarrow> ('a \<Rightarrow> ('t, 's) worker_state \<Rightarrow> ('b, 't, 's) effect) \<Rightarrow> ('b, 't, 's) effect" where
  "andThen r k = (case r of (Inl e, s) \<Rightarrow> (Inl e, s) | (Inr x, s) \<Rightarrow> k x s)"

definition otherwise :: "('a, 't, 's) effect \<Rightarrow> (string \<Rightarrow> ('t, 's) worker_state \<Rightarrow> ('a, 't, 's) effect) \<Rightarrow> ('a, 't, 's) effect" where
  "otherwise r k = (case r of (Inl e, s) \<Rightarrow> k e s | (Inr x, s) \<Rightarrow> (Inr x, s))"

text \<open>\<open>try r finally k\<close>, for a \<open>k\<close> that does not fail.\<close>

definition finally_do :: "('a, 't, 's) effect \<Rightarrow> (('t, 's) worker_state \<Rightarrow> ('t, 's) worker_state) \<Rightarrow> ('a, 't, 's) effect" where
  "finally_do r k = (fst r, k (snd r))"

definition throw_error :: "string \<Rightarrow> ('t, 's) worker_state \<Rightarrow> ('a, 't, 's) effect" where
  "throw_error e st = (Inl e, st)"

definition ask :: "('s \<Rightarrow> 'a option \<times> 's) \<Rightarrow> ('t, 's) worker_state \<Rightarrow> ('a, 't, 's) effect" where
  "ask f st = (let (r, s) = f (snd st) in (case r of None \<Rightarrow> Inl ''call failed'' | Some x \<Rightarrow> Inr x, (fst st, s)))"

text \<open>An answer that may be missing, and one that cannot fail.\<close>

definition ask_maybe :: "('s \<Rightarrow> 'a option \<times> 's) \<Rightarrow> ('t, 's) worker_state \<Rightarrow> ('a option, 't, 's) effect" where
  "ask_maybe f st = (let (r, s) = f (snd st) in (Inr r, (fst st, s)))"

definition tell :: "('s \<Rightarrow> bool \<times> 's) \<Rightarrow> ('t, 's) worker_state \<Rightarrow> (unit, 't, 's) effect" where
  "tell f st = (let (ok, s) = f (snd st) in (if ok then Inr () else Inl ''call failed'', (fst st, s)))"

text \<open>A transaction is logged when it is handed to the node, accepted or not.\<close>

definition transact :: "('t \<Rightarrow> 's \<Rightarrow> (string + 'a) \<times> 's) \<Rightarrow> 't \<Rightarrow> ('t, 's) worker_state \<Rightarrow> ('a, 't, 's) effect" where
  "transact f tx st = (let (r, s) = f tx (snd st) in (r, (fst st @ [tx], s)))"

section \<open>What steps keep\<close>

text \<open>A relation of the states before and after that is reflexive and transitive is kept by steps in sequence.\<close>

locale step_relation =
  fixes P :: "('t, 's) worker_state \<Rightarrow> ('t, 's) worker_state \<Rightarrow> bool"
  assumes refl: "P st st" and trans: "P st st1 \<Longrightarrow> P st1 st2 \<Longrightarrow> P st st2"
begin

lemma and_then: "P st (snd r) \<Longrightarrow> (\<And>x st'. P st' (snd (k x st'))) \<Longrightarrow> P st (snd (andThen r k))"
  by (cases r; cases "fst r") (auto simp: andThen_def intro: trans)

lemma otherwise_step: "P st (snd r) \<Longrightarrow> (\<And>x st'. P st' (snd (k x st'))) \<Longrightarrow> P st (snd (otherwise r k))"
  by (cases r; cases "fst r") (auto simp: otherwise_def intro: trans)

lemma finally_step: "P st (snd r) \<Longrightarrow> (\<And>st'. P st' (k st')) \<Longrightarrow> P st (snd (finally_do r k))"
  unfolding finally_do_def snd_conv by (rule trans)

lemma ended: "P st (snd (Inr x, st))" "P st (snd (throw_error e st))"
  by (simp_all add: refl throw_error_def)

lemma asked:
  "(\<And>st. P st (fst st, snd (f (snd st)))) \<Longrightarrow> P st (snd (ask f st))"
  "(\<And>st. P st (fst st, snd (f (snd st)))) \<Longrightarrow> P st (snd (ask_maybe f st))"
  by (simp_all add: ask_def ask_maybe_def case_prod_beta)

lemma told: "P st (fst st, snd (f (snd st))) \<Longrightarrow> P st (snd (tell f st))"
  by (simp add: tell_def case_prod_beta)

lemma transacted: "P st (fst st @ [tx], snd (f tx (snd st))) \<Longrightarrow> P st (snd (transact f tx st))"
  by (simp add: transact_def case_prod_beta)

end

section \<open>What is sent\<close>

definition sent_only :: "('t \<Rightarrow> bool) \<Rightarrow> 't list \<Rightarrow> 't list \<Rightarrow> bool" where
  "sent_only A txs txs' = (\<exists>sent. txs' = txs @ sent \<and> list_all A sent)"

lemma sent_only_same: "sent_only A txs txs"
  by (simp add: sent_only_def)

lemma sent_only_trans: "sent_only A txs txs1 \<Longrightarrow> sent_only A txs1 txs2 \<Longrightarrow> sent_only A txs txs2"
  by (force simp: sent_only_def)

lemma sent_only_one: "A tx \<Longrightarrow> sent_only A txs (txs @ [tx])"
  by (simp add: sent_only_def)

lemma sent_only_mono: "sent_only A txs txs' \<Longrightarrow> (\<And>tx. A tx \<Longrightarrow> B tx) \<Longrightarrow> sent_only B txs txs'"
  by (auto simp: sent_only_def list_all_iff)

interpretation sending: step_relation "\<lambda>st st'. sent_only A (fst st) (fst st')" for A :: "'t \<Rightarrow> bool"
  by unfold_locales (auto simp: sent_only_same intro: sent_only_trans)

text \<open>Steps that know what a call has answered.\<close>

definition sends :: "('t \<Rightarrow> bool) \<Rightarrow> ('t, 's) worker_state \<Rightarrow> ('a, 't, 's) effect \<Rightarrow> bool" where
  "sends A st r = sent_only A (fst st) (fst (snd r))"

lemma sends_ask:
  assumes "\<And>s x st'. fst (f s) = Some x \<Longrightarrow> sends A st' (k x st')"
  shows "sends A st (andThen (ask f st) k)"
proof -
  obtain r s where f: "f (snd st) = (r, s)" by (cases "f (snd st)")
  show ?thesis
  proof (cases r)
    case (Some x)
    then show ?thesis using assms [of "snd st" x "(fst st, s)"] by (simp add: sends_def ask_def f andThen_def)
  qed (simp add: sends_def ask_def f andThen_def sent_only_same)
qed

lemma sends_then: "sends A st r \<Longrightarrow> (\<And>x st'. sends A st' (k x st')) \<Longrightarrow> sends A st (andThen r k)"
  unfolding sends_def by (rule sending.and_then)

lemma sends_otherwise: "sends A st r \<Longrightarrow> (\<And>x st'. sends A st' (k x st')) \<Longrightarrow> sends A st (otherwise r k)"
  unfolding sends_def by (rule sending.otherwise_step)

lemma sends_if: "(c \<Longrightarrow> sends A st r) \<Longrightarrow> (\<not> c \<Longrightarrow> sends A st r') \<Longrightarrow> sends A st (if c then r else r')"
  by simp

lemma sends_case: "(v = None \<Longrightarrow> sends A st r) \<Longrightarrow> (\<And>x. v = Some x \<Longrightarrow> sends A st (g x)) \<Longrightarrow> sends A st (case v of None \<Rightarrow> r | Some x \<Rightarrow> g x)"
  by (cases v) simp_all

lemma sends_ended: "sends A st (Inr x, st)" "sends A st (throw_error e st)"
  unfolding sends_def by (rule sending.ended)+

lemma sends_told: "sends A st (tell f st)"
  by (simp add: sends_def tell_def case_prod_beta sent_only_same)

lemma sends_reported: "sends A st r \<Longrightarrow> sends A st (Inr x, snd r)"
  by (simp add: sends_def)

lemma sends_tx: "A tx \<Longrightarrow> sends A st (transact f tx st)"
  by (simp add: sends_def transact_def case_prod_beta sent_only_one)

end
