(* ===== verification/DeployerWorker.thy ===== *)
theory DeployerWorker
  imports WorkerCalls BundlerWorker RecoveryTables
begin

text \<open>
  The wallet deployer (commerce/wallet-deployer/worker.ts): it deploys the wallets the server lists
  and works off the jobs of wallet recovery. Server, node and clock are one state \<open>'s\<close> (\<open>WorkerCalls\<close>).
\<close>

section \<open>Calls\<close>

datatype deployer_tx =
    Tx_Create_Account string string
  | Tx_Initiate_Restore address string string string
  | Tx_Execute_Restore address string
  | Tx_Cancel_Restore address string string
  | Tx_Initiate_Owner address address string string
  | Tx_Execute_Owner address address
  | Tx_Cancel_Owner address string

record activation_report =
  ar_funded :: "bool option"
  ar_deployed :: "bool option"
  ar_error :: "string option"

text \<open>
  Calls of the server, then of the node; the answer \<open>None\<close> (\<open>Some\<close> with the text for \<open>dw_track\<close>, \<open>False\<close>
  for the two reports on accounts) is an exception. \<open>dw_gate\<close> is what the identity store says of an
  identity: whether it exists and how many methods it has. A transaction is sent and waited for; it
  gives its hash or the text of an error. \<open>dw_encode\<close> is encodeWebAuthnSignatureFromJson after
  JSON.parse, \<open>dw_address_of\<close> the address of a private key.
\<close>

record 's deployer_world =
  dw_stopped :: "'s \<Rightarrow> bool"
  dw_jobs :: "string \<Rightarrow> job_status \<Rightarrow> 's \<Rightarrow> recovery_job list option \<times> 's"
  dw_claim :: "string \<Rightarrow> int \<Rightarrow> string \<Rightarrow> 's \<Rightarrow> recovery_job option \<times> 's"
  dw_track :: "string \<Rightarrow> job_track \<Rightarrow> 's \<Rightarrow> string option \<times> 's"
  dw_account :: "address \<Rightarrow> 's \<Rightarrow> wallet_account option option \<times> 's"
  dw_undeployed :: "string \<Rightarrow> 's \<Rightarrow> wallet_account list option \<times> 's"
  dw_activation :: "address \<Rightarrow> activation_report \<Rightarrow> 's \<Rightarrow> bool \<times> 's"
  dw_deployed :: "address \<Rightarrow> string \<Rightarrow> 's \<Rightarrow> bool \<times> 's"
  dw_predict :: "address \<Rightarrow> string \<Rightarrow> 's \<Rightarrow> address option \<times> 's"
  dw_has_code :: "address \<Rightarrow> 's \<Rightarrow> bool option \<times> 's"
  dw_balance :: "address \<Rightarrow> address \<Rightarrow> 's \<Rightarrow> int option \<times> 's"
  dw_gate :: "address \<Rightarrow> string \<Rightarrow> 's \<Rightarrow> (bool \<times> nat) option \<times> 's"
  dw_operator :: "address \<Rightarrow> 's \<Rightarrow> address option \<times> 's"
  dw_restore_delay :: "address \<Rightarrow> 's \<Rightarrow> int option \<times> 's"
  dw_pending_restore :: "address \<Rightarrow> string \<Rightarrow> 's \<Rightarrow> (int \<times> bool) option \<times> 's"
  dw_pending_owner :: "address \<Rightarrow> 's \<Rightarrow> (int \<times> bool) option \<times> 's"
  dw_chain_now :: "'s \<Rightarrow> int option \<times> 's"
  dw_wallet_store :: "address \<Rightarrow> 's \<Rightarrow> address option \<times> 's"
  dw_send :: "deployer_tx \<Rightarrow> 's \<Rightarrow> (string + string) \<times> 's"
  dw_encode :: "string \<Rightarrow> string option"
  dw_address_of :: "string \<Rightarrow> address"

record deployer_chain =
  dc_chain_id :: string
  dc_rpc :: string
  dc_factory :: string
  dc_private_key :: string
  dc_guardian_key :: "string option"
  dc_recovery :: "string option"
  dc_fee_token :: address
  dc_min_balance :: "string option"

type_synonym 's deployer_state = "(deployer_tx, 's) worker_state"
type_synonym ('a, 's) outcome = "('a, deployer_tx, 's) effect"

definition send_tx :: "'s deployer_world \<Rightarrow> deployer_tx \<Rightarrow> 's deployer_state \<Rightarrow> (string, 's) outcome" where
  "send_tx w = transact (dw_send w)"

definition trackRecoveryJob ::
    "'s deployer_world \<Rightarrow> string \<Rightarrow> recovery_job \<Rightarrow> job_status \<Rightarrow> string option \<Rightarrow> string option \<Rightarrow> 's deployer_state \<Rightarrow> (unit, 's) outcome" where
  "trackRecoveryJob w worker job status tx err st =
     (let (r, s) = dw_track w (rj_id job)
            \<lparr>jt_status = Some status, jt_tx_hash = tx, jt_error = err, jt_expected_version = Some (rj_version job), jt_worker = Some worker\<rparr> (snd st) in
      (case r of None \<Rightarrow> Inr () | Some e \<Rightarrow> Inl e, (fst st, s)))"

definition trackActivation ::
    "'s deployer_world \<Rightarrow> address \<Rightarrow> bool option \<Rightarrow> bool option \<Rightarrow> string option \<Rightarrow> 's deployer_state \<Rightarrow> (unit, 's) outcome" where
  "trackActivation w a funded deployed err st = tell (dw_activation w a \<lparr>ar_funded = funded, ar_deployed = deployed, ar_error = err\<rparr>) st"

definition markDeployed :: "'s deployer_world \<Rightarrow> deployer_chain \<Rightarrow> address \<Rightarrow> 's deployer_state \<Rightarrow> (unit, 's) outcome" where
  "markDeployed w ch a st = tell (dw_deployed w a (dc_chain_id ch)) st"

definition least_balance :: "deployer_chain \<Rightarrow> int option" where
  "least_balance ch = BigInt_text (nullish (dc_min_balance ch) ''1'')"

text \<open>\<open>String(error)\<close>.\<close>

definition error_text :: "string \<Rightarrow> string" where
  "error_text e = ''Error: '' @ e"

section \<open>Deployment\<close>

definition identityDeployGate :: "bool \<times> nat \<Rightarrow> bool" where
  "identityDeployGate r = (fst r \<and> 2 \<le> snd r)"

text \<open>Whether the wallet was deployed; if not, a second method is missing.\<close>

definition deployIdentityIfReady ::
    "'s deployer_world \<Rightarrow> deployer_chain \<Rightarrow> string \<Rightarrow> string \<Rightarrow> 's deployer_state \<Rightarrow> (bool, 's) outcome" where
  "deployIdentityIfReady w ch i salt st =
     andThen (ask (dw_gate w (dc_factory ch) i) st) (\<lambda>r st.
       if \<not> identityDeployGate r then (Inr False, st)
       else andThen (send_tx w (Tx_Create_Account i salt) st) (\<lambda>_ st. (Inr True, st)))"

definition deploy_account ::
    "'s deployer_world \<Rightarrow> deployer_chain \<Rightarrow> wallet_account \<Rightarrow> string \<Rightarrow> 's deployer_state \<Rightarrow> (unit, 's) outcome" where
  "deploy_account w ch a i st =
     andThen (deployIdentityIfReady w ch i (wac_salt a) st) (\<lambda>done st.
       if \<not> done then trackActivation w (wac_address a) (Some True) None (Some ''needs_second_method'') st
       else andThen (markDeployed w ch (wac_address a) st) (\<lambda>_ st. trackActivation w (wac_address a) None (Some True) None st))"

definition process_account ::
    "'s deployer_world \<Rightarrow> deployer_chain \<Rightarrow> int \<Rightarrow> wallet_account \<Rightarrow> 's deployer_state \<Rightarrow> (unit, 's) outcome" where
  "process_account w ch least a st =
     (let track = trackActivation w (wac_address a) in
      andThen (ask (dw_predict w (dc_factory ch) (wac_salt a)) st) (\<lambda>predicted st.
        if lower predicted \<noteq> lower (wac_address a) then track None None (Some ''predicted_address_mismatch'') st
        else andThen (ask (dw_has_code w (wac_address a)) st) (\<lambda>code st.
          if code then andThen (markDeployed w ch (wac_address a) st) (\<lambda>_ st. track None (Some True) None st)
          else andThen (ask (dw_balance w (dc_fee_token ch) (wac_address a)) st) (\<lambda>balance st.
            if balance < least then track (Some False) None None st
            else andThen (track (Some True) None None st) (\<lambda>_ st.
              case or_null (wac_identity_id a) of
                None \<Rightarrow> track (Some True) None (Some ''missing_identity_id'') st
              | Some i \<Rightarrow>
                  otherwise (deploy_account w ch a i st)
                    (\<lambda>e st. (Inr (), snd (track (Some True) None (Some (error_text e)) st))))))))"

text \<open>An error ends the work on one account and is reported, whether or not that succeeds.\<close>

fun process_accounts ::
    "'s deployer_world \<Rightarrow> deployer_chain \<Rightarrow> int \<Rightarrow> wallet_account list \<Rightarrow> 's deployer_state \<Rightarrow> 's deployer_state" where
  "process_accounts w ch least [] st = st"
| "process_accounts w ch least (a # rest) st =
     (if dw_stopped w (snd st) then st
      else process_accounts w ch least rest
        (snd (otherwise (process_account w ch least a st)
           (\<lambda>e st. trackActivation w (wac_address a) None None (Some (error_text e)) st))))"

definition processChain :: "'s deployer_world \<Rightarrow> deployer_chain \<Rightarrow> 's deployer_state \<Rightarrow> (unit, 's) outcome" where
  "processChain w ch st =
     andThen (ask (dw_undeployed w (dc_chain_id ch)) st) (\<lambda>accounts st.
       if accounts = [] then (Inr (), st)
       else (case least_balance ch of
               None \<Rightarrow> throw_error ''Cannot convert'' st
             | Some least \<Rightarrow> (Inr (), process_accounts w ch least accounts st)))"

section \<open>Recovery jobs\<close>

definition guardian_key :: "deployer_chain \<Rightarrow> string" where
  "guardian_key ch =
     (if \<not> truthy (map_option trim (dc_guardian_key ch)) \<or> isUnsetSecret (dc_guardian_key ch) then dc_private_key ch
      else the (dc_guardian_key ch))"

definition ensureIdentityWalletDeployed ::
    "'s deployer_world \<Rightarrow> deployer_chain \<Rightarrow> recovery_job \<Rightarrow> wallet_account \<Rightarrow> 's deployer_state \<Rightarrow> (unit, 's) outcome" where
  "ensureIdentityWalletDeployed w ch job a st =
     andThen (ask (dw_has_code w (rj_wallet_address job)) st) (\<lambda>code st.
       if code then (Inr (), st)
       else (case least_balance ch of
         None \<Rightarrow> throw_error ''Cannot convert'' st
       | Some least \<Rightarrow>
           andThen (ask (dw_balance w (dc_fee_token ch) (wac_address a)) st) (\<lambda>balance st.
             if balance < least then (Inr (), st)
             else (case or_null (wac_identity_id a) of
               None \<Rightarrow> throw_error ''wallet account missing identityId'' st
             | Some i \<Rightarrow> andThen (send_tx w (Tx_Create_Account i (wac_salt a)) st) (\<lambda>_ st. markDeployed w ch (wac_address a) st)))))"

definition awaits_operator :: "string \<Rightarrow> bool" where
  "awaits_operator e = (text_includes (lower e) (lower ''NotRecoveryOperator'') \<or> text_includes (lower e) ''awaiting_operator'')"

text \<open>The part of an initiation inside \<open>try\<close>.\<close>

definition start_restore ::
    "'s deployer_world \<Rightarrow> string \<Rightarrow> deployer_chain \<Rightarrow> recovery_job \<Rightarrow> string \<Rightarrow> address \<Rightarrow> string \<Rightarrow> string \<Rightarrow> 's deployer_state \<Rightarrow> (unit, 's) outcome" where
  "start_restore w worker ch job i store qx qy st =
     andThen (ask (dw_operator w store) st) (\<lambda>operator st.
       if operator \<noteq> dw_address_of w (guardian_key ch) then trackRecoveryJob w worker job Job_Pending None (Some ''awaiting_operator'') st
       else andThen (send_tx w (Tx_Initiate_Restore store i qx qy) st) (\<lambda>h st.
         andThen (ask (dw_restore_delay w store) st) (\<lambda>delay st.
           andThen (if delay = 0 then andThen (send_tx w (Tx_Execute_Restore store i) st) (\<lambda>_ st. (Inr (), st)) else (Inr (), st))
             (\<lambda>_ st. trackRecoveryJob w worker job Job_Included (Some h) None st))))"

definition deploy_for_recovery ::
    "'s deployer_world \<Rightarrow> string \<Rightarrow> deployer_chain \<Rightarrow> recovery_job \<Rightarrow> 's deployer_state \<Rightarrow> (bool, 's) outcome" where
  "deploy_for_recovery w worker ch job st =
     andThen (ask (dw_undeployed w (dc_chain_id ch)) st) (\<lambda>accounts st.
       case find (\<lambda>a. lower (wac_address a) = lower (rj_wallet_address job)) accounts of
         None \<Rightarrow> andThen (trackRecoveryJob w worker job Job_Pending None (Some ''wallet_not_deployed_yet'') st) (\<lambda>_ st. (Inr False, st))
       | Some a \<Rightarrow>
           (case least_balance ch of
              None \<Rightarrow> throw_error ''Cannot convert'' st
            | Some least \<Rightarrow>
                andThen (ask (dw_balance w (dc_fee_token ch) (wac_address a)) st) (\<lambda>balance st.
                  if balance < least
                  then andThen (trackRecoveryJob w worker job Job_Pending None (Some ''wallet_unfunded'') st) (\<lambda>_ st. (Inr False, st))
                  else (case or_null (wac_identity_id a) of
                    None \<Rightarrow> throw_error ''wallet account missing identityId'' st
                  | Some i \<Rightarrow>
                      andThen (send_tx w (Tx_Create_Account i (wac_salt a)) st) (\<lambda>_ st.
                        andThen (markDeployed w ch (wac_address a) st) (\<lambda>_ st. (Inr True, st)))))))"

text \<open>\<open>recovery\<close> is the configured contract, trimmed, or \<open>None\<close> when there is none.\<close>

definition runInitiate ::
    "'s deployer_world \<Rightarrow> string \<Rightarrow> deployer_chain \<Rightarrow> string option \<Rightarrow> recovery_job \<Rightarrow> 's deployer_state \<Rightarrow> (unit, 's) outcome" where
  "runInitiate w worker ch recovery job st =
     (case (or_null (rj_new_qx job), or_null (rj_new_qy job)) of
        (Some qx, Some qy) \<Rightarrow>
          andThen (ask (dw_account w (rj_wallet_address job)) st) (\<lambda>account st.
            case or_null (Option.bind account wac_identity_id) of
              Some i \<Rightarrow>
                andThen (ensureIdentityWalletDeployed w ch job (the account) st) (\<lambda>_ st.
                  case recovery of
                    None \<Rightarrow> throw_error ''recoveryAddress / IdentityStore not configured on deployer chain'' st
                  | Some store \<Rightarrow>
                      otherwise (start_restore w worker ch job i store qx qy st) (\<lambda>e st.
                        if awaits_operator e then trackRecoveryJob w worker job Job_Pending None (Some ''awaiting_operator'') st
                        else throw_error e st))
            | None \<Rightarrow>
                (case recovery of
                   None \<Rightarrow> throw_error ''recoveryAddress not configured on deployer chain'' st
                 | Some rec \<Rightarrow>
                     andThen (ask (dw_has_code w (rj_wallet_address job)) st) (\<lambda>code st.
                       andThen (if code then (Inr True, st) else deploy_for_recovery w worker ch job st) (\<lambda>there st.
                         if \<not> there then (Inr (), st)
                         else andThen (send_tx w (Tx_Initiate_Owner rec (rj_wallet_address job) qx qy) st) (\<lambda>h st.
                           trackRecoveryJob w worker job Job_Included (Some h) None st)))))
      | _ \<Rightarrow> throw_error ''initiate job missing new owner coords'' st)"

definition runCancel ::
    "'s deployer_world \<Rightarrow> string \<Rightarrow> string option \<Rightarrow> recovery_job \<Rightarrow> 's deployer_state \<Rightarrow> (unit, 's) outcome" where
  "runCancel w worker recovery job st =
     (case or_null (rj_cancel_signature job) of
        None \<Rightarrow> throw_error ''cancel job missing signature'' st
      | Some sig \<Rightarrow>
          andThen (ask (dw_account w (rj_wallet_address job)) st) (\<lambda>account st.
            case or_null (Option.bind account wac_identity_id) of
              Some i \<Rightarrow>
                andThen (ask_maybe (dw_wallet_store w (rj_wallet_address job)) st) (\<lambda>own st.
                  case or_null (coalesce own recovery) of
                   None \<Rightarrow> throw_error ''IdentityStore not configured for cancel'' st
                 | Some store \<Rightarrow>
                     andThen (send_tx w (Tx_Cancel_Restore store i sig) st) (\<lambda>h st. trackRecoveryJob w worker job Job_Included (Some h) None st))
            | None \<Rightarrow>
                (case (if starts_with (trim sig) ''{'' then dw_encode w sig else Some sig) of
                   None \<Rightarrow> throw_error ''Unexpected token'' st
                 | Some raw \<Rightarrow>
                     andThen (send_tx w (Tx_Cancel_Owner (rj_wallet_address job) raw) st) (\<lambda>h st.
                       trackRecoveryJob w worker job Job_Included (Some h) None st))))"

text \<open>Of a pending restore or owner: rejected when there is none, put back while its time lock runs, else executed.\<close>

definition execute_pending ::
    "'s deployer_world \<Rightarrow> string \<Rightarrow> recovery_job \<Rightarrow> string \<Rightarrow> deployer_tx \<Rightarrow> int \<times> bool \<Rightarrow> 's deployer_state \<Rightarrow> (unit, 's) outcome" where
  "execute_pending w worker job none tx pending st =
     (if \<not> snd pending then trackRecoveryJob w worker job Job_Rejected None (Some none) st
      else andThen (ask (dw_chain_now w) st) (\<lambda>now st.
        if fst pending > now then trackRecoveryJob w worker job Job_Pending None (Some ''timelock_not_elapsed'') st
        else andThen (send_tx w tx st) (\<lambda>h st. trackRecoveryJob w worker job Job_Included (Some h) None st)))"

definition runExecute ::
    "'s deployer_world \<Rightarrow> string \<Rightarrow> string option \<Rightarrow> recovery_job \<Rightarrow> 's deployer_state \<Rightarrow> (unit, 's) outcome" where
  "runExecute w worker recovery job st =
     andThen (ask (dw_account w (rj_wallet_address job)) st) (\<lambda>account st.
       case recovery of
         None \<Rightarrow> throw_error ''recoveryAddress not configured'' st
       | Some rec \<Rightarrow>
           (case or_null (Option.bind account wac_identity_id) of
              Some i \<Rightarrow>
                andThen (ask (dw_pending_restore w rec i) st)
                  (execute_pending w worker job ''no_pending_restore'' (Tx_Execute_Restore rec i))
            | None \<Rightarrow>
                andThen (ask (dw_pending_owner w (rj_wallet_address job)) st)
                  (execute_pending w worker job ''no_pending_owner'' (Tx_Execute_Owner rec (rj_wallet_address job)))))"

section \<open>One pass\<close>

definition job_rank :: "job_kind \<Rightarrow> nat" where
  "job_rank k = (case k of Job_Cancel \<Rightarrow> 0 | Job_Initiate \<Rightarrow> 1 | Job_Execute \<Rightarrow> 2)"

definition cancel_wallets :: "recovery_job list \<Rightarrow> address set" where
  "cancel_wallets jobs = (\<lambda>j. lower (rj_wallet_address j)) ` set (filter (\<lambda>j. rj_kind j = Job_Cancel) jobs)"

definition run_job ::
    "'s deployer_world \<Rightarrow> string \<Rightarrow> deployer_chain \<Rightarrow> string option \<Rightarrow> address set \<Rightarrow> recovery_job \<Rightarrow> 's deployer_state \<Rightarrow> (unit, 's) outcome" where
  "run_job w worker ch recovery cancelled job st =
     (case rj_kind job of
        Job_Initiate \<Rightarrow> runInitiate w worker ch recovery job st
      | Job_Cancel \<Rightarrow> runCancel w worker recovery job st
      | Job_Execute \<Rightarrow>
          if lower (rj_wallet_address job) \<in> cancelled then trackRecoveryJob w worker job Job_Rejected None (Some ''cancelled'') st
          else runExecute w worker recovery job st)"

text \<open>An error in the report of a failure ends the pass.\<close>

fun process_jobs ::
    "'s deployer_world \<Rightarrow> string \<Rightarrow> deployer_chain \<Rightarrow> string option \<Rightarrow> address set \<Rightarrow> recovery_job list \<Rightarrow> 's deployer_state \<Rightarrow> (bool, 's) outcome" where
  "process_jobs w worker ch recovery cancelled [] st = (Inr True, st)"
| "process_jobs w worker ch recovery cancelled (job # jobs) st =
     (if dw_stopped w (snd st) then (Inr False, st)
      else if rj_chain_id job \<noteq> dc_chain_id ch then process_jobs w worker ch recovery cancelled jobs st
      else (let (r, s) = dw_claim w (rj_id job) (rj_version job) worker (snd st) in
        case r of
          None \<Rightarrow> process_jobs w worker ch recovery cancelled jobs (fst st, s)
        | Some claimed \<Rightarrow>
            andThen
              (otherwise (run_job w worker ch recovery cancelled claimed (fst st, s))
                (\<lambda>e st. trackRecoveryJob w worker claimed Job_Failed None (Some (error_text e)) st))
              (\<lambda>_ st. process_jobs w worker ch recovery cancelled jobs st)))"

definition usable_recovery :: "deployer_chain \<Rightarrow> bool" where
  "usable_recovery ch = (truthy (map_option trim (dc_recovery ch)) \<and> \<not> isUnsetSecret (dc_recovery ch))"

text \<open>An elapsed restore or owner change is executed, whoever queued it.\<close>

definition execute_elapsed :: "'s deployer_world \<Rightarrow> deployer_tx \<Rightarrow> bool \<Rightarrow> int \<times> bool \<Rightarrow> 's deployer_state \<Rightarrow> (unit, 's) outcome" where
  "execute_elapsed w tx usable pending st =
     (if \<not> snd pending then (Inr (), st)
      else andThen (ask (dw_chain_now w) st) (\<lambda>now st.
        if fst pending > now \<or> \<not> usable then (Inr (), st) else andThen (send_tx w tx st) (\<lambda>_ st. (Inr (), st))))"

definition queue_execute :: "'s deployer_world \<Rightarrow> deployer_chain \<Rightarrow> recovery_job \<Rightarrow> 's deployer_state \<Rightarrow> (unit, 's) outcome" where
  "queue_execute w ch job st =
     andThen (ask (dw_account w (rj_wallet_address job)) st) (\<lambda>account st.
       let rec = nullish (dc_recovery ch) '''' in
       case or_null (Option.bind account wac_identity_id) of
         Some i \<Rightarrow>
           if usable_recovery ch then andThen (ask (dw_pending_restore w rec i) st) (execute_elapsed w (Tx_Execute_Restore rec i) True)
           else andThen (ask (dw_pending_owner w (rj_wallet_address job)) st) (\<lambda>pending st.
                  execute_elapsed w (Tx_Execute_Owner rec (rj_wallet_address job)) (usable_recovery ch) pending st)
       | None \<Rightarrow>
           andThen (ask (dw_pending_owner w (rj_wallet_address job)) st) (\<lambda>pending st.
             execute_elapsed w (Tx_Execute_Owner rec (rj_wallet_address job)) (usable_recovery ch) pending st))"

fun queue_executes :: "'s deployer_world \<Rightarrow> deployer_chain \<Rightarrow> recovery_job list \<Rightarrow> 's deployer_state \<Rightarrow> 's deployer_state" where
  "queue_executes w ch [] st = st"
| "queue_executes w ch (job # jobs) st =
     (if dw_stopped w (snd st) then st else queue_executes w ch jobs (snd (queue_execute w ch job st)))"

definition maybeQueueExecutes :: "'s deployer_world \<Rightarrow> deployer_chain \<Rightarrow> 's deployer_state \<Rightarrow> (unit, 's) outcome" where
  "maybeQueueExecutes w ch st =
     andThen (ask (dw_jobs w (dc_chain_id ch) Job_Included) st) (\<lambda>jobs st.
       (Inr (), queue_executes w ch (filter (\<lambda>j. rj_kind j = Job_Initiate) jobs) st))"

definition processRecoveryJobs :: "'s deployer_world \<Rightarrow> string \<Rightarrow> deployer_chain \<Rightarrow> 's deployer_state \<Rightarrow> (unit, 's) outcome" where
  "processRecoveryJobs w worker ch st =
     andThen (ask (dw_jobs w (dc_chain_id ch) Job_Pending) st) (\<lambda>listed st.
       let jobs = sort_key (\<lambda>j. job_rank (rj_kind j)) listed; recovery = or_null (map_option trim (dc_recovery ch)) in
       if jobs = [] then (Inr (), st)
       else if recovery \<noteq> None \<and> isUnsetSecret recovery then (Inr (), st)
       else andThen (process_jobs w worker ch recovery (cancel_wallets jobs) jobs st) (\<lambda>on st.
         if on then maybeQueueExecutes w ch st else (Inr (), st)))"

definition deployer_ready :: "deployer_chain \<Rightarrow> bool" where
  "deployer_ready ch = (trim (dc_rpc ch) \<noteq> '''' \<and> \<not> isUnsetSecret (Some (dc_private_key ch)) \<and> trim (dc_factory ch) \<noteq> '''')"

text \<open>An error ends the work on one chain.\<close>

fun process_chains :: "'s deployer_world \<Rightarrow> string \<Rightarrow> deployer_chain list \<Rightarrow> 's deployer_state \<Rightarrow> 's deployer_state" where
  "process_chains w worker [] st = st"
| "process_chains w worker (ch # chs) st =
     (if dw_stopped w (snd st) then st
      else process_chains w worker chs
        (if \<not> deployer_ready ch then st else snd (andThen (processChain w ch st) (\<lambda>_ st. processRecoveryJobs w worker ch st))))"

definition deployer_tick :: "'s deployer_world \<Rightarrow> string \<Rightarrow> string \<Rightarrow> deployer_chain list \<Rightarrow> 's deployer_state \<Rightarrow> 's deployer_state" where
  "deployer_tick w worker key chs st = (if isUnsetSecret (Some key) then st else process_chains w worker chs st)"

end
