(* ===== verification/DeployerProps.thy ===== *)
theory DeployerProps
  imports DeployerWorker RecoveryMoves
begin

text \<open>
  What the wallet deployer does and does not do: which accounts it deploys, which jobs it executes, and
  which it never touches.
\<close>

text \<open>Passes of any workers with any configurations, one after the other.\<close>

fun deployer_ticks :: "'s deployer_world \<Rightarrow> (string \<times> string \<times> deployer_chain list) list \<Rightarrow> 's deployer_state \<Rightarrow> 's deployer_state" where
  "deployer_ticks w [] st = st"
| "deployer_ticks w ((worker, key, chs) # ticks) st = deployer_ticks w ticks (deployer_tick w worker key chs st)"

section \<open>Steps that keep a relation\<close>

text \<open>
  A relation between the states before and after that every call keeps: reports and claims of the jobs
  in \<open>J\<close>, and the transactions in \<open>A\<close>.
\<close>

locale deployer_relation = step_relation P
  for P :: "'s deployer_state \<Rightarrow> 's deployer_state \<Rightarrow> bool" +
  fixes w :: "'s deployer_world" and J :: "string \<Rightarrow> bool" and A :: "deployer_tx \<Rightarrow> bool"
  assumes send: "A tx \<Longrightarrow> P st (fst st @ [tx], snd (dw_send w tx (snd st)))"
    and track: "J i \<Longrightarrow> P st (fst st, snd (dw_track w i jt (snd st)))"
    and claim: "J i \<Longrightarrow> P st (fst st, snd (dw_claim w i v worker (snd st)))"
    and reads: "P st (fst st, snd (dw_jobs w c status (snd st)))" "P st (fst st, snd (dw_account w a (snd st)))"
      "P st (fst st, snd (dw_undeployed w c (snd st)))" "P st (fst st, snd (dw_predict w a salt (snd st)))"
      "P st (fst st, snd (dw_has_code w a (snd st)))" "P st (fst st, snd (dw_balance w a b (snd st)))"
      "P st (fst st, snd (dw_gate w a i (snd st)))" "P st (fst st, snd (dw_operator w a (snd st)))"
      "P st (fst st, snd (dw_restore_delay w a (snd st)))" "P st (fst st, snd (dw_pending_restore w a i (snd st)))"
      "P st (fst st, snd (dw_pending_owner w a (snd st)))" "P st (fst st, snd (dw_chain_now w (snd st)))"
      "P st (fst st, snd (dw_wallet_store w a (snd st)))"
    and reports: "P st (fst st, snd (dw_activation w a r (snd st)))" "P st (fst st, snd (dw_deployed w a c (snd st)))"
begin

lemma ask_steps:
  "P st (snd (ask (dw_jobs w c status) st))" "P st (snd (ask (dw_account w a) st))" "P st (snd (ask (dw_undeployed w c) st))"
  "P st (snd (ask (dw_predict w a salt) st))" "P st (snd (ask (dw_has_code w a) st))" "P st (snd (ask (dw_balance w a b) st))"
  "P st (snd (ask (dw_gate w a i) st))" "P st (snd (ask (dw_operator w a) st))" "P st (snd (ask (dw_restore_delay w a) st))"
  "P st (snd (ask (dw_pending_restore w a i) st))" "P st (snd (ask (dw_pending_owner w a) st))" "P st (snd (ask (dw_chain_now w) st))"
    "P st (snd (ask_maybe (dw_wallet_store w a) st))"
  by (intro asked reads)+

lemma send_step: "A tx \<Longrightarrow> P st (snd (send_tx w tx st))"
  using send by (simp add: send_tx_def transacted)

lemma track_step: "J (rj_id job) \<Longrightarrow> P st (snd (trackRecoveryJob w worker job status tx err st))"
  using track by (simp add: trackRecoveryJob_def case_prod_beta)

lemma report_steps: "P st (snd (trackActivation w a f d e st))" "P st (snd (markDeployed w ch a st))"
  by (simp_all add: trackActivation_def markDeployed_def told reports)

lemmas steps = ended refl ask_steps report_steps track_step send_step

lemma deploy_step:
  assumes "\<And>i salt. A (Tx_Create_Account i salt)"
  shows "P st (snd (ensureIdentityWalletDeployed w ch job a st))" "P st (snd (deployIdentityIfReady w ch i salt st))"
    "J (rj_id job) \<Longrightarrow> P st (snd (deploy_for_recovery w worker ch job st))"
  by (auto simp: ensureIdentityWalletDeployed_def deployIdentityIfReady_def deploy_for_recovery_def assms split: option.split intro!: and_then steps)

lemma execute_step:
  "J (rj_id job) \<Longrightarrow> A tx \<Longrightarrow> P st (snd (execute_pending w worker job none tx pending st))"
  "A tx \<Longrightarrow> P st (snd (execute_elapsed w tx usable pending st))"
  by (auto simp: execute_pending_def execute_elapsed_def intro!: and_then steps)

lemma start_restore_step:
  assumes "J (rj_id job)" and "\<And>i qx qy. A (Tx_Initiate_Restore store i qx qy)" and "\<And>i. A (Tx_Execute_Restore store i)"
  shows "P st (snd (start_restore w worker ch job i store qx qy st))"
  using assms by (auto simp: start_restore_def intro!: and_then steps)

lemma initiate_step:
  assumes "J (rj_id job)" and "\<And>i salt. A (Tx_Create_Account i salt)" and "\<And>s i qx qy. A (Tx_Initiate_Restore s i qx qy)"
    and "\<And>s i. A (Tx_Execute_Restore s i)" and "\<And>r a qx qy. A (Tx_Initiate_Owner r a qx qy)"
  shows "P st (snd (runInitiate w worker ch recovery job st))"
  using assms by (auto simp: runInitiate_def split: option.split intro!: and_then otherwise_step steps deploy_step start_restore_step)

lemma cancel_step:
  assumes "J (rj_id job)" and "\<And>s i g. A (Tx_Cancel_Restore s i g)" and "\<And>a g. A (Tx_Cancel_Owner a g)"
  shows "P st (snd (runCancel w worker recovery job st))"
  using assms by (auto simp: runCancel_def split: option.split intro!: and_then steps)

lemma run_execute_step:
  assumes "J (rj_id job)" and "\<And>s i. A (Tx_Execute_Restore s i)" and "\<And>r. A (Tx_Execute_Owner r (rj_wallet_address job))"
  shows "P st (snd (runExecute w worker recovery job st))"
  using assms by (auto simp: runExecute_def split: option.split intro!: and_then steps execute_step)

text \<open>The transactions that are allowed without a look at the wallet.\<close>

definition all_but_execution :: bool where
  "all_but_execution =
     ((\<forall>i salt. A (Tx_Create_Account i salt)) \<and> (\<forall>s i qx qy. A (Tx_Initiate_Restore s i qx qy)) \<and> (\<forall>s i. A (Tx_Execute_Restore s i)) \<and>
      (\<forall>r a qx qy. A (Tx_Initiate_Owner r a qx qy)) \<and> (\<forall>s i g. A (Tx_Cancel_Restore s i g)) \<and> (\<forall>a g. A (Tx_Cancel_Owner a g)))"

lemma job_step:
  assumes all_but_execution and "J (rj_id job)" and "\<And>r a. lower a \<notin> cancelled \<Longrightarrow> A (Tx_Execute_Owner r a)"
  shows "P st (snd (run_job w worker ch recovery cancelled job st))"
  using assms
  by (cases "rj_kind job") (auto simp: run_job_def all_but_execution_def intro!: initiate_step cancel_step run_execute_step steps)

lemma jobs_step:
  assumes all_but_execution and "\<And>r a. lower a \<notin> cancelled \<Longrightarrow> A (Tx_Execute_Owner r a)"
    and "\<And>i v b s c s'. J i \<Longrightarrow> dw_claim w i v b s = (Some c, s') \<Longrightarrow> J (rj_id c)"
  shows "\<forall>job \<in> set jobs. J (rj_id job) \<Longrightarrow> P st (snd (process_jobs w worker ch recovery cancelled jobs st))"
proof (induction jobs arbitrary: st)
  case (Cons job jobs)
  obtain r s where c: "dw_claim w (rj_id job) (rj_version job) worker (snd st) = (r, s)" by force
  have claimed: "P st (fst st, s)" using claim [of "rj_id job" st "rj_version job" worker] Cons.prems c by simp
  have rest: "P st1 (snd (process_jobs w worker ch recovery cancelled jobs st1))" for st1 using Cons by simp
  show ?case
  proof (cases r)
    case None
    then show ?thesis using rest claimed trans [OF claimed rest] by (simp add: c refl)
  next
    case (Some job')
    have j: "J (rj_id job')" using assms(3) [of "rj_id job"] Cons.prems c Some by auto
    have "P (fst st, s) (snd (andThen (otherwise (run_job w worker ch recovery cancelled job' (fst st, s))
        (\<lambda>e st. trackRecoveryJob w worker job' Job_Failed None (Some (error_text e)) st))
        (\<lambda>_ st. process_jobs w worker ch recovery cancelled jobs st)))"
      by (intro and_then otherwise_step track_step j rest job_step [OF assms(1) j assms(2)])
    then show ?thesis using rest trans [OF claimed] by (simp add: c Some refl)
  qed
qed (simp add: refl)

lemma account_step:
  assumes "\<And>i salt. A (Tx_Create_Account i salt)"
  shows "P st (snd (process_account w ch least a st))"
proof -
  have "P st (snd (deploy_account w ch a i st))" for i st
    by (auto simp: deploy_account_def intro!: and_then steps deploy_step assms)
  then show ?thesis
    by (auto simp: process_account_def Let_def split: option.split intro!: and_then otherwise_step steps)
qed

lemma chain_step:
  assumes "\<And>i salt. A (Tx_Create_Account i salt)"
  shows "P st (snd (processChain w ch st))"
proof -
  have "P st (process_accounts w ch least accounts st)" for least accounts st
  proof (induction accounts arbitrary: st)
    case (Cons a accounts)
    have "P st (snd (otherwise (process_account w ch least a st) (\<lambda>e st. trackActivation w (wac_address a) None None (Some (error_text e)) st)))"
      by (intro otherwise_step account_step [OF assms] steps)
    from trans [OF this Cons.IH] show ?case by (simp add: refl)
  qed (simp add: refl)
  then show ?thesis by (auto simp: processChain_def split: option.split intro!: and_then steps)
qed

lemma queue_step:
  assumes "\<And>s i. A (Tx_Execute_Restore s i)" and "\<And>r a. A (Tx_Execute_Owner r a)"
  shows "P st (snd (maybeQueueExecutes w ch st))"
proof -
  have one: "P st (snd (queue_execute w ch job st))" for job st
    using assms by (auto simp: queue_execute_def Let_def split: option.split intro!: and_then steps execute_step)
  have "P st (queue_executes w ch jobs st)" for jobs st
  proof (induction jobs arbitrary: st)
    case (Cons job jobs)
    from trans [OF one Cons.IH] show ?case by (simp add: refl)
  qed (simp add: refl)
  then show ?thesis by (auto simp: maybeQueueExecutes_def intro!: and_then steps)
qed

text \<open>Between jobs the worker does as it likes with those that are listed.\<close>

lemma recovery_step:
  assumes claims: "\<And>i v b s c s'. J i \<Longrightarrow> dw_claim w i v b s = (Some c, s') \<Longrightarrow> J (rj_id c)"
    and listed: "\<And>c jobs s'. dw_jobs w c Job_Pending (snd st) = (Some jobs, s') \<Longrightarrow>
      (\<forall>job \<in> set jobs. J (rj_id job)) \<and> (jobs = [] \<or> all_but_execution \<and> (\<forall>r a. A (Tx_Execute_Owner r a)))"
  shows "P st (snd (processRecoveryJobs w worker ch st))"
proof -
  obtain r s where l: "dw_jobs w (dc_chain_id ch) Job_Pending (snd st) = (r, s)" by force
  have P: "P st (fst st, s)" using reads(1) [of st "dc_chain_id ch" Job_Pending] l by simp
  show ?thesis
  proof (cases r)
    case None
    then show ?thesis using P by (simp add: processRecoveryJobs_def ask_def l andThen_def)
  next
    case (Some listing)
    let ?jobs = "sort_key (\<lambda>j. job_rank (rj_kind j)) listing"
    note ok = listed [OF l [unfolded Some]]
    show ?thesis
    proof (cases "listing = []")
      case True
      then show ?thesis using P Some by (simp add: processRecoveryJobs_def ask_def l andThen_def)
    next
      case False
      have all: all_but_execution and own: "\<And>r a. A (Tx_Execute_Owner r a)" and J: "\<forall>job \<in> set ?jobs. J (rj_id job)"
        using ok False by auto
      have "P st1 (snd (andThen (process_jobs w worker ch rec (cancel_wallets ?jobs) ?jobs st1)
          (\<lambda>on st. if on then maybeQueueExecutes w ch st else (Inr (), st))))" for st1 rec
        using all own by (intro and_then jobs_step [OF all _ claims J]) (auto simp: all_but_execution_def intro!: queue_step refl)
      from trans [OF P this] show ?thesis
        using Some P by (simp add: processRecoveryJobs_def ask_def l andThen_def [of "(Inr _, _)"] Let_def)
    qed
  qed
qed

text \<open>A property of the server that the relation keeps is one of every pass.\<close>

lemma tick_step:
  assumes claims: "\<And>i v b s c s'. J i \<Longrightarrow> dw_claim w i v b s = (Some c, s') \<Longrightarrow> J (rj_id c)"
    and create: "\<And>i salt. A (Tx_Create_Account i salt)"
    and kept: "\<And>st st'. P st st' \<Longrightarrow> K (snd st) \<Longrightarrow> K (snd st')"
    and listed: "\<And>s c jobs s'. K s \<Longrightarrow> dw_jobs w c Job_Pending s = (Some jobs, s') \<Longrightarrow>
      (\<forall>job \<in> set jobs. J (rj_id job)) \<and> (jobs = [] \<or> all_but_execution \<and> (\<forall>r a. A (Tx_Execute_Owner r a)))"
    and K: "K (snd st)"
  shows "P st (deployer_tick w worker key chs st)"
proof -
  have chain: "P st (snd (andThen (processChain w ch st) (\<lambda>_ st. processRecoveryJobs w worker ch st)))" if "K (snd st)" for ch st
  proof -
    obtain r st1 where c: "processChain w ch st = (r, st1)" by (cases "processChain w ch st")
    have p: "P st st1" using chain_step [OF create, of st ch] c by simp
    have "P st1 (snd (processRecoveryJobs w worker ch st1))"
      by (rule recovery_step [OF claims listed [OF kept [OF p that]]])
    from trans [OF p this] p show ?thesis by (cases r) (simp_all add: c andThen_def)
  qed
  have "P st (process_chains w worker chs st)" using K
  proof (induction chs arbitrary: st)
    case (Cons ch chs)
    let ?st1 = "if \<not> deployer_ready ch then st else snd (andThen (processChain w ch st) (\<lambda>_ st. processRecoveryJobs w worker ch st))"
    have p: "P st ?st1" using chain [OF Cons.prems] refl by simp
    from trans [OF p Cons.IH [OF kept [OF p Cons.prems]]] show ?case by (simp add: refl)
  qed (simp add: refl)
  then show ?thesis by (simp add: deployer_tick_def refl)
qed

lemma ticks_step:
  assumes claims: "\<And>i v b s c s'. J i \<Longrightarrow> dw_claim w i v b s = (Some c, s') \<Longrightarrow> J (rj_id c)"
    and create: "\<And>i salt. A (Tx_Create_Account i salt)"
    and kept: "\<And>st st'. P st st' \<Longrightarrow> K (snd st) \<Longrightarrow> K (snd st')"
    and listed: "\<And>s c jobs s'. K s \<Longrightarrow> dw_jobs w c Job_Pending s = (Some jobs, s') \<Longrightarrow>
      (\<forall>job \<in> set jobs. J (rj_id job)) \<and> (jobs = [] \<or> all_but_execution \<and> (\<forall>r a. A (Tx_Execute_Owner r a)))"
  shows "K (snd st) \<Longrightarrow> P st (deployer_ticks w ticks st)"
proof (induction ticks arbitrary: st)
  case (Cons t ticks)
  obtain worker key chs where t: "t = (worker, key, chs)" by (cases t) auto
  have p: "P st (deployer_tick w worker key chs st)" by (rule tick_step [where K = K]) (use claims create kept listed Cons.prems in blast)+
  show ?case using trans [OF p Cons.IH [OF kept [OF p Cons.prems]]] by (simp add: t)
qed (simp add: refl)

end

section \<open>Cancelled recoveries\<close>

definition spares :: "address set \<Rightarrow> deployer_tx \<Rightarrow> bool" where
  "spares cancelled tx = (case tx of Tx_Execute_Owner _ a \<Rightarrow> lower a \<notin> cancelled | _ \<Rightarrow> True)"

interpretation deploying: deployer_relation "\<lambda>st st'. sent_only A (fst st) (fst st')" w "\<lambda>_. True" A
  for w :: "'s deployer_world" and A
  by unfold_locales (simp_all add: sent_only_same sent_only_one)

text \<open>
  While the worker works off the listed jobs, in any order and with any answers from server and
  node, it sends no change of owner of a wallet for which a cancellation is listed, whatever the
  other jobs of the wallet are.
\<close>

theorem cancelled_owner_not_executed:
  "sent_only (spares (cancel_wallets jobs)) (fst st) (fst (snd (process_jobs w worker ch recovery (cancel_wallets jobs) listed st)))"
proof (rule deploying.jobs_step)
  show "deploying.all_but_execution (spares (cancel_wallets jobs))" by (simp add: deploying.all_but_execution_def spares_def)
qed (simp_all add: spares_def)

section \<open>Deployments\<close>

text \<open>What a deployment of \<open>processChain\<close> has seen of the account, each at some moment.\<close>

definition deployable :: "'s deployer_world \<Rightarrow> deployer_chain \<Rightarrow> wallet_account \<Rightarrow> deployer_tx \<Rightarrow> bool" where
  "deployable w ch a tx =
     (\<exists>i p b r least. tx = Tx_Create_Account i (wac_salt a) \<and> or_null (wac_identity_id a) = Some i \<and>
        (\<exists>s. fst (dw_predict w (dc_factory ch) (wac_salt a) s) = Some p) \<and> lower p = lower (wac_address a) \<and>
        (\<exists>s. fst (dw_has_code w (wac_address a) s) = Some False) \<and>
        (\<exists>s. fst (dw_balance w (dc_fee_token ch) (wac_address a) s) = Some b) \<and> least_balance ch = Some least \<and> least \<le> b \<and>
        (\<exists>s. fst (dw_gate w (dc_factory ch) i s) = Some r) \<and> fst r \<and> 2 \<le> snd r)"

lemma deployer_sends:
  "sends A st (trackActivation w a f d er st)" "sends A st (markDeployed w ch a st)" "A tx \<Longrightarrow> sends A st (send_tx w tx st)"
  by (simp_all add: trackActivation_def markDeployed_def send_tx_def sends_told sends_tx)

lemmas sends_ends = sends_ended deployer_sends(1,2)

lemma process_account_sent:
  assumes least: "least_balance ch = Some least"
  shows "sends (deployable w ch a) st (process_account w ch least a st)"
proof -
  have deploy: "sends (deployable w ch a) st (deploy_account w ch a i st)"
    if i: "or_null (wac_identity_id a) = Some i" and p: "fst (dw_predict w (dc_factory ch) (wac_salt a) s1) = Some p" "\<not> lower p \<noteq> lower (wac_address a)"
      and c: "fst (dw_has_code w (wac_address a) s2) = Some c" "\<not> c"
      and b: "fst (dw_balance w (dc_fee_token ch) (wac_address a) s3) = Some b" "\<not> b < least" for i s1 p s2 c s3 b st
  proof -
    have "deployable w ch a (Tx_Create_Account i (wac_salt a))"
      if "fst (dw_gate w (dc_factory ch) i s4) = Some r" "\<not> \<not> identityDeployGate r" for s4 r
    proof -
      have "fst (dw_has_code w (wac_address a) s2) = Some False" "least \<le> b" "fst r" "2 \<le> snd r"
        using c b(2) that(2) by (simp_all add: identityDeployGate_def)
      then show ?thesis using that(1) i p b(1) least unfolding deployable_def by blast
    qed
    then show ?thesis
      unfolding deploy_account_def deployIdentityIfReady_def by (intro sends_then sends_ask sends_if sends_ends deployer_sends(3))
  qed
  show ?thesis
    unfolding process_account_def Let_def
    by (intro sends_ask sends_if sends_then sends_case sends_otherwise sends_reported sends_ends deploy)
qed

text \<open>
  C39. Every transaction that the pass over the accounts of a chain sends deploys an account that the
  server lists as not deployed, and only after the factory has predicted the account's address, no
  code was found there, its balance has reached the minimum, and the identity store has confirmed
  that its identity exists with two or more sign-in methods.
\<close>

theorem deploys_only_ready:
  "sent_only (\<lambda>tx. \<exists>s. opt_ex (list_ex (\<lambda>a. deployable w ch a tx)) (fst (dw_undeployed w (dc_chain_id ch) s)))
     (fst st) (fst (snd (processChain w ch st)))"
proof -
  let ?A = "\<lambda>tx. \<exists>s. opt_ex (list_ex (\<lambda>a. deployable w ch a tx)) (fst (dw_undeployed w (dc_chain_id ch) s))"
  have one: "sends ?A st (process_account w ch least a st)"
    if "fst (dw_undeployed w (dc_chain_id ch) s) = Some accounts" "a \<in> set accounts" "least_balance ch = Some least" for s accounts a least st
    using process_account_sent [OF that(3), of w a st] that(1,2)
    by (force simp: sends_def sent_only_def list_all_iff list_ex_iff intro!: exI [of _ s])
  have all: "sends ?A st (Inr (), process_accounts w ch least as st)"
    if "fst (dw_undeployed w (dc_chain_id ch) s) = Some accounts" "set as \<subseteq> set accounts" "least_balance ch = Some least" for s accounts as least st
    using that(2)
  proof (induction as arbitrary: st)
    case (Cons a as)
    let ?st1 = "snd (otherwise (process_account w ch least a st) (\<lambda>e st. trackActivation w (wac_address a) None None (Some (error_text e)) st))"
    have "sends ?A st (otherwise (process_account w ch least a st) (\<lambda>e st. trackActivation w (wac_address a) None None (Some (error_text e)) st))"
      using Cons.prems by (intro sends_otherwise one [OF that(1) _ that(3)] sends_ends) simp
    moreover have "sends ?A ?st1 (Inr (), process_accounts w ch least as ?st1)" using Cons by simp
    ultimately show ?case by (auto simp: sends_def sent_only_same intro: sent_only_trans)
  qed (simp add: sends_def sent_only_same)
  have "sends ?A st (processChain w ch st)"
    unfolding processChain_def by (intro sends_ask sends_if sends_case sends_ends, rule all, assumption, rule order_refl, assumption)
  then show ?thesis by (simp add: sends_def)
qed

end
