(* ===== verification/DeployerServer.thy ===== *)
theory DeployerServer
  imports DeployerProps
begin

text \<open>
  The wallet deployer and the server's table of recovery jobs together: what becomes of a job
  nobody finished, and of a restore nobody asks to execute.
\<close>

section \<open>The jobs of the server\<close>

text \<open>
  Lists, claims and reports are answered by the routes on the table; every other call by \<open>w\<close>. \<open>clock\<close>
  is the time at the server, \<open>lease\<close> the length of a claim.
\<close>

definition served_jobs :: "string \<Rightarrow> job_status \<Rightarrow> recovery_db \<times> 'n \<Rightarrow> recovery_job list option \<times> recovery_db \<times> 'n" where
  "served_jobs c status s = (Some (listWalletRecoveryJobs (fst s) [status] (map_option (\<lambda>c. [c]) (or_null (Some (trim c))))), s)"

definition served_claim ::
    "int \<Rightarrow> ('n \<Rightarrow> timestamp) \<Rightarrow> string \<Rightarrow> int \<Rightarrow> string \<Rightarrow> recovery_db \<times> 'n \<Rightarrow> recovery_job option \<times> recovery_db \<times> 'n" where
  "served_claim lease clock i v worker s =
     (let (r, db) = claimJobRoute (fst s) (Some i) (Some worker) (Some v) lease (clock (snd s)) in
      (case r of Inl _ \<Rightarrow> None | Inr job \<Rightarrow> Some job, (db, snd s)))"

definition served_track ::
    "recovery_env \<Rightarrow> ('n \<Rightarrow> timestamp) \<Rightarrow> string \<Rightarrow> job_track \<Rightarrow> recovery_db \<times> 'n \<Rightarrow> string option \<times> recovery_db \<times> 'n" where
  "served_track env clock i jt s =
     (let (r, db) = trackJobRoute env (fst s) (Some i) jt (clock (snd s)) in
      (case r of Inl _ \<Rightarrow> Some ''Recovery track failed'' | Inr _ \<Rightarrow> None, (db, snd s)))"

definition elsewhere :: "('n \<Rightarrow> 'a \<times> 'n) \<Rightarrow> recovery_db \<times> 'n \<Rightarrow> 'a \<times> recovery_db \<times> 'n" where
  "elsewhere f s = (let (x, n) = f (snd s) in (x, (fst s, n)))"

definition served :: "recovery_env \<Rightarrow> int \<Rightarrow> ('n \<Rightarrow> timestamp) \<Rightarrow> 'n deployer_world \<Rightarrow> (recovery_db \<times> 'n) deployer_world" where
  "served env lease clock w =
     \<lparr>dw_stopped = (\<lambda>s. dw_stopped w (snd s)), dw_jobs = served_jobs, dw_claim = served_claim lease clock, dw_track = served_track env clock,
      dw_account = (\<lambda>a. elsewhere (dw_account w a)), dw_undeployed = (\<lambda>c. elsewhere (dw_undeployed w c)),
      dw_activation = (\<lambda>a r. elsewhere (dw_activation w a r)), dw_deployed = (\<lambda>a c. elsewhere (dw_deployed w a c)),
      dw_predict = (\<lambda>a salt. elsewhere (dw_predict w a salt)), dw_has_code = (\<lambda>a. elsewhere (dw_has_code w a)),
      dw_balance = (\<lambda>t a. elsewhere (dw_balance w t a)), dw_gate = (\<lambda>a i. elsewhere (dw_gate w a i)),
      dw_operator = (\<lambda>a. elsewhere (dw_operator w a)), dw_restore_delay = (\<lambda>a. elsewhere (dw_restore_delay w a)),
      dw_pending_restore = (\<lambda>a i. elsewhere (dw_pending_restore w a i)), dw_pending_owner = (\<lambda>a. elsewhere (dw_pending_owner w a)),
      dw_chain_now = elsewhere (dw_chain_now w), dw_wallet_store = (\<lambda>a. elsewhere (dw_wallet_store w a)),
      dw_send = (\<lambda>tx. elsewhere (dw_send w tx)), dw_encode = dw_encode w, dw_address_of = dw_address_of w\<rparr>"

lemma fst_elsewhere [simp]: "fst (snd (elsewhere f s)) = fst s"
  by (simp add: elsewhere_def case_prod_beta)

lemma sync_jobs: "recovery_jobs (syncRequestFromJob env db j st now) = recovery_jobs db"
proof -
  have idx: "recovery_jobs (indexRestoredIdentityMethod env db r now) = recovery_jobs db" for r
    by (simp add: indexRestoredIdentityMethod_def insertIdentityMethod_def Let_def split: option.split)
  have upd: "recovery_jobs (snd (updateWalletRecoveryRequest db i p now)) = recovery_jobs db" for db i p
    by (simp add: updateWalletRecoveryRequest_def Let_def)
  show ?thesis by (simp add: syncRequestFromJob_def Let_def idx upd split: option.split job_kind.split)
qed

lemma served_listed:
  "dw_jobs (served env lease clock w) c status s = (Some jobs, s') \<Longrightarrow> set jobs \<subseteq> {r \<in> set (recovery_jobs (fst s)). rj_status r = status}"
  by (auto simp: served_def served_jobs_def listWalletRecoveryJobs_def dest!: in_set_takeD)

text \<open>A claim answers with the job it names, a claim or report changes its row only.\<close>

lemma served_claimed: "dw_claim (served env lease clock w) i v b s = (Some job, s') \<Longrightarrow> rj_id job = trim i"
proof -
  have c: "fst (claimWalletRecoveryJob db j b v lease now) = Inr r \<Longrightarrow> rj_id r = j" for db j b now r
    by (auto simp: claimWalletRecoveryJob_def getWalletRecoveryJob_def Let_def split: option.splits if_splits dest: find_by_SomeD)
  assume "dw_claim (served env lease clock w) i v b s = (Some job, s')"
  then have "fst (claimJobRoute (fst s) (Some i) (Some b) (Some v) lease (clock (snd s))) = Inr job"
    by (auto simp: served_def served_claim_def case_prod_beta split: sum.splits)
  then show ?thesis by (auto simp: claimJobRoute_def str_def or_null_def dest!: c split: option.splits if_splits)
qed

definition one_row :: "string \<Rightarrow> recovery_job list \<Rightarrow> recovery_job list \<Rightarrow> bool" where
  "one_row i js js' = (\<exists>P f. (\<forall>r. P r \<longrightarrow> rj_id r = i \<and> rj_id (f r) = i) \<and> js' = update_where P f js)"

lemma one_row_same: "one_row i js js"
  unfolding one_row_def by (rule exI [of _ "\<lambda>_. False"]) (auto simp: update_where_def)

lemma served_rows:
  "one_row (trim i) (recovery_jobs (fst s)) (recovery_jobs (fst (snd (dw_claim (served env lease clock w) i v b s))))"
  "one_row (trim i) (recovery_jobs (fst s)) (recovery_jobs (fst (snd (dw_track (served env lease clock w) i jt s))))"
proof -
  have c: "one_row j (recovery_jobs db) (recovery_jobs (snd (claimWalletRecoveryJob db j b v lease now)))" for db j b now
  proof -
    have "one_row j js (update_where (\<lambda>r. rj_id r = j \<and> Q r) (job_claim_set u t now) js)" for js Q u t
      unfolding one_row_def by (intro exI conjI) auto
    then show ?thesis by (auto simp: claimWalletRecoveryJob_def Let_def one_row_same split: option.split)
  qed
  have t: "one_row j (recovery_jobs db) (recovery_jobs (snd (trackWalletRecoveryJob db j jt now)))" for db j jt now
  proof -
    have "one_row j js (update_where (\<lambda>r. rj_id r = j) (job_track_set jt now) js)" for js
      unfolding one_row_def by (intro exI conjI) auto
    then show ?thesis by (auto simp: trackWalletRecoveryJob_eq one_row_same split: option.split)
  qed
  have s: "str (Some i) = (if trim i = [] then None else Some (trim i))" by (simp add: str_def or_null_def)
  show "one_row (trim i) (recovery_jobs (fst s)) (recovery_jobs (fst (snd (dw_claim (served env lease clock w) i v b s))))"
    by (auto simp: served_def served_claim_def claimJobRoute_def case_prod_beta c one_row_same s)
  have "recovery_jobs (snd (trackJobRoute env db (Some i) jt now)) =
      (if trim i = [] then recovery_jobs db
       else recovery_jobs (snd (trackWalletRecoveryJob db (trim i) (jt\<lparr>jt_worker := str (jt_worker jt)\<rparr>) now)))" for db now
    by (auto simp: trackJobRoute_def s sync_jobs split: option.split sum.split prod.split)
  then show "one_row (trim i) (recovery_jobs (fst s)) (recovery_jobs (fst (snd (dw_track (served env lease clock w) i jt s))))"
    by (simp add: served_def served_track_def case_prod_beta t one_row_same)
qed

section \<open>Jobs that nobody finishes\<close>

text \<open>Ids are random UUIDs, so trimming them changes nothing.\<close>

definition claimed_row :: "string \<Rightarrow> recovery_job \<Rightarrow> recovery_db \<Rightarrow> bool" where
  "claimed_row i r db =
     (jobs_unique db \<and> list_all (\<lambda>r. trim (rj_id r) = rj_id r) (recovery_jobs db) \<and>
      getWalletRecoveryJob db i = Some r \<and> rj_status r = Job_Claimed)"

lemma one_row_lookup: "one_row i js js' \<Longrightarrow> i \<noteq> j \<Longrightarrow> find_by rj_id j js' = find_by rj_id j js"
proof -
  assume "one_row i js js'" and ij: "i \<noteq> j"
  then obtain P f where f: "\<And>r. P r \<Longrightarrow> rj_id r = i \<and> rj_id (f r) = i" and js: "js' = update_where P f js"
    by (auto simp: one_row_def)
  show "find_by rj_id j js' = find_by rj_id j js"
  proof (cases "find_by rj_id j js")
    case (Some x)
    then have "\<not> P x" using find_by_SomeD [OF Some] f [of x] ij by auto
    then show ?thesis using f Some by (simp add: js find_by_update_where)
  qed (use f in \<open>simp add: js find_by_update_where\<close>)
qed

lemma one_row_ids: "one_row i js js' \<Longrightarrow> map rj_id js' = map rj_id js"
  by (auto simp: one_row_def intro!: map_update_where)

lemma claimed_row_kept:
  assumes "one_row i (recovery_jobs db) (recovery_jobs db')" and "i \<noteq> j" and "claimed_row j r db"
  shows "claimed_row j r db'"
proof -
  note ids = one_row_ids [OF assms(1)]
  have "jobs_unique db'" using assms(3) ids by (simp add: claimed_row_def jobs_unique_def unique_on_def)
  moreover have "list_all (\<lambda>i. trim i = i) (map rj_id (recovery_jobs db'))"
    using assms(3) unfolding ids by (simp add: claimed_row_def list.pred_map comp_def)
  moreover have "getWalletRecoveryJob db' j = getWalletRecoveryJob db j"
    by (simp add: getWalletRecoveryJob_def one_row_lookup [OF assms(1,2)])
  ultimately show ?thesis using assms(3) by (simp add: claimed_row_def list.pred_map comp_def)
qed

interpretation stuck: deployer_relation "\<lambda>st st'. claimed_row j r (fst (snd st)) \<longrightarrow> claimed_row j r (fst (snd st'))"
    "served env lease clock w" "\<lambda>i. trim i \<noteq> j" "\<lambda>_. True" for env :: recovery_env and lease clock and w :: "'n deployer_world" and j r
proof unfold_locales
  fix i jt and st :: "(recovery_db \<times> 'n) deployer_state" and v worker
  assume "trim i \<noteq> j"
  then show "claimed_row j r (fst (snd st)) \<longrightarrow> claimed_row j r (fst (snd (fst st, snd (dw_track (served env lease clock w) i jt (snd st)))))"
    and "claimed_row j r (fst (snd st)) \<longrightarrow> claimed_row j r (fst (snd (fst st, snd (dw_claim (served env lease clock w) i v worker (snd st)))))"
    using served_rows [of i "snd st" env lease clock w] claimed_row_kept by simp_all blast+
qed (simp_all add: served_def served_jobs_def)

text \<open>
  C37. A recovery job that is claimed when its worker dies stays claimed for ever: workers list
  pending jobs only, so whatever passes are made later, by any worker with any configuration,
  the row of the job is the same after them, although the claim has a lease that runs out.
\<close>

theorem claimed_job_stuck:
  "claimed_row j r db \<Longrightarrow> claimed_row j r (fst (snd (deployer_ticks (served env lease clock w) ticks (txs, (db, n)))))"
proof -
  assume claimed: "claimed_row j r db"
  let ?K = "\<lambda>s :: recovery_db \<times> 'n. claimed_row j r (fst s)"
  have listed: "(\<forall>job \<in> set jobs. trim (rj_id job) \<noteq> j) \<and> (jobs = [] \<or> stuck.all_but_execution \<and> (\<forall>(r :: address) (a :: address). True))"
    if K: "?K s" and l: "dw_jobs (served env lease clock w) c Job_Pending s = (Some jobs, s')" for s c jobs s'
  proof -
    have "trim (rj_id job) \<noteq> j" if "job \<in> set jobs" for job
    proof
      have job: "job \<in> set (recovery_jobs (fst s))" "rj_status job = Job_Pending" using served_listed [OF l] that by auto
      assume "trim (rj_id job) = j"
      then have "rj_id job = j" using K job(1) by (auto simp: claimed_row_def list_all_iff)
      then have "job = r" using K job(1) find_by_unique [of rj_id "recovery_jobs (fst s)" job] by (auto simp: claimed_row_def jobs_unique_def getWalletRecoveryJob_def)
      then show False using K job(2) by (simp add: claimed_row_def)
    qed
    then show ?thesis by (simp add: stuck.all_but_execution_def)
  qed
  have claims: "trim (rj_id c) \<noteq> j" if "trim i \<noteq> j" "dw_claim (served env lease clock w) i v b s = (Some c, s')" for i v b s c s'
    using that(1) served_claimed [OF that(2)] by simp
  show ?thesis
    using stuck.ticks_step [where env = env and lease = lease and clock = clock and w = w and j = j and r = r and K = ?K and st = "(txs, (db, n))" and ticks = ticks] claims listed claimed by simp
qed

section \<open>Restores that nobody asks to execute\<close>

definition none_pending :: "recovery_db \<Rightarrow> bool" where
  "none_pending db = list_all (\<lambda>r. rj_status r \<noteq> Job_Pending) (recovery_jobs db)"

definition only_deploys :: "deployer_tx list \<Rightarrow> deployer_tx list \<Rightarrow> bool" where
  "only_deploys txs txs' = (\<exists>sent. txs' = txs @ sent \<and> list_all (\<lambda>tx. case tx of Tx_Create_Account _ _ \<Rightarrow> True | _ \<Rightarrow> False) sent)"

lemma only_deploys_trans: "only_deploys a b \<Longrightarrow> only_deploys b c \<Longrightarrow> only_deploys a c"
  by (force simp: only_deploys_def)

lemma only_deploys_same: "only_deploys a a"
  by (simp add: only_deploys_def)

interpretation idle: deployer_relation
    "\<lambda>st st'. none_pending (fst (snd st)) \<longrightarrow> none_pending (fst (snd st')) \<and> only_deploys (fst st) (fst st')"
    "served env lease clock w" "\<lambda>_. False" "\<lambda>tx. case tx of Tx_Create_Account _ _ \<Rightarrow> True | _ \<Rightarrow> False" for env :: recovery_env and lease clock and w :: "'n deployer_world"
proof unfold_locales
  fix tx and st :: "(recovery_db \<times> 'n) deployer_state"
  assume "case tx of Tx_Create_Account _ _ \<Rightarrow> True | _ \<Rightarrow> False"
  then show "none_pending (fst (snd st)) \<longrightarrow>
      none_pending (fst (snd (fst st @ [tx], snd (dw_send (served env lease clock w) tx (snd st))))) \<and>
      only_deploys (fst st) (fst (fst st @ [tx], snd (dw_send (served env lease clock w) tx (snd st))))"
    by (simp add: served_def only_deploys_def)
qed (auto simp: served_def served_jobs_def only_deploys_same intro: only_deploys_trans)


end
