(* ===== verification/DeployerDemo.thy ===== *)
theory DeployerDemo
  imports DeployerServer RecoveryDemo
begin

text \<open>
  The deployer beside the run of \<open>RecoveryDemo\<close>: a node on which the restore is pending and its time
  lock has run out. The witnesses of the theorems of DeployerServer apply them to it.
\<close>

definition demo_node :: "unit deployer_world" where
  "demo_node =
     \<lparr>dw_stopped = (\<lambda>_. False), dw_jobs = (\<lambda>_ _ s. (None, s)), dw_claim = (\<lambda>_ _ _ s. (None, s)), dw_track = (\<lambda>_ _ s. (None, s)),
      dw_account = (\<lambda>_ s. (Some (Some demo_account), s)), dw_undeployed = (\<lambda>_ s. (Some [], s)), dw_activation = (\<lambda>_ _ s. (True, s)),
      dw_deployed = (\<lambda>_ _ s. (True, s)), dw_predict = (\<lambda>_ _ s. (Some ''w'', s)), dw_has_code = (\<lambda>_ s. (Some True, s)),
      dw_balance = (\<lambda>_ _ s. (Some 1, s)), dw_gate = (\<lambda>_ _ s. (Some (True, 2), s)), dw_operator = (\<lambda>_ s. (Some ''g'', s)),
      dw_restore_delay = (\<lambda>_ s. (Some 5, s)), dw_pending_restore = (\<lambda>_ _ s. (Some (5, True), s)),
      dw_pending_owner = (\<lambda>_ s. (Some (0, False), s)), dw_chain_now = (\<lambda>s. (Some 1000, s)), dw_wallet_store = (\<lambda>_ s. (None, s)),
      dw_send = (\<lambda>_ s. (Inr ''h'', s)), dw_encode = Some, dw_address_of = (\<lambda>_. ''g'')\<rparr>"

definition demo_deployer_chain :: deployer_chain where
  "demo_deployer_chain =
     \<lparr>dc_chain_id = ''1'', dc_rpc = ''r'', dc_factory = ''f'', dc_private_key = ''k'', dc_guardian_key = None, dc_recovery = Some ''s'',
      dc_fee_token = ''t'', dc_min_balance = None\<rparr>"

definition demo_world :: "(recovery_db \<times> unit) deployer_world" where
  "demo_world = served demo_env 10 (\<lambda>_. 4) demo_node"

text \<open>Worker \<open>a\<close> has claimed the job at time 3, for 10 ms.\<close>

definition demo_claimed :: recovery_db where
  "demo_claimed = snd (claimJobRoute demo_db2 (Some ''j'') (Some ''a'') (Some 1) 10 3)"

lemma demo_claimed_row: "claimed_row ''j'' (hd (recovery_jobs demo_claimed)) demo_claimed"
  by (simp add: claimed_row_def demo_claimed_def claimJobRoute_def str_def or_null_def claimWalletRecoveryJob_def Let_def changes_def
    job_claim_where_def getWalletRecoveryJob_def new_job_def update_where_def job_claim_set_def jobs_unique_def unique_on_def trim_def is_space_def)

theorem claimed_job_stuck_witness:
  "getWalletRecoveryJob (fst (snd (deployer_ticks demo_world
     [(''b'', ''k'', [demo_deployer_chain]), (''a'', ''k'', [demo_deployer_chain])] ([], (demo_claimed, ()))))) ''j''
   = Some (hd (recovery_jobs demo_claimed)) \<and> rj_status (hd (recovery_jobs demo_claimed)) = Job_Claimed"
proof -
  have "claimed_row ''j'' (hd (recovery_jobs demo_claimed)) (fst (snd (deployer_ticks demo_world
      [(''b'', ''k'', [demo_deployer_chain]), (''a'', ''k'', [demo_deployer_chain])] ([], (demo_claimed, ())))))"
    unfolding demo_world_def by (rule claimed_job_stuck [OF demo_claimed_row])
  then show ?thesis by (simp add: claimed_row_def)
qed

text \<open>The restore has been started; nothing is pending.\<close>

lemma demo_none_pending: "none_pending demo_db3"
  by (simp add: none_pending_def demo_db3_def trackJobRoute_def str_def or_null_def demo_included_def trackWalletRecoveryJob_def
    getWalletRecoveryJob_def job_terminal_def Let_def update_where_def sync_jobs new_job_def job_track_set_def)

lemma demo_queue_executes:
  "fst (snd (maybeQueueExecutes demo_world demo_deployer_chain ([], (demo_db3, ())))) = [Tx_Execute_Restore ''s'' ''i'']"
  by (simp add: maybeQueueExecutes_def ask_def andThen_def demo_world_def served_def served_jobs_def elsewhere_def demo_node_def
    demo_deployer_chain_def listWalletRecoveryJobs_def demo_db3_def trackJobRoute_def str_def or_null_def demo_included_def trackWalletRecoveryJob_def
    getWalletRecoveryJob_def job_terminal_def Let_def update_where_def sync_jobs new_job_def job_track_set_def queue_execute_def
    demo_account_def usable_recovery_def execute_elapsed_def send_tx_def transact_def trim_def is_space_def truthy_def isUnsetSecret_def order_asc_def starts_with_def lower_char_def lower_def of_char_of)


end
