(* ===== verification/SweeperWorker.thy ===== *)
theory SweeperWorker
  imports WorkerCalls BundlerWorker Addresses InvoiceQueue
begin

text \<open>
  The sweeper (commerce/sweeper/worker.ts): in every tick it reads the balance of each open invoice
  on its chain, reports what has been paid, claims the invoice and sweeps it to the merchant, with
  the sweep of the EVM SDK (src/commerce-sdk.ts) and the resources a Tron transfer needs
  (src/tron-sponsor.ts). Server, nodes and clock are one state \<open>'s\<close> (\<open>WorkerCalls\<close>).
\<close>

section \<open>Configuration\<close>

datatype sweeper_role = Role_Evm | Role_Tron | Role_Solana | Role_All

text \<open>Of a token, symbol and address; decimals are not used.\<close>

type_synonym token_entry = "string \<times> address"

record sweep_chain =
  ec_chain_id :: string
  ec_rpc :: "string option"
  ec_sweeper :: "address option"
  ec_private_key :: "string option"
  ec_tokens :: "token_entry list"

datatype energy_mode = Staked | Burn | Rent

record tron_config =
  tc_enabled :: bool
  tc_chain_id :: "string option"
  tc_full_host :: "string option"
  tc_master_secret :: "string option"
  tc_private_key :: "string option"
  tc_sponsor_key :: "string option"
  tc_usdt :: "address option"
  tc_energy_mode :: "energy_mode option"
  tc_min_energy :: "int option"
  tc_min_bandwidth :: "int option"
  tc_tokens :: "token_entry list"

text \<open>Tokens of a Solana chain by symbol, with the members \<open>mint\<close> and \<open>address\<close>.\<close>

record solana_entry =
  se_enabled :: "bool option"
  se_rpc :: "string option"
  se_program :: "string option"
  se_fee_recipient :: "string option"
  se_fee_bps :: "int option"
  se_tokens :: "(string \<times> string option \<times> string option) list"

record solana_config =
  sg_enabled :: bool
  sg_chains :: "(string \<times> solana_entry) list"
  sg_chain_id :: "string option"
  sg_rpc :: "string option"
  sg_program :: "string option"
  sg_usdc :: "string option"
  sg_usdt :: "string option"
  sg_private_key :: "string option"
  sg_fee_recipient :: "string option"
  sg_fee_bps :: "int option"
  sg_tokens :: "(string \<times> string option) list"

record sweeper_config =
  sc_api_key :: "string option"
  sc_wallet_key :: "string option"
  sc_max_retries :: "nat option"
  sc_role :: "sweeper_role option"
  sc_chains :: "sweep_chain list"
  sc_tron :: "tron_config option"
  sc_solana :: "solana_config option"

definition resolveRole :: "sweeper_config \<Rightarrow> sweeper_role" where
  "resolveRole cfg = nullish (sc_role cfg) Role_All"

definition nonempty_text :: "string option \<Rightarrow> string option" where
  "nonempty_text v = or_null (map_option trim v)"

definition filterEvmObserveChains :: "sweep_chain list \<Rightarrow> sweep_chain list" where
  "filterEvmObserveChains chs = filter (\<lambda>c. truthy (map_option trim (ec_rpc c))) chs"

definition filterEvmSweepChains :: "sweep_chain list \<Rightarrow> sweep_chain list" where
  "filterEvmSweepChains chs =
     filter (\<lambda>c. truthy (map_option trim (ec_rpc c)) \<and> truthy (map_option trim (ec_sweeper c)) \<and>
       lower (trim (the (ec_sweeper c))) \<noteq> ''0x'' @ replicate 40 (CHR ''0'') \<and> \<not> isUnsetSecret (ec_private_key c)) chs"

section \<open>Solana chains\<close>

record resolved_solana =
  rs_chain_id :: string
  rs_rpc :: string
  rs_program :: string
  rs_fee_recipient :: "string option"
  rs_fee_bps :: "int option"
  rs_tokens :: "string \<Rightarrow> string option"

definition placeholder :: "string option \<Rightarrow> bool" where
  "placeholder v = (\<not> truthy v \<or> starts_with (the v) ''PLACEHOLDER'')"

definition solana_mints :: "(string \<times> string option) list \<Rightarrow> string \<Rightarrow> string option" where
  "solana_mints ts = fold (\<lambda>(symbol, mint) m. if placeholder mint then m else m(upper symbol \<mapsto> the mint)) ts Map.empty"

definition normalizeSweeperSolanaChain :: "string \<Rightarrow> solana_entry \<Rightarrow> solana_config \<Rightarrow> resolved_solana option" where
  "normalizeSweeperSolanaChain c raw g =
     (let program = coalesce (se_program raw) (sg_program g); rpc = coalesce (se_rpc raw) (sg_rpc g);
          own = map (\<lambda>(symbol, mint, a). (symbol, coalesce mint a)) (se_tokens raw);
          usable = filter (\<lambda>t. \<not> placeholder (snd t));
          used = (if usable own \<noteq> [] then own else sg_tokens g) in
      if se_enabled raw = Some False \<or> placeholder program \<or> \<not> truthy rpc \<or> usable used = [] then None
      else Some \<lparr>rs_chain_id = c, rs_rpc = the rpc, rs_program = the program,
             rs_fee_recipient = coalesce (nonempty_text (se_fee_recipient raw)) (nonempty_text (sg_fee_recipient g)),
             rs_fee_bps = coalesce (se_fee_bps raw) (sg_fee_bps g), rs_tokens = solana_mints used\<rparr>)"

definition listSweeperSolanaChains :: "solana_config \<Rightarrow> resolved_solana list" where
  "listSweeperSolanaChains g =
     (if sg_chains g \<noteq> [] then List.map_filter (\<lambda>(c, raw). normalizeSweeperSolanaChain c raw g) (sg_chains g)
      else List.map_filter (\<lambda>raw. normalizeSweeperSolanaChain (nullish (sg_chain_id g) ''devnet'') raw g)
             [\<lparr>se_enabled = Some True, se_rpc = sg_rpc g, se_program = sg_program g, se_fee_recipient = sg_fee_recipient g,
               se_fee_bps = sg_fee_bps g, se_tokens = [(''USDC'', sg_usdc g, None), (''USDT'', sg_usdt g, None)]\<rparr>])"

definition resolveSweeperSolanaChain :: "solana_config \<Rightarrow> string \<Rightarrow> resolved_solana option" where
  "resolveSweeperSolanaChain g c = find (\<lambda>r. rs_chain_id r = c) (listSweeperSolanaChains g)"

text \<open>Symbol and mint.\<close>

definition resolveSweeperSolanaToken :: "resolved_solana \<Rightarrow> string option \<Rightarrow> (string \<times> string) option" where
  "resolveSweeperSolanaToken r token =
     (let symbol = upper (nullish token ''USDC'') in map_option (\<lambda>mint. (symbol, mint)) (rs_tokens r symbol))"

definition assertSolanaConfig :: "solana_config \<Rightarrow> string option" where
  "assertSolanaConfig g =
     (if \<not> truthy (sg_private_key g) then Some ''solana.privateKey is required''
      else if listSweeperSolanaChains g = [] then Some ''solana.chains (or legacy rpcUrl/programId/usdcMint) must define at least one enabled chain''
      else None)"

section \<open>Tokens\<close>

definition NATIVE_TOKEN :: address where
  "NATIVE_TOKEN = ''0x'' @ replicate 40 (CHR ''0'')"

text \<open>\<open>None\<close> is the coin of the chain.\<close>

definition resolveToken :: "sweep_chain \<Rightarrow> string option \<Rightarrow> string + address option" where
  "resolveToken ch token =
     (case or_null token of
        None \<Rightarrow> Inr None
      | Some t \<Rightarrow>
          if t = ''ETH'' \<or> t = ''native'' \<or> t = NATIVE_TOKEN then Inr None
          else if starts_with t ''0x'' \<and> length t = 42 then Inr (Some t)
          else (case find (\<lambda>e. lower (fst e) = lower t) (ec_tokens ch) of
                  None \<Rightarrow> Inl (''Token '' @ t @ '' is not configured for chain '' @ ec_chain_id ch)
                | Some e \<Rightarrow> Inr (Some (snd e))))"

definition tron_usdt :: "tron_config \<Rightarrow> address option" where
  "tron_usdt t = coalesce (tc_usdt t) (map_option snd (find (\<lambda>e. upper (fst e) = ''USDT'') (tc_tokens t)))"

definition resolveTronToken :: "tron_config \<Rightarrow> string option \<Rightarrow> string + address" where
  "resolveTronToken tron token =
     (case or_null token of
        Some t \<Rightarrow>
          if starts_with t ''T'' then Inr t
          else if upper t = ''USDT'' then (case or_null (tron_usdt tron) of None \<Rightarrow> Inl ''USDT address is not configured for Tron'' | Some a \<Rightarrow> Inr a)
          else (case find (\<lambda>e. lower (fst e) = lower t) (tc_tokens tron) of
                  None \<Rightarrow> Inl (''Token '' @ t @ '' is not configured for Tron'')
                | Some e \<Rightarrow> if snd e = '''' then Inl (''Token '' @ t @ '' is not configured for Tron'') else Inr (snd e))
      | None \<Rightarrow> (case or_null (tron_usdt tron) of None \<Rightarrow> Inl ''USDT address is not configured for Tron'' | Some a \<Rightarrow> Inr a))"

definition assertTronConfig :: "tron_config \<Rightarrow> string option" where
  "assertTronConfig t =
     (if \<not> truthy (tc_master_secret t) then Some ''tron.invoiceMasterSecret is required''
      else if \<not> truthy (tc_full_host t) then Some ''tron.fullHost is required''
      else if \<not> truthy (tron_usdt t) then Some ''tron.usdtAddress (or tokens USDT) is required''
      else None)"

section \<open>Start\<close>

text \<open>What constructor and \<open>start\<close> make of the configuration.\<close>

record sweeper_setup =
  su_config :: sweeper_config
  su_observe :: "sweep_chain list"
  su_chains :: "sweep_chain list"
  su_tron :: "tron_config option"
  su_solana :: "solana_config option"
  su_authority :: bool

definition construct_sweeper :: "sweeper_config \<Rightarrow> sweeper_setup" where
  "construct_sweeper cfg =
     (let role = resolveRole cfg;
          observe = filterEvmObserveChains (if role = Role_Tron \<or> role = Role_Solana then [] else sc_chains cfg) in
      \<lparr>su_config = cfg, su_observe = observe, su_chains = filterEvmSweepChains observe,
       su_tron = (if role = Role_Evm \<or> role = Role_Solana \<or> \<not> opt_ex tc_enabled (sc_tron cfg) then None else sc_tron cfg),
       su_solana = (if role = Role_Evm \<or> role = Role_Tron \<or> \<not> opt_ex sg_enabled (sc_solana cfg) then None else sc_solana cfg),
       su_authority = False\<rparr>)"

definition tron_sponsor_key :: "sweeper_config \<Rightarrow> tron_config \<Rightarrow> string option" where
  "tron_sponsor_key cfg t = coalesce (coalesce (tc_sponsor_key t) (tc_private_key t)) (sc_wallet_key cfg)"

text \<open>\<open>is_keypair\<close> says whether \<open>loadSolanaKeypair\<close> accepts a secret; \<open>None\<close> is the exception that ends the process.\<close>

definition start_sweeper :: "(string \<Rightarrow> bool) \<Rightarrow> sweeper_config \<Rightarrow> sweeper_setup option" where
  "start_sweeper is_keypair cfg =
     (let su = construct_sweeper cfg;
          solana_ok = opt_ex (\<lambda>g. assertSolanaConfig g = None \<and> is_keypair (the (sg_private_key g))) (su_solana su);
          incomplete = opt_ex (\<lambda>g. isUnsetSecret (sg_private_key g) \<or> listSweeperSolanaChains g = []) (su_solana su) in
      if su_solana su \<noteq> None \<and> \<not> solana_ok \<and> resolveRole cfg = Role_Solana \<and> \<not> incomplete then None
      else Some (su\<lparr>su_solana := (if solana_ok then su_solana su else None), su_authority := solana_ok,
             su_tron := (if opt_ex (\<lambda>t. assertTronConfig t = None \<and> \<not> isUnsetSecret (tron_sponsor_key cfg t)) (su_tron su)
                         then su_tron su else None)\<rparr>))"

section \<open>Calls\<close>

datatype tron_resource = Energy | Bandwidth

datatype sweep_tx =
    Evm_Sweep string address int address string
  | Solana_Settle string address string string
  | Tron_Fund address int
  | Tron_Delegate tron_resource address int
  | Tron_Undelegate tron_resource address int
  | Tron_Transfer address address address int

text \<open>An answer to a signed request: ok, a conflict, another status, or no answer.\<close>

datatype sweep_reply = Answer_Ok "invoice option" | Answer_Conflict "invoice option" | Answer_Status int | Answer_Lost string

text \<open>
  Calls of the server (a list that is refused is \<open>Some None\<close>), then of the nodes; \<open>None\<close> is an
  exception. The first argument of a call of a node names the chain or its host. \<open>sw_gas\<close> waits for
  a transaction and gives what its gas cost, if there is a receipt. Without \<open>'s\<close>: getAddress of
  ethers, the addresses of keys and derived invoice accounts on Tron, the JSON of a payload.
\<close>

record 's sweep_world =
  sw_invoices :: "'s \<Rightarrow> invoice list option option \<times> 's"
  sw_legacy_invoices :: "'s \<Rightarrow> invoice list option option \<times> 's"
  sw_claim :: "string \<Rightarrow> int \<Rightarrow> 's \<Rightarrow> sweep_reply \<times> 's"
  sw_track :: "string \<Rightarrow> track_input \<Rightarrow> 's \<Rightarrow> sweep_reply \<times> 's"
  sw_balance :: "string \<Rightarrow> address \<Rightarrow> address option \<Rightarrow> 's \<Rightarrow> int option \<times> 's"
  sw_invoice_address :: "string \<Rightarrow> address \<Rightarrow> string \<Rightarrow> 's \<Rightarrow> address option \<times> 's"
  sw_quote_fee :: "string \<Rightarrow> address \<Rightarrow> int \<Rightarrow> 's \<Rightarrow> int option \<times> 's"
  sw_tron_balance :: "string \<Rightarrow> address \<Rightarrow> address \<Rightarrow> 's \<Rightarrow> int option \<times> 's"
  sw_tron_active :: "string \<Rightarrow> address \<Rightarrow> 's \<Rightarrow> bool \<times> 's"
  sw_tron_trx :: "string \<Rightarrow> address \<Rightarrow> 's \<Rightarrow> int option \<times> 's"
  sw_solana_balance :: "string \<Rightarrow> address \<Rightarrow> string \<Rightarrow> string \<Rightarrow> 's \<Rightarrow> int option \<times> 's"
  sw_send :: "sweep_tx \<Rightarrow> 's \<Rightarrow> (string + string) \<times> 's"
  sw_gas :: "string \<Rightarrow> 's \<Rightarrow> int option option \<times> 's"
  sw_get_address :: "string \<Rightarrow> address option"
  sw_tron_address :: "string \<Rightarrow> string \<Rightarrow> string \<Rightarrow> address option"
  sw_tron_key_address :: "string \<Rightarrow> address"
  sw_payload :: "(string \<times> string) list \<Rightarrow> event_payload"

type_synonym 's sweep_state = "(sweep_tx, 's) worker_state"
type_synonym ('a, 's) sweep_effect = "('a, sweep_tx, 's) effect"

definition send_sweep :: "'s sweep_world \<Rightarrow> sweep_tx \<Rightarrow> 's sweep_state \<Rightarrow> (string, 's) sweep_effect" where
  "send_sweep w = transact (sw_send w)"

definition pure_call :: "'a option \<Rightarrow> 's sweep_state \<Rightarrow> ('a, 's) sweep_effect" where
  "pure_call v st = (case v of None \<Rightarrow> throw_error ''invalid argument'' st | Some x \<Rightarrow> (Inr x, st))"

definition max_retries :: "sweeper_config \<Rightarrow> nat" where
  "max_retries cfg = nullish (sc_max_retries cfg) 5"

text \<open>\<open>left\<close> attempts remain.\<close>

fun claimInvoiceWithRetry :: "'s sweep_world \<Rightarrow> nat \<Rightarrow> string \<Rightarrow> int \<Rightarrow> 's sweep_state \<Rightarrow> (invoice option, 's) sweep_effect" where
  "claimInvoiceWithRetry w 0 i v st = (Inr None, st)"
| "claimInvoiceWithRetry w (Suc left) i v st =
     (let (r, s) = sw_claim w i v (snd st); st' = (fst st, s) in
      case r of
        Answer_Ok iv \<Rightarrow> (Inr iv, st')
      | Answer_Conflict None \<Rightarrow> (Inr None, st')
      | Answer_Conflict (Some iv) \<Rightarrow> if inv_status iv = Swept then (Inr None, st') else claimInvoiceWithRetry w left i (inv_version iv) st'
      | Answer_Status n \<Rightarrow> if 500 \<le> n then claimInvoiceWithRetry w left i v st' else (Inl (''Claim failed: '' @ int_text n), st')
      | Answer_Lost e \<Rightarrow> (Inl e, st'))"

text \<open>After a conflict the report is sent again with the version the server has.\<close>

fun trackInvoiceWithRetry :: "'s sweep_world \<Rightarrow> nat \<Rightarrow> string \<Rightarrow> track_input \<Rightarrow> 's sweep_state \<Rightarrow> (invoice option, 's) sweep_effect" where
  "trackInvoiceWithRetry w 0 i ti st = (Inr None, st)"
| "trackInvoiceWithRetry w (Suc left) i ti st =
     (let (r, s) = sw_track w i ti (snd st); st' = (fst st, s) in
      case r of
        Answer_Ok iv \<Rightarrow> (Inr iv, st')
      | Answer_Conflict iv \<Rightarrow>
          if opt_ex (\<lambda>r. inv_status r = Swept) iv then (Inr iv, st')
          else trackInvoiceWithRetry w left i (ti\<lparr>ti_expected_version := map_option inv_version iv\<rparr>) st'
      | Answer_Status n \<Rightarrow> if 500 \<le> n then trackInvoiceWithRetry w left i ti st' else (Inl (''Track failed: '' @ int_text n), st')
      | Answer_Lost e \<Rightarrow> (Inl e, st'))"

definition no_report :: "int \<Rightarrow> track_input" where
  "no_report v =
     \<lparr>ti_status = None, ti_amount_paid = None, ti_amount_swept = None, ti_fee_collected = None, ti_gas_spent_wei = None,
      ti_sweep_tx = None, ti_error = None, ti_payload = None, ti_expected_version = Some v, ti_sweeper = None\<rparr>"

definition error_report :: "invoice \<Rightarrow> string \<Rightarrow> track_input" where
  "error_report iv e = (no_report (inv_version iv))\<lparr>ti_error := Some e\<rparr>"

definition paid_report :: "'s sweep_world \<Rightarrow> invoice \<Rightarrow> string \<Rightarrow> int \<Rightarrow> int \<Rightarrow> track_input" where
  "paid_report w iv token balance v =
     (no_report v)\<lparr>ti_status := Some (if tm_allow_partial (inv_terms iv) then Paid_Partial else Paid),
       ti_amount_paid := Some (int_text balance),
       ti_payload := Some (sw_payload w [(''observedBalance'', int_text balance), (''token'', token)])\<rparr>"

definition swept_report :: "int \<Rightarrow> int \<Rightarrow> int \<Rightarrow> int \<Rightarrow> string \<Rightarrow> event_payload \<Rightarrow> int \<Rightarrow> track_input" where
  "swept_report paid swept fee gas tx payload v =
     (no_report v)\<lparr>ti_status := Some Swept, ti_amount_paid := Some (int_text paid), ti_amount_swept := Some (int_text swept),
       ti_fee_collected := Some (int_text fee), ti_gas_spent_wei := Some (int_text gas), ti_sweep_tx := Some tx,
       ti_payload := Some payload\<rparr>"

definition fetchInvoices :: "'s sweep_world \<Rightarrow> sweeper_config \<Rightarrow> 's sweep_state \<Rightarrow> (invoice list, 's) sweep_effect" where
  "fetchInvoices w cfg st =
     andThen (ask (sw_invoices w) st) (\<lambda>r st.
       case r of
         Some ivs \<Rightarrow> (Inr ivs, st)
       | None \<Rightarrow>
           if \<not> truthy (sc_api_key cfg) then throw_error ''Sweeper invoice list failed'' st
           else andThen (ask (sw_legacy_invoices w) st) (\<lambda>r st.
                  case r of None \<Rightarrow> throw_error ''Invoice list failed'' st | Some ivs \<Rightarrow> (Inr ivs, st)))"

section \<open>What an invoice has been paid\<close>

datatype prepared = Not_Ready | Ready_Evm "address option" int | Ready_Tron address int | Ready_Solana int string string

definition bound_invoice :: "invoice \<Rightarrow> bool" where
  "bound_invoice iv =
     (truthy (tm_chain_id (inv_terms iv)) \<and> truthy (inv_address iv) \<and> truthy (tm_selected_to (inv_terms iv)) \<and> inv_status iv \<noteq> Swept)"

abbreviation inv_chain :: "invoice \<Rightarrow> string" where
  "inv_chain iv \<equiv> nullish (tm_chain_id (inv_terms iv)) ''''"

abbreviation inv_to :: "invoice \<Rightarrow> address" where
  "inv_to iv \<equiv> nullish (tm_selected_to (inv_terms iv)) ''''"

abbreviation inv_at :: "invoice \<Rightarrow> address" where
  "inv_at iv \<equiv> nullish (inv_address iv) ''''"

definition prepareInvoice :: "'s sweep_world \<Rightarrow> sweeper_setup \<Rightarrow> invoice \<Rightarrow> 's sweep_state \<Rightarrow> (prepared, 's) sweep_effect" where
  "prepareInvoice w su iv st =
     (if \<not> bound_invoice iv then (Inr Not_Ready, st)
      else (case find (\<lambda>c. ec_chain_id c = inv_chain iv) (su_observe su) of
        None \<Rightarrow> (Inr Not_Ready, st)
      | Some ch \<Rightarrow>
          (case resolveToken ch (tm_token (inv_terms iv)) of
             Inl e \<Rightarrow> throw_error e st
           | Inr token \<Rightarrow>
               andThen (ask (sw_balance w (ec_chain_id ch) (inv_at iv) (or_null token)) st) (\<lambda>balance st.
                 (Inr (if balance = 0 then Not_Ready else Ready_Evm token balance), st)))))"

definition tron_chain :: "tron_config \<Rightarrow> string" where
  "tron_chain t = nullish (nonempty_text (tc_chain_id t)) ''nile''"

definition prepareTronInvoice :: "'s sweep_world \<Rightarrow> tron_config \<Rightarrow> invoice \<Rightarrow> 's sweep_state \<Rightarrow> (prepared, 's) sweep_effect" where
  "prepareTronInvoice w t iv st =
     (if \<not> bound_invoice iv \<or> inv_chain iv \<noteq> tron_chain t then (Inr Not_Ready, st)
      else (case resolveTronToken t (tm_token (inv_terms iv)) of
        Inl e \<Rightarrow> throw_error e st
      | Inr token \<Rightarrow>
          andThen (ask (sw_tron_balance w (nullish (tc_full_host t) (defaultTronFullHost (Some (tron_chain t)))) (inv_at iv) token) st)
            (\<lambda>balance st. (Inr (if balance = 0 then Not_Ready else Ready_Tron token balance), st))))"

definition prepareSolanaInvoice :: "'s sweep_world \<Rightarrow> sweeper_setup \<Rightarrow> solana_config \<Rightarrow> invoice \<Rightarrow> 's sweep_state \<Rightarrow> (prepared, 's) sweep_effect" where
  "prepareSolanaInvoice w su g iv st =
     (if \<not> su_authority su \<or> \<not> bound_invoice iv then (Inr Not_Ready, st)
      else (case resolveSweeperSolanaChain g (inv_chain iv) of
        None \<Rightarrow> (Inr Not_Ready, st)
      | Some ch \<Rightarrow>
          (case resolveSweeperSolanaToken ch (tm_token (inv_terms iv)) of
             None \<Rightarrow> (Inr Not_Ready, st)
           | Some (symbol, mint) \<Rightarrow>
               andThen (ask (sw_solana_balance w (rs_chain_id ch) (inv_to iv) (inv_id iv) mint) st) (\<lambda>balance st.
                 (Inr (if balance = 0 then Not_Ready else Ready_Solana balance mint symbol), st)))))"

definition prepare_one :: "'s sweep_world \<Rightarrow> sweeper_setup \<Rightarrow> invoice \<Rightarrow> 's sweep_state \<Rightarrow> (prepared, 's) sweep_effect" where
  "prepare_one w su iv st =
     (case chainKind (tm_chain_id (inv_terms iv)) of
        Tron_Chain \<Rightarrow> (case su_tron su of None \<Rightarrow> (Inr Not_Ready, st) | Some t \<Rightarrow> prepareTronInvoice w t iv st)
      | Solana_Chain \<Rightarrow> (case su_solana su of None \<Rightarrow> (Inr Not_Ready, st) | Some g \<Rightarrow> prepareSolanaInvoice w su g iv st)
      | Evm_Chain \<Rightarrow> prepareInvoice w su iv st)"

text \<open>What is ready, by kind of chain; EVM invoices in batches by chain, in the order the chains come up.\<close>

record ready_lists =
  rl_evm :: "(string \<times> (invoice \<times> address option \<times> int) list) list"
  rl_tron :: "(invoice \<times> address \<times> int) list"
  rl_solana :: "(invoice \<times> int \<times> string \<times> string) list"

fun push_batch :: "string \<Rightarrow> 'a \<Rightarrow> (string \<times> 'a list) list \<Rightarrow> (string \<times> 'a list) list" where
  "push_batch k x [] = [(k, [x])]"
| "push_batch k x ((k', xs) # bs) = (if k' = k then (k', xs @ [x]) # bs else (k', xs) # push_batch k x bs)"

definition add_ready :: "invoice \<Rightarrow> prepared \<Rightarrow> ready_lists \<Rightarrow> ready_lists" where
  "add_ready iv p rl =
     (case p of
        Not_Ready \<Rightarrow> rl
      | Ready_Evm token b \<Rightarrow> rl\<lparr>rl_evm := push_batch (inv_chain iv) (iv, token, b) (rl_evm rl)\<rparr>
      | Ready_Tron token b \<Rightarrow> rl\<lparr>rl_tron := rl_tron rl @ [(iv, token, b)]\<rparr>
      | Ready_Solana b mint symbol \<Rightarrow> rl\<lparr>rl_solana := rl_solana rl @ [(iv, b, mint, symbol)]\<rparr>)"

text \<open>An error is reported, whether or not that succeeds.\<close>

definition report_error :: "'s sweep_world \<Rightarrow> sweeper_setup \<Rightarrow> invoice \<Rightarrow> string \<Rightarrow> 's sweep_state \<Rightarrow> 's sweep_state" where
  "report_error w su iv e st = snd (trackInvoiceWithRetry w (max_retries (su_config su)) (inv_id iv) (error_report iv e) st)"

fun prepare_all :: "'s sweep_world \<Rightarrow> sweeper_setup \<Rightarrow> invoice list \<Rightarrow> ready_lists \<Rightarrow> 's sweep_state \<Rightarrow> ready_lists \<times> 's sweep_state" where
  "prepare_all w su [] rl st = (rl, st)"
| "prepare_all w su (iv # ivs) rl st =
     (case prepare_one w su iv st of
        (Inr p, st') \<Rightarrow> prepare_all w su ivs (add_ready iv p rl) st'
      | (Inl e, st') \<Rightarrow> prepare_all w su ivs rl (report_error w su iv e st'))"

section \<open>Sweeping on EVM chains\<close>

definition normalizeToken :: "'s sweep_world \<Rightarrow> address option \<Rightarrow> address option" where
  "normalizeToken w token =
     (case or_null token of
        None \<Rightarrow> Some NATIVE_TOKEN
      | Some t \<Rightarrow> if t = ''native'' \<or> t = ''ETH'' \<or> t = ''0x0'' then Some NATIVE_TOKEN else sw_get_address w t)"

text \<open>
  CommerceInvoiceSdk.sweep: the address the contract derives from recipient and id has to hold the
  amount. Gives recipient, token, fee and the hash of the transaction.
\<close>

definition sdk_sweep ::
    "'s sweep_world \<Rightarrow> string \<Rightarrow> address option \<Rightarrow> int \<Rightarrow> address \<Rightarrow> string \<Rightarrow> 's sweep_state \<Rightarrow> (address \<times> address \<times> int \<times> string, 's) sweep_effect" where
  "sdk_sweep w c token amount to i st =
     andThen (pure_call (sw_get_address w to) st) (\<lambda>to st.
       andThen (pure_call (normalizeToken w token) st) (\<lambda>token st.
         andThen (ask (sw_invoice_address w c to i) st) (\<lambda>a st.
           andThen (ask (sw_balance w c a (if token = NATIVE_TOKEN then None else Some token)) st) (\<lambda>balance st.
             if balance < amount then throw_error (''Insufficient invoice balance: have '' @ int_text balance @ '', need '' @ int_text amount) st
             else andThen (ask (sw_quote_fee w c token amount) st) (\<lambda>fee st.
               andThen (send_sweep w (Evm_Sweep c token amount to i) st) (\<lambda>h st. (Inr (to, token, fee, h), st)))))))"

text \<open>The report on a sweep; its answer is not looked at.\<close>

definition report_swept :: "'s sweep_world \<Rightarrow> sweeper_setup \<Rightarrow> invoice \<Rightarrow> track_input \<Rightarrow> 's sweep_state \<Rightarrow> (unit, 's) sweep_effect" where
  "report_swept w su iv ti st =
     andThen (trackInvoiceWithRetry w (max_retries (su_config su)) (inv_id iv) ti st) (\<lambda>_ st. (Inr (), st))"

definition sweepOne ::
    "'s sweep_world \<Rightarrow> sweeper_setup \<Rightarrow> sweep_chain \<Rightarrow> invoice \<Rightarrow> address option \<Rightarrow> int \<Rightarrow> int \<Rightarrow> 's sweep_state \<Rightarrow> (unit, 's) sweep_effect" where
  "sweepOne w su ch iv token balance v st =
     andThen (sdk_sweep w (ec_chain_id ch) token balance (inv_to iv) (inv_id iv) st) (\<lambda>(to, token, fee, h) st.
       andThen (ask (sw_gas w h) st) (\<lambda>gas st.
         report_swept w su iv (swept_report balance balance fee (nullish gas 0) h (sw_payload w [(''token'', token), (''to'', to)]) v) st))"

text \<open>An invoice that has been paid is reported so, and if its chain can be swept, claimed and swept.\<close>

definition mark_paid :: "'s sweep_world \<Rightarrow> sweeper_setup \<Rightarrow> invoice \<Rightarrow> address option \<Rightarrow> int \<Rightarrow> 's sweep_state \<Rightarrow> (int option, 's) sweep_effect" where
  "mark_paid w su iv token balance st =
     (if inv_status iv = Awaiting_Payment \<or> inv_status iv = Created
      then andThen (trackInvoiceWithRetry w (max_retries (su_config su)) (inv_id iv)
                      (paid_report w iv (nullish token NATIVE_TOKEN) balance (inv_version iv)) st)
             (\<lambda>r st. (Inr (map_option inv_version r), st))
      else (Inr (Some (inv_version iv)), st))"

definition sweep_evm_item ::
    "'s sweep_world \<Rightarrow> sweeper_setup \<Rightarrow> string \<Rightarrow> invoice \<times> address option \<times> int \<Rightarrow> 's sweep_state \<Rightarrow> (unit, 's) sweep_effect" where
  "sweep_evm_item w su c item st =
     (case item of (iv, token, balance) \<Rightarrow>
        andThen (mark_paid w su iv token balance st) (\<lambda>paid st.
          case (paid, find (\<lambda>ch. ec_chain_id ch = c) (su_chains su)) of
            (Some v, Some ch) \<Rightarrow>
              if isUnsetSecret (ec_private_key ch) then (Inr (), st)
              else andThen (claimInvoiceWithRetry w (max_retries (su_config su)) (inv_id iv) v st) (\<lambda>claimed st.
                case claimed of None \<Rightarrow> (Inr (), st) | Some r \<Rightarrow> sweepOne w su ch iv token balance (inv_version r) st)
          | _ \<Rightarrow> (Inr (), st)))"

section \<open>Sweeping on Tron\<close>

definition DEFAULT_MIN_DELEGATE_ENERGY :: int where
  "DEFAULT_MIN_DELEGATE_ENERGY = 65000000"

definition DEFAULT_MIN_DELEGATE_BANDWIDTH :: int where
  "DEFAULT_MIN_DELEGATE_BANDWIDTH = 1500000"

definition MIN_INVOICE_TRX_SUN :: int where
  "MIN_INVOICE_TRX_SUN = 5000000"

definition ACCOUNT_ACTIVATION_TRX_SUN :: int where
  "ACCOUNT_ACTIVATION_TRX_SUN = 1000000"

text \<open>\<open>sponsor\<close> is the address of the sponsor's key.\<close>

definition delegateResourceToInvoice :: "'s sweep_world \<Rightarrow> address \<Rightarrow> address \<Rightarrow> tron_resource \<Rightarrow> int \<Rightarrow> 's sweep_state \<Rightarrow> (unit, 's) sweep_effect" where
  "delegateResourceToInvoice w sponsor a res amount st =
     (if amount \<le> 0 \<or> a = sponsor then (Inr (), st) else andThen (send_sweep w (Tron_Delegate res a amount) st) (\<lambda>_ st. (Inr (), st)))"

definition undelegateResourceFromInvoice :: "'s sweep_world \<Rightarrow> address \<Rightarrow> address \<Rightarrow> tron_resource \<Rightarrow> int \<Rightarrow> 's sweep_state \<Rightarrow> (unit, 's) sweep_effect" where
  "undelegateResourceFromInvoice w sponsor a res amount st =
     (if amount \<le> 0 \<or> a = sponsor then (Inr (), st) else andThen (send_sweep w (Tron_Undelegate res a amount) st) (\<lambda>_ st. (Inr (), st)))"

definition ensureInvoiceAccountActivated :: "'s sweep_world \<Rightarrow> string \<Rightarrow> address \<Rightarrow> address \<Rightarrow> 's sweep_state \<Rightarrow> (unit, 's) sweep_effect" where
  "ensureInvoiceAccountActivated w host sponsor a st =
     (if a = sponsor then (Inr (), st)
      else (let (active, s) = sw_tron_active w host a (snd st) in
            if active then (Inr (), (fst st, s))
            else andThen (send_sweep w (Tron_Fund a ACCOUNT_ACTIVATION_TRX_SUN) (fst st, s)) (\<lambda>_ st. (Inr (), st))))"

definition ensureInvoiceTrxForSweep :: "'s sweep_world \<Rightarrow> string \<Rightarrow> address \<Rightarrow> address \<Rightarrow> 's sweep_state \<Rightarrow> (unit, 's) sweep_effect" where
  "ensureInvoiceTrxForSweep w host sponsor a st =
     (if a = sponsor then (Inr (), st)
      else andThen (ask (sw_tron_trx w host a) st) (\<lambda>trx st.
        if MIN_INVOICE_TRX_SUN \<le> trx then (Inr (), st)
        else andThen (send_sweep w (Tron_Fund a (MIN_INVOICE_TRX_SUN - trx)) st) (\<lambda>_ st. (Inr (), st))))"

text \<open>The amounts delegated; none in burn mode.\<close>

definition prepareInvoiceResourcesForSweep ::
    "'s sweep_world \<Rightarrow> tron_config \<Rightarrow> string \<Rightarrow> address \<Rightarrow> address \<Rightarrow> 's sweep_state \<Rightarrow> ((int \<times> int) option, 's) sweep_effect" where
  "prepareInvoiceResourcesForSweep w t host sponsor a st =
     (if nullish (tc_energy_mode t) Staked = Burn
      then andThen (ensureInvoiceTrxForSweep w host sponsor a st) (\<lambda>_ st. (Inr None, st))
      else andThen (ensureInvoiceAccountActivated w host sponsor a st) (\<lambda>_ st.
        let energy = nullish (tc_min_energy t) DEFAULT_MIN_DELEGATE_ENERGY; bandwidth = nullish (tc_min_bandwidth t) DEFAULT_MIN_DELEGATE_BANDWIDTH in
        andThen (delegateResourceToInvoice w sponsor a Energy energy st) (\<lambda>_ st.
          andThen (delegateResourceToInvoice w sponsor a Bandwidth bandwidth st) (\<lambda>_ st. (Inr (Some (energy, bandwidth)), st)))))"

text \<open>Errors are only logged.\<close>

definition releaseInvoiceResourcesAfterSweep ::
    "'s sweep_world \<Rightarrow> address \<Rightarrow> address \<Rightarrow> (int \<times> int) option \<Rightarrow> 's sweep_state \<Rightarrow> 's sweep_state" where
  "releaseInvoiceResourcesAfterSweep w sponsor a delegated st =
     (case delegated of
        None \<Rightarrow> st
      | Some (energy, bandwidth) \<Rightarrow>
          snd (undelegateResourceFromInvoice w sponsor a Bandwidth bandwidth (snd (undelegateResourceFromInvoice w sponsor a Energy energy st))))"

text \<open>The whole balance, read again, goes to the merchant; gives amount and transaction.\<close>

definition sweepTrc20FromInvoice ::
    "'s sweep_world \<Rightarrow> string \<Rightarrow> address \<Rightarrow> address \<Rightarrow> address \<Rightarrow> 's sweep_state \<Rightarrow> (int \<times> string, 's) sweep_effect" where
  "sweepTrc20FromInvoice w host a token merchant st =
     andThen (ask (sw_tron_balance w host a token) st) (\<lambda>balance st.
       if balance = 0 then throw_error ''Invoice TRC20 balance is zero'' st
       else andThen (send_sweep w (Tron_Transfer token a merchant balance) st) (\<lambda>h st. (Inr (balance, h), st)))"

definition sweepTronOne ::
    "'s sweep_world \<Rightarrow> sweeper_setup \<Rightarrow> tron_config \<Rightarrow> invoice \<Rightarrow> address \<Rightarrow> int \<Rightarrow> int \<Rightarrow> 's sweep_state \<Rightarrow> (unit, 's) sweep_effect" where
  "sweepTronOne w su t iv token balance v st =
     (case (assertTronConfig t, or_null (tron_sponsor_key (su_config su) t)) of
        (Some e, _) \<Rightarrow> throw_error e st
      | (None, None) \<Rightarrow> throw_error ''Tron sponsor private key is required'' st
      | (None, Some key) \<Rightarrow>
          (let host = nullish (tc_full_host t) (defaultTronFullHost (Some (inv_chain iv))); sponsor = sw_tron_key_address w key; a = inv_at iv in
           andThen (pure_call (sw_tron_address w (the (tc_master_secret t)) (tronNumericChainId (inv_chain iv)) (inv_id iv)) st) (\<lambda>expected st.
             if expected \<noteq> a then throw_error (''Tron invoice address mismatch: expected '' @ expected @ '', got '' @ a) st
             else andThen (prepareInvoiceResourcesForSweep w t host sponsor a st) (\<lambda>delegated st.
               andThen (finally_do (sweepTrc20FromInvoice w host a token (inv_to iv) st) (releaseInvoiceResourcesAfterSweep w sponsor a delegated))
                 (\<lambda>(amount, h) st.
                   report_swept w su iv (swept_report balance amount 0 0 h (sw_payload w [(''token'', token), (''to'', inv_to iv)]) v) st)))))"

section \<open>Sweeping on Solana\<close>

definition sweepSolanaOne ::
    "'s sweep_world \<Rightarrow> sweeper_setup \<Rightarrow> solana_config \<Rightarrow> invoice \<Rightarrow> int \<Rightarrow> string \<Rightarrow> string \<Rightarrow> int \<Rightarrow> 's sweep_state \<Rightarrow> (unit, 's) sweep_effect" where
  "sweepSolanaOne w su g iv balance mint symbol v st =
     (case resolveSweeperSolanaChain g (inv_chain iv) of
        None \<Rightarrow> throw_error (''Solana chain '' @ inv_chain iv @ '' not configured'') st
      | Some ch \<Rightarrow>
          (let fee = balance * nullish (coalesce (rs_fee_bps ch) (sg_fee_bps g)) 50 div 10000 in
           andThen (send_sweep w (Solana_Settle (rs_chain_id ch) (inv_to iv) (inv_id iv) mint) st) (\<lambda>h st.
             report_swept w su iv (swept_report balance (balance - fee) fee 0 h
               (sw_payload w [(''token'', symbol), (''to'', inv_to iv), (''mint'', mint)]) v) st)))"

section \<open>One tick\<close>

text \<open>On Tron and Solana the invoice is claimed first, then reported paid, in this order also when it was before.\<close>

definition claim_and_mark ::
    "'s sweep_world \<Rightarrow> sweeper_setup \<Rightarrow> invoice \<Rightarrow> string \<Rightarrow> int \<Rightarrow> 's sweep_state \<Rightarrow> (int option, 's) sweep_effect" where
  "claim_and_mark w su iv token balance st =
     andThen (claimInvoiceWithRetry w (max_retries (su_config su)) (inv_id iv) (inv_version iv) st) (\<lambda>claimed st.
       case claimed of
         None \<Rightarrow> (Inr None, st)
       | Some r \<Rightarrow>
           andThen (trackInvoiceWithRetry w (max_retries (su_config su)) (inv_id iv) (paid_report w iv token balance (inv_version r)) st)
             (\<lambda>after st. (Inr (Some (nullish (map_option inv_version after) (inv_version r + 1))), st)))"

definition sweep_tron_item :: "'s sweep_world \<Rightarrow> sweeper_setup \<Rightarrow> invoice \<times> address \<times> int \<Rightarrow> 's sweep_state \<Rightarrow> (unit, 's) sweep_effect" where
  "sweep_tron_item w su item st =
     (case item of (iv, token, balance) \<Rightarrow>
        andThen (claim_and_mark w su iv token balance st) (\<lambda>v st.
          case (v, su_tron su) of (Some v, Some t) \<Rightarrow> sweepTronOne w su t iv token balance v st | _ \<Rightarrow> (Inr (), st)))"

definition sweep_solana_item :: "'s sweep_world \<Rightarrow> sweeper_setup \<Rightarrow> invoice \<times> int \<times> string \<times> string \<Rightarrow> 's sweep_state \<Rightarrow> (unit, 's) sweep_effect" where
  "sweep_solana_item w su item st =
     (case item of (iv, balance, mint, symbol) \<Rightarrow>
        andThen (claim_and_mark w su iv symbol balance st) (\<lambda>v st.
          case (v, su_solana su) of (Some v, Some g) \<Rightarrow> sweepSolanaOne w su g iv balance mint symbol v st | _ \<Rightarrow> (Inr (), st)))"

text \<open>An item that fails is reported and the next one follows; \<open>inv_of\<close> is the invoice of an item.\<close>

fun sweep_items ::
    "'s sweep_world \<Rightarrow> sweeper_setup \<Rightarrow> ('i \<Rightarrow> invoice) \<Rightarrow> ('i \<Rightarrow> 's sweep_state \<Rightarrow> (unit, 's) sweep_effect) \<Rightarrow> 'i list \<Rightarrow> 's sweep_state \<Rightarrow> 's sweep_state" where
  "sweep_items w su inv_of f [] st = st"
| "sweep_items w su inv_of f (x # xs) st =
     sweep_items w su inv_of f xs (snd (otherwise (f x st) (\<lambda>e st. (Inr (), report_error w su (inv_of x) e st))))"

definition sweep_ready :: "'s sweep_world \<Rightarrow> sweeper_setup \<Rightarrow> ready_lists \<Rightarrow> 's sweep_state \<Rightarrow> 's sweep_state" where
  "sweep_ready w su rl st =
     (let st1 = fold (\<lambda>(c, batch) st. sweep_items w su fst (sweep_evm_item w su c) batch st) (rl_evm rl) st;
          st2 = sweep_items w su fst (sweep_tron_item w su) (rl_tron rl) st1 in
      sweep_items w su fst (sweep_solana_item w su) (rl_solana rl) st2)"

definition sweeper_tick :: "'s sweep_world \<Rightarrow> sweeper_setup \<Rightarrow> 's sweep_state \<Rightarrow> (unit, 's) sweep_effect" where
  "sweeper_tick w su st =
     andThen (fetchInvoices w (su_config su) st) (\<lambda>ivs st.
       let (rl, st') = prepare_all w su ivs \<lparr>rl_evm = [], rl_tron = [], rl_solana = []\<rparr> st in
       (Inr (), sweep_ready w su rl st'))"

end
