(* ===== verification/SweeperProps.thy ===== *)
theory SweeperProps
  imports SweeperWorker
begin

text \<open>
  What the sweeper sends: to whom, how much and when; and what becomes of the resources it lends to
  invoices on Tron.
\<close>

section \<open>Sweeps go to the merchant\<close>

text \<open>The server has, at some moment, granted a claim of the invoice.\<close>

definition granted :: "'s sweep_world \<Rightarrow> string \<Rightarrow> bool" where
  "granted w i = (\<exists>v s r. fst (sw_claim w i v s) = Answer_Ok (Some r))"

definition merchant_sweep :: "'s sweep_world \<Rightarrow> invoice \<Rightarrow> sweep_tx \<Rightarrow> bool" where
  "merchant_sweep w iv tx =
     (bound_invoice iv \<and> granted w (inv_id iv) \<and>
      (case tx of
         Evm_Sweep c token amount to i \<Rightarrow>
           c = inv_chain iv \<and> i = inv_id iv \<and> sw_get_address w (inv_to iv) = Some to \<and>
           (\<exists>t s. fst (sw_balance w c (inv_at iv) t s) = Some amount) \<and> amount \<noteq> 0
       | Solana_Settle c to i mint \<Rightarrow>
           c = inv_chain iv \<and> i = inv_id iv \<and> to = inv_to iv \<and> (\<exists>b s. fst (sw_solana_balance w c to i mint s) = Some b \<and> b \<noteq> 0)
       | Tron_Transfer token a to amount \<Rightarrow>
           a = inv_at iv \<and> to = inv_to iv \<and> (\<exists>secret. sw_tron_address w secret (tronNumericChainId (inv_chain iv)) (inv_id iv) = Some a) \<and>
           (\<exists>host s. fst (sw_tron_balance w host a token s) = Some amount) \<and> amount \<noteq> 0
       | Tron_Fund a _ \<Rightarrow> a = inv_at iv
       | Tron_Delegate _ a _ \<Rightarrow> a = inv_at iv
       | Tron_Undelegate _ a _ \<Rightarrow> a = inv_at iv))"

lemma claim_granted: "claimInvoiceWithRetry w n i v st = (Inr (Some r), st') \<Longrightarrow> granted w i"
proof (induction n arbitrary: v st)
  case (Suc n)
  obtain ans s where c: "sw_claim w i v (snd st) = (ans, s)" by force
  have f: "fst (sw_claim w i v (snd st)) = ans" by (simp add: c)
  show ?case
  proof (cases ans)
    case (Answer_Ok x)
    then have "fst (sw_claim w i v (snd st)) = Answer_Ok (Some r)" using Suc.prems f by (auto simp: c Let_def)
    then show ?thesis unfolding granted_def by blast
  qed (use Suc in \<open>auto simp: c Let_def split: option.splits if_splits\<close>)
qed simp

lemma claim_log: "fst (snd (claimInvoiceWithRetry w n i v st)) = fst st"
proof (induction n arbitrary: v st)
  case (Suc n)
  obtain ans s where c: "sw_claim w i v (snd st) = (ans, s)" by force
  show ?case by (cases ans) (auto simp: c Suc Let_def split: option.split)
qed simp

lemma track_log: "fst (snd (trackInvoiceWithRetry w n i ti st)) = fst st"
proof (induction n arbitrary: ti st)
  case (Suc n)
  obtain ans s where c: "sw_track w i ti (snd st) = (ans, s)" by force
  show ?case by (cases ans) (auto simp: c Suc Let_def)
qed simp

lemma sends_claim:
  assumes "\<And>x st'. (\<And>r. x = Some r \<Longrightarrow> granted w i) \<Longrightarrow> sends A st' (k x st')"
  shows "sends A st (andThen (claimInvoiceWithRetry w n i v st) k)"
proof -
  obtain res st' where c: "claimInvoiceWithRetry w n i v st = (res, st')" by (cases "claimInvoiceWithRetry w n i v st")
  have l: "fst st' = fst st" using claim_log [of w n i v st] by (simp add: c)
  show ?thesis
  proof (cases res)
    case (Inr x)
    have "sends A st' (k x st')" by (rule assms) (use claim_granted c Inr in blast)
    then show ?thesis by (simp add: c Inr andThen_def sends_def l)
  qed (simp add: c andThen_def sends_def l sent_only_same)
qed

lemma sends_track: "sends A st (trackInvoiceWithRetry w n i ti st)"
  by (simp add: sends_def track_log sent_only_same)

lemma sends_pure: "(\<And>x. v = Some x \<Longrightarrow> sends A st (k x st)) \<Longrightarrow> sends A st (andThen (pure_call v st) k)"
  by (cases v) (simp_all add: pure_call_def andThen_def throw_error_def sends_def sent_only_same)

lemma sends_swept: "sends A st (report_swept w su iv ti st)"
  unfolding report_swept_def by (intro sends_then sends_track sends_ended)

lemma sends_sweep: "A tx \<Longrightarrow> sends A st (send_sweep w tx st)"
  by (simp add: send_sweep_def sends_tx)

lemma sends_pair: "(\<And>x y. p = (x, y) \<Longrightarrow> sends A st (case (x, y) of (x, y) \<Rightarrow> g x y)) \<Longrightarrow> sends A st (case p of (x, y) \<Rightarrow> g x y)"
  by (cases p) simp

lemmas sends_rules = sends_then sends_track sends_claim sends_pure sends_ask sends_if sends_case sends_ended sends_swept sends_sweep

text \<open>What is known of an item that is ready.\<close>

definition prepared_ok :: "'s sweep_world \<Rightarrow> invoice \<Rightarrow> prepared \<Rightarrow> bool" where
  "prepared_ok w iv p =
     (p = Not_Ready \<or>
      (bound_invoice iv \<and>
       (case p of
          Not_Ready \<Rightarrow> True
        | Ready_Evm token b \<Rightarrow> b \<noteq> 0 \<and> (\<exists>t s. fst (sw_balance w (inv_chain iv) (inv_at iv) t s) = Some b)
        | Ready_Tron token b \<Rightarrow> b \<noteq> 0 \<and> (\<exists>host s. fst (sw_tron_balance w host (inv_at iv) token s) = Some b)
        | Ready_Solana b mint symbol \<Rightarrow> b \<noteq> 0 \<and> (\<exists>s. fst (sw_solana_balance w (inv_chain iv) (inv_to iv) (inv_id iv) mint s) = Some b))))"

lemma asked_ready:
  assumes "andThen (ask f st) (\<lambda>b st. (Inr (if b = 0 then Not_Ready else g b), st)) = (Inr p, st')" and "p \<noteq> Not_Ready"
  shows "\<exists>b. b \<noteq> 0 \<and> (\<exists>s. fst (f s) = Some b) \<and> p = g b"
proof -
  obtain r s where f: "f (snd st) = (r, s)" by force
  then obtain b where b: "r = Some b" "b \<noteq> 0" "p = g b"
    using assms by (cases r) (auto simp: ask_def andThen_def f split: if_splits)
  have "fst (f (snd st)) = Some b" by (simp add: f b(1))
  with b(2,3) show ?thesis by blast
qed

lemma prepare_ok: "prepare_one w su iv st = (Inr p, st') \<Longrightarrow> prepared_ok w iv p"
proof -
  assume p: "prepare_one w su iv st = (Inr p, st')"
  show ?thesis
  proof (cases "p = Not_Ready")
    case False
    note ready = asked_ready [OF _ False]
    have evm: "prepared_ok w iv p" if e: "prepareInvoice w su iv st = (Inr p, st')"
    proof -
      obtain ch where ch: "bound_invoice iv" "find (\<lambda>c. ec_chain_id c = inv_chain iv) (su_observe su) = Some ch"
        using e False by (auto simp: prepareInvoice_def split: if_splits option.splits)
      then have "ec_chain_id ch = inv_chain iv" by (auto simp: find_Some_iff)
      then obtain token where "andThen (ask (sw_balance w (inv_chain iv) (inv_at iv) (or_null token)) st) (\<lambda>b st.
          (Inr (if b = 0 then Not_Ready else Ready_Evm token b), st)) = (Inr p, st')"
        using e False ch by (auto simp: prepareInvoice_def throw_error_def split: if_splits option.splits sum.splits)
      from ready [OF this] ch(1) show ?thesis by (auto simp: prepared_ok_def)
    qed
    have tron: "prepared_ok w iv p" if e: "prepareTronInvoice w t iv st = (Inr p, st')" for t
    proof -
      have b: "bound_invoice iv" using e False by (auto simp: prepareTronInvoice_def split: if_splits)
      then obtain token where "andThen (ask (sw_tron_balance w (nullish (tc_full_host t) (defaultTronFullHost (Some (tron_chain t)))) (inv_at iv) token) st)
          (\<lambda>b st. (Inr (if b = 0 then Not_Ready else Ready_Tron token b), st)) = (Inr p, st')"
        using e False by (auto simp: prepareTronInvoice_def throw_error_def split: if_splits sum.splits)
      from ready [OF this] b show ?thesis by (auto simp: prepared_ok_def)
    qed
    have solana: "prepared_ok w iv p" if e: "prepareSolanaInvoice w su g iv st = (Inr p, st')" for g
    proof -
      obtain ch symbol mint where ch: "bound_invoice iv" "resolveSweeperSolanaChain g (inv_chain iv) = Some ch"
          "resolveSweeperSolanaToken ch (tm_token (inv_terms iv)) = Some (symbol, mint)"
        using e False by (auto simp: prepareSolanaInvoice_def split: if_splits option.splits)
      have "rs_chain_id ch = inv_chain iv" using ch(2) by (auto simp: resolveSweeperSolanaChain_def find_Some_iff)
      then have "andThen (ask (sw_solana_balance w (inv_chain iv) (inv_to iv) (inv_id iv) mint) st)
          (\<lambda>b st. (Inr (if b = 0 then Not_Ready else Ready_Solana b mint symbol), st)) = (Inr p, st')"
        using e False ch by (simp add: prepareSolanaInvoice_def split: if_splits)
      from ready [OF this] ch(1) show ?thesis by (auto simp: prepared_ok_def)
    qed
    show ?thesis
      using p False evm tron solana by (auto simp: prepare_one_def split: chain_kind.splits option.splits)
  qed (simp add: prepared_ok_def)
qed

lemma prepare_log: "fst (snd (prepare_one w su iv st)) = fst st"
proof -
  have a: "fst (snd (andThen (ask f st) (\<lambda>b st. (Inr (g b), st)))) = fst st" for f and g :: "int \<Rightarrow> prepared"
    by (auto simp: ask_def andThen_def case_prod_beta split: option.split)
  show ?thesis
    by (auto simp: prepare_one_def prepareInvoice_def prepareTronInvoice_def prepareSolanaInvoice_def throw_error_def a
        split: chain_kind.split option.split sum.split)
qed

lemma sends_mark: "sends A st (mark_paid w su iv token b st)"
  unfolding mark_paid_def by (intro sends_rules)

lemma sends_claim_mark:
  assumes "\<And>v st'. (v \<noteq> None \<Longrightarrow> granted w (inv_id iv)) \<Longrightarrow> sends A st' (k v st')"
  shows "sends A st (andThen (claim_and_mark w su iv token b st) k)"
proof -
  obtain r st1 where c: "claim_and_mark w su iv token b st = (r, st1)" by (cases "claim_and_mark w su iv token b st")
  have l: "fst st1 = fst st"
  proof -
    have "sends (\<lambda>_. False) st (claim_and_mark w su iv token b st)"
      unfolding claim_and_mark_def by (intro sends_rules)
    then show ?thesis by (cases st1) (auto simp: sends_def sent_only_def c list_all_iff)
  qed
  have g: "granted w (inv_id iv)" if rv: "r = Inr (Some v)" for v
  proof -
    obtain res st2 where k: "claimInvoiceWithRetry w (max_retries (su_config su)) (inv_id iv) (inv_version iv) st = (res, st2)"
      by (cases "claimInvoiceWithRetry w (max_retries (su_config su)) (inv_id iv) (inv_version iv) st")
    then obtain y where "res = Inr (Some y)"
      using c rv by (cases res) (auto simp: claim_and_mark_def andThen_def split: option.splits)
    with k show ?thesis using claim_granted by blast
  qed
  show ?thesis
  proof (cases r)
    case (Inr v)
    have "sends A st1 (k v st1)" by (rule assms) (use g Inr in auto)
    then show ?thesis by (simp add: c Inr andThen_def sends_def l)
  qed (simp add: c andThen_def sends_def l sent_only_same)
qed

text \<open>EVM.\<close>

lemma sends_sdk:
  assumes "\<And>to token. sw_get_address w merchant = Some to \<Longrightarrow> A (Evm_Sweep c token amount to i)"
  shows "sends A st (sdk_sweep w c token amount merchant i st)"
  unfolding sdk_sweep_def by (intro sends_rules assms)

lemma evm_item_sends:
  assumes "bound_invoice iv" and "b \<noteq> 0" and "fst (sw_balance w (inv_chain iv) (inv_at iv) t s) = Some b"
  shows "sends (merchant_sweep w iv) st (sweep_evm_item w su (inv_chain iv) (iv, token, b) st)"
proof -
  have one: "sends (merchant_sweep w iv) st (sweepOne w su ch iv token b v st)"
    if "granted w (inv_id iv)" "ec_chain_id ch = inv_chain iv" for ch v st
  proof -
    have ok: "merchant_sweep w iv (Evm_Sweep (ec_chain_id ch) token b to (inv_id iv))" if "sw_get_address w (inv_to iv) = Some to" for to token
      using assms that \<open>granted w (inv_id iv)\<close> \<open>ec_chain_id ch = inv_chain iv\<close> unfolding merchant_sweep_def by auto
    show ?thesis
      unfolding sweepOne_def split_def by (intro sends_rules sends_sdk ok)
  qed
  have rest: "sends (merchant_sweep w iv) st
      (case paid of None \<Rightarrow> (Inr (), st)
       | Some v \<Rightarrow> (case find (\<lambda>ch. ec_chain_id ch = inv_chain iv) (su_chains su) of
           None \<Rightarrow> (Inr (), st)
         | Some ch \<Rightarrow>
             if isUnsetSecret (ec_private_key ch) then (Inr (), st)
             else andThen (claimInvoiceWithRetry w (max_retries (su_config su)) (inv_id iv) v st) (\<lambda>claimed st.
               case claimed of None \<Rightarrow> (Inr (), st) | Some r \<Rightarrow> sweepOne w su ch iv token b (inv_version r) st)))" for paid st
  proof (intro sends_case sends_ended sends_if sends_claim one)
    fix ch assume "find (\<lambda>ch. ec_chain_id ch = inv_chain iv) (su_chains su) = Some ch"
    then show "ec_chain_id ch = inv_chain iv" by (auto simp: find_Some_iff)
  qed
  show ?thesis
    unfolding sweep_evm_item_def prod.case by (intro sends_then sends_mark rest)
qed

text \<open>Solana and Tron.\<close>

lemma solana_item_sends:
  assumes "bound_invoice iv" and "b \<noteq> 0" and "fst (sw_solana_balance w (inv_chain iv) (inv_to iv) (inv_id iv) mint s) = Some b"
  shows "sends (merchant_sweep w iv) st (sweep_solana_item w su (iv, b, mint, symbol) st)"
proof -
  have one: "sends (merchant_sweep w iv) st (sweepSolanaOne w su g iv b mint symbol v st)" if "granted w (inv_id iv)" for g v st
  proof -
    have ok: "merchant_sweep w iv (Solana_Settle (rs_chain_id ch) (inv_to iv) (inv_id iv) mint)"
      if "resolveSweeperSolanaChain g (inv_chain iv) = Some ch" for ch
    proof -
      have "rs_chain_id ch = inv_chain iv" using that by (auto simp: resolveSweeperSolanaChain_def find_Some_iff)
      then show ?thesis using assms \<open>granted w (inv_id iv)\<close> unfolding merchant_sweep_def by auto
    qed
    show ?thesis unfolding sweepSolanaOne_def Let_def by (intro sends_rules ok)
  qed
  have rest: "sends (merchant_sweep w iv) st
      (case v of None \<Rightarrow> (Inr (), st) | Some v \<Rightarrow> (case su_solana su of None \<Rightarrow> (Inr (), st) | Some g \<Rightarrow> sweepSolanaOne w su g iv b mint symbol v st))"
    if "v \<noteq> None \<Longrightarrow> granted w (inv_id iv)" for v st
    using that one by (cases v; cases "su_solana su") (simp_all add: sends_ended)
  show ?thesis
    unfolding sweep_solana_item_def prod.case by (rule sends_claim_mark) (rule rest)
qed

lemma sends_lend:
  assumes "\<And>tx. (case tx of Tron_Fund a' _ \<Rightarrow> a' = a | Tron_Delegate _ a' _ \<Rightarrow> a' = a | Tron_Undelegate _ a' _ \<Rightarrow> a' = a | _ \<Rightarrow> False) \<Longrightarrow> A tx"
  shows "sends A st (prepareInvoiceResourcesForSweep w t host sponsor a st)"
    and "sends A st (Inr x, releaseInvoiceResourcesAfterSweep w sponsor a delegated st)"
proof -
  have ok: "A (Tron_Fund a n)" "A (Tron_Delegate res a n)" "A (Tron_Undelegate res a n)" for n res by (rule assms; simp)+
  have active: "sends A st (ensureInvoiceAccountActivated w host sponsor a st)" for st
  proof -
    obtain b s where "sw_tron_active w host a (snd st) = (b, s)" by force
    moreover have "sends A (fst st, s) (andThen (send_sweep w (Tron_Fund a ACCOUNT_ACTIVATION_TRX_SUN) (fst st, s)) (\<lambda>_ st. (Inr (), st)))"
      by (intro sends_rules ok)
    ultimately show ?thesis by (simp add: ensureInvoiceAccountActivated_def sends_def sent_only_same)
  qed
  show "sends A st (prepareInvoiceResourcesForSweep w t host sponsor a st)"
    unfolding prepareInvoiceResourcesForSweep_def ensureInvoiceTrxForSweep_def delegateResourceToInvoice_def Let_def
    by (intro active sends_rules ok)
  have un: "sends A st (undelegateResourceFromInvoice w sponsor a res n st)" for res n st
    unfolding undelegateResourceFromInvoice_def by (intro sends_rules ok)
  show "sends A st (Inr x, releaseInvoiceResourcesAfterSweep w sponsor a delegated st)"
  proof (cases delegated)
    case (Some d)
    obtain e b where "d = (e, b)" by (cases d)
    moreover have "sends A st (Inr x, snd (undelegateResourceFromInvoice w sponsor a Bandwidth b (snd (undelegateResourceFromInvoice w sponsor a Energy e st))))"
      using un [of st Energy e] un [of "snd (undelegateResourceFromInvoice w sponsor a Energy e st)" Bandwidth b]
      unfolding sends_def snd_conv by (rule sent_only_trans)
    ultimately show ?thesis by (simp add: releaseInvoiceResourcesAfterSweep_def Some)
  qed (simp add: releaseInvoiceResourcesAfterSweep_def sends_ended)
qed

lemma sends_finally: "sends A st r \<Longrightarrow> (\<And>st'. sends A st' (Inr (), k st')) \<Longrightarrow> sends A st (finally_do r k)"
  unfolding sends_def finally_do_def snd_conv by (rule sent_only_trans)

lemma tron_item_sends:
  assumes b: "bound_invoice iv"
  shows "sends (merchant_sweep w iv) st (sweep_tron_item w su (iv, token, b) st)"
proof -
  have one: "sends (merchant_sweep w iv) st (sweepTronOne w su t iv token b v st)" if g: "granted w (inv_id iv)" for t v st
  proof -
    have lend: "merchant_sweep w iv tx"
      if "case tx of Tron_Fund a' _ \<Rightarrow> a' = inv_at iv | Tron_Delegate _ a' _ \<Rightarrow> a' = inv_at iv | Tron_Undelegate _ a' _ \<Rightarrow> a' = inv_at iv | _ \<Rightarrow> False" for tx
      using that b g by (cases tx) (auto simp: merchant_sweep_def)
    have sweep: "sends (merchant_sweep w iv) st (sweepTrc20FromInvoice w host (inv_at iv) token (inv_to iv) st)"
      if "sw_tron_address w secret (tronNumericChainId (inv_chain iv)) (inv_id iv) = Some (inv_at iv)" for secret host st
    proof -
      have "merchant_sweep w iv (Tron_Transfer token (inv_at iv) (inv_to iv) n)" if "fst (sw_tron_balance w host (inv_at iv) token s) = Some n" "n \<noteq> 0" for n s
        using that b g \<open>sw_tron_address w secret _ _ = _\<close> unfolding merchant_sweep_def by auto
      then show ?thesis unfolding sweepTrc20FromInvoice_def by (intro sends_rules)
    qed
    show ?thesis
    proof (cases "assertTronConfig t")
      case None
      show ?thesis
        unfolding sweepTronOne_def None Let_def prod.case option.case split_def
        by (intro sends_case sends_pure sends_if sends_then sends_lend sends_finally sends_ended sends_swept lend sweep) simp_all
    qed (simp add: sweepTronOne_def sends_ended)
  qed
  have rest: "sends (merchant_sweep w iv) st
      (case v of None \<Rightarrow> (Inr (), st) | Some v \<Rightarrow> (case su_tron su of None \<Rightarrow> (Inr (), st) | Some t \<Rightarrow> sweepTronOne w su t iv token b v st))"
    if "v \<noteq> None \<Longrightarrow> granted w (inv_id iv)" for v st
    using that one by (cases v; cases "su_tron su") (simp_all add: sends_ended)
  show ?thesis
    unfolding sweep_tron_item_def prod.case by (rule sends_claim_mark) (rule rest)
qed

section \<open>The tick\<close>

lemma sends_report_error: "sends A st (Inr (), report_error w su iv e st)"
  unfolding report_error_def by (intro sends_reported sends_track)

lemma sends_items:
  "(\<And>x st. x \<in> set xs \<Longrightarrow> sends A st (f x st)) \<Longrightarrow> sends A st (Inr (), sweep_items w su inv_of f xs st)"
proof (induction xs arbitrary: st)
  case (Cons x xs)
  let ?r = "otherwise (f x st) (\<lambda>e st. (Inr (), report_error w su (inv_of x) e st))"
  have "sends A st ?r" using Cons.prems by (intro sends_otherwise sends_report_error) simp
  moreover have "sends A (snd ?r) (Inr (), sweep_items w su inv_of f xs (snd ?r))" using Cons by simp
  ultimately show ?case unfolding sends_def by (simp del: split_paired_All) (rule sent_only_trans)
qed (simp add: sends_ended)

text \<open>Everything that is ready belongs to a listed invoice.\<close>

definition ready_ok :: "'s sweep_world \<Rightarrow> invoice set \<Rightarrow> ready_lists \<Rightarrow> bool" where
  "ready_ok w L rl =
     ((\<forall>(c, batch) \<in> set (rl_evm rl). \<forall>(iv, token, b) \<in> set batch. iv \<in> L \<and> c = inv_chain iv \<and> prepared_ok w iv (Ready_Evm token b)) \<and>
      (\<forall>(iv, token, b) \<in> set (rl_tron rl). iv \<in> L \<and> prepared_ok w iv (Ready_Tron token b)) \<and>
      (\<forall>(iv, b, mint, symbol) \<in> set (rl_solana rl). iv \<in> L \<and> prepared_ok w iv (Ready_Solana b mint symbol)))"

lemma push_batch_all:
  "(\<forall>(c, batch) \<in> set bs. \<forall>x \<in> set batch. Q c x) \<Longrightarrow> Q k y \<Longrightarrow> \<forall>(c, batch) \<in> set (push_batch k y bs). \<forall>x \<in> set batch. Q c x"
  by (induction k y bs rule: push_batch.induct) auto

lemma add_ready_ok: "ready_ok w L rl \<Longrightarrow> iv \<in> L \<Longrightarrow> prepared_ok w iv p \<Longrightarrow> ready_ok w L (add_ready iv p rl)"
proof (cases p)
  case (Ready_Evm token b)
  assume ok: "ready_ok w L rl" and iv: "iv \<in> L" and p: "prepared_ok w iv p"
  let ?Q = "\<lambda>c (iv, token, b). iv \<in> L \<and> c = inv_chain iv \<and> prepared_ok w iv (Ready_Evm token b)"
  have "\<forall>(c, batch) \<in> set (rl_evm rl). \<forall>x \<in> set batch. ?Q c x" using ok by (auto simp: ready_ok_def)
  then have "\<forall>(c, batch) \<in> set (push_batch (inv_chain iv) (iv, token, b) (rl_evm rl)). \<forall>x \<in> set batch. ?Q c x"
    by (rule push_batch_all) (use iv p Ready_Evm in simp)
  with ok Ready_Evm show ?thesis by (simp add: ready_ok_def add_ready_def)
qed (auto simp: add_ready_def ready_ok_def)

lemma prepare_all_ok:
  "ready_ok w L rl \<Longrightarrow> set ivs \<subseteq> L \<Longrightarrow> prepare_all w su ivs rl st = (rl', st') \<Longrightarrow>
   ready_ok w L rl' \<and> sends (\<lambda>_. False) st (Inr (), st')"
proof (induction ivs arbitrary: rl st)
  case (Cons iv ivs)
  obtain r st1 where p: "prepare_one w su iv st = (r, st1)" by (cases "prepare_one w su iv st")
  have log: "fst st1 = fst st" using prepare_log [of w su iv st] by (simp add: p)
  show ?case
  proof (cases r)
    case (Inl e)
    have "sends (\<lambda>_. False) st1 (Inr (), report_error w su iv e st1)" by (rule sends_report_error)
    moreover have "ready_ok w L rl' \<and> sends (\<lambda>_. False) (report_error w su iv e st1) (Inr (), st')"
      using Cons.IH [of rl "report_error w su iv e st1"] Cons.prems p Inl by simp
    ultimately show ?thesis using log unfolding sends_def by (auto intro: sent_only_trans)
  next
    case (Inr q)
    have "ready_ok w L (add_ready iv q rl)" using Cons.prems prepare_ok [OF p [unfolded Inr]] by (intro add_ready_ok) auto
    then have "ready_ok w L rl' \<and> sends (\<lambda>_. False) st1 (Inr (), st')"
      using Cons.IH [of "add_ready iv q rl" st1] Cons.prems p Inr by simp
    then show ?thesis using log by (simp add: sends_def)
  qed
qed (simp add: sends_ended)

lemma fetched:
  assumes "fetchInvoices w cfg st = (r, st')"
  shows "fst st' = fst st \<and> (\<forall>ivs. r = Inr ivs \<longrightarrow> (\<exists>s. fst (sw_invoices w s) = Some (Some ivs) \<or> fst (sw_legacy_invoices w s) = Some (Some ivs)))"
proof -
  obtain a s where a: "sw_invoices w (snd st) = (a, s)" by (cases "sw_invoices w (snd st)")
  obtain b s' where b: "sw_legacy_invoices w s = (b, s')" by (cases "sw_legacy_invoices w s")
  have f: "fst (sw_invoices w (snd st)) = a" "fst (sw_legacy_invoices w s) = b" by (simp_all add: a b)
  have "fst st' = fst st \<and> (\<forall>ivs. r = Inr ivs \<longrightarrow> a = Some (Some ivs) \<or> b = Some (Some ivs))"
  proof (cases a)
    case (Some x)
    then show ?thesis using assms
      by (cases x; cases b) (auto simp: fetchInvoices_def ask_def andThen_def throw_error_def a b split: if_splits option.splits)
  qed (use assms in \<open>auto simp: fetchInvoices_def ask_def andThen_def a\<close>)
  with f show ?thesis by metis
qed

definition listed_invoice :: "'s sweep_world \<Rightarrow> invoice \<Rightarrow> bool" where
  "listed_invoice w iv =
     (\<exists>s ivs. (fst (sw_invoices w s) = Some (Some ivs) \<or> fst (sw_legacy_invoices w s) = Some (Some ivs)) \<and> iv \<in> set ivs)"


end
