(* ===== verification/SweeperServer.thy ===== *)
theory SweeperServer
  imports SweeperProps MerchantRoutes InvoiceLifecycle
begin

text \<open>
  The sweeper and the server's invoice table together: what a payment does, of whatever amount, and
  what becomes of an invoice whose sweep was not reported.
\<close>

section \<open>The invoices of the server\<close>

text \<open>
  Claims and reports of the sweeper \<open>a\<close> go to the table, past the check of their signature; the list
  is that of its chains. Every other call is answered by \<open>w\<close>. \<open>clock\<close> is the time at the server,
  \<open>lease\<close> the length of a claim, \<open>shop\<close> what the shop answers to a callback.
\<close>

definition reply_of :: "invoice option invoice_result \<Rightarrow> sweep_reply" where
  "reply_of res =
     (case res of
        Inr r \<Rightarrow> Answer_Ok r
      | Inl (Http_Error code msg r) \<Rightarrow> if code = 409 then Answer_Conflict r else Answer_Status code)"

definition table_list :: "string list option \<Rightarrow> invoice_db \<times> 'n \<Rightarrow> invoice list option option \<times> invoice_db \<times> 'n" where
  "table_list chs s = (Some (Some (listWorkerInvoices (fst s) default_worker_statuses chs)), s)"

definition table_claim :: "address \<Rightarrow> int \<Rightarrow> ('n \<Rightarrow> timestamp) \<Rightarrow> string \<Rightarrow> int \<Rightarrow> invoice_db \<times> 'n \<Rightarrow> sweep_reply \<times> invoice_db \<times> 'n" where
  "table_claim a lease clock i v s =
     (let (r, db) = claimInvoice (fst s) i a v lease (clock (snd s)) in
      (reply_of (case r of Inl e \<Rightarrow> Inl e | Inr x \<Rightarrow> Inr (Some x)), (db, snd s)))"

definition table_track :: "address \<Rightarrow> shop_answer \<Rightarrow> ('n \<Rightarrow> timestamp) \<Rightarrow> string \<Rightarrow> track_input \<Rightarrow> invoice_db \<times> 'n \<Rightarrow> sweep_reply \<times> invoice_db \<times> 'n" where
  "table_track a shop clock i ti s =
     (let (r, db) = tracked_answer (Some i) (applyTrack (fst s) (Some i) (map_option status_text (ti_status ti)) ti (Some a) shop id (clock (snd s))) in
      (reply_of r, (db, snd s)))"

definition beside :: "('n \<Rightarrow> 'a \<times> 'n) \<Rightarrow> invoice_db \<times> 'n \<Rightarrow> 'a \<times> invoice_db \<times> 'n" where
  "beside f s = (let (x, n) = f (snd s) in (x, (fst s, n)))"

definition with_table ::
    "address \<Rightarrow> string list option \<Rightarrow> int \<Rightarrow> shop_answer \<Rightarrow> ('n \<Rightarrow> timestamp) \<Rightarrow> 'n sweep_world \<Rightarrow> (invoice_db \<times> 'n) sweep_world" where
  "with_table a chs lease shop clock w =
     \<lparr>sw_invoices = table_list chs, sw_legacy_invoices = table_list chs, sw_claim = table_claim a lease clock,
      sw_track = table_track a shop clock,
      sw_balance = (\<lambda>c x t. beside (sw_balance w c x t)), sw_invoice_address = (\<lambda>c to i. beside (sw_invoice_address w c to i)),
      sw_quote_fee = (\<lambda>c t b. beside (sw_quote_fee w c t b)), sw_tron_balance = (\<lambda>h x t. beside (sw_tron_balance w h x t)),
      sw_tron_active = (\<lambda>h x. beside (sw_tron_active w h x)), sw_tron_trx = (\<lambda>h x. beside (sw_tron_trx w h x)),
      sw_solana_balance = (\<lambda>c to i m. beside (sw_solana_balance w c to i m)), sw_send = (\<lambda>tx. beside (sw_send w tx)),
      sw_gas = (\<lambda>h. beside (sw_gas w h)), sw_get_address = sw_get_address w, sw_tron_address = sw_tron_address w,
      sw_tron_key_address = sw_tron_key_address w, sw_payload = sw_payload w\<rparr>"

lemma with_table_calls:
  "sw_balance (with_table a chs lease shop clock w) c x t = beside (sw_balance w c x t)"
  "sw_invoice_address (with_table a chs lease shop clock w) c y i = beside (sw_invoice_address w c y i)"
  "sw_quote_fee (with_table a chs lease shop clock w) c z b = beside (sw_quote_fee w c z b)"
  "sw_send (with_table a chs lease shop clock w) = (\<lambda>tx. beside (sw_send w tx))"
  "sw_gas (with_table a chs lease shop clock w) h = beside (sw_gas w h)"
  "sw_get_address (with_table a chs lease shop clock w) = sw_get_address w"
  "normalizeToken (with_table a chs lease shop clock w) token = normalizeToken w token"
  by (simp_all add: with_table_def normalizeToken_def split: option.split)

lemma fst_beside [simp]: "fst (snd (beside f s)) = fst s"
  by (simp add: beside_def case_prod_beta)

lemma fst_beside_answer [simp]: "fst (beside f s) = fst (f (snd s))"
  by (simp add: beside_def case_prod_beta)

lemma parse_status_text: "parseInvoiceStatus (map_option status_text st) = Inr st"
proof (cases st)
  case (Some x)
  then show ?thesis by (cases x) (simp_all add: parseInvoiceStatus_def status_text_def)
qed (simp add: parseInvoiceStatus_def)

text \<open>The callback writes an event and nothing else.\<close>

lemma applyTrack_table:
  assumes "parseInvoiceStatus status = Inr st"
  shows "invoices (snd (applyTrack db (Some i) status ti (Some a) shop id now)) =
    invoices (snd (trackInvoice db i (ti\<lparr>ti_status := st, ti_sweeper := Some a\<rparr>) now))"
proof -
  have p: "invoices (snd (postCallback db url j shop now)) = invoices db" for db url j
    by (simp add: postCallback_def addEvent_def split: sum.split)
  obtain r db1 where "trackInvoice db i (ti\<lparr>ti_status := st, ti_sweeper := Some a\<rparr>) now = (r, db1)" by force
  then show ?thesis unfolding applyTrack_def using assms p by (cases r) auto
qed

lemma table_track_invoices:
  "invoices (fst (snd (table_track a shop clock i ti s))) =
   invoices (snd (trackInvoice (fst s) i (ti\<lparr>ti_sweeper := Some a\<rparr>) (clock (snd s))))"
proof -
  have t: "snd (tracked_answer k res) = snd res" for k res by (cases res; cases "fst res") (auto simp: tracked_answer_def)
  show ?thesis
    using applyTrack_table [OF parse_status_text, of "fst s" i "ti_status ti" ti a shop "clock (snd s)"]
    by (simp add: table_track_def case_prod_beta t)
qed

section \<open>A sweep that was not reported\<close>

text \<open>What an invoice says about its payment.\<close>

definition settlement :: "invoice \<Rightarrow> string \<times> invoice_status \<times> string \<times> string \<times> string \<times> string \<times> string option" where
  "settlement r = (inv_id r, inv_status r, inv_amount_paid r, inv_amount_swept r, inv_fee_collected r, inv_gas_spent_wei r, inv_sweep_tx r)"

text \<open>Nothing is left, or has ever been, at any address the sweeper reads.\<close>

definition drained :: "'n sweep_world \<Rightarrow> bool" where
  "drained w =
     ((\<forall>c x t s. opt_all (\<lambda>b. b = 0) (fst (sw_balance w c x t s))) \<and> (\<forall>h x t s. opt_all (\<lambda>b. b = 0) (fst (sw_tron_balance w h x t s))) \<and>
      (\<forall>c to i m s. opt_all (\<lambda>b. b = 0) (fst (sw_solana_balance w c to i m s))))"

fun sweeper_ticks :: "'s sweep_world \<Rightarrow> sweeper_setup list \<Rightarrow> 's sweep_state \<Rightarrow> 's sweep_state" where
  "sweeper_ticks w [] st = st"
| "sweeper_ticks w (su # sus) st = sweeper_ticks w sus (snd (sweeper_tick w su st))"

definition unsettled :: "invoice_db \<Rightarrow> invoice_db \<Rightarrow> bool" where
  "unsettled db db' = (invoices_unique db \<longrightarrow> invoices_unique db' \<and> map settlement (invoices db') = map settlement (invoices db))"

interpretation idle_sweeper: step_relation "\<lambda>st st'. unsettled (fst (snd st)) (fst (snd st')) \<and> fst st' = fst st"
  by unfold_locales (auto simp: unsettled_def)

lemma error_track_unsettled: "unsettled db (snd (trackInvoice db i ((error_report iv e)\<lparr>ti_expected_version := v, ti_sweeper := Some a\<rparr>) now))"
proof (cases "invoice_by_id db i")
  case None
  then obtain e' where "trackInvoice db i ((error_report iv e)\<lparr>ti_expected_version := v, ti_sweeper := Some a\<rparr>) now = (Inl e', db)"
    using trackInvoice_no_row by blast
  then show ?thesis by (simp add: unsettled_def)
next
  case (Some r)
  let ?ti = "(error_report iv e)\<lparr>ti_expected_version := v, ti_sweeper := Some a\<rparr>"
  have same: "settlement (track_set ?ti r now x) = settlement x" if "invoices_unique db" "x \<in> set (invoices db)" "inv_id x = i" for x
  proof -
    have "r = x" using that Some find_by_unique [of inv_id "invoices db" x] by (auto simp: invoices_unique_def invoice_by_id_def)
    then show ?thesis by (simp add: settlement_def track_set_def error_report_def no_report_def Let_def nullish_def coalesce_def)
  qed
  have "map settlement (track_invoice_rows db i ?ti r now) = map settlement (invoices db)" if "invoices_unique db"
    unfolding track_invoice_rows_def by (rule map_rows_unchanged) (use same [OF that] in blast)
  then have "unsettled db (db\<lparr>invoices := track_invoice_rows db i ?ti r now\<rparr>)"
    using track_rows_unique [of db i ?ti r now] by (simp add: unsettled_def invoices_unique_def)
  then have "unsettled db (track_persist (track_event_db db i ?ti r now) ?ti st x now)" for st x
    by (simp add: unsettled_def invoices_unique_def track_event_db_def Let_def)
  moreover have "unsettled db db" by (simp add: unsettled_def)
  ultimately show ?thesis by (simp add: trackInvoice_eq [OF Some])
qed

lemma error_reports_unsettled:
  "unsettled (fst (snd st)) (fst (snd (report_error (with_table a chs lease shop clock w) su iv e st))) \<and>
   fst (report_error (with_table a chs lease shop clock w) su iv e st) = fst st"
proof -
  let ?w = "with_table a chs lease shop clock w"
  have "unsettled (fst (snd st)) (fst (snd (snd (trackInvoiceWithRetry ?w n i ((error_report iv e)\<lparr>ti_expected_version := v\<rparr>) st))))" for n i v st
  proof (induction n arbitrary: v st)
    case (Suc n)
    obtain ans s where c: "sw_track ?w i ((error_report iv e)\<lparr>ti_expected_version := v\<rparr>) (snd st) = (ans, s)"
      by (cases "sw_track ?w i ((error_report iv e)\<lparr>ti_expected_version := v\<rparr>) (snd st)")
    have "invoices (fst s) = invoices (snd (trackInvoice (fst (snd st)) i ((error_report iv e)\<lparr>ti_expected_version := v, ti_sweeper := Some a\<rparr>) (clock (snd (snd st)))))"
      using table_track_invoices [of a shop clock i "(error_report iv e)\<lparr>ti_expected_version := v\<rparr>" "snd st"] c by (simp add: with_table_def)
    then have u: "unsettled (fst (snd st)) (fst s)"
      using error_track_unsettled [where db = "fst (snd st)" and i = i and iv = iv and e = e and v = v and a = a and now = "clock (snd (snd st))"] by (simp add: unsettled_def invoices_unique_def)
    have again: "unsettled (fst (snd st)) (fst (snd (snd (trackInvoiceWithRetry ?w n i ((error_report iv e)\<lparr>ti_expected_version := v'\<rparr>) (fst st, s)))))" for v'
      using u Suc [where v = v' and st = "(fst st, s)"] by (auto simp: unsettled_def)
    show ?case using u again [of v] again by (cases ans) (simp_all add: c Let_def)
  qed (simp add: unsettled_def)
  from this [where v = "Some (inv_version iv)"] show ?thesis
    by (simp add: report_error_def track_log error_report_def no_report_def)
qed

lemma prepare_table:
  "fst (snd (snd (prepare_one (with_table a chs lease shop clock w) su iv st))) = fst (snd st)"
proof -
  have q: "fst (snd (snd (andThen (ask (beside f) st) (\<lambda>b st. (Inr (g b), st))))) = fst (snd st)" for f and g :: "int \<Rightarrow> prepared"
    by (auto simp: ask_def andThen_def case_prod_beta split: option.split)
  show ?thesis
    by (auto simp: prepare_one_def prepareInvoice_def prepareTronInvoice_def prepareSolanaInvoice_def throw_error_def with_table_def q
        split: chain_kind.split option.split sum.split)
qed

text \<open>
  C24. A sweep that was sent but not reported, because the server did not answer in time, stays
  unreported for ever: once the balances are gone, no tick of any sweeper changes what an
  invoice says about its payment, and no invoice ever becomes swept.
\<close>

theorem unreported_sweep_lost:
  "drained w \<Longrightarrow> unsettled db (fst (snd (sweeper_ticks (with_table a chs lease shop clock w) sus (txs, (db, n)))))"
proof -
  assume d: "drained w"
  let ?w = "with_table a chs lease shop clock w"
  let ?P = "\<lambda>st st'. unsettled (fst (snd st)) (fst (snd st')) \<and> fst st' = fst st"
  have idle: "p = Not_Ready" if "prepare_one ?w su iv st = (Inr p, st')" for su iv st p st'
    using prepare_ok [OF that] d by (cases p) (auto simp: prepared_ok_def drained_def with_table_def)
  have all: "fst (prepare_all ?w su ivs rl st) = rl \<and> ?P st (snd (prepare_all ?w su ivs rl st))" for su ivs rl st
  proof (induction ivs arbitrary: st)
    case (Cons iv ivs)
    obtain r st1 where p: "prepare_one ?w su iv st = (r, st1)" by (cases "prepare_one ?w su iv st")
    have s: "fst (snd st1) = fst (snd st)" "fst st1 = fst st"
      using prepare_table [of a chs lease shop clock w su iv st] prepare_log [of ?w su iv st] by (simp_all add: p)
    show ?case
    proof (cases r)
      case (Inl e)
      have e: "?P st (report_error ?w su iv e st1)" using error_reports_unsettled [of st1 a chs lease shop clock w su iv e] s by simp
      note rest = Cons [of "report_error ?w su iv e st1"]
      from rest [THEN conjunct1] idle_sweeper.trans [OF e rest [THEN conjunct2]] show ?thesis by (simp add: p Inl)
    next
      case (Inr q)
      then show ?thesis using idle [of su iv st q st1] p Cons [of st1] s by (simp add: add_ready_def)
    qed
  qed (simp add: unsettled_def)
  have tick: "?P st (snd (sweeper_tick ?w su st))" for su st
  proof -
    let ?none = "\<lparr>rl_evm = [], rl_tron = [], rl_solana = []\<rparr>"
    let ?L = "listWorkerInvoices (fst (snd st)) default_worker_statuses chs"
    have "fetchInvoices ?w (su_config su) st = (Inr ?L, st)"
      by (simp add: fetchInvoices_def ask_def andThen_def with_table_def table_list_def)
    then have "sweeper_tick ?w su st = (let (rl, st') = prepare_all ?w su ?L ?none st in (Inr (), sweep_ready ?w su rl st'))"
      by (simp add: sweeper_tick_def andThen_def)
    also have "\<dots> = (Inr (), snd (prepare_all ?w su ?L ?none st))"
      using all [of su ?L ?none st] by (simp add: case_prod_beta sweep_ready_def)
    finally show ?thesis using all [of su ?L ?none st] by simp
  qed
  have "?P st (sweeper_ticks ?w sus st)" for st
  proof (induction sus arbitrary: st)
    case (Cons su sus)
    from idle_sweeper.trans [OF tick Cons] show ?case by simp
  qed (simp add: unsettled_def)
  from this [of "(txs, (db, n))"] show ?thesis by simp
qed

section \<open>Any payment pays\<close>

lemma table_track_ok:
  fixes ti a r clock n
  defines "r' \<equiv> track_set (ti\<lparr>ti_sweeper := Some a\<rparr>) r (clock n) r"
  assumes row: "invoice_by_id db i = Some r" and ok: "\<not> track_refused r (ti\<lparr>ti_sweeper := Some a\<rparr>) (clock n)"
  shows "\<exists>db'. table_track a shop clock i ti (db, n) = (Answer_Ok (Some r'), (db', n)) \<and> invoice_by_id db' i = Some r' \<and>
    invoices db' = track_invoice_rows db i (ti\<lparr>ti_sweeper := Some a\<rparr>) r (clock n)"
proof -
  let ?ti = "ti\<lparr>ti_sweeper := Some a\<rparr>"
  obtain db1 where t: "trackInvoice db i ?ti (clock n) = (Inr r', db1)" and rows: "invoices db1 = track_invoice_rows db i ?ti r (clock n)"
    using trackInvoice_eq [OF row, of ?ti "clock n"] ok by (auto simp: r'_def track_refused_def track_event_db_def Let_def)
  have same: "\<lparr>ti_status = ti_status ti, ti_amount_paid = ti_amount_paid ti, ti_amount_swept = ti_amount_swept ti,
      ti_fee_collected = ti_fee_collected ti, ti_gas_spent_wei = ti_gas_spent_wei ti, ti_sweep_tx = ti_sweep_tx ti, ti_error = ti_error ti,
      ti_payload = ti_payload ti, ti_expected_version = ti_expected_version ti, ti_sweeper = Some a\<rparr> = ?ti" by simp
  have found: "find_by inv_id i (invoices db1) = Some r'"
    using track_rows_lookup [OF row ok, of r] by (simp add: rows r'_def)
  then have id: "inv_id r' = i" by (auto dest: find_by_SomeD)
  have call: "\<exists>db'. postCallback db1 url (inv_id r') shop (clock n) = (Inr (), db') \<and> invoices db' = invoices db1" for url
    using found by (auto simp: postCallback_def id addEvent_by_id)
  have "\<exists>db'. applyTrack db (Some i) (map_option status_text (ti_status ti)) ti (Some a) shop id (clock n) = (Inr (), db') \<and>
      invoices db' = invoices db1"
  proof (cases "becamePaidLike (getInvoice db i) r' \<and> truthy (tm_callback_url (inv_terms r'))")
    case True
    with call [of "the (tm_callback_url (inv_terms r'))"] t show ?thesis
      by (simp add: applyTrack_def parse_status_text)
  next
    case False
    with t show ?thesis by (auto simp: applyTrack_def parse_status_text)
  qed
  then obtain db' where res: "applyTrack db (Some i) (map_option status_text (ti_status ti)) ti (Some a) shop id (clock n) = (Inr (), db')"
      and inv': "invoices db' = invoices db1" by blast
  have "getInvoice db' i = Some r'" "invoice_by_id db' i = Some r'"
    using found inv' by (simp_all add: getInvoice_by_id invoice_by_id_def)
  then show ?thesis by (simp add: table_track_def tracked_answer_def reply_of_def res inv' rows)
qed

text \<open>A report on an invoice that nobody else touches is accepted at once.\<close>

lemma track_accepted:
  assumes row: "invoice_by_id db i = Some r" and v: "ti_expected_version ti = Some (inv_version r)"
    and free: "ti_status ti \<noteq> Some Swept \<or> inv_claimed_by r = None \<or> inv_claimed_by r = Some a"
  shows "\<exists>db'. trackInvoiceWithRetry (with_table a chs lease shop clock w) (Suc k) i ti (txs, (db, n)) =
      (Inr (Some (track_set (ti\<lparr>ti_sweeper := Some a\<rparr>) r (clock n) r)), (txs, (db', n))) \<and>
    invoice_by_id db' i = Some (track_set (ti\<lparr>ti_sweeper := Some a\<rparr>) r (clock n) r) \<and>
    (invoices_unique db \<longrightarrow> invoices_unique db')"
proof -
  have "\<not> track_refused r (ti\<lparr>ti_sweeper := Some a\<rparr>) (clock n)"
    using v free by (auto simp: track_refused_def claimed_by_another_def truthy_def)
  from table_track_ok [where clock = clock, OF row this] obtain db' where
    "table_track a shop clock i ti (db, n) = (Answer_Ok (Some (track_set (ti\<lparr>ti_sweeper := Some a\<rparr>) r (clock n) r)), (db', n))"
    "invoice_by_id db' i = Some (track_set (ti\<lparr>ti_sweeper := Some a\<rparr>) r (clock n) r)"
    "invoices db' = track_invoice_rows db i (ti\<lparr>ti_sweeper := Some a\<rparr>) r (clock n)" by blast
  then show ?thesis using track_rows_unique [of db i "ti\<lparr>ti_sweeper := Some a\<rparr>" r "clock n"]
    by (auto simp: with_table_def invoices_unique_def)
qed

definition paid_status :: "invoice \<Rightarrow> invoice_status" where
  "paid_status r = (if tm_allow_partial (inv_terms r) then Paid_Partial else Paid)"

lemma mark_paid_accepted:
  assumes row: "invoice_by_id db (inv_id r) = Some r" and waits: "inv_status r = Awaiting_Payment" and max: "0 < max_retries (su_config su)"
  shows "\<exists>db' r'. mark_paid (with_table a chs lease shop clock w) su r token b (txs, (db, n)) = (Inr (Some (inv_version r')), (txs, (db', n))) \<and>
    invoice_by_id db' (inv_id r) = Some r' \<and> inv_status r' = paid_status r \<and> inv_amount_paid r' = int_text b \<and>
    inv_terms r' = inv_terms r \<and> inv_claimed_by r' = inv_claimed_by r \<and> inv_id r' = inv_id r \<and> (invoices_unique db \<longrightarrow> invoices_unique db')"
proof -
  let ?w = "with_table a chs lease shop clock w"
  let ?ti = "paid_report ?w r (nullish token NATIVE_TOKEN) b (inv_version r)"
  obtain k where k: "max_retries (su_config su) = Suc k" using max gr0_implies_Suc by blast
  have v: "ti_expected_version ?ti = Some (inv_version r)" and st: "ti_status ?ti = Some (paid_status r)"
    by (simp_all add: paid_report_def no_report_def paid_status_def)
  have free: "ti_status ?ti \<noteq> Some Swept \<or> inv_claimed_by r = None \<or> inv_claimed_by r = Some a" by (simp add: st paid_status_def)
  let ?r' = "track_set (?ti\<lparr>ti_sweeper := Some a\<rparr>) r (clock n) r"
  from track_accepted [where k = k and a = a and chs = chs and lease = lease and shop = shop and clock = clock and w = w and txs = txs and n = n, OF row v free]
  obtain db' where
    d: "trackInvoiceWithRetry ?w (Suc k) (inv_id r) ?ti (txs, (db, n)) = (Inr (Some ?r'), (txs, (db', n)))"
      "invoice_by_id db' (inv_id r) = Some ?r'" "invoices_unique db \<longrightarrow> invoices_unique db'" by blast
  have "inv_status ?r' = paid_status r" "inv_terms ?r' = inv_terms r" "inv_amount_paid ?r' = int_text b" "inv_claimed_by ?r' = inv_claimed_by r" "inv_id ?r' = inv_id r"
    using st by (auto simp: track_set_def Let_def paid_report_def no_report_def paid_status_def)
  with d show ?thesis unfolding mark_paid_def k by (auto simp: waits andThen_def)
qed

text \<open>The server lists one invoice to the sweeper, which watches its chain and knows its token.\<close>

definition watched :: "string list option \<Rightarrow> sweeper_setup \<Rightarrow> invoice_db \<Rightarrow> invoice \<Rightarrow> sweep_chain \<Rightarrow> address option \<Rightarrow> bool" where
  "watched chs su db iv ch token =
     (listWorkerInvoices db default_worker_statuses chs = [iv] \<and> bound_invoice iv \<and> chainKind (tm_chain_id (inv_terms iv)) = Evm_Chain \<and>
      find (\<lambda>c. ec_chain_id c = inv_chain iv) (su_observe su) = Some ch \<and> resolveToken ch (tm_token (inv_terms iv)) = Inr token \<and>
      0 < max_retries (su_config su))"

lemma watched_tick:
  assumes "watched chs su db iv ch token" and b: "sw_balance w (inv_chain iv) (inv_at iv) (or_null token) n = (Some b, n1)" "b \<noteq> 0"
    and W: "W = with_table a chs lease shop clock w"
  shows "sweeper_tick W su (txs, (db, n)) =
    (Inr (), snd (otherwise (sweep_evm_item W su (inv_chain iv) (iv, token, b) (txs, (db, n1))) (\<lambda>e st. (Inr (), report_error W su iv e st))))"
proof -
  have ch: "ec_chain_id ch = inv_chain iv" using assms(1) by (auto simp: watched_def find_Some_iff)
  have "fetchInvoices W (su_config su) (txs, (db, n)) = (Inr [iv], (txs, (db, n)))"
    using assms(1) by (simp add: fetchInvoices_def ask_def andThen_def W with_table_def table_list_def watched_def)
  moreover have "prepare_one W su iv (txs, (db, n)) = (Inr (Ready_Evm token b), (txs, (db, n1)))"
    using assms(1) b ch by (simp add: prepare_one_def prepareInvoice_def ask_def andThen_def watched_def W with_table_def beside_def)
  ultimately show ?thesis
    by (simp add: sweeper_tick_def andThen_def [of "(Inr _, _)"] add_ready_def sweep_ready_def)
qed


section \<open>A quiet run\<close>

lemma claim_accepted:
  assumes u: "invoices_unique db" and row: "invoice_by_id db i = Some r" and ok: "claim_where a (inv_version r) (clock n) r"
  shows "\<exists>db'. claimInvoiceWithRetry (with_table a chs lease shop clock w) (Suc k) i (inv_version r) (txs, (db, n)) =
      (Inr (Some (claim_set a (clock n + lease) (clock n) r)), (txs, (db', n))) \<and>
    invoice_by_id db' i = Some (claim_set a (clock n + lease) (clock n) r) \<and> invoices_unique db'"
proof -
  obtain db' where c: "claimInvoice db i a (inv_version r) lease (clock n) = (Inr (claim_set a (clock n + lease) (clock n) r), db')"
    using row ok by (simp add: claimInvoice_eq [OF u])
  from sweeper_queue.claim_ok [OF u c] have "invoice_by_id db' i = Some (claim_set a (clock n + lease) (clock n) r)" by auto
  moreover have "invoices_unique db'" using sweeper_queue.claim_wf [OF u, of i a "inv_version r" lease "clock n"] c by simp
  ultimately show ?thesis by (simp add: with_table_def table_claim_def c reply_of_def)
qed

text \<open>The node of the chain: the sweep of the balance succeeds with hash \<open>h\<close>.\<close>

definition steady :: "'n sweep_world \<Rightarrow> invoice \<Rightarrow> address option \<Rightarrow> int \<Rightarrow> address \<Rightarrow> address \<Rightarrow> int \<Rightarrow> string \<Rightarrow> bool" where
  "steady w iv token b to t fee h =
     ((\<forall>x n. fst (sw_balance w (inv_chain iv) (inv_at iv) x n) = Some b) \<and> sw_get_address w (inv_to iv) = Some to \<and>
      normalizeToken w token = Some t \<and> (\<forall>n. fst (sw_invoice_address w (inv_chain iv) to (inv_id iv) n) = Some (inv_at iv)) \<and>
      (\<forall>n. fst (sw_quote_fee w (inv_chain iv) t b n) = Some fee) \<and>
      (\<forall>n. fst (sw_send w (Evm_Sweep (inv_chain iv) t b to (inv_id iv)) n) = Inr h) \<and> (\<forall>n. fst (sw_gas w h n) = Some None))"

lemma ask_beside: "fst (f n) = Some x \<Longrightarrow> ask (beside f) (txs, (db, n)) = (Inr x, (txs, (db, snd (f n))))"
  by (simp add: ask_def beside_def case_prod_beta)

lemma sdk_sweep_steady:
  assumes "steady w iv token b to t fee h"
  shows "\<exists>n'. sdk_sweep (with_table a chs lease shop clock w) (inv_chain iv) token b (inv_to iv) (inv_id iv) (txs, (db, n)) =
    (Inr (to, t, fee, h), (txs @ [Evm_Sweep (inv_chain iv) t b to (inv_id iv)], (db, n')))"
proof -
  note st = assms [unfolded steady_def]
  have send: "send_sweep (with_table a chs lease shop clock w) tx (txs, (db, n)) = (fst (sw_send w tx n), (txs @ [tx], (db, snd (sw_send w tx n))))" for tx n
    by (simp add: send_sweep_def transact_def with_table_calls beside_def case_prod_beta)
  have step: "andThen (Inr x, st) k = k x st" for x and st :: "(invoice_db \<times> 'a) sweep_state" and k by (simp add: andThen_def)
  show ?thesis
    using st by (simp add: sdk_sweep_def with_table_calls pure_call_def step ask_beside send)
qed


end
