(* ===== verification/SweeperLoans.thy ===== *)
theory SweeperLoans
  imports SweeperProps
begin

text \<open>What the sweeper lends to an invoice account on Tron for a transfer, and what it asks back.\<close>

definition lent :: "sweep_tx list \<Rightarrow> (tron_resource \<times> address \<times> int) list" where
  "lent txs = List.map_filter (\<lambda>tx. case tx of Tron_Delegate r a n \<Rightarrow> Some (r, a, n) | _ \<Rightarrow> None) txs"

definition asked_back :: "sweep_tx list \<Rightarrow> (tron_resource \<times> address \<times> int) list" where
  "asked_back txs = List.map_filter (\<lambda>tx. case tx of Tron_Undelegate r a n \<Rightarrow> Some (r, a, n) | _ \<Rightarrow> None) txs"

lemma loans_simps [simp]:
  "lent [] = []" "lent (tx # txs) = (case tx of Tron_Delegate r a n \<Rightarrow> (r, a, n) # lent txs | _ \<Rightarrow> lent txs)" "lent (xs @ ys) = lent xs @ lent ys"
  "asked_back [] = []" "asked_back (tx # txs) = (case tx of Tron_Undelegate r a n \<Rightarrow> (r, a, n) # asked_back txs | _ \<Rightarrow> asked_back txs)"
  "asked_back (xs @ ys) = asked_back xs @ asked_back ys"
  by (auto simp: lent_def asked_back_def map_filter_def split: sweep_tx.split)

section \<open>What a step adds to the log\<close>

definition adds :: "(string + 'a \<Rightarrow> 't list \<Rightarrow> bool) \<Rightarrow> ('t, 's) worker_state \<Rightarrow> ('a, 't, 's) effect \<Rightarrow> bool" where
  "adds Q st r = (\<exists>sent. fst (snd r) = fst st @ sent \<and> Q (fst r) sent)"

lemma adds_then:
  assumes "adds Q st r" and "\<And>e xs. Q (Inl e) xs \<Longrightarrow> R (Inl e) xs"
    and "\<And>x xs st'. Q (Inr x) xs \<Longrightarrow> adds (\<lambda>y ys. R y (xs @ ys)) st' (k x st')"
  shows "adds R st (andThen r k)"
proof -
  obtain y st' where r: "r = (y, st')" by (cases r)
  obtain xs where xs: "fst st' = fst st @ xs" "Q y xs" using assms(1) by (auto simp: adds_def r)
  show ?thesis
  proof (cases y)
    case (Inl e)
    then show ?thesis using xs assms(2) by (auto simp: adds_def r andThen_def)
  next
    case (Inr x)
    from assms(3) [of x xs st'] xs Inr show ?thesis by (auto simp: adds_def r andThen_def)
  qed
qed

lemma adds_ends: "Q (Inr x) [] \<Longrightarrow> adds Q st (Inr x, st)" "Q (Inl e) [] \<Longrightarrow> adds Q st (throw_error e st)"
  by (simp_all add: adds_def throw_error_def)

lemma adds_if: "(c \<Longrightarrow> adds Q st r) \<Longrightarrow> (\<not> c \<Longrightarrow> adds Q st r') \<Longrightarrow> adds Q st (if c then r else r')"
  by simp

lemma adds_mono: "adds Q st r \<Longrightarrow> (\<And>y xs. Q y xs \<Longrightarrow> R y xs) \<Longrightarrow> adds R st r"
  by (auto simp: adds_def)

text \<open>Steps that send nothing, or one transaction.\<close>

lemma adds_quiet: "sends (\<lambda>_. False) st r \<Longrightarrow> adds (\<lambda>_ xs. xs = []) st r"
  by (auto simp: adds_def sends_def sent_only_def list_all_iff)

lemma adds_asked: "adds (\<lambda>_ xs. xs = []) st (ask f st)"
  by (simp add: adds_def ask_def case_prod_beta)

lemma adds_pure: "adds (\<lambda>_ xs. xs = []) st (pure_call v st)"
  by (cases v) (simp_all add: pure_call_def adds_ends)

lemma adds_sent: "adds (\<lambda>_ xs. xs = [tx]) st (send_sweep w tx st)"
  by (simp add: adds_def send_sweep_def transact_def case_prod_beta)

section \<open>Loans\<close>

definition loans :: "address \<Rightarrow> address \<Rightarrow> (int \<times> int) option \<Rightarrow> (tron_resource \<times> address \<times> int) list" where
  "loans sponsor a d =
     (case d of None \<Rightarrow> []
      | Some (e, b) \<Rightarrow> (if e \<le> 0 \<or> a = sponsor then [] else [(Energy, a, e)]) @ (if b \<le> 0 \<or> a = sponsor then [] else [(Bandwidth, a, b)]))"

lemma delegate_adds:
  "adds (\<lambda>y xs. (if n \<le> 0 \<or> a = sponsor then xs = [] \<and> y = Inr () else xs = [Tron_Delegate res a n])) st (delegateResourceToInvoice w sponsor a res n st)"
  "adds (\<lambda>y xs. (if n \<le> 0 \<or> a = sponsor then xs = [] \<and> y = Inr () else xs = [Tron_Undelegate res a n])) st (undelegateResourceFromInvoice w sponsor a res n st)"
  unfolding delegateResourceToInvoice_def undelegateResourceFromInvoice_def
  by (auto intro!: adds_ends adds_then [OF adds_sent])

lemma fund_adds:
  "adds (\<lambda>_ xs. lent xs = [] \<and> asked_back xs = []) st (ensureInvoiceAccountActivated w host sponsor a st)"
  "adds (\<lambda>_ xs. lent xs = [] \<and> asked_back xs = []) st (ensureInvoiceTrxForSweep w host sponsor a st)"
proof -
  have fund: "adds (\<lambda>_ xs. lent xs = [] \<and> asked_back xs = []) st (andThen (send_sweep w (Tron_Fund a n) st) (\<lambda>_ st. (Inr (), st)))" for n st
    by (rule adds_then [OF adds_sent]) (auto intro!: adds_ends)
  show "adds (\<lambda>_ xs. lent xs = [] \<and> asked_back xs = []) st (ensureInvoiceAccountActivated w host sponsor a st)"
  proof -
    obtain b s where b: "sw_tron_active w host a (snd st) = (b, s)" by force
    show ?thesis using fund [where n = ACCOUNT_ACTIVATION_TRX_SUN and st = "(fst st, s)"]
      by (simp add: ensureInvoiceAccountActivated_def b) (simp add: adds_def)
  qed
  show "adds (\<lambda>_ xs. lent xs = [] \<and> asked_back xs = []) st (ensureInvoiceTrxForSweep w host sponsor a st)"
    unfolding ensureInvoiceTrxForSweep_def
    by (intro adds_if adds_ends adds_then [OF adds_asked]) (simp_all add: adds_ends fund)
qed

text \<open>When the loans are made, their list; when one fails, it is the last transaction.\<close>

definition lending :: "address \<Rightarrow> address \<Rightarrow> string + (int \<times> int) option \<Rightarrow> sweep_tx list \<Rightarrow> bool" where
  "lending sponsor a y xs =
     (asked_back xs = [] \<and>
      (case y of
         Inr d \<Rightarrow> lent xs = loans sponsor a d
       | Inl _ \<Rightarrow> lent xs = [] \<or> xs \<noteq> [] \<and> (\<exists>r n. last xs = Tron_Delegate r a n)))"

lemma prepare_lends: "adds (lending sponsor a) st (prepareInvoiceResourcesForSweep w t host sponsor a st)"
  unfolding prepareInvoiceResourcesForSweep_def Let_def
proof (intro adds_if)
  show "adds (lending sponsor a) st (andThen (ensureInvoiceTrxForSweep w host sponsor a st) (\<lambda>_ st. (Inr None, st)))"
    by (rule adds_then [OF fund_adds(2)]) (auto intro!: adds_ends simp: lending_def loans_def)
  let ?e = "nullish (tc_min_energy t) DEFAULT_MIN_DELEGATE_ENERGY" and ?b = "nullish (tc_min_bandwidth t) DEFAULT_MIN_DELEGATE_BANDWIDTH"
  show "adds (lending sponsor a) st (andThen (ensureInvoiceAccountActivated w host sponsor a st) (\<lambda>_ st.
      andThen (delegateResourceToInvoice w sponsor a Energy ?e st) (\<lambda>_ st.
        andThen (delegateResourceToInvoice w sponsor a Bandwidth ?b st) (\<lambda>_ st. (Inr (Some (?e, ?b)), st)))))"
    by (rule adds_then [OF fund_adds(1)], simp add: lending_def,
        rule adds_then [OF delegate_adds(1)], force simp: lending_def split: if_splits,
        rule adds_then [OF delegate_adds(1)], force simp: lending_def split: if_splits,
        rule adds_ends, auto simp: lending_def loans_def split: if_splits)
qed

lemma release_asks_back:
  "\<exists>xs. fst (releaseInvoiceResourcesAfterSweep w sponsor a d st) = fst st @ xs \<and> lent xs = [] \<and> asked_back xs = loans sponsor a d"
proof (cases d)
  case (Some p)
  obtain e b where d: "d = Some (e, b)" using Some by (cases p) auto
  let ?r = "undelegateResourceFromInvoice w sponsor a Energy e st"
  obtain xs where xs: "fst (snd ?r) = fst st @ xs" "lent xs = []" "asked_back xs = (if e \<le> 0 \<or> a = sponsor then [] else [(Energy, a, e)])"
    using delegate_adds(2) [of e a sponsor Energy st w] by (auto simp: adds_def split: if_splits)
  obtain ys where ys: "fst (snd (undelegateResourceFromInvoice w sponsor a Bandwidth b (snd ?r))) = fst (snd ?r) @ ys" "lent ys = []"
      "asked_back ys = (if b \<le> 0 \<or> a = sponsor then [] else [(Bandwidth, a, b)])"
    using delegate_adds(2) [of b a sponsor Bandwidth "snd ?r" w] by (auto simp: adds_def split: if_splits)
  show ?thesis
    by (rule exI [of _ "xs @ ys"]) (use xs ys in \<open>auto simp: releaseInvoiceResourcesAfterSweep_def d loans_def\<close>)
qed (simp add: releaseInvoiceResourcesAfterSweep_def loans_def)

definition settled :: "string + unit \<Rightarrow> sweep_tx list \<Rightarrow> bool" where
  "settled y xs = (asked_back xs = lent xs \<or> (\<exists>e r a n. y = Inl e \<and> asked_back xs = [] \<and> last xs = Tron_Delegate r a n))"

text \<open>
  C25. Whatever the sweeper lends to an invoice account, energy and bandwidth, it asks back in the same
  sweep, also when the transfer or the report fails; the only exception is a sweep that ends with
  an error at a loan, which keeps the loan made before it.
\<close>

theorem loans_asked_back:
  "\<exists>xs. fst (snd (sweepTronOne w su t iv token b v st)) = fst st @ xs \<and> settled (fst (sweepTronOne w su t iv token b v st)) xs"
proof -
  have quiet: "settled y xs" if "xs = []" for y xs using that by (simp add: settled_def)
  have "adds settled st (sweepTronOne w su t iv token b v st)"
  proof (cases "assertTronConfig t"; cases "or_null (tron_sponsor_key (su_config su) t)")
    fix key assume k: "assertTronConfig t = None" "or_null (tron_sponsor_key (su_config su) t) = Some key"
    let ?sponsor = "sw_tron_key_address w key" and ?a = "inv_at iv"
    let ?host = "nullish (tc_full_host t) (defaultTronFullHost (Some (inv_chain iv)))"
    have transfer: "adds (\<lambda>_ xs. lent xs = [] \<and> asked_back xs = []) st (sweepTrc20FromInvoice w ?host ?a token (inv_to iv) st)" for st
      unfolding sweepTrc20FromInvoice_def
      by (rule adds_then [OF adds_asked], simp, intro adds_if adds_ends adds_then [OF adds_sent]) auto
    have both: "adds (\<lambda>_ xs. lent xs = [] \<and> asked_back xs = loans ?sponsor ?a d) st
        (finally_do (sweepTrc20FromInvoice w ?host ?a token (inv_to iv) st) (releaseInvoiceResourcesAfterSweep w ?sponsor ?a d))" for d st
    proof -
      let ?r = "sweepTrc20FromInvoice w ?host ?a token (inv_to iv) st"
      obtain xs where "fst (snd ?r) = fst st @ xs" "lent xs = []" "asked_back xs = []" using transfer [of st] by (auto simp: adds_def)
      moreover obtain ys where "fst (releaseInvoiceResourcesAfterSweep w ?sponsor ?a d (snd ?r)) = fst (snd ?r) @ ys" "lent ys = []"
          "asked_back ys = loans ?sponsor ?a d" using release_asks_back by blast
      ultimately show ?thesis unfolding adds_def by (intro exI [of _ "xs @ ys"]) (simp add: finally_do_def)
    qed
    have rest: "adds (\<lambda>y ys. settled y (xs @ ys)) st (andThen (finally_do (sweepTrc20FromInvoice w ?host ?a token (inv_to iv) st)
        (releaseInvoiceResourcesAfterSweep w ?sponsor ?a d)) (\<lambda>(amount, h) st. report_swept w su iv (rep amount h) st))"
      if "lending ?sponsor ?a (Inr d) xs" for d xs st rep
      by (rule adds_then [OF both])
        (use that in \<open>auto simp: settled_def lending_def intro: adds_mono [OF adds_quiet [OF sends_swept]]\<close>)
    show ?thesis
      unfolding sweepTronOne_def k prod.case option.case Let_def
      by (rule adds_then [OF adds_pure], simp add: settled_def, simp only: append.simps, intro adds_if,
          simp add: adds_ends settled_def, rule adds_then [OF prepare_lends])
        (force simp: settled_def lending_def, erule rest)
  qed (simp_all add: sweepTronOne_def adds_ends settled_def)
  then show ?thesis by (simp add: adds_def)
qed

end
