(* ===== verification/SweeperDemo.thy ===== *)
theory SweeperDemo
  imports SweeperServer SweeperLoans InvoiceProps
begin

text \<open>
  The sweeper \<open>0xa\<close> beside the server of \<open>InvoiceProps\<close>, whose only invoice awaits a payment on
  chain 8453: the witnesses of the theorems of \<open>SweeperServer\<close>. The node reports a balance of
  \<open>b\<close> base units.
\<close>

abbreviation demo_invoice :: invoice where
  "demo_invoice \<equiv> new_invoice demo_input 1000"

definition demo_chain_node :: "int \<Rightarrow> unit sweep_world" where
  "demo_chain_node b =
     \<lparr>sw_invoices = (\<lambda>s. (None, s)), sw_legacy_invoices = (\<lambda>s. (None, s)), sw_claim = (\<lambda>_ _ s. (Answer_Status 500, s)),
      sw_track = (\<lambda>_ _ s. (Answer_Status 500, s)), sw_balance = (\<lambda>_ _ _ s. (Some b, s)),
      sw_invoice_address = (\<lambda>_ _ _ s. (Some (inv_at demo_invoice), s)), sw_quote_fee = (\<lambda>_ _ _ s. (Some 2, s)),
      sw_tron_balance = (\<lambda>_ _ _ s. (Some b, s)), sw_tron_active = (\<lambda>_ _ s. (True, s)), sw_tron_trx = (\<lambda>_ _ s. (Some 0, s)),
      sw_solana_balance = (\<lambda>_ _ _ _ s. (Some b, s)), sw_send = (\<lambda>_ s. (Inr ''0xhash'', s)), sw_gas = (\<lambda>_ s. (Some None, s)),
      sw_get_address = Some, sw_tron_address = (\<lambda>_ _ _. None), sw_tron_key_address = id, sw_payload = (\<lambda>_. Pl_Swept None)\<rparr>"

definition demo_sweep_chain :: sweep_chain where
  "demo_sweep_chain =
     \<lparr>ec_chain_id = ''8453'', ec_rpc = Some ''rpc'', ec_sweeper = Some ''0xs'', ec_private_key = Some ''k'', ec_tokens = [(''USDC'', ''0xusdc'')]\<rparr>"

definition demo_setup :: "sweep_chain list \<Rightarrow> sweeper_setup" where
  "demo_setup chs =
     \<lparr>su_config = \<lparr>sc_api_key = None, sc_wallet_key = None, sc_max_retries = None, sc_role = None, sc_chains = [demo_sweep_chain],
        sc_tron = None, sc_solana = None\<rparr>,
      su_observe = [demo_sweep_chain], su_chains = chs, su_tron = None, su_solana = None, su_authority = False\<rparr>"

lemma demo_watched: "watched None (demo_setup chs) demo_db demo_invoice demo_sweep_chain (Some ''0xusdc'')"
proof -
  have "listWorkerInvoices demo_db default_worker_statuses None = [demo_invoice]" by code_simp
  moreover have "bound_invoice demo_invoice" by code_simp
  moreover have "chainKind (tm_chain_id (inv_terms demo_invoice)) = Evm_Chain" by code_simp
  moreover have "inv_chain demo_invoice = ''8453''" by code_simp
  moreover have "resolveToken demo_sweep_chain (tm_token (inv_terms demo_invoice)) = Inr (Some ''0xusdc'')" by code_simp
  ultimately show ?thesis by (simp add: watched_def demo_setup_def demo_sweep_chain_def max_retries_def)
qed

lemma demo_waits: "invoice_by_id demo_db (inv_id demo_invoice) = Some demo_invoice" "inv_status demo_invoice = Awaiting_Payment"
    "inv_claimed_by demo_invoice = None" "inv_id demo_invoice = ''I1''" "inv_chain demo_invoice = ''8453''" "inv_to demo_invoice = ''0xM''"
  by (simp_all add: demo_row new_invoice_def demo_input_def terms_of_input_def Let_def demo_fields_def)

lemma demo_unique: "invoices_unique demo_db"
  using demo_db_ok by (simp add: invoice_db_ok_def)

theorem unreported_sweep_lost_witness:
  "map settlement (invoices (fst (snd (sweeper_ticks (with_table ''0xa'' None 60000 (Inr (200, True)) (\<lambda>_. 2000) (demo_chain_node 0))
     [demo_setup [], demo_setup [demo_sweep_chain]] ([], (demo_db, ())))))) = map settlement (invoices demo_db)"
proof -
  have "drained (demo_chain_node 0)" by (simp add: drained_def demo_chain_node_def)
  from unreported_sweep_lost [OF this] demo_unique show ?thesis by (simp only: unsettled_def)
qed



end
