(* ===== verification/Spec2Isabelle.thy ===== *)
theory Spec2Isabelle
  imports InvoiceProps InvoiceReplay PersistLog AuthProps UserOpProps Challenges RecoveryGaps WalletActivation SessionTokens WebAuthnProps RecoveryDemo RecoveryReads UserOpFeeProps Pairings WalletRouteProps TransferDemo BundlerDemo ProposalDemo MerchantProps RateLimit IdentityDemo WalletClientDemo DeployerDemo SweeperDemo
begin

text \<open>
  The server of the on-chain invoice system, commerce/server and commerce/shared, with the
  theorems that make it correct.

  The server keeps everything in one SQLite database (\<open>CommerceDb\<close>, commerce/server/db.ts) and
  logs what has to survive its loss to an append-only log (persist-log.ts), from which the
  tables can be rebuilt. Shops create invoices; sweepers, the bundler and the wallet deployer are
  workers that claim rows of work queues for a while and report progress; wallets sign with
  passkeys, queue user operations and recover lost keys with the help of guardians.

  Conventions. A table is a list of records, one record type per table, in insertion order; the
  operations have the names of the TypeScript methods and return the new tables with their
  result. A row of SQLite is kept decoded: JSON columns as data, absent values as \<open>None\<close>, ISO
  times and \<open>Date.now()\<close> as \<open>int\<close> milliseconds. The clock, \<open>randomUUID()\<close> and random bytes are
  arguments. A thrown error with a status is \<open>Inl (Http_Error status message row)\<close>, any other
  exception the outer \<open>None\<close> of an option. Requests are the decoded bodies: a member that is
  missing or of another type is \<open>None\<close>. Hashes, signatures, JSON, UTF-8, the URL parser, the ABI
  codec of ethers, mail, captcha and what a chain or an explorer answers are parameters
  (records of functions), with what is used of them as named hypotheses; each such theorem has a
  witness with concrete functions.

  \<^item> \<open>Prelude\<close>, \<open>Decimals\<close>, \<open>RowOrder\<close>: strings, keyed tables (\<open>find_by\<close>, \<open>update_where\<close>, \<open>upsert\<close>,
    \<open>insert_unique\<close>), decimal text, tables whose
    rows only move forward (locale \<open>row_order\<close>).
  \<^item> \<open>Leases\<close> (locale \<open>lease_queue\<close>): work queues with claims and versions, interpreted for invoices
    (\<open>InvoiceQueue\<close>), user operations (\<open>UserOps\<close>) and recovery jobs (\<open>RecoveryTables\<close>).
    \<open>OneTime\<close> (locale \<open>one_time_token\<close>): what can be used once, interpreted for both challenge tables.
  \<^item> \<open>Invoices\<close>, \<open>InvoiceQueue\<close>, \<open>InvoiceLifecycle\<close>, \<open>InvoiceProps\<close>: the invoice tables; invariant,
    idempotent creation, exclusion of sweepers, no lost updates.
  \<^item> \<open>Addresses\<close>, \<open>PayLinks\<close>, \<open>PayLinkProps\<close>: merchant addresses (src/commerce-addresses.ts), the query of
    a pay link (shared/invoice.ts) and its round trip. \<open>InvoiceRoutes\<close>, \<open>InvoiceRouteProps\<close>: the routes
    that create invoices and the derivation of payment addresses; how every invoice settles.
    \<open>MerchantRoutes\<close>, \<open>MerchantProps\<close>: what merchants, sweepers, the operator and the faucet call.
    \<open>RateLimit\<close>: the token buckets in front of all routes.
  \<^item> \<open>PersistLog\<close>: appending, rotating and reading the log, and what a crash loses.
    \<open>InvoiceReplay\<close>: invoice-persist-replay.ts, and that it rebuilds the tables.
  \<^item> \<open>Nonces\<close>, \<open>Registry\<close>, \<open>RequestAuth\<close>, \<open>AuthProps\<close>: nonce tables, registered callers, the
    three signed-request checks (sweeper-auth.ts, bundler-auth.ts, client-auth.ts) and the routes
    that combine them with the invoice table.
  \<^item> \<open>UserOps\<close>, \<open>UserOpProps\<close>: the queue of user operations. \<open>UserOpFee\<close>, \<open>UserOpFeeProps\<close>:
    userop.ts and userop-fee.ts, what is built is accepted and what is accepted pays.
    \<open>UserOpRoutes\<close>, \<open>UserOpRouteProps\<close>, \<open>UserOpRouteDemo\<close>: submitting (wallet-routes.ts) and the
    bundler's calls (routes.ts): what is queued pays, what is included is in the ledger.
    \<open>BundlerWorker\<close>, \<open>BundlerProps\<close>, \<open>BundlerDemo\<close>: commerce/bundler/worker.ts against any server
    and, through the locale \<open>op_service\<close>, against the modelled queue.
  \<^item> \<open>CredentialId\<close>, \<open>WebAuthn\<close>, \<open>WebAuthnProps\<close>: credential ids and passkey assertions.
    \<open>Challenges\<close>: challenges, e-mail codes, guardian sessions. \<open>SessionTokens\<close>: the signed cookies.
  \<^item> \<open>WalletTables\<close>, \<open>Identities\<close>, \<open>WalletAccounts\<close>, \<open>WalletActivation\<close>: identities, accounts,
    devices, e-mail, entities, the activation queue. \<open>WalletReplay\<close>, \<open>WalletRecovery\<close>,
    \<open>RecoveryGaps\<close>: rebuilding them from the log, and what is not rebuilt.
  \<^item> \<open>RecoveryTables\<close>, \<open>RecoveryFlow\<close>: recovery jobs and requests and the routes of
    wallet-hosted-recovery.ts. \<open>RecoveryMoves\<close>: the abstract state machine they refine;
    \<open>RecoveryProps\<close>, \<open>RecoveryOwnership\<close>: what it guarantees and what it does not; \<open>RecoveryReads\<close>: the
    routes that only read; \<open>RecoveryDemo\<close>: concrete runs, the witnesses.
  \<^item> \<open>IdentityRoutes\<close>, \<open>IdentityRouteProps\<close>, \<open>IdentityDemo\<close>: the routes of identity-routes.ts with their
    calls of the identity store (identity-onchain.ts): what proves a caller and what does not, the
    derived wallets of an identity, its methods. Other requests during a wait are a function of the state.
  \<^item> \<open>WalletClientRoutes\<close>, \<open>WalletClientProps\<close>, \<open>WalletClientUse\<close>, \<open>WalletClientDemo\<close>: wallet-client-routes.ts, the
    calls of shops that keep wallets for their customers: what keeps the shops apart, what a recovery takes,
    and which prepared sends are accepted.
  \<^item> \<open>WorkerCalls\<close>: steps of a worker that calls server and nodes, each of which may fail; the locale
    \<open>step_relation\<close> says that what every call keeps, the whole step keeps.
    \<open>SweeperWorker\<close>, \<open>SweeperProps\<close>, \<open>SweeperLoans\<close>, \<open>SweeperServer\<close>, \<open>SweeperDemo\<close>: commerce/sweeper/worker.ts with
    the sweep of src/commerce-sdk.ts and the resources of src/tron-sponsor.ts, against any server and nodes
    (what it sends, what it lends and asks back) and against the modelled invoice table (what a tick
    achieves, which payments count, what is lost).
  \<^item> \<open>DeployerWorker\<close>, \<open>DeployerProps\<close>, \<open>DeployerServer\<close>, \<open>DeployerDemo\<close>: commerce/wallet-deployer/worker.ts,
    against any server and node (locale \<open>deployer_relation\<close>: what every call keeps, a pass keeps), and against
    the modelled table of recovery jobs: which wallets it deploys and which recoveries it leaves lying.
  \<^item> \<open>Pairings\<close>: pairing a second device. \<open>WalletRoutes\<close>, \<open>WalletRouteProps\<close>: routes of
    wallet-routes.ts on accounts and devices, and the search for the owner of a restored record.
  \<^item> \<open>Proposals\<close>, \<open>ProposalRoutes\<close>, \<open>ProposalProps\<close>, \<open>ProposalDemo\<close>: proposals of wallets with several
    owners (wallet-advanced-routes.ts, advanced-wallet.ts), their signatures, and the operation an
    execution queues; what other requests do during the waits of a route is a function of the state.
  \<^item> \<open>Transfers\<close>, \<open>TransferProps\<close>, \<open>TransferDemo\<close>: the ledger of transfers and its import.

  Loops are structural recursions over lists; the import of transfers runs over the page numbers,
  at most \<open>PAGES_PER_TICK\<close> of them, so no fuel is needed anywhere.

  Not modelled: the user interface and its dictionaries, the contracts (Solidity, Rust), the
  deployment tools and their operator page, the platform plugins and SDKs, the end-to-end tests;
  the HTTP server itself and logging, the configuration reader, the sending of mail and the requests
  to Google, the transfers of the faucet; of the workers the signing of their requests, the sleeping between
  attempts and the activity log; of Tron what only the node sweeps of node/ use.
\<close>

end
